(* ===== verification/Vm_Prelude.thy ===== *)
theory Vm_Prelude
  imports Main "HOL-Library.Word"
begin

text \<open>
  Shared vocabulary of the development: the machine integers of the C++ sources, the exception
  classes of \<^verbatim>\<open>exceptions.hpp\<close> as values, the error monad (\<open>bindE\<close>, \<open>assertE\<close>) in which
  every throwing function is written, and the lemmas about them that all components use.

  A function that may throw returns \<open>vm_exn + 'a\<close>: \<open>Inl e\<close> for the exception class \<open>e\<close>,
  \<open>Inr x\<close> for a normal return.  The message of an exception is not modelled, its class is.
  Classes are added for what the sources leave to C++: \<open>Std_out_of_range\<close> is what \<^verbatim>\<open>std::vector::at\<close>
  throws, \<open>Std_bad_variant_access\<close> what \<^verbatim>\<open>std::get\<close> of a variant throws, \<open>Assertion_failure\<close> is an \<^verbatim>\<open>assert\<close> that
  ends the program, and \<open>Undefined_behaviour\<close> marks an access that the C++ standard leaves
  undefined (an unchecked index past the end of a container), so that its absence can be stated.
\<close>

unbundle bit_operations_syntax

section \<open>Machine integers\<close>

type_synonym u8 = "8 word"
type_synonym u16 = "16 word"
type_synonym u32 = "32 word"
type_synonym u64 = "64 word"

section \<open>Exceptions as values\<close>

datatype vm_exn =
    Wasm_interpreter_exception | Wasm_section_length_exception | Wasm_bad_alloc
  | Wasm_double_free | Wasm_vector_oob_exception | Wasm_unsupported_import_exception
  | Wasm_parse_exception | Wasm_memory_exception | Stack_memory_exception
  | Wasm_invalid_element | Wasm_link_exception | Guarded_ptr_exception
  | Timeout_exception | Wasm_exit_exception | Span_exception | Profile_exception
  | Std_out_of_range | Std_bad_variant_access | Assertion_failure | Undefined_behaviour

type_synonym 'a res = "vm_exn + 'a"

definition bindE :: "'a res \<Rightarrow> ('a \<Rightarrow> 'b res) \<Rightarrow> 'b res" where
  "bindE m f = (case m of Inl e \<Rightarrow> Inl e | Inr x \<Rightarrow> f x)"

text \<open>\<open>EOS_VM_ASSERT(expr, exc_type, msg)\<close> followed by the rest of the function.\<close>

definition assertE :: "bool \<Rightarrow> vm_exn \<Rightarrow> 'b res \<Rightarrow> 'b res" where
  "assertE b e k = (if b then k else Inl e)"

text \<open>A loop that builds an array element by element.\<close>

fun mapE :: "('a \<Rightarrow> 'b res) \<Rightarrow> 'a list \<Rightarrow> 'b list res" where
  "mapE f [] = Inr []"
| "mapE f (x # xs) = bindE (f x) (\<lambda>y. bindE (mapE f xs) (\<lambda>ys. Inr (y # ys)))"

text \<open>\<open>std::vector::at\<close>.\<close>

definition at_checked :: "'a list \<Rightarrow> nat \<Rightarrow> 'a res" where
  "at_checked xs i = (if i < length xs then Inr (xs ! i) else Inl Std_out_of_range)"

text \<open>\<open>operator[]\<close> of a \<open>std::vector\<close>: no check, undefined past the end.\<close>

definition at_unchecked :: "'a list \<Rightarrow> nat \<Rightarrow> 'a res" where
  "at_unchecked xs i = (if i < length xs then Inr (xs ! i) else Inl Undefined_behaviour)"

named_theorems res_simps \<open>evaluation and inversion rules of the error monad\<close>

lemma bindE_Inl [simp]: "bindE (Inl e) f = Inl e"
  by (simp add: bindE_def)

lemma bindE_Inr [simp]: "bindE (Inr x) f = f x"
  by (simp add: bindE_def)

lemma bindE_eq_Inr_iff [res_simps]: "bindE m f = Inr y \<longleftrightarrow> (\<exists>x. m = Inr x \<and> f x = Inr y)"
  by (cases m) simp_all

lemma bindE_eq_Inl_iff:
  "bindE m f = Inl e \<longleftrightarrow> m = Inl e \<or> (\<exists>x. m = Inr x \<and> f x = Inl e)"
  by (cases m) simp_all

lemma bindE_assoc: "bindE (bindE m f) g = bindE m (\<lambda>x. bindE (f x) g)"
  by (cases m) simp_all

lemma bindE_cong [fundef_cong]:
  "m = m' \<Longrightarrow> (\<And>x. m' = Inr x \<Longrightarrow> f x = f' x) \<Longrightarrow> bindE m f = bindE m' f'"
  by (cases m') (simp_all add: bindE_def)

lemma assertE_True [simp]: "assertE True e k = k"
  by (simp add: assertE_def)

lemma assertE_False [simp]: "assertE False e k = Inl e"
  by (simp add: assertE_def)

lemma assertE_eq_Inr_iff [res_simps]: "assertE b e k = Inr y \<longleftrightarrow> b \<and> k = Inr y"
  by (simp add: assertE_def)

lemma assertE_eq_Inl_iff: "assertE b e k = Inl e' \<longleftrightarrow> (\<not> b \<and> e = e') \<or> (b \<and> k = Inl e')"
  by (auto simp: assertE_def)

lemma assertE_cong [fundef_cong]:
  "b = b' \<Longrightarrow> e = e' \<Longrightarrow> (b' \<Longrightarrow> k = k') \<Longrightarrow> assertE b e k = assertE b' e' k'"
  by (simp add: assertE_def)

lemma at_checked_eq_Inr_iff [res_simps]:
  "at_checked xs i = Inr x \<longleftrightarrow> i < length xs \<and> x = xs ! i"
  by (auto simp: at_checked_def)

lemma at_unchecked_eq_Inr_iff [res_simps]:
  "at_unchecked xs i = Inr x \<longleftrightarrow> i < length xs \<and> x = xs ! i"
  by (auto simp: at_unchecked_def)

text \<open>A computation is free of undefined behaviour when its parts are.\<close>

named_theorems no_ub \<open>computations without undefined behaviour\<close>

lemma bindE_no_ub [no_ub]:
  "m \<noteq> Inl Undefined_behaviour \<Longrightarrow> (\<And>x. m = Inr x \<Longrightarrow> f x \<noteq> Inl Undefined_behaviour)
     \<Longrightarrow> bindE m f \<noteq> Inl Undefined_behaviour"
  by (cases m) simp_all

lemma assertE_no_ub [no_ub]:
  "e \<noteq> Undefined_behaviour \<Longrightarrow> (b \<Longrightarrow> k \<noteq> Inl Undefined_behaviour) \<Longrightarrow> assertE b e k \<noteq> Inl Undefined_behaviour"
  by (simp add: assertE_def)

lemma at_checked_no_ub [no_ub, simp]: "at_checked xs i \<noteq> Inl Undefined_behaviour"
  by (simp add: at_checked_def)

lemma at_unchecked_no_ub [no_ub]: "i < length xs \<Longrightarrow> at_unchecked xs i \<noteq> Inl Undefined_behaviour"
  by (simp add: at_unchecked_def)

section \<open>Little-endian values\<close>

text \<open>
  \<open>memcpy\<close> between bytes and a fixed-width integer on the little-endian hosts the engine
  supports (\<open>parse_raw\<close>, \<open>read_unaligned\<close>, \<open>write_unaligned\<close>).
\<close>

fun le_bytes :: "nat \<Rightarrow> 'a::len word \<Rightarrow> u8 list" where
  "le_bytes 0 w = []"
| "le_bytes (Suc n) w = ucast w # le_bytes n (drop_bit 8 w)"

fun le_word :: "u8 list \<Rightarrow> 'a::len word" where
  "le_word [] = 0"
| "le_word (b # bs) = ucast b OR push_bit 8 (le_word bs)"

lemma length_le_bytes [simp]: "length (le_bytes n w) = n"
  by (induction n arbitrary: w) simp_all

lemma bit_le_word_le_bytes:
  "bit (le_word (le_bytes n w) :: 'a::len word) i \<longleftrightarrow> i < 8 * n \<and> bit (w :: 'a word) i"
proof (induction n arbitrary: w i)
  case 0
  then show ?case by simp
next
  case (Suc n)
  show ?case
  proof (cases "i < LENGTH('a)")
    case True
    then show ?thesis
      using Suc.IH [of "drop_bit 8 w" "i - 8"]
      by (auto simp: bit_or_iff bit_push_bit_iff bit_ucast_iff bit_drop_bit_eq)
  next
    case False
    then show ?thesis by (meson bit_imp_le_length)
  qed
qed

lemma le_word_le_bytes: "LENGTH('a) \<le> 8 * n \<Longrightarrow> le_word (le_bytes n w) = (w :: 'a::len word)"
  by (rule bit_word_eqI) (simp add: bit_le_word_le_bytes)

section \<open>Additions that do not wrap\<close>

lemma unat_add_no_wrap:
  "unat a + unat b < 2 ^ LENGTH('a) \<Longrightarrow> unat (a + b) = unat a + unat (b :: 'a::len word)"
  by (rule unat_add_lem [THEN iffD1])

lemma add_no_wrap_iff: "(a :: 'a::len word) \<le> b + a \<longleftrightarrow> unat (b + a) = unat b + unat a"
proof
  assume "a \<le> b + a"
  then show "unat (b + a) = unat b + unat a"
    by (metis add.commute unat_plus_simple)
next
  assume "unat (b + a) = unat b + unat a"
  then show "a \<le> b + a" by (simp add: word_le_nat_alt)
qed

lemma unat_dec: "0 < unat (w :: 'a::len word) \<Longrightarrow> unat (w - 1) = unat w - 1"
  by (metis unat_minus_one unat_gt_0)

lemma unat_of_nat_small: "n < 2 ^ LENGTH('a) \<Longrightarrow> unat (of_nat n :: 'a::len word) = n"
  by (simp add: unsigned_of_nat take_bit_nat_eq_self)

lemma unat_two_power: "k < LENGTH('a) \<Longrightarrow> unat (2 ^ k :: 'a::len word) = 2 ^ k"
  using unat_of_nat_small [of "2 ^ k", where ?'a = 'a] by simp

lemma unat_ucast_up:
  "LENGTH('a) \<le> LENGTH('b) \<Longrightarrow> unat (ucast (w :: 'a::len word) :: 'b::len word) = unat w"
  by (simp add: unsigned_ucast_eq) (meson less_le_trans power_increasing_iff take_bit_nat_eq_self
      unsigned_less one_less_numeral_iff semiring_norm(76))

lemma unat_less_32: "unat (w :: u32) < 4294967296"
  using unsigned_less [of w] by simp

lemma unat_less_64: "unat (w :: u64) < 18446744073709551616"
  using unsigned_less [of w] by simp

section \<open>Clearing low bits\<close>

lemma and_not_mask_plus:
  "(w AND NOT (mask n)) + take_bit n w = (w :: 'a::len word)"
proof -
  have "(w AND NOT (mask n)) OR take_bit n w = w"
    by (rule bit_word_eqI) (auto simp: bit_simps)
  moreover have "(w AND NOT (mask n)) AND take_bit n w = 0"
    by (rule bit_word_eqI) (auto simp: bit_simps)
  ultimately show ?thesis by (metis disjunctive_add_eq_or)
qed

lemma unat_and_not_mask: "unat (w AND NOT (mask n)) = unat (w :: 'a::len word) - unat w mod 2 ^ n"
proof -
  have t: "unat (take_bit n w) = unat w mod 2 ^ n"
    unfolding unsigned_take_bit_eq by (simp add: take_bit_eq_mod)
  have eq: "w AND NOT (mask n) = w - take_bit n w"
    using and_not_mask_plus [of w n] by (metis add_diff_cancel_right')
  have "take_bit n w \<le> w" by (simp add: word_le_nat_alt t)
  then show ?thesis by (simp add: eq unat_sub t)
qed

end
