(* ===== verification/Vm_Guarded_Ptr.thy ===== *)
theory Vm_Guarded_Ptr
  imports Vm_Prelude
begin

text \<open>
  \<^verbatim>\<open>guarded_ptr.hpp\<close>: the bounds-checked cursor through which the parser reads a module.
  The three pointers are indices into one byte buffer; every access is checked against \<open>bnds\<close>.
  The scope guards (\<open>scoped_shrink_bounds\<close>, \<open>scoped_consume_items\<close>) become combinators that run
  the rest of the scope with the reduced bounds and restore them on normal exit; on an exception
  the cursor is gone with the parse.

  The contract every parsing function keeps is the locale \<open>cursor_parser\<close>: it only moves the
  cursor forward, inside the bounds, and changes nothing else.  Loops over such parsers and their
  sequential composition keep it too, so each parser of the later theories discharges it once.
\<close>

section \<open>Model\<close>

record gptr =
  gp_buf :: "u8 list"
  raw_ptr :: nat
  orig_ptr :: nat
  bnds :: nat

type_synonym 'a parser = "gptr \<Rightarrow> ('a \<times> gptr) res"

definition mk_gptr :: "u8 list \<Rightarrow> nat \<Rightarrow> nat \<Rightarrow> gptr" where
  "mk_gptr buf rp n = \<lparr>gp_buf = buf, raw_ptr = rp, orig_ptr = rp, bnds = rp + n\<rparr>"

definition gp_add :: "nat \<Rightarrow> gptr \<Rightarrow> gptr res" where
  "gp_add i p = assertE (i \<le> bnds p - raw_ptr p) Guarded_ptr_exception
     (Inr (p\<lparr>raw_ptr := raw_ptr p + i\<rparr>))"

definition gp_inc :: "gptr \<Rightarrow> gptr res" where
  "gp_inc p = assertE (raw_ptr p < bnds p) Guarded_ptr_exception
     (Inr (p\<lparr>raw_ptr := raw_ptr p + 1\<rparr>))"

definition gp_deref :: "gptr \<Rightarrow> u8 res" where
  "gp_deref p = assertE (raw_ptr p < bnds p) Guarded_ptr_exception (at_unchecked (gp_buf p) (raw_ptr p))"

text \<open>
  \<open>*code++\<close>: the post-increment advances the pointer first and the old copy is dereferenced.
\<close>

definition gp_next :: "u8 parser" where
  "gp_next p = bindE (gp_inc p) (\<lambda>p'. bindE (gp_deref p) (\<lambda>b. Inr (b, p')))"

definition gp_at :: "gptr \<Rightarrow> nat \<Rightarrow> u8 res" where
  "gp_at p i = assertE (i < bnds p - raw_ptr p) Guarded_ptr_exception
     (at_unchecked (gp_buf p) (raw_ptr p + i))"

definition gp_offset :: "gptr \<Rightarrow> nat" where
  "gp_offset p = raw_ptr p - orig_ptr p"

definition gp_bounds :: "gptr \<Rightarrow> nat" where
  "gp_bounds p = bnds p - orig_ptr p"

definition scoped_shrink_bounds :: "nat \<Rightarrow> 'a parser \<Rightarrow> 'a parser" where
  "scoped_shrink_bounds n f p = assertE (n \<le> bnds p - raw_ptr p) Guarded_ptr_exception
     (bindE (f (p\<lparr>bnds := raw_ptr p + n\<rparr>)) (\<lambda>(x, p'). Inr (x, p'\<lparr>bnds := bnds p\<rparr>)))"

definition scoped_consume_items :: "nat \<Rightarrow> 'a parser \<Rightarrow> 'a parser" where
  "scoped_consume_items n f p = assertE (n \<le> bnds p - raw_ptr p) Guarded_ptr_exception
     (bindE (f (p\<lparr>bnds := raw_ptr p + n\<rparr>)) (\<lambda>(x, p').
       assertE (raw_ptr p' = bnds p') Guarded_ptr_exception (Inr (x, p'\<lparr>bnds := bnds p\<rparr>))))"

text \<open>Raw reads through \<open>code.raw()\<close> of \<open>n\<close> bytes; the callers check the bounds first.\<close>

definition gp_raw_bytes :: "nat \<Rightarrow> gptr \<Rightarrow> u8 list res" where
  "gp_raw_bytes n p = (if raw_ptr p + n \<le> length (gp_buf p)
     then Inr (take n (drop (raw_ptr p) (gp_buf p))) else Inl Undefined_behaviour)"

section \<open>Invariant and progress\<close>

definition wf_gptr :: "gptr \<Rightarrow> bool" where
  "wf_gptr p \<longleftrightarrow> orig_ptr p \<le> raw_ptr p \<and> raw_ptr p \<le> bnds p \<and> bnds p \<le> length (gp_buf p)"

text \<open>\<open>p'\<close> is \<open>p\<close> moved forward by at least \<open>n\<close> bytes, inside the bounds, all else unchanged.\<close>

definition gp_moved :: "nat \<Rightarrow> gptr \<Rightarrow> gptr \<Rightarrow> bool" where
  "gp_moved n p p' \<longleftrightarrow> gp_buf p' = gp_buf p \<and> orig_ptr p' = orig_ptr p \<and> bnds p' = bnds p
     \<and> raw_ptr p + n \<le> raw_ptr p' \<and> raw_ptr p' \<le> bnds p"

named_theorems gp_intros \<open>progress rules of the guarded pointer\<close>
named_theorems gp_defs \<open>definitions of the guarded pointer's operations\<close>

declare gp_add_def [gp_defs] gp_inc_def [gp_defs] gp_deref_def [gp_defs] gp_next_def [gp_defs]
  gp_at_def [gp_defs] gp_raw_bytes_def [gp_defs] scoped_shrink_bounds_def [gp_defs]
  scoped_consume_items_def [gp_defs]

lemma gp_moved_wf: "gp_moved n p p' \<Longrightarrow> wf_gptr p \<Longrightarrow> wf_gptr p'"
  by (auto simp: gp_moved_def wf_gptr_def)

lemma gp_moved_refl [gp_intros]: "wf_gptr p \<Longrightarrow> gp_moved 0 p p"
  by (auto simp: gp_moved_def wf_gptr_def)

lemma gp_moved_trans: "gp_moved m p q \<Longrightarrow> gp_moved n q r \<Longrightarrow> gp_moved (m + n) p r"
  by (auto simp: gp_moved_def)

lemma gp_moved_weaken: "gp_moved m p q \<Longrightarrow> n \<le> m \<Longrightarrow> gp_moved n p q"
  by (auto simp: gp_moved_def)

lemma wf_gptr_shrunk: "wf_gptr p \<Longrightarrow> k \<le> bnds p - raw_ptr p \<Longrightarrow> wf_gptr (p\<lparr>bnds := raw_ptr p + k\<rparr>)"
  by (auto simp: wf_gptr_def)

lemma gp_next_Inr:
  "gp_next p = Inr (b, p') \<longleftrightarrow> raw_ptr p < bnds p \<and> raw_ptr p < length (gp_buf p)
     \<and> b = gp_buf p ! raw_ptr p \<and> p' = p\<lparr>raw_ptr := raw_ptr p + 1\<rparr>"
  by (auto simp: gp_defs res_simps)

lemma gp_add_Inr:
  "gp_add i p = Inr p' \<longleftrightarrow> i \<le> bnds p - raw_ptr p \<and> p' = p\<lparr>raw_ptr := raw_ptr p + i\<rparr>"
  by (auto simp: gp_defs res_simps)

lemma gp_inc_Inr:
  "gp_inc p = Inr p' \<longleftrightarrow> raw_ptr p < bnds p \<and> p' = p\<lparr>raw_ptr := raw_ptr p + 1\<rparr>"
  by (auto simp: gp_defs res_simps)

lemma gp_inc_moved [gp_intros]: "gp_inc p = Inr p' \<Longrightarrow> gp_moved 1 p p'"
  by (auto simp: gp_inc_Inr gp_moved_def)

lemma gp_add_moved [gp_intros]: "gp_add i p = Inr p' \<Longrightarrow> wf_gptr p \<Longrightarrow> gp_moved i p p'"
  by (auto simp: gp_add_Inr gp_moved_def wf_gptr_def)

section \<open>The contract of a parsing function\<close>

text \<open>
  \<open>n\<close> is the least number of bytes a successful run consumes.
\<close>

locale cursor_parser =
  fixes prs :: "gptr \<Rightarrow> ('a \<times> gptr) res" and n :: nat
  assumes moves: "wf_gptr p \<Longrightarrow> prs p = Inr (x, p') \<Longrightarrow> gp_moved n p p'"
    and safe: "wf_gptr p \<Longrightarrow> prs p \<noteq> Inl Undefined_behaviour"
begin

lemma keeps_wf: "wf_gptr p \<Longrightarrow> prs p = Inr (x, p') \<Longrightarrow> wf_gptr p'"
  using moves gp_moved_wf by blast

lemma frame:
  assumes "wf_gptr p" and "prs p = Inr (x, p')"
  shows "gp_buf p' = gp_buf p \<and> orig_ptr p' = orig_ptr p \<and> bnds p' = bnds p"
  using moves [OF assms] by (simp add: gp_moved_def)

lemma shrink_bounds: "wf_gptr p \<Longrightarrow> scoped_shrink_bounds k prs p = Inr (x, p') \<Longrightarrow> gp_moved n p p'"
proof -
  assume wf: "wf_gptr p" and eq: "scoped_shrink_bounds k prs p = Inr (x, p')"
  let ?q = "p\<lparr>bnds := raw_ptr p + k\<rparr>"
  from eq obtain q' where k: "k \<le> bnds p - raw_ptr p" and r: "prs ?q = Inr (x, q')"
    and p': "p' = q'\<lparr>bnds := bnds p\<rparr>"
    by (auto simp: scoped_shrink_bounds_def res_simps)
  from wf k have "wf_gptr ?q" by (rule wf_gptr_shrunk)
  from moves [OF this r] wf k show ?thesis
    by (auto simp: gp_moved_def p' wf_gptr_def)
qed

lemma shrink_bounds_safe: "wf_gptr p \<Longrightarrow> scoped_shrink_bounds k prs p \<noteq> Inl Undefined_behaviour"
  by (auto simp: scoped_shrink_bounds_def assertE_eq_Inl_iff bindE_eq_Inl_iff dest: safe [OF wf_gptr_shrunk])

lemma consume_items_exact:
  assumes wf: "wf_gptr p" and eq: "scoped_consume_items k prs p = Inr (x, p')"
  shows "p' = p\<lparr>raw_ptr := raw_ptr p + k\<rparr> \<and> gp_moved k p p' \<and> n \<le> k"
proof -
  let ?q = "p\<lparr>bnds := raw_ptr p + k\<rparr>"
  from eq obtain q' where k: "k \<le> bnds p - raw_ptr p" and r: "prs ?q = Inr (x, q')"
    and e: "raw_ptr q' = bnds q'" and p': "p' = q'\<lparr>bnds := bnds p\<rparr>"
    by (auto simp: scoped_consume_items_def res_simps)
  from wf k have "wf_gptr ?q" by (rule wf_gptr_shrunk)
  from moves [OF this r] have m: "gp_moved n ?q q'" .
  with wf k e show ?thesis by (auto simp: gp_moved_def p' wf_gptr_def)
qed

lemma consume_items_safe: "wf_gptr p \<Longrightarrow> scoped_consume_items k prs p \<noteq> Inl Undefined_behaviour"
  by (auto simp: scoped_consume_items_def assertE_eq_Inl_iff bindE_eq_Inl_iff dest: safe [OF wf_gptr_shrunk])

end

text \<open>Sequencing two parsers, and the loops of the section parsers: \<open>k\<close> elements one after another.\<close>

definition seqP :: "'a parser \<Rightarrow> ('a \<Rightarrow> 'b parser) \<Rightarrow> 'b parser" where
  "seqP f g p = bindE (f p) (\<lambda>(x, p'). g x p')"

fun repeatP :: "nat \<Rightarrow> 'a parser \<Rightarrow> 'a list parser" where
  "repeatP 0 f p = Inr ([], p)"
| "repeatP (Suc k) f p = bindE (f p) (\<lambda>(x, p1). bindE (repeatP k f p1) (\<lambda>(xs, p2). Inr (x # xs, p2)))"

lemma cursor_parserI:
  assumes "\<And>p x p'. wf_gptr p \<Longrightarrow> prs p = Inr (x, p') \<Longrightarrow> gp_moved n p p'"
    and "\<And>p. wf_gptr p \<Longrightarrow> prs p \<noteq> Inl Undefined_behaviour"
  shows "cursor_parser prs n"
  using assms by unfold_locales

lemma cursor_parser_weaken: "cursor_parser prs m \<Longrightarrow> n \<le> m \<Longrightarrow> cursor_parser prs n"
  by (auto simp: cursor_parser_def intro: gp_moved_weaken)

lemma cursor_parser_return: "cursor_parser (\<lambda>p. Inr (x, p)) 0"
  by (rule cursor_parserI) (auto intro: gp_moved_refl)

lemma cursor_parser_throw: "e \<noteq> Undefined_behaviour \<Longrightarrow> cursor_parser (\<lambda>p. Inl e) n"
  by (rule cursor_parserI) auto

lemma cursor_parser_bind:
  assumes f: "cursor_parser f m" and g: "\<And>x. cursor_parser (g x) n"
  shows "cursor_parser (\<lambda>p. bindE (f p) (\<lambda>(x, p'). g x p')) (m + n)"
proof (rule cursor_parserI)
  fix p y p' assume wf: "wf_gptr p" and "bindE (f p) (\<lambda>(x, p'). g x p') = Inr (y, p')"
  then obtain x q where fq: "f p = Inr (x, q)" and gq: "g x q = Inr (y, p')"
    by (auto simp: res_simps)
  have "gp_moved m p q" by (rule cursor_parser.moves [OF f wf fq])
  moreover have "gp_moved n q p'"
    by (rule cursor_parser.moves [OF g cursor_parser.keeps_wf [OF f wf fq] gq])
  ultimately show "gp_moved (m + n) p p'" by (rule gp_moved_trans)
next
  fix p assume wf: "wf_gptr p"
  show "bindE (f p) (\<lambda>(x, p'). g x p') \<noteq> Inl Undefined_behaviour"
  proof
    assume "bindE (f p) (\<lambda>(x, p'). g x p') = Inl Undefined_behaviour"
    then obtain x q where "f p = Inr (x, q)" and "g x q = Inl Undefined_behaviour"
      using cursor_parser.safe [OF f wf] by (auto simp: bindE_eq_Inl_iff)
    with cursor_parser.safe [OF g cursor_parser.keeps_wf [OF f wf]] show False by blast
  qed
qed

lemma cursor_parser_assert:
  "e \<noteq> Undefined_behaviour \<Longrightarrow> (b \<Longrightarrow> cursor_parser f n) \<Longrightarrow> cursor_parser (\<lambda>p. assertE b e (f p)) n"
  by (cases b) (auto intro: cursor_parser_throw)

lemma cursor_parser_if:
  "(b \<Longrightarrow> cursor_parser f n) \<Longrightarrow> (\<not> b \<Longrightarrow> cursor_parser g n) \<Longrightarrow>
    cursor_parser (\<lambda>p. if b then f p else g p) n"
  by (cases b) auto

lemma cursor_parser_repeat: "cursor_parser f n \<Longrightarrow> cursor_parser (repeatP k f) (k * n)"
proof (induction k)
  case 0
  then show ?case using cursor_parser_return [of "[]"] by simp
next
  case (Suc k)
  have "cursor_parser (\<lambda>p. bindE (f p) (\<lambda>(x, p1). bindE (repeatP k f p1) (\<lambda>(xs, p2). Inr (x # xs, p2))))
      (n + (k * n + 0))"
    using Suc by (intro cursor_parser_bind cursor_parser_return) auto
  then show ?case by (simp add: add.commute)
qed

lemma length_repeatP: "repeatP k f p = Inr (xs, p') \<Longrightarrow> length xs = k"
  by (induction k arbitrary: p xs) (auto simp: res_simps)

lemma cursor_parser_next: "cursor_parser gp_next 1"
  by (rule cursor_parserI)
    (auto simp: gp_next_Inr gp_moved_def, auto simp: gp_defs wf_gptr_def at_unchecked_def assertE_def split: if_splits)

interpretation nxt: cursor_parser gp_next 1
  by (rule cursor_parser_next)

end
