(* ===== verification/Vm_Leb128.thy ===== *)
theory Vm_Leb128
  imports Vm_Guarded_Ptr
begin

text \<open>
  \<^verbatim>\<open>leb128.hpp\<close>: the variable-length integers of the binary format.  \<open>varuint\<close>/\<open>varint\<close> objects
  are their storage bytes (\<open>bytes_used\<close> is the length of the list); \<open>varuint_from\<close>/\<open>varint_from\<close> are
  the constructors from a cursor, \<open>varuint_enc\<close>/\<open>varint_enc\<close> the ones from an integer, and the
  \<open>to\<close> members the conversions back.  Shown: the decoders keep the cursor contract, decoding
  inverts encoding at every value, and an accepted encoding always denotes the mathematical value
  of its digits, that is, the unused-bits checks leave no value out of range.
\<close>

section \<open>Model\<close>

definition bytes_needed :: "nat \<Rightarrow> nat" where
  "bytes_needed N = (if N = 1 \<or> N = 7 then 1 else if N = 32 then 5 else 10)"

text \<open>\<open>static_cast<uint8_t>(~(uint32_t)0 << (N - 7*(bytes_needed<N>()-1))) & 0x7F\<close>.\<close>

definition unused_mask :: "nat \<Rightarrow> u8" where
  "unused_mask N = ucast (push_bit (N - 7 * (bytes_needed N - 1)) (NOT 0 :: u32)) AND 0x7F"

function varuint_from :: "nat \<Rightarrow> nat \<Rightarrow> u8 list \<Rightarrow> u8 list parser" where
  "varuint_from N cnt storage p =
     assertE (cnt < bytes_needed N) Wasm_interpreter_exception
    (assertE (gp_offset p + cnt < gp_bounds p) Wasm_interpreter_exception
    (bindE (gp_at p cnt) (\<lambda>b.
       if b AND 0x80 = 0
       then assertE (cnt + 1 = bytes_needed N \<longrightarrow> unused_mask N AND b = 0) Wasm_parse_exception
             (bindE (gp_add (cnt + 1) p) (\<lambda>p'. Inr (storage @ [b], p')))
       else varuint_from N (cnt + 1) (storage @ [b]) p)))"
  by pat_completeness auto
termination
  by (relation "measure (\<lambda>(N, cnt, storage, p). bytes_needed N - cnt)") auto

text \<open>The sign check of the last byte of a signed value.\<close>

definition sign_bits_ok :: "nat \<Rightarrow> u8 \<Rightarrow> bool" where
  "sign_bits_ok N b =
     (let offset = N - 7 * (bytes_needed N - 1);
          expected = (if b AND push_bit (offset - 1) 1 \<noteq> 0 then unused_mask N else 0)
      in unused_mask N AND b = expected)"

function varint_from :: "nat \<Rightarrow> nat \<Rightarrow> u8 list \<Rightarrow> u8 list parser" where
  "varint_from N cnt storage p =
     assertE (cnt < bytes_needed N) Wasm_interpreter_exception
    (assertE (gp_offset p + cnt < gp_bounds p) Wasm_interpreter_exception
    (bindE (gp_at p cnt) (\<lambda>b.
       if b AND 0x80 = 0
       then assertE (cnt + 1 = bytes_needed N \<longrightarrow> sign_bits_ok N b) Wasm_parse_exception
             (bindE (gp_add (cnt + 1) p) (\<lambda>p'. Inr (storage @ [b], p')))
       else varint_from N (cnt + 1) (storage @ [b]) p)))"
  by pat_completeness auto
termination
  by (relation "measure (\<lambda>(N, cnt, storage, p). bytes_needed N - cnt)") auto

declare varuint_from.simps [simp del] varint_from.simps [simp del]

text \<open>The loops \<open>ret <<= 7; ret |= storage[i] & 0x7f\<close>, from the last byte down to the first.\<close>

definition leb_accumulate :: "u8 list \<Rightarrow> 'a::len word" where
  "leb_accumulate storage = foldr (\<lambda>b ret. push_bit 7 ret OR ucast (b AND 0x7F)) storage 0"

definition varuint_to32 :: "u8 list \<Rightarrow> u32" where
  "varuint_to32 storage = leb_accumulate storage"

definition varuint_to1 :: "u8 list \<Rightarrow> bool" where
  "varuint_to1 storage = (storage ! 0 \<noteq> 0)"

definition varuint_to7 :: "u8 list \<Rightarrow> u8" where
  "varuint_to7 storage = storage ! 0 AND 0x7F"

definition varint_to7 :: "u8 list \<Rightarrow> u8" where
  "varint_to7 storage = (if storage ! 0 AND 0x40 \<noteq> 0 then storage ! 0 OR push_bit 7 (NOT 0) else storage ! 0)"

text \<open>\<open>_to<T>()\<close> for \<open>T = int32_t\<close> and \<open>T = int64_t\<close>.\<close>

definition varint_to :: "nat \<Rightarrow> u8 list \<Rightarrow> 'a::len word" where
  "varint_to N storage =
     (let ret = leb_accumulate storage; bytes_used = length storage
      in if bytes_used \<ge> 1 \<and> bytes_used < bytes_needed N \<and> last storage AND 0x40 \<noteq> 0
         then ret OR push_bit (bytes_used * 7) (NOT 0) else ret)"

text \<open>
  \<open>from(uint32_t)\<close> and \<open>_from(T)\<close>: \<open>k\<close> bytes of storage are left.  A loop that used them all up
  would leave \<open>bytes_used\<close> one past the storage, so that case is \<open>Undefined_behaviour\<close>.
\<close>

fun varuint_enc :: "nat \<Rightarrow> u32 \<Rightarrow> u8 list res" where
  "varuint_enc 0 v = Inl Undefined_behaviour"
| "varuint_enc (Suc k) v =
     (let b = ucast (v AND 0x7F); v' = drop_bit 7 v
      in if v' \<noteq> 0 then bindE (varuint_enc k v') (\<lambda>bs. Inr ((b OR 0x80) # bs)) else Inr [b])"

fun varint_enc :: "nat \<Rightarrow> 'a::len word \<Rightarrow> u8 list res" where
  "varint_enc 0 v = Inl Undefined_behaviour"
| "varint_enc (Suc k) v =
     (let b = ucast (v AND 0x7F); v' = signed_drop_bit 7 v
      in if (v' = -1 \<and> b AND 0x40 \<noteq> 0) \<or> (v' = 0 \<and> b AND 0x40 = 0) then Inr [b]
         else bindE (varint_enc k v') (\<lambda>bs. Inr ((b OR 0x80) # bs)))"

section \<open>The parsing functions of the binary parser\<close>

definition parse_varuint1 :: "u8 parser" where
  "parse_varuint1 p = bindE (varuint_from 1 0 [] p) (\<lambda>(st, p'). Inr (of_bool (varuint_to1 st), p'))"

definition parse_varuint7 :: "u8 parser" where
  "parse_varuint7 p = bindE (varuint_from 7 0 [] p) (\<lambda>(st, p'). Inr (varuint_to7 st, p'))"

definition parse_varuint32 :: "u32 parser" where
  "parse_varuint32 p = bindE (varuint_from 32 0 [] p) (\<lambda>(st, p'). Inr (varuint_to32 st, p'))"

definition parse_varint7 :: "u8 parser" where
  "parse_varint7 p = bindE (varint_from 7 0 [] p) (\<lambda>(st, p'). Inr (varint_to7 st, p'))"

definition parse_varint32 :: "u32 parser" where
  "parse_varint32 p = bindE (varint_from 32 0 [] p) (\<lambda>(st, p'). Inr (varint_to 32 st, p'))"

definition parse_varint64 :: "u64 parser" where
  "parse_varint64 p = bindE (varint_from 64 0 [] p) (\<lambda>(st, p'). Inr (varint_to 64 st, p'))"

section \<open>The cursor contract\<close>

text \<open>
  Both constructors read the bytes at the cursor until one has its top bit clear; the locale holds
  what follows from that loop, whatever check \<open>ok\<close> is made of a last byte in full length \<open>m\<close>.
\<close>

fun leb_string :: "u8 list \<Rightarrow> bool" where
  "leb_string [] \<longleftrightarrow> False"
| "leb_string (b # bs) \<longleftrightarrow> (if bs = [] then b AND 0x80 = 0 else b AND 0x80 \<noteq> 0 \<and> leb_string bs)"

lemma gp_at_Inr:
  "wf_gptr p \<Longrightarrow> gp_at p i = Inr b \<longleftrightarrow> raw_ptr p + i < bnds p \<and> b = gp_buf p ! (raw_ptr p + i)"
  by (auto simp: gp_at_def res_simps wf_gptr_def)

lemma gp_at_Inr_eq:
  "wf_gptr p \<Longrightarrow> raw_ptr p + i < bnds p \<Longrightarrow> gp_at p i = Inr (gp_buf p ! (raw_ptr p + i))"
  by (auto simp: gp_at_Inr)

lemma gp_add_Inr_eq: "raw_ptr p + i \<le> bnds p \<Longrightarrow> gp_add i p = Inr (p\<lparr>raw_ptr := raw_ptr p + i\<rparr>)"
  by (auto simp: gp_add_Inr)

lemma gp_offset_bounds: "wf_gptr p \<Longrightarrow> gp_offset p + i < gp_bounds p \<longleftrightarrow> raw_ptr p + i < bnds p"
  by (auto simp: gp_offset_def gp_bounds_def wf_gptr_def)

locale leb_reader =
  fixes rd :: "nat \<Rightarrow> u8 list \<Rightarrow> gptr \<Rightarrow> (u8 list \<times> gptr) res" and m :: nat and ok :: "u8 \<Rightarrow> bool"
  assumes unfold: "rd cnt st p =
     assertE (cnt < m) Wasm_interpreter_exception
    (assertE (gp_offset p + cnt < gp_bounds p) Wasm_interpreter_exception
    (bindE (gp_at p cnt) (\<lambda>b.
       if b AND 0x80 = 0
       then assertE (cnt + 1 = m \<longrightarrow> ok b) Wasm_parse_exception
             (bindE (gp_add (cnt + 1) p) (\<lambda>p'. Inr (st @ [b], p')))
       else rd (cnt + 1) (st @ [b]) p)))"
begin

lemma accepts:
  assumes "wf_gptr p" and "leb_string bs" and "cnt + length bs \<le> m"
    and "raw_ptr p + cnt + length bs \<le> bnds p"
    and "take (length bs) (drop (raw_ptr p + cnt) (gp_buf p)) = bs"
    and "cnt + length bs = m \<longrightarrow> ok (last bs)"
  shows "rd cnt st p = Inr (st @ bs, p\<lparr>raw_ptr := raw_ptr p + cnt + length bs\<rparr>)"
  using assms
proof (induction bs arbitrary: cnt st)
  case Nil
  then show ?case by simp
next
  case (Cons b bs)
  from Cons.prems have lt: "raw_ptr p + cnt < bnds p" "cnt < m" by auto
  with Cons.prems(1) have len: "raw_ptr p + cnt < length (gp_buf p)" by (simp add: wf_gptr_def)
  from Cons.prems(5) len have b: "gp_buf p ! (raw_ptr p + cnt) = b"
    and bs: "take (length bs) (drop (raw_ptr p + (cnt + 1)) (gp_buf p)) = bs"
    by (auto simp: Cons_nth_drop_Suc [symmetric])
  have at: "gp_at p cnt = Inr b" using gp_at_Inr_eq [OF Cons.prems(1) lt(1)] b by simp
  show ?case
  proof (cases "bs = []")
    case True
    with Cons.prems lt at show ?thesis
      by (subst unfold) (auto simp: gp_offset_bounds gp_add_Inr_eq)
  next
    case False
    with Cons.prems have "b AND 0x80 \<noteq> 0" and ls: "leb_string bs" by auto
    moreover have "rd (cnt + 1) (st @ [b]) p = Inr ((st @ [b]) @ bs, p\<lparr>raw_ptr := raw_ptr p + (cnt + 1) + length bs\<rparr>)"
      using Cons.prems ls bs False by (intro Cons.IH) auto
    ultimately show ?thesis
      using Cons.prems lt at by (subst unfold) (simp add: gp_offset_bounds)
  qed
qed

lemma accepted:
  assumes "wf_gptr p" and "rd cnt st p = Inr (st', p')"
  shows "\<exists>bs. leb_string bs \<and> cnt + length bs \<le> m \<and> raw_ptr p + cnt + length bs \<le> bnds p
     \<and> take (length bs) (drop (raw_ptr p + cnt) (gp_buf p)) = bs
     \<and> (cnt + length bs = m \<longrightarrow> ok (last bs)) \<and> st' = st @ bs
     \<and> p' = p\<lparr>raw_ptr := raw_ptr p + cnt + length bs\<rparr>"
  using assms
proof (induction "m - cnt" arbitrary: cnt st rule: less_induct)
  case less
  define b where "b = gp_buf p ! (raw_ptr p + cnt)"
  from less.prems have c: "cnt < m" "raw_ptr p + cnt < bnds p"
    by (subst (asm) unfold, auto simp: res_simps gp_offset_bounds)+
  with less.prems(1) have len: "raw_ptr p + cnt < length (gp_buf p)" by (simp add: wf_gptr_def)
  have step: "take (Suc n) (drop (raw_ptr p + cnt) (gp_buf p)) =
      b # take n (drop (raw_ptr p + (cnt + 1)) (gp_buf p))" for n
    using len by (simp add: Cons_nth_drop_Suc [symmetric] b_def)
  show ?case
  proof (cases "b AND 0x80 = 0")
    case True
    with less.prems c show ?thesis
      by (subst (asm) unfold, intro exI [of _ "[b]"])
        (auto simp: res_simps gp_offset_bounds gp_at_Inr_eq gp_add_Inr b_def step [unfolded b_def])
  next
    case False
    with less.prems c have "rd (cnt + 1) (st @ [b]) p = Inr (st', p')"
      by (subst (asm) unfold) (auto simp: res_simps gp_offset_bounds gp_at_Inr_eq b_def)
    moreover from c(1) have "m - (cnt + 1) < m - cnt" by simp
    ultimately obtain bs where "leb_string bs"
      "cnt + 1 + length bs \<le> m" "raw_ptr p + (cnt + 1) + length bs \<le> bnds p"
      "take (length bs) (drop (raw_ptr p + (cnt + 1)) (gp_buf p)) = bs"
      "cnt + 1 + length bs = m \<longrightarrow> ok (last bs)" "st' = (st @ [b]) @ bs"
      "p' = p\<lparr>raw_ptr := raw_ptr p + (cnt + 1) + length bs\<rparr>"
      using less.hyps less.prems(1) by blast
    with False show ?thesis
      by (intro exI [of _ "b # bs"]) (auto simp: step)
  qed
qed

lemma no_ub: "wf_gptr p \<Longrightarrow> rd cnt st p \<noteq> Inl Undefined_behaviour"
proof (induction "m - cnt" arbitrary: cnt st rule: less_induct)
  case less
  show ?case
    using less.hyps [of "cnt + 1" "st @ [gp_buf p ! (raw_ptr p + cnt)]"] less.prems
    by (subst unfold) (auto simp: assertE_eq_Inl_iff bindE_eq_Inl_iff gp_offset_bounds gp_at_Inr_eq
        gp_add_def split: if_splits)
qed

lemma cursor: "cursor_parser (rd 0 []) 1"
proof (rule cursor_parserI)
  fix p st' p' assume "wf_gptr p" and "rd 0 [] p = Inr (st', p')"
  from accepted [OF this] obtain bs where "leb_string bs" "raw_ptr p + length bs \<le> bnds p"
    "p' = p\<lparr>raw_ptr := raw_ptr p + length bs\<rparr>" by auto
  then show "gp_moved 1 p p'" by (cases bs) (auto simp: gp_moved_def)
qed (rule no_ub)

end

interpretation vu: leb_reader "varuint_from N" "bytes_needed N" "\<lambda>b. unused_mask N AND b = 0" for N
  by unfold_locales (rule varuint_from.simps)

interpretation vs: leb_reader "varint_from N" "bytes_needed N" "sign_bits_ok N" for N
  by unfold_locales (rule varint_from.simps)

lemma cursor_parser_map:
  assumes "cursor_parser f n"
  shows "cursor_parser (\<lambda>p. bindE (f p) (\<lambda>(x, p'). Inr (g x, p'))) n"
  using cursor_parser_bind [OF assms cursor_parser_return] by simp

lemma cursor_parser_varuint1: "cursor_parser parse_varuint1 1"
  unfolding parse_varuint1_def [abs_def] by (rule cursor_parser_map [OF vu.cursor])

lemma cursor_parser_varuint7: "cursor_parser parse_varuint7 1"
  unfolding parse_varuint7_def [abs_def] by (rule cursor_parser_map [OF vu.cursor])

lemma cursor_parser_varuint32: "cursor_parser parse_varuint32 1"
  unfolding parse_varuint32_def [abs_def] by (rule cursor_parser_map [OF vu.cursor])

lemma cursor_parser_varint7: "cursor_parser parse_varint7 1"
  unfolding parse_varint7_def [abs_def] by (rule cursor_parser_map [OF vs.cursor])

lemma cursor_parser_varint32: "cursor_parser parse_varint32 1"
  unfolding parse_varint32_def [abs_def] by (rule cursor_parser_map [OF vs.cursor])

lemma cursor_parser_varint64: "cursor_parser parse_varint64 1"
  unfolding parse_varint64_def [abs_def] by (rule cursor_parser_map [OF vs.cursor])

interpretation pvu32: cursor_parser parse_varuint32 1
  by (rule cursor_parser_varuint32)

interpretation pvs32: cursor_parser parse_varint32 1
  by (rule cursor_parser_varint32)

interpretation pvs64: cursor_parser parse_varint64 1
  by (rule cursor_parser_varint64)


section \<open>The value of a digit string\<close>

fun leb_val :: "u8 list \<Rightarrow> nat" where
  "leb_val [] = 0"
| "leb_val (b # bs) = unat (b AND 0x7F) + 128 * leb_val bs"

lemma and_7F: "(w :: 'a::len word) AND 0x7F = take_bit 7 w"
proof -
  have "(0x7F :: 'a word) = mask 7" by (simp add: mask_eq_exp_minus_1)
  then show ?thesis by (simp only: take_bit_eq_mask)
qed

lemma unat_and_7F: "unat (b AND 0x7F :: u8) = unat b mod 128"
  by (simp add: and_7F take_bit_eq_mod unat_mod)

lemma unat_and_7F_less: "unat (b AND 0x7F :: u8) < 128"
  by (simp add: unat_and_7F)

lemma push_bit_or_digit:
  "push_bit 7 r OR ucast (b AND 0x7F :: u8) = (of_nat (unat (b AND 0x7F)) + 128 * r :: 'a::len word)"
proof -
  have d: "push_bit 7 r AND (ucast (b AND 0x7F :: u8) :: 'a word) = 0"
    by (rule bit_word_eqI) (auto simp: bit_and_iff bit_push_bit_iff bit_ucast_iff and_7F bit_take_bit_iff)
  have "push_bit 7 r OR ucast (b AND 0x7F) = push_bit 7 r + (ucast (b AND 0x7F) :: 'a word)"
    using d by (simp add: disjunctive_add_eq_or)
  then show ?thesis by (simp add: push_bit_eq_mult)
qed

lemma leb_accumulate_val: "leb_accumulate st = (of_nat (leb_val st) :: 'a::len word)"
  by (induction st) (simp_all add: leb_accumulate_def push_bit_or_digit)

lemma leb_val_less: "leb_val st < 128 ^ length st"
proof (induction st)
  case (Cons b bs)
  then show ?case using unat_and_7F_less [of b] by simp
qed simp

lemma unat_drop_bit_7: "unat (drop_bit 7 v :: u32) = unat v div 128"
  by (simp add: drop_bit_eq_div unat_div)

lemma unat_ucast_and_7F: "unat (ucast (v AND 0x7F :: u32) :: u8) = unat v mod 128"
  by (simp add: and_7F unsigned_ucast_eq take_bit_eq_mod unat_mod)

lemma unat_less_256: "unat (b :: u8) < 256"
  using unsigned_less [of b] by simp

lemma bit_7_iff: "bit (b :: u8) 7 \<longleftrightarrow> 128 \<le> unat b"
proof -
  have "bit b 7 \<longleftrightarrow> bit (unat b) 7" by (simp only: bit_unsigned_iff) simp
  also have "\<dots> \<longleftrightarrow> odd (unat b div 128)" by (simp only: bit_iff_odd) simp
  also have "\<dots> \<longleftrightarrow> 0 < unat b div 128"
  proof -
    have "unat b div 128 < 2" using unat_less_256 [of b] by (simp add: less_mult_imp_div_less)
    then show ?thesis by (cases "unat b div 128") auto
  qed
  also have "\<dots> \<longleftrightarrow> 128 \<le> unat b" by (simp add: div_greater_zero_iff)
  finally show ?thesis .
qed

lemma and_80_eq_0_iff: "(b :: u8) AND 0x80 = 0 \<longleftrightarrow> unat b < 128"
  using and_exp_eq_0_iff_not_bit [of b 7] by (simp add: bit_7_iff not_le)

lemma small_take_bit: "unat (b :: u8) < 128 \<Longrightarrow> take_bit 7 b = b"
  using unat_and_7F [of b] by (simp add: and_7F word_unat_eq_iff)

lemma or_80:
  assumes "unat (b :: u8) < 128"
  shows "(b OR 0x80) AND 0x80 \<noteq> 0 \<and> (b OR 0x80) AND 0x7F = b"
proof
  have e: "(0x80 :: u8) = push_bit 7 1" by simp
  have "bit (b OR 0x80) 7" by (simp add: bit_or_iff e bit_push_bit_iff del: push_bit_of_1)
  then show "(b OR 0x80) AND 0x80 \<noteq> 0"
    using and_exp_eq_0_iff_not_bit [of "b OR 0x80" 7] by simp
  have "take_bit 7 (b OR push_bit 7 1) = take_bit 7 b"
    by (rule bit_word_eqI) (auto simp: bit_take_bit_iff bit_or_iff bit_push_bit_iff simp del: push_bit_of_1)
  then show "(b OR 0x80) AND 0x7F = b"
    by (simp only: and_7F e small_take_bit [OF assms])
qed

lemma varuint_enc_ok:
  "0 < k \<Longrightarrow> unat v < 128 ^ k \<Longrightarrow>
    \<exists>bs. varuint_enc k v = Inr bs \<and> leb_string bs \<and> length bs \<le> k \<and> leb_val bs = unat v
      \<and> (length bs = k \<longrightarrow> unat (last bs) = unat v div 128 ^ (k - 1))"
proof (induction k arbitrary: v)
  case (Suc k)
  define b where "b = (ucast (v AND 0x7F) :: u8)"
  have b: "unat b = unat v mod 128" by (simp add: b_def unat_ucast_and_7F)
  show ?case
  proof (cases "drop_bit 7 v = 0")
    case True
    then have z: "unat v div 128 = 0" by (metis unat_drop_bit_7 unat_0)
    then have "unat v < 128" by (simp add: div_eq_0_iff)
    moreover from this have "k > 0 \<longrightarrow> 1 \<noteq> Suc k" by simp
    ultimately show ?thesis using True b
      by (auto simp: b_def [symmetric] and_80_eq_0_iff unat_and_7F Let_def)
  next
    case False
    have d: "unat (drop_bit 7 v) = unat v div 128" by (rule unat_drop_bit_7)
    have "0 < k"
    proof (rule ccontr)
      assume "\<not> 0 < k"
      with Suc.prems have "unat (drop_bit 7 v) = 0" by (simp add: d)
      with False show False by (simp add: unat_eq_0)
    qed
    moreover have "unat (drop_bit 7 v) < 128 ^ k"
      using Suc.prems by (simp add: d less_mult_imp_div_less mult.commute)
    ultimately obtain bs where IH: "varuint_enc k (drop_bit 7 v) = Inr bs" "leb_string bs" "length bs \<le> k"
      "leb_val bs = unat v div 128" "length bs = k \<longrightarrow> unat (last bs) = unat v div 128 div 128 ^ (k - 1)"
      using Suc.IH d by metis
    have "unat b < 128" by (simp add: b)
    from or_80 [OF this] IH False b show ?thesis
      using \<open>0 < k\<close>
      by (cases k) (auto simp: b_def [symmetric] Let_def div_mult2_eq)
  qed
qed simp


definition sleb_val :: "u8 list \<Rightarrow> int" where
  "sleb_val st = int (leb_val st) - (if st \<noteq> [] \<and> last st AND 0x40 \<noteq> 0 then 128 ^ length st else 0)"

lemma and_40_iff: "(b :: u8) AND 0x40 \<noteq> 0 \<longleftrightarrow> 64 \<le> unat b mod 128"
proof -
  have "b AND 0x40 \<noteq> 0 \<longleftrightarrow> bit b 6"
    using and_exp_eq_0_iff_not_bit [of b 6] by simp
  also have "\<dots> \<longleftrightarrow> bit (take_bit 7 (unat b)) 6"
    by (simp add: bit_take_bit_iff bit_unsigned_iff)
  also have "\<dots> \<longleftrightarrow> odd (unat b mod 128 div 64)"
    by (simp only: bit_iff_odd) (simp add: take_bit_eq_mod)
  also have "\<dots> \<longleftrightarrow> 0 < unat b mod 128 div 64"
  proof -
    have "unat b mod 128 < 128" by simp
    then have "unat b mod 128 div 64 < 2" by (simp add: less_mult_imp_div_less)
    then show ?thesis by (cases "unat b mod 128 div 64") auto
  qed
  also have "\<dots> \<longleftrightarrow> 64 \<le> unat b mod 128" by (simp add: div_greater_zero_iff)
  finally show ?thesis .
qed

lemma sint_mod_128:
  assumes "8 \<le> LENGTH('a)"
  shows "int (unat (ucast (v AND 0x7F :: 'a::len word) :: u8)) = sint v mod 128"
proof -
  have "int (unat (ucast (v AND 0x7F) :: u8)) = uint (ucast (take_bit 7 v) :: u8)"
    by (simp add: and_7F)
  also have "\<dots> = take_bit 8 (take_bit 7 (uint v))"
    by (simp add: unsigned_ucast_eq unsigned_take_bit_eq)
  also have "\<dots> = take_bit 7 (uint v)" by simp
  also have "\<dots> = take_bit 7 (sint v)"
    using assms by (simp add: uint_sint)
  finally show ?thesis by (simp add: take_bit_eq_mod)
qed

lemma sint_shift_7: "sint (signed_drop_bit 7 v :: 'a::len word) = sint v div 128"
  by (simp add: sint_signed_drop_bit_eq drop_bit_eq_div)

lemma int_stop_iff:
  "(x :: int) div 128 = -1 \<and> 64 \<le> x mod 128 \<or> x div 128 = 0 \<and> \<not> 64 \<le> x mod 128 \<longleftrightarrow> -64 \<le> x \<and> x < 64"
proof -
  have x: "x = 128 * (x div 128) + x mod 128" "0 \<le> x mod 128" "x mod 128 < 128" by auto
  obtain q r where qr: "x div 128 = q" "x mod 128 = r" by auto
  show ?thesis using x unfolding qr by auto
qed

lemma int_sign7:
  assumes "-64 \<le> (x :: int)" and "x < 64"
  shows "(if 64 \<le> x mod 128 then x mod 128 - 128 else x mod 128) = x"
proof (cases "0 \<le> x")
  case False
  have "x mod 128 = (x + 128) mod 128" by simp
  also have "\<dots> = x + 128" using assms False by (intro mod_pos_pos_trivial) auto
  finally show ?thesis using assms by simp
qed (use assms in auto)

lemma varint_stop_iff:
  fixes v :: "'a::len word"
  assumes L: "8 \<le> LENGTH('a)"
  defines "b \<equiv> (ucast (v AND 0x7F) :: u8)"
  shows "(signed_drop_bit 7 v = -1 \<and> b AND 0x40 \<noteq> 0) \<or> (signed_drop_bit 7 v = 0 \<and> b AND 0x40 = 0)
     \<longleftrightarrow> -64 \<le> sint v \<and> sint v < 64"
proof -
  have b: "int (unat b) = sint v mod 128" unfolding b_def by (rule sint_mod_128 [OF L])
  have "int (unat b mod 128) = sint v mod 128" by (simp only: zmod_int b) simp
  moreover have "64 \<le> unat b mod 128 \<longleftrightarrow> 64 \<le> int (unat b mod 128)" by linarith
  ultimately have b40: "b AND 0x40 \<noteq> 0 \<longleftrightarrow> 64 \<le> sint v mod 128" by (simp only: and_40_iff)
  have "signed_drop_bit 7 v = -1 \<longleftrightarrow> sint v div 128 = -1"
    by (metis sint_shift_7 sint_n1 signed_word_eqI)
  moreover have "signed_drop_bit 7 v = 0 \<longleftrightarrow> sint v div 128 = 0"
    by (metis sint_shift_7 sint_0 signed_word_eqI)
  ultimately show ?thesis using b40 int_stop_iff [of "sint v"] by argo
qed

lemma sleb_val_Cons: "bs \<noteq> [] \<Longrightarrow> sleb_val (b # bs) = int (unat (b AND 0x7F)) + 128 * sleb_val bs"
  by (simp add: sleb_val_def algebra_simps)

lemma sleb_val_single:
  assumes "unat b < 128"
  shows "sleb_val [b] = (if 64 \<le> unat b then int (unat b) - 128 else int (unat b))"
proof -
  have m: "unat b mod 128 = unat b" using assms by simp
  show ?thesis
    by (simp add: sleb_val_def and_40_iff m unat_and_7F del: unat_and_7F_less)
qed

lemma varint_enc_ok:
  assumes L: "8 \<le> LENGTH('a::len)"
  shows "0 < k \<Longrightarrow> - (64 * 128 ^ (k - 1)) \<le> sint v \<Longrightarrow> sint v < 64 * 128 ^ (k - 1) \<Longrightarrow>
    \<exists>bs. varint_enc k (v :: 'a word) = Inr bs \<and> leb_string bs \<and> length bs \<le> k \<and> sleb_val bs = sint v
      \<and> (length bs = k \<longrightarrow> int (unat (last bs)) = sint v div 128 ^ (k - 1) mod 128)"
proof (induction k arbitrary: v)
  case (Suc k)
  define b where "b = (ucast (v AND 0x7F) :: u8)"
  have b: "int (unat b) = sint v mod 128" unfolding b_def by (rule sint_mod_128 [OF L])
  have "int (unat b) < 128" by (simp only: b)
  then have b128: "unat b < 128" by linarith
  note stop = varint_stop_iff [OF L, of v, folded b_def]
  show ?case
  proof (cases "-64 \<le> sint v \<and> sint v < 64")
    case True
    then have "varint_enc (Suc k) v = Inr [b]" using stop by (auto simp: b_def [symmetric] Let_def)
    moreover have "sleb_val [b] = sint v"
    proof -
      have "64 \<le> unat b \<longleftrightarrow> 64 \<le> int (unat b)" by linarith
      then show ?thesis
        using int_sign7 [of "sint v"] True by (simp only: sleb_val_single [OF b128] b)
    qed
    moreover have "b AND 0x80 = 0" using b128 by (simp add: and_80_eq_0_iff)
    ultimately show ?thesis using b by auto
  next
    case False
    define w where "w = signed_drop_bit 7 v"
    have w: "sint w = sint v div 128" by (simp add: w_def sint_shift_7)
    from False Suc.prems have k: "0 < k" by (cases k) auto
    then obtain j where j: "k = Suc j" by (cases k) auto
    have "- (64 * 128 ^ (k - 1)) \<le> sint w" "sint w < 64 * 128 ^ (k - 1)"
      using Suc.prems by (auto simp: w j)
    from Suc.IH [OF k this] obtain bs where IH: "varint_enc k w = Inr bs" "leb_string bs" "length bs \<le> k"
      "sleb_val bs = sint v div 128"
      "length bs = k \<longrightarrow> int (unat (last bs)) = sint v div 128 div 128 ^ (k - 1) mod 128"
      by (auto simp: w)
    have ne: "bs \<noteq> []" using IH(2) by auto
    from False stop IH(1) have "varint_enc (Suc k) v = Inr ((b OR 0x80) # bs)"
      by (auto simp: b_def [symmetric] w_def [symmetric] Let_def)
    moreover have "sleb_val ((b OR 0x80) # bs) = sint v"
      using or_80 [OF b128] b IH(4) ne by (simp add: sleb_val_Cons)
    ultimately show ?thesis
      using or_80 [OF b128] IH ne by (auto simp: j zdiv_zmult2_eq)
  qed
qed simp

section \<open>Decoding\<close>

lemma of_nat_or_high:
  assumes "L < 2 ^ s"
  shows "(of_nat L :: 'a::len word) OR push_bit s (NOT 0) = of_int (int L - 2 ^ s)"
proof -
  have t: "take_bit s (of_nat L :: 'a word) = of_nat L"
    using assms by (metis of_nat_take_bit take_bit_nat_eq_self)
  have d: "of_nat L AND push_bit s (NOT 0 :: 'a word) = 0"
    by (subst t [symmetric])
      (rule bit_word_eqI, auto simp: bit_and_iff bit_take_bit_iff bit_not_iff bit_mask_iff)
  have "(of_nat L :: 'a word) OR push_bit s (NOT 0) = of_nat L + push_bit s (- 1)"
    using d by (simp add: disjunctive_add_eq_or)
  also have "\<dots> = of_int (int L - 2 ^ s)" by (simp add: push_bit_eq_mult)
  finally show ?thesis .
qed

lemma varint_to_val:
  assumes "st \<noteq> []" and "length st \<le> bytes_needed N"
    and "length st = bytes_needed N \<longrightarrow> LENGTH('a) \<le> 7 * bytes_needed N"
  shows "varint_to N st = (of_int (sleb_val st) :: 'a::len word)"
proof (cases "last st AND 0x40 \<noteq> 0")
  case True
  have p: "(128 :: nat) ^ length st = 2 ^ (7 * length st)" by (simp add: power_mult)
  have p': "(128 :: int) ^ length st = 2 ^ (7 * length st)" by (simp add: power_mult)
  show ?thesis
  proof (cases "length st < bytes_needed N")
    case lt: True
    have "leb_val st < 2 ^ (7 * length st)" using leb_val_less [of st] by (simp only: p)
    from of_nat_or_high [OF this, where ?'a = 'a] True lt assms(1) show ?thesis
      by (simp add: varint_to_def sleb_val_def leb_accumulate_val p' Let_def mult.commute Suc_le_eq)
  next
    case False
    with assms have "LENGTH('a) \<le> 7 * length st" by simp
    then have "(2 ^ (7 * length st) :: 'a word) = 0" by (simp add: exp_eq_zero_iff)
    with True False assms(1) show ?thesis
      by (simp add: varint_to_def sleb_val_def leb_accumulate_val p' Let_def)
  qed
next
  case False
  then show ?thesis by (simp add: varint_to_def sleb_val_def leb_accumulate_val Let_def)
qed


lemma u8_lt_128_cases:
  assumes "\<forall>n\<in>set [0..<128]. P (of_nat n :: u8)" and "unat b < 128"
  shows "P b"
  using bspec [OF assms(1), of "unat b"] assms(2) by simp

lemma unused_mask_32: "unat b < 128 \<Longrightarrow> unused_mask 32 AND b = 0 \<longleftrightarrow> unat b < 16"
  by (erule u8_lt_128_cases [rotated]) code_simp

lemma sign_bits_ok_32: "unat b < 128 \<Longrightarrow> sign_bits_ok 32 b \<longleftrightarrow> unat b < 8 \<or> 120 \<le> unat b"
  by (erule u8_lt_128_cases [rotated]) code_simp

lemma sign_bits_ok_64: "unat b < 128 \<Longrightarrow> sign_bits_ok 64 b \<longleftrightarrow> unat b = 0 \<or> unat b = 127"
  by (erule u8_lt_128_cases [rotated]) code_simp

lemma leb_string_last: "leb_string bs \<Longrightarrow> bs \<noteq> [] \<and> unat (last bs) < 128"
  by (induction bs) (auto simp: and_80_eq_0_iff split: if_splits)

lemma leb_val_snoc: "leb_val (bs @ [b]) = leb_val bs + 128 ^ length bs * unat (b AND 0x7F)"
  by (induction bs) (simp_all add: algebra_simps)

lemma leb_val_split:
  assumes "leb_string bs"
  shows "leb_val bs = leb_val (butlast bs) + 128 ^ (length bs - 1) * unat (last bs)"
proof -
  from leb_string_last [OF assms] have ne: "bs \<noteq> []" and l: "unat (last bs) < 128" by auto
  have "leb_val (butlast bs @ [last bs]) =
      leb_val (butlast bs) + 128 ^ length (butlast bs) * unat (last bs AND 0x7F)"
    by (rule leb_val_snoc)
  with ne l show ?thesis by (simp add: unat_and_7F)
qed

lemma leb_val_butlast_less: "leb_val (butlast bs) < 128 ^ (length bs - 1)"
  using leb_val_less [of "butlast bs"] by simp

lemma leb_val_last_less:
  assumes "leb_string bs" and "unat (last bs) < m"
  shows "leb_val bs < 128 ^ (length bs - 1) * m"
proof -
  let ?P = "128 ^ (length bs - 1) :: nat"
  have "leb_val bs < ?P + ?P * unat (last bs)"
    using leb_val_split [OF assms(1)] leb_val_butlast_less [of bs] by simp
  also have "\<dots> = ?P * Suc (unat (last bs))" by simp
  also have "\<dots> \<le> ?P * m" using assms(2) by (intro mult_le_mono2) simp
  finally show ?thesis .
qed

lemma leb_val_u32:
  assumes "leb_string bs" and "length bs \<le> 5" and "length bs = 5 \<longrightarrow> unused_mask 32 AND last bs = 0"
  shows "leb_val bs < 2 ^ 32"
proof (cases "length bs = 5")
  case True
  with assms leb_string_last [OF assms(1)] have "unat (last bs) < 16" by (simp add: unused_mask_32)
  from leb_val_last_less [OF assms(1) this] True show ?thesis by simp
next
  case False
  with assms(2) have "length bs \<le> 4" by simp
  then have "(128 :: nat) ^ length bs \<le> 128 ^ 4" by (intro power_increasing) simp_all
  with leb_val_less [of bs] show ?thesis by simp
qed

text \<open>The sign of the last digit decides the range of a signed value.\<close>

definition sdigit :: "nat \<Rightarrow> int" where
  "sdigit n = (if 64 \<le> n then int n - 128 else int n)"

lemma sdigit_range: "n < 128 \<Longrightarrow> - 64 \<le> sdigit n \<and> sdigit n < 64"
  "n < 128 \<Longrightarrow> n < 8 \<or> 120 \<le> n \<Longrightarrow> - 8 \<le> sdigit n \<and> sdigit n < 8"
  "n = 0 \<or> n = 127 \<Longrightarrow> - 1 \<le> sdigit n \<and> sdigit n < 1"
  by (auto simp: sdigit_def)

lemma sleb_val_split:
  assumes "leb_string bs"
  shows "sleb_val bs = int (leb_val (butlast bs)) + 128 ^ (length bs - 1) *
      sdigit (unat (last bs))"
proof -
  from leb_string_last [OF assms] have ne: "bs \<noteq> []" and l: "unat (last bs) < 128" by auto
  have e: "(128 :: int) ^ length bs = 128 * 128 ^ (length bs - 1)"
    using ne by (metis length_greater_0_conv power_minus_mult mult.commute)
  show ?thesis
    using ne l by (simp add: sleb_val_def leb_val_split [OF assms] and_40_iff e algebra_simps sdigit_def)
qed

lemma sleb_val_range:
  assumes "leb_string bs" and "- m \<le> sdigit (unat (last bs))"
    and "sdigit (unat (last bs)) < m"
  shows "- (128 ^ (length bs - 1) * m) \<le> sleb_val bs \<and> sleb_val bs < 128 ^ (length bs - 1) * m"
proof -
  let ?P = "128 ^ (length bs - 1) :: int"
  let ?d = "sdigit (unat (last bs))"
  have v: "sleb_val bs = int (leb_val (butlast bs)) + ?P * ?d" by (rule sleb_val_split [OF assms(1)])
  have "int (leb_val (butlast bs)) < ?P" using leb_val_butlast_less [of bs]
    by (metis of_nat_less_iff of_nat_numeral of_nat_power)
  moreover have "- (?P * m) \<le> ?P * ?d"
    using mult_left_mono [OF assms(2), of ?P] by simp
  moreover have "?P * ?d + ?P \<le> ?P * m"
  proof -
    have "?P * (?d + 1) \<le> ?P * m" using assms(3) by (intro mult_left_mono) auto
    then show ?thesis by (simp add: algebra_simps)
  qed
  moreover have "0 \<le> int (leb_val (butlast bs))" by simp
  ultimately show ?thesis unfolding v by linarith
qed

lemma sleb_val_short:
  assumes "leb_string bs" and "length bs \<le> n"
  shows "- (128 ^ (n - 1) * 64) \<le> sleb_val bs \<and> sleb_val bs < 128 ^ (n - 1) * 64"
proof -
  have "(128 :: int) ^ (length bs - 1) \<le> 128 ^ (n - 1)"
    using assms(2) by (intro power_increasing) auto
  moreover have "- (128 ^ (length bs - 1) * 64) \<le> sleb_val bs \<and> sleb_val bs < 128 ^ (length bs - 1) * 64"
    using sdigit_range(1) leb_string_last [OF assms(1)] by (intro sleb_val_range [OF assms(1)]) auto
  ultimately show ?thesis by linarith
qed

lemma sleb_val_s32:
  assumes "leb_string bs" and "length bs \<le> 5" and "length bs = 5 \<longrightarrow> sign_bits_ok 32 (last bs)"
  shows "- (2 ^ 31) \<le> sleb_val bs \<and> sleb_val bs < 2 ^ 31"
proof (cases "length bs = 5")
  case True
  with assms leb_string_last [OF assms(1)] have "unat (last bs) < 8 \<or> 120 \<le> unat (last bs)"
    by (simp add: sign_bits_ok_32)
  with sleb_val_range [OF assms(1), of 8] sdigit_range(2) leb_string_last [OF assms(1)] True
  show ?thesis by simp
next
  case False
  with assms(2) sleb_val_short [OF assms(1), of 4] show ?thesis by simp
qed

lemma sleb_val_s64:
  assumes "leb_string bs" and "length bs \<le> 10" and "length bs = 10 \<longrightarrow> sign_bits_ok 64 (last bs)"
  shows "- (2 ^ 63) \<le> sleb_val bs \<and> sleb_val bs < 2 ^ 63"
proof (cases "length bs = 10")
  case True
  with assms leb_string_last [OF assms(1)] have "unat (last bs) = 0 \<or> unat (last bs) = 127"
    by (simp add: sign_bits_ok_64)
  with sleb_val_range [OF assms(1), of 1] sdigit_range(3) True show ?thesis by simp
next
  case False
  with assms(2) sleb_val_short [OF assms(1), of 9] show ?thesis by simp
qed

section \<open>Exactness and round trips\<close>

lemma bytes_needed_simps: "bytes_needed 32 = 5" "bytes_needed 64 = 10" "bytes_needed 1 = 1" "bytes_needed 7 = 1"
  by (simp_all add: bytes_needed_def)

text \<open>What is at the cursor: the next \<open>length bs\<close> bytes are \<open>bs\<close>.\<close>

definition at_cursor :: "gptr \<Rightarrow> u8 list \<Rightarrow> bool" where
  "at_cursor p bs \<longleftrightarrow> raw_ptr p + length bs \<le> bnds p \<and> take (length bs) (drop (raw_ptr p) (gp_buf p)) = bs"

lemma parse_varuint32_exact:
  assumes "wf_gptr p" and "parse_varuint32 p = Inr (v, p')"
  shows "\<exists>bs. at_cursor p bs \<and> leb_string bs \<and> length bs \<le> 5 \<and> unat v = leb_val bs
     \<and> p' = p\<lparr>raw_ptr := raw_ptr p + length bs\<rparr>"
proof -
  from assms(2) obtain st where r: "varuint_from 32 0 [] p = Inr (st, p')" and v: "v = varuint_to32 st"
    by (auto simp: parse_varuint32_def res_simps)
  from vu.accepted [OF assms(1) r] have st: "leb_string st" "length st \<le> 5" "raw_ptr p + length st \<le> bnds p"
    "take (length st) (drop (raw_ptr p) (gp_buf p)) = st" "length st = 5 \<longrightarrow> unused_mask 32 AND last st = 0"
    "p' = p\<lparr>raw_ptr := raw_ptr p + length st\<rparr>"
    by (auto simp: bytes_needed_simps)
  have "unat v = leb_val st"
    using leb_val_u32 [OF st(1,2,5)] by (simp add: v varuint_to32_def leb_accumulate_val unat_of_nat)
  with st show ?thesis by (auto simp: at_cursor_def)
qed

lemma parse_varint32_exact:
  assumes "wf_gptr p" and "parse_varint32 p = Inr (v, p')"
  shows "\<exists>bs. at_cursor p bs \<and> leb_string bs \<and> length bs \<le> 5 \<and> sint v = sleb_val bs
     \<and> p' = p\<lparr>raw_ptr := raw_ptr p + length bs\<rparr>"
proof -
  from assms(2) obtain st where r: "varint_from 32 0 [] p = Inr (st, p')" and v: "v = varint_to 32 st"
    by (auto simp: parse_varint32_def res_simps)
  from vs.accepted [OF assms(1) r] have st: "leb_string st" "length st \<le> 5" "raw_ptr p + length st \<le> bnds p"
    "take (length st) (drop (raw_ptr p) (gp_buf p)) = st" "length st = 5 \<longrightarrow> sign_bits_ok 32 (last st)"
    "p' = p\<lparr>raw_ptr := raw_ptr p + length st\<rparr>"
    by (auto simp: bytes_needed_simps)
  have "v = of_int (sleb_val st)"
    using st leb_string_last [OF st(1)] by (simp add: v varint_to_val bytes_needed_simps)
  with sleb_val_s32 [OF st(1,2,5)] have "sint v = sleb_val st"
    by (simp add: signed_of_int signed_take_bit_int_eq_self)
  with st show ?thesis by (auto simp: at_cursor_def)
qed

lemma parse_varint64_exact:
  assumes "wf_gptr p" and "parse_varint64 p = Inr (v, p')"
  shows "\<exists>bs. at_cursor p bs \<and> leb_string bs \<and> length bs \<le> 10 \<and> sint v = sleb_val bs
     \<and> p' = p\<lparr>raw_ptr := raw_ptr p + length bs\<rparr>"
proof -
  from assms(2) obtain st where r: "varint_from 64 0 [] p = Inr (st, p')" and v: "v = varint_to 64 st"
    by (auto simp: parse_varint64_def res_simps)
  from vs.accepted [OF assms(1) r] have st: "leb_string st" "length st \<le> 10" "raw_ptr p + length st \<le> bnds p"
    "take (length st) (drop (raw_ptr p) (gp_buf p)) = st" "length st = 10 \<longrightarrow> sign_bits_ok 64 (last st)"
    "p' = p\<lparr>raw_ptr := raw_ptr p + length st\<rparr>"
    by (auto simp: bytes_needed_simps)
  have "v = of_int (sleb_val st)"
    using st leb_string_last [OF st(1)] by (simp add: v varint_to_val bytes_needed_simps)
  with sleb_val_s64 [OF st(1,2,5)] have "sint v = sleb_val st"
    by (simp add: signed_of_int signed_take_bit_int_eq_self)
  with st show ?thesis by (auto simp: at_cursor_def)
qed


text \<open>A cursor over \<open>bs\<close> with anything before and after it.\<close>

definition gptr_over :: "u8 list \<Rightarrow> u8 list \<Rightarrow> u8 list \<Rightarrow> gptr" where
  "gptr_over pre bs post = mk_gptr (pre @ bs @ post) (length pre) (length bs + length post)"

lemma gptr_over_simps:
  "raw_ptr (gptr_over pre bs post) = length pre" "wf_gptr (gptr_over pre bs post)"
  "at_cursor (gptr_over pre bs post) bs"
  by (simp_all add: gptr_over_def mk_gptr_def wf_gptr_def at_cursor_def)

lemma mod_neg_neg_small: "- 8 \<le> (x :: int) \<Longrightarrow> x < 8 \<Longrightarrow> x mod 128 < 8 \<or> 120 \<le> x mod 128"
proof -
  assume a: "- 8 \<le> x" "x < 8"
  show ?thesis
  proof (cases "0 \<le> x")
    case False
    have "x mod 128 = (x + 128) mod 128" by simp
    also have "\<dots> = x + 128" using a False by (intro mod_pos_pos_trivial) auto
    finally show ?thesis using a by simp
  qed (use a in auto)
qed

lemma varuint_from_32_enc:
  assumes "wf_gptr p" and "at_cursor p bs" and "leb_string bs" and "length bs \<le> 5"
    and "leb_val bs = unat v" and "length bs = 5 \<longrightarrow> unat (last bs) = unat v div 128 ^ 4"
  shows "parse_varuint32 p = Inr (v, p\<lparr>raw_ptr := raw_ptr p + length bs\<rparr>)"
proof -
  have "unat v < 2 ^ 32" using unsigned_less [of v] by simp
  then have "unat v div 128 ^ 4 < 16" by (simp add: less_mult_imp_div_less)
  then have "length bs = 5 \<longrightarrow> unused_mask 32 AND last bs = 0"
    using assms leb_string_last [OF assms(3)] by (simp add: unused_mask_32)
  then have "varuint_from 32 0 [] p = Inr ([] @ bs, p\<lparr>raw_ptr := raw_ptr p + 0 + length bs\<rparr>)"
    using assms by (intro vu.accepts) (auto simp: at_cursor_def bytes_needed_simps)
  then show ?thesis
    using assms(5) by (simp add: parse_varuint32_def varuint_to32_def leb_accumulate_val)
qed

lemma varint_from_32_enc:
  assumes "wf_gptr p" and "at_cursor p bs" and "leb_string bs" and "length bs \<le> 5"
    and "sleb_val bs = sint v" and "length bs = 5 \<longrightarrow> int (unat (last bs)) = sint v div 128 ^ 4 mod 128"
  shows "parse_varint32 p = Inr (v, p\<lparr>raw_ptr := raw_ptr p + length bs\<rparr>)"
proof -
  have r: "- (2 ^ 31) \<le> sint v" "sint v < 2 ^ 31"
    using sint_ge [of v] sint_lt [of v] by simp_all
  have "length bs = 5 \<longrightarrow> sign_bits_ok 32 (last bs)"
  proof
    assume "length bs = 5"
    with assms(6) have "int (unat (last bs)) = sint v div 128 ^ 4 mod 128" by simp
    moreover have "-8 \<le> sint v div 128 ^ 4" "sint v div 128 ^ 4 < 8" using r by auto
    ultimately have "int (unat (last bs)) < 8 \<or> 120 \<le> int (unat (last bs))"
      using mod_neg_neg_small [of "sint v div 128 ^ 4"] by linarith
    then have "unat (last bs) < 8 \<or> 120 \<le> unat (last bs)" by linarith
    then show "sign_bits_ok 32 (last bs)" using leb_string_last [OF assms(3)] by (simp add: sign_bits_ok_32)
  qed
  then have "varint_from 32 0 [] p = Inr ([] @ bs, p\<lparr>raw_ptr := raw_ptr p + 0 + length bs\<rparr>)"
    using assms by (intro vs.accepts) (auto simp: at_cursor_def bytes_needed_simps)
  moreover have "varint_to 32 bs = (of_int (sint v) :: u32)"
    using assms leb_string_last [OF assms(3)]
    by (subst varint_to_val) (auto simp: bytes_needed_simps)
  ultimately show ?thesis by (simp add: parse_varint32_def)
qed

lemma varint_from_64_enc:
  assumes "wf_gptr p" and "at_cursor p bs" and "leb_string bs" and "length bs \<le> 10"
    and "sleb_val bs = sint v" and "length bs = 10 \<longrightarrow> int (unat (last bs)) = sint v div 128 ^ 9 mod 128"
  shows "parse_varint64 p = Inr (v, p\<lparr>raw_ptr := raw_ptr p + length bs\<rparr>)"
proof -
  have r: "- (2 ^ 63) \<le> sint v" "sint v < 2 ^ 63"
    using sint_ge [of v] sint_lt [of v] by simp_all
  have "length bs = 10 \<longrightarrow> sign_bits_ok 64 (last bs)"
  proof
    assume "length bs = 10"
    with assms(6) have l: "int (unat (last bs)) = sint v div 128 ^ 9 mod 128" by simp
    have "sint v div 128 ^ 9 = 0 \<or> sint v div 128 ^ 9 = -1" using r by auto
    with l have "int (unat (last bs)) = 0 \<or> int (unat (last bs)) = 127" by auto
    then have "unat (last bs) = 0 \<or> unat (last bs) = 127" by linarith
    then show "sign_bits_ok 64 (last bs)" by (auto simp: sign_bits_ok_64)
  qed
  then have "varint_from 64 0 [] p = Inr ([] @ bs, p\<lparr>raw_ptr := raw_ptr p + 0 + length bs\<rparr>)"
    using assms by (intro vs.accepts) (auto simp: at_cursor_def bytes_needed_simps)
  moreover have "varint_to 64 bs = (of_int (sint v) :: u64)"
    using assms leb_string_last [OF assms(3)]
    by (subst varint_to_val) (auto simp: bytes_needed_simps)
  ultimately show ?thesis by (simp add: parse_varint64_def)
qed

text \<open>Decoding inverts encoding for unsigned 32-bit values: \<open>varuint<32>(v)\<close> always fits its
  five bytes of storage, and \<open>parse_varuint32\<close> at a cursor over those bytes, whatever surrounds them,
  returns \<open>v\<close> and moves past exactly those bytes.\<close>

lemma varuint32_decodes:
  "\<exists>bs. varuint_enc (bytes_needed 32) v = Inr bs \<and> length bs \<le> 5 \<and>
     (\<forall>pre post. parse_varuint32 (gptr_over pre bs post) =
        Inr (v, (gptr_over pre bs post)\<lparr>raw_ptr := length pre + length bs\<rparr>))"
proof -
  have "unat v < 2 ^ 32" using unsigned_less [of v] by simp
  then have "unat v < 128 ^ 5" by simp
  from varuint_enc_ok [OF _ this] obtain bs where bs: "varuint_enc 5 v = Inr bs" "leb_string bs"
    "length bs \<le> 5" "leb_val bs = unat v" "length bs = 5 \<longrightarrow> unat (last bs) = unat v div 128 ^ 4"
    by auto
  then show ?thesis
    using varuint_from_32_enc [OF gptr_over_simps(2,3)] by (auto simp: bytes_needed_simps gptr_over_simps)
qed

text \<open>The same for signed 32-bit values: the sign-extending encoder's output is accepted by the
  unused-bits check and decodes to the encoded value, for every \<open>int32_t\<close>.\<close>

lemma varint32_decodes:
  "\<exists>bs. varint_enc (bytes_needed 32) (v :: u32) = Inr bs \<and> length bs \<le> 5 \<and>
     (\<forall>pre post. parse_varint32 (gptr_over pre bs post) =
        Inr (v, (gptr_over pre bs post)\<lparr>raw_ptr := length pre + length bs\<rparr>))"
proof -
  have "- (64 * 128 ^ (5 - 1)) \<le> sint v" "sint v < 64 * 128 ^ (5 - 1)"
    using sint_ge [of v] sint_lt [of v] by simp_all
  from varint_enc_ok [OF _ _ this] obtain bs where bs: "varint_enc 5 v = Inr bs" "leb_string bs"
    "length bs \<le> 5" "sleb_val bs = sint v"
    "length bs = 5 \<longrightarrow> int (unat (last bs)) = sint v div 128 ^ 4 mod 128"
    by auto
  then show ?thesis
    using varint_from_32_enc [OF gptr_over_simps(2,3)] by (auto simp: bytes_needed_simps gptr_over_simps)
qed

text \<open>The same for signed 64-bit values, where the tenth byte carries a single value bit.\<close>

lemma varint64_decodes:
  "\<exists>bs. varint_enc (bytes_needed 64) (v :: u64) = Inr bs \<and> length bs \<le> 10 \<and>
     (\<forall>pre post. parse_varint64 (gptr_over pre bs post) =
        Inr (v, (gptr_over pre bs post)\<lparr>raw_ptr := length pre + length bs\<rparr>))"
proof -
  have "- (64 * 128 ^ (10 - 1)) \<le> sint v" "sint v < 64 * 128 ^ (10 - 1)"
    using sint_ge [of v] sint_lt [of v] by simp_all
  from varint_enc_ok [OF _ _ this] obtain bs where bs: "varint_enc 10 v = Inr bs" "leb_string bs"
    "length bs \<le> 10" "sleb_val bs = sint v"
    "length bs = 10 \<longrightarrow> int (unat (last bs)) = sint v div 128 ^ 9 mod 128"
    by auto
  then show ?thesis
    using varint_from_64_enc [OF gptr_over_simps(2,3)] by (auto simp: bytes_needed_simps gptr_over_simps)
qed

text \<open>C20: integers of variable length survive encoding and decoding: what the encoders of \<open>leb128.hpp\<close> write for an unsigned
  32-bit, a signed 32-bit or a signed 64-bit integer fits the bytes reserved for it, is accepted by the reader with its
  check of unused bits, wherever it stands in a module, and gives the integer back.\<close>

theorem leb128_roundtrip:
  "(\<exists>bs. varuint_enc (bytes_needed 32) u = Inr bs \<and> length bs \<le> 5 \<and>
     (\<forall>pre post. parse_varuint32 (gptr_over pre bs post) =
        Inr (u, (gptr_over pre bs post)\<lparr>raw_ptr := length pre + length bs\<rparr>))) \<and>
   (\<exists>bs. varint_enc (bytes_needed 32) (v :: u32) = Inr bs \<and> length bs \<le> 5 \<and>
     (\<forall>pre post. parse_varint32 (gptr_over pre bs post) =
        Inr (v, (gptr_over pre bs post)\<lparr>raw_ptr := length pre + length bs\<rparr>))) \<and>
   (\<exists>bs. varint_enc (bytes_needed 64) (w :: u64) = Inr bs \<and> length bs \<le> 10 \<and>
     (\<forall>pre post. parse_varint64 (gptr_over pre bs post) =
        Inr (w, (gptr_over pre bs post)\<lparr>raw_ptr := length pre + length bs\<rparr>)))"
  by (intro conjI varuint32_decodes varint32_decodes varint64_decodes)

end
