(* ===== verification/Vm_Raw.thy ===== *)
theory Vm_Raw
  imports Vm_Leb128
begin

text \<open>
  Fixed-size values and UTF-8 names of \<^verbatim>\<open>parser.hpp\<close>: \<open>parse_raw\<close>, \<open>parse_v128\<close>,
  \<open>validate_utf8_code_point\<close>, \<open>validate_utf8_string\<close> and \<open>parse_utf8_string\<close>.

  Shown: the counter of \<open>validate_utf8_string\<close>, an unsigned integer that is decreased by the length
  of each code point and tested against zero, never runs below zero, so the loop ends at the end
  of the name; and the names accepted are exactly the UTF-8 encodings of sequences of Unicode
  scalar values.
\<close>

section \<open>Fixed-size values\<close>

definition parse_bytes :: "nat \<Rightarrow> u8 list parser" where
  "parse_bytes n p = scoped_shrink_bounds n
     (\<lambda>q. bindE (gp_raw_bytes n q) (\<lambda>bs. bindE (gp_add n q) (\<lambda>q'. Inr (bs, q')))) p"

definition parse_raw :: "nat \<Rightarrow> 'a::len word parser" where
  "parse_raw n p = bindE (parse_bytes n p) (\<lambda>(bs, p'). Inr (le_word bs, p'))"

definition parse_v128 :: "128 word parser" where
  "parse_v128 p = parse_raw 16 p"

section \<open>UTF-8\<close>

definition is_continuation :: "u8 \<Rightarrow> bool" where
  "is_continuation b \<longleftrightarrow> b AND 0xC0 = 0x80"

definition cp_part :: "u8 \<Rightarrow> u32 \<Rightarrow> nat \<Rightarrow> u32" where
  "cp_part b lead k = push_bit k (ucast b - lead)"

definition validate_utf8_code_point :: "nat parser" where
  "validate_utf8_code_point p = bindE (gp_next p) (\<lambda>(ch, p1).
     if ch < 0x80 then Inr (1, p1)
     else if ch < 0xE0 then
       assertE (ch AND 0xC0 = 0xC0) Wasm_parse_exception
       (bindE (gp_next p1) (\<lambda>(b2, p2). assertE (is_continuation b2) Wasm_parse_exception
         (let code_point = cp_part ch 0xC0 6 + cp_part b2 0x80 0 in
          assertE (0x80 \<le> code_point \<and> code_point < 0x800) Wasm_parse_exception (Inr (2, p2)))))
     else if ch < 0xF0 then
       bindE (gp_next p1) (\<lambda>(b2, p2). assertE (is_continuation b2) Wasm_parse_exception
       (bindE (gp_next p2) (\<lambda>(b3, p3). assertE (is_continuation b3) Wasm_parse_exception
         (let code_point = cp_part ch 0xE0 12 + cp_part b2 0x80 6 + cp_part b3 0x80 0 in
          assertE ((0x800 \<le> code_point \<and> code_point < 0xD800) \<or> (0xE000 \<le> code_point \<and> code_point < 0x10000))
            Wasm_parse_exception (Inr (3, p3))))))
     else if ch < 0xF8 then
       bindE (gp_next p1) (\<lambda>(b2, p2). assertE (is_continuation b2) Wasm_parse_exception
       (bindE (gp_next p2) (\<lambda>(b3, p3). assertE (is_continuation b3) Wasm_parse_exception
       (bindE (gp_next p3) (\<lambda>(b4, p4). assertE (is_continuation b4) Wasm_parse_exception
         (let code_point = cp_part ch 0xF0 18 + cp_part b2 0x80 12 + cp_part b3 0x80 6 + cp_part b4 0x80 0 in
          assertE (0x10000 \<le> code_point \<and> code_point < 0x110000) Wasm_parse_exception (Inr (4, p4))))))))
     else Inl Wasm_parse_exception)"

lemma validate_utf8_code_point_moves:
  assumes "validate_utf8_code_point p = Inr (n, p')"
  shows "raw_ptr p < bnds p" and "bnds p' = bnds p" and "raw_ptr p' = raw_ptr p + n" and "0 < n" and "n \<le> 4"
    and "p' = p\<lparr>raw_ptr := raw_ptr p + n\<rparr>" and "raw_ptr p' \<le> bnds p"
  using assms
  by (auto simp: validate_utf8_code_point_def res_simps gp_next_Inr Let_def split: if_splits)

lemma validate_utf8_code_point_decreases:
  "validate_utf8_code_point p = Inr (n, p') \<Longrightarrow> bnds p' - raw_ptr p' < bnds p - raw_ptr p"
  using validate_utf8_code_point_moves [of p n p'] by linarith

function validate_utf8_string :: "u32 \<Rightarrow> gptr \<Rightarrow> gptr res" where
  "validate_utf8_string bytes p =
     (if bytes \<noteq> 0
      then bindE (validate_utf8_code_point p) (\<lambda>(n, p'). validate_utf8_string (bytes - of_nat n) p')
      else Inr p)"
  by pat_completeness auto

termination
  by (relation "measure (\<lambda>(bytes, p). bnds p - raw_ptr p)")
    (auto dest: validate_utf8_code_point_decreases)

declare validate_utf8_string.simps [simp del]

definition parse_utf8_string :: "u32 \<Rightarrow> u8 list parser" where
  "parse_utf8_string max_size p = bindE (parse_varuint32 p) (\<lambda>(len, p1).
     assertE (len \<le> max_size) Wasm_parse_exception
     (scoped_shrink_bounds (unat len)
       (\<lambda>q. bindE (gp_raw_bytes (unat len) q) (\<lambda>bs. bindE (validate_utf8_string len q) (\<lambda>q'. Inr (bs, q')))) p1))"

section \<open>Cursor contract\<close>

lemma cursor_parser_bytes: "cursor_parser (parse_bytes n) n"
proof (rule cursor_parserI)
  fix p x p' assume "wf_gptr p" and "parse_bytes n p = Inr (x, p')"
  then show "gp_moved n p p'"
    by (auto simp: parse_bytes_def gp_defs res_simps gp_moved_def wf_gptr_def split: if_splits)
qed (auto simp: parse_bytes_def gp_defs assertE_def wf_gptr_def split: if_splits)

lemma cursor_parser_raw: "cursor_parser (parse_raw n) n"
  unfolding parse_raw_def [abs_def] by (rule cursor_parser_map [OF cursor_parser_bytes])

lemma cursor_parser_v128: "cursor_parser parse_v128 16"
  unfolding parse_v128_def [abs_def] by (rule cursor_parser_raw)

lemma cursor_parser_utf8_code_point: "cursor_parser validate_utf8_code_point 1"
proof (rule cursor_parserI)
  fix p n p' assume "validate_utf8_code_point p = Inr (n, p')"
  from validate_utf8_code_point_moves [OF this] show "gp_moved 1 p p'" by (simp add: gp_moved_def)
next
  fix p assume wf: "wf_gptr p"
  show "validate_utf8_code_point p \<noteq> Inl Undefined_behaviour"
    unfolding validate_utf8_code_point_def
    using nxt.safe nxt.keeps_wf wf
    by (auto simp: bindE_eq_Inl_iff assertE_eq_Inl_iff Let_def split: if_splits) blast+
qed

interpretation utf8_cp: cursor_parser validate_utf8_code_point 1
  by (rule cursor_parser_utf8_code_point)

lemma validate_utf8_string_moves:
  assumes "wf_gptr p" and "validate_utf8_string n p = Inr p'"
  shows "gp_moved 0 p p'"
  using assms
proof (induction n p rule: validate_utf8_string.induct)
  case (1 n p)
  show ?case
  proof (cases "n = 0")
    case True
    then show ?thesis using 1(2,3) by (auto simp: validate_utf8_string.simps intro: gp_intros)
  next
    case False
    with 1(3) obtain k q where cp: "validate_utf8_code_point p = Inr (k, q)"
      and rest: "validate_utf8_string (n - of_nat k) q = Inr p'"
      by (auto simp: validate_utf8_string.simps [of n] res_simps)
    have "gp_moved 0 q p'" using 1(1) [OF False cp refl utf8_cp.keeps_wf [OF 1(2) cp] rest] .
    with utf8_cp.moves [OF 1(2) cp] have "gp_moved (1 + 0) p p'" by (rule gp_moved_trans)
    then show ?thesis by (rule gp_moved_weaken) simp
  qed
qed

lemma validate_utf8_string_safe:
  assumes "wf_gptr p"
  shows "validate_utf8_string n p \<noteq> Inl Undefined_behaviour"
  using assms
proof (induction n p rule: validate_utf8_string.induct)
  case (1 n p)
  then show ?case
    using utf8_cp.safe [OF 1(2)] utf8_cp.keeps_wf [OF 1(2)]
    by (subst validate_utf8_string.simps) (auto simp: bindE_eq_Inl_iff)
qed

lemma parse_utf8_string_Inr:
  assumes "wf_gptr p" and "parse_utf8_string m p = Inr (bs, p')"
  obtains len p1 q where "parse_varuint32 p = Inr (len, p1)" and "len \<le> m" and "wf_gptr p1"
    and "unat len \<le> bnds p1 - raw_ptr p1" and "bs = take (unat len) (drop (raw_ptr p1) (gp_buf p1))"
    and "wf_gptr (p1\<lparr>bnds := raw_ptr p1 + unat len\<rparr>)"
    and "validate_utf8_string len (p1\<lparr>bnds := raw_ptr p1 + unat len\<rparr>) = Inr q"
    and "p' = q\<lparr>bnds := bnds p1\<rparr>"
proof -
  from assms(2) obtain len p1 q where r: "parse_varuint32 p = Inr (len, p1)" "len \<le> m"
      "unat len \<le> bnds p1 - raw_ptr p1" "bs = take (unat len) (drop (raw_ptr p1) (gp_buf p1))"
      "validate_utf8_string len (p1\<lparr>bnds := raw_ptr p1 + unat len\<rparr>) = Inr q" "p' = q\<lparr>bnds := bnds p1\<rparr>"
    by (auto simp: parse_utf8_string_def scoped_shrink_bounds_def gp_raw_bytes_def res_simps split: if_splits)
  have wf1: "wf_gptr p1" by (rule pvu32.keeps_wf [OF assms(1) r(1)])
  show thesis by (rule that [OF r(1,2) wf1 r(3,4) wf_gptr_shrunk [OF wf1 r(3)] r(5,6)])
qed

lemma cursor_parser_utf8_string: "cursor_parser (parse_utf8_string m) 1"
proof (rule cursor_parserI)
  fix p bs p' assume wf: "wf_gptr p" and eq: "parse_utf8_string m p = Inr (bs, p')"
  obtain len p1 q where v: "parse_varuint32 p = Inr (len, p1)" and "len \<le> m" and wf1: "wf_gptr p1"
    and le: "unat len \<le> bnds p1 - raw_ptr p1" and "bs = take (unat len) (drop (raw_ptr p1) (gp_buf p1))"
    and wfq: "wf_gptr (p1\<lparr>bnds := raw_ptr p1 + unat len\<rparr>)"
    and s: "validate_utf8_string len (p1\<lparr>bnds := raw_ptr p1 + unat len\<rparr>) = Inr q"
    and p': "p' = q\<lparr>bnds := bnds p1\<rparr>"
    by (rule parse_utf8_string_Inr [OF wf eq])
  have "gp_moved 0 p1 p'"
    using validate_utf8_string_moves [OF wfq s] wf1 le by (auto simp: gp_moved_def p' wf_gptr_def)
  with pvu32.moves [OF wf v] show "gp_moved 1 p p'" using gp_moved_trans [of 1 p p1 0 p'] by simp
next
  fix p assume wf: "wf_gptr p"
  show "parse_utf8_string m p \<noteq> Inl Undefined_behaviour"
  proof
    assume "parse_utf8_string m p = Inl Undefined_behaviour"
    then obtain len p1 where p1: "parse_varuint32 p = Inr (len, p1)" and len: "unat len \<le> bnds p1 - raw_ptr p1"
      and bad: "gp_raw_bytes (unat len) (p1\<lparr>bnds := raw_ptr p1 + unat len\<rparr>) = Inl Undefined_behaviour \<or>
        validate_utf8_string len (p1\<lparr>bnds := raw_ptr p1 + unat len\<rparr>) = Inl Undefined_behaviour"
      using pvu32.safe [OF wf]
      by (auto simp: parse_utf8_string_def scoped_shrink_bounds_def bindE_eq_Inl_iff assertE_eq_Inl_iff
          simp del: validate_utf8_string.simps)
    have wf1: "wf_gptr p1" by (rule pvu32.keeps_wf [OF wf p1])
    show False
      using bad validate_utf8_string_safe [OF wf_gptr_shrunk [OF wf1 len]] wf1 len
      by (auto simp: gp_raw_bytes_def wf_gptr_def split: if_splits)
  qed
qed

interpretation utf8: cursor_parser "parse_utf8_string m" 1 for m
  by (rule cursor_parser_utf8_string)

section \<open>The accepted names are the well-formed UTF-8 strings\<close>

definition is_scalar :: "nat \<Rightarrow> bool" where
  "is_scalar cp \<longleftrightarrow> cp < 0xD800 \<or> (0xE000 \<le> cp \<and> cp < 0x110000)"

definition utf8_encode :: "nat \<Rightarrow> u8 list" where
  "utf8_encode cp =
     (if cp < 0x80 then [of_nat cp]
      else if cp < 0x800 then [of_nat (0xC0 + cp div 64), of_nat (0x80 + cp mod 64)]
      else if cp < 0x10000 then
        [of_nat (0xE0 + cp div 4096), of_nat (0x80 + cp div 64 mod 64), of_nat (0x80 + cp mod 64)]
      else [of_nat (0xF0 + cp div 262144), of_nat (0x80 + cp div 4096 mod 64),
            of_nat (0x80 + cp div 64 mod 64), of_nat (0x80 + cp mod 64)])"

lemma unat_less_8: "unat (b :: u8) < 256"
  using unsigned_less [of b] by simp

lemma high_bits_u8: "unat (b AND 0xC0) = unat (b :: u8) - unat b mod 64"
proof -
  have "(0xC0 :: u8) = NOT (mask 6)" by (simp add: mask_eq_exp_minus_1)
  then show ?thesis using unat_and_not_mask [of b 6] by simp
qed

lemma is_continuation_iff: "is_continuation b \<longleftrightarrow> 0x80 \<le> unat b \<and> unat b < 0xC0"
proof -
  have "is_continuation b \<longleftrightarrow> unat b - unat b mod 64 = 128"
    by (simp add: is_continuation_def word_unat_eq_iff high_bits_u8)
  also have "\<dots> \<longleftrightarrow> unat b div 64 = 2"
    using div_mult_mod_eq [of "unat b" 64] by linarith
  also have "\<dots> \<longleftrightarrow> 0x80 \<le> unat b \<and> unat b < 0xC0" by linarith
  finally show ?thesis .
qed

lemma lead2_iff: "b AND 0xC0 = 0xC0 \<longleftrightarrow> 0xC0 \<le> unat (b :: u8)"
proof -
  have "b AND 0xC0 = 0xC0 \<longleftrightarrow> unat b - unat b mod 64 = 192"
    by (simp add: word_unat_eq_iff high_bits_u8)
  also have "\<dots> \<longleftrightarrow> unat b div 64 = 3"
    using div_mult_mod_eq [of "unat b" 64] by linarith
  also have "\<dots> \<longleftrightarrow> 0xC0 \<le> unat b" using unat_less_8 [of b] by linarith
  finally show ?thesis .
qed

lemma unat_cp_part:
  assumes "unat lead \<le> unat b" and "k \<le> 18"
  shows "unat (cp_part b lead k) = (unat b - unat lead) * 2 ^ k"
proof -
  have lt: "unat b < 256" using unsigned_less [of b] by simp
  have sub: "unat (ucast b - lead) = unat b - unat lead"
    using assms(1) by (subst unat_sub) (simp_all add: word_le_nat_alt unat_ucast_up)
  have "(2::nat) ^ k \<le> 2 ^ 18" using assms(2) by (intro power_increasing) simp_all
  then have "(unat b - unat lead) * 2 ^ k \<le> 255 * 2 ^ 18" using lt by (intro mult_mono) simp_all
  moreover have "unat (2 ^ k :: u32) = 2 ^ k" using assms(2) by (simp add: unat_two_power)
  ultimately have "unat ((ucast b - lead) * 2 ^ k) = (unat b - unat lead) * 2 ^ k"
    by (subst unat_mult_lem [THEN iffD1]) (simp_all add: sub)
  then show ?thesis by (simp add: cp_part_def push_bit_eq_mult)
qed

lemma at_cursor_Cons:
  assumes "wf_gptr p"
  shows "at_cursor p (b # bs) \<longleftrightarrow> gp_next p = Inr (b, p\<lparr>raw_ptr := raw_ptr p + 1\<rparr>)
     \<and> at_cursor (p\<lparr>raw_ptr := raw_ptr p + 1\<rparr>) bs"
proof (cases "raw_ptr p < bnds p")
  case True
  with assms have "raw_ptr p < length (gp_buf p)" by (simp add: wf_gptr_def)
  then have "drop (raw_ptr p) (gp_buf p) = gp_buf p ! raw_ptr p # drop (raw_ptr p + 1) (gp_buf p)"
    by (simp add: Cons_nth_drop_Suc)
  then show ?thesis using True \<open>raw_ptr p < length (gp_buf p)\<close> by (auto simp: at_cursor_def gp_next_Inr)
qed (auto simp: at_cursor_def gp_next_Inr)

lemma at_cursor_Nil [simp]: "wf_gptr p \<Longrightarrow> at_cursor p []"
  by (simp add: at_cursor_def wf_gptr_def)

lemma wf_gptr_next: "wf_gptr p \<Longrightarrow> gp_next p = Inr (b, p') \<Longrightarrow> wf_gptr p'"
  by (rule nxt.keeps_wf)

text \<open>Bytes of an encoding, as numbers.\<close>

lemma unat_byte: "n < 256 \<Longrightarrow> unat (of_nat n :: u8) = n"
  by (simp add: unat_of_nat_small)

lemma of_nat_byte: "n = unat (b :: u8) \<Longrightarrow> of_nat n = b"
  by simp

lemma cp2:
  assumes "0xC0 \<le> unat ch" "unat ch < 0xE0" "0x80 \<le> unat b2" "unat b2 < 0xC0"
  shows "unat (cp_part ch 0xC0 6 + cp_part b2 0x80 0) = (unat ch - 0xC0) * 64 + (unat b2 - 0x80)"
  using assms by (subst unat_add_no_wrap) (simp_all add: unat_cp_part)

lemma cp3:
  assumes "0xE0 \<le> unat ch" "unat ch < 0xF0" "0x80 \<le> unat b2" "unat b2 < 0xC0" "0x80 \<le> unat b3" "unat b3 < 0xC0"
  shows "unat (cp_part ch 0xE0 12 + cp_part b2 0x80 6 + cp_part b3 0x80 0) =
    (unat ch - 0xE0) * 4096 + (unat b2 - 0x80) * 64 + (unat b3 - 0x80)"
proof -
  have s: "unat (cp_part ch 0xE0 12 + cp_part b2 0x80 6) = (unat ch - 0xE0) * 4096 + (unat b2 - 0x80) * 64"
    using assms by (subst unat_add_no_wrap) (simp_all add: unat_cp_part)
  show ?thesis using assms by (subst unat_add_no_wrap) (simp_all add: unat_cp_part s)
qed

lemma cp4:
  assumes "0xF0 \<le> unat ch" "unat ch < 0xF8" "0x80 \<le> unat b2" "unat b2 < 0xC0"
    "0x80 \<le> unat b3" "unat b3 < 0xC0" "0x80 \<le> unat b4" "unat b4 < 0xC0"
  shows "unat (cp_part ch 0xF0 18 + cp_part b2 0x80 12 + cp_part b3 0x80 6 + cp_part b4 0x80 0) =
    (unat ch - 0xF0) * 262144 + (unat b2 - 0x80) * 4096 + (unat b3 - 0x80) * 64 + (unat b4 - 0x80)"
proof -
  have s1: "unat (cp_part ch 0xF0 18 + cp_part b2 0x80 12) = (unat ch - 0xF0) * 262144 + (unat b2 - 0x80) * 4096"
    using assms by (subst unat_add_no_wrap) (simp_all add: unat_cp_part)
  have s2: "unat (cp_part ch 0xF0 18 + cp_part b2 0x80 12 + cp_part b3 0x80 6) =
      (unat ch - 0xF0) * 262144 + (unat b2 - 0x80) * 4096 + (unat b3 - 0x80) * 64"
    using assms by (subst unat_add_no_wrap) (simp_all add: unat_cp_part s1)
  show ?thesis using assms by (subst unat_add_no_wrap) (simp_all add: unat_cp_part s2)
qed

lemmas u8_cmp = word_less_nat_alt word_le_nat_alt is_continuation_iff lead2_iff

text \<open>Every scalar value's encoding is accepted, with its length.\<close>

lemma six_bit_digits:
  "(cp :: nat) div 64 * 64 + cp mod 64 = cp"
  "cp div 4096 * 4096 + cp div 64 mod 64 * 64 + cp mod 64 = cp"
  "cp div 262144 * 262144 + cp div 4096 mod 64 * 4096 + cp div 64 mod 64 * 64 + cp mod 64 = cp"
proof -
  have a: "cp div 64 * 64 + cp mod 64 = cp" by simp
  have b: "cp div 4096 * 64 + cp div 64 mod 64 = cp div 64"
    using div_mult_mod_eq [of "cp div 64" 64] by (simp add: div_mult2_eq [of cp 64 64, simplified])
  have c: "cp div 262144 * 64 + cp div 4096 mod 64 = cp div 4096"
    using div_mult_mod_eq [of "cp div 4096" 64] by (simp add: div_mult2_eq [of cp 4096 64, simplified])
  show "cp div 64 * 64 + cp mod 64 = cp" by (rule a)
  show "cp div 4096 * 4096 + cp div 64 mod 64 * 64 + cp mod 64 = cp" using a b by linarith
  show "cp div 262144 * 262144 + cp div 4096 mod 64 * 4096 + cp div 64 mod 64 * 64 + cp mod 64 = cp"
    using a b c by linarith
qed

lemma lead_digit_less:
  "cp < 0x800 \<Longrightarrow> cp div 64 < 0x20" "cp < 0x10000 \<Longrightarrow> cp div 4096 < 0x10"
  "cp < 0x110000 \<Longrightarrow> cp div 262144 < 8" for cp :: nat
  by (simp_all add: less_mult_imp_div_less)

lemma tail_digit_less: "(n :: nat) mod 64 < 64"
  by simp

lemma next_at_cursor:
  assumes "wf_gptr p" and "at_cursor p (b # bs)"
  shows "gp_next p = Inr (b, p\<lparr>raw_ptr := raw_ptr p + 1\<rparr>)" and "wf_gptr (p\<lparr>raw_ptr := raw_ptr p + 1\<rparr>)"
    and "at_cursor (p\<lparr>raw_ptr := raw_ptr p + 1\<rparr>) bs"
  using assms at_cursor_Cons [OF assms(1)] wf_gptr_next by auto

lemma accepts_2:
  assumes wf: "wf_gptr p" and cp: "0x80 \<le> cp" "cp < 0x800" and at: "at_cursor p (utf8_encode cp)"
  shows "validate_utf8_code_point p = Inr (2, p\<lparr>raw_ptr := raw_ptr p + 2\<rparr>)"
proof -
  define c1 c2 where "c1 = (of_nat (0xC0 + cp div 64) :: u8)" and "c2 = (of_nat (0x80 + cp mod 64) :: u8)"
  have c: "unat c1 = 0xC0 + cp div 64" "unat c2 = 0x80 + cp mod 64"
    unfolding c1_def c2_def using lead_digit_less(1) [OF cp(2)] tail_digit_less by (intro unat_byte; simp)+
  have at': "at_cursor p [c1, c2]" using at cp by (simp add: utf8_encode_def c1_def c2_def)
  note n1 = next_at_cursor [OF wf at'] note n2 = next_at_cursor [OF n1(2,3)]
  have b: "0xC0 \<le> unat c1" "unat c1 < 0xE0" "0x80 \<le> unat c2" "unat c2 < 0xC0" 
    using c lead_digit_less(1) [OF cp(2)] tail_digit_less [of cp] by linarith+
  have v: "unat (cp_part c1 0xC0 6 + cp_part c2 0x80 0) = cp" using cp2 [OF b] c by simp
  show ?thesis using b cp v n1(1) n2(1)
    by (simp add: validate_utf8_code_point_def u8_cmp Let_def)
qed

lemma accepts_3:
  assumes wf: "wf_gptr p" and cp: "0x800 \<le> cp" "cp < 0x10000" "is_scalar cp" and at: "at_cursor p (utf8_encode cp)"
  shows "validate_utf8_code_point p = Inr (3, p\<lparr>raw_ptr := raw_ptr p + 3\<rparr>)"
proof -
  define c1 c2 c3 where "c1 = (of_nat (0xE0 + cp div 4096) :: u8)"
    and "c2 = (of_nat (0x80 + cp div 64 mod 64) :: u8)" and "c3 = (of_nat (0x80 + cp mod 64) :: u8)"
  have c: "unat c1 = 0xE0 + cp div 4096" "unat c2 = 0x80 + cp div 64 mod 64" "unat c3 = 0x80 + cp mod 64"
    unfolding c1_def c2_def c3_def
    using lead_digit_less(2) [OF cp(2)] tail_digit_less [of cp] tail_digit_less [of "cp div 64"]
    by (intro unat_byte; linarith)+
  have at': "at_cursor p [c1, c2, c3]" using at cp by (simp add: utf8_encode_def c1_def c2_def c3_def)
  note n1 = next_at_cursor [OF wf at'] note n2 = next_at_cursor [OF n1(2,3)] note n3 = next_at_cursor [OF n2(2,3)]
  have b: "0xE0 \<le> unat c1" "unat c1 < 0xF0" "0x80 \<le> unat c2" "unat c2 < 0xC0" "0x80 \<le> unat c3" "unat c3 < 0xC0"
    using c lead_digit_less(2) [OF cp(2)] tail_digit_less [of cp] tail_digit_less [of "cp div 64"] by linarith+
  have v: "unat (cp_part c1 0xE0 12 + cp_part c2 0x80 6 + cp_part c3 0x80 0) = cp"
    using cp3 [OF b] c six_bit_digits(2) [of cp] by simp
  show ?thesis using b cp v n1(1) n2(1) n3(1)
    by (simp add: validate_utf8_code_point_def u8_cmp Let_def is_scalar_def numeral_3_eq_3)
qed

lemma accepts_4:
  assumes wf: "wf_gptr p" and cp: "0x10000 \<le> cp" "cp < 0x110000" and at: "at_cursor p (utf8_encode cp)"
  shows "validate_utf8_code_point p = Inr (4, p\<lparr>raw_ptr := raw_ptr p + 4\<rparr>)"
proof -
  define c1 c2 c3 c4 where "c1 = (of_nat (0xF0 + cp div 262144) :: u8)"
    and "c2 = (of_nat (0x80 + cp div 4096 mod 64) :: u8)"
    and "c3 = (of_nat (0x80 + cp div 64 mod 64) :: u8)" and "c4 = (of_nat (0x80 + cp mod 64) :: u8)"
  have c: "unat c1 = 0xF0 + cp div 262144" "unat c2 = 0x80 + cp div 4096 mod 64"
    "unat c3 = 0x80 + cp div 64 mod 64" "unat c4 = 0x80 + cp mod 64"
    unfolding c1_def c2_def c3_def c4_def
    using lead_digit_less(3) [OF cp(2)] tail_digit_less [of cp] tail_digit_less [of "cp div 64"]
      tail_digit_less [of "cp div 4096"]
    by (intro unat_byte; linarith)+
  have at': "at_cursor p [c1, c2, c3, c4]" using at cp by (simp add: utf8_encode_def c1_def c2_def c3_def c4_def)
  note n1 = next_at_cursor [OF wf at'] note n2 = next_at_cursor [OF n1(2,3)]
  note n3 = next_at_cursor [OF n2(2,3)] note n4 = next_at_cursor [OF n3(2,3)]
  have b: "0xF0 \<le> unat c1" "unat c1 < 0xF8" "0x80 \<le> unat c2" "unat c2 < 0xC0" "0x80 \<le> unat c3" "unat c3 < 0xC0"
    "0x80 \<le> unat c4" "unat c4 < 0xC0"
    using c lead_digit_less(3) [OF cp(2)] tail_digit_less [of cp] tail_digit_less [of "cp div 64"]
      tail_digit_less [of "cp div 4096"] by linarith+
  have v: "unat (cp_part c1 0xF0 18 + cp_part c2 0x80 12 + cp_part c3 0x80 6 + cp_part c4 0x80 0) = cp"
    using cp4 [OF b] c six_bit_digits(3) [of cp] by simp
  show ?thesis using b cp v n1(1) n2(1) n3(1) n4(1)
    by (simp add: validate_utf8_code_point_def u8_cmp Let_def)
qed

lemma accepts_encoding:
  assumes wf: "wf_gptr p" and cp: "is_scalar cp" and at: "at_cursor p (utf8_encode cp)"
  shows "validate_utf8_code_point p =
    Inr (length (utf8_encode cp), p\<lparr>raw_ptr := raw_ptr p + length (utf8_encode cp)\<rparr>)"
proof -
  consider "cp < 0x80" | "0x80 \<le> cp" "cp < 0x800" | "0x800 \<le> cp" "cp < 0x10000" | "0x10000 \<le> cp" "cp < 0x110000"
    using cp unfolding is_scalar_def by linarith
  then show ?thesis
  proof cases
    case 1
    then show ?thesis using at at_cursor_Cons [OF wf]
      by (auto simp: utf8_encode_def validate_utf8_code_point_def word_less_nat_alt unat_byte)
  next
    case 2
    then show ?thesis using accepts_2 [OF wf _ _ at] by (simp add: utf8_encode_def numeral_2_eq_2)
  next
    case 3
    then show ?thesis using accepts_3 [OF wf _ _ cp at] by (simp add: utf8_encode_def numeral_3_eq_3)
  next
    case 4
    then show ?thesis using accepts_4 [OF wf _ _ at] by (simp add: utf8_encode_def)
  qed
qed

text \<open>Conversely, whatever is accepted is the encoding of a scalar value.\<close>

lemma next_cursorD:
  assumes "wf_gptr p" and "gp_next p = Inr (b, p')"
  shows "wf_gptr p'" and "at_cursor p' bs \<Longrightarrow> at_cursor p (b # bs)" and "p' = p\<lparr>raw_ptr := raw_ptr p + 1\<rparr>"
proof -
  show p': "p' = p\<lparr>raw_ptr := raw_ptr p + 1\<rparr>" using assms(2) by (simp add: gp_next_Inr)
  show "wf_gptr p'" by (rule wf_gptr_next [OF assms])
  show "at_cursor p' bs \<Longrightarrow> at_cursor p (b # bs)" using at_cursor_Cons [OF assms(1)] assms(2) p' by simp
qed

lemma six_bit_sum:
  assumes "z < (64 :: nat)"
  shows "(x * 64 + z) div 64 = x" and "(x * 64 + z) mod 64 = z"
  using assms by simp_all

lemma offset_byte:
  assumes "lead \<le> unat (b :: u8)"
  obtains x where "unat b = lead + x" and "of_nat (lead + x) = b"
proof (rule that [of "unat b - lead"])
  show eq: "unat b = lead + (unat b - lead)" using assms by simp
  show "of_nat (lead + (unat b - lead)) = b" using eq by (metis of_nat_byte)
qed

lemma utf8_encode_2:
  assumes "0xC0 \<le> unat ch" "unat ch < 0xE0" "0x80 \<le> unat b2" "unat b2 < 0xC0"
    and "cp = (unat ch - 0xC0) * 64 + (unat b2 - 0x80)" and "0x80 \<le> cp"
  shows "utf8_encode cp = [ch, b2]"
proof -
  obtain x where x: "unat ch = 0xC0 + x" "of_nat (0xC0 + x) = ch" by (rule offset_byte [OF assms(1)])
  obtain y where y: "unat b2 = 0x80 + y" "of_nat (0x80 + y) = b2" by (rule offset_byte [OF assms(3)])
  have lt: "y < 64" "x < 32" using assms(2,4) x y by linarith+
  have cp: "cp = x * 64 + y" using assms(5) x y by simp
  then have "cp < 0x800" using lt by linarith
  moreover have "cp div 64 = x" "cp mod 64 = y" unfolding cp by (rule six_bit_sum [OF lt(1)])+
  ultimately show ?thesis using assms(6) x(2) y(2) by (simp add: utf8_encode_def)
qed

lemma utf8_encode_3:
  assumes "0xE0 \<le> unat ch" "unat ch < 0xF0" "0x80 \<le> unat b2" "unat b2 < 0xC0" "0x80 \<le> unat b3" "unat b3 < 0xC0"
    and "cp = (unat ch - 0xE0) * 4096 + (unat b2 - 0x80) * 64 + (unat b3 - 0x80)" and "0x800 \<le> cp"
  shows "utf8_encode cp = [ch, b2, b3]"
proof -
  obtain x where x: "unat ch = 0xE0 + x" "of_nat (0xE0 + x) = ch" by (rule offset_byte [OF assms(1)])
  obtain y where y: "unat b2 = 0x80 + y" "of_nat (0x80 + y) = b2" by (rule offset_byte [OF assms(3)])
  obtain z where z: "unat b3 = 0x80 + z" "of_nat (0x80 + z) = b3" by (rule offset_byte [OF assms(5)])
  have lt: "z < 64" "y < 64" "x < 16" using assms(2,4,6) x y z by linarith+
  have cp: "cp = (x * 64 + y) * 64 + z" using assms(7) x y z by simp
  have d: "cp div 64 = x * 64 + y" "cp mod 64 = z" unfolding cp by (rule six_bit_sum [OF lt(1)])+
  have d2: "cp div 4096 = x" using div_mult2_eq [of cp 64 64] d(1) six_bit_sum(1) [OF lt(2)] by simp
  have "cp = x * 4096 + y * 64 + z" using cp by simp
  then have "cp < 0x10000" using lt by linarith
  moreover have "cp div 64 mod 64 = y" using d(1) six_bit_sum(2) [OF lt(2), of x] by simp
  ultimately show ?thesis using assms(8) x(2) y(2) z(2) by (simp add: utf8_encode_def d(2) d2)
qed

lemma utf8_encode_4:
  assumes "0xF0 \<le> unat ch" "unat ch < 0xF8" "0x80 \<le> unat b2" "unat b2 < 0xC0"
    "0x80 \<le> unat b3" "unat b3 < 0xC0" "0x80 \<le> unat b4" "unat b4 < 0xC0"
    and "cp = (unat ch - 0xF0) * 262144 + (unat b2 - 0x80) * 4096 + (unat b3 - 0x80) * 64 + (unat b4 - 0x80)"
    and "0x10000 \<le> cp"
  shows "utf8_encode cp = [ch, b2, b3, b4]"
proof -
  obtain v where v: "unat ch = 0xF0 + v" "of_nat (0xF0 + v) = ch" by (rule offset_byte [OF assms(1)])
  obtain x where x: "unat b2 = 0x80 + x" "of_nat (0x80 + x) = b2" by (rule offset_byte [OF assms(3)])
  obtain y where y: "unat b3 = 0x80 + y" "of_nat (0x80 + y) = b3" by (rule offset_byte [OF assms(5)])
  obtain z where z: "unat b4 = 0x80 + z" "of_nat (0x80 + z) = b4" by (rule offset_byte [OF assms(7)])
  have lt: "z < 64" "y < 64" "x < 64" using assms(4,6,8) x y z by linarith+
  have cp: "cp = ((v * 64 + x) * 64 + y) * 64 + z" using assms(9) v x y z by simp
  have d: "cp div 64 = (v * 64 + x) * 64 + y" "cp mod 64 = z" unfolding cp by (rule six_bit_sum [OF lt(1)])+
  have d2: "cp div 4096 = v * 64 + x" using div_mult2_eq [of cp 64 64] d(1) six_bit_sum(1) [OF lt(2)] by simp
  have d3: "cp div 262144 = v" using div_mult2_eq [of cp 4096 64] d2 six_bit_sum(1) [OF lt(3)] by simp
  have "cp div 64 mod 64 = y" unfolding d(1) by (rule six_bit_sum(2) [OF lt(2)])
  moreover have "cp div 4096 mod 64 = x" unfolding d2 by (rule six_bit_sum(2) [OF lt(3)])
  ultimately show ?thesis using assms(10) v(2) x(2) y(2) z(2) by (simp add: utf8_encode_def d(2) d3)
qed

lemma accepted_4:
  assumes wf: "wf_gptr p" and g1: "gp_next p = Inr (ch, p1)" and ge: "\<not> ch < 0xF0" and lt: "ch < 0xF8"
    and ok: "validate_utf8_code_point p = Inr (n, p')"
  shows "\<exists>cp. is_scalar cp \<and> at_cursor p (utf8_encode cp) \<and> n = length (utf8_encode cp)"
proof -
  note c1 = next_cursorD [OF wf g1]
  have "\<not> ch < 0x80" "\<not> ch < 0xE0" using ge by (simp_all add: word_less_nat_alt)
  with lt ge ok g1 obtain b2 p2 b3 p3 b4 p4 where g2: "gp_next p1 = Inr (b2, p2)" and g3: "gp_next p2 = Inr (b3, p3)"
    and g4: "gp_next p3 = Inr (b4, p4)"
    and cont: "0x80 \<le> unat b2" "unat b2 < 0xC0" "0x80 \<le> unat b3" "unat b3 < 0xC0" "0x80 \<le> unat b4" "unat b4 < 0xC0"
    and n: "n = 4"
    and rng: "0x10000 \<le> unat (cp_part ch 0xF0 18 + cp_part b2 0x80 12 + cp_part b3 0x80 6 + cp_part b4 0x80 0)"
      "is_scalar (unat (cp_part ch 0xF0 18 + cp_part b2 0x80 12 + cp_part b3 0x80 6 + cp_part b4 0x80 0))"
    by (auto simp: validate_utf8_code_point_def res_simps u8_cmp Let_def is_scalar_def)
  have lead: "0xF0 \<le> unat ch" "unat ch < 0xF8" using lt ge by (simp_all add: word_less_nat_alt)
  note v = cp4 [OF lead cont] note e = utf8_encode_4 [OF lead cont v rng(1)]
  note c2 = next_cursorD [OF c1(1) g2] note c3 = next_cursorD [OF c2(1) g3] note c4 = next_cursorD [OF c3(1) g4]
  show ?thesis using c1(2) c2(2) c3(2) c4(1) c4(2) [of "[]"] n rng(2)
    by (intro exI [of _ "unat (cp_part ch 0xF0 18 + cp_part b2 0x80 12 + cp_part b3 0x80 6 + cp_part b4 0x80 0)"])
      (simp add: e)
qed

lemma accepted_is_encoding:
  assumes wf: "wf_gptr p" and ok: "validate_utf8_code_point p = Inr (n, p')"
  shows "\<exists>cp. is_scalar cp \<and> at_cursor p (utf8_encode cp) \<and> n = length (utf8_encode cp)"
proof -
  from ok obtain ch p1 where g1: "gp_next p = Inr (ch, p1)"
    by (auto simp: validate_utf8_code_point_def res_simps)
  note c1 = next_cursorD [OF wf g1]
  consider "ch < 0x80" | "\<not> ch < 0x80" "ch < 0xE0" | "\<not> ch < 0xE0" "ch < 0xF0" | "\<not> ch < 0xF0" "ch < 0xF8"
    using ok g1 by (auto simp: validate_utf8_code_point_def res_simps split: if_splits)
  then show ?thesis
  proof cases
    case 1
    then have "utf8_encode (unat ch) = [ch]" by (simp add: utf8_encode_def word_less_nat_alt)
    moreover have "n = 1" using ok g1 1 by (simp add: validate_utf8_code_point_def)
    moreover have "is_scalar (unat ch)" using 1 by (simp add: is_scalar_def word_less_nat_alt)
    ultimately show ?thesis using c1 by (intro exI [of _ "unat ch"]) simp
  next
    case 2
    then obtain b2 p2 where g2: "gp_next p1 = Inr (b2, p2)" and lead: "0xC0 \<le> unat ch"
      and cont: "0x80 \<le> unat b2" "unat b2 < 0xC0" and n: "n = 2"
      and rng: "0x80 \<le> unat (cp_part ch 0xC0 6 + cp_part b2 0x80 0)"
        "unat (cp_part ch 0xC0 6 + cp_part b2 0x80 0) < 0x800"
      using ok g1 by (auto simp: validate_utf8_code_point_def res_simps u8_cmp Let_def)
    have lt: "unat ch < 0xE0" using 2 by (simp add: word_less_nat_alt)
    note v = cp2 [OF lead lt cont] note e = utf8_encode_2 [OF lead lt cont v rng(1)]
    note c2 = next_cursorD [OF c1(1) g2]
    show ?thesis using c1(2) c2(1) c2(2) [of "[]"] n rng(2)
      by (intro exI [of _ "unat (cp_part ch 0xC0 6 + cp_part b2 0x80 0)"]) (simp add: e is_scalar_def)
  next
    case 3
    then obtain b2 p2 b3 p3 where g2: "gp_next p1 = Inr (b2, p2)" and g3: "gp_next p2 = Inr (b3, p3)"
      and cont: "0x80 \<le> unat b2" "unat b2 < 0xC0" "0x80 \<le> unat b3" "unat b3 < 0xC0" and n: "n = 3"
      and rng: "0x800 \<le> unat (cp_part ch 0xE0 12 + cp_part b2 0x80 6 + cp_part b3 0x80 0)"
        "is_scalar (unat (cp_part ch 0xE0 12 + cp_part b2 0x80 6 + cp_part b3 0x80 0))"
      using ok g1 by (auto simp: validate_utf8_code_point_def res_simps u8_cmp Let_def is_scalar_def)
    have lead: "0xE0 \<le> unat ch" "unat ch < 0xF0" using 3 by (simp_all add: word_less_nat_alt)
    note v = cp3 [OF lead cont] note e = utf8_encode_3 [OF lead cont v rng(1)]
    note c2 = next_cursorD [OF c1(1) g2] note c3 = next_cursorD [OF c2(1) g3]
    show ?thesis using c1(2) c2(2) c3(1) c3(2) [of "[]"] n rng(2)
      by (intro exI [of _ "unat (cp_part ch 0xE0 12 + cp_part b2 0x80 6 + cp_part b3 0x80 0)"]) (simp add: e)
  next
    case 4
    then show ?thesis by (intro accepted_4 [OF wf g1 _ _ ok])
  qed
qed

text \<open>From code points to strings: the counter reaches zero exactly at the end of the bytes.\<close>

definition utf8_text :: "u8 list \<Rightarrow> bool" where
  "utf8_text bs \<longleftrightarrow> (\<exists>cps. list_all is_scalar cps \<and> bs = concat (map utf8_encode cps))"

lemma at_cursor_append:
  assumes "wf_gptr p"
  shows "at_cursor p (xs @ ys) \<longleftrightarrow> at_cursor p xs \<and> at_cursor (p\<lparr>raw_ptr := raw_ptr p + length xs\<rparr>) ys"
  using assms
proof (induction xs arbitrary: p)
  case Nil
  then show ?case by simp
next
  case (Cons x xs)
  then show ?case
    using Cons.IH [of "p\<lparr>raw_ptr := raw_ptr p + 1\<rparr>"] next_cursorD(1) [OF Cons.prems, of x]
    by (auto simp: at_cursor_Cons)
qed

lemma of_nat_eq_0_u32: "n < 2 ^ 32 \<Longrightarrow> (of_nat n :: u32) = 0 \<longleftrightarrow> n = 0"
  using unat_of_nat_small [of n, where ?'a = 32] by (auto simp: word_unat_eq_iff)

lemma utf8_encode_ne [simp]: "0 < length (utf8_encode cp)"
  by (simp add: utf8_encode_def)

lemma validate_utf8_string_complete:
  "list_all is_scalar cps \<Longrightarrow> wf_gptr p \<Longrightarrow> at_cursor p (concat (map utf8_encode cps)) \<Longrightarrow>
   bnds p = raw_ptr p + length (concat (map utf8_encode cps)) \<Longrightarrow> length (concat (map utf8_encode cps)) < 2 ^ 32 \<Longrightarrow>
   validate_utf8_string (of_nat (length (concat (map utf8_encode cps)))) p = Inr (p\<lparr>raw_ptr := bnds p\<rparr>)"
proof (induction cps arbitrary: p)
  case Nil
  then show ?case by (simp add: validate_utf8_string.simps)
next
  case (Cons cp cps)
  let ?e = "utf8_encode cp" and ?r = "concat (map utf8_encode cps)"
  let ?q = "p\<lparr>raw_ptr := raw_ptr p + length ?e\<rparr>"
  have at: "at_cursor p ?e" "at_cursor ?q ?r" using Cons.prems(2,3) by (simp_all add: at_cursor_append)
  have v: "validate_utf8_code_point p = Inr (length ?e, ?q)"
    using Cons.prems(1,2) at(1) by (intro accepts_encoding) simp_all
  have "(of_nat (length ?e + length ?r) :: u32) \<noteq> 0"
    using Cons.prems(5) utf8_encode_ne [of cp] of_nat_eq_0_u32 [of "length ?e + length ?r"] by fastforce
  then have "validate_utf8_string (of_nat (length (?e @ ?r))) p = validate_utf8_string (of_nat (length ?r)) ?q"
    by (subst validate_utf8_string.simps) (simp add: v)
  moreover have "validate_utf8_string (of_nat (length ?r)) ?q = Inr (?q\<lparr>raw_ptr := bnds ?q\<rparr>)"
    using Cons.prems at(2) utf8_cp.keeps_wf [OF Cons.prems(2) v] by (intro Cons.IH) simp_all
  ultimately show ?case by simp
qed

lemma validate_utf8_string_sound:
  assumes "wf_gptr p" and "bytes = of_nat (bnds p - raw_ptr p)" and "bnds p - raw_ptr p < 2 ^ 32"
    and "validate_utf8_string bytes p = Inr q"
  shows "\<exists>cps. list_all is_scalar cps \<and> at_cursor p (concat (map utf8_encode cps))
    \<and> bnds p = raw_ptr p + length (concat (map utf8_encode cps))"
  using assms
proof (induction bytes p rule: validate_utf8_string.induct)
  case (1 bytes p)
  show ?case
  proof (cases "bytes = 0")
    case True
    then have "bnds p - raw_ptr p = 0" using 1(3) of_nat_eq_0_u32 [OF 1(4)] by metis
    then have "bnds p = raw_ptr p" using 1(2) by (simp add: wf_gptr_def)
    then show ?thesis using 1(2) by (intro exI [of _ "[]"]) simp
  next
    case False
    with 1(5) obtain n p' where cp: "validate_utf8_code_point p = Inr (n, p')"
      and rest: "validate_utf8_string (bytes - of_nat n) p' = Inr q"
      by (auto simp: validate_utf8_string.simps [of bytes] res_simps)
    note m = validate_utf8_code_point_moves [OF cp]
    obtain c where c: "is_scalar c" "at_cursor p (utf8_encode c)" "n = length (utf8_encode c)"
      using accepted_is_encoding [OF 1(2) cp] by blast
    have b: "bytes - of_nat n = of_nat (bnds p' - raw_ptr p')"
      using 1(3) m by (simp add: of_nat_diff)
    have "bnds p' - raw_ptr p' < 2 ^ 32" using 1(4) m by simp
    from 1(1) [OF False cp refl utf8_cp.keeps_wf [OF 1(2) cp] b this rest] obtain cps where
      "list_all is_scalar cps" "at_cursor p' (concat (map utf8_encode cps))"
      "bnds p' = raw_ptr p' + length (concat (map utf8_encode cps))" by blast
    then show ?thesis using c m 1(2) by (intro exI [of _ "c # cps"]) (simp add: at_cursor_append)
  qed
qed

lemma validate_utf8_string_iff:
  assumes wf: "wf_gptr p" and at: "at_cursor p bs" and b: "bnds p = raw_ptr p + length bs" and len: "length bs < 2 ^ 32"
  shows "(\<exists>q. validate_utf8_string (of_nat (length bs)) p = Inr q) \<longleftrightarrow> utf8_text bs"
    and "validate_utf8_string (of_nat (length bs)) p = Inr q \<Longrightarrow> q = p\<lparr>raw_ptr := bnds p\<rparr>"
proof -
  have sound: "\<exists>cps. list_all is_scalar cps \<and> bs = concat (map utf8_encode cps)"
    if "validate_utf8_string (of_nat (length bs)) p = Inr q" for q
  proof -
    have "bnds p - raw_ptr p < 2 ^ 32" "(of_nat (length bs) :: u32) = of_nat (bnds p - raw_ptr p)"
      using b len by simp_all
    from validate_utf8_string_sound [OF wf this(2,1) that] obtain cps where
      cps: "list_all is_scalar cps" "at_cursor p (concat (map utf8_encode cps))"
        "bnds p = raw_ptr p + length (concat (map utf8_encode cps))" by blast
    then have "length (concat (map utf8_encode cps)) = length bs" using b by linarith
    then have "concat (map utf8_encode cps) = bs" using cps(2) at unfolding at_cursor_def by metis
    then show ?thesis using cps(1) by blast
  qed
  have complete: "validate_utf8_string (of_nat (length bs)) p = Inr (p\<lparr>raw_ptr := bnds p\<rparr>)" if "utf8_text bs"
    using that validate_utf8_string_complete [OF _ wf] at b len by (auto simp: utf8_text_def)
  show "(\<exists>q. validate_utf8_string (of_nat (length bs)) p = Inr q) \<longleftrightarrow> utf8_text bs"
    using sound complete by (auto simp: utf8_text_def)
  show "q = p\<lparr>raw_ptr := bnds p\<rparr>" if "validate_utf8_string (of_nat (length bs)) p = Inr q"
    using sound [OF that] complete that by (auto simp: utf8_text_def)
qed

lemma parse_enc_varuint32:
  assumes "varuint_enc (bytes_needed 32) v = Inr e"
  shows "parse_varuint32 (gptr_over pre e post) =
    Inr (v, (gptr_over pre e post)\<lparr>raw_ptr := length pre + length e\<rparr>)"
proof -
  have "unat v < 2 ^ 32" using unsigned_less [of v] by simp
  then have "unat v < 128 ^ 5" by simp
  from varuint_enc_ok [OF _ this] show ?thesis
    using varuint_from_32_enc [OF gptr_over_simps(2,3)] assms
    by (auto simp: bytes_needed_simps gptr_over_simps)
qed

text \<open>
  C19: \<open>parse_utf8_string\<close> on a length-prefixed name: it is accepted exactly when the name does not exceed
  the limit and its bytes are the UTF-8 encoding of some sequence of Unicode scalar values (no
  overlong form, no surrogate, nothing above U+10FFFF, no truncated sequence); the bytes are then
  returned unchanged and the cursor stands directly behind them.
\<close>

theorem parse_utf8_string_exact:
  assumes enc: "varuint_enc (bytes_needed 32) (of_nat (length bs) :: u32) = Inr e" and len: "length bs < 2 ^ 32"
  shows "parse_utf8_string m (gptr_over pre (e @ bs) post) = Inr (ns, p') \<longleftrightarrow>
      utf8_text bs \<and> (of_nat (length bs) :: u32) \<le> m \<and> ns = bs \<and>
      p' = (gptr_over pre (e @ bs) post)\<lparr>raw_ptr := length pre + length e + length bs\<rparr>"
proof -
  let ?p = "gptr_over pre (e @ bs) post" and ?n = "of_nat (length bs) :: u32"
  let ?p1 = "?p\<lparr>raw_ptr := length pre + length e\<rparr>"
  let ?q = "?p1\<lparr>bnds := length pre + length e + length bs\<rparr>"
  have n: "unat ?n = length bs" using len by (simp add: unat_of_nat_small)
  have v: "parse_varuint32 ?p = Inr (?n, ?p1)"
    using parse_enc_varuint32 [OF enc, of pre "bs @ post"] by (simp add: gptr_over_def add.assoc)
  have wfq: "wf_gptr ?q" and atq: "at_cursor ?q bs"
    by (simp_all add: gptr_over_def mk_gptr_def wf_gptr_def at_cursor_def)
  have "(\<exists>q'. validate_utf8_string ?n ?q = Inr q') \<longleftrightarrow> utf8_text bs"
    and val: "\<And>q'. validate_utf8_string ?n ?q = Inr q' \<Longrightarrow> q' = ?q\<lparr>raw_ptr := bnds ?q\<rparr>"
    using validate_utf8_string_iff [OF wfq atq _ len] by auto
  then have "validate_utf8_string ?n ?q = Inr q' \<longleftrightarrow> utf8_text bs \<and> q' = ?q\<lparr>raw_ptr := bnds ?q\<rparr>" for q'
    by metis
  moreover have "gp_raw_bytes (length bs) ?q = Inr bs"
    by (simp add: gp_raw_bytes_def gptr_over_def mk_gptr_def)
  moreover have "length bs \<le> bnds ?p1 - raw_ptr ?p1" by (simp add: gptr_over_def mk_gptr_def)
  ultimately show ?thesis
    by (auto simp: parse_utf8_string_def v scoped_shrink_bounds_def res_simps n)
qed

theorem parse_utf8_string_exact_witness:
  "parse_utf8_string 10 (gptr_over [7] [2, 0xC3, 0xA9] [0]) =
     Inr ([0xC3, 0xA9], (gptr_over [7] [2, 0xC3, 0xA9] [0])\<lparr>raw_ptr := 4\<rparr>)"
proof -
  have enc: "varuint_enc (bytes_needed 32) (of_nat (length [0xC3, 0xA9 :: u8]) :: u32) = Inr [2]"
    by code_simp
  have "utf8_text [0xC3, 0xA9]"
    unfolding utf8_text_def by (rule exI [of _ "[0xE9]"]) (simp add: is_scalar_def utf8_encode_def)
  then show ?thesis
    using parse_utf8_string_exact [OF enc, of 10 "[7]" "[0]"] by simp
qed

end
