(* ===== verification/Vm_Types.thy ===== *)
theory Vm_Types
  imports Vm_Prelude
begin

text \<open>
  The data of \<^verbatim>\<open>types.hpp\<close>, \<^verbatim>\<open>constants.hpp\<close>, \<^verbatim>\<open>sections.hpp\<close> and \<^verbatim>\<open>options.hpp\<close>: value types,
  function types and their comparison, the entries of the sections, the module, and the options
  that parametrise the parser.  Indices into the module's vectors are naturals (the code's
  \<open>uint32_t\<close> read with \<open>unat\<close>); 128-bit unions (\<open>expr_value\<close>, \<open>v128_t\<close>) are 128-bit words.
\<close>

section \<open>Constants\<close>

type_synonym value_type = u8

abbreviation t_i32 :: value_type where "t_i32 \<equiv> 0x7F"
abbreviation t_i64 :: value_type where "t_i64 \<equiv> 0x7E"
abbreviation t_f32 :: value_type where "t_f32 \<equiv> 0x7D"
abbreviation t_f64 :: value_type where "t_f64 \<equiv> 0x7C"
abbreviation t_v128 :: value_type where "t_v128 \<equiv> 0x7B"
abbreviation t_anyfunc :: value_type where "t_anyfunc \<equiv> 0x70"
abbreviation t_pseudo :: value_type where "t_pseudo \<equiv> 0x40"

datatype external_kind = Function | Table | Memory | Global | Unknown_kind u8

definition external_kind_of :: "u8 \<Rightarrow> external_kind" where
  "external_kind_of b = (if b = 0 then Function else if b = 1 then Table else if b = 2 then Memory
     else if b = 3 then Global else Unknown_kind b)"

definition wasm_magic :: u32 where "wasm_magic = 0x6D736100"
definition wasm_version :: u32 where "wasm_version = 1"
definition page_size :: nat where "page_size = 64 * 1024"
definition max_useable_memory :: nat where "max_useable_memory = 2 ^ 32"
definition max_pages :: nat where "max_pages = max_useable_memory div page_size"
definition max_memory :: nat where "max_memory = 4 * 2 ^ 31"
definition default_max_call_depth :: nat where "default_max_call_depth = 250"
definition initial_stack_size :: nat where "initial_stack_size = 8"

section \<open>Options\<close>

text \<open>
  A member that an options type may lack altogether, and whose absence removes the check, is an
  \<open>option\<close>; the others carry the default of the \<open>PARSER_OPTION\<close>/\<open>MAX_ELEMENTS\<close> getters.  The byte
  counters have the 64-bit width they have with \<open>struct options\<close>.
\<close>

record vm_options =
  max_mutable_global_bytes :: "u64 option"
  max_table_elements :: u32
  max_type_section_elements :: u32
  max_import_section_elements :: u32
  max_function_section_elements :: u32
  max_global_section_elements :: u32
  max_export_section_elements :: u32
  max_element_section_elements :: u32
  max_data_section_elements :: u32
  max_element_segment_elements :: u32
  max_data_segment_bytes :: u32
  max_linear_memory_init :: u64
  max_func_local_bytes :: "u64 option"
  flag_params :: bool
  flag_locals :: bool
  flag_stack :: bool
  max_local_sets :: u32
  eosio_max_nested_structures :: "u32 option"
  max_nested_structures :: u32
  max_br_table_elements :: u32
  max_symbol_bytes :: u32
  max_memory_offset :: u32
  max_code_bytes :: u32
  opt_max_pages :: u32
  max_call_depth :: u32
  max_stack_bytes :: "u32 option"
  forbid_export_mutable_globals :: bool
  allow_code_after_function_end :: bool
  allow_u32_limits_flags :: bool
  allow_invalid_empty_local_set :: bool
  allow_zero_blocktype :: bool
  opt_eosio_fp :: bool
  parse_custom_section_name :: bool
  enable_simd :: bool
  enable_bulk_memory :: bool
  enable_sign_ext :: bool
  enable_nontrapping_fptoint :: bool

definition default_options :: vm_options where
  "default_options = \<lparr>
     max_mutable_global_bytes = None, max_table_elements = 0xFFFFFFFF,
     max_type_section_elements = 0xFFFFFFFF, max_import_section_elements = 0xFFFFFFFF,
     max_function_section_elements = 0xFFFFFFFF, max_global_section_elements = 0xFFFFFFFF,
     max_export_section_elements = 0xFFFFFFFF, max_element_section_elements = 0xFFFFFFFF,
     max_data_section_elements = 0xFFFFFFFF, max_element_segment_elements = 0xFFFFFFFF,
     max_data_segment_bytes = 0xFFFFFFFF, max_linear_memory_init = 0xFFFFFFFFFFFFFFFF,
     max_func_local_bytes = None, flag_params = False, flag_locals = True, flag_stack = True,
     max_local_sets = 0xFFFFFFFF, eosio_max_nested_structures = None,
     max_nested_structures = 0xFFFFFFFF, max_br_table_elements = 0xFFFFFFFF,
     max_symbol_bytes = 0xFFFFFFFF, max_memory_offset = 0xFFFFFFFF, max_code_bytes = 0xFFFFFFFF,
     opt_max_pages = 0xFFFFFFFF, max_call_depth = 251, max_stack_bytes = None,
     forbid_export_mutable_globals = False, allow_code_after_function_end = False,
     allow_u32_limits_flags = False, allow_invalid_empty_local_set = False,
     allow_zero_blocktype = False, opt_eosio_fp = False, parse_custom_section_name = False,
     enable_simd = True, enable_bulk_memory = True, enable_sign_ext = True,
     enable_nontrapping_fptoint = True\<rparr>"

definition eosio_options :: vm_options where
  "eosio_options = default_options\<lparr>
     max_mutable_global_bytes := Some 1024, max_table_elements := 1024,
     max_type_section_elements := 8191, max_import_section_elements := 1023,
     max_function_section_elements := 1023, max_global_section_elements := 8191,
     max_export_section_elements := 8191, max_element_section_elements := 8191,
     max_data_section_elements := 8191, max_element_segment_elements := 8191,
     max_data_segment_bytes := 8191, max_linear_memory_init := 64 * 1024,
     max_func_local_bytes := Some 8192, max_local_sets := 1023,
     eosio_max_nested_structures := Some 1023, max_br_table_elements := 8191,
     max_symbol_bytes := 8191, max_memory_offset := 33 * 1024 * 1024 - 1, opt_max_pages := 528,
     max_call_depth := 251, enable_simd := False, enable_bulk_memory := False,
     enable_nontrapping_fptoint := False, enable_sign_ext := False,
     forbid_export_mutable_globals := True, allow_code_after_function_end := True,
     allow_u32_limits_flags := True, allow_invalid_empty_local_set := True,
     allow_zero_blocktype := True, opt_eosio_fp := True\<rparr>"

text \<open>\<open>choose_stack_limit\<close>: bytes if \<open>max_stack_bytes\<close> is present, frames otherwise.\<close>

definition choose_stack_limit :: "vm_options \<Rightarrow> u32" where
  "choose_stack_limit opt = (case max_stack_bytes opt of Some b \<Rightarrow> b | None \<Rightarrow> max_call_depth opt)"

section \<open>Sections and module\<close>

record func_type =
  form :: u8
  param_types :: "value_type list"
  return_count :: u8
  return_type :: value_type

text \<open>\<open>operator==\<close> as written, with its last conjunct \<open>(lhs.return_count || lhs.return_type == rhs.return_type)\<close>.\<close>

definition func_type_eq :: "func_type \<Rightarrow> func_type \<Rightarrow> bool" where
  "func_type_eq lhs rhs \<longleftrightarrow> form lhs = form rhs \<and>
     length (param_types lhs) = length (param_types rhs) \<and>
     param_types lhs = param_types rhs \<and>
     return_count lhs = return_count rhs \<and>
     (return_count lhs \<noteq> 0 \<or> return_type lhs = return_type rhs)"

record resizable_limits =
  lim_flags :: bool
  lim_initial :: u32
  lim_maximum :: u32

type_synonym expr_value = "128 word"

record init_expr =
  ie_opcode :: u8
  ie_value :: expr_value

record global_variable =
  content_type :: value_type
  mutability :: bool
  gv_init :: init_expr

record table_type =
  element_type :: u8
  tt_limits :: resizable_limits

record table_entry =
  te_type :: u32
  te_index :: u32

type_synonym memory_type = resizable_limits

record import_entry =
  module_str :: "u8 list"
  import_field_str :: "u8 list"
  import_kind :: external_kind
  import_func_t :: u32

record export_entry =
  field_str :: "u8 list"
  export_kind :: external_kind
  export_index :: u32

datatype elem_mode = Active | Passive | Declarative

record elem_segment =
  es_index :: u32
  es_offset :: init_expr
  es_mode :: elem_mode
  es_elems :: "table_entry list"

record local_entry =
  le_count :: u32
  le_type :: value_type

record data_segment =
  ds_index :: u32
  ds_offset :: init_expr
  ds_passive :: bool
  ds_data :: "u8 list"

text \<open>
  A function body: \<open>fb_size\<close> is the number of its bytes while it is parsed and the number of its
  instructions once it is finalized, \<open>fb_code\<close> the address of its first instruction (the code's
  \<open>opcode*\<close>, as an offset in the allocator that holds it).
\<close>

record function_body =
  fb_size :: u32
  fb_locals :: "local_entry list"
  fb_code :: nat
  fb_stack_size :: u32

record name_assoc =
  na_idx :: u32
  na_name :: "u8 list"

record indirect_name_assoc =
  ina_idx :: u32
  ina_namemap :: "name_assoc list"

record name_section =
  ns_module_name :: "u8 list option"
  ns_function_names :: "name_assoc list option"
  ns_local_names :: "indirect_name_assoc list option"

record vm_module =
  m_start :: u32
  m_types :: "func_type list"
  m_imports :: "import_entry list"
  m_functions :: "u32 list"
  m_tables :: "table_type list"
  m_memories :: "memory_type list"
  m_globals :: "global_variable list"
  m_exports :: "export_entry list"
  m_elements :: "elem_segment list"
  m_code :: "function_body list"
  m_data :: "data_segment list"
  m_names :: "name_section option"
  m_maximum_stack :: u64
  m_stack_limit_is_bytes :: bool
  m_eosio_fp :: bool

definition empty_module :: vm_module where
  "empty_module = \<lparr>m_start = 0xFFFFFFFF, m_types = [], m_imports = [], m_functions = [], m_tables = [],
     m_memories = [], m_globals = [], m_exports = [], m_elements = [], m_code = [], m_data = [],
     m_names = None, m_maximum_stack = 0, m_stack_limit_is_bytes = False, m_eosio_fp = False\<rparr>"

definition get_imported_functions_size :: "vm_module \<Rightarrow> nat" where
  "get_imported_functions_size m = length (filter (\<lambda>i. import_kind i = Function) (m_imports m))"

definition get_functions_size :: "vm_module \<Rightarrow> nat" where
  "get_functions_size m = length (m_functions m)"

definition get_functions_total :: "vm_module \<Rightarrow> nat" where
  "get_functions_total m = get_imported_functions_size m + get_functions_size m"

definition get_function_pc :: "vm_module \<Rightarrow> nat \<Rightarrow> nat res" where
  "get_function_pc m fidx = assertE (fidx \<ge> get_imported_functions_size m) Wasm_interpreter_exception
     (bindE (at_checked (m_code m) (fidx - get_imported_functions_size m)) (\<lambda>fb. Inr (fb_code fb)))"

definition get_function_locals_size :: "vm_module \<Rightarrow> nat \<Rightarrow> nat res" where
  "get_function_locals_size m index = assertE (index \<ge> get_imported_functions_size m) Wasm_interpreter_exception
     (bindE (at_checked (m_code m) (index - get_imported_functions_size m)) (\<lambda>fb. Inr (length (fb_locals fb))))"

definition get_function_type :: "vm_module \<Rightarrow> nat \<Rightarrow> func_type res" where
  "get_function_type m index =
     (if index < get_imported_functions_size m
      then bindE (at_unchecked (m_imports m) index) (\<lambda>i. at_unchecked (m_types m) (unat (import_func_t i)))
      else bindE (at_checked (m_functions m) (index - get_imported_functions_size m))
             (\<lambda>t. at_checked (m_types m) (unat t)))"

definition get_function_stack_size :: "vm_module \<Rightarrow> nat \<Rightarrow> u32 res" where
  "get_function_stack_size m index =
     (if \<not> m_stack_limit_is_bytes m then Inr 1
      else if index < get_imported_functions_size m then Inr 0
      else bindE (at_checked (m_code m) (index - get_imported_functions_size m)) (\<lambda>fb. Inr (fb_stack_size fb)))"

fun get_exported_function_from :: "export_entry list \<Rightarrow> u8 list \<Rightarrow> u32" where
  "get_exported_function_from [] str = 0xFFFFFFFF"
| "get_exported_function_from (e # es) str =
     (if export_kind e = Function \<and> length (field_str e) = length str \<and> str = field_str e
      then export_index e else get_exported_function_from es str)"

definition get_exported_function :: "vm_module \<Rightarrow> u8 list \<Rightarrow> u32" where
  "get_exported_function m str = get_exported_function_from (m_exports m) str"

section \<open>Function type comparison\<close>

lemma func_type_eq_refl: "func_type_eq a a"
  by (simp add: func_type_eq_def)

lemma func_type_eq_sym: "func_type_eq a b \<Longrightarrow> func_type_eq b a"
  by (auto simp: func_type_eq_def)

lemma func_type_eq_trans: "func_type_eq a b \<Longrightarrow> func_type_eq b c \<Longrightarrow> func_type_eq a c"
  by (auto simp: func_type_eq_def)

text \<open>
  What \<open>operator==\<close> on function types decides: agreement of form, parameters and number of results,
  and of the result type only when there is no result.  It is equality of types exactly up to
  the result type of functions that return a value, which is never compared: two such types that
  differ in their result type alone are equal for the code, although as wasm types they differ.
\<close>

lemma func_type_eq_ignores_result_type:
  "func_type_eq lhs rhs \<longleftrightarrow>
     lhs = rhs\<lparr>return_type := return_type lhs\<rparr> \<and> (return_count lhs = 0 \<longrightarrow> return_type lhs = return_type rhs)"
  by (cases lhs; cases rhs) (auto simp: func_type_eq_def)

text \<open>An example: \<open>(i32) -> i32\<close> and \<open>(i32) -> i64\<close>.\<close>

lemma func_type_eq_ignores_result_type_witness:
  "func_type_eq \<lparr>form = 0x60, param_types = [t_i32], return_count = 1, return_type = t_i32\<rparr>
                \<lparr>form = 0x60, param_types = [t_i32], return_count = 1, return_type = t_i64\<rparr>"
  by (subst func_type_eq_ignores_result_type) simp

section \<open>Exports\<close>

lemma get_exported_function_from_None:
  "\<forall>e\<in>set es. \<not> (export_kind e = Function \<and> field_str e = str) \<Longrightarrow>
    get_exported_function_from es str = 0xFFFFFFFF"
  by (induction es) auto

lemma get_exported_function_from_Some:
  "i < length es \<Longrightarrow> export_kind (es ! i) = Function \<Longrightarrow> field_str (es ! i) = str \<Longrightarrow>
    (\<forall>j<i. \<not> (export_kind (es ! j) = Function \<and> field_str (es ! j) = str)) \<Longrightarrow>
    get_exported_function_from es str = export_index (es ! i)"
proof (induction es arbitrary: i)
  case (Cons e es)
  then show ?case by (cases i) (auto simp: All_less_Suc2)
qed simp

end
