(* ===== verification/Vm_Tracker.thy ===== *)
theory Vm_Tracker
  imports Vm_Types
begin

text \<open>
  The bookkeeping structures of the function-body validator in \<^verbatim>\<open>parser.hpp\<close>: the limit checkers
  (mutable global bytes, local bytes, nesting), the type stack \<open>operand_stack_type_tracker\<close> and the
  table of local types \<open>local_types_t\<close>.  The type stack is a list with its top first; scopes and
  unreachable code are marked in it by tags, as in the code.

  Shown: byte counters never wrap; the operand depth is the number of values on the type stack; the
  tags stay well nested and every scope remembers the depth at which it was opened; \<open>local_types_t\<close>
  with its boundary table and binary search is the plain indexing of the expanded list of locals.
\<close>

section \<open>Limit checkers\<close>

definition get_size_for_type :: "value_type \<Rightarrow> nat" where
  "get_size_for_type ty = (if ty = t_i32 \<or> ty = t_f32 then 4 else if ty = t_i64 \<or> ty = t_f64 then 8
     else if ty = t_v128 then 16 else 0)"

text \<open>
  \<open>_counter += size; EOS_VM_ASSERT(_counter <= limit && _counter >= size)\<close>, the pattern of all byte
  counters, at 64 bits.
\<close>

definition count_bytes :: "u64 \<Rightarrow> u64 \<Rightarrow> u64 \<Rightarrow> u64 res" where
  "count_bytes limit sz counter =
     (let counter' = counter + sz
      in assertE (counter' \<le> limit \<and> counter' \<ge> sz) Wasm_parse_exception (Inr counter'))"

definition on_mutable_global :: "vm_options \<Rightarrow> value_type \<Rightarrow> u64 \<Rightarrow> u64 res" where
  "on_mutable_global opt ty counter = (case max_mutable_global_bytes opt of None \<Rightarrow> Inr counter
     | Some limit \<Rightarrow> count_bytes limit (of_nat (get_size_for_type ty)) counter)"

record local_bytes =
  lb_count :: u64
  unreachable_depth :: u32

definition lb_on_type :: "u64 \<Rightarrow> value_type \<Rightarrow> local_bytes \<Rightarrow> local_bytes res" where
  "lb_on_type limit ty lb = bindE (count_bytes limit (of_nat (get_size_for_type ty)) (lb_count lb))
     (\<lambda>c. Inr (lb\<lparr>lb_count := c\<rparr>))"

fun lb_on_types :: "u64 \<Rightarrow> value_type list \<Rightarrow> local_bytes \<Rightarrow> local_bytes res" where
  "lb_on_types limit [] lb = Inr lb"
| "lb_on_types limit (ty # tys) lb = bindE (lb_on_type limit ty lb) (lb_on_types limit tys)"

definition lb_init :: "vm_options \<Rightarrow> func_type \<Rightarrow> local_bytes res" where
  "lb_init opt ft = (let lb = \<lparr>lb_count = 0, unreachable_depth = 0\<rparr> in
     case max_func_local_bytes opt of
       None \<Rightarrow> Inr lb
     | Some limit \<Rightarrow> if flag_params opt then lb_on_types limit (param_types ft) lb else Inr lb)"

definition lb_on_local :: "vm_options \<Rightarrow> value_type \<Rightarrow> u32 \<Rightarrow> local_bytes \<Rightarrow> local_bytes res" where
  "lb_on_local opt ty cnt lb = (case max_func_local_bytes opt of
       None \<Rightarrow> Inr lb
     | Some limit \<Rightarrow> if flag_locals opt
         then bindE (count_bytes limit (of_nat (get_size_for_type ty) * ucast cnt) (lb_count lb))
                (\<lambda>c. Inr (lb\<lparr>lb_count := c\<rparr>))
         else Inr lb)"

definition lb_push_stack :: "vm_options \<Rightarrow> value_type \<Rightarrow> local_bytes \<Rightarrow> local_bytes res" where
  "lb_push_stack opt ty lb = (case max_func_local_bytes opt of
       None \<Rightarrow> Inr lb
     | Some limit \<Rightarrow> if unreachable_depth lb = 0 \<and> flag_stack opt then lb_on_type limit ty lb else Inr lb)"

definition lb_pop_stack :: "vm_options \<Rightarrow> value_type \<Rightarrow> local_bytes \<Rightarrow> local_bytes" where
  "lb_pop_stack opt ty lb = (case max_func_local_bytes opt of
       None \<Rightarrow> lb
     | Some limit \<Rightarrow> if unreachable_depth lb = 0 \<and> flag_stack opt
         then lb\<lparr>lb_count := lb_count lb - of_nat (get_size_for_type ty)\<rparr> else lb)"

definition lb_push_unreachable :: "vm_options \<Rightarrow> local_bytes \<Rightarrow> local_bytes" where
  "lb_push_unreachable opt lb = (case max_func_local_bytes opt of None \<Rightarrow> lb
     | Some limit \<Rightarrow> lb\<lparr>unreachable_depth := unreachable_depth lb + 1\<rparr>)"

definition lb_pop_unreachable :: "vm_options \<Rightarrow> local_bytes \<Rightarrow> local_bytes" where
  "lb_pop_unreachable opt lb = (case max_func_local_bytes opt of None \<Rightarrow> lb
     | Some limit \<Rightarrow> lb\<lparr>unreachable_depth := unreachable_depth lb - 1\<rparr>)"

text \<open>\<open>eosio_max_nested_structures_checker\<close>.\<close>

definition nested_on_control :: "vm_options \<Rightarrow> u32 \<Rightarrow> u32 res" where
  "nested_on_control opt c = (case eosio_max_nested_structures opt of None \<Rightarrow> Inr c
     | Some limit \<Rightarrow> assertE (c + 1 \<le> limit) Wasm_parse_exception (Inr (c + 1)))"

definition nested_on_end :: "vm_options \<Rightarrow> u32 \<Rightarrow> u32" where
  "nested_on_end opt c = (case eosio_max_nested_structures opt of None \<Rightarrow> c
     | Some limit \<Rightarrow> if c = 0 then c + 1 else c - 1)"

section \<open>The type stack\<close>

abbreviation unreachable_tag :: u8 where "unreachable_tag \<equiv> 0x80"
abbreviation scope_tag :: u8 where "scope_tag \<equiv> 0x81"
abbreviation any_type :: u8 where "any_type \<equiv> 0x82"

record tracker =
  tk_state :: "u8 list"
  operand_depth :: u32
  maximum_operand_depth :: u32
  tk_lb :: local_bytes
  stack_usage_max :: u64

text \<open>\<open>bitcode_writer::get_depth_for_type\<close> is 1 for every type.\<close>

definition get_depth_for_type :: "u8 \<Rightarrow> u32" where
  "get_depth_for_type ty = 1"

definition usage_update :: "vm_options \<Rightarrow> local_bytes \<Rightarrow> u64 \<Rightarrow> u64" where
  "usage_update opt lb m = (case max_stack_bytes opt of None \<Rightarrow> m | Some b \<Rightarrow> max (lb_count lb) m)"

definition tk_init :: "vm_options \<Rightarrow> local_bytes \<Rightarrow> tracker" where
  "tk_init opt lb = \<lparr>tk_state = [scope_tag], operand_depth = 0, maximum_operand_depth = 0, tk_lb = lb,
     stack_usage_max = usage_update opt lb 0\<rparr>"

definition tk_push :: "vm_options \<Rightarrow> u8 \<Rightarrow> tracker \<Rightarrow> tracker res" where
  "tk_push opt ty t = assertE (operand_depth t < 0xFFFFFFFF) Wasm_parse_exception
     (let d = operand_depth t + get_depth_for_type ty in
      bindE (lb_push_stack opt ty (tk_lb t)) (\<lambda>lb.
        Inr (t\<lparr>tk_state := ty # tk_state t, operand_depth := d,
               maximum_operand_depth := max d (maximum_operand_depth t), tk_lb := lb,
               stack_usage_max := usage_update opt lb (stack_usage_max t)\<rparr>)))"

definition tk_pop :: "vm_options \<Rightarrow> u8 \<Rightarrow> tracker \<Rightarrow> tracker res" where
  "tk_pop opt expected t =
     (if expected = t_pseudo then Inr t else
      case tk_state t of
        [] \<Rightarrow> Inl Wasm_parse_exception
      | x # xs \<Rightarrow>
          if x \<noteq> unreachable_tag
          then assertE (x = expected \<or> x = any_type) Wasm_parse_exception
                (Inr (t\<lparr>tk_state := xs, operand_depth := operand_depth t - get_depth_for_type expected,
                        tk_lb := lb_pop_stack opt expected (tk_lb t)\<rparr>))
          else Inr t)"

definition tk_pop_any :: "vm_options \<Rightarrow> tracker \<Rightarrow> (u8 \<times> tracker) res" where
  "tk_pop_any opt t =
     (case tk_state t of
        [] \<Rightarrow> Inl Wasm_parse_exception
      | x # xs \<Rightarrow>
          assertE (x \<noteq> scope_tag) Wasm_parse_exception
          (if x = unreachable_tag then Inr (any_type, t)
           else Inr (x, t\<lparr>tk_state := xs, operand_depth := operand_depth t - get_depth_for_type x,
                          tk_lb := lb_pop_stack opt x (tk_lb t)\<rparr>)))"

definition tk_top :: "vm_options \<Rightarrow> u8 \<Rightarrow> tracker \<Rightarrow> tracker res" where
  "tk_top opt expected t = bindE (tk_pop opt expected t) (tk_push opt expected)"

text \<open>The loop of \<open>start_unreachable\<close>: drop everything above the innermost scope tag.\<close>

fun drop_to_scope :: "u8 list \<Rightarrow> u32 \<Rightarrow> u8 list \<times> u32" where
  "drop_to_scope [] d = ([], d)"
| "drop_to_scope (x # xs) d =
     (if x = scope_tag then (x # xs, d)
      else drop_to_scope xs (if x \<noteq> unreachable_tag then d - get_depth_for_type x else d))"

definition tk_start_unreachable :: "vm_options \<Rightarrow> tracker \<Rightarrow> tracker" where
  "tk_start_unreachable opt t =
     (let (st, d) = drop_to_scope (tk_state t) (operand_depth t)
      in t\<lparr>tk_state := unreachable_tag # st, operand_depth := d, tk_lb := lb_push_unreachable opt (tk_lb t)\<rparr>)"

definition tk_push_scope :: "tracker \<Rightarrow> tracker" where
  "tk_push_scope t = t\<lparr>tk_state := scope_tag # tk_state t\<rparr>"

definition tk_pop_scope :: "vm_options \<Rightarrow> u8 \<Rightarrow> tracker \<Rightarrow> tracker res" where
  "tk_pop_scope opt expected t = bindE (tk_pop opt expected t) (\<lambda>t1.
     assertE (tk_state t1 \<noteq> []) Wasm_parse_exception
     (let t2 = (if hd (tk_state t1) = unreachable_tag
                then t1\<lparr>tk_state := tl (tk_state t1), tk_lb := lb_pop_unreachable opt (tk_lb t1)\<rparr> else t1)
      in case tk_state t2 of
           [] \<Rightarrow> Inl Undefined_behaviour
         | x # xs \<Rightarrow> assertE (x = scope_tag) Wasm_parse_exception
             (let t3 = t2\<lparr>tk_state := xs\<rparr>
              in if expected \<noteq> t_pseudo then tk_push opt expected t3 else Inr t3)))"

definition tk_finish :: "tracker \<Rightarrow> tracker res" where
  "tk_finish t =
     (let st = (if tk_state t \<noteq> [] \<and> hd (tk_state t) = unreachable_tag then tl (tk_state t) else tk_state t)
      in assertE (st = []) Wasm_parse_exception (Inr (t\<lparr>tk_state := st\<rparr>)))"

section \<open>Types of locals\<close>

record local_types =
  lt_params :: "value_type list"
  lt_locals :: "local_entry list"
  lt_boundaries :: "u32 list"

fun lt_boundaries_from :: "u32 \<Rightarrow> local_entry list \<Rightarrow> u32 list res" where
  "lt_boundaries_from count [] = Inr [count]"
| "lt_boundaries_from count (l # ls) =
     assertE (count \<le> 0xFFFFFFFF - le_count l) Wasm_parse_exception
     (bindE (lt_boundaries_from (count + le_count l) ls) (\<lambda>bs. Inr (count # bs)))"

definition mk_local_types :: "func_type \<Rightarrow> local_entry list \<Rightarrow> local_types res" where
  "mk_local_types ft locals =
     bindE (lt_boundaries_from (of_nat (length (param_types ft))) locals) (\<lambda>bs.
       Inr \<lparr>lt_params = param_types ft, lt_locals = locals, lt_boundaries = bs\<rparr>)"

text \<open>\<open>std::upper_bound\<close> on the sorted boundaries: the first one greater than the index.\<close>

definition upper_bound :: "u32 list \<Rightarrow> u32 \<Rightarrow> nat" where
  "upper_bound bs x = length (takeWhile (\<lambda>b. \<not> x < b) bs)"

definition lt_get :: "local_types \<Rightarrow> u32 \<Rightarrow> value_type res" where
  "lt_get lt local_idx =
     assertE (local_idx < last (lt_boundaries lt)) Wasm_parse_exception
     (let pos = upper_bound (lt_boundaries lt) local_idx
      in if pos = 0 then at_unchecked (lt_params lt) (unat local_idx)
         else bindE (at_unchecked (lt_locals lt) (pos - 1)) (\<lambda>l. Inr (le_type l)))"

definition locals_count :: "local_types \<Rightarrow> u64" where
  "locals_count lt = ucast (last (lt_boundaries lt)) - of_nat (length (lt_params lt))"

section \<open>Byte counters do not wrap\<close>

lemma count_bytes_Inr:
  "count_bytes limit sz c = Inr c' \<longleftrightarrow>
     c' = c + sz \<and> unat c' = unat c + unat sz \<and> c' \<le> limit"
  by (auto simp: count_bytes_def res_simps add_no_wrap_iff Let_def)

lemma count_bytes_Inl:
  "count_bytes limit sz c = Inl e \<longleftrightarrow> e = Wasm_parse_exception \<and> unat limit < unat c + unat sz"
  if "c \<le> limit"
proof -
  have "c + sz \<le> limit \<and> sz \<le> c + sz \<longleftrightarrow> unat c + unat sz \<le> unat limit"
  proof
    assume "c + sz \<le> limit \<and> sz \<le> c + sz"
    then show "unat c + unat sz \<le> unat limit"
      using add_no_wrap_iff [of sz c] by (simp add: word_le_nat_alt)
  next
    assume le: "unat c + unat sz \<le> unat limit"
    then have "unat (c + sz) = unat c + unat sz"
      using unat_less_64 [of limit] by (intro unat_add_no_wrap) simp
    with le show "c + sz \<le> limit \<and> sz \<le> c + sz" by (simp add: word_le_nat_alt)
  qed
  then show ?thesis by (auto simp: count_bytes_def assertE_eq_Inl_iff Let_def)
qed

section \<open>Well-nested type stacks\<close>

definition is_value :: "u8 \<Rightarrow> bool" where
  "is_value x \<longleftrightarrow> x \<noteq> scope_tag \<and> x \<noteq> unreachable_tag"

definition vals :: "u8 list \<Rightarrow> nat" where
  "vals st = length (filter is_value st)"

text \<open>For each scope tag, innermost first, the number of values below it.\<close>

fun scope_depths :: "u8 list \<Rightarrow> nat list" where
  "scope_depths [] = []"
| "scope_depths (x # xs) = (if x = scope_tag then vals xs # scope_depths xs else scope_depths xs)"

text \<open>An unreachable tag stands directly above a scope tag.\<close>

fun tags_ok :: "u8 list \<Rightarrow> bool" where
  "tags_ok [] = True"
| "tags_ok (x # xs) = (tags_ok xs \<and> (x = unreachable_tag \<longrightarrow> xs \<noteq> [] \<and> hd xs = scope_tag))"

definition wf_tracker :: "tracker \<Rightarrow> bool" where
  "wf_tracker t \<longleftrightarrow> unat (operand_depth t) = vals (tk_state t) \<and> tags_ok (tk_state t)
     \<and> operand_depth t \<le> maximum_operand_depth t"

definition tk_scopes :: "tracker \<Rightarrow> nat list" where
  "tk_scopes t = scope_depths (tk_state t)"

named_theorems tk_defs \<open>definitions of the type stack\<close>

declare tk_push_def [tk_defs] tk_pop_def [tk_defs] tk_pop_any_def [tk_defs] tk_top_def [tk_defs]
  tk_push_scope_def [tk_defs] wf_tracker_def [tk_defs]
  tk_scopes_def [tk_defs] get_depth_for_type_def [tk_defs] is_value_def [tk_defs]

lemma vals_simps [simp]:
  "vals [] = 0" "vals (x # xs) = (if is_value x then Suc (vals xs) else vals xs)"
  by (simp_all add: vals_def)

lemma is_value_tags [simp]: "\<not> is_value scope_tag" "\<not> is_value unreachable_tag" "is_value any_type"
  by (simp_all add: is_value_def)

lemma unat_inc: "(w :: u32) < 0xFFFFFFFF \<Longrightarrow> unat (w + 1) = unat w + 1"
proof -
  assume "w < 0xFFFFFFFF"
  then have "unat w < 0xFFFFFFFF" by (simp add: word_less_nat_alt)
  then have "unat w + unat (1 :: u32) < 2 ^ LENGTH(32)" by simp
  from unat_add_no_wrap [OF this] show ?thesis by simp
qed

text \<open>What each operation does to the stack, and that it keeps it well formed.\<close>

lemma tk_push_wf:
  assumes "wf_tracker t" and "is_value ty" and "tk_push opt ty t = Inr t'"
  shows "wf_tracker t'" and "tk_scopes t' = tk_scopes t" and "tk_state t' = ty # tk_state t"
    and "unat (operand_depth t') = Suc (unat (operand_depth t))"
  using assms unat_inc [of "operand_depth t"]
  by (auto simp: tk_defs res_simps Let_def max_def)

lemma tk_pop_wf:
  assumes "wf_tracker t" and "is_value ty" and "tk_pop opt ty t = Inr t'"
  shows "wf_tracker t'" and "tk_scopes t' = tk_scopes t"
proof -
  have d: "operand_depth t - 1 \<le> operand_depth t" if "0 < unat (operand_depth t)"
    using that by (simp add: word_le_nat_alt unat_dec)
  show "wf_tracker t'" and "tk_scopes t' = tk_scopes t"
    using assms d unat_dec [of "operand_depth t"]
    by (auto simp: tk_pop_def wf_tracker_def get_depth_for_type_def tk_scopes_def is_value_def res_simps
        split: if_splits list.splits)
qed

lemma tk_pop_any_wf:
  assumes "wf_tracker t" and "tk_pop_any opt t = Inr (ty, t')"
  shows "wf_tracker t'" and "tk_scopes t' = tk_scopes t" and "is_value ty"
proof -
  have d: "operand_depth t - 1 \<le> operand_depth t" if "0 < unat (operand_depth t)"
    using that by (simp add: word_le_nat_alt unat_dec)
  show "wf_tracker t'" and "tk_scopes t' = tk_scopes t" and "is_value ty"
    using assms d unat_dec [of "operand_depth t"]
    by (auto simp: tk_pop_any_def wf_tracker_def get_depth_for_type_def tk_scopes_def is_value_def res_simps
        split: if_splits list.splits)
qed

lemma tk_top_wf:
  assumes "wf_tracker t" and "is_value ty" and "tk_top opt ty t = Inr t'"
  shows "wf_tracker t'" and "tk_scopes t' = tk_scopes t"
proof -
  from assms(3) obtain t1 where pop: "tk_pop opt ty t = Inr t1" and push: "tk_push opt ty t1 = Inr t'"
    by (auto simp: tk_top_def res_simps)
  note p = tk_pop_wf [OF assms(1,2) pop]
  show "wf_tracker t'" and "tk_scopes t' = tk_scopes t"
    using tk_push_wf [OF p(1) assms(2) push] p(2) by simp_all
qed

lemma drop_to_scope_wf:
  assumes "drop_to_scope st d = (st', d')" and "unat d = vals st" and "tags_ok st"
  shows "unat d' = vals st' \<and> tags_ok st' \<and> scope_depths st' = scope_depths st \<and> unat d' \<le> unat d
     \<and> (scope_depths st \<noteq> [] \<longrightarrow> st' \<noteq> [] \<and> hd st' = scope_tag)"
  using assms
proof (induction st d rule: drop_to_scope.induct)
  case (2 x xs d)
  show ?case
  proof (cases "x = scope_tag")
    case False
    let ?d = "if x \<noteq> unreachable_tag then d - get_depth_for_type x else d"
    from False 2 have eq: "drop_to_scope xs ?d = (st', d')" by simp
    have "unat ?d = vals xs" and "unat ?d \<le> unat d"
      using 2(3) False unat_dec [of d] by (auto simp: get_depth_for_type_def is_value_def)
    with 2 False eq show ?thesis by (auto intro: order_trans)
  qed (use 2 in auto)
qed auto

lemma tk_start_unreachable_wf:
  assumes "wf_tracker t" and "tk_scopes t \<noteq> []"
  shows "wf_tracker (tk_start_unreachable opt t)" and "tk_scopes (tk_start_unreachable opt t) = tk_scopes t"
proof -
  obtain st d where eq: "drop_to_scope (tk_state t) (operand_depth t) = (st, d)" by force
  have w: "unat d = vals st" "tags_ok st" "scope_depths st = scope_depths (tk_state t)"
    "unat d \<le> unat (operand_depth t)" "st \<noteq> [] \<and> hd st = scope_tag"
    using drop_to_scope_wf [OF eq] assms by (auto simp: wf_tracker_def tk_scopes_def)
  then show "wf_tracker (tk_start_unreachable opt t)"
    using assms(1) by (simp add: tk_start_unreachable_def eq wf_tracker_def word_le_nat_alt)
  show "tk_scopes (tk_start_unreachable opt t) = tk_scopes t"
    using w(3) by (simp add: tk_start_unreachable_def eq tk_scopes_def)
qed

lemma tk_push_scope_wf:
  assumes "wf_tracker t"
  shows "wf_tracker (tk_push_scope t)"
    and "tk_scopes (tk_push_scope t) = unat (operand_depth t) # tk_scopes t"
  using assms by (simp_all add: tk_push_scope_def wf_tracker_def tk_scopes_def)

text \<open>Leaving a scope: the depth falls back to the one recorded when the scope was opened, plus the result.\<close>

lemma tk_pop_scope_wf:
  assumes "wf_tracker t" and "is_value ty" and "tk_pop_scope opt ty t = Inr t'"
  shows "wf_tracker t'" and "\<exists>d. tk_scopes t = d # tk_scopes t' \<and>
     unat (operand_depth t') = d + (if ty = t_pseudo then 0 else 1)"
proof -
  from assms(3) obtain t1 where pop: "tk_pop opt ty t = Inr t1" by (auto simp: tk_pop_scope_def res_simps)
  note p = tk_pop_wf [OF assms(1,2) pop]
  define t2 where "t2 = (if hd (tk_state t1) = unreachable_tag
      then t1\<lparr>tk_state := tl (tk_state t1), tk_lb := lb_pop_unreachable opt (tk_lb t1)\<rparr> else t1)"
  from assms(3) pop obtain xs where ne: "tk_state t1 \<noteq> []" and xs: "tk_state t2 = scope_tag # xs"
    and t': "(if ty \<noteq> t_pseudo then tk_push opt ty (t2\<lparr>tk_state := xs\<rparr>) else Inr (t2\<lparr>tk_state := xs\<rparr>)) = Inr t'"
    by (auto simp: tk_pop_scope_def res_simps t2_def [symmetric] Let_def split: list.splits)
  from p(1) ne have w2: "wf_tracker t2" "tk_scopes t2 = tk_scopes t1"
    by (cases "tk_state t1"; auto simp: t2_def wf_tracker_def tk_scopes_def)+
  with xs have w3: "wf_tracker (t2\<lparr>tk_state := xs\<rparr>)"
    and s3: "tk_scopes t2 = unat (operand_depth t2) # tk_scopes (t2\<lparr>tk_state := xs\<rparr>)"
    by (auto simp: wf_tracker_def tk_scopes_def)
  show "wf_tracker t'"
    using t' tk_push_wf(1) [OF w3 assms(2)] w3 by (auto split: if_splits)
  show "\<exists>d. tk_scopes t = d # tk_scopes t' \<and> unat (operand_depth t') = d + (if ty = t_pseudo then 0 else 1)"
    using t' tk_push_wf(2,4) [OF w3 assms(2)] s3 w2(2) p(2) by (auto split: if_splits)
qed

text \<open>The unguarded \<open>state.back()\<close> in \<open>pop_scope\<close> is never reached with an empty stack.\<close>

lemma lb_push_stack_no_ub: "lb_push_stack opt ty lb \<noteq> Inl Undefined_behaviour"
  by (auto simp: lb_push_stack_def lb_on_type_def count_bytes_def assertE_eq_Inl_iff bindE_eq_Inl_iff Let_def
      split: option.splits)

lemma tk_push_no_ub: "tk_push opt ty t \<noteq> Inl Undefined_behaviour"
  using lb_push_stack_no_ub by (auto simp: tk_push_def assertE_eq_Inl_iff bindE_eq_Inl_iff Let_def)

lemma tk_pop_no_ub: "tk_pop opt ty t \<noteq> Inl Undefined_behaviour"
  by (auto simp: tk_pop_def assertE_eq_Inl_iff split: list.splits if_splits)

lemma tk_pop_any_no_ub: "tk_pop_any opt t \<noteq> Inl Undefined_behaviour"
  by (auto simp: tk_pop_any_def assertE_eq_Inl_iff split: list.splits if_splits)

lemma tk_pop_scope_no_ub:
  assumes "wf_tracker t" and "is_value ty"
  shows "tk_pop_scope opt ty t \<noteq> Inl Undefined_behaviour"
proof -
  have "tk_state t1 \<noteq> [unreachable_tag]" if "tk_pop opt ty t = Inr t1" for t1
    using tk_pop_wf(1) [OF assms that] by (auto simp: wf_tracker_def)
  then show ?thesis
    using tk_pop_no_ub tk_push_no_ub
    by (fastforce simp: tk_pop_scope_def bindE_eq_Inl_iff assertE_eq_Inl_iff Let_def neq_Nil_conv
        split: list.splits if_splits)
qed

lemmas tracker_no_ub = tk_push_no_ub tk_pop_no_ub tk_pop_any_no_ub tk_pop_scope_no_ub

section \<open>The table of local types\<close>

definition expand_locals :: "local_entry list \<Rightarrow> value_type list" where
  "expand_locals ls = concat (map (\<lambda>l. replicate (unat (le_count l)) (le_type l)) ls)"

lemma expand_locals_simps [simp]:
  "expand_locals [] = []"
  "expand_locals (l # ls) = replicate (unat (le_count l)) (le_type l) @ expand_locals ls"
  by (simp_all add: expand_locals_def)

lemma le_sub_no_wrap:
  assumes "c \<le> 0xFFFFFFFF - (n :: u32)"
  shows "unat (c + n) = unat c + unat n"
proof -
  have "n \<le> 0xFFFFFFFF" using unat_less_32 [of n] by (simp add: word_le_nat_alt)
  then have "unat (0xFFFFFFFF - n) = 0xFFFFFFFF - unat n" by (simp add: unat_sub)
  with assms have "unat c \<le> 0xFFFFFFFF - unat n" by (simp add: word_le_nat_alt)
  moreover have "unat n \<le> 0xFFFFFFFF" using unat_less_32 [of n] by simp
  ultimately show ?thesis by (intro unat_add_no_wrap) simp
qed

lemma lt_boundaries_hd: "lt_boundaries_from c ls = Inr bs \<Longrightarrow> bs \<noteq> [] \<and> hd bs = c"
  by (cases ls) (auto simp: res_simps)

lemma lt_boundaries_last:
  "lt_boundaries_from c ls = Inr bs \<Longrightarrow> unat (last bs) = unat c + length (expand_locals ls)"
proof (induction ls arbitrary: c bs)
  case (Cons l ls)
  then obtain bs' where a: "c \<le> 0xFFFFFFFF - le_count l"
    and b: "lt_boundaries_from (c + le_count l) ls = Inr bs'" "bs = c # bs'"
    by (auto simp: res_simps)
  then show ?case
    using Cons.IH [OF b(1)] le_sub_no_wrap [OF a] lt_boundaries_hd [OF b(1)] by simp
qed (auto simp: res_simps)

lemma upper_bound_below: "bs \<noteq> [] \<Longrightarrow> x < hd bs \<Longrightarrow> upper_bound bs x = 0"
  by (cases bs) (auto simp: upper_bound_def)

lemma upper_bound_local:
  "lt_boundaries_from c ls = Inr bs \<Longrightarrow> unat c \<le> unat x \<Longrightarrow> unat x < unat c + length (expand_locals ls) \<Longrightarrow>
    \<exists>j. upper_bound bs x = Suc j \<and> j < length ls \<and> le_type (ls ! j) = expand_locals ls ! (unat x - unat c)"
proof (induction ls arbitrary: c bs)
  case (Cons l ls)
  then obtain bs' where a: "c \<le> 0xFFFFFFFF - le_count l"
    and b: "lt_boundaries_from (c + le_count l) ls = Inr bs'" "bs = c # bs'"
    by (auto simp: res_simps)
  have s: "unat (c + le_count l) = unat c + unat (le_count l)" by (rule le_sub_no_wrap [OF a])
  have ub: "upper_bound bs x = Suc (upper_bound bs' x)"
    using Cons.prems(2) by (simp add: b upper_bound_def word_less_nat_alt)
  show ?case
  proof (cases "unat x < unat c + unat (le_count l)")
    case True
    then have "x < hd bs'" using lt_boundaries_hd [OF b(1)] s by (simp add: word_less_nat_alt)
    then have "upper_bound bs' x = 0" using lt_boundaries_hd [OF b(1)] by (simp add: upper_bound_below)
    moreover have "unat x - unat c < unat (le_count l)" using True Cons.prems(2) by linarith
    ultimately show ?thesis using ub by (simp add: nth_append)
  next
    case False
    with Cons.prems s obtain j where "upper_bound bs' x = Suc j" "j < length ls"
      "le_type (ls ! j) = expand_locals ls ! (unat x - unat (c + le_count l))"
      using Cons.IH [OF b(1)] by auto
    moreover have "\<not> unat x - unat c < unat (le_count l)" using False by linarith
    ultimately show ?thesis using ub s by (simp add: nth_append)
  qed
qed simp

lemma lt_get_exact:
  assumes "mk_local_types ft locals = Inr lt" and "length (param_types ft) < 2 ^ 32"
  defines "tys \<equiv> param_types ft @ expand_locals locals"
  shows "lt_get lt i = (if unat i < length tys then Inr (tys ! unat i) else Inl Wasm_parse_exception)"
proof -
  from assms(1) obtain bs where bs: "lt_boundaries_from (of_nat (length (param_types ft))) locals = Inr bs"
    and lt: "lt = \<lparr>lt_params = param_types ft, lt_locals = locals, lt_boundaries = bs\<rparr>"
    by (auto simp: mk_local_types_def res_simps)
  have n: "unat (of_nat (length (param_types ft)) :: u32) = length (param_types ft)"
    using assms(2) by (simp add: unat_of_nat)
  have last: "i < last bs \<longleftrightarrow> unat i < length tys"
    using lt_boundaries_last [OF bs] n by (simp add: word_less_nat_alt tys_def)
  show ?thesis
  proof (cases "unat i < length tys")
    case True
    show ?thesis
    proof (cases "unat i < length (param_types ft)")
      case par: True
      then have "i < hd bs" using lt_boundaries_hd [OF bs] n by (simp add: word_less_nat_alt)
      then have "upper_bound bs i = 0" using lt_boundaries_hd [OF bs] by (simp add: upper_bound_below)
      with True par last show ?thesis
        by (simp add: lt_get_def lt at_unchecked_def tys_def nth_append)
    next
      case False
      with True n upper_bound_local [OF bs, of i] obtain j where "upper_bound bs i = Suc j" "j < length locals"
        "le_type (locals ! j) = expand_locals locals ! (unat i - length (param_types ft))"
        by (auto simp: tys_def)
      with True False last show ?thesis
        by (simp add: lt_get_def lt at_unchecked_def tys_def nth_append)
    qed
  qed (use last in \<open>simp add: lt_get_def lt\<close>)
qed

text \<open>
  C31: looking a local up through the boundary table and its binary search is indexing the list of
  parameter types followed by the declared locals written out one by one: every index in range
  yields that type, every index out of range is rejected, and no lookup leaves the tables.
\<close>

theorem local_types_lookup:
  assumes "mk_local_types ft locals = Inr lt" and "length (param_types ft) < 2 ^ 32"
  defines "tys \<equiv> param_types ft @ expand_locals locals"
  shows "lt_get lt i = (if unat i < length tys then Inr (tys ! unat i) else Inl Wasm_parse_exception)"
  unfolding tys_def by (rule lt_get_exact [OF assms(1,2)])

theorem local_types_lookup_witness:
  "mk_local_types \<lparr>form = 0x60, param_types = [t_f64], return_count = 0, return_type = 0\<rparr>
      [\<lparr>le_count = 2, le_type = t_i32\<rparr>, \<lparr>le_count = 1, le_type = t_i64\<rparr>] =
     Inr \<lparr>lt_params = [t_f64], lt_locals = [\<lparr>le_count = 2, le_type = t_i32\<rparr>, \<lparr>le_count = 1, le_type = t_i64\<rparr>],
          lt_boundaries = [1, 3, 4]\<rparr>
   \<and> lt_get \<lparr>lt_params = [t_f64], lt_locals = [\<lparr>le_count = 2, le_type = t_i32\<rparr>, \<lparr>le_count = 1, le_type = t_i64\<rparr>],
          lt_boundaries = [1, 3, 4]\<rparr> 3 = Inr t_i64"
proof -
  let ?ft = "\<lparr>form = 0x60, param_types = [t_f64], return_count = 0, return_type = 0\<rparr>"
  let ?ls = "[\<lparr>le_count = 2, le_type = t_i32\<rparr>, \<lparr>le_count = 1, le_type = t_i64\<rparr>]"
  let ?lt = "\<lparr>lt_params = [t_f64], lt_locals = ?ls, lt_boundaries = [1, 3, 4]\<rparr>"
  have mk: "mk_local_types ?ft ?ls = Inr ?lt"
    by (simp add: mk_local_types_def)
  show ?thesis using mk local_types_lookup [OF mk, of 3] by (simp add: expand_locals_def nth_append)
qed

end
