(* ===== verification/Vm_Opcodes.thy ===== *)
theory Vm_Opcodes
  imports Vm_Types
begin

text \<open>
  The instruction set of \<^verbatim>\<open>opcodes_def.hpp\<close> and \<^verbatim>\<open>opcodes.hpp\<close>, and the tables that the macro lists of
  the parser's instruction switch amount to.  Scalar instructions keep the names of the sources, in
  one enumeration per macro group; the vector instructions are referred to by their code after the
  \<open>0xFD\<close> prefix.  A row of a table holds the code of the instruction, its name, and the constants its
  macro line in \<^verbatim>\<open>parser.hpp\<close> passes (alignment limit, operand and result types).

  The \<open>opcode\<close> type is the element of the code segment.  The labels of a branch table, which the code
  writes over the slots that follow a \<open>br_table_t\<close>, are one \<open>Br_table_elems\<close> slot; the rest of the
  reserved slots are \<open>Reserved\<close>.
\<close>

section \<open>Instruction groups\<close>

datatype (plugins only: code size) load_op =
    I32_load | I64_load | F32_load | F64_load | I32_load8_s | I32_load16_s | I32_load8_u |
    I32_load16_u | I64_load8_s | I64_load16_s | I64_load32_s | I64_load8_u | I64_load16_u |
    I64_load32_u

datatype (plugins only: code size) store_op =
    I32_store | I64_store | F32_store | F64_store | I32_store8 | I32_store16 | I64_store8 |
    I64_store16 | I64_store32

datatype (plugins only: code size) i32_cmp_op =
    I32_eqz | I32_eq | I32_ne | I32_lt_s | I32_lt_u | I32_gt_s | I32_gt_u | I32_le_s |
    I32_le_u | I32_ge_s | I32_ge_u

datatype (plugins only: code size) i64_cmp_op =
    I64_eqz | I64_eq | I64_ne | I64_lt_s | I64_lt_u | I64_gt_s | I64_gt_u | I64_le_s |
    I64_le_u | I64_ge_s | I64_ge_u

datatype (plugins only: code size) f32_cmp_op =
    F32_eq | F32_ne | F32_lt | F32_gt | F32_le | F32_ge

datatype (plugins only: code size) f64_cmp_op =
    F64_eq | F64_ne | F64_lt | F64_gt | F64_le | F64_ge

datatype (plugins only: code size) cmp_op =
    I32_cmp i32_cmp_op | I64_cmp i64_cmp_op | F32_cmp f32_cmp_op | F64_cmp f64_cmp_op

datatype (plugins only: code size) i32_op =
    I32_clz | I32_ctz | I32_popcnt | I32_add | I32_sub | I32_mul | I32_div_s | I32_div_u |
    I32_rem_s | I32_rem_u | I32_and | I32_or | I32_xor | I32_shl | I32_shr_s | I32_shr_u |
    I32_rotl | I32_rotr

datatype (plugins only: code size) i64_op =
    I64_clz | I64_ctz | I64_popcnt | I64_add | I64_sub | I64_mul | I64_div_s | I64_div_u |
    I64_rem_s | I64_rem_u | I64_and | I64_or | I64_xor | I64_shl | I64_shr_s | I64_shr_u |
    I64_rotl | I64_rotr

datatype (plugins only: code size) f32_op =
    F32_abs | F32_neg | F32_ceil | F32_floor | F32_trunc | F32_nearest | F32_sqrt | F32_add
    | F32_sub | F32_mul | F32_div | F32_min | F32_max | F32_copysign

datatype (plugins only: code size) f64_op =
    F64_abs | F64_neg | F64_ceil | F64_floor | F64_trunc | F64_nearest | F64_sqrt | F64_add
    | F64_sub | F64_mul | F64_div | F64_min | F64_max | F64_copysign

datatype (plugins only: code size) extend_op =
    I32_extend8_s | I32_extend16_s | I64_extend8_s | I64_extend16_s | I64_extend32_s

datatype (plugins only: code size) arith_op =
    I32_op i32_op | I64_op i64_op | F32_op f32_op | F64_op f64_op | Extend_op extend_op

datatype (plugins only: code size) conv_op =
    I32_wrap_i64 | I32_trunc_s_f32 | I32_trunc_u_f32 | I32_trunc_s_f64 | I32_trunc_u_f64 |
    I64_extend_s_i32 | I64_extend_u_i32 | I64_trunc_s_f32 | I64_trunc_u_f32 |
    I64_trunc_s_f64 | I64_trunc_u_f64 | F32_convert_s_i32 | F32_convert_u_i32 |
    F32_convert_s_i64 | F32_convert_u_i64 | F32_demote_f64 | F64_convert_s_i32 |
    F64_convert_u_i32 | F64_convert_s_i64 | F64_convert_u_i64 | F64_promote_f32 |
    I32_reinterpret_f32 | I64_reinterpret_f64 | F32_reinterpret_i32 | F64_reinterpret_i64

datatype (plugins only: code size) sat_op =
    I32_trunc_sat_f32_s | I32_trunc_sat_f32_u | I32_trunc_sat_f64_s | I32_trunc_sat_f64_u |
    I64_trunc_sat_f32_s | I64_trunc_sat_f32_u | I64_trunc_sat_f64_s | I64_trunc_sat_f64_u

record br_elem =
  be_pc :: u32
  be_stack_pop :: u32

datatype (plugins only: code size) const_op =
    I32_const_t u32 | I64_const_t u64 | F32_const_t u32 | F64_const_t u64 | V128_const_t "128 word"

datatype (plugins only: code size) numeric_op =
    Cmp_t cmp_op | Arith_t arith_op | Conv_t conv_op | Sat_t sat_op

datatype (plugins only: code size) bulk_op =
    Memory_init_t u32 | Data_drop_t u32 | Memory_copy_t | Memory_fill_t
  | Table_init_t u32 | Elem_drop_t u32 | Table_copy_t

datatype (plugins only: code size) vec_op =
    Vec_memory_t u32 u32 u32 | Vec_lane_memory_t u32 u32 u32 u8 | Vec_shuffle_t "u8 list"
  | Vec_lane_t u32 u8 | Vec_numeric_t u32

datatype (plugins only: code size) opcode =
    Unreachable_t | Nop_t
  | If_t u32 | Else_t u32
  | Br_t u32 u32 | Br_if_t u32 u32
  | Br_table_t u32 | Br_table_elems "br_elem list" | Reserved
  | Return_t u32 u32 u32
  | Call_t u32 | Call_indirect_t u32
  | Drop_t | Select_t
  | Get_local_t u32 | Set_local_t u32 | Tee_local_t u32 | Get_global_t u32 | Set_global_t u32
  | Load_t load_op u32 u32 | Store_t store_op u32 u32 | Current_memory_t | Grow_memory_t
  | Const_t const_op | Numeric_t numeric_op | Bulk_t bulk_op | Vec_t vec_op
  | Exit_t | Error_t

section \<open>Rows of the parser's macro lists\<close>

definition load_rows :: "(u8 \<times> load_op \<times> u32 \<times> value_type) list" where
  "load_rows = [
     (0x28, I32_load, 2, t_i32), (0x29, I64_load, 3, t_i64), (0x2A, F32_load, 2, t_f32),
     (0x2B, F64_load, 3, t_f64), (0x2C, I32_load8_s, 0, t_i32), (0x2E, I32_load16_s, 1,
     t_i32), (0x2D, I32_load8_u, 0, t_i32), (0x2F, I32_load16_u, 1, t_i32), (0x30,
     I64_load8_s, 0, t_i64), (0x32, I64_load16_s, 1, t_i64), (0x34, I64_load32_s, 2,
     t_i64), (0x31, I64_load8_u, 0, t_i64), (0x33, I64_load16_u, 1, t_i64), (0x35,
     I64_load32_u, 2, t_i64)]"

definition store_rows :: "(u8 \<times> store_op \<times> u32 \<times> value_type) list" where
  "store_rows = [
     (0x36, I32_store, 2, t_i32), (0x37, I64_store, 3, t_i64), (0x38, F32_store, 2, t_f32),
     (0x39, F64_store, 3, t_f64), (0x3A, I32_store8, 0, t_i32), (0x3B, I32_store16, 1,
     t_i32), (0x3C, I64_store8, 0, t_i64), (0x3D, I64_store16, 1, t_i64), (0x3E,
     I64_store32, 2, t_i64)]"

definition cmp_rows :: "(u8 \<times> cmp_op \<times> nat \<times> value_type \<times> value_type) list" where
  "cmp_rows = [
     (0x45, I32_cmp I32_eqz, 1, t_i32, t_i32), (0x46, I32_cmp I32_eq, 2, t_i32, t_i32),
     (0x47, I32_cmp I32_ne, 2, t_i32, t_i32), (0x48, I32_cmp I32_lt_s, 2, t_i32, t_i32),
     (0x49, I32_cmp I32_lt_u, 2, t_i32, t_i32), (0x4A, I32_cmp I32_gt_s, 2, t_i32, t_i32),
     (0x4B, I32_cmp I32_gt_u, 2, t_i32, t_i32), (0x4C, I32_cmp I32_le_s, 2, t_i32, t_i32),
     (0x4D, I32_cmp I32_le_u, 2, t_i32, t_i32), (0x4E, I32_cmp I32_ge_s, 2, t_i32, t_i32),
     (0x4F, I32_cmp I32_ge_u, 2, t_i32, t_i32), (0x50, I64_cmp I64_eqz, 1, t_i64, t_i32),
     (0x51, I64_cmp I64_eq, 2, t_i64, t_i32), (0x52, I64_cmp I64_ne, 2, t_i64, t_i32),
     (0x53, I64_cmp I64_lt_s, 2, t_i64, t_i32), (0x54, I64_cmp I64_lt_u, 2, t_i64, t_i32),
     (0x55, I64_cmp I64_gt_s, 2, t_i64, t_i32), (0x56, I64_cmp I64_gt_u, 2, t_i64, t_i32),
     (0x57, I64_cmp I64_le_s, 2, t_i64, t_i32), (0x58, I64_cmp I64_le_u, 2, t_i64, t_i32),
     (0x59, I64_cmp I64_ge_s, 2, t_i64, t_i32), (0x5A, I64_cmp I64_ge_u, 2, t_i64, t_i32),
     (0x5B, F32_cmp F32_eq, 2, t_f32, t_i32), (0x5C, F32_cmp F32_ne, 2, t_f32, t_i32),
     (0x5D, F32_cmp F32_lt, 2, t_f32, t_i32), (0x5E, F32_cmp F32_gt, 2, t_f32, t_i32),
     (0x5F, F32_cmp F32_le, 2, t_f32, t_i32), (0x60, F32_cmp F32_ge, 2, t_f32, t_i32),
     (0x61, F64_cmp F64_eq, 2, t_f64, t_i32), (0x62, F64_cmp F64_ne, 2, t_f64, t_i32),
     (0x63, F64_cmp F64_lt, 2, t_f64, t_i32), (0x64, F64_cmp F64_gt, 2, t_f64, t_i32),
     (0x65, F64_cmp F64_le, 2, t_f64, t_i32), (0x66, F64_cmp F64_ge, 2, t_f64, t_i32)]"

definition arith_rows :: "(u8 \<times> arith_op \<times> nat \<times> value_type \<times> value_type) list" where
  "arith_rows = [
     (0x67, I32_op I32_clz, 1, t_i32, t_i32), (0x68, I32_op I32_ctz, 1, t_i32, t_i32),
     (0x69, I32_op I32_popcnt, 1, t_i32, t_i32), (0x6A, I32_op I32_add, 2, t_i32, t_i32),
     (0x6B, I32_op I32_sub, 2, t_i32, t_i32), (0x6C, I32_op I32_mul, 2, t_i32, t_i32),
     (0x6D, I32_op I32_div_s, 2, t_i32, t_i32), (0x6E, I32_op I32_div_u, 2, t_i32, t_i32),
     (0x6F, I32_op I32_rem_s, 2, t_i32, t_i32), (0x70, I32_op I32_rem_u, 2, t_i32, t_i32),
     (0x71, I32_op I32_and, 2, t_i32, t_i32), (0x72, I32_op I32_or, 2, t_i32, t_i32),
     (0x73, I32_op I32_xor, 2, t_i32, t_i32), (0x74, I32_op I32_shl, 2, t_i32, t_i32),
     (0x75, I32_op I32_shr_s, 2, t_i32, t_i32), (0x76, I32_op I32_shr_u, 2, t_i32, t_i32),
     (0x77, I32_op I32_rotl, 2, t_i32, t_i32), (0x78, I32_op I32_rotr, 2, t_i32, t_i32),
     (0x79, I64_op I64_clz, 1, t_i64, t_i64), (0x7A, I64_op I64_ctz, 1, t_i64, t_i64),
     (0x7B, I64_op I64_popcnt, 1, t_i64, t_i64), (0x7C, I64_op I64_add, 2, t_i64, t_i64),
     (0x7D, I64_op I64_sub, 2, t_i64, t_i64), (0x7E, I64_op I64_mul, 2, t_i64, t_i64),
     (0x7F, I64_op I64_div_s, 2, t_i64, t_i64), (0x80, I64_op I64_div_u, 2, t_i64, t_i64),
     (0x81, I64_op I64_rem_s, 2, t_i64, t_i64), (0x82, I64_op I64_rem_u, 2, t_i64, t_i64),
     (0x83, I64_op I64_and, 2, t_i64, t_i64), (0x84, I64_op I64_or, 2, t_i64, t_i64),
     (0x85, I64_op I64_xor, 2, t_i64, t_i64), (0x86, I64_op I64_shl, 2, t_i64, t_i64),
     (0x87, I64_op I64_shr_s, 2, t_i64, t_i64), (0x88, I64_op I64_shr_u, 2, t_i64, t_i64),
     (0x89, I64_op I64_rotl, 2, t_i64, t_i64), (0x8A, I64_op I64_rotr, 2, t_i64, t_i64),
     (0x8B, F32_op F32_abs, 1, t_f32, t_f32), (0x8C, F32_op F32_neg, 1, t_f32, t_f32),
     (0x8D, F32_op F32_ceil, 1, t_f32, t_f32), (0x8E, F32_op F32_floor, 1, t_f32, t_f32),
     (0x8F, F32_op F32_trunc, 1, t_f32, t_f32), (0x90, F32_op F32_nearest, 1, t_f32,
     t_f32), (0x91, F32_op F32_sqrt, 1, t_f32, t_f32), (0x92, F32_op F32_add, 2, t_f32,
     t_f32), (0x93, F32_op F32_sub, 2, t_f32, t_f32), (0x94, F32_op F32_mul, 2, t_f32,
     t_f32), (0x95, F32_op F32_div, 2, t_f32, t_f32), (0x96, F32_op F32_min, 2, t_f32,
     t_f32), (0x97, F32_op F32_max, 2, t_f32, t_f32), (0x98, F32_op F32_copysign, 2, t_f32,
     t_f32), (0x99, F64_op F64_abs, 1, t_f64, t_f64), (0x9A, F64_op F64_neg, 1, t_f64,
     t_f64), (0x9B, F64_op F64_ceil, 1, t_f64, t_f64), (0x9C, F64_op F64_floor, 1, t_f64,
     t_f64), (0x9D, F64_op F64_trunc, 1, t_f64, t_f64), (0x9E, F64_op F64_nearest, 1,
     t_f64, t_f64), (0x9F, F64_op F64_sqrt, 1, t_f64, t_f64), (0xA0, F64_op F64_add, 2,
     t_f64, t_f64), (0xA1, F64_op F64_sub, 2, t_f64, t_f64), (0xA2, F64_op F64_mul, 2,
     t_f64, t_f64), (0xA3, F64_op F64_div, 2, t_f64, t_f64), (0xA4, F64_op F64_min, 2,
     t_f64, t_f64), (0xA5, F64_op F64_max, 2, t_f64, t_f64), (0xA6, F64_op F64_copysign, 2,
     t_f64, t_f64)]"

definition conv_rows :: "(u8 \<times> conv_op \<times> value_type \<times> value_type) list" where
  "conv_rows = [
     (0xA7, I32_wrap_i64, t_i64, t_i32), (0xA8, I32_trunc_s_f32, t_f32, t_i32), (0xA9,
     I32_trunc_u_f32, t_f32, t_i32), (0xAA, I32_trunc_s_f64, t_f64, t_i32), (0xAB,
     I32_trunc_u_f64, t_f64, t_i32), (0xAC, I64_extend_s_i32, t_i32, t_i64), (0xAD,
     I64_extend_u_i32, t_i32, t_i64), (0xAE, I64_trunc_s_f32, t_f32, t_i64), (0xAF,
     I64_trunc_u_f32, t_f32, t_i64), (0xB0, I64_trunc_s_f64, t_f64, t_i64), (0xB1,
     I64_trunc_u_f64, t_f64, t_i64), (0xB2, F32_convert_s_i32, t_i32, t_f32), (0xB3,
     F32_convert_u_i32, t_i32, t_f32), (0xB4, F32_convert_s_i64, t_i64, t_f32), (0xB5,
     F32_convert_u_i64, t_i64, t_f32), (0xB6, F32_demote_f64, t_f64, t_f32), (0xB7,
     F64_convert_s_i32, t_i32, t_f64), (0xB8, F64_convert_u_i32, t_i32, t_f64), (0xB9,
     F64_convert_s_i64, t_i64, t_f64), (0xBA, F64_convert_u_i64, t_i64, t_f64), (0xBB,
     F64_promote_f32, t_f32, t_f64), (0xBC, I32_reinterpret_f32, t_f32, t_i32), (0xBD,
     I64_reinterpret_f64, t_f64, t_i64), (0xBE, F32_reinterpret_i32, t_i32, t_f32), (0xBF,
     F64_reinterpret_i64, t_i64, t_f64)]"

definition extend_rows :: "(u8 \<times> arith_op \<times> value_type) list" where
  "extend_rows = [
     (0xC0, Extend_op I32_extend8_s, t_i32), (0xC1, Extend_op I32_extend16_s, t_i32),
     (0xC2, Extend_op I64_extend8_s, t_i64), (0xC3, Extend_op I64_extend16_s, t_i64),
     (0xC4, Extend_op I64_extend32_s, t_i64)]"

definition sat_rows :: "(u32 \<times> sat_op \<times> value_type \<times> value_type) list" where
  "sat_rows = [
     (0, I32_trunc_sat_f32_s, t_f32, t_i32), (1, I32_trunc_sat_f32_u, t_f32, t_i32), (2,
     I32_trunc_sat_f64_s, t_f64, t_i32), (3, I32_trunc_sat_f64_u, t_f64, t_i32), (4,
     I64_trunc_sat_f32_s, t_f32, t_i64), (5, I64_trunc_sat_f32_u, t_f32, t_i64), (6,
     I64_trunc_sat_f64_s, t_f64, t_i64), (7, I64_trunc_sat_f64_u, t_f64, t_i64)]"

definition vec_load_rows :: "(u32 \<times> u32) list" where
  "vec_load_rows = [
     (0, 4), (1, 3), (2, 3), (3, 3), (4, 3), (5, 3), (6, 3), (7, 0), (8, 1), (9, 2), (10,
     3), (92, 2), (93, 3)]"

definition vec_store_rows :: "(u32 \<times> u32) list" where
  "vec_store_rows = [
     (11, 4)]"

definition vec_load_lane_rows :: "(u32 \<times> nat) list" where
  "vec_load_lane_rows = [
     (84, 0), (85, 1), (86, 2), (87, 3)]"

definition vec_store_lane_rows :: "(u32 \<times> nat) list" where
  "vec_store_lane_rows = [
     (88, 0), (89, 1), (90, 2), (91, 3)]"

definition vec_extract_rows :: "(u32 \<times> value_type \<times> u8) list" where
  "vec_extract_rows = [
     (21, t_i32, 16), (22, t_i32, 16), (24, t_i32, 8), (25, t_i32, 8), (27, t_i32, 4), (29,
     t_i64, 2), (31, t_f32, 4), (33, t_f64, 2)]"

definition vec_replace_rows :: "(u32 \<times> value_type \<times> u8) list" where
  "vec_replace_rows = [
     (23, t_i32, 16), (26, t_i32, 8), (28, t_i32, 4), (30, t_i64, 2), (32, t_f32, 4), (34,
     t_f64, 2)]"

definition vec_numeric_rows_1 :: "(u32 \<times> value_type list \<times> value_type) list" where
  "vec_numeric_rows_1 = [
     (14, [t_v128, t_v128], t_v128), (15, [t_i32], t_v128), (16, [t_i32], t_v128), (17,
     [t_i32], t_v128), (18, [t_i64], t_v128), (19, [t_f32], t_v128), (20, [t_f64], t_v128),
     (35, [t_v128, t_v128], t_v128), (36, [t_v128, t_v128], t_v128), (37, [t_v128, t_v128],
     t_v128), (38, [t_v128, t_v128], t_v128), (39, [t_v128, t_v128], t_v128), (40, [t_v128,
     t_v128], t_v128), (41, [t_v128, t_v128], t_v128), (42, [t_v128, t_v128], t_v128), (43,
     [t_v128, t_v128], t_v128), (44, [t_v128, t_v128], t_v128), (45, [t_v128, t_v128],
     t_v128), (46, [t_v128, t_v128], t_v128), (47, [t_v128, t_v128], t_v128), (48, [t_v128,
     t_v128], t_v128), (49, [t_v128, t_v128], t_v128), (50, [t_v128, t_v128], t_v128), (51,
     [t_v128, t_v128], t_v128), (52, [t_v128, t_v128], t_v128), (53, [t_v128, t_v128],
     t_v128), (54, [t_v128, t_v128], t_v128), (55, [t_v128, t_v128], t_v128), (56, [t_v128,
     t_v128], t_v128), (57, [t_v128, t_v128], t_v128), (58, [t_v128, t_v128], t_v128), (59,
     [t_v128, t_v128], t_v128), (60, [t_v128, t_v128], t_v128), (61, [t_v128, t_v128],
     t_v128), (62, [t_v128, t_v128], t_v128), (63, [t_v128, t_v128], t_v128), (64, [t_v128,
     t_v128], t_v128), (214, [t_v128, t_v128], t_v128), (215, [t_v128, t_v128], t_v128),
     (216, [t_v128, t_v128], t_v128), (217, [t_v128, t_v128], t_v128), (218, [t_v128,
     t_v128], t_v128), (219, [t_v128, t_v128], t_v128), (65, [t_v128, t_v128], t_v128),
     (66, [t_v128, t_v128], t_v128), (67, [t_v128, t_v128], t_v128), (68, [t_v128, t_v128],
     t_v128), (69, [t_v128, t_v128], t_v128), (70, [t_v128, t_v128], t_v128), (71, [t_v128,
     t_v128], t_v128), (72, [t_v128, t_v128], t_v128), (73, [t_v128, t_v128], t_v128), (74,
     [t_v128, t_v128], t_v128), (75, [t_v128, t_v128], t_v128), (76, [t_v128, t_v128],
     t_v128), (77, [t_v128], t_v128), (78, [t_v128, t_v128], t_v128), (79, [t_v128,
     t_v128], t_v128), (80, [t_v128, t_v128], t_v128), (81, [t_v128, t_v128], t_v128), (82,
     [t_v128, t_v128, t_v128], t_v128), (83, [t_v128], t_i32), (96, [t_v128], t_v128), (97,
     [t_v128], t_v128), (98, [t_v128], t_v128), (99, [t_v128], t_i32), (100, [t_v128],
     t_i32), (101, [t_v128, t_v128], t_v128), (102, [t_v128, t_v128], t_v128), (107,
     [t_v128, t_i32], t_v128), (108, [t_v128, t_i32], t_v128), (109, [t_v128, t_i32],
     t_v128), (110, [t_v128, t_v128], t_v128), (111, [t_v128, t_v128], t_v128), (112,
     [t_v128, t_v128], t_v128), (113, [t_v128, t_v128], t_v128), (114, [t_v128, t_v128],
     t_v128), (115, [t_v128, t_v128], t_v128), (118, [t_v128, t_v128], t_v128), (119,
     [t_v128, t_v128], t_v128), (120, [t_v128, t_v128], t_v128), (121, [t_v128, t_v128],
     t_v128), (123, [t_v128, t_v128], t_v128), (124, [t_v128], t_v128), (125, [t_v128],
     t_v128), (128, [t_v128], t_v128), (129, [t_v128], t_v128), (130, [t_v128, t_v128],
     t_v128), (131, [t_v128], t_i32), (132, [t_v128], t_i32), (133, [t_v128, t_v128],
     t_v128), (134, [t_v128, t_v128], t_v128), (135, [t_v128], t_v128), (136, [t_v128],
     t_v128), (137, [t_v128], t_v128), (138, [t_v128], t_v128), (139, [t_v128, t_i32],
     t_v128), (140, [t_v128, t_i32], t_v128), (141, [t_v128, t_i32], t_v128)]"

definition vec_numeric_rows_2 :: "(u32 \<times> value_type list \<times> value_type) list" where
  "vec_numeric_rows_2 = [
     (142, [t_v128, t_v128], t_v128), (143, [t_v128, t_v128], t_v128), (144, [t_v128,
     t_v128], t_v128), (145, [t_v128, t_v128], t_v128), (146, [t_v128, t_v128], t_v128),
     (147, [t_v128, t_v128], t_v128), (149, [t_v128, t_v128], t_v128), (150, [t_v128,
     t_v128], t_v128), (151, [t_v128, t_v128], t_v128), (152, [t_v128, t_v128], t_v128),
     (153, [t_v128, t_v128], t_v128), (155, [t_v128, t_v128], t_v128), (156, [t_v128,
     t_v128], t_v128), (157, [t_v128, t_v128], t_v128), (158, [t_v128, t_v128], t_v128),
     (159, [t_v128, t_v128], t_v128), (126, [t_v128], t_v128), (127, [t_v128], t_v128),
     (160, [t_v128], t_v128), (161, [t_v128], t_v128), (163, [t_v128], t_i32), (164,
     [t_v128], t_i32), (167, [t_v128], t_v128), (168, [t_v128], t_v128), (169, [t_v128],
     t_v128), (170, [t_v128], t_v128), (171, [t_v128, t_i32], t_v128), (172, [t_v128,
     t_i32], t_v128), (173, [t_v128, t_i32], t_v128), (174, [t_v128, t_v128], t_v128),
     (177, [t_v128, t_v128], t_v128), (181, [t_v128, t_v128], t_v128), (182, [t_v128,
     t_v128], t_v128), (183, [t_v128, t_v128], t_v128), (184, [t_v128, t_v128], t_v128),
     (185, [t_v128, t_v128], t_v128), (186, [t_v128, t_v128], t_v128), (188, [t_v128,
     t_v128], t_v128), (189, [t_v128, t_v128], t_v128), (190, [t_v128, t_v128], t_v128),
     (191, [t_v128, t_v128], t_v128), (192, [t_v128], t_v128), (193, [t_v128], t_v128),
     (195, [t_v128], t_i32), (196, [t_v128], t_i32), (199, [t_v128], t_v128), (200,
     [t_v128], t_v128), (201, [t_v128], t_v128), (202, [t_v128], t_v128), (203, [t_v128,
     t_i32], t_v128), (204, [t_v128, t_i32], t_v128), (205, [t_v128, t_i32], t_v128), (206,
     [t_v128, t_v128], t_v128), (209, [t_v128, t_v128], t_v128), (213, [t_v128, t_v128],
     t_v128), (220, [t_v128, t_v128], t_v128), (221, [t_v128, t_v128], t_v128), (222,
     [t_v128, t_v128], t_v128), (223, [t_v128, t_v128], t_v128), (103, [t_v128], t_v128),
     (104, [t_v128], t_v128), (105, [t_v128], t_v128), (106, [t_v128], t_v128), (224,
     [t_v128], t_v128), (225, [t_v128], t_v128), (227, [t_v128], t_v128), (228, [t_v128,
     t_v128], t_v128), (229, [t_v128, t_v128], t_v128), (230, [t_v128, t_v128], t_v128),
     (231, [t_v128, t_v128], t_v128), (232, [t_v128, t_v128], t_v128), (233, [t_v128,
     t_v128], t_v128), (234, [t_v128, t_v128], t_v128), (235, [t_v128, t_v128], t_v128),
     (116, [t_v128], t_v128), (117, [t_v128], t_v128), (122, [t_v128], t_v128), (148,
     [t_v128], t_v128), (236, [t_v128], t_v128), (237, [t_v128], t_v128), (239, [t_v128],
     t_v128), (240, [t_v128, t_v128], t_v128), (241, [t_v128, t_v128], t_v128), (242,
     [t_v128, t_v128], t_v128), (243, [t_v128, t_v128], t_v128), (244, [t_v128, t_v128],
     t_v128), (245, [t_v128, t_v128], t_v128), (246, [t_v128, t_v128], t_v128), (247,
     [t_v128, t_v128], t_v128), (248, [t_v128], t_v128), (249, [t_v128], t_v128), (250,
     [t_v128], t_v128), (251, [t_v128], t_v128), (252, [t_v128], t_v128), (253, [t_v128],
     t_v128), (254, [t_v128], t_v128), (255, [t_v128], t_v128), (94, [t_v128], t_v128),
     (95, [t_v128], t_v128)]"

end
