(* ===== verification/Vm_Alloc.thy ===== *)
theory Vm_Alloc
  imports Vm_Types
begin

text \<open>
  The allocators of \<^verbatim>\<open>allocator.hpp\<close> that hold the parsed module and the linear memory.  Sizes and
  offsets of \<open>growable_allocator\<close> and \<open>bounded_allocator\<close> keep the 64-bit width of \<open>size_t\<close>; pointers
  are offsets from the mapped base.  The results of \<open>mmap\<close>, \<open>mprotect\<close> and \<open>sysconf\<close> are arguments
  (\<open>ok\<close>, \<open>pagesize\<close>).  An operation that throws is a value \<open>Inl\<close> without a state.

  Shown: an allocation never wraps, is aligned, starts at or after the old end and lies inside the
  capacity, and it fails exactly when the aligned request does not fit; giving back the tail of the
  last block restores the allocator; the linear memory is zero wherever it has just become
  accessible.
\<close>

section \<open>\<open>bounded_allocator\<close>\<close>

record bounded_allocator =
  ba_mem_size :: u64
  ba_index :: u64

definition ba_new :: "u64 \<Rightarrow> bounded_allocator" where
  "ba_new sz = \<lparr>ba_mem_size = sz, ba_index = 0\<rparr>"

definition ba_alloc :: "u64 \<Rightarrow> u64 \<Rightarrow> bounded_allocator \<Rightarrow> (u64 \<times> bounded_allocator) res" where
  "ba_alloc sz n b = assertE (sz * n + ba_index b \<le> ba_mem_size b) Wasm_bad_alloc
     (Inr (ba_index b, b\<lparr>ba_index := ba_index b + sz * n\<rparr>))"

definition ba_free :: "bounded_allocator \<Rightarrow> bounded_allocator res" where
  "ba_free b = assertE (ba_index b > 0) Wasm_double_free (Inr (b\<lparr>ba_index := 0\<rparr>))"

definition ba_reset :: "bounded_allocator \<Rightarrow> bounded_allocator" where
  "ba_reset b = b\<lparr>ba_index := 0\<rparr>"

section \<open>\<open>growable_allocator\<close>\<close>

record growable_allocator =
  ga_offset :: u64
  ga_largest_offset :: u64
  ga_capacity :: u64
  ga_mapped :: bool
  ga_code_base :: u64
  ga_code_size :: u64

definition max_memory_size :: u64 where "max_memory_size = 1024 * 1024 * 1024"

definition align_offset :: "u64 \<Rightarrow> u64 \<Rightarrow> u64" where
  "align_offset align_amt offset = (offset + align_amt - 1) AND NOT (align_amt - 1)"

text \<open>\<open>align_to_page\<close> is the same expression with the system's page size.\<close>

definition align_to_page :: "u64 \<Rightarrow> u64 \<Rightarrow> u64" where
  "align_to_page pagesize offset = (offset + pagesize - 1) AND NOT (pagesize - 1)"

definition ga_empty :: growable_allocator where
  "ga_empty = \<lparr>ga_offset = 0, ga_largest_offset = 0, ga_capacity = 0, ga_mapped = False,
     ga_code_base = 0, ga_code_size = 0\<rparr>"

definition use_default_memory :: "bool \<Rightarrow> growable_allocator \<Rightarrow> growable_allocator res" where
  "use_default_memory ok g = assertE (\<not> ga_mapped g) Wasm_bad_alloc
     (assertE ok Wasm_bad_alloc (Inr (g\<lparr>ga_mapped := True, ga_capacity := max_memory_size\<rparr>)))"

definition use_fixed_memory :: "bool \<Rightarrow> u64 \<Rightarrow> growable_allocator \<Rightarrow> growable_allocator res" where
  "use_fixed_memory ok sz g = assertE (0 < sz \<and> sz \<le> max_memory_size) Wasm_bad_alloc
     (assertE (\<not> ga_mapped g) Wasm_bad_alloc
       (assertE ok Wasm_bad_alloc (Inr (g\<lparr>ga_mapped := True, ga_capacity := sz\<rparr>))))"

definition ga_alloc :: "u64 \<Rightarrow> u64 \<Rightarrow> u64 \<Rightarrow> growable_allocator \<Rightarrow> (u64 \<times> growable_allocator) res" where
  "ga_alloc sz al n g = assertE (ga_capacity g mod al = 0) Wasm_bad_alloc
     (let off = align_offset al (ga_offset g) in
      assertE ((ga_capacity g - off) div sz \<ge> n) Wasm_bad_alloc
      (let aligned = sz * n + off in
       assertE (aligned \<le> ga_capacity g) Wasm_bad_alloc
       (Inr (off, g\<lparr>ga_offset := aligned,
                    ga_largest_offset := (if aligned > ga_largest_offset g then aligned
                                          else ga_largest_offset g)\<rparr>))))"

definition ga_reclaim :: "u64 \<Rightarrow> u64 \<Rightarrow> u64 \<Rightarrow> growable_allocator \<Rightarrow> growable_allocator res" where
  "ga_reclaim sz ptr n g = assertE (ga_offset g div sz \<ge> n) Wasm_bad_alloc
     (assertE (n = 0 \<or> ptr + sz * n = ga_offset g) Wasm_bad_alloc
       (Inr (if n \<noteq> 0 then g\<lparr>ga_offset := ptr\<rparr> else g)))"

definition ga_start_code :: "u64 \<Rightarrow> growable_allocator \<Rightarrow> u64 \<times> growable_allocator" where
  "ga_start_code pagesize g = (let off = align_to_page pagesize (ga_offset g)
     in (off, g\<lparr>ga_offset := off\<rparr>))"

text \<open>\<open>end_code<false>\<close>: the code stays where the writer put it.\<close>

definition ga_end_code :: "u64 \<Rightarrow> u64 \<Rightarrow> growable_allocator \<Rightarrow> growable_allocator" where
  "ga_end_code pagesize code_base g = (let off = align_to_page pagesize (ga_offset g)
     in g\<lparr>ga_offset := off, ga_code_base := code_base, ga_code_size := off - code_base\<rparr>)"

definition ga_largest_used_size :: "u64 \<Rightarrow> growable_allocator \<Rightarrow> u64" where
  "ga_largest_used_size pagesize g = align_to_page pagesize (ga_largest_offset g)"

definition ga_finalize :: "u64 \<Rightarrow> bool \<Rightarrow> growable_allocator \<Rightarrow> growable_allocator res" where
  "ga_finalize pagesize ok g =
     (if ga_capacity g \<noteq> ga_offset g
      then let final_size = align_to_page pagesize (ga_offset g) in
           if final_size < ga_capacity g
           then assertE ok Wasm_bad_alloc
                  (Inr (g\<lparr>ga_capacity := final_size, ga_offset := final_size,
                          ga_mapped := (ga_mapped g \<and> final_size \<noteq> 0)\<rparr>))
           else Inr g
      else Inr g)"

definition ga_release_base_memory :: "bool \<Rightarrow> growable_allocator \<Rightarrow> growable_allocator res" where
  "ga_release_base_memory ok g = (if ga_mapped g then assertE ok Wasm_bad_alloc (Inr (g\<lparr>ga_mapped := False\<rparr>))
     else Inr g)"

definition ga_free :: "growable_allocator \<Rightarrow> growable_allocator res" where
  "ga_free g = Inl Wasm_bad_alloc"

definition ga_reset :: "growable_allocator \<Rightarrow> growable_allocator" where
  "ga_reset g = g\<lparr>ga_offset := 0\<rparr>"

section \<open>\<open>wasm_allocator\<close>: the linear memory\<close>

text \<open>
  \<open>wa_raw\<close> holds the bytes of the reserved region, relative to \<open>raw\<close>; \<open>wa_page\<close> is the number of
  accessible pages, -1 when the module has no memory.  \<open>wa_guard\<close> records that the page in front
  of the memory (the one that holds the pointers to the globals and the table) is readable.
\<close>

record wasm_allocator =
  wa_raw :: "nat \<Rightarrow> u8"
  wa_page :: int
  wa_guard :: bool

definition memset_zero :: "nat \<Rightarrow> nat \<Rightarrow> (nat \<Rightarrow> u8) \<Rightarrow> nat \<Rightarrow> u8" where
  "memset_zero from len mem = (\<lambda>a. if from \<le> a \<and> a < from + len then 0 else mem a)"

definition wa_new :: "(nat \<Rightarrow> u8) \<Rightarrow> wasm_allocator" where
  "wa_new mem = \<lparr>wa_raw = mem, wa_page = -1, wa_guard = False\<rparr>"

definition wa_alloc :: "bool \<Rightarrow> u64 \<Rightarrow> wasm_allocator \<Rightarrow> wasm_allocator res" where
  "wa_alloc ok sz w = (if sz = 0 then Inr w else
     assertE (wa_page w \<ge> 0) Wasm_bad_alloc
     (assertE (sz + word_of_int (wa_page w) \<le> of_nat max_pages) Wasm_bad_alloc
      (assertE ok Wasm_bad_alloc
        (Inr (w\<lparr>wa_raw := memset_zero (page_size * nat (wa_page w)) (page_size * unat sz) (wa_raw w),
                wa_page := sint (ucast (word_of_int (wa_page w) + sz) :: u32)\<rparr>)))))"

definition wa_free :: "bool \<Rightarrow> u64 \<Rightarrow> wasm_allocator \<Rightarrow> wasm_allocator res" where
  "wa_free ok sz w = (if sz = 0 then Inr w else
     assertE (wa_page w \<ge> 0) Wasm_bad_alloc
     (assertE (sz \<le> word_of_int (wa_page w)) Wasm_bad_alloc
      (assertE ok Wasm_bad_alloc (Inr (w\<lparr>wa_page := wa_page w - int (unat sz)\<rparr>)))))"

definition wa_reset_pages :: "bool \<Rightarrow> u32 \<Rightarrow> wasm_allocator \<Rightarrow> wasm_allocator res" where
  "wa_reset_pages ok new_pages w =
     bindE (if wa_page w \<ge> 0
            then Inr (w\<lparr>wa_raw := memset_zero 0 (page_size * nat (wa_page w)) (wa_raw w)\<rparr>)
            else assertE ok Wasm_bad_alloc (Inr (w\<lparr>wa_guard := True, wa_page := 0\<rparr>)))
       (\<lambda>w1. if unat new_pages > nat (wa_page w1) then wa_alloc ok (ucast (new_pages - word_of_int (wa_page w1))) w1
             else if unat new_pages < nat (wa_page w1) then wa_free ok (ucast (word_of_int (wa_page w1) - new_pages)) w1
             else Inr w1)"

text \<open>\<open>reset()\<close>: signal that no memory is defined.\<close>

definition wa_reset :: "bool \<Rightarrow> wasm_allocator \<Rightarrow> wasm_allocator res" where
  "wa_reset ok w =
     bindE (if wa_page w \<ge> 0
            then assertE ok Wasm_bad_alloc
                   (Inr (w\<lparr>wa_raw := memset_zero 0 (page_size * nat (wa_page w)) (wa_raw w), wa_guard := False\<rparr>))
            else Inr w)
       (\<lambda>w1. Inr (w1\<lparr>wa_page := -1\<rparr>))"

definition wa_bytes :: "wasm_allocator \<Rightarrow> nat" where
  "wa_bytes w = page_size * nat (wa_page w)"

text \<open>\<open>is_in_region\<close>: the 8 GiB reserved behind \<open>raw\<close>, which 33-bit effective addresses stay in.\<close>

definition is_in_region :: "nat \<Rightarrow> bool" where
  "is_in_region p \<longleftrightarrow> p < max_memory"

section \<open>Alignment\<close>

text \<open>\<open>align_offset\<close> rounds up to the next multiple of a power of two.\<close>

lemma unat_align_offset:
  assumes "al = 2 ^ k" and "k < 64" and "unat off + 2 ^ k \<le> 2 ^ 64"
  shows "unat (align_offset al off) = (unat off + 2 ^ k - 1) div 2 ^ k * 2 ^ k"
proof -
  have al: "unat al = 2 ^ k" using assms(1,2) by (simp add: unat_two_power)
  have sum: "unat (off + al - 1) = unat off + 2 ^ k - 1"
  proof -
    have a1: "unat (al - 1) = 2 ^ k - 1" using al by (subst unat_dec) simp_all
    have "unat off + unat (al - 1) < 2 ^ LENGTH(64)" using assms(3) a1 by simp
    then have "unat (off + (al - 1)) = unat off + unat (al - 1)" by (rule unat_add_no_wrap)
    then show ?thesis using a1 by (simp only: add_diff_eq) simp
  qed
  have "al - 1 = mask k" by (simp add: mask_eq_exp_minus_1 assms(1))
  then have "unat (align_offset al off) = unat (off + al - 1) - unat (off + al - 1) mod 2 ^ k"
    by (simp only: align_offset_def unat_and_not_mask)
  also have "\<dots> = unat (off + al - 1) div 2 ^ k * 2 ^ k" by (simp add: minus_mod_eq_div_mult)
  finally show ?thesis by (simp only: sum)
qed

definition round_up :: "nat \<Rightarrow> nat \<Rightarrow> nat" where
  "round_up al n = (n + al - 1) div al * al"

lemma round_up_ge: "0 < al \<Longrightarrow> n \<le> round_up al n"
  unfolding round_up_def
  using div_mult_mod_eq [of "n + al - 1" al] mod_less_divisor [of al "n + al - 1"] by linarith

lemma round_up_dvd [simp]: "al dvd round_up al n"
  by (simp add: round_up_def)

lemma round_up_multiple: "0 < al \<Longrightarrow> al dvd n \<Longrightarrow> round_up al n = n"
proof -
  assume "0 < al" "al dvd n"
  then obtain m where "n = al * m" by auto
  moreover have "(al * m + al - 1) div al = m"
  proof -
    have "al * m + al - 1 = (al - 1) + m * al" using \<open>0 < al\<close> by (simp add: mult.commute)
    then show ?thesis using \<open>0 < al\<close> by (simp only: div_mult_self1) simp
  qed
  ultimately show ?thesis by (simp add: round_up_def)
qed

lemma round_up_le_multiple:
  assumes "0 < al" and "al dvd m" and "n \<le> m"
  shows "round_up al n \<le> m"
proof -
  have "(n + al - 1) div al \<le> (m + al - 1) div al" using assms(3) by (intro div_le_mono) simp
  then have "round_up al n \<le> round_up al m" by (simp add: round_up_def)
  with round_up_multiple [OF assms(1,2)] show ?thesis by simp
qed

section \<open>Growable allocation\<close>

text \<open>
  The allocator is well formed when its end does not pass the capacity and the capacity does not
  pass the gigabyte that is mapped.  Types have a size in bytes and a power of two as alignment.
\<close>

definition wf_ga :: "growable_allocator \<Rightarrow> bool" where
  "wf_ga g \<longleftrightarrow> ga_offset g \<le> ga_capacity g \<and> ga_capacity g \<le> max_memory_size"

definition layout :: "u64 \<Rightarrow> u64 \<Rightarrow> bool" where
  "layout sz al \<longleftrightarrow> 0 < sz \<and> (\<exists>k<31. al = 2 ^ k)"

lemma wf_ga_bounds:
  assumes "wf_ga g"
  shows "unat (ga_offset g) \<le> unat (ga_capacity g)" and "unat (ga_capacity g) \<le> 2 ^ 30"
  using assms by (simp_all add: wf_ga_def word_le_nat_alt max_memory_size_def)

lemma layout_align:
  assumes "layout sz al" and "wf_ga g"
  shows "unat (align_offset al (ga_offset g)) = round_up (unat al) (unat (ga_offset g))"
    and "0 < unat al"
proof -
  from assms(1) obtain k where k: "k < 31" "al = 2 ^ k" by (auto simp: layout_def)
  then have al: "unat al = 2 ^ k" by (simp add: unat_two_power)
  have "(2::nat) ^ k \<le> 2 ^ 30" using k(1) by (intro power_increasing) simp_all
  then have "unat (ga_offset g) + 2 ^ k \<le> 2 ^ 64"
    using wf_ga_bounds [OF assms(2)] by simp
  with k show "unat (align_offset al (ga_offset g)) = round_up (unat al) (unat (ga_offset g))"
    by (simp add: unat_align_offset round_up_def al unat_two_power)
  show "0 < unat al" by (simp add: al)
qed

text \<open>What a successful allocation returns, and what it leaves behind.\<close>

lemma ga_alloc_Inr:
  assumes wf: "wf_ga g" and lay: "layout sz al" and res: "ga_alloc sz al n g = Inr (p, g')"
  shows "unat p = round_up (unat al) (unat (ga_offset g))"
    and "unat p + unat sz * unat n \<le> unat (ga_capacity g)"
    and "unat (ga_offset g') = unat p + unat sz * unat n"
    and "ga_capacity g' = ga_capacity g"
    and "wf_ga g'"
proof -
  let ?off = "align_offset al (ga_offset g)"
  have al_dvd: "unat al dvd unat (ga_capacity g)"
    using res by (auto simp: ga_alloc_def res_simps Let_def unat_mod dvd_eq_mod_eq_0 simp flip: unat_eq_zero)
  have p: "p = ?off" and n: "n \<le> (ga_capacity g - ?off) div sz"
    and g': "ga_offset g' = sz * n + ?off" "ga_capacity g' = ga_capacity g"
    and le: "sz * n + ?off \<le> ga_capacity g"
    using res by (auto simp: ga_alloc_def res_simps Let_def)
  have off_le: "unat ?off \<le> unat (ga_capacity g)"
    using layout_align [OF lay wf] wf_ga_bounds [OF wf] al_dvd
    by (simp add: round_up_le_multiple)
  have "unat n \<le> (unat (ga_capacity g) - unat ?off) div unat sz"
    using n off_le by (simp add: word_le_nat_alt unat_div unat_sub)
  then have fit: "unat sz * unat n \<le> unat (ga_capacity g) - unat ?off"
    by (metis div_times_less_eq_dividend le_trans mult.commute mult_le_mono2)
  have mul: "unat (sz * n) = unat sz * unat n"
    using fit wf_ga_bounds [OF wf] by (intro unat_mult_lem [THEN iffD1]) simp
  have add: "unat (sz * n + ?off) = unat sz * unat n + unat ?off"
    using fit off_le wf_ga_bounds [OF wf] by (subst unat_add_no_wrap) (simp_all add: mul)
  show "unat p = round_up (unat al) (unat (ga_offset g))" using layout_align [OF lay wf] p by simp
  show "unat p + unat sz * unat n \<le> unat (ga_capacity g)" using fit off_le p by simp
  show "unat (ga_offset g') = unat p + unat sz * unat n" using add g' p by simp
  show "ga_capacity g' = ga_capacity g" by (rule g')
  show "wf_ga g'" using le g' wf by (simp add: wf_ga_def)
qed

lemma ga_alloc_Inl:
  assumes wf: "wf_ga g" and lay: "layout sz al" and dvd: "unat al dvd unat (ga_capacity g)"
    and res: "ga_alloc sz al n g = Inl e"
  shows "e = Wasm_bad_alloc"
    and "unat (ga_capacity g) < round_up (unat al) (unat (ga_offset g)) + unat sz * unat n"
proof -
  let ?off = "align_offset al (ga_offset g)"
  have m0: "ga_capacity g mod al = 0"
    using dvd by (simp add: unat_mod dvd_eq_mod_eq_0 flip: unat_eq_zero)
  have off: "unat ?off = round_up (unat al) (unat (ga_offset g))" by (rule layout_align(1) [OF lay wf])
  have off_le: "unat ?off \<le> unat (ga_capacity g)"
    using layout_align [OF lay wf] wf_ga_bounds [OF wf] dvd by (simp add: round_up_le_multiple)
  show "e = Wasm_bad_alloc" using res by (auto simp: ga_alloc_def assertE_eq_Inl_iff Let_def)
  show "unat (ga_capacity g) < round_up (unat al) (unat (ga_offset g)) + unat sz * unat n"
  proof (rule ccontr)
    assume "\<not> ?thesis"
    then have fit: "unat ?off + unat sz * unat n \<le> unat (ga_capacity g)" by (simp add: off)
    have "0 < unat sz" using lay by (simp add: layout_def word_less_nat_alt)
    moreover have "unat n * unat sz \<le> unat (ga_capacity g) - unat ?off"
      using fit by (simp add: mult.commute)
    ultimately have "unat n \<le> (unat (ga_capacity g) - unat ?off) div unat sz"
      by (simp add: less_eq_div_iff_mult_less_eq)
    then have "n \<le> (ga_capacity g - ?off) div sz"
      using off_le by (simp add: word_le_nat_alt unat_div unat_sub)
    moreover have mul: "unat (sz * n) = unat sz * unat n"
      using fit wf_ga_bounds [OF wf] by (intro unat_mult_lem [THEN iffD1]) simp
    then have "sz * n + ?off \<le> ga_capacity g"
      using fit wf_ga_bounds [OF wf] by (simp add: word_le_nat_alt) (subst unat_add_no_wrap; simp)
    ultimately show False using res m0 by (simp add: ga_alloc_def Let_def)
  qed
qed

text \<open>
  C32: \<open>growable_allocator::alloc\<close> succeeds exactly when the request, rounded up to its alignment, fits
  the capacity; the block it returns is aligned, lies behind everything allocated before and
  inside the capacity, and the new end is the end of the block.  No step of the computation
  wraps, whatever number of elements is asked for.
\<close>

theorem ga_alloc_correct:
  assumes "wf_ga g" and "layout sz al" and "unat al dvd unat (ga_capacity g)"
  shows "case ga_alloc sz al n g of
      Inl e \<Rightarrow> e = Wasm_bad_alloc
        \<and> unat (ga_capacity g) < round_up (unat al) (unat (ga_offset g)) + unat sz * unat n
    | Inr (p, g') \<Rightarrow> unat al dvd unat p \<and> unat (ga_offset g) \<le> unat p
        \<and> unat p + unat sz * unat n \<le> unat (ga_capacity g)
        \<and> unat (ga_offset g') = unat p + unat sz * unat n \<and> wf_ga g'"
proof (cases "ga_alloc sz al n g")
  case (Inl e)
  then show ?thesis using ga_alloc_Inl [OF assms] by simp
next
  case (Inr pg)
  obtain p g' where pg: "pg = (p, g')" by (cases pg)
  note r = ga_alloc_Inr [OF assms(1,2) Inr [unfolded pg]]
  show ?thesis using r round_up_ge [OF layout_align(2) [OF assms(2,1)], of "unat (ga_offset g)"]
    by (simp add: Inr pg)
qed

theorem ga_alloc_correct_witness:
  "case ga_alloc 24 8 0xFFFFFFFFFFFFFFFF
      \<lparr>ga_offset = 4100, ga_largest_offset = 4100, ga_capacity = 0x40000000, ga_mapped = True,
       ga_code_base = 0, ga_code_size = 0\<rparr> of
     Inl e \<Rightarrow> e = Wasm_bad_alloc | Inr _ \<Rightarrow> False"
proof -
  let ?g = "\<lparr>ga_offset = 4100, ga_largest_offset = 4100, ga_capacity = 0x40000000, ga_mapped = True,
       ga_code_base = 0, ga_code_size = 0\<rparr> :: growable_allocator"
  have wf: "wf_ga ?g" by (simp add: wf_ga_def max_memory_size_def)
  have lay: "layout 24 8" unfolding layout_def by (intro conjI exI [of _ 3]) simp_all
  have dvd: "unat (8 :: u64) dvd unat (ga_capacity ?g)" by simp
  show ?thesis using ga_alloc_correct [OF wf lay dvd, of "0xFFFFFFFFFFFFFFFF"]
    by (auto split: sum.splits simp: ga_alloc_def)
qed

text \<open>Giving back the last elements of the most recent block moves the end to where they start.\<close>

lemma ga_reclaim_tail:
  assumes wf: "wf_ga g" and sz: "0 < sz" and end_eq: "unat p + unat sz * unat n = unat (ga_offset g)"
    and m: "unat m \<le> unat n"
  shows "ga_reclaim sz (p + sz * m) (n - m) g = Inr (g\<lparr>ga_offset := p + sz * m\<rparr>)"
proof -
  have lt: "unat (ga_offset g) < 2 ^ LENGTH(64)" by (rule unsigned_less)
  have nm: "unat (n - m) = unat n - unat m" using m by (simp add: unat_sub word_le_nat_alt)
  have "unat sz * (unat n - unat m) \<le> unat (ga_offset g)"
    using end_eq by (metis diff_le_self le_add2 le_trans mult_le_mono2)
  moreover have "0 < unat sz" using sz by (simp add: word_less_nat_alt)
  ultimately have "unat (n - m) \<le> unat (ga_offset g) div unat sz"
    by (simp add: nm less_eq_div_iff_mult_less_eq mult.commute)
  then have c1: "ga_offset g div sz \<ge> n - m" by (simp add: word_le_nat_alt unat_div)
  have off: "ga_offset g = p + sz * n"
  proof (rule word_unat_eq_iff [THEN iffD2])
    have mul: "unat (sz * n) = unat sz * unat n"
      using end_eq lt by (intro unat_mult_lem [THEN iffD1]) simp
    show "unat (ga_offset g) = unat (p + sz * n)"
      using end_eq lt by (subst unat_add_no_wrap) (simp_all add: mul)
  qed
  have "p + sz * m + sz * (n - m) = p + sz * n" by (simp add: algebra_simps)
  then have c2: "p + sz * m + sz * (n - m) = ga_offset g" by (simp add: off)
  show ?thesis
  proof (cases "n - m = 0")
    case True
    then have "p + sz * m = ga_offset g" using c2 by simp
    then show ?thesis using True by (simp add: ga_reclaim_def)
  qed (simp add: ga_reclaim_def c1 c2)
qed

section \<open>Linear memory\<close>

lemma memset_zero_0 [simp]: "memset_zero from 0 mem = mem"
  by (auto simp: memset_zero_def fun_eq_iff)

lemma page_small:
  assumes "0 \<le> i" and "i \<le> int max_pages"
  shows "unat (word_of_int i :: u64) = nat i" and "unat (word_of_int i :: u32) = nat i"
  using assms
  by (simp_all add: max_pages_def page_size_def max_useable_memory_def unsigned_of_int take_bit_int_eq_self)

lemma sint_ucast_small:
  assumes "uint (x :: u64) \<le> 65536"
  shows "sint (ucast x :: u32) = uint x"
proof -
  have "0 \<le> uint x" by simp
  then have "- 2147483648 \<le> uint x" by linarith
  with assms show ?thesis
    by (simp add: sint_uint unsigned_ucast_eq signed_take_bit_int_eq_self take_bit_int_eq_self)
qed

lemma wa_alloc_ok:
  assumes "0 \<le> wa_page w" and "nat (wa_page w) + unat sz \<le> max_pages"
  shows "wa_alloc True sz w =
    Inr (w\<lparr>wa_raw := memset_zero (page_size * nat (wa_page w)) (page_size * unat sz) (wa_raw w),
           wa_page := wa_page w + int (unat sz)\<rparr>)"
proof -
  have mp: "max_pages = 65536" by (simp add: max_pages_def page_size_def max_useable_memory_def)
  have p: "unat (word_of_int (wa_page w) :: u64) = nat (wa_page w)"
    using assms by (intro page_small) simp_all
  have add: "unat (sz + word_of_int (wa_page w)) = unat sz + nat (wa_page w)"
    using assms(2) by (subst unat_add_no_wrap) (simp_all add: p mp)
  then have le: "sz + word_of_int (wa_page w) \<le> of_nat max_pages"
    using assms(2) by (simp add: word_le_nat_alt mp)
  have pg: "sint (ucast (word_of_int (wa_page w) + sz) :: u32) = wa_page w + int (unat sz)"
  proof -
    have u: "uint (word_of_int (wa_page w) + sz) = wa_page w + int (unat sz)"
      using add assms(1) by (simp only: uint_nat) (simp add: add.commute)
    have "0 \<le> wa_page w + int (unat sz)" "wa_page w + int (unat sz) \<le> 65536"
      using assms mp by linarith+
    with u have "uint (word_of_int (wa_page w) + sz) \<le> 65536" by simp
    from sint_ucast_small [OF this] show ?thesis by (simp only: u)
  qed
  show ?thesis
  proof (cases "sz = 0")
    case False
    then show ?thesis using assms(1) le pg by (simp add: wa_alloc_def)
  qed (simp add: wa_alloc_def)
qed

lemma wa_free_ok:
  assumes "unat sz \<le> nat (wa_page w)" and "wa_page w \<le> int max_pages" and "0 \<le> wa_page w"
  shows "wa_free True sz w = Inr (w\<lparr>wa_page := wa_page w - int (unat sz)\<rparr>)"
  using assms page_small(1) [of "wa_page w"] by (auto simp: wa_free_def word_le_nat_alt)

lemma wa_reset_pages_ok:
  assumes "-1 \<le> wa_page w" and "wa_page w \<le> int max_pages" and "unat new_pages \<le> max_pages"
  shows "\<exists>w'. wa_reset_pages True new_pages w = Inr w' \<and> wa_page w' = int (unat new_pages)
      \<and> (\<forall>a < page_size * unat new_pages. wa_raw w' a = 0)"
proof -
  define w1 where "w1 = (if wa_page w \<ge> 0 then w\<lparr>wa_raw := memset_zero 0 (page_size * nat (wa_page w)) (wa_raw w)\<rparr>
                        else w\<lparr>wa_guard := True, wa_page := 0\<rparr>)"
  have pg: "0 \<le> wa_page w1" "wa_page w1 \<le> int max_pages"
    and z: "\<And>a. a < page_size * nat (wa_page w1) \<Longrightarrow> wa_raw w1 a = 0"
    using assms(2) by (auto simp: w1_def memset_zero_def split: if_splits)
  have step: "wa_reset_pages True new_pages w =
      (if unat new_pages > nat (wa_page w1) then wa_alloc True (ucast (new_pages - word_of_int (wa_page w1))) w1
       else if unat new_pages < nat (wa_page w1) then wa_free True (ucast (word_of_int (wa_page w1) - new_pages)) w1
       else Inr w1)"
    by (simp add: wa_reset_pages_def w1_def)
  note p32 = page_small(2) [OF pg]
  show ?thesis
  proof (cases "unat new_pages > nat (wa_page w1)")
    case True
    then have "unat (ucast (new_pages - word_of_int (wa_page w1)) :: u64) = unat new_pages - nat (wa_page w1)"
      by (simp add: unat_sub word_le_nat_alt p32 unat_ucast_up)
    then show ?thesis
      using True pg assms(3) z by (auto simp: step wa_alloc_ok memset_zero_def diff_mult_distrib2)
  next
    case False
    then have d: "unat (ucast (word_of_int (wa_page w1) - new_pages) :: u64) = nat (wa_page w1) - unat new_pages"
      by (simp add: unat_sub word_le_nat_alt p32 unat_ucast_up)
    have "\<And>a. a < page_size * unat new_pages \<Longrightarrow> wa_raw w1 a = 0"
      using False z by (meson less_le_trans mult_le_mono2 not_less)
    moreover have "int (unat new_pages) = wa_page w1" if "unat new_pages = nat (wa_page w1)"
      using that pg(1) by linarith
    ultimately show ?thesis
      using False pg d by (cases "unat new_pages = nat (wa_page w1)") (simp_all add: step wa_free_ok)
  qed
qed

end
