(* ===== verification/Vm_Writer.thy ===== *)
theory Vm_Writer
  imports Vm_Opcodes Vm_Alloc
begin

text \<open>
  \<^verbatim>\<open>bitcode_writer.hpp\<close>: the code generator behind the interpreter.  Every emission writes the next slot
  of \<open>fb\<close>, a bounds-checked vector allocated with one slot per byte of the function body; a
  branch whose target is not known yet is returned as an address and patched later by
  \<open>fix_branch\<close>.  An address is the \<open>pc\<close> member of the instruction in a slot, or the \<open>pc\<close> member of an
  entry of a branch table.

  The counters \<open>op_index\<close> and \<open>_base_offset\<close> (\<open>size_t\<close>, bounded by the size of \<open>fb\<close> and of the code
  segment) are naturals; program counters are 32-bit.  \<open>w_segment\<close> is the content of the code
  segment in front of \<open>fb\<close>: the instructions of the functions finished so far.
\<close>

section \<open>State\<close>

datatype br_addr = Pc_of nat | Case_pc nat nat

record bitcode_writer =
  w_alloc :: growable_allocator
  w_code_segment_base :: u64
  w_op_index :: nat
  w_fb :: "opcode list"
  w_fb_ptr :: u64
  w_base_offset :: nat
  w_stack_usage :: u32
  w_segment :: "opcode list"

definition sizeof_opcode :: u64 where "sizeof_opcode = 24"
definition alignof_opcode :: u64 where "alignof_opcode = 8"
definition sizeof_br_elem :: nat where "sizeof_br_elem = 8"

section \<open>The guarded vector\<close>

text \<open>Construction allocates the elements; their contents are whatever the memory holds (\<open>Reserved\<close>).\<close>

definition fb_new :: "u64 \<Rightarrow> bitcode_writer \<Rightarrow> bitcode_writer res" where
  "fb_new n w = bindE (ga_alloc sizeof_opcode alignof_opcode n (w_alloc w)) (\<lambda>(p, g).
     Inr (w\<lparr>w_alloc := g, w_fb_ptr := p, w_fb := replicate (unat n) Reserved\<rparr>))"

text \<open>
  \<open>resize\<close>: growing takes fresh memory and does not copy the old elements; shrinking gives the tail
  back to the allocator.
\<close>

definition fb_resize :: "nat \<Rightarrow> bitcode_writer \<Rightarrow> bitcode_writer res" where
  "fb_resize n w =
     (if n > length (w_fb w) then fb_new (of_nat n) w
      else bindE (ga_reclaim sizeof_opcode (w_fb_ptr w + sizeof_opcode * of_nat n)
                    (of_nat (length (w_fb w)) - of_nat n) (w_alloc w))
             (\<lambda>g. Inr (w\<lparr>w_alloc := g, w_fb := take n (w_fb w)\<rparr>)))"

text \<open>\<open>fb[i] = op\<close>.\<close>

definition fb_set :: "nat \<Rightarrow> opcode \<Rightarrow> bitcode_writer \<Rightarrow> bitcode_writer res" where
  "fb_set i op w = assertE (i < length (w_fb w)) Wasm_vector_oob_exception
     (Inr (w\<lparr>w_fb := (w_fb w)[i := op]\<rparr>))"

section \<open>Emission\<close>

text \<open>\<open>fb[op_index++] = op\<close>, the body of every instruction without a branch.\<close>

definition w_put :: "opcode \<Rightarrow> bitcode_writer \<Rightarrow> bitcode_writer res" where
  "w_put op w = bindE (fb_set (w_op_index w) op w) (\<lambda>w1. Inr (w1\<lparr>w_op_index := w_op_index w + 1\<rparr>))"

definition w_new :: "u64 \<Rightarrow> growable_allocator \<Rightarrow> u64 \<Rightarrow> bitcode_writer res" where
  "w_new pagesize alloc source_bytes =
     (let (base, g) = ga_start_code pagesize alloc
      in fb_new source_bytes
           \<lparr>w_alloc = g, w_code_segment_base = base, w_op_index = 0, w_fb = [], w_fb_ptr = base,
            w_base_offset = 0, w_stack_usage = 1, w_segment = []\<rparr>)"

definition encode_depth_change :: "u32 \<Rightarrow> u8 \<Rightarrow> u32 res" where
  "encode_depth_change depth_change rt =
     assertE (depth_change AND 0x80000000 = 0) Wasm_parse_exception
     (Inr (if rt \<noteq> t_pseudo then depth_change OR 0x80000000 else depth_change))"

fun set_pc :: "u32 \<Rightarrow> opcode \<Rightarrow> opcode" where
  "set_pc pc (If_t _) = If_t pc"
| "set_pc pc (Else_t _) = Else_t pc"
| "set_pc pc (Br_t d _) = Br_t d pc"
| "set_pc pc (Br_if_t d _) = Br_if_t d pc"
| "set_pc pc op = op"

fun set_case_pc :: "nat \<Rightarrow> u32 \<Rightarrow> opcode \<Rightarrow> opcode" where
  "set_case_pc k pc (Br_table_elems es) = Br_table_elems (es[k := (es ! k)\<lparr>be_pc := pc\<rparr>])"
| "set_case_pc k pc op = op"

text \<open>\<open>*branch = pc\<close>.\<close>

definition write_pc :: "br_addr \<Rightarrow> u32 \<Rightarrow> opcode list \<Rightarrow> opcode list" where
  "write_pc addr pc fb = (case addr of
       Pc_of i \<Rightarrow> fb[i := set_pc pc (fb ! i)]
     | Case_pc i k \<Rightarrow> fb[i := set_case_pc k pc (fb ! i)])"

definition emit_end :: "bitcode_writer \<Rightarrow> u32" where
  "emit_end w = of_nat (w_op_index w)"

definition emit_loop :: "bitcode_writer \<Rightarrow> u32" where
  "emit_loop w = of_nat (w_op_index w)"

definition emit_if :: "bitcode_writer \<Rightarrow> (br_addr \<times> bitcode_writer) res" where
  "emit_if w = bindE (w_put (If_t 0) w) (\<lambda>w1. Inr (Pc_of (w_op_index w), w1))"

definition emit_else :: "br_addr \<Rightarrow> bitcode_writer \<Rightarrow> (br_addr \<times> bitcode_writer) res" where
  "emit_else if_loc w = bindE (w_put (Else_t 0) w) (\<lambda>w1.
     Inr (Pc_of (w_op_index w),
          w1\<lparr>w_fb := write_pc if_loc (of_nat (w_base_offset w1 + w_op_index w1)) (w_fb w1)\<rparr>))"

definition emit_br :: "u32 \<Rightarrow> u8 \<Rightarrow> bitcode_writer \<Rightarrow> (br_addr \<times> bitcode_writer) res" where
  "emit_br depth_change rt w = bindE (w_put (Br_t 0 0) w) (\<lambda>w1.
     bindE (encode_depth_change depth_change rt) (\<lambda>d.
       Inr (Pc_of (w_op_index w), w1\<lparr>w_fb := (w_fb w1)[w_op_index w := Br_t d 0]\<rparr>)))"

definition emit_return :: "u32 \<Rightarrow> u8 \<Rightarrow> bitcode_writer \<Rightarrow> (br_addr \<times> bitcode_writer) res" where
  "emit_return depth_change rt w = emit_br depth_change rt w"

definition emit_br_if :: "u32 \<Rightarrow> u8 \<Rightarrow> bitcode_writer \<Rightarrow> (br_addr \<times> bitcode_writer) res" where
  "emit_br_if depth_change rt w = bindE (w_put (Br_if_t 0 0) w) (\<lambda>w1.
     bindE (encode_depth_change depth_change rt) (\<lambda>d.
       Inr (Pc_of (w_op_index w), w1\<lparr>w_fb := (w_fb w1)[w_op_index w := Br_if_t d 0]\<rparr>)))"

subsection \<open>Branch tables\<close>

text \<open>
  \<open>br_table_parser\<close>: \<open>bp_tab\<close> is the slot where the labels start, \<open>bp_offset\<close> the number of slots
  reserved for them, \<open>bp_i\<close> the next label.  The labels are eight bytes each and are written over the
  reserved slots; the slot behind them holds an \<open>error_t\<close> that must survive.
\<close>

record br_table_parser =
  bp_tab :: nat
  bp_offset :: nat
  bp_i :: nat

definition emit_br_table :: "u32 \<Rightarrow> bitcode_writer \<Rightarrow> (br_table_parser \<times> bitcode_writer) res" where
  "emit_br_table table_size w = bindE (w_put (Br_table_t 0) w) (\<lambda>w1.
     let offset = unat table_size * sizeof_br_elem div unat sizeof_opcode + 2;
         tab = w_op_index w1 in
     bindE (fb_set tab (Br_table_elems []) w1) (\<lambda>w2.
     let w3 = w2\<lparr>w_op_index := w_op_index w2 + offset\<rparr> in
     bindE (fb_set (w_op_index w3) Error_t w3) (\<lambda>w4.
       Inr (\<lparr>bp_tab = tab, bp_offset = offset, bp_i = 0\<rparr>,
            w4\<lparr>w_fb := (w_fb w4)[w_op_index w := Br_table_t table_size]\<rparr>))))"

fun add_elem :: "br_elem \<Rightarrow> opcode \<Rightarrow> opcode" where
  "add_elem e (Br_table_elems es) = Br_table_elems (es @ [e])"
| "add_elem e op = op"

text \<open>The slot that entry \<open>i\<close> is written to, relative to the start of the labels.\<close>

definition elem_slot :: "nat \<Rightarrow> nat" where
  "elem_slot i = i * sizeof_br_elem div unat sizeof_opcode"

definition emit_case :: "u32 \<Rightarrow> u8 \<Rightarrow> br_table_parser \<Rightarrow> bitcode_writer
    \<Rightarrow> (br_addr \<times> br_table_parser \<times> bitcode_writer) res" where
  "emit_case depth_change rt bp w =
     bindE (encode_depth_change depth_change rt) (\<lambda>d.
       let e = \<lparr>be_pc = 0, be_stack_pop = d\<rparr>; bp' = bp\<lparr>bp_i := bp_i bp + 1\<rparr> in
       if elem_slot (bp_i bp) < bp_offset bp
       then Inr (Case_pc (bp_tab bp) (bp_i bp), bp',
                 w\<lparr>w_fb := (w_fb w)[bp_tab bp := add_elem e (w_fb w ! bp_tab bp)]\<rparr>)
       else if bp_tab bp + elem_slot (bp_i bp) < length (w_fb w)
       then Inr (Case_pc (bp_tab bp) (bp_i bp), bp',
                 w\<lparr>w_fb := (w_fb w)[bp_tab bp + elem_slot (bp_i bp) := Reserved]\<rparr>)
       else Inl Undefined_behaviour)"

definition emit_default :: "u32 \<Rightarrow> u8 \<Rightarrow> br_table_parser \<Rightarrow> bitcode_writer
    \<Rightarrow> (br_addr \<times> br_table_parser \<times> bitcode_writer) res" where
  "emit_default depth_change rt bp w =
     bindE (emit_case depth_change rt bp w) (\<lambda>(a, bp', w1).
       assertE (w_op_index w1 < length (w_fb w1)) Wasm_vector_oob_exception
       (assertE (w_fb w1 ! w_op_index w1 = Error_t) Wasm_parse_exception (Inr (a, bp', w1))))"

section \<open>Functions\<close>

definition fix_branch :: "br_addr \<Rightarrow> u32 \<Rightarrow> bitcode_writer \<Rightarrow> bitcode_writer" where
  "fix_branch branch target w =
     w\<lparr>w_fb := write_pc branch (of_nat (w_base_offset w + unat target)) (w_fb w)\<rparr>"

definition emit_prologue :: "u32 \<Rightarrow> bitcode_writer \<Rightarrow> bitcode_writer res" where
  "emit_prologue body_size w = fb_new (ucast body_size) (w\<lparr>w_op_index := 0\<rparr>)"

definition sum_locals :: "local_entry list \<Rightarrow> u32" where
  "sum_locals locals = sum_list (map le_count locals)"

definition emit_epilogue :: "func_type \<Rightarrow> local_entry list \<Rightarrow> bitcode_writer \<Rightarrow> bitcode_writer res" where
  "emit_epilogue ft locals w = bindE (fb_resize (w_op_index w + 1) w) (\<lambda>w1.
     fb_set (length (w_fb w1) - 1)
       (Return_t (sum_locals locals + of_nat (length (param_types ft))) (ucast (return_count ft)) (w_stack_usage w1))
       w1)"

definition w_finalize :: "function_body \<Rightarrow> bitcode_writer \<Rightarrow> (function_body \<times> bitcode_writer) res" where
  "w_finalize body w = (let w1 = w\<lparr>w_op_index := w_op_index w + 1\<rparr> in
     bindE (fb_resize (w_op_index w1) w1) (\<lambda>w2.
       let sz = of_nat (w_op_index w2) :: u32 in
       Inr (body\<lparr>fb_code := unat (w_fb_ptr w2), fb_size := sz, fb_stack_size := w_stack_usage w2\<rparr>,
            w2\<lparr>w_base_offset := w_base_offset w2 + unat sz, w_segment := w_segment w2 @ w_fb w2\<rparr>)))"

definition set_stack_usage :: "u64 \<Rightarrow> bitcode_writer \<Rightarrow> bitcode_writer res" where
  "set_stack_usage usage w = (let u = usage + 16 in
     assertE (\<not> u > 0xFFFFFFFF) Wasm_parse_exception (Inr (w\<lparr>w_stack_usage := ucast u\<rparr>)))"

section \<open>What an emission changes\<close>

text \<open>\<open>emitted k w w'\<close>: only \<open>fb\<close> and \<open>op_index\<close> changed, \<open>fb\<close> kept its size, \<open>k\<close> slots were used.\<close>

definition emitted :: "nat \<Rightarrow> bitcode_writer \<Rightarrow> bitcode_writer \<Rightarrow> bool" where
  "emitted k w w' \<longleftrightarrow> length (w_fb w') = length (w_fb w) \<and>
     w' = w\<lparr>w_fb := w_fb w', w_op_index := w_op_index w + k\<rparr>"

lemma w_update_commute [simp]:
  "w\<lparr>w_op_index := n, w_fb := fb\<rparr> = w\<lparr>w_fb := fb, w_op_index := n\<rparr>" for w :: bitcode_writer
  by simp

lemma emittedI [intro?]:
  "length fb = length (w_fb w) \<Longrightarrow> n = w_op_index w + k \<Longrightarrow> emitted k w (w\<lparr>w_fb := fb, w_op_index := n\<rparr>)"
  by (simp add: emitted_def)

lemma emitted_refl [simp]: "emitted 0 w w"
  by (simp add: emitted_def)

lemma emitted_trans: "emitted i w w1 \<Longrightarrow> emitted j w1 w2 \<Longrightarrow> emitted (i + j) w w2"
  unfolding emitted_def by (cases w; cases w1; cases w2) simp

lemma emittedD:
  assumes "emitted k w w'"
  shows "w_op_index w' = w_op_index w + k" and "w_base_offset w' = w_base_offset w"
    and "length (w_fb w') = length (w_fb w)" and "w_alloc w' = w_alloc w" and "w_fb_ptr w' = w_fb_ptr w"
    and "w_segment w' = w_segment w" and "w_stack_usage w' = w_stack_usage w"
    and "w_code_segment_base w' = w_code_segment_base w"
  using assms unfolding emitted_def by (cases w; cases w'; simp)+

lemma w_put_emitted: "w_put op w = Inr w' \<Longrightarrow> emitted 1 w w'"
  by (auto simp: w_put_def fb_set_def res_simps emitted_def)

lemma w_put_Inr: "w_put op w = Inr w' \<longleftrightarrow> w_op_index w < length (w_fb w) \<and>
    w' = w\<lparr>w_fb := (w_fb w)[w_op_index w := op], w_op_index := w_op_index w + 1\<rparr>"
  by (auto simp: w_put_def fb_set_def res_simps)

lemma length_write_pc [simp]: "length (write_pc a pc fb) = length fb"
  by (simp add: write_pc_def split: br_addr.split)

lemma fix_branch_emitted [simp]: "emitted 0 w (fix_branch a t w)"
  by (simp add: fix_branch_def emitted_def)

section \<open>Branch targets\<close>

text \<open>
  The addresses an instruction holds, the target stored at an address, and the invariant of code
  generation: every branch of the buffer goes to a position of this function that has been
  emitted already, except the addresses in a set that still has to be patched.
\<close>

fun addrs_of :: "nat \<Rightarrow> opcode \<Rightarrow> br_addr set" where
  "addrs_of i (If_t _) = {Pc_of i}"
| "addrs_of i (Else_t _) = {Pc_of i}"
| "addrs_of i (Br_t _ _) = {Pc_of i}"
| "addrs_of i (Br_if_t _ _) = {Pc_of i}"
| "addrs_of i (Br_table_elems es) = {Case_pc i k | k. k < length es}"
| "addrs_of i op = {}"

fun op_target :: "opcode \<Rightarrow> u32" where
  "op_target (If_t pc) = pc"
| "op_target (Else_t pc) = pc"
| "op_target (Br_t _ pc) = pc"
| "op_target (Br_if_t _ pc) = pc"
| "op_target op = 0"

fun case_target :: "nat \<Rightarrow> opcode \<Rightarrow> u32" where
  "case_target k (Br_table_elems es) = be_pc (es ! k)"
| "case_target k op = 0"

definition target_at :: "opcode list \<Rightarrow> br_addr \<Rightarrow> u32" where
  "target_at fb a = (case a of Pc_of i \<Rightarrow> op_target (fb ! i) | Case_pc i k \<Rightarrow> case_target k (fb ! i))"

definition code_addrs :: "opcode list \<Rightarrow> br_addr set" where
  "code_addrs fb = (\<Union>i<length fb. addrs_of i (fb ! i))"

definition resolved :: "opcode list \<Rightarrow> nat \<Rightarrow> nat \<Rightarrow> br_addr \<Rightarrow> bool" where
  "resolved fb base n a \<longleftrightarrow> (\<exists>t \<le> n. target_at fb a = of_nat (base + t))"

definition branches_ok :: "br_addr set \<Rightarrow> bitcode_writer \<Rightarrow> bool" where
  "branches_ok X w \<longleftrightarrow> (\<forall>a \<in> code_addrs (w_fb w). a \<in> X \<or> resolved (w_fb w) (w_base_offset w) (w_op_index w) a)"

lemma resolved_mono: "resolved fb base n a \<Longrightarrow> n \<le> n' \<Longrightarrow> resolved fb base n' a"
  by (meson le_trans resolved_def)

lemma addrs_of_slot:
  "Pc_of j \<in> addrs_of i op \<Longrightarrow> j = i" "Case_pc j k \<in> addrs_of i op \<Longrightarrow> j = i"
  by (cases op; auto)+

lemma addrs_of_set_pc [simp]: "addrs_of i (set_pc pc op) = addrs_of i op"
  by (cases op) simp_all

lemma addrs_of_set_case_pc [simp]: "addrs_of i (set_case_pc k pc op) = addrs_of i op"
  by (cases op) simp_all

lemma case_target_set_pc [simp]: "case_target k (set_pc pc op) = case_target k op"
  by (cases op) simp_all

lemma op_target_set_case_pc [simp]: "op_target (set_case_pc k pc op) = op_target op"
  by (cases op) simp_all

lemma case_target_set_case_pc: "k \<noteq> k' \<Longrightarrow> case_target k (set_case_pc k' pc op) = case_target k op"
  by (cases op) simp_all

lemma nth_update_read: "j < length xs \<Longrightarrow> xs[i := x] ! j = (if i = j then x else xs ! j)"
  by auto

lemma addrs_of_write_pc:
  "i < length fb \<Longrightarrow> addrs_of i (write_pc a pc fb ! i) = addrs_of i (fb ! i)"
  by (cases a) (auto simp: write_pc_def nth_update_read)

lemma code_addrs_write_pc [simp]: "code_addrs (write_pc a pc fb) = code_addrs fb"
  by (simp add: code_addrs_def addrs_of_write_pc)

text \<open>Patching an address gives it its target and leaves the others alone.\<close>

lemma target_write_pc_same:
  assumes "a \<in> code_addrs fb"
  shows "target_at (write_pc a pc fb) a = pc"
proof -
  from assms obtain i where i: "i < length fb" "a \<in> addrs_of i (fb ! i)" by (auto simp: code_addrs_def)
  then show ?thesis
    by (cases a; cases "fb ! i") (auto simp: target_at_def write_pc_def nth_update_read)
qed

lemma target_write_pc_other:
  assumes "a \<in> code_addrs fb" and "a \<noteq> b"
  shows "target_at (write_pc b pc fb) a = target_at fb a"
proof -
  from assms obtain i where i: "i < length fb" "a \<in> addrs_of i (fb ! i)" by (auto simp: code_addrs_def)
  then have "a = Pc_of i \<or> (\<exists>k. a = Case_pc i k)" by (cases a) (auto dest: addrs_of_slot)
  then show ?thesis using assms(2) i(1)
    by (cases b) (auto simp: target_at_def write_pc_def nth_update_read split: if_splits,
        metis case_target_set_case_pc)
qed

lemma branches_ok_mono: "branches_ok X w \<Longrightarrow> X \<subseteq> Y \<Longrightarrow> branches_ok Y w"
  by (auto simp: branches_ok_def)

lemma branches_ok_write_pc:
  assumes ok: "branches_ok X w" and t: "t \<le> w_op_index w" and pc: "pc = of_nat (w_base_offset w + t)"
  shows "branches_ok (X - {a}) (w\<lparr>w_fb := write_pc a pc (w_fb w)\<rparr>)"
proof -
  have "b \<in> X - {a} \<or> resolved (write_pc a pc (w_fb w)) (w_base_offset w) (w_op_index w) b"
    if b: "b \<in> code_addrs (w_fb w)" for b
  proof (cases "b = a")
    case True
    then show ?thesis using target_write_pc_same [of b "w_fb w" pc] b t pc by (auto simp: resolved_def)
  next
    case False
    then show ?thesis using target_write_pc_other [OF b False, of pc] ok b
      by (auto simp: branches_ok_def resolved_def)
  qed
  then show ?thesis by (simp add: branches_ok_def)
qed

lemma branches_ok_fix_branch:
  assumes "branches_ok X w" and "unat t \<le> w_op_index w"
  shows "branches_ok (X - {a}) (fix_branch a t w)"
  unfolding fix_branch_def by (rule branches_ok_write_pc [OF assms refl])

text \<open>Writing a slot: the addresses of the new instruction replace those of the old one.\<close>

lemma target_at_update_other:
  "a \<notin> addrs_of i op \<Longrightarrow> a \<in> code_addrs (fb[i := op]) \<Longrightarrow>
     a \<in> code_addrs fb \<and> target_at (fb[i := op]) a = target_at fb a"
  by (cases a; cases "i < length fb")
    (auto simp: code_addrs_def target_at_def nth_update_read dest: addrs_of_slot split: if_splits; metis addrs_of_slot)+

lemma branches_ok_set:
  assumes ok: "branches_ok X w" and n: "w_op_index w \<le> n"
  shows "branches_ok (X \<union> addrs_of i op) (w\<lparr>w_fb := (w_fb w)[i := op], w_op_index := n\<rparr>)"
proof -
  have "a \<in> X \<union> addrs_of i op \<or> resolved ((w_fb w)[i := op]) (w_base_offset w) n a"
    if a: "a \<in> code_addrs ((w_fb w)[i := op])" for a
  proof (cases "a \<in> addrs_of i op")
    case False
    from target_at_update_other [OF False a] ok
    have "a \<in> X \<or> resolved ((w_fb w)[i := op]) (w_base_offset w) (w_op_index w) a"
      by (auto simp: branches_ok_def resolved_def)
    then show ?thesis using resolved_mono n by blast
  qed simp
  then show ?thesis by (simp add: branches_ok_def)
qed

lemma fb_set_no_ub: "fb_set i op w \<noteq> Inl Undefined_behaviour"
  by (simp add: fb_set_def assertE_def)

lemma w_put_no_ub: "w_put op w \<noteq> Inl Undefined_behaviour"
  by (simp add: w_put_def bindE_eq_Inl_iff fb_set_no_ub)

lemma encode_depth_change_no_ub: "encode_depth_change d rt \<noteq> Inl Undefined_behaviour"
  by (simp add: encode_depth_change_def assertE_def)

text \<open>
  The contract of the emissions that return an address: they use one slot and leave one new address
  to patch.  A client either patches it at once or records it for the end of the block.
\<close>

locale branch_emitter =
  fixes em :: "bitcode_writer \<Rightarrow> (br_addr \<times> bitcode_writer) res"
  assumes one_slot: "em w = Inr (a, w') \<Longrightarrow> emitted 1 w w'"
    and new_addr: "em w = Inr (a, w') \<Longrightarrow> branches_ok X w \<Longrightarrow> branches_ok (insert a X) w'"
    and em_no_ub: "em w \<noteq> Inl Undefined_behaviour"
begin

lemma emit_then_fix:
  assumes "em w = Inr (a, w')" and "branches_ok X w" and "unat t \<le> w_op_index w"
  shows "branches_ok X (fix_branch a t w')" and "emitted 1 w (fix_branch a t w')"
proof -
  have le: "unat t \<le> w_op_index w'" using emittedD(1) [OF one_slot [OF assms(1)]] assms(3) by simp
  show "branches_ok X (fix_branch a t w')"
    by (rule branches_ok_mono [OF branches_ok_fix_branch [OF new_addr [OF assms(1,2)] le]]) auto
  show "emitted 1 w (fix_branch a t w')"
    using emitted_trans [OF one_slot [OF assms(1)] fix_branch_emitted] by simp
qed

lemma emit_then_record:
  assumes "em w = Inr (a, w')" and "branches_ok X w" and "insert a X \<subseteq> Y"
  shows "branches_ok Y w'"
  by (rule branches_ok_mono [OF new_addr [OF assms(1,2)] assms(3)])

end

lemma w_put_branches_ok:
  assumes "branches_ok X w" and "w_put op w = Inr w'"
  shows "branches_ok (X \<union> addrs_of (w_op_index w) op) w'"
  using assms branches_ok_set [of X w "w_op_index w + 1" "w_op_index w" op] by (auto simp: w_put_Inr)

lemma branch_emitterI:
  assumes em: "\<And>w a w'. em w = Inr (a, w') \<Longrightarrow> a = Pc_of (w_op_index w) \<and>
      (\<exists>op. addrs_of (w_op_index w) op = {Pc_of (w_op_index w)} \<and>
        w' = w\<lparr>w_fb := (w_fb w)[w_op_index w := op], w_op_index := w_op_index w + 1\<rparr>)"
    and ub: "\<And>w. em w \<noteq> Inl Undefined_behaviour"
  shows "branch_emitter em"
proof
  fix w a w' X assume "em w = Inr (a, w')"
  from em [OF this] obtain op where a: "a = Pc_of (w_op_index w)" "addrs_of (w_op_index w) op = {a}"
    and w': "w' = w\<lparr>w_fb := (w_fb w)[w_op_index w := op], w_op_index := w_op_index w + 1\<rparr>" by auto
  show "emitted 1 w w'" by (simp add: w' emitted_def)
  show "branches_ok (insert a X) w'" if "branches_ok X w"
    using branches_ok_set [OF that, of "w_op_index w + 1" "w_op_index w" op] a(2) by (simp add: w')
qed (rule ub)

interpretation if_em: branch_emitter emit_if
  by (rule branch_emitterI)
    (auto simp: emit_if_def w_put_Inr res_simps bindE_eq_Inl_iff w_put_no_ub intro!: exI [of _ "If_t 0"])

interpretation br_em: branch_emitter "emit_br d rt" for d rt
  by (rule branch_emitterI)
    (auto simp: emit_br_def w_put_Inr res_simps bindE_eq_Inl_iff w_put_no_ub encode_depth_change_no_ub
      intro!: exI [of _ "Br_t _ 0"])

interpretation br_if_em: branch_emitter "emit_br_if d rt" for d rt
  by (rule branch_emitterI)
    (auto simp: emit_br_if_def w_put_Inr res_simps bindE_eq_Inl_iff w_put_no_ub encode_depth_change_no_ub
      intro!: exI [of _ "Br_if_t _ 0"])

interpretation return_em: branch_emitter "emit_return d rt" for d rt
  using br_em.branch_emitter_axioms [of d rt] by (simp add: emit_return_def [abs_def])

text \<open>\<open>else\<close> also sends the pending \<open>if\<close> to the instruction behind the \<open>else\<close>.\<close>

lemma emit_else_ok:
  assumes "emit_else l w = Inr (a, w')"
  shows "emitted 1 w w'" and "branches_ok X w \<Longrightarrow> branches_ok (insert a (X - {l})) w'"
proof -
  from assms obtain w1 where p: "w_put (Else_t 0) w = Inr w1" and a: "a = Pc_of (w_op_index w)"
    and w': "w' = w1\<lparr>w_fb := write_pc l (of_nat (w_base_offset w1 + w_op_index w1)) (w_fb w1)\<rparr>"
    by (auto simp: emit_else_def res_simps)
  show "emitted 1 w w'"
    using p by (auto simp: w' emitted_def w_put_Inr)
  assume ok: "branches_ok X w"
  have "branches_ok (insert a X - {l}) w'"
    using branches_ok_write_pc [OF w_put_branches_ok [OF ok p] le_refl refl, of l] by (simp add: w' a)
  then show "branches_ok (insert a (X - {l})) w'" by (rule branches_ok_mono) auto
qed

subsection \<open>Branch tables\<close>

lemma elem_slot_eq: "elem_slot i = i div 3"
  by (simp add: elem_slot_def sizeof_br_elem_def sizeof_opcode_def div_mult2_eq [of "i * 8" 8 3, simplified])

text \<open>The label area is filled up to entry \<open>bp_i\<close>, and the canary behind it is in place.\<close>

definition table_ok :: "nat \<Rightarrow> br_table_parser \<Rightarrow> bitcode_writer \<Rightarrow> bool" where
  "table_ok table_size bp w \<longleftrightarrow>
     bp_offset bp = table_size div 3 + 2 \<and> bp_tab bp + bp_offset bp = w_op_index w \<and>
     w_op_index w < length (w_fb w) \<and> w_fb w ! w_op_index w = Error_t \<and>
     (\<exists>es. w_fb w ! bp_tab bp = Br_table_elems es \<and> length es = bp_i bp)"

lemma emit_br_table_Inr:
  assumes "emit_br_table n w = Inr (bp, w')"
  defines "i \<equiv> w_op_index w" and "off \<equiv> unat n div 3 + 2"
  shows "i + 1 + off < length (w_fb w)" and "bp = \<lparr>bp_tab = i + 1, bp_offset = off, bp_i = 0\<rparr>"
    and "w' = w\<lparr>w_fb := (w_fb w)[i := Br_table_t 0, i + 1 := Br_table_elems [], i + 1 + off := Error_t,
                  i := Br_table_t n], w_op_index := i + 1 + off\<rparr>"
  using assms(1) elem_slot_eq [of "unat n"]
  by (auto simp: emit_br_table_def w_put_Inr fb_set_def res_simps Let_def i_def off_def elem_slot_def)

lemma emit_br_table_ok:
  assumes "emit_br_table n w = Inr (bp, w')"
  shows "emitted (unat n div 3 + 3) w w'" and "table_ok (unat n) bp w'" and "bp_i bp = 0"
    and "branches_ok X w \<Longrightarrow> branches_ok X w'"
proof -
  note r = emit_br_table_Inr [OF assms]
  show "emitted (unat n div 3 + 3) w w'" by (simp add: r(3) emitted_def)
  show "table_ok (unat n) bp w'" and "bp_i bp = 0" using r(1) by (simp_all add: r(2,3) table_ok_def)
  let ?i = "w_op_index w" and ?n = "w_op_index w + 1 + (unat n div 3 + 2)"
  assume "branches_ok X w"
  from branches_ok_set [OF this, of ?n ?i "Br_table_t 0"]
  have "branches_ok X (w\<lparr>w_fb := (w_fb w)[?i := Br_table_t 0], w_op_index := ?n\<rparr>)" by simp
  from branches_ok_set [OF this, of ?n "?i + 1" "Br_table_elems []"]
  have "branches_ok X (w\<lparr>w_fb := (w_fb w)[?i := Br_table_t 0, ?i + 1 := Br_table_elems []],
      w_op_index := ?n\<rparr>)" by simp
  from branches_ok_set [OF this, of ?n ?n Error_t]
  have "branches_ok X (w\<lparr>w_fb := (w_fb w)[?i := Br_table_t 0, ?i + 1 := Br_table_elems [], ?n := Error_t],
      w_op_index := ?n\<rparr>)" by simp
  from branches_ok_set [OF this, of ?n ?i "Br_table_t n"]
  show "branches_ok X w'" unfolding r(3) by simp
qed

lemma table_ok_fix_branch: "table_ok n bp w \<Longrightarrow> table_ok n bp (fix_branch a t w)"
  by (cases a) (auto simp: table_ok_def fix_branch_def write_pc_def nth_update_read)

lemma emit_case_Inr:
  assumes "table_ok n bp w" and "bp_i bp \<le> n" and "emit_case d rt bp w = Inr (a, bp', w')"
  shows "\<exists>e. a = Case_pc (bp_tab bp) (bp_i bp) \<and> bp' = bp\<lparr>bp_i := bp_i bp + 1\<rparr> \<and>
    w' = w\<lparr>w_fb := (w_fb w)[bp_tab bp := add_elem e (w_fb w ! bp_tab bp)]\<rparr>"
proof -
  have "elem_slot (bp_i bp) < bp_offset bp"
    using assms(1,2) div_le_mono [of "bp_i bp" n 3] by (simp add: elem_slot_eq table_ok_def)
  then show ?thesis using assms(3) by (auto simp: emit_case_def res_simps Let_def)
qed

lemma emit_case_ok:
  assumes "table_ok n bp w" and "bp_i bp \<le> n" and "emit_case d rt bp w = Inr (a, bp', w')"
  shows "emitted 0 w w'" and "table_ok n bp' w'" and "bp_i bp' = Suc (bp_i bp)"
    and "branches_ok X w \<Longrightarrow> branches_ok (insert a X) w'"
proof -
  from emit_case_Inr [OF assms] obtain e where
    a: "a = Case_pc (bp_tab bp) (bp_i bp)" and bp': "bp' = bp\<lparr>bp_i := bp_i bp + 1\<rparr>" and
    w': "w' = w\<lparr>w_fb := (w_fb w)[bp_tab bp := add_elem e (w_fb w ! bp_tab bp)]\<rparr>" by blast
  show "emitted 0 w w'" by (simp add: w' emitted_def)
  show "bp_i bp' = Suc (bp_i bp)" by (simp add: bp')
  show "table_ok n bp' w'" using assms(1) by (auto simp: table_ok_def bp' w' nth_update_read)
  from assms(1) obtain es where es: "w_fb w ! bp_tab bp = Br_table_elems es" "length es = bp_i bp"
    and tab: "bp_tab bp < length (w_fb w)" by (auto simp: table_ok_def)
  let ?fb = "(w_fb w)[bp_tab bp := Br_table_elems (es @ [e])]"
  have same: "b \<in> code_addrs (w_fb w) \<and> target_at ?fb b = target_at (w_fb w) b"
    if b: "b \<in> code_addrs ?fb" "b \<noteq> a" for b
  proof (cases "b \<in> addrs_of (bp_tab bp) (Br_table_elems (es @ [e]))")
    case True
    then obtain k where "b = Case_pc (bp_tab bp) k" "k < length es"
      using b(2) es(2) a by (auto simp: less_Suc_eq)
    then show ?thesis using tab es by (auto simp: code_addrs_def target_at_def nth_append intro!: bexI [of _ "bp_tab bp"])
  next
    case False
    then show ?thesis by (rule target_at_update_other [OF _ b(1)])
  qed
  assume ok: "branches_ok X w"
  have "b \<in> insert a X \<or> resolved ?fb (w_base_offset w) (w_op_index w) b" if "b \<in> code_addrs ?fb" for b
    using same [OF that] ok by (cases "b = a") (auto simp: branches_ok_def resolved_def)
  then show "branches_ok (insert a X) w'" by (simp add: branches_ok_def w' es(1))
qed

lemma emit_case_no_ub:
  assumes "table_ok n bp w" and "bp_i bp \<le> n" and "emit_case d rt bp w = Inl e"
  shows "e = Wasm_parse_exception"
proof -
  have "elem_slot (bp_i bp) < bp_offset bp"
    using assms(1,2) div_le_mono [of "bp_i bp" n 3] by (simp add: elem_slot_eq table_ok_def)
  then show ?thesis using assms(3)
    by (auto simp: emit_case_def bindE_eq_Inl_iff Let_def encode_depth_change_def assertE_eq_Inl_iff)
qed

lemma emit_default_Inr:
  assumes "emit_default d rt bp w = Inr (a, bp', w')"
  shows "emit_case d rt bp w = Inr (a, bp', w')"
  using assms by (auto simp: emit_default_def res_simps)

text \<open>The canary check of \<open>emit_default\<close> never fires: the last label still lies inside the reserved slots.\<close>

lemma emit_default_no_ub:
  assumes t: "table_ok n bp w" "bp_i bp \<le> n" and res: "emit_default d rt bp w = Inl e"
  shows "emit_case d rt bp w = Inl e"
proof (cases "emit_case d rt bp w")
  case (Inl e')
  then show ?thesis using res by (simp add: emit_default_def)
next
  case (Inr r)
  obtain a bp' w' where r: "r = (a, bp', w')" by (cases r)
  have "table_ok n bp' w'" using emit_case_ok(2) [OF t] Inr r by simp
  then show ?thesis using res Inr by (simp add: emit_default_def r table_ok_def)
qed

end
