(* ===== verification/Vm_Code_Parser.thy ===== *)
theory Vm_Code_Parser
  imports Vm_Raw Vm_Tracker Vm_Writer
begin

text \<open>
  \<open>parse_function_body_code\<close> of \<^verbatim>\<open>parser.hpp\<close>: the loop that reads the instructions of a function body,
  checks their types on the operand stack tracker, and drives the code writer.  The model is
  written in a small monad over the state of that loop (cursor, type stack, control stack, writer,
  nesting counter); each case of the instruction switch is one definition, the macro-generated
  cases are one definition over the rows of \<^verbatim>\<open>Vm_Opcodes\<close>.

  The control stack has its top first, so \<open>pc_stack[pc_stack.size() - label - 1]\<close> is element \<open>label\<close>.
\<close>

section \<open>State and monad\<close>

datatype relocations = Label u32 | Branches "br_addr list"

record pc_element =
  pe_operand_depth :: u32
  pe_expected_result :: u8
  pe_label_result :: u8
  pe_is_if :: bool
  pe_relocations :: relocations

record parse_env =
  pv_opt :: vm_options
  pv_mod :: vm_module
  pv_type_aliases :: "u32 list"
  pv_datacount :: "u32 option"
  pv_bounds :: nat
  pv_local_types :: local_types

record parse_state =
  ps_code :: gptr
  ps_stack :: tracker
  ps_pc :: "pc_element list"
  ps_writer :: bitcode_writer
  ps_nested :: u32

type_synonym 'a pm = "parse_env \<Rightarrow> parse_state \<Rightarrow> ('a \<times> parse_state) res"

definition returnM :: "'a \<Rightarrow> 'a pm" where
  "returnM x e s = Inr (x, s)"

definition throwM :: "vm_exn \<Rightarrow> 'a pm" where
  "throwM ex e s = Inl ex"

definition bindM :: "'a pm \<Rightarrow> ('a \<Rightarrow> 'b pm) \<Rightarrow> 'b pm" where
  "bindM m f e s = bindE (m e s) (\<lambda>(x, s'). f x e s')"

text \<open>A sequence of statements.\<close>

fun seqM :: "unit pm list \<Rightarrow> unit pm" where
  "seqM [] = returnM ()"
| "seqM (m # ms) = bindM m (\<lambda>_. seqM ms)"

definition assertM :: "bool \<Rightarrow> unit pm" where
  "assertM b = (if b then returnM () else throwM Wasm_parse_exception)"

definition resM :: "'a res \<Rightarrow> 'a pm" where
  "resM r e s = bindE r (\<lambda>x. Inr (x, s))"

definition askM :: "(parse_env \<Rightarrow> 'a) \<Rightarrow> 'a pm" where
  "askM f e s = Inr (f e, s)"

definition getM :: "(parse_state \<Rightarrow> 'a) \<Rightarrow> 'a pm" where
  "getM f e s = Inr (f s, s)"

text \<open>Lifting of reads from the cursor, of operations on the type stack, and of emissions.\<close>

definition readM :: "'a parser \<Rightarrow> 'a pm" where
  "readM prs e s = bindE (prs (ps_code s)) (\<lambda>(x, c). Inr (x, s\<lparr>ps_code := c\<rparr>))"

definition stackM :: "(vm_options \<Rightarrow> tracker \<Rightarrow> tracker res) \<Rightarrow> unit pm" where
  "stackM f e s = bindE (f (pv_opt e) (ps_stack s)) (\<lambda>t. Inr ((), s\<lparr>ps_stack := t\<rparr>))"

definition emitM :: "opcode \<Rightarrow> unit pm" where
  "emitM op e s = bindE (w_put op (ps_writer s)) (\<lambda>w. Inr ((), s\<lparr>ps_writer := w\<rparr>))"

definition writerM :: "(bitcode_writer \<Rightarrow> ('a \<times> bitcode_writer) res) \<Rightarrow> 'a pm" where
  "writerM em e s = bindE (em (ps_writer s)) (\<lambda>(x, w). Inr (x, s\<lparr>ps_writer := w\<rparr>))"

abbreviation rd_u32 :: "u32 pm" where "rd_u32 \<equiv> readM parse_varuint32"
abbreviation rd_byte :: "u8 pm" where "rd_byte \<equiv> readM gp_next"
abbreviation popM :: "u8 \<Rightarrow> unit pm" where "popM ty \<equiv> stackM (\<lambda>opt. tk_pop opt ty)"
abbreviation pushM :: "u8 \<Rightarrow> unit pm" where "pushM ty \<equiv> stackM (\<lambda>opt. tk_push opt ty)"
abbreviation topM :: "u8 \<Rightarrow> unit pm" where "topM ty \<equiv> stackM (\<lambda>opt. tk_top opt ty)"

definition pop_anyM :: "u8 pm" where
  "pop_anyM e s = bindE (tk_pop_any (pv_opt e) (ps_stack s)) (\<lambda>(ty, t). Inr (ty, s\<lparr>ps_stack := t\<rparr>))"

definition start_unreachableM :: "unit pm" where
  "start_unreachableM e s = Inr ((), s\<lparr>ps_stack := tk_start_unreachable (pv_opt e) (ps_stack s)\<rparr>)"

definition push_scopeM :: "unit pm" where
  "push_scopeM e s = Inr ((), s\<lparr>ps_stack := tk_push_scope (ps_stack s)\<rparr>)"

definition on_controlM :: "unit pm" where
  "on_controlM e s = bindE (nested_on_control (pv_opt e) (ps_nested s)) (\<lambda>c. Inr ((), s\<lparr>ps_nested := c\<rparr>))"

definition on_endM :: "unit pm" where
  "on_endM e s = Inr ((), s\<lparr>ps_nested := nested_on_end (pv_opt e) (ps_nested s)\<rparr>)"

text \<open>\<open>EOS_VM_ASSERT(*code == 0, ...); code++\<close>.\<close>

definition peek_parser :: "u8 parser" where
  "peek_parser p = bindE (gp_deref p) (\<lambda>b. Inr (b, p))"

definition skip_parser :: "unit parser" where
  "skip_parser p = bindE (gp_inc p) (\<lambda>p'. Inr ((), p'))"

definition zero_byteM :: "unit pm" where
  "zero_byteM = bindM (readM peek_parser) (\<lambda>b. seqM [assertM (b = 0), readM skip_parser])"

section \<open>The local functions of the loop\<close>

definition check_in_bounds :: "unit pm" where
  "check_in_bounds = bindM (askM pv_opt) (\<lambda>opt. bindM (getM ps_pc) (\<lambda>pc.
     assertM (\<not> allow_code_after_function_end opt \<or> pc \<noteq> [])))"

text \<open>\<open>pc_stack[pc_stack.size() - label - 1]\<close>.\<close>

definition label_elem :: "u32 \<Rightarrow> pc_element pm" where
  "label_elem label = bindM (getM ps_pc) (\<lambda>pc. resM (at_unchecked pc (unat label)))"

definition fix_branchM :: "br_addr \<Rightarrow> u32 \<Rightarrow> unit pm" where
  "fix_branchM address target e s = Inr ((), s\<lparr>ps_writer := fix_branch address target (ps_writer s)\<rparr>)"

definition add_relocation :: "nat \<Rightarrow> br_addr \<Rightarrow> pc_element list \<Rightarrow> pc_element list" where
  "add_relocation i a pc = (case pe_relocations (pc ! i) of
       Label t \<Rightarrow> pc
     | Branches rs \<Rightarrow> pc[i := (pc ! i)\<lparr>pe_relocations := Branches (rs @ [a])\<rparr>])"

definition handle_branch_target :: "u32 \<Rightarrow> br_addr \<Rightarrow> unit pm" where
  "handle_branch_target label address = bindM (getM ps_pc) (\<lambda>pc.
     bindM (assertM (unat label < length pc)) (\<lambda>_.
     bindM (label_elem label) (\<lambda>branch_target.
       case pe_relocations branch_target of
         Label target \<Rightarrow> fix_branchM address target
       | Branches rs \<Rightarrow> (\<lambda>e s. Inr ((), s\<lparr>ps_pc := add_relocation (unat label) address (ps_pc s)\<rparr>)))))"

definition compute_depth_change :: "u32 \<Rightarrow> (u32 \<times> u8) pm" where
  "compute_depth_change label = bindM (getM ps_pc) (\<lambda>pc.
     bindM (assertM (unat label < length pc)) (\<lambda>_.
     bindM (label_elem label) (\<lambda>branch_target.
     bindM (getM ps_stack) (\<lambda>t.
     let result = operand_depth t - pe_operand_depth branch_target in
     bindM (if pe_label_result branch_target \<noteq> t_pseudo then topM (pe_label_result branch_target) else returnM ())
       (\<lambda>_. returnM (result, pe_label_result branch_target))))))"

fun fix_branches :: "br_addr list \<Rightarrow> u32 \<Rightarrow> bitcode_writer \<Rightarrow> bitcode_writer" where
  "fix_branches [] target w = w"
| "fix_branches (a # as) target w = fix_branches as target (fix_branch a target w)"

definition relocation_list :: "pc_element \<Rightarrow> br_addr list" where
  "relocation_list pe = (case pe_relocations pe of Label _ \<Rightarrow> [] | Branches rs \<Rightarrow> rs)"

definition exit_scope :: "unit pm" where
  "exit_scope = bindM (getM ps_pc) (\<lambda>pc. case pc of
       [] \<Rightarrow> throwM Wasm_parse_exception
     | pe # rest \<Rightarrow> seqM
        [assertM (\<not> pe_is_if pe \<or> pe_expected_result pe = t_pseudo),
         (\<lambda>e s. Inr ((), s\<lparr>ps_writer := fix_branches (relocation_list pe) (emit_end (ps_writer s)) (ps_writer s)\<rparr>)),
         stackM (\<lambda>opt. tk_pop_scope opt (pe_expected_result pe)),
         (\<lambda>e s. Inr ((), s\<lparr>ps_pc := rest\<rparr>))])"

section \<open>Control instructions\<close>

definition is_value_type :: "vm_options \<Rightarrow> u8 \<Rightarrow> bool" where
  "is_value_type opt t \<longleftrightarrow> t = t_i32 \<or> t = t_i64 \<or> t = t_f32 \<or> t = t_f64 \<or> (t = t_v128 \<and> enable_simd opt)"

text \<open>The reading of a block type, which \<open>block\<close>, \<open>loop\<close> and \<open>if\<close> repeat.\<close>

definition block_type :: "u8 pm" where
  "block_type = bindM (askM pv_opt) (\<lambda>opt. bindM rd_byte (\<lambda>b.
     let expected_result = (if allow_zero_blocktype opt \<and> b = 0 then t_pseudo else b) in
     bindM (assertM (is_value_type opt expected_result \<or> expected_result = t_pseudo))
       (\<lambda>_. returnM expected_result)))"

definition push_pc :: "pc_element \<Rightarrow> unit pm" where
  "push_pc pe e s = Inr ((), s\<lparr>ps_pc := pe # ps_pc s\<rparr>)"

definition depthM :: "u32 pm" where
  "depthM = getM (\<lambda>s. operand_depth (ps_stack s))"

definition parse_unreachable :: "unit pm" where
  "parse_unreachable = seqM [check_in_bounds, emitM Unreachable_t, start_unreachableM]"

definition parse_nop :: "unit pm" where
  "parse_nop = emitM Nop_t"

definition parse_end :: "unit pm" where
  "parse_end = seqM [check_in_bounds, exit_scope,
     bindM (askM pv_opt) (\<lambda>opt. bindM (askM pv_bounds) (\<lambda>bounds. bindM (getM ps_pc) (\<lambda>pc. bindM (getM ps_code) (\<lambda>code.
       assertM (allow_code_after_function_end opt \<or> pc \<noteq> [] \<or> gp_offset code = bounds))))),
     on_endM]"

definition parse_return :: "unit pm" where
  "parse_return = bindM check_in_bounds (\<lambda>_. bindM (getM ps_pc) (\<lambda>pc.
     let label = of_nat (length pc) - 1 in
     bindM (compute_depth_change label) (\<lambda>(depth_change, rt).
     bindM (writerM (emit_return depth_change rt)) (\<lambda>branch.
     seqM [handle_branch_target label branch, start_unreachableM]))))"

definition parse_block :: "unit pm" where
  "parse_block = bindM block_type (\<lambda>expected_result. bindM depthM (\<lambda>d.
     seqM [push_pc \<lparr>pe_operand_depth = d, pe_expected_result = expected_result, pe_label_result = expected_result,
                    pe_is_if = False, pe_relocations = Branches []\<rparr>,
           push_scopeM, on_controlM]))"

definition parse_loop :: "unit pm" where
  "parse_loop = bindM block_type (\<lambda>expected_result.
     bindM (getM (\<lambda>s. emit_loop (ps_writer s))) (\<lambda>pos. bindM depthM (\<lambda>d.
     seqM [push_pc \<lparr>pe_operand_depth = d, pe_expected_result = expected_result, pe_label_result = t_pseudo,
                    pe_is_if = False, pe_relocations = Label pos\<rparr>,
           push_scopeM, on_controlM])))"

definition parse_if :: "unit pm" where
  "parse_if = bindM check_in_bounds (\<lambda>_. bindM block_type (\<lambda>expected_result.
     bindM (writerM emit_if) (\<lambda>branch. bindM (popM t_i32) (\<lambda>_. bindM depthM (\<lambda>d.
     seqM [push_pc \<lparr>pe_operand_depth = d, pe_expected_result = expected_result, pe_label_result = expected_result,
                    pe_is_if = True, pe_relocations = Branches [branch]\<rparr>,
           push_scopeM, on_controlM])))))"

text \<open>
  \<open>pc_stack.back()\<close> of an empty vector, \<open>relocations[0]\<close> of an empty list and \<open>std::get\<close> of the wrong
  alternative are marked \<open>Undefined_behaviour\<close>.
\<close>

definition parse_else :: "unit pm" where
  "parse_else = bindM check_in_bounds (\<lambda>_. bindM (getM ps_pc) (\<lambda>pc. case pc of
       [] \<Rightarrow> throwM Undefined_behaviour
     | old_index # rest \<Rightarrow> bindM (assertM (pe_is_if old_index)) (\<lambda>_.
         case pe_relocations old_index of
           Branches (if_loc # rs) \<Rightarrow>
             bindM (seqM [popM (pe_expected_result old_index), stackM (\<lambda>opt. tk_pop_scope opt t_pseudo), push_scopeM])
               (\<lambda>_. bindM (writerM (emit_else if_loc)) (\<lambda>branch.
                 seqM [(\<lambda>e s. Inr ((), s\<lparr>ps_pc := old_index\<lparr>pe_relocations := Branches (branch # rs), pe_is_if := False\<rparr> # rest\<rparr>)),
                       on_controlM]))
         | _ \<Rightarrow> throwM Undefined_behaviour)))"

definition parse_br :: "unit pm" where
  "parse_br = bindM check_in_bounds (\<lambda>_. bindM rd_u32 (\<lambda>label.
     bindM (compute_depth_change label) (\<lambda>(depth_change, rt).
     bindM (writerM (emit_br depth_change rt)) (\<lambda>branch.
     seqM [handle_branch_target label branch, start_unreachableM]))))"

definition parse_br_if :: "unit pm" where
  "parse_br_if = bindM check_in_bounds (\<lambda>_. bindM rd_u32 (\<lambda>label. bindM (popM t_i32) (\<lambda>_.
     bindM (compute_depth_change label) (\<lambda>(depth_change, rt).
     bindM (writerM (emit_br_if depth_change rt)) (\<lambda>branch.
     handle_branch_target label branch)))))"

text \<open>One label of a branch table: its entry, its target, and the type of its result.\<close>

definition br_table_label :: "(u32 \<Rightarrow> u8 \<Rightarrow> br_table_parser \<Rightarrow> bitcode_writer
      \<Rightarrow> (br_addr \<times> br_table_parser \<times> bitcode_writer) res) \<Rightarrow> br_table_parser \<Rightarrow> (u8 \<times> br_table_parser) pm" where
  "br_table_label emit handler = bindM rd_u32 (\<lambda>label.
     bindM (compute_depth_change label) (\<lambda>(depth_change, rt).
     bindM (writerM (\<lambda>w. bindE (emit depth_change rt handler w) (\<lambda>(a, h, w'). Inr ((a, h), w')))) (\<lambda>(branch, handler').
     bindM (handle_branch_target label branch) (\<lambda>_.
     bindM (label_elem label) (\<lambda>pe. returnM (pe_label_result pe, handler'))))))"

fun br_table_cases :: "nat \<Rightarrow> u8 option \<Rightarrow> br_table_parser \<Rightarrow> (u8 option \<times> br_table_parser) pm" where
  "br_table_cases 0 result_type handler = returnM (result_type, handler)"
| "br_table_cases (Suc k) result_type handler =
     bindM (br_table_label emit_case handler) (\<lambda>(one_result, handler').
     bindM (assertM (result_type = None \<or> result_type = Some one_result)) (\<lambda>_.
     br_table_cases k (Some one_result) handler'))"

definition parse_br_table :: "unit pm" where
  "parse_br_table = bindM check_in_bounds (\<lambda>_. bindM rd_u32 (\<lambda>table_size. bindM (askM pv_opt) (\<lambda>opt.
     bindM (assertM (table_size \<le> max_br_table_elements opt)) (\<lambda>_. bindM (popM t_i32) (\<lambda>_.
     bindM (writerM (emit_br_table table_size)) (\<lambda>handler.
     bindM (br_table_cases (unat table_size) None handler) (\<lambda>(result_type, handler').
     bindM (br_table_label emit_default handler') (\<lambda>(one_result, _).
     seqM [assertM (result_type = None \<or> result_type = Some one_result), start_unreachableM]))))))))"

section \<open>Calls, locals and globals\<close>

definition call_effect :: "func_type \<Rightarrow> opcode \<Rightarrow> unit pm" where
  "call_effect ft op = seqM (map popM (rev (param_types ft)) @
     [assertM (return_count ft \<le> 1),
      (if return_count ft \<noteq> 0 then pushM (return_type ft) else returnM ()),
      emitM op])"

definition parse_call :: "unit pm" where
  "parse_call = bindM check_in_bounds (\<lambda>_. bindM rd_u32 (\<lambda>funcnum. bindM (askM pv_mod) (\<lambda>m.
     bindM (resM (get_function_type m (unat funcnum))) (\<lambda>ft. call_effect ft (Call_t funcnum)))))"

definition parse_call_indirect :: "unit pm" where
  "parse_call_indirect = bindM check_in_bounds (\<lambda>_. bindM rd_u32 (\<lambda>functypeidx. bindM (askM pv_mod) (\<lambda>m.
     bindM (resM (at_checked (m_types m) (unat functypeidx))) (\<lambda>ft.
     bindM (seqM [assertM (m_tables m \<noteq> []), popM t_i32]) (\<lambda>_.
     bindM (seqM (map popM (rev (param_types ft)) @
        [assertM (return_count ft \<le> 1), (if return_count ft \<noteq> 0 then pushM (return_type ft) else returnM ())])) (\<lambda>_.
     bindM (askM pv_type_aliases) (\<lambda>aliases. bindM (resM (at_unchecked aliases (unat functypeidx))) (\<lambda>ali.
     seqM [emitM (Call_indirect_t ali), zero_byteM]))))))))"

definition parse_drop :: "unit pm" where
  "parse_drop = bindM check_in_bounds (\<lambda>_. bindM pop_anyM (\<lambda>_. emitM Drop_t))"

definition parse_select :: "unit pm" where
  "parse_select = bindM check_in_bounds (\<lambda>_. bindM (popM t_i32) (\<lambda>_.
     bindM pop_anyM (\<lambda>t0. bindM pop_anyM (\<lambda>t1.
     seqM [assertM (t0 = t1 \<or> t0 = any_type \<or> t1 = any_type),
           pushM (if t0 \<noteq> any_type then t0 else t1), emitM Select_t]))))"

definition local_type :: "u32 \<Rightarrow> u8 pm" where
  "local_type idx = bindM (askM pv_local_types) (\<lambda>lt. resM (lt_get lt idx))"

definition parse_get_local :: "unit pm" where
  "parse_get_local = bindM rd_u32 (\<lambda>idx. bindM (local_type idx) (\<lambda>ty. seqM [pushM ty, emitM (Get_local_t idx)]))"

definition parse_set_local :: "unit pm" where
  "parse_set_local = bindM check_in_bounds (\<lambda>_. bindM rd_u32 (\<lambda>idx. bindM (local_type idx) (\<lambda>ty.
     seqM [popM ty, emitM (Set_local_t idx)])))"

definition parse_tee_local :: "unit pm" where
  "parse_tee_local = bindM check_in_bounds (\<lambda>_. bindM rd_u32 (\<lambda>idx. bindM (local_type idx) (\<lambda>ty.
     seqM [topM ty, emitM (Tee_local_t idx)])))"

definition global_at :: "u32 \<Rightarrow> global_variable pm" where
  "global_at idx = bindM (askM pv_mod) (\<lambda>m. resM (at_checked (m_globals m) (unat idx)))"

definition parse_get_global :: "unit pm" where
  "parse_get_global = bindM rd_u32 (\<lambda>idx. bindM (global_at idx) (\<lambda>gv.
     seqM [pushM (content_type gv), emitM (Get_global_t idx)]))"

definition parse_set_global :: "unit pm" where
  "parse_set_global = bindM check_in_bounds (\<lambda>_. bindM rd_u32 (\<lambda>idx. bindM (global_at idx) (\<lambda>gv.
     seqM [assertM (mutability gv), popM (content_type gv), emitM (Set_global_t idx)])))"

section \<open>Memory, constants and numeric instructions\<close>

text \<open>The immediate of a memory access; the limits are checked after both numbers have been read.\<close>

definition mem_arg :: "u32 \<Rightarrow> (u32 \<times> u32) pm" where
  "mem_arg max_align = bindM check_in_bounds (\<lambda>_. bindM (askM pv_mod) (\<lambda>m. bindM (askM pv_opt) (\<lambda>opt.
     bindM (assertM (m_memories m \<noteq> [])) (\<lambda>_. bindM rd_u32 (\<lambda>alignment. bindM rd_u32 (\<lambda>offset.
     bindM (seqM [assertM (alignment \<le> max_align), assertM (offset \<le> max_memory_offset opt)])
       (\<lambda>_. returnM (alignment, offset))))))))"

definition parse_load :: "(u32 \<Rightarrow> u32 \<Rightarrow> opcode) \<Rightarrow> u32 \<Rightarrow> u8 \<Rightarrow> unit pm" where
  "parse_load op max_align ty = bindM (mem_arg max_align) (\<lambda>(alignment, offset).
     seqM [popM t_i32, pushM ty, emitM (op alignment offset)])"

definition parse_store :: "(u32 \<Rightarrow> u32 \<Rightarrow> opcode) \<Rightarrow> u32 \<Rightarrow> u8 \<Rightarrow> unit pm" where
  "parse_store op max_align ty = bindM (mem_arg max_align) (\<lambda>(alignment, offset).
     seqM [popM ty, popM t_i32, emitM (op alignment offset)])"

definition need_memory :: "unit pm" where
  "need_memory = bindM (askM pv_mod) (\<lambda>m. assertM (m_memories m \<noteq> []))"

definition need_table :: "unit pm" where
  "need_table = bindM (askM pv_mod) (\<lambda>m. assertM (m_tables m \<noteq> []))"

definition parse_current_memory :: "unit pm" where
  "parse_current_memory = seqM [need_memory, pushM t_i32, zero_byteM, emitM Current_memory_t]"

definition parse_grow_memory :: "unit pm" where
  "parse_grow_memory = seqM [check_in_bounds, need_memory, popM t_i32, pushM t_i32, zero_byteM, emitM Grow_memory_t]"

definition parse_i32_const :: "unit pm" where
  "parse_i32_const = bindM (readM parse_varint32) (\<lambda>v. seqM [emitM (Const_t (I32_const_t v)), pushM t_i32])"

definition parse_i64_const :: "unit pm" where
  "parse_i64_const = bindM (readM parse_varint64) (\<lambda>v. seqM [emitM (Const_t (I64_const_t v)), pushM t_i64])"

definition parse_f32_const :: "unit pm" where
  "parse_f32_const = bindM (readM (parse_raw 4)) (\<lambda>v. seqM [emitM (Const_t (F32_const_t v)), pushM t_f32])"

definition parse_f64_const :: "unit pm" where
  "parse_f64_const = bindM (readM (parse_raw 8)) (\<lambda>v. seqM [emitM (Const_t (F64_const_t v)), pushM t_f64])"

text \<open>\<open>UNOP\<close>, \<open>BINOP\<close> and \<open>CASTOP\<close>: the instruction is emitted before its operands are checked.\<close>

definition parse_numeric :: "numeric_op \<Rightarrow> u8 list \<Rightarrow> u8 \<Rightarrow> unit pm" where
  "parse_numeric op args res =
     seqM ([check_in_bounds, emitM (Numeric_t op)] @ map popM args @ [pushM res])"

definition parse_extend :: "arith_op \<Rightarrow> u8 \<Rightarrow> unit pm" where
  "parse_extend op ty = bindM check_in_bounds (\<lambda>_. bindM (askM pv_opt) (\<lambda>opt.
     seqM [assertM (enable_sign_ext opt), emitM (Numeric_t (Arith_t op)), popM ty, pushM ty]))"

section \<open>Vector instructions\<close>

definition parse_load_lane :: "u32 \<Rightarrow> nat \<Rightarrow> bool \<Rightarrow> unit pm" where
  "parse_load_lane code max_align is_load = bindM check_in_bounds (\<lambda>_. bindM (askM pv_opt) (\<lambda>opt. bindM need_memory (\<lambda>_.
     bindM rd_u32 (\<lambda>alignment. bindM rd_u32 (\<lambda>offset. bindM rd_byte (\<lambda>lane.
     seqM ([assertM (alignment \<le> of_nat max_align), assertM (offset \<le> max_memory_offset opt),
            assertM (unat lane < 2 ^ (4 - max_align)), popM t_v128, popM t_i32]
           @ (if is_load then [pushM t_v128] else [])
           @ [emitM (Vec_t (Vec_lane_memory_t code alignment offset lane))])))))))"

definition parse_v128_const :: "unit pm" where
  "parse_v128_const = bindM check_in_bounds (\<lambda>_. bindM (readM parse_v128) (\<lambda>v.
     seqM [emitM (Const_t (V128_const_t v)), pushM t_v128]))"

text \<open>
  The lanes of \<open>i8x16_shuffle\<close> are taken with \<open>code.raw()\<close> before \<open>code += 16\<close> checks that they are there;
  nothing is read in between, so the read is placed behind the check.
\<close>

definition shuffle_lanes :: "u8 list parser" where
  "shuffle_lanes p = bindE (gp_add 16 p) (\<lambda>p'. bindE (gp_raw_bytes 16 p) (\<lambda>lanes. Inr (lanes, p')))"

definition parse_shuffle :: "unit pm" where
  "parse_shuffle = bindM check_in_bounds (\<lambda>_. bindM (readM shuffle_lanes) (\<lambda>lanes.
     seqM [assertM (list_all (\<lambda>l. l < 32) lanes), emitM (Vec_t (Vec_shuffle_t lanes)),
           popM t_v128, popM t_v128, pushM t_v128]))"

definition parse_extract_lane :: "u32 \<Rightarrow> u8 \<Rightarrow> u8 \<Rightarrow> unit pm" where
  "parse_extract_lane code ty n = bindM check_in_bounds (\<lambda>_. bindM rd_byte (\<lambda>laneidx.
     seqM [assertM (laneidx < n), popM t_v128, pushM ty, emitM (Vec_t (Vec_lane_t code laneidx))]))"

definition parse_replace_lane :: "u32 \<Rightarrow> u8 \<Rightarrow> u8 \<Rightarrow> unit pm" where
  "parse_replace_lane code ty n = bindM check_in_bounds (\<lambda>_. bindM rd_byte (\<lambda>laneidx.
     seqM [assertM (laneidx < n), popM ty, popM t_v128, pushM t_v128, emitM (Vec_t (Vec_lane_t code laneidx))]))"

definition parse_vec_numeric :: "u32 \<Rightarrow> u8 list \<Rightarrow> u8 \<Rightarrow> unit pm" where
  "parse_vec_numeric code inputs output =
     seqM ([check_in_bounds] @ map popM (rev inputs) @ [pushM output, emitM (Vec_t (Vec_numeric_t code))])"

definition vec_numeric_rows :: "(u32 \<times> value_type list \<times> value_type) list" where
  "vec_numeric_rows = vec_numeric_rows_1 @ vec_numeric_rows_2"

definition parse_vector_op :: "u32 \<Rightarrow> unit pm" where
  "parse_vector_op code =
     (case map_of vec_load_rows code of Some max_align \<Rightarrow> parse_load (\<lambda>a off. Vec_t (Vec_memory_t code a off)) max_align t_v128
      | None \<Rightarrow> case map_of vec_store_rows code of Some max_align \<Rightarrow> parse_store (\<lambda>a off. Vec_t (Vec_memory_t code a off)) max_align t_v128
      | None \<Rightarrow> case map_of vec_load_lane_rows code of Some max_align \<Rightarrow> parse_load_lane code max_align True
      | None \<Rightarrow> case map_of vec_store_lane_rows code of Some max_align \<Rightarrow> parse_load_lane code max_align False
      | None \<Rightarrow> if code = 12 then parse_v128_const else if code = 13 then parse_shuffle
      else case map_of vec_extract_rows code of Some (ty, n) \<Rightarrow> parse_extract_lane code ty n
      | None \<Rightarrow> case map_of vec_replace_rows code of Some (ty, n) \<Rightarrow> parse_replace_lane code ty n
      | None \<Rightarrow> case map_of vec_numeric_rows code of Some (inputs, output) \<Rightarrow> parse_vec_numeric code inputs output
      | None \<Rightarrow> throwM Wasm_parse_exception)"

definition parse_vector_prefix :: "unit pm" where
  "parse_vector_prefix = bindM (askM pv_opt) (\<lambda>opt. bindM (assertM (enable_simd opt)) (\<lambda>_.
     bindM rd_u32 parse_vector_op))"

section \<open>Instructions behind the 0xFC prefix\<close>

definition parse_trunc_sat :: "sat_op \<Rightarrow> u8 \<Rightarrow> u8 \<Rightarrow> unit pm" where
  "parse_trunc_sat op src dest = bindM check_in_bounds (\<lambda>_. bindM (askM pv_opt) (\<lambda>opt.
     seqM [assertM (enable_nontrapping_fptoint opt), popM src, pushM dest, emitM (Numeric_t (Sat_t op))]))"

definition need_bulk_memory :: "unit pm" where
  "need_bulk_memory = bindM (askM pv_opt) (\<lambda>opt. assertM (enable_bulk_memory opt))"

definition pop3 :: "unit pm" where
  "pop3 = seqM [popM t_i32, popM t_i32, popM t_i32]"

text \<open>\<open>!!_datacount\<close> and \<open>x < *_datacount\<close>.\<close>

definition check_data_index :: "u32 \<Rightarrow> unit pm" where
  "check_data_index x = bindM (askM pv_datacount) (\<lambda>dc. case dc of
       None \<Rightarrow> throwM Wasm_parse_exception | Some n \<Rightarrow> assertM (x < n))"

definition parse_memory_init :: "unit pm" where
  "parse_memory_init = bindM (seqM [check_in_bounds, need_bulk_memory, need_memory, pop3]) (\<lambda>_. bindM rd_u32 (\<lambda>x.
     seqM [check_data_index x, zero_byteM, emitM (Bulk_t (Memory_init_t x))]))"

definition parse_data_drop :: "unit pm" where
  "parse_data_drop = bindM (seqM [check_in_bounds, need_bulk_memory]) (\<lambda>_. bindM rd_u32 (\<lambda>x.
     seqM [check_data_index x, emitM (Bulk_t (Data_drop_t x))]))"

definition parse_memory_copy :: "unit pm" where
  "parse_memory_copy = seqM [check_in_bounds, need_bulk_memory, need_memory, pop3, zero_byteM, zero_byteM,
     emitM (Bulk_t Memory_copy_t)]"

definition parse_memory_fill :: "unit pm" where
  "parse_memory_fill = seqM [check_in_bounds, need_bulk_memory, need_memory, pop3, zero_byteM,
     emitM (Bulk_t Memory_fill_t)]"

definition parse_table_init :: "unit pm" where
  "parse_table_init = bindM (seqM [check_in_bounds, need_bulk_memory, need_table]) (\<lambda>_. bindM rd_u32 (\<lambda>x.
     seqM [zero_byteM, pop3, emitM (Bulk_t (Table_init_t x))]))"

definition parse_elem_drop :: "unit pm" where
  "parse_elem_drop = bindM (seqM [check_in_bounds, need_bulk_memory]) (\<lambda>_. bindM rd_u32 (\<lambda>x. bindM (askM pv_mod) (\<lambda>m.
     seqM [assertM (unat x < length (m_elements m)), emitM (Bulk_t (Elem_drop_t x))])))"

definition parse_table_copy :: "unit pm" where
  "parse_table_copy = seqM [check_in_bounds, need_bulk_memory, need_table, zero_byteM, zero_byteM, pop3,
     emitM (Bulk_t Table_copy_t)]"

definition parse_ext_op :: "u32 \<Rightarrow> unit pm" where
  "parse_ext_op code = (case map_of sat_rows code of Some (op, src, dest) \<Rightarrow> parse_trunc_sat op src dest
     | None \<Rightarrow> if code = 8 then parse_memory_init else if code = 9 then parse_data_drop
       else if code = 10 then parse_memory_copy else if code = 11 then parse_memory_fill
       else if code = 12 then parse_table_init else if code = 13 then parse_elem_drop
       else if code = 14 then parse_table_copy else throwM Wasm_parse_exception)"

definition parse_ext_prefix :: "unit pm" where
  "parse_ext_prefix = bindM rd_u32 parse_ext_op"

section \<open>The instruction switch and the loop\<close>

text \<open>The control part of the switch; the other instructions in three groups behind it.\<close>

definition parse_scalar_op :: "u8 \<Rightarrow> unit pm" where
  "parse_scalar_op code =
     (case map_of cmp_rows code of Some (op, n, a, r) \<Rightarrow> parse_numeric (Cmp_t op) (replicate n a) r
      | None \<Rightarrow> case map_of arith_rows code of Some (op, n, a, r) \<Rightarrow> parse_numeric (Arith_t op) (replicate n a) r
      | None \<Rightarrow> case map_of conv_rows code of Some (op, src, dst) \<Rightarrow> parse_numeric (Conv_t op) [src] dst
      | None \<Rightarrow> case map_of extend_rows code of Some (op, ty) \<Rightarrow> parse_extend op ty
      | None \<Rightarrow> if code = 0xFD then parse_vector_prefix else if code = 0xFC then parse_ext_prefix
      else throwM Wasm_parse_exception)"

definition parse_memory_op :: "u8 \<Rightarrow> unit pm" where
  "parse_memory_op code =
     (case map_of load_rows code of Some (op, max_align, ty) \<Rightarrow> parse_load (Load_t op) max_align ty
      | None \<Rightarrow> case map_of store_rows code of Some (op, max_align, ty) \<Rightarrow> parse_store (Store_t op) max_align ty
      | None \<Rightarrow> if code = 0x3F then parse_current_memory else if code = 0x40 then parse_grow_memory
      else if code = 0x41 then parse_i32_const else if code = 0x42 then parse_i64_const
      else if code = 0x43 then parse_f32_const else if code = 0x44 then parse_f64_const
      else parse_scalar_op code)"

definition parse_variable_op :: "u8 \<Rightarrow> unit pm" where
  "parse_variable_op code =
     (if code = 0x10 then parse_call else if code = 0x11 then parse_call_indirect
      else if code = 0x1A then parse_drop else if code = 0x1B then parse_select
      else if code = 0x20 then parse_get_local else if code = 0x21 then parse_set_local
      else if code = 0x22 then parse_tee_local else if code = 0x23 then parse_get_global
      else if code = 0x24 then parse_set_global else parse_memory_op code)"

definition parse_op :: "u8 \<Rightarrow> unit pm" where
  "parse_op code =
     (if code = 0x00 then parse_unreachable else if code = 0x01 then parse_nop
      else if code = 0x0B then parse_end else if code = 0x0F then parse_return
      else if code = 0x02 then parse_block else if code = 0x03 then parse_loop
      else if code = 0x04 then parse_if else if code = 0x05 then parse_else
      else if code = 0x0C then parse_br else if code = 0x0D then parse_br_if
      else if code = 0x0E then parse_br_table else parse_variable_op code)"

definition parse_instr :: "unit pm" where
  "parse_instr = bindM (askM pv_opt) (\<lambda>opt. bindM (getM ps_pc) (\<lambda>pc.
     bindM (assertM (length pc \<le> unat (max_nested_structures opt))) (\<lambda>_. bindM rd_byte parse_op)))"

text \<open>
  \<open>while (code.offset() < bounds)\<close>.  Every instruction consumes at least one byte, so \<open>bounds\<close> rounds
  are enough: \<open>parse_code_exits\<close> below shows that the loop condition is false when the rounds run out.
\<close>

fun parse_code :: "nat \<Rightarrow> unit pm" where
  "parse_code 0 e s = Inr ((), s)"
| "parse_code (Suc n) e s =
     (if gp_offset (ps_code s) < pv_bounds e then bindE (parse_instr e s) (\<lambda>(_, s'). parse_code n e s')
      else Inr ((), s))"

definition function_pc_element :: "func_type \<Rightarrow> tracker \<Rightarrow> pc_element" where
  "function_pc_element ft t = (let r = (if return_count ft \<noteq> 0 then return_type ft else t_pseudo)
     in \<lparr>pe_operand_depth = operand_depth t, pe_expected_result = r, pe_label_result = r, pe_is_if = False,
         pe_relocations = Branches []\<rparr>)"

text \<open>The result: the cursor, the writer, the nesting counter and the module's new \<open>maximum_stack\<close>.\<close>

definition parse_function_body_code ::
    "parse_env \<Rightarrow> func_type \<Rightarrow> gptr \<Rightarrow> local_bytes \<Rightarrow> u32 \<Rightarrow> u64 \<Rightarrow> bitcode_writer
      \<Rightarrow> (gptr \<times> bitcode_writer \<times> u32 \<times> u64) res" where
  "parse_function_body_code env ft code lb nested maximum_stack w =
     (let t = tk_init (pv_opt env) lb;
          s0 = \<lparr>ps_code = code, ps_stack = t, ps_pc = [function_pc_element ft t], ps_writer = w, ps_nested = nested\<rparr> in
      bindE (parse_code (pv_bounds env) env s0) (\<lambda>(_, s).
      bindE (case max_stack_bytes (pv_opt env) of None \<Rightarrow> Inr (ps_writer s)
             | Some _ \<Rightarrow> set_stack_usage (stack_usage_max (ps_stack s)) (ps_writer s)) (\<lambda>w'.
      assertE (ps_pc s = []) Wasm_parse_exception
      (Inr (ps_code s, w', ps_nested s,
            max maximum_stack (ucast (maximum_operand_depth (ps_stack s)) + locals_count (pv_local_types env)))))))"

section \<open>Writing the code section\<close>

text \<open>
  One round of the loop in \<open>write_code_out\<close>: function \<open>i\<close>, whose bytes and local-byte count were
  recorded in \<open>_function_bodies[i]\<close>, is compiled and its body entry completed.
\<close>

definition write_function ::
    "vm_options \<Rightarrow> u32 list \<Rightarrow> u32 option \<Rightarrow> nat \<Rightarrow> gptr \<Rightarrow> local_bytes \<Rightarrow> vm_module \<times> u32 \<times> bitcode_writer
      \<Rightarrow> (vm_module \<times> u32 \<times> bitcode_writer) res" where
  "write_function opt aliases datacount i code lb = (\<lambda>(m, nested, w).
     bindE (at_unchecked (m_code m) i) (\<lambda>fb.
     bindE (at_checked (m_functions m) i) (\<lambda>ty.
     bindE (at_checked (m_types m) (unat ty)) (\<lambda>ft.
     bindE (mk_local_types ft (fb_locals fb)) (\<lambda>local_types.
     bindE (emit_prologue (fb_size fb) w) (\<lambda>w1.
     let env = \<lparr>pv_opt = opt, pv_mod = m, pv_type_aliases = aliases, pv_datacount = datacount,
                pv_bounds = unat (fb_size fb), pv_local_types = local_types\<rparr> in
     bindE (parse_function_body_code env ft code lb nested (m_maximum_stack m) w1) (\<lambda>(_, w2, nested', ms).
     bindE (emit_epilogue ft (fb_locals fb) w2) (\<lambda>w3.
     bindE (w_finalize fb w3) (\<lambda>(fb', w4).
       Inr (m\<lparr>m_maximum_stack := ms, m_code := (m_code m)[i := fb']\<rparr>, nested', w4))))))))))"

fun write_functions ::
    "vm_options \<Rightarrow> u32 list \<Rightarrow> u32 option \<Rightarrow> nat \<Rightarrow> (gptr \<times> local_bytes) list \<Rightarrow> vm_module \<times> u32 \<times> bitcode_writer
      \<Rightarrow> (vm_module \<times> u32 \<times> bitcode_writer) res" where
  "write_functions opt aliases datacount i [] st = Inr st"
| "write_functions opt aliases datacount i ((code, lb) # bodies) st =
     bindE (write_function opt aliases datacount i code lb st)
       (write_functions opt aliases datacount (i + 1) bodies)"

text \<open>
  \<open>write_code_out\<close>: the writer starts a code segment in the allocator and its destructor ends it.
  The result also has the instructions of the segment.
\<close>

definition write_code_out ::
    "u64 \<Rightarrow> vm_options \<Rightarrow> u32 list \<Rightarrow> u32 option \<Rightarrow> (gptr \<times> local_bytes) list \<Rightarrow> gptr
      \<Rightarrow> vm_module \<times> u32 \<times> growable_allocator \<Rightarrow> (vm_module \<times> u32 \<times> growable_allocator \<times> opcode list) res" where
  "write_code_out pagesize opt aliases datacount bodies code = (\<lambda>(m, nested, alloc).
     bindE (w_new pagesize alloc (of_nat (gp_bounds code - gp_offset code))) (\<lambda>w.
     bindE (write_functions opt aliases datacount 0 bodies (m, nested, w)) (\<lambda>(m', nested', w').
       Inr (m', nested', ga_end_code pagesize (w_code_segment_base w') (w_alloc w'), w_segment w'))))"

section \<open>Straight-line instructions\<close>

text \<open>What the validator relies on of the module and of the table of locals: every type is a value type.\<close>

definition wf_env :: "parse_env \<Rightarrow> bool" where
  "wf_env e \<longleftrightarrow> (\<forall>i. lt_get (pv_local_types e) i \<noteq> Inl Undefined_behaviour)
     \<and> (\<forall>i ty. lt_get (pv_local_types e) i = Inr ty \<longrightarrow> is_value ty)
     \<and> (\<forall>ft \<in> set (m_types (pv_mod e)). list_all is_value (param_types ft) \<and> (return_count ft \<noteq> 0 \<longrightarrow> is_value (return_type ft)))
     \<and> (\<forall>gv \<in> set (m_globals (pv_mod e)). is_value (content_type gv))
     \<and> (\<forall>i. get_function_type (pv_mod e) i \<noteq> Inl Undefined_behaviour)
     \<and> length (pv_type_aliases e) = length (m_types (pv_mod e))"

definition st_ok :: "parse_state \<Rightarrow> bool" where
  "st_ok s \<longleftrightarrow> wf_gptr (ps_code s) \<and> wf_tracker (ps_stack s)"

text \<open>
  \<open>plain e k Q m\<close>: \<open>m\<close> never runs into undefined behaviour, moves the cursor forward only, keeps the
  type stack well formed and its scopes, the control stack, the nesting counter and every branch
  as they are, and emits exactly \<open>k\<close> slots; its result satisfies \<open>Q\<close>.
\<close>

definition plain_step :: "nat \<Rightarrow> parse_state \<Rightarrow> parse_state \<Rightarrow> bool" where
  "plain_step k s s' \<longleftrightarrow> st_ok s' \<and> gp_moved 0 (ps_code s) (ps_code s') \<and> ps_pc s' = ps_pc s
     \<and> ps_nested s' = ps_nested s \<and> tk_scopes (ps_stack s') = tk_scopes (ps_stack s)
     \<and> emitted k (ps_writer s) (ps_writer s') \<and> (\<forall>X. branches_ok X (ps_writer s) \<longrightarrow> branches_ok X (ps_writer s'))"

definition plain :: "parse_env \<Rightarrow> nat \<Rightarrow> ('a \<Rightarrow> bool) \<Rightarrow> 'a pm \<Rightarrow> bool" where
  "plain e k Q m \<longleftrightarrow> (\<forall>s. st_ok s \<longrightarrow> (case m e s of
       Inl ex \<Rightarrow> ex \<noteq> Undefined_behaviour | Inr (x, s') \<Rightarrow> Q x \<and> plain_step k s s'))"

named_theorems plain_intros \<open>rules for straight-line instructions\<close>

lemma plain_step_refl: "st_ok s \<Longrightarrow> plain_step 0 s s"
  by (simp add: plain_step_def st_ok_def gp_moved_refl)

lemma plain_step_trans: "plain_step i s s1 \<Longrightarrow> plain_step j s1 s2 \<Longrightarrow> plain_step (i + j) s s2"
  using gp_moved_trans [of 0 "ps_code s" "ps_code s1" 0 "ps_code s2"]
  by (auto simp: plain_step_def intro: emitted_trans)

lemma plainD:
  assumes "plain e k Q m" and "st_ok s"
  shows "m e s \<noteq> Inl Undefined_behaviour" and "m e s = Inr (x, s') \<Longrightarrow> Q x \<and> plain_step k s s'"
  using assms by (auto simp: plain_def split: sum.splits)

lemma plainI:
  assumes "\<And>s. st_ok s \<Longrightarrow> m e s \<noteq> Inl Undefined_behaviour"
    and "\<And>s x s'. st_ok s \<Longrightarrow> m e s = Inr (x, s') \<Longrightarrow> Q x \<and> plain_step k s s'"
  shows "plain e k Q m"
  using assms by (auto simp: plain_def split: sum.splits)

lemma plain_bind:
  assumes m: "plain e i Q m" and f: "\<And>x. Q x \<Longrightarrow> plain e j R (f x)" and k: "k = i + j"
  shows "plain e k R (bindM m f)"
proof (rule plainI)
  fix s assume ok: "st_ok s"
  show "bindM m f e s \<noteq> Inl Undefined_behaviour"
    using plainD(1) [OF m ok] plainD(2) [OF m ok] plainD(1) [OF f]
    by (auto simp: bindM_def bindE_eq_Inl_iff plain_step_def)
next
  fix s y s' assume ok: "st_ok s" and "bindM m f e s = Inr (y, s')"
  then obtain x s1 where ms: "m e s = Inr (x, s1)" and fs: "f x e s1 = Inr (y, s')"
    by (auto simp: bindM_def res_simps)
  from plainD(2) [OF m ok ms] have "Q x" and st: "plain_step i s s1" by auto
  from plainD(2) [OF f [OF \<open>Q x\<close>] _ fs] st have "R y" "plain_step j s1 s'" by (auto simp: plain_step_def)
  with plain_step_trans [OF st] show "R y \<and> plain_step k s s'" by (simp add: k)
qed

lemma plain_weaken: "plain e k Q m \<Longrightarrow> (\<And>x. Q x \<Longrightarrow> R x) \<Longrightarrow> plain e k R m"
  by (auto simp: plain_def split: sum.splits)

lemma plain_return: "Q x \<Longrightarrow> k = 0 \<Longrightarrow> plain e k Q (returnM x)"
  by (simp add: plain_def returnM_def plain_step_refl)

lemma plain_throw: "ex \<noteq> Undefined_behaviour \<Longrightarrow> plain e k Q (throwM ex)"
  by (simp add: plain_def throwM_def)

lemma plain_ask: "plain e 0 (\<lambda>x. x = f e) (askM f)"
  by (simp add: plain_def askM_def plain_step_refl)

lemma plain_get: "plain e 0 (\<lambda>_. True) (getM f)"
  by (simp add: plain_def getM_def plain_step_refl)

lemma plain_res: "r \<noteq> Inl Undefined_behaviour \<Longrightarrow> plain e 0 (\<lambda>x. r = Inr x) (resM r)"
  by (cases r) (auto simp: plain_def resM_def plain_step_refl)

lemma plain_assert: "plain e 0 (\<lambda>_. b) (assertM b)"
  by (cases b) (simp_all add: assertM_def plain_return plain_throw)

lemma plain_read:
  assumes "cursor_parser prs n"
  shows "plain e 0 (\<lambda>_. True) (readM prs)"
proof (rule plainI)
  fix s assume ok: "st_ok s"
  then have wf: "wf_gptr (ps_code s)" by (simp add: st_ok_def)
  show "readM prs e s \<noteq> Inl Undefined_behaviour"
    using cursor_parser.safe [OF assms wf] by (auto simp: readM_def bindE_eq_Inl_iff)
  fix x s' assume "readM prs e s = Inr (x, s')"
  then obtain c where c: "prs (ps_code s) = Inr (x, c)" "s' = s\<lparr>ps_code := c\<rparr>"
    by (auto simp: readM_def res_simps)
  show "True \<and> plain_step 0 s s'"
    using ok gp_moved_weaken [OF cursor_parser.moves [OF assms wf c(1)]] cursor_parser.keeps_wf [OF assms wf c(1)]
    by (simp add: plain_step_def st_ok_def c(2))
qed

lemma plain_stackM:
  assumes "\<And>t. f (pv_opt e) t \<noteq> Inl Undefined_behaviour"
    and "\<And>t t'. wf_tracker t \<Longrightarrow> f (pv_opt e) t = Inr t' \<Longrightarrow> wf_tracker t' \<and> tk_scopes t' = tk_scopes t"
  shows "plain e 0 (\<lambda>_. True) (stackM f)"
proof (rule plainI)
  fix s assume ok: "st_ok s"
  show "stackM f e s \<noteq> Inl Undefined_behaviour"
    using assms(1) by (auto simp: stackM_def bindE_eq_Inl_iff)
  fix x s' assume "stackM f e s = Inr (x, s')"
  then obtain t where "f (pv_opt e) (ps_stack s) = Inr t" "s' = s\<lparr>ps_stack := t\<rparr>"
    by (auto simp: stackM_def res_simps)
  with assms(2) [of "ps_stack s" t] ok show "True \<and> plain_step 0 s s'"
    by (simp add: plain_step_def st_ok_def gp_moved_refl)
qed

lemma plain_pop: "is_value ty \<Longrightarrow> plain e 0 (\<lambda>_. True) (popM ty)"
  by (rule plain_stackM) (auto simp: tracker_no_ub dest: tk_pop_wf)

lemma plain_push: "is_value ty \<Longrightarrow> plain e 0 (\<lambda>_. True) (pushM ty)"
  by (rule plain_stackM) (auto simp: tracker_no_ub dest: tk_push_wf)

lemma tk_top_no_ub: "tk_top opt ty t \<noteq> Inl Undefined_behaviour"
  by (simp add: tk_top_def bindE_eq_Inl_iff tracker_no_ub)

lemma plain_top: "is_value ty \<Longrightarrow> plain e 0 (\<lambda>_. True) (topM ty)"
  by (rule plain_stackM) (auto simp: tk_top_no_ub dest: tk_top_wf)

lemma plain_pop_any: "plain e 0 is_value pop_anyM"
proof (rule plainI)
  fix s assume ok: "st_ok s"
  show "pop_anyM e s \<noteq> Inl Undefined_behaviour"
    using tk_pop_any_no_ub by (auto simp: pop_anyM_def bindE_eq_Inl_iff)
  fix x s' assume "pop_anyM e s = Inr (x, s')"
  then obtain t where "tk_pop_any (pv_opt e) (ps_stack s) = Inr (x, t)" "s' = s\<lparr>ps_stack := t\<rparr>"
    by (auto simp: pop_anyM_def res_simps)
  with tk_pop_any_wf ok show "is_value x \<and> plain_step 0 s s'"
    by (auto simp: plain_step_def st_ok_def gp_moved_refl)
qed

lemma plain_emit:
  assumes "\<And>i. addrs_of i op = {}"
  shows "plain e 1 (\<lambda>_. True) (emitM op)"
proof (rule plainI)
  fix s assume ok: "st_ok s"
  show "emitM op e s \<noteq> Inl Undefined_behaviour" by (auto simp: emitM_def bindE_eq_Inl_iff w_put_no_ub)
  fix x s' assume "emitM op e s = Inr (x, s')"
  then obtain w where w: "w_put op (ps_writer s) = Inr w" "s' = s\<lparr>ps_writer := w\<rparr>"
    by (auto simp: emitM_def res_simps)
  then show "True \<and> plain_step 1 s s'"
    using ok w_put_emitted [OF w(1)] w_put_branches_ok [OF _ w(1)] assms
    by (auto simp: plain_step_def st_ok_def gp_moved_refl)
qed

lemma seqM_append: "seqM (as @ bs) = bindM (seqM as) (\<lambda>_. seqM bs)"
proof (induction as)
  case Nil
  show ?case by (intro ext) (simp add: bindM_def returnM_def)
next
  case (Cons a as)
  then show ?case by (intro ext) (simp add: bindM_def bindE_assoc case_prod_unfold)
qed

lemma bindM_assoc: "bindM (bindM m f) g = bindM m (\<lambda>x. bindM (f x) g)"
  by (intro ext) (simp add: bindM_def bindE_assoc case_prod_unfold)

lemma bindM_return: "bindM (returnM x) f = f x"
  by (intro ext) (simp add: bindM_def returnM_def)

lemmas monad_laws = seqM.simps seqM_append bindM_assoc bindM_return list.map append.simps

text \<open>
  One rule per kind of statement, for a statement followed by the rest of the case.
\<close>

lemma plain_bind0: "plain e 0 Q m \<Longrightarrow> (\<And>x. Q x \<Longrightarrow> plain e k R (f x)) \<Longrightarrow> plain e k R (bindM m f)"
  using plain_bind [of e 0 Q m k R f k] by simp

lemma plain_bind_emit [plain_intros]:
  assumes "\<And>i. addrs_of i op = {}" and "\<And>x. plain e k R (f x)"
  shows "plain e (Suc k) R (bindM (emitM op) f)"
  using plain_bind [OF plain_emit [OF assms(1)] assms(2)] by simp

lemma plain_emit0 [plain_intros]: "(\<And>i. addrs_of i op = {}) \<Longrightarrow> plain e (Suc 0) (\<lambda>_. True) (emitM op)"
  using plain_emit [of op] by simp

lemma plain_bind_throw [plain_intros]: "ex \<noteq> Undefined_behaviour \<Longrightarrow> plain e k R (bindM (throwM ex) f)"
  by (simp add: plain_def throwM_def bindM_def)

lemma plain_bind_if [plain_intros]:
  "(b \<Longrightarrow> plain e k R (bindM m f)) \<Longrightarrow> (\<not> b \<Longrightarrow> plain e k R (bindM m' f)) \<Longrightarrow>
    plain e k R (bindM (if b then m else m') f)"
  by simp

lemma plain_bind_return [plain_intros]: "plain e k R (f x) \<Longrightarrow> plain e k R (bindM (returnM x) f)"
  by (simp add: bindM_return)

lemma plain_case_prod [plain_intros]:
  "(\<And>a b. x = (a, b) \<Longrightarrow> plain e k R (f a b)) \<Longrightarrow> plain e k R (case x of (a, b) \<Rightarrow> f a b)"
  by (cases x) simp

lemma plain_return0 [plain_intros]: "Q x \<Longrightarrow> plain e 0 Q (returnM x)"
  by (simp add: plain_return)

lemma plain_pops: "list_all is_value tys \<Longrightarrow> plain e 0 (\<lambda>_. True) (seqM (map popM tys))"
proof (induction tys)
  case (Cons ty tys)
  then show ?case
    by (simp only: monad_laws) (rule plain_bind0 [OF plain_pop], simp_all)
qed (simp add: plain_return)

lemmas plain_bind_prims [plain_intros] = plain_ask [THEN plain_bind0] plain_get [THEN plain_bind0]
  plain_res [THEN plain_bind0] plain_assert [THEN plain_bind0]
  plain_pop [THEN plain_bind0] plain_push [THEN plain_bind0] plain_top [THEN plain_bind0]
  plain_pop_any [THEN plain_bind0] plain_pops [THEN plain_bind0]

lemma cursor_parser_peek: "cursor_parser peek_parser 0"
  by (rule cursor_parserI)
    (auto simp: peek_parser_def gp_deref_def res_simps bindE_eq_Inl_iff assertE_eq_Inl_iff wf_gptr_def at_unchecked_def
      intro: gp_moved_refl split: if_splits)

lemma cursor_parser_skip: "cursor_parser skip_parser 1"
  by (rule cursor_parserI)
    (auto simp: skip_parser_def res_simps bindE_eq_Inl_iff gp_inc_def assertE_eq_Inl_iff gp_moved_def)

lemma cursor_parser_shuffle: "cursor_parser shuffle_lanes 16"
  by (rule cursor_parserI)
    (auto simp: shuffle_lanes_def res_simps bindE_eq_Inl_iff gp_add_def gp_raw_bytes_def assertE_eq_Inl_iff gp_moved_def
      wf_gptr_def split: if_splits)

lemmas cursor_parsers = cursor_parser_next cursor_parser_varuint32 cursor_parser_varint32
  cursor_parser_varint64 cursor_parser_raw cursor_parser_v128 cursor_parser_peek cursor_parser_skip
  cursor_parser_shuffle

declare cursor_parsers [THEN plain_read, THEN plain_bind0, plain_intros]

lemma is_value_types [simp]:
  "is_value t_i32" "is_value t_i64" "is_value t_f32" "is_value t_f64" "is_value t_v128" "is_value t_pseudo"
  by (simp_all add: is_value_def)

lemma last_statement: "bindM m (\<lambda>_. returnM ()) = m"
  by (intro ext) (auto simp: bindM_def returnM_def bindE_def split: sum.split)

lemma plain_last: "plain e k R (bindM m (\<lambda>_. returnM ())) \<Longrightarrow> plain e k R m"
  using last_statement [of m] by metis

lemma plain_zero_byte: "plain e 0 (\<lambda>_. True) zero_byteM"
  unfolding zero_byteM_def by (simp only: monad_laws) (intro plain_intros; simp)

lemma plain_check_in_bounds: "plain e 0 (\<lambda>_. True) check_in_bounds"
  by (rule plain_last, unfold check_in_bounds_def, simp only: monad_laws) (intro plain_intros; simp)

lemma plain_need_memory: "plain e 0 (\<lambda>_. True) need_memory"
  by (rule plain_last, unfold need_memory_def, simp only: monad_laws) (intro plain_intros; simp)

lemma plain_need_table: "plain e 0 (\<lambda>_. True) need_table"
  by (rule plain_last, unfold need_table_def, simp only: monad_laws) (intro plain_intros; simp)

lemma plain_need_bulk_memory: "plain e 0 (\<lambda>_. True) need_bulk_memory"
  by (rule plain_last, unfold need_bulk_memory_def, simp only: monad_laws) (intro plain_intros; simp)

lemma plain_pop3: "plain e 0 (\<lambda>_. True) pop3"
  unfolding pop3_def by (simp only: monad_laws) (intro plain_intros; simp)

lemma plain_check_data_index: "plain e 0 (\<lambda>_. True) (check_data_index x)"
  unfolding check_data_index_def
  by (intro plain_bind0 [OF plain_ask])
    (auto split: option.split intro: plain_throw plain_weaken [OF plain_assert])

lemma plain_local_type: "wf_env e \<Longrightarrow> plain e 0 is_value (local_type i)"
  unfolding local_type_def
  by (rule plain_bind0 [OF plain_ask], rule plain_weaken [OF plain_res]) (auto simp: wf_env_def)

lemma plain_global_at: "wf_env e \<Longrightarrow> plain e 0 (\<lambda>gv. is_value (content_type gv)) (global_at i)"
  unfolding global_at_def
  by (rule plain_bind0 [OF plain_ask], rule plain_weaken [OF plain_res])
    (auto simp: wf_env_def at_checked_def res_simps split: if_splits)

lemmas plain_bind_subs [plain_intros] = plain_zero_byte [THEN plain_bind0] plain_check_in_bounds [THEN plain_bind0]
  plain_need_memory [THEN plain_bind0] plain_need_table [THEN plain_bind0] plain_need_bulk_memory [THEN plain_bind0]
  plain_pop3 [THEN plain_bind0] plain_check_data_index [THEN plain_bind0] plain_local_type [THEN plain_bind0]
  plain_global_at [THEN plain_bind0]

section \<open>Each straight-line case of the switch\<close>

lemma plain_mem_arg: "plain e 0 (\<lambda>_. True) (mem_arg a)"
  unfolding mem_arg_def by (simp only: monad_laws) (intro plain_intros; simp)

declare plain_mem_arg [THEN plain_bind0, plain_intros]

lemma plain_nop: "plain e (Suc 0) (\<lambda>_. True) parse_nop"
  by (rule plain_last, unfold parse_nop_def) (intro plain_intros; simp)

lemma plain_memory_cases:
  "plain e (Suc 0) (\<lambda>_. True) parse_current_memory" "plain e (Suc 0) (\<lambda>_. True) parse_grow_memory"
  "plain e (Suc 0) (\<lambda>_. True) parse_i32_const" "plain e (Suc 0) (\<lambda>_. True) parse_i64_const"
  "plain e (Suc 0) (\<lambda>_. True) parse_f32_const" "plain e (Suc 0) (\<lambda>_. True) parse_f64_const"
  unfolding parse_current_memory_def parse_grow_memory_def parse_i32_const_def parse_i64_const_def
    parse_f32_const_def parse_f64_const_def
  by (simp only: monad_laws, (intro plain_intros; simp))+

lemma plain_load:
  "is_value ty \<Longrightarrow> (\<And>i a off. addrs_of i (op a off) = {}) \<Longrightarrow> plain e (Suc 0) (\<lambda>_. True) (parse_load op al ty)"
  unfolding parse_load_def by (simp only: monad_laws) (intro plain_intros; simp)

lemma plain_store:
  "is_value ty \<Longrightarrow> (\<And>i a off. addrs_of i (op a off) = {}) \<Longrightarrow> plain e (Suc 0) (\<lambda>_. True) (parse_store op al ty)"
  unfolding parse_store_def by (simp only: monad_laws) (intro plain_intros; simp)

lemma plain_variable_cases:
  assumes "wf_env e"
  shows "plain e (Suc 0) (\<lambda>_. True) parse_drop" "plain e (Suc 0) (\<lambda>_. True) parse_select"
    "plain e (Suc 0) (\<lambda>_. True) parse_get_local" "plain e (Suc 0) (\<lambda>_. True) parse_set_local"
    "plain e (Suc 0) (\<lambda>_. True) parse_tee_local" "plain e (Suc 0) (\<lambda>_. True) parse_get_global"
    "plain e (Suc 0) (\<lambda>_. True) parse_set_global"
  unfolding parse_drop_def parse_select_def parse_get_local_def parse_set_local_def parse_tee_local_def
    parse_get_global_def parse_set_global_def
  by ((simp only: monad_laws)?, (intro plain_intros; simp add: assms))+

lemma wf_env_types:
  assumes "wf_env e" and "ft \<in> set (m_types (pv_mod e))"
  shows "list_all is_value (rev (param_types ft))" and "return_count ft \<noteq> 0 \<Longrightarrow> is_value (return_type ft)"
  using assms by (auto simp: wf_env_def list_all_iff)

lemma get_function_type_in: "get_function_type m i = Inr ft \<Longrightarrow> ft \<in> set (m_types m)"
  by (auto simp: get_function_type_def res_simps split: if_splits)

lemma plain_call:
  assumes "wf_env e"
  shows "plain e (Suc 0) (\<lambda>_. True) parse_call"
  unfolding parse_call_def call_effect_def
  by (simp only: monad_laws, intro plain_intros)
    (use assms wf_env_types [OF assms get_function_type_in] in
      \<open>auto simp: wf_env_def intro!: plain_intros\<close>)

lemma plain_call_indirect:
  assumes "wf_env e"
  shows "plain e (Suc 0) (\<lambda>_. True) parse_call_indirect"
  unfolding parse_call_indirect_def
  by (simp only: monad_laws, intro plain_intros)
    (use assms wf_env_types [OF assms] in
      \<open>auto simp: wf_env_def at_checked_def at_unchecked_def res_simps intro!: plain_intros split: if_splits\<close>)

lemma plain_numeric:
  "list_all is_value args \<Longrightarrow> is_value r \<Longrightarrow> plain e (Suc 0) (\<lambda>_. True) (parse_numeric op args r)"
  unfolding parse_numeric_def by (simp only: monad_laws) (intro plain_intros; simp)

lemma plain_extend: "is_value ty \<Longrightarrow> plain e (Suc 0) (\<lambda>_. True) (parse_extend op ty)"
  unfolding parse_extend_def by (simp only: monad_laws) (intro plain_intros; simp)

lemma plain_vector_cases:
  "plain e (Suc 0) (\<lambda>_. True) parse_v128_const" "plain e (Suc 0) (\<lambda>_. True) parse_shuffle"
  "is_value ty \<Longrightarrow> plain e (Suc 0) (\<lambda>_. True) (parse_extract_lane code ty n)"
  "is_value ty \<Longrightarrow> plain e (Suc 0) (\<lambda>_. True) (parse_replace_lane code ty n)"
  unfolding parse_v128_const_def parse_shuffle_def parse_extract_lane_def parse_replace_lane_def
  by (simp only: monad_laws, (intro plain_intros; simp))+

lemma plain_load_lane: "plain e (Suc 0) (\<lambda>_. True) (parse_load_lane code al b)"
  unfolding parse_load_lane_def by (cases b) (simp only: monad_laws if_True if_False, (intro plain_intros; simp))+

lemma plain_vec_numeric:
  "list_all is_value args \<Longrightarrow> is_value r \<Longrightarrow> plain e (Suc 0) (\<lambda>_. True) (parse_vec_numeric code args r)"
  unfolding parse_vec_numeric_def by (simp only: monad_laws) (intro plain_intros; simp)

lemma plain_ext_cases:
  "is_value src \<Longrightarrow> is_value dest \<Longrightarrow> plain e (Suc 0) (\<lambda>_. True) (parse_trunc_sat op src dest)"
  "plain e (Suc 0) (\<lambda>_. True) parse_memory_init" "plain e (Suc 0) (\<lambda>_. True) parse_data_drop"
  "plain e (Suc 0) (\<lambda>_. True) parse_memory_copy" "plain e (Suc 0) (\<lambda>_. True) parse_memory_fill"
  "plain e (Suc 0) (\<lambda>_. True) parse_table_init" "plain e (Suc 0) (\<lambda>_. True) parse_elem_drop"
  "plain e (Suc 0) (\<lambda>_. True) parse_table_copy"
  unfolding parse_trunc_sat_def parse_memory_init_def parse_data_drop_def parse_memory_copy_def parse_memory_fill_def
    parse_table_init_def parse_elem_drop_def parse_table_copy_def
  by (simp only: monad_laws, (intro plain_intros; simp))+

subsection \<open>The rows of the macro lists hold value types only\<close>

lemma rows_ok:
  "list_all (\<lambda>(_, _, _, ty). is_value ty) load_rows" "list_all (\<lambda>(_, _, _, ty). is_value ty) store_rows"
  "list_all (\<lambda>(_, _, _, a, r). is_value a \<and> is_value r) cmp_rows"
  "list_all (\<lambda>(_, _, _, a, r). is_value a \<and> is_value r) arith_rows"
  "list_all (\<lambda>(_, _, a, r). is_value a \<and> is_value r) conv_rows"
  "list_all (\<lambda>(_, _, ty). is_value ty) extend_rows"
  "list_all (\<lambda>(_, _, a, r). is_value a \<and> is_value r) sat_rows"
  "list_all (\<lambda>(_, ty, _). is_value ty) vec_extract_rows" "list_all (\<lambda>(_, ty, _). is_value ty) vec_replace_rows"
  by (simp_all add: load_rows_def store_rows_def cmp_rows_def arith_rows_def conv_rows_def extend_rows_def
      sat_rows_def vec_extract_rows_def vec_replace_rows_def)

lemma vec_rows_ok: "list_all (\<lambda>(_, args, r). list_all is_value args \<and> is_value r) vec_numeric_rows"
  by (simp add: vec_numeric_rows_def vec_numeric_rows_1_def vec_numeric_rows_2_def)

lemma map_of_list_all: "list_all P rows \<Longrightarrow> map_of rows c = Some r \<Longrightarrow> P (c, r)"
  by (auto simp: list_all_iff dest: map_of_SomeD)

lemma plain_case_row:
  assumes "list_all P rows" and "\<And>r. P (c, r) \<Longrightarrow> plain e k Q (f r)" and "plain e k Q g"
  shows "plain e k Q (case map_of rows c of None \<Rightarrow> g | Some r \<Rightarrow> f r)"
  using assms map_of_list_all [OF assms(1), of c] by (cases "map_of rows c") auto

lemma plain_if:
  "(b \<Longrightarrow> plain e k Q m) \<Longrightarrow> (\<not> b \<Longrightarrow> plain e k Q m') \<Longrightarrow> plain e k Q (if b then m else m')"
  by simp

lemma any_rows: "list_all (\<lambda>_. True) rows"
  by (simp add: list_all_iff)

lemma plain_vector_op: "plain e (Suc 0) (\<lambda>_. True) (parse_vector_op code)"
  unfolding parse_vector_op_def
  by (rule plain_case_row [OF any_rows], rule plain_load, simp, simp,
      rule plain_case_row [OF any_rows], rule plain_store, simp, simp,
      rule plain_case_row [OF any_rows], rule plain_load_lane,
      rule plain_case_row [OF any_rows], rule plain_load_lane,
      rule plain_if, rule plain_vector_cases, rule plain_if, rule plain_vector_cases,
      rule plain_case_row [OF rows_ok(8)], rule plain_case_prod, rule plain_vector_cases, simp,
      rule plain_case_row [OF rows_ok(9)], rule plain_case_prod, rule plain_vector_cases, simp,
      rule plain_case_row [OF vec_rows_ok], rule plain_case_prod, rule plain_vec_numeric, simp, simp,
      rule plain_throw, simp)

lemma plain_vector_prefix: "plain e (Suc 0) (\<lambda>_. True) parse_vector_prefix"
  unfolding parse_vector_prefix_def
  by (intro plain_intros plain_vector_op)

lemma plain_ext_op: "plain e (Suc 0) (\<lambda>_. True) (parse_ext_op code)"
  unfolding parse_ext_op_def
  by (rule plain_case_row [OF rows_ok(7)], rule plain_case_prod, rule plain_case_prod, rule plain_ext_cases)
    (simp_all add: plain_ext_cases plain_throw)

lemma plain_ext_prefix: "plain e (Suc 0) (\<lambda>_. True) parse_ext_prefix"
  unfolding parse_ext_prefix_def by (intro plain_intros plain_ext_op)

lemma plain_scalar_op: "plain e (Suc 0) (\<lambda>_. True) (parse_scalar_op code)"
  unfolding parse_scalar_op_def
  by (rule plain_case_row [OF rows_ok(3)], (rule plain_case_prod)+, rule plain_numeric, simp add: list_all_iff, simp,
      rule plain_case_row [OF rows_ok(4)], (rule plain_case_prod)+, rule plain_numeric, simp add: list_all_iff, simp,
      rule plain_case_row [OF rows_ok(5)], (rule plain_case_prod)+, rule plain_numeric, simp, simp,
      rule plain_case_row [OF rows_ok(6)], rule plain_case_prod, rule plain_extend, simp)
    (simp add: plain_vector_prefix plain_ext_prefix plain_throw)

lemma plain_memory_op: "plain e (Suc 0) (\<lambda>_. True) (parse_memory_op code)"
  unfolding parse_memory_op_def
  by (rule plain_case_row [OF rows_ok(1)], (rule plain_case_prod)+, rule plain_load, simp, simp,
      rule plain_case_row [OF rows_ok(2)], (rule plain_case_prod)+, rule plain_store, simp, simp)
    (simp add: plain_memory_cases plain_scalar_op)

lemma plain_variable_op: "wf_env e \<Longrightarrow> plain e (Suc 0) (\<lambda>_. True) (parse_variable_op code)"
  unfolding parse_variable_op_def
  by (simp add: plain_call plain_call_indirect plain_variable_cases plain_memory_op)

end
