(* ===== verification/Vm_Code_Safety.thy ===== *)
theory Vm_Code_Safety
  imports Vm_Code_Parser
begin

text \<open>
  The invariant of \<open>parse_function_body_code\<close> and what follows from it: the control stack and the scopes
  of the type stack agree, every branch that has been emitted is either resolved to a position
  inside the function or recorded in a relocation list of the control stack, and the code buffer
  never fills up faster than the body is read.
\<close>

section \<open>The invariant\<close>

definition pe_ok :: "nat \<Rightarrow> pc_element \<Rightarrow> bool" where
  "pe_ok n pe \<longleftrightarrow> is_value (pe_expected_result pe) \<and> is_value (pe_label_result pe)
     \<and> (pe_is_if pe \<longrightarrow> (\<exists>a rs. pe_relocations pe = Branches (a # rs)))
     \<and> (\<forall>t. pe_relocations pe = Label t \<longrightarrow> unat t \<le> n)"

definition pending :: "pc_element list \<Rightarrow> br_addr set" where
  "pending pc = (\<Union>pe \<in> set pc. set (relocation_list pe))"

text \<open>
  \<open>ctl p0 c X pc s\<close>: the control stack of \<open>s\<close> is \<open>pc\<close>; the cursor has not moved back behind \<open>p0\<close>; \<open>c\<close> more
  slots may be emitted (\<open>c\<close> may be negative inside an instruction, it is what the bytes read so far
  have earned, less what has been emitted); the addresses of \<open>X\<close> are still to be handed over.
\<close>

definition ctl :: "gptr \<Rightarrow> int \<Rightarrow> br_addr set \<Rightarrow> pc_element list \<Rightarrow> parse_state \<Rightarrow> bool" where
  "ctl p0 c X pc s \<longleftrightarrow> ps_pc s = pc \<and> st_ok s \<and> gp_moved 0 p0 (ps_code s)
     \<and> int (w_op_index (ps_writer s)) + c + 1 \<le> int (gp_offset (ps_code s)) + int (length pc)
     \<and> map (\<lambda>pe. unat (pe_operand_depth pe)) pc = tk_scopes (ps_stack s)
     \<and> list_all (pe_ok (w_op_index (ps_writer s))) pc
     \<and> branches_ok (X \<union> pending pc) (ps_writer s)"

definition holds :: "parse_env \<Rightarrow> (parse_state \<Rightarrow> bool) \<Rightarrow> 'a pm \<Rightarrow> ('a \<Rightarrow> parse_state \<Rightarrow> bool) \<Rightarrow> bool" where
  "holds e P m Q \<longleftrightarrow> (\<forall>s. P s \<longrightarrow> (case m e s of Inl ex \<Rightarrow> ex \<noteq> Undefined_behaviour | Inr (x, s') \<Rightarrow> Q x s'))"

lemma holdsI:
  assumes "\<And>s. P s \<Longrightarrow> m e s \<noteq> Inl Undefined_behaviour" and "\<And>s x s'. P s \<Longrightarrow> m e s = Inr (x, s') \<Longrightarrow> Q x s'"
  shows "holds e P m Q"
  using assms by (auto simp: holds_def split: sum.splits)

lemma holdsD:
  assumes "holds e P m Q" and "P s"
  shows "m e s \<noteq> Inl Undefined_behaviour" and "m e s = Inr (x, s') \<Longrightarrow> Q x s'"
  using assms by (auto simp: holds_def split: sum.splits)

lemma holds_bind:
  assumes "holds e P m Q" and "\<And>x. holds e (Q x) (f x) R"
  shows "holds e P (bindM m f) R"
proof (rule holdsI)
  fix s assume P: "P s"
  show "bindM m f e s \<noteq> Inl Undefined_behaviour"
    using holdsD [OF assms(1) P] holdsD(1) [OF assms(2)]
    by (fastforce simp: bindM_def bindE_eq_Inl_iff)
  fix y s' assume "bindM m f e s = Inr (y, s')"
  then show "R y s'"
    using holdsD(2) [OF assms(1) P] holdsD(2) [OF assms(2)] by (auto simp: bindM_def res_simps)
qed

lemma holds_weaken: "holds e P m Q \<Longrightarrow> (\<And>s. P' s \<Longrightarrow> P s) \<Longrightarrow> (\<And>x s. Q x s \<Longrightarrow> Q' x s) \<Longrightarrow> holds e P' m Q'"
  unfolding holds_def by (fastforce split: sum.splits)

lemma holds_pre: "(\<And>s. P s \<Longrightarrow> b) \<Longrightarrow> (b \<Longrightarrow> holds e P m Q) \<Longrightarrow> holds e P m Q"
  by (auto simp: holds_def)

lemma holds_seq_Nil: "holds e P (seqM []) (\<lambda>_. P)"
  by (simp add: holds_def returnM_def)

lemma holds_return: "holds e (Q x) (returnM x) Q"
  by (simp add: holds_def returnM_def)

lemma holds_get: "holds e P (getM f) (\<lambda>x s. x = f s \<and> P s)"
  by (simp add: holds_def getM_def)

lemma holds_ask: "holds e P (askM f) (\<lambda>x s. x = f e \<and> P s)"
  by (simp add: holds_def askM_def)

lemma holds_assert: "holds e P (assertM b) (\<lambda>_ s. b \<and> P s)"
  by (simp add: holds_def assertM_def returnM_def throwM_def)

lemma pe_ok_mono: "pe_ok n pe \<Longrightarrow> n \<le> m \<Longrightarrow> pe_ok m pe"
  by (fastforce simp: pe_ok_def)

lemma list_pe_ok_mono: "list_all (pe_ok n) pc \<Longrightarrow> n \<le> m \<Longrightarrow> list_all (pe_ok m) pc"
  by (auto simp: list_all_iff intro: pe_ok_mono)

lemma gp_moved_offset: "gp_moved n p q \<Longrightarrow> wf_gptr p \<Longrightarrow> gp_offset p + n \<le> gp_offset q"
  by (auto simp: gp_moved_def gp_offset_def wf_gptr_def)

text \<open>Straight-line code: \<open>k\<close> slots are spent.\<close>

lemma ctl_plain_step:
  assumes "ctl p0 c X pc s" and "plain_step k s s'"
  shows "ctl p0 (c - int k) X pc s'"
proof -
  have off: "gp_offset (ps_code s) \<le> gp_offset (ps_code s')"
    using assms gp_moved_offset [of 0 "ps_code s" "ps_code s'"] by (simp add: ctl_def plain_step_def st_ok_def)
  have w: "w_op_index (ps_writer s') = w_op_index (ps_writer s) + k"
    using assms(2) emittedD(1) by (simp add: plain_step_def)
  have "gp_moved 0 p0 (ps_code s')"
    using assms gp_moved_trans [of 0 p0 "ps_code s" 0 "ps_code s'"] by (simp add: ctl_def plain_step_def)
  then show ?thesis
    using assms off w list_pe_ok_mono [of "w_op_index (ps_writer s)" pc "w_op_index (ps_writer s) + k"]
    by (simp add: ctl_def plain_step_def)
qed

lemma holds_plain:
  assumes "plain e k Q m"
  shows "holds e (ctl p0 c X pc) m (\<lambda>x s. Q x \<and> ctl p0 (c - int k) X pc s)"
proof (rule holdsI)
  fix s assume c: "ctl p0 c X pc s"
  then have ok: "st_ok s" by (simp add: ctl_def)
  show "m e s \<noteq> Inl Undefined_behaviour" by (rule plainD(1) [OF assms ok])
  fix x s' assume "m e s = Inr (x, s')"
  from plainD(2) [OF assms ok this] ctl_plain_step [OF c] show "Q x \<and> ctl p0 (c - int k) X pc s'" by blast
qed

lemma holds_plain0: "plain e 0 Q m \<Longrightarrow> holds e (ctl p0 c X pc) m (\<lambda>x s. Q x \<and> ctl p0 c X pc s)"
  using holds_plain [of e 0 Q m p0 c X pc] by simp

text \<open>Reading earns the bytes read.\<close>

lemma holds_read:
  assumes "cursor_parser prs n"
  shows "holds e (ctl p0 c X pc) (readM prs) (\<lambda>x. ctl p0 (c + int n) X pc)"
proof (rule holdsI)
  fix s assume c: "ctl p0 c X pc s"
  then have ok: "st_ok s" and wf: "wf_gptr (ps_code s)" by (simp_all add: ctl_def st_ok_def)
  show "readM prs e s \<noteq> Inl Undefined_behaviour" by (rule plainD(1) [OF plain_read [OF assms] ok])
  fix x s' assume "readM prs e s = Inr (x, s')"
  then obtain p where p: "prs (ps_code s) = Inr (x, p)" "s' = s\<lparr>ps_code := p\<rparr>" by (auto simp: readM_def res_simps)
  note m = cursor_parser.moves [OF assms wf p(1)]
  have "gp_moved 0 p0 p"
    using c gp_moved_trans [OF _ m, of 0 p0] by (auto simp: ctl_def intro: gp_moved_weaken)
  then show "ctl p0 (c + int n) X pc s'"
    using c gp_moved_offset [OF m wf] gp_moved_wf [OF m wf] by (simp add: ctl_def p(2) st_ok_def)
qed

section \<open>Control primitives\<close>

lemma holds_check_in_bounds:
  "holds e (ctl p0 c X pc) check_in_bounds
     (\<lambda>_ s. (allow_code_after_function_end (pv_opt e) \<longrightarrow> pc \<noteq> []) \<and> ctl p0 c X pc s)"
  by (auto simp: holds_def check_in_bounds_def bindM_def askM_def getM_def assertM_def returnM_def throwM_def ctl_def)

lemma holds_branch_emit:
  assumes "branch_emitter em"
  shows "holds e (ctl p0 c X pc) (writerM em) (\<lambda>a. ctl p0 (c - 1) (insert a X) pc)"
proof (rule holdsI)
  fix s assume c: "ctl p0 c X pc s"
  show "writerM em e s \<noteq> Inl Undefined_behaviour"
    using branch_emitter.em_no_ub [OF assms] by (auto simp: writerM_def bindE_eq_Inl_iff)
  fix a s' assume "writerM em e s = Inr (a, s')"
  then obtain w where w: "em (ps_writer s) = Inr (a, w)" "s' = s\<lparr>ps_writer := w\<rparr>"
    by (auto simp: writerM_def res_simps)
  note b = branch_emitter.new_addr [OF assms w(1)]
  have n: "w_op_index w = w_op_index (ps_writer s) + 1"
    using emittedD(1) [OF branch_emitter.one_slot [OF assms w(1)]] .
  show "ctl p0 (c - 1) (insert a X) pc s'"
    using c b [of "X \<union> pending pc"] n list_pe_ok_mono [of "w_op_index (ps_writer s)" pc "w_op_index w"]
    by (simp add: ctl_def w(2) st_ok_def)
qed

lemma holds_start_unreachable:
  assumes "pc \<noteq> []"
  shows "holds e (ctl p0 c X pc) start_unreachableM (\<lambda>_. ctl p0 c X pc)"
proof -
  have ne: "tk_scopes (ps_stack s) \<noteq> []" if "ctl p0 c X pc s" for s
    using that assms unfolding ctl_def by (metis map_is_Nil_conv)
  show ?thesis
  proof (rule holdsI)
    fix s x s' assume c: "ctl p0 c X pc s" and "start_unreachableM e s = Inr (x, s')"
    then show "ctl p0 c X pc s'"
      using tk_start_unreachable_wf [OF _ ne [OF c]] by (auto simp: start_unreachableM_def ctl_def st_ok_def)
  qed (simp add: start_unreachableM_def)
qed

lemma scopes_le_depth:
  assumes "wf_tracker t" and "d \<in> set (tk_scopes t)"
  shows "d \<le> unat (operand_depth t)"
proof -
  have "d \<in> set (scope_depths st) \<Longrightarrow> d \<le> vals st" for st
    by (induction st) (auto split: if_splits)
  then show ?thesis using assms by (simp add: wf_tracker_def tk_scopes_def)
qed

lemmas pm_defs = bindM_def returnM_def throwM_def assertM_def getM_def askM_def resM_def stackM_def

lemma compute_depth_change_eq:
  "compute_depth_change label e s =
     (if unat label < length (ps_pc s)
      then let pe = ps_pc s ! unat label; d = operand_depth (ps_stack s) - pe_operand_depth pe in
           if pe_label_result pe \<noteq> t_pseudo
           then bindE (tk_top (pv_opt e) (pe_label_result pe) (ps_stack s))
                  (\<lambda>t. Inr ((d, pe_label_result pe), s\<lparr>ps_stack := t\<rparr>))
           else Inr ((d, pe_label_result pe), s)
      else Inl Wasm_parse_exception)"
  by (simp add: compute_depth_change_def label_elem_def pm_defs at_unchecked_def Let_def bindE_assoc)

lemma holds_compute_depth_change:
  "holds e (ctl p0 c X pc) (compute_depth_change label)
     (\<lambda>_ s. unat label < length pc \<and> ctl p0 c X pc s)"
proof (rule holdsI)
  fix s assume c: "ctl p0 c X pc s"
  show "compute_depth_change label e s \<noteq> Inl Undefined_behaviour"
    using tk_top_no_ub by (auto simp: compute_depth_change_eq Let_def bindE_eq_Inl_iff)
  fix r s' assume r: "compute_depth_change label e s = Inr (r, s')"
  then have l: "unat label < length pc" using c by (auto simp: compute_depth_change_eq ctl_def split: if_splits)
  then have v: "is_value (pe_label_result (pc ! unat label))"
    using c by (auto simp: ctl_def list_all_length pe_ok_def)
  show "unat label < length pc \<and> ctl p0 c X pc s'"
    using r l c tk_top_wf [OF _ v]
    by (auto simp: compute_depth_change_eq ctl_def st_ok_def Let_def res_simps split: if_splits)
qed

text \<open>The subtraction that gives the number of operands to pop does not wrap.\<close>

lemma compute_depth_change_exact:
  assumes c: "ctl p0 c X pc s" and r: "compute_depth_change label e s = Inr ((d, rt), s')"
  shows "unat label < length pc \<and> rt = pe_label_result (pc ! unat label) \<and>
     unat d + unat (pe_operand_depth (pc ! unat label)) = unat (operand_depth (ps_stack s))"
proof -
  have l: "unat label < length pc" and pc: "ps_pc s = pc"
    using r c by (auto simp: compute_depth_change_eq ctl_def split: if_splits)
  then have d: "d = operand_depth (ps_stack s) - pe_operand_depth (pc ! unat label)"
    and rt: "rt = pe_label_result (pc ! unat label)"
    using r by (auto simp: compute_depth_change_eq Let_def res_simps split: if_splits)
  have "unat (pe_operand_depth (pc ! unat label)) \<in> set (tk_scopes (ps_stack s))"
    using c l unfolding ctl_def by (metis (no_types, lifting) length_map nth_map nth_mem)
  then have "unat (pe_operand_depth (pc ! unat label)) \<le> unat (operand_depth (ps_stack s))"
    using c by (intro scopes_le_depth) (simp_all add: ctl_def st_ok_def)
  then show ?thesis using l d rt by (simp add: unat_sub word_le_nat_alt)
qed

text \<open>Handing an address over to its label.\<close>

lemma handle_branch_target_eq:
  "handle_branch_target label a e s =
     (if unat label < length (ps_pc s)
      then case pe_relocations (ps_pc s ! unat label) of
             Label t \<Rightarrow> Inr ((), s\<lparr>ps_writer := fix_branch a t (ps_writer s)\<rparr>)
           | Branches rs \<Rightarrow> Inr ((), s\<lparr>ps_pc := add_relocation (unat label) a (ps_pc s)\<rparr>)
      else Inl Wasm_parse_exception)"
  by (simp add: handle_branch_target_def label_elem_def pm_defs at_unchecked_def fix_branchM_def split: relocations.split)

lemma pending_simps [simp]:
  "pending [] = {}" "pending (pe # pc) = set (relocation_list pe) \<union> pending pc"
  "pending (xs @ ys) = pending xs \<union> pending ys"
  by (auto simp: pending_def)

lemma add_relocation_props:
  assumes i: "i < length pc" and b: "pe_relocations (pc ! i) = Branches rs"
  shows "pending (add_relocation i a pc) = insert a (pending pc)"
    and "map (\<lambda>pe. unat (pe_operand_depth pe)) (add_relocation i a pc) = map (\<lambda>pe. unat (pe_operand_depth pe)) pc"
    and "length (add_relocation i a pc) = length pc"
    and "list_all (pe_ok n) pc \<Longrightarrow> list_all (pe_ok n) (add_relocation i a pc)"
proof -
  let ?pe = "pc ! i"
  have split: "pc = take i pc @ ?pe # drop (Suc i) pc" using i by (rule id_take_nth_drop)
  have new: "add_relocation i a pc = take i pc @ ?pe\<lparr>pe_relocations := Branches (rs @ [a])\<rparr> # drop (Suc i) pc"
    using i b by (simp add: add_relocation_def upd_conv_take_nth_drop)
  have "pending pc = pending (take i pc) \<union> set rs \<union> pending (drop (Suc i) pc)"
    by (subst split) (auto simp: relocation_list_def b)
  then show "pending (add_relocation i a pc) = insert a (pending pc)"
    by (auto simp: new relocation_list_def)
  show "map (\<lambda>pe. unat (pe_operand_depth pe)) (add_relocation i a pc) = map (\<lambda>pe. unat (pe_operand_depth pe)) pc"
    by (subst (2) split) (simp add: new)
  show "length (add_relocation i a pc) = length pc" using b by (simp add: add_relocation_def)
  assume "list_all (pe_ok n) pc"
  then have "list_all (pe_ok n) (take i pc @ ?pe # drop (Suc i) pc)" using split by simp
  then show "list_all (pe_ok n) (add_relocation i a pc)"
    by (auto simp: new pe_ok_def b Cons_eq_append_conv)
qed

lemma ctl_fix_branch:
  assumes "ctl p0 c (insert a X) pc s" and "unat t \<le> w_op_index (ps_writer s)"
  shows "ctl p0 c X pc (s\<lparr>ps_writer := fix_branch a t (ps_writer s)\<rparr>)"
proof -
  have "branches_ok (insert a X \<union> pending pc - {a}) (fix_branch a t (ps_writer s))"
    using assms by (intro branches_ok_fix_branch) (simp_all add: ctl_def)
  then have "branches_ok (X \<union> pending pc) (fix_branch a t (ps_writer s))" by (rule branches_ok_mono) auto
  then show ?thesis using assms(1) emittedD(1) [OF fix_branch_emitted]
    by (simp add: ctl_def st_ok_def)
qed

lemma holds_handle_branch_target:
  "holds e (ctl p0 c (insert a X) pc) (handle_branch_target label a)
     (\<lambda>_ s. unat label < length pc \<and> (\<exists>pc'. length pc' = length pc \<and> ctl p0 c X pc' s))"
proof (rule holdsI)
  fix s assume c: "ctl p0 c (insert a X) pc s"
  then have pc: "ps_pc s = pc" by (simp add: ctl_def)
  show "handle_branch_target label a e s \<noteq> Inl Undefined_behaviour"
    by (simp add: handle_branch_target_eq split: relocations.split)
  fix x s' assume h: "handle_branch_target label a e s = Inr (x, s')"
  then have l: "unat label < length pc" using pc by (simp add: handle_branch_target_eq split: if_splits)
  show "unat label < length pc \<and> (\<exists>pc'. length pc' = length pc \<and> ctl p0 c X pc' s')"
  proof (cases "pe_relocations (pc ! unat label)")
    case (Label t)
    then have "unat t \<le> w_op_index (ps_writer s)" using c l by (auto simp: ctl_def list_all_length pe_ok_def)
    from ctl_fix_branch [OF c this] show ?thesis using h l pc Label by (auto simp: handle_branch_target_eq)
  next
    case (Branches rs)
    note a = add_relocation_props [OF l Branches, where a = a]
    have "ctl p0 c X (add_relocation (unat label) a pc) s'"
      using h l pc Branches c a by (auto simp: handle_branch_target_eq ctl_def st_ok_def)
    then show ?thesis using l a(3) by blast
  qed
qed

section \<open>Opening and closing scopes\<close>

definition open_scope :: "pc_element \<Rightarrow> unit pm" where
  "open_scope pe = bindM depthM (\<lambda>d. seqM [push_pc (pe\<lparr>pe_operand_depth := d\<rparr>), push_scopeM, on_controlM])"

lemma nested_on_control_no_ub: "nested_on_control opt n \<noteq> Inl Undefined_behaviour"
  by (auto simp: nested_on_control_def assertE_def split: option.split)

lemma open_scope_eq:
  "open_scope pe e s = bindE (nested_on_control (pv_opt e) (ps_nested s)) (\<lambda>n.
     Inr ((), s\<lparr>ps_pc := pe\<lparr>pe_operand_depth := operand_depth (ps_stack s)\<rparr> # ps_pc s,
                ps_stack := tk_push_scope (ps_stack s), ps_nested := n\<rparr>))"
  by (simp add: open_scope_def depthM_def pm_defs push_pc_def push_scopeM_def on_controlM_def bindE_assoc)

lemma holds_open_scope:
  "holds e (\<lambda>s. ctl p0 c (X \<union> set (relocation_list pe)) pc s \<and> pe_ok (w_op_index (ps_writer s)) pe) (open_scope pe)
     (\<lambda>_ s. \<exists>pe'. ctl p0 (c + 1) X (pe' # pc) s)"
proof (rule holdsI)
  fix s assume P: "ctl p0 c (X \<union> set (relocation_list pe)) pc s \<and> pe_ok (w_op_index (ps_writer s)) pe"
  show "open_scope pe e s \<noteq> Inl Undefined_behaviour"
    by (auto simp: open_scope_eq bindE_eq_Inl_iff nested_on_control_no_ub)
  let ?pe = "pe\<lparr>pe_operand_depth := operand_depth (ps_stack s)\<rparr>"
  fix x s' assume "open_scope pe e s = Inr (x, s')"
  then obtain n where s': "s' = s\<lparr>ps_pc := ?pe # ps_pc s, ps_stack := tk_push_scope (ps_stack s), ps_nested := n\<rparr>"
    by (auto simp: open_scope_eq res_simps)
  have "pe_ok (w_op_index (ps_writer s)) ?pe" "relocation_list ?pe = relocation_list pe"
    using P by (simp_all add: pe_ok_def relocation_list_def)
  then have "ctl p0 (c + 1) X (?pe # pc) s'"
    using P tk_push_scope_wf [of "ps_stack s"] by (simp add: s' ctl_def st_ok_def Un_assoc)
  then show "\<exists>pe'. ctl p0 (c + 1) X (pe' # pc) s'" by blast
qed

text \<open>Leaving a scope resolves everything recorded for it.\<close>

lemma fix_branches_emitted: "emitted 0 w (fix_branches as t w)"
proof (induction as arbitrary: w)
  case (Cons a as)
  then show ?case using emitted_trans [OF fix_branch_emitted [of w a t] Cons [of "fix_branch a t w"]] by simp
qed simp

lemma branches_ok_fix_branches:
  "branches_ok X w \<Longrightarrow> unat t \<le> w_op_index w \<Longrightarrow> branches_ok (X - set as) (fix_branches as t w)"
proof (induction as arbitrary: X w)
  case (Cons a as)
  have "branches_ok (X - {a} - set as) (fix_branches as t (fix_branch a t w))"
    using Cons.prems emittedD(1) [OF fix_branch_emitted]
    by (intro Cons.IH branches_ok_fix_branch) simp_all
  moreover have "X - {a} - set as = X - set (a # as)" by auto
  ultimately show ?case by simp
qed simp

lemma exit_scope_Inr:
  assumes "exit_scope e s = Inr (x, s')"
  obtains pe rest t where "ps_pc s = pe # rest" and "tk_pop_scope (pv_opt e) (pe_expected_result pe) (ps_stack s) = Inr t"
    and "s' = s\<lparr>ps_writer := fix_branches (relocation_list pe) (emit_end (ps_writer s)) (ps_writer s), ps_stack := t, ps_pc := rest\<rparr>"
  using assms by (auto simp: exit_scope_def pm_defs res_simps split: list.splits if_splits)

lemma unat_of_nat_le: "unat (of_nat n :: 'a::len word) \<le> n"
  by (simp add: unsigned_of_nat take_bit_eq_mod)

lemma holds_exit_scope:
  "holds e (ctl p0 c X pc) exit_scope (\<lambda>_ s. \<exists>pe rest. pc = pe # rest \<and> ctl p0 (c - 1) X rest s)"
proof (rule holdsI)
  fix s assume c: "ctl p0 c X pc s"
  then have pc: "ps_pc s = pc" and wf: "wf_tracker (ps_stack s)" by (simp_all add: ctl_def st_ok_def)
  have ub: "tk_pop_scope (pv_opt e) (pe_expected_result pe) (ps_stack s) \<noteq> Inl Undefined_behaviour"
    if "pe \<in> set pc" for pe
    using that c wf by (intro tk_pop_scope_no_ub) (auto simp: ctl_def list_all_iff pe_ok_def)
  show "exit_scope e s \<noteq> Inl Undefined_behaviour"
    using ub [of "hd pc"] by (auto simp: exit_scope_def pm_defs bindE_eq_Inl_iff pc split: list.split)
  fix x s' assume "exit_scope e s = Inr (x, s')"
  then obtain pe rest t where pe: "pc = pe # rest"
    and t: "tk_pop_scope (pv_opt e) (pe_expected_result pe) (ps_stack s) = Inr t"
    and s': "s' = s\<lparr>ps_writer := fix_branches (relocation_list pe) (emit_end (ps_writer s)) (ps_writer s), ps_stack := t, ps_pc := rest\<rparr>"
    by (rule exit_scope_Inr) (simp add: pc)
  have v: "is_value (pe_expected_result pe)" using c by (simp add: ctl_def pe pe_ok_def)
  note p = tk_pop_scope_wf [OF wf v t]
  have "branches_ok (X \<union> pending pc - set (relocation_list pe)) (ps_writer s')"
    using c unat_of_nat_le [of "w_op_index (ps_writer s)", where ?'a = 32]
    by (simp add: s' ctl_def emit_end_def branches_ok_fix_branches)
  then have "branches_ok (X \<union> pending rest) (ps_writer s')" by (rule branches_ok_mono) (auto simp: pe)
  moreover have "w_op_index (ps_writer s') = w_op_index (ps_writer s)"
    using emittedD(1) [OF fix_branches_emitted] by (simp add: s')
  ultimately have "ctl p0 (c - 1) X rest s'"
    using c p by (auto simp: ctl_def pe s' st_ok_def)
  then show "\<exists>pe rest. pc = pe # rest \<and> ctl p0 (c - 1) X rest s'" using pe by blast
qed

section \<open>The control cases\<close>

text \<open>
  \<open>instr_ok e m\<close>: run behind the opcode byte (one slot earned), in a state where the function is not yet
  closed (or code behind its end is tolerated), \<open>m\<close> restores the invariant with nothing left over.
\<close>

definition open_or_tolerant :: "parse_env \<Rightarrow> pc_element list \<Rightarrow> bool" where
  "open_or_tolerant e pc \<longleftrightarrow> allow_code_after_function_end (pv_opt e) \<or> pc \<noteq> []"

definition instr_post :: "parse_env \<Rightarrow> gptr \<Rightarrow> parse_state \<Rightarrow> bool" where
  "instr_post e p0 s \<longleftrightarrow> (\<exists>pc. ctl p0 0 {} pc s \<and>
     (open_or_tolerant e pc \<or> gp_offset (ps_code s) = pv_bounds e))"

definition instr_ok :: "parse_env \<Rightarrow> unit pm \<Rightarrow> bool" where
  "instr_ok e m \<longleftrightarrow> (\<forall>p0 pc. open_or_tolerant e pc \<longrightarrow> holds e (ctl p0 1 {} pc) m (\<lambda>_. instr_post e p0))"

lemma ctl_credit: "ctl p0 c X pc s \<Longrightarrow> d \<le> c \<Longrightarrow> ctl p0 d X pc s"
  by (simp add: ctl_def)

lemma ctl_drop: "ctl p0 1 X pc s \<Longrightarrow> ctl p0 0 X pc s"
  by (simp add: ctl_def)

lemma instr_postI:
  assumes "ctl p0 c {} pc' s" and "0 \<le> c" and "open_or_tolerant e pc" and "length pc \<le> length pc'"
  shows "instr_post e p0 s"
  using assms ctl_credit [OF assms(1,2)] by (auto simp: instr_post_def open_or_tolerant_def)

lemma instr_ok_plain:
  assumes "plain e (Suc 0) Q m"
  shows "instr_ok e m"
  unfolding instr_ok_def
  by (intro allI impI holds_weaken [OF holds_plain [OF assms]]) (auto intro: instr_postI)

text \<open>Behind \<open>check_in_bounds\<close> the control stack is not empty.\<close>

lemma holds_checked:
  assumes "open_or_tolerant e pc" and "pc \<noteq> [] \<Longrightarrow> holds e (ctl p0 c X pc) m Q"
  shows "holds e (ctl p0 c X pc) (bindM check_in_bounds (\<lambda>_. m)) Q"
proof (rule holds_bind [OF holds_check_in_bounds])
  show "holds e (\<lambda>s. (allow_code_after_function_end (pv_opt e) \<longrightarrow> pc \<noteq> []) \<and> ctl p0 c X pc s) m Q"
    using assms by (cases "pc = []") (auto simp: open_or_tolerant_def holds_def)
qed

lemma instr_ok_checked:
  assumes "\<And>p0 pc. pc \<noteq> [] \<Longrightarrow> holds e (ctl p0 1 {} pc) m (\<lambda>_ s. \<exists>pc'. pc' \<noteq> [] \<and> ctl p0 0 {} pc' s)"
  shows "instr_ok e (bindM check_in_bounds (\<lambda>_. m))"
  unfolding instr_ok_def
proof (intro allI impI holds_checked)
  fix p0 pc assume "open_or_tolerant e pc" and ne: "pc \<noteq> []"
  then show "holds e (ctl p0 1 {} pc) m (\<lambda>_. instr_post e p0)"
    by (intro holds_weaken [OF assms [OF ne]]) (auto simp: instr_post_def open_or_tolerant_def)
qed

lemma instr_ok_unreachable: "instr_ok e parse_unreachable"
  unfolding parse_unreachable_def seqM.simps
proof (rule instr_ok_checked)
  fix p0 pc assume ne: "(pc :: pc_element list) \<noteq> []"
  have "holds e (ctl p0 1 {} pc) (emitM Unreachable_t) (\<lambda>_. ctl p0 0 {} pc)"
    by (rule holds_weaken [OF holds_plain [OF plain_emit0]]) auto
  then show "holds e (ctl p0 1 {} pc) (bindM (emitM Unreachable_t) (\<lambda>_. bindM start_unreachableM (\<lambda>_. returnM ())))
      (\<lambda>_ s. \<exists>pc'. pc' \<noteq> [] \<and> ctl p0 0 {} pc' s)"
    unfolding last_statement
    by (rule holds_bind) (rule holds_weaken [OF holds_start_unreachable [OF ne]], use ne in auto)
qed

text \<open>The common tail of the branches: depth change, emission, hand-over.\<close>

definition branch_to :: "(u32 \<Rightarrow> u8 \<Rightarrow> bitcode_writer \<Rightarrow> (br_addr \<times> bitcode_writer) res) \<Rightarrow> u32 \<Rightarrow> unit pm" where
  "branch_to em label = bindM (compute_depth_change label) (\<lambda>(depth_change, rt).
     bindM (writerM (em depth_change rt)) (handle_branch_target label))"

lemma holds_branch_to:
  assumes em: "\<And>d rt. branch_emitter (em d rt)"
  shows "holds e (ctl p0 c X pc) (branch_to em label) (\<lambda>_ s. \<exists>pc'. length pc' = length pc \<and> ctl p0 (c - 1) X pc' s)"
  unfolding branch_to_def
proof (rule holds_bind [OF holds_compute_depth_change])
  fix r :: "u32 \<times> u8"
  obtain d rt where r: "r = (d, rt)" by (cases r)
  have "holds e (ctl p0 c X pc) (bindM (writerM (em d rt)) (handle_branch_target label))
      (\<lambda>_ s. \<exists>pc'. length pc' = length pc \<and> ctl p0 (c - 1) X pc' s)"
    by (rule holds_bind [OF holds_branch_emit [OF em]], rule holds_weaken [OF holds_handle_branch_target]) auto
  then show "holds e (\<lambda>s. unat label < length pc \<and> ctl p0 c X pc s)
      (case r of (depth_change, rt) \<Rightarrow> bindM (writerM (em depth_change rt)) (handle_branch_target label))
      (\<lambda>_ s. \<exists>pc'. length pc' = length pc \<and> ctl p0 (c - 1) X pc' s)"
    by (auto simp: r intro: holds_weaken)
qed

lemma holds_ex: "(\<And>y. holds e (P y) m Q) \<Longrightarrow> holds e (\<lambda>s. \<exists>y. P y s) m Q"
  by (auto simp: holds_def)

lemma holds_conj: "(b \<Longrightarrow> holds e P m Q) \<Longrightarrow> holds e (\<lambda>s. b \<and> P s) m Q"
  by (auto simp: holds_def)

lemma holds_then_unreachable:
  assumes "holds e P m (\<lambda>_ s. \<exists>pc'. length pc' = length pc \<and> ctl p0 0 {} pc' s)" and "pc \<noteq> []"
  shows "holds e P (bindM m (\<lambda>_. start_unreachableM)) (\<lambda>_ s. \<exists>pc'. pc' \<noteq> [] \<and> ctl p0 0 {} pc' s)"
proof (rule holds_bind [OF assms(1)], rule holds_ex, rule holds_conj)
  fix pc' :: "pc_element list" assume "length pc' = length pc"
  with assms(2) have ne: "pc' \<noteq> []" by auto
  show "holds e (ctl p0 0 {} pc') start_unreachableM (\<lambda>_ s. \<exists>pc'. pc' \<noteq> [] \<and> ctl p0 0 {} pc' s)"
    by (rule holds_weaken [OF holds_start_unreachable [OF ne]]) (use ne in auto)
qed

lemma bindM_returnM [simp]: "bindM m returnM = m"
  by (intro ext) (auto simp: bindM_def returnM_def bindE_def split: sum.split)

lemma parse_br_alt:
  "parse_br = bindM check_in_bounds (\<lambda>_. bindM (bindM rd_u32 (branch_to emit_br)) (\<lambda>_. start_unreachableM))"
  by (simp add: parse_br_def branch_to_def bindM_assoc case_prod_unfold last_statement)

lemma parse_return_alt:
  "parse_return = bindM check_in_bounds (\<lambda>_. bindM (bindM (getM (\<lambda>s. of_nat (length (ps_pc s)) - 1)) (branch_to emit_return))
     (\<lambda>_. start_unreachableM))"
proof -
  have g: "bindM (getM (\<lambda>s. of_nat (length (ps_pc s)) - 1)) f = bindM (getM ps_pc) (\<lambda>pc. f (of_nat (length pc) - 1))"
    for f :: "u32 \<Rightarrow> unit pm"
    by (intro ext) (simp add: bindM_def getM_def)
  show ?thesis
    unfolding g by (simp add: parse_return_def branch_to_def Let_def bindM_assoc case_prod_unfold)
qed

lemma instr_ok_br: "instr_ok e parse_br"
  unfolding parse_br_alt
proof (rule instr_ok_checked, rule holds_then_unreachable)
  fix p0 :: gptr and pc :: "pc_element list" assume "pc \<noteq> []"
  show "holds e (ctl p0 1 {} pc) (bindM rd_u32 (branch_to emit_br)) (\<lambda>_ s. \<exists>pc'. length pc' = length pc \<and> ctl p0 0 {} pc' s)"
    by (rule holds_bind [OF holds_read [OF cursor_parser_varuint32]],
        rule holds_weaken [OF holds_branch_to [OF br_em.branch_emitter_axioms]]) (auto, metis ctl_drop)
qed

lemma instr_ok_return: "instr_ok e parse_return"
  unfolding parse_return_alt
proof (rule instr_ok_checked, rule holds_then_unreachable)
  fix p0 :: gptr and pc :: "pc_element list" assume "pc \<noteq> []"
  show "holds e (ctl p0 1 {} pc) (bindM (getM (\<lambda>s. of_nat (length (ps_pc s)) - 1)) (branch_to emit_return))
      (\<lambda>_ s. \<exists>pc'. length pc' = length pc \<and> ctl p0 0 {} pc' s)"
    by (rule holds_bind [OF holds_get],
        rule holds_weaken [OF holds_branch_to [OF return_em.branch_emitter_axioms]]) auto
qed

lemma instr_ok_br_if: "instr_ok e parse_br_if"
proof -
  have alt: "parse_br_if = bindM check_in_bounds (\<lambda>_. bindM rd_u32 (\<lambda>label. bindM (popM t_i32) (\<lambda>_. branch_to emit_br_if label)))"
    by (simp add: parse_br_if_def branch_to_def case_prod_unfold)
  show ?thesis unfolding alt
  proof (rule instr_ok_checked)
    fix p0 :: gptr and pc :: "pc_element list" assume ne: "pc \<noteq> []"
    show "holds e (ctl p0 1 {} pc) (bindM rd_u32 (\<lambda>label. bindM (popM t_i32) (\<lambda>_. branch_to emit_br_if label)))
        (\<lambda>_ s. \<exists>pc'. pc' \<noteq> [] \<and> ctl p0 0 {} pc' s)"
      by (rule holds_bind [OF holds_read [OF cursor_parser_varuint32]],
          rule holds_bind [OF holds_plain0 [OF plain_pop]], simp,
          rule holds_weaken [OF holds_branch_to [OF br_if_em.branch_emitter_axioms]])
        (use ne in \<open>auto, metis ctl_drop length_0_conv\<close>)
  qed
qed

lemma holds_block_type:
  "holds e (ctl p0 c X pc) block_type (\<lambda>r s. is_value r \<and> ctl p0 (c + 1) X pc s)"
proof -
  have *: "holds e (ctl p0 (c + 1) X pc) (bindM (assertM (is_value_type opt r \<or> r = t_pseudo)) (\<lambda>_. returnM r))
      (\<lambda>r s. is_value r \<and> ctl p0 (c + 1) X pc s)" for opt r
    by (rule holds_bind [OF holds_assert], rule holds_weaken [OF holds_return]) (auto simp: is_value_type_def)
  show ?thesis
    unfolding block_type_def Let_def
    by (rule holds_bind [OF holds_ask], rule holds_conj, rule holds_bind [OF holds_read [OF cursor_parser_next]])
      (use * in simp)
qed

lemma holds_enter:
  assumes "pe_ok n pe" and "Y = set (relocation_list pe)"
  shows "holds e (\<lambda>s. n \<le> w_op_index (ps_writer s) \<and> ctl p0 c Y pc s) (open_scope pe)
     (\<lambda>_ s. \<exists>pc'. pc' \<noteq> [] \<and> ctl p0 (c + 1) {} pc' s)"
  using pe_ok_mono [OF assms(1)]
  by (intro holds_weaken [OF holds_open_scope [where X = "{}"]]) (auto simp: assms(2))

lemma ctl_credit_ex: "\<exists>pc'. pc' \<noteq> [] \<and> ctl p0 c X pc' s \<Longrightarrow> 0 \<le> c \<Longrightarrow> \<exists>pc'. pc' \<noteq> [] \<and> ctl p0 0 X pc' s"
  using ctl_credit by blast

lemma instr_post_entered: "\<exists>pc'. pc' \<noteq> [] \<and> ctl p0 c {} pc' s \<Longrightarrow> 0 \<le> c \<Longrightarrow> instr_post e p0 s"
  using ctl_credit [of p0 c "{}" _ s 0] by (auto simp: instr_post_def open_or_tolerant_def)

lemma instr_ok_block: "instr_ok e parse_block"
proof -
  have alt: "parse_block = bindM block_type (\<lambda>r. open_scope \<lparr>pe_operand_depth = 0, pe_expected_result = r,
      pe_label_result = r, pe_is_if = False, pe_relocations = Branches []\<rparr>)"
    by (simp add: parse_block_def open_scope_def)
  show ?thesis
    unfolding instr_ok_def alt
  proof (intro allI impI, rule holds_bind [OF holds_block_type], rule holds_conj)
    fix p0 pc r assume "is_value r"
    then show "holds e (ctl p0 (1 + 1) {} pc) (open_scope \<lparr>pe_operand_depth = 0, pe_expected_result = r,
        pe_label_result = r, pe_is_if = False, pe_relocations = Branches []\<rparr>) (\<lambda>_. instr_post e p0)"
      by (intro holds_weaken [OF holds_enter [where n = 0]])
        (auto simp: pe_ok_def relocation_list_def intro: instr_post_entered)
  qed
qed

lemma instr_ok_loop: "instr_ok e parse_loop"
proof -
  let ?pe = "\<lambda>r pos. \<lparr>pe_operand_depth = 0, pe_expected_result = r,
      pe_label_result = t_pseudo, pe_is_if = False, pe_relocations = Label pos\<rparr>"
  have alt: "parse_loop = bindM block_type (\<lambda>r. bindM (getM (\<lambda>s. emit_loop (ps_writer s))) (\<lambda>pos. open_scope (?pe r pos)))"
    by (simp add: parse_loop_def open_scope_def)
  show ?thesis
    unfolding instr_ok_def alt
  proof (intro allI impI, rule holds_bind [OF holds_block_type], rule holds_conj, rule holds_bind [OF holds_get])
    fix p0 pc r pos assume "is_value r"
    then show "holds e (\<lambda>s. pos = emit_loop (ps_writer s) \<and> ctl p0 (1 + 1) {} pc s) (open_scope (?pe r pos))
        (\<lambda>_. instr_post e p0)"
      by (intro holds_weaken [OF holds_enter [where n = "unat pos"]])
        (auto simp: pe_ok_def relocation_list_def emit_loop_def unat_of_nat_le intro: instr_post_entered)
  qed
qed

lemma instr_ok_if: "instr_ok e parse_if"
proof -
  let ?pe = "\<lambda>r a. \<lparr>pe_operand_depth = 0, pe_expected_result = r,
      pe_label_result = r, pe_is_if = True, pe_relocations = Branches [a]\<rparr>"
  have alt: "parse_if = bindM check_in_bounds (\<lambda>_. bindM block_type (\<lambda>r. bindM (writerM emit_if) (\<lambda>a.
      bindM (popM t_i32) (\<lambda>_. open_scope (?pe r a)))))"
    by (simp add: parse_if_def open_scope_def)
  show ?thesis
    unfolding alt
  proof (rule instr_ok_checked, rule holds_bind [OF holds_block_type], rule holds_conj,
      rule holds_bind [OF holds_branch_emit [OF if_em.branch_emitter_axioms]],
      rule holds_bind [OF holds_plain0 [OF plain_pop]], simp)
    fix p0 :: gptr and pc :: "pc_element list" and r a assume "is_value r"
    then show "holds e (\<lambda>s. True \<and> ctl p0 (1 + 1 - 1) {a} pc s) (open_scope (?pe r a))
        (\<lambda>_ s. \<exists>pc'. pc' \<noteq> [] \<and> ctl p0 0 {} pc' s)"
      by (intro holds_weaken [OF holds_enter [where n = 0]])
        (auto simp: pe_ok_def relocation_list_def intro: ctl_credit_ex)
  qed
qed

lemma instr_ok_end: "instr_ok e parse_end"
proof -
  have tail: "holds e (ctl p0 0 {} pc) (bindM (askM pv_opt) (\<lambda>opt. bindM (askM pv_bounds) (\<lambda>bounds.
        bindM (getM ps_pc) (\<lambda>pc. bindM (getM ps_code) (\<lambda>code. bindM (assertM (allow_code_after_function_end opt \<or>
          pc \<noteq> [] \<or> gp_offset code = bounds)) (\<lambda>_. on_endM))))))
      (\<lambda>_. instr_post e p0)" for p0 pc
    by (auto simp: holds_def pm_defs on_endM_def instr_post_def open_or_tolerant_def ctl_def st_ok_def)
  show ?thesis
    unfolding parse_end_def seqM.simps last_statement instr_ok_def bindM_assoc
  proof (intro allI impI, rule holds_checked, assumption, rule holds_bind [OF holds_exit_scope])
    fix p0 pc
    show "holds e (\<lambda>s. \<exists>pe rest. pc = pe # rest \<and> ctl p0 (1 - 1) {} rest s)
      (bindM (askM pv_opt) (\<lambda>opt. bindM (askM pv_bounds) (\<lambda>bounds.
        bindM (getM ps_pc) (\<lambda>pc. bindM (getM ps_code) (\<lambda>code. bindM (assertM (allow_code_after_function_end opt \<or>
          pc \<noteq> [] \<or> gp_offset code = bounds)) (\<lambda>_. on_endM))))))
      (\<lambda>_. instr_post e p0)"
      by (intro holds_ex holds_conj) (use tail in simp)
  qed
qed

text \<open>\<open>else\<close> closes and reopens the scope of the \<open>if\<close>.\<close>

lemma plain_reopen: "plain e 0 (\<lambda>_. True) (bindM (stackM (\<lambda>opt. tk_pop_scope opt t_pseudo)) (\<lambda>_. push_scopeM))"
proof (rule plainI)
  fix s assume ok: "st_ok s"
  then have wf: "wf_tracker (ps_stack s)" by (simp add: st_ok_def)
  show "bindM (stackM (\<lambda>opt. tk_pop_scope opt t_pseudo)) (\<lambda>_. push_scopeM) e s \<noteq> Inl Undefined_behaviour"
    using tk_pop_scope_no_ub [OF wf is_value_types(6)] by (auto simp: pm_defs push_scopeM_def bindE_eq_Inl_iff)
  fix x s' assume "bindM (stackM (\<lambda>opt. tk_pop_scope opt t_pseudo)) (\<lambda>_. push_scopeM) e s = Inr (x, s')"
  then obtain t where t: "tk_pop_scope (pv_opt e) t_pseudo (ps_stack s) = Inr t" "s' = s\<lparr>ps_stack := tk_push_scope t\<rparr>"
    by (auto simp: pm_defs push_scopeM_def res_simps)
  note p = tk_pop_scope_wf [OF wf is_value_types(6) t(1)]
  show "True \<and> plain_step 0 s s'"
    using ok p tk_push_scope_wf [OF p(1)] by (auto simp: plain_step_def st_ok_def t(2) gp_moved_refl)
qed

lemma holds_emit_else:
  assumes pe: "pe_relocations pe = Branches (a # rs)"
  shows "holds e (ctl p0 1 {} (pe # rest)) (bindM (writerM (emit_else a)) (\<lambda>branch.
      seqM [(\<lambda>e s. Inr ((), s\<lparr>ps_pc := pe\<lparr>pe_relocations := Branches (branch # rs), pe_is_if := False\<rparr> # rest\<rparr>)), on_controlM]))
    (\<lambda>_ s. \<exists>pc'. pc' \<noteq> [] \<and> ctl p0 0 {} pc' s)" (is "holds e _ ?m _")
proof (rule holdsI)
  fix s assume c: "ctl p0 1 {} (pe # rest) s"
  show "?m e s \<noteq> Inl Undefined_behaviour"
    using w_put_no_ub nested_on_control_no_ub
    by (auto simp: pm_defs writerM_def emit_else_def on_controlM_def bindE_eq_Inl_iff)
  fix x s' assume "?m e s = Inr (x, s')"
  then obtain b w n where w: "emit_else a (ps_writer s) = Inr (b, w)"
    and s': "s' = s\<lparr>ps_writer := w, ps_pc := pe\<lparr>pe_relocations := Branches (b # rs), pe_is_if := False\<rparr> # rest, ps_nested := n\<rparr>"
    by (auto simp: pm_defs writerM_def on_controlM_def res_simps)
  let ?pe = "pe\<lparr>pe_relocations := Branches (b # rs), pe_is_if := False\<rparr>"
  have n: "w_op_index w = w_op_index (ps_writer s) + 1" using emittedD(1) [OF emit_else_ok(1) [OF w]] .
  have "branches_ok (pending (pe # rest)) (ps_writer s)" using c by (simp add: ctl_def)
  from emit_else_ok(2) [OF w this] have "branches_ok (pending (?pe # rest)) w"
    by (rule branches_ok_mono) (auto simp: relocation_list_def pe)
  moreover have "list_all (pe_ok (w_op_index w)) (?pe # rest)"
    using c list_pe_ok_mono [of "w_op_index (ps_writer s)" rest "w_op_index w"] n by (simp add: ctl_def pe_ok_def)
  ultimately have "ctl p0 0 {} (?pe # rest) s'" using c n by (simp add: s' ctl_def st_ok_def)
  then show "\<exists>pc'. pc' \<noteq> [] \<and> ctl p0 0 {} pc' s'" by blast
qed

lemma holds_getpc: "(holds e (ctl p0 c X pc) (f pc) Q) \<Longrightarrow> holds e (ctl p0 c X pc) (bindM (getM ps_pc) f) Q"
  by (simp add: holds_def bindM_def getM_def ctl_def)

lemma instr_ok_else: "instr_ok e parse_else"
  unfolding parse_else_def
proof (rule instr_ok_checked, rule holds_getpc)
  fix p0 and pc :: "pc_element list" assume "pc \<noteq> []"
  then obtain pe rest where pc: "pc = pe # rest" by (cases pc) auto
  show "holds e (ctl p0 1 {} pc) (case pc of [] \<Rightarrow> throwM Undefined_behaviour
      | old_index # rest \<Rightarrow> bindM (assertM (pe_is_if old_index)) (\<lambda>_. case pe_relocations old_index of
           Branches (if_loc # rs) \<Rightarrow>
             bindM (seqM [popM (pe_expected_result old_index), stackM (\<lambda>opt. tk_pop_scope opt t_pseudo), push_scopeM])
               (\<lambda>_. bindM (writerM (emit_else if_loc)) (\<lambda>branch.
                 seqM [(\<lambda>e s. Inr ((), s\<lparr>ps_pc := old_index\<lparr>pe_relocations := Branches (branch # rs), pe_is_if := False\<rparr> # rest\<rparr>)),
                       on_controlM]))
         | _ \<Rightarrow> throwM Undefined_behaviour)) (\<lambda>_ s. \<exists>pc'. pc' \<noteq> [] \<and> ctl p0 0 {} pc' s)"
    unfolding pc list.case
  proof (rule holds_bind [OF holds_assert], rule holds_conj)
    assume "pe_is_if pe"
    show "holds e (ctl p0 1 {} (pe # rest)) (case pe_relocations pe of
           Branches (if_loc # rs) \<Rightarrow>
             bindM (seqM [popM (pe_expected_result pe), stackM (\<lambda>opt. tk_pop_scope opt t_pseudo), push_scopeM])
               (\<lambda>_. bindM (writerM (emit_else if_loc)) (\<lambda>branch.
                 seqM [(\<lambda>e s. Inr ((), s\<lparr>ps_pc := pe\<lparr>pe_relocations := Branches (branch # rs), pe_is_if := False\<rparr> # rest\<rparr>)),
                       on_controlM]))
         | _ \<Rightarrow> throwM Undefined_behaviour) (\<lambda>_ s. \<exists>pc'. pc' \<noteq> [] \<and> ctl p0 0 {} pc' s)"
    proof (rule holds_pre)
      show "(\<exists>a rs. pe_relocations pe = Branches (a # rs)) \<and> is_value (pe_expected_result pe)"
        if "ctl p0 1 {} (pe # rest) s" for s
        using that \<open>pe_is_if pe\<close> by (simp add: ctl_def pe_ok_def)
    next
      assume "(\<exists>a rs. pe_relocations pe = Branches (a # rs)) \<and> is_value (pe_expected_result pe)"
      then obtain a rs where r: "pe_relocations pe = Branches (a # rs)" and v: "is_value (pe_expected_result pe)" by auto
      have reopen: "holds e (ctl p0 1 {} (pe # rest))
          (seqM [popM (pe_expected_result pe), stackM (\<lambda>opt. tk_pop_scope opt t_pseudo), push_scopeM])
          (\<lambda>_. ctl p0 1 {} (pe # rest))"
        unfolding seqM.simps last_statement
        by (rule holds_weaken [OF holds_plain0 [OF plain_bind0 [OF plain_pop [OF v] plain_reopen]]]) auto
      show ?thesis unfolding r relocations.case list.case
        by (rule holds_bind [OF reopen holds_emit_else [OF r]])
    qed
  qed
qed

subsection \<open>Branch tables\<close>

text \<open>The invariant inside \<open>br_table\<close>: the control invariant, and the label area of the table.\<close>

definition tbl :: "nat \<Rightarrow> br_table_parser \<Rightarrow> gptr \<Rightarrow> int \<Rightarrow> br_addr set \<Rightarrow> nat \<Rightarrow> parse_state \<Rightarrow> bool" where
  "tbl n bp p0 c X len s \<longleftrightarrow> table_ok n bp (ps_writer s) \<and> (\<exists>pc. length pc = len \<and> ctl p0 c X pc s)"

lemma holds_tbl_keep:
  assumes "\<And>p0 c X pc. holds e (ctl p0 c X pc) m (\<lambda>x s. R x (length pc) \<and> ctl p0 (c + d) X pc s)"
    and "\<And>s x s'. m e s = Inr (x, s') \<Longrightarrow> ps_writer s' = ps_writer s"
  shows "holds e (tbl n bp p0 c X len) m (\<lambda>x s. R x len \<and> tbl n bp p0 (c + d) X len s)"
proof (rule holdsI)
  fix s assume "tbl n bp p0 c X len s"
  then obtain pc where pc: "length pc = len" "ctl p0 c X pc s" and t: "table_ok n bp (ps_writer s)"
    by (auto simp: tbl_def)
  note h = holdsD [OF assms(1) pc(2)]
  show "m e s \<noteq> Inl Undefined_behaviour" by (rule h)
  fix x s' assume "m e s = Inr (x, s')"
  then show "R x len \<and> tbl n bp p0 (c + d) X len s'" using h(2) assms(2) pc t by (fastforce simp: tbl_def)
qed

lemma holds_tbl_read:
  "holds e (tbl n bp p0 c X len) rd_u32 (\<lambda>_. tbl n bp p0 (c + 1) X len)"
  by (rule holds_weaken [OF holds_tbl_keep [where R = "\<lambda>_ _. True" and d = 1]])
    (auto simp: readM_def res_simps intro: holds_weaken [OF holds_read [OF cursor_parser_varuint32]])

lemma holds_tbl_depth:
  "holds e (tbl n bp p0 c X len) (compute_depth_change label) (\<lambda>_. tbl n bp p0 c X len)"
  by (rule holds_weaken [OF holds_tbl_keep [where R = "\<lambda>_ _. True" and d = 0]])
    (auto simp: compute_depth_change_eq Let_def res_simps split: if_splits
      intro: holds_weaken [OF holds_compute_depth_change])

lemma holds_tbl_handle:
  "holds e (tbl n bp p0 c (insert a X) len) (handle_branch_target label a)
     (\<lambda>_ s. unat label < len \<and> tbl n bp p0 c X len s)"
proof (rule holdsI)
  fix s assume "tbl n bp p0 c (insert a X) len s"
  then obtain pc where pc: "length pc = len" "ctl p0 c (insert a X) pc s" and t: "table_ok n bp (ps_writer s)"
    by (auto simp: tbl_def)
  note h = holdsD [OF holds_handle_branch_target pc(2)]
  show "handle_branch_target label a e s \<noteq> Inl Undefined_behaviour" by (rule h)
  fix x s' assume r: "handle_branch_target label a e s = Inr (x, s')"
  have "table_ok n bp (ps_writer s')"
    using r t table_ok_fix_branch by (auto simp: handle_branch_target_eq split: if_splits relocations.splits)
  then show "unat label < len \<and> tbl n bp p0 c X len s'" using h(2) [OF r] pc(1) by (auto simp: tbl_def)
qed

text \<open>What the two emissions of labels have in common.\<close>

definition label_emitter :: "(u32 \<Rightarrow> u8 \<Rightarrow> br_table_parser \<Rightarrow> bitcode_writer
    \<Rightarrow> (br_addr \<times> br_table_parser \<times> bitcode_writer) res) \<Rightarrow> bool" where
  "label_emitter em \<longleftrightarrow> (\<forall>d rt n bp w. table_ok n bp w \<longrightarrow> bp_i bp \<le> n \<longrightarrow>
     em d rt bp w \<noteq> Inl Undefined_behaviour \<and>
     (\<forall>r. em d rt bp w = Inr r \<longrightarrow> emit_case d rt bp w = Inr r))"

lemma label_emitters: "label_emitter emit_case" "label_emitter emit_default"
proof -
  show "label_emitter emit_case" using emit_case_no_ub by (fastforce simp: label_emitter_def)
  show "label_emitter emit_default"
    using emit_default_no_ub emit_case_no_ub emit_default_Inr unfolding label_emitter_def
    by (metis prod_cases3 vm_exn.distinct(203) vm_exn.distinct)
qed

lemma holds_tbl_emit:
  assumes em: "label_emitter em" and i: "bp_i bp \<le> n"
  shows "holds e (tbl n bp p0 c X len)
     (writerM (\<lambda>w. bindE (em d rt bp w) (\<lambda>(a, h, w'). Inr ((a, h), w'))))
     (\<lambda>x s. bp_i (snd x) = Suc (bp_i bp) \<and> tbl n (snd x) p0 c (insert (fst x) X) len s)" (is "holds e _ ?m _")
proof (rule holdsI)
  fix s assume "tbl n bp p0 c X len s"
  then obtain pc where pc: "length pc = len" "ctl p0 c X pc s" and t: "table_ok n bp (ps_writer s)"
    by (auto simp: tbl_def)
  show "?m e s \<noteq> Inl Undefined_behaviour"
    using em t i by (auto simp: writerM_def bindE_eq_Inl_iff label_emitter_def)
  fix x s' assume "?m e s = Inr (x, s')"
  then obtain a bp' w where x: "x = (a, bp')" and s': "s' = s\<lparr>ps_writer := w\<rparr>"
    and w: "em d rt bp (ps_writer s) = Inr (a, bp', w)"
    by (auto simp: writerM_def res_simps)
  have cas: "emit_case d rt bp (ps_writer s) = Inr (a, bp', w)" using em t i w by (auto simp: label_emitter_def)
  note r = emit_case_ok [OF t i cas]
  have "ctl p0 c (insert a X) pc s'"
    using pc(2) r(4) [of "X \<union> pending pc"] emittedD(1) [OF r(1)] by (simp add: s' ctl_def st_ok_def)
  then show "bp_i (snd x) = Suc (bp_i bp) \<and> tbl n (snd x) p0 c (insert (fst x) X) len s'"
    using r(2,3) pc(1) by (auto simp: x tbl_def s')
qed

lemma holds_tbl_elem:
  "holds e (\<lambda>s. unat label < len \<and> tbl n bp p0 c X len s) (label_elem label) (\<lambda>_. tbl n bp p0 c X len)"
  by (auto simp: holds_def label_elem_def pm_defs at_unchecked_def tbl_def ctl_def)

lemma holds_br_table_label:
  assumes em: "label_emitter em" and i: "bp_i bp \<le> n"
  shows "holds e (tbl n bp p0 c {} len) (br_table_label em bp)
    (\<lambda>x s. bp_i (snd x) = Suc (bp_i bp) \<and> tbl n (snd x) p0 (c + 1) {} len s)"
  unfolding br_table_label_def
proof (rule holds_bind [OF holds_tbl_read], rule holds_bind [OF holds_tbl_depth])
  fix label :: u32 and r :: "u32 \<times> u8"
  obtain d rt where r: "r = (d, rt)" by (cases r)
  show "holds e (tbl n bp p0 (c + 1) {} len) (case r of (depth_change, rt) \<Rightarrow>
     bindM (writerM (\<lambda>w. bindE (em depth_change rt bp w) (\<lambda>(a, h, w'). Inr ((a, h), w')))) (\<lambda>(branch, handler').
     bindM (handle_branch_target label branch) (\<lambda>_.
     bindM (label_elem label) (\<lambda>pe. returnM (pe_label_result pe, handler')))))
     (\<lambda>x s. bp_i (snd x) = Suc (bp_i bp) \<and> tbl n (snd x) p0 (c + 1) {} len s)"
    unfolding r prod.case
  proof (rule holds_bind [OF holds_tbl_emit [OF em i]])
    fix x :: "br_addr \<times> br_table_parser"
    obtain a bp' where x: "x = (a, bp')" by (cases x)
    show "holds e (\<lambda>s. bp_i (snd x) = Suc (bp_i bp) \<and> tbl n (snd x) p0 (c + 1) {fst x} len s)
       (case x of (branch, handler') \<Rightarrow> bindM (handle_branch_target label branch)
          (\<lambda>_. bindM (label_elem label) (\<lambda>pe. returnM (pe_label_result pe, handler'))))
       (\<lambda>x s. bp_i (snd x) = Suc (bp_i bp) \<and> tbl n (snd x) p0 (c + 1) {} len s)"
      unfolding x prod.case fst_conv snd_conv
      by (rule holds_conj, rule holds_bind [OF holds_tbl_handle], rule holds_bind [OF holds_tbl_elem],
          rule holds_weaken [OF holds_return]) auto
  qed
qed

lemma holds_br_table_cases:
  "bp_i bp + k \<le> n \<Longrightarrow> holds e (tbl n bp p0 c {} len) (br_table_cases k rt bp)
    (\<lambda>x s. bp_i (snd x) = bp_i bp + k \<and> tbl n (snd x) p0 (c + int k) {} len s)"
proof (induction k arbitrary: rt bp c)
  case 0
  show ?case unfolding br_table_cases.simps by (rule holds_weaken [OF holds_return]) auto
next
  case (Suc k)
  show ?case
    unfolding br_table_cases.simps
  proof (rule holds_bind [OF holds_br_table_label [OF label_emitters(1)]], use Suc.prems in simp)
    fix x :: "u8 \<times> br_table_parser"
    obtain r bp' where x: "x = (r, bp')" by (cases x)
    show "holds e (\<lambda>s. bp_i (snd x) = Suc (bp_i bp) \<and> tbl n (snd x) p0 (c + 1) {} len s)
        (case x of (one_result, handler') \<Rightarrow>
          bindM (assertM (rt = None \<or> rt = Some one_result)) (\<lambda>_. br_table_cases k (Some one_result) handler'))
        (\<lambda>x s. bp_i (snd x) = bp_i bp + Suc k \<and> tbl n (snd x) p0 (c + int (Suc k)) {} len s)"
      unfolding x prod.case snd_conv
    proof (rule holds_conj, rule holds_bind [OF holds_assert], rule holds_conj)
      assume i: "bp_i bp' = Suc (bp_i bp)"
      show "holds e (tbl n bp' p0 (c + 1) {} len) (br_table_cases k (Some r) bp')
          (\<lambda>x s. bp_i (snd x) = bp_i bp + Suc k \<and> tbl n (snd x) p0 (c + int (Suc k)) {} len s)"
        by (rule holds_weaken [OF Suc.IH]) (use Suc.prems i in \<open>auto simp: algebra_simps\<close>)
    qed
  qed
qed

lemma holds_emit_br_table:
  "holds e (ctl p0 c {} pc) (writerM (emit_br_table n))
     (\<lambda>bp s. bp_i bp = 0 \<and> tbl (unat n) bp p0 (c - int (unat n div 3 + 3)) {} (length pc) s)"
proof (rule holdsI)
  fix s assume c: "ctl p0 c {} pc s"
  show "writerM (emit_br_table n) e s \<noteq> Inl Undefined_behaviour"
    using w_put_no_ub fb_set_no_ub by (auto simp: writerM_def emit_br_table_def bindE_eq_Inl_iff Let_def)
  fix bp s' assume "writerM (emit_br_table n) e s = Inr (bp, s')"
  then obtain w where w: "emit_br_table n (ps_writer s) = Inr (bp, w)" "s' = s\<lparr>ps_writer := w\<rparr>"
    by (auto simp: writerM_def res_simps)
  note r = emit_br_table_ok [OF w(1)]
  have k: "w_op_index w = w_op_index (ps_writer s) + (unat n div 3 + 3)" by (rule emittedD(1) [OF r(1)])
  have "ctl p0 (c - int (unat n div 3 + 3)) {} pc s'"
    using c r(4) [of "pending pc"] k list_pe_ok_mono [of "w_op_index (ps_writer s)" pc "w_op_index w"]
    by (simp add: w(2) ctl_def st_ok_def)
  then show "bp_i bp = 0 \<and> tbl (unat n) bp p0 (c - int (unat n div 3 + 3)) {} (length pc) s'"
    using r(2,3) by (auto simp: tbl_def w(2))
qed

lemma holds_tbl_finish:
  assumes "0 \<le> c" and "0 < len"
  shows "holds e (tbl n bp p0 c {} len) (seqM [assertM b, start_unreachableM]) (\<lambda>_ s. \<exists>pc'. pc' \<noteq> [] \<and> ctl p0 0 {} pc' s)"
  unfolding seqM.simps last_statement
proof (rule holds_bind [OF holds_assert], rule holds_conj)
  have "holds e (\<lambda>s. \<exists>pc. length pc = len \<and> ctl p0 c {} pc s) start_unreachableM
      (\<lambda>_ s. \<exists>pc'. pc' \<noteq> [] \<and> ctl p0 0 {} pc' s)"
  proof (rule holds_ex, rule holds_conj)
    fix pc :: "pc_element list" assume "length pc = len"
    with assms(2) have ne: "pc \<noteq> []" by auto
    show "holds e (ctl p0 c {} pc) start_unreachableM (\<lambda>_ s. \<exists>pc'. pc' \<noteq> [] \<and> ctl p0 0 {} pc' s)"
      by (rule holds_weaken [OF holds_start_unreachable [OF ne]]) (use ne assms(1) in \<open>auto intro: ctl_credit\<close>)
  qed
  then show "holds e (tbl n bp p0 c {} len) start_unreachableM (\<lambda>_ s. \<exists>pc'. pc' \<noteq> [] \<and> ctl p0 0 {} pc' s)"
    by (rule holds_weaken) (auto simp: tbl_def)
qed

lemma instr_ok_br_table: "instr_ok e parse_br_table"
  unfolding parse_br_table_def
proof (rule instr_ok_checked, rule holds_bind [OF holds_read [OF cursor_parser_varuint32]],
    rule holds_bind [OF holds_ask], rule holds_conj, rule holds_bind [OF holds_assert], rule holds_conj,
    rule holds_bind [OF holds_plain0 [OF plain_pop]], simp, rule holds_conj,
    rule holds_bind [OF holds_emit_br_table], rule holds_conj)
  fix p0 :: gptr and pc :: "pc_element list" and n :: u32 and bp :: br_table_parser
  let ?n = "unat n"
  assume ne: "pc \<noteq> []" and i: "bp_i bp = 0"
  let ?c = "1 + int 1 - int (?n div 3 + 3)"
  show "holds e (tbl ?n bp p0 ?c {} (length pc))
      (bindM (br_table_cases ?n None bp) (\<lambda>(result_type, handler').
        bindM (br_table_label emit_default handler') (\<lambda>(one_result, _).
        seqM [assertM (result_type = None \<or> result_type = Some one_result), start_unreachableM])))
      (\<lambda>_ s. \<exists>pc'. pc' \<noteq> [] \<and> ctl p0 0 {} pc' s)"
  proof (rule holds_bind [OF holds_br_table_cases], use i in simp)
    fix x :: "u8 option \<times> br_table_parser"
    obtain rt bp' where x: "x = (rt, bp')" by (cases x)
    have "holds e (tbl ?n bp' p0 (?c + int ?n) {} (length pc))
        (bindM (br_table_label emit_default bp') (\<lambda>(one_result, _).
        seqM [assertM (rt = None \<or> rt = Some one_result), start_unreachableM]))
        (\<lambda>_ s. \<exists>pc'. pc' \<noteq> [] \<and> ctl p0 0 {} pc' s)" if i': "bp_i bp' = ?n"
    proof (rule holds_bind [OF holds_br_table_label [OF label_emitters(2)]], use i' in simp)
      fix y :: "u8 \<times> br_table_parser"
      obtain one bp'' where y: "y = (one, bp'')" by (cases y)
      have "0 \<le> ?c + int ?n + 1" by linarith
      from holds_tbl_finish [OF this, of "length pc"] ne
      show "holds e (\<lambda>s. bp_i (snd y) = Suc (bp_i bp') \<and> tbl ?n (snd y) p0 (?c + int ?n + 1) {} (length pc) s)
          (case y of (one_result, _) \<Rightarrow> seqM [assertM (rt = None \<or> rt = Some one_result), start_unreachableM])
          (\<lambda>_ s. \<exists>pc'. pc' \<noteq> [] \<and> ctl p0 0 {} pc' s)"
        unfolding y prod.case snd_conv by (intro holds_conj) auto
    qed
    then show "holds e (\<lambda>s. bp_i (snd x) = bp_i bp + ?n \<and> tbl ?n (snd x) p0 (?c + int ?n) {} (length pc) s)
        (case x of (result_type, handler') \<Rightarrow> bindM (br_table_label emit_default handler') (\<lambda>(one_result, _).
        seqM [assertM (result_type = None \<or> result_type = Some one_result), start_unreachableM]))
        (\<lambda>_ s. \<exists>pc'. pc' \<noteq> [] \<and> ctl p0 0 {} pc' s)"
      unfolding x prod.case snd_conv using i by (intro holds_conj) simp
  qed
qed

lemma instr_ok_op: "wf_env e \<Longrightarrow> instr_ok e (parse_op code)"
  unfolding parse_op_def
  by (simp add: instr_ok_unreachable instr_ok_end instr_ok_return instr_ok_block instr_ok_loop instr_ok_if instr_ok_else
      instr_ok_br instr_ok_br_if instr_ok_br_table instr_ok_plain [OF plain_nop] instr_ok_plain [OF plain_variable_op])

section \<open>The loop\<close>

lemma parse_instr_step:
  assumes wf: "wf_env e" and c: "ctl p0 0 {} pc s" and o: "open_or_tolerant e pc"
  shows "parse_instr e s \<noteq> Inl Undefined_behaviour"
    and "parse_instr e s = Inr (x, s') \<Longrightarrow> instr_post e p0 s' \<and> gp_moved 1 (ps_code s) (ps_code s')"
proof -
  have wfc: "wf_gptr (ps_code s)" using c by (simp add: ctl_def st_ok_def)
  have op: "ctl p0 1 {} pc (s\<lparr>ps_code := q\<rparr>)" "ctl q 1 {} pc (s\<lparr>ps_code := q\<rparr>)" if "gp_next (ps_code s) = Inr (b, q)" for b q
  proof -
    have "readM gp_next e s = Inr (b, s\<lparr>ps_code := q\<rparr>)" using that by (simp add: readM_def)
    from holdsD(2) [OF holds_read [OF cursor_parser_next] c this] show "ctl p0 1 {} pc (s\<lparr>ps_code := q\<rparr>)" by simp
    then show "ctl q 1 {} pc (s\<lparr>ps_code := q\<rparr>)"
      using gp_moved_refl [OF nxt.keeps_wf [OF wfc that]] by (simp add: ctl_def)
  qed
  have ok: "holds e (ctl q 1 {} pc) (parse_op b) (\<lambda>_. instr_post e q)" for q b
    using instr_ok_op [OF wf] o by (simp add: instr_ok_def)
  show "parse_instr e s \<noteq> Inl Undefined_behaviour"
  proof
    assume "parse_instr e s = Inl Undefined_behaviour"
    with nxt.safe [OF wfc] obtain b q where b: "gp_next (ps_code s) = Inr (b, q)"
      and r: "parse_op b e (s\<lparr>ps_code := q\<rparr>) = Inl Undefined_behaviour"
      by (auto simp: parse_instr_def pm_defs readM_def bindE_eq_Inl_iff res_simps split: if_splits)
    show False using holdsD(1) [OF ok op(1) [OF b]] r by blast
  qed
  assume "parse_instr e s = Inr (x, s')"
  then obtain b q where b: "gp_next (ps_code s) = Inr (b, q)" and r: "parse_op b e (s\<lparr>ps_code := q\<rparr>) = Inr (x, s')"
    by (auto simp: parse_instr_def pm_defs readM_def res_simps split: if_splits)
  have "gp_moved 0 q (ps_code s')"
    using holdsD(2) [OF ok op(2) [OF b] r] by (auto simp: instr_post_def ctl_def)
  with nxt.moves [OF wfc b] have "gp_moved 1 (ps_code s) (ps_code s')" using gp_moved_trans [of 1 _ q 0] by simp
  then show "instr_post e p0 s' \<and> gp_moved 1 (ps_code s) (ps_code s')"
    using holdsD(2) [OF ok op(1) [OF b] r] by blast
qed

text \<open>Enough rounds: the loop stops because its condition is false.\<close>

lemma parse_code_exits:
  assumes wf: "wf_env e" and "instr_post e p0 s"
  shows "parse_code n e s \<noteq> Inl Undefined_behaviour"
    and "parse_code n e s = Inr (x, s') \<Longrightarrow> pv_bounds e \<le> gp_offset (ps_code s) + n \<Longrightarrow>
      instr_post e p0 s' \<and> \<not> gp_offset (ps_code s') < pv_bounds e"
  using assms(2)
proof (induction n arbitrary: s)
  case 0
  { case 1 then show ?case by simp }
  { case 2 then show ?case by auto }
next
  case (Suc n)
  have step: "open_or_tolerant e (ps_pc s) \<and> ctl p0 0 {} (ps_pc s) s"
    if "instr_post e p0 s" "gp_offset (ps_code s) < pv_bounds e" for s
    using that by (auto simp: instr_post_def ctl_def)
  { case 1
    show ?case
    proof (cases "gp_offset (ps_code s) < pv_bounds e")
      case True
      note st = step [OF 1 True]
      have "parse_code n e s1 \<noteq> Inl Undefined_behaviour" if "parse_instr e s = Inr (y, s1)" for y s1
        using Suc.IH(1) parse_instr_step(2) [OF wf _ _ that] st by blast
      then show ?thesis using True parse_instr_step(1) [OF wf] st by (auto simp: bindE_eq_Inl_iff)
    qed simp
  next
    case 2
    show ?case
    proof (cases "gp_offset (ps_code s) < pv_bounds e")
      case True
      then obtain y s1 where s1: "parse_instr e s = Inr (y, s1)" and rest: "parse_code n e s1 = Inr (x, s')"
        using 2(1) by (auto simp: res_simps)
      have st: "instr_post e p0 s1" "gp_moved 1 (ps_code s) (ps_code s1)"
        using parse_instr_step(2) [OF wf _ _ s1] step [OF 2(3) True] by blast+
      moreover have "wf_gptr (ps_code s)" using 2(3) by (auto simp: instr_post_def ctl_def st_ok_def)
      ultimately show ?thesis using Suc.IH(2) [OF rest _ st(1)] 2(2) gp_moved_offset [OF st(2)] by simp
    qed (use 2 in auto)
  }
qed

end
