(* ===== verification/Vm_Code_Gen.thy ===== *)
theory Vm_Code_Gen
  imports Vm_Code_Safety
begin

text \<open>
  What a compiled function looks like.  The safety of the instruction loop is in \<^verbatim>\<open>Vm_Code_Safety\<close>;
  here its frame (an instruction changes the code buffer and the write position of the writer and
  nothing else) and, on top of both, the theorems on \<open>parse_function_body_code\<close> and \<open>write_code_out\<close>.
\<close>

section \<open>The frame of an instruction\<close>

definition framed :: "parse_env \<Rightarrow> 'a pm \<Rightarrow> bool" where
  "framed e m \<longleftrightarrow> (\<forall>s x s'. st_ok s \<longrightarrow> m e s = Inr (x, s') \<longrightarrow> (\<exists>k. emitted k (ps_writer s) (ps_writer s')))"

text \<open>The same for actions that do not depend on the state being well formed.\<close>

definition frame :: "'a pm \<Rightarrow> bool" where
  "frame m \<longleftrightarrow> (\<forall>e s x s'. m e s = Inr (x, s') \<longrightarrow> (\<exists>k. emitted k (ps_writer s) (ps_writer s')))"

named_theorems frame_intros \<open>rules for the frame of an action\<close>

lemma frame_framed: "frame m \<Longrightarrow> framed e m"
  by (auto simp: frame_def framed_def)

lemma plain_framed: "plain e k Q m \<Longrightarrow> framed e m"
  unfolding framed_def using plainD(2) by (fastforce simp: plain_step_def)

lemma emitted_0I: "w' = w \<Longrightarrow> \<exists>k. emitted k w w'"
  using emitted_refl by blast

lemma frame_bind [frame_intros]: "frame m \<Longrightarrow> (\<And>x. frame (f x)) \<Longrightarrow> frame (bindM m f)"
  unfolding frame_def bindM_def by (fastforce simp: res_simps intro: emitted_trans)

lemma frame_pure [frame_intros]:
  "frame (returnM x)" "frame (throwM ex)" "frame (askM f)" "frame (getM g)" "frame (resM r)"
  "frame (readM prs)" "frame (stackM h)" "frame pop_anyM" "frame start_unreachableM" "frame push_scopeM"
  "frame on_controlM" "frame on_endM" "frame (push_pc pe)"
  by (auto simp: frame_def pm_defs askM_def getM_def resM_def readM_def stackM_def pop_anyM_def start_unreachableM_def
      push_scopeM_def on_controlM_def on_endM_def push_pc_def throwM_def res_simps intro!: emitted_0I)

lemma frame_assert [frame_intros]: "frame (assertM b)"
  by (simp add: assertM_def frame_pure)

lemma frame_seq [frame_intros]: "frame (seqM [])" "frame m \<Longrightarrow> frame (seqM ms) \<Longrightarrow> frame (seqM (m # ms))"
  by (simp_all add: frame_pure frame_bind)

lemma frame_set_pc [frame_intros]: "frame (\<lambda>e s. Inr ((), s\<lparr>ps_pc := f e s\<rparr>))"
  by (auto simp: frame_def intro!: emitted_0I)

lemma frame_emit [frame_intros]: "frame (emitM op)"
  using w_put_emitted by (fastforce simp: frame_def emitM_def res_simps)

lemma frame_if [frame_intros]: "frame m \<Longrightarrow> frame m' \<Longrightarrow> frame (if b then m else m')"
  by simp

text \<open>An emitter used through \<open>writerM\<close>.\<close>

lemma frame_writer:
  "(\<And>w x w'. em w = Inr (x, w') \<Longrightarrow> \<exists>k. emitted k w w') \<Longrightarrow> frame (writerM em)"
  by (auto simp: frame_def writerM_def res_simps)

lemma emitted_anyI: "length fb = length (w_fb w) \<Longrightarrow> w_op_index w \<le> n \<Longrightarrow> \<exists>k. emitted k w (w\<lparr>w_fb := fb, w_op_index := n\<rparr>)"
  by (rule exI [of _ "n - w_op_index w"]) (simp add: emitted_def)

lemma emitters_frame [frame_intros]:
  "frame (writerM emit_if)" "frame (writerM (emit_else a))" "frame (writerM (emit_br d rt))"
  "frame (writerM (emit_return d rt))" "frame (writerM (emit_br_if d rt))" "frame (writerM (emit_br_table n))"
proof -
  show "frame (writerM emit_if)"
    by (rule frame_writer) (auto simp: emit_if_def w_put_Inr res_simps intro!: emitted_anyI)
  show "frame (writerM (emit_else a))"
    by (rule frame_writer) (auto simp: emit_else_def w_put_Inr res_simps intro!: emitted_anyI)
  show "frame (writerM (emit_br d rt))" "frame (writerM (emit_return d rt))"
    by (rule frame_writer, auto simp: emit_return_def emit_br_def w_put_Inr res_simps intro!: emitted_anyI)+
  show "frame (writerM (emit_br_if d rt))"
    by (rule frame_writer) (auto simp: emit_br_if_def w_put_Inr res_simps intro!: emitted_anyI)
  show "frame (writerM (emit_br_table n))"
    by (rule frame_writer) (auto simp: emit_br_table_def w_put_Inr fb_set_def Let_def res_simps intro!: emitted_anyI)
qed

lemma emit_case_frame: "emit_case d rt bp w = Inr (a, bp', w') \<Longrightarrow> emitted 0 w w'"
  by (auto simp: emit_case_def res_simps Let_def emitted_def split: if_splits)

lemma emit_default_frame: "emit_default d rt bp w = Inr (a, bp', w') \<Longrightarrow> emitted 0 w w'"
  by (auto simp: emit_default_def res_simps dest: emit_case_frame)

lemma frame_local [frame_intros]:
  "frame check_in_bounds" "frame (label_elem l)" "frame (compute_depth_change l)" "frame block_type" "frame depthM"
  unfolding check_in_bounds_def label_elem_def compute_depth_change_def block_type_def Let_def depthM_def
  by (intro frame_intros)+

lemma frame_handle_branch_target [frame_intros]: "frame (handle_branch_target l a)"
proof -
  have "frame (fix_branchM a t)" for t
    by (auto simp: frame_def fix_branchM_def intro: fix_branch_emitted)
  then show ?thesis
    unfolding handle_branch_target_def by (intro frame_intros) (auto split: relocations.split intro: frame_set_pc)
qed

lemma frame_exit_scope [frame_intros]: "frame exit_scope"
proof -
  have "frame (\<lambda>e s. Inr ((), s\<lparr>ps_writer := fix_branches as (emit_end (ps_writer s)) (ps_writer s)\<rparr>))" for as
    by (auto simp: frame_def intro: fix_branches_emitted)
  then show ?thesis
    unfolding exit_scope_def by (intro frame_intros) (auto split: list.split intro!: frame_intros)
qed

lemma frame_br_table_label:
  assumes "\<And>d rt bp w a bp' w'. em d rt bp w = Inr (a, bp', w') \<Longrightarrow> emitted 0 w w'"
  shows "frame (br_table_label em h)"
proof -
  have "frame (writerM (\<lambda>w. bindE (em d rt h w) (\<lambda>(a, h, w'). Inr ((a, h), w'))))" for d rt
    by (rule frame_writer) (auto simp: res_simps dest: assms)
  then show ?thesis
    unfolding br_table_label_def by (intro frame_intros) (auto split: prod.split intro!: frame_intros)
qed

lemma frame_br_table_cases: "frame (br_table_cases n rt h)"
proof (induction n arbitrary: rt h)
  case (Suc n)
  then show ?case
    by (auto intro!: frame_intros frame_br_table_label [OF emit_case_frame] split: prod.split)
qed (simp add: frame_pure)

lemma frame_control:
  "frame parse_unreachable" "frame parse_end" "frame parse_return" "frame parse_block" "frame parse_loop"
  "frame parse_if" "frame parse_else" "frame parse_br" "frame parse_br_if" "frame parse_br_table"
  unfolding parse_unreachable_def parse_end_def parse_return_def parse_block_def parse_loop_def parse_if_def
    parse_else_def parse_br_def parse_br_if_def parse_br_table_def Let_def
  by (auto intro!: frame_intros frame_br_table_cases frame_br_table_label [OF emit_default_frame]
      split: prod.split list.split relocations.split)+

lemma framed_op: "wf_env e \<Longrightarrow> framed e (parse_op code)"
  unfolding parse_op_def
  by (simp add: frame_framed frame_control plain_framed [OF plain_nop] plain_framed [OF plain_variable_op])

lemma parse_instr_frame:
  assumes wf: "wf_env e" and ok: "st_ok s" and r: "parse_instr e s = Inr (x, s')"
  shows "\<exists>k. emitted k (ps_writer s) (ps_writer s')"
proof -
  obtain b q where b: "gp_next (ps_code s) = Inr (b, q)" and op: "parse_op b e (s\<lparr>ps_code := q\<rparr>) = Inr (x, s')"
    using r by (auto simp: parse_instr_def pm_defs readM_def res_simps split: if_splits)
  have "st_ok (s\<lparr>ps_code := q\<rparr>)" using ok nxt.keeps_wf [OF _ b] by (simp add: st_ok_def)
  with framed_op [OF wf] op show ?thesis by (fastforce simp: framed_def)
qed

lemma parse_code_frame:
  assumes wf: "wf_env e"
  shows "instr_post e p0 s \<Longrightarrow> parse_code n e s = Inr (x, s') \<Longrightarrow> \<exists>k. emitted k (ps_writer s) (ps_writer s')"
proof (induction n arbitrary: s)
  case (Suc n)
  show ?case
  proof (cases "gp_offset (ps_code s) < pv_bounds e")
    case True
    then obtain y s1 where s1: "parse_instr e s = Inr (y, s1)" and rest: "parse_code n e s1 = Inr (x, s')"
      using Suc.prems(2) by (auto simp: res_simps)
    obtain pc where c: "ctl p0 0 {} pc s" "open_or_tolerant e pc"
      using Suc.prems(1) True by (auto simp: instr_post_def)
    have "instr_post e p0 s1" using parse_instr_step(2) [OF wf c s1] by blast
    from Suc.IH [OF this rest] parse_instr_frame [OF wf _ s1] c show ?thesis
      by (auto simp: ctl_def dest: emitted_trans)
  qed (use Suc.prems in \<open>auto intro: emitted_0I\<close>)
qed (auto intro: emitted_0I)

section \<open>One function body\<close>

text \<open>The cursor \<open>wasm_code_ptr{code.raw(), fb.size}\<close> that \<open>parse_function_body\<close> stores.\<close>

definition fresh_body :: "parse_env \<Rightarrow> gptr \<Rightarrow> bool" where
  "fresh_body e code \<longleftrightarrow> wf_gptr code \<and> gp_offset code = 0 \<and> gp_bounds code = pv_bounds e"

text \<open>The writer between \<open>emit_prologue\<close> and the first instruction.\<close>

definition fresh_writer :: "bitcode_writer \<Rightarrow> bool" where
  "fresh_writer w \<longleftrightarrow> w_op_index w = 0 \<and> code_addrs (w_fb w) = {}"

lemma wf_tracker_init: "wf_tracker (tk_init opt lb)" "tk_scopes (tk_init opt lb) = [0]" "operand_depth (tk_init opt lb) = 0"
  by (simp_all add: tk_init_def tk_defs)

lemma body_start:
  assumes wf: "wf_env e" and code: "fresh_body e code" and ft: "ft \<in> set (m_types (pv_mod e))" and w: "fresh_writer w"
    and t_def: "t = tk_init (pv_opt e) lb"
  shows "instr_post e code \<lparr>ps_code = code, ps_stack = t, ps_pc = [function_pc_element ft t], ps_writer = w, ps_nested = nested\<rparr>"
proof -
  have "is_value (if return_count ft \<noteq> 0 then return_type ft else t_pseudo)"
    using wf ft by (auto simp: wf_env_def)
  then have "pe_ok 0 (function_pc_element ft t)" by (simp add: pe_ok_def function_pc_element_def Let_def)
  moreover have "pe_operand_depth (function_pc_element ft t) = 0" "relocation_list (function_pc_element ft t) = []"
    by (simp_all add: function_pc_element_def Let_def t_def wf_tracker_init relocation_list_def)
  ultimately show ?thesis
    using code w gp_moved_refl [of code] wf_tracker_init [of "pv_opt e" lb]
    by (simp add: instr_post_def ctl_def open_or_tolerant_def st_ok_def fresh_body_def fresh_writer_def pending_def
        branches_ok_def t_def)
qed

text \<open>What a body leaves in the writer.\<close>

definition body_done :: "parse_env \<Rightarrow> bitcode_writer \<Rightarrow> bitcode_writer \<Rightarrow> bool" where
  "body_done e w w' \<longleftrightarrow> w_op_index w' + 1 \<le> pv_bounds e \<and> branches_ok {} w' \<and> length (w_fb w') = length (w_fb w)
     \<and> w_base_offset w' = w_base_offset w \<and> w_alloc w' = w_alloc w \<and> w_fb_ptr w' = w_fb_ptr w
     \<and> w_segment w' = w_segment w \<and> w_code_segment_base w' = w_code_segment_base w"

lemma set_stack_usage_Inr:
  "set_stack_usage u w = Inr w' \<Longrightarrow> w' = w\<lparr>w_stack_usage := ucast (u + 16)\<rparr>"
  by (simp add: set_stack_usage_def Let_def res_simps)

lemma parse_function_body_code_steps:
  assumes wf: "wf_env e" and code: "fresh_body e code" and ft: "ft \<in> set (m_types (pv_mod e))" and w: "fresh_writer w"
  shows "parse_function_body_code e ft code lb nested ms w \<noteq> Inl Undefined_behaviour"
    and "parse_function_body_code e ft code lb nested ms w = Inr (code', w', nested', ms') \<Longrightarrow>
      gp_offset code' = pv_bounds e \<and> body_done e w w'"
proof -
  let ?t = "tk_init (pv_opt e) lb"
  let ?s = "\<lparr>ps_code = code, ps_stack = ?t, ps_pc = [function_pc_element ft ?t], ps_writer = w, ps_nested = nested\<rparr>"
  note post = body_start [OF wf code ft w refl, of lb nested]
  show "parse_function_body_code e ft code lb nested ms w \<noteq> Inl Undefined_behaviour"
    using parse_code_exits(1) [OF wf post]
    by (auto simp: parse_function_body_code_def Let_def bindE_eq_Inl_iff assertE_eq_Inl_iff set_stack_usage_def
        split: option.splits)
  assume "parse_function_body_code e ft code lb nested ms w = Inr (code', w', nested', ms')"
  then obtain x s where s: "parse_code (pv_bounds e) e ?s = Inr (x, s)" "ps_pc s = []" "code' = ps_code s"
    and w': "w' = ps_writer s \<or> w' = (ps_writer s)\<lparr>w_stack_usage := ucast (stack_usage_max (ps_stack s) + 16)\<rparr>"
    by (auto simp: parse_function_body_code_def Let_def res_simps dest: set_stack_usage_Inr split: option.splits)
  have c: "ctl code 0 {} [] s" and out: "pv_bounds e \<le> gp_offset (ps_code s)"
    using parse_code_exits(2) [OF wf post s(1)] s(2) code by (auto simp: instr_post_def ctl_def fresh_body_def)
  then have "gp_offset (ps_code s) = pv_bounds e"
    using code by (auto simp: ctl_def gp_moved_def fresh_body_def gp_offset_def gp_bounds_def)
  moreover obtain k where "emitted k w (ps_writer s)" using parse_code_frame [OF wf post s(1)] by auto
  ultimately show "gp_offset code' = pv_bounds e \<and> body_done e w w'"
    using c w' by (auto simp: ctl_def body_done_def pending_def s(3) branches_ok_def dest: emittedD)
qed

section \<open>Finished functions\<close>

text \<open>
  The code of a function starts at slot \<open>lo\<close> of the segment and every branch in it goes to one of its
  own slots.  \<open>writer_at first w\<close> is the state of the writer between two functions: the functions
  finished so far fill the slots from address \<open>first\<close> on without a gap, which is what lets the
  interpreter reach a slot as \<open>code[0].code + pc_offset\<close>.
\<close>

definition branches_within :: "nat \<Rightarrow> opcode list \<Rightarrow> bool" where
  "branches_within lo body \<longleftrightarrow>
     (\<forall>a \<in> code_addrs body. lo \<le> unat (target_at body a) \<and> unat (target_at body a) < lo + length body)"

definition writer_at :: "nat \<Rightarrow> bitcode_writer \<Rightarrow> bool" where
  "writer_at first w \<longleftrightarrow> wf_ga (w_alloc w) \<and> 8 dvd first
     \<and> unat (ga_offset (w_alloc w)) = first + 24 * w_base_offset w \<and> length (w_segment w) = w_base_offset w"

lemma opcode_layout: "layout sizeof_opcode alignof_opcode" "unat sizeof_opcode = 24" "unat alignof_opcode = 8"
  by (auto simp: layout_def sizeof_opcode_def alignof_opcode_def intro!: exI [of _ 3])

lemma writer_at_prologue:
  assumes at: "writer_at first w" and r: "emit_prologue n w = Inr w'"
  shows "unat (w_fb_ptr w') = first + 24 * w_base_offset w" and "w_fb w' = replicate (unat n) Reserved"
    and "w_op_index w' = 0" and "w_base_offset w' = w_base_offset w" and "w_segment w' = w_segment w"
    and "wf_ga (w_alloc w')" and "unat (ga_offset (w_alloc w')) = unat (w_fb_ptr w') + 24 * unat n"
    and "ga_capacity (w_alloc w') = ga_capacity (w_alloc w)"
proof -
  obtain p g where a: "ga_alloc sizeof_opcode alignof_opcode (ucast n) (w_alloc w) = Inr (p, g)"
    and w': "w' = w\<lparr>w_op_index := 0, w_alloc := g, w_fb_ptr := p, w_fb := replicate (unat n) Reserved\<rparr>"
    using r by (auto simp: emit_prologue_def fb_new_def res_simps unat_ucast_up)
  have wf: "wf_ga (w_alloc w)" and d: "8 dvd unat (ga_offset (w_alloc w))" using at by (auto simp: writer_at_def)
  note al = ga_alloc_Inr [OF wf opcode_layout(1) a]
  have "unat p = first + 24 * w_base_offset w"
    using al(1) at d by (simp add: opcode_layout round_up_multiple writer_at_def)
  with al w' show "unat (w_fb_ptr w') = first + 24 * w_base_offset w" "w_fb w' = replicate (unat n) Reserved"
    "w_op_index w' = 0" "w_base_offset w' = w_base_offset w" "w_segment w' = w_segment w"
    "wf_ga (w_alloc w')" "unat (ga_offset (w_alloc w')) = unat (w_fb_ptr w') + 24 * unat n"
    "ga_capacity (w_alloc w') = ga_capacity (w_alloc w)"
    by (simp_all add: opcode_layout unat_ucast_up)
qed

lemma fb_resize_shrink:
  assumes wf: "wf_ga (w_alloc w)" and end_eq: "unat (w_fb_ptr w) + 24 * length (w_fb w) = unat (ga_offset (w_alloc w))"
    and n: "n \<le> length (w_fb w)"
  shows "fb_resize n w = Inr (w\<lparr>w_alloc := (w_alloc w)\<lparr>ga_offset := w_fb_ptr w + 24 * of_nat n\<rparr>, w_fb := take n (w_fb w)\<rparr>)"
    and "unat (w_fb_ptr w + 24 * of_nat n) = unat (w_fb_ptr w) + 24 * n"
    and "wf_ga ((w_alloc w)\<lparr>ga_offset := w_fb_ptr w + 24 * of_nat n\<rparr>)"
proof -
  let ?l = "of_nat (length (w_fb w)) :: u64" and ?n = "of_nat n :: u64"
  have le: "unat (w_fb_ptr w) + 24 * length (w_fb w) \<le> 2 ^ 30" using end_eq wf_ga_bounds [OF wf] by simp
  then have len: "unat ?l = length (w_fb w)" and nn: "unat ?n = n" using n by (simp_all add: unat_of_nat_small)
  have mul: "unat (24 * ?n) = 24 * n" using nn n le by (subst unat_mult_lem [THEN iffD1]) simp_all
  show un: "unat (w_fb_ptr w + 24 * ?n) = unat (w_fb_ptr w) + 24 * n"
    using mul n le by (subst unat_add_no_wrap) simp_all
  show "wf_ga ((w_alloc w)\<lparr>ga_offset := w_fb_ptr w + 24 * ?n\<rparr>)"
    using wf un end_eq n by (simp add: wf_ga_def word_le_nat_alt)
  have "ga_reclaim sizeof_opcode (w_fb_ptr w + sizeof_opcode * ?n) (?l - ?n) (w_alloc w)
      = Inr ((w_alloc w)\<lparr>ga_offset := w_fb_ptr w + sizeof_opcode * ?n\<rparr>)"
    by (rule ga_reclaim_tail [OF wf]) (use end_eq n len nn in \<open>simp_all add: sizeof_opcode_def\<close>)
  with n show "fb_resize n w = Inr (w\<lparr>w_alloc := (w_alloc w)\<lparr>ga_offset := w_fb_ptr w + 24 * of_nat n\<rparr>, w_fb := take n (w_fb w)\<rparr>)"
    by (simp add: fb_resize_def sizeof_opcode_def)
qed

text \<open>Cutting the buffer and overwriting its last slot by an instruction without branches keeps the rest.\<close>

lemma code_addrs_finish:
  assumes "n < length fb" and "\<And>i. addrs_of i op = {}"
  shows "a \<in> code_addrs ((take (Suc n) fb)[n := op]) \<Longrightarrow>
    a \<in> code_addrs fb \<and> target_at ((take (Suc n) fb)[n := op]) a = target_at fb a"
proof -
  assume "a \<in> code_addrs ((take (Suc n) fb)[n := op])"
  then obtain i where i: "i < Suc n" "i < length fb" "a \<in> addrs_of i ((take (Suc n) fb)[n := op] ! i)"
    by (auto simp: code_addrs_def)
  then have "i \<noteq> n" using assms by auto
  with i have a: "a \<in> addrs_of i (fb ! i)" "(take (Suc n) fb)[n := op] ! i = fb ! i" by auto
  then have "target_at ((take (Suc n) fb)[n := op]) a = target_at fb a"
    by (cases a) (auto simp: target_at_def dest: addrs_of_slot)
  with a(1) i(2) show ?thesis by (auto simp: code_addrs_def)
qed

lemma resolved_within:
  assumes "branches_ok {} w" and "w_op_index w < length (w_fb w)" and "w_base_offset w + length (w_fb w) < 2 ^ 32"
    and "\<And>i. addrs_of i op = {}"
  shows "branches_within (w_base_offset w) ((take (Suc (w_op_index w)) (w_fb w))[w_op_index w := op])"
proof -
  have "w_base_offset w \<le> unat (target_at (w_fb w) a) \<and> unat (target_at (w_fb w) a) < w_base_offset w + Suc (w_op_index w)"
    if "a \<in> code_addrs (w_fb w)" for a
  proof -
    from assms(1) that obtain t where "t \<le> w_op_index w" "target_at (w_fb w) a = of_nat (w_base_offset w + t)"
      by (auto simp: branches_ok_def resolved_def)
    moreover from this assms(2,3) have "unat (target_at (w_fb w) a) = w_base_offset w + t"
      by (simp only:) (rule unat_of_nat_small, simp)
    ultimately show ?thesis by simp
  qed
  then show ?thesis
    using assms(2) code_addrs_finish [OF assms(2,4)] by (fastforce simp: branches_within_def min_def)
qed

text \<open>\<open>emit_epilogue\<close> and \<open>finalize\<close> never fail after a parsed body, and never move the code.\<close>

lemma finish_function:
  fixes w :: bitcode_writer
  assumes wf: "wf_ga (w_alloc w)" and end_eq: "unat (w_fb_ptr w) + 24 * length (w_fb w) = unat (ga_offset (w_alloc w))"
    and room: "w_op_index w < length (w_fb w)"
  obtains w3 w4 ret where "emit_epilogue ft locals w = Inr w3"
    and "w_finalize body w3 = Inr (body\<lparr>fb_code := unat (w_fb_ptr w), fb_size := of_nat (Suc (w_op_index w)),
            fb_stack_size := w_stack_usage w\<rparr>, w4)"
    and "\<And>i. addrs_of i ret = {}"
    and "ret = Return_t (sum_locals locals + of_nat (length (param_types ft))) (ucast (return_count ft)) (w_stack_usage w)"
    and "w_segment w4 = w_segment w @ (take (Suc (w_op_index w)) (w_fb w))[w_op_index w := ret]"
    and "w_base_offset w4 = w_base_offset w + Suc (w_op_index w)"
    and "wf_ga (w_alloc w4)" and "unat (ga_offset (w_alloc w4)) = unat (w_fb_ptr w) + 24 * Suc (w_op_index w)"
proof -
  let ?n = "Suc (w_op_index w)"
  let ?ret = "Return_t (sum_locals locals + of_nat (length (param_types ft))) (ucast (return_count ft)) (w_stack_usage w)"
  have le: "?n \<le> length (w_fb w)" using room by simp
  note sh = fb_resize_shrink [OF wf end_eq le]
  define w3 where "w3 = w\<lparr>w_alloc := (w_alloc w)\<lparr>ga_offset := w_fb_ptr w + 24 * of_nat ?n\<rparr>,
    w_fb := (take ?n (w_fb w))[w_op_index w := ?ret]\<rparr>"
  have w3: "emit_epilogue ft locals w = Inr w3"
    using sh(1) by (simp add: emit_epilogue_def fb_set_def w3_def min.absorb2 [OF le] assertE_def)
  let ?w = "w3\<lparr>w_op_index := ?n\<rparr>"
  have wf3: "wf_ga (w_alloc ?w)" "unat (w_fb_ptr ?w) + 24 * length (w_fb ?w) = unat (ga_offset (w_alloc ?w))"
    using sh(2,3) le by (simp_all add: w3_def min_def)
  note sh3 = fb_resize_shrink [OF wf3, of ?n]
  have l3: "length (w_fb w3) = ?n" using le by (simp add: w3_def)
  have sz: "unat (of_nat ?n :: u32) = ?n"
    using le end_eq wf_ga_bounds [OF wf] by (intro unat_of_nat_small) simp
  define w4 where "w4 = ?w\<lparr>w_alloc := (w_alloc w3)\<lparr>ga_offset := w_fb_ptr w3 + 24 * of_nat ?n\<rparr>,
    w_base_offset := w_base_offset w + ?n, w_segment := w_segment w @ w_fb w3\<rparr>"
  have "w_finalize body w3 = Inr (body\<lparr>fb_code := unat (w_fb_ptr w), fb_size := of_nat ?n, fb_stack_size := w_stack_usage w\<rparr>, w4)"
    using sh3(1) l3 sz by (simp add: w_finalize_def Let_def w4_def w3_def)
  moreover have "wf_ga (w_alloc w4)" "unat (ga_offset (w_alloc w4)) = unat (w_fb_ptr w) + 24 * ?n"
    using sh(2,3) by (simp_all add: w4_def w3_def)
  ultimately show ?thesis
    using that [OF w3, of w4 ?ret] by (simp add: w4_def w3_def)
qed

section \<open>The code section\<close>

text \<open>
  What the code section relies on: of the module, the conditions of \<open>wf_env\<close> and that a parameter list
  is not longer than its 32-bit count; of a body, that its locals are values and that its cursor is
  the one \<open>parse_function_body\<close> made.
\<close>

definition wf_types :: "vm_module \<Rightarrow> bool" where
  "wf_types m \<longleftrightarrow>
     (\<forall>ft \<in> set (m_types m). list_all is_value (param_types ft) \<and> length (param_types ft) < 2 ^ 32
        \<and> (return_count ft \<noteq> 0 \<longrightarrow> is_value (return_type ft)))
     \<and> (\<forall>gv \<in> set (m_globals m). is_value (content_type gv))
     \<and> (\<forall>i. get_function_type m i \<noteq> Inl Undefined_behaviour)"

definition body_ready :: "vm_module \<Rightarrow> nat \<Rightarrow> gptr \<Rightarrow> bool" where
  "body_ready m i code \<longleftrightarrow> i < length (m_code m) \<and> list_all (\<lambda>l. is_value (le_type l)) (fb_locals (m_code m ! i))
     \<and> wf_gptr code \<and> gp_offset code = 0 \<and> gp_bounds code = unat (fb_size (m_code m ! i))"

lemma locals_no_ub: "mk_local_types ft locals \<noteq> Inl Undefined_behaviour"
proof -
  have "lt_boundaries_from c ls \<noteq> Inl Undefined_behaviour" for c ls
    by (induction ls arbitrary: c) (auto simp: assertE_eq_Inl_iff bindE_eq_Inl_iff)
  then show ?thesis by (simp add: mk_local_types_def bindE_eq_Inl_iff)
qed

lemma emit_prologue_no_ub: "emit_prologue n w \<noteq> Inl Undefined_behaviour"
  by (auto simp: emit_prologue_def fb_new_def ga_alloc_def bindE_eq_Inl_iff assertE_eq_Inl_iff Let_def)

lemma wf_env_of_function:
  assumes wf: "wf_types m" and al: "length aliases = length (m_types m)" and ft: "ft \<in> set (m_types m)"
    and lt: "mk_local_types ft locals = Inr lt" and ls: "list_all (\<lambda>l. is_value (le_type l)) locals"
  shows "wf_env \<lparr>pv_opt = opt, pv_mod = m, pv_type_aliases = aliases, pv_datacount = dc, pv_bounds = n, pv_local_types = lt\<rparr>"
proof -
  have "list_all is_value (param_types ft @ expand_locals locals)"
    using wf ft ls by (auto simp: wf_types_def expand_locals_def list_all_iff)
  moreover have "length (param_types ft) < 2 ^ 32" using wf ft by (auto simp: wf_types_def)
  ultimately have "lt_get lt i \<noteq> Inl Undefined_behaviour" "lt_get lt i = Inr ty \<longrightarrow> is_value ty" for i ty
    using lt_get_exact [OF lt, of i] by (auto simp: list_all_length)
  with wf al show ?thesis by (simp add: wf_env_def wf_types_def)
qed

text \<open>One function: what it adds to the segment and to the module.\<close>

definition function_laid :: "nat \<Rightarrow> nat \<Rightarrow> function_body \<Rightarrow> opcode list \<Rightarrow> bool" where
  "function_laid first lo fb code \<longleftrightarrow> fb_code fb = first + 24 * lo \<and> unat (fb_size fb) = length code
     \<and> code \<noteq> [] \<and> (\<exists>n r u. last code = Return_t n r u) \<and> branches_within lo code"

lemma finished_function:
  fixes w :: bitcode_writer
  assumes at: "writer_at first w" and pro: "emit_prologue (fb_size fb) w = Inr w1"
    and bd: "body_done e w1 w2" and n: "pv_bounds e = unat (fb_size fb)"
  shows "\<exists>w3 fb' w4 ops. emit_epilogue ft locals w2 = Inr w3 \<and> w_finalize fb w3 = Inr (fb', w4)
      \<and> w_segment w4 = w_segment w @ ops \<and> function_laid first (w_base_offset w) fb' ops \<and> writer_at first w4"
proof -
  note p = writer_at_prologue [OF at pro]
  have w2: "w_op_index w2 < length (w_fb w2)" "wf_ga (w_alloc w2)" "branches_ok {} w2"
      "unat (w_fb_ptr w2) + 24 * length (w_fb w2) = unat (ga_offset (w_alloc w2))"
      "w_base_offset w2 = w_base_offset w" "w_segment w2 = w_segment w" "unat (w_fb_ptr w2) = first + 24 * w_base_offset w"
    using bd n p by (auto simp: body_done_def)
  let ?n = "Suc (w_op_index w2)"
  have small: "w_base_offset w2 + length (w_fb w2) < 2 ^ 32" using w2 wf_ga_bounds [OF w2(2)] by simp
  have sz: "unat (of_nat ?n :: u32) = ?n" using w2(1) small by (intro unat_of_nat_small) simp
  obtain w3 w4 ret where f: "emit_epilogue ft locals w2 = Inr w3"
    "w_finalize fb w3 = Inr (fb\<lparr>fb_code := unat (w_fb_ptr w2), fb_size := of_nat ?n, fb_stack_size := w_stack_usage w2\<rparr>, w4)"
    and ret: "\<And>i. addrs_of i ret = {}"
      "ret = Return_t (sum_locals locals + of_nat (length (param_types ft))) (ucast (return_count ft)) (w_stack_usage w2)"
    and w4: "w_segment w4 = w_segment w2 @ (take ?n (w_fb w2))[w_op_index w2 := ret]"
    "w_base_offset w4 = w_base_offset w2 + ?n" "wf_ga (w_alloc w4)"
    "unat (ga_offset (w_alloc w4)) = unat (w_fb_ptr w2) + 24 * ?n"
    using finish_function [OF w2(2,4,1)] by blast
  let ?ops = "(take ?n (w_fb w2))[w_op_index w2 := ret]"
  have len: "length ?ops = ?n" "?ops \<noteq> []" "last ?ops = ret"
    using w2(1) by (auto simp: take_Suc_conv_app_nth list_update_append)
  have "branches_within (w_base_offset w) ?ops" using resolved_within [OF w2(3,1) small ret(1)] w2(5) by simp
  then have "function_laid first (w_base_offset w)
      (fb\<lparr>fb_code := unat (w_fb_ptr w2), fb_size := of_nat ?n, fb_stack_size := w_stack_usage w2\<rparr>) ?ops"
    using len sz w2(7) ret(2) by (simp add: function_laid_def)
  moreover have "writer_at first w4"
    using at w4 w2 len(1) by (simp add: writer_at_def)
  ultimately show ?thesis using f w4(1) w2(6) by auto
qed

lemma write_function_steps:
  assumes wf: "wf_types m" and al: "length aliases = length (m_types m)" and body: "body_ready m i code"
    and at: "writer_at first w"
  shows "write_function opt aliases dc i code lb (m, nested, w) \<noteq> Inl Undefined_behaviour"
    and "write_function opt aliases dc i code lb (m, nested, w) = Inr (m', nested', w') \<Longrightarrow>
      \<exists>fb' ops ms. m' = m\<lparr>m_maximum_stack := ms, m_code := (m_code m)[i := fb']\<rparr> \<and> w_segment w' = w_segment w @ ops
        \<and> function_laid first (w_base_offset w) fb' ops \<and> writer_at first w'"
proof -
  have i: "i < length (m_code m)" using body by (simp add: body_ready_def)
  define fb where "fb = m_code m ! i"
  let ?env = "\<lambda>lt. \<lparr>pv_opt = opt, pv_mod = m, pv_type_aliases = aliases, pv_datacount = dc,
                pv_bounds = unat (fb_size fb), pv_local_types = lt\<rparr>"
  have steps: "parse_function_body_code (?env lt) ft code lb nested ms w1 \<noteq> Inl Undefined_behaviour"
    "parse_function_body_code (?env lt) ft code lb nested ms w1 = Inr (code', w2, nested', ms') \<Longrightarrow> body_done (?env lt) w1 w2"
    if "at_checked (m_types m) (unat ty) = Inr ft" "mk_local_types ft (fb_locals fb) = Inr lt" "emit_prologue (fb_size fb) w = Inr w1"
    for ft lt w1 code' w2 nested' ms' ms and ty :: u32
  proof -
    have ft: "ft \<in> set (m_types m)" using that(1) by (auto simp: at_checked_def split: if_splits)
    have env: "wf_env (?env lt)"
      by (rule wf_env_of_function [OF wf al ft that(2)]) (use body in \<open>simp add: body_ready_def fb_def\<close>)
    have fresh: "fresh_body (?env lt) code" using body by (simp add: body_ready_def fresh_body_def fb_def)
    have w1: "fresh_writer w1"
      using writer_at_prologue(2,3) [OF at that(3)] by (auto simp: fresh_writer_def code_addrs_def)
    note st = parse_function_body_code_steps [OF env fresh _ w1, of ft]
    from st ft show "parse_function_body_code (?env lt) ft code lb nested ms w1 \<noteq> Inl Undefined_behaviour"
      "parse_function_body_code (?env lt) ft code lb nested ms w1 = Inr (code', w2, nested', ms') \<Longrightarrow> body_done (?env lt) w1 w2"
      by simp_all
  qed
  have finish: "\<exists>w3 fb' w4 ops. emit_epilogue ft (fb_locals fb) w2 = Inr w3 \<and> w_finalize fb w3 = Inr (fb', w4)
      \<and> w_segment w4 = w_segment w @ ops \<and> function_laid first (w_base_offset w) fb' ops \<and> writer_at first w4"
    if pro: "emit_prologue (fb_size fb) w = Inr w1" and bd: "body_done (?env lt) w1 w2" for ft lt w1 w2
    by (rule finished_function [OF at pro bd]) simp
  show "write_function opt aliases dc i code lb (m, nested, w) \<noteq> Inl Undefined_behaviour"
  proof -
    have "bindE (parse_function_body_code (?env lt) ft code lb nested ms w1) (\<lambda>(_, w2, nested', ms).
        bindE (emit_epilogue ft (fb_locals fb) w2) (\<lambda>w3. bindE (w_finalize fb w3) (\<lambda>(fb', w4).
          Inr (m\<lparr>m_maximum_stack := ms, m_code := (m_code m)[i := fb']\<rparr>, nested', w4)))) \<noteq> Inl Undefined_behaviour"
      if r: "at_checked (m_types m) (unat ty) = Inr ft" "mk_local_types ft (fb_locals fb) = Inr lt"
        "emit_prologue (fb_size fb) w = Inr w1" for ft lt w1 ms and ty :: u32
    proof (rule bindE_no_ub [OF steps(1) [OF r]], clarify)
      fix code' w2 nested' ms'
      assume b: "parse_function_body_code (?env lt) ft code lb nested ms w1 = Inr (code', w2, nested', ms')"
        and "bindE (emit_epilogue ft (fb_locals fb) w2) (\<lambda>w3. bindE (w_finalize fb w3) (\<lambda>(fb', w4).
          Inr (m\<lparr>m_maximum_stack := ms', m_code := (m_code m)[i := fb']\<rparr>, nested', w4))) = Inl Undefined_behaviour"
      with finish [OF r(3) steps(2) [OF r b], of ft] show False by auto
    qed
    note body = this
    have fb: "at_unchecked (m_code m) i = Inr fb" using i by (simp add: at_unchecked_def fb_def)
    show ?thesis
      unfolding write_function_def prod.case fb bindE_Inr Let_def
      by (rule bindE_no_ub [OF at_checked_no_ub], rule bindE_no_ub [OF at_checked_no_ub],
          rule bindE_no_ub [OF locals_no_ub], rule bindE_no_ub [OF emit_prologue_no_ub], rule body)
  qed
  assume "write_function opt aliases dc i code lb (m, nested, w) = Inr (m', nested', w')"
  then obtain ty :: u32 and ft lt w1 code' w2 ms' w3 fb' where r: "at_checked (m_types m) (unat ty) = Inr ft"
      "mk_local_types ft (fb_locals fb) = Inr lt" "emit_prologue (fb_size fb) w = Inr w1"
      and b: "parse_function_body_code (?env lt) ft code lb nested (m_maximum_stack m) w1 = Inr (code', w2, nested', ms')"
      and f: "emit_epilogue ft (fb_locals fb) w2 = Inr w3" "w_finalize fb w3 = Inr (fb', w')"
      and m': "m' = m\<lparr>m_maximum_stack := ms', m_code := (m_code m)[i := fb']\<rparr>"
    using i
    by (auto simp: write_function_def Let_def bindE_eq_Inr_iff at_unchecked_def fb_def)
  show "\<exists>fb' ops ms. m' = m\<lparr>m_maximum_stack := ms, m_code := (m_code m)[i := fb']\<rparr> \<and> w_segment w' = w_segment w @ ops
        \<and> function_laid first (w_base_offset w) fb' ops \<and> writer_at first w'"
    using finish [OF r(3) steps(2) [OF r b], of ft] f m' by auto
qed

fun code_laid :: "nat \<Rightarrow> nat \<Rightarrow> function_body list \<Rightarrow> opcode list \<Rightarrow> bool" where
  "code_laid first lo [] seg \<longleftrightarrow> seg = []"
| "code_laid first lo (fb # fbs) seg \<longleftrightarrow>
     (let n = unat (fb_size fb) in function_laid first lo fb (take n seg) \<and> code_laid first (lo + n) fbs (drop n seg))"

definition bodies_ready :: "vm_module \<Rightarrow> nat \<Rightarrow> (gptr \<times> local_bytes) list \<Rightarrow> bool" where
  "bodies_ready m i bodies \<longleftrightarrow> (\<forall>j < length bodies. body_ready m (i + j) (fst (bodies ! j)))"

lemma wf_types_update [simp]:
  "wf_types (m\<lparr>m_maximum_stack := ms, m_code := c\<rparr>) \<longleftrightarrow> wf_types m"
  "wf_types (m\<lparr>m_code := c\<rparr>) \<longleftrightarrow> wf_types m" "wf_types (m\<lparr>m_maximum_stack := ms\<rparr>) \<longleftrightarrow> wf_types m"
  by (simp_all add: wf_types_def get_function_type_def get_imported_functions_size_def)

lemma bodies_ready_Cons:
  assumes "bodies_ready m i ((code, lb) # bodies)"
  shows "body_ready m i code" and "bodies_ready (m\<lparr>m_maximum_stack := ms, m_code := (m_code m)[i := fb]\<rparr>) (Suc i) bodies"
proof -
  have all: "body_ready m (i + j) (fst (((code, lb) # bodies) ! j))" if "j < Suc (length bodies)" for j
    using assms that by (simp add: bodies_ready_def)
  from all [of 0] show "body_ready m i code" by simp
  have "body_ready m (Suc i + j) (fst (bodies ! j))" if "j < length bodies" for j
    using all [of "Suc j"] that by simp
  then show "bodies_ready (m\<lparr>m_maximum_stack := ms, m_code := (m_code m)[i := fb]\<rparr>) (Suc i) bodies"
    by (simp add: bodies_ready_def body_ready_def)
qed

lemma write_functions_steps:
  assumes "wf_types m" and "length aliases = length (m_types m)" and "bodies_ready m i bodies" and "writer_at first w"
  shows "write_functions opt aliases dc i bodies (m, nested, w) \<noteq> Inl Undefined_behaviour"
    and "write_functions opt aliases dc i bodies (m, nested, w) = Inr (m', nested', w') \<Longrightarrow>
      \<exists>ms c ops. m' = m\<lparr>m_maximum_stack := ms, m_code := c\<rparr> \<and> length c = length (m_code m) \<and> take i c = take i (m_code m)
        \<and> w_segment w' = w_segment w @ ops \<and> code_laid first (w_base_offset w) (take (length bodies) (drop i c)) ops
        \<and> writer_at first w'"
  using assms
proof (induction bodies arbitrary: i m nested w)
  case Nil
  { case 1 then show ?case by simp }
  { case 2 then show ?case by (intro exI [of _ "m_maximum_stack m"] exI [of _ "m_code m"] exI [of _ "[]"]) simp }
next
  case (Cons b bodies)
  obtain code lb where b: "b = (code, lb)" by (cases b)
  have step: "\<exists>fb' ops ms. m1 = m\<lparr>m_maximum_stack := ms, m_code := (m_code m)[i := fb']\<rparr> \<and> w_segment w1 = w_segment w @ ops
      \<and> function_laid first (w_base_offset w) fb' ops \<and> writer_at first w1 \<and> wf_types m1
      \<and> length aliases = length (m_types m1) \<and> bodies_ready m1 (Suc i) bodies \<and> i < length (m_code m)"
    if "write_function opt aliases dc i code lb (m, nested, w) = Inr (m1, nested1, w1)"
      "wf_types m" "length aliases = length (m_types m)" "bodies_ready m i (b # bodies)" "writer_at first w"
    for m i nested w m1 nested1 w1
    using write_function_steps(2) [OF that(2,3) bodies_ready_Cons(1) [OF that(4) [unfolded b]] that(5,1)]
      bodies_ready_Cons [OF that(4) [unfolded b]] that(2,3) by (auto simp: body_ready_def)
  { case 1
    have ub: "write_function opt aliases dc i code lb (m, nested, w) \<noteq> Inl Undefined_behaviour"
      using write_function_steps(1) [OF 1(1,2) _ 1(4)] bodies_ready_Cons(1) 1(3) b by blast
    have "write_functions opt aliases dc (Suc i) bodies (m1, nested1, w1) \<noteq> Inl Undefined_behaviour"
      if "write_function opt aliases dc i code lb (m, nested, w) = Inr (m1, nested1, w1)" for m1 nested1 w1
      using step [OF that 1] Cons.IH(1) by blast
    with ub show ?case by (auto simp: b bindE_eq_Inl_iff) }
  { case 2
    from 2(1) obtain m1 nested1 w1 where w1: "write_function opt aliases dc i code lb (m, nested, w) = Inr (m1, nested1, w1)"
      and rest: "write_functions opt aliases dc (Suc i) bodies (m1, nested1, w1) = Inr (m', nested', w')"
      by (auto simp: b res_simps)
    from step [OF w1 2(2-)] obtain fb' ops ms where m1: "m1 = m\<lparr>m_maximum_stack := ms, m_code := (m_code m)[i := fb']\<rparr>"
      and ops: "w_segment w1 = w_segment w @ ops" and f: "function_laid first (w_base_offset w) fb' ops"
      and at: "writer_at first w1" and ready: "wf_types m1" "length aliases = length (m_types m1)" "bodies_ready m1 (Suc i) bodies"
      and i: "i < length (m_code m)" by blast
    from Cons.IH(2) [OF rest ready at] obtain ms' c ops' where
      m': "m' = m1\<lparr>m_maximum_stack := ms', m_code := c\<rparr>" "length c = length (m_code m1)"
        "take (Suc i) c = take (Suc i) (m_code m1)" "w_segment w' = w_segment w1 @ ops'"
      and laid: "code_laid first (w_base_offset w1) (take (length bodies) (drop (Suc i) c)) ops'"
      and at': "writer_at first w'" by blast
    have len: "length c = length (m_code m)" using m'(2) m1 by simp
    have "c ! i = take (Suc i) c ! i" by simp
    then have ci: "c ! i = fb'" using m'(3) i by (simp add: m1)
    have "take i c = take i (take (Suc i) c)" by (simp add: min_def)
    then have tk: "take i c = take i (m_code m)" using m'(3) by (simp add: m1 min_def)
    have "w_base_offset w1 = w_base_offset w + length ops"
      using at 2(5) ops by (simp add: writer_at_def)
    then have "code_laid first (w_base_offset w) (take (Suc (length bodies)) (drop i c)) (ops @ ops')"
      using f laid i len ci by (simp add: function_laid_def flip: Cons_nth_drop_Suc)
    then show ?case
      using m' m1 len tk ops at' by (intro exI [of _ ms'] exI [of _ c] exI [of _ "ops @ ops'"]) simp }
qed

text \<open>The page size divides the size of the mapping, as \<open>mmap\<close> requires.\<close>

definition page_ok :: "u64 \<Rightarrow> growable_allocator \<Rightarrow> bool" where
  "page_ok pagesize g \<longleftrightarrow> wf_ga g \<and> (\<exists>k. 3 \<le> k \<and> k < 31 \<and> pagesize = 2 ^ k) \<and> unat pagesize dvd unat (ga_capacity g)"

lemma ga_start_code_wf:
  assumes "page_ok pagesize g"
  shows "wf_ga (snd (ga_start_code pagesize g))" and "8 dvd unat (ga_offset (snd (ga_start_code pagesize g)))"
proof -
  from assms obtain k where k: "3 \<le> k" "k < 31" "pagesize = 2 ^ k" by (auto simp: page_ok_def)
  have lay: "layout 1 pagesize" using k by (auto simp: layout_def)
  have wf: "wf_ga g" using assms by (simp add: page_ok_def)
  have off: "unat (align_to_page pagesize (ga_offset g)) = round_up (unat pagesize) (unat (ga_offset g))"
    using layout_align(1) [OF lay wf] by (simp add: align_to_page_def align_offset_def)
  have "unat pagesize = 2 ^ k" using k by (simp add: unat_two_power)
  then have "8 dvd unat pagesize" using k(1) le_imp_power_dvd [of 3 k "2 :: nat"] by simp
  then show "8 dvd unat (ga_offset (snd (ga_start_code pagesize g)))"
    using off dvd_trans [OF _ round_up_dvd] by (simp add: ga_start_code_def Let_def)
  have "round_up (unat pagesize) (unat (ga_offset g)) \<le> unat (ga_capacity g)"
    using layout_align(2) [OF lay wf] wf_ga_bounds(1) [OF wf] assms by (simp add: page_ok_def round_up_le_multiple)
  then show "wf_ga (snd (ga_start_code pagesize g))"
    using off wf by (simp add: ga_start_code_def Let_def wf_ga_def word_le_nat_alt)
qed

lemma writer_at_new:
  assumes "page_ok pagesize g" and "w_new pagesize g n = Inr w"
  shows "\<exists>first. writer_at first w" and "w_base_offset w = 0" and "w_segment w = []"
proof -
  let ?g = "snd (ga_start_code pagesize g)"
  obtain p g' where a: "ga_alloc sizeof_opcode alignof_opcode n ?g = Inr (p, g')"
    and w: "w_alloc w = g'" "w_base_offset w = 0" "w_segment w = []"
    using assms(2) by (auto simp: w_new_def fb_new_def res_simps split: prod.splits)
  note al = ga_alloc_Inr [OF ga_start_code_wf(1) [OF assms(1)] opcode_layout(1) a]
  have "8 dvd unat (ga_offset g')"
    using al(1,3) ga_start_code_wf(2) [OF assms(1)] by (simp add: opcode_layout round_up_multiple)
  then have "writer_at (unat (ga_offset g')) w" using al(5) w by (simp add: writer_at_def)
  then show "\<exists>first. writer_at first w" by blast
qed (use assms(2) in \<open>auto simp: w_new_def fb_new_def res_simps split: prod.splits\<close>)

lemma w_new_no_ub: "w_new pagesize g n \<noteq> Inl Undefined_behaviour"
  by (auto simp: w_new_def fb_new_def ga_alloc_def bindE_eq_Inl_iff assertE_eq_Inl_iff Let_def split: prod.splits)

lemma write_code_out_steps:
  assumes wf: "wf_types m" and al: "length aliases = length (m_types m)" and ready: "bodies_ready m 0 bodies"
    and page: "page_ok pagesize alloc"
  shows "write_code_out pagesize opt aliases dc bodies code (m, nested, alloc) \<noteq> Inl Undefined_behaviour"
    and "write_code_out pagesize opt aliases dc bodies code (m, nested, alloc) = Inr (m', nested', alloc', seg) \<Longrightarrow>
      length bodies = length (m_code m) \<Longrightarrow> \<exists>first. code_laid first 0 (m_code m') seg"
proof -
  have new: "\<exists>first. writer_at first w \<and> w_base_offset w = 0 \<and> w_segment w = []" if "w_new pagesize alloc n = Inr w" for n w
    using writer_at_new [OF page that] by blast
  show "write_code_out pagesize opt aliases dc bodies code (m, nested, alloc) \<noteq> Inl Undefined_behaviour"
    using new w_new_no_ub write_functions_steps(1) [OF wf al ready]
    by (fastforce simp: write_code_out_def bindE_eq_Inl_iff)
  assume "write_code_out pagesize opt aliases dc bodies code (m, nested, alloc) = Inr (m', nested', alloc', seg)"
    and len: "length bodies = length (m_code m)"
  then obtain w w' where w: "w_new pagesize alloc (of_nat (gp_bounds code - gp_offset code)) = Inr w"
    and ws: "write_functions opt aliases dc 0 bodies (m, nested, w) = Inr (m', nested', w')" and seg: "seg = w_segment w'"
    by (auto simp: write_code_out_def res_simps)
  from new [OF w] obtain first where "writer_at first w" "w_base_offset w = 0" "w_segment w = []" by blast
  with write_functions_steps(2) [OF wf al ready _ ws] len seg show "\<exists>first. code_laid first 0 (m_code m') seg" by force
qed

section \<open>Fuel\<close>

lemma parse_code_fuel:
  assumes wf: "wf_env e"
  shows "instr_post e p0 s \<Longrightarrow> pv_bounds e \<le> gp_offset (ps_code s) + n \<Longrightarrow> parse_code (n + k) e s = parse_code n e s"
proof (induction n arbitrary: s)
  case 0
  then show ?case by (cases k) simp_all
next
  case (Suc n)
  have "parse_code (n + k) e s1 = parse_code n e s1"
    if lt: "gp_offset (ps_code s) < pv_bounds e" and r: "parse_instr e s = Inr (y, s1)" for y s1
  proof -
    obtain pc where c: "ctl p0 0 {} pc s" "open_or_tolerant e pc"
      using Suc.prems(1) lt by (auto simp: instr_post_def)
    then have "wf_gptr (ps_code s)" by (simp add: ctl_def st_ok_def)
    with parse_instr_step(2) [OF wf c r] Suc.prems(2) gp_moved_offset [of 1 "ps_code s" "ps_code s1"]
    show ?thesis by (intro Suc.IH) auto
  qed
  then show ?case by (auto intro!: bindE_cong)
qed

section \<open>A concrete module\<close>

text \<open>One function of type \<open>() -> ()\<close> with the body \<open>block br 0 end end\<close>, and a mapping of one megabyte.\<close>

definition ex_type :: func_type where
  "ex_type = \<lparr>form = 0x60, param_types = [], return_count = 0, return_type = 0\<rparr>"

definition ex_module :: vm_module where
  "ex_module = empty_module\<lparr>m_types := [ex_type], m_functions := [0],
     m_code := [\<lparr>fb_size = 6, fb_locals = [], fb_code = 0, fb_stack_size = 0\<rparr>]\<rparr>"

definition ex_bodies :: "(gptr \<times> local_bytes) list" where
  "ex_bodies = [(mk_gptr [0x02, 0x40, 0x0C, 0x00, 0x0B, 0x0B] 0 6, \<lparr>lb_count = 0, unreachable_depth = 0\<rparr>)]"

definition ex_alloc :: growable_allocator where
  "ex_alloc = ga_empty\<lparr>ga_mapped := True, ga_capacity := 1048576\<rparr>"

lemma ex_ready:
  "wf_types ex_module" "length [0 :: u32] = length (m_types ex_module)" "bodies_ready ex_module 0 ex_bodies" "page_ok 4096 ex_alloc"
proof -
  show "wf_types ex_module"
    by (auto simp: ex_module_def ex_type_def empty_module_def wf_types_def get_function_type_def get_imported_functions_size_def
        bindE_eq_Inl_iff)
  show "bodies_ready ex_module 0 ex_bodies"
    by (simp add: ex_module_def ex_bodies_def bodies_ready_def body_ready_def mk_gptr_def wf_gptr_def gp_offset_def gp_bounds_def)
  show "page_ok 4096 ex_alloc"
    by (auto simp: page_ok_def ex_alloc_def ga_empty_def wf_ga_def max_memory_size_def intro: exI [of _ 12])
qed (simp add: ex_module_def)


text \<open>Its compilation, instruction by instruction.\<close>

lemma parse_code_step:
  assumes "gp_next (ps_code s) = Inr (b, q)" and "parse_op b = m" and "gp_offset (ps_code s) < pv_bounds e"
    and "length (ps_pc s) \<le> unat (max_nested_structures (pv_opt e))"
    and "m e (s\<lparr>ps_code := q\<rparr>) = Inr ((), s')"
  shows "parse_code (Suc n) e s = parse_code n e s'"
  using assms by (simp add: parse_instr_def pm_defs readM_def)

lemma parse_op_control:
  "parse_op 0x0B = parse_end" "parse_op 0x02 = parse_block" "parse_op 0x0C = parse_br"
  by (simp_all add: parse_op_def)

definition ex_env :: parse_env where
  "ex_env = \<lparr>pv_opt = default_options, pv_mod = ex_module, pv_type_aliases = [0], pv_datacount = None, pv_bounds = 6,
     pv_local_types = \<lparr>lt_params = [], lt_locals = [], lt_boundaries = [0]\<rparr>\<rparr>"

definition ex_writer :: "opcode list \<Rightarrow> bitcode_writer" where
  "ex_writer fb = \<lparr>w_alloc = ex_alloc\<lparr>ga_offset := 144, ga_largest_offset := 144\<rparr>, w_code_segment_base = 0,
     w_op_index = length fb, w_fb = fb @ replicate (6 - length fb) Reserved, w_fb_ptr = 0, w_base_offset = 0,
     w_stack_usage = 1, w_segment = []\<rparr>"

definition ex_state :: "nat \<Rightarrow> u8 list \<Rightarrow> pc_element list \<Rightarrow> opcode list \<Rightarrow> parse_state" where
  "ex_state i t pc fb = \<lparr>ps_code = (fst (hd ex_bodies))\<lparr>raw_ptr := i\<rparr>,
     ps_stack = \<lparr>tk_state = t, operand_depth = 0, maximum_operand_depth = 0, tk_lb = snd (hd ex_bodies), stack_usage_max = 0\<rparr>,
     ps_pc = pc, ps_writer = ex_writer fb, ps_nested = 0\<rparr>"

definition ex_pe :: "br_addr list \<Rightarrow> pc_element" where
  "ex_pe rs = \<lparr>pe_operand_depth = 0, pe_expected_result = t_pseudo, pe_label_result = t_pseudo, pe_is_if = False,
     pe_relocations = Branches rs\<rparr>"

lemma ex_state_step:
  assumes "gp_next ((fst (hd ex_bodies))\<lparr>raw_ptr := i\<rparr>) = Inr (b, (fst (hd ex_bodies))\<lparr>raw_ptr := Suc i\<rparr>)"
    and "parse_op b = m" and "i < 6" and "length pc \<le> 2" and "m ex_env (ex_state (Suc i) t pc fb) = Inr ((), s')"
  shows "parse_code (Suc n) ex_env (ex_state i t pc fb) = parse_code n ex_env s'"
proof (rule parse_code_step [OF _ assms(2)])
  show "m ex_env ((ex_state i t pc fb)\<lparr>ps_code := (fst (hd ex_bodies))\<lparr>raw_ptr := Suc i\<rparr>\<rparr>) = Inr ((), s')"
    using assms(5) by (simp add: ex_state_def)
qed (use assms in \<open>simp_all add: ex_state_def ex_env_def ex_bodies_def mk_gptr_def gp_offset_def default_options_def\<close>)

lemma ex_parse_code:
  "parse_code 6 ex_env (ex_state 0 [scope_tag] [ex_pe []] []) = Inr ((), ex_state 6 [] [] [Br_t 0 1])"
proof -
  have "parse_code (Suc (Suc (Suc (Suc 2)))) ex_env (ex_state 0 [scope_tag] [ex_pe []] [])
      = parse_code (Suc (Suc (Suc 2))) ex_env (ex_state 2 [scope_tag, scope_tag] [ex_pe [], ex_pe []] [])"
    by (rule ex_state_step [OF _ parse_op_control(2)]) code_simp+
  also have "\<dots> = parse_code (Suc (Suc 2)) ex_env
      (ex_state 4 [unreachable_tag, scope_tag, scope_tag] [ex_pe [Pc_of 0], ex_pe []] [Br_t 0 0])"
    by (rule ex_state_step [OF _ parse_op_control(3)]) code_simp+
  also have "\<dots> = parse_code (Suc 2) ex_env (ex_state 5 [scope_tag] [ex_pe []] [Br_t 0 1])"
    by (rule ex_state_step [OF _ parse_op_control(1)]) code_simp+
  also have "\<dots> = parse_code 2 ex_env (ex_state 6 [] [] [Br_t 0 1])"
    by (rule ex_state_step [OF _ parse_op_control(1)]) code_simp+
  also have "\<dots> = Inr ((), ex_state 6 [] [] [Br_t 0 1])"
    by (simp add: numeral_2_eq_2 ex_state_def ex_env_def ex_bodies_def mk_gptr_def gp_offset_def)
  finally show ?thesis by simp
qed

lemma ex_body:
  "parse_function_body_code ex_env ex_type (fst (hd ex_bodies)) (snd (hd ex_bodies)) 0 0 (ex_writer []) =
     Inr ((fst (hd ex_bodies))\<lparr>raw_ptr := 6\<rparr>, ex_writer [Br_t 0 1], 0, 0)"
proof -
  have start: "\<lparr>ps_code = fst (hd ex_bodies), ps_stack = tk_init (pv_opt ex_env) (snd (hd ex_bodies)),
      ps_pc = [function_pc_element ex_type (tk_init (pv_opt ex_env) (snd (hd ex_bodies)))], ps_writer = ex_writer [], ps_nested = 0\<rparr>
      = ex_state 0 [scope_tag] [ex_pe []] []"
    by code_simp
  have env: "pv_bounds ex_env = 6" "max_stack_bytes (pv_opt ex_env) = None" "locals_count (pv_local_types ex_env) = 0"
    by code_simp+
  show ?thesis
    unfolding parse_function_body_code_def Let_def start env ex_parse_code by (simp add: ex_state_def)
qed

lemma ex_compiled:
  "write_code_out 4096 default_options [0] None ex_bodies (mk_gptr [] 0 0) (ex_module, 0, ex_alloc) =
     Inr (ex_module\<lparr>m_code := [\<lparr>fb_size = 2, fb_locals = [], fb_code = 0, fb_stack_size = 1\<rparr>]\<rparr>, 0,
       ex_alloc\<lparr>ga_offset := 4096, ga_largest_offset := 144, ga_code_size := 4096\<rparr>, [Br_t 0 1, Return_t 0 0 1])"
proof -
  let ?w = "(ex_writer [])\<lparr>w_alloc := ex_alloc, w_fb := []\<rparr>"
  have new: "w_new 4096 ex_alloc 0 = Inr ?w" by code_simp
  have pro: "emit_prologue 6 ?w = Inr (ex_writer [])" by code_simp
  have lt: "mk_local_types ex_type [] = Inr (pv_local_types ex_env)" by code_simp
  let ?w3 = "(ex_writer [Br_t 0 1])\<lparr>w_alloc := ex_alloc\<lparr>ga_offset := 48, ga_largest_offset := 144\<rparr>, w_fb := [Br_t 0 1, Return_t 0 0 1]\<rparr>"
  have epi: "emit_epilogue ex_type [] (ex_writer [Br_t 0 1]) = Inr ?w3" by code_simp
  let ?fb = "\<lparr>fb_size = 6, fb_locals = [], fb_code = 0, fb_stack_size = 0\<rparr>"
  let ?w4 = "?w3\<lparr>w_op_index := 2, w_base_offset := 2, w_segment := [Br_t 0 1, Return_t 0 0 1]\<rparr>"
  have fin: "w_finalize ?fb ?w3 = Inr (\<lparr>fb_size = 2, fb_locals = [], fb_code = 0, fb_stack_size = 1\<rparr>, ?w4)" by code_simp
  have env: "\<lparr>pv_opt = default_options, pv_mod = ex_module, pv_type_aliases = [0], pv_datacount = None, pv_bounds = unat (6 :: u32),
     pv_local_types = pv_local_types ex_env\<rparr> = ex_env" by code_simp
  have m: "at_unchecked (m_code ex_module) 0 = Inr ?fb" "at_checked (m_functions ex_module) 0 = Inr 0"
    "at_checked (m_types ex_module) (unat (0 :: u32)) = Inr ex_type" "m_maximum_stack ex_module = 0" by code_simp+
  have upd: "ex_module\<lparr>m_maximum_stack := 0, m_code := (m_code ex_module)[0 := fb]\<rparr> = ex_module\<lparr>m_code := [fb]\<rparr>" for fb
    by (simp add: ex_module_def empty_module_def)
  have one: "write_function default_options [0] None 0 (fst (hd ex_bodies)) (snd (hd ex_bodies)) (ex_module, 0, ?w) =
    Inr (ex_module\<lparr>m_code := [\<lparr>fb_size = 2, fb_locals = [], fb_code = 0, fb_stack_size = 1\<rparr>]\<rparr>, 0, ?w4)"
    unfolding write_function_def prod.case m bindE_Inr function_body.simps lt pro Let_def env ex_body epi fin upd ..
  have "ex_bodies = [(fst (hd ex_bodies), snd (hd ex_bodies))]" by (simp add: ex_bodies_def)
  then have ws: "write_functions default_options [0] None 0 ex_bodies (ex_module, 0, ?w) =
    Inr (ex_module\<lparr>m_code := [\<lparr>fb_size = 2, fb_locals = [], fb_code = 0, fb_stack_size = 1\<rparr>]\<rparr>, 0, ?w4)"
    using one by (metis bindE_Inr write_functions.simps)
  have z: "of_nat (gp_bounds (mk_gptr [] 0 0) - gp_offset (mk_gptr [] 0 0)) = (0 :: u64)" by code_simp
  show ?thesis
    unfolding write_code_out_def prod.case z new bindE_Inr ws by code_simp
qed
section \<open>The main theorems\<close>

text \<open>
  C9: compiling the code section never runs into undefined behaviour.  For every list of function
  bodies, whatever bytes they hold, \<open>write_code_out\<close> either produces code or ends in one of its
  exceptions: no read behind the cursor's bounds, no \<open>pc_stack.back()\<close> or \<open>pc_stack[...]\<close> outside the
  control stack, no \<open>std::get\<close> of the wrong alternative, no write behind the code buffer, no lookup
  behind the tables of types and aliases.
\<close>

theorem write_code_out_no_ub:
  assumes "wf_types m" and "length aliases = length (m_types m)" and "bodies_ready m 0 bodies" and "page_ok pagesize alloc"
  shows "write_code_out pagesize opt aliases dc bodies code (m, nested, alloc) \<noteq> Inl Undefined_behaviour"
  by (rule write_code_out_steps(1) [OF assms])

theorem write_code_out_no_ub_witness:
  "write_code_out 4096 default_options [0] None ex_bodies (mk_gptr [] 0 0) (ex_module, 0, ex_alloc) \<noteq> Inl Undefined_behaviour"
  by (rule write_code_out_no_ub [OF ex_ready])

text \<open>
  C3: the code that comes out is well formed.  The functions lie one behind the other without a gap,
  so that slot \<open>k\<close> of the segment is at \<open>code[0].code + k\<close>; every function ends in a \<open>return\<close> and has
  the size recorded in its entry; and every branch, whether of \<open>if\<close>, \<open>else\<close>, \<open>br\<close>, \<open>br_if\<close>, \<open>return\<close> or an
  entry of a \<open>br_table\<close>, has been patched to a slot of its own function.
\<close>

theorem write_code_out_laid:
  assumes "wf_types m" and "length aliases = length (m_types m)" and "bodies_ready m 0 bodies" and "page_ok pagesize alloc"
    and "length bodies = length (m_code m)"
    and "write_code_out pagesize opt aliases dc bodies code (m, nested, alloc) = Inr (m', nested', alloc', seg)"
    and "m_code m' = fb0 # fbs"
  shows "code_laid (fb_code fb0) 0 (m_code m') seg"
proof -
  obtain first where laid: "code_laid first 0 (m_code m') seg"
    using write_code_out_steps(2) [OF assms(1-4,6,5)] by blast
  then have "fb_code fb0 = first" by (simp add: assms(7) function_laid_def Let_def)
  with laid show ?thesis by simp
qed

theorem write_code_out_laid_witness:
  "code_laid 0 0 [\<lparr>fb_size = 2, fb_locals = [], fb_code = 0, fb_stack_size = 1\<rparr>] [Br_t 0 1, Return_t 0 0 1]"
proof -
  have "length ex_bodies = length (m_code ex_module)" by (simp add: ex_bodies_def ex_module_def)
  from write_code_out_laid [OF ex_ready this ex_compiled, of "\<lparr>fb_size = 2, fb_locals = [], fb_code = 0, fb_stack_size = 1\<rparr>" "[]"]
  show ?thesis by simp
qed

text \<open>
  C10: the instruction loop of a function body ends.  Every instruction takes at least one byte from a
  cursor that never moves back, so once there are as many rounds as the body has bytes, further
  rounds change nothing: the bound in \<open>parse_function_body_code\<close> is the unbounded \<open>while\<close> of the code.
\<close>

theorem parse_code_terminates:
  assumes "wf_env e" and "fresh_body e code" and "ft \<in> set (m_types (pv_mod e))" and "fresh_writer w"
    and s: "s = \<lparr>ps_code = code, ps_stack = tk_init (pv_opt e) lb, ps_pc = [function_pc_element ft (tk_init (pv_opt e) lb)],
      ps_writer = w, ps_nested = nested\<rparr>"
  shows "parse_code (pv_bounds e + k) e s = parse_code (pv_bounds e) e s"
  unfolding s by (rule parse_code_fuel [OF assms(1) body_start [OF assms(1-4) refl]]) simp

theorem parse_code_terminates_witness:
  "parse_code (6 + 1000) ex_env \<lparr>ps_code = fst (hd ex_bodies), ps_stack = tk_init default_options (snd (hd ex_bodies)),
      ps_pc = [function_pc_element ex_type (tk_init default_options (snd (hd ex_bodies)))], ps_writer = ex_writer [], ps_nested = 0\<rparr>
   = Inr ((), ex_state 6 [] [] [Br_t 0 1])"
proof -
  have lt: "mk_local_types ex_type [] = Inr \<lparr>lt_params = [], lt_locals = [], lt_boundaries = [0]\<rparr>" by code_simp
  have "wf_env ex_env"
    unfolding ex_env_def by (rule wf_env_of_function [OF ex_ready(1,2) _ lt]) (simp_all add: ex_module_def)
  moreover have "fresh_body ex_env (fst (hd ex_bodies))" "fresh_writer (ex_writer [])"
    by (simp_all add: fresh_body_def fresh_writer_def ex_env_def ex_bodies_def ex_writer_def mk_gptr_def wf_gptr_def
        gp_offset_def gp_bounds_def code_addrs_def)
  moreover have "ex_type \<in> set (m_types (pv_mod ex_env))" by (simp add: ex_env_def ex_module_def)
  moreover have "pv_bounds ex_env = 6" "pv_opt ex_env = default_options" by (simp_all add: ex_env_def)
  moreover have "\<lparr>ps_code = fst (hd ex_bodies), ps_stack = tk_init default_options (snd (hd ex_bodies)),
      ps_pc = [function_pc_element ex_type (tk_init default_options (snd (hd ex_bodies)))], ps_writer = ex_writer [], ps_nested = 0\<rparr>
      = ex_state 0 [scope_tag] [ex_pe []] []" by code_simp
  ultimately show ?thesis
    using parse_code_terminates [of ex_env "fst (hd ex_bodies)" ex_type "ex_writer []" _ "snd (hd ex_bodies)" 0 1000] ex_parse_code
    by metis
qed

end
