(* ===== verification/Vm_Sections.thy ===== *)
theory Vm_Sections
  imports Vm_Code_Gen "HOL-Library.List_Lexorder"
begin

text \<open>
  The rest of \<open>binary_parser\<close> (\<^verbatim>\<open>parser.hpp\<close>): the entries of every section, the loop over sections with its
  order check, the alias table of function types, the check on export names, and \<open>parse_module\<close>.
  Parsers that only read the cursor are values of \<open>'a parser\<close>; the members of \<open>binary_parser\<close> that a
  section changes are the record \<open>bparser\<close>.  The debug-info builder is not modelled; the resizing of
  a vector to the announced element count is assumed to find memory.
\<close>

section \<open>Parser combinators\<close>

definition retP :: "'a \<Rightarrow> 'a parser" where
  "retP x p = Inr (x, p)"

definition liftP :: "'a res \<Rightarrow> 'a parser" where
  "liftP r p = bindE r (\<lambda>x. Inr (x, p))"

definition guardP :: "bool \<Rightarrow> vm_exn \<Rightarrow> 'a parser \<Rightarrow> 'a parser" where
  "guardP b ex f p = assertE b ex (f p)"

abbreviation checkP :: "bool \<Rightarrow> 'a parser \<Rightarrow> 'a parser" where
  "checkP b f \<equiv> guardP b Wasm_parse_exception f"

definition cursorP :: "(gptr \<Rightarrow> 'a) \<Rightarrow> 'a parser" where
  "cursorP f p = Inr (f p, p)"

text \<open>\<open>code.bounds() - code.offset()\<close>.\<close>

definition left :: "gptr \<Rightarrow> nat" where
  "left p = gp_bounds p - gp_offset p"

definition advanceP :: "nat \<Rightarrow> unit parser" where
  "advanceP n p = bindE (gp_add n p) (\<lambda>p'. Inr ((), p'))"

section \<open>Entries\<close>

definition parse_flags :: "vm_options \<Rightarrow> u8 parser" where
  "parse_flags opt = (if allow_u32_limits_flags opt
     then seqP parse_varuint32 (\<lambda>v. retP (ucast v AND 1))
     else seqP peek_parser (\<lambda>b. checkP (b = 0 \<or> b = 1) gp_next))"

definition parse_init_expr :: "vm_options \<Rightarrow> u8 \<Rightarrow> init_expr parser" where
  "parse_init_expr opt ty = seqP gp_next (\<lambda>oc.
     seqP (if oc = 0x41 then seqP parse_varint32 (\<lambda>v. checkP (ty = t_i32) (retP (ucast v)))
           else if oc = 0x42 then seqP parse_varint64 (\<lambda>v. checkP (ty = t_i64) (retP (ucast v)))
           else if oc = 0x43 then seqP (parse_raw 4) (\<lambda>v. checkP (ty = t_f32) (retP (ucast (v :: u32))))
           else if oc = 0x44 then seqP (parse_raw 8) (\<lambda>v. checkP (ty = t_f64) (retP (ucast (v :: u64))))
           else if oc = 0xFD then checkP (enable_simd opt) (seqP parse_varuint32 (\<lambda>vo. checkP (vo = 12)
             (seqP parse_v128 (\<lambda>v. checkP (ty = t_v128) (retP v)))))
           else liftP (Inl Wasm_parse_exception)) (\<lambda>v.
     seqP gp_next (\<lambda>e. checkP (e = 0x0B) (retP \<lparr>ie_opcode = oc, ie_value = v\<rparr>))))"

definition parse_param_type :: "vm_options \<Rightarrow> u8 parser" where
  "parse_param_type opt = seqP gp_next (\<lambda>pt. checkP (is_value_type opt pt) (retP pt))"

text \<open>A vector member \<open>return_type\<close> that is not assigned keeps the zero of its value-initialization.\<close>

definition parse_func_type :: "vm_options \<Rightarrow> func_type parser" where
  "parse_func_type opt = seqP gp_next (\<lambda>f. checkP (f = 0x60) (seqP parse_varuint32 (\<lambda>n.
     seqP (repeatP (unat n) (parse_param_type opt)) (\<lambda>pts. seqP gp_next (\<lambda>rc. checkP (rc < 2)
     (seqP (if rc > 0 then parse_param_type opt else retP 0) (\<lambda>rt.
       retP \<lparr>form = f, param_types = pts, return_count = rc, return_type = rt\<rparr>)))))))"

definition parse_import_entry :: "vm_options \<Rightarrow> vm_module \<Rightarrow> import_entry parser" where
  "parse_import_entry opt m = seqP (parse_utf8_string (max_symbol_bytes opt)) (\<lambda>ms.
     seqP (parse_utf8_string (max_symbol_bytes opt)) (\<lambda>fs. seqP gp_next (\<lambda>k. seqP parse_varuint32 (\<lambda>ty.
       if external_kind_of k = Function
       then checkP (unat ty < length (m_types m))
              (retP \<lparr>module_str = ms, import_field_str = fs, import_kind = Function, import_func_t = ty\<rparr>)
       else liftP (Inl Wasm_unsupported_import_exception)))))"

definition parse_table_type :: "vm_options \<Rightarrow> table_type parser" where
  "parse_table_type opt = seqP gp_next (\<lambda>et. checkP (et = t_anyfunc) (seqP (parse_flags opt) (\<lambda>fl.
     seqP parse_varuint32 (\<lambda>ini. seqP (if fl \<noteq> 0 then seqP parse_varuint32 (\<lambda>mx. checkP (ini \<le> mx) (retP mx)) else retP 0)
     (\<lambda>mx. checkP (ini \<le> max_table_elements opt)
       (retP \<lparr>element_type = et, tt_limits = \<lparr>lim_flags = (fl \<noteq> 0), lim_initial = ini, lim_maximum = mx\<rparr>\<rparr>))))))"

definition parse_memory_type :: "vm_options \<Rightarrow> memory_type parser" where
  "parse_memory_type opt = seqP (parse_flags opt) (\<lambda>fl. seqP parse_varuint32 (\<lambda>ini.
     checkP (ini \<le> opt_max_pages opt) (checkP (ini \<le> 65536)
     (seqP (if fl \<noteq> 0 then seqP parse_varuint32 (\<lambda>mx. checkP (mx \<ge> ini) (checkP (mx \<le> 65536) (retP mx))) else retP 0)
       (\<lambda>mx. retP \<lparr>lim_flags = (fl \<noteq> 0), lim_initial = ini, lim_maximum = mx\<rparr>)))))"

text \<open>The counter of mutable global bytes goes in and comes out.\<close>

definition parse_global_variable :: "vm_options \<Rightarrow> u64 \<Rightarrow> (global_variable \<times> u64) parser" where
  "parse_global_variable opt counter = seqP gp_next (\<lambda>ct. checkP (is_value_type opt ct)
     (seqP parse_varuint1 (\<lambda>mu. seqP (if mu \<noteq> 0 then liftP (on_mutable_global opt ct counter) else retP counter) (\<lambda>counter'.
      seqP (parse_init_expr opt ct) (\<lambda>ie.
        retP (\<lparr>content_type = ct, mutability = (mu \<noteq> 0), gv_init = ie\<rparr>, counter'))))))"

definition parse_export_entry :: "vm_options \<Rightarrow> vm_module \<Rightarrow> export_entry parser" where
  "parse_export_entry opt m = seqP (parse_utf8_string (max_symbol_bytes opt)) (\<lambda>fs. seqP gp_next (\<lambda>k.
     seqP parse_varuint32 (\<lambda>idx.
       let r = retP \<lparr>field_str = fs, export_kind = external_kind_of k, export_index = idx\<rparr> in
       case external_kind_of k of
         Function \<Rightarrow> checkP (unat idx < get_functions_total m) r
       | Table \<Rightarrow> checkP (unat idx < length (m_tables m)) r
       | Memory \<Rightarrow> checkP (unat idx < length (m_memories m)) r
       | Global \<Rightarrow> checkP (unat idx < length (m_globals m)) (seqP (liftP (at_checked (m_globals m) (unat idx))) (\<lambda>gv.
           checkP (\<not> forbid_export_mutable_globals opt \<or> \<not> mutability gv) r))
       | Unknown_kind _ \<Rightarrow> liftP (Inl Wasm_parse_exception))))"

definition parse_elem_expr :: "vm_module \<Rightarrow> u32 list \<Rightarrow> table_entry parser" where
  "parse_elem_expr m fast_functions = seqP gp_next (\<lambda>oc.
     seqP (if oc = 0xD0 then seqP peek_parser (\<lambda>b. checkP (b = t_anyfunc)
             (seqP skip_parser (\<lambda>_. retP \<lparr>te_type = 0xFFFFFFFF, te_index = 0xFFFFFFFF\<rparr>)))
           else if oc = 0xD2 then seqP parse_varuint32 (\<lambda>idx. checkP (unat idx < get_functions_total m)
             (seqP (liftP (at_checked fast_functions (unat idx))) (\<lambda>ty. retP \<lparr>te_type = ty, te_index = idx\<rparr>)))
           else liftP (Inl Wasm_parse_exception)) (\<lambda>te.
     seqP gp_next (\<lambda>e. checkP (e = 0x0B) (retP te))))"

definition parse_elem_index :: "vm_module \<Rightarrow> u32 list \<Rightarrow> table_entry parser" where
  "parse_elem_index m fast_functions = seqP parse_varuint32 (\<lambda>idx.
     seqP (liftP (at_checked fast_functions (unat idx))) (\<lambda>ty.
       checkP (unat idx < get_functions_total m) (retP \<lparr>te_type = ty, te_index = idx\<rparr>)))"

text \<open>
  The segment is a fresh, value-initialized element when it is parsed, so the two assertions on
  \<open>es.index\<close> that follow the reading of the flags see the index zero.
\<close>

definition parse_elem_segment :: "vm_options \<Rightarrow> vm_module \<Rightarrow> u32 list \<Rightarrow> elem_segment parser" where
  "parse_elem_segment opt m fast_functions = seqP parse_varuint32 (\<lambda>flags. let es_index0 = 0 :: u32 in
     checkP (es_index0 = 0 \<or> enable_bulk_memory opt) (checkP (es_index0 \<le> 7)
     (seqP (if flags = 2 \<or> flags = 6 then parse_varuint32 else retP 0) (\<lambda>idx.
      seqP (if flags AND 1 = 0
            then seqP (parse_init_expr opt t_i32) (\<lambda>off. checkP (unat idx < length (m_tables m))
              (seqP (liftP (at_unchecked (m_tables m) (unat idx))) (\<lambda>tt. retP (off, Active, Some tt))))
            else retP (\<lparr>ie_opcode = 0, ie_value = 0\<rparr>, if flags AND 2 \<noteq> 0 then Declarative else Passive, None))
      (\<lambda>(off, mode, tt).
      seqP (if flags = 1 \<or> flags = 2 \<or> flags = 3 then seqP gp_next (\<lambda>k. checkP (k = 0) (retP ()))
            else if flags = 5 \<or> flags = 6 \<or> flags = 7 then seqP gp_next (\<lambda>rt. checkP (rt = t_anyfunc) (retP ()))
            else retP ()) (\<lambda>_.
      checkP (case tt of None \<Rightarrow> True | Some t \<Rightarrow> element_type t = t_anyfunc)
      (seqP parse_varuint32 (\<lambda>size. checkP (size \<le> max_element_segment_elements opt)
      (seqP (repeatP (unat size) (if flags AND 4 \<noteq> 0 then parse_elem_expr m fast_functions
                                  else parse_elem_index m fast_functions)) (\<lambda>es.
        retP \<lparr>es_index = idx, es_offset = off, es_mode = mode, es_elems = es\<rparr>))))))))))"

definition parse_data_segment :: "vm_options \<Rightarrow> vm_module \<Rightarrow> data_segment parser" where
  "parse_data_segment opt m = seqP parse_varuint32 (\<lambda>flag.
     seqP (if flag = 0 \<or> \<not> enable_bulk_memory opt
           then seqP (parse_init_expr opt t_i32) (\<lambda>off. checkP (length (m_memories m) \<noteq> 0) (retP (flag, off, False)))
           else if flag = 1 then retP (flag, \<lparr>ie_opcode = 0x41, ie_value = 0\<rparr>, True)
           else if flag = 2
           then seqP parse_varuint32 (\<lambda>idx. seqP (parse_init_expr opt t_i32) (\<lambda>off.
                  checkP (unat idx < length (m_memories m)) (retP (idx, off, False))))
           else liftP (Inl Wasm_parse_exception)) (\<lambda>(idx, off, passive).
     seqP parse_varuint32 (\<lambda>len. checkP (len \<le> max_data_segment_bytes opt)
     (checkP (ucast (ucast (ie_value off) :: u32) + ucast len \<le> max_linear_memory_init opt)
     (seqP (parse_bytes (unat len)) (\<lambda>bs.
        retP \<lparr>ds_index = idx, ds_offset = off, ds_passive = passive, ds_data = bs\<rparr>))))))"

section \<open>The name section\<close>

definition parse_name_assoc :: "name_assoc parser" where
  "parse_name_assoc = seqP parse_varuint32 (\<lambda>idx. seqP (parse_utf8_string 0xFFFFFFFF) (\<lambda>n.
     retP \<lparr>na_idx = idx, na_name = n\<rparr>))"

definition parse_name_map :: "nat \<Rightarrow> name_assoc list parser" where
  "parse_name_map n = repeatP n parse_name_assoc"

definition parse_local_names :: "indirect_name_assoc parser" where
  "parse_local_names = seqP parse_varuint32 (\<lambda>idx. seqP parse_varuint32 (\<lambda>local_size.
     seqP (parse_name_map (unat local_size)) (\<lambda>nm. retP \<lparr>ina_idx = idx, ina_namemap = nm\<rparr>)))"

text \<open>\<open>++code; auto subsection_guard = code.scoped_consume_items(parse_varuint32(code)); ...\<close>.\<close>

definition name_subsection :: "'a parser \<Rightarrow> 'a parser" where
  "name_subsection body = seqP skip_parser (\<lambda>_. seqP parse_varuint32 (\<lambda>len. scoped_consume_items (unat len) body))"

text \<open>\<open>if(code.bounds() == code.offset()) return; if(*code == id) { ... }\<close>, then the rest.\<close>

definition name_step :: "u8 \<Rightarrow> 'a parser \<Rightarrow> ('a \<Rightarrow> name_section) \<Rightarrow> name_section \<Rightarrow> (name_section \<Rightarrow> name_section parser)
    \<Rightarrow> name_section parser" where
  "name_step sub body upd names rest = seqP (cursorP left) (\<lambda>l. if l = 0 then retP names
     else seqP peek_parser (\<lambda>b. seqP (if b = sub then seqP (name_subsection body) (\<lambda>x. retP (upd x)) else retP names) rest))"

definition parse_name_section :: "name_section parser" where
  "parse_name_section =
     (let n0 = \<lparr>ns_module_name = None, ns_function_names = None, ns_local_names = None\<rparr> in
      name_step 0 (parse_utf8_string 0xFFFFFFFF) (\<lambda>s. n0\<lparr>ns_module_name := Some s\<rparr>) n0 (\<lambda>n1.
      name_step 1 (seqP parse_varuint32 (\<lambda>size. parse_name_map (unat size))) (\<lambda>fs. n1\<lparr>ns_function_names := Some fs\<rparr>) n1 (\<lambda>n2.
      name_step 2 (seqP parse_varuint32 (\<lambda>size. repeatP (unat size) parse_local_names))
        (\<lambda>ls. n2\<lparr>ns_local_names := Some ls\<rparr>) n2 (\<lambda>n3.
      seqP (cursorP left) (\<lambda>l. if l = 0 then retP n3 else liftP (Inl Wasm_parse_exception))))))"

text \<open>The bytes of \<open>"name"\<close>.\<close>

definition parse_custom :: "vm_options \<Rightarrow> vm_module \<Rightarrow> vm_module parser" where
  "parse_custom opt m = seqP (parse_utf8_string 0xFFFFFFFF) (\<lambda>section_name.
     if parse_custom_section_name opt \<and> section_name = [0x6E, 0x61, 0x6D, 0x65]
     then seqP parse_name_section (\<lambda>ns. retP (m\<lparr>m_names := Some ns\<rparr>))
     else seqP (cursorP left) (\<lambda>l. seqP (advanceP l) (\<lambda>_. retP m)))"

section \<open>Function bodies\<close>

definition parse_local_set :: "vm_options \<Rightarrow> local_bytes \<Rightarrow> (local_entry \<times> local_bytes) parser" where
  "parse_local_set opt lb = seqP parse_varuint32 (\<lambda>count. seqP gp_next (\<lambda>b.
     let ty = (if allow_invalid_empty_local_set opt \<and> count = 0 then t_i32 else b) in
     checkP (is_value_type opt ty) (seqP (liftP (lb_on_local opt ty count lb)) (\<lambda>lb'.
       retP (\<lparr>le_count = count, le_type = ty\<rparr>, lb')))))"

text \<open>The loops that fill a vector element by element and change a member on the way.\<close>

fun fill_loop :: "nat \<Rightarrow> nat \<Rightarrow> (nat \<Rightarrow> 's \<Rightarrow> ('a \<times> 's) parser) \<Rightarrow> 's \<Rightarrow> ('a list \<times> 's) parser" where
  "fill_loop 0 i f st p = Inr (([], st), p)"
| "fill_loop (Suc n) i f st p = bindE (f i st p) (\<lambda>((x, st'), p1).
     bindE (fill_loop n (Suc i) f st' p1) (\<lambda>((xs, st''), p2). Inr ((x # xs, st''), p2)))"

text \<open>
  The size of the body is decreased by the bytes its locals took, at 32 bits; the cursor for the later
  compilation starts behind the locals.
\<close>

definition parse_function_body :: "vm_options \<Rightarrow> vm_module \<Rightarrow> nat \<Rightarrow> (function_body \<times> gptr \<times> local_bytes) parser" where
  "parse_function_body opt m idx = seqP parse_varuint32 (\<lambda>size0. checkP (size0 \<le> max_code_bytes opt)
     (seqP (cursorP gp_offset) (\<lambda>before. seqP parse_varuint32 (\<lambda>local_cnt. checkP (local_cnt \<le> max_local_sets opt)
     (seqP (liftP (bindE (at_checked (m_functions m) idx) (\<lambda>ty. at_checked (m_types m) (unat ty)))) (\<lambda>ft.
      seqP (liftP (lb_init opt ft)) (\<lambda>lb.
      seqP (fill_loop (unat local_cnt) 0 (\<lambda>_. parse_local_set opt) lb) (\<lambda>(locals, lb').
      seqP (cursorP gp_offset) (\<lambda>after. let size = size0 - of_nat (after - before) in
      scoped_shrink_bounds (unat size) (seqP (cursorP (\<lambda>p. mk_gptr (gp_buf p) (raw_ptr p) (unat size))) (\<lambda>body.
        seqP (advanceP (unat (size - 1))) (\<lambda>_.
        seqP (if allow_code_after_function_end opt then retP () else seqP peek_parser (\<lambda>b. checkP (b = 0x0B) (retP ()))) (\<lambda>_.
        seqP skip_parser (\<lambda>_.
          retP (\<lparr>fb_size = size, fb_locals = locals, fb_code = 0, fb_stack_size = 0\<rparr>, body, lb')))))))))))))))"

section \<open>Type aliases and export names\<close>

text \<open>The inner loop of \<open>normalize_types\<close>: the first \<open>j < i\<close> with an equal type, or \<open>i\<close>.\<close>

definition first_equal_type :: "func_type list \<Rightarrow> nat \<Rightarrow> u32" where
  "first_equal_type ts i = of_nat (length (takeWhile (\<lambda>j. \<not> func_type_eq (ts ! j) (ts ! i)) [0..<i]))"

definition normalize_types :: "vm_module \<Rightarrow> (u32 list \<times> u32 list) res" where
  "normalize_types m =
     (let aliases = map (first_equal_type (m_types m)) [0..<length (m_types m)]; n = get_imported_functions_size m in
      bindE (mapE (\<lambda>i. bindE (at_unchecked (m_imports m) i) (\<lambda>im. at_checked aliases (unat (import_func_t im)))) [0..<n]) (\<lambda>fi.
      bindE (mapE (\<lambda>ty. at_checked aliases (unat ty)) (m_functions m)) (\<lambda>ff. Inr (aliases, fi @ ff))))"

fun adjacent_find :: "'a list \<Rightarrow> bool" where
  "adjacent_find (x # y # zs) = (x = y \<or> adjacent_find (y # zs))"
| "adjacent_find _ = False"

definition validate_exports :: "vm_module \<Rightarrow> unit res" where
  "validate_exports m = (let export_names = sort (map field_str (m_exports m)) in
     assertE (\<not> adjacent_find export_names) Wasm_parse_exception (Inr ()))"

section \<open>Sections\<close>

text \<open>The members of \<open>binary_parser\<close>, the allocator, and the instructions of the code segment.\<close>

record bparser =
  px_mod :: vm_module
  px_bodies :: "(gptr \<times> local_bytes) list"
  px_globals :: u64
  px_nested :: u32
  px_datacount :: "u32 option"
  px_aliases :: "u32 list"
  px_fast :: "u32 list"
  px_alloc :: growable_allocator
  px_segment :: "opcode list"

definition px_init :: "vm_module \<Rightarrow> growable_allocator \<Rightarrow> bparser" where
  "px_init m alloc = \<lparr>px_mod = m, px_bodies = [], px_globals = 0, px_nested = 0, px_datacount = None, px_aliases = [],
     px_fast = [], px_alloc = alloc, px_segment = []\<rparr>"

definition parse_section_impl :: "u32 \<Rightarrow> (nat \<Rightarrow> 's \<Rightarrow> ('a \<times> 's) parser) \<Rightarrow> 's \<Rightarrow> ('a list \<times> 's) parser" where
  "parse_section_impl max_elements elem_parse st = seqP parse_varuint32 (\<lambda>count. checkP (count \<le> max_elements)
     (fill_loop (unat count) 0 elem_parse st))"

text \<open>A section whose elements change no other member.\<close>

definition pure_section :: "u32 \<Rightarrow> (nat \<Rightarrow> 'a parser) \<Rightarrow> 'a list parser" where
  "pure_section max_elements elem_parse =
     seqP (parse_section_impl max_elements (\<lambda>i st. seqP (elem_parse i) (\<lambda>x. retP (x, ()))) ()) (\<lambda>(xs, _). retP xs)"

definition parse_type_section :: "vm_options \<Rightarrow> vm_module \<Rightarrow> vm_module parser" where
  "parse_type_section opt m = seqP (pure_section (max_type_section_elements opt) (\<lambda>_. parse_func_type opt))
     (\<lambda>xs. retP (m\<lparr>m_types := xs\<rparr>))"

definition parse_import_section :: "vm_options \<Rightarrow> vm_module \<Rightarrow> vm_module parser" where
  "parse_import_section opt m = seqP (pure_section (max_import_section_elements opt) (\<lambda>_. parse_import_entry opt m))
     (\<lambda>xs. retP (m\<lparr>m_imports := xs\<rparr>))"

definition parse_function_section :: "vm_options \<Rightarrow> vm_module \<Rightarrow> vm_module parser" where
  "parse_function_section opt m = seqP (pure_section (max_function_section_elements opt) (\<lambda>_. parse_varuint32))
     (\<lambda>xs. retP (m\<lparr>m_functions := xs\<rparr>))"

definition parse_table_section :: "vm_options \<Rightarrow> vm_module \<Rightarrow> vm_module parser" where
  "parse_table_section opt m = seqP (pure_section 1 (\<lambda>_. parse_table_type opt)) (\<lambda>xs. retP (m\<lparr>m_tables := xs\<rparr>))"

definition parse_memory_section :: "vm_options \<Rightarrow> vm_module \<Rightarrow> vm_module parser" where
  "parse_memory_section opt m = seqP (pure_section 1 (\<lambda>i. checkP (i = 0) (parse_memory_type opt)))
     (\<lambda>xs. retP (m\<lparr>m_memories := xs\<rparr>))"

definition parse_global_section :: "vm_options \<Rightarrow> vm_module \<times> u64 \<Rightarrow> (vm_module \<times> u64) parser" where
  "parse_global_section opt = (\<lambda>(m, c). seqP (parse_section_impl (max_global_section_elements opt) (\<lambda>_. parse_global_variable opt) c)
     (\<lambda>(xs, c'). retP (m\<lparr>m_globals := xs\<rparr>, c')))"

definition parse_export_section :: "vm_options \<Rightarrow> vm_module \<Rightarrow> vm_module parser" where
  "parse_export_section opt m = seqP (pure_section (max_export_section_elements opt) (\<lambda>_. parse_export_entry opt m))
     (\<lambda>xs. retP (m\<lparr>m_exports := xs\<rparr>))"

definition parse_start_section :: "vm_module \<Rightarrow> vm_module parser" where
  "parse_start_section m = seqP parse_varuint32 (\<lambda>start. seqP (liftP (get_function_type m (unat start))) (\<lambda>ft.
     checkP (return_count ft = 0 \<and> length (param_types ft) = 0) (retP (m\<lparr>m_start := start\<rparr>))))"

definition parse_element_section :: "vm_options \<Rightarrow> u32 list \<Rightarrow> vm_module \<Rightarrow> vm_module parser" where
  "parse_element_section opt fast m = seqP (pure_section (max_element_section_elements opt) (\<lambda>_. parse_elem_segment opt m fast))
     (\<lambda>xs. retP (m\<lparr>m_elements := xs\<rparr>))"

text \<open>The code section reads all bodies first and then compiles them.\<close>

definition parse_code_section :: "u64 \<Rightarrow> vm_options \<Rightarrow> bparser \<Rightarrow> bparser parser" where
  "parse_code_section pagesize opt st =
     seqP (pure_section (max_function_section_elements opt) (parse_function_body opt (px_mod st))) (\<lambda>fbs.
     let m = (px_mod st)\<lparr>m_code := map fst fbs\<rparr>; bodies = px_bodies st @ map snd fbs in
     checkP (length fbs = length (m_functions m)) (\<lambda>p.
       bindE (write_code_out pagesize opt (px_aliases st) (px_datacount st) bodies p (m, px_nested st, px_alloc st))
         (\<lambda>(m', nested', alloc', seg).
           Inr (st\<lparr>px_mod := m', px_bodies := bodies, px_nested := nested', px_alloc := alloc', px_segment := seg\<rparr>, p))))"

definition parse_data_section :: "vm_options \<Rightarrow> u32 option \<Rightarrow> vm_module \<Rightarrow> vm_module parser" where
  "parse_data_section opt datacount m = seqP (pure_section (max_data_section_elements opt) (\<lambda>_. parse_data_segment opt m))
     (\<lambda>xs. checkP (case datacount of None \<Rightarrow> True | Some n \<Rightarrow> unat n = length xs) (retP (m\<lparr>m_data := xs\<rparr>)))"

section \<open>Modules\<close>

definition make_section_order :: "u8 list" where
  "make_section_order = fold (\<lambda>(i, sec) result. result[sec := of_nat i])
     (zip [1..<13] [1, 2, 3, 4, 5, 6, 7, 8, 9, 12, 10, 11]) (replicate 13 0)"

definition with_mod :: "bparser \<Rightarrow> (vm_module \<Rightarrow> vm_module parser) \<Rightarrow> bparser parser" where
  "with_mod st f = seqP (f (px_mod st)) (\<lambda>m'. retP (st\<lparr>px_mod := m'\<rparr>))"

text \<open>The switch over the section id.\<close>

definition parse_section :: "u64 \<Rightarrow> vm_options \<Rightarrow> u8 \<Rightarrow> bparser \<Rightarrow> bparser parser" where
  "parse_section pagesize opt sid st =
     (if sid = 0 then with_mod st (parse_custom opt)
      else if sid = 1 then with_mod st (parse_type_section opt)
      else if sid = 2 then with_mod st (parse_import_section opt)
      else if sid = 3 then seqP (with_mod st (parse_function_section opt)) (\<lambda>st1.
        seqP (liftP (normalize_types (px_mod st1))) (\<lambda>(aliases, fast). retP (st1\<lparr>px_aliases := aliases, px_fast := fast\<rparr>)))
      else if sid = 4 then with_mod st (parse_table_section opt)
      else if sid = 5 then with_mod st (parse_memory_section opt)
      else if sid = 6 then seqP (parse_global_section opt (px_mod st, px_globals st)) (\<lambda>(m', c').
        retP (st\<lparr>px_mod := m', px_globals := c'\<rparr>))
      else if sid = 7 then seqP (with_mod st (parse_export_section opt)) (\<lambda>st1.
        seqP (liftP (validate_exports (px_mod st1))) (\<lambda>_. retP st1))
      else if sid = 8 then with_mod st parse_start_section
      else if sid = 9 then with_mod st (parse_element_section opt (px_fast st))
      else if sid = 10 then parse_code_section pagesize opt st
      else if sid = 11 then with_mod st (parse_data_section opt (px_datacount st))
      else if sid = 12 then seqP parse_varuint32 (\<lambda>n. retP (st\<lparr>px_datacount := Some n\<rparr>))
      else liftP (Inl Wasm_parse_exception))"

text \<open>The loop over the sections; every section has an id byte, so the number of bytes bounds the rounds.\<close>

fun parse_sections :: "nat \<Rightarrow> u64 \<Rightarrow> vm_options \<Rightarrow> nat \<Rightarrow> u8 \<Rightarrow> bparser \<Rightarrow> bparser parser" where
  "parse_sections 0 pagesize opt sz highest st p = Inr (st, p)"
| "parse_sections (Suc n) pagesize opt sz highest st p =
     (if gp_offset p = sz then Inr (st, p)
      else bindE (gp_next p) (\<lambda>(sid, p1). bindE (parse_varuint32 p1) (\<lambda>(len, p2).
        assertE (unat sid < length make_section_order) Wasm_parse_exception
        (let ord = make_section_order ! unat sid in
         assertE (sid = 0 \<or> ord > highest) Wasm_parse_exception
         (bindE (scoped_consume_items (unat len) (parse_section pagesize opt sid st) p2) (\<lambda>(st', p3).
           parse_sections n pagesize opt sz (max highest ord) st' p3))))))"

definition parse_module :: "u64 \<Rightarrow> vm_options \<Rightarrow> nat \<Rightarrow> vm_module \<Rightarrow> growable_allocator \<Rightarrow> bparser parser" where
  "parse_module pagesize opt sz m alloc = seqP (parse_raw 4) (\<lambda>magic. checkP (magic = wasm_magic)
     (seqP (parse_raw 4) (\<lambda>version. checkP (version = wasm_version)
     (seqP (\<lambda>p. parse_sections (Suc (bnds p)) pagesize opt sz 0 (px_init (m\<lparr>m_eosio_fp := opt_eosio_fp opt\<rparr>) alloc) p) (\<lambda>st.
      checkP (length (m_code (px_mod st)) = length (m_functions (px_mod st)))
      (retP (st\<lparr>px_mod := (px_mod st)\<lparr>m_stack_limit_is_bytes := (max_stack_bytes opt \<noteq> None)\<rparr>\<rparr>)))))))"

text \<open>\<open>parse_module(wasm_code& code, module& mod, ...)\<close> on an empty module.\<close>

definition parse_bytes_as_module :: "u64 \<Rightarrow> vm_options \<Rightarrow> growable_allocator \<Rightarrow> u8 list \<Rightarrow> bparser res" where
  "parse_bytes_as_module pagesize opt alloc code =
     bindE (parse_module pagesize opt (length code) empty_module alloc (mk_gptr code 0 (length code))) (\<lambda>(st, _). Inr st)"

section \<open>What a parser ensures\<close>

text \<open>
  \<open>ensures prs Q\<close>: \<open>prs\<close> keeps the contract of the cursor and every result satisfies \<open>Q\<close>.
\<close>

definition ensures :: "'a parser \<Rightarrow> ('a \<Rightarrow> bool) \<Rightarrow> bool" where
  "ensures prs Q \<longleftrightarrow> cursor_parser prs 0 \<and> (\<forall>p x p'. wf_gptr p \<longrightarrow> prs p = Inr (x, p') \<longrightarrow> Q x)"

lemma ensuresI:
  assumes "\<And>p. wf_gptr p \<Longrightarrow> prs p \<noteq> Inl Undefined_behaviour"
    and "\<And>p x p'. wf_gptr p \<Longrightarrow> prs p = Inr (x, p') \<Longrightarrow> gp_moved 0 p p' \<and> Q x"
  shows "ensures prs Q"
  using assms by (auto simp: ensures_def intro!: cursor_parserI)

lemma ensuresD:
  assumes "ensures prs Q" and "wf_gptr p"
  shows "prs p \<noteq> Inl Undefined_behaviour" and "prs p = Inr (x, p') \<Longrightarrow> gp_moved 0 p p' \<and> wf_gptr p' \<and> Q x"
  using assms by (auto simp: ensures_def dest: cursor_parser.safe cursor_parser.moves cursor_parser.keeps_wf)

named_theorems ens \<open>rules for what a parser ensures\<close>

lemma ens_seq:
  assumes f: "ensures f P" and g: "\<And>x. P x \<Longrightarrow> ensures (g x) Q"
  shows "ensures (seqP f g) Q"
proof (rule ensuresI)
  fix p assume wf: "wf_gptr p"
  show "seqP f g p \<noteq> Inl Undefined_behaviour"
    using ensuresD [OF f wf] ensuresD(1) [OF g] by (fastforce simp: seqP_def bindE_eq_Inl_iff)
  fix y p' assume "seqP f g p = Inr (y, p')"
  then obtain x q where fq: "f p = Inr (x, q)" and gq: "g x q = Inr (y, p')" by (auto simp: seqP_def res_simps)
  with ensuresD(2) [OF f wf] have q: "gp_moved 0 p q" "wf_gptr q" "P x" by auto
  with ensuresD(2) [OF g gp_moved_wf [OF q(1) wf] gq] gp_moved_trans [OF q(1)] show "gp_moved 0 p p' \<and> Q y" by fastforce
qed

lemma ens_conseq: "ensures f P \<Longrightarrow> (\<And>x. P x \<Longrightarrow> Q x) \<Longrightarrow> ensures f Q"
  by (auto simp: ensures_def)

lemma ens_any [ens]: "ensures f (\<lambda>_. True) \<Longrightarrow> (\<And>x. ensures (g x) Q) \<Longrightarrow> ensures (seqP f g) Q"
  by (rule ens_seq)

lemma ens_ret [ens]: "Q x \<Longrightarrow> ensures (retP x) Q"
  by (rule ensuresI) (auto simp: retP_def intro: gp_moved_refl)

lemma ens_lift [ens]: "r \<noteq> Inl Undefined_behaviour \<Longrightarrow> (\<And>x. r = Inr x \<Longrightarrow> Q x) \<Longrightarrow> ensures (liftP r) Q"
  by (rule ensuresI) (auto simp: liftP_def bindE_eq_Inl_iff res_simps intro: gp_moved_refl)

lemma ens_guard [ens]: "ex \<noteq> Undefined_behaviour \<Longrightarrow> (b \<Longrightarrow> ensures f Q) \<Longrightarrow> ensures (guardP b ex f) Q"
  by (rule ensuresI) (auto simp: guardP_def assertE_eq_Inl_iff res_simps dest: ensuresD)

lemma ens_if [ens]: "(b \<Longrightarrow> ensures f Q) \<Longrightarrow> (\<not> b \<Longrightarrow> ensures g Q) \<Longrightarrow> ensures (if b then f else g) Q"
  by simp

lemma ens_cursorP [ens]: "(\<And>p. wf_gptr p \<Longrightarrow> Q (f p)) \<Longrightarrow> ensures (cursorP f) Q"
  by (rule ensuresI) (auto simp: cursorP_def intro: gp_moved_refl)

lemma ens_cursor: "cursor_parser f n \<Longrightarrow> ensures f (\<lambda>_. True)"
  using cursor_parser_weaken [of f n 0] by (simp add: ensures_def)

lemmas ens_reads [ens] = cursor_parser_next [THEN ens_cursor] cursor_parser_peek [THEN ens_cursor]
  cursor_parser_skip [THEN ens_cursor] cursor_parser_varuint1 [THEN ens_cursor] cursor_parser_varuint32 [THEN ens_cursor]
  cursor_parser_varint32 [THEN ens_cursor] cursor_parser_varint64 [THEN ens_cursor] cursor_parser_raw [THEN ens_cursor]
  cursor_parser_v128 [THEN ens_cursor] cursor_parser_bytes [THEN ens_cursor] cursor_parser_utf8_string [THEN ens_cursor]

lemma ens_advance [ens]: "ensures (advanceP n) (\<lambda>_. True)"
  by (rule ensuresI)
    (auto simp: advanceP_def bindE_eq_Inl_iff res_simps gp_add_def assertE_eq_Inl_iff wf_gptr_def gp_moved_def)

lemma ens_repeat:
  assumes f: "ensures f P"
  shows "ensures (repeatP k f) (\<lambda>xs. length xs = k \<and> list_all P xs)"
proof (induction k)
  case 0
  show ?case by (rule ensuresI) (auto intro: gp_moved_refl)
next
  case (Suc k)
  have "repeatP (Suc k) f = seqP f (\<lambda>x. seqP (repeatP k f) (\<lambda>xs. retP (x # xs)))"
    by (auto simp: seqP_def retP_def fun_eq_iff)
  then show ?case by (simp only:) (rule ens_seq [OF f], rule ens_seq [OF Suc.IH], rule ens_ret, simp)
qed

lemma ens_fill:
  assumes f: "\<And>i st. I st \<Longrightarrow> ensures (f i st) (\<lambda>(x, st'). P x \<and> I st')"
  shows "I st \<Longrightarrow> ensures (fill_loop n i f st) (\<lambda>(xs, st'). length xs = n \<and> list_all P xs \<and> I st')"
proof (induction n arbitrary: i st)
  case 0
  then show ?case by (intro ensuresI) (auto intro: gp_moved_refl)
next
  case (Suc n)
  have "fill_loop (Suc n) i f st =
      seqP (f i st) (\<lambda>(x, st'). seqP (fill_loop n (Suc i) f st') (\<lambda>(xs, st''). retP (x # xs, st'')))"
    by (auto simp: seqP_def retP_def fun_eq_iff split: prod.splits intro!: bindE_cong)
  moreover have "ensures (seqP (fill_loop n (Suc i) f st') (\<lambda>(xs, st''). retP (x # xs, st'')))
      (\<lambda>(xs, st'). length xs = Suc n \<and> list_all P xs \<and> I st')" if "P x" "I st'" for x st'
    by (rule ens_seq [OF Suc.IH [OF that(2)]]) (use that in \<open>auto intro!: ens_ret\<close>)
  ultimately show ?case by (simp only:) (rule ens_seq [OF f [OF Suc.prems]], auto)
qed

lemma ens_consume: "ensures f Q \<Longrightarrow> ensures (scoped_consume_items n f) Q"
proof (rule ensuresI)
  assume f: "ensures f Q"
  then have c: "cursor_parser f 0" by (simp add: ensures_def)
  fix p assume wf: "wf_gptr p"
  show "scoped_consume_items n f p \<noteq> Inl Undefined_behaviour" by (rule cursor_parser.consume_items_safe [OF c wf])
  fix x p' assume r: "scoped_consume_items n f p = Inr (x, p')"
  then have "n \<le> bnds p - raw_ptr p" "\<exists>q. f (p\<lparr>bnds := raw_ptr p + n\<rparr>) = Inr (x, q)"
    by (auto simp: scoped_consume_items_def res_simps)
  then have "Q x" using ensuresD(2) [OF f wf_gptr_shrunk [OF wf]] by blast
  with cursor_parser.consume_items_exact [OF c wf r] show "gp_moved 0 p p' \<and> Q x"
    using gp_moved_weaken by blast
qed

text \<open>The cursor of a body, taken where the bounds have just been shrunk to it.\<close>

lemma ens_body:
  assumes g: "\<And>c. wf_gptr c \<Longrightarrow> gp_offset c = 0 \<Longrightarrow> gp_bounds c = n \<Longrightarrow> ensures (g c) Q"
  shows "ensures (scoped_shrink_bounds n (seqP (cursorP (\<lambda>p. mk_gptr (gp_buf p) (raw_ptr p) n)) g)) Q"
proof (rule ensuresI)
  fix p assume wf: "wf_gptr p"
  let ?q = "p\<lparr>bnds := raw_ptr p + n\<rparr>" and ?c = "mk_gptr (gp_buf p) (raw_ptr p) n"
  have gc: "ensures (g ?c) Q" and wfq: "wf_gptr ?q" if "n \<le> bnds p - raw_ptr p"
    using wf that by (auto simp: mk_gptr_def wf_gptr_def gp_offset_def gp_bounds_def intro!: g)
  show "scoped_shrink_bounds n (seqP (cursorP (\<lambda>p. mk_gptr (gp_buf p) (raw_ptr p) n)) g) p \<noteq> Inl Undefined_behaviour"
    using ensuresD(1) [OF gc wfq] by (auto simp: scoped_shrink_bounds_def seqP_def cursorP_def assertE_eq_Inl_iff bindE_eq_Inl_iff)
  fix x p' assume "scoped_shrink_bounds n (seqP (cursorP (\<lambda>p. mk_gptr (gp_buf p) (raw_ptr p) n)) g) p = Inr (x, p')"
  then obtain q' where n: "n \<le> bnds p - raw_ptr p" and r: "g ?c ?q = Inr (x, q')" and p': "p' = q'\<lparr>bnds := bnds p\<rparr>"
    by (auto simp: scoped_shrink_bounds_def seqP_def cursorP_def res_simps)
  from ensuresD(2) [OF gc [OF n] wfq [OF n] r] n wf show "gp_moved 0 p p' \<and> Q x"
    by (auto simp: gp_moved_def p' wf_gptr_def)
qed

end
