(* ===== verification/Vm_Module.thy ===== *)
theory Vm_Module
  imports Vm_Sections
begin

text \<open>
  What parsing a module guarantees: for every section what its entries satisfy, the invariant that the
  loop over the sections keeps, and from it that no input whatsoever drives the parser into undefined
  behaviour and that an accepted module is well formed.
\<close>

section \<open>Entries\<close>

definition type_ok :: "vm_options \<Rightarrow> func_type \<Rightarrow> bool" where
  "type_ok opt ft \<longleftrightarrow> form ft = 0x60 \<and> list_all (is_value_type opt) (param_types ft) \<and> length (param_types ft) < 2 ^ 32
     \<and> return_count ft < 2 \<and> (return_count ft \<noteq> 0 \<longrightarrow> is_value_type opt (return_type ft))"

definition symbol_ok :: "vm_options \<Rightarrow> u8 list \<Rightarrow> bool" where
  "symbol_ok opt s \<longleftrightarrow> length s \<le> unat (max_symbol_bytes opt)"

definition import_ok :: "vm_options \<Rightarrow> vm_module \<Rightarrow> import_entry \<Rightarrow> bool" where
  "import_ok opt m i \<longleftrightarrow> import_kind i = Function \<and> unat (import_func_t i) < length (m_types m)
     \<and> symbol_ok opt (module_str i) \<and> symbol_ok opt (import_field_str i)"

definition limits_ok :: "vm_options \<Rightarrow> table_type \<Rightarrow> bool" where
  "limits_ok opt t \<longleftrightarrow> element_type t = t_anyfunc \<and> lim_initial (tt_limits t) \<le> max_table_elements opt
     \<and> (lim_flags (tt_limits t) \<longrightarrow> lim_initial (tt_limits t) \<le> lim_maximum (tt_limits t))"

definition memory_ok :: "vm_options \<Rightarrow> memory_type \<Rightarrow> bool" where
  "memory_ok opt l \<longleftrightarrow> lim_initial l \<le> opt_max_pages opt \<and> lim_initial l \<le> 65536
     \<and> (lim_flags l \<longrightarrow> lim_initial l \<le> lim_maximum l \<and> lim_maximum l \<le> 65536)"

text \<open>The type of the constant that an initializer's opcode stands for.\<close>

definition init_type :: "u8 \<Rightarrow> u8" where
  "init_type oc = (if oc = 0x41 then t_i32 else if oc = 0x42 then t_i64 else if oc = 0x43 then t_f32
     else if oc = 0x44 then t_f64 else if oc = 0xFD then t_v128 else 0)"

definition global_ok :: "vm_options \<Rightarrow> global_variable \<Rightarrow> bool" where
  "global_ok opt g \<longleftrightarrow> is_value_type opt (content_type g) \<and> init_type (ie_opcode (gv_init g)) = content_type g"

definition export_ok :: "vm_options \<Rightarrow> vm_module \<Rightarrow> export_entry \<Rightarrow> bool" where
  "export_ok opt m x \<longleftrightarrow> symbol_ok opt (field_str x) \<and> (case export_kind x of
       Function \<Rightarrow> unat (export_index x) < get_functions_total m
     | Table \<Rightarrow> unat (export_index x) < length (m_tables m)
     | Memory \<Rightarrow> unat (export_index x) < length (m_memories m)
     | Global \<Rightarrow> unat (export_index x) < length (m_globals m)
         \<and> (forbid_export_mutable_globals opt \<longrightarrow> \<not> mutability (m_globals m ! unat (export_index x)))
     | Unknown_kind _ \<Rightarrow> False)"

definition entry_ok :: "vm_module \<Rightarrow> u32 list \<Rightarrow> table_entry \<Rightarrow> bool" where
  "entry_ok m fast te \<longleftrightarrow> te = \<lparr>te_type = 0xFFFFFFFF, te_index = 0xFFFFFFFF\<rparr>
     \<or> unat (te_index te) < get_functions_total m \<and> unat (te_index te) < length fast \<and> te_type te = fast ! unat (te_index te)"

definition elem_ok :: "vm_options \<Rightarrow> vm_module \<Rightarrow> u32 list \<Rightarrow> elem_segment \<Rightarrow> bool" where
  "elem_ok opt m fast es \<longleftrightarrow> list_all (entry_ok m fast) (es_elems es) \<and> length (es_elems es) \<le> unat (max_element_segment_elements opt)
     \<and> (es_mode es = Active \<longrightarrow> unat (es_index es) < length (m_tables m) \<and> ie_opcode (es_offset es) = 0x41)"

text \<open>
  Without bulk memory the first number of a data segment is kept as its index whatever it is, and only the existence of a memory is checked.
\<close>

definition data_ok :: "vm_options \<Rightarrow> vm_module \<Rightarrow> data_segment \<Rightarrow> bool" where
  "data_ok opt m ds \<longleftrightarrow> ie_opcode (ds_offset ds) = 0x41 \<and> (\<not> ds_passive ds \<longrightarrow> m_memories m \<noteq> [])
     \<and> (enable_bulk_memory opt \<and> \<not> ds_passive ds \<longrightarrow> unat (ds_index ds) < length (m_memories m))
     \<and> length (ds_data ds) \<le> unat (max_data_segment_bytes opt)
     \<and> unat (ucast (ie_value (ds_offset ds)) :: u32) + length (ds_data ds) \<le> unat (max_linear_memory_init opt)"

definition body_ok :: "vm_options \<Rightarrow> function_body \<times> gptr \<times> local_bytes \<Rightarrow> bool" where
  "body_ok opt = (\<lambda>(fb, c, lb). list_all (\<lambda>l. is_value_type opt (le_type l)) (fb_locals fb)
     \<and> wf_gptr c \<and> gp_offset c = 0 \<and> gp_bounds c = unat (fb_size fb))"

lemma is_value_of_type: "is_value_type opt t \<Longrightarrow> is_value t"
  by (auto simp: is_value_type_def is_value_def)

lemma ens_flags [ens]: "ensures (parse_flags opt) (\<lambda>_. True)"
  unfolding parse_flags_def by (intro ens) auto

definition init_value :: "vm_options \<Rightarrow> u8 \<Rightarrow> u8 \<Rightarrow> expr_value parser" where
  "init_value opt ty oc =
     (if oc = 0x41 then seqP parse_varint32 (\<lambda>v. checkP (ty = t_i32) (retP (ucast v)))
      else if oc = 0x42 then seqP parse_varint64 (\<lambda>v. checkP (ty = t_i64) (retP (ucast v)))
      else if oc = 0x43 then seqP (parse_raw 4) (\<lambda>v. checkP (ty = t_f32) (retP (ucast (v :: u32))))
      else if oc = 0x44 then seqP (parse_raw 8) (\<lambda>v. checkP (ty = t_f64) (retP (ucast (v :: u64))))
      else if oc = 0xFD then checkP (enable_simd opt) (seqP parse_varuint32 (\<lambda>vo. checkP (vo = 12)
        (seqP parse_v128 (\<lambda>v. checkP (ty = t_v128) (retP v)))))
      else liftP (Inl Wasm_parse_exception))"

lemma ens_init_value: "ensures (init_value opt ty oc) (\<lambda>_. init_type oc = ty)"
  unfolding init_value_def by (intro ens) (auto simp: init_type_def)

lemma ens_init_expr: "ensures (parse_init_expr opt ty) (\<lambda>ie. init_type (ie_opcode ie) = ty)"
  unfolding parse_init_expr_def init_value_def [symmetric]
  by (intro ens_any ens_reads ens_seq [OF ens_init_value] ens_guard ens_ret) auto

lemma init_type_i32: "init_type oc = t_i32 \<longleftrightarrow> oc = 0x41"
  by (simp add: init_type_def)

lemma ens_param_type: "ensures (parse_param_type opt) (is_value_type opt)"
  unfolding parse_param_type_def by (intro ens) auto

lemma ens_func_type: "ensures (parse_func_type opt) (type_ok opt)"
proof -
  have "ensures (seqP (if rc > 0 then parse_param_type opt else retP 0) (\<lambda>rt.
       retP \<lparr>form = f, param_types = pts, return_count = rc, return_type = rt\<rparr>)) (type_ok opt)"
    if "f = 0x60" "length pts = unat n \<and> list_all (is_value_type opt) pts" "rc < 2" for f rc pts and n :: u32
  proof (rule ens_seq [where P = "\<lambda>rt. rc \<noteq> 0 \<longrightarrow> is_value_type opt rt"])
    show "ensures (if rc > 0 then parse_param_type opt else retP 0) (\<lambda>rt. rc \<noteq> 0 \<longrightarrow> is_value_type opt rt)"
      by (intro ens_if ens_ret ens_conseq [OF ens_param_type]) (auto simp: word_gt_0)
  qed (use that unat_less_32 [of n] in \<open>auto simp: type_ok_def intro!: ens_ret\<close>)
  note tail = this
  show ?thesis
    unfolding parse_func_type_def
    by (rule ens_any [OF ens_reads(1)], rule ens_guard, simp, rule ens_any [OF ens_reads(5)],
        rule ens_seq [OF ens_repeat [OF ens_param_type]], rule ens_any [OF ens_reads(1)], rule ens_guard, simp, rule tail)
qed

lemma ens_bytes: "ensures (parse_bytes n) (\<lambda>bs. length bs = n)"
proof (rule ensuresI)
  show "wf_gptr p \<Longrightarrow> parse_bytes n p \<noteq> Inl Undefined_behaviour" for p
    using ensuresD(1) [OF cursor_parser_bytes [THEN ens_cursor]] .
  show "wf_gptr p \<Longrightarrow> parse_bytes n p = Inr (bs, p') \<Longrightarrow> gp_moved 0 p p' \<and> length bs = n" for p bs p'
    using ensuresD(2) [OF cursor_parser_bytes [THEN ens_cursor]] by (auto simp: parse_bytes_def gp_defs res_simps scoped_shrink_bounds_def wf_gptr_def split: if_splits)
qed

lemma ens_symbol: "ensures (parse_utf8_string (max_symbol_bytes opt)) (symbol_ok opt)"
proof (rule ensuresI)
  show "wf_gptr p \<Longrightarrow> parse_utf8_string (max_symbol_bytes opt) p \<noteq> Inl Undefined_behaviour" for p
    using ensuresD(1) [OF cursor_parser_utf8_string [THEN ens_cursor]] .
  show "wf_gptr p \<Longrightarrow> parse_utf8_string (max_symbol_bytes opt) p = Inr (s, p') \<Longrightarrow> gp_moved 0 p p' \<and> symbol_ok opt s" for p s p'
    using ensuresD(2) [OF cursor_parser_utf8_string [THEN ens_cursor]]
    by (auto simp: parse_utf8_string_def gp_raw_bytes_def res_simps scoped_shrink_bounds_def symbol_ok_def word_le_nat_alt split: if_splits)
qed

lemma ens_import_entry: "ensures (parse_import_entry opt m) (import_ok opt m)"
  unfolding parse_import_entry_def
  by (rule ens_seq [OF ens_symbol], rule ens_seq [OF ens_symbol], intro ens) (auto simp: import_ok_def)

lemma ens_table_type: "ensures (parse_table_type opt) (limits_ok opt)"
proof -
  have mx: "ensures (if fl \<noteq> 0 then seqP parse_varuint32 (\<lambda>mx. checkP (ini \<le> mx) (retP mx)) else retP 0)
      (\<lambda>mx. fl \<noteq> 0 \<longrightarrow> ini \<le> mx)" for fl :: u8 and ini
    by (intro ens) auto
  show ?thesis
    unfolding parse_table_type_def
    by (intro ens_any ens_guard ens_reads ens_flags ens_seq [OF mx] ens_ret) (auto simp: limits_ok_def)
qed

lemma ens_memory_type: "ensures (parse_memory_type opt) (memory_ok opt)"
proof -
  have mx: "ensures (if fl \<noteq> 0 then seqP parse_varuint32 (\<lambda>mx. checkP (mx \<ge> ini) (checkP (mx \<le> 65536) (retP mx))) else retP 0)
      (\<lambda>mx. fl \<noteq> 0 \<longrightarrow> ini \<le> mx \<and> mx \<le> 65536)" for fl :: u8 and ini
    by (intro ens) auto
  show ?thesis
    unfolding parse_memory_type_def
    by (intro ens_any ens_guard ens_reads ens_flags ens_seq [OF mx] ens_ret) (auto simp: memory_ok_def)
qed

lemma count_bytes_no_ub: "count_bytes l s c \<noteq> Inl Undefined_behaviour"
  by (simp add: count_bytes_def Let_def assertE_eq_Inl_iff)

lemma on_mutable_global_no_ub: "on_mutable_global opt ty c \<noteq> Inl Undefined_behaviour"
  by (simp add: on_mutable_global_def count_bytes_no_ub split: option.split)

lemma lb_on_local_no_ub: "lb_on_local opt ty n lb \<noteq> Inl Undefined_behaviour"
  by (simp add: lb_on_local_def count_bytes_no_ub bindE_eq_Inl_iff split: option.split)

lemma lb_init_no_ub: "lb_init opt ft \<noteq> Inl Undefined_behaviour"
proof -
  have "lb_on_types l ts lb \<noteq> Inl Undefined_behaviour" for l ts lb
    by (induction ts arbitrary: lb) (auto simp: lb_on_type_def bindE_eq_Inl_iff count_bytes_no_ub)
  then show ?thesis by (simp add: lb_init_def Let_def split: option.split)
qed

lemma ens_global_variable: "ensures (parse_global_variable opt c) (\<lambda>(g, _). global_ok opt g)"
proof -
  have c: "ensures (if mu \<noteq> 0 then liftP (on_mutable_global opt ct c) else retP c) (\<lambda>_. True)" for mu :: u8 and ct
    by (intro ens on_mutable_global_no_ub) auto
  show ?thesis
    unfolding parse_global_variable_def
    by (intro ens_any [OF c] ens_any ens_guard ens_reads ens_seq [OF ens_init_expr] ens_ret) (auto simp: global_ok_def)
qed

lemma ens_at: "ensures (liftP (at_checked xs i)) (\<lambda>x. i < length xs \<and> x = xs ! i)"
  by (intro ens) (auto simp: at_checked_def split: if_splits)

lemma ens_export_entry: "ensures (parse_export_entry opt m) (export_ok opt m)"
  unfolding parse_export_entry_def Let_def
  by (rule ens_seq [OF ens_symbol], intro ens_any ens_reads)
    (auto split: external_kind.split simp: export_ok_def intro!: ens_guard ens_ret ens_lift ens_seq [OF ens_at])

lemma ens_elem_entries:
  "ensures (parse_elem_expr m fast) (entry_ok m fast)" "ensures (parse_elem_index m fast) (entry_ok m fast)"
proof -
  define first where "first oc = (if oc = 0xD0 then seqP peek_parser (\<lambda>b. checkP (b = t_anyfunc)
             (seqP skip_parser (\<lambda>_. retP \<lparr>te_type = 0xFFFFFFFF, te_index = 0xFFFFFFFF\<rparr>)))
           else if oc = 0xD2 then seqP parse_varuint32 (\<lambda>idx. checkP (unat idx < get_functions_total m)
             (seqP (liftP (at_checked fast (unat idx))) (\<lambda>ty. retP \<lparr>te_type = ty, te_index = idx\<rparr>)))
           else liftP (Inl Wasm_parse_exception))" for oc :: u8
  have "ensures (first oc) (entry_ok m fast)" for oc
    unfolding first_def
    by (intro ens_if ens_guard ens_seq [OF ens_at] ens_any ens_reads ens_lift ens_ret) (auto simp: entry_ok_def)
  note f = this
  show "ensures (parse_elem_expr m fast) (entry_ok m fast)"
    unfolding parse_elem_expr_def first_def [symmetric]
    by (intro ens_any ens_reads ens_seq [OF f] ens_guard ens_ret) auto
  show "ensures (parse_elem_index m fast) (entry_ok m fast)"
    unfolding parse_elem_index_def
    by (intro ens_any ens_reads ens_seq [OF ens_at] ens_guard ens_ret) (auto simp: entry_ok_def)
qed

text \<open>The first part of an element segment: offset, mode and table.\<close>

definition elem_mode_part :: "vm_options \<Rightarrow> vm_module \<Rightarrow> u32 \<Rightarrow> u32 \<Rightarrow> (init_expr \<times> elem_mode \<times> table_type option) parser" where
  "elem_mode_part opt m flags idx = (if flags AND 1 = 0
     then seqP (parse_init_expr opt t_i32) (\<lambda>off. checkP (unat idx < length (m_tables m))
       (seqP (liftP (at_unchecked (m_tables m) (unat idx))) (\<lambda>tt. retP (off, Active, Some tt))))
     else retP (\<lparr>ie_opcode = 0, ie_value = 0\<rparr>, if flags AND 2 \<noteq> 0 then Declarative else Passive, None))"

lemma ens_elem_mode_part:
  "ensures (elem_mode_part opt m flags idx)
     (\<lambda>(off, mode, _). mode = Active \<longrightarrow> unat idx < length (m_tables m) \<and> ie_opcode off = 0x41)"
  unfolding elem_mode_part_def
  by (intro ens_if ens_seq [OF ens_init_expr] ens_any ens_guard ens_ret ens_lift) (auto simp: init_type_i32 at_unchecked_def)

lemma ens_elem_segment: "ensures (parse_elem_segment opt m fast) (elem_ok opt m fast)"
proof -
  have idx: "ensures (if b then parse_varuint32 else retP 0) (\<lambda>_. True)" for b
    by (intro ens) auto
  have kind: "ensures (if b then seqP gp_next (\<lambda>k. checkP (k = 0) (retP ()))
      else if b' then seqP gp_next (\<lambda>rt. checkP (rt = t_anyfunc) (retP ())) else retP ()) (\<lambda>_. True)" for b b'
    by (intro ens) auto
  have entries: "ensures (repeatP n (if b then parse_elem_expr m fast else parse_elem_index m fast))
      (\<lambda>xs. length xs = n \<and> list_all (entry_ok m fast) xs)" for n b
    by (intro ens_repeat ens_if ens_elem_entries)
  have rest: "ensures (seqP parse_varuint32 (\<lambda>size. checkP (size \<le> max_element_segment_elements opt)
      (seqP (repeatP (unat size) (if b then parse_elem_expr m fast else parse_elem_index m fast)) (\<lambda>es.
        retP \<lparr>es_index = idx, es_offset = off, es_mode = mode, es_elems = es\<rparr>)))) (elem_ok opt m fast)"
    if "mode = Active \<longrightarrow> unat idx < length (m_tables m) \<and> ie_opcode off = 0x41" for b idx off mode
    using that
    by (intro ens_any [OF ens_reads(5)] ens_guard ens_seq [OF entries] ens_ret) (auto simp: elem_ok_def word_le_nat_alt)
  show ?thesis
    unfolding parse_elem_segment_def Let_def elem_mode_part_def [symmetric]
    by (rule ens_any [OF ens_reads(5)], rule ens_guard, simp, rule ens_guard, simp, rule ens_any [OF idx],
        rule ens_seq [OF ens_elem_mode_part], clarify, rule ens_any [OF kind], rule ens_guard, simp, rule rest, simp)
qed

definition data_head :: "vm_options \<Rightarrow> vm_module \<Rightarrow> u32 \<Rightarrow> (u32 \<times> init_expr \<times> bool) parser" where
  "data_head opt m flag = (if flag = 0 \<or> \<not> enable_bulk_memory opt
     then seqP (parse_init_expr opt t_i32) (\<lambda>off. checkP (length (m_memories m) \<noteq> 0) (retP (flag, off, False)))
     else if flag = 1 then retP (flag, \<lparr>ie_opcode = 0x41, ie_value = 0\<rparr>, True)
     else if flag = 2
     then seqP parse_varuint32 (\<lambda>idx. seqP (parse_init_expr opt t_i32) (\<lambda>off.
            checkP (unat idx < length (m_memories m)) (retP (idx, off, False))))
     else liftP (Inl Wasm_parse_exception))"

lemma ens_data_head:
  "ensures (data_head opt m flag) (\<lambda>(idx, off, passive). ie_opcode off = 0x41 \<and> (\<not> passive \<longrightarrow> m_memories m \<noteq> [])
     \<and> (enable_bulk_memory opt \<and> \<not> passive \<longrightarrow> unat idx < length (m_memories m)))"
  unfolding data_head_def
  by (intro ens_if ens_any [OF ens_reads(5)] ens_seq [OF ens_init_expr] ens_guard ens_ret ens_lift) (auto simp: init_type_i32)

text \<open>The sum of two numbers of 32 bits does not wrap in 64.\<close>

lemma linear_init: "ucast (a :: u32) + ucast (b :: u32) \<le> (c :: u64) \<longleftrightarrow> unat a + unat b \<le> unat c"
proof -
  have "unat (ucast a :: u64) = unat a" "unat (ucast b :: u64) = unat b" by (simp_all add: unat_ucast_up)
  moreover have "unat a < 2 ^ 32" "unat b < 2 ^ 32" using unat_less_32 [of a] unat_less_32 [of b] by simp_all
  ultimately have "unat (ucast a + ucast b :: u64) = unat a + unat b" by (subst unat_add_lem [THEN iffD1]) simp_all
  then show ?thesis by (simp add: word_le_nat_alt)
qed

lemma ens_data_segment: "ensures (parse_data_segment opt m) (data_ok opt m)"
  unfolding parse_data_segment_def data_head_def [symmetric]
  by (rule ens_any [OF ens_reads(5)], rule ens_seq [OF ens_data_head], clarify, rule ens_any [OF ens_reads(5)],
      rule ens_guard, simp, rule ens_guard, simp, rule ens_seq [OF ens_bytes], rule ens_ret)
    (auto simp: data_ok_def linear_init word_le_nat_alt [where 'a = 32])

lemma ens_name_assoc: "ensures parse_name_assoc (\<lambda>_. True)"
  unfolding parse_name_assoc_def by (intro ens) auto

lemma ens_name_map [ens]: "ensures (parse_name_map n) (\<lambda>_. True)"
  unfolding parse_name_map_def by (rule ens_conseq [OF ens_repeat [OF ens_name_assoc]]) simp

lemma ens_local_names: "ensures parse_local_names (\<lambda>_. True)"
  unfolding parse_local_names_def by (intro ens) auto

lemma ens_name_step:
  assumes "ensures body (\<lambda>_. True)" and "\<And>n. ensures (rest n) (\<lambda>_. True)"
  shows "ensures (name_step sub body upd names rest) (\<lambda>_. True)"
proof -
  have "ensures (name_subsection body) (\<lambda>_. True)"
    unfolding name_subsection_def by (intro ens_any ens_reads ens_consume assms)
  then show ?thesis unfolding name_step_def by (intro ens assms TrueI)
qed

lemma ens_name_section: "ensures parse_name_section (\<lambda>_. True)"
proof -
  have "ensures (repeatP n parse_local_names) (\<lambda>_. True)" for n
    by (rule ens_conseq [OF ens_repeat [OF ens_local_names]]) simp
  then show ?thesis unfolding parse_name_section_def Let_def by (intro ens_name_step ens TrueI) simp_all
qed

lemma ens_custom: "ensures (parse_custom opt m) (\<lambda>m'. \<exists>ns. m' = m\<lparr>m_names := ns\<rparr>)"
proof -
  have "\<exists>ns. m = m\<lparr>m_names := ns\<rparr>" by (rule exI [of _ "m_names m"]) simp
  then show ?thesis
    unfolding parse_custom_def by (intro ens_any [OF ens_name_section] ens) auto
qed

lemma ens_local_set: "ensures (parse_local_set opt lb) (\<lambda>(l, _). is_value_type opt (le_type l) \<and> True)"
  unfolding parse_local_set_def Let_def
  by (intro ens_any ens_reads ens_guard ens_lift ens_ret lb_on_local_no_ub) auto

lemma ens_function_body: "ensures (parse_function_body opt m idx) (body_ok opt)"
proof -
  have locals: "ensures (fill_loop n 0 (\<lambda>_. parse_local_set opt) lb)
      (\<lambda>(ls, _). length ls = n \<and> list_all (\<lambda>l. is_value_type opt (le_type l)) ls \<and> True)" for n lb
    by (rule ens_fill [where I = "\<lambda>_. True", OF ens_local_set]) simp
  have final: "ensures (if b then retP () else seqP peek_parser (\<lambda>b. checkP (b = 0x0B) (retP ()))) (\<lambda>_. True)" for b
    by (intro ens) auto
  have rest: "ensures (scoped_shrink_bounds (unat size) (seqP (cursorP (\<lambda>p. mk_gptr (gp_buf p) (raw_ptr p) (unat size))) (\<lambda>body.
        seqP (advanceP (unat (size - 1))) (\<lambda>_.
        seqP (if allow_code_after_function_end opt then retP () else seqP peek_parser (\<lambda>b. checkP (b = 0x0B) (retP ()))) (\<lambda>_.
        seqP skip_parser (\<lambda>_.
          retP (\<lparr>fb_size = size, fb_locals = locals, fb_code = 0, fb_stack_size = 0\<rparr>, body, lb'))))))) (body_ok opt)"
    if "list_all (\<lambda>l. is_value_type opt (le_type l)) locals" for size locals lb'
    using that
    by (intro ens_body ens_any [OF ens_advance] ens_any [OF final] ens_any [OF ens_reads(3)] ens_ret) (auto simp: body_ok_def)
  have ft: "ensures (liftP (bindE (at_checked (m_functions m) idx) (\<lambda>ty. at_checked (m_types m) (unat ty)))) (\<lambda>_. True)"
    by (intro ens) (auto simp: bindE_eq_Inl_iff)
  have lb: "ensures (liftP (lb_init opt ft)) (\<lambda>_. True)" for ft
    by (intro ens lb_init_no_ub TrueI)
  have off: "ensures (cursorP gp_offset) (\<lambda>_. True)" by (intro ens TrueI)
  show ?thesis
    unfolding parse_function_body_def Let_def
    by (rule ens_any [OF ens_reads(5)], rule ens_guard, simp, rule ens_any [OF off], rule ens_any [OF ens_reads(5)],
        rule ens_guard, simp, rule ens_any [OF ft], rule ens_any [OF lb], rule ens_seq [OF locals], clarify,
        rule ens_any [OF off], rule rest)
qed

section \<open>Sections\<close>

lemma ens_section_impl:
  assumes "\<And>i st. ensures (f i st) (\<lambda>(x, _). P x)"
  shows "ensures (parse_section_impl mx f st) (\<lambda>(xs, _). list_all P xs \<and> length xs \<le> unat mx)"
proof -
  have "ensures (f i st) (\<lambda>(x, st'). P x \<and> True)" for i st
    by (rule ens_conseq [OF assms]) auto
  note fill = ens_fill [where I = "\<lambda>_. True", OF this TrueI]
  show ?thesis
    unfolding parse_section_impl_def
    by (rule ens_any [OF ens_reads(5)], rule ens_guard, simp, rule ens_conseq [OF fill]) (auto simp: word_le_nat_alt)
qed

lemma ens_pure_section:
  assumes "\<And>i. ensures (f i) P"
  shows "ensures (pure_section mx f) (\<lambda>xs. list_all P xs \<and> length xs \<le> unat mx)"
proof -
  have "ensures (seqP (f i) (\<lambda>x. retP (x, ()))) (\<lambda>(x, _). P x)" for i
    by (rule ens_seq [OF assms], rule ens_ret) simp
  note impl = ens_section_impl [of "\<lambda>i st. seqP (f i) (\<lambda>x. retP (x, ()))", OF this]
  show ?thesis unfolding pure_section_def by (rule ens_seq [OF impl]) (auto intro: ens_ret)
qed

section \<open>Export names\<close>

lemma adjacent_find_sorted: "sorted xs \<Longrightarrow> adjacent_find xs \<longleftrightarrow> \<not> distinct xs" for xs :: "'a::linorder list"
proof (induction xs rule: adjacent_find.induct)
  case (1 x y zs)
  have "x = y" if "x \<in> set zs" using 1(2) that by (auto simp: order.antisym)
  then show ?case using 1 by auto
qed auto

lemma validate_exports_eq:
  "validate_exports m = (if distinct (map field_str (m_exports m)) then Inr () else Inl Wasm_parse_exception)"
  by (simp add: validate_exports_def adjacent_find_sorted assertE_def)

section \<open>Type aliases\<close>

lemma mapE_Inr: "mapE f xs = Inr ys \<longleftrightarrow> list_all2 (\<lambda>x y. f x = Inr y) xs ys"
  by (induction xs arbitrary: ys) (auto simp: res_simps list_all2_Cons1)

lemma mapE_no_ub: "(\<And>x. x \<in> set xs \<Longrightarrow> f x \<noteq> Inl Undefined_behaviour) \<Longrightarrow> mapE f xs \<noteq> Inl Undefined_behaviour"
  by (induction xs) (auto simp: bindE_eq_Inl_iff)

lemma first_equal_type:
  assumes "i < length ts" and "length ts < 2 ^ 32"
  defines "j \<equiv> unat (first_equal_type ts i)"
  shows "j \<le> i" and "func_type_eq (ts ! j) (ts ! i)" and "\<And>k. k < j \<Longrightarrow> \<not> func_type_eq (ts ! k) (ts ! i)"
proof -
  let ?P = "\<lambda>j. \<not> func_type_eq (ts ! j) (ts ! i)"
  let ?n = "length (takeWhile ?P [0..<i])"
  have le: "?n \<le> i" using length_takeWhile_le [of ?P "[0..<i]"] by simp
  then have j: "j = ?n" unfolding j_def first_equal_type_def using assms(1,2) by (intro unat_of_nat_small) simp
  show "j \<le> i" using le j by simp
  show "func_type_eq (ts ! j) (ts ! i)"
  proof (cases "j = i")
    case False
    with le j have "?n < length [0..<i]" by simp
    from nth_length_takeWhile [OF this] show ?thesis using j False le by simp
  qed (simp add: func_type_eq_refl)
  fix k assume k: "k < j"
  have "takeWhile ?P [0..<i] ! k \<in> set (takeWhile ?P [0..<i])" using k j by simp
  then have "?P (takeWhile ?P [0..<i] ! k)" using set_takeWhileD by fastforce
  then show "?P k" using k j le by (simp add: takeWhile_nth)
qed

lemma first_equal_type_eq_iff:
  assumes "i < length ts" and "k < length ts" and "length ts < 2 ^ 32"
  shows "first_equal_type ts i = first_equal_type ts k \<longleftrightarrow> func_type_eq (ts ! i) (ts ! k)"
proof
  note i = first_equal_type [OF assms(1,3)] and k = first_equal_type [OF assms(2,3)]
  show "first_equal_type ts i = first_equal_type ts k \<Longrightarrow> func_type_eq (ts ! i) (ts ! k)"
    using i(2) k(2) func_type_eq_sym func_type_eq_trans by metis
  assume e: "func_type_eq (ts ! i) (ts ! k)"
  have "\<not> unat (first_equal_type ts i) < unat (first_equal_type ts k)"
    using k(3) func_type_eq_trans [OF i(2) e] by blast
  moreover have "\<not> unat (first_equal_type ts k) < unat (first_equal_type ts i)"
    using i(3) func_type_eq_trans [OF k(2) func_type_eq_sym [OF e]] by blast
  ultimately show "first_equal_type ts i = first_equal_type ts k" by (simp add: word_unat_eq_iff)
qed

lemma normalize_types_Inr:
  assumes "normalize_types m = Inr (aliases, fast)"
  shows "aliases = map (first_equal_type (m_types m)) [0..<length (m_types m)]"
    and "length fast = get_imported_functions_size m + length (m_functions m)"
    and "list_all (\<lambda>t. unat t < length (m_types m)) (m_functions m)"
proof -
  from assms obtain fi ff where a: "aliases = map (first_equal_type (m_types m)) [0..<length (m_types m)]"
    and fi: "mapE (\<lambda>i. bindE (at_unchecked (m_imports m) i) (\<lambda>im. at_checked aliases (unat (import_func_t im))))
        [0..<get_imported_functions_size m] = Inr fi"
    and ff: "mapE (\<lambda>ty. at_checked aliases (unat ty)) (m_functions m) = Inr ff" and f: "fast = fi @ ff"
    by (auto simp: normalize_types_def Let_def res_simps)
  show "aliases = map (first_equal_type (m_types m)) [0..<length (m_types m)]" by (rule a)
  show "length fast = get_imported_functions_size m + length (m_functions m)"
    using fi [unfolded mapE_Inr, THEN list_all2_lengthD] ff [unfolded mapE_Inr, THEN list_all2_lengthD] f by simp
  show "list_all (\<lambda>t. unat t < length (m_types m)) (m_functions m)"
    using ff a by (auto simp: mapE_Inr list_all2_conv_all_nth list_all_length at_checked_eq_Inr_iff)
qed

lemma normalize_types_fast:
  assumes n: "normalize_types m = Inr (aliases, fast)" and f: "f < length fast"
  obtains k where "k < length (m_types m)" and "fast ! f = aliases ! k" and "get_function_type m f = Inr (m_types m ! k)"
proof -
  let ?n = "get_imported_functions_size m"
  from n obtain fi ff where a: "length aliases = length (m_types m)"
    and fi: "mapE (\<lambda>i. bindE (at_unchecked (m_imports m) i) (\<lambda>im. at_checked aliases (unat (import_func_t im)))) [0..<?n] = Inr fi"
    and ff: "mapE (\<lambda>ty. at_checked aliases (unat ty)) (m_functions m) = Inr ff" and fast: "fast = fi @ ff"
    by (auto simp: normalize_types_def Let_def res_simps)
  note fi = fi [unfolded mapE_Inr] and ff = ff [unfolded mapE_Inr]
  have len: "length fi = ?n" using list_all2_lengthD [OF fi] by simp
  show ?thesis
  proof (cases "f < ?n")
    case True
    with list_all2_nthD2 [OF fi, of f] len have i: "f < length (m_imports m)"
      and k: "unat (import_func_t (m_imports m ! f)) < length aliases" "fast ! f = aliases ! unat (import_func_t (m_imports m ! f))"
      by (auto simp: res_simps fast nth_append)
    with True a that show ?thesis by (auto simp: get_function_type_def at_unchecked_def)
  next
    case False
    then have "f - ?n < length ff" using f len by (simp add: fast)
    with list_all2_nthD2 [OF ff this] list_all2_lengthD [OF ff] have
      "unat (m_functions m ! (f - ?n)) < length aliases" "fast ! f = aliases ! unat (m_functions m ! (f - ?n))" "f - ?n < length (m_functions m)"
      using False len by (auto simp: res_simps fast nth_append)
    with False a that show ?thesis by (auto simp: get_function_type_def at_checked_def)
  qed
qed

text \<open>
  C28: the indirect call's type check is exact.  \<open>call_indirect t\<close> compares the alias of type \<open>t\<close> with the
  alias stored in the table entry of function \<open>f\<close>; for the tables that \<open>normalize_types\<close> builds, the two
  numbers agree if and only if the type of \<open>f\<close> and type \<open>t\<close> are equal for \<open>operator==\<close>.
\<close>

theorem call_indirect_alias_exact:
  assumes "normalize_types m = Inr (aliases, fast)" and "length (m_types m) < 2 ^ 32"
    and "f < length fast" and "t < length (m_types m)" and "get_function_type m f = Inr ft"
  shows "fast ! f = aliases ! t \<longleftrightarrow> func_type_eq ft (m_types m ! t)"
proof -
  obtain k where k: "k < length (m_types m)" "fast ! f = aliases ! k" "ft = m_types m ! k"
    using normalize_types_fast [OF assms(1,3)] assms(5) by auto
  show ?thesis
    using first_equal_type_eq_iff [OF k(1) assms(4,2)] k assms(4) normalize_types_Inr(1) [OF assms(1)] by simp
qed

definition two_types :: vm_module where
  "two_types = empty_module\<lparr>m_types := [\<lparr>form = 0x60, param_types = [t_i32], return_count = 0, return_type = 0\<rparr>,
     \<lparr>form = 0x60, param_types = [], return_count = 0, return_type = 0\<rparr>,
     \<lparr>form = 0x60, param_types = [t_i32], return_count = 0, return_type = 0\<rparr>], m_functions := [2, 1]\<rparr>"

theorem call_indirect_alias_exact_witness:
  "normalize_types two_types = Inr ([0, 1, 0], [0, 1]) \<and>
     (([0, 1] :: u32 list) ! 0 = [0, 1, 0] ! 2 \<longleftrightarrow> func_type_eq (m_types two_types ! 2) (m_types two_types ! 2)) \<and>
     func_type_eq (m_types two_types ! 2) (m_types two_types ! 0)"
proof -
  have n: "normalize_types two_types = Inr ([0, 1, 0], [0, 1])"
    by code_simp
  have g: "get_function_type two_types 0 = Inr (m_types two_types ! 2)"
    by (simp add: two_types_def empty_module_def get_function_type_def get_imported_functions_size_def at_checked_def)
  show ?thesis
    using n call_indirect_alias_exact [OF n, of 0 2, OF _ _ _ g] call_indirect_alias_exact [OF n, of 0 0, OF _ _ _ g]
    by (simp add: two_types_def)
qed

section \<open>The invariant of the section loop\<close>

text \<open>
  What holds of the module whatever sections have been read, and, by the place \<open>h\<close> of the last section
  in the prescribed order, which parts are still empty.
\<close>

definition counts_ok :: "vm_options \<Rightarrow> vm_module \<Rightarrow> bool" where
  "counts_ok opt m \<longleftrightarrow> length (m_types m) \<le> unat (max_type_section_elements opt) \<and> length (m_imports m) \<le> unat (max_import_section_elements opt)
     \<and> length (m_functions m) \<le> unat (max_function_section_elements opt) \<and> length (m_globals m) \<le> unat (max_global_section_elements opt)
     \<and> length (m_exports m) \<le> unat (max_export_section_elements opt) \<and> length (m_elements m) \<le> unat (max_element_section_elements opt)
     \<and> length (m_data m) \<le> unat (max_data_section_elements opt)"

definition module_ok :: "vm_options \<Rightarrow> bparser \<Rightarrow> bool" where
  "module_ok opt st \<longleftrightarrow> (let m = px_mod st in counts_ok opt m
     \<and> list_all (type_ok opt) (m_types m) \<and> length (m_types m) < 2 ^ 32
     \<and> list_all (import_ok opt m) (m_imports m) \<and> list_all (\<lambda>t. unat t < length (m_types m)) (m_functions m)
     \<and> length (m_tables m) \<le> 1 \<and> list_all (limits_ok opt) (m_tables m)
     \<and> length (m_memories m) \<le> 1 \<and> list_all (memory_ok opt) (m_memories m) \<and> list_all (global_ok opt) (m_globals m)
     \<and> list_all (export_ok opt m) (m_exports m) \<and> distinct (map field_str (m_exports m))
     \<and> (m_start m \<noteq> 0xFFFFFFFF \<longrightarrow> (\<exists>ft. get_function_type m (unat (m_start m)) = Inr ft \<and> return_count ft = 0 \<and> param_types ft = []))
     \<and> list_all (elem_ok opt m (px_fast st)) (m_elements m) \<and> list_all (data_ok opt m) (m_data m)
     \<and> (m_functions m = [] \<and> px_aliases st = [] \<and> px_fast st = [] \<or> normalize_types m = Inr (px_aliases st, px_fast st))
     \<and> (\<exists>first. code_laid first 0 (m_code m) (px_segment st)))"

definition unread :: "u64 \<Rightarrow> nat \<Rightarrow> bparser \<Rightarrow> bool" where
  "unread pagesize h st \<longleftrightarrow> (let m = px_mod st in
     (h < 2 \<longrightarrow> m_imports m = []) \<and> (h < 3 \<longrightarrow> m_functions m = [] \<and> px_aliases st = [] \<and> px_fast st = [])
     \<and> (h < 7 \<longrightarrow> m_exports m = []) \<and> (h < 8 \<longrightarrow> m_start m = 0xFFFFFFFF) \<and> (h < 9 \<longrightarrow> m_elements m = [])
     \<and> (h < 11 \<longrightarrow> m_code m = [] \<and> px_bodies st = [] \<and> px_segment st = [] \<and> page_ok pagesize (px_alloc st)) \<and> (h < 12 \<longrightarrow> m_data m = []))"

definition sec_inv :: "u64 \<Rightarrow> vm_options \<Rightarrow> nat \<Rightarrow> bparser \<Rightarrow> bool" where
  "sec_inv pagesize opt h st \<longleftrightarrow> module_ok opt st \<and> unread pagesize h st"

lemmas sec_inv_defs = sec_inv_def module_ok_def counts_ok_def unread_def Let_def

lemma fun_total_update [simp]:
  "get_functions_total (m\<lparr>m_names := ns\<rparr>) = get_functions_total m"
  "get_functions_total (m\<lparr>m_tables := ts\<rparr>) = get_functions_total m"
  "get_functions_total (m\<lparr>m_memories := ms\<rparr>) = get_functions_total m"
  "get_functions_total (m\<lparr>m_globals := gs\<rparr>) = get_functions_total m"
  "get_functions_total (m\<lparr>m_exports := es\<rparr>) = get_functions_total m"
  "get_functions_total (m\<lparr>m_start := st\<rparr>) = get_functions_total m"
  "get_functions_total (m\<lparr>m_elements := el\<rparr>) = get_functions_total m"
  "get_functions_total (m\<lparr>m_data := ds\<rparr>) = get_functions_total m"
  "get_functions_total (m\<lparr>m_maximum_stack := mx, m_code := c\<rparr>) = get_functions_total m"
  "get_functions_total (m\<lparr>m_maximum_stack := mx\<rparr>) = get_functions_total m"
  "get_functions_total (m\<lparr>m_stack_limit_is_bytes := lb\<rparr>) = get_functions_total m"
  "get_functions_total (m\<lparr>m_code := c\<rparr>) = get_functions_total m"
  by (simp_all add: get_functions_total_def get_imported_functions_size_def get_functions_size_def)

lemma fun_type_update [simp]:
  "get_function_type (m\<lparr>m_names := ns\<rparr>) i = get_function_type m i"
  "get_function_type (m\<lparr>m_tables := ts\<rparr>) i = get_function_type m i"
  "get_function_type (m\<lparr>m_memories := ms\<rparr>) i = get_function_type m i"
  "get_function_type (m\<lparr>m_globals := gs\<rparr>) i = get_function_type m i"
  "get_function_type (m\<lparr>m_exports := es\<rparr>) i = get_function_type m i"
  "get_function_type (m\<lparr>m_start := st\<rparr>) i = get_function_type m i"
  "get_function_type (m\<lparr>m_elements := el\<rparr>) i = get_function_type m i"
  "get_function_type (m\<lparr>m_data := ds\<rparr>) i = get_function_type m i"
  "get_function_type (m\<lparr>m_maximum_stack := mx\<rparr>) i = get_function_type m i"
  "get_function_type (m\<lparr>m_stack_limit_is_bytes := lb\<rparr>) i = get_function_type m i"
  "get_function_type (m\<lparr>m_code := c\<rparr>) i = get_function_type m i"
  by (simp_all add: get_function_type_def get_imported_functions_size_def)

lemma normalize_update [simp]:
  "normalize_types (m\<lparr>m_names := ns\<rparr>) = normalize_types m"
  "normalize_types (m\<lparr>m_tables := ts\<rparr>) = normalize_types m"
  "normalize_types (m\<lparr>m_memories := ms\<rparr>) = normalize_types m"
  "normalize_types (m\<lparr>m_globals := gs\<rparr>) = normalize_types m"
  "normalize_types (m\<lparr>m_exports := es\<rparr>) = normalize_types m"
  "normalize_types (m\<lparr>m_start := st\<rparr>) = normalize_types m"
  "normalize_types (m\<lparr>m_elements := el\<rparr>) = normalize_types m"
  "normalize_types (m\<lparr>m_data := ds\<rparr>) = normalize_types m"
  "normalize_types (m\<lparr>m_maximum_stack := mx\<rparr>) = normalize_types m"
  "normalize_types (m\<lparr>m_stack_limit_is_bytes := lb\<rparr>) = normalize_types m"
  "normalize_types (m\<lparr>m_code := c\<rparr>) = normalize_types m"
  by (simp_all add: normalize_types_def get_imported_functions_size_def)

text \<open>Which parts of the module the entry conditions look at.\<close>

lemma entries_cong:
  "m_types m' = m_types m \<Longrightarrow> import_ok opt m' = import_ok opt m"
  "get_functions_total m' = get_functions_total m \<Longrightarrow> entry_ok m' = entry_ok m"
  "get_functions_total m' = get_functions_total m \<Longrightarrow> m_tables m' = m_tables m \<Longrightarrow> elem_ok opt m' = elem_ok opt m"
  "m_memories m' = m_memories m \<Longrightarrow> data_ok opt m' = data_ok opt m"
  "get_functions_total m' = get_functions_total m \<Longrightarrow> m_tables m' = m_tables m \<Longrightarrow> m_memories m' = m_memories m
     \<Longrightarrow> m_globals m' = m_globals m \<Longrightarrow> export_ok opt m' = export_ok opt m"
  by (auto simp: fun_eq_iff import_ok_def entry_ok_def [abs_def] elem_ok_def data_ok_def export_ok_def split: external_kind.splits)

lemma imports_all_functions:
  "list_all (import_ok opt m) (m_imports m) \<Longrightarrow> get_imported_functions_size m = length (m_imports m)"
  by (simp add: get_imported_functions_size_def list_all_iff import_ok_def)

lemma get_function_type_no_ub:
  "list_all (import_ok opt m) (m_imports m) \<Longrightarrow> get_function_type m i \<noteq> Inl Undefined_behaviour"
  using imports_all_functions [of opt m]
  by (auto simp: get_function_type_def at_unchecked_def bindE_eq_Inl_iff list_all_length import_ok_def)

lemma normalize_types_no_ub:
  "list_all (import_ok opt m) (m_imports m) \<Longrightarrow> normalize_types m \<noteq> Inl Undefined_behaviour"
  unfolding normalize_types_def Let_def
  by (intro bindE_no_ub mapE_no_ub at_checked_no_ub at_unchecked_no_ub) (simp_all add: imports_all_functions)

lemma ens_with_mod: "ensures (f (px_mod st)) (\<lambda>m'. Q (st\<lparr>px_mod := m'\<rparr>)) \<Longrightarrow> ensures (with_mod st f) Q"
  unfolding with_mod_def by (erule ens_seq, rule ens_ret)

text \<open>A section that reads a vector and stores it in the module.\<close>

lemma ens_store:
  assumes "\<And>i. ensures (f i) P" and "\<And>xs. list_all P xs \<Longrightarrow> length xs \<le> unat mx \<Longrightarrow> Q (g xs)"
  shows "ensures (seqP (pure_section mx f) (\<lambda>xs. retP (g xs))) Q"
  by (rule ens_seq [OF ens_pure_section [OF assms(1)]], rule ens_ret) (use assms(2) in blast)

lemma sec_custom: "sec_inv pagesize opt h st \<Longrightarrow> ensures (with_mod st (parse_custom opt)) (sec_inv pagesize opt h)"
  by (rule ens_with_mod, rule ens_conseq [OF ens_custom], elim exE)
    (simp add: sec_inv_defs entries_cong [of "m\<lparr>m_names := ns\<rparr>" m for m ns])

lemma sec_type:
  "sec_inv pagesize opt h st \<Longrightarrow> h < 1 \<Longrightarrow> ensures (with_mod st (parse_type_section opt)) (sec_inv pagesize opt 1)"
  unfolding parse_type_section_def
  by (rule ens_with_mod, rule ens_store [OF ens_func_type]) (auto simp: sec_inv_defs intro: le_less_trans [OF _ unat_less_32])

lemma sec_import:
  "sec_inv pagesize opt h st \<Longrightarrow> h < 2 \<Longrightarrow> ensures (with_mod st (parse_import_section opt)) (sec_inv pagesize opt 2)"
  unfolding parse_import_section_def
  by (rule ens_with_mod, rule ens_store [OF ens_import_entry])
    (auto simp: sec_inv_defs entries_cong(1) [of "m\<lparr>m_imports := is\<rparr>" m for m "is"])

lemma sec_table:
  "sec_inv pagesize opt h st \<Longrightarrow> h < 4 \<Longrightarrow> ensures (with_mod st (parse_table_section opt)) (sec_inv pagesize opt 4)"
  unfolding parse_table_section_def
  by (rule ens_with_mod, rule ens_store [OF ens_table_type])
    (auto simp: sec_inv_defs entries_cong [of "m\<lparr>m_tables := ts\<rparr>" m for m ts])

lemma sec_memory:
  assumes "sec_inv pagesize opt h st" and "h < 5"
  shows "ensures (with_mod st (parse_memory_section opt)) (sec_inv pagesize opt 5)"
proof -
  have "ensures (checkP (i = 0) (parse_memory_type opt)) (memory_ok opt)" for i :: nat
    by (intro ens_guard ens_memory_type) simp
  then show ?thesis
    unfolding parse_memory_section_def
    by (intro ens_with_mod ens_store)
      (use assms in \<open>auto simp: sec_inv_defs entries_cong [of "m\<lparr>m_memories := ms\<rparr>" m for m ms]\<close>)
qed

lemma sec_export:
  assumes "sec_inv pagesize opt h st" and "h < 7"
  shows "ensures (seqP (with_mod st (parse_export_section opt)) (\<lambda>st1.
      seqP (liftP (validate_exports (px_mod st1))) (\<lambda>_. retP st1))) (sec_inv pagesize opt 7)"
proof (rule ens_seq)
  show "ensures (with_mod st (parse_export_section opt))
      (\<lambda>st1. distinct (map field_str (m_exports (px_mod st1))) \<longrightarrow> sec_inv pagesize opt 7 st1)"
    unfolding parse_export_section_def
    by (rule ens_with_mod, rule ens_store [OF ens_export_entry])
      (use assms in \<open>auto simp: sec_inv_defs entries_cong [of "m\<lparr>m_exports := es\<rparr>" m for m es]\<close>)
  fix st1 assume d: "distinct (map field_str (m_exports (px_mod st1))) \<longrightarrow> sec_inv pagesize opt 7 st1"
  show "ensures (seqP (liftP (validate_exports (px_mod st1))) (\<lambda>_. retP st1)) (sec_inv pagesize opt 7)"
    by (rule ens_seq [where P = "\<lambda>_. distinct (map field_str (m_exports (px_mod st1)))"])
      (auto simp: validate_exports_eq d split: if_splits intro!: ens_lift ens_ret)
qed

lemma sec_start:
  assumes i: "sec_inv pagesize opt h st" and "h < 8"
  shows "ensures (with_mod st parse_start_section) (sec_inv pagesize opt 8)"
proof -
  have imp: "list_all (import_ok opt (px_mod st)) (m_imports (px_mod st))" using i by (simp add: sec_inv_defs)
  have ft: "ensures (liftP (get_function_type (px_mod st) n)) (\<lambda>ft. get_function_type (px_mod st) n = Inr ft)" for n
    by (rule ens_lift) (simp_all add: get_function_type_no_ub [OF imp])
  show ?thesis
    unfolding parse_start_section_def
    by (rule ens_with_mod, rule ens_any [OF ens_reads(5)], rule ens_seq [OF ft], rule ens_guard, simp, rule ens_ret)
      (use assms in \<open>simp add: sec_inv_defs entries_cong [of "m\<lparr>m_start := n\<rparr>" m for m n]\<close>)
qed

lemma sec_element:
  "sec_inv pagesize opt h st \<Longrightarrow> h < 9 \<Longrightarrow>
     ensures (with_mod st (parse_element_section opt (px_fast st))) (sec_inv pagesize opt 9)"
  unfolding parse_element_section_def
  by (rule ens_with_mod, rule ens_store [OF ens_elem_segment])
    (auto simp: sec_inv_defs entries_cong [of "m\<lparr>m_elements := es\<rparr>" m for m es])

lemma sec_data:
  assumes "sec_inv pagesize opt h st" and "h < 12"
  shows "ensures (with_mod st (parse_data_section opt (px_datacount st))) (sec_inv pagesize opt 12)"
  unfolding parse_data_section_def
  by (rule ens_with_mod, rule ens_seq [OF ens_pure_section [OF ens_data_segment]], rule ens_guard, simp, rule ens_ret)
    (use assms in \<open>auto simp: sec_inv_defs entries_cong [of "m\<lparr>m_data := es\<rparr>" m for m es]\<close>)

lemma sec_global:
  assumes "sec_inv pagesize opt h st" and "h < 6"
  shows "ensures (seqP (parse_global_section opt (px_mod st, px_globals st)) (\<lambda>(m', c').
        retP (st\<lparr>px_mod := m', px_globals := c'\<rparr>))) (sec_inv pagesize opt 6)"
proof -
  note impl = ens_section_impl [of "\<lambda>_. parse_global_variable opt", OF ens_global_variable]
  have "ensures (parse_global_section opt (px_mod st, px_globals st))
      (\<lambda>(m', c'). sec_inv pagesize opt 6 (st\<lparr>px_mod := m', px_globals := c'\<rparr>))"
    unfolding parse_global_section_def prod.case
    by (rule ens_seq [OF impl], clarify, rule ens_ret)
      (use assms in \<open>auto simp: sec_inv_defs entries_cong [of "m\<lparr>m_globals := gs\<rparr>" m for m gs]\<close>)
  then show ?thesis by (rule ens_seq) (auto intro: ens_ret)
qed

lemma sec_function:
  assumes i: "sec_inv pagesize opt h st" and h: "h < 3"
  shows "ensures (seqP (with_mod st (parse_function_section opt)) (\<lambda>st1.
        seqP (liftP (normalize_types (px_mod st1))) (\<lambda>(aliases, fast). retP (st1\<lparr>px_aliases := aliases, px_fast := fast\<rparr>))))
      (sec_inv pagesize opt 3)"
proof (rule ens_seq)
  show "ensures (with_mod st (parse_function_section opt)) (\<lambda>st1. \<exists>fs. st1 = st\<lparr>px_mod := (px_mod st)\<lparr>m_functions := fs\<rparr>\<rparr> \<and> length fs \<le> unat (max_function_section_elements opt))"
    unfolding parse_function_section_def
    by (rule ens_with_mod, rule ens_store [OF ens_reads(5)]) blast
  fix st1 assume "\<exists>fs. st1 = st\<lparr>px_mod := (px_mod st)\<lparr>m_functions := fs\<rparr>\<rparr> \<and> length fs \<le> unat (max_function_section_elements opt)"
  then obtain fs where st1: "st1 = st\<lparr>px_mod := (px_mod st)\<lparr>m_functions := fs\<rparr>\<rparr>" and fs: "length fs \<le> unat (max_function_section_elements opt)" by blast
  have imp: "list_all (import_ok opt (px_mod st1)) (m_imports (px_mod st1))"
    using i by (simp add: st1 sec_inv_defs entries_cong(1) [of "m\<lparr>m_functions := gs\<rparr>" m for m gs])
  have n: "ensures (liftP (normalize_types (px_mod st1))) (\<lambda>r. normalize_types (px_mod st1) = Inr r)"
    by (rule ens_lift) (use normalize_types_no_ub [OF imp] in auto)
  show "ensures (seqP (liftP (normalize_types (px_mod st1))) (\<lambda>(aliases, fast). retP (st1\<lparr>px_aliases := aliases, px_fast := fast\<rparr>)))
      (sec_inv pagesize opt 3)"
    by (rule ens_seq [OF n], clarify, rule ens_ret)
      (use i h imp fs in \<open>auto simp: sec_inv_defs st1 dest: normalize_types_Inr(3)\<close>)
qed

section \<open>The code section\<close>

lemma write_functions_frame:
  "write_functions opt aliases dc i bodies (m, nested, w) = Inr (m', nested', w') \<Longrightarrow>
     \<exists>ms c. m' = m\<lparr>m_maximum_stack := ms, m_code := c\<rparr> \<and> length c = length (m_code m)"
proof (induction bodies arbitrary: i m nested w)
  case Nil
  then show ?case by (intro exI [of _ "m_maximum_stack m"] exI [of _ "m_code m"]) simp
next
  case (Cons b bodies)
  obtain code lb where b: "b = (code, lb)" by (cases b)
  from Cons.prems obtain m1 nested1 w1 where one: "write_function opt aliases dc i code lb (m, nested, w) = Inr (m1, nested1, w1)"
    and rest: "write_functions opt aliases dc (Suc i) bodies (m1, nested1, w1) = Inr (m', nested', w')"
    by (auto simp: b res_simps)
  from one obtain ms fb where "m1 = m\<lparr>m_maximum_stack := ms, m_code := (m_code m)[i := fb]\<rparr>"
    by (auto simp: write_function_def Let_def res_simps)
  with Cons.IH [OF rest] show ?case by fastforce
qed

lemma write_code_out_frame:
  "write_code_out pagesize opt aliases dc bodies code (m, nested, alloc) = Inr (m', nested', alloc', seg) \<Longrightarrow>
     \<exists>ms c. m' = m\<lparr>m_maximum_stack := ms, m_code := c\<rparr> \<and> length c = length (m_code m)"
  by (auto simp: write_code_out_def res_simps dest: write_functions_frame)

lemma write_code_out_Nil:
  "write_code_out pagesize opt aliases dc [] code = write_code_out pagesize opt aliases' dc [] code"
  by (simp add: write_code_out_def fun_eq_iff)

lemma wf_types_of_module:
  assumes "module_ok opt st"
  shows "wf_types (px_mod st)"
  using assms get_function_type_no_ub [of opt "px_mod st"] is_value_of_type
  unfolding wf_types_def module_ok_def Let_def type_ok_def global_ok_def list_all_iff by blast

lemma bodies_ready_of:
  "list_all (body_ok opt) fbs \<Longrightarrow> bodies_ready (m\<lparr>m_code := map fst fbs\<rparr>) 0 (map snd fbs)"
  by (auto simp: bodies_ready_def body_ready_def list_all_length body_ok_def split_beta intro: is_value_of_type)

lemma sec_code_step:
  assumes i: "sec_inv pagesize opt h st" and h: "h < 11" and fbs: "list_all (body_ok opt) fbs"
    and len: "length fbs = length (m_functions (px_mod st))"
  defines "m \<equiv> (px_mod st)\<lparr>m_code := map fst fbs\<rparr>"
  shows "write_code_out pagesize opt (px_aliases st) dc (map snd fbs) p (m, nested, px_alloc st) \<noteq> Inl Undefined_behaviour"
    and "write_code_out pagesize opt (px_aliases st) dc (map snd fbs) p (m, nested, px_alloc st) = Inr (m', nested', alloc', seg)
      \<Longrightarrow> sec_inv pagesize opt 11 (st\<lparr>px_mod := m', px_bodies := bs, px_nested := nested', px_alloc := alloc', px_segment := seg\<rparr>)"
proof -
  have wf: "wf_types m" unfolding m_def using wf_types_of_module [of opt st] i by (simp add: sec_inv_def)
  have ready: "bodies_ready m 0 (map snd fbs)" unfolding m_def by (rule bodies_ready_of [OF fbs])
  have page: "page_ok pagesize (px_alloc st)" using i h by (simp add: sec_inv_defs)
  have norm: "m_functions (px_mod st) = [] \<or> normalize_types (px_mod st) = Inr (px_aliases st, px_fast st)"
    using i unfolding sec_inv_def module_ok_def Let_def by blast
  define al where "al = (if fbs = [] then map (\<lambda>_. 0) (m_types m) else px_aliases st)"
  have "length al = length (m_types m)"
    using norm len normalize_types_Inr(1) [of "px_mod st" "px_aliases st" "px_fast st"] by (auto simp: al_def m_def)
  note steps = write_code_out_steps [OF wf this ready page]
  have same: "write_code_out pagesize opt (px_aliases st) dc (map snd fbs) = write_code_out pagesize opt al dc (map snd fbs)" for dc
    by (auto simp: al_def fun_eq_iff write_code_out_def)
  show "write_code_out pagesize opt (px_aliases st) dc (map snd fbs) p (m, nested, px_alloc st) \<noteq> Inl Undefined_behaviour"
    unfolding same by (rule steps(1))
  assume r: "write_code_out pagesize opt (px_aliases st) dc (map snd fbs) p (m, nested, px_alloc st) = Inr (m', nested', alloc', seg)"
  obtain ms c where m': "m' = m\<lparr>m_maximum_stack := ms, m_code := c\<rparr>" using write_code_out_frame [OF r] by blast
  have "\<exists>first. code_laid first 0 c seg"
    using steps(2) [OF r [unfolded same]] m' by (simp add: m_def)
  with i h show "sec_inv pagesize opt 11 (st\<lparr>px_mod := m', px_bodies := bs, px_nested := nested', px_alloc := alloc', px_segment := seg\<rparr>)"
    by (simp add: sec_inv_defs m' m_def entries_cong [of "m\<lparr>m_code := c\<rparr>" m for m c] entries_cong [of "m\<lparr>m_maximum_stack := c\<rparr>" m for m c])
qed

lemma sec_code:
  assumes i: "sec_inv pagesize opt h st" and h: "h < 11"
  shows "ensures (parse_code_section pagesize opt st) (sec_inv pagesize opt 11)"
  unfolding parse_code_section_def Let_def
proof (rule ens_seq [OF ens_pure_section [OF ens_function_body]], rule ens_guard, simp)
  fix fbs assume fbs: "list_all (body_ok opt) fbs \<and> length fbs \<le> unat (max_function_section_elements opt)"
    and len: "length fbs = length (m_functions ((px_mod st)\<lparr>m_code := map fst fbs\<rparr>))"
  have len': "length fbs = length (m_functions (px_mod st))" using len by simp
  have fbs': "list_all (body_ok opt) fbs" using fbs by blast
  have b: "px_bodies st = []" using i h by (simp add: sec_inv_defs)
  note step = sec_code_step [OF i h fbs' len']
  show "ensures (\<lambda>p. bindE (write_code_out pagesize opt (px_aliases st) (px_datacount st) (px_bodies st @ map snd fbs) p
        ((px_mod st)\<lparr>m_code := map fst fbs\<rparr>, px_nested st, px_alloc st)) (\<lambda>(m', nested', alloc', seg).
          Inr (st\<lparr>px_mod := m', px_bodies := px_bodies st @ map snd fbs, px_nested := nested', px_alloc := alloc', px_segment := seg\<rparr>, p)))
      (sec_inv pagesize opt 11)"
    unfolding b append_Nil
    by (rule ensuresI) (use step in \<open>auto simp: bindE_eq_Inl_iff res_simps intro: gp_moved_refl\<close>)
qed

section \<open>The loop over the sections\<close>

lemma section_order_values:
  "make_section_order = [0, 1, 2, 3, 4, 5, 6, 7, 8, 9, 11, 12, 10]"
  by code_simp

lemma unread_mono: "unread pagesize h st \<Longrightarrow> h \<le> h' \<Longrightarrow> unread pagesize h' st"
  by (simp add: unread_def Let_def)

lemma sec_datacount:
  "sec_inv pagesize opt h st \<Longrightarrow> h < 10 \<Longrightarrow>
     ensures (seqP parse_varuint32 (\<lambda>n. retP (st\<lparr>px_datacount := Some n\<rparr>))) (sec_inv pagesize opt 10)"
  by (rule ens_any [OF ens_reads(5)], rule ens_ret)
    (use unread_mono [of pagesize h st 10] in \<open>simp add: sec_inv_defs\<close>)

lemma u8_below_13:
  assumes "unat (b :: u8) < 13"
  obtains "b = 0" | "b = 1" | "b = 2" | "b = 3" | "b = 4" | "b = 5" | "b = 6" | "b = 7" | "b = 8" | "b = 9" | "b = 10" | "b = 11" | "b = 12"
proof -
  have "unat b \<in> {0, 1, 2, 3, 4, 5, 6, 7, 8, 9, 10, 11, 12}" using assms unfolding insert_iff empty_iff by presburger
  then show ?thesis using that by (simp add: word_unat_eq_iff) blast
qed

lemma sec_any:
  assumes i: "sec_inv pagesize opt (unat h) st" and sid: "unat sid < 13" and ord: "ord = make_section_order ! unat sid"
    and order: "sid = 0 \<or> h < ord"
  shows "ensures (parse_section pagesize opt sid st) (sec_inv pagesize opt (unat (max h ord)))"
proof (cases "sid = 0")
  case True
  have "max h ord = h" using ord True by (simp add: section_order_values max_def)
  then show ?thesis using sec_custom [OF i] True by (simp add: parse_section_def)
next
  case False
  then have lt: "h < ord" using order by simp
  then have mx: "max h ord = ord" by (intro max.absorb2) simp
  have un: "unat h < unat ord" using lt by (simp add: word_less_nat_alt)
  note secs = sec_type [OF i] sec_import [OF i] sec_function [OF i] sec_table [OF i] sec_memory [OF i] sec_global [OF i]
    sec_export [OF i] sec_start [OF i] sec_element [OF i] sec_code [OF i] sec_data [OF i] sec_datacount [OF i]
  show ?thesis
    unfolding mx using sid un ord False
    by (cases sid rule: u8_below_13) (simp_all add: parse_section_def section_order_values secs secs(1) [simplified])
qed

text \<open>One round of the loop.\<close>

definition section_round :: "u64 \<Rightarrow> vm_options \<Rightarrow> u8 \<Rightarrow> bparser \<Rightarrow> (u8 \<times> bparser) parser" where
  "section_round pagesize opt h st = seqP gp_next (\<lambda>sid. seqP parse_varuint32 (\<lambda>len.
     checkP (unat sid < length make_section_order) (checkP (sid = 0 \<or> make_section_order ! unat sid > h)
     (seqP (scoped_consume_items (unat len) (parse_section pagesize opt sid st))
       (\<lambda>st'. retP (max h (make_section_order ! unat sid), st'))))))"

lemma parse_sections_Suc:
  "parse_sections (Suc n) pagesize opt sz h st p = (if gp_offset p = sz then Inr (st, p)
     else bindE (section_round pagesize opt h st p) (\<lambda>((h', st'), p'). parse_sections n pagesize opt sz h' st' p'))"
  by (cases "gp_next p"; auto simp: section_round_def seqP_def guardP_def retP_def assertE_def bindE_assoc Let_def split_beta
      intro!: bindE_cong)

lemma section_round_ok:
  assumes "sec_inv pagesize opt (unat h) st"
  shows "ensures (section_round pagesize opt h st) (\<lambda>(h', st'). sec_inv pagesize opt (unat h') st')"
    and "wf_gptr p \<Longrightarrow> section_round pagesize opt h st p = Inr (x, p') \<Longrightarrow> gp_moved 1 p p'"
proof -
  define rest where "rest sid = seqP parse_varuint32 (\<lambda>len.
     checkP (unat sid < length make_section_order) (checkP (sid = 0 \<or> make_section_order ! unat sid > h)
     (seqP (scoped_consume_items (unat len) (parse_section pagesize opt sid st))
       (\<lambda>st'. retP (max h (make_section_order ! unat sid), st')))))" for sid :: u8
  have len: "length make_section_order = 13" by (simp add: section_order_values)
  have rest: "ensures (rest sid) (\<lambda>(h', st'). sec_inv pagesize opt (unat h') st')" for sid
    unfolding rest_def len
    by (rule ens_any [OF ens_reads(5)], rule ens_guard, simp, rule ens_guard, simp,
        rule ens_seq [OF ens_consume [OF sec_any [OF assms _ refl]]]) (auto intro: ens_ret)
  show "ensures (section_round pagesize opt h st) (\<lambda>(h', st'). sec_inv pagesize opt (unat h') st')"
    unfolding section_round_def rest_def [symmetric] by (rule ens_any [OF ens_reads(1) rest])
  assume wf: "wf_gptr p" and "section_round pagesize opt h st p = Inr (x, p')"
  then obtain sid q where q: "gp_next p = Inr (sid, q)" and r: "rest sid q = Inr (x, p')"
    by (auto simp: section_round_def rest_def seqP_def [of gp_next] res_simps)
  from ensuresD(2) [OF rest nxt.keeps_wf [OF wf q] r] gp_moved_trans [OF nxt.moves [OF wf q]]
  show "gp_moved 1 p p'" by fastforce
qed

lemma parse_sections_ok:
  assumes "sec_inv pagesize opt (unat h) st" and "wf_gptr p"
  shows "parse_sections n pagesize opt sz h st p \<noteq> Inl Undefined_behaviour"
    and "parse_sections n pagesize opt sz h st p = Inr (st', p') \<Longrightarrow> module_ok opt st' \<and> gp_moved 0 p p'"
  using assms
proof (induction n arbitrary: h st p)
  case 0
  { case 1 then show ?case by simp }
  { case 2 then show ?case by (auto simp: sec_inv_def intro: gp_moved_refl) }
next
  case (Suc n)
  have round: "sec_inv pagesize opt (unat h1) st1 \<and> wf_gptr p1 \<and> gp_moved 0 p p1"
    if "sec_inv pagesize opt (unat h) st" "wf_gptr p" "section_round pagesize opt h st p = Inr ((h1, st1), p1)" for h st p h1 st1 p1
    using ensuresD(2) [OF section_round_ok(1) [OF that(1)] that(2,3)] by simp
  { case 1
    have "bindE (section_round pagesize opt h st p) (\<lambda>((h', st'), p'). parse_sections n pagesize opt sz h' st' p')
        \<noteq> Inl Undefined_behaviour"
      by (rule bindE_no_ub [OF ensuresD(1) [OF section_round_ok(1) [OF 1(1)] 1(2)]])
        (use Suc.IH(1) round [OF 1] in \<open>auto split: prod.split\<close>)
    then show ?case by (simp add: parse_sections_Suc del: parse_sections.simps) }
  { case 2
    then show ?case
    proof (cases "gp_offset p = sz")
      case False
      then obtain h1 st1 p1 where r: "section_round pagesize opt h st p = Inr ((h1, st1), p1)"
        and rest: "parse_sections n pagesize opt sz h1 st1 p1 = Inr (st', p')"
        using 2(1) by (auto simp: parse_sections_Suc res_simps simp del: parse_sections.simps)
      from round [OF 2(2,3) r] Suc.IH(2) [OF rest] gp_moved_trans [of 0 p p1 0 p'] show ?thesis by simp
    qed (auto simp: parse_sections_Suc sec_inv_def intro: gp_moved_refl simp del: parse_sections.simps) }
qed

lemma parse_sections_fuel:
  assumes "sec_inv pagesize opt (unat h) st" and "wf_gptr p" and "bnds p - raw_ptr p \<le> n"
  shows "parse_sections (Suc n + k) pagesize opt sz h st p = parse_sections (Suc n) pagesize opt sz h st p"
  using assms
proof (induction n arbitrary: h st p)
  case 0
  have "section_round pagesize opt h st p \<noteq> Inr (x, p')" for x p'
    using section_round_ok(2) [OF 0(1,2), of x p'] 0(3) by (auto simp: gp_moved_def)
  then obtain e where "section_round pagesize opt h st p = Inl e"
    by (cases "section_round pagesize opt h st p") auto
  then show ?case by (simp add: parse_sections_Suc del: parse_sections.simps)
next
  case (Suc n)
  have "parse_sections (Suc n + k) pagesize opt sz h1 st1 p1 = parse_sections (Suc n) pagesize opt sz h1 st1 p1"
    if r: "section_round pagesize opt h st p = Inr ((h1, st1), p1)" for h1 st1 p1
    using Suc.prems section_round_ok(2) [OF Suc.prems(1,2) r] ensuresD(2) [OF section_round_ok(1) [OF Suc.prems(1)] Suc.prems(2) r]
    by (intro Suc.IH) (auto simp: gp_moved_def)
  then have "bindE (section_round pagesize opt h st p) (\<lambda>((h', st'), p'). parse_sections (Suc n + k) pagesize opt sz h' st' p')
      = bindE (section_round pagesize opt h st p) (\<lambda>((h', st'), p'). parse_sections (Suc n) pagesize opt sz h' st' p')"
    by (intro bindE_cong refl) auto
  then show ?case by (simp only: parse_sections_Suc add_Suc)
qed

section \<open>The whole module\<close>

lemma sec_inv_start:
  assumes "page_ok pagesize alloc"
  shows "sec_inv pagesize opt 0 (px_init (empty_module\<lparr>m_eosio_fp := fp\<rparr>) alloc)"
  using assms by (simp add: sec_inv_defs px_init_def empty_module_def code_laid.simps)

lemma wf_gptr_whole: "wf_gptr (mk_gptr code 0 (length code))"
  by (simp add: wf_gptr_def mk_gptr_def)

lemma module_ok_limit_flag:
  "module_ok opt st \<Longrightarrow> module_ok opt (st\<lparr>px_mod := (px_mod st)\<lparr>m_stack_limit_is_bytes := b\<rparr>\<rparr>)"
  by (simp add: module_ok_def counts_ok_def Let_def entries_cong [of "m\<lparr>m_stack_limit_is_bytes := b\<rparr>" m for m])

lemma ens_sections:
  assumes "page_ok pagesize alloc"
  shows "ensures (\<lambda>p. parse_sections (Suc (bnds p)) pagesize opt sz 0 (px_init (empty_module\<lparr>m_eosio_fp := fp\<rparr>) alloc) p) (module_ok opt)"
proof (rule ensuresI)
  note start = sec_inv_start [OF assms, of opt fp]
  have start': "sec_inv pagesize opt (unat (0 :: u8)) (px_init (empty_module\<lparr>m_eosio_fp := fp\<rparr>) alloc)" using start by simp
  fix p assume wf: "wf_gptr p"
  show "parse_sections (Suc (bnds p)) pagesize opt sz 0 (px_init (empty_module\<lparr>m_eosio_fp := fp\<rparr>) alloc) p \<noteq> Inl Undefined_behaviour"
    by (rule parse_sections_ok(1) [OF start' wf])
  fix st p'
  assume "parse_sections (Suc (bnds p)) pagesize opt sz 0 (px_init (empty_module\<lparr>m_eosio_fp := fp\<rparr>) alloc) p = Inr (st, p')"
  from parse_sections_ok(2) [OF start' wf this] show "gp_moved 0 p p' \<and> module_ok opt st" by blast
qed

lemma ens_module:
  assumes "page_ok pagesize alloc"
  shows "ensures (parse_module pagesize opt sz empty_module alloc)
     (\<lambda>st. module_ok opt st \<and> length (m_code (px_mod st)) = length (m_functions (px_mod st)))"
  unfolding parse_module_def
  by (rule ens_any [OF ens_reads(8)], rule ens_guard, simp, rule ens_any [OF ens_reads(8)], rule ens_guard, simp,
      rule ens_seq [OF ens_sections [OF assms]], rule ens_guard, simp, rule ens_ret)
    (simp add: module_ok_limit_flag)

text \<open>A module of one type and no code: the preamble and a type section.\<close>

definition ex_bytes :: "u8 list" where
  "ex_bytes = [0x00, 0x61, 0x73, 0x6D, 0x01, 0x00, 0x00, 0x00, 0x01, 0x04, 0x01, 0x60, 0x00, 0x00]"

lemma ex_page: "page_ok 4096 ex_alloc"
  by (rule ex_ready(4))

text \<open>
  C1: loading a module never runs into undefined behaviour.  Whatever bytes are given as a module,
  every step of the binary parser, from the preamble through all section parsers and the compilation
  of the code section to the export check, either succeeds or throws: no read leaves the input, no
  vector is indexed out of range, no write leaves the code segment.  The only premise is that the page
  size is a power of two and the allocator is mapped.
\<close>

theorem parse_module_no_ub:
  assumes "page_ok pagesize alloc"
  shows "parse_bytes_as_module pagesize opt alloc code \<noteq> Inl Undefined_behaviour"
  using ensuresD(1) [OF ens_module [OF assms] wf_gptr_whole]
  by (auto simp: parse_bytes_as_module_def bindE_eq_Inl_iff)

theorem parse_module_no_ub_witness:
  "parse_bytes_as_module 4096 default_options ex_alloc [0x00, 0x61, 0x73] \<noteq> Inl Undefined_behaviour"
  by (rule parse_module_no_ub [OF ex_page])

lemma ex_bytes_parsed:
  "(case parse_bytes_as_module 4096 default_options ex_alloc ex_bytes of Inl _ \<Rightarrow> False
     | Inr st \<Rightarrow> m_types (px_mod st) = [ex_type] \<and> m_code (px_mod st) = [])"
  by code_simp

text \<open>
  C2: what a loaded module satisfies, in the terms of \<open>module_ok\<close>.  The function types have value types only and at
  most one result; imports are functions of a type the module has, and the names of imports and exports keep the
  limit on symbols; every declared function has a type of the module; there is at most one table and one memory, with
  ordered limits under the configured bounds; globals have a value type and an initializer of that type; exports name
  a function, table, memory or global of the module, a mutable global only where that is allowed, under distinct names;
  the start function takes and returns nothing; element segments stay under their limit, and each entry is null or a
  function of the module with its alias type; active element segments name a table; data segments stay under the
  limit on their bytes and on where they may end, and active ones need a memory, whose index is in range when bulk
  memory is enabled (without it the number read is not checked, and not used).  The vectors of the sections of types, imports,
  functions, globals, exports, element and data segments are within their limits.  The alias and fast-function tables
  are those of \<open>normalize_types\<close>; there is one compiled body per declared function, and the bodies lie contiguously in
  the code segment with every branch inside its own function.  The indices inside the bodies are no part of this.
\<close>

theorem parse_module_valid:
  assumes "page_ok pagesize alloc" and "parse_bytes_as_module pagesize opt alloc code = Inr st"
  shows "module_ok opt st \<and> length (m_code (px_mod st)) = length (m_functions (px_mod st))"
proof -
  from assms(2) obtain p where "parse_module pagesize opt (length code) empty_module alloc (mk_gptr code 0 (length code)) = Inr (st, p)"
    by (auto simp: parse_bytes_as_module_def res_simps)
  from ensuresD(2) [OF ens_module [OF assms(1)] wf_gptr_whole this] show ?thesis by blast
qed

theorem parse_module_valid_witness:
  "\<exists>st. parse_bytes_as_module 4096 default_options ex_alloc ex_bytes = Inr st \<and> m_types (px_mod st) = [ex_type]
     \<and> module_ok default_options st \<and> m_functions (px_mod st) = []"
proof (cases "parse_bytes_as_module 4096 default_options ex_alloc ex_bytes")
  case (Inr st)
  from parse_module_valid [OF ex_page Inr] ex_bytes_parsed Inr show ?thesis by auto
qed (use ex_bytes_parsed in simp)

text \<open>
  C11: the loop over the sections ends.  Each round takes at least the id byte of its section, so the bound
  on the rounds in \<open>parse_module\<close> is never what ends the loop: with any more rounds the result is the same.
\<close>

theorem parse_sections_terminates:
  assumes "page_ok pagesize alloc" and "wf_gptr p"
  shows "parse_sections (Suc (bnds p) + k) pagesize opt sz 0 (px_init (empty_module\<lparr>m_eosio_fp := fp\<rparr>) alloc) p
    = parse_sections (Suc (bnds p)) pagesize opt sz 0 (px_init (empty_module\<lparr>m_eosio_fp := fp\<rparr>) alloc) p"
  by (rule parse_sections_fuel) (use sec_inv_start [OF assms(1), of opt fp] assms(2) in simp_all)

theorem parse_sections_terminates_witness:
  "parse_sections (Suc 14 + 1000) 4096 default_options 14 0 (px_init (empty_module\<lparr>m_eosio_fp := False\<rparr>) ex_alloc) (mk_gptr ex_bytes 0 14)
   = parse_sections (Suc 14) 4096 default_options 14 0 (px_init (empty_module\<lparr>m_eosio_fp := False\<rparr>) ex_alloc) (mk_gptr ex_bytes 0 14)"
  using parse_sections_terminates [OF ex_page, of "mk_gptr ex_bytes 0 14" 1000 default_options 14 False]
  by (simp add: wf_gptr_def mk_gptr_def ex_bytes_def del: parse_sections.simps)

end
