(* ===== verification/Vm_Stack.thy ===== *)
theory Vm_Stack
  imports Vm_Opcodes
begin

text \<open>
  The stacks of \<^verbatim>\<open>wasm_stack.hpp\<close> over a \<open>std::vector\<close> (both \<open>operand_stack\<close> and \<open>call_stack\<close> are
  instantiated with \<open>Allocator = nullptr_t\<close>) and the operand accessors of \<^verbatim>\<open>stack_elem.hpp\<close>.  The
  elements past \<open>_index\<close> stay in the store, as in the code, and \<open>_index\<close> keeps the width of
  \<open>size_t\<close>.  \<open>d\<close> is the value that \<open>resize\<close> gives to new slots.

  Shown: while the index stays inside the store, the stack is a list: \<open>push\<close> appends, \<open>pop\<close> takes from
  the end, whatever the growth of the store does.  The contract is the locale \<open>lifo\<close>, which the
  interpreter's stacks interpret.
\<close>

section \<open>\<open>stack\<close>\<close>

record 'a vstack =
  st_store :: "'a list"
  st_index :: u64

definition vec_resize :: "'a \<Rightarrow> nat \<Rightarrow> 'a list \<Rightarrow> 'a list" where
  "vec_resize d n xs = take n xs @ replicate (n - length xs) d"

definition st_new :: "'a \<Rightarrow> nat \<Rightarrow> 'a vstack" where
  "st_new d elem_sz = \<lparr>st_store = replicate elem_sz d, st_index = 0\<rparr>"

definition st_push :: "'a \<Rightarrow> 'a \<Rightarrow> 'a vstack \<Rightarrow> 'a vstack res" where
  "st_push d e s =
     (let store = (if unat (st_index s) \<ge> length (st_store s)
                   then vec_resize d (length (st_store s) * 2) (st_store s) else st_store s)
      in bindE (at_unchecked store (unat (st_index s))) (\<lambda>_.
           Inr (s\<lparr>st_store := store[unat (st_index s) := e], st_index := st_index s + 1\<rparr>)))"

definition st_pop :: "'a vstack \<Rightarrow> ('a \<times> 'a vstack) res" where
  "st_pop s = (let i = st_index s - 1 in
     bindE (at_unchecked (st_store s) (unat i)) (\<lambda>e. Inr (e, s\<lparr>st_index := i\<rparr>)))"

definition st_get :: "u32 \<Rightarrow> 'a vstack \<Rightarrow> 'a res" where
  "st_get i s = assertE (ucast i \<le> st_index s) Wasm_interpreter_exception (at_unchecked (st_store s) (unat i))"

definition st_set :: "u32 \<Rightarrow> 'a \<Rightarrow> 'a vstack \<Rightarrow> 'a vstack res" where
  "st_set i el s = assertE (ucast i \<le> st_index s) Wasm_interpreter_exception
     (bindE (at_unchecked (st_store s) (unat i)) (\<lambda>_. Inr (s\<lparr>st_store := (st_store s)[unat i := el]\<rparr>)))"

definition st_eat :: "u32 \<Rightarrow> 'a vstack \<Rightarrow> 'a vstack" where
  "st_eat i s = s\<lparr>st_index := ucast i\<rparr>"

text \<open>\<open>compact\<close>: the last element moves to \<open>index\<close>; \<open>index + 1\<close> is computed in 32 bits.\<close>

definition st_compact :: "u32 \<Rightarrow> 'a vstack \<Rightarrow> 'a vstack res" where
  "st_compact i s = bindE (at_unchecked (st_store s) (unat (st_index s - 1))) (\<lambda>e.
     bindE (at_unchecked (st_store s) (unat i)) (\<lambda>_.
       Inr (s\<lparr>st_store := (st_store s)[unat i := e], st_index := ucast (i + 1)\<rparr>)))"

text \<open>\<open>peek(i)\<close> and \<open>get_back(i)\<close> return a reference; \<open>st_poke\<close> is an assignment through it.\<close>

definition st_peek :: "u64 \<Rightarrow> 'a vstack \<Rightarrow> 'a res" where
  "st_peek i s = at_unchecked (st_store s) (unat (st_index s - 1 - i))"

definition st_poke :: "u64 \<Rightarrow> 'a \<Rightarrow> 'a vstack \<Rightarrow> 'a vstack res" where
  "st_poke i e s = bindE (st_peek i s) (\<lambda>_. Inr (s\<lparr>st_store := (st_store s)[unat (st_index s - 1 - i) := e]\<rparr>))"

definition st_trim :: "u64 \<Rightarrow> 'a vstack \<Rightarrow> 'a vstack" where
  "st_trim amt s = s\<lparr>st_index := st_index s - amt\<rparr>"

definition st_size :: "'a vstack \<Rightarrow> u64" where
  "st_size s = st_index s"

text \<open>
  \<open>reset_capacity\<close>: the store never has fewer than \<open>initial_stack_size\<close> elements, and its capacity is
  at least its size, so the condition on the capacity matters only when the size is already right.
\<close>

definition st_reset_capacity :: "'a \<Rightarrow> 'a vstack \<Rightarrow> 'a vstack" where
  "st_reset_capacity d s = (if length (st_store s) > initial_stack_size
     then s\<lparr>st_store := vec_resize d initial_stack_size (st_store s)\<rparr> else s)"

section \<open>\<open>operand_stack_elem\<close>\<close>

text \<open>
  The accessors read the union of the wanted alternative without looking at the tag: on another
  alternative the read is undefined.  The signed and unsigned variants read the same bits.
\<close>

fun to_ui32 :: "const_op \<Rightarrow> u32 res" where
  "to_ui32 (I32_const_t w) = Inr w"
| "to_ui32 _ = Inl Undefined_behaviour"

fun to_ui64 :: "const_op \<Rightarrow> u64 res" where
  "to_ui64 (I64_const_t w) = Inr w"
| "to_ui64 _ = Inl Undefined_behaviour"

fun to_fui32 :: "const_op \<Rightarrow> u32 res" where
  "to_fui32 (F32_const_t w) = Inr w"
| "to_fui32 _ = Inl Undefined_behaviour"

fun to_fui64 :: "const_op \<Rightarrow> u64 res" where
  "to_fui64 (F64_const_t w) = Inr w"
| "to_fui64 _ = Inl Undefined_behaviour"

fun to_v128 :: "const_op \<Rightarrow> 128 word res" where
  "to_v128 (V128_const_t w) = Inr w"
| "to_v128 _ = Inl Undefined_behaviour"

section \<open>The stack as a list\<close>

definition st_elems :: "'a vstack \<Rightarrow> 'a list" where
  "st_elems s = take (unat (st_index s)) (st_store s)"

definition wf_stack :: "'a vstack \<Rightarrow> bool" where
  "wf_stack s \<longleftrightarrow> unat (st_index s) \<le> length (st_store s) \<and> st_store s \<noteq> []"

text \<open>Pushing several elements in order, as \<open>push_args\<close> and \<open>setup_locals\<close> do.\<close>

fun push_all :: "('e \<Rightarrow> 's \<Rightarrow> 's res) \<Rightarrow> 'e list \<Rightarrow> 's \<Rightarrow> 's res" where
  "push_all push [] s = Inr s"
| "push_all push (e # es) s = bindE (push e s) (push_all push es)"

locale lifo =
  fixes push :: "'e \<Rightarrow> 's \<Rightarrow> 's res" and pop :: "'s \<Rightarrow> ('e \<times> 's) res"
    and elems :: "'s \<Rightarrow> 'e list" and wf :: "'s \<Rightarrow> bool" and limit :: nat
  assumes push_law: "wf s \<Longrightarrow> Suc (length (elems s)) < limit \<Longrightarrow> \<exists>s'. push e s = Inr s' \<and> wf s' \<and> elems s' = elems s @ [e]"
    and pop_law: "wf s \<Longrightarrow> elems s = es @ [e] \<Longrightarrow> \<exists>s'. pop s = Inr (e, s') \<and> wf s' \<and> elems s' = es"
begin

lemma push_all_law:
  "wf s \<Longrightarrow> length (elems s) + length es < limit \<Longrightarrow>
     \<exists>s'. push_all push es s = Inr s' \<and> wf s' \<and> elems s' = elems s @ es"
proof (induction es arbitrary: s)
  case (Cons e es)
  from push_law [of s e] Cons.prems obtain s1 where s1: "push e s = Inr s1" "wf s1" "elems s1 = elems s @ [e]" by auto
  from Cons.IH [OF s1(2)] Cons.prems s1(3) obtain s' where "push_all push es s1 = Inr s'" "wf s'" "elems s' = elems s @ e # es"
    by auto
  with s1 show ?case by auto
qed auto

lemma pop_after_push:
  assumes "wf s" and "Suc (length (elems s)) < limit" and "push e s = Inr s1"
  shows "\<exists>s2. pop s1 = Inr (e, s2) \<and> wf s2 \<and> elems s2 = elems s"
  using push_law [OF assms(1,2), of e] pop_law [of s1 "elems s" e] assms(3) by auto

lemma pop_nonempty:
  assumes "wf s" and "elems s \<noteq> []"
  shows "\<exists>s'. pop s = Inr (last (elems s), s') \<and> wf s' \<and> elems s' = butlast (elems s)"
  using pop_law [OF assms(1), of "butlast (elems s)" "last (elems s)"] assms(2) by simp

end

section \<open>The vector implements the list\<close>

lemma length_vec_resize [simp]: "length (vec_resize d n xs) = n"
  by (simp add: vec_resize_def)

lemma take_vec_resize: "k \<le> n \<Longrightarrow> k \<le> length xs \<Longrightarrow> take k (vec_resize d n xs) = take k xs"
  by (simp add: vec_resize_def min_def)

lemma length_st_elems: "wf_stack s \<Longrightarrow> length (st_elems s) = unat (st_index s)"
  by (simp add: st_elems_def wf_stack_def)

lemma index_dec: "wf_stack s \<Longrightarrow> st_elems s \<noteq> [] \<Longrightarrow> Suc (unat (st_index s - 1)) = unat (st_index s)"
  using unat_dec [of "st_index s"] length_st_elems [of s] by (cases "st_elems s") auto

lemma index_back:
  assumes "wf_stack s" and "unat i < length (st_elems s)"
  shows "unat (st_index s - 1 - i) = length (st_elems s) - 1 - unat i"
proof -
  have d: "Suc (unat (st_index s - 1)) = unat (st_index s)" using assms by (intro index_dec) auto
  have le: "i \<le> st_index s - 1" using assms d by (simp add: word_le_nat_alt length_st_elems)
  have "unat (st_index s - 1 - i) = unat (st_index s - 1) - unat i" by (rule unat_sub [OF le])
  then show ?thesis using d assms(1) by (simp add: length_st_elems)
qed

lemma st_push_law:
  assumes wf: "wf_stack s" and room: "Suc (length (st_elems s)) < 2 ^ 64"
  shows "\<exists>s'. st_push d e s = Inr s' \<and> wf_stack s' \<and> st_elems s' = st_elems s @ [e]"
proof -
  let ?i = "unat (st_index s)"
  define store where "store = (if ?i \<ge> length (st_store s) then vec_resize d (length (st_store s) * 2) (st_store s) else st_store s)"
  have i: "?i < length store" and tk: "take ?i store = st_elems s" and ne: "store \<noteq> []"
    using wf by (auto simp: store_def wf_stack_def st_elems_def take_vec_resize not_le simp flip: length_greater_0_conv)
  have inc: "unat (st_index s + 1) = Suc ?i"
    using unat_add_no_wrap [of "st_index s" 1] room wf by (simp add: length_st_elems)
  define s' where "s' = s\<lparr>st_store := store[?i := e], st_index := st_index s + 1\<rparr>"
  have "st_push d e s = Inr s'"
    using i by (simp add: st_push_def store_def [symmetric] Let_def at_unchecked_def s'_def)
  moreover have "wf_stack s'" using i ne by (simp add: wf_stack_def s'_def inc)
  moreover have "st_elems s' = st_elems s @ [e]"
    using i tk by (simp add: st_elems_def s'_def inc take_Suc_conv_app_nth take_update_cancel)
  ultimately show ?thesis by blast
qed

lemma st_pop_law:
  assumes wf: "wf_stack s" and el: "st_elems s = es @ [e]"
  shows "\<exists>s'. st_pop s = Inr (e, s') \<and> wf_stack s' \<and> st_elems s' = es"
proof -
  let ?j = "unat (st_index s - 1)"
  have j: "unat (st_index s) = Suc ?j" using index_dec [OF wf] el by simp
  have lt: "?j < length (st_store s)" using wf j by (simp add: wf_stack_def)
  have "take ?j (st_store s) @ [st_store s ! ?j] = es @ [e]"
    using el lt by (simp add: st_elems_def j take_Suc_conv_app_nth)
  then have "st_store s ! ?j = e" "take ?j (st_store s) = es" by simp_all
  with lt wf show ?thesis by (auto simp: st_pop_def Let_def at_unchecked_def wf_stack_def st_elems_def)
qed

interpretation vstack: lifo "st_push d" st_pop st_elems wf_stack "2 ^ 64" for d
  by unfold_locales (blast intro: st_push_law st_pop_law)+

lemma st_peek_law:
  assumes "wf_stack s" and "unat i < length (st_elems s)"
  shows "st_peek i s = Inr (rev (st_elems s) ! unat i)"
  using assms index_back [OF assms] length_st_elems [OF assms(1)]
  by (auto simp: st_peek_def at_unchecked_def rev_nth wf_stack_def st_elems_def)

lemma st_poke_law:
  assumes "wf_stack s" and "unat i < length (st_elems s)"
  shows "\<exists>s'. st_poke i e s = Inr s' \<and> wf_stack s' \<and> st_elems s' = (st_elems s)[length (st_elems s) - 1 - unat i := e]
    \<and> st_index s' = st_index s"
  using st_peek_law [OF assms] index_back [OF assms] assms(1)
  by (auto simp: st_poke_def wf_stack_def st_elems_def take_update_swap)

lemma st_eat_law: "wf_stack s \<Longrightarrow> unat n \<le> length (st_elems s) \<Longrightarrow>
    wf_stack (st_eat n s) \<and> st_elems (st_eat n s) = take (unat n) (st_elems s)"
  by (auto simp: st_eat_def wf_stack_def st_elems_def unat_ucast_up)

lemma st_get_law:
  assumes "wf_stack s" and "unat i < length (st_elems s)"
  shows "st_get i s = Inr (st_elems s ! unat i)"
  using assms length_st_elems [OF assms(1)]
  by (auto simp: st_get_def at_unchecked_def st_elems_def wf_stack_def assertE_def word_le_nat_alt unat_ucast_up)

lemma st_set_law:
  assumes "wf_stack s" and "unat i < length (st_elems s)"
  shows "\<exists>s'. st_set i e s = Inr s' \<and> wf_stack s' \<and> st_elems s' = (st_elems s)[unat i := e] \<and> st_index s' = st_index s"
  using assms length_st_elems [OF assms(1)]
  by (auto simp: st_set_def at_unchecked_def st_elems_def wf_stack_def assertE_def word_le_nat_alt unat_ucast_up take_update_swap)

lemma st_compact_law:
  assumes wf: "wf_stack s" and el: "st_elems s = es @ fs @ [e]" and i: "unat i = length es" and small: "unat i < 2 ^ 32 - 1"
  shows "\<exists>s'. st_compact i s = Inr s' \<and> wf_stack s' \<and> st_elems s' = es @ [e]"
proof -
  let ?j = "unat (st_index s - 1)"
  have ne: "st_elems s \<noteq> []" using el by simp
  have j: "unat (st_index s) = Suc ?j" using index_dec [OF wf ne] by simp
  have len: "Suc ?j = length es + length fs + 1" using length_st_elems [OF wf] el j by simp
  have lt: "?j < length (st_store s)" using wf j by (simp add: wf_stack_def)
  have all: "take (Suc ?j) (st_store s) = es @ fs @ [e]" using el by (simp add: st_elems_def j)
  have e: "st_store s ! ?j = e"
    using arg_cong [OF all, of "\<lambda>xs. xs ! ?j"] len by (simp add: nth_append)
  have es: "take (length es) (st_store s) = es"
    using arg_cong [OF all, of "take (length es)"] len by (simp add: min_def split: if_splits)
  have inc: "unat (ucast (i + 1) :: u64) = Suc (length es)"
    using unat_add_no_wrap [of i 1] small i by (simp add: unat_ucast_up)
  define s' where "s' = s\<lparr>st_store := (st_store s)[length es := e], st_index := ucast (i + 1)\<rparr>"
  have "st_compact i s = Inr s'"
    using lt len i e by (simp add: st_compact_def at_unchecked_def s'_def)
  moreover have "wf_stack s'" "st_elems s' = es @ [e]"
    using lt len wf es by (auto simp: s'_def wf_stack_def st_elems_def inc take_Suc_conv_app_nth)
  ultimately show ?thesis by blast
qed

section \<open>Runs of operations\<close>

datatype 'a stack_cmd = Push_cmd 'a | Pop_cmd | Peek_cmd u64 | Poke_cmd u64 'a

fun run_vec :: "'a \<Rightarrow> 'a stack_cmd list \<Rightarrow> 'a vstack \<Rightarrow> ('a list \<times> 'a vstack) res" where
  "run_vec d [] s = Inr ([], s)"
| "run_vec d (Push_cmd e # cs) s = bindE (st_push d e s) (run_vec d cs)"
| "run_vec d (Pop_cmd # cs) s = bindE (st_pop s) (\<lambda>(e, s1). bindE (run_vec d cs s1) (\<lambda>(out, s2). Inr (e # out, s2)))"
| "run_vec d (Peek_cmd i # cs) s = bindE (st_peek i s) (\<lambda>e. bindE (run_vec d cs s) (\<lambda>(out, s2). Inr (e # out, s2)))"
| "run_vec d (Poke_cmd i e # cs) s = bindE (st_poke i e s) (run_vec d cs)"

text \<open>The specification: a list with its top at the end.\<close>

fun run_list :: "'a stack_cmd list \<Rightarrow> 'a list \<Rightarrow> ('a list \<times> 'a list) option" where
  "run_list [] xs = Some ([], xs)"
| "run_list (Push_cmd e # cs) xs = run_list cs (xs @ [e])"
| "run_list (Pop_cmd # cs) xs = (if xs = [] then None else map_option (apfst ((#) (last xs))) (run_list cs (butlast xs)))"
| "run_list (Peek_cmd i # cs) xs =
     (if length xs \<le> unat i then None else map_option (apfst ((#) (rev xs ! unat i))) (run_list cs xs))"
| "run_list (Poke_cmd i e # cs) xs = (if length xs \<le> unat i then None else run_list cs (xs[length xs - 1 - unat i := e]))"

lemma run_vec_refines:
  "wf_stack s \<Longrightarrow> length (st_elems s) + length cs < 2 ^ 64 \<Longrightarrow> run_list cs (st_elems s) = Some (out, xs) \<Longrightarrow>
     \<exists>s'. run_vec d cs s = Inr (out, s') \<and> wf_stack s' \<and> st_elems s' = xs"
proof (induction d cs s arbitrary: out rule: run_vec.induct)
  case (2 d e cs s)
  from vstack.push_law [OF 2(2), of d e] 2(3) obtain s1 where
    "st_push d e s = Inr s1" "wf_stack s1" "st_elems s1 = st_elems s @ [e]" by auto
  then show ?case using 2 by auto
next
  case (3 d cs s)
  then have ne: "st_elems s \<noteq> []" by (auto split: if_splits)
  from vstack.pop_nonempty [OF 3(2) ne] obtain s1 where
    s1: "st_pop s = Inr (last (st_elems s), s1)" "wf_stack s1" "st_elems s1 = butlast (st_elems s)" by auto
  from 3(4) ne obtain out1 where "run_list cs (st_elems s1) = Some (out1, xs)" "out = last (st_elems s) # out1"
    by (auto simp: s1(3))
  moreover have "length (st_elems s1) + length cs < 2 ^ 64" using 3(3) s1(3) by simp
  ultimately show ?case using 3(1) [OF s1(1) refl s1(2), of out1] s1(1) by auto
next
  case (4 d i cs s)
  then have i: "unat i < length (st_elems s)" by (auto split: if_splits)
  from 4(4) i obtain out1 where "run_list cs (st_elems s) = Some (out1, xs)" "out = rev (st_elems s) ! unat i # out1"
    by auto
  with 4(1) [OF st_peek_law [OF 4(2) i] 4(2), of out1] 4(3) st_peek_law [OF 4(2) i] show ?case by auto
next
  case (5 d i e cs s)
  then have i: "unat i < length (st_elems s)" by (auto split: if_splits)
  from st_poke_law [OF 5(2) i, of e] obtain s1 where
    "st_poke i e s = Inr s1" "wf_stack s1" "st_elems s1 = (st_elems s)[length (st_elems s) - 1 - unat i := e]" by auto
  then show ?case using 5 i by auto
qed auto

text \<open>
  C27: the stack of the interpreter implements a plain list.  Whatever sequence of pushes, pops, reads and
  writes below the top is run on a fresh stack, however often its store is doubled on the way, every value
  read and the elements left are those of the list machine, as long as that machine does not underflow.
\<close>

theorem stack_refines_list:
  assumes "0 < elem_sz" and "length cs < 2 ^ 64" and "run_list cs [] = Some (out, xs)"
  shows "\<exists>s'. run_vec d cs (st_new d elem_sz) = Inr (out, s') \<and> st_elems s' = xs"
  using run_vec_refines [of "st_new d elem_sz" cs out xs d] assms by (auto simp: wf_stack_def st_elems_def st_new_def)

text \<open>The witness pushes past the initial size of one.\<close>

theorem stack_refines_list_witness:
  "\<exists>s'. run_vec (0 :: nat) [Push_cmd 5, Push_cmd 6, Push_cmd 7, Poke_cmd 1 8, Pop_cmd, Peek_cmd 0] (st_new 0 1) = Inr ([7, 8], s')
     \<and> st_elems s' = [5, 8]"
  by (rule stack_refines_list) simp_all

end
