(* ===== verification/Vm_Exec.thy ===== *)
theory Vm_Exec
  imports Vm_Stack Vm_Alloc Vm_Sections
begin

text \<open>
  The execution context of the interpreter, \<^verbatim>\<open>execution_context.hpp\<close> (\<open>execution_context_base\<close> and
  \<open>execution_context\<close>) with the pointer checks of \<^verbatim>\<open>execution_interface.hpp\<close>: operand and call stack,
  globals, table, linear memory, program counter and the budget for the call depth.

  A method is a function of the context that returns a result and a context also when it throws, so that
  what a \<open>scope_guard\<close> puts back on the way out of an exception is part of the model.

  An \<open>opcode*\<close> is the number of a slot of the code segment counted from \<open>code[0].code\<close>, the address of the
  halting instruction, or null.  An access to linear memory that leaves the accessible pages raises
  \<open>SIGSEGV\<close>, which \<open>handle_signal\<close> turns into \<open>Wasm_memory_exception\<close>; the model takes the access as a
  whole and lets a faulting store write nothing.  Host functions are a parameter: a function of the
  linear memory and the operand stack, which is what \<open>get_interface()\<close> gives them.
\<close>

section \<open>State and exceptions\<close>

datatype code_ptr = At nat | Halt | Null_ptr

record activation_frame =
  af_pc :: code_ptr
  af_last_op_index :: u32

record ectx =
  x_mod :: vm_module
  x_code :: "opcode list"
  x_alloc :: wasm_allocator
  x_max_pages :: u32
  x_os :: "const_op vstack"
  x_as :: "activation_frame vstack"
  x_globals :: "init_expr list"
  x_table :: "table_entry list"
  x_dropped_elems :: "bool list"
  x_dropped_data :: "bool list"
  x_last_op_index :: u32
  x_remaining_call_depth :: u32
  x_pc :: code_ptr
  x_as_index :: u32
  x_os_index :: u32
  x_exiting :: bool

type_synonym 'a exec = "ectx \<Rightarrow> 'a res \<times> ectx"

definition retX :: "'a \<Rightarrow> 'a exec" where
  "retX a x = (Inr a, x)"

definition throwX :: "vm_exn \<Rightarrow> 'a exec" where
  "throwX e x = (Inl e, x)"

definition liftX :: "'a res \<Rightarrow> 'a exec" where
  "liftX r x = (r, x)"

definition getX :: "(ectx \<Rightarrow> 'a) \<Rightarrow> 'a exec" where
  "getX f x = (Inr (f x), x)"

definition modX :: "(ectx \<Rightarrow> ectx) \<Rightarrow> unit exec" where
  "modX f x = (Inr (), f x)"

definition bindX :: "'a exec \<Rightarrow> ('a \<Rightarrow> 'b exec) \<Rightarrow> 'b exec" where
  "bindX m f x = (case m x of (Inl e, x') \<Rightarrow> (Inl e, x') | (Inr a, x') \<Rightarrow> f a x')"

definition thenX :: "'a exec \<Rightarrow> 'b exec \<Rightarrow> 'b exec" where
  "thenX m k = bindX m (\<lambda>_. k)"

definition checkX :: "bool \<Rightarrow> vm_exn \<Rightarrow> 'a exec \<Rightarrow> 'a exec" where
  "checkX b e k = (if b then k else throwX e)"

text \<open>The rest of a method with a value read from the context.\<close>

definition withX :: "(ectx \<Rightarrow> 'a) \<Rightarrow> ('a \<Rightarrow> 'b exec) \<Rightarrow> 'b exec" where
  "withX f k x = k (f x) x"

section \<open>Stacks\<close>

text \<open>New slots of a store are value-initialised: an \<open>i32\<close> of zero, a null frame.\<close>

abbreviation new_operand :: const_op where "new_operand \<equiv> I32_const_t 0"
abbreviation new_frame :: activation_frame where "new_frame \<equiv> \<lparr>af_pc = Null_ptr, af_last_op_index = 0\<rparr>"

definition push_operand :: "const_op \<Rightarrow> unit exec" where
  "push_operand el = withX x_os (\<lambda>os. bindX (liftX (st_push new_operand el os)) (\<lambda>os'. modX (x_os_update (\<lambda>_. os'))))"

definition pop_operand :: "const_op exec" where
  "pop_operand = withX x_os (\<lambda>os. bindX (liftX (st_pop os)) (\<lambda>(e, os'). thenX (modX (x_os_update (\<lambda>_. os'))) (retX e)))"

definition peek_operand :: "u64 \<Rightarrow> const_op exec" where
  "peek_operand i = withX x_os (\<lambda>os. liftX (st_peek i os))"

text \<open>An assignment to the reference that \<open>peek_operand\<close> returns.\<close>

definition poke_operand :: "u64 \<Rightarrow> const_op \<Rightarrow> unit exec" where
  "poke_operand i e = withX x_os (\<lambda>os. bindX (liftX (st_poke i e os)) (\<lambda>os'. modX (x_os_update (\<lambda>_. os'))))"

definition get_operand :: "u32 \<Rightarrow> const_op exec" where
  "get_operand index = withX (\<lambda>x. (x_last_op_index x, x_os x)) (\<lambda>(last, os). liftX (st_get (last + index) os))"

definition set_operand :: "u32 \<Rightarrow> const_op \<Rightarrow> unit exec" where
  "set_operand index el = withX (\<lambda>x. (x_last_op_index x, x_os x)) (\<lambda>(last, os).
     bindX (liftX (st_set (last + index) el os)) (\<lambda>os'. modX (x_os_update (\<lambda>_. os'))))"

definition eat_operands :: "u32 \<Rightarrow> unit exec" where
  "eat_operands index = modX (x_os_update (st_eat index))"

definition compact_operand :: "u32 \<Rightarrow> unit exec" where
  "compact_operand index = withX x_os (\<lambda>os. bindX (liftX (st_compact index os)) (\<lambda>os'. modX (x_os_update (\<lambda>_. os'))))"

definition operands_size :: "ectx \<Rightarrow> u64" where
  "operands_size x = st_size (x_os x)"

definition push_frame :: "activation_frame \<Rightarrow> unit exec" where
  "push_frame el = withX x_as (\<lambda>as. bindX (liftX (st_push new_frame el as)) (\<lambda>as'. modX (x_as_update (\<lambda>_. as'))))"

definition pop_call :: "activation_frame exec" where
  "pop_call = withX x_as (\<lambda>as. bindX (liftX (st_pop as)) (\<lambda>(f, as'). thenX (modX (x_as_update (\<lambda>_. as'))) (retX f)))"

section \<open>Program counter\<close>

fun ptr_add :: "nat \<Rightarrow> code_ptr \<Rightarrow> code_ptr" where
  "ptr_add k (At i) = At (i + k)"
| "ptr_add k p = p"

definition inc_pc :: "unit exec" where
  "inc_pc = modX (x_pc_update (ptr_add 1))"

text \<open>\<open>code[0]\<close> is read without a check.\<close>

definition set_relative_pc :: "u32 \<Rightarrow> unit exec" where
  "set_relative_pc pc_offset = withX x_mod (\<lambda>m. bindX (liftX (at_unchecked (m_code m) 0)) (\<lambda>_.
     modX (x_pc_update (\<lambda>_. At (unat pc_offset)))))"

definition goto_pc :: "code_ptr \<Rightarrow> unit exec" where
  "goto_pc p = modX (x_pc_update (\<lambda>_. p))"

text \<open>The slot of an address that \<open>get_function_pc\<close> returns.\<close>

definition slot_of :: "vm_module \<Rightarrow> nat \<Rightarrow> code_ptr" where
  "slot_of m a = At ((a - fb_code (m_code m ! 0)) div unat sizeof_opcode)"

definition jump :: "u32 \<Rightarrow> u32 \<Rightarrow> unit exec" where
  "jump pop_info new_pc = thenX (set_relative_pc new_pc)
     (if pop_info AND 0x80000000 \<noteq> 0
      then bindX pop_operand (\<lambda>op.
             thenX (withX operands_size (\<lambda>sz. eat_operands (ucast (sz - ucast ((pop_info AND 0x7FFFFFFF) - 1)))))
             (push_operand op))
      else withX operands_size (\<lambda>sz. eat_operands (ucast (sz - ucast pop_info))))"

section \<open>Calls\<close>

definition push_call :: "bool \<Rightarrow> nat \<Rightarrow> unit exec" where
  "push_call should_exit index = withX (\<lambda>x. x) (\<lambda>x.
     let return_pc = (if should_exit then Halt else ptr_add 1 (x_pc x)) in
     bindX (liftX (get_function_stack_size (x_mod x) index)) (\<lambda>frame_size.
       checkX (frame_size \<le> x_remaining_call_depth x) Wasm_interpreter_exception
       (thenX (modX (x_remaining_call_depth_update (\<lambda>d. d - frame_size)))
        (thenX (push_frame \<lparr>af_pc = return_pc, af_last_op_index = x_last_op_index x\<rparr>)
         (bindX (liftX (get_function_type (x_mod x) index)) (\<lambda>ft.
           modX (\<lambda>y. y\<lparr>x_last_op_index := ucast (operands_size y - of_nat (length (param_types ft)))\<rparr>)))))))"

text \<open>\<open>return_count\<close> is a 16-bit parameter.\<close>

definition apply_pop_call :: "u32 \<Rightarrow> u16 \<Rightarrow> u32 \<Rightarrow> unit exec" where
  "apply_pop_call num_locals return_cnt frame_size = bindX pop_call (\<lambda>af.
     thenX (modX (\<lambda>x. x\<lparr>x_pc := af_pc af, x_last_op_index := af_last_op_index af\<rparr>))
     (thenX (withX operands_size (\<lambda>sz.
         if return_cnt \<noteq> 0 then compact_operand (ucast (sz - ucast num_locals - 1))
         else eat_operands (ucast (sz - ucast num_locals))))
       (modX (x_remaining_call_depth_update (\<lambda>d. d + frame_size)))))"

fun op_type :: "const_op \<Rightarrow> value_type" where
  "op_type (I32_const_t _) = t_i32"
| "op_type (I64_const_t _) = t_i64"
| "op_type (F32_const_t _) = t_f32"
| "op_type (F64_const_t _) = t_f64"
| "op_type (V128_const_t _) = t_v128"

fun type_check_from :: "value_type list \<Rightarrow> nat \<Rightarrow> value_type list \<Rightarrow> unit exec" where
  "type_check_from ps i [] = retX ()"
| "type_check_from ps i (t # ts) = bindX (peek_operand (of_nat (length ps - 1 - i))) (\<lambda>op.
     checkX (t = op_type op) Wasm_interpreter_exception (type_check_from ps (Suc i) ts))"

definition type_check :: "func_type \<Rightarrow> unit exec" where
  "type_check ft = type_check_from (param_types ft) 0 (param_types ft)"

definition zero_of :: "value_type \<Rightarrow> const_op res" where
  "zero_of t = (if t = t_i32 then Inr (I32_const_t 0) else if t = t_i64 then Inr (I64_const_t 0)
     else if t = t_f32 then Inr (F32_const_t 0) else if t = t_f64 then Inr (F64_const_t 0)
     else if t = t_v128 then Inr (V128_const_t 0) else Inl Wasm_interpreter_exception)"

fun push_zeros :: "nat \<Rightarrow> value_type \<Rightarrow> unit exec" where
  "push_zeros 0 t = retX ()"
| "push_zeros (Suc n) t = bindX (liftX (zero_of t)) (\<lambda>z. thenX (push_operand z) (push_zeros n t))"

fun setup_local_entries :: "local_entry list \<Rightarrow> unit exec" where
  "setup_local_entries [] = retX ()"
| "setup_local_entries (l # ls) = thenX (push_zeros (unat (le_count l)) (le_type l)) (setup_local_entries ls)"

definition setup_locals :: "nat \<Rightarrow> unit exec" where
  "setup_locals index = withX x_mod (\<lambda>m.
     bindX (liftX (at_unchecked (m_code m) (index - get_imported_functions_size m))) (\<lambda>fn. setup_local_entries (fb_locals fn)))"

text \<open>The host's functions by import index.\<close>

type_synonym host_functions = "nat \<Rightarrow> wasm_allocator \<times> const_op vstack \<Rightarrow> unit res \<times> wasm_allocator \<times> const_op vstack"

definition call_host :: "host_functions \<Rightarrow> nat \<Rightarrow> unit exec" where
  "call_host host index x = (case host index (x_alloc x, x_os x) of (r, al, os) \<Rightarrow> (r, x\<lparr>x_alloc := al, x_os := os\<rparr>))"

text \<open>\<open>scope_guard\<close>: \<open>cleanup\<close> runs on every way out.\<close>

definition guardX :: "(ectx \<Rightarrow> ectx) \<Rightarrow> 'a exec \<Rightarrow> 'a exec" where
  "guardX cleanup m x = (case m x of (r, x') \<Rightarrow> (r, cleanup x'))"

definition call_fn :: "host_functions \<Rightarrow> nat \<Rightarrow> unit exec" where
  "call_fn host index = withX (\<lambda>x. x) (\<lambda>x. let m = x_mod x in
     if index < get_imported_functions_size m then
       bindX (liftX (bindE (at_unchecked (m_imports m) index) (\<lambda>i. at_unchecked (m_types m) (unat (import_func_t i))))) (\<lambda>ft.
       thenX (type_check ft) (thenX inc_pc
       (bindX (liftX (get_function_stack_size m index)) (\<lambda>frame_size.
         checkX (frame_size \<le> x_remaining_call_depth x) Wasm_interpreter_exception
         (guardX (x_remaining_call_depth_update (\<lambda>_. x_remaining_call_depth x))
           (thenX (modX (x_remaining_call_depth_update (\<lambda>d. d - frame_size)))
           (thenX (push_frame \<lparr>af_pc = Null_ptr, af_last_op_index = 0\<rparr>)
           (thenX (call_host host index) (thenX pop_call (retX ()))))))))))
     else thenX (push_call False index) (thenX (setup_locals index)
       (bindX (liftX (get_function_pc m index)) (\<lambda>a. goto_pc (slot_of m a)))))"

section \<open>Table and globals\<close>

definition table_elem :: "u32 \<Rightarrow> u32 exec" where
  "table_elem i = withX (\<lambda>x. x) (\<lambda>x. bindX (liftX (at_checked (m_tables (x_mod x)) 0)) (\<lambda>t.
     checkX (i < lim_initial (tt_limits t)) Wasm_interpreter_exception
     (bindX (liftX (at_unchecked (x_table x) (unat i))) (\<lambda>e. retX (te_index e)))))"

definition get_global :: "u32 \<Rightarrow> const_op exec" where
  "get_global index = withX (\<lambda>x. x) (\<lambda>x.
     checkX (unat index < length (m_globals (x_mod x))) Wasm_interpreter_exception
     (checkX (unat index < length (x_globals x)) Wasm_interpreter_exception
      (let t = content_type (m_globals (x_mod x) ! unat index); v = ie_value (x_globals x ! unat index) in
       if t = t_i32 then retX (I32_const_t (ucast v)) else if t = t_i64 then retX (I64_const_t (ucast v))
       else if t = t_f32 then retX (F32_const_t (ucast v)) else if t = t_f64 then retX (F64_const_t (ucast v))
       else if t = t_v128 then retX (V128_const_t v) else throwX Wasm_interpreter_exception)))"

text \<open>Writing a member of the union \<open>expr_value_t\<close> leaves the bytes behind it.\<close>

definition union_set :: "nat \<Rightarrow> expr_value \<Rightarrow> expr_value \<Rightarrow> expr_value" where
  "union_set n w v = (v AND NOT (mask n)) OR take_bit n w"

fun set_value :: "const_op \<Rightarrow> expr_value \<Rightarrow> expr_value" where
  "set_value (I32_const_t w) v = union_set 32 (ucast w) v"
| "set_value (I64_const_t w) v = union_set 64 (ucast w) v"
| "set_value (F32_const_t w) v = union_set 32 (ucast w) v"
| "set_value (F64_const_t w) v = union_set 64 (ucast w) v"
| "set_value (V128_const_t w) v = w"

definition set_global :: "u32 \<Rightarrow> const_op \<Rightarrow> unit exec" where
  "set_global index el = withX (\<lambda>x. x) (\<lambda>x. let i = unat index in
     checkX (i < length (m_globals (x_mod x))) Wasm_interpreter_exception
     (checkX (i < length (x_globals x)) Wasm_interpreter_exception
      (checkX (mutability (m_globals (x_mod x) ! i)) Wasm_interpreter_exception
       (checkX (content_type (m_globals (x_mod x) ! i) = op_type el) Wasm_interpreter_exception
         (modX (x_globals_update (\<lambda>gs. gs[i := (gs ! i)\<lparr>ie_value := set_value el (ie_value (gs ! i))\<rparr>])))))))"

fun is_true :: "const_op \<Rightarrow> bool res" where
  "is_true (I32_const_t w) = Inr (w \<noteq> 0)"
| "is_true _ = Inl Wasm_invalid_element"

section \<open>Linear memory\<close>

definition accessible :: "nat \<Rightarrow> nat \<Rightarrow> ectx \<Rightarrow> bool" where
  "accessible a n x \<longleftrightarrow> a + n \<le> wa_bytes (x_alloc x)"

definition read_memory :: "nat \<Rightarrow> nat \<Rightarrow> u8 list exec" where
  "read_memory a n = withX (\<lambda>x. x) (\<lambda>x. checkX (accessible a n x) Wasm_memory_exception
     (retX (map (wa_raw (x_alloc x)) [a..<a + n])))"

definition write_bytes :: "nat \<Rightarrow> u8 list \<Rightarrow> (nat \<Rightarrow> u8) \<Rightarrow> nat \<Rightarrow> u8" where
  "write_bytes a bs mem = (\<lambda>i. if a \<le> i \<and> i < a + length bs then bs ! (i - a) else mem i)"

definition write_memory :: "nat \<Rightarrow> u8 list \<Rightarrow> unit exec" where
  "write_memory a bs = withX (\<lambda>x. x) (\<lambda>x. checkX (accessible a (length bs) x) Wasm_memory_exception
     (modX (\<lambda>y. y\<lparr>x_alloc := (x_alloc y)\<lparr>wa_raw := write_bytes a bs (wa_raw (x_alloc y))\<rparr>\<rparr>)))"

text \<open>
  \<open>validate_pointer<unsigned char>\<close>: reads the last byte of the range; for an empty range that is the byte
  in front of it, which for the address zero lies in the page before the memory.
\<close>

definition validate_pointer :: "u32 \<Rightarrow> u32 \<Rightarrow> nat exec" where
  "validate_pointer ptr len = withX (\<lambda>x. x) (\<lambda>x.
     checkX (if ptr = 0 \<and> len = 0 then wa_guard (x_alloc x) else unat ptr + unat len - 1 < wa_bytes (x_alloc x))
       Wasm_memory_exception (retX (unat ptr)))"

definition current_linear_memory :: "u32 exec" where
  "current_linear_memory = getX (\<lambda>x. word_of_int (wa_page (x_alloc x)))"

text \<open>
  \<open>grow_linear_memory\<close>; \<open>ok\<close> is whether \<open>mprotect\<close> succeeds.  \<open>_max_pages - sz\<close> is computed in 32 unsigned
  bits, \<open>maximum - sz\<close> in 32 signed ones.
\<close>

definition alloc_pages :: "(wasm_allocator \<Rightarrow> wasm_allocator res) \<Rightarrow> unit exec" where
  "alloc_pages f = withX x_alloc (\<lambda>al. bindX (liftX (f al)) (\<lambda>al'. modX (x_alloc_update (\<lambda>_. al'))))"

definition grow_linear_memory :: "bool \<Rightarrow> u32 \<Rightarrow> u32 exec" where
  "grow_linear_memory ok pages = withX (\<lambda>x. x) (\<lambda>x.
     let sz = wa_page (x_alloc x); p = sint pages; ms = m_memories (x_mod x) in
     if p < 0 then
       if sz + p < 0 then retX (- 1)
       else thenX (alloc_pages (wa_free ok (word_of_int (- p)))) (retX (word_of_int sz))
     else
       if ms = [] \<or> x_max_pages x - word_of_int sz < pages
          \<or> lim_flags (ms ! 0) \<and> sint (lim_maximum (ms ! 0)) - sz < p
       then retX (- 1)
       else thenX (alloc_pages (wa_alloc ok (ucast pages))) (retX (word_of_int sz)))"

section \<open>Segments\<close>

definition init_linear_memory :: "u32 \<Rightarrow> u32 \<Rightarrow> u32 \<Rightarrow> u32 \<Rightarrow> unit exec" where
  "init_linear_memory i d s n = withX (\<lambda>x. x) (\<lambda>x.
     bindX (liftX (at_unchecked (m_data (x_mod x)) (unat i))) (\<lambda>seg.
     bindX (liftX (at_unchecked (x_dropped_data x) (unat i))) (\<lambda>dropped.
       let data_len = (if dropped then 0 else length (ds_data seg)) in
       checkX (unat s + unat n \<le> data_len) Wasm_memory_exception
       (bindX (validate_pointer d n) (\<lambda>dest.
         if data_len \<noteq> 0 then write_memory dest (take (unat n) (drop (unat s) (ds_data seg))) else retX ())))))"

definition drop_data :: "u32 \<Rightarrow> unit exec" where
  "drop_data i = withX x_dropped_data (\<lambda>ds. bindX (liftX (at_unchecked ds (unat i))) (\<lambda>_.
     modX (x_dropped_data_update (\<lambda>ds. ds[unat i := True]))))"

definition table_initial :: "nat res exec" where
  "table_initial = getX (\<lambda>x. bindE (at_unchecked (m_tables (x_mod x)) 0) (\<lambda>t. Inr (unat (lim_initial (tt_limits t)))))"

text \<open>\<open>memcpy\<close> into the table.\<close>

definition write_entries :: "nat \<Rightarrow> table_entry list \<Rightarrow> table_entry list \<Rightarrow> table_entry list" where
  "write_entries d es tab = take d tab @ es @ drop (d + length es) tab"

definition init_table :: "u32 \<Rightarrow> u32 \<Rightarrow> u32 \<Rightarrow> u32 \<Rightarrow> unit exec" where
  "init_table i d s n = withX (\<lambda>x. x) (\<lambda>x.
     bindX (liftX (at_unchecked (m_elements (x_mod x)) (unat i))) (\<lambda>seg.
     bindX (liftX (at_unchecked (x_dropped_elems x) (unat i))) (\<lambda>dropped.
       let elem_len = (if dropped then 0 else length (es_elems seg)) in
       checkX (unat s + unat n \<le> elem_len) Wasm_memory_exception
       (bindX (bindX table_initial liftX) (\<lambda>initial.
         checkX (unat d + unat n \<le> initial) Wasm_memory_exception
         (if elem_len \<noteq> 0
          then modX (x_table_update (write_entries (unat d) (take (unat n) (drop (unat s) (es_elems seg)))))
          else retX ()))))))"

definition drop_elem :: "u32 \<Rightarrow> unit exec" where
  "drop_elem i = withX x_dropped_elems (\<lambda>ds. bindX (liftX (at_unchecked ds (unat i))) (\<lambda>_.
     modX (x_dropped_elems_update (\<lambda>ds. ds[unat i := True]))))"

definition get_table_ptr :: "u32 \<Rightarrow> u32 \<Rightarrow> nat exec" where
  "get_table_ptr base sz = bindX (bindX table_initial liftX) (\<lambda>initial.
     checkX (unat base + unat sz \<le> initial) Wasm_memory_exception (retX (unat base)))"

section \<open>Reset\<close>

text \<open>
  \<open>reset()\<close> brings the context to the state in which the module's exports may be called.  It runs outside
  the signal handler: a copy that left the memory would be undefined.
\<close>

definition copy_segment :: "nat \<Rightarrow> u8 list \<Rightarrow> unit exec" where
  "copy_segment a bs = withX (\<lambda>x. x) (\<lambda>x. checkX (accessible a (length bs) x) Undefined_behaviour (write_memory a bs))"

fun place_data :: "nat \<Rightarrow> data_segment list \<Rightarrow> unit exec" where
  "place_data i [] = retX ()"
| "place_data i (seg # segs) = thenX
     (if \<not> ds_passive seg then
        withX x_mod (\<lambda>m. bindX (liftX (at_unchecked (m_memories m) 0)) (\<lambda>mem.
          let offset = ucast (ie_value (ds_offset seg)) :: u32 in
          checkX (unat offset + length (ds_data seg) \<le> unat (lim_initial mem) * page_size) Wasm_memory_exception
          (thenX (if ds_data seg \<noteq> [] then copy_segment (unat offset) (ds_data seg) else retX ())
            (modX (x_dropped_data_update (\<lambda>ds. ds[i := True]))))))
      else retX ())
     (place_data (Suc i) segs)"

definition null_entry :: table_entry where
  "null_entry = \<lparr>te_type = 0xFFFFFFFF, te_index = 0xFFFFFFFF\<rparr>"

fun place_elems :: "nat \<Rightarrow> nat \<Rightarrow> elem_segment list \<Rightarrow> unit exec" where
  "place_elems initial i [] = retX ()"
| "place_elems initial i (seg # segs) = thenX
     (case es_mode seg of
        Passive \<Rightarrow> retX ()
      | Declarative \<Rightarrow> modX (x_dropped_elems_update (\<lambda>ds. ds[i := True]))
      | Active \<Rightarrow>
          let offset = ucast (ie_value (es_offset seg)) :: u32 in
          checkX (unat offset + length (es_elems seg) \<le> initial) Wasm_memory_exception
          (modX (\<lambda>x. x\<lparr>x_table := write_entries (unat offset) (es_elems seg) (x_table x),
                       x_dropped_elems := (x_dropped_elems x)[i := True]\<rparr>)))
     (place_elems initial (Suc i) segs)"

definition reset_base :: "bool \<Rightarrow> unit exec" where
  "reset_base ok = thenX (modX (x_os_update (st_reset_capacity new_operand))) (withX (\<lambda>x. x) (\<lambda>x. let m = x_mod x in
     thenX (case m_memories m of
              mem # _ \<Rightarrow> checkX (lim_initial mem \<le> x_max_pages x) Wasm_bad_alloc (alloc_pages (wa_reset_pages ok (lim_initial mem)))
            | [] \<Rightarrow> alloc_pages (wa_reset ok))
     (thenX (modX (x_dropped_data_update (\<lambda>_. replicate (length (m_data m)) False)))
     (thenX (place_data 0 (m_data m))
     (thenX (modX (x_globals_update (\<lambda>_. map gv_init (m_globals m))))
       (case m_tables m of
          [] \<Rightarrow> retX ()
        | t # _ \<Rightarrow> let initial = unat (lim_initial (tt_limits t)) in
            thenX (modX (\<lambda>y. y\<lparr>x_table := replicate initial null_entry,
                              x_dropped_elems := replicate (length (m_elements m)) False\<rparr>))
              (place_elems initial 0 (m_elements m))))))))"

definition reset_context :: "bool \<Rightarrow> unit exec" where
  "reset_context ok = thenX (reset_base ok)
     (modX (\<lambda>x. x\<lparr>x_as_index := 0, x_os_index := 0, x_pc := Null_ptr, x_exiting := False,
                 x_os := st_eat 0 (x_os x), x_as := st_eat 0 (x_as x)\<rparr>))"

end
