(* ===== verification/Vm_Softfloat.thy ===== *)
theory Vm_Softfloat
  imports Vm_Prelude
begin

text \<open>
  Floating point of the interpreter, \<^verbatim>\<open>softfloat.hpp\<close>, as built with \<open>EOS_VM_SOFTFLOAT\<close> (the default): the
  wrappers \<open>_eosio_*\<close> around the Berkeley softfloat library.  A \<open>float\<close> is its bit pattern, a word;
  \<open>to_softfloat32\<close> and \<open>from_softfloat32\<close> keep the bits and do not appear.  The library is not part of the
  repository: its functions are the record \<open>softfloat\<close>, an argument of the wrappers that call it.
\<close>

section \<open>The library\<close>

record softfloat =
  sf_is_nan32 :: "u32 \<Rightarrow> bool"
  sf_is_nan64 :: "u64 \<Rightarrow> bool"
  sf_sign_bit32 :: "u32 \<Rightarrow> bool"
  sf_sign_bit64 :: "u64 \<Rightarrow> bool"
  sf_add32 :: "u32 \<Rightarrow> u32 \<Rightarrow> u32"
  sf_sub32 :: "u32 \<Rightarrow> u32 \<Rightarrow> u32"
  sf_mul32 :: "u32 \<Rightarrow> u32 \<Rightarrow> u32"
  sf_div32 :: "u32 \<Rightarrow> u32 \<Rightarrow> u32"
  sf_sqrt32 :: "u32 \<Rightarrow> u32"
  sf_eq32 :: "u32 \<Rightarrow> u32 \<Rightarrow> bool"
  sf_lt32 :: "u32 \<Rightarrow> u32 \<Rightarrow> bool"
  sf_le32 :: "u32 \<Rightarrow> u32 \<Rightarrow> bool"
  sf_add64 :: "u64 \<Rightarrow> u64 \<Rightarrow> u64"
  sf_sub64 :: "u64 \<Rightarrow> u64 \<Rightarrow> u64"
  sf_mul64 :: "u64 \<Rightarrow> u64 \<Rightarrow> u64"
  sf_div64 :: "u64 \<Rightarrow> u64 \<Rightarrow> u64"
  sf_sqrt64 :: "u64 \<Rightarrow> u64"
  sf_eq64 :: "u64 \<Rightarrow> u64 \<Rightarrow> bool"
  sf_lt64 :: "u64 \<Rightarrow> u64 \<Rightarrow> bool"
  sf_le64 :: "u64 \<Rightarrow> u64 \<Rightarrow> bool"
  sf_f32_to_f64 :: "u32 \<Rightarrow> u64"
  sf_f64_to_f32 :: "u64 \<Rightarrow> u32"
  sf_f32_to_i32 :: "u32 \<Rightarrow> u8 \<Rightarrow> bool \<Rightarrow> u32"
  sf_f32_to_ui32 :: "u32 \<Rightarrow> u8 \<Rightarrow> bool \<Rightarrow> u32"
  sf_f32_to_i64 :: "u32 \<Rightarrow> u8 \<Rightarrow> bool \<Rightarrow> u64"
  sf_f32_to_ui64 :: "u32 \<Rightarrow> u8 \<Rightarrow> bool \<Rightarrow> u64"
  sf_f64_to_i32 :: "u64 \<Rightarrow> u8 \<Rightarrow> bool \<Rightarrow> u32"
  sf_f64_to_ui32 :: "u64 \<Rightarrow> u8 \<Rightarrow> bool \<Rightarrow> u32"
  sf_f64_to_i64 :: "u64 \<Rightarrow> u8 \<Rightarrow> bool \<Rightarrow> u64"
  sf_f64_to_ui64 :: "u64 \<Rightarrow> u8 \<Rightarrow> bool \<Rightarrow> u64"
  sf_f32_to_i32_r_minMag :: "u32 \<Rightarrow> bool \<Rightarrow> u32"
  sf_f32_to_ui32_r_minMag :: "u32 \<Rightarrow> bool \<Rightarrow> u32"
  sf_f32_to_i64_r_minMag :: "u32 \<Rightarrow> bool \<Rightarrow> u64"
  sf_f32_to_ui64_r_minMag :: "u32 \<Rightarrow> bool \<Rightarrow> u64"
  sf_f64_to_i32_r_minMag :: "u64 \<Rightarrow> bool \<Rightarrow> u32"
  sf_f64_to_ui32_r_minMag :: "u64 \<Rightarrow> bool \<Rightarrow> u32"
  sf_f64_to_i64_r_minMag :: "u64 \<Rightarrow> bool \<Rightarrow> u64"
  sf_f64_to_ui64_r_minMag :: "u64 \<Rightarrow> bool \<Rightarrow> u64"
  sf_i32_to_f32 :: "u32 \<Rightarrow> u32"
  sf_ui32_to_f32 :: "u32 \<Rightarrow> u32"
  sf_i64_to_f32 :: "u64 \<Rightarrow> u32"
  sf_ui64_to_f32 :: "u64 \<Rightarrow> u32"
  sf_i32_to_f64 :: "u32 \<Rightarrow> u64"
  sf_ui32_to_f64 :: "u32 \<Rightarrow> u64"
  sf_i64_to_f64 :: "u64 \<Rightarrow> u64"
  sf_ui64_to_f64 :: "u64 \<Rightarrow> u64"

section \<open>Single precision\<close>

definition inv_float_eps :: u32 where "inv_float_eps = 0x4B000000"
definition inv_double_eps :: u64 where "inv_double_eps = 0x4330000000000000"

definition propagate_nan32 :: "bool \<Rightarrow> u32 \<Rightarrow> u32" where
  "propagate_nan32 force_arithmetic a = (if force_arithmetic then a OR 0x00400000 else a)"

definition eosio_f32_add :: "softfloat \<Rightarrow> u32 \<Rightarrow> u32 \<Rightarrow> u32" where
  "eosio_f32_add sf a b = sf_add32 sf a b"

definition eosio_f32_sub :: "softfloat \<Rightarrow> u32 \<Rightarrow> u32 \<Rightarrow> u32" where
  "eosio_f32_sub sf a b = sf_sub32 sf a b"

definition eosio_f32_div :: "softfloat \<Rightarrow> u32 \<Rightarrow> u32 \<Rightarrow> u32" where
  "eosio_f32_div sf a b = sf_div32 sf a b"

definition eosio_f32_mul :: "softfloat \<Rightarrow> u32 \<Rightarrow> u32 \<Rightarrow> u32" where
  "eosio_f32_mul sf a b = sf_mul32 sf a b"

definition eosio_f32_min :: "softfloat \<Rightarrow> bool \<Rightarrow> u32 \<Rightarrow> u32 \<Rightarrow> u32" where
  "eosio_f32_min sf arith_nan a b =
     (if sf_is_nan32 sf a then propagate_nan32 arith_nan a
      else if sf_is_nan32 sf b then propagate_nan32 arith_nan b
      else if sf_sign_bit32 sf a \<noteq> sf_sign_bit32 sf b then (if sf_sign_bit32 sf a then a else b)
      else if sf_lt32 sf a b then a else b)"

definition eosio_f32_max :: "softfloat \<Rightarrow> bool \<Rightarrow> u32 \<Rightarrow> u32 \<Rightarrow> u32" where
  "eosio_f32_max sf arith_nan a b =
     (if sf_is_nan32 sf a then propagate_nan32 arith_nan a
      else if sf_is_nan32 sf b then propagate_nan32 arith_nan b
      else if sf_sign_bit32 sf a \<noteq> sf_sign_bit32 sf b then (if sf_sign_bit32 sf a then b else a)
      else if sf_lt32 sf a b then b else a)"

definition eosio_f32_copysign :: "u32 \<Rightarrow> u32 \<Rightarrow> u32" where
  "eosio_f32_copysign a b = (a AND NOT (push_bit 31 1)) OR push_bit 31 (drop_bit 31 b)"

definition eosio_f32_abs :: "u32 \<Rightarrow> u32" where
  "eosio_f32_abs a = a AND NOT (push_bit 31 1)"

definition eosio_f32_neg :: "u32 \<Rightarrow> u32" where
  "eosio_f32_neg a = (a AND NOT (push_bit 31 1)) OR push_bit 31 (if drop_bit 31 a = 0 then 1 else 0)"

definition eosio_f32_sqrt :: "softfloat \<Rightarrow> u32 \<Rightarrow> u32" where
  "eosio_f32_sqrt sf a = sf_sqrt32 sf a"

definition eosio_f32_ceil :: "softfloat \<Rightarrow> bool \<Rightarrow> u32 \<Rightarrow> u32" where
  "eosio_f32_ceil sf arith_nan a = (let e = uint (drop_bit 23 a AND 0xFF) - 0x7F in
     if arith_nan \<and> sf_is_nan32 sf a then propagate_nan32 arith_nan a
     else if e \<ge> 23 then a
     else if e \<ge> 0 then
       let m = drop_bit (nat e) 0x007FFFFF in
       if a AND m = 0 then a else (if drop_bit 31 a = 0 then a + m else a) AND NOT m
     else if drop_bit 31 a \<noteq> 0 then 0x80000000 else if push_bit 1 a \<noteq> 0 then 0x3F800000 else a)"

definition eosio_f32_floor :: "softfloat \<Rightarrow> bool \<Rightarrow> u32 \<Rightarrow> u32" where
  "eosio_f32_floor sf arith_nan a = (let e = uint (drop_bit 23 a AND 0xFF) - 0x7F in
     if arith_nan \<and> sf_is_nan32 sf a then propagate_nan32 arith_nan a
     else if e \<ge> 23 then a
     else if e \<ge> 0 then
       let m = drop_bit (nat e) 0x007FFFFF in
       if a AND m = 0 then a else (if drop_bit 31 a \<noteq> 0 then a + m else a) AND NOT m
     else if drop_bit 31 a = 0 then 0 else if push_bit 1 a \<noteq> 0 then 0xBF800000 else a)"

definition eosio_f32_trunc :: "softfloat \<Rightarrow> bool \<Rightarrow> u32 \<Rightarrow> u32" where
  "eosio_f32_trunc sf arith_nan a = (let e = uint (drop_bit 23 a AND 0xFF) - 0x7F + 9 in
     if arith_nan \<and> sf_is_nan32 sf a then propagate_nan32 arith_nan a
     else if e \<ge> 23 + 9 then a
     else let m = drop_bit (nat (if e < 9 then 1 else e)) (- 1) in
       if a AND m = 0 then a else a AND NOT m)"

definition eosio_f32_nearest :: "softfloat \<Rightarrow> bool \<Rightarrow> u32 \<Rightarrow> u32" where
  "eosio_f32_nearest sf arith_nan a = (let e = uint (drop_bit 23 a AND 0xFF); s = drop_bit 31 a \<noteq> 0 in
     if arith_nan \<and> sf_is_nan32 sf a then propagate_nan32 arith_nan a
     else if e \<ge> 0x7F + 23 then a
     else let y = (if s then sf_add32 sf (sf_sub32 sf a inv_float_eps) inv_float_eps else sf_sub32 sf (sf_add32 sf a inv_float_eps) inv_float_eps) in
       if sf_eq32 sf y 0 then (if s then 0x80000000 else 0) else y)"

definition eosio_f32_eq :: "softfloat \<Rightarrow> u32 \<Rightarrow> u32 \<Rightarrow> bool" where
  "eosio_f32_eq sf a b = (sf_eq32 sf a b)"

definition eosio_f32_ne :: "softfloat \<Rightarrow> u32 \<Rightarrow> u32 \<Rightarrow> bool" where
  "eosio_f32_ne sf a b = (\<not> sf_eq32 sf a b)"

definition eosio_f32_lt :: "softfloat \<Rightarrow> u32 \<Rightarrow> u32 \<Rightarrow> bool" where
  "eosio_f32_lt sf a b = (sf_lt32 sf a b)"

definition eosio_f32_le :: "softfloat \<Rightarrow> u32 \<Rightarrow> u32 \<Rightarrow> bool" where
  "eosio_f32_le sf a b = (sf_le32 sf a b)"

definition eosio_f32_gt :: "softfloat \<Rightarrow> u32 \<Rightarrow> u32 \<Rightarrow> bool" where
  "eosio_f32_gt sf a b = (if sf_is_nan32 sf a then False else if sf_is_nan32 sf b then False else \<not> sf_le32 sf a b)"

definition eosio_f32_ge :: "softfloat \<Rightarrow> u32 \<Rightarrow> u32 \<Rightarrow> bool" where
  "eosio_f32_ge sf a b = (if sf_is_nan32 sf a then False else if sf_is_nan32 sf b then False else \<not> sf_lt32 sf a b)"

section \<open>Double precision\<close>

definition propagate_nan64 :: "bool \<Rightarrow> u64 \<Rightarrow> u64" where
  "propagate_nan64 force_arithmetic a = (if force_arithmetic then a OR 0x0008000000000000 else a)"

definition eosio_f64_add :: "softfloat \<Rightarrow> u64 \<Rightarrow> u64 \<Rightarrow> u64" where
  "eosio_f64_add sf a b = sf_add64 sf a b"

definition eosio_f64_sub :: "softfloat \<Rightarrow> u64 \<Rightarrow> u64 \<Rightarrow> u64" where
  "eosio_f64_sub sf a b = sf_sub64 sf a b"

definition eosio_f64_div :: "softfloat \<Rightarrow> u64 \<Rightarrow> u64 \<Rightarrow> u64" where
  "eosio_f64_div sf a b = sf_div64 sf a b"

definition eosio_f64_mul :: "softfloat \<Rightarrow> u64 \<Rightarrow> u64 \<Rightarrow> u64" where
  "eosio_f64_mul sf a b = sf_mul64 sf a b"

definition eosio_f64_min :: "softfloat \<Rightarrow> bool \<Rightarrow> u64 \<Rightarrow> u64 \<Rightarrow> u64" where
  "eosio_f64_min sf arith_nan a b =
     (if sf_is_nan64 sf a then propagate_nan64 arith_nan a
      else if sf_is_nan64 sf b then propagate_nan64 arith_nan b
      else if sf_sign_bit64 sf a \<noteq> sf_sign_bit64 sf b then (if sf_sign_bit64 sf a then a else b)
      else if sf_lt64 sf a b then a else b)"

definition eosio_f64_max :: "softfloat \<Rightarrow> bool \<Rightarrow> u64 \<Rightarrow> u64 \<Rightarrow> u64" where
  "eosio_f64_max sf arith_nan a b =
     (if sf_is_nan64 sf a then propagate_nan64 arith_nan a
      else if sf_is_nan64 sf b then propagate_nan64 arith_nan b
      else if sf_sign_bit64 sf a \<noteq> sf_sign_bit64 sf b then (if sf_sign_bit64 sf a then b else a)
      else if sf_lt64 sf a b then b else a)"

definition eosio_f64_copysign :: "u64 \<Rightarrow> u64 \<Rightarrow> u64" where
  "eosio_f64_copysign a b = (a AND NOT (push_bit 63 1)) OR push_bit 63 (drop_bit 63 b)"

definition eosio_f64_abs :: "u64 \<Rightarrow> u64" where
  "eosio_f64_abs a = a AND NOT (push_bit 63 1)"

definition eosio_f64_neg :: "u64 \<Rightarrow> u64" where
  "eosio_f64_neg a = (a AND NOT (push_bit 63 1)) OR push_bit 63 (if drop_bit 63 a = 0 then 1 else 0)"

definition eosio_f64_sqrt :: "softfloat \<Rightarrow> u64 \<Rightarrow> u64" where
  "eosio_f64_sqrt sf a = sf_sqrt64 sf a"

definition eosio_f64_ceil :: "softfloat \<Rightarrow> bool \<Rightarrow> u64 \<Rightarrow> u64" where
  "eosio_f64_ceil sf arith_nan a = (let e = uint (drop_bit 52 a AND 0x7FF) in
     if arith_nan \<and> sf_is_nan64 sf a then propagate_nan64 arith_nan a
     else if e \<ge> 0x3FF + 52 \<or> sf_eq64 sf a 0 then a
     else let y = (if drop_bit 63 a \<noteq> 0
              then sf_sub64 sf (sf_add64 sf (sf_sub64 sf a inv_double_eps) inv_double_eps) a
              else sf_sub64 sf (sf_sub64 sf (sf_add64 sf a inv_double_eps) inv_double_eps) a) in
       if e \<le> 0x3FF - 1 then (if drop_bit 63 a \<noteq> 0 then 0x8000000000000000 else 0x3FF0000000000000)
       else if sf_lt64 sf y 0 then sf_add64 sf (sf_add64 sf a y) 0x3FF0000000000000
       else sf_add64 sf a y)"

definition eosio_f64_floor :: "softfloat \<Rightarrow> bool \<Rightarrow> u64 \<Rightarrow> u64" where
  "eosio_f64_floor sf arith_nan a = (let e = uint (drop_bit 52 a AND 0x7FF) in
     if arith_nan \<and> sf_is_nan64 sf a then propagate_nan64 arith_nan a
     else if a = 0x8000000000000000 then a
     else if e \<ge> 0x3FF + 52 \<or> a = 0 then a
     else let y = (if drop_bit 63 a \<noteq> 0
              then sf_sub64 sf (sf_add64 sf (sf_sub64 sf a inv_double_eps) inv_double_eps) a
              else sf_sub64 sf (sf_sub64 sf (sf_add64 sf a inv_double_eps) inv_double_eps) a) in
       if e \<le> 0x3FF - 1 then (if drop_bit 63 a \<noteq> 0 then 0xBFF0000000000000 else 0)
       else if \<not> sf_le64 sf y 0 then sf_sub64 sf (sf_add64 sf a y) 0x3FF0000000000000
       else sf_add64 sf a y)"

definition eosio_f64_trunc :: "softfloat \<Rightarrow> bool \<Rightarrow> u64 \<Rightarrow> u64" where
  "eosio_f64_trunc sf arith_nan a = (let e = uint (drop_bit 52 a AND 0x7FF) - 0x3FF + 12 in
     if arith_nan \<and> sf_is_nan64 sf a then propagate_nan64 arith_nan a
     else if e \<ge> 52 + 12 then a
     else let m = drop_bit (nat (if e < 12 then 1 else e)) (- 1) in
       if a AND m = 0 then a else a AND NOT m)"

definition eosio_f64_nearest :: "softfloat \<Rightarrow> bool \<Rightarrow> u64 \<Rightarrow> u64" where
  "eosio_f64_nearest sf arith_nan a = (let e = uint (drop_bit 52 a AND 0x7FF); s = drop_bit 63 a \<noteq> 0 in
     if arith_nan \<and> sf_is_nan64 sf a then propagate_nan64 arith_nan a
     else if e \<ge> 0x3FF + 52 then a
     else let y = (if s then sf_add64 sf (sf_sub64 sf a inv_double_eps) inv_double_eps else sf_sub64 sf (sf_add64 sf a inv_double_eps) inv_double_eps) in
       if sf_eq64 sf y 0 then (if s then 0x8000000000000000 else 0) else y)"

definition eosio_f64_eq :: "softfloat \<Rightarrow> u64 \<Rightarrow> u64 \<Rightarrow> bool" where
  "eosio_f64_eq sf a b = (sf_eq64 sf a b)"

definition eosio_f64_ne :: "softfloat \<Rightarrow> u64 \<Rightarrow> u64 \<Rightarrow> bool" where
  "eosio_f64_ne sf a b = (\<not> sf_eq64 sf a b)"

definition eosio_f64_lt :: "softfloat \<Rightarrow> u64 \<Rightarrow> u64 \<Rightarrow> bool" where
  "eosio_f64_lt sf a b = (sf_lt64 sf a b)"

definition eosio_f64_le :: "softfloat \<Rightarrow> u64 \<Rightarrow> u64 \<Rightarrow> bool" where
  "eosio_f64_le sf a b = (sf_le64 sf a b)"

definition eosio_f64_gt :: "softfloat \<Rightarrow> u64 \<Rightarrow> u64 \<Rightarrow> bool" where
  "eosio_f64_gt sf a b = (if sf_is_nan64 sf a then False else if sf_is_nan64 sf b then False else \<not> sf_le64 sf a b)"

definition eosio_f64_ge :: "softfloat \<Rightarrow> u64 \<Rightarrow> u64 \<Rightarrow> bool" where
  "eosio_f64_ge sf a b = (if sf_is_nan64 sf a then False else if sf_is_nan64 sf b then False else \<not> sf_lt64 sf a b)"

section \<open>Conversions\<close>

definition eosio_f32_promote :: "softfloat \<Rightarrow> u32 \<Rightarrow> u64" where
  "eosio_f32_promote sf a = sf_f32_to_f64 sf a"

definition eosio_f64_demote :: "softfloat \<Rightarrow> u64 \<Rightarrow> u32" where
  "eosio_f64_demote sf a = sf_f64_to_f32 sf a"

text \<open>The literals are the bit patterns of the bounds: powers of two and minus one.\<close>

definition eosio_f32_trunc_i32s :: "softfloat \<Rightarrow> u32 \<Rightarrow> u32 res" where
  "eosio_f32_trunc_i32s sf a =
     assertE (\<not> (eosio_f32_ge sf a 0x4F000000 \<or> eosio_f32_lt sf a 0xCF000000)) Wasm_interpreter_exception
     (assertE (\<not> sf_is_nan32 sf a) Wasm_interpreter_exception
     (Inr (sf_f32_to_i32 sf (eosio_f32_trunc sf False a) 0 False)))"

definition eosio_f64_trunc_i32s :: "softfloat \<Rightarrow> bool \<Rightarrow> u64 \<Rightarrow> u32 res" where
  "eosio_f64_trunc_i32s sf fixed_bound a =
     assertE (if fixed_bound then \<not> (eosio_f64_ge sf a 0x41E0000000000000 \<or> eosio_f64_le sf a 0xC1E0000000200000)
              else \<not> (eosio_f64_ge sf a 0x41E0000000000000 \<or> eosio_f64_lt sf a 0xC1E0000000000000)) Wasm_interpreter_exception
     (assertE (\<not> sf_is_nan64 sf a) Wasm_interpreter_exception
     (Inr (sf_f64_to_i32 sf (eosio_f64_trunc sf False a) 0 False)))"

definition eosio_f32_trunc_i32u :: "softfloat \<Rightarrow> u32 \<Rightarrow> u32 res" where
  "eosio_f32_trunc_i32u sf a =
     assertE (\<not> (eosio_f32_ge sf a 0x4F800000 \<or> eosio_f32_le sf a 0xBF800000)) Wasm_interpreter_exception
     (assertE (\<not> sf_is_nan32 sf a) Wasm_interpreter_exception
     (Inr (sf_f32_to_ui32 sf (eosio_f32_trunc sf False a) 0 False)))"

definition eosio_f64_trunc_i32u :: "softfloat \<Rightarrow> u64 \<Rightarrow> u32 res" where
  "eosio_f64_trunc_i32u sf a =
     assertE (\<not> (eosio_f64_ge sf a 0x41F0000000000000 \<or> eosio_f64_le sf a 0xBFF0000000000000)) Wasm_interpreter_exception
     (assertE (\<not> sf_is_nan64 sf a) Wasm_interpreter_exception
     (Inr (sf_f64_to_ui32 sf (eosio_f64_trunc sf False a) 0 False)))"

definition eosio_f32_trunc_i64s :: "softfloat \<Rightarrow> u32 \<Rightarrow> u64 res" where
  "eosio_f32_trunc_i64s sf a =
     assertE (\<not> (eosio_f32_ge sf a 0x5F000000 \<or> eosio_f32_lt sf a 0xDF000000)) Wasm_interpreter_exception
     (assertE (\<not> sf_is_nan32 sf a) Wasm_interpreter_exception
     (Inr (sf_f32_to_i64 sf (eosio_f32_trunc sf False a) 0 False)))"

definition eosio_f64_trunc_i64s :: "softfloat \<Rightarrow> u64 \<Rightarrow> u64 res" where
  "eosio_f64_trunc_i64s sf a =
     assertE (\<not> (eosio_f64_ge sf a 0x43E0000000000000 \<or> eosio_f64_lt sf a 0xC3E0000000000000)) Wasm_interpreter_exception
     (assertE (\<not> sf_is_nan64 sf a) Wasm_interpreter_exception
     (Inr (sf_f64_to_i64 sf (eosio_f64_trunc sf False a) 0 False)))"

definition eosio_f32_trunc_i64u :: "softfloat \<Rightarrow> u32 \<Rightarrow> u64 res" where
  "eosio_f32_trunc_i64u sf a =
     assertE (\<not> (eosio_f32_ge sf a 0x5F800000 \<or> eosio_f32_le sf a 0xBF800000)) Wasm_interpreter_exception
     (assertE (\<not> sf_is_nan32 sf a) Wasm_interpreter_exception
     (Inr (sf_f32_to_ui64 sf (eosio_f32_trunc sf False a) 0 False)))"

definition eosio_f64_trunc_i64u :: "softfloat \<Rightarrow> u64 \<Rightarrow> u64 res" where
  "eosio_f64_trunc_i64u sf a =
     assertE (\<not> (eosio_f64_ge sf a 0x43F0000000000000 \<or> eosio_f64_le sf a 0xBFF0000000000000)) Wasm_interpreter_exception
     (assertE (\<not> sf_is_nan64 sf a) Wasm_interpreter_exception
     (Inr (sf_f64_to_ui64 sf (eosio_f64_trunc sf False a) 0 False)))"

definition eosio_i32_to_f32 :: "softfloat \<Rightarrow> u32 \<Rightarrow> u32" where
  "eosio_i32_to_f32 sf a = sf_i32_to_f32 sf a"

definition eosio_i64_to_f32 :: "softfloat \<Rightarrow> u64 \<Rightarrow> u32" where
  "eosio_i64_to_f32 sf a = sf_i64_to_f32 sf a"

definition eosio_ui32_to_f32 :: "softfloat \<Rightarrow> u32 \<Rightarrow> u32" where
  "eosio_ui32_to_f32 sf a = sf_ui32_to_f32 sf a"

definition eosio_ui64_to_f32 :: "softfloat \<Rightarrow> u64 \<Rightarrow> u32" where
  "eosio_ui64_to_f32 sf a = sf_ui64_to_f32 sf a"

definition eosio_i32_to_f64 :: "softfloat \<Rightarrow> u32 \<Rightarrow> u64" where
  "eosio_i32_to_f64 sf a = sf_i32_to_f64 sf a"

definition eosio_i64_to_f64 :: "softfloat \<Rightarrow> u64 \<Rightarrow> u64" where
  "eosio_i64_to_f64 sf a = sf_i64_to_f64 sf a"

definition eosio_ui32_to_f64 :: "softfloat \<Rightarrow> u32 \<Rightarrow> u64" where
  "eosio_ui32_to_f64 sf a = sf_ui32_to_f64 sf a"

definition eosio_ui64_to_f64 :: "softfloat \<Rightarrow> u64 \<Rightarrow> u64" where
  "eosio_ui64_to_f64 sf a = sf_ui64_to_f64 sf a"

definition eosio_i32_trunc_sat_f32_s :: "softfloat \<Rightarrow> u32 \<Rightarrow> u32" where
  "eosio_i32_trunc_sat_f32_s sf a =
     (if sf_is_nan32 sf a then 0
      else if eosio_f32_ge sf a 0x4F000000 then 0x7FFFFFFF
      else if eosio_f32_lt sf a 0xCF000000 then 0x80000000
      else sf_f32_to_i32_r_minMag sf a False)"

definition eosio_i32_trunc_sat_f32_u :: "softfloat \<Rightarrow> u32 \<Rightarrow> u32" where
  "eosio_i32_trunc_sat_f32_u sf a =
     (if sf_is_nan32 sf a then 0
      else if eosio_f32_ge sf a 0x4F800000 then 0xFFFFFFFF
      else if eosio_f32_le sf a 0xBF800000 then 0
      else sf_f32_to_ui32_r_minMag sf a False)"

definition eosio_i32_trunc_sat_f64_s :: "softfloat \<Rightarrow> u64 \<Rightarrow> u32" where
  "eosio_i32_trunc_sat_f64_s sf a =
     (if sf_is_nan64 sf a then 0
      else if eosio_f64_ge sf a 0x41E0000000000000 then 0x7FFFFFFF
      else if eosio_f64_lt sf a 0xC1E0000000000000 then 0x80000000
      else sf_f64_to_i32_r_minMag sf a False)"

definition eosio_i32_trunc_sat_f64_u :: "softfloat \<Rightarrow> u64 \<Rightarrow> u32" where
  "eosio_i32_trunc_sat_f64_u sf a =
     (if sf_is_nan64 sf a then 0
      else if eosio_f64_ge sf a 0x41F0000000000000 then 0xFFFFFFFF
      else if eosio_f64_le sf a 0xBFF0000000000000 then 0
      else sf_f64_to_ui32_r_minMag sf a False)"

definition eosio_i64_trunc_sat_f32_s :: "softfloat \<Rightarrow> u32 \<Rightarrow> u64" where
  "eosio_i64_trunc_sat_f32_s sf a =
     (if sf_is_nan32 sf a then 0
      else if eosio_f32_ge sf a 0x5F000000 then 0x7FFFFFFFFFFFFFFF
      else if eosio_f32_lt sf a 0xDF000000 then 0x8000000000000000
      else sf_f32_to_i64_r_minMag sf a False)"

definition eosio_i64_trunc_sat_f32_u :: "softfloat \<Rightarrow> u32 \<Rightarrow> u64" where
  "eosio_i64_trunc_sat_f32_u sf a =
     (if sf_is_nan32 sf a then 0
      else if eosio_f32_ge sf a 0x5F800000 then 0xFFFFFFFFFFFFFFFF
      else if eosio_f32_le sf a 0xBF800000 then 0
      else sf_f32_to_ui64_r_minMag sf a False)"

definition eosio_i64_trunc_sat_f64_s :: "softfloat \<Rightarrow> u64 \<Rightarrow> u64" where
  "eosio_i64_trunc_sat_f64_s sf a =
     (if sf_is_nan64 sf a then 0
      else if eosio_f64_ge sf a 0x43E0000000000000 then 0x7FFFFFFFFFFFFFFF
      else if eosio_f64_lt sf a 0xC3E0000000000000 then 0x8000000000000000
      else sf_f64_to_i64_r_minMag sf a False)"

definition eosio_i64_trunc_sat_f64_u :: "softfloat \<Rightarrow> u64 \<Rightarrow> u64" where
  "eosio_i64_trunc_sat_f64_u sf a =
     (if sf_is_nan64 sf a then 0
      else if eosio_f64_ge sf a 0x43F0000000000000 then 0xFFFFFFFFFFFFFFFF
      else if eosio_f64_le sf a 0xBFF0000000000000 then 0
      else sf_f64_to_ui64_r_minMag sf a False)"

end
