(* ===== verification/Vm_Int_Ops.thy ===== *)
theory Vm_Int_Ops
  imports Vm_Opcodes "HOL-Library.Signed_Division"
begin

text \<open>
  The integer instructions of \<^verbatim>\<open>interpret_visitor.hpp\<close> as functions on their operand words, without the
  stack (that is \<^verbatim>\<open>Vm_Interp\<close>).  Each definition is the expression the visitor evaluates: unsigned
  arithmetic wraps, a signed operand is the two's complement reading \<open>sint\<close> of the same bits, C++'s
  signed division truncates toward zero (\<open>sdiv\<close>, \<open>smod\<close>), shift counts are masked.  A trap is the
  exception \<open>Wasm_interpreter_exception\<close>.

  Shown: the results are those of the WebAssembly integer operations, stated on the integers the words
  stand for: division and remainder with exactly the traps of the standard, shifts, rotations against the
  rotation of the library, counting of zeros, sign extension.
\<close>

section \<open>Compiler built-ins and partial operators\<close>

text \<open>\<open>__builtin_clz\<close> and \<open>__builtin_ctz\<close> are undefined at zero.\<close>

definition leading_zeros :: "'a::len word \<Rightarrow> nat" where
  "leading_zeros w = length (takeWhile Not (rev (map (bit w) [0..<LENGTH('a)])))"

definition trailing_zeros :: "'a::len word \<Rightarrow> nat" where
  "trailing_zeros w = length (takeWhile Not (map (bit w) [0..<LENGTH('a)]))"

definition builtin_clz :: "'a::len word \<Rightarrow> 'a word res" where
  "builtin_clz w = assertE (w \<noteq> 0) Undefined_behaviour (Inr (of_nat (leading_zeros w)))"

definition builtin_ctz :: "'a::len word \<Rightarrow> 'a word res" where
  "builtin_ctz w = assertE (w \<noteq> 0) Undefined_behaviour (Inr (of_nat (trailing_zeros w)))"

definition builtin_popcount :: "'a::len word \<Rightarrow> nat" where
  "builtin_popcount w = length (filter (bit w) [0..<LENGTH('a)])"

text \<open>
  The operators \<open>/\<close> and \<open>%\<close> of C++: undefined for a zero divisor and, on signed operands, when the quotient is
  not representable, for the remainder too.
\<close>

definition quotient_defined :: "'a::len word \<Rightarrow> 'a word \<Rightarrow> bool" where
  "quotient_defined l r \<longleftrightarrow> r \<noteq> 0 \<and> \<not> (sint l = - (2 ^ (LENGTH('a) - 1)) \<and> sint r = -1)"

definition c_div_s :: "'a::len word \<Rightarrow> 'a word \<Rightarrow> 'a word res" where
  "c_div_s l r = assertE (quotient_defined l r) Undefined_behaviour (Inr (word_of_int (sint l sdiv sint r)))"

definition c_rem_s :: "'a::len word \<Rightarrow> 'a word \<Rightarrow> 'a word res" where
  "c_rem_s l r = assertE (quotient_defined l r) Undefined_behaviour (Inr (word_of_int (sint l smod sint r)))"

definition c_div_u :: "'a::len word \<Rightarrow> 'a word \<Rightarrow> 'a word res" where
  "c_div_u l r = assertE (r \<noteq> 0) Undefined_behaviour (Inr (l div r))"

definition c_rem_u :: "'a::len word \<Rightarrow> 'a word \<Rightarrow> 'a word res" where
  "c_rem_u l r = assertE (r \<noteq> 0) Undefined_behaviour (Inr (l mod r))"

section \<open>32-bit operations\<close>

definition i32_clz :: "u32 \<Rightarrow> u32 res" where
  "i32_clz oper = (if oper = 0 then Inr 32 else builtin_clz oper)"

definition i32_ctz :: "u32 \<Rightarrow> u32 res" where
  "i32_ctz oper = (if oper = 0 then Inr 32 else builtin_ctz oper)"

definition i32_popcnt :: "u32 \<Rightarrow> u32" where
  "i32_popcnt oper = of_nat (builtin_popcount oper)"

definition i32_div_s :: "u32 \<Rightarrow> u32 \<Rightarrow> u32 res" where
  "i32_div_s lhs rhs = assertE (rhs \<noteq> 0) Wasm_interpreter_exception
     (assertE (\<not> (sint lhs = - (2 ^ 31) \<and> sint rhs = -1)) Wasm_interpreter_exception (c_div_s lhs rhs))"

definition i32_div_u :: "u32 \<Rightarrow> u32 \<Rightarrow> u32 res" where
  "i32_div_u lhs rhs = assertE (rhs \<noteq> 0) Wasm_interpreter_exception (c_div_u lhs rhs)"

definition i32_rem_s :: "u32 \<Rightarrow> u32 \<Rightarrow> u32 res" where
  "i32_rem_s lhs rhs = assertE (rhs \<noteq> 0) Wasm_interpreter_exception
     (if sint lhs = - (2 ^ 31) \<and> sint rhs = -1 then Inr 0 else c_rem_s lhs rhs)"

definition i32_rem_u :: "u32 \<Rightarrow> u32 \<Rightarrow> u32 res" where
  "i32_rem_u lhs rhs = assertE (rhs \<noteq> 0) Wasm_interpreter_exception (c_rem_u lhs rhs)"

definition i32_shl :: "u32 \<Rightarrow> u32 \<Rightarrow> u32" where
  "i32_shl lhs rhs = push_bit (unat (rhs AND 31)) lhs"

definition i32_shr_s :: "u32 \<Rightarrow> u32 \<Rightarrow> u32" where
  "i32_shr_s lhs rhs = signed_drop_bit (unat (rhs AND 31)) lhs"

definition i32_shr_u :: "u32 \<Rightarrow> u32 \<Rightarrow> u32" where
  "i32_shr_u lhs rhs = drop_bit (unat (rhs AND 31)) lhs"

definition i32_rotl :: "u32 \<Rightarrow> u32 \<Rightarrow> u32" where
  "i32_rotl lhs rhs = (let c = rhs AND 31 in push_bit (unat c) lhs OR drop_bit (unat (- c AND 31)) lhs)"

definition i32_rotr :: "u32 \<Rightarrow> u32 \<Rightarrow> u32" where
  "i32_rotr lhs rhs = (let c = rhs AND 31 in drop_bit (unat c) lhs OR push_bit (unat (- c AND 31)) lhs)"

section \<open>64-bit operations\<close>

definition i64_clz :: "u64 \<Rightarrow> u64 res" where
  "i64_clz oper = (if oper = 0 then Inr 64 else builtin_clz oper)"

definition i64_ctz :: "u64 \<Rightarrow> u64 res" where
  "i64_ctz oper = (if oper = 0 then Inr 64 else builtin_ctz oper)"

definition i64_popcnt :: "u64 \<Rightarrow> u64" where
  "i64_popcnt oper = of_nat (builtin_popcount oper)"

definition i64_div_s :: "u64 \<Rightarrow> u64 \<Rightarrow> u64 res" where
  "i64_div_s lhs rhs = assertE (rhs \<noteq> 0) Wasm_interpreter_exception
     (assertE (\<not> (sint lhs = - (2 ^ 63) \<and> sint rhs = -1)) Wasm_interpreter_exception (c_div_s lhs rhs))"

definition i64_div_u :: "u64 \<Rightarrow> u64 \<Rightarrow> u64 res" where
  "i64_div_u lhs rhs = assertE (rhs \<noteq> 0) Wasm_interpreter_exception (c_div_u lhs rhs)"

definition i64_rem_s :: "u64 \<Rightarrow> u64 \<Rightarrow> u64 res" where
  "i64_rem_s lhs rhs = assertE (rhs \<noteq> 0) Wasm_interpreter_exception
     (if sint lhs = - (2 ^ 63) \<and> sint rhs = -1 then Inr 0 else c_rem_s lhs rhs)"

definition i64_rem_u :: "u64 \<Rightarrow> u64 \<Rightarrow> u64 res" where
  "i64_rem_u lhs rhs = assertE (rhs \<noteq> 0) Wasm_interpreter_exception (c_rem_u lhs rhs)"

definition i64_shl :: "u64 \<Rightarrow> u64 \<Rightarrow> u64" where
  "i64_shl lhs rhs = push_bit (unat (rhs AND 63)) lhs"

definition i64_shr_s :: "u64 \<Rightarrow> u64 \<Rightarrow> u64" where
  "i64_shr_s lhs rhs = signed_drop_bit (unat (rhs AND 63)) lhs"

definition i64_shr_u :: "u64 \<Rightarrow> u64 \<Rightarrow> u64" where
  "i64_shr_u lhs rhs = drop_bit (unat (rhs AND 63)) lhs"

text \<open>The rotation count \<open>c\<close> is a 32-bit variable, widened when it is masked.\<close>

definition i64_rotl :: "u64 \<Rightarrow> u64 \<Rightarrow> u64" where
  "i64_rotl lhs rhs = (let c = ucast rhs AND 63 :: u32 in
     push_bit (unat c) lhs OR drop_bit (unat (ucast (- c) AND 63 :: u64)) lhs)"

definition i64_rotr :: "u64 \<Rightarrow> u64 \<Rightarrow> u64" where
  "i64_rotr lhs rhs = (let c = ucast rhs AND 63 :: u32 in
     drop_bit (unat c) lhs OR push_bit (unat (ucast (- c) AND 63 :: u64)) lhs)"

section \<open>The instruction groups\<close>

text \<open>Binary operations on the popped right and the left operand; the counts take one operand.\<close>

fun i32_arith :: "i32_op \<Rightarrow> u32 \<Rightarrow> u32 \<Rightarrow> u32 res" where
  "i32_arith I32_add lhs rhs = Inr (lhs + rhs)"
| "i32_arith I32_sub lhs rhs = Inr (lhs - rhs)"
| "i32_arith I32_mul lhs rhs = Inr (lhs * rhs)"
| "i32_arith I32_div_s lhs rhs = i32_div_s lhs rhs"
| "i32_arith I32_div_u lhs rhs = i32_div_u lhs rhs"
| "i32_arith I32_rem_s lhs rhs = i32_rem_s lhs rhs"
| "i32_arith I32_rem_u lhs rhs = i32_rem_u lhs rhs"
| "i32_arith I32_and lhs rhs = Inr (lhs AND rhs)"
| "i32_arith I32_or lhs rhs = Inr (lhs OR rhs)"
| "i32_arith I32_xor lhs rhs = Inr (lhs XOR rhs)"
| "i32_arith I32_shl lhs rhs = Inr (i32_shl lhs rhs)"
| "i32_arith I32_shr_s lhs rhs = Inr (i32_shr_s lhs rhs)"
| "i32_arith I32_shr_u lhs rhs = Inr (i32_shr_u lhs rhs)"
| "i32_arith I32_rotl lhs rhs = Inr (i32_rotl lhs rhs)"
| "i32_arith I32_rotr lhs rhs = Inr (i32_rotr lhs rhs)"
| "i32_arith I32_clz lhs _ = i32_clz lhs"
| "i32_arith I32_ctz lhs _ = i32_ctz lhs"
| "i32_arith I32_popcnt lhs _ = Inr (i32_popcnt lhs)"

fun i64_arith :: "i64_op \<Rightarrow> u64 \<Rightarrow> u64 \<Rightarrow> u64 res" where
  "i64_arith I64_add lhs rhs = Inr (lhs + rhs)"
| "i64_arith I64_sub lhs rhs = Inr (lhs - rhs)"
| "i64_arith I64_mul lhs rhs = Inr (lhs * rhs)"
| "i64_arith I64_div_s lhs rhs = i64_div_s lhs rhs"
| "i64_arith I64_div_u lhs rhs = i64_div_u lhs rhs"
| "i64_arith I64_rem_s lhs rhs = i64_rem_s lhs rhs"
| "i64_arith I64_rem_u lhs rhs = i64_rem_u lhs rhs"
| "i64_arith I64_and lhs rhs = Inr (lhs AND rhs)"
| "i64_arith I64_or lhs rhs = Inr (lhs OR rhs)"
| "i64_arith I64_xor lhs rhs = Inr (lhs XOR rhs)"
| "i64_arith I64_shl lhs rhs = Inr (i64_shl lhs rhs)"
| "i64_arith I64_shr_s lhs rhs = Inr (i64_shr_s lhs rhs)"
| "i64_arith I64_shr_u lhs rhs = Inr (i64_shr_u lhs rhs)"
| "i64_arith I64_rotl lhs rhs = Inr (i64_rotl lhs rhs)"
| "i64_arith I64_rotr lhs rhs = Inr (i64_rotr lhs rhs)"
| "i64_arith I64_clz lhs _ = i64_clz lhs"
| "i64_arith I64_ctz lhs _ = i64_ctz lhs"
| "i64_arith I64_popcnt lhs _ = Inr (i64_popcnt lhs)"

fun i32_compare :: "i32_cmp_op \<Rightarrow> u32 \<Rightarrow> u32 \<Rightarrow> bool" where
  "i32_compare I32_eqz lhs _ = (lhs = 0)"
| "i32_compare I32_eq lhs rhs = (lhs = rhs)"
| "i32_compare I32_ne lhs rhs = (lhs \<noteq> rhs)"
| "i32_compare I32_lt_s lhs rhs = (sint lhs < sint rhs)"
| "i32_compare I32_lt_u lhs rhs = (lhs < rhs)"
| "i32_compare I32_le_s lhs rhs = (sint lhs \<le> sint rhs)"
| "i32_compare I32_le_u lhs rhs = (lhs \<le> rhs)"
| "i32_compare I32_gt_s lhs rhs = (sint lhs > sint rhs)"
| "i32_compare I32_gt_u lhs rhs = (lhs > rhs)"
| "i32_compare I32_ge_s lhs rhs = (sint lhs \<ge> sint rhs)"
| "i32_compare I32_ge_u lhs rhs = (lhs \<ge> rhs)"

fun i64_compare :: "i64_cmp_op \<Rightarrow> u64 \<Rightarrow> u64 \<Rightarrow> bool" where
  "i64_compare I64_eqz lhs _ = (lhs = 0)"
| "i64_compare I64_eq lhs rhs = (lhs = rhs)"
| "i64_compare I64_ne lhs rhs = (lhs \<noteq> rhs)"
| "i64_compare I64_lt_s lhs rhs = (sint lhs < sint rhs)"
| "i64_compare I64_lt_u lhs rhs = (lhs < rhs)"
| "i64_compare I64_le_s lhs rhs = (sint lhs \<le> sint rhs)"
| "i64_compare I64_le_u lhs rhs = (lhs \<le> rhs)"
| "i64_compare I64_gt_s lhs rhs = (sint lhs > sint rhs)"
| "i64_compare I64_gt_u lhs rhs = (lhs > rhs)"
| "i64_compare I64_ge_s lhs rhs = (sint lhs \<ge> sint rhs)"
| "i64_compare I64_ge_u lhs rhs = (lhs \<ge> rhs)"

text \<open>Sign extension: through the narrow signed type and back.\<close>

definition i32_extend8_s :: "u32 \<Rightarrow> u32" where "i32_extend8_s oper = scast (ucast oper :: u8)"
definition i32_extend16_s :: "u32 \<Rightarrow> u32" where "i32_extend16_s oper = scast (ucast oper :: u16)"
definition i64_extend8_s :: "u64 \<Rightarrow> u64" where "i64_extend8_s oper = scast (ucast oper :: u8)"
definition i64_extend16_s :: "u64 \<Rightarrow> u64" where "i64_extend16_s oper = scast (ucast oper :: u16)"
definition i64_extend32_s :: "u64 \<Rightarrow> u64" where "i64_extend32_s oper = scast (ucast oper :: u32)"

section \<open>Division\<close>

text \<open>The operations of the WebAssembly standard on integers; \<open>None\<close> is a trap.\<close>

definition idiv_s :: "nat \<Rightarrow> int \<Rightarrow> int \<Rightarrow> int option" where
  "idiv_s n i j = (if j = 0 \<or> i sdiv j = 2 ^ (n - 1) then None else Some (i sdiv j))"

definition irem_s :: "int \<Rightarrow> int \<Rightarrow> int option" where
  "irem_s i j = (if j = 0 then None else Some (i - j * (i sdiv j)))"

definition idiv_u :: "int \<Rightarrow> int \<Rightarrow> int option" where
  "idiv_u i j = (if j = 0 then None else Some (i div j))"

definition irem_u :: "int \<Rightarrow> int \<Rightarrow> int option" where
  "irem_u i j = (if j = 0 then None else Some (i - j * (i div j)))"

definition stands_for :: "('a::len word \<Rightarrow> int) \<Rightarrow> 'a word res \<Rightarrow> int option \<Rightarrow> bool" where
  "stands_for val r o' = (case r of Inl e \<Rightarrow> e = Wasm_interpreter_exception \<and> o' = None | Inr w \<Rightarrow> o' = Some (val w))"

lemma stands_for_simps [simp]:
  "stands_for val (Inr w) (Some i) \<longleftrightarrow> val w = i" "stands_for val (Inl Wasm_interpreter_exception) None"
  by (auto simp: stands_for_def)

lemma sdiv_overflow:
  fixes l r :: int
  assumes "- (2 ^ n) \<le> l" "l < 2 ^ n"
  shows "l sdiv r = 2 ^ n \<longleftrightarrow> l = - (2 ^ n) \<and> r = -1"
proof
  assume q: "l sdiv r = 2 ^ n"
  then have "l = - (2 ^ n)" using sdiv_int_range [of l r] assms by auto
  moreover have "r = -1" using q calculation int_sdiv_negated_is_minus1 [of l r] by auto
  ultimately show "l = - (2 ^ n) \<and> r = -1" ..
qed simp

lemma sint_word_of_int_self:
  "- (2 ^ (LENGTH('a) - 1)) \<le> k \<Longrightarrow> k < 2 ^ (LENGTH('a) - 1) \<Longrightarrow> sint (word_of_int k :: 'a::len word) = k"
  by (simp add: sint_sbintrunc' signed_take_bit_int_eq_self)

lemma sint_eq_0_word: "sint (w :: 'a::len word) = 0 \<longleftrightarrow> w = 0"
  by (metis signed_0 signed_word_eqI)

lemma sint_quotient:
  fixes l r :: "'a::len word"
  assumes "sint l sdiv sint r \<noteq> 2 ^ (LENGTH('a) - 1)"
  shows "sint (word_of_int (sint l sdiv sint r) :: 'a word) = sint l sdiv sint r"
  using sdiv_int_range [of "sint l" "sint r"] sint_ge [of l] sint_lt [of l] assms
  by (intro sint_word_of_int_self) auto

lemma sint_remainder:
  fixes l r :: "'a::len word"
  assumes "r \<noteq> 0"
  shows "sint (word_of_int (sint l smod sint r) :: 'a word) = sint l smod sint r"
proof -
  have "sint r \<noteq> 0" using assms by (simp add: sint_eq_0_word)
  from smod_int_range [OF this, of "sint l"] sint_ge [of r] sint_lt [of r] show ?thesis
    by (intro sint_word_of_int_self) auto
qed

lemma div_s_stands:
  fixes l r :: "'a::len word"
  shows "stands_for sint (assertE (r \<noteq> 0) Wasm_interpreter_exception
     (assertE (\<not> (sint l = - (2 ^ (LENGTH('a) - 1)) \<and> sint r = -1)) Wasm_interpreter_exception
       (c_div_s l r))) (idiv_s LENGTH('a) (sint l) (sint r))"
  using sdiv_overflow [OF sint_ge [of l] sint_lt [of l], of "sint r"] sint_quotient [of l r]
  by (auto simp: idiv_s_def assertE_def sint_eq_0_word c_div_s_def quotient_defined_def)

lemma rem_s_stands:
  fixes l r :: "'a::len word"
  shows "stands_for sint (assertE (r \<noteq> 0) Wasm_interpreter_exception
     (if sint l = - (2 ^ (LENGTH('a) - 1)) \<and> sint r = -1 then Inr 0 else c_rem_s l r))
     (irem_s (sint l) (sint r))"
  using sint_remainder [of r l]
  by (auto simp: irem_s_def assertE_def sint_eq_0_word minus_mult_sdiv_eq_smod signed_modulo_int_def c_rem_s_def quotient_defined_def)

lemma div_u_stands:
  fixes l r :: "'a::len word"
  shows "stands_for uint (assertE (r \<noteq> 0) Wasm_interpreter_exception (c_div_u l r)) (idiv_u (uint l) (uint r))"
    and "stands_for uint (assertE (r \<noteq> 0) Wasm_interpreter_exception (c_rem_u l r)) (irem_u (uint l) (uint r))"
  by (auto simp: c_div_u_def c_rem_u_def idiv_u_def irem_u_def assertE_def uint_div uint_mod minus_mult_div_eq_mod uint_0_iff)

text \<open>
  C29: the division instructions compute the quotient and remainder of the WebAssembly standard on the
  integers their operands stand for, and trap exactly where the standard does: on a zero divisor and, for
  the signed quotient alone, when the result is out of range.  The signed remainder of the smallest number
  by \<open>-1\<close> is zero, not a trap.
\<close>

theorem division_spec:
  "stands_for sint (i32_div_s l r) (idiv_s 32 (sint l) (sint r)) \<and> stands_for uint (i32_div_u l r) (idiv_u (uint l) (uint r))
   \<and> stands_for sint (i32_rem_s l r) (irem_s (sint l) (sint r)) \<and> stands_for uint (i32_rem_u l r) (irem_u (uint l) (uint r))
   \<and> stands_for sint (i64_div_s l' r') (idiv_s 64 (sint l') (sint r')) \<and> stands_for uint (i64_div_u l' r') (idiv_u (uint l') (uint r'))
   \<and> stands_for sint (i64_rem_s l' r') (irem_s (sint l') (sint r')) \<and> stands_for uint (i64_rem_u l' r') (irem_u (uint l') (uint r'))"
proof -
  have "stands_for sint (i32_div_s l r) (idiv_s 32 (sint l) (sint r))" "stands_for sint (i32_rem_s l r) (irem_s (sint l) (sint r))"
    using div_s_stands [of r l] rem_s_stands [of r l] unfolding i32_div_s_def i32_rem_s_def by simp_all
  moreover have "stands_for sint (i64_div_s l' r') (idiv_s 64 (sint l') (sint r'))" "stands_for sint (i64_rem_s l' r') (irem_s (sint l') (sint r'))"
    using div_s_stands [of r' l'] rem_s_stands [of r' l'] unfolding i64_div_s_def i64_rem_s_def by simp_all
  ultimately show ?thesis by (simp add: i32_div_u_def i32_rem_u_def i64_div_u_def i64_rem_u_def div_u_stands)
qed

section \<open>Shifts and rotations\<close>

lemma unat_and_mask: "unat (x AND mask k :: 'a::len word) = unat x mod 2 ^ k"
  unfolding take_bit_eq_mask [symmetric] unsigned_take_bit_eq by (simp add: take_bit_eq_mod)

lemma masked_count:
  "unat (w AND 31 :: u32) = unat w mod 32" "unat (v AND 63 :: u64) = unat v mod 64" "unat (w AND 63 :: u32) = unat w mod 64"
proof -
  show "unat (w AND 31 :: u32) = unat w mod 32" using unat_and_mask [of w 5] by (simp add: mask_eq_exp_minus_1)
  show "unat (w AND 63 :: u32) = unat w mod 64" using unat_and_mask [of w 6] by (simp add: mask_eq_exp_minus_1)
  show "unat (v AND 63 :: u64) = unat v mod 64" using unat_and_mask [of v 6] by (simp add: mask_eq_exp_minus_1)
qed

text \<open>The complement count of a rotation: \<open>-c & mask\<close> is the width less \<open>c\<close>, or zero.\<close>

lemma unat_uminus: "unat (- c :: 'a::len word) = (2 ^ LENGTH('a) - unat c) mod 2 ^ LENGTH('a)"
proof (cases "c = 0")
  case False
  have "uint (- c) = (- uint c) mod 2 ^ LENGTH('a)" by (simp add: uint_word_ariths)
  also have "\<dots> = 2 ^ LENGTH('a) - uint c"
    using False uint_lt2p [of c] by (simp add: zmod_zminus1_eq_if uint_0_iff mod_pos_pos_trivial)
  finally have "int (unat (- c)) = 2 ^ LENGTH('a) - int (unat c)" by simp
  then have "unat (- c) = 2 ^ LENGTH('a) - unat c" by (metis nat_int nat_diff_distrib' of_nat_0_le_iff nat_power_eq nat_numeral
      zero_le_numeral zero_le_power of_nat_numeral of_nat_power nat_minus_as_int)
  then show ?thesis using False by (simp add: unat_gt_0)
qed simp

lemma uminus_low:
  fixes c :: "'a::len word"
  assumes "2 ^ LENGTH('a) = n * 2 ^ k" and "unat c < n"
  shows "unat (- c) mod n = (n - unat c) mod n"
proof -
  have "2 ^ LENGTH('a) - unat c = (n - unat c) + n * (2 ^ k - 1)"
    using assms by (simp add: diff_mult_distrib2)
  then have "(2 ^ LENGTH('a) - unat c) mod n = (n - unat c) mod n" by (simp only: mod_mult_self2)
  moreover have "n dvd 2 ^ LENGTH('a)" using assms(1) by simp
  ultimately show ?thesis unfolding unat_uminus by (simp only: mod_mod_cancel)
qed

lemma rotate_count:
  "unat c < 32 \<Longrightarrow> unat (- c AND 31 :: u32) = (32 - unat c) mod 32"
  "unat c < 64 \<Longrightarrow> unat (ucast (- c :: u32) AND 63 :: u64) = (64 - unat c) mod 64"
proof -
  show "unat (- c AND 31 :: u32) = (32 - unat c) mod 32" if "unat c < 32"
    unfolding masked_count by (rule uminus_low [where k = 27]) (use that in simp_all)
  have u: "unat (ucast (- c :: u32) :: u64) = unat (- c)" by (simp add: unat_ucast_up)
  show "unat (ucast (- c :: u32) AND 63 :: u64) = (64 - unat c) mod 64" if "unat c < 64"
    unfolding masked_count u by (rule uminus_low [where k = 26]) (use that in simp_all)
qed

lemma rotate_index:
  assumes "c < L" and "n < (L :: nat)"
  shows "(n + (L - c)) mod L = (if n < c then n + (L - c) else n - c)" and "(n + c) mod L = (if n + c < L then n + c else n + c - L)"
proof -
  have "(n + (L - c)) mod L = n - c" if "\<not> n < c" using that assms by (metis add.commute le_add_diff_inverse less_imp_le_nat
      mod_add_self2 mod_less not_le diff_less_mono2 less_imp_diff_less Nat.add_diff_assoc2 Nat.diff_add_assoc)
  then show "(n + (L - c)) mod L = (if n < c then n + (L - c) else n - c)" using assms by auto
  show "(n + c) mod L = (if n + c < L then n + c else n + c - L)" using assms by (simp add: mod_if)
qed

lemma rotate_pair:
  fixes w :: "'a::len word"
  assumes c: "c < LENGTH('a)" and d: "d = (LENGTH('a) - c) mod LENGTH('a)"
  shows "push_bit c w OR drop_bit d w = word_rotl c w" and "drop_bit c w OR push_bit d w = word_rotr c w"
proof -
  have d': "d = (if c = 0 then 0 else LENGTH('a) - c)" using c d by auto
  have m: "c mod LENGTH('a) = c" using c by simp
  show "push_bit c w OR drop_bit d w = word_rotl c w"
  proof (rule bit_word_eqI)
    fix n assume n: "n < LENGTH('a)"
    show "bit (push_bit c w OR drop_bit d w) n = bit (word_rotl c w) n"
      unfolding bit_word_rotl_iff m rotate_index(1) [OF c n]
      using n c d' by (cases "n < c") (auto simp: bit_simps add.commute dest: bit_imp_le_length)
  qed
  show "drop_bit c w OR push_bit d w = word_rotr c w"
  proof (rule bit_word_eqI)
    fix n assume n: "n < LENGTH('a)"
    show "bit (drop_bit c w OR push_bit d w) n = bit (word_rotr c w) n"
      unfolding bit_word_rotr_iff m rotate_index(2) [OF c n]
      using n c d' by (cases "n + c < LENGTH('a)") (auto simp: bit_simps add.commute dest: bit_imp_le_length)
  qed
qed

lemma word_rotl_mod: "word_rotl (n mod LENGTH('a)) w = word_rotl n (w :: 'a::len word)" "word_rotr (n mod LENGTH('a)) w = word_rotr n w"
  by (rule bit_word_eqI, simp add: bit_simps mod_simps)+

lemma i32_rotations: "i32_rotl l r = word_rotl (unat r) l" "i32_rotr l r = word_rotr (unat r) l"
  using rotate_pair [of "unat (r AND 31)" "unat (- (r AND 31) AND 31)" l] word_rotl_mod [of "unat r" l] rotate_count(1) [of "r AND 31"]
  by (simp_all add: i32_rotl_def i32_rotr_def masked_count(1))

lemma i64_rotations: "i64_rotl l r = word_rotl (unat r) l" "i64_rotr l r = word_rotr (unat r) l"
proof -
  have c: "unat (ucast r AND 63 :: u32) = unat r mod 64"
    unfolding masked_count by (simp add: unsigned_ucast_eq take_bit_eq_mod mod_mod_cancel)
  then show "i64_rotl l r = word_rotl (unat r) l" "i64_rotr l r = word_rotr (unat r) l"
    using rotate_pair [of "unat r mod 64" "(64 - unat r mod 64) mod 64" l] word_rotl_mod [of "unat r" l] rotate_count(2) [of "ucast r AND 63"]
    by (simp_all add: i64_rotl_def i64_rotr_def Let_def)
qed

lemma shift_values:
  fixes w :: "'a::len word"
  shows "unat (push_bit k w) = unat w * 2 ^ k mod 2 ^ LENGTH('a)" and "unat (drop_bit k w) = unat w div 2 ^ k"
    and "sint (signed_drop_bit k w) = sint w div 2 ^ k"
  unfolding unsigned_push_bit_eq unsigned_drop_bit_eq sint_signed_drop_bit_eq
  by (simp_all add: push_bit_eq_mult drop_bit_eq_div take_bit_eq_mod)

text \<open>
  Shifts take their count modulo the width and act on the integers the words stand for as
  multiplication and floored division by a power of two, the arithmetic shift on the signed reading; the
  pair of shifts the code uses for a rotation is the rotation of the word, also for a count of zero.
\<close>

lemma shift_rotate_spec:
  "unat (i32_shl l r) = unat l * 2 ^ (unat r mod 32) mod 2 ^ 32 \<and> unat (i32_shr_u l r) = unat l div 2 ^ (unat r mod 32)
   \<and> sint (i32_shr_s l r) = sint l div 2 ^ (unat r mod 32)
   \<and> i32_rotl l r = word_rotl (unat r) l \<and> i32_rotr l r = word_rotr (unat r) l
   \<and> unat (i64_shl l' r') = unat l' * 2 ^ (unat r' mod 64) mod 2 ^ 64 \<and> unat (i64_shr_u l' r') = unat l' div 2 ^ (unat r' mod 64)
   \<and> sint (i64_shr_s l' r') = sint l' div 2 ^ (unat r' mod 64)
   \<and> i64_rotl l' r' = word_rotl (unat r') l' \<and> i64_rotr l' r' = word_rotr (unat r') l'"
  by (simp add: i32_rotations i64_rotations i32_shl_def i32_shr_u_def i32_shr_s_def i64_shl_def i64_shr_u_def i64_shr_s_def
      masked_count shift_values)

section \<open>Counting bits and sign extension\<close>

lemma takeWhile_Not_prefix:
  "length (takeWhile Not xs) = k \<longleftrightarrow> k \<le> length xs \<and> (\<forall>i<k. \<not> xs ! i) \<and> (k < length xs \<longrightarrow> xs ! k)"
proof (induction xs arbitrary: k)
  case (Cons x xs)
  then show ?case by (cases k) (auto simp: less_Suc_eq_0_disj)
qed auto

lemma trailing_zeros_eq:
  "trailing_zeros (w :: 'a::len word) = k \<longleftrightarrow> k \<le> LENGTH('a) \<and> (\<forall>i<k. \<not> bit w i) \<and> (k < LENGTH('a) \<longrightarrow> bit w k)"
  unfolding trailing_zeros_def takeWhile_Not_prefix by auto

lemma leading_zeros_eq:
  "leading_zeros (w :: 'a::len word) = k \<longleftrightarrow>
     k \<le> LENGTH('a) \<and> (\<forall>i<k. \<not> bit w (LENGTH('a) - 1 - i)) \<and> (k < LENGTH('a) \<longrightarrow> bit w (LENGTH('a) - 1 - k))"
  unfolding leading_zeros_def takeWhile_Not_prefix by (auto simp: rev_nth)

lemma below_iff: "(\<forall>n. (n < i \<and> P n) = P n) \<longleftrightarrow> (\<forall>j\<ge>(i :: nat). \<not> P j)"
  by (metis not_le)

lemma unat_less_exp_iff: "unat (w :: 'a::len word) < 2 ^ i \<longleftrightarrow> (\<forall>j\<ge>i. \<not> bit w j)"
proof -
  have "unat w < 2 ^ i \<longleftrightarrow> take_bit i (unat w) = unat w" by (simp add: take_bit_nat_eq_self_iff)
  also have "\<dots> \<longleftrightarrow> (\<forall>j\<ge>i. \<not> bit (unat w) j)"
    unfolding bit_eq_iff bit_take_bit_iff by (simp add: below_iff)
  finally show ?thesis by (simp add: bit_unsigned_iff)
qed

lemma exp_dvd_unat_iff: "2 ^ i dvd unat (w :: 'a::len word) \<longleftrightarrow> (\<forall>j<i. \<not> bit w j)"
proof -
  have "2 ^ i dvd unat w \<longleftrightarrow> take_bit i (unat w) = 0" by (simp only: take_bit_eq_mod dvd_eq_mod_eq_0)
  also have "\<dots> \<longleftrightarrow> (\<forall>j<i. \<not> bit (unat w) j)"
    unfolding bit_eq_iff bit_take_bit_iff by auto
  finally show ?thesis by (simp add: bit_unsigned_iff)
qed

lemma leading_zeros_card: "leading_zeros (w :: 'a::len word) = card {i. i < LENGTH('a) \<and> unat w < 2 ^ i}"
proof -
  define k where "k = leading_zeros w"
  have k: "k \<le> LENGTH('a)" "\<forall>i<k. \<not> bit w (LENGTH('a) - 1 - i)" "k < LENGTH('a) \<longrightarrow> bit w (LENGTH('a) - 1 - k)"
    using leading_zeros_eq [of w k] by (simp_all add: k_def)
  have "unat w < 2 ^ i \<longleftrightarrow> LENGTH('a) - k \<le> i" if i: "i < LENGTH('a)" for i
  proof
    assume lt: "unat w < 2 ^ i"
    show "LENGTH('a) - k \<le> i"
    proof (rule ccontr)
      assume "\<not> LENGTH('a) - k \<le> i"
      then have "i \<le> LENGTH('a) - 1 - k" "k < LENGTH('a)" by auto
      then show False using lt k(3) by (auto simp: unat_less_exp_iff)
    qed
  next
    assume le: "LENGTH('a) - k \<le> i"
    have "\<not> bit w j" if "i \<le> j" for j
    proof (cases "j < LENGTH('a)")
      case True
      then show ?thesis using k(2) [rule_format, of "LENGTH('a) - 1 - j"] le that by auto
    next
      case False
      then show ?thesis by (meson bit_imp_le_length)
    qed
    then show "unat w < 2 ^ i" by (simp add: unat_less_exp_iff)
  qed
  then have "{i. i < LENGTH('a) \<and> unat w < 2 ^ i} = {LENGTH('a) - k..<LENGTH('a)}" by auto
  then show ?thesis using k(1) by (simp add: k_def)
qed

lemma trailing_zeros_card: "trailing_zeros (w :: 'a::len word) = card {i. i < LENGTH('a) \<and> 2 ^ Suc i dvd unat w}"
proof -
  define k where "k = trailing_zeros w"
  have k: "k \<le> LENGTH('a)" "\<forall>i<k. \<not> bit w i" "k < LENGTH('a) \<longrightarrow> bit w k"
    using trailing_zeros_eq [of w k] by (simp_all add: k_def)
  have "2 ^ Suc i dvd unat w \<longleftrightarrow> i < k" if "i < LENGTH('a)" for i
    unfolding exp_dvd_unat_iff using k that by (metis Suc_leI less_Suc_eq_le less_le_trans not_less)
  then have "{i. i < LENGTH('a) \<and> 2 ^ Suc i dvd unat w} = {..<k}" using k(1) by auto
  then show ?thesis by (simp add: k_def)
qed

lemma builtin_popcount_card: "builtin_popcount (w :: 'a::len word) = card {i. bit w i}"
proof -
  have "set (filter (bit w) [0..<LENGTH('a)]) = {i. bit w i}" by (auto dest: bit_imp_le_length)
  moreover have "distinct (filter (bit w) [0..<LENGTH('a)])" by simp
  ultimately show ?thesis by (metis builtin_popcount_def distinct_card)
qed

lemma small_card: "card {i. i < n \<and> P i} \<le> (n :: nat)"
  by (rule order_trans [OF card_mono [of "{..<n}"]]) auto

lemma popcount_le: "builtin_popcount (w :: 'a::len word) \<le> LENGTH('a)"
  by (simp add: builtin_popcount_def order_trans [OF length_filter_le])

lemma sint_scast_ucast:
  assumes "LENGTH('b) \<le> LENGTH('a)"
  shows "sint (scast (ucast (w :: 'a::len word) :: 'b::len word) :: 'a word) = signed_take_bit (LENGTH('b) - 1) (sint w)"
proof -
  have "sint (scast (ucast w :: 'b word) :: 'a word) = sint (ucast w :: 'b word)"
    using assms by (intro sint_up_scast) (simp add: is_up)
  moreover have "signed_take_bit (LENGTH('b) - 1) (uint w) = signed_take_bit (LENGTH('b) - 1) (sint w)"
    using assms len_gt_0 [where ?'a = 'b]
    by (intro bit_eqI) (auto simp: bit_signed_take_bit_iff bit_uint_iff bit_sint_iff min_def)
  ultimately show ?thesis by (simp add: signed_ucast_eq)
qed

text \<open>The counts fit their type, and the guard for zero gives what the built-ins leave undefined.\<close>

lemma zeros_at_zero: "leading_zeros (0 :: 'a::len word) = LENGTH('a)" "trailing_zeros (0 :: 'a::len word) = LENGTH('a)"
  by (simp_all add: leading_zeros_eq trailing_zeros_eq)

lemma zeros_le: "leading_zeros (w :: 'a::len word) \<le> LENGTH('a)" "trailing_zeros w \<le> LENGTH('a)"
  by (simp_all add: leading_zeros_card trailing_zeros_card small_card)

lemma unat_count: "n \<le> LENGTH('a) \<Longrightarrow> unat (of_nat n :: 'a::len word) = n"
  by (intro unat_of_nat_small le_less_trans [OF _ less_exp])

lemma guarded_count:
  fixes w :: "'a::len word"
  assumes "k = of_nat LENGTH('a)"
  shows "\<exists>c. (if w = 0 then Inr k else builtin_clz w) = Inr c \<and> unat c = leading_zeros w"
    and "\<exists>c. (if w = 0 then Inr k else builtin_ctz w) = Inr c \<and> unat c = trailing_zeros w"
  using zeros_at_zero [where ?'a = 'a] zeros_le [of w] unat_count
  by (auto simp: assms builtin_clz_def builtin_ctz_def)

text \<open>
  C30: the counting instructions and the sign extensions.  \<open>clz\<close> is the number of powers of two of the width
  above the value, \<open>ctz\<close> the number of powers of two that divide it, on every operand: at zero, where the built-ins are
  undefined, the instructions are defined and give the width; \<open>popcnt\<close> counts the bits; an extension reads the low
  bits as a signed number.
\<close>

theorem count_extend_spec:
  "(\<exists>c. i32_clz w = Inr c \<and> unat c = card {i. i < 32 \<and> unat w < 2 ^ i})
   \<and> (\<exists>c. i32_ctz w = Inr c \<and> unat c = card {i. i < 32 \<and> 2 ^ Suc i dvd unat w})
   \<and> (\<exists>c. i64_clz v = Inr c \<and> unat c = card {i. i < 64 \<and> unat v < 2 ^ i})
   \<and> (\<exists>c. i64_ctz v = Inr c \<and> unat c = card {i. i < 64 \<and> 2 ^ Suc i dvd unat v})
   \<and> unat (i32_popcnt w) = card {i. bit w i} \<and> unat (i64_popcnt v) = card {i. bit v i}
   \<and> sint (i32_extend8_s w) = signed_take_bit 7 (sint w) \<and> sint (i32_extend16_s w) = signed_take_bit 15 (sint w)
   \<and> sint (i64_extend8_s v) = signed_take_bit 7 (sint v) \<and> sint (i64_extend16_s v) = signed_take_bit 15 (sint v)
   \<and> sint (i64_extend32_s v) = signed_take_bit 31 (sint v)"
proof -
  have len: "LENGTH(32) = 32" "LENGTH(64) = 64" by simp_all
  have "unat (i32_popcnt w) = card {i. bit w i}" "unat (i64_popcnt v) = card {i. bit v i}"
    using popcount_le [of w] popcount_le [of v]
    by (simp_all add: i32_popcnt_def i64_popcnt_def builtin_popcount_card unat_count)
  then show ?thesis
    using guarded_count [of 32 w] guarded_count [of 64 v]
    unfolding leading_zeros_card trailing_zeros_card len i32_clz_def i32_ctz_def i64_clz_def i64_ctz_def
      i32_extend8_s_def i32_extend16_s_def i64_extend8_s_def i64_extend16_s_def i64_extend32_s_def
    by (simp add: sint_scast_ucast)
qed

end
