(* ===== verification/Vm_Simd.thy ===== *)
theory Vm_Simd
  imports Vm_Softfloat Vm_Int_Ops
begin

text \<open>
  The vector instructions of \<^verbatim>\<open>interpret_visitor.hpp\<close> and the vector wrappers of \<^verbatim>\<open>softfloat.hpp\<close> as functions
  of 128-bit words.  A \<open>v128_t\<close> that is copied with \<open>memcpy\<close> into an array of narrower integers is its list of
  \<open>lanes\<close>, lowest first; copying an array back is \<open>pack\<close>.  Whether an array is declared signed or unsigned is
  visible in how a lane is read (\<open>sint\<close>, \<open>uint\<close>, \<open>scast\<close>, \<open>ucast\<close>).  The lambda expressions of the source compute
  in \<open>int\<close> after the promotions of the language; where such a computation can overflow the instruction
  has a result of type \<open>res\<close> with \<open>Undefined_behaviour\<close>.
\<close>

section \<open>Arrays of lanes\<close>

type_synonym v128 = "128 word"

definition lanes :: "v128 \<Rightarrow> 'a::len word list" where
  "lanes v = map (\<lambda>i. ucast (drop_bit (i * LENGTH('a)) v)) [0..<128 div LENGTH('a)]"

fun pack :: "'a::len word list \<Rightarrow> v128" where
  "pack [] = 0"
| "pack (x # xs) = ucast x OR push_bit LENGTH('a) (pack xs)"

definition v128_unop_array :: "('a::len word list \<Rightarrow> 'b::len word list) \<Rightarrow> v128 \<Rightarrow> v128" where
  "v128_unop_array f c1 = pack (f (lanes c1))"

definition v128_binop_array :: "('a::len word list \<Rightarrow> 'a word list \<Rightarrow> 'b::len word list) \<Rightarrow> v128 \<Rightarrow> v128 \<Rightarrow> v128" where
  "v128_binop_array f c1 c2 = pack (f (lanes c1) (lanes c2))"

definition v128_unop :: "('a::len word \<Rightarrow> 'a word) \<Rightarrow> v128 \<Rightarrow> v128" where
  "v128_unop f = v128_unop_array (map f)"

definition v128_binop :: "('a::len word \<Rightarrow> 'a word \<Rightarrow> 'a word) \<Rightarrow> v128 \<Rightarrow> v128 \<Rightarrow> v128" where
  "v128_binop f = v128_binop_array (map2 f)"

definition v128_ternop :: "('a::len word \<Rightarrow> 'a word \<Rightarrow> 'a word \<Rightarrow> 'a word) \<Rightarrow> v128 \<Rightarrow> v128 \<Rightarrow> v128 \<Rightarrow> v128" where
  "v128_ternop f c1 c2 c3 = pack (map2 (\<lambda>(a, b) c. f a b c) (zip (lanes c1) (lanes c2)) (lanes c3))"

definition v128_narrow :: "('a::len word \<Rightarrow> 'b::len word) \<Rightarrow> v128 \<Rightarrow> v128 \<Rightarrow> v128" where
  "v128_narrow f = v128_binop_array (\<lambda>a b. map f a @ map f b)"

text \<open>\<open>conv\<close> is the conversion of a lane to the wider type of the result.\<close>

definition v128_extend :: "('a::len word \<Rightarrow> 'b::len word) \<Rightarrow> bool \<Rightarrow> v128 \<Rightarrow> v128" where
  "v128_extend conv high = v128_unop_array (\<lambda>a. let n = 128 div LENGTH('b) in
     map (\<lambda>i. conv (a ! (i + (if high then n else 0)))) [0..<n])"

definition v128_extadd_pairwise :: "('a::len word \<Rightarrow> 'b::len word) \<Rightarrow> v128 \<Rightarrow> v128" where
  "v128_extadd_pairwise conv = v128_unop_array (\<lambda>a.
     map (\<lambda>i. conv (a ! (2 * i)) + conv (a ! (2 * i + 1))) [0..<128 div LENGTH('b)])"

text \<open>For the high lanes only the pointer to the first array is advanced.\<close>

definition v128_extmul :: "('a::len word \<Rightarrow> 'b::len word) \<Rightarrow> bool \<Rightarrow> v128 \<Rightarrow> v128 \<Rightarrow> v128" where
  "v128_extmul conv high = v128_binop_array (\<lambda>a b. let n = 128 div LENGTH('b); a' = (if high then drop n a else a) in
     map (\<lambda>i. conv (a' ! i) * conv (b ! i)) [0..<n])"

text \<open>Lane functions that may overflow.\<close>

definition v128_unop_res :: "('a::len word \<Rightarrow> 'a word res) \<Rightarrow> v128 \<Rightarrow> v128 res" where
  "v128_unop_res f c1 = bindE (mapE f (lanes c1)) (\<lambda>r. Inr (pack r))"

definition v128_binop_res :: "('a::len word \<Rightarrow> 'a word \<Rightarrow> 'b::len word res) \<Rightarrow> v128 \<Rightarrow> v128 \<Rightarrow> v128 res" where
  "v128_binop_res f c1 c2 = bindE (mapE (\<lambda>(a, b). f a b) (zip (lanes c1) (lanes c2))) (\<lambda>r. Inr (pack r))"

section \<open>Comparisons\<close>

definition i8x16_eq :: "v128 \<Rightarrow> v128 \<Rightarrow> v128" where
  "i8x16_eq = v128_binop (\<lambda>(a::u8) b. if a = b then - 1 else 0)"

definition i8x16_ne :: "v128 \<Rightarrow> v128 \<Rightarrow> v128" where
  "i8x16_ne = v128_binop (\<lambda>(a::u8) b. if a \<noteq> b then - 1 else 0)"

definition i8x16_lt_s :: "v128 \<Rightarrow> v128 \<Rightarrow> v128" where
  "i8x16_lt_s = v128_binop (\<lambda>(a::u8) b. if sint a < sint b then - 1 else 0)"

definition i8x16_lt_u :: "v128 \<Rightarrow> v128 \<Rightarrow> v128" where
  "i8x16_lt_u = v128_binop (\<lambda>(a::u8) b. if a < b then - 1 else 0)"

definition i8x16_gt_s :: "v128 \<Rightarrow> v128 \<Rightarrow> v128" where
  "i8x16_gt_s = v128_binop (\<lambda>(a::u8) b. if sint a > sint b then - 1 else 0)"

definition i8x16_gt_u :: "v128 \<Rightarrow> v128 \<Rightarrow> v128" where
  "i8x16_gt_u = v128_binop (\<lambda>(a::u8) b. if a > b then - 1 else 0)"

definition i8x16_le_s :: "v128 \<Rightarrow> v128 \<Rightarrow> v128" where
  "i8x16_le_s = v128_binop (\<lambda>(a::u8) b. if sint a \<le> sint b then - 1 else 0)"

definition i8x16_le_u :: "v128 \<Rightarrow> v128 \<Rightarrow> v128" where
  "i8x16_le_u = v128_binop (\<lambda>(a::u8) b. if a \<le> b then - 1 else 0)"

definition i8x16_ge_s :: "v128 \<Rightarrow> v128 \<Rightarrow> v128" where
  "i8x16_ge_s = v128_binop (\<lambda>(a::u8) b. if sint a \<ge> sint b then - 1 else 0)"

definition i8x16_ge_u :: "v128 \<Rightarrow> v128 \<Rightarrow> v128" where
  "i8x16_ge_u = v128_binop (\<lambda>(a::u8) b. if a \<ge> b then - 1 else 0)"

definition i16x8_eq :: "v128 \<Rightarrow> v128 \<Rightarrow> v128" where
  "i16x8_eq = v128_binop (\<lambda>(a::u16) b. if a = b then - 1 else 0)"

definition i16x8_ne :: "v128 \<Rightarrow> v128 \<Rightarrow> v128" where
  "i16x8_ne = v128_binop (\<lambda>(a::u16) b. if a \<noteq> b then - 1 else 0)"

definition i16x8_lt_s :: "v128 \<Rightarrow> v128 \<Rightarrow> v128" where
  "i16x8_lt_s = v128_binop (\<lambda>(a::u16) b. if sint a < sint b then - 1 else 0)"

definition i16x8_lt_u :: "v128 \<Rightarrow> v128 \<Rightarrow> v128" where
  "i16x8_lt_u = v128_binop (\<lambda>(a::u16) b. if a < b then - 1 else 0)"

definition i16x8_gt_s :: "v128 \<Rightarrow> v128 \<Rightarrow> v128" where
  "i16x8_gt_s = v128_binop (\<lambda>(a::u16) b. if sint a > sint b then - 1 else 0)"

definition i16x8_gt_u :: "v128 \<Rightarrow> v128 \<Rightarrow> v128" where
  "i16x8_gt_u = v128_binop (\<lambda>(a::u16) b. if a > b then - 1 else 0)"

definition i16x8_le_s :: "v128 \<Rightarrow> v128 \<Rightarrow> v128" where
  "i16x8_le_s = v128_binop (\<lambda>(a::u16) b. if sint a \<le> sint b then - 1 else 0)"

definition i16x8_le_u :: "v128 \<Rightarrow> v128 \<Rightarrow> v128" where
  "i16x8_le_u = v128_binop (\<lambda>(a::u16) b. if a \<le> b then - 1 else 0)"

definition i16x8_ge_s :: "v128 \<Rightarrow> v128 \<Rightarrow> v128" where
  "i16x8_ge_s = v128_binop (\<lambda>(a::u16) b. if sint a \<ge> sint b then - 1 else 0)"

definition i16x8_ge_u :: "v128 \<Rightarrow> v128 \<Rightarrow> v128" where
  "i16x8_ge_u = v128_binop (\<lambda>(a::u16) b. if a \<ge> b then - 1 else 0)"

definition i32x4_eq :: "v128 \<Rightarrow> v128 \<Rightarrow> v128" where
  "i32x4_eq = v128_binop (\<lambda>(a::u32) b. if a = b then - 1 else 0)"

definition i32x4_ne :: "v128 \<Rightarrow> v128 \<Rightarrow> v128" where
  "i32x4_ne = v128_binop (\<lambda>(a::u32) b. if a \<noteq> b then - 1 else 0)"

definition i32x4_lt_s :: "v128 \<Rightarrow> v128 \<Rightarrow> v128" where
  "i32x4_lt_s = v128_binop (\<lambda>(a::u32) b. if sint a < sint b then - 1 else 0)"

definition i32x4_lt_u :: "v128 \<Rightarrow> v128 \<Rightarrow> v128" where
  "i32x4_lt_u = v128_binop (\<lambda>(a::u32) b. if a < b then - 1 else 0)"

definition i32x4_gt_s :: "v128 \<Rightarrow> v128 \<Rightarrow> v128" where
  "i32x4_gt_s = v128_binop (\<lambda>(a::u32) b. if sint a > sint b then - 1 else 0)"

definition i32x4_gt_u :: "v128 \<Rightarrow> v128 \<Rightarrow> v128" where
  "i32x4_gt_u = v128_binop (\<lambda>(a::u32) b. if a > b then - 1 else 0)"

definition i32x4_le_s :: "v128 \<Rightarrow> v128 \<Rightarrow> v128" where
  "i32x4_le_s = v128_binop (\<lambda>(a::u32) b. if sint a \<le> sint b then - 1 else 0)"

definition i32x4_le_u :: "v128 \<Rightarrow> v128 \<Rightarrow> v128" where
  "i32x4_le_u = v128_binop (\<lambda>(a::u32) b. if a \<le> b then - 1 else 0)"

definition i32x4_ge_s :: "v128 \<Rightarrow> v128 \<Rightarrow> v128" where
  "i32x4_ge_s = v128_binop (\<lambda>(a::u32) b. if sint a \<ge> sint b then - 1 else 0)"

definition i32x4_ge_u :: "v128 \<Rightarrow> v128 \<Rightarrow> v128" where
  "i32x4_ge_u = v128_binop (\<lambda>(a::u32) b. if a \<ge> b then - 1 else 0)"

definition i64x2_eq :: "v128 \<Rightarrow> v128 \<Rightarrow> v128" where
  "i64x2_eq = v128_binop (\<lambda>(a::u64) b. if a = b then - 1 else 0)"

definition i64x2_ne :: "v128 \<Rightarrow> v128 \<Rightarrow> v128" where
  "i64x2_ne = v128_binop (\<lambda>(a::u64) b. if a \<noteq> b then - 1 else 0)"

definition i64x2_lt_s :: "v128 \<Rightarrow> v128 \<Rightarrow> v128" where
  "i64x2_lt_s = v128_binop (\<lambda>(a::u64) b. if sint a < sint b then - 1 else 0)"

definition i64x2_gt_s :: "v128 \<Rightarrow> v128 \<Rightarrow> v128" where
  "i64x2_gt_s = v128_binop (\<lambda>(a::u64) b. if sint a > sint b then - 1 else 0)"

definition i64x2_le_s :: "v128 \<Rightarrow> v128 \<Rightarrow> v128" where
  "i64x2_le_s = v128_binop (\<lambda>(a::u64) b. if sint a \<le> sint b then - 1 else 0)"

definition i64x2_ge_s :: "v128 \<Rightarrow> v128 \<Rightarrow> v128" where
  "i64x2_ge_s = v128_binop (\<lambda>(a::u64) b. if sint a \<ge> sint b then - 1 else 0)"

section \<open>Bitwise instructions and tests\<close>

definition v128_not :: "v128 \<Rightarrow> v128" where
  "v128_not = v128_unop (\<lambda>(a::u64). NOT a)"

definition v128_and :: "v128 \<Rightarrow> v128 \<Rightarrow> v128" where
  "v128_and = v128_binop (\<lambda>(a::u64) b. a AND b)"

definition v128_andnot :: "v128 \<Rightarrow> v128 \<Rightarrow> v128" where
  "v128_andnot = v128_binop (\<lambda>(a::u64) b. a AND NOT b)"

definition v128_or :: "v128 \<Rightarrow> v128 \<Rightarrow> v128" where
  "v128_or = v128_binop (\<lambda>(a::u64) b. a OR b)"

definition v128_xor :: "v128 \<Rightarrow> v128 \<Rightarrow> v128" where
  "v128_xor = v128_binop (\<lambda>(a::u64) b. a XOR b)"

definition v128_bitselect :: "v128 \<Rightarrow> v128 \<Rightarrow> v128 \<Rightarrow> v128" where
  "v128_bitselect = v128_ternop (\<lambda>(a::u64) b c. (a AND c) OR (b AND NOT c))"

text \<open>The loops of these set or clear the result once per lane.\<close>

definition v128_any_true :: "v128 \<Rightarrow> u32" where
  "v128_any_true c1 = fold (\<lambda>a result. if a \<noteq> 0 then 1 else result) (lanes c1 :: u64 list) 0"

definition i8x16_all_true :: "v128 \<Rightarrow> u32" where
  "i8x16_all_true c1 = fold (\<lambda>a result. if a = 0 then 0 else result) (lanes c1 :: u8 list) 1"

definition i8x16_bitmask :: "v128 \<Rightarrow> u32" where
  "i8x16_bitmask c1 = fold (\<lambda>i result. result OR push_bit i (if sint ((lanes c1 :: u8 list) ! i) < 0 then 1 else 0)) [0..<16] 0"

definition i16x8_all_true :: "v128 \<Rightarrow> u32" where
  "i16x8_all_true c1 = fold (\<lambda>a result. if a = 0 then 0 else result) (lanes c1 :: u16 list) 1"

definition i16x8_bitmask :: "v128 \<Rightarrow> u32" where
  "i16x8_bitmask c1 = fold (\<lambda>i result. result OR push_bit i (if sint ((lanes c1 :: u16 list) ! i) < 0 then 1 else 0)) [0..<8] 0"

definition i32x4_all_true :: "v128 \<Rightarrow> u32" where
  "i32x4_all_true c1 = fold (\<lambda>a result. if a = 0 then 0 else result) (lanes c1 :: u32 list) 1"

definition i32x4_bitmask :: "v128 \<Rightarrow> u32" where
  "i32x4_bitmask c1 = fold (\<lambda>i result. result OR push_bit i (if sint ((lanes c1 :: u32 list) ! i) < 0 then 1 else 0)) [0..<4] 0"

definition i64x2_all_true :: "v128 \<Rightarrow> u32" where
  "i64x2_all_true c1 = fold (\<lambda>a result. if a = 0 then 0 else result) (lanes c1 :: u64 list) 1"

definition i64x2_bitmask :: "v128 \<Rightarrow> u32" where
  "i64x2_bitmask c1 = fold (\<lambda>i result. result OR push_bit i (if sint ((lanes c1 :: u64 list) ! i) < 0 then 1 else 0)) [0..<2] 0"

section \<open>Integer arithmetic\<close>

definition i8x16_abs :: "v128 \<Rightarrow> v128" where
  "i8x16_abs = v128_unop (\<lambda>(a::u8). if sint a < 0 then - a else a)"

definition i8x16_neg :: "v128 \<Rightarrow> v128" where
  "i8x16_neg = v128_unop (\<lambda>(a::u8). - a)"

definition i8x16_popcnt :: "v128 \<Rightarrow> v128" where
  "i8x16_popcnt = v128_unop (\<lambda>(a::u8). of_nat (builtin_popcount a))"

definition i8x16_shl :: "u32 \<Rightarrow> v128 \<Rightarrow> v128" where
  "i8x16_shl c2 = (let b = c2 AND 0x7 in v128_unop (\<lambda>(a::u8). push_bit (unat b) a))"

definition i8x16_shr_s :: "u32 \<Rightarrow> v128 \<Rightarrow> v128" where
  "i8x16_shr_s c2 = (let b = c2 AND 0x7 in v128_unop (\<lambda>(a::u8). signed_drop_bit (unat b) a))"

definition i8x16_shr_u :: "u32 \<Rightarrow> v128 \<Rightarrow> v128" where
  "i8x16_shr_u c2 = (let b = c2 AND 0x7 in v128_unop (\<lambda>(a::u8). drop_bit (unat b) a))"

definition i8x16_add :: "v128 \<Rightarrow> v128 \<Rightarrow> v128" where
  "i8x16_add = v128_binop (\<lambda>(a::u8) b. a + b)"

definition i8x16_sub :: "v128 \<Rightarrow> v128 \<Rightarrow> v128" where
  "i8x16_sub = v128_binop (\<lambda>(a::u8) b. a - b)"

definition i8x16_add_sat_s :: "v128 \<Rightarrow> v128 \<Rightarrow> v128" where
  "i8x16_add_sat_s = v128_binop (\<lambda>(a::u8) b. let r = sint a + sint b in word_of_int (if r < - 0x80 then - 0x80 else if r > 0x7F then 0x7F else r))"

definition i8x16_add_sat_u :: "v128 \<Rightarrow> v128 \<Rightarrow> v128" where
  "i8x16_add_sat_u = v128_binop (\<lambda>(a::u8) b. let r = uint a + uint b in word_of_int (if r > 0xFF then 0xFF else r))"

definition i8x16_sub_sat_s :: "v128 \<Rightarrow> v128 \<Rightarrow> v128" where
  "i8x16_sub_sat_s = v128_binop (\<lambda>(a::u8) b. let r = sint a - sint b in word_of_int (if r < - 0x80 then - 0x80 else if r > 0x7F then 0x7F else r))"

definition i8x16_sub_sat_u :: "v128 \<Rightarrow> v128 \<Rightarrow> v128" where
  "i8x16_sub_sat_u = v128_binop (\<lambda>(a::u8) b. let r = uint a - uint b in word_of_int (if r < 0 then 0 else if r > 0xFF then 0xFF else r))"

definition i8x16_avgr_u :: "v128 \<Rightarrow> v128 \<Rightarrow> v128" where
  "i8x16_avgr_u = v128_binop (\<lambda>(a::u8) b. word_of_int ((uint a + uint b + 1) div 2))"

definition i8x16_min_s :: "v128 \<Rightarrow> v128 \<Rightarrow> v128" where
  "i8x16_min_s = v128_binop (\<lambda>(a::u8) b. if sint a < sint b then a else b)"

definition i8x16_min_u :: "v128 \<Rightarrow> v128 \<Rightarrow> v128" where
  "i8x16_min_u = v128_binop (\<lambda>(a::u8) b. if a < b then a else b)"

definition i8x16_max_s :: "v128 \<Rightarrow> v128 \<Rightarrow> v128" where
  "i8x16_max_s = v128_binop (\<lambda>(a::u8) b. if sint a < sint b then b else a)"

definition i8x16_max_u :: "v128 \<Rightarrow> v128 \<Rightarrow> v128" where
  "i8x16_max_u = v128_binop (\<lambda>(a::u8) b. if a < b then b else a)"

definition i16x8_abs :: "v128 \<Rightarrow> v128" where
  "i16x8_abs = v128_unop (\<lambda>(a::u16). if sint a < 0 then - a else a)"

definition i16x8_neg :: "v128 \<Rightarrow> v128" where
  "i16x8_neg = v128_unop (\<lambda>(a::u16). - a)"

definition i16x8_shl :: "u32 \<Rightarrow> v128 \<Rightarrow> v128" where
  "i16x8_shl c2 = (let b = c2 AND 0xf in v128_unop (\<lambda>(a::u16). push_bit (unat b) a))"

definition i16x8_shr_s :: "u32 \<Rightarrow> v128 \<Rightarrow> v128" where
  "i16x8_shr_s c2 = (let b = c2 AND 0xf in v128_unop (\<lambda>(a::u16). signed_drop_bit (unat b) a))"

definition i16x8_shr_u :: "u32 \<Rightarrow> v128 \<Rightarrow> v128" where
  "i16x8_shr_u c2 = (let b = c2 AND 0xf in v128_unop (\<lambda>(a::u16). drop_bit (unat b) a))"

definition i16x8_add :: "v128 \<Rightarrow> v128 \<Rightarrow> v128" where
  "i16x8_add = v128_binop (\<lambda>(a::u16) b. a + b)"

definition i16x8_sub :: "v128 \<Rightarrow> v128 \<Rightarrow> v128" where
  "i16x8_sub = v128_binop (\<lambda>(a::u16) b. a - b)"

definition i16x8_add_sat_s :: "v128 \<Rightarrow> v128 \<Rightarrow> v128" where
  "i16x8_add_sat_s = v128_binop (\<lambda>(a::u16) b. let r = sint a + sint b in word_of_int (if r < - 0x8000 then - 0x8000 else if r > 0x7FFF then 0x7FFF else r))"

definition i16x8_add_sat_u :: "v128 \<Rightarrow> v128 \<Rightarrow> v128" where
  "i16x8_add_sat_u = v128_binop (\<lambda>(a::u16) b. let r = uint a + uint b in word_of_int (if r > 0xFFFF then 0xFFFF else r))"

definition i16x8_sub_sat_s :: "v128 \<Rightarrow> v128 \<Rightarrow> v128" where
  "i16x8_sub_sat_s = v128_binop (\<lambda>(a::u16) b. let r = sint a - sint b in word_of_int (if r < - 0x8000 then - 0x8000 else if r > 0x7FFF then 0x7FFF else r))"

definition i16x8_sub_sat_u :: "v128 \<Rightarrow> v128 \<Rightarrow> v128" where
  "i16x8_sub_sat_u = v128_binop (\<lambda>(a::u16) b. let r = uint a - uint b in word_of_int (if r < 0 then 0 else if r > 0xFFFF then 0xFFFF else r))"

definition i16x8_avgr_u :: "v128 \<Rightarrow> v128 \<Rightarrow> v128" where
  "i16x8_avgr_u = v128_binop (\<lambda>(a::u16) b. word_of_int ((uint a + uint b + 1) div 2))"

definition i16x8_mul :: "v128 \<Rightarrow> v128 \<Rightarrow> v128 res" where
  "i16x8_mul = v128_binop_res (\<lambda>(a::u16) b. if uint a * uint b < 2 ^ 31 then Inr (a * b) else Inl Undefined_behaviour)"

definition i16x8_q15mulr_sat_s :: "v128 \<Rightarrow> v128 \<Rightarrow> v128" where
  "i16x8_q15mulr_sat_s = v128_binop (\<lambda>(a::u16) b. let tmp = word_of_int (drop_bit 15 (sint a * sint b + 0x4000)) in if tmp = 0x8000 then 0x7FFF else tmp)"

definition i16x8_min_s :: "v128 \<Rightarrow> v128 \<Rightarrow> v128" where
  "i16x8_min_s = v128_binop (\<lambda>(a::u16) b. if sint a < sint b then a else b)"

definition i16x8_min_u :: "v128 \<Rightarrow> v128 \<Rightarrow> v128" where
  "i16x8_min_u = v128_binop (\<lambda>(a::u16) b. if a < b then a else b)"

definition i16x8_max_s :: "v128 \<Rightarrow> v128 \<Rightarrow> v128" where
  "i16x8_max_s = v128_binop (\<lambda>(a::u16) b. if sint a < sint b then b else a)"

definition i16x8_max_u :: "v128 \<Rightarrow> v128 \<Rightarrow> v128" where
  "i16x8_max_u = v128_binop (\<lambda>(a::u16) b. if a < b then b else a)"

definition i32x4_abs :: "v128 \<Rightarrow> v128 res" where
  "i32x4_abs = v128_unop_res (\<lambda>(a::u32). if sint a < 0 then (if sint a = - (2 ^ 31) then Inl Undefined_behaviour else Inr (- a)) else Inr a)"

definition i32x4_neg :: "v128 \<Rightarrow> v128" where
  "i32x4_neg = v128_unop (\<lambda>(a::u32). - a)"

definition i32x4_shl :: "u32 \<Rightarrow> v128 \<Rightarrow> v128" where
  "i32x4_shl c2 = (let b = c2 AND 0x1f in v128_unop (\<lambda>(a::u32). push_bit (unat b) a))"

definition i32x4_shr_s :: "u32 \<Rightarrow> v128 \<Rightarrow> v128" where
  "i32x4_shr_s c2 = (let b = c2 AND 0x1f in v128_unop (\<lambda>(a::u32). signed_drop_bit (unat b) a))"

definition i32x4_shr_u :: "u32 \<Rightarrow> v128 \<Rightarrow> v128" where
  "i32x4_shr_u c2 = (let b = c2 AND 0x1f in v128_unop (\<lambda>(a::u32). drop_bit (unat b) a))"

definition i32x4_add :: "v128 \<Rightarrow> v128 \<Rightarrow> v128" where
  "i32x4_add = v128_binop (\<lambda>(a::u32) b. a + b)"

definition i32x4_sub :: "v128 \<Rightarrow> v128 \<Rightarrow> v128" where
  "i32x4_sub = v128_binop (\<lambda>(a::u32) b. a - b)"

definition i32x4_mul :: "v128 \<Rightarrow> v128 \<Rightarrow> v128" where
  "i32x4_mul = v128_binop (\<lambda>(a::u32) b. a * b)"

definition i32x4_min_s :: "v128 \<Rightarrow> v128 \<Rightarrow> v128" where
  "i32x4_min_s = v128_binop (\<lambda>(a::u32) b. if sint a < sint b then a else b)"

definition i32x4_min_u :: "v128 \<Rightarrow> v128 \<Rightarrow> v128" where
  "i32x4_min_u = v128_binop (\<lambda>(a::u32) b. if a < b then a else b)"

definition i32x4_max_s :: "v128 \<Rightarrow> v128 \<Rightarrow> v128" where
  "i32x4_max_s = v128_binop (\<lambda>(a::u32) b. if sint a < sint b then b else a)"

definition i32x4_max_u :: "v128 \<Rightarrow> v128 \<Rightarrow> v128" where
  "i32x4_max_u = v128_binop (\<lambda>(a::u32) b. if a < b then b else a)"

definition i64x2_abs :: "v128 \<Rightarrow> v128 res" where
  "i64x2_abs = v128_unop_res (\<lambda>(a::u64). if sint a < 0 then (if sint a = - (2 ^ 63) then Inl Undefined_behaviour else Inr (- a)) else Inr a)"

definition i64x2_neg :: "v128 \<Rightarrow> v128" where
  "i64x2_neg = v128_unop (\<lambda>(a::u64). - a)"

definition i64x2_shl :: "u32 \<Rightarrow> v128 \<Rightarrow> v128" where
  "i64x2_shl c2 = (let b = c2 AND 0x3f in v128_unop (\<lambda>(a::u64). push_bit (unat b) a))"

definition i64x2_shr_s :: "u32 \<Rightarrow> v128 \<Rightarrow> v128" where
  "i64x2_shr_s c2 = (let b = c2 AND 0x3f in v128_unop (\<lambda>(a::u64). signed_drop_bit (unat b) a))"

definition i64x2_shr_u :: "u32 \<Rightarrow> v128 \<Rightarrow> v128" where
  "i64x2_shr_u c2 = (let b = c2 AND 0x3f in v128_unop (\<lambda>(a::u64). drop_bit (unat b) a))"

definition i64x2_add :: "v128 \<Rightarrow> v128 \<Rightarrow> v128" where
  "i64x2_add = v128_binop (\<lambda>(a::u64) b. a + b)"

definition i64x2_sub :: "v128 \<Rightarrow> v128 \<Rightarrow> v128" where
  "i64x2_sub = v128_binop (\<lambda>(a::u64) b. a - b)"

definition i64x2_mul :: "v128 \<Rightarrow> v128 \<Rightarrow> v128" where
  "i64x2_mul = v128_binop (\<lambda>(a::u64) b. a * b)"

section \<open>Instructions that change the width of the lanes\<close>

definition i8x16_narrow_i16x8_s :: "v128 \<Rightarrow> v128 \<Rightarrow> v128" where
  "i8x16_narrow_i16x8_s = v128_narrow (\<lambda>(a::u16). word_of_int (if sint a < - 0x80 then - 0x80 else if sint a > 0x7F then 0x7F else sint a) :: u8)"

definition i8x16_narrow_i16x8_u :: "v128 \<Rightarrow> v128 \<Rightarrow> v128" where
  "i8x16_narrow_i16x8_u = v128_narrow (\<lambda>(a::u16). word_of_int (if sint a < 0 then 0 else if sint a > 0xFF then 0xFF else sint a) :: u8)"

definition i16x8_narrow_i32x4_s :: "v128 \<Rightarrow> v128 \<Rightarrow> v128" where
  "i16x8_narrow_i32x4_s = v128_narrow (\<lambda>(a::u32). word_of_int (if sint a < - 0x8000 then - 0x8000 else if sint a > 0x7FFF then 0x7FFF else sint a) :: u16)"

definition i16x8_narrow_i32x4_u :: "v128 \<Rightarrow> v128 \<Rightarrow> v128" where
  "i16x8_narrow_i32x4_u = v128_narrow (\<lambda>(a::u32). word_of_int (if sint a < 0 then 0 else if sint a > 0xFFFF then 0xFFFF else sint a) :: u16)"

definition i16x8_extend_low_i8x16_s :: "v128 \<Rightarrow> v128" where
  "i16x8_extend_low_i8x16_s = v128_extend (scast :: u8 \<Rightarrow> u16) False"

definition i16x8_extmul_low_i8x16_s :: "v128 \<Rightarrow> v128 \<Rightarrow> v128" where
  "i16x8_extmul_low_i8x16_s = v128_extmul (scast :: u8 \<Rightarrow> u16) False"

definition i16x8_extend_low_i8x16_u :: "v128 \<Rightarrow> v128" where
  "i16x8_extend_low_i8x16_u = v128_extend (ucast :: u8 \<Rightarrow> u16) False"

definition i16x8_extmul_low_i8x16_u :: "v128 \<Rightarrow> v128 \<Rightarrow> v128" where
  "i16x8_extmul_low_i8x16_u = v128_extmul (ucast :: u8 \<Rightarrow> u16) False"

definition i16x8_extend_high_i8x16_s :: "v128 \<Rightarrow> v128" where
  "i16x8_extend_high_i8x16_s = v128_extend (scast :: u8 \<Rightarrow> u16) True"

definition i16x8_extmul_high_i8x16_s :: "v128 \<Rightarrow> v128 \<Rightarrow> v128" where
  "i16x8_extmul_high_i8x16_s = v128_extmul (scast :: u8 \<Rightarrow> u16) True"

definition i16x8_extend_high_i8x16_u :: "v128 \<Rightarrow> v128" where
  "i16x8_extend_high_i8x16_u = v128_extend (ucast :: u8 \<Rightarrow> u16) True"

definition i16x8_extmul_high_i8x16_u :: "v128 \<Rightarrow> v128 \<Rightarrow> v128" where
  "i16x8_extmul_high_i8x16_u = v128_extmul (ucast :: u8 \<Rightarrow> u16) True"

definition i16x8_extadd_pairwise_i8x16_s :: "v128 \<Rightarrow> v128" where
  "i16x8_extadd_pairwise_i8x16_s = v128_extadd_pairwise (scast :: u8 \<Rightarrow> u16)"

definition i16x8_extadd_pairwise_i8x16_u :: "v128 \<Rightarrow> v128" where
  "i16x8_extadd_pairwise_i8x16_u = v128_extadd_pairwise (ucast :: u8 \<Rightarrow> u16)"

definition i32x4_extend_low_i16x8_s :: "v128 \<Rightarrow> v128" where
  "i32x4_extend_low_i16x8_s = v128_extend (scast :: u16 \<Rightarrow> u32) False"

definition i32x4_extmul_low_i16x8_s :: "v128 \<Rightarrow> v128 \<Rightarrow> v128" where
  "i32x4_extmul_low_i16x8_s = v128_extmul (scast :: u16 \<Rightarrow> u32) False"

definition i32x4_extend_low_i16x8_u :: "v128 \<Rightarrow> v128" where
  "i32x4_extend_low_i16x8_u = v128_extend (ucast :: u16 \<Rightarrow> u32) False"

definition i32x4_extmul_low_i16x8_u :: "v128 \<Rightarrow> v128 \<Rightarrow> v128" where
  "i32x4_extmul_low_i16x8_u = v128_extmul (ucast :: u16 \<Rightarrow> u32) False"

definition i32x4_extend_high_i16x8_s :: "v128 \<Rightarrow> v128" where
  "i32x4_extend_high_i16x8_s = v128_extend (scast :: u16 \<Rightarrow> u32) True"

definition i32x4_extmul_high_i16x8_s :: "v128 \<Rightarrow> v128 \<Rightarrow> v128" where
  "i32x4_extmul_high_i16x8_s = v128_extmul (scast :: u16 \<Rightarrow> u32) True"

definition i32x4_extend_high_i16x8_u :: "v128 \<Rightarrow> v128" where
  "i32x4_extend_high_i16x8_u = v128_extend (ucast :: u16 \<Rightarrow> u32) True"

definition i32x4_extmul_high_i16x8_u :: "v128 \<Rightarrow> v128 \<Rightarrow> v128" where
  "i32x4_extmul_high_i16x8_u = v128_extmul (ucast :: u16 \<Rightarrow> u32) True"

definition i32x4_extadd_pairwise_i16x8_s :: "v128 \<Rightarrow> v128" where
  "i32x4_extadd_pairwise_i16x8_s = v128_extadd_pairwise (scast :: u16 \<Rightarrow> u32)"

definition i32x4_extadd_pairwise_i16x8_u :: "v128 \<Rightarrow> v128" where
  "i32x4_extadd_pairwise_i16x8_u = v128_extadd_pairwise (ucast :: u16 \<Rightarrow> u32)"

definition i64x2_extend_low_i32x4_s :: "v128 \<Rightarrow> v128" where
  "i64x2_extend_low_i32x4_s = v128_extend (scast :: u32 \<Rightarrow> u64) False"

definition i64x2_extmul_low_i32x4_s :: "v128 \<Rightarrow> v128 \<Rightarrow> v128" where
  "i64x2_extmul_low_i32x4_s = v128_extmul (scast :: u32 \<Rightarrow> u64) False"

definition i64x2_extend_low_i32x4_u :: "v128 \<Rightarrow> v128" where
  "i64x2_extend_low_i32x4_u = v128_extend (ucast :: u32 \<Rightarrow> u64) False"

definition i64x2_extmul_low_i32x4_u :: "v128 \<Rightarrow> v128 \<Rightarrow> v128" where
  "i64x2_extmul_low_i32x4_u = v128_extmul (ucast :: u32 \<Rightarrow> u64) False"

definition i64x2_extend_high_i32x4_s :: "v128 \<Rightarrow> v128" where
  "i64x2_extend_high_i32x4_s = v128_extend (scast :: u32 \<Rightarrow> u64) True"

definition i64x2_extmul_high_i32x4_s :: "v128 \<Rightarrow> v128 \<Rightarrow> v128" where
  "i64x2_extmul_high_i32x4_s = v128_extmul (scast :: u32 \<Rightarrow> u64) True"

definition i64x2_extend_high_i32x4_u :: "v128 \<Rightarrow> v128" where
  "i64x2_extend_high_i32x4_u = v128_extend (ucast :: u32 \<Rightarrow> u64) True"

definition i64x2_extmul_high_i32x4_u :: "v128 \<Rightarrow> v128 \<Rightarrow> v128" where
  "i64x2_extmul_high_i32x4_u = v128_extmul (ucast :: u32 \<Rightarrow> u64) True"

definition i32x4_dot_i16x8_s :: "v128 \<Rightarrow> v128 \<Rightarrow> v128 res" where
  "i32x4_dot_i16x8_s c1 c2 = (let a = lanes c1 :: u16 list; b = lanes c2 :: u16 list in
     bindE (mapE (\<lambda>i. let p1 = sint (a ! (2 * i)) * sint (b ! (2 * i)); p2 = sint (a ! (2 * i + 1)) * sint (b ! (2 * i + 1)) in
         if p1 + p2 < 2 ^ 31 then Inr (word_of_int (p1 + p2) :: u32) else Inl Undefined_behaviour) [0..<4])
       (\<lambda>r. Inr (pack r)))"

section \<open>Lanes, shuffles and splats\<close>

definition i8x16_swizzle :: "v128 \<Rightarrow> v128 \<Rightarrow> v128" where
  "i8x16_swizzle = v128_binop_array (\<lambda>j i2. map (\<lambda>k. if k < 16 then j ! unat k else 0 :: u8) i2)"

definition i8x16_shuffle :: "u8 list \<Rightarrow> v128 \<Rightarrow> v128 \<Rightarrow> v128 res" where
  "i8x16_shuffle ls c1 c2 = (let a = (lanes c1 @ lanes c2 :: u8 list) in
     bindE (mapE (\<lambda>k. at_unchecked a (unat k)) ls) (\<lambda>r. Inr (pack r)))"

definition v128_splat :: "'a::len word \<Rightarrow> v128" where
  "v128_splat t = pack (replicate (128 div LENGTH('a)) t)"

definition lane_at :: "v128 \<Rightarrow> u8 \<Rightarrow> 'a::len word res" where
  "lane_at v i = at_unchecked (lanes v) (unat i)"

definition v128_replace_lane :: "u8 \<Rightarrow> 'a::len word \<Rightarrow> v128 \<Rightarrow> v128 res" where
  "v128_replace_lane i c1 c2 = bindE (at_unchecked (lanes c2 :: 'a word list) (unat i)) (\<lambda>_. Inr (pack ((lanes c2)[unat i := c1])))"

section \<open>Floating point\<close>

definition apply_f32x4 :: "(u32 \<Rightarrow> u32) \<Rightarrow> v128 \<Rightarrow> v128" where
  "apply_f32x4 f a = pack (map f (lanes a))"

definition apply_f32x4_2 :: "(u32 \<Rightarrow> u32 \<Rightarrow> u32) \<Rightarrow> v128 \<Rightarrow> v128 \<Rightarrow> v128" where
  "apply_f32x4_2 f a b = pack (map2 f (lanes a) (lanes b))"

definition apply_f64x2 :: "(u64 \<Rightarrow> u64) \<Rightarrow> v128 \<Rightarrow> v128" where
  "apply_f64x2 f a = pack (map f (lanes a))"

definition apply_f64x2_2 :: "(u64 \<Rightarrow> u64 \<Rightarrow> u64) \<Rightarrow> v128 \<Rightarrow> v128 \<Rightarrow> v128" where
  "apply_f64x2_2 f a b = pack (map2 f (lanes a) (lanes b))"

definition apply_f64x2_zero :: "(u64 \<Rightarrow> u32) \<Rightarrow> v128 \<Rightarrow> v128" where
  "apply_f64x2_zero f a = pack (map f (lanes a) @ [0, 0])"

definition apply_f32x4_low :: "(u32 \<Rightarrow> u64) \<Rightarrow> v128 \<Rightarrow> v128" where
  "apply_f32x4_low f a = pack (map f (take 2 (lanes a)))"

definition eosio_f32x4_eq :: "softfloat \<Rightarrow> v128 \<Rightarrow> v128 \<Rightarrow> v128" where
  "eosio_f32x4_eq sf = apply_f32x4_2 (\<lambda>a b. if sf_eq32 sf a b then - 1 else 0)"

definition eosio_f32x4_ne :: "softfloat \<Rightarrow> v128 \<Rightarrow> v128 \<Rightarrow> v128" where
  "eosio_f32x4_ne sf = apply_f32x4_2 (\<lambda>a b. if \<not> sf_eq32 sf a b then - 1 else 0)"

definition eosio_f32x4_lt :: "softfloat \<Rightarrow> v128 \<Rightarrow> v128 \<Rightarrow> v128" where
  "eosio_f32x4_lt sf = apply_f32x4_2 (\<lambda>a b. if sf_lt32 sf a b then - 1 else 0)"

definition eosio_f32x4_gt :: "softfloat \<Rightarrow> v128 \<Rightarrow> v128 \<Rightarrow> v128" where
  "eosio_f32x4_gt sf = apply_f32x4_2 (\<lambda>a b. if sf_lt32 sf b a then - 1 else 0)"

definition eosio_f32x4_le :: "softfloat \<Rightarrow> v128 \<Rightarrow> v128 \<Rightarrow> v128" where
  "eosio_f32x4_le sf = apply_f32x4_2 (\<lambda>a b. if sf_le32 sf a b then - 1 else 0)"

definition eosio_f32x4_ge :: "softfloat \<Rightarrow> v128 \<Rightarrow> v128 \<Rightarrow> v128" where
  "eosio_f32x4_ge sf = apply_f32x4_2 (\<lambda>a b. if sf_le32 sf b a then - 1 else 0)"

definition eosio_f32x4_ceil :: "softfloat \<Rightarrow> v128 \<Rightarrow> v128" where
  "eosio_f32x4_ceil sf = apply_f32x4 (eosio_f32_ceil sf True)"

definition eosio_f32x4_floor :: "softfloat \<Rightarrow> v128 \<Rightarrow> v128" where
  "eosio_f32x4_floor sf = apply_f32x4 (eosio_f32_floor sf True)"

definition eosio_f32x4_trunc :: "softfloat \<Rightarrow> v128 \<Rightarrow> v128" where
  "eosio_f32x4_trunc sf = apply_f32x4 (eosio_f32_trunc sf True)"

definition eosio_f32x4_nearest :: "softfloat \<Rightarrow> v128 \<Rightarrow> v128" where
  "eosio_f32x4_nearest sf = apply_f32x4 (eosio_f32_nearest sf True)"

definition eosio_f32x4_abs :: "v128 \<Rightarrow> v128" where
  "eosio_f32x4_abs = apply_f32x4 eosio_f32_abs"

definition eosio_f32x4_neg :: "v128 \<Rightarrow> v128" where
  "eosio_f32x4_neg = apply_f32x4 eosio_f32_neg"

definition eosio_f32x4_sqrt :: "softfloat \<Rightarrow> v128 \<Rightarrow> v128" where
  "eosio_f32x4_sqrt sf = apply_f32x4 (eosio_f32_sqrt sf)"

definition eosio_f32x4_add :: "softfloat \<Rightarrow> v128 \<Rightarrow> v128 \<Rightarrow> v128" where
  "eosio_f32x4_add sf = apply_f32x4_2 (sf_add32 sf)"

definition eosio_f32x4_sub :: "softfloat \<Rightarrow> v128 \<Rightarrow> v128 \<Rightarrow> v128" where
  "eosio_f32x4_sub sf = apply_f32x4_2 (sf_sub32 sf)"

definition eosio_f32x4_mul :: "softfloat \<Rightarrow> v128 \<Rightarrow> v128 \<Rightarrow> v128" where
  "eosio_f32x4_mul sf = apply_f32x4_2 (sf_mul32 sf)"

definition eosio_f32x4_div :: "softfloat \<Rightarrow> v128 \<Rightarrow> v128 \<Rightarrow> v128" where
  "eosio_f32x4_div sf = apply_f32x4_2 (sf_div32 sf)"

definition eosio_f32x4_min :: "softfloat \<Rightarrow> v128 \<Rightarrow> v128 \<Rightarrow> v128" where
  "eosio_f32x4_min sf = apply_f32x4_2 (eosio_f32_min sf True)"

definition eosio_f32x4_max :: "softfloat \<Rightarrow> v128 \<Rightarrow> v128 \<Rightarrow> v128" where
  "eosio_f32x4_max sf = apply_f32x4_2 (eosio_f32_max sf True)"

definition eosio_f32x4_pmin :: "softfloat \<Rightarrow> v128 \<Rightarrow> v128 \<Rightarrow> v128" where
  "eosio_f32x4_pmin sf = apply_f32x4_2 (\<lambda>a b. if sf_lt32 sf b a then b else a)"

definition eosio_f32x4_pmax :: "softfloat \<Rightarrow> v128 \<Rightarrow> v128 \<Rightarrow> v128" where
  "eosio_f32x4_pmax sf = apply_f32x4_2 (\<lambda>a b. if sf_lt32 sf a b then b else a)"

definition eosio_f64x2_eq :: "softfloat \<Rightarrow> v128 \<Rightarrow> v128 \<Rightarrow> v128" where
  "eosio_f64x2_eq sf = apply_f64x2_2 (\<lambda>a b. if sf_eq64 sf a b then - 1 else 0)"

definition eosio_f64x2_ne :: "softfloat \<Rightarrow> v128 \<Rightarrow> v128 \<Rightarrow> v128" where
  "eosio_f64x2_ne sf = apply_f64x2_2 (\<lambda>a b. if \<not> sf_eq64 sf a b then - 1 else 0)"

definition eosio_f64x2_lt :: "softfloat \<Rightarrow> v128 \<Rightarrow> v128 \<Rightarrow> v128" where
  "eosio_f64x2_lt sf = apply_f64x2_2 (\<lambda>a b. if sf_lt64 sf a b then - 1 else 0)"

definition eosio_f64x2_gt :: "softfloat \<Rightarrow> v128 \<Rightarrow> v128 \<Rightarrow> v128" where
  "eosio_f64x2_gt sf = apply_f64x2_2 (\<lambda>a b. if sf_lt64 sf b a then - 1 else 0)"

definition eosio_f64x2_le :: "softfloat \<Rightarrow> v128 \<Rightarrow> v128 \<Rightarrow> v128" where
  "eosio_f64x2_le sf = apply_f64x2_2 (\<lambda>a b. if sf_le64 sf a b then - 1 else 0)"

definition eosio_f64x2_ge :: "softfloat \<Rightarrow> v128 \<Rightarrow> v128 \<Rightarrow> v128" where
  "eosio_f64x2_ge sf = apply_f64x2_2 (\<lambda>a b. if sf_le64 sf b a then - 1 else 0)"

definition eosio_f64x2_ceil :: "softfloat \<Rightarrow> v128 \<Rightarrow> v128" where
  "eosio_f64x2_ceil sf = apply_f64x2 (eosio_f64_ceil sf True)"

definition eosio_f64x2_floor :: "softfloat \<Rightarrow> v128 \<Rightarrow> v128" where
  "eosio_f64x2_floor sf = apply_f64x2 (eosio_f64_floor sf True)"

definition eosio_f64x2_trunc :: "softfloat \<Rightarrow> v128 \<Rightarrow> v128" where
  "eosio_f64x2_trunc sf = apply_f64x2 (eosio_f64_trunc sf True)"

definition eosio_f64x2_nearest :: "softfloat \<Rightarrow> v128 \<Rightarrow> v128" where
  "eosio_f64x2_nearest sf = apply_f64x2 (eosio_f64_nearest sf True)"

definition eosio_f64x2_abs :: "v128 \<Rightarrow> v128" where
  "eosio_f64x2_abs = apply_f64x2 eosio_f64_abs"

definition eosio_f64x2_neg :: "v128 \<Rightarrow> v128" where
  "eosio_f64x2_neg = apply_f64x2 eosio_f64_neg"

definition eosio_f64x2_sqrt :: "softfloat \<Rightarrow> v128 \<Rightarrow> v128" where
  "eosio_f64x2_sqrt sf = apply_f64x2 (eosio_f64_sqrt sf)"

definition eosio_f64x2_add :: "softfloat \<Rightarrow> v128 \<Rightarrow> v128 \<Rightarrow> v128" where
  "eosio_f64x2_add sf = apply_f64x2_2 (sf_add64 sf)"

definition eosio_f64x2_sub :: "softfloat \<Rightarrow> v128 \<Rightarrow> v128 \<Rightarrow> v128" where
  "eosio_f64x2_sub sf = apply_f64x2_2 (sf_sub64 sf)"

definition eosio_f64x2_mul :: "softfloat \<Rightarrow> v128 \<Rightarrow> v128 \<Rightarrow> v128" where
  "eosio_f64x2_mul sf = apply_f64x2_2 (sf_mul64 sf)"

definition eosio_f64x2_div :: "softfloat \<Rightarrow> v128 \<Rightarrow> v128 \<Rightarrow> v128" where
  "eosio_f64x2_div sf = apply_f64x2_2 (sf_div64 sf)"

definition eosio_f64x2_min :: "softfloat \<Rightarrow> v128 \<Rightarrow> v128 \<Rightarrow> v128" where
  "eosio_f64x2_min sf = apply_f64x2_2 (eosio_f64_min sf True)"

definition eosio_f64x2_max :: "softfloat \<Rightarrow> v128 \<Rightarrow> v128 \<Rightarrow> v128" where
  "eosio_f64x2_max sf = apply_f64x2_2 (eosio_f64_max sf True)"

definition eosio_f64x2_pmin :: "softfloat \<Rightarrow> v128 \<Rightarrow> v128 \<Rightarrow> v128" where
  "eosio_f64x2_pmin sf = apply_f64x2_2 (\<lambda>a b. if sf_lt64 sf b a then b else a)"

definition eosio_f64x2_pmax :: "softfloat \<Rightarrow> v128 \<Rightarrow> v128 \<Rightarrow> v128" where
  "eosio_f64x2_pmax sf = apply_f64x2_2 (\<lambda>a b. if sf_lt64 sf a b then b else a)"

definition eosio_i32x4_trunc_sat_f32x4_s :: "softfloat \<Rightarrow> v128 \<Rightarrow> v128" where
  "eosio_i32x4_trunc_sat_f32x4_s sf = apply_f32x4 (eosio_i32_trunc_sat_f32_s sf)"

definition eosio_i32x4_trunc_sat_f32x4_u :: "softfloat \<Rightarrow> v128 \<Rightarrow> v128" where
  "eosio_i32x4_trunc_sat_f32x4_u sf = apply_f32x4 (eosio_i32_trunc_sat_f32_u sf)"

definition eosio_f32x4_convert_i32x4_s :: "softfloat \<Rightarrow> v128 \<Rightarrow> v128" where
  "eosio_f32x4_convert_i32x4_s sf = apply_f32x4 (eosio_i32_to_f32 sf)"

definition eosio_f32x4_convert_i32x4_u :: "softfloat \<Rightarrow> v128 \<Rightarrow> v128" where
  "eosio_f32x4_convert_i32x4_u sf = apply_f32x4 (eosio_ui32_to_f32 sf)"

definition eosio_i32x4_trunc_sat_f64x2_s_zero :: "softfloat \<Rightarrow> v128 \<Rightarrow> v128" where
  "eosio_i32x4_trunc_sat_f64x2_s_zero sf = apply_f64x2_zero (eosio_i32_trunc_sat_f64_s sf)"

definition eosio_i32x4_trunc_sat_f64x2_u_zero :: "softfloat \<Rightarrow> v128 \<Rightarrow> v128" where
  "eosio_i32x4_trunc_sat_f64x2_u_zero sf = apply_f64x2_zero (eosio_i32_trunc_sat_f64_u sf)"

definition eosio_f64x2_convert_low_i32x4_s :: "softfloat \<Rightarrow> v128 \<Rightarrow> v128" where
  "eosio_f64x2_convert_low_i32x4_s sf = apply_f32x4_low (eosio_i32_to_f64 sf)"

definition eosio_f64x2_convert_low_i32x4_u :: "softfloat \<Rightarrow> v128 \<Rightarrow> v128" where
  "eosio_f64x2_convert_low_i32x4_u sf = apply_f32x4_low (eosio_ui32_to_f64 sf)"

definition eosio_f32x4_demote_f64x2_zero :: "softfloat \<Rightarrow> v128 \<Rightarrow> v128" where
  "eosio_f32x4_demote_f64x2_zero sf = apply_f64x2_zero (eosio_f64_demote sf)"

definition eosio_f64x2_promote_low_f32x4 :: "softfloat \<Rightarrow> v128 \<Rightarrow> v128" where
  "eosio_f64x2_promote_low_f32x4 sf = apply_f32x4_low (eosio_f32_promote sf)"

section \<open>The instructions by opcode\<close>

text \<open>
  The rows of \<open>EOS_VM_VEC_NUMERIC_OPS\<close> with the function of their visitor overload, by the shape of the overload:
  one vector, two vectors, a vector and a shift count, a vector and a scalar result.
\<close>

definition vec_unops :: "(u32 \<times> (v128 \<Rightarrow> v128 res)) list" where
  "vec_unops = [
     (77, Inr \<circ> v128_not), (96, Inr \<circ> i8x16_abs), (97, Inr \<circ> i8x16_neg), (98, Inr \<circ> i8x16_popcnt),
     (128, Inr \<circ> i16x8_abs), (129, Inr \<circ> i16x8_neg), (160, i32x4_abs), (161, Inr \<circ> i32x4_neg), (192, i64x2_abs),
     (193, Inr \<circ> i64x2_neg), (135, Inr \<circ> i16x8_extend_low_i8x16_s), (137, Inr \<circ> i16x8_extend_low_i8x16_u),
     (136, Inr \<circ> i16x8_extend_high_i8x16_s), (138, Inr \<circ> i16x8_extend_high_i8x16_u),
     (124, Inr \<circ> i16x8_extadd_pairwise_i8x16_s), (125, Inr \<circ> i16x8_extadd_pairwise_i8x16_u),
     (167, Inr \<circ> i32x4_extend_low_i16x8_s), (169, Inr \<circ> i32x4_extend_low_i16x8_u),
     (168, Inr \<circ> i32x4_extend_high_i16x8_s), (170, Inr \<circ> i32x4_extend_high_i16x8_u),
     (126, Inr \<circ> i32x4_extadd_pairwise_i16x8_s), (127, Inr \<circ> i32x4_extadd_pairwise_i16x8_u),
     (199, Inr \<circ> i64x2_extend_low_i32x4_s), (201, Inr \<circ> i64x2_extend_low_i32x4_u),
     (200, Inr \<circ> i64x2_extend_high_i32x4_s), (202, Inr \<circ> i64x2_extend_high_i32x4_u)]"

definition vec_binops :: "(u32 \<times> (v128 \<Rightarrow> v128 \<Rightarrow> v128 res)) list" where
  "vec_binops = [
     (35, \<lambda>a b. Inr (i8x16_eq a b)), (36, \<lambda>a b. Inr (i8x16_ne a b)),
     (37, \<lambda>a b. Inr (i8x16_lt_s a b)), (38, \<lambda>a b. Inr (i8x16_lt_u a b)), (39, \<lambda>a b. Inr (i8x16_gt_s a b)),
     (40, \<lambda>a b. Inr (i8x16_gt_u a b)), (41, \<lambda>a b. Inr (i8x16_le_s a b)), (42, \<lambda>a b. Inr (i8x16_le_u a b)),
     (43, \<lambda>a b. Inr (i8x16_ge_s a b)), (44, \<lambda>a b. Inr (i8x16_ge_u a b)), (45, \<lambda>a b. Inr (i16x8_eq a b)), (46, \<lambda>a b. Inr (i16x8_ne a b)),
     (47, \<lambda>a b. Inr (i16x8_lt_s a b)),
     (48, \<lambda>a b. Inr (i16x8_lt_u a b)), (49, \<lambda>a b. Inr (i16x8_gt_s a b)), (50, \<lambda>a b. Inr (i16x8_gt_u a b)),
     (51, \<lambda>a b. Inr (i16x8_le_s a b)), (52, \<lambda>a b. Inr (i16x8_le_u a b)), (53, \<lambda>a b. Inr (i16x8_ge_s a b)),
     (54, \<lambda>a b. Inr (i16x8_ge_u a b)), (55, \<lambda>a b. Inr (i32x4_eq a b)), (56, \<lambda>a b. Inr (i32x4_ne a b)),
     (57, \<lambda>a b. Inr (i32x4_lt_s a b)), (58, \<lambda>a b. Inr (i32x4_lt_u a b)),
     (59, \<lambda>a b. Inr (i32x4_gt_s a b)), (60, \<lambda>a b. Inr (i32x4_gt_u a b)), (61, \<lambda>a b. Inr (i32x4_le_s a b)),
     (62, \<lambda>a b. Inr (i32x4_le_u a b)), (63, \<lambda>a b. Inr (i32x4_ge_s a b)), (64, \<lambda>a b. Inr (i32x4_ge_u a b)),
     (214, \<lambda>a b. Inr (i64x2_eq a b)), (215, \<lambda>a b. Inr (i64x2_ne a b)),
     (216, \<lambda>a b. Inr (i64x2_lt_s a b)), (217, \<lambda>a b. Inr (i64x2_gt_s a b)), (218, \<lambda>a b. Inr (i64x2_le_s a b)),
     (219, \<lambda>a b. Inr (i64x2_ge_s a b)), (78, \<lambda>a b. Inr (v128_and a b)), (79, \<lambda>a b. Inr (v128_andnot a b)),
     (80, \<lambda>a b. Inr (v128_or a b)), (81, \<lambda>a b. Inr (v128_xor a b)), (110, \<lambda>a b. Inr (i8x16_add a b)),
     (113, \<lambda>a b. Inr (i8x16_sub a b)), (111, \<lambda>a b. Inr (i8x16_add_sat_s a b)),
     (112, \<lambda>a b. Inr (i8x16_add_sat_u a b)), (114, \<lambda>a b. Inr (i8x16_sub_sat_s a b)),
     (115, \<lambda>a b. Inr (i8x16_sub_sat_u a b)), (123, \<lambda>a b. Inr (i8x16_avgr_u a b)),
     (118, \<lambda>a b. Inr (i8x16_min_s a b)), (119, \<lambda>a b. Inr (i8x16_min_u a b)), (120, \<lambda>a b. Inr (i8x16_max_s a b)),
     (121, \<lambda>a b. Inr (i8x16_max_u a b)), (142, \<lambda>a b. Inr (i16x8_add a b)), (145, \<lambda>a b. Inr (i16x8_sub a b)),
     (143, \<lambda>a b. Inr (i16x8_add_sat_s a b)), (144, \<lambda>a b. Inr (i16x8_add_sat_u a b)),
     (146, \<lambda>a b. Inr (i16x8_sub_sat_s a b)), (147, \<lambda>a b. Inr (i16x8_sub_sat_u a b)),
     (155, \<lambda>a b. Inr (i16x8_avgr_u a b)), (149, i16x8_mul), (130, \<lambda>a b. Inr (i16x8_q15mulr_sat_s a b)),
     (150, \<lambda>a b. Inr (i16x8_min_s a b)), (151, \<lambda>a b. Inr (i16x8_min_u a b)), (152, \<lambda>a b. Inr (i16x8_max_s a b)),
     (153, \<lambda>a b. Inr (i16x8_max_u a b)), (174, \<lambda>a b. Inr (i32x4_add a b)), (177, \<lambda>a b. Inr (i32x4_sub a b)),
     (181, \<lambda>a b. Inr (i32x4_mul a b)), (182, \<lambda>a b. Inr (i32x4_min_s a b)), (183, \<lambda>a b. Inr (i32x4_min_u a b)),
     (184, \<lambda>a b. Inr (i32x4_max_s a b)), (185, \<lambda>a b. Inr (i32x4_max_u a b)), (206, \<lambda>a b. Inr (i64x2_add a b)),
     (209, \<lambda>a b. Inr (i64x2_sub a b)), (213, \<lambda>a b. Inr (i64x2_mul a b)),
     (101, \<lambda>a b. Inr (i8x16_narrow_i16x8_s a b)), (102, \<lambda>a b. Inr (i8x16_narrow_i16x8_u a b)),
     (133, \<lambda>a b. Inr (i16x8_narrow_i32x4_s a b)), (134, \<lambda>a b. Inr (i16x8_narrow_i32x4_u a b)),
     (156, \<lambda>a b. Inr (i16x8_extmul_low_i8x16_s a b)), (158, \<lambda>a b. Inr (i16x8_extmul_low_i8x16_u a b)),
     (157, \<lambda>a b. Inr (i16x8_extmul_high_i8x16_s a b)), (159, \<lambda>a b. Inr (i16x8_extmul_high_i8x16_u a b)),
     (188, \<lambda>a b. Inr (i32x4_extmul_low_i16x8_s a b)), (190, \<lambda>a b. Inr (i32x4_extmul_low_i16x8_u a b)),
     (189, \<lambda>a b. Inr (i32x4_extmul_high_i16x8_s a b)), (191, \<lambda>a b. Inr (i32x4_extmul_high_i16x8_u a b)),
     (220, \<lambda>a b. Inr (i64x2_extmul_low_i32x4_s a b)), (222, \<lambda>a b. Inr (i64x2_extmul_low_i32x4_u a b)),
     (221, \<lambda>a b. Inr (i64x2_extmul_high_i32x4_s a b)), (223, \<lambda>a b. Inr (i64x2_extmul_high_i32x4_u a b)),
     (186, i32x4_dot_i16x8_s), (14, \<lambda>a b. Inr (i8x16_swizzle a b))]"

definition vec_float_unops :: "softfloat \<Rightarrow> (u32 \<times> (v128 \<Rightarrow> v128)) list" where
  "vec_float_unops sf = [
     (103, eosio_f32x4_ceil sf), (104, eosio_f32x4_floor sf), (105, eosio_f32x4_trunc sf), (106, eosio_f32x4_nearest sf),
     (224, eosio_f32x4_abs), (225, eosio_f32x4_neg), (227, eosio_f32x4_sqrt sf), (116, eosio_f64x2_ceil sf), (117, eosio_f64x2_floor sf),
     (122, eosio_f64x2_trunc sf), (148, eosio_f64x2_nearest sf), (236, eosio_f64x2_abs), (237, eosio_f64x2_neg),
     (239, eosio_f64x2_sqrt sf), (248, eosio_i32x4_trunc_sat_f32x4_s sf), (249, eosio_i32x4_trunc_sat_f32x4_u sf),
     (250, eosio_f32x4_convert_i32x4_s sf), (251, eosio_f32x4_convert_i32x4_u sf), (252, eosio_i32x4_trunc_sat_f64x2_s_zero sf),
     (253, eosio_i32x4_trunc_sat_f64x2_u_zero sf), (254, eosio_f64x2_convert_low_i32x4_s sf), (255, eosio_f64x2_convert_low_i32x4_u sf),
     (94, eosio_f32x4_demote_f64x2_zero sf), (95, eosio_f64x2_promote_low_f32x4 sf)]"

definition vec_float_binops :: "softfloat \<Rightarrow> (u32 \<times> (v128 \<Rightarrow> v128 \<Rightarrow> v128)) list" where
  "vec_float_binops sf = [
     (65, eosio_f32x4_eq sf), (66, eosio_f32x4_ne sf), (67, eosio_f32x4_lt sf), (68, eosio_f32x4_gt sf), (69, eosio_f32x4_le sf),
     (70, eosio_f32x4_ge sf), (228, eosio_f32x4_add sf), (229, eosio_f32x4_sub sf), (230, eosio_f32x4_mul sf), (231, eosio_f32x4_div sf),
     (232, eosio_f32x4_min sf), (233, eosio_f32x4_max sf), (234, eosio_f32x4_pmin sf), (235, eosio_f32x4_pmax sf), (71, eosio_f64x2_eq sf),
     (72, eosio_f64x2_ne sf), (73, eosio_f64x2_lt sf), (74, eosio_f64x2_gt sf), (75, eosio_f64x2_le sf), (76, eosio_f64x2_ge sf),
     (240, eosio_f64x2_add sf), (241, eosio_f64x2_sub sf), (242, eosio_f64x2_mul sf), (243, eosio_f64x2_div sf), (244, eosio_f64x2_min sf),
     (245, eosio_f64x2_max sf), (246, eosio_f64x2_pmin sf), (247, eosio_f64x2_pmax sf)]"

definition vec_shifts :: "(u32 \<times> (u32 \<Rightarrow> v128 \<Rightarrow> v128)) list" where
  "vec_shifts = [
     (107, i8x16_shl), (108, i8x16_shr_s), (109, i8x16_shr_u), (139, i16x8_shl), (140, i16x8_shr_s), (141, i16x8_shr_u), (171, i32x4_shl),
     (172, i32x4_shr_s), (173, i32x4_shr_u), (203, i64x2_shl), (204, i64x2_shr_s), (205, i64x2_shr_u)]"

definition vec_tests :: "(u32 \<times> (v128 \<Rightarrow> u32)) list" where
  "vec_tests = [
     (83, v128_any_true), (99, i8x16_all_true), (100, i8x16_bitmask), (131, i16x8_all_true), (132, i16x8_bitmask), (163, i32x4_all_true),
     (164, i32x4_bitmask), (195, i64x2_all_true), (196, i64x2_bitmask)]"

end
