(* ===== verification/Vm_Interp.thy ===== *)
theory Vm_Interp
  imports Vm_Exec Vm_Simd
begin

text \<open>
  The interpreter: \<open>interpret_visitor\<close> of \<^verbatim>\<open>interpret_visitor.hpp\<close>, one case of \<open>step\<close> per group of its
  overloads, and the dispatch loop and \<open>execute\<close> of \<open>execution_context\<close>.  \<open>env\<close> holds what the code of
  this component only calls: host functions, the softfloat library, and whether \<open>mprotect\<close> succeeds.  The
  model is of a build with \<open>EOS_VM_SOFTFLOAT\<close>, the deterministic one.  Memory operands are not aligned (\<open>should_align_memory_ops\<close> is off, its default).
\<close>

section \<open>Environment\<close>

record interp_env =
  iv_host :: host_functions
  iv_mprotect :: bool
  iv_sf :: softfloat

section \<open>Operand access\<close>

text \<open>
  The two shapes of a numeric operator: replace the top operand, or pop the right operand and replace the
  left one.  \<open>rd\<close> is the accessor (\<open>to_ui32\<close> and the like), \<open>wr\<close> the constructor of the result.
\<close>

definition unary_op :: "(const_op \<Rightarrow> 'a res) \<Rightarrow> ('b \<Rightarrow> const_op) \<Rightarrow> ('a \<Rightarrow> 'b res) \<Rightarrow> unit exec" where
  "unary_op rd wr f = thenX inc_pc (bindX (peek_operand 0) (\<lambda>oper. bindX (liftX (rd oper)) (\<lambda>v.
     bindX (liftX (f v)) (\<lambda>r. poke_operand 0 (wr r)))))"

definition binary_op :: "(const_op \<Rightarrow> 'a res) \<Rightarrow> ('b \<Rightarrow> const_op) \<Rightarrow> ('a \<Rightarrow> 'a \<Rightarrow> 'b res) \<Rightarrow> unit exec" where
  "binary_op rd wr f = thenX inc_pc (bindX pop_operand (\<lambda>r. bindX (liftX (rd r)) (\<lambda>rhs.
     bindX (peek_operand 0) (\<lambda>l. bindX (liftX (rd l)) (\<lambda>lhs.
       bindX (liftX (f lhs rhs)) (\<lambda>v. poke_operand 0 (wr v)))))))"

definition of_cond :: "bool \<Rightarrow> const_op" where
  "of_cond b = I32_const_t (if b then 1 else 0)"

section \<open>Numeric instructions\<close>

definition i32_unary :: "i32_op \<Rightarrow> bool" where
  "i32_unary op \<longleftrightarrow> (case op of I32_clz \<Rightarrow> True | I32_ctz \<Rightarrow> True | I32_popcnt \<Rightarrow> True | _ \<Rightarrow> False)"

definition i64_unary :: "i64_op \<Rightarrow> bool" where
  "i64_unary op \<longleftrightarrow> (case op of I64_clz \<Rightarrow> True | I64_ctz \<Rightarrow> True | I64_popcnt \<Rightarrow> True | _ \<Rightarrow> False)"

definition f32_unary :: "f32_op \<Rightarrow> bool" where
  "f32_unary op \<longleftrightarrow> (case op of F32_abs \<Rightarrow> True | F32_neg \<Rightarrow> True | F32_ceil \<Rightarrow> True | F32_floor \<Rightarrow> True
     | F32_trunc \<Rightarrow> True | F32_nearest \<Rightarrow> True | F32_sqrt \<Rightarrow> True | _ \<Rightarrow> False)"

definition f64_unary :: "f64_op \<Rightarrow> bool" where
  "f64_unary op \<longleftrightarrow> (case op of F64_abs \<Rightarrow> True | F64_neg \<Rightarrow> True | F64_ceil \<Rightarrow> True | F64_floor \<Rightarrow> True
     | F64_trunc \<Rightarrow> True | F64_nearest \<Rightarrow> True | F64_sqrt \<Rightarrow> True | _ \<Rightarrow> False)"

fun f32_compare :: "softfloat \<Rightarrow> f32_cmp_op \<Rightarrow> u32 \<Rightarrow> u32 \<Rightarrow> bool" where
  "f32_compare sf F32_eq = eosio_f32_eq sf"
| "f32_compare sf F32_ne = eosio_f32_ne sf"
| "f32_compare sf F32_lt = eosio_f32_lt sf"
| "f32_compare sf F32_gt = eosio_f32_gt sf"
| "f32_compare sf F32_le = eosio_f32_le sf"
| "f32_compare sf F32_ge = eosio_f32_ge sf"

text \<open>\<open>eosio_fp\<close> selects the wrappers that leave NaNs as they are.\<close>

fun f32_arith :: "softfloat \<Rightarrow> bool \<Rightarrow> f32_op \<Rightarrow> u32 \<Rightarrow> u32 \<Rightarrow> u32" where
  "f32_arith sf eosio_fp F32_abs a b = eosio_f32_abs a"
| "f32_arith sf eosio_fp F32_neg a b = eosio_f32_neg a"
| "f32_arith sf eosio_fp F32_ceil a b = eosio_f32_ceil sf (\<not> eosio_fp) a"
| "f32_arith sf eosio_fp F32_floor a b = eosio_f32_floor sf (\<not> eosio_fp) a"
| "f32_arith sf eosio_fp F32_trunc a b = eosio_f32_trunc sf (\<not> eosio_fp) a"
| "f32_arith sf eosio_fp F32_nearest a b = eosio_f32_nearest sf (\<not> eosio_fp) a"
| "f32_arith sf eosio_fp F32_sqrt a b = eosio_f32_sqrt sf a"
| "f32_arith sf eosio_fp F32_add a b = eosio_f32_add sf a b"
| "f32_arith sf eosio_fp F32_sub a b = eosio_f32_sub sf a b"
| "f32_arith sf eosio_fp F32_mul a b = eosio_f32_mul sf a b"
| "f32_arith sf eosio_fp F32_div a b = eosio_f32_div sf a b"
| "f32_arith sf eosio_fp F32_min a b = eosio_f32_min sf (\<not> eosio_fp) a b"
| "f32_arith sf eosio_fp F32_max a b = eosio_f32_max sf (\<not> eosio_fp) a b"
| "f32_arith sf eosio_fp F32_copysign a b = eosio_f32_copysign a b"

fun f64_compare :: "softfloat \<Rightarrow> f64_cmp_op \<Rightarrow> u64 \<Rightarrow> u64 \<Rightarrow> bool" where
  "f64_compare sf F64_eq = eosio_f64_eq sf"
| "f64_compare sf F64_ne = eosio_f64_ne sf"
| "f64_compare sf F64_lt = eosio_f64_lt sf"
| "f64_compare sf F64_gt = eosio_f64_gt sf"
| "f64_compare sf F64_le = eosio_f64_le sf"
| "f64_compare sf F64_ge = eosio_f64_ge sf"

fun f64_arith :: "softfloat \<Rightarrow> bool \<Rightarrow> f64_op \<Rightarrow> u64 \<Rightarrow> u64 \<Rightarrow> u64" where
  "f64_arith sf eosio_fp F64_abs a b = eosio_f64_abs a"
| "f64_arith sf eosio_fp F64_neg a b = eosio_f64_neg a"
| "f64_arith sf eosio_fp F64_ceil a b = eosio_f64_ceil sf (\<not> eosio_fp) a"
| "f64_arith sf eosio_fp F64_floor a b = eosio_f64_floor sf (\<not> eosio_fp) a"
| "f64_arith sf eosio_fp F64_trunc a b = eosio_f64_trunc sf (\<not> eosio_fp) a"
| "f64_arith sf eosio_fp F64_nearest a b = eosio_f64_nearest sf (\<not> eosio_fp) a"
| "f64_arith sf eosio_fp F64_sqrt a b = eosio_f64_sqrt sf a"
| "f64_arith sf eosio_fp F64_add a b = eosio_f64_add sf a b"
| "f64_arith sf eosio_fp F64_sub a b = eosio_f64_sub sf a b"
| "f64_arith sf eosio_fp F64_mul a b = eosio_f64_mul sf a b"
| "f64_arith sf eosio_fp F64_div a b = eosio_f64_div sf a b"
| "f64_arith sf eosio_fp F64_min a b = eosio_f64_min sf (\<not> eosio_fp) a b"
| "f64_arith sf eosio_fp F64_max a b = eosio_f64_max sf (\<not> eosio_fp) a b"
| "f64_arith sf eosio_fp F64_copysign a b = eosio_f64_copysign a b"

fun step_cmp :: "interp_env \<Rightarrow> cmp_op \<Rightarrow> unit exec" where
  "step_cmp env (I32_cmp op) = (if op = I32_eqz then unary_op to_ui32 of_cond (\<lambda>v. Inr (i32_compare op v 0))
     else binary_op to_ui32 of_cond (\<lambda>l r. Inr (i32_compare op l r)))"
| "step_cmp env (I64_cmp op) = (if op = I64_eqz then unary_op to_ui64 of_cond (\<lambda>v. Inr (i64_compare op v 0))
     else binary_op to_ui64 of_cond (\<lambda>l r. Inr (i64_compare op l r)))"
| "step_cmp env (F32_cmp op) = binary_op to_fui32 of_cond (\<lambda>l r. Inr (f32_compare (iv_sf env) op l r))"
| "step_cmp env (F64_cmp op) = binary_op to_fui64 of_cond (\<lambda>l r. Inr (f64_compare (iv_sf env) op l r))"

fun step_extend :: "extend_op \<Rightarrow> unit exec" where
  "step_extend I32_extend8_s = unary_op to_ui32 I32_const_t (\<lambda>v. Inr (i32_extend8_s v))"
| "step_extend I32_extend16_s = unary_op to_ui32 I32_const_t (\<lambda>v. Inr (i32_extend16_s v))"
| "step_extend I64_extend8_s = unary_op to_ui64 I64_const_t (\<lambda>v. Inr (i64_extend8_s v))"
| "step_extend I64_extend16_s = unary_op to_ui64 I64_const_t (\<lambda>v. Inr (i64_extend16_s v))"
| "step_extend I64_extend32_s = unary_op to_ui64 I64_const_t (\<lambda>v. Inr (i64_extend32_s v))"

fun step_arith :: "interp_env \<Rightarrow> bool \<Rightarrow> arith_op \<Rightarrow> unit exec" where
  "step_arith env fp (I32_op op) = (if i32_unary op then unary_op to_ui32 I32_const_t (\<lambda>v. i32_arith op v 0)
     else binary_op to_ui32 I32_const_t (i32_arith op))"
| "step_arith env fp (I64_op op) = (if i64_unary op then unary_op to_ui64 I64_const_t (\<lambda>v. i64_arith op v 0)
     else binary_op to_ui64 I64_const_t (i64_arith op))"
| "step_arith env fp (F32_op op) = (if f32_unary op then unary_op to_fui32 F32_const_t (\<lambda>v. Inr (f32_arith (iv_sf env) fp op v 0))
     else binary_op to_fui32 F32_const_t (\<lambda>l r. Inr (f32_arith (iv_sf env) fp op l r)))"
| "step_arith env fp (F64_op op) = (if f64_unary op then unary_op to_fui64 F64_const_t (\<lambda>v. Inr (f64_arith (iv_sf env) fp op v 0))
     else binary_op to_fui64 F64_const_t (\<lambda>l r. Inr (f64_arith (iv_sf env) fp op l r)))"
| "step_arith env fp (Extend_op op) = step_extend op"

fun step_trunc :: "interp_env \<Rightarrow> bool \<Rightarrow> conv_op \<Rightarrow> unit exec" where
  "step_trunc env fp I32_trunc_s_f32 = unary_op to_fui32 I32_const_t (eosio_f32_trunc_i32s (iv_sf env))"
| "step_trunc env fp I32_trunc_s_f64 = unary_op to_fui64 I32_const_t (eosio_f64_trunc_i32s (iv_sf env) (\<not> fp))"
| "step_trunc env fp I32_trunc_u_f32 = unary_op to_fui32 I32_const_t (eosio_f32_trunc_i32u (iv_sf env))"
| "step_trunc env fp I32_trunc_u_f64 = unary_op to_fui64 I32_const_t (eosio_f64_trunc_i32u (iv_sf env))"
| "step_trunc env fp I64_trunc_s_f32 = unary_op to_fui32 I64_const_t (eosio_f32_trunc_i64s (iv_sf env))"
| "step_trunc env fp I64_trunc_s_f64 = unary_op to_fui64 I64_const_t (eosio_f64_trunc_i64s (iv_sf env))"
| "step_trunc env fp I64_trunc_u_f32 = unary_op to_fui32 I64_const_t (eosio_f32_trunc_i64u (iv_sf env))"
| "step_trunc env fp I64_trunc_u_f64 = unary_op to_fui64 I64_const_t (eosio_f64_trunc_i64u (iv_sf env))"
| "step_trunc env fp _ = throwX Undefined_behaviour"

fun step_conv :: "interp_env \<Rightarrow> bool \<Rightarrow> conv_op \<Rightarrow> unit exec" where
  "step_conv env fp I32_wrap_i64 = unary_op to_ui64 I32_const_t (\<lambda>v. Inr (ucast v))"
| "step_conv env fp I64_extend_s_i32 = unary_op to_ui32 I64_const_t (\<lambda>v. Inr (scast v))"
| "step_conv env fp I64_extend_u_i32 = unary_op to_ui32 I64_const_t (\<lambda>v. Inr (ucast v))"
| "step_conv env fp I32_reinterpret_f32 = unary_op to_fui32 I32_const_t Inr"
| "step_conv env fp I64_reinterpret_f64 = unary_op to_fui64 I64_const_t Inr"
| "step_conv env fp F32_reinterpret_i32 = unary_op to_ui32 F32_const_t Inr"
| "step_conv env fp F64_reinterpret_i64 = unary_op to_ui64 F64_const_t Inr"
| "step_conv env fp F32_convert_s_i32 = unary_op to_ui32 F32_const_t (\<lambda>v. Inr (eosio_i32_to_f32 (iv_sf env) v))"
| "step_conv env fp F32_convert_u_i32 = unary_op to_ui32 F32_const_t (\<lambda>v. Inr (eosio_ui32_to_f32 (iv_sf env) v))"
| "step_conv env fp F32_convert_s_i64 = unary_op to_ui64 F32_const_t (\<lambda>v. Inr (eosio_i64_to_f32 (iv_sf env) v))"
| "step_conv env fp F32_convert_u_i64 = unary_op to_ui64 F32_const_t (\<lambda>v. Inr (eosio_ui64_to_f32 (iv_sf env) v))"
| "step_conv env fp F64_convert_s_i32 = unary_op to_ui32 F64_const_t (\<lambda>v. Inr (eosio_i32_to_f64 (iv_sf env) v))"
| "step_conv env fp F64_convert_u_i32 = unary_op to_ui32 F64_const_t (\<lambda>v. Inr (eosio_ui32_to_f64 (iv_sf env) v))"
| "step_conv env fp F64_convert_s_i64 = unary_op to_ui64 F64_const_t (\<lambda>v. Inr (eosio_i64_to_f64 (iv_sf env) v))"
| "step_conv env fp F64_convert_u_i64 = unary_op to_ui64 F64_const_t (\<lambda>v. Inr (eosio_ui64_to_f64 (iv_sf env) v))"
| "step_conv env fp F32_demote_f64 = unary_op to_fui64 F32_const_t (\<lambda>v. Inr (eosio_f64_demote (iv_sf env) v))"
| "step_conv env fp F64_promote_f32 = unary_op to_fui32 F64_const_t (\<lambda>v. Inr (eosio_f32_promote (iv_sf env) v))"
| "step_conv env fp op = step_trunc env fp op"

fun step_sat :: "interp_env \<Rightarrow> sat_op \<Rightarrow> unit exec" where
  "step_sat env I32_trunc_sat_f32_s = unary_op to_fui32 I32_const_t (\<lambda>v. Inr (eosio_i32_trunc_sat_f32_s (iv_sf env) v))"
| "step_sat env I32_trunc_sat_f32_u = unary_op to_fui32 I32_const_t (\<lambda>v. Inr (eosio_i32_trunc_sat_f32_u (iv_sf env) v))"
| "step_sat env I32_trunc_sat_f64_s = unary_op to_fui64 I32_const_t (\<lambda>v. Inr (eosio_i32_trunc_sat_f64_s (iv_sf env) v))"
| "step_sat env I32_trunc_sat_f64_u = unary_op to_fui64 I32_const_t (\<lambda>v. Inr (eosio_i32_trunc_sat_f64_u (iv_sf env) v))"
| "step_sat env I64_trunc_sat_f32_s = unary_op to_fui32 I64_const_t (\<lambda>v. Inr (eosio_i64_trunc_sat_f32_s (iv_sf env) v))"
| "step_sat env I64_trunc_sat_f32_u = unary_op to_fui32 I64_const_t (\<lambda>v. Inr (eosio_i64_trunc_sat_f32_u (iv_sf env) v))"
| "step_sat env I64_trunc_sat_f64_s = unary_op to_fui64 I64_const_t (\<lambda>v. Inr (eosio_i64_trunc_sat_f64_s (iv_sf env) v))"
| "step_sat env I64_trunc_sat_f64_u = unary_op to_fui64 I64_const_t (\<lambda>v. Inr (eosio_i64_trunc_sat_f64_u (iv_sf env) v))"

fun step_numeric :: "interp_env \<Rightarrow> bool \<Rightarrow> numeric_op \<Rightarrow> unit exec" where
  "step_numeric env fp (Cmp_t op) = step_cmp env op"
| "step_numeric env fp (Arith_t op) = step_arith env fp op"
| "step_numeric env fp (Conv_t op) = step_conv env fp op"
| "step_numeric env fp (Sat_t op) = step_sat env op"

section \<open>Memory instructions\<close>

text \<open>\<open>pop_memop_addr\<close>: offset and operand are added to a pointer one after the other, without wrap-around.\<close>

definition pop_memop_addr :: "u32 \<Rightarrow> nat exec" where
  "pop_memop_addr offset = bindX pop_operand (\<lambda>ptr. bindX (liftX (to_ui32 ptr)) (\<lambda>p. retX (unat offset + unat p)))"

fun load_width :: "load_op \<Rightarrow> nat" where
  "load_width I32_load = 4" | "load_width I64_load = 8" | "load_width F32_load = 4" | "load_width F64_load = 8"
| "load_width I32_load8_s = 1" | "load_width I32_load16_s = 2" | "load_width I32_load8_u = 1" | "load_width I32_load16_u = 2"
| "load_width I64_load8_s = 1" | "load_width I64_load16_s = 2" | "load_width I64_load32_s = 4"
| "load_width I64_load8_u = 1" | "load_width I64_load16_u = 2" | "load_width I64_load32_u = 4"

fun load_value :: "load_op \<Rightarrow> u8 list \<Rightarrow> const_op" where
  "load_value I32_load bs = I32_const_t (le_word bs)"
| "load_value I64_load bs = I64_const_t (le_word bs)"
| "load_value F32_load bs = F32_const_t (le_word bs)"
| "load_value F64_load bs = F64_const_t (le_word bs)"
| "load_value I32_load8_s bs = I32_const_t (scast (le_word bs :: u8))"
| "load_value I32_load16_s bs = I32_const_t (scast (le_word bs :: u16))"
| "load_value I32_load8_u bs = I32_const_t (ucast (le_word bs :: u8))"
| "load_value I32_load16_u bs = I32_const_t (ucast (le_word bs :: u16))"
| "load_value I64_load8_s bs = I64_const_t (scast (le_word bs :: u8))"
| "load_value I64_load16_s bs = I64_const_t (scast (le_word bs :: u16))"
| "load_value I64_load32_s bs = I64_const_t (scast (le_word bs :: u32))"
| "load_value I64_load8_u bs = I64_const_t (ucast (le_word bs :: u8))"
| "load_value I64_load16_u bs = I64_const_t (ucast (le_word bs :: u16))"
| "load_value I64_load32_u bs = I64_const_t (ucast (le_word bs :: u32))"

definition step_load :: "load_op \<Rightarrow> u32 \<Rightarrow> unit exec" where
  "step_load op offset = thenX inc_pc (bindX (pop_memop_addr offset) (\<lambda>a.
     bindX (read_memory a (load_width op)) (\<lambda>bs. push_operand (load_value op bs))))"

fun store_bytes :: "store_op \<Rightarrow> const_op \<Rightarrow> u8 list res" where
  "store_bytes I32_store e = bindE (to_ui32 e) (\<lambda>w. Inr (le_bytes 4 w))"
| "store_bytes I32_store8 e = bindE (to_ui32 e) (\<lambda>w. Inr (le_bytes 1 (ucast w :: u8)))"
| "store_bytes I32_store16 e = bindE (to_ui32 e) (\<lambda>w. Inr (le_bytes 2 (ucast w :: u16)))"
| "store_bytes I64_store e = bindE (to_ui64 e) (\<lambda>w. Inr (le_bytes 8 w))"
| "store_bytes I64_store8 e = bindE (to_ui64 e) (\<lambda>w. Inr (le_bytes 1 (ucast w :: u8)))"
| "store_bytes I64_store16 e = bindE (to_ui64 e) (\<lambda>w. Inr (le_bytes 2 (ucast w :: u16)))"
| "store_bytes I64_store32 e = bindE (to_ui64 e) (\<lambda>w. Inr (le_bytes 4 (ucast w :: u32)))"
| "store_bytes F32_store e = bindE (to_fui32 e) (\<lambda>w. Inr (le_bytes 4 w))"
| "store_bytes F64_store e = bindE (to_fui64 e) (\<lambda>w. Inr (le_bytes 8 w))"

definition step_store :: "store_op \<Rightarrow> u32 \<Rightarrow> unit exec" where
  "step_store op offset = thenX inc_pc (bindX pop_operand (\<lambda>val. bindX (pop_memop_addr offset) (\<lambda>a.
     bindX (liftX (store_bytes op val)) (\<lambda>bs. write_memory a bs))))"

definition step_grow_memory :: "interp_env \<Rightarrow> unit exec" where
  "step_grow_memory env = thenX inc_pc (bindX (peek_operand 0) (\<lambda>e. bindX (liftX (to_ui32 e)) (\<lambda>oper.
     bindX (grow_linear_memory (iv_mprotect env) oper) (\<lambda>r. poke_operand 0 (I32_const_t r)))))"

definition step_current_memory :: "unit exec" where
  "step_current_memory = thenX inc_pc (bindX current_linear_memory (\<lambda>p. push_operand (I32_const_t p)))"

section \<open>Bulk instructions\<close>

definition pop_ui32 :: "u32 exec" where
  "pop_ui32 = bindX pop_operand (\<lambda>e. liftX (to_ui32 e))"

definition peek_ui32 :: "u64 \<Rightarrow> u32 exec" where
  "peek_ui32 i = bindX (peek_operand i) (\<lambda>e. liftX (to_ui32 e))"

definition poke_i32 :: "u64 \<Rightarrow> u32 \<Rightarrow> unit exec" where
  "poke_i32 i w = poke_operand i (I32_const_t w)"

definition pop_three :: "unit exec" where
  "pop_three = thenX pop_operand (thenX pop_operand (thenX pop_operand inc_pc))"

text \<open>
  \<open>memory.copy\<close> moves one byte per execution of the instruction and leaves the program counter in place
  until the size on the stack is zero; the direction of the copy follows the order of the ranges.
\<close>

definition step_memory_copy :: "unit exec" where
  "step_memory_copy = bindX (peek_ui32 0) (\<lambda>sz. bindX (peek_ui32 1) (\<lambda>src. bindX (peek_ui32 2) (\<lambda>dst.
     bindX (validate_pointer src sz) (\<lambda>s. bindX (validate_pointer dst sz) (\<lambda>d.
       if sz = 0 then pop_three
       else if dst \<le> src then
         bindX (read_memory s 1) (\<lambda>b. thenX (write_memory d b)
         (thenX (poke_i32 0 (sz - 1)) (thenX (poke_i32 1 (src + 1)) (poke_i32 2 (dst + 1)))))
       else
         bindX (read_memory (s + unat (sz - 1)) 1) (\<lambda>b. thenX (write_memory (d + unat (sz - 1)) b)
         (poke_i32 0 (sz - 1))))))))"

definition step_memory_fill :: "unit exec" where
  "step_memory_fill = bindX (peek_ui32 0) (\<lambda>sz. bindX (peek_ui32 2) (\<lambda>dst. bindX (validate_pointer dst sz) (\<lambda>d.
     if sz = 0 then pop_three
     else bindX (peek_ui32 1) (\<lambda>src. thenX (write_memory d [ucast src])
       (thenX (poke_i32 0 (sz - 1)) (poke_i32 2 (dst + 1)))))))"

definition step_table_copy :: "unit exec" where
  "step_table_copy = bindX (peek_ui32 0) (\<lambda>sz. bindX (peek_ui32 1) (\<lambda>src. bindX (peek_ui32 2) (\<lambda>dst.
     bindX (get_table_ptr src sz) (\<lambda>s. bindX (get_table_ptr dst sz) (\<lambda>d.
       if sz = 0 then pop_three
       else if dst \<le> src then
         bindX (withX x_table (\<lambda>t. liftX (at_unchecked t s))) (\<lambda>e. thenX (modX (x_table_update (\<lambda>t. t[d := e])))
         (thenX (poke_i32 0 (sz - 1)) (thenX (poke_i32 1 (src + 1)) (poke_i32 2 (dst + 1)))))
       else
         bindX (withX x_table (\<lambda>t. liftX (at_unchecked t (s + unat (sz - 1))))) (\<lambda>e.
         thenX (modX (x_table_update (\<lambda>t. t[d + unat (sz - 1) := e]))) (poke_i32 0 (sz - 1))))))))"

text \<open>The operands of \<open>memory.init\<close> and \<open>table.init\<close>: size, source and destination are popped, then read.\<close>

definition step_init :: "(u32 \<Rightarrow> u32 \<Rightarrow> u32 \<Rightarrow> unit exec) \<Rightarrow> unit exec" where
  "step_init f = bindX pop_operand (\<lambda>sz. bindX pop_operand (\<lambda>src. bindX pop_operand (\<lambda>dst. thenX inc_pc
     (bindX (liftX (to_ui32 dst)) (\<lambda>d. bindX (liftX (to_ui32 src)) (\<lambda>s. bindX (liftX (to_ui32 sz)) (\<lambda>n. f d s n)))))))"

fun step_bulk :: "bulk_op \<Rightarrow> unit exec" where
  "step_bulk (Memory_init_t i) = step_init (init_linear_memory i)"
| "step_bulk (Data_drop_t i) = thenX inc_pc (drop_data i)"
| "step_bulk Memory_copy_t = step_memory_copy"
| "step_bulk Memory_fill_t = step_memory_fill"
| "step_bulk (Table_init_t i) = step_init (init_table i)"
| "step_bulk (Elem_drop_t i) = thenX inc_pc (drop_elem i)"
| "step_bulk Table_copy_t = step_table_copy"

section \<open>Vector instructions\<close>

definition pop_v128 :: "v128 exec" where
  "pop_v128 = bindX pop_operand (\<lambda>e. liftX (to_v128 e))"

definition push_v128 :: "v128 \<Rightarrow> unit exec" where
  "push_v128 v = push_operand (V128_const_t v)"

definition step_v128_unop :: "(v128 \<Rightarrow> v128 res) \<Rightarrow> unit exec" where
  "step_v128_unop f = thenX inc_pc (bindX pop_v128 (\<lambda>c1. bindX (liftX (f c1)) push_v128))"

definition step_v128_binop :: "(v128 \<Rightarrow> v128 \<Rightarrow> v128 res) \<Rightarrow> unit exec" where
  "step_v128_binop f = thenX inc_pc (bindX pop_v128 (\<lambda>c2. bindX pop_v128 (\<lambda>c1. bindX (liftX (f c1 c2)) push_v128)))"

definition step_v128_ternop :: "(v128 \<Rightarrow> v128 \<Rightarrow> v128 \<Rightarrow> v128) \<Rightarrow> unit exec" where
  "step_v128_ternop f = thenX inc_pc (bindX pop_v128 (\<lambda>c3. bindX pop_v128 (\<lambda>c2. bindX pop_v128 (\<lambda>c1. push_v128 (f c1 c2 c3)))))"

definition step_v128_test :: "(v128 \<Rightarrow> u32) \<Rightarrow> unit exec" where
  "step_v128_test f = thenX inc_pc (bindX pop_v128 (\<lambda>c1. push_operand (I32_const_t (f c1))))"

text \<open>The scalar operand of a shift, a splat or a lane replacement is popped before the program counter moves.\<close>

definition step_v128_shift :: "(u32 \<Rightarrow> v128 \<Rightarrow> v128) \<Rightarrow> unit exec" where
  "step_v128_shift f = bindX pop_ui32 (\<lambda>b. step_v128_unop (\<lambda>c1. Inr (f b c1)))"

definition step_v128_splat :: "(const_op \<Rightarrow> 'a res) \<Rightarrow> ('a \<Rightarrow> v128) \<Rightarrow> unit exec" where
  "step_v128_splat rd f = bindX pop_operand (\<lambda>e. bindX (liftX (rd e)) (\<lambda>t. thenX inc_pc (push_v128 (f t))))"

definition step_extract_lane :: "(v128 \<Rightarrow> const_op res) \<Rightarrow> unit exec" where
  "step_extract_lane f = thenX inc_pc (bindX pop_v128 (\<lambda>c. bindX (liftX (f c)) push_operand))"

definition step_replace_lane :: "(const_op \<Rightarrow> 'a res) \<Rightarrow> ('a \<Rightarrow> v128 \<Rightarrow> v128 res) \<Rightarrow> unit exec" where
  "step_replace_lane rd f = bindX pop_operand (\<lambda>e. bindX (liftX (rd e)) (\<lambda>c1. step_v128_unop (f c1)))"

definition mapR :: "('a \<Rightarrow> 'b) \<Rightarrow> 'a res \<Rightarrow> 'b res" where
  "mapR f r = bindE r (\<lambda>a. Inr (f a))"

text \<open>\<open>i8x16_extract_lane_s\<close> and the other lane instructions, by opcode.\<close>

definition step_vec_lane :: "u32 \<Rightarrow> u8 \<Rightarrow> unit exec" where
  "step_vec_lane code i =
     (if code = 21 then step_extract_lane (\<lambda>c. mapR (\<lambda>w::u8. I32_const_t (scast w)) (lane_at c i))
      else if code = 22 then step_extract_lane (\<lambda>c. mapR (\<lambda>w::u8. I32_const_t (ucast w)) (lane_at c i))
      else if code = 23 then step_replace_lane to_ui32 (\<lambda>w. v128_replace_lane i (ucast w :: u8))
      else if code = 24 then step_extract_lane (\<lambda>c. mapR (\<lambda>w::u16. I32_const_t (scast w)) (lane_at c i))
      else if code = 25 then step_extract_lane (\<lambda>c. mapR (\<lambda>w::u16. I32_const_t (ucast w)) (lane_at c i))
      else if code = 26 then step_replace_lane to_ui32 (\<lambda>w. v128_replace_lane i (ucast w :: u16))
      else if code = 27 then step_extract_lane (\<lambda>c. mapR I32_const_t (lane_at c i))
      else if code = 28 then step_replace_lane to_ui32 (v128_replace_lane i)
      else if code = 29 then step_extract_lane (\<lambda>c. mapR I64_const_t (lane_at c i))
      else if code = 30 then step_replace_lane to_ui64 (v128_replace_lane i)
      else if code = 31 then step_extract_lane (\<lambda>c. mapR F32_const_t (lane_at c i))
      else if code = 32 then step_replace_lane to_fui32 (v128_replace_lane i)
      else if code = 33 then step_extract_lane (\<lambda>c. mapR F64_const_t (lane_at c i))
      else if code = 34 then step_replace_lane to_fui64 (v128_replace_lane i)
      else throwX Undefined_behaviour)"

text \<open>
  Loads of a vector: \<open>n\<close> elements of \<open>w\<close> bytes are read one after the other at increasing addresses and made
  into a vector by \<open>f\<close>; a trap of a later element comes after the reads of the earlier ones, which change nothing.
\<close>

fun read_elems :: "nat \<Rightarrow> nat \<Rightarrow> nat \<Rightarrow> u8 list list exec" where
  "read_elems a w 0 = retX []"
| "read_elems a w (Suc n) = bindX (read_memory a w) (\<lambda>bs. bindX (read_elems (a + w) w n) (\<lambda>bss. retX (bs # bss)))"

definition step_v128_load :: "nat \<Rightarrow> nat \<Rightarrow> (u8 list list \<Rightarrow> v128) \<Rightarrow> u32 \<Rightarrow> unit exec" where
  "step_v128_load w n f offset = thenX inc_pc (bindX (pop_memop_addr offset) (\<lambda>a.
     bindX (read_elems a w n) (\<lambda>bss. push_v128 (f bss))))"

definition v128_load_extend :: "('a::len word \<Rightarrow> 'b::len word) \<Rightarrow> u8 list list \<Rightarrow> v128" where
  "v128_load_extend conv bss = pack (map (\<lambda>bs. conv (le_word bs)) bss)"

definition v128_load_splat :: "('a::len word \<Rightarrow> 'a word) \<Rightarrow> u8 list list \<Rightarrow> v128" where
  "v128_load_splat conv bss = v128_splat (conv (le_word (hd bss)))"

definition v128_load_zero :: "('a::len word \<Rightarrow> 'a word) \<Rightarrow> u8 list list \<Rightarrow> v128" where
  "v128_load_zero conv bss = pack (conv (le_word (hd bss)) # replicate (128 div LENGTH('a) - 1) 0)"

definition step_v128_store :: "u32 \<Rightarrow> unit exec" where
  "step_v128_store offset = thenX inc_pc (bindX pop_operand (\<lambda>val. bindX (pop_memop_addr offset) (\<lambda>a.
     bindX (liftX (to_v128 val)) (\<lambda>v. write_memory a (le_bytes 16 v)))))"

definition step_vec_memory :: "u32 \<Rightarrow> u32 \<Rightarrow> unit exec" where
  "step_vec_memory code offset =
     (if code = 0 then step_v128_load 16 1 (\<lambda>bss. le_word (hd bss)) offset
      else if code = 1 then step_v128_load 1 8 (v128_load_extend (scast :: u8 \<Rightarrow> u16)) offset
      else if code = 2 then step_v128_load 1 8 (v128_load_extend (ucast :: u8 \<Rightarrow> u16)) offset
      else if code = 3 then step_v128_load 2 4 (v128_load_extend (scast :: u16 \<Rightarrow> u32)) offset
      else if code = 4 then step_v128_load 2 4 (v128_load_extend (ucast :: u16 \<Rightarrow> u32)) offset
      else if code = 5 then step_v128_load 4 2 (v128_load_extend (scast :: u32 \<Rightarrow> u64)) offset
      else if code = 6 then step_v128_load 4 2 (v128_load_extend (ucast :: u32 \<Rightarrow> u64)) offset
      else if code = 7 then step_v128_load 1 1 (v128_load_splat (\<lambda>w::u8. w)) offset
      else if code = 8 then step_v128_load 2 1 (v128_load_splat (\<lambda>w::u16. w)) offset
      else if code = 9 then step_v128_load 4 1 (v128_load_splat (\<lambda>w::u32. w)) offset
      else if code = 10 then step_v128_load 8 1 (v128_load_splat (\<lambda>w::u64. w)) offset
      else if code = 92 then step_v128_load 4 1 (v128_load_zero (\<lambda>w::u32. w)) offset
      else if code = 93 then step_v128_load 8 1 (v128_load_zero (\<lambda>w::u64. w)) offset
      else if code = 11 then step_v128_store offset
      else throwX Undefined_behaviour)"

definition step_v128_load_lane :: "nat \<Rightarrow> (u8 list \<Rightarrow> v128 \<Rightarrow> v128 res) \<Rightarrow> u32 \<Rightarrow> unit exec" where
  "step_v128_load_lane w f offset = thenX inc_pc (bindX pop_v128 (\<lambda>val. bindX (pop_memop_addr offset) (\<lambda>a.
     bindX (read_memory a w) (\<lambda>bs. bindX (liftX (f bs val)) push_v128))))"

definition step_v128_store_lane :: "(v128 \<Rightarrow> u8 list res) \<Rightarrow> u32 \<Rightarrow> unit exec" where
  "step_v128_store_lane f offset = thenX inc_pc (bindX pop_v128 (\<lambda>val. bindX (pop_memop_addr offset) (\<lambda>a.
     bindX (liftX (f val)) (\<lambda>bs. write_memory a bs))))"

definition step_vec_lane_memory :: "u32 \<Rightarrow> u32 \<Rightarrow> u8 \<Rightarrow> unit exec" where
  "step_vec_lane_memory code offset i =
     (if code = 84 then step_v128_load_lane 1 (\<lambda>bs. v128_replace_lane i (le_word bs :: u8)) offset
      else if code = 85 then step_v128_load_lane 2 (\<lambda>bs. v128_replace_lane i (le_word bs :: u16)) offset
      else if code = 86 then step_v128_load_lane 4 (\<lambda>bs. v128_replace_lane i (le_word bs :: u32)) offset
      else if code = 87 then step_v128_load_lane 8 (\<lambda>bs. v128_replace_lane i (le_word bs :: u64)) offset
      else if code = 88 then step_v128_store_lane (\<lambda>v. mapR (\<lambda>w::u8. le_bytes 1 w) (lane_at v i)) offset
      else if code = 89 then step_v128_store_lane (\<lambda>v. mapR (\<lambda>w::u16. le_bytes 2 w) (lane_at v i)) offset
      else if code = 90 then step_v128_store_lane (\<lambda>v. mapR (\<lambda>w::u32. le_bytes 4 w) (lane_at v i)) offset
      else if code = 91 then step_v128_store_lane (\<lambda>v. mapR (\<lambda>w::u64. le_bytes 8 w) (lane_at v i)) offset
      else throwX Undefined_behaviour)"

definition step_vec_splat :: "u32 \<Rightarrow> unit exec" where
  "step_vec_splat code =
     (if code = 15 then step_v128_splat to_ui32 (\<lambda>t. v128_splat (ucast t :: u8))
      else if code = 16 then step_v128_splat to_ui32 (\<lambda>t. v128_splat (ucast t :: u16))
      else if code = 17 then step_v128_splat to_ui32 v128_splat
      else if code = 18 then step_v128_splat to_ui64 v128_splat
      else if code = 19 then step_v128_splat to_fui32 v128_splat
      else if code = 20 then step_v128_splat to_fui64 v128_splat
      else throwX Undefined_behaviour)"

definition step_vec_numeric :: "softfloat \<Rightarrow> u32 \<Rightarrow> unit exec" where
  "step_vec_numeric sf code =
     (case map_of vec_binops code of Some f \<Rightarrow> step_v128_binop f
      | None \<Rightarrow> case map_of vec_unops code of Some f \<Rightarrow> step_v128_unop f
      | None \<Rightarrow> case map_of (vec_float_binops sf) code of Some f \<Rightarrow> step_v128_binop (\<lambda>a b. Inr (f a b))
      | None \<Rightarrow> case map_of (vec_float_unops sf) code of Some f \<Rightarrow> step_v128_unop (\<lambda>a. Inr (f a))
      | None \<Rightarrow> case map_of vec_shifts code of Some f \<Rightarrow> step_v128_shift f
      | None \<Rightarrow> case map_of vec_tests code of Some f \<Rightarrow> step_v128_test f
      | None \<Rightarrow> if code = 82 then step_v128_ternop v128_bitselect else step_vec_splat code)"

fun step_vec :: "softfloat \<Rightarrow> vec_op \<Rightarrow> unit exec" where
  "step_vec sf (Vec_memory_t code align offset) = step_vec_memory code offset"
| "step_vec sf (Vec_lane_memory_t code align offset i) = step_vec_lane_memory code offset i"
| "step_vec sf (Vec_shuffle_t ls) = step_v128_binop (i8x16_shuffle ls)"
| "step_vec sf (Vec_lane_t code i) = step_vec_lane code i"
| "step_vec sf (Vec_numeric_t code) = step_vec_numeric sf code"

section \<open>Control\<close>

text \<open>The labels of a \<open>br_table\<close> lie in the slots behind it.\<close>

fun table_entry_at :: "opcode list \<Rightarrow> code_ptr \<Rightarrow> nat \<Rightarrow> br_elem res" where
  "table_entry_at code (At i) k = bindE (at_unchecked code i) (\<lambda>op. case op of Br_table_elems es \<Rightarrow> at_unchecked es k
     | _ \<Rightarrow> Inl Undefined_behaviour)"
| "table_entry_at code _ k = Inl Undefined_behaviour"

definition step_br_table :: "u32 \<Rightarrow> unit exec" where
  "step_br_table tsz = bindX pop_ui32 (\<lambda>i. withX (\<lambda>x. x) (\<lambda>x.
     bindX (liftX (table_entry_at (x_code x) (ptr_add 1 (x_pc x)) (unat (min i tsz)))) (\<lambda>entry.
       jump (be_stack_pop entry) (be_pc entry))))"

definition step_call_indirect :: "interp_env \<Rightarrow> u32 \<Rightarrow> unit exec" where
  "step_call_indirect env ty = bindX pop_ui32 (\<lambda>index. bindX (table_elem index) (\<lambda>fn. withX x_mod (\<lambda>m.
     bindX (liftX (at_checked (m_types m) (unat ty))) (\<lambda>expected.
     bindX (liftX (get_function_type m (unat fn))) (\<lambda>actual.
       checkX (func_type_eq actual expected) Wasm_interpreter_exception (call_fn (iv_host env) (unat fn)))))))"

definition step_select :: "unit exec" where
  "step_select = bindX pop_operand (\<lambda>c. bindX pop_operand (\<lambda>v2. bindX (liftX (to_ui32 c)) (\<lambda>w.
     thenX (if w = 0 then bindX (peek_operand 0) (\<lambda>_. poke_operand 0 v2) else retX ()) inc_pc)))"

fun step :: "interp_env \<Rightarrow> opcode \<Rightarrow> unit exec" where
  "step env Unreachable_t = thenX inc_pc (throwX Wasm_interpreter_exception)"
| "step env Nop_t = inc_pc"
| "step env (Return_t num_locals return_cnt usage) = apply_pop_call num_locals (ucast return_cnt) usage"
| "step env (If_t pc) = thenX inc_pc (bindX pop_ui32 (\<lambda>c. if c = 0 then set_relative_pc pc else retX ()))"
| "step env (Else_t pc) = set_relative_pc pc"
| "step env (Br_t d pc) = jump d pc"
| "step env (Br_if_t d pc) = bindX pop_operand (\<lambda>v. bindX (liftX (is_true v)) (\<lambda>b. if b then jump d pc else inc_pc))"
| "step env (Br_table_t tsz) = step_br_table tsz"
| "step env (Call_t i) = call_fn (iv_host env) (unat i)"
| "step env (Call_indirect_t ty) = step_call_indirect env ty"
| "step env Drop_t = thenX pop_operand inc_pc"
| "step env Select_t = step_select"
| "step env (Get_local_t i) = thenX inc_pc (bindX (get_operand i) push_operand)"
| "step env (Set_local_t i) = thenX inc_pc (bindX pop_operand (set_operand i))"
| "step env (Tee_local_t i) = thenX inc_pc (bindX pop_operand (\<lambda>e. thenX (set_operand i e) (push_operand e)))"
| "step env (Get_global_t i) = thenX inc_pc (bindX (get_global i) push_operand)"
| "step env (Set_global_t i) = thenX inc_pc (bindX pop_operand (set_global i))"
| "step env (Load_t op align offset) = step_load op offset"
| "step env (Store_t op align offset) = step_store op offset"
| "step env Current_memory_t = step_current_memory"
| "step env Grow_memory_t = step_grow_memory env"
| "step env (Const_t c) = thenX inc_pc (push_operand c)"
| "step env (Numeric_t op) = withX x_mod (\<lambda>m. step_numeric env (m_eosio_fp m) op)"
| "step env (Bulk_t op) = step_bulk op"
| "step env (Vec_t op) = step_vec (iv_sf env) op"
| "step env Error_t = throwX Wasm_interpreter_exception"
| "step env Exit_t = retX ()"
| "step env (Br_table_elems es) = throwX Undefined_behaviour"
| "step env Reserved = throwX Undefined_behaviour"

section \<open>The dispatch loop\<close>

text \<open>
  A wasm program may run forever, so the loop takes a bound on the instructions and is \<open>None\<close> when they
  run out.
\<close>

fun fetch :: "opcode list \<Rightarrow> code_ptr \<Rightarrow> opcode res" where
  "fetch code (At i) = at_unchecked code i"
| "fetch code Halt = Inr Exit_t"
| "fetch code Null_ptr = Inl Undefined_behaviour"

fun run :: "interp_env \<Rightarrow> nat \<Rightarrow> ectx \<Rightarrow> (unit res \<times> ectx) option" where
  "run env 0 x = None"
| "run env (Suc n) x = (case fetch (x_code x) (x_pc x) of
     Inl e \<Rightarrow> Some (Inl e, x)
   | Inr op \<Rightarrow> if op = Exit_t then Some (Inr (), x)
       else (case step env op x of (Inl e, x') \<Rightarrow> Some (Inl e, x') | (Inr _, x') \<Rightarrow> run env n x'))"

text \<open>
  \<open>execute(host, visitor, func_index, args...)\<close>.  \<open>cleanup\<close> is the scope guard: it runs on every way out,
  also when the code throws.
\<close>

definition cleanup :: "ectx \<Rightarrow> ectx \<Rightarrow> ectx" where
  "cleanup saved x = x\<lparr>x_os := st_eat (x_os_index x) (x_os x), x_as := st_eat (x_as_index x) (x_as x),
     x_pc := x_pc saved, x_as_index := x_as_index saved, x_os_index := x_os_index saved, x_exiting := x_exiting saved,
     x_last_op_index := x_last_op_index saved, x_remaining_call_depth := x_remaining_call_depth saved\<rparr>"

fun push_args :: "const_op list \<Rightarrow> unit exec" where
  "push_args [] = retX ()"
| "push_args (a # as) = thenX (push_operand a) (push_args as)"

definition type_check_args :: "func_type \<Rightarrow> const_op list \<Rightarrow> unit exec" where
  "type_check_args ft args = checkX (length args = length (param_types ft)) Wasm_interpreter_exception
     (checkX (map op_type args = param_types ft) Wasm_interpreter_exception (retX ()))"

definition enter_function :: "nat \<Rightarrow> const_op list \<Rightarrow> unit exec" where
  "enter_function fidx args = withX x_mod (\<lambda>m.
     bindX (liftX (get_function_type m fidx)) (\<lambda>ft. thenX (type_check_args ft args)
     (thenX (push_args args) (push_call True fidx))))"

definition execute_result :: "nat \<Rightarrow> const_op option exec" where
  "execute_result fidx = withX (\<lambda>x. x) (\<lambda>x. bindX (liftX (get_function_type (x_mod x) fidx)) (\<lambda>ft.
     if return_count ft \<noteq> 0 \<and> \<not> x_exiting x then bindX pop_operand (\<lambda>v. retX (Some v)) else retX None))"

definition start_function :: "nat \<Rightarrow> unit exec" where
  "start_function fidx = withX x_mod (\<lambda>m. bindX (liftX (get_function_pc m fidx)) (\<lambda>a.
     thenX (goto_pc (slot_of m a)) (setup_locals fidx)))"

definition execute :: "interp_env \<Rightarrow> nat \<Rightarrow> u32 \<Rightarrow> const_op list \<Rightarrow> ectx \<Rightarrow> (const_op option res \<times> ectx) option" where
  "execute env fuel func_index args x =
     (if \<not> func_index < 0xFFFFFFFF then Some (Inl Wasm_interpreter_exception, x)
      else let fidx = unat func_index;
               x1 = x\<lparr>x_as_index := ucast (st_size (x_as x)), x_os_index := ucast (operands_size x)\<rparr>;
               leave = (\<lambda>(r, x'). (r, cleanup x x')) in
        (case enter_function fidx args x1 of
           (Inl e, x2) \<Rightarrow> Some (leave (Inl e, x2))
         | (Inr _, x2) \<Rightarrow>
             if fidx < get_imported_functions_size (x_mod x)
             then Some (leave (thenX (call_host (iv_host env) fidx) (execute_result fidx) x2))
             else (case start_function fidx x2 of
                     (Inl e, x3) \<Rightarrow> Some (leave (Inl e, x3))
                   | (Inr _, x3) \<Rightarrow> (case run env fuel x3 of
                         None \<Rightarrow> None
                       | Some (Inl e, x4) \<Rightarrow> Some (leave (Inl e, x4))
                       | Some (Inr _, x4) \<Rightarrow> Some (leave (execute_result fidx x4))))))"

definition execute_start :: "interp_env \<Rightarrow> nat \<Rightarrow> ectx \<Rightarrow> (const_op option res \<times> ectx) option" where
  "execute_start env fuel x = (if m_start (x_mod x) \<noteq> 0xFFFFFFFF
     then execute env fuel (m_start (x_mod x)) [] x else Some (Inr None, x))"

definition execute_export :: "interp_env \<Rightarrow> nat \<Rightarrow> u8 list \<Rightarrow> const_op list \<Rightarrow> ectx \<Rightarrow> (const_op option res \<times> ectx) option" where
  "execute_export env fuel func args x = execute env fuel (get_exported_function (x_mod x) func) args x"

end
