(* ===== verification/Vm_Exec_Logic.thy ===== *)
theory Vm_Exec_Logic
  imports Vm_Interp
begin

text \<open>
  Rules for runs of the interpreter's methods.  \<open>okX m x Q\<close> says that \<open>m\<close> returns normally from the context
  \<open>x\<close> with a value and a context that satisfy \<open>Q\<close>; the rules follow the combinators and describe the operand
  stack by the list of its elements (\<open>operands\<close>), so that proofs about instructions never open the vector
  that holds them.
\<close>

section \<open>Normal returns\<close>

definition okX :: "'a exec \<Rightarrow> ectx \<Rightarrow> ('a \<Rightarrow> ectx \<Rightarrow> bool) \<Rightarrow> bool" where
  "okX m x Q \<longleftrightarrow> (\<exists>a x'. m x = (Inr a, x') \<and> Q a x')"

lemma okX_ret [simp]: "okX (retX a) x Q \<longleftrightarrow> Q a x"
  by (simp add: okX_def retX_def)

lemma okX_mod [simp]: "okX (modX f) x Q \<longleftrightarrow> Q () (f x)"
  by (simp add: okX_def modX_def)

lemma okX_get [simp]: "okX (getX f) x Q \<longleftrightarrow> Q (f x) x"
  by (simp add: okX_def getX_def)

lemma okX_with [simp]: "okX (withX f k) x Q \<longleftrightarrow> okX (k (f x)) x Q"
  by (simp add: okX_def withX_def)

lemma okX_bind [simp]: "okX (bindX m f) x Q \<longleftrightarrow> okX m x (\<lambda>a x'. okX (f a) x' Q)"
  by (auto simp: okX_def bindX_def split: prod.splits sum.splits)

lemma okX_then [simp]: "okX (thenX m k) x Q \<longleftrightarrow> okX m x (\<lambda>_ x'. okX k x' Q)"
  by (simp add: thenX_def)

lemma okX_lift [simp]: "okX (liftX (Inr a)) x Q \<longleftrightarrow> Q a x"
  by (simp add: okX_def liftX_def)

lemma okX_lift_iff: "okX (liftX r) x Q \<longleftrightarrow> (\<exists>a. r = Inr a \<and> Q a x)"
  by (simp add: okX_def liftX_def)

lemma okX_check [simp]: "okX (checkX b e k) x Q \<longleftrightarrow> b \<and> okX k x Q"
  by (simp add: checkX_def okX_def throwX_def)

lemma okX_mono: "okX m x P \<Longrightarrow> (\<And>a x'. P a x' \<Longrightarrow> Q a x') \<Longrightarrow> okX m x Q"
  by (auto simp: okX_def)

lemma okX_run: "okX m x (\<lambda>a x'. a = b \<and> x' = y) \<longleftrightarrow> m x = (Inr b, y)"
  by (auto simp: okX_def)

section \<open>Operands\<close>

definition operands :: "const_op list \<Rightarrow> ectx \<Rightarrow> bool" where
  "operands xs x \<longleftrightarrow> wf_stack (x_os x) \<and> st_elems (x_os x) = xs \<and> length xs < 2 ^ 32"

lemma operands_update [simp]:
  "operands xs (x\<lparr>x_pc := p\<rparr>) \<longleftrightarrow> operands xs x" "operands xs (x\<lparr>x_alloc := al\<rparr>) \<longleftrightarrow> operands xs x"
  "operands xs (x_pc_update f x) \<longleftrightarrow> operands xs x" "operands xs (x_alloc_update g x) \<longleftrightarrow> operands xs x"
  "operands xs (x_table_update h x) \<longleftrightarrow> operands xs x" "operands xs (x\<lparr>x_last_op_index := l\<rparr>) \<longleftrightarrow> operands xs x"
  by (simp_all add: operands_def)

lemma operands_size_word: "operands xs x \<Longrightarrow> operands_size x = of_nat (length xs)"
  using length_st_elems [of "x_os x"] by (auto simp: operands_def operands_size_def st_size_def)

text \<open>Contexts that differ in the operand stack alone.\<close>

definition same_rest :: "ectx \<Rightarrow> ectx \<Rightarrow> bool" where
  "same_rest x x' \<longleftrightarrow> x' = x\<lparr>x_os := x_os x'\<rparr>"

lemma same_rest_refl [simp]: "same_rest x x"
  by (simp add: same_rest_def)

lemma same_rest_os [simp]: "same_rest x (x\<lparr>x_os := os\<rparr>)"
  by (simp add: same_rest_def)

lemma same_rest_trans: "same_rest x y \<Longrightarrow> same_rest y z \<Longrightarrow> same_rest x z"
  unfolding same_rest_def by (metis ectx.surjective ectx.update_convs(5))

lemma same_rest_fields:
  assumes "same_rest x x'"
  shows "x_mod x' = x_mod x" "x_code x' = x_code x" "x_alloc x' = x_alloc x" "x_max_pages x' = x_max_pages x" "x_as x' = x_as x"
    "x_globals x' = x_globals x" "x_table x' = x_table x" "x_dropped_elems x' = x_dropped_elems x"
    "x_dropped_data x' = x_dropped_data x" "x_last_op_index x' = x_last_op_index x"
    "x_remaining_call_depth x' = x_remaining_call_depth x" "x_pc x' = x_pc x" "x_as_index x' = x_as_index x"
    "x_os_index x' = x_os_index x" "x_exiting x' = x_exiting x"
  by (subst assms [unfolded same_rest_def], simp)+

lemma push_ok:
  assumes "operands xs x" and "Suc (length xs) < 2 ^ 32"
    and "\<And>x'. same_rest x x' \<Longrightarrow> operands (xs @ [e]) x' \<Longrightarrow> Q () x'"
  shows "okX (push_operand e) x Q"
proof -
  from st_push_law [of "x_os x" new_operand e] assms(1,2) obtain os' where
    os': "st_push new_operand e (x_os x) = Inr os'" "wf_stack os'" "st_elems os' = xs @ [e]"
    by (auto simp: operands_def)
  then have "Q () (x\<lparr>x_os := os'\<rparr>)" using assms(2) by (intro assms(3)) (simp_all add: operands_def)
  then show ?thesis using os' by (simp add: push_operand_def)
qed

lemma pop_ok:
  assumes "operands (xs @ [e]) x" and "\<And>x'. same_rest x x' \<Longrightarrow> operands xs x' \<Longrightarrow> Q e x'"
  shows "okX pop_operand x Q"
proof -
  from st_pop_law [of "x_os x" xs e] assms(1) obtain os' where
    os': "st_pop (x_os x) = Inr (e, os')" "wf_stack os'" "st_elems os' = xs" by (auto simp: operands_def)
  then have "Q e (x\<lparr>x_os := os'\<rparr>)" using assms(1) by (intro assms(2)) (simp_all add: operands_def)
  then show ?thesis using os' by (simp add: pop_operand_def)
qed

lemma peek_ok: "operands xs x \<Longrightarrow> unat i < length xs \<Longrightarrow> okX (peek_operand i) x Q \<longleftrightarrow> Q (rev xs ! unat i) x"
  using st_peek_law [of "x_os x" i] by (auto simp: peek_operand_def operands_def)

lemma poke_ok:
  assumes "operands xs x" and "unat i < length xs"
    and "\<And>x'. same_rest x x' \<Longrightarrow> operands (xs[length xs - 1 - unat i := e]) x' \<Longrightarrow> Q () x'"
  shows "okX (poke_operand i e) x Q"
proof -
  from st_poke_law [of "x_os x" i e] assms(1,2) obtain os' where
    os': "st_poke i e (x_os x) = Inr os'" "wf_stack os'" "st_elems os' = xs[length xs - 1 - unat i := e]"
    by (auto simp: operands_def)
  then have "Q () (x\<lparr>x_os := os'\<rparr>)" using assms(1) by (intro assms(3)) (simp_all add: operands_def)
  then show ?thesis using os' by (simp add: poke_operand_def)
qed

lemma os_update_eq: "x_os_update f x = x\<lparr>x_os := f (x_os x)\<rparr>"
  by simp

lemma eat_ok:
  assumes "operands xs x" and "unat n \<le> length xs"
    and "\<And>x'. same_rest x x' \<Longrightarrow> operands (take (unat n) xs) x' \<Longrightarrow> Q () x'"
  shows "okX (eat_operands n) x Q"
proof -
  have "Q () (x\<lparr>x_os := st_eat n (x_os x)\<rparr>)"
    using st_eat_law [of "x_os x" n] assms(1,2) by (intro assms(3)) (auto simp: operands_def)
  then show ?thesis unfolding eat_operands_def okX_mod os_update_eq [of "st_eat n" x] .
qed

lemma compact_ok:
  assumes "operands (es @ fs @ [e]) x" and "unat n = length es"
    and "\<And>x'. same_rest x x' \<Longrightarrow> operands (es @ [e]) x' \<Longrightarrow> Q () x'"
  shows "okX (compact_operand n) x Q"
proof -
  have "unat n < 2 ^ 32 - 1" using assms(1,2) by (auto simp: operands_def)
  from st_compact_law [of "x_os x" es fs e n, OF _ _ assms(2) this] assms(1) obtain os' where
    os': "st_compact n (x_os x) = Inr os'" "wf_stack os'" "st_elems os' = es @ [e]" by (auto simp: operands_def)
  then have "Q () (x\<lparr>x_os := os'\<rparr>)" using assms(1) by (intro assms(3)) (simp_all add: operands_def)
  then show ?thesis using os' by (simp add: compact_operand_def)
qed

lemma local_ok:
  assumes "operands xs x" and "unat (x_last_op_index x + i) < length xs"
  shows "okX (get_operand i) x Q \<longleftrightarrow> Q (xs ! unat (x_last_op_index x + i)) x"
  using st_get_law [of "x_os x" "x_last_op_index x + i"] assms by (auto simp: get_operand_def operands_def)

lemma set_local_ok:
  assumes "operands xs x" and "unat (x_last_op_index x + i) < length xs"
    and "\<And>x'. same_rest x x' \<Longrightarrow> operands (xs[unat (x_last_op_index x + i) := e]) x' \<Longrightarrow> Q () x'"
  shows "okX (set_operand i e) x Q"
proof -
  from st_set_law [of "x_os x" "x_last_op_index x + i" e] assms(1,2) obtain os' where
    os': "st_set (x_last_op_index x + i) e (x_os x) = Inr os'" "wf_stack os'"
      "st_elems os' = xs[unat (x_last_op_index x + i) := e]" by (auto simp: operands_def)
  then have "Q () (x\<lparr>x_os := os'\<rparr>)" using assms(1) by (intro assms(3)) (simp_all add: operands_def)
  then show ?thesis using os' by (simp add: set_operand_def)
qed

section \<open>Linear memory\<close>

definition set_raw :: "(nat \<Rightarrow> u8) \<Rightarrow> ectx \<Rightarrow> ectx" where
  "set_raw mem x = x\<lparr>x_alloc := (x_alloc x)\<lparr>wa_raw := mem\<rparr>\<rparr>"

abbreviation mem_bytes :: "ectx \<Rightarrow> nat" where "mem_bytes x \<equiv> wa_bytes (x_alloc x)"
abbreviation mem :: "ectx \<Rightarrow> nat \<Rightarrow> u8" where "mem x \<equiv> wa_raw (x_alloc x)"

lemma wa_bytes_raw [simp]: "wa_bytes (al\<lparr>wa_raw := m\<rparr>) = wa_bytes al"
  by (simp add: wa_bytes_def)

lemma set_raw_simps [simp]:
  "mem (set_raw m x) = m" "mem_bytes (set_raw m x) = mem_bytes x" "operands xs (set_raw m x) \<longleftrightarrow> operands xs x"
  "set_raw m (set_raw m' x) = set_raw m x" "x_pc (set_raw m x) = x_pc x" "x_code (set_raw m x) = x_code x"
  "x_pc_update f (set_raw m x) = set_raw m (x_pc_update f x)" "wa_guard (x_alloc (set_raw m x)) = wa_guard (x_alloc x)"
  "wa_page (x_alloc (set_raw m x)) = wa_page (x_alloc x)"
  by (simp_all add: set_raw_def)

lemma same_rest_set_raw: "same_rest x x' \<Longrightarrow> same_rest (set_raw m x) (set_raw m x')"
  by (cases x; cases x') (simp add: same_rest_def set_raw_def)

lemma read_ok [simp]: "okX (read_memory a n) x Q \<longleftrightarrow> a + n \<le> mem_bytes x \<and> Q (map (mem x) [a..<a + n]) x"
  by (simp add: read_memory_def accessible_def)

lemma write_ok [simp]: "okX (write_memory a bs) x Q \<longleftrightarrow> a + length bs \<le> mem_bytes x \<and> Q () (set_raw (write_bytes a bs (mem x)) x)"
  by (simp add: write_memory_def accessible_def set_raw_def)

lemma validate_ok:
  "okX (validate_pointer p n) x Q \<longleftrightarrow>
     (if p = 0 \<and> n = 0 then wa_guard (x_alloc x) else unat p + unat n - 1 < mem_bytes x) \<and> Q (unat p) x"
  by (simp add: validate_pointer_def)

section \<open>The dispatch loop\<close>

lemma run_step:
  assumes "fetch (x_code x) (x_pc x) = Inr op" and "op \<noteq> Exit_t" and "okX (step env op) x (\<lambda>_ x'. x' = y)"
  shows "run env (Suc n) x = run env n y"
  using assms by (auto simp: okX_def)

text \<open>More fuel does not change a run that has ended.\<close>

lemma run_more: "run env n x = Some r \<Longrightarrow> run env (n + k) x = Some r"
proof (induction n arbitrary: x)
  case (Suc n)
  then show ?case by (auto split: sum.splits if_splits prod.splits)
qed simp

end
