(* ===== verification/Vm_Interp_Props.thy ===== *)
theory Vm_Interp_Props
  imports Vm_Exec_Logic
begin

text \<open>
  What the interpreter's instructions do, stated on the list of operands and the bytes of the linear
  memory: the bulk instructions that are loops of single-byte steps, loads and stores with their exact
  bounds, memory growth, branches, and calls with their returns.
\<close>

section \<open>\<open>memory.copy\<close>\<close>

definition copy_bytes :: "nat \<Rightarrow> nat \<Rightarrow> nat \<Rightarrow> (nat \<Rightarrow> u8) \<Rightarrow> nat \<Rightarrow> u8" where
  "copy_bytes d s n m = (\<lambda>a. if d \<le> a \<and> a < d + n then m (s + (a - d)) else m a)"

lemma copy_bytes_0 [simp]: "copy_bytes d s 0 m = m"
  by (auto simp: copy_bytes_def fun_eq_iff)

lemma copy_bytes_up:
  "d \<le> s \<Longrightarrow> copy_bytes (Suc d) (Suc s) n (m(d := m s)) = copy_bytes d s (Suc n) m"
proof (rule ext)
  fix a assume le: "d \<le> s"
  show "copy_bytes (Suc d) (Suc s) n (m(d := m s)) a = copy_bytes d s (Suc n) m a"
  proof (cases "d < a")
    case True
    then have "Suc s + (a - Suc d) = s + (a - d)" by simp
    with True le show ?thesis by (auto simp: copy_bytes_def)
  qed (auto simp: copy_bytes_def)
qed

lemma copy_bytes_down:
  "s < d \<Longrightarrow> copy_bytes d s n (m(d + n := m (s + n))) = copy_bytes d s (Suc n) m"
  by (auto simp: copy_bytes_def fun_eq_iff not_less)

lemma write_bytes_single [simp]: "write_bytes a [b] m = m(a := b)"
  by (auto simp: write_bytes_def fun_eq_iff)

lemma last_three:
  "rev (xs @ [a, b, c]) ! 0 = c" "rev (xs @ [a, b, c]) ! 1 = b" "rev (xs @ [a, b, c]) ! 2 = a"
  "(xs @ [a, b, c])[Suc (Suc (length xs)) := c'] = xs @ [a, b, c']" "(xs @ [a, b, c])[Suc (length xs) := b'] = xs @ [a, b', c]"
  "(xs @ [a, b, c])[length xs := a'] = xs @ [a', b, c]"
  by (simp_all add: list_update_append)

lemma peek_i32_ok:
  assumes "operands (xs @ [I32_const_t a, I32_const_t b, I32_const_t c]) x"
  shows "okX (peek_ui32 0) x Q \<longleftrightarrow> Q c x" and "okX (peek_ui32 1) x Q \<longleftrightarrow> Q b x" and "okX (peek_ui32 2) x Q \<longleftrightarrow> Q a x"
  using assms by (simp_all add: peek_ui32_def peek_ok [OF assms] last_three)

lemma poke_i32_ok:
  assumes "operands (xs @ [a, b, c]) x"
  shows "(\<And>x'. same_rest x x' \<Longrightarrow> operands (xs @ [a, b, I32_const_t w]) x' \<Longrightarrow> Q () x') \<Longrightarrow> okX (poke_i32 0 w) x Q"
    and "(\<And>x'. same_rest x x' \<Longrightarrow> operands (xs @ [a, I32_const_t w, c]) x' \<Longrightarrow> Q () x') \<Longrightarrow> okX (poke_i32 1 w) x Q"
    and "(\<And>x'. same_rest x x' \<Longrightarrow> operands (xs @ [I32_const_t w, b, c]) x' \<Longrightarrow> Q () x') \<Longrightarrow> okX (poke_i32 2 w) x Q"
  unfolding poke_i32_def by (rule poke_ok [OF assms]; simp add: last_three)+

lemma poke_chain:
  assumes "operands (xs @ [a, b, c]) x"
  shows "okX (poke_i32 0 w0) x (\<lambda>_ x'. same_rest x x' \<and> operands (xs @ [a, b, I32_const_t w0]) x')"
    and "okX (poke_i32 0 w0) x (\<lambda>_ y. okX (poke_i32 1 w1) y (\<lambda>_ z. okX (poke_i32 2 w2) z (\<lambda>_ x'.
      same_rest x x' \<and> operands (xs @ [I32_const_t w2, I32_const_t w1, I32_const_t w0]) x')))"
    and "okX (poke_i32 0 w0) x (\<lambda>_ y. okX (poke_i32 2 w2) y (\<lambda>_ x'.
      same_rest x x' \<and> operands (xs @ [I32_const_t w2, b, I32_const_t w0]) x'))"
proof -
  show "okX (poke_i32 0 w0) x (\<lambda>_ x'. same_rest x x' \<and> operands (xs @ [a, b, I32_const_t w0]) x')"
    by (rule poke_i32_ok(1) [OF assms]) simp
  show "okX (poke_i32 0 w0) x (\<lambda>_ y. okX (poke_i32 1 w1) y (\<lambda>_ z. okX (poke_i32 2 w2) z (\<lambda>_ x'.
      same_rest x x' \<and> operands (xs @ [I32_const_t w2, I32_const_t w1, I32_const_t w0]) x')))"
    by (rule poke_i32_ok(1) [OF assms], rule poke_i32_ok(2), assumption, rule poke_i32_ok(3), assumption)
      (blast intro: same_rest_trans)
  show "okX (poke_i32 0 w0) x (\<lambda>_ y. okX (poke_i32 2 w2) y (\<lambda>_ x'.
      same_rest x x' \<and> operands (xs @ [I32_const_t w2, b, I32_const_t w0]) x'))"
    by (rule poke_i32_ok(1) [OF assms], rule poke_i32_ok(3), assumption) (blast intro: same_rest_trans)
qed

lemma pop_three_ok:
  assumes "operands (xs @ [a, b, c]) x"
    and "\<And>x'. same_rest (x_pc_update (ptr_add 1) x) x' \<Longrightarrow> operands xs x' \<Longrightarrow> Q () x'"
  shows "okX pop_three x Q"
proof -
  have pc: "same_rest (x_pc_update (ptr_add 1) x) (x_pc_update (ptr_add 1) x3)" if "same_rest x x1" "same_rest x1 x2" "same_rest x2 x3"
    for x1 x2 x3
    using same_rest_trans [OF same_rest_trans [OF that(1,2)] that(3)] by (cases x; cases x3) (simp add: same_rest_def)
  have os: "operands ((xs @ [a, b]) @ [c]) x" using assms(1) by simp
  show ?thesis
    unfolding pop_three_def okX_then
    by (rule pop_ok [OF os], rule pop_ok [of "xs @ [a]" b], simp, rule pop_ok, assumption)
      (auto simp: inc_pc_def simp del: One_nat_def intro!: assms(2) pc)
qed

lemma unat_dec1: "n \<noteq> 0 \<Longrightarrow> unat (n :: u32) = Suc (unat (n - 1))"
  using unat_dec [of n] by (simp add: unat_gt_0)

lemma unat_step: "Suc (unat w) < 2 ^ 32 \<Longrightarrow> unat (w + 1 :: u32) = Suc (unat w)"
  using unat_add_no_wrap [of w 1] by simp

lemma unat_inc_le: "unat (w + 1 :: u32) \<le> Suc (unat w)"
  by (simp add: unat_word_ariths)

lemma copy_step:
  assumes os: "operands (xs @ [I32_const_t d, I32_const_t s, I32_const_t n]) x" and n: "n \<noteq> 0"
    and b: "unat s + unat n \<le> mem_bytes x" "unat d + unat n \<le> mem_bytes x"
  shows "d \<le> s \<Longrightarrow> okX step_memory_copy x (\<lambda>_ x'. same_rest (set_raw ((mem x)(unat d := mem x (unat s))) x) x'
      \<and> operands (xs @ [I32_const_t (d + 1), I32_const_t (s + 1), I32_const_t (n - 1)]) x')"
    and "\<not> d \<le> s \<Longrightarrow> okX step_memory_copy x (\<lambda>_ x'.
      same_rest (set_raw ((mem x)(unat d + unat (n - 1) := mem x (unat s + unat (n - 1)))) x) x'
      \<and> operands (xs @ [I32_const_t d, I32_const_t s, I32_const_t (n - 1)]) x')"
proof -
  have ptr: "(if p = 0 \<and> n = 0 then wa_guard (x_alloc x) else unat p + unat n - 1 < mem_bytes x)" if "unat p + unat n \<le> mem_bytes x" for p
    using that unat_dec1 [OF n] n by auto
  note peeks = peek_i32_ok [OF os]
  show "d \<le> s \<Longrightarrow> okX step_memory_copy x (\<lambda>_ x'. same_rest (set_raw ((mem x)(unat d := mem x (unat s))) x) x'
      \<and> operands (xs @ [I32_const_t (d + 1), I32_const_t (s + 1), I32_const_t (n - 1)]) x')"
    using b n unat_dec1 [OF n] poke_chain(2) [of xs "I32_const_t d" "I32_const_t s" "I32_const_t n"] os
    by (simp add: step_memory_copy_def peeks validate_ok ptr)
  show "\<not> d \<le> s \<Longrightarrow> okX step_memory_copy x (\<lambda>_ x'.
      same_rest (set_raw ((mem x)(unat d + unat (n - 1) := mem x (unat s + unat (n - 1)))) x) x'
      \<and> operands (xs @ [I32_const_t d, I32_const_t s, I32_const_t (n - 1)]) x')"
    using b n unat_dec1 [OF n] poke_chain(1) [of xs "I32_const_t d" "I32_const_t s" "I32_const_t n"] os
    by (simp add: step_memory_copy_def peeks validate_ok ptr)
qed

text \<open>The last execution, with nothing left to copy.\<close>

lemma copy_end:
  assumes os: "operands (xs @ [I32_const_t d, I32_const_t s, I32_const_t 0]) x"
    and b: "unat s \<le> mem_bytes x" "unat d \<le> mem_bytes x" and g: "wa_guard (x_alloc x)"
  shows "okX step_memory_copy x (\<lambda>_ x'. same_rest (x_pc_update (ptr_add 1) x) x' \<and> operands xs x')"
proof -
  have ptr: "(if p = 0 then wa_guard (x_alloc x) else unat p - 1 < mem_bytes x)" if "unat p \<le> mem_bytes x" for p
    using that g unat_gt_0 [of p] by auto
  show ?thesis
    using ptr [OF b(1)] ptr [OF b(2)] g pop_three_ok [OF os, of "\<lambda>_ x'. same_rest (x_pc_update (ptr_add 1) x) x' \<and> operands xs x'"]
    by (auto simp: step_memory_copy_def peek_i32_ok [OF os] validate_ok split: if_splits)
qed

lemma pc_next: "x_pc x = At i \<Longrightarrow> x_pc_update (ptr_add 1) x = x\<lparr>x_pc := At (Suc i)\<rparr>"
  by (cases x) simp

lemma same_rest_raw_step:
  "same_rest (set_raw m x) x1 \<Longrightarrow> same_rest (set_raw m' (x1\<lparr>x_pc := p\<rparr>)) y \<Longrightarrow> same_rest (set_raw m' (x\<lparr>x_pc := p\<rparr>)) y"
  by (cases x; cases x1; cases y) (auto simp: same_rest_def set_raw_def)

lemma page_bound: "wa_page (x_alloc x) \<le> int max_pages \<Longrightarrow> mem_bytes x \<le> 2 ^ 32"
  by (simp add: wa_bytes_def page_size_def max_pages_def max_useable_memory_def)

lemma memory_copy_run:
  assumes "operands (xs @ [I32_const_t d, I32_const_t s, I32_const_t n]) x"
    and "x_pc x = At i" "i < length (x_code x)" "x_code x ! i = Bulk_t Memory_copy_t"
    and "unat s + unat n \<le> mem_bytes x" "unat d + unat n \<le> mem_bytes x" "wa_guard (x_alloc x)" "wa_page (x_alloc x) \<le> int max_pages"
  shows "\<exists>y. (\<forall>k. run env (Suc (unat n) + k) x = run env k y) \<and> operands xs y
     \<and> same_rest (set_raw (copy_bytes (unat d) (unat s) (unat n) (mem x)) (x\<lparr>x_pc := At (Suc i)\<rparr>)) y"
  using assms
proof (induction "unat n" arbitrary: n d s x)
  case 0
  then have n: "n = 0" by (metis unat_eq_zero)
  have f: "fetch (x_code x) (x_pc x) = Inr (Bulk_t Memory_copy_t)" using 0 by (simp add: at_unchecked_def)
  obtain y where y: "step_memory_copy x = (Inr (), y)" "same_rest (x_pc_update (ptr_add 1) x) y" "operands xs y"
    using copy_end [of xs d s x] 0 n by (auto simp: okX_def)
  have "run env (Suc k) x = run env k y" for k
    by (rule run_step [OF f]) (use y in \<open>auto simp: okX_def\<close>)
  moreover have "set_raw (mem x) x' = x'" if "x_alloc x' = x_alloc x" for x' using that by (cases x') (simp add: set_raw_def)
  ultimately show ?case using y n pc_next [OF 0(3)] by (intro exI [of _ y]) (simp del: run.simps)
next
  case (Suc k)
  note hyps = Suc.prems
  have n: "n \<noteq> 0" using Suc(2) by auto
  have dec: "unat n = Suc (unat (n - 1))" by (rule unat_dec1 [OF n])
  have f: "fetch (x_code x) (x_pc x) = Inr (Bulk_t Memory_copy_t)" using hyps by (simp add: at_unchecked_def)
  have bytes: "mem_bytes x \<le> 2 ^ 32" by (rule page_bound [OF hyps(8)])
  have go: ?case
    if st: "okX step_memory_copy x (\<lambda>_ x'. same_rest (set_raw m x) x'
        \<and> operands (xs @ [I32_const_t d', I32_const_t s', I32_const_t (n - 1)]) x')"
      and b: "unat s' + unat (n - 1) \<le> mem_bytes x" "unat d' + unat (n - 1) \<le> mem_bytes x"
      and eq: "copy_bytes (unat d') (unat s') (unat (n - 1)) m = copy_bytes (unat d) (unat s) (unat n) (mem x)" for m d' s'
  proof -
    from st obtain x1 where x1: "step_memory_copy x = (Inr (), x1)" "same_rest (set_raw m x) x1"
      "operands (xs @ [I32_const_t d', I32_const_t s', I32_const_t (n - 1)]) x1" by (auto simp: okX_def)
    note same = same_rest_fields [OF x1(2)]
    from Suc(1) [of "n - 1" d' s' x1] Suc(2) dec x1(3) hyps b same obtain y where
      y: "\<forall>k. run env (Suc (unat (n - 1)) + k) x1 = run env k y" "operands xs y"
        "same_rest (set_raw (copy_bytes (unat d') (unat s') (unat (n - 1)) m) (x1\<lparr>x_pc := At (Suc i)\<rparr>)) y"
      by (auto simp del: run.simps)
    have "run env (Suc j) x = run env j x1" for j
      by (rule run_step [OF f]) (use x1 in \<open>auto simp: okX_def\<close>)
    then have "run env (Suc (unat n) + k) x = run env k y" for k
      using y(1) dec by (simp only: add_Suc)
    with y(2) same_rest_raw_step [OF x1(2) y(3)] eq show ?thesis by auto
  qed
  show ?case
  proof (cases "d \<le> s")
    case True
    have "unat (n - 1) = 0 \<or> unat (d + 1) = Suc (unat d) \<and> unat (s + 1) = Suc (unat s)"
      using bytes hyps(5,6) dec unat_step [of d] unat_step [of s] by auto
    then have "copy_bytes (unat (d + 1)) (unat (s + 1)) (unat (n - 1)) ((mem x)(unat d := mem x (unat s)))
        = copy_bytes (unat d) (unat s) (unat n) (mem x)"
      using copy_bytes_up [of "unat d" "unat s" "unat (n - 1)" "mem x"] True dec by (auto simp: word_le_nat_alt)
    then show ?thesis
      using hyps(5,6) dec unat_inc_le [of s] unat_inc_le [of d] by (intro go [OF copy_step(1) [OF hyps(1) n hyps(5,6) True]]) auto
  next
    case False
    then show ?thesis
      by (intro go [OF copy_step(2) [OF hyps(1) n hyps(5,6)]])
        (use hyps dec copy_bytes_down [of "unat s" "unat d" "unat (n - 1)" "mem x"] in \<open>auto simp: word_le_nat_alt not_le\<close>)
  qed
qed

text \<open>A context for the witnesses: one page of memory with counting bytes, no module, a stack of \<open>xs\<close>.\<close>

definition ex_softfloat :: softfloat where
  "ex_softfloat = \<lparr>
     sf_is_nan32 = (\<lambda>_. False), sf_is_nan64 = (\<lambda>_. False), sf_sign_bit32 = (\<lambda>_. False),
     sf_sign_bit64 = (\<lambda>_. False), sf_add32 = (\<lambda>_ _. 0), sf_sub32 = (\<lambda>_ _. 0), sf_mul32 = (\<lambda>_ _. 0),
     sf_div32 = (\<lambda>_ _. 0), sf_sqrt32 = (\<lambda>_. 0), sf_eq32 = (\<lambda>_ _. False), sf_lt32 = (\<lambda>_ _. False),
     sf_le32 = (\<lambda>_ _. False), sf_add64 = (\<lambda>_ _. 0), sf_sub64 = (\<lambda>_ _. 0), sf_mul64 = (\<lambda>_ _. 0),
     sf_div64 = (\<lambda>_ _. 0), sf_sqrt64 = (\<lambda>_. 0), sf_eq64 = (\<lambda>_ _. False), sf_lt64 = (\<lambda>_ _. False),
     sf_le64 = (\<lambda>_ _. False), sf_f32_to_f64 = (\<lambda>_. 0), sf_f64_to_f32 = (\<lambda>_. 0),
     sf_f32_to_i32 = (\<lambda>_ _ _. 0), sf_f32_to_ui32 = (\<lambda>_ _ _. 0), sf_f32_to_i64 = (\<lambda>_ _ _. 0),
     sf_f32_to_ui64 = (\<lambda>_ _ _. 0), sf_f64_to_i32 = (\<lambda>_ _ _. 0), sf_f64_to_ui32 = (\<lambda>_ _ _. 0),
     sf_f64_to_i64 = (\<lambda>_ _ _. 0), sf_f64_to_ui64 = (\<lambda>_ _ _. 0), sf_f32_to_i32_r_minMag = (\<lambda>_ _. 0),
     sf_f32_to_ui32_r_minMag = (\<lambda>_ _. 0), sf_f32_to_i64_r_minMag = (\<lambda>_ _. 0), sf_f32_to_ui64_r_minMag = (\<lambda>_ _. 0),
     sf_f64_to_i32_r_minMag = (\<lambda>_ _. 0), sf_f64_to_ui32_r_minMag = (\<lambda>_ _. 0), sf_f64_to_i64_r_minMag = (\<lambda>_ _. 0),
     sf_f64_to_ui64_r_minMag = (\<lambda>_ _. 0), sf_i32_to_f32 = (\<lambda>_. 0), sf_ui32_to_f32 = (\<lambda>_. 0),
     sf_i64_to_f32 = (\<lambda>_. 0), sf_ui64_to_f32 = (\<lambda>_. 0), sf_i32_to_f64 = (\<lambda>_. 0), sf_ui32_to_f64 = (\<lambda>_. 0),
     sf_i64_to_f64 = (\<lambda>_. 0), sf_ui64_to_f64 = (\<lambda>_. 0)\<rparr>"

definition ex_ienv :: interp_env where
  "ex_ienv = \<lparr>iv_host = (\<lambda>_ (al, os). (Inr (), al, os)), iv_mprotect = True, iv_sf = ex_softfloat\<rparr>"

definition ex_ctx :: "opcode list \<Rightarrow> const_op list \<Rightarrow> ectx" where
  "ex_ctx code xs = \<lparr>x_mod = empty_module, x_code = code, x_alloc = \<lparr>wa_raw = of_nat, wa_page = 1, wa_guard = True\<rparr>,
     x_max_pages = 65536, x_os = \<lparr>st_store = xs @ replicate 8 new_operand, st_index = of_nat (length xs)\<rparr>,
     x_as = st_new new_frame 251, x_globals = [], x_table = [], x_dropped_elems = [], x_dropped_data = [], x_last_op_index = 0,
     x_remaining_call_depth = 250, x_pc = At 0, x_as_index = 0, x_os_index = 0, x_exiting = False\<rparr>"

lemma ex_ctx_operands: "length xs < 2 ^ 32 \<Longrightarrow> operands xs (ex_ctx code xs)"
  by (simp add: ex_ctx_def operands_def wf_stack_def st_elems_def unat_of_nat_small)

lemma ex_ctx_fields [simp]:
  "x_mod (ex_ctx code xs) = empty_module" "x_code (ex_ctx code xs) = code" "mem (ex_ctx code xs) = of_nat"
  "mem_bytes (ex_ctx code xs) = 65536" "wa_guard (x_alloc (ex_ctx code xs))" "wa_page (x_alloc (ex_ctx code xs)) = 1"
  "x_pc (ex_ctx code xs) = At 0"
  by (simp_all add: ex_ctx_def wa_bytes_def page_size_def)

text \<open>
  C4: \<open>memory.copy\<close> is \<open>memmove\<close>.  The instruction is executed once per byte and once more to finish; when both
  ranges lie in the memory, after exactly that many executions the destination holds the bytes the source
  held before, also when the ranges overlap in either direction and when a range ends at the
  last byte of a 4 GiB memory, the three operands are gone and the next instruction follows.
\<close>

theorem memory_copy_is_memmove:
  assumes "operands (xs @ [I32_const_t d, I32_const_t s, I32_const_t n]) x"
    and "x_pc x = At i" "i < length (x_code x)" "x_code x ! i = Bulk_t Memory_copy_t"
    and "unat s + unat n \<le> mem_bytes x" "unat d + unat n \<le> mem_bytes x" "wa_guard (x_alloc x)" "wa_page (x_alloc x) \<le> int max_pages"
  shows "\<exists>y. (\<forall>k. run env (Suc (unat n) + k) x = run env k y) \<and> operands xs y
     \<and> same_rest (set_raw (copy_bytes (unat d) (unat s) (unat n) (mem x)) (x\<lparr>x_pc := At (Suc i)\<rparr>)) y"
  by (rule memory_copy_run [OF assms])

theorem memory_copy_is_memmove_witness:
  "\<exists>y. run ex_ienv 4 (ex_ctx [Bulk_t Memory_copy_t, Exit_t] [I32_const_t 11, I32_const_t 10, I32_const_t 2]) = Some (Inr (), y)
     \<and> mem y 11 = 10 \<and> mem y 12 = 11 \<and> mem y 13 = 13"
proof -
  let ?x = "ex_ctx [Bulk_t Memory_copy_t, Exit_t] [I32_const_t 11, I32_const_t 10, I32_const_t 2]"
  obtain y where run: "\<forall>k. run ex_ienv (Suc (unat (2 :: u32)) + k) ?x = run ex_ienv k y"
    and y: "same_rest (set_raw (copy_bytes (unat (11 :: u32)) (unat (10 :: u32)) (unat (2 :: u32)) (mem ?x)) (?x\<lparr>x_pc := At (Suc 0)\<rparr>)) y"
    using memory_copy_is_memmove [of "[]" 11 10 2 ?x 0 ex_ienv] ex_ctx_operands [of "[I32_const_t 11, I32_const_t 10, I32_const_t 2]"]
    by (auto simp: max_pages_def max_useable_memory_def page_size_def simp del: run.simps)
  note f = same_rest_fields [OF y]
  have four: "Suc (unat (2 :: u32)) + 1 = 4" by simp
  have "run ex_ienv 4 ?x = run ex_ienv 1 y" using run [rule_format, of 1] unfolding four .
  also have "\<dots> = Some (Inr (), y)" using f by (simp add: at_unchecked_def)
  finally have "run ex_ienv 4 ?x = Some (Inr (), y)" .
  moreover have "mem y 11 = 10" "mem y 12 = 11" "mem y 13 = 13" using f(3) by (simp_all add: copy_bytes_def set_raw_def)
  ultimately show ?thesis by blast
qed

section \<open>Traps of the bulk instructions\<close>

lemma okX_run_eq: "okX m x (\<lambda>a x'. a = b \<and> x' = y) \<Longrightarrow> m x = (Inr b, y)"
  by (simp add: okX_run)

lemma bindX_run: "m x = (Inr a, y) \<Longrightarrow> bindX m f x = f a y"
  by (simp add: bindX_def)

lemma bindX_throw: "m x = (Inl e, y) \<Longrightarrow> bindX m f x = (Inl e, y)"
  by (simp add: bindX_def)

lemma peek_i32_run:
  assumes "operands (xs @ [I32_const_t a, I32_const_t b, I32_const_t c]) x"
  shows "bindX (peek_ui32 0) f x = f c x" and "bindX (peek_ui32 1) f x = f b x" and "bindX (peek_ui32 2) f x = f a x"
  using peek_i32_ok [OF assms] by (simp_all add: bindX_run okX_run_eq)

lemma validate_traps:
  assumes "unat p + unat n > mem_bytes x"
  shows "validate_pointer p n x = (Inl Wasm_memory_exception, x)"
  using assms unat_gt_0 [of p] unat_gt_0 [of n]
  by (auto simp: validate_pointer_def withX_def checkX_def throwX_def)

lemma validate_result:
  "validate_pointer p n x = (Inr (unat p), x) \<or> validate_pointer p n x = (Inl Wasm_memory_exception, x)"
  by (simp add: validate_pointer_def withX_def checkX_def throwX_def retX_def)

text \<open>
  An out-of-bounds \<open>memory.copy\<close> or \<open>memory.fill\<close> traps before it writes anything: when a range reaches past
  the memory, also an empty range that starts behind it, the first execution throws and the context
  is as it was.
\<close>

lemma bulk_memory_traps:
  assumes "operands (xs @ [I32_const_t d, I32_const_t s, I32_const_t n]) x" and "unat d + unat n > mem_bytes x \<or> unat s + unat n > mem_bytes x"
  shows "step env (Bulk_t Memory_copy_t) x = (Inl Wasm_memory_exception, x)
    \<and> (unat d + unat n > mem_bytes x \<longrightarrow> step env (Bulk_t Memory_fill_t) x = (Inl Wasm_memory_exception, x))"
proof (intro conjI impI)
  note peeks = peek_i32_run [OF assms(1)]
  have "bindX (validate_pointer s n) (\<lambda>p. bindX (validate_pointer d n) (f p)) x = (Inl Wasm_memory_exception, x)" for f :: "nat \<Rightarrow> nat \<Rightarrow> unit exec"
    using assms(2) validate_traps [of x s n] validate_traps [of x d n] validate_result [of s n x]
    by (auto simp: bindX_run bindX_throw)
  then show "step env (Bulk_t Memory_copy_t) x = (Inl Wasm_memory_exception, x)"
    by (simp only: step.simps step_bulk.simps step_memory_copy_def peeks)
  show "step env (Bulk_t Memory_fill_t) x = (Inl Wasm_memory_exception, x)" if "unat d + unat n > mem_bytes x"
    using validate_traps [OF that] by (simp add: step_memory_fill_def peeks bindX_throw)
qed

lemma bulk_memory_traps_witness:
  "step ex_ienv (Bulk_t Memory_fill_t) (ex_ctx [] [I32_const_t 65537, I32_const_t 0, I32_const_t 0])
     = (Inl Wasm_memory_exception, ex_ctx [] [I32_const_t 65537, I32_const_t 0, I32_const_t 0])"
  using bulk_memory_traps [of "[]" 65537 0 0 "ex_ctx [] [I32_const_t 65537, I32_const_t 0, I32_const_t 0]" ex_ienv]
    ex_ctx_operands [of "[I32_const_t 65537, I32_const_t 0, I32_const_t 0]" "[]"] by simp

section \<open>Loads and stores\<close>

lemma same_rest_pc: "same_rest x y \<Longrightarrow> same_rest (x_pc_update f x) (x_pc_update f y)"
  by (cases x; cases y) (simp add: same_rest_def)

lemma inc_pc_ok [simp]: "okX inc_pc x Q \<longleftrightarrow> Q () (x_pc_update (ptr_add 1) x)"
  by (simp add: inc_pc_def)

lemma fields_pc [simp]: "mem_bytes (x_pc_update f x) = mem_bytes x" "mem (x_pc_update f x) = mem x"
  by simp_all

lemma pop_addr_ok:
  assumes "operands (xs @ [I32_const_t p]) x"
    and "\<And>x'. same_rest x x' \<Longrightarrow> operands xs x' \<Longrightarrow> Q (unat off + unat p) x'"
  shows "okX (pop_memop_addr off) x Q"
  unfolding pop_memop_addr_def okX_bind by (rule pop_ok [OF assms(1)]) (use assms(2) in simp)

lemma step_load_ok:
  assumes os: "operands (xs @ [I32_const_t p]) x"
    and a: "a = unat off + unat p" and b: "a + load_width op \<le> mem_bytes x"
  shows "okX (step_load op off) x (\<lambda>_ x'. same_rest (x_pc_update (ptr_add 1) x) x'
      \<and> operands (xs @ [load_value op (map (mem x) [a..<a + load_width op])]) x')"
  unfolding step_load_def okX_then okX_bind inc_pc_ok
proof (rule pop_addr_ok)
  have room: "Suc (length xs) < 2 ^ 32" using os by (simp add: operands_def)
  show "operands (xs @ [I32_const_t p]) (x_pc_update (ptr_add 1) x)" using os by simp
  fix x1 assume s: "same_rest (x_pc_update (ptr_add 1) x) x1" and o1: "operands xs x1"
  then have "x_alloc x1 = x_alloc x" using same_rest_fields(3) [OF s] by simp
  then show "okX (read_memory (unat off + unat p) (load_width op)) x1 (\<lambda>bs x'.
      okX (push_operand (load_value op bs)) x' (\<lambda>_ x'. same_rest (x_pc_update (ptr_add 1) x) x'
        \<and> operands (xs @ [load_value op (map (mem x) [a..<a + load_width op])]) x'))"
    using b a same_rest_trans [OF s] by (auto intro!: push_ok [OF o1 room])
qed

lemma step_store_ok:
  assumes os: "operands (xs @ [I32_const_t p, v]) x" and bs: "store_bytes op v = Inr bs"
    and a: "a = unat off + unat p" and b: "a + length bs \<le> mem_bytes x"
  shows "okX (step_store op off) x (\<lambda>_ x'. same_rest (set_raw (write_bytes a bs (mem x)) (x_pc_update (ptr_add 1) x)) x' \<and> operands xs x')"
  unfolding step_store_def okX_then okX_bind inc_pc_ok
proof (rule pop_ok)
  show "operands ((xs @ [I32_const_t p]) @ [v]) (x_pc_update (ptr_add 1) x)" using os by simp
  fix x1 assume s1: "same_rest (x_pc_update (ptr_add 1) x) x1" and o1: "operands (xs @ [I32_const_t p]) x1"
  show "okX (pop_memop_addr off) x1 (\<lambda>a' x'. okX (liftX (store_bytes op v)) x' (\<lambda>bs' x'. okX (write_memory a' bs') x'
      (\<lambda>_ x'. same_rest (set_raw (write_bytes a bs (mem x)) (x_pc_update (ptr_add 1) x)) x' \<and> operands xs x')))"
  proof (rule pop_addr_ok [OF o1])
    fix x2 assume s2: "same_rest x1 x2" and o2: "operands xs x2"
    have s: "same_rest (x_pc_update (ptr_add 1) x) x2" by (rule same_rest_trans [OF s1 s2])
    then have "x_alloc x2 = x_alloc x" using same_rest_fields(3) [OF s] by simp
    then show "okX (liftX (store_bytes op v)) x2 (\<lambda>bs' x'. okX (write_memory (unat off + unat p) bs') x'
        (\<lambda>_ x'. same_rest (set_raw (write_bytes a bs (mem x)) (x_pc_update (ptr_add 1) x)) x' \<and> operands xs x'))"
      using b a bs o2 same_rest_set_raw [OF s] by simp
  qed
qed

text \<open>A method that throws, with the context it leaves.\<close>

definition throws :: "'a exec \<Rightarrow> ectx \<Rightarrow> vm_exn \<Rightarrow> (ectx \<Rightarrow> bool) \<Rightarrow> bool" where
  "throws m x e Q \<longleftrightarrow> (\<exists>y. m x = (Inl e, y) \<and> Q y)"

lemma throws_bind_ok: "okX m x (\<lambda>a y. throws (f a) y e Q) \<Longrightarrow> throws (bindX m f) x e Q"
  by (auto simp: throws_def okX_def bindX_def)

lemma throws_then_ok: "okX m x (\<lambda>_ y. throws k y e Q) \<Longrightarrow> throws (thenX m k) x e Q"
  unfolding thenX_def by (rule throws_bind_ok)

lemma throws_bind: "throws m x e Q \<Longrightarrow> throws (bindX m f) x e Q"
  by (auto simp: throws_def bindX_def)

lemma read_throws: "a + n > mem_bytes x \<Longrightarrow> throws (read_memory a n) x Wasm_memory_exception Q \<longleftrightarrow> Q x"
  by (simp add: throws_def read_memory_def withX_def checkX_def accessible_def throwX_def)

lemma write_throws: "a + length bs > mem_bytes x \<Longrightarrow> throws (write_memory a bs) x Wasm_memory_exception Q \<longleftrightarrow> Q x"
  by (simp add: throws_def write_memory_def withX_def checkX_def accessible_def throwX_def)

text \<open>
  C22: a load reads exactly the bytes at offset plus address, computed without wrap-around, and
  pushes their little-endian value, extended as the instruction says; when one of the bytes is
  outside the memory it traps and the memory is as it was.
\<close>

theorem load_exact:
  assumes "operands (xs @ [I32_const_t p]) x" and "a = unat off + unat p"
  shows "if a + load_width op \<le> mem_bytes x
    then okX (step env (Load_t op al off)) x (\<lambda>_ x'. same_rest (x_pc_update (ptr_add 1) x) x'
      \<and> operands (xs @ [load_value op (map (mem x) [a..<a + load_width op])]) x')
    else throws (step env (Load_t op al off)) x Wasm_memory_exception (\<lambda>x'. x_alloc x' = x_alloc x)"
proof (cases "a + load_width op \<le> mem_bytes x")
  case True
  then show ?thesis using step_load_ok [OF assms True] by simp
next
  case False
  have "throws (step_load op off) x Wasm_memory_exception (\<lambda>x'. x_alloc x' = x_alloc x)"
    unfolding step_load_def
  proof (rule throws_then_ok, unfold inc_pc_ok, rule throws_bind_ok, rule pop_addr_ok, simp, rule assms(1))
    fix x1 assume s: "same_rest (x_pc_update (ptr_add 1) x) x1"
    then have "x_alloc x1 = x_alloc x" using same_rest_fields(3) [OF s] by simp
    then show "throws (bindX (read_memory (unat off + unat p) (load_width op)) (\<lambda>bs. push_operand (load_value op bs))) x1
        Wasm_memory_exception (\<lambda>x'. x_alloc x' = x_alloc x)"
      using False assms(2) by (intro throws_bind) (simp add: read_throws)
  qed
  with False show ?thesis by simp
qed

theorem load_exact_witness:
  "okX (step ex_ienv (Load_t I32_load16_u 1 0xFFFD)) (ex_ctx [] [I32_const_t 1]) (\<lambda>_ x'. operands [I32_const_t 0xFFFE] x')
   \<and> throws (step ex_ienv (Load_t I32_load16_u 1 0xFFFFFFFF)) (ex_ctx [] [I32_const_t 1]) Wasm_memory_exception (\<lambda>x'. mem_bytes x' = 65536)"
proof -
  have os: "operands ([] @ [I32_const_t 1]) (ex_ctx [] [I32_const_t 1])" using ex_ctx_operands [of "[I32_const_t 1]"] by simp
  have "load_value I32_load16_u [0xFE, 0xFF] = I32_const_t 0xFFFE" by code_simp
  moreover have "map of_nat [65534..<65536] = [0xFE, 0xFF :: u8]" by (simp add: upt_conv_Cons)
  ultimately have v: "load_value I32_load16_u (map of_nat [65534..<65536]) = I32_const_t 0xFFFE" by (simp only:)
  have "okX (step ex_ienv (Load_t I32_load16_u 1 0xFFFD)) (ex_ctx [] [I32_const_t 1]) (\<lambda>_ x'. operands [I32_const_t 0xFFFE] x')"
    using load_exact [OF os refl, where off = "0xFFFD" and op = I32_load16_u and env = ex_ienv and al = 1] v
    by (auto elim!: okX_mono simp del: step.simps)
  moreover have "throws (step ex_ienv (Load_t I32_load16_u 1 0xFFFFFFFF)) (ex_ctx [] [I32_const_t 1]) Wasm_memory_exception
      (\<lambda>x'. mem_bytes x' = 65536)"
    using load_exact [OF os refl, where off = "0xFFFFFFFF" and op = I32_load16_u and env = ex_ienv and al = 1]
    by (auto simp: throws_def simp del: step.simps)
  ultimately show ?thesis ..
qed

text \<open>
  C23: a store changes exactly the bytes at offset plus address to the little-endian bytes of the operand's
  low part and nothing else; when one of them is outside the memory it traps and writes nothing.
\<close>

theorem store_exact:
  assumes "operands (xs @ [I32_const_t p, v]) x" and "a = unat off + unat p" and "store_bytes op v = Inr bs"
  shows "if a + length bs \<le> mem_bytes x
    then okX (step env (Store_t op al off)) x (\<lambda>_ x'.
      same_rest (set_raw (write_bytes a bs (mem x)) (x_pc_update (ptr_add 1) x)) x' \<and> operands xs x')
    else throws (step env (Store_t op al off)) x Wasm_memory_exception (\<lambda>x'. x_alloc x' = x_alloc x)"
proof (cases "a + length bs \<le> mem_bytes x")
  case True
  then show ?thesis using step_store_ok [OF assms(1,3,2) True] by simp
next
  case False
  have os: "operands ((xs @ [I32_const_t p]) @ [v]) (x_pc_update (ptr_add 1) x)" using assms(1) by simp
  have "throws (step_store op off) x Wasm_memory_exception (\<lambda>x'. x_alloc x' = x_alloc x)"
    unfolding step_store_def
  proof (rule throws_then_ok, unfold inc_pc_ok, rule throws_bind_ok, rule pop_ok [OF os], rule throws_bind_ok, rule pop_addr_ok, assumption)
    fix x1 x2 assume s: "same_rest (x_pc_update (ptr_add 1) x) x1" "same_rest x1 x2"
    then have "x_alloc x2 = x_alloc x" using same_rest_fields(3) [OF s(1)] same_rest_fields(3) [OF s(2)] by simp
    then show "throws (bindX (liftX (store_bytes op v)) (\<lambda>bs. write_memory (unat off + unat p) bs)) x2
        Wasm_memory_exception (\<lambda>x'. x_alloc x' = x_alloc x)"
      using False assms(2,3) by (intro throws_bind_ok) (simp add: write_throws)
  qed
  with False show ?thesis by simp
qed

theorem store_exact_witness:
  "okX (step ex_ienv (Store_t I32_store16 1 0)) (ex_ctx [] [I32_const_t 7, I32_const_t 0x12345]) (\<lambda>_ x'.
     mem x' 7 = 0x45 \<and> mem x' 8 = 0x23 \<and> mem x' 9 = 9 \<and> operands [] x')"
proof -
  have os: "operands ([] @ [I32_const_t 7, I32_const_t 0x12345]) (ex_ctx [] [I32_const_t 7, I32_const_t 0x12345])"
    using ex_ctx_operands [of "[I32_const_t 7, I32_const_t 0x12345]"] by simp
  have bs: "store_bytes I32_store16 (I32_const_t 0x12345) = Inr [0x45, 0x23]" by code_simp
  show ?thesis
    using store_exact [OF os refl bs, where off = 0 and env = ex_ienv and al = 1]
    by (auto simp: write_bytes_def same_rest_fields(3) simp del: step.simps elim!: okX_mono)
qed

section \<open>Storing and loading back\<close>

definition plain_pair :: "store_op \<Rightarrow> load_op \<Rightarrow> value_type \<Rightarrow> bool" where
  "plain_pair st ld t \<longleftrightarrow> (st, ld, t) \<in> {(I32_store, I32_load, t_i32), (I64_store, I64_load, t_i64),
     (F32_store, F32_load, t_f32), (F64_store, F64_load, t_f64)}"

lemma plain_pair_bytes:
  assumes "plain_pair st ld t" and "op_type v = t"
  shows "\<exists>bs. store_bytes st v = Inr bs \<and> length bs = load_width ld \<and> load_value ld bs = v"
  using assms by (cases v) (auto simp: plain_pair_def le_word_le_bytes simp del: le_bytes.simps)

lemma read_back: "map (write_bytes a bs m) [a..<a + length bs] = bs"
  by (rule nth_equalityI) (auto simp: write_bytes_def)

text \<open>
  C21: what a full-width store writes, the matching load at the same address reads back, for every integer and
  floating-point bit pattern.
\<close>

theorem store_load_roundtrip:
  assumes "plain_pair st ld t" and "op_type v = t" and "operands (xs @ [I32_const_t p, v]) x"
    and "unat off + unat p + load_width ld \<le> mem_bytes x"
  shows "okX (thenX (step env (Store_t st al off)) (thenX (push_operand (I32_const_t p)) (step env (Load_t ld al off)))) x
     (\<lambda>_ x'. operands (xs @ [v]) x')"
proof -
  from plain_pair_bytes [OF assms(1,2)] obtain bs where bs: "store_bytes st v = Inr bs" "length bs = load_width ld" "load_value ld bs = v"
    by blast
  let ?a = "unat off + unat p"
  have room: "Suc (length xs) < 2 ^ 32" using assms(3) by (simp add: operands_def)
  have b: "?a + length bs \<le> mem_bytes x" using assms(4) bs(2) by simp
  show ?thesis
    unfolding okX_then step.simps
  proof (rule okX_mono [OF step_store_ok [OF assms(3) bs(1) refl b]], clarify)
    fix x1 assume s1: "same_rest (set_raw (write_bytes ?a bs (mem x)) (x_pc_update (ptr_add 1) x)) x1" and o1: "operands xs x1"
    show "okX (push_operand (I32_const_t p)) x1 (\<lambda>_ x'. okX (step_load ld off) x' (\<lambda>_ x'. operands (xs @ [v]) x'))"
    proof (rule push_ok [OF o1 room])
      fix x2 assume s2: "same_rest x1 x2" and o2: "operands (xs @ [I32_const_t p]) x2"
      have al: "mem x2 = write_bytes ?a bs (mem x)" "mem_bytes x2 = mem_bytes x"
        using same_rest_fields(3) [OF s1] same_rest_fields(3) [OF s2] by simp_all
      show "okX (step_load ld off) x2 (\<lambda>_ x'. operands (xs @ [v]) x')"
        using step_load_ok [OF o2 refl, of off ld] assms(4) bs read_back [of ?a bs "mem x"]
        by (auto simp: al elim!: okX_mono)
    qed
  qed
qed

theorem store_load_roundtrip_witness:
  "okX (thenX (step ex_ienv (Store_t F64_store 3 8)) (thenX (push_operand (I32_const_t 100)) (step ex_ienv (Load_t F64_load 3 8))))
     (ex_ctx [] [I32_const_t 100, F64_const_t 0x7FF8000000000001]) (\<lambda>_ x'. operands [F64_const_t 0x7FF8000000000001] x')"
proof -
  let ?v = "F64_const_t 0x7FF8000000000001"
  have os: "operands ([] @ [I32_const_t 100, ?v]) (ex_ctx [] [I32_const_t 100, ?v])"
    using ex_ctx_operands [of "[I32_const_t 100, ?v]"] by simp
  have "plain_pair F64_store F64_load t_f64" by (simp add: plain_pair_def)
  from store_load_roundtrip [OF this _ os, where off = 8 and env = ex_ienv and al = 3] show ?thesis by simp
qed

section \<open>Growing the memory\<close>

text \<open>The largest number of pages the module and the context allow, and a context within it.\<close>

definition page_limit :: "ectx \<Rightarrow> resizable_limits \<Rightarrow> nat" where
  "page_limit x lim = (if lim_flags lim then min (unat (x_max_pages x)) (unat (lim_maximum lim)) else unat (x_max_pages x))"

definition memory_within :: "ectx \<Rightarrow> resizable_limits \<Rightarrow> bool" where
  "memory_within x lim \<longleftrightarrow> (\<exists>ms. m_memories (x_mod x) = lim # ms) \<and> unat (x_max_pages x) \<le> max_pages
     \<and> (lim_flags lim \<longrightarrow> unat (lim_maximum lim) \<le> max_pages) \<and> 0 \<le> wa_page (x_alloc x) \<and> nat (wa_page (x_alloc x)) \<le> page_limit x lim"

definition grown :: "nat \<Rightarrow> ectx \<Rightarrow> ectx" where
  "grown n x = x\<lparr>x_alloc := (x_alloc x)\<lparr>wa_raw := memset_zero (mem_bytes x) (page_size * n) (mem x), wa_page := wa_page (x_alloc x) + int n\<rparr>\<rparr>"

lemma max_pages_value: "max_pages = 65536"
  by (simp add: max_pages_def max_useable_memory_def page_size_def)

lemma alloc_pages_run: "f (x_alloc x) = Inr al \<Longrightarrow> alloc_pages f x = (Inr (), x\<lparr>x_alloc := al\<rparr>)"
  by (cases x) (simp add: alloc_pages_def withX_def liftX_def bindX_def modX_def)

lemma sint_signed_31: "sint (w :: u32) = signed_take_bit 31 (int (unat w))"
  by (simp add: sint_uint)

lemma sint_unat:
  assumes "unat (w :: u32) < 2 ^ 31"
  shows "sint w = int (unat w)"
  unfolding sint_signed_31
proof (rule signed_take_bit_int_eq_self)
  show "- (2 ^ 31) \<le> int (unat w)" by (rule order_trans [of _ 0]) simp_all
  show "int (unat w) < 2 ^ 31" using assms by (metis of_nat_less_iff of_nat_numeral of_nat_power)
qed

lemma sint_nonneg: "0 \<le> sint (w :: u32) \<Longrightarrow> sint w = int (unat w)"
proof (rule sint_unat)
  assume "0 \<le> sint w"
  then have "\<not> bit (int (unat w)) 31" unfolding sint_signed_31 by (rule signed_take_bit_nonnegative_iff [THEN iffD1])
  then have "\<not> bit w 31" by (simp add: bit_uint_iff)
  then have "\<not> bit w j" if "31 \<le> j" for j
    using that bit_imp_le_length [of w j] by (cases "j = 31") auto
  then show "unat w < 2 ^ 31" by (simp only: unat_less_exp_iff) blast
qed

text \<open>
  C25: \<open>memory.grow\<close> by a number of pages that fits the limits of module and context returns the old size,
  keeps every old byte and adds zeroed pages; by a number that does not fit it returns \<open>-1\<close> and
  changes nothing.  The arithmetic of the check cannot wrap.
\<close>

theorem grow_memory_spec:
  assumes "memory_within x lim" and "0 \<le> sint pages"
  shows "grow_linear_memory True pages x =
    (if nat (wa_page (x_alloc x)) + unat pages \<le> page_limit x lim
     then (Inr (of_nat (nat (wa_page (x_alloc x)))), grown (unat pages) x)
     else (Inr (- 1), x))"
proof -
  let ?p = "wa_page (x_alloc x)"
  obtain ms where ms: "m_memories (x_mod x) = lim # ms" and mx: "unat (x_max_pages x) \<le> 65536" and p0: "0 \<le> ?p"
    and lm: "lim_flags lim \<Longrightarrow> unat (lim_maximum lim) \<le> 65536" and pl: "nat ?p \<le> page_limit x lim"
    using assms(1) by (auto simp: memory_within_def max_pages_value)
  have pm: "nat ?p \<le> unat (x_max_pages x)" using pl by (auto simp: page_limit_def split: if_splits)
  have w: "unat (word_of_int ?p :: u32) = nat ?p" using pm mx p0 by (intro page_small(2)) (simp_all add: max_pages_value)
  have sub: "unat (x_max_pages x - word_of_int ?p) = unat (x_max_pages x) - nat ?p"
    using pm w by (simp add: unat_sub word_le_nat_alt)
  have sp: "sint pages = int (unat pages)" by (rule sint_nonneg [OF assms(2)])
  have c1: "x_max_pages x - word_of_int ?p < pages \<longleftrightarrow> unat (x_max_pages x) < nat ?p + unat pages"
    using pm by (auto simp: word_less_nat_alt sub)
  have c2: "sint (lim_maximum lim) - ?p < sint pages \<longleftrightarrow> unat (lim_maximum lim) < nat ?p + unat pages" if "lim_flags lim"
  proof -
    have "unat (lim_maximum lim) < 2 ^ 31" using lm [OF that] by simp
    from sint_unat [OF this] show ?thesis unfolding sp using p0 by linarith
  qed
  have full: "(x_max_pages x - word_of_int ?p < pages \<or> lim_flags lim \<and> sint (lim_maximum lim) - ?p < sint pages)
      \<longleftrightarrow> \<not> nat ?p + unat pages \<le> page_limit x lim"
    using c1 c2 by (auto simp: page_limit_def)
  have ret: "of_nat (nat ?p) = (word_of_int ?p :: u32)" using p0 by (metis of_int_of_nat_eq nat_0_le)
  show ?thesis
  proof (cases "nat ?p + unat pages \<le> page_limit x lim")
    case True
    have u: "unat (ucast pages :: u64) = unat pages" by (simp add: unat_ucast_up)
    have "nat ?p + unat (ucast pages :: u64) \<le> max_pages"
      using True mx u by (auto simp: page_limit_def max_pages_value split: if_splits)
    from wa_alloc_ok [OF p0 this] True full assms(2) ms ret u show ?thesis
      by (auto simp: grow_linear_memory_def withX_def Let_def thenX_def bindX_def alloc_pages_run retX_def grown_def wa_bytes_def)
  next
    case False
    with full assms(2) ms show ?thesis by (simp add: grow_linear_memory_def withX_def Let_def retX_def)
  qed
qed

definition ex_mem_ctx :: ectx where
  "ex_mem_ctx = (ex_ctx [] [])\<lparr>x_mod := empty_module\<lparr>m_memories := [\<lparr>lim_flags = True, lim_initial = 1, lim_maximum = 3\<rparr>]\<rparr>\<rparr>"

lemma ex_mem_within: "memory_within ex_mem_ctx \<lparr>lim_flags = True, lim_initial = 1, lim_maximum = 3\<rparr>"
  by (simp add: memory_within_def ex_mem_ctx_def page_limit_def max_pages_value ex_ctx_def)

theorem grow_memory_spec_witness:
  "grow_linear_memory True 2 ex_mem_ctx = (Inr 1, grown 2 ex_mem_ctx) \<and> grow_linear_memory True 3 ex_mem_ctx = (Inr (- 1), ex_mem_ctx)"
  using grow_memory_spec [OF ex_mem_within, of 2] grow_memory_spec [OF ex_mem_within, of 3]
  by (simp add: page_limit_def ex_mem_ctx_def ex_ctx_def)

text \<open>
  C26: \<open>memory.grow\<close> reads its operand as a signed number.  A negative one gives pages back when there are that many: the memory
  loses that many pages, with what they held, and the result is the old size; when there are fewer, the
  result is \<open>-1\<close> and nothing changes.  The WebAssembly standard takes the operand as an unsigned
  number, which could never be granted, and asks for \<open>-1\<close> and an unchanged memory in both cases.
\<close>

theorem grow_memory_negative_shrinks:
  assumes "0 \<le> wa_page (x_alloc x)" and "wa_page (x_alloc x) \<le> int max_pages" and "sint pages < 0"
  shows "grow_linear_memory True pages x = (if - sint pages \<le> wa_page (x_alloc x)
    then (Inr (of_int (wa_page (x_alloc x))), x\<lparr>x_alloc := (x_alloc x)\<lparr>wa_page := wa_page (x_alloc x) + sint pages\<rparr>\<rparr>)
    else (Inr (- 1), x))"
proof (cases "- sint pages \<le> wa_page (x_alloc x)")
  case True
  let ?n = "word_of_int (- sint pages) :: u64"
  have n: "unat ?n = nat (- sint pages)" using assms True by (intro page_small(1)) simp_all
  then have "unat ?n \<le> nat (wa_page (x_alloc x))" using True by (simp only: n nat_mono)
  note free = wa_free_ok [OF this assms(2,1)]
  have "wa_page (x_alloc x) - int (unat ?n) = wa_page (x_alloc x) + sint pages" unfolding n using assms(3) by simp
  with free have "wa_free True ?n (x_alloc x) = Inr ((x_alloc x)\<lparr>wa_page := wa_page (x_alloc x) + sint pages\<rparr>)" by (simp only:)
  then show ?thesis
    using assms True by (simp add: grow_linear_memory_def withX_def Let_def thenX_def bindX_def alloc_pages_run retX_def)
next
  case False
  then have "wa_page (x_alloc x) + sint pages < 0" by linarith
  then show ?thesis using assms(3) False by (simp add: grow_linear_memory_def withX_def Let_def retX_def)
qed

theorem grow_memory_negative_shrinks_witness:
  "grow_linear_memory True 0xFFFFFFFF ex_mem_ctx = (Inr 1, ex_mem_ctx\<lparr>x_alloc := (x_alloc ex_mem_ctx)\<lparr>wa_page := 0\<rparr>\<rparr>)
   \<and> grow_linear_memory True 0x80000000 ex_mem_ctx = (Inr (- 1), ex_mem_ctx)"
proof -
  have "sint (0xFFFFFFFF :: u32) = - 1" "sint (0x80000000 :: u32) = - 2147483648" by simp_all
  then show ?thesis
    using grow_memory_negative_shrinks [of ex_mem_ctx "0xFFFFFFFF"] grow_memory_negative_shrinks [of ex_mem_ctx "0x80000000"]
    by (simp add: ex_mem_ctx_def ex_ctx_def max_pages_value)
qed

section \<open>Branches\<close>

lemma set_relative_pc_ok:
  "m_code (x_mod x) \<noteq> [] \<Longrightarrow> okX (set_relative_pc pc) x Q \<longleftrightarrow> Q () (x\<lparr>x_pc := At (unat pc)\<rparr>)"
  by (cases x) (simp add: set_relative_pc_def at_unchecked_def)

lemma eat_back_ok:
  assumes "operands (xs @ ys) x" and "unat n = length ys"
    and "\<And>x'. same_rest x x' \<Longrightarrow> operands xs x' \<Longrightarrow> Q () x'"
  shows "okX (withX operands_size (\<lambda>sz. eat_operands (ucast (sz - ucast (n :: u32))))) x Q"
proof -
  have len: "length xs + length ys < 2 ^ 32" using assms(1) by (simp add: operands_def)
  define w :: u64 where "w = of_nat (length (xs @ ys))"
  have w: "unat w = length xs + length ys" unfolding w_def using len by (subst unat_of_nat_small) simp_all
  have "unat (w - ucast n :: u64) = length xs"
    using assms(2) w by (subst unat_sub) (simp_all add: word_le_nat_alt unat_ucast_up)
  then have u: "unat (ucast (w - ucast n :: u64) :: u32) = length xs"
    using len by (simp add: unsigned_ucast_eq take_bit_nat_eq_self)
  show ?thesis
    unfolding okX_with operands_size_word [OF assms(1)] w_def [symmetric]
    by (rule eat_ok [OF assms(1)]) (use u assms(3) in auto)
qed

lemma tag_bit:
  fixes d :: u32
  assumes "d AND 0x80000000 = 0"
  shows "(d OR 0x80000000) AND 0x80000000 \<noteq> 0" and "(d OR 0x80000000) AND 0x7FFFFFFF = d"
proof -
  have e: "(0x80000000 :: u32) = push_bit 31 1" "(0x7FFFFFFF :: u32) = mask 31" by (simp_all add: mask_eq_exp_minus_1)
  have b: "\<not> bit d 31"
  proof
    assume "bit d 31"
    then have "bit (d AND push_bit 31 1) 31" unfolding bit_and_iff bit_push_bit_iff by simp
    with assms show False unfolding e by simp
  qed
  have "bit ((d OR 0x80000000) AND 0x80000000) 31" unfolding e by (simp add: bit_simps)
  then show "(d OR 0x80000000) AND 0x80000000 \<noteq> 0" by (metis bit_0_eq bot_apply bot_bool_def)
  show "(d OR 0x80000000) AND 0x7FFFFFFF = d"
    unfolding e by (rule bit_word_eqI) (use b in \<open>auto simp: bit_simps less_Suc_eq eval_nat_numeral\<close>)
qed

text \<open>
  C24: the branch instruction undoes what the writer encoded.  For a depth change \<open>dc\<close> and a result type, the
  jump with the encoded word drops exactly the \<open>dc\<close> operands above the target's height, keeping the top one
  when the label has a result, and continues at the target.
\<close>

theorem branch_unwinds:
  assumes "encode_depth_change dc rt = Inr info" and "operands (xs @ ys) x" and "length ys = unat dc"
    and "rt \<noteq> t_pseudo \<Longrightarrow> ys \<noteq> []" and "m_code (x_mod x) \<noteq> []"
  shows "okX (step env (Br_t info pc)) x (\<lambda>_ x'. same_rest (x\<lparr>x_pc := At (unat pc)\<rparr>) x'
     \<and> operands (xs @ (if rt \<noteq> t_pseudo then [last ys] else [])) x')"
  proof -
  from assms(1) have dc: "dc AND 0x80000000 = 0" and info: "info = (if rt \<noteq> t_pseudo then dc OR 0x80000000 else dc)"
    by (auto simp: encode_depth_change_def res_simps)
  have os: "operands (xs @ ys) (x\<lparr>x_pc := At (unat pc)\<rparr>)" using assms(2) by simp
  show ?thesis
  proof (cases "rt = t_pseudo")
    case True
    then show ?thesis
      using dc info eat_back_ok [OF os assms(3) [symmetric], of "\<lambda>_ x'. same_rest (x\<lparr>x_pc := At (unat pc)\<rparr>) x' \<and> operands xs x'"]
      by (simp add: jump_def set_relative_pc_ok [OF assms(5)])
  next
    case False
    obtain zs v where ys: "ys = zs @ [v]" using assms(4) False by (cases ys rule: rev_cases) auto
    have os': "operands ((xs @ zs) @ [v]) (x\<lparr>x_pc := At (unat pc)\<rparr>)" using os ys by simp
    have room: "Suc (length xs) < 2 ^ 32" using assms(2) ys by (simp add: operands_def)
    have n: "unat (dc - 1) = length zs" using assms(3) ys unat_dec1 [of dc] by (cases "dc = 0") auto
    have d: "(info AND 0x7FFFFFFF) - 1 = dc - 1" "info AND 0x80000000 \<noteq> 0" using tag_bit [OF dc] False info by simp_all
    have "okX (jump info pc) x (\<lambda>_ x'. same_rest (x\<lparr>x_pc := At (unat pc)\<rparr>) x' \<and> operands (xs @ [v]) x')"
      unfolding jump_def okX_then set_relative_pc_ok [OF assms(5)] if_P [OF d(2)] okX_bind d(1)
      by (rule pop_ok [OF os'], rule eat_back_ok, assumption, rule n, rule push_ok [OF _ room], assumption)
        (blast intro: same_rest_trans)
    then show ?thesis using False ys by simp
  qed
qed

definition ex_jump_ctx :: ectx where
  "ex_jump_ctx = (ex_ctx [] [I32_const_t 1, I32_const_t 2, I64_const_t 3])\<lparr>x_mod := empty_module\<lparr>m_code := [\<lparr>fb_size = 1, fb_locals = [],
     fb_code = 0, fb_stack_size = 1\<rparr>]\<rparr>\<rparr>"

theorem branch_unwinds_witness:
  "encode_depth_change 2 t_i64 = Inr 0x80000002
   \<and> okX (step ex_ienv (Br_t 0x80000002 5)) ex_jump_ctx (\<lambda>_ x'. x_pc x' = At 5 \<and> operands [I32_const_t 1, I64_const_t 3] x')"
proof -
  have enc: "encode_depth_change 2 t_i64 = Inr 0x80000002" by code_simp
  have os: "operands ([I32_const_t 1] @ [I32_const_t 2, I64_const_t 3]) ex_jump_ctx"
    using ex_ctx_operands [of "[I32_const_t 1, I32_const_t 2, I64_const_t 3]" "[]"] by (simp add: ex_jump_ctx_def operands_def)
  show ?thesis
    using enc branch_unwinds [OF enc os, where env = ex_ienv and pc = 5] same_rest_fields(12)
    by (auto simp: ex_jump_ctx_def simp del: step.simps elim!: okX_mono)
qed


end
