(* ===== verification/Vm_Call_Props.thy ===== *)
theory Vm_Call_Props
  imports Vm_Interp_Props
begin

text \<open>
  Calls and returns: what a call leaves for the matching return to restore, and that \<open>execute\<close> puts the
  context back on every way out, also when the code traps.
\<close>

section \<open>Fields no instruction touches\<close>

definition fixed :: "ectx \<Rightarrow> vm_module \<times> opcode list \<times> u32 \<times> u32 \<times> u32 \<times> bool" where
  "fixed x = (x_mod x, x_code x, x_max_pages x, x_as_index x, x_os_index x, x_exiting x)"

definition keeps :: "'a exec \<Rightarrow> bool" where
  "keeps m \<longleftrightarrow> (\<forall>x. fixed (snd (m x)) = fixed x)"

named_theorems keep \<open>methods that keep the fixed fields\<close>

lemma keeps_basic [keep]:
  "keeps (retX a)" "keeps (throwX e)" "keeps (liftX r)" "keeps (getX f)"
  by (simp_all add: keeps_def retX_def throwX_def liftX_def getX_def)

lemma keeps_bind [keep]: "keeps m \<Longrightarrow> (\<And>a. keeps (f a)) \<Longrightarrow> keeps (bindX m f)"
  unfolding keeps_def bindX_def by (auto split: prod.splits sum.splits) (metis snd_conv)+

lemma keeps_then [keep]: "keeps m \<Longrightarrow> keeps k \<Longrightarrow> keeps (thenX m k)"
  unfolding thenX_def by (intro keeps_bind)

lemma keeps_with [keep]: "(\<And>a. keeps (k a)) \<Longrightarrow> keeps (withX f k)"
  by (simp add: keeps_def withX_def)

lemma keeps_check [keep]: "keeps k \<Longrightarrow> keeps (checkX b e k)"
  by (simp add: checkX_def keeps_basic)

lemma keeps_if [keep]: "(b \<Longrightarrow> keeps m) \<Longrightarrow> (\<not> b \<Longrightarrow> keeps k) \<Longrightarrow> keeps (if b then m else k)"
  by simp

lemma keeps_split [keep]: "(\<And>a b. keeps (f a b)) \<Longrightarrow> keeps (case p of (a, b) \<Rightarrow> f a b)"
  by (cases p) simp

lemma keeps_let [keep]: "(\<And>v. keeps (f v)) \<Longrightarrow> keeps (let v = a in f v)"
  by simp

lemma keeps_mod: "(\<And>x. fixed (f x) = fixed x) \<Longrightarrow> keeps (modX f)"
  by (simp add: keeps_def modX_def)

lemma keeps_updates [keep]:
  "keeps (modX (x_os_update a))" "keeps (modX (x_as_update b))" "keeps (modX (x_pc_update c))" "keeps (modX (x_alloc_update d))"
  "keeps (modX (x_globals_update e))" "keeps (modX (x_table_update f))" "keeps (modX (x_dropped_elems_update g))"
  "keeps (modX (x_dropped_data_update h))" "keeps (modX (x_remaining_call_depth_update i))"
  "keeps (modX (\<lambda>y. y\<lparr>x_last_op_index := l y\<rparr>))" "keeps (modX (\<lambda>y. y\<lparr>x_pc := p y, x_last_op_index := l y\<rparr>))"
  "keeps (modX (\<lambda>y. y\<lparr>x_alloc := al y\<rparr>))"
  by (rule keeps_mod, simp add: fixed_def)+

lemma keeps_guard [keep]: "(\<And>x. fixed (c x) = fixed x) \<Longrightarrow> keeps m \<Longrightarrow> keeps (guardX c m)"
  by (simp add: keeps_def guardX_def split: prod.split) (metis snd_conv)

lemma keeps_host [keep]: "keeps (call_host host i)"
  by (simp add: keeps_def call_host_def fixed_def split: prod.split)

lemma keeps_operands [keep]:
  "keeps (push_operand e)" "keeps pop_operand" "keeps (peek_operand i)" "keeps (poke_operand i e)" "keeps (get_operand j)"
  "keeps (set_operand j e)" "keeps (eat_operands n)" "keeps (compact_operand n)" "keeps (push_frame fr)" "keeps pop_call"
  unfolding push_operand_def pop_operand_def peek_operand_def poke_operand_def get_operand_def set_operand_def eat_operands_def
    compact_operand_def push_frame_def pop_call_def
  by (intro keep)+

lemma keeps_control [keep]:
  "keeps inc_pc" "keeps (set_relative_pc pc)" "keeps (goto_pc p)" "keeps (jump d pc)" "keeps (push_call ex i)"
  "keeps (apply_pop_call nl rc fs)"
  unfolding inc_pc_def set_relative_pc_def goto_pc_def jump_def push_call_def apply_pop_call_def Let_def
  by (intro keep)+

lemma keeps_type_check [keep]: "keeps (type_check_from ps i ts)"
  by (induction ts arbitrary: i) (simp_all, (intro keep)+)

lemma keeps_push_zeros [keep]: "keeps (push_zeros n t)"
  by (induction n) (simp_all, (intro keep)+)

lemma keeps_local_entries [keep]: "keeps (setup_local_entries ls)"
  by (induction ls) (simp_all, (intro keep)+)

lemma keeps_push_args [keep]: "keeps (push_args as)"
  by (induction as) (simp_all, (intro keep)+)

lemma keeps_depth: "fixed (x_remaining_call_depth_update g x) = fixed x"
  by (simp add: fixed_def)

lemma keeps_calls [keep]: "keeps (setup_locals i)" "keeps (call_fn host i)"
  unfolding setup_locals_def call_fn_def type_check_def Let_def
  by (intro keep keeps_depth)+

lemma keeps_memory [keep]:
  "keeps (table_elem k)" "keeps (get_global k)" "keeps (set_global k el)" "keeps (read_memory a n)" "keeps (write_memory a bs)"
  "keeps (validate_pointer p q)" "keeps current_linear_memory" "keeps (alloc_pages f)" "keeps (grow_linear_memory ok pages)"
  "keeps table_initial" "keeps (drop_data k)" "keeps (drop_elem k)"
  unfolding table_elem_def get_global_def set_global_def read_memory_def write_memory_def validate_pointer_def current_linear_memory_def
    alloc_pages_def grow_linear_memory_def table_initial_def drop_data_def drop_elem_def Let_def
  by (intro keep)+

lemma keeps_segments [keep]: "keeps (init_linear_memory i d s n)" "keeps (init_table i d s n)" "keeps (get_table_ptr b n)"
  unfolding init_linear_memory_def init_table_def get_table_ptr_def Let_def
  by (intro keep)+

lemma keeps_ops [keep]:
  "keeps (unary_op rd wr f)" "keeps (binary_op rd2 wr2 g)" "keeps (pop_memop_addr off)" "keeps (step_load lop off)" "keeps (step_store sop off)"
  "keeps (step_grow_memory env)" "keeps step_current_memory" "keeps pop_ui32" "keeps (peek_ui32 i)" "keeps (poke_i32 i w)" "keeps pop_three"
  unfolding unary_op_def binary_op_def pop_memop_addr_def step_load_def step_store_def step_grow_memory_def step_current_memory_def
    pop_ui32_def peek_ui32_def poke_i32_def pop_three_def
  by (intro keep)+

lemma keeps_bulk [keep]: "keeps (step_bulk op)"
  by (cases op) (simp_all add: step_init_def step_memory_copy_def step_memory_fill_def step_table_copy_def, (intro keep)+)

lemma keeps_numeric [keep]: "keeps (step_numeric env fp op)"
proof -
  have "keeps (step_cmp env c)" for c by (cases c) (auto intro: keep)
  moreover have "keeps (step_arith env fp a)" for a
  proof (cases a)
    case (Extend_op e)
    then show ?thesis by (cases e) (auto intro: keep)
  qed (auto intro: keep)
  moreover have "keeps (step_trunc env fp c)" for c by (cases c) (auto intro: keep)
  then have "keeps (step_conv env fp c)" for c by (cases c) (auto intro: keep)
  moreover have "keeps (step_sat env c)" for c by (cases c) (auto intro: keep)
  ultimately show ?thesis by (cases op) simp_all
qed

lemma keeps_read_elems [keep]: "keeps (read_elems a w n)"
  by (induction n arbitrary: a) (simp_all, (intro keep)+)

lemma keeps_vec_shapes [keep]:
  "keeps (step_v128_unop f1)" "keeps (step_v128_binop f2)" "keeps (step_v128_ternop f3)" "keeps (step_v128_test f4)" "keeps (step_v128_shift f5)"
  "keeps (step_v128_splat rd f6)" "keeps (step_extract_lane f7)" "keeps (step_replace_lane rd2 f8)" "keeps (step_v128_load w n f9 off)"
  "keeps (step_v128_store off)" "keeps (step_v128_load_lane w f10 off)" "keeps (step_v128_store_lane f11 off)"
  unfolding step_v128_unop_def step_v128_binop_def step_v128_ternop_def step_v128_test_def step_v128_shift_def step_v128_splat_def
    step_extract_lane_def step_replace_lane_def step_v128_load_def step_v128_store_def step_v128_load_lane_def step_v128_store_lane_def
    pop_v128_def push_v128_def pop_ui32_def
  by (intro keep)+

lemma keeps_vec_groups [keep]:
  "keeps (step_vec_lane c i)" "keeps (step_vec_memory c off)" "keeps (step_vec_lane_memory c off i)" "keeps (step_vec_splat c)"
  unfolding step_vec_lane_def step_vec_memory_def step_vec_lane_memory_def step_vec_splat_def
  by (intro keep)+

lemma keeps_vec [keep]: "keeps (step_vec sf op)"
  by (cases op) (auto simp: step_vec_numeric_def split: option.split intro!: keep)

lemma keeps_step: "keeps (step env op)"
  by (cases op) (auto simp: step_br_table_def step_call_indirect_def step_select_def Let_def intro!: keep)

lemma run_keeps: "run env n x = Some (r, x') \<Longrightarrow> fixed x' = fixed x"
proof (induction n arbitrary: x)
  case (Suc n)
  have st: "fixed (snd (step env op x)) = fixed x" for op
    using keeps_step by (simp add: keeps_def)
  from Suc show ?case
    by (auto split: sum.splits if_splits prod.splits) (metis st snd_conv)+
qed simp

section \<open>\<open>execute\<close> restores the context\<close>

lemma keeps_enter: "keeps (enter_function i args)" "keeps (start_function i)" "keeps (execute_result i)"
  unfolding enter_function_def start_function_def execute_result_def type_check_args_def
  by (intro keep)+

lemma keepsD: "keeps m \<Longrightarrow> m x = (r, y) \<Longrightarrow> fixed y = fixed x"
  by (metis keeps_def snd_conv)

lemma execute_cleanup:
  assumes r: "execute env fuel fi args x = Some (r, x')" and fi: "fi < 0xFFFFFFFF"
  shows "\<exists>y. x' = cleanup x y
    \<and> fixed y = fixed (x\<lparr>x_as_index := ucast (st_size (x_as x)), x_os_index := ucast (operands_size x)\<rparr>)"
proof -
  let ?x1 = "x\<lparr>x_as_index := ucast (st_size (x_as x)), x_os_index := ucast (operands_size x)\<rparr>" and ?i = "unat fi"
  obtain e2 x2 where e2: "enter_function ?i args ?x1 = (e2, x2)" by fastforce
  have k2: "fixed x2 = fixed ?x1" by (rule keepsD [OF keeps_enter(1) e2])
  obtain h3 y3 where h3: "thenX (call_host (iv_host env) ?i) (execute_result ?i) x2 = (h3, y3)" by fastforce
  have k3: "fixed y3 = fixed ?x1" using keepsD [OF keeps_then [OF keeps_host keeps_enter(3)] h3] k2 by simp
  obtain s3 x3 where s3: "start_function ?i x2 = (s3, x3)" by fastforce
  have k4: "fixed x3 = fixed ?x1" using keepsD [OF keeps_enter(2) s3] k2 by simp
  have k5: "fixed x4 = fixed ?x1" if "run env fuel x3 = Some (t, x4)" for t x4 using run_keeps [OF that] k4 by simp
  have k6: "fixed x5 = fixed ?x1" if "run env fuel x3 = Some (t, x4)" "execute_result ?i x4 = (q, x5)" for t x4 q x5
    using keepsD [OF keeps_enter(3) that(2)] k5 [OF that(1)] by simp
  show ?thesis
    using r fi e2 h3 s3 k2 k3 k4 k5 k6 unfolding execute_def
    by (auto simp: Let_def split: sum.splits option.splits if_splits prod.splits)
qed

text \<open>
  C6: \<open>execute\<close> leaves no trace of the call in the context's control state, however it ends: when it returns a
  value, returns nothing, traps inside the code or in a host function, or refuses the arguments.  Program
  counter, local base, remaining call depth, saved indices and the heights of both stacks are those
  from before the call, so a nested execution cannot leak frames, operands or depth budget to its caller.
\<close>

theorem execute_restores:
  assumes "execute env fuel fi args x = Some (r, x')"
    and "operands_size x < 2 ^ 32" and "st_size (x_as x) < 2 ^ 32"
  shows "x_pc x' = x_pc x \<and> x_last_op_index x' = x_last_op_index x \<and> x_remaining_call_depth x' = x_remaining_call_depth x
     \<and> x_os_index x' = x_os_index x \<and> x_as_index x' = x_as_index x \<and> x_exiting x' = x_exiting x
     \<and> operands_size x' = operands_size x \<and> st_size (x_as x') = st_size (x_as x)
     \<and> x_mod x' = x_mod x \<and> x_code x' = x_code x"
proof (cases "fi < 0xFFFFFFFF")
  case True
  have cast: "ucast (ucast w :: u32) = w" if "w < 2 ^ 32" for w :: u64
  proof (rule word_unat_eq_iff [THEN iffD2])
    have "unat w < 2 ^ 32" using that by (simp add: word_less_nat_alt)
    then show "unat (ucast (ucast w :: u32) :: u64) = unat w" by (simp add: unat_ucast_up unsigned_ucast_eq unsigned_take_bit_eq take_bit_nat_eq_self)
  qed
  from execute_cleanup [OF assms(1) True] obtain y where y: "x' = cleanup x y" "x_mod y = x_mod x" "x_code y = x_code x"
    "x_as_index y = ucast (st_size (x_as x))" "x_os_index y = ucast (operands_size x)" by (auto simp: fixed_def)
  then show ?thesis using cast [OF assms(2)] cast [OF assms(3)]
    by (simp add: cleanup_def operands_size_def st_size_def st_eat_def)
next
  case False
  with assms(1) show ?thesis by (auto simp: execute_def)
qed

text \<open>A module with one function whose body is \<open>unreachable\<close>.\<close>

definition ex_trap_ctx :: ectx where
  "ex_trap_ctx = (ex_ctx [Unreachable_t, Return_t 0 0 1] [])\<lparr>x_mod := empty_module\<lparr>m_types := [\<lparr>form = 0x60, param_types = [],
     return_count = 0, return_type = 0\<rparr>], m_functions := [0], m_code := [\<lparr>fb_size = 2, fb_locals = [\<lparr>le_count = 3, le_type = t_i64\<rparr>],
     fb_code = 0, fb_stack_size = 1\<rparr>]\<rparr>\<rparr>"

lemma ex_trap_run: "map_option fst (execute ex_ienv 5 0 [] ex_trap_ctx) = Some (Inl Wasm_interpreter_exception)"
  by code_simp

theorem execute_restores_witness:
  "\<exists>x'. execute ex_ienv 5 0 [] ex_trap_ctx = Some (Inl Wasm_interpreter_exception, x') \<and> x_remaining_call_depth x' = 250
     \<and> operands_size x' = 0 \<and> st_size (x_as x') = 0 \<and> x_pc x' = At 0"
proof -
  obtain x' where r: "execute ex_ienv 5 0 [] ex_trap_ctx = Some (Inl Wasm_interpreter_exception, x')" using ex_trap_run by auto
  have "operands_size ex_trap_ctx = 0" "st_size (x_as ex_trap_ctx) = 0" "x_remaining_call_depth ex_trap_ctx = 250" "x_pc ex_trap_ctx = At 0"
    by (simp_all add: ex_trap_ctx_def ex_ctx_def operands_size_def st_size_def st_new_def)
  with execute_restores [OF r] r show ?thesis by simp
qed

section \<open>Calls and their returns\<close>

definition frames :: "activation_frame list \<Rightarrow> ectx \<Rightarrow> bool" where
  "frames fs x \<longleftrightarrow> wf_stack (x_as x) \<and> st_elems (x_as x) = fs"

lemma push_frame_ok:
  assumes "frames fs x" and "Suc (length fs) < 2 ^ 64" and "\<And>as. wf_stack as \<Longrightarrow> st_elems as = fs @ [f] \<Longrightarrow> Q () (x\<lparr>x_as := as\<rparr>)"
  shows "okX (push_frame f) x Q"
proof -
  from st_push_law [of "x_as x" new_frame f] assms(1,2) obtain as where
    "st_push new_frame f (x_as x) = Inr as" "wf_stack as" "st_elems as = fs @ [f]" by (auto simp: frames_def)
  then show ?thesis using assms(3) by (simp add: push_frame_def)
qed

lemma pop_call_ok:
  assumes "frames (fs @ [f]) x" and "\<And>as. wf_stack as \<Longrightarrow> st_elems as = fs \<Longrightarrow> Q f (x\<lparr>x_as := as\<rparr>)"
  shows "okX pop_call x Q"
proof -
  from st_pop_law [of "x_as x" fs f] assms(1) obtain as where
    "st_pop (x_as x) = Inr (f, as)" "wf_stack as" "st_elems as = fs" by (auto simp: frames_def)
  then show ?thesis using assms(2) by (simp add: pop_call_def)
qed

text \<open>The values \<open>setup_locals\<close> pushes.\<close>

fun local_zeros :: "local_entry list \<Rightarrow> const_op list res" where
  "local_zeros [] = Inr []"
| "local_zeros (l # ls) = bindE (if le_count l = 0 then Inr [] else bindE (zero_of (le_type l)) (\<lambda>z. Inr (replicate (unat (le_count l)) z)))
     (\<lambda>zs. bindE (local_zeros ls) (\<lambda>zs'. Inr (zs @ zs')))"

lemma push_zeros_ok:
  assumes "zero_of t = Inr z"
  shows "operands xs x \<Longrightarrow> length xs + n < 2 ^ 32 \<Longrightarrow>
    okX (push_zeros n t) x (\<lambda>_ x'. same_rest x x' \<and> operands (xs @ replicate n z) x')"
proof (induction n arbitrary: xs x)
  case (Suc n)
  have room: "Suc (length xs) < 2 ^ 32" using Suc.prems(2) by simp
  show ?case
    unfolding push_zeros.simps okX_bind okX_then assms okX_lift
  proof (rule push_ok [OF Suc.prems(1) room])
    fix x1 assume s: "same_rest x x1" and o1: "operands (xs @ [z]) x1"
    show "okX (push_zeros n t) x1 (\<lambda>_ x'. same_rest x x' \<and> operands (xs @ replicate (Suc n) z) x')"
      using Suc.IH [OF o1] Suc.prems(2) same_rest_trans [OF s] by (auto elim!: okX_mono simp: replicate_append_same)
  qed
qed simp

lemma setup_local_entries_ok:
  "local_zeros ls = Inr zs \<Longrightarrow> operands xs x \<Longrightarrow> length xs + length zs < 2 ^ 32 \<Longrightarrow>
    okX (setup_local_entries ls) x (\<lambda>_ x'. same_rest x x' \<and> operands (xs @ zs) x')"
proof (induction ls arbitrary: xs x zs)
  case (Cons l ls)
  from Cons.prems(1) obtain z1 z2 where z: "zs = z1 @ z2" "local_zeros ls = Inr z2"
    and z1: "le_count l = 0 \<and> z1 = [] \<or> (\<exists>z. zero_of (le_type l) = Inr z \<and> z1 = replicate (unat (le_count l)) z)"
    by (auto simp: res_simps split: if_splits)
  have "okX (push_zeros (unat (le_count l)) (le_type l)) x (\<lambda>_ x'. same_rest x x' \<and> operands (xs @ z1) x')"
    using z1 push_zeros_ok [of "le_type l" _ xs x "unat (le_count l)"] Cons.prems(2,3) z(1) by auto
  then show ?case
    unfolding setup_local_entries.simps okX_then
  proof (rule okX_mono, clarify)
    fix x1 assume s: "same_rest x x1" and o1: "operands (xs @ z1) x1"
    show "okX (setup_local_entries ls) x1 (\<lambda>_ x'. same_rest x x' \<and> operands (xs @ zs) x')"
      using Cons.IH [OF z(2) o1] Cons.prems(3) z(1) same_rest_trans [OF s] by (auto elim!: okX_mono)
  qed
qed simp

text \<open>A function of the module that can be entered: its type, the address and zeroed locals of its body, its cost.\<close>

definition callable :: "vm_module \<Rightarrow> nat \<Rightarrow> func_type \<Rightarrow> nat \<Rightarrow> const_op list \<Rightarrow> u32 \<Rightarrow> bool" where
  "callable m i ft a zs cost \<longleftrightarrow> \<not> i < get_imported_functions_size m \<and> get_function_type m i = Inr ft \<and> get_function_pc m i = Inr a
     \<and> (\<exists>fb. at_unchecked (m_code m) (i - get_imported_functions_size m) = Inr fb \<and> local_zeros (fb_locals fb) = Inr zs)
     \<and> get_function_stack_size m i = Inr cost"

definition entered :: "ectx \<Rightarrow> const_op list \<Rightarrow> const_op list \<Rightarrow> activation_frame list \<Rightarrow> nat \<Rightarrow> u32 \<Rightarrow> nat \<Rightarrow> ectx \<Rightarrow> bool" where
  "entered x xs ys fs p cost a y \<longleftrightarrow> operands (xs @ ys) y
     \<and> frames (fs @ [\<lparr>af_pc = At (Suc p), af_last_op_index = x_last_op_index x\<rparr>]) y
     \<and> x_last_op_index y = of_nat (length xs) \<and> x_remaining_call_depth y = x_remaining_call_depth x - cost
     \<and> x_pc y = slot_of (x_mod x) a \<and> x_mod y = x_mod x \<and> x_alloc y = x_alloc x"

lemma ucast_diff_length:
  assumes "operands (xs @ ys) x"
  shows "ucast (operands_size x - of_nat (length ys)) = (of_nat (length xs) :: u32)"
proof -
  have "operands_size x - of_nat (length ys) = (of_nat (length xs) :: u64)" by (simp add: operands_size_word [OF assms])
  moreover have "ucast (of_nat (length xs) :: u64) = (of_nat (length xs) :: u32)"
    by (simp add: word_unat_eq_iff unsigned_ucast_eq unsigned_of_nat)
  ultimately show ?thesis by simp
qed

lemma call_enters:
  assumes c: "callable (x_mod x) i ft a zs cost" and os: "operands (xs @ args) x" and n: "length args = length (param_types ft)"
    and fs: "frames fs x" "Suc (length fs) < 2 ^ 64" and pc: "x_pc x = At p" and d: "cost \<le> x_remaining_call_depth x"
    and room: "length xs + length args + length zs < 2 ^ 32"
  shows "okX (call_fn host i) x (\<lambda>_ y. entered x xs (args @ zs) fs p cost a y)"
proof -
  let ?m = "x_mod x"
  from c obtain fb where ft: "get_function_type ?m i = Inr ft" and a: "get_function_pc ?m i = Inr a" and imp: "\<not> i < get_imported_functions_size ?m"
    and fb: "at_unchecked (m_code ?m) (i - get_imported_functions_size ?m) = Inr fb" "local_zeros (fb_locals fb) = Inr zs"
    and cost: "get_function_stack_size ?m i = Inr cost" by (auto simp: callable_def)
  have base: "ucast (operands_size x - of_nat (length (param_types ft))) = (of_nat (length xs) :: u32)"
    using ucast_diff_length [OF os] n by simp
  let ?Q = "\<lambda>_ y. entered x xs args fs p cost a (y\<lparr>x_pc := slot_of ?m a\<rparr>) \<and> x_mod y = ?m"
  have push: "okX (push_call False i) x ?Q"
    unfolding push_call_def Let_def okX_with okX_bind cost okX_lift okX_check okX_then okX_mod ft
    by (intro conjI d push_frame_ok [of fs])
      (use fs os pc base in \<open>simp_all add: entered_def frames_def operands_def operands_size_def\<close>)
  show ?thesis
    unfolding call_fn_def Let_def okX_with if_not_P [OF imp] okX_then
  proof (rule okX_mono [OF push], clarify)
    fix y assume e: "entered x xs args fs p cost a (y\<lparr>x_pc := slot_of ?m a\<rparr>)" and m: "x_mod y = ?m"
    have oy: "operands (xs @ args) y" using e by (simp add: entered_def operands_def)
    have "okX (setup_locals i) y (\<lambda>_ z. same_rest y z \<and> operands ((xs @ args) @ zs) z)"
      unfolding setup_locals_def okX_with m okX_bind fb(1) okX_lift
      by (rule setup_local_entries_ok [OF fb(2) oy]) (use room in simp)
    then show "okX (setup_locals i) y (\<lambda>_ x'. okX (bindX (liftX (get_function_pc ?m i)) (\<lambda>a. goto_pc (slot_of ?m a))) x'
        (\<lambda>_ y. entered x xs (args @ zs) fs p cost a y))"
    proof (rule okX_mono, clarify)
      fix z assume s: "same_rest y z" and oz: "operands ((xs @ args) @ zs) z"
      show "okX (bindX (liftX (get_function_pc ?m i)) (\<lambda>a. goto_pc (slot_of ?m a))) z (\<lambda>_ y. entered x xs (args @ zs) fs p cost a y)"
        using e oz same_rest_fields [OF s] by (simp add: a goto_pc_def entered_def frames_def operands_def)
    qed
  qed
qed

lemma unat_ucast_height:
  assumes "operands (xs @ ys) x"
  shows "unat (ucast (operands_size x - of_nat (length ys)) :: u32) = length xs"
  unfolding ucast_diff_length [OF assms] using assms by (intro unat_of_nat_small) (simp add: operands_def)

lemma frames_update [simp]:
  "frames fs (x\<lparr>x_pc := p, x_last_op_index := l\<rparr>) \<longleftrightarrow> frames fs x" "frames fs (x\<lparr>x_os := os\<rparr>) \<longleftrightarrow> frames fs x"
  "frames fs (x_remaining_call_depth_update g x) \<longleftrightarrow> frames fs x"
  by (simp_all add: frames_def)

lemma return_ok:
  assumes os: "operands (xs @ ws @ res) z" and nl: "unat nl = length ws" and res: "length res = (if rc \<noteq> 0 then 1 else 0)"
    and fr: "frames (fs @ [f]) z"
  shows "okX (apply_pop_call nl rc cost) z (\<lambda>_ y. operands (xs @ res) y \<and> frames fs y \<and> x_pc y = af_pc f
    \<and> x_last_op_index y = af_last_op_index f \<and> x_remaining_call_depth y = x_remaining_call_depth z + cost
    \<and> x_mod y = x_mod z \<and> x_alloc y = x_alloc z)"
proof -
  have nl': "ucast nl = (of_nat (length ws) :: u64)" using nl [symmetric] by simp
  let ?Q = "\<lambda>y. operands (xs @ res) y \<and> frames fs y \<and> x_pc y = af_pc f \<and> x_last_op_index y = af_last_op_index f
    \<and> x_remaining_call_depth y = x_remaining_call_depth z + cost \<and> x_mod y = x_mod z \<and> x_alloc y = x_alloc z"
  have "okX (withX operands_size (\<lambda>sz. if rc \<noteq> 0 then compact_operand (ucast (sz - ucast nl - 1)) else eat_operands (ucast (sz - ucast nl))))
      z1 (\<lambda>_ y. same_rest z1 y \<and> operands (xs @ res) y)" if o1: "operands (xs @ ws @ res) z1" for z1
  proof (cases "rc = 0")
    case True
    then have "operands (xs @ ws) z1" "res = []" using o1 res by simp_all
    from eat_ok [OF this(1), of "ucast (operands_size z1 - ucast nl)" "\<lambda>_ y. same_rest z1 y \<and> operands (xs @ res) y"]
      unat_ucast_height [OF this(1)] True this(2) show ?thesis by (simp add: nl')
  next
    case False
    then obtain v where v: "res = [v]" using res by (cases res) auto
    have h: "operands (xs @ ws @ [v]) z1" using o1 v by simp
    have "operands_size z1 - ucast nl - 1 = operands_size z1 - of_nat (length (ws @ [v]))" by (simp add: nl' diff_diff_eq)
    with unat_ucast_height [OF h] have "unat (ucast (operands_size z1 - ucast nl - 1) :: u32) = length xs" by (simp only:)
    from compact_ok [OF h this, of "\<lambda>_ y. same_rest z1 y \<and> operands (xs @ res) y"] False v show ?thesis by simp
  qed
  note adjust = this
  have "okX (apply_pop_call nl rc cost) z (\<lambda>_. ?Q)"
    unfolding apply_pop_call_def okX_bind okX_then okX_mod
  proof (rule pop_call_ok [OF fr])
    fix as assume as: "wf_stack as" "st_elems as = fs"
    let ?z1 = "z\<lparr>x_as := as, x_pc := af_pc f, x_last_op_index := af_last_op_index f\<rparr>"
    have o1: "operands (xs @ ws @ res) ?z1" using os by (simp add: operands_def)
    show "okX (withX operands_size (\<lambda>sz. if rc \<noteq> 0 then compact_operand (ucast (sz - ucast nl - 1)) else eat_operands (ucast (sz - ucast nl))))
      ?z1 (\<lambda>_ x'. ?Q (x_remaining_call_depth_update (\<lambda>d. d + cost) x'))"
      using adjust [OF o1]
    proof (rule okX_mono, clarify)
      fix y assume s: "same_rest ?z1 y" and o: "operands (xs @ res) y"
      note same_rest_fields [OF s]
      with as o show "?Q (x_remaining_call_depth_update (\<lambda>d. d + cost) y)" by (simp add: operands_def frames_def)
    qed
  qed
  then show ?thesis .
qed

text \<open>
  C5: a call and the return of the called function balance.  After \<open>call\<close>, the arguments have become the first
  locals, the declared locals follow as zeros, and the budget has paid for the frame; and in any later state
  of that activation, whatever it did to its locals, the memory and the operands above them, the
  function's \<open>return\<close> drops the locals, keeps the result, gives the budget back and continues the caller
  behind the call with its own local base.
\<close>

theorem call_return_balanced:
  assumes "callable (x_mod x) (unat i) ft a zs cost" and "operands (xs @ args) x" and "length args = length (param_types ft)"
    and "frames fs x" "Suc (length fs) < 2 ^ 64" and "x_pc x = At p" and "cost \<le> x_remaining_call_depth x"
    and "length xs + length args + length zs < 2 ^ 32"
  shows "okX (step env (Call_t i)) x (\<lambda>_ y. entered x xs (args @ zs) fs p cost a y
    \<and> (\<forall>z ws res rc. x_as z = x_as y \<longrightarrow> x_remaining_call_depth z = x_remaining_call_depth y \<longrightarrow> operands (xs @ ws @ res) z
        \<longrightarrow> length ws = length (args @ zs) \<longrightarrow> length res = (if (ucast rc :: u16) \<noteq> 0 then 1 else 0)
        \<longrightarrow> okX (step env (Return_t (of_nat (length ws)) rc cost)) z (\<lambda>_ y'. operands (xs @ res) y' \<and> frames fs y'
          \<and> x_pc y' = At (Suc p) \<and> x_last_op_index y' = x_last_op_index x
          \<and> x_remaining_call_depth y' = x_remaining_call_depth x \<and> x_alloc y' = x_alloc z)))"
  unfolding step.simps
proof (rule okX_mono [OF call_enters [OF assms]], intro conjI allI impI)
  fix y z ws res rc
  assume e: "entered x xs (args @ zs) fs p cost a y" and z: "x_as z = x_as y" "x_remaining_call_depth z = x_remaining_call_depth y"
    and os: "operands (xs @ ws @ res) z" and len: "length ws = length (args @ zs)" and res: "length res = (if (ucast rc :: u16) \<noteq> 0 then 1 else 0)"
  have nl: "unat (of_nat (length ws) :: u32) = length ws" using os by (intro unat_of_nat_small) (simp add: operands_def)
  have fr: "frames (fs @ [\<lparr>af_pc = At (Suc p), af_last_op_index = x_last_op_index x\<rparr>]) z"
    using e z(1) by (simp add: entered_def frames_def)
  have "okX (apply_pop_call (of_nat (length ws)) (ucast rc) cost) z (\<lambda>_ y'. operands (xs @ res) y' \<and> frames fs y'
      \<and> x_pc y' = At (Suc p) \<and> x_last_op_index y' = x_last_op_index x
      \<and> x_remaining_call_depth y' = x_remaining_call_depth z + cost \<and> x_mod y' = x_mod z \<and> x_alloc y' = x_alloc z)"
    using return_ok [OF os nl res fr, of cost] by simp
  then show "okX (apply_pop_call (of_nat (length ws)) (ucast rc) cost) z (\<lambda>_ y'. operands (xs @ res) y' \<and> frames fs y'
      \<and> x_pc y' = At (Suc p) \<and> x_last_op_index y' = x_last_op_index x \<and> x_remaining_call_depth y' = x_remaining_call_depth x
      \<and> x_alloc y' = x_alloc z)"
    by (rule okX_mono) (use e z(2) in \<open>simp add: entered_def\<close>)
qed

text \<open>A module with \<open>(i32) -> i32\<close> functions, the caller at slot 7.\<close>

definition ex_call_ctx :: ectx where
  "ex_call_ctx = (ex_ctx [] [I64_const_t 9, I32_const_t 5])\<lparr>x_pc := At 7, x_last_op_index := 1,
     x_mod := empty_module\<lparr>m_types := [\<lparr>form = 0x60, param_types = [t_i32], return_count = 1, return_type = t_i32\<rparr>], m_functions := [0],
       m_code := [\<lparr>fb_size = 2, fb_locals = [\<lparr>le_count = 2, le_type = t_i64\<rparr>], fb_code = 0, fb_stack_size = 1\<rparr>]\<rparr>\<rparr>"

theorem call_return_balanced_witness:
  "okX (step ex_ienv (Call_t 0)) ex_call_ctx (\<lambda>_ y. operands [I64_const_t 9, I32_const_t 5, I64_const_t 0, I64_const_t 0] y
    \<and> x_last_op_index y = 1 \<and> x_remaining_call_depth y = 249 \<and> x_pc y = At 0
    \<and> (\<forall>z. x_as z = x_as y \<longrightarrow> x_remaining_call_depth z = 249 \<longrightarrow> operands [I64_const_t 9, I32_const_t 6, I64_const_t 1, I64_const_t 2, I32_const_t 8] z
        \<longrightarrow> okX (step ex_ienv (Return_t 3 1 1)) z (\<lambda>_ y'. operands [I64_const_t 9, I32_const_t 8] y' \<and> x_pc y' = At 8
              \<and> x_last_op_index y' = 1 \<and> x_remaining_call_depth y' = 250)))"
proof -
  let ?m = "x_mod ex_call_ctx" and ?ft = "\<lparr>form = 0x60, param_types = [t_i32], return_count = 1, return_type = t_i32\<rparr>"
  have m: "?m = empty_module\<lparr>m_types := [?ft], m_functions := [0],
       m_code := [\<lparr>fb_size = 2, fb_locals = [\<lparr>le_count = 2, le_type = t_i64\<rparr>], fb_code = 0, fb_stack_size = 1\<rparr>]\<rparr>"
    by (simp add: ex_call_ctx_def)
  have two: "replicate 2 z = [z, z]" for z :: const_op by (simp add: numeral_2_eq_2)
  have c: "callable ?m (unat (0 :: u32)) ?ft 0 [I64_const_t 0, I64_const_t 0] 1"
    unfolding m by (simp add: callable_def empty_module_def get_imported_functions_size_def get_function_type_def get_function_pc_def
        get_function_stack_size_def at_checked_def at_unchecked_def zero_of_def two)
  have os: "operands ([I64_const_t 9] @ [I32_const_t 5]) ex_call_ctx"
    using ex_ctx_operands [of "[I64_const_t 9, I32_const_t 5]" "[]"] by (simp add: ex_call_ctx_def operands_def)
  have fr: "frames [] ex_call_ctx" by (simp add: ex_call_ctx_def ex_ctx_def frames_def st_new_def wf_stack_def st_elems_def)
  have slot: "slot_of ?m 0 = At 0" by (simp add: slot_of_def)
  have pc: "x_pc ex_call_ctx = At 7" "x_remaining_call_depth ex_call_ctx = 250" "x_last_op_index ex_call_ctx = 1"
    by (simp_all add: ex_call_ctx_def ex_ctx_def)
  let ?ws = "[I32_const_t 6, I64_const_t 1, I64_const_t 2]"
  show ?thesis
  proof (rule okX_mono [OF call_return_balanced [OF c os _ fr _ pc(1), where env = ex_ienv]])
    fix y assume y: "entered ex_call_ctx [I64_const_t 9] ([I32_const_t 5] @ [I64_const_t 0, I64_const_t 0]) [] 7 1 0 y
      \<and> (\<forall>z ws res rc. x_as z = x_as y \<longrightarrow> x_remaining_call_depth z = x_remaining_call_depth y \<longrightarrow> operands ([I64_const_t 9] @ ws @ res) z
        \<longrightarrow> length ws = length ([I32_const_t 5] @ [I64_const_t 0, I64_const_t 0]) \<longrightarrow> length res = (if (ucast rc :: u16) \<noteq> 0 then 1 else 0)
        \<longrightarrow> okX (step ex_ienv (Return_t (of_nat (length ws)) rc 1)) z (\<lambda>_ y'. operands ([I64_const_t 9] @ res) y' \<and> frames [] y'
          \<and> x_pc y' = At (Suc 7) \<and> x_last_op_index y' = x_last_op_index ex_call_ctx
          \<and> x_remaining_call_depth y' = x_remaining_call_depth ex_call_ctx \<and> x_alloc y' = x_alloc z))"
    then have e: "operands [I64_const_t 9, I32_const_t 5, I64_const_t 0, I64_const_t 0] y" "x_last_op_index y = 1"
      "x_remaining_call_depth y = 249" "x_pc y = At 0" using slot pc by (simp_all add: entered_def)
    have "okX (step ex_ienv (Return_t 3 1 1)) z (\<lambda>_ y'. operands [I64_const_t 9, I32_const_t 8] y' \<and> x_pc y' = At 8
              \<and> x_last_op_index y' = 1 \<and> x_remaining_call_depth y' = 250)"
      if "x_as z = x_as y" "x_remaining_call_depth z = 249" "operands ([I64_const_t 9] @ ?ws @ [I32_const_t 8]) z" for z
      using conjunct2 [OF y, rule_format, of z ?ws "[I32_const_t 8]" 1] that e pc
      by (auto simp del: step.simps elim!: okX_mono)
    with e show "operands [I64_const_t 9, I32_const_t 5, I64_const_t 0, I64_const_t 0] y
      \<and> x_last_op_index y = 1 \<and> x_remaining_call_depth y = 249 \<and> x_pc y = At 0
      \<and> (\<forall>z. x_as z = x_as y \<longrightarrow> x_remaining_call_depth z = 249 \<longrightarrow> operands [I64_const_t 9, I32_const_t 6, I64_const_t 1, I64_const_t 2, I32_const_t 8] z
        \<longrightarrow> okX (step ex_ienv (Return_t 3 1 1)) z (\<lambda>_ y'. operands [I64_const_t 9, I32_const_t 8] y' \<and> x_pc y' = At 8
              \<and> x_last_op_index y' = 1 \<and> x_remaining_call_depth y' = 250))" by simp
  qed (use pc in simp_all)
qed

end
