(* ===== verification/Vm_Reset.thy ===== *)
theory Vm_Reset
  imports Vm_Call_Props
begin

text \<open>
  \<open>reset()\<close>: the state in which a module starts.  The linear memory is the image the data segments describe,
  the table the one the element segments describe, globals have their initial values, the stacks are
  empty, and active and declarative segments count as dropped.
\<close>

section \<open>The images\<close>

definition data_offset :: "data_segment \<Rightarrow> nat" where
  "data_offset seg = unat (ucast (ie_value (ds_offset seg)) :: u32)"

definition elem_offset :: "elem_segment \<Rightarrow> nat" where
  "elem_offset seg = unat (ucast (ie_value (es_offset seg)) :: u32)"

definition data_fits :: "nat \<Rightarrow> data_segment \<Rightarrow> bool" where
  "data_fits n seg \<longleftrightarrow> ds_passive seg \<or> data_offset seg + length (ds_data seg) \<le> n"

definition elem_fits :: "nat \<Rightarrow> elem_segment \<Rightarrow> bool" where
  "elem_fits n seg \<longleftrightarrow> es_mode seg \<noteq> Active \<or> elem_offset seg + length (es_elems seg) \<le> n"

definition place_one :: "data_segment \<Rightarrow> (nat \<Rightarrow> u8) \<Rightarrow> nat \<Rightarrow> u8" where
  "place_one seg m = (if ds_passive seg then m else write_bytes (data_offset seg) (ds_data seg) m)"

definition memory_image :: "data_segment list \<Rightarrow> (nat \<Rightarrow> u8) \<Rightarrow> nat \<Rightarrow> u8" where
  "memory_image segs m = fold place_one segs m"

definition table_image :: "elem_segment list \<Rightarrow> table_entry list \<Rightarrow> table_entry list" where
  "table_image segs t = fold (\<lambda>seg t. if es_mode seg = Active then write_entries (elem_offset seg) (es_elems seg) t else t) segs t"

section \<open>Data segments\<close>

lemma write_bytes_Nil [simp]: "write_bytes a [] m = m"
  by (auto simp: write_bytes_def fun_eq_iff)

lemma set_raw_self [simp]: "set_raw (mem x) x = x"
  by (simp add: set_raw_def)

lemma copy_segment_ok: "okX (copy_segment a bs) x Q \<longleftrightarrow> a + length bs \<le> mem_bytes x \<and> Q () (set_raw (write_bytes a bs (mem x)) x)"
  by (auto simp: copy_segment_def accessible_def)

definition placed :: "ectx \<Rightarrow> (nat \<Rightarrow> u8) \<Rightarrow> bool list \<Rightarrow> ectx" where
  "placed x m ds = (set_raw m x)\<lparr>x_dropped_data := ds\<rparr>"

text \<open>Marking the segments that satisfy \<open>P\<close>, one after the other.\<close>

definition mark :: "('s \<Rightarrow> bool) \<Rightarrow> nat \<Rightarrow> 's list \<Rightarrow> bool list \<Rightarrow> bool list" where
  "mark P i segs ds = fold (\<lambda>(j, seg) ds. if P seg then ds[j := True] else ds) (enumerate i segs) ds"

lemma mark_simps [simp]:
  "mark P i [] ds = ds" "mark P i (seg # segs) ds = mark P (Suc i) segs (if P seg then ds[i := True] else ds)"
  by (simp_all add: mark_def)

lemma mark_fresh: "length pre = i \<Longrightarrow> mark P i segs (pre @ replicate (length segs) False) = pre @ map P segs"
proof (induction segs arbitrary: i pre)
  case (Cons seg segs)
  have "mark P i (seg # segs) (pre @ replicate (length (seg # segs)) False)
      = mark P (Suc i) segs ((pre @ [P seg]) @ replicate (length segs) False)"
    using Cons.prems by (simp add: list_update_append)
  also have "\<dots> = (pre @ [P seg]) @ map P segs" by (rule Cons.IH) (use Cons.prems in simp)
  finally show ?case by simp
qed simp

lemma place_data_ok:
  assumes "m_memories (x_mod x) = lim # ms" and "mem_bytes x = unat (lim_initial lim) * page_size"
    and "list_all (data_fits (mem_bytes x)) segs"
  shows "okX (place_data i segs) x (\<lambda>_ y. y = placed x (memory_image segs (mem x))
     (mark (\<lambda>seg. \<not> ds_passive seg) i segs (x_dropped_data x)))"
  using assms
proof (induction segs arbitrary: i x)
  case Nil
  then show ?case by (cases x) (simp add: placed_def memory_image_def set_raw_def)
next
  case (Cons seg segs)
  show ?case
  proof (cases "ds_passive seg")
    case True
    then show ?thesis using Cons.IH [OF Cons.prems(1,2)] Cons.prems(3) by (simp add: memory_image_def place_one_def)
  next
    case False
    let ?x1 = "placed x (place_one seg (mem x)) ((x_dropped_data x)[i := True])"
    have fit: "data_offset seg + length (ds_data seg) \<le> unat (lim_initial lim) * page_size"
      using Cons.prems False by (simp add: data_fits_def)
    have drop: "x_dropped_data_update (\<lambda>ds. ds[i := True]) (set_raw (place_one seg (mem x)) x) = ?x1"
      by (cases x) (simp add: placed_def set_raw_def)
    have empty: "set_raw (place_one seg (mem x)) x = x" if "ds_data seg = []" using that False by (simp add: place_one_def)
    have wrt: "write_bytes (data_offset seg) (ds_data seg) (mem x) = place_one seg (mem x)" using False by (simp add: place_one_def)
    have x1: "m_memories (x_mod ?x1) = lim # ms" "mem_bytes ?x1 = unat (lim_initial lim) * page_size"
      "list_all (data_fits (mem_bytes ?x1)) segs" using Cons.prems by (simp_all add: placed_def set_raw_def)
    have step: "okX (place_data i (seg # segs)) x Q \<longleftrightarrow> okX (place_data (Suc i) segs) ?x1 Q" for Q
      using fit False Cons.prems(1,2) drop empty wrt
      by (cases "ds_data seg = []") (simp_all add: at_unchecked_def Let_def copy_segment_ok data_offset_def)
    show ?thesis
      unfolding step using Cons.IH [OF x1, of "Suc i"] False
      by (simp add: memory_image_def placed_def set_raw_def)
  qed
qed

lemma place_data_mark:
  assumes "m_memories (x_mod x) = lim # ms" and "mem_bytes x = unat (lim_initial lim) * page_size"
    and "list_all (data_fits (mem_bytes x)) segs" and "x_dropped_data x = replicate (length segs) False"
  shows "okX (place_data 0 segs) x (\<lambda>_ y. y = placed x (memory_image segs (mem x)) (map (\<lambda>seg. \<not> ds_passive seg) segs))"
  using place_data_ok [OF assms(1-3), of 0] mark_fresh [of "[]" 0 "\<lambda>seg. \<not> ds_passive seg" segs] assms(4) by simp

section \<open>Element segments\<close>

lemma place_elems_ok:
  assumes "list_all (elem_fits n) segs"
  shows "okX (place_elems n i segs) x (\<lambda>_ y. y = x\<lparr>x_table := table_image segs (x_table x),
     x_dropped_elems := mark (\<lambda>seg. es_mode seg \<noteq> Passive) i segs (x_dropped_elems x)\<rparr>)"
  using assms
proof (induction segs arbitrary: i x)
  case Nil
  then show ?case by (cases x) (simp add: table_image_def)
next
  case (Cons seg segs)
  then show ?case
  proof (cases "es_mode seg")
    case Active
    let ?x1 = "x\<lparr>x_table := write_entries (elem_offset seg) (es_elems seg) (x_table x), x_dropped_elems := (x_dropped_elems x)[i := True]\<rparr>"
    have "elem_offset seg + length (es_elems seg) \<le> n" using Cons.prems Active by (simp add: elem_fits_def)
    moreover have "okX (place_elems n (Suc i) segs) ?x1 (\<lambda>_ y. y = ?x1\<lparr>x_table := table_image segs (x_table ?x1),
        x_dropped_elems := mark (\<lambda>seg. es_mode seg \<noteq> Passive) (Suc i) segs (x_dropped_elems ?x1)\<rparr>)"
      by (rule Cons.IH) (use Cons.prems in simp)
    ultimately show ?thesis using Active by (simp add: table_image_def Let_def elem_offset_def)
  next
    case Declarative
    have eq: "x_dropped_elems_update (\<lambda>ds. ds[i := True]) x = x\<lparr>x_dropped_elems := (x_dropped_elems x)[i := True]\<rparr>" by (cases x) simp
    have "okX (place_elems n (Suc i) segs) (x\<lparr>x_dropped_elems := (x_dropped_elems x)[i := True]\<rparr>)
        (\<lambda>_ y. y = x\<lparr>x_table := table_image segs (x_table x),
        x_dropped_elems := mark (\<lambda>seg. es_mode seg \<noteq> Passive) (Suc i) segs ((x_dropped_elems x)[i := True])\<rparr>)"
      using Cons.IH [of "Suc i" "x\<lparr>x_dropped_elems := (x_dropped_elems x)[i := True]\<rparr>"] Cons.prems by simp
    then show ?thesis using Declarative by (simp add: table_image_def eq)
  qed (use Cons.IH [of "Suc i" x] Cons.prems in \<open>simp add: table_image_def\<close>)
qed

section \<open>The whole reset\<close>

definition fresh_state :: "ectx \<Rightarrow> bool" where
  "fresh_state y \<longleftrightarrow> x_globals y = map gv_init (m_globals (x_mod y)) \<and> operands_size y = 0 \<and> st_size (x_as y) = 0
     \<and> x_pc y = Null_ptr \<and> \<not> x_exiting y \<and> x_dropped_data y = map (\<lambda>seg. \<not> ds_passive seg) (m_data (x_mod y))"

definition fresh_memory :: "ectx \<Rightarrow> resizable_limits \<Rightarrow> bool" where
  "fresh_memory y lim \<longleftrightarrow> wa_page (x_alloc y) = int (unat (lim_initial lim))
     \<and> (\<forall>a < mem_bytes y. mem y a = memory_image (m_data (x_mod y)) (\<lambda>_. 0) a)"

definition fresh_table :: "ectx \<Rightarrow> table_type \<Rightarrow> bool" where
  "fresh_table y t \<longleftrightarrow> x_table y = table_image (m_elements (x_mod y)) (replicate (unat (lim_initial (tt_limits t))) null_entry)
     \<and> x_dropped_elems y = map (\<lambda>seg. es_mode seg \<noteq> Passive) (m_elements (x_mod y))"

lemma memory_image_local: "(\<And>a. a < n \<Longrightarrow> m a = m' a) \<Longrightarrow> a < n \<Longrightarrow> memory_image segs m a = memory_image segs m' a"
proof (induction segs arbitrary: m m')
  case (Cons seg segs)
  show ?case unfolding memory_image_def fold_simps comp_def
    by (rule Cons.IH [unfolded memory_image_def]) (use Cons.prems in \<open>auto simp: place_one_def write_bytes_def\<close>)
qed (simp add: memory_image_def)

definition resettable :: "ectx \<Rightarrow> resizable_limits \<Rightarrow> bool" where
  "resettable x lim \<longleftrightarrow> (\<exists>ms. m_memories (x_mod x) = lim # ms) \<and> lim_initial lim \<le> x_max_pages x \<and> unat (lim_initial lim) \<le> max_pages
     \<and> -1 \<le> wa_page (x_alloc x) \<and> wa_page (x_alloc x) \<le> int max_pages
     \<and> list_all (data_fits (unat (lim_initial lim) * page_size)) (m_data (x_mod x))
     \<and> (\<forall>t ts. m_tables (x_mod x) = t # ts \<longrightarrow> list_all (elem_fits (unat (lim_initial (tt_limits t)))) (m_elements (x_mod x)))"

text \<open>
  C7: a reset gives the instance the module describes.  Whatever an earlier execution left, when the
  initial memory is within the limits and the active segments fit, \<open>reset\<close> succeeds, and then the memory has
  its initial size and holds exactly the bytes of the active data segments, later ones over earlier
  ones, on zeros; the table holds the element segments on null entries; globals are initialised, both
  stacks are empty, and just the passive segments remain undropped.
\<close>

theorem reset_gives_instance:
  assumes "resettable x lim"
  shows "okX (reset_context True) x (\<lambda>_ y. x_mod y = x_mod x \<and> fresh_state y \<and> fresh_memory y lim
     \<and> (\<forall>t ts. m_tables (x_mod x) = t # ts \<longrightarrow> fresh_table y t))"
proof -
  let ?m = "x_mod x" and ?n = "unat (lim_initial lim)"
  from assms obtain ms where ms: "m_memories ?m = lim # ms" and le: "lim_initial lim \<le> x_max_pages x" and n: "?n \<le> max_pages"
    and pg: "-1 \<le> wa_page (x_alloc x)" "wa_page (x_alloc x) \<le> int max_pages" and fit: "list_all (data_fits (?n * page_size)) (m_data ?m)"
    and tfit: "\<And>t ts. m_tables ?m = t # ts \<Longrightarrow> list_all (elem_fits (unat (lim_initial (tt_limits t)))) (m_elements ?m)"
    by (auto simp: resettable_def)
  from wa_reset_pages_ok [OF pg n] obtain al where al: "wa_reset_pages True (lim_initial lim) (x_alloc x) = Inr al"
    "wa_page al = int ?n" "\<And>a. a < page_size * ?n \<Longrightarrow> wa_raw al a = 0" by blast
  define x2 where "x2 = x\<lparr>x_os := st_reset_capacity new_operand (x_os x), x_alloc := al,
    x_dropped_data := replicate (length (m_data ?m)) False\<rparr>"
  have b2: "mem_bytes x2 = ?n * page_size" by (simp add: x2_def wa_bytes_def al(2))
  have start: "okX (reset_base True) x Q \<longleftrightarrow> okX (place_data 0 (m_data ?m)) x2 (\<lambda>_ y.
      okX (case m_tables ?m of [] \<Rightarrow> retX () | t # _ \<Rightarrow> let initial = unat (lim_initial (tt_limits t)) in
            thenX (modX (\<lambda>y. y\<lparr>x_table := replicate initial null_entry, x_dropped_elems := replicate (length (m_elements ?m)) False\<rparr>))
              (place_elems initial 0 (m_elements ?m))) (x_globals_update (\<lambda>_. map gv_init (m_globals ?m)) y) Q)" for Q
    using le ms al(1) unfolding reset_base_def x2_def alloc_pages_def Let_def
    by (cases "m_tables ?m") (simp_all add: os_update_eq [of "st_reset_capacity new_operand" x])
  let ?y = "placed x2 (memory_image (m_data ?m) (mem x2)) (map (\<lambda>seg. \<not> ds_passive seg) (m_data ?m))"
  have place: "okX (place_data 0 (m_data ?m)) x2 (\<lambda>_ y. y = ?y)"
    by (rule place_data_mark [of _ lim ms]) (use ms fit b2 in \<open>simp_all add: x2_def\<close>)
  have img: "memory_image (m_data ?m) (wa_raw al) a = memory_image (m_data ?m) (\<lambda>_. 0) a" if "a < page_size * ?n" for a
    by (rule memory_image_local [of "page_size * ?n"]) (use al(3) that in simp_all)
  have marks: "mark (\<lambda>seg. es_mode seg \<noteq> Passive) 0 (m_elements ?m) (replicate (length (m_elements ?m)) False)
      = map (\<lambda>seg. es_mode seg \<noteq> Passive) (m_elements ?m)"
    using mark_fresh [of "[]" 0 "\<lambda>seg. es_mode seg \<noteq> Passive" "m_elements ?m"] by simp
  note fresh = fresh_state_def fresh_memory_def fresh_table_def placed_def set_raw_def x2_def operands_size_def st_size_def st_eat_def
    wa_bytes_def al(2) img
  show ?thesis
  proof (cases "m_tables ?m")
    case Nil
    show ?thesis
      unfolding reset_context_def okX_then start
      by (rule okX_mono [OF place]) (use Nil in \<open>simp add: fresh\<close>)
  next
    case (Cons t ts)
    show ?thesis
      unfolding reset_context_def okX_then start
      by (rule okX_mono [OF place], simp add: Cons Let_def, rule okX_mono [OF place_elems_ok [OF tfit [OF Cons]]])
        (use Cons marks in \<open>simp add: fresh\<close>)
  qed
qed

definition ex_reset_ctx :: ectx where
  "ex_reset_ctx = (ex_ctx [] [I32_const_t 1])\<lparr>x_mod := empty_module\<lparr>m_memories := [\<lparr>lim_flags = False, lim_initial = 1, lim_maximum = 0\<rparr>],
     m_data := [\<lparr>ds_index = 0, ds_offset = \<lparr>ie_opcode = 0x41, ie_value = 2\<rparr>, ds_passive = False, ds_data = [7, 8]\<rparr>,
                \<lparr>ds_index = 0, ds_offset = \<lparr>ie_opcode = 0x41, ie_value = 3\<rparr>, ds_passive = False, ds_data = [9]\<rparr>],
     m_tables := [\<lparr>element_type = 0x70, tt_limits = \<lparr>lim_flags = False, lim_initial = 2, lim_maximum = 0\<rparr>\<rparr>],
     m_elements := [\<lparr>es_index = 0, es_offset = \<lparr>ie_opcode = 0x41, ie_value = 1\<rparr>, es_mode = Active,
        es_elems = [\<lparr>te_type = 0, te_index = 4\<rparr>]\<rparr>]\<rparr>\<rparr>"

theorem reset_gives_instance_witness:
  "okX (reset_context True) ex_reset_ctx (\<lambda>_ y. mem y 1 = 0 \<and> mem y 2 = 7 \<and> mem y 3 = 9 \<and> mem_bytes y = 65536
     \<and> x_table y = [null_entry, \<lparr>te_type = 0, te_index = 4\<rparr>] \<and> operands_size y = 0 \<and> x_dropped_data y = [True, True])"
proof -
  let ?lim = "\<lparr>lim_flags = False, lim_initial = 1, lim_maximum = 0\<rparr>"
  have r: "resettable ex_reset_ctx ?lim"
    by (simp add: resettable_def ex_reset_ctx_def ex_ctx_def max_pages_value page_size_def data_fits_def elem_fits_def
        data_offset_def elem_offset_def)
  have two: "replicate 2 null_entry = [null_entry, null_entry]" by (simp add: numeral_2_eq_2)
  show ?thesis
    by (rule okX_mono [OF reset_gives_instance [OF r]])
      (simp add: fresh_state_def fresh_memory_def fresh_table_def wa_bytes_def page_size_def ex_reset_ctx_def memory_image_def place_one_def
        write_bytes_def data_offset_def table_image_def write_entries_def elem_offset_def two)
qed

end
