(* ===== verification/Vm_Softfloat_Props.thy ===== *)
theory Vm_Softfloat_Props
  imports Vm_Softfloat
begin

text \<open>
  What the floating-point wrappers compute.  A bit pattern of sign, exponent and \<open>p\<close> fraction bits has as its
  value a whole number of units of the least positive number of the format, so that values, infinities
  included, are integers and one is \<open>2 ^ (bias + p - 1)\<close>.  The rounding wrappers are written with masks and
  carries into the exponent; they are compared with division of these integers.
\<close>

section \<open>Values of bit patterns\<close>

definition fmag :: "nat \<Rightarrow> nat \<Rightarrow> nat" where
  "fmag p n = (if n div 2 ^ p = 0 then n else (n mod 2 ^ p + 2 ^ p) * 2 ^ (n div 2 ^ p - 1))"

definition fsign :: "'a::len word \<Rightarrow> bool" where
  "fsign a \<longleftrightarrow> 2 ^ (LENGTH('a) - 1) \<le> unat a"

definition frest :: "'a::len word \<Rightarrow> nat" where
  "frest a = unat a mod 2 ^ (LENGTH('a) - 1)"

definition fval :: "nat \<Rightarrow> 'a::len word \<Rightarrow> int" where
  "fval p a = (if fsign a then - int (fmag p (frest a)) else int (fmag p (frest a)))"

text \<open>\<open>emax\<close> is the exponent of infinities and NaNs.\<close>

definition is_nan_pattern :: "nat \<Rightarrow> nat \<Rightarrow> 'a::len word \<Rightarrow> bool" where
  "is_nan_pattern p emax a \<longleftrightarrow> emax * 2 ^ p < frest a"

definition finite_pattern :: "nat \<Rightarrow> nat \<Rightarrow> 'a::len word \<Rightarrow> bool" where
  "finite_pattern p emax a \<longleftrightarrow> frest a < emax * 2 ^ p"

text \<open>Rounding of a multiple of the unit to whole multiples of \<open>u\<close>.\<close>

definition floor_to :: "int \<Rightarrow> int \<Rightarrow> int" where "floor_to u x = (x div u) * u"
definition ceil_to :: "int \<Rightarrow> int \<Rightarrow> int" where "ceil_to u x = - (((- x) div u) * u)"
definition trunc_to :: "int \<Rightarrow> int \<Rightarrow> int" where "trunc_to u x = (if x < 0 then ceil_to u x else floor_to u x)"

section \<open>Magnitudes\<close>

lemma div_exp_add:
  assumes "F < 2 ^ p"
  shows "(E * 2 ^ p + F) div 2 ^ p = E" and "(E * 2 ^ p + F) mod 2 ^ p = (F::nat)"
  using assms by simp_all

lemma fmag_normal:
  assumes "1 \<le> E" "F \<le> 2 ^ p"
  shows "fmag p (E * 2 ^ p + F) = (F + 2 ^ p) * 2 ^ (E - 1)"
proof (cases "F = 2 ^ p")
  case True
  have "E * 2 ^ p + F = Suc E * 2 ^ p + 0" using True by simp
  moreover have "fmag p (Suc E * 2 ^ p + 0) = (0 + 2 ^ p) * 2 ^ E"
    unfolding fmag_def by (simp add: div_exp_add)
  moreover have "(2 ^ E :: nat) = 2 * 2 ^ (E - 1)" using assms(1) by (cases E) simp_all
  ultimately show ?thesis using True by (simp add: algebra_simps)
next
  case False
  then have "F < 2 ^ p" using assms(2) by simp
  then show ?thesis unfolding fmag_def using assms(1) by (simp add: div_exp_add)
qed

lemma fmag_split: "n = (n div 2 ^ p) * 2 ^ p + n mod (2 ^ p :: nat)"
  by (rule div_mult_mod_eq [symmetric])

lemma fmag_mono_step: "fmag p n < fmag p (Suc n)"
proof (cases "n div 2 ^ p = 0")
  case True
  then have n: "n < 2 ^ p" by (simp add: div_eq_0_iff)
  show ?thesis
  proof (cases "Suc n < 2 ^ p")
    case True then show ?thesis using n unfolding fmag_def by simp
  next
    case False
    with n have "Suc n = 1 * 2 ^ p + 0" by simp
    then have "fmag p (Suc n) = 2 ^ p" using fmag_normal [of 1 0 p] by simp
    then show ?thesis using n unfolding fmag_def by simp
  qed
next
  case False
  define E F where "E = n div 2 ^ p" and "F = n mod 2 ^ p"
  have F: "1 \<le> E" "Suc F \<le> 2 ^ p" using False by (simp_all add: E_def F_def Suc_le_eq)
  have n: "n = E * 2 ^ p + F" unfolding E_def F_def by (rule fmag_split)
  have "fmag p (E * 2 ^ p + Suc F) = (Suc F + 2 ^ p) * 2 ^ (E - 1)" "fmag p (E * 2 ^ p + F) = (F + 2 ^ p) * 2 ^ (E - 1)"
    using F by (intro fmag_normal; simp)+
  then show ?thesis unfolding n by simp
qed

lemma fmag_strict_mono: "m < n \<Longrightarrow> fmag p m < fmag p n"
  using fmag_mono_step by (rule lift_Suc_mono_less)

lemma fmag_less_iff: "fmag p m < fmag p n \<longleftrightarrow> m < n"
  using strict_mono_less [of "fmag p" m n] fmag_strict_mono by (simp add: strict_mono_def)

lemma fmag_0 [simp]: "fmag p 0 = 0" by (simp add: fmag_def)

lemma fmag_one: "1 \<le> b \<Longrightarrow> fmag p (b * 2 ^ p) = 2 ^ (b + p - 1)"
  using fmag_normal [of b 0 p] by (simp add: power_add [symmetric])

text \<open>Numbers below one, and numbers without a fraction.\<close>

lemma fmag_below_one: "1 \<le> b \<Longrightarrow> n < b * 2 ^ p \<Longrightarrow> fmag p n < 2 ^ (b + p - 1)"
  using fmag_strict_mono [of n "b * 2 ^ p" p] by (simp add: fmag_one)

lemma fmag_integral:
  assumes "1 \<le> b" "(b + p) * 2 ^ p \<le> n"
  shows "2 ^ (b + p - 1) dvd fmag p n"
proof -
  have E: "b + p \<le> n div 2 ^ p" using assms(2) by (simp add: less_eq_div_iff_mult_less_eq)
  then have "2 ^ (b + p - 1) dvd (2 ^ (n div 2 ^ p - 1) :: nat)" by (intro le_imp_power_dvd) simp
  moreover have "n div 2 ^ p \<noteq> 0" using E assms(1) by linarith
  ultimately show ?thesis unfolding fmag_def by simp
qed

text \<open>
  Clearing the bits below one, and adding one there: with exponent \<open>E\<close> these are the \<open>b + p - E\<close> low bits,
  and the carry out of the fraction makes the right exponent.
\<close>

lemma fmag_clear:
  assumes b: "1 \<le> b" and E: "b * 2 ^ p \<le> n" "n < (b + p) * 2 ^ p" and k: "k = b + p - n div 2 ^ p"
  shows "fmag p (n - n mod 2 ^ k) = (fmag p n div 2 ^ (b + p - 1)) * 2 ^ (b + p - 1)"
    and "n mod 2 ^ k \<noteq> 0 \<Longrightarrow> fmag p (n - n mod 2 ^ k + 2 ^ k) = (fmag p n div 2 ^ (b + p - 1) + 1) * 2 ^ (b + p - 1)"
    and "n mod 2 ^ k = 0 \<Longrightarrow> 2 ^ (b + p - 1) dvd fmag p n"
    and "n mod 2 ^ k \<noteq> 0 \<Longrightarrow> \<not> 2 ^ (b + p - 1) dvd fmag p n"
proof -
  let ?E = "n div 2 ^ p" and ?F = "n mod 2 ^ p" and ?U = "2 ^ (b + p - 1) :: nat"
  have E1: "b \<le> ?E" using E(1) by (simp add: less_eq_div_iff_mult_less_eq)
  have E2: "?E < b + p" using E(2) by (simp add: less_mult_imp_div_less)
  have kp: "k \<le> p" "1 \<le> k" using k E1 E2 by auto
  have U: "?U = 2 ^ k * 2 ^ (?E - 1)" using k E1 E2 b by (simp add: power_add [symmetric])
  have pk: "(2 ^ k :: nat) dvd 2 ^ p" using kp by (simp add: le_imp_power_dvd)
  have nk: "n mod 2 ^ k = ?F mod 2 ^ k" using pk by (simp add: mod_mod_cancel)
  have M: "fmag p n = (?F + 2 ^ p) * 2 ^ (?E - 1)" using E1 b unfolding fmag_def by auto
  have D: "fmag p n div ?U = (?F + 2 ^ p) div 2 ^ k" unfolding M U by simp
  have q: "(?F + 2 ^ p) div 2 ^ k * 2 ^ k = ?F + 2 ^ p - ?F mod 2 ^ k"
  proof -
    have "(?F + 2 ^ p) mod 2 ^ k = ?F mod 2 ^ k" using pk by (simp add: mod_add_eq [symmetric] dvd_eq_mod_eq_0)
    then show ?thesis by (metis minus_mod_eq_div_mult)
  qed
  have Fk: "?F mod 2 ^ k \<le> ?F" by simp
  have n1: "n - n mod 2 ^ k = ?E * 2 ^ p + (?F - ?F mod 2 ^ k)" using fmag_split [of n p] Fk nk by linarith
  have F1: "?F - ?F mod 2 ^ k \<le> 2 ^ p" by (meson diff_le_self le_trans less_imp_le mod_less_divisor zero_less_numeral zero_less_power)
  have Eb: "1 \<le> ?E" using E1 b by simp
  have "fmag p (n - n mod 2 ^ k) = (?F - ?F mod 2 ^ k + 2 ^ p) * 2 ^ (?E - 1)"
    unfolding n1 by (rule fmag_normal [OF Eb F1])
  also have "\<dots> = ((?F + 2 ^ p) div 2 ^ k * 2 ^ k) * 2 ^ (?E - 1)" using q Fk by simp
  also have "\<dots> = fmag p n div ?U * ?U" by (simp only: D) (simp only: U mult.assoc)
  finally show "fmag p (n - n mod 2 ^ k) = fmag p n div ?U * ?U" .
  show "n mod 2 ^ k = 0 \<Longrightarrow> ?U dvd fmag p n"
    using \<open>fmag p (n - n mod 2 ^ k) = fmag p n div ?U * ?U\<close> by (metis diff_zero dvd_triv_right)
  show nd: "\<not> ?U dvd fmag p n" if "n mod 2 ^ k \<noteq> 0"
  proof
    assume "?U dvd fmag p n"
    then have "2 ^ k dvd ?F + 2 ^ p" unfolding M U by simp
    then have "2 ^ k dvd ?F" using pk dvd_add_left_iff by blast
    then show False using that nk by simp
  qed
  assume nz: "n mod 2 ^ k \<noteq> 0"
  have le: "?F - ?F mod 2 ^ k + 2 ^ k \<le> 2 ^ p"
  proof -
    obtain c where c: "(2 ^ p :: nat) = 2 ^ k * c" using pk by (elim dvdE)
    have "?F div 2 ^ k < c" using c by (metis less_mult_imp_div_less mod_less_divisor mult.commute zero_less_numeral zero_less_power)
    then have "(?F div 2 ^ k + 1) * 2 ^ k \<le> c * 2 ^ k" by (intro mult_le_mono1) simp
    then show ?thesis using c by (simp add: minus_mod_eq_div_mult algebra_simps)
  qed
  have n2: "n - n mod 2 ^ k + 2 ^ k = ?E * 2 ^ p + (?F - ?F mod 2 ^ k + 2 ^ k)" by (simp only: n1 add.assoc)
  have "fmag p (n - n mod 2 ^ k + 2 ^ k) = (?F - ?F mod 2 ^ k + 2 ^ k + 2 ^ p) * 2 ^ (?E - 1)"
    unfolding n2 by (rule fmag_normal [OF Eb le])
  also have "?F - ?F mod 2 ^ k + 2 ^ k + 2 ^ p = (?F + 2 ^ p) div 2 ^ k * 2 ^ k + 2 ^ k" using q Fk by linarith
  also have "((?F + 2 ^ p) div 2 ^ k * 2 ^ k + 2 ^ k) * 2 ^ (?E - 1) = (fmag p n div ?U + 1) * ?U" by (simp only: D) (simp only: U mult.assoc distrib_right mult_1)
  finally show "fmag p (n - n mod 2 ^ k + 2 ^ k) = (fmag p n div ?U + 1) * ?U" .
qed

section \<open>Fields of words\<close>

lemma frest_less: "frest (a::'a::len word) < 2 ^ (LENGTH('a) - 1)"
  by (simp add: frest_def)

lemma unat_fields: "unat (a::'a::len word) = (if fsign a then 2 ^ (LENGTH('a) - 1) else 0) + frest a"
proof -
  let ?h = "2 ^ (LENGTH('a) - 1) :: nat"
  have "unat a < 2 * ?h" proof -
    have "unat a < 2 ^ LENGTH('a)" by (rule unsigned_less)
    then show ?thesis by (metis len_gt_0 power_Suc Suc_pred')
  qed
  then show ?thesis unfolding fsign_def frest_def
    by (cases "unat a < ?h") (auto simp: le_mod_geq not_less)
qed

lemma fieldsI:
  fixes a b :: "'a::len word"
  assumes "unat b = (if fsign a then 2 ^ (LENGTH('a) - 1) else 0) + n" "n < 2 ^ (LENGTH('a) - 1)"
  shows "fsign b = fsign a" and "frest b = n"
  using assms unfolding fsign_def frest_def by (auto split: if_splits)

lemma unat_and_mask_mod: "unat (a AND mask k :: 'a::len word) = unat a mod 2 ^ k"
  by (simp only: take_bit_eq_mask [symmetric] unsigned_take_bit_eq take_bit_eq_mod [of k "unat a"])

lemma unat_clear: "unat (a AND NOT (mask k) :: 'a::len word) = unat a - unat a mod 2 ^ k"
proof -
  have "a AND NOT (mask k) = a - (a AND mask k)"
  proof -
    have "NOT a AND (a AND mask k) = 0" "a AND NOT (a AND mask k) = a AND NOT (mask k)"
      by (rule bit_word_eqI, auto simp: bit_simps)+
    then show ?thesis using disjunctive_diff_eq_and_not by metis
  qed
  moreover have "a AND mask k \<le> a" by (simp add: word_and_le2)
  ultimately show ?thesis by (simp add: unat_sub unat_and_mask_mod)
qed

lemma exponent_field:
  fixes a :: "'a::len word"
  assumes "LENGTH('a) = p + q + 1"
  shows "uint (drop_bit p a AND mask q) = int (frest a div 2 ^ p)"
proof -
  have "unat (drop_bit p a AND mask q) = drop_bit p (take_bit (p + q) (unat a))"
    by (simp add: take_bit_eq_mask [symmetric] unsigned_take_bit_eq unsigned_drop_bit_eq drop_bit_take_bit assms)
  also have "\<dots> = frest a div 2 ^ p" using assms by (simp add: frest_def drop_bit_eq_div take_bit_eq_mod)
  finally show ?thesis by (metis uint_nat)
qed

lemma mod_fields: "k \<le> LENGTH('a) - 1 \<Longrightarrow> unat (a::'a::len word) mod 2 ^ k = frest a mod 2 ^ k"
  unfolding frest_def by (simp add: mod_mod_cancel le_imp_power_dvd)

lemma clear_fields:
  fixes a :: "'a::len word"
  assumes "k \<le> LENGTH('a) - 1"
  shows "fsign (a AND NOT (mask k)) = fsign a" and "frest (a AND NOT (mask k)) = frest a - frest a mod 2 ^ k"
proof -
  have le: "frest a mod 2 ^ k \<le> frest a" by simp
  have 1: "unat (a AND NOT (mask k)) = (if fsign a then 2 ^ (LENGTH('a) - 1) else 0) + (frest a - frest a mod 2 ^ k)"
    unfolding unat_clear mod_fields [OF assms] using unat_fields [of a] le by linarith
  have 2: "frest a - frest a mod 2 ^ k < 2 ^ (LENGTH('a) - 1)" using frest_less [of a] by linarith
  show "fsign (a AND NOT (mask k)) = fsign a" "frest (a AND NOT (mask k)) = frest a - frest a mod 2 ^ k"
    by (rule fieldsI [OF 1 2])+
qed

lemma carry_nat:
  assumes "x mod 2 ^ k \<noteq> (0::nat)"
  shows "x + (2 ^ k - 1) - (x + (2 ^ k - 1)) mod 2 ^ k = x - x mod 2 ^ k + 2 ^ k"
proof -
  define q r where "q = x div 2 ^ k" and "r = x mod 2 ^ k"
  have r: "1 \<le> r" "r < 2 ^ k" and x: "x = q * 2 ^ k + r" using assms unfolding q_def r_def by (simp_all add: mult.commute)
  have "x + (2 ^ k - 1) = (q + 1) * 2 ^ k + (r - 1)" using r x by simp
  moreover have "((q + 1) * 2 ^ k + (r - 1)) mod 2 ^ k = r - 1" using r by (intro div_exp_add(2)) simp
  ultimately have "x + (2 ^ k - 1) - (x + (2 ^ k - 1)) mod 2 ^ k = (q + 1) * 2 ^ k" by simp
  moreover have "x - x mod 2 ^ k = q * 2 ^ k" unfolding q_def by (simp add: minus_mod_eq_div_mult)
  ultimately show ?thesis by simp
qed

lemma carry_fields:
  fixes a :: "'a::len word"
  assumes k: "k \<le> LENGTH('a) - 1" and nz: "frest a mod 2 ^ k \<noteq> 0" and fit: "frest a + 2 ^ k \<le> 2 ^ (LENGTH('a) - 1)"
  shows "fsign ((a + mask k) AND NOT (mask k)) = fsign a"
    and "frest ((a + mask k) AND NOT (mask k)) = frest a - frest a mod 2 ^ k + 2 ^ k"
proof -
  let ?s = "if fsign a then 2 ^ (LENGTH('a) - 1) else 0 :: nat"
  have N: "(2::nat) ^ LENGTH('a) = 2 * 2 ^ (LENGTH('a) - 1)" by (metis len_gt_0 power_Suc Suc_pred')
  have mk: "unat (mask k :: 'a word) = 2 ^ k - 1" 

  proof -
    have "unat (mask k :: 'a word) = mask k" using k unat_and_mask_mod [of "- 1 :: 'a word" k]
      by (simp add: unsigned_minus_1_eq_mask take_bit_eq_mod [symmetric] min_def)
    then show ?thesis by (simp add: mask_eq_exp_minus_1)
  qed
  have sp: "unat a = ?s + frest a" by (rule unat_fields)
  have mle: "frest a mod 2 ^ k \<le> frest a" by simp
  have lt: "frest a - frest a mod 2 ^ k + 2 ^ k < 2 ^ (LENGTH('a) - 1)" using fit nz mle by linarith
  have "?s \<le> 2 ^ (LENGTH('a) - 1)" "(1::nat) \<le> 2 ^ k" by simp_all
  then have "unat a + (2 ^ k - 1) < 2 ^ LENGTH('a)" using sp fit N by linarith
  then have "unat (a + mask k) = unat a + (2 ^ k - 1)" by (simp add: unat_word_ariths(1) mk)
  then have "unat ((a + mask k) AND NOT (mask k)) = unat a - unat a mod 2 ^ k + 2 ^ k"
    unfolding unat_clear using carry_nat [of "unat a" k] nz mod_fields [OF k, of a] by simp
  also have "\<dots> = ?s + (frest a - frest a mod 2 ^ k + 2 ^ k)"
    unfolding mod_fields [OF k] using sp mle by linarith
  finally have 1: "unat ((a + mask k) AND NOT (mask k)) = ?s + (frest a - frest a mod 2 ^ k + 2 ^ k)" .
  show "fsign ((a + mask k) AND NOT (mask k)) = fsign a"
    "frest ((a + mask k) AND NOT (mask k)) = frest a - frest a mod 2 ^ k + 2 ^ k"
    by (rule fieldsI [OF 1 lt])+
qed

section \<open>Rounding\<close>

lemma round_neg: "ceil_to u (- x) = - floor_to u x" "floor_to u (- x) = - ceil_to u x"
  by (simp_all add: ceil_to_def floor_to_def)

lemma round_0 [simp]: "ceil_to u 0 = 0" "floor_to u 0 = 0"
  by (simp_all add: ceil_to_def floor_to_def)

lemma round_down_int: "floor_to (int u) (int m) = int (m div u * u)"
  by (simp add: floor_to_def zdiv_int)

lemma round_up_int:
  assumes "0 < u"
  shows "ceil_to (int u) (int m) = (if u dvd m then int m else int ((m div u + 1) * u))"
proof (cases "u dvd m")
  case True
  then obtain c where "m = u * c" by (elim dvdE)
  then show ?thesis using assms True by (simp add: ceil_to_def)
next
  case False
  then have "int m mod int u \<noteq> 0" by (metis dvd_eq_mod_eq_0 of_nat_mod of_nat_eq_0_iff)
  then have "(- int m) div int u = - (int m div int u) - 1" using assms by (simp add: zdiv_zminus1_eq_if)
  then have "ceil_to (int u) (int m) = (int m div int u + 1) * int u" 
    by (simp add: ceil_to_def left_diff_distrib) (simp add: algebra_simps)
  then show ?thesis using False by (simp add: zdiv_int distrib_right)
qed

lemma round_dvd: "u dvd m \<Longrightarrow> ceil_to (int u) (int m) = int m \<and> floor_to (int u) (int m) = int m"
  by (cases "u = 0") (auto simp: round_up_int round_down_int ceil_to_def floor_to_def)

lemma round_zero_fval:
  "trunc_to u (fval p a) = (if fsign a then ceil_to u (fval p a) else floor_to u (fval p a))"
  by (auto simp: trunc_to_def fval_def ceil_to_def floor_to_def)

lemma fval_integral:
  assumes "u dvd fmag p (frest a)"
  shows "ceil_to (int u) (fval p a) = fval p a" and "floor_to (int u) (fval p a) = fval p a"
    and "trunc_to (int u) (fval p a) = fval p a"
  using round_dvd [OF assms] by (auto simp: fval_def round_neg trunc_to_def)

text \<open>
  A binary format: \<open>p\<close> fraction bits, \<open>q\<close> exponent bits, bias \<open>b\<close>.  The lemmas follow the ways a rounding
  wrapper can change its operand: the fraction is cleared, the magnitude is carried to the next integer,
  or a number below one becomes zero or one.
\<close>

locale float_format =
  fixes p q b u :: nat and fmt :: "'a::len itself"
  assumes len: "LENGTH('a) = p + q + 1" and bias: "1 \<le> b" and room: "b + p + 1 < 2 ^ q" and unit: "u = 2 ^ (b + p - 1)"
begin

lemma upos: "0 < u" by (simp add: unit)

lemmas mag_clear = fmag_clear [OF bias, of p, folded unit]

lemma exponent_less: "frest (a::'a word) div 2 ^ p < 2 ^ q"
proof -
  have "frest a < 2 ^ p * 2 ^ q" using frest_less [of a] by (simp add: len power_add)
  then show ?thesis by (simp add: less_mult_imp_div_less mult.commute)
qed

lemma in_room: "n \<le> (b + p) * 2 ^ p \<Longrightarrow> n < 2 ^ (LENGTH('a) - 1)" "n \<le> (b + p) * 2 ^ p \<Longrightarrow> n < (2 ^ q - 1) * (2 ^ p :: nat)"
proof -
  assume "n \<le> (b + p) * 2 ^ p"
  moreover have "(b + p) * 2 ^ p < (2 ^ q - 1) * 2 ^ p" using room by simp
  moreover have "(2 ^ q - 1) * (2 ^ p :: nat) \<le> 2 ^ (LENGTH('a) - 1)" by (simp add: len power_add algebra_simps)
  ultimately show "n < 2 ^ (LENGTH('a) - 1)" "n < (2 ^ q - 1) * 2 ^ p" by linarith+
qed

lemma cut_width: "b * 2 ^ p \<le> n \<Longrightarrow> b + p - n div 2 ^ p \<le> LENGTH('a) - 1"
  using div_le_mono [of "b * 2 ^ p" n "2 ^ p"] by (simp add: len)

lemma cut:
  fixes a :: "'a word"
  assumes "b * 2 ^ p \<le> frest a" "frest a < (b + p) * 2 ^ p" "k = b + p - frest a div 2 ^ p"
  shows "fval p (a AND NOT (mask k)) = trunc_to (int u) (fval p a)" and "fsign (a AND NOT (mask k)) = fsign a"
    and "finite_pattern p (2 ^ q - 1) (a AND NOT (mask k))"
proof -
  have k: "k \<le> LENGTH('a) - 1" using cut_width [OF assms(1)] assms(3) by simp
  note cl = clear_fields [OF k, of a] and m = mag_clear(1) [OF assms]
  show "fval p (a AND NOT (mask k)) = trunc_to (int u) (fval p a)" "fsign (a AND NOT (mask k)) = fsign a"
    unfolding round_zero_fval using cl m by (auto simp: fval_def round_neg round_down_int)
  show "finite_pattern p (2 ^ q - 1) (a AND NOT (mask k))"
    unfolding finite_pattern_def cl(2) using assms(2) by (intro in_room) linarith
qed

lemma cut_integral:
  fixes a :: "'a word"
  assumes "b * 2 ^ p \<le> frest a" "frest a < (b + p) * 2 ^ p" "k = b + p - frest a div 2 ^ p" "a AND mask k = 0"
  shows "u dvd fmag p (frest a)"
proof -
  have "unat a mod 2 ^ k = 0" using unat_and_mask_mod [of a k] assms(4) by simp
  then have "frest a mod 2 ^ k = 0" using mod_fields [of k a] cut_width [OF assms(1)] assms(3) by simp
  then show ?thesis using mag_clear(3) [OF assms(1-3)] by simp
qed

lemma carry:
  fixes a :: "'a word"
  assumes "b * 2 ^ p \<le> frest a" "frest a < (b + p) * 2 ^ p" "k = b + p - frest a div 2 ^ p" "a AND mask k \<noteq> 0"
  shows "fval p ((a + mask k) AND NOT (mask k)) = (if fsign a then floor_to (int u) (fval p a) else ceil_to (int u) (fval p a))"
    and "fsign ((a + mask k) AND NOT (mask k)) = fsign a"
    and "finite_pattern p (2 ^ q - 1) ((a + mask k) AND NOT (mask k))"
proof -
  have k: "k \<le> LENGTH('a) - 1" using cut_width [OF assms(1)] assms(3) by simp
  have nz: "frest a mod 2 ^ k \<noteq> 0" using unat_and_mask_mod [of a k] assms(4) mod_fields [OF k, of a] by (metis unat_0_iff)
  have m: "fmag p (frest a - frest a mod 2 ^ k + 2 ^ k) = (fmag p (frest a) div u + 1) * u" "\<not> u dvd fmag p (frest a)"
    using mag_clear(2,4) [OF assms(1-3) nz] by blast+
  have le: "frest a - frest a mod 2 ^ k + 2 ^ k \<le> (b + p) * 2 ^ p"
  proof -
    have "2 ^ k dvd (2 ^ p :: nat)" 
      using assms(3) div_le_mono [OF assms(1), of "2 ^ p"] by (intro le_imp_power_dvd) simp
    then have "2 ^ k dvd (b + p) * 2 ^ p" by simp
    then obtain c where c: "(b + p) * 2 ^ p = 2 ^ k * c" by (elim dvdE)
    then have "frest a div 2 ^ k < c" using assms(2) by (simp add: less_mult_imp_div_less mult.commute)
    then have "(frest a div 2 ^ k + 1) * 2 ^ k \<le> c * 2 ^ k" by (intro mult_le_mono1) simp
    then show ?thesis using c by (simp add: minus_mod_eq_div_mult algebra_simps)
  qed
  have "k \<le> p" using assms(3) div_le_mono [OF assms(1), of "2 ^ p"] by simp
  then have kp: "(2::nat) ^ k \<le> 2 ^ p" by simp
  have "(b + p + 1) * 2 ^ p \<le> 2 ^ q * (2 ^ p :: nat)" using room by (intro mult_le_mono1) simp
  moreover have "frest a + 2 ^ k \<le> (b + p + 1) * 2 ^ p" using kp assms(2) unfolding distrib_right [of _ 1] by linarith
  ultimately have "frest a + 2 ^ k \<le> 2 ^ (LENGTH('a) - 1)" by (simp add: len power_add mult.commute)
  note ca = carry_fields [OF k nz this]
  show "fval p ((a + mask k) AND NOT (mask k)) = (if fsign a then floor_to (int u) (fval p a) else ceil_to (int u) (fval p a))"
    "fsign ((a + mask k) AND NOT (mask k)) = fsign a"
    using ca m upos by (auto simp: fval_def round_neg round_up_int)
  show "finite_pattern p (2 ^ q - 1) ((a + mask k) AND NOT (mask k))"
    unfolding finite_pattern_def ca(2) by (rule in_room(2) [OF le])
qed

text \<open>Below one, and from \<open>2 ^ p\<close> on.\<close>

lemma below_one:
  fixes a :: "'a word"
  assumes "frest a < b * 2 ^ p"
  shows "trunc_to (int u) (fval p a) = 0"
    and "ceil_to (int u) (fval p a) = (if fsign a \<or> frest a = 0 then 0 else int u)"
    and "floor_to (int u) (fval p a) = (if fsign a \<and> frest a \<noteq> 0 then - int u else 0)"
proof -
  have lt: "fmag p (frest a) < u" using fmag_below_one [OF bias assms] unit by simp
  have "u dvd fmag p (frest a) \<longleftrightarrow> frest a = 0"
    using lt fmag_less_iff [of p 0 "frest a"] by (auto dest!: dvd_imp_le)
  with lt show "trunc_to (int u) (fval p a) = 0"
    "ceil_to (int u) (fval p a) = (if fsign a \<or> frest a = 0 then 0 else int u)"
    "floor_to (int u) (fval p a) = (if fsign a \<and> frest a \<noteq> 0 then - int u else 0)"
    unfolding round_zero_fval by (auto simp: fval_def round_neg round_up_int round_down_int)
qed

lemma large_integral:
  fixes a :: "'a word"
  assumes "(b + p) * 2 ^ p \<le> frest a"
  shows "u dvd fmag p (frest a)"
  using fmag_integral [OF bias assms] unit by simp

lemma exponent_ranges:
  fixes a :: "'a word"
  shows "frest a < b * 2 ^ p \<longleftrightarrow> frest a div 2 ^ p < b" and "frest a < (b + p) * 2 ^ p \<longleftrightarrow> frest a div 2 ^ p < b + p"
  by (simp_all add: div_less_iff_less_mult)

end

interpretation f32: float_format 23 8 127 "2 ^ 149" "TYPE(32)"
  by unfold_locales simp_all

interpretation f64: float_format 52 11 1023 "2 ^ 1074" "TYPE(64)"
  by unfold_locales simp_all

section \<open>The rounding wrappers\<close>

text \<open>What the code relies on of the library's test for NaN.\<close>

definition nan_exact :: "softfloat \<Rightarrow> bool" where
  "nan_exact sf \<longleftrightarrow> (\<forall>a. sf_is_nan32 sf a \<longleftrightarrow> is_nan_pattern 23 255 a) \<and> (\<forall>a. sf_is_nan64 sf a \<longleftrightarrow> is_nan_pattern 52 2047 a)"

lemma not_nan:
  assumes "nan_exact sf"
  shows "finite_pattern 23 255 a \<Longrightarrow> \<not> sf_is_nan32 sf a" and "finite_pattern 52 2047 b \<Longrightarrow> \<not> sf_is_nan64 sf b"
  using assms by (auto simp: nan_exact_def is_nan_pattern_def finite_pattern_def)

definition rounded :: "nat \<Rightarrow> nat \<Rightarrow> int \<Rightarrow> (int \<Rightarrow> int \<Rightarrow> int) \<Rightarrow> 'a::len word \<Rightarrow> 'a word \<Rightarrow> bool" where
  "rounded p emax one rnd a r \<longleftrightarrow> fval p r = rnd one (fval p a) \<and> fsign r = fsign a \<and> finite_pattern p emax r"

lemma exponent32: "uint (drop_bit 23 (a::u32) AND 0xFF) = int (frest a div 2 ^ 23)"
  using exponent_field [of 23 8 a] by (simp add: mask_numeral)

lemma exponent64: "uint (drop_bit 52 (a::u64) AND 0x7FF) = int (frest a div 2 ^ 52)"
  using exponent_field [of 52 11 a] by (simp add: mask_numeral)

lemma sign_shifted: "drop_bit (LENGTH('a) - 1) (a::'a::len word) = 0 \<longleftrightarrow> \<not> fsign a"
proof -
  have "unat (drop_bit (LENGTH('a) - 1) a) = unat a div 2 ^ (LENGTH('a) - 1)" 
    unfolding unsigned_drop_bit_eq by (simp add: drop_bit_eq_div take_bit_nat_eq_self)
  then show ?thesis unfolding fsign_def by (auto simp: unat_eq_0 [symmetric] div_eq_0_iff simp del: unat_eq_0)
qed

lemma rest_shifted: "push_bit 1 (a::'a::len word) = 0 \<longleftrightarrow> frest a = 0"
proof -
  have N: "2 ^ LENGTH('a) = (2::nat) * 2 ^ (LENGTH('a) - 1)" by (metis len_gt_0 power_Suc Suc_pred')
  have "unat (push_bit 1 a) = (2 * unat a) mod 2 ^ LENGTH('a)" 
    unfolding unsigned_push_bit_eq by (simp add: take_bit_eq_mod mult.commute)
  also have "\<dots> = 2 * frest a" unfolding N frest_def by (rule mult_mod_right [symmetric])
  finally have "unat (push_bit 1 a) = 0 \<longleftrightarrow> frest a = 0" by simp
  then show ?thesis by (simp only: unat_eq_0)
qed

lemma mask_shifted: "n \<le> LENGTH('a) \<Longrightarrow> drop_bit j (mask n :: 'a::len word) = mask (n - j)"
  by (rule bit_word_eqI) (auto simp: bit_simps)

lemma low_mask: "drop_bit j (0x007FFFFF :: u32) = mask (23 - j)"
proof -
  have "(mask 23 :: u32) = 0x007FFFFF" by (simp add: mask_numeral)
  then show ?thesis using mask_shifted [of 23 j, where ?'a = 32] by simp
qed

lemma ones_mask: "drop_bit j (- 1 :: 'a::len word) = mask (LENGTH('a) - j)"
  using mask_shifted [of "LENGTH('a)" j, where ?'a = 'a] by simp

lemma sign32: "drop_bit 31 (a::u32) = 0 \<longleftrightarrow> \<not> fsign a" and sign64: "drop_bit 63 (b::u64) = 0 \<longleftrightarrow> \<not> fsign b"
  using sign_shifted [of a] sign_shifted [of b] by simp_all

lemma finite_bound: "finite_pattern 23 255 (a::u32) \<longleftrightarrow> frest a div 2 ^ 23 < 255" "finite_pattern 52 2047 (b::u64) \<longleftrightarrow> frest b div 2 ^ 52 < 2047"
  by (simp_all add: finite_pattern_def div_less_iff_less_mult)

lemma patterns32:
  "fsign (0x80000000::u32)" "frest (0x80000000::u32) = 0" "\<not> fsign (0x3F800000::u32)" "frest (0x3F800000::u32) = 127 * 2 ^ 23"
  "fsign (0xBF800000::u32)" "frest (0xBF800000::u32) = 127 * 2 ^ 23" "\<not> fsign (0::'a::len word)" "frest (0::'a word) = 0"
  by (simp_all add: fsign_def frest_def)

lemma fmag_one32: "fmag 23 (127 * 2 ^ 23) = 2 ^ 149"
  using fmag_one [of 127 23] by (simp del: power_numeral)

lemmas bits32 = sign32 rest_shifted [simplified] patterns32 [simplified] fmag_one32 [simplified]

text \<open>An operand that is already integral, and the three ranges of the exponent.\<close>

lemma rounded_same:
  assumes "u dvd fmag p (frest a)" "finite_pattern p emax a"
  shows "rounded p emax (int u) ceil_to a a" "rounded p emax (int u) floor_to a a" "rounded p emax (int u) trunc_to a a"
  using fval_integral [OF assms(1)] assms(2) by (simp_all add: rounded_def)

lemma ceil32:
  assumes fin: "finite_pattern 23 255 a" and nan: "\<not> (ar \<and> sf_is_nan32 sf a)"
  shows "rounded 23 255 (2 ^ 149) ceil_to a (eosio_f32_ceil sf ar a)"
    and "rounded 23 255 (2 ^ 149) floor_to a (eosio_f32_floor sf ar a)"
proof -
  define E where "E = frest a div 2 ^ 23"
  define k where "k = 127 + 23 - E"
  note ex = exponent32 [of a, folded E_def]
  note same = rounded_same [of "2 ^ 149", OF _ fin, simplified of_nat_power of_nat_numeral]
  have "rounded 23 255 (2 ^ 149) ceil_to a (eosio_f32_ceil sf ar a) \<and> rounded 23 255 (2 ^ 149) floor_to a (eosio_f32_floor sf ar a)"
  proof (cases "E < 127")
    case True
    then have lt: "frest a < 127 * 2 ^ 23" unfolding E_def by (simp add: div_less_iff_less_mult)
    show ?thesis using True nan f32.below_one [OF lt]
      by (auto simp: eosio_f32_ceil_def eosio_f32_floor_def ex rounded_def bits32 fval_def finite_pattern_def Let_def)
  next
    case ge: False
    then have lo: "127 * 2 ^ 23 \<le> frest a" unfolding E_def by (simp add: less_eq_div_iff_mult_less_eq)
    show ?thesis
    proof (cases "E < 150")
      case False
      then have "(127 + 23) * 2 ^ 23 \<le> frest a" unfolding E_def by (simp add: less_eq_div_iff_mult_less_eq)
      then show ?thesis using same f32.large_integral [of a] False nan
        by (auto simp: eosio_f32_ceil_def eosio_f32_floor_def ex Let_def)
    next
      case True
      then have hi: "frest a < (127 + 23) * 2 ^ 23" unfolding E_def by (simp add: div_less_iff_less_mult)
      have m: "drop_bit (nat (int E - 127)) (0x007FFFFF :: u32) = mask k" unfolding low_mask k_def using ge by (simp add: nat_diff_distrib')
      have k: "k = 127 + 23 - frest a div 2 ^ 23" unfolding k_def E_def ..
      have defs: "eosio_f32_ceil sf ar a = (if a AND mask k = 0 then a else (if \<not> fsign a then a + mask k else a) AND NOT (mask k))"
        "eosio_f32_floor sf ar a = (if a AND mask k = 0 then a else (if fsign a then a + mask k else a) AND NOT (mask k))"
        using True ge nan m by (auto simp: eosio_f32_ceil_def eosio_f32_floor_def ex sign32 Let_def)
      show ?thesis
      proof (cases "a AND mask k = 0")
        case True
        then show ?thesis using same f32.cut_integral [OF lo hi k True] by (simp add: defs)
      next
        case False
        note c = f32.cut [OF lo hi k] f32.carry [OF lo hi k False]
        show ?thesis using c False by (cases "fsign a") (simp_all add: defs rounded_def round_zero_fval)
      qed
    qed
  qed
  then show "rounded 23 255 (2 ^ 149) ceil_to a (eosio_f32_ceil sf ar a)" "rounded 23 255 (2 ^ 149) floor_to a (eosio_f32_floor sf ar a)"
    by blast+
qed

lemma trunc_below:
  fixes a :: "'a::len word"
  shows "frest (a AND NOT (mask (LENGTH('a) - 1))) = 0" "fsign (a AND NOT (mask (LENGTH('a) - 1))) = fsign a"
    and "a AND mask (LENGTH('a) - 1) = 0 \<longleftrightarrow> frest a = 0"
proof -
  have "frest a mod 2 ^ (LENGTH('a) - 1) = frest a" using frest_less [of a] by simp
  then show "frest (a AND NOT (mask (LENGTH('a) - 1))) = 0" "fsign (a AND NOT (mask (LENGTH('a) - 1))) = fsign a"
    using clear_fields [of "LENGTH('a) - 1" a] by simp_all
  have "unat (a AND mask (LENGTH('a) - 1)) = frest a" unfolding unat_and_mask_mod frest_def ..
  then show "a AND mask (LENGTH('a) - 1) = 0 \<longleftrightarrow> frest a = 0" by (metis unat_eq_0)
qed

text \<open>\<open>trunc\<close> of both formats has the same shape: clear the \<open>b + p - E\<close> low bits, or all but the sign.\<close>

context float_format
begin

lemma trunc_rounds:
  fixes a r :: "'a word"
  assumes fin: "finite_pattern p (2 ^ q - 1) a"
    and large: "b + p \<le> frest a div 2 ^ p \<Longrightarrow> r = a"
    and normal: "\<And>k. b \<le> frest a div 2 ^ p \<Longrightarrow> frest a div 2 ^ p < b + p \<Longrightarrow> k = b + p - frest a div 2 ^ p
        \<Longrightarrow> r = (if a AND mask k = 0 then a else a AND NOT (mask k))"
    and small: "frest a div 2 ^ p < b \<Longrightarrow> r = (if frest a = 0 then a else a AND NOT (mask (LENGTH('a) - 1)))"
  shows "rounded p (2 ^ q - 1) (int u) trunc_to a r"
proof -
  consider "frest a div 2 ^ p < b" | "b \<le> frest a div 2 ^ p" "frest a div 2 ^ p < b + p" | "b + p \<le> frest a div 2 ^ p"
    by linarith
  then show ?thesis
  proof cases
    case 1
    then have lt: "frest a < b * 2 ^ p" using exponent_ranges(1) by simp
    show ?thesis using below_one(1) [OF lt] small [OF 1] trunc_below [of a] fin room
      by (auto simp: rounded_def fval_def finite_pattern_def)
  next
    case 2
    have lo: "b * 2 ^ p \<le> frest a" and hi: "frest a < (b + p) * 2 ^ p"
      using exponent_ranges 2 by (simp_all add: not_less [symmetric])
    note r = normal [OF 2 refl] and k = cut [OF lo hi refl] cut_integral [OF lo hi refl]
    show ?thesis using r k rounded_same(3) [OF _ fin] by (auto simp: rounded_def)
  next
    case 3
    then have "(b + p) * 2 ^ p \<le> frest a" using exponent_ranges(2) by (simp add: not_less [symmetric])
    then show ?thesis using large [OF 3] rounded_same(3) [OF large_integral fin] by simp
  qed
qed

end

lemma trunc32:
  assumes fin: "finite_pattern 23 255 a" and nan: "\<not> (ar \<and> sf_is_nan32 sf a)"
  shows "rounded 23 255 (2 ^ 149) trunc_to a (eosio_f32_trunc sf ar a)"
proof -
  have "rounded 23 (2 ^ 8 - 1) (int (2 ^ 149)) trunc_to a (eosio_f32_trunc sf ar a)"
    using fin nan by (intro f32.trunc_rounds)
      (auto simp: eosio_f32_trunc_def exponent32 ones_mask Let_def trunc_below(3) [of a, simplified] nat_diff_distrib' nat_add_distrib)
  then show ?thesis by simp
qed

lemma trunc64:
  assumes fin: "finite_pattern 52 2047 a" and nan: "\<not> (ar \<and> sf_is_nan64 sf a)"
  shows "rounded 52 2047 (2 ^ 1074) trunc_to a (eosio_f64_trunc sf ar a)"
proof -
  have "rounded 52 (2 ^ 11 - 1) (int (2 ^ 1074)) trunc_to a (eosio_f64_trunc sf ar a)"
    using fin nan by (intro f64.trunc_rounds)
      (auto simp: eosio_f64_trunc_def exponent64 ones_mask Let_def trunc_below(3) [of a, simplified] nat_diff_distrib' nat_add_distrib)
  then show ?thesis by simp
qed

section \<open>Comparisons, minimum and maximum\<close>

text \<open>
  What the code relies on of the library's comparisons: they follow the order of the values, are false on
  NaN, and the sign test reads the sign.
\<close>

definition order_exact :: "softfloat \<Rightarrow> bool" where
  "order_exact sf \<longleftrightarrow>
     (\<forall>a b. sf_lt32 sf a b \<longleftrightarrow> \<not> is_nan_pattern 23 255 a \<and> \<not> is_nan_pattern 23 255 b \<and> fval 23 a < fval 23 b)
   \<and> (\<forall>a b. sf_le32 sf a b \<longleftrightarrow> \<not> is_nan_pattern 23 255 a \<and> \<not> is_nan_pattern 23 255 b \<and> fval 23 a \<le> fval 23 b)
   \<and> (\<forall>a b. sf_lt64 sf a b \<longleftrightarrow> \<not> is_nan_pattern 52 2047 a \<and> \<not> is_nan_pattern 52 2047 b \<and> fval 52 a < fval 52 b)
   \<and> (\<forall>a b. sf_le64 sf a b \<longleftrightarrow> \<not> is_nan_pattern 52 2047 a \<and> \<not> is_nan_pattern 52 2047 b \<and> fval 52 a \<le> fval 52 b)
   \<and> (\<forall>a. sf_sign_bit32 sf a = fsign a) \<and> (\<forall>a. sf_sign_bit64 sf a = fsign a)"

lemma compare32:
  assumes "nan_exact sf" "order_exact sf"
  shows "eosio_f32_lt sf a b \<longleftrightarrow> \<not> is_nan_pattern 23 255 a \<and> \<not> is_nan_pattern 23 255 b \<and> fval 23 a < fval 23 b"
    and "eosio_f32_le sf a b \<longleftrightarrow> \<not> is_nan_pattern 23 255 a \<and> \<not> is_nan_pattern 23 255 b \<and> fval 23 a \<le> fval 23 b"
    and "eosio_f32_ge sf a b \<longleftrightarrow> \<not> is_nan_pattern 23 255 a \<and> \<not> is_nan_pattern 23 255 b \<and> fval 23 a \<ge> fval 23 b"
  using assms unfolding eosio_f32_lt_def eosio_f32_le_def eosio_f32_ge_def order_exact_def nan_exact_def by auto

lemma compare64:
  assumes "nan_exact sf" "order_exact sf"
  shows "eosio_f64_lt sf a b \<longleftrightarrow> \<not> is_nan_pattern 52 2047 a \<and> \<not> is_nan_pattern 52 2047 b \<and> fval 52 a < fval 52 b"
    and "eosio_f64_le sf a b \<longleftrightarrow> \<not> is_nan_pattern 52 2047 a \<and> \<not> is_nan_pattern 52 2047 b \<and> fval 52 a \<le> fval 52 b"
    and "eosio_f64_ge sf a b \<longleftrightarrow> \<not> is_nan_pattern 52 2047 a \<and> \<not> is_nan_pattern 52 2047 b \<and> fval 52 a \<ge> fval 52 b"
  using assms unfolding eosio_f64_lt_def eosio_f64_le_def eosio_f64_ge_def order_exact_def nan_exact_def by auto

text \<open>The chosen operand of a minimum or maximum; of two zeros the sign decides.\<close>

definition selects :: "nat \<Rightarrow> nat \<Rightarrow> 'a::len word \<Rightarrow> 'a word \<Rightarrow> 'a word \<Rightarrow> 'a word \<Rightarrow> bool" where
  "selects p emax a b lo hi \<longleftrightarrow>
     (if is_nan_pattern p emax a \<or> is_nan_pattern p emax b then is_nan_pattern p emax lo \<and> is_nan_pattern p emax hi
      else {lo, hi} = {a, b} \<and> fval p lo = min (fval p a) (fval p b) \<and> fval p hi = max (fval p a) (fval p b)
        \<and> (fsign lo \<longleftrightarrow> fsign a \<or> fsign b) \<and> (fsign hi \<longleftrightarrow> fsign a \<and> fsign b))"

lemma fval_sign: "fsign a \<Longrightarrow> fval p a \<le> 0" "\<not> fsign a \<Longrightarrow> 0 \<le> fval p a"
  by (simp_all add: fval_def)

lemma frest_or_ge: "frest (a::'a::len word) \<le> frest (a OR b)"
proof -
  let ?n = "LENGTH('a) - 1"
  have r: "frest w = unat (take_bit ?n w)" for w :: "'a word" by (simp add: frest_def unsigned_take_bit_eq take_bit_eq_mod [of _ "unat w"])
  have "take_bit ?n a \<le> take_bit ?n a OR take_bit ?n b" by (rule le_word_or2)
  then show ?thesis unfolding r by (simp add: word_le_nat_alt take_bit_or)
qed

lemma nan_or: "is_nan_pattern p emax a \<Longrightarrow> is_nan_pattern p emax (a OR b)"
  using frest_or_ge [of a b] by (simp add: is_nan_pattern_def)

lemma select32:
  assumes "nan_exact sf" "order_exact sf"
  shows "selects 23 255 a b (eosio_f32_min sf ar a b) (eosio_f32_max sf ar a b)"
proof (cases "is_nan_pattern 23 255 a \<or> is_nan_pattern 23 255 b")
  case True
  then show ?thesis using assms
    by (auto simp: selects_def eosio_f32_min_def eosio_f32_max_def nan_exact_def propagate_nan32_def nan_or)
next
  case False
  then show ?thesis using assms fval_sign [of a 23] fval_sign [of b 23]
    by (auto simp: selects_def eosio_f32_min_def eosio_f32_max_def nan_exact_def order_exact_def min_def max_def)
qed

lemma select64:
  assumes "nan_exact sf" "order_exact sf"
  shows "selects 52 2047 a b (eosio_f64_min sf ar a b) (eosio_f64_max sf ar a b)"
proof (cases "is_nan_pattern 52 2047 a \<or> is_nan_pattern 52 2047 b")
  case True
  then show ?thesis using assms
    by (auto simp: selects_def eosio_f64_min_def eosio_f64_max_def nan_exact_def propagate_nan64_def nan_or)
next
  case False
  then show ?thesis using assms fval_sign [of a 52] fval_sign [of b 52]
    by (auto simp: selects_def eosio_f64_min_def eosio_f64_max_def nan_exact_def order_exact_def min_def max_def)
qed

section \<open>Conversions to integers\<close>

text \<open>The integer part of a value, and the two ways a conversion can end.\<close>

definition int_part :: "int \<Rightarrow> int \<Rightarrow> int" where
  "int_part one v = trunc_to one v div one"

definition truncates :: "nat \<Rightarrow> nat \<Rightarrow> int \<Rightarrow> int \<Rightarrow> int \<Rightarrow> ('r \<Rightarrow> int) \<Rightarrow> 'a::len word \<Rightarrow> 'r res \<Rightarrow> bool" where
  "truncates p emax one lo hi rd a r \<longleftrightarrow>
     (if \<not> is_nan_pattern p emax a \<and> lo \<le> int_part one (fval p a) \<and> int_part one (fval p a) \<le> hi
      then \<exists>w. r = Inr w \<and> rd w = int_part one (fval p a) else r = Inl Wasm_interpreter_exception)"

definition saturates :: "nat \<Rightarrow> nat \<Rightarrow> int \<Rightarrow> int \<Rightarrow> int \<Rightarrow> ('r \<Rightarrow> int) \<Rightarrow> 'a::len word \<Rightarrow> 'r \<Rightarrow> bool" where
  "saturates p emax one lo hi rd a w \<longleftrightarrow>
     rd w = (if is_nan_pattern p emax a then 0 else max lo (min hi (int_part one (fval p a))))"

text \<open>
  What the code relies on of the library's conversions: \<open>to_int\<close> of an integral value in range is that value,
  whatever the rounding mode, and the variants \<open>r_minMag\<close> drop the fraction.
\<close>

definition converts :: "nat \<Rightarrow> int \<Rightarrow> int \<Rightarrow> int \<Rightarrow> ('r \<Rightarrow> int) \<Rightarrow> ('a::len word \<Rightarrow> u8 \<Rightarrow> bool \<Rightarrow> 'r) \<Rightarrow> ('a word \<Rightarrow> bool \<Rightarrow> 'r) \<Rightarrow> bool" where
  "converts p one lo hi rd f g \<longleftrightarrow>
     (\<forall>a z. fval p a = z * one \<and> lo \<le> z \<and> z \<le> hi \<longrightarrow> rd (f a 0 False) = z)
   \<and> (\<forall>a. lo \<le> int_part one (fval p a) \<and> int_part one (fval p a) \<le> hi \<longrightarrow> rd (g a False) = int_part one (fval p a))"

definition conversions_exact :: "softfloat \<Rightarrow> bool" where
  "conversions_exact sf \<longleftrightarrow>
     converts 23 (2 ^ 149) (- (2 ^ 31)) (2 ^ 31 - 1) sint (sf_f32_to_i32 sf) (sf_f32_to_i32_r_minMag sf)
   \<and> converts 23 (2 ^ 149) 0 (2 ^ 32 - 1) uint (sf_f32_to_ui32 sf) (sf_f32_to_ui32_r_minMag sf)
   \<and> converts 23 (2 ^ 149) (- (2 ^ 63)) (2 ^ 63 - 1) sint (sf_f32_to_i64 sf) (sf_f32_to_i64_r_minMag sf)
   \<and> converts 23 (2 ^ 149) 0 (2 ^ 64 - 1) uint (sf_f32_to_ui64 sf) (sf_f32_to_ui64_r_minMag sf)
   \<and> converts 52 (2 ^ 1074) (- (2 ^ 31)) (2 ^ 31 - 1) sint (sf_f64_to_i32 sf) (sf_f64_to_i32_r_minMag sf)
   \<and> converts 52 (2 ^ 1074) 0 (2 ^ 32 - 1) uint (sf_f64_to_ui32 sf) (sf_f64_to_ui32_r_minMag sf)
   \<and> converts 52 (2 ^ 1074) (- (2 ^ 63)) (2 ^ 63 - 1) sint (sf_f64_to_i64 sf) (sf_f64_to_i64_r_minMag sf)
   \<and> converts 52 (2 ^ 1074) 0 (2 ^ 64 - 1) uint (sf_f64_to_ui64 sf) (sf_f64_to_ui64_r_minMag sf)"

lemma int_div_less:
  assumes "0 < (c::int)"
  shows "v div c < k \<longleftrightarrow> v < k * c"
proof -
  have v: "v = v div c * c + v mod c" "0 \<le> v mod c" "v mod c < c" using assms by simp_all
  show ?thesis
  proof
    assume "v div c < k"
    then have "(v div c + 1) * c \<le> k * c" using assms by (intro mult_right_mono) simp_all
    then have "v div c * c + c \<le> k * c" by (simp add: distrib_right)
    with v show "v < k * c" by linarith
  next
    assume lt: "v < k * c"
    show "v div c < k"
    proof (rule ccontr)
      assume "\<not> v div c < k"
      then have "k * c \<le> v div c * c" using assms by (intro mult_right_mono) simp_all
      with v lt show False by linarith
    qed
  qed
qed

lemma int_part_bounds:
  assumes "0 < (one::int)"
  shows "0 < k \<Longrightarrow> int_part one v < k \<longleftrightarrow> v < k * one" and "0 \<le> k \<Longrightarrow> - k \<le> int_part one v \<longleftrightarrow> - ((k + 1) * one) < v"
    and "trunc_to one v = int_part one v * one"
proof -
  have up: "int_part one v = - ((- v) div one)" if "v < 0"
    using assms that by (simp add: int_part_def trunc_to_def ceil_to_def flip: mult_minus_left)
  have down: "int_part one v = v div one" if "\<not> v < 0" using assms that by (simp add: int_part_def trunc_to_def floor_to_def)
  show "int_part one v < k \<longleftrightarrow> v < k * one" if "0 < k"
  proof (cases "v < 0")
    case True
    then have "0 \<le> (- v) div one" using assms by (simp add: pos_imp_zdiv_nonneg_iff)
    moreover have "v < k * one" using True assms that by (meson less_trans mult_pos_pos)
    ultimately show ?thesis using up [OF True] that by simp
  next
    case False
    then show ?thesis using down [OF False] int_div_less [OF assms] by simp
  qed
  show "- k \<le> int_part one v \<longleftrightarrow> - ((k + 1) * one) < v" if "0 \<le> k"
  proof (cases "v < 0")
    case True
    have "- k \<le> int_part one v \<longleftrightarrow> (- v) div one < k + 1" using up [OF True] by linarith
    also have "\<dots> \<longleftrightarrow> - v < (k + 1) * one" by (rule int_div_less [OF assms])
    finally show ?thesis by linarith
  next
    case False
    then have "0 \<le> int_part one v" using down [OF False] assms by (simp add: pos_imp_zdiv_nonneg_iff)
    moreover have "0 < (k + 1) * one" using that assms by simp
    ultimately show ?thesis using False that by linarith
  qed
  show "trunc_to one v = int_part one v * one"
    using assms by (auto simp: int_part_def trunc_to_def ceil_to_def floor_to_def simp flip: mult_minus_left)
qed

context float_format
begin

lemma power_pattern: "fmag p ((b + j) * 2 ^ p) = 2 ^ j * u"
  using fmag_one [of "b + j" p] bias by (simp add: unit power_add [symmetric])

lemma large_value: "2 ^ p * u \<le> fmag p n \<Longrightarrow> u dvd fmag p n"
  using fmag_less_iff [of p n "(b + p) * 2 ^ p"] power_pattern [of p] fmag_integral [OF bias, of p n]
  by (simp add: unit not_less [symmetric])

lemma small_finite:
  fixes a :: "'a word"
  assumes "\<bar>fval p a\<bar> < 2 ^ j * int u" "b + j < 2 ^ q"
  shows "finite_pattern p (2 ^ q - 1) a"
proof -
  have "int (fmag p (frest a)) < int (2 ^ j * u)" using assms(1) by (simp add: fval_def split: if_splits)
  then have "fmag p (frest a) < fmag p ((b + j) * 2 ^ p)" by (simp only: power_pattern of_nat_less_iff)
  then have "frest a < (b + j) * 2 ^ p" by (simp add: fmag_less_iff)
  moreover have "(b + j) * 2 ^ p \<le> (2 ^ q - 1) * 2 ^ p" using assms(2) by (intro mult_le_mono1) simp
  ultimately show ?thesis unfolding finite_pattern_def by (rule less_le_trans)
qed

text \<open>A lower bound that is itself a number of the format, at least \<open>2 ^ p\<close>: there is nothing between it and the next integer.\<close>

lemma signed_range:
  fixes a :: "'a word"
  assumes "p \<le> j"
  shows "\<not> (2 ^ j * int u \<le> fval p a \<or> fval p a < - (2 ^ j * int u)) \<longleftrightarrow>
     - (2 ^ j) \<le> int_part (int u) (fval p a) \<and> int_part (int u) (fval p a) \<le> 2 ^ j - 1"
proof -
  let ?v = "fval p a" and ?o = "int u"
  have o: "0 < ?o" using upos by simp
  have hi: "int_part ?o ?v \<le> 2 ^ j - 1 \<longleftrightarrow> ?v < 2 ^ j * ?o" using int_part_bounds(1) [OF o, of "2 ^ j" ?v] by auto
  have lo: "- (2 ^ j) \<le> int_part ?o ?v \<longleftrightarrow> - ((2 ^ j + 1) * ?o) < ?v" using int_part_bounds(2) [OF o, of "2 ^ j" ?v] by simp
  have gap: "?v \<le> - ((2 ^ j + 1) * ?o)" if "?v < - (2 ^ j * ?o)"
  proof -
    have v: "?v = - int (fmag p (frest a))" using that o by (auto simp: fval_def split: if_splits) (smt (verit) mult_nonneg_nonneg of_nat_0_le_iff zero_le_power)
    have "int (2 ^ j * u) < int (fmag p (frest a))" using that v by simp
    then have lt: "2 ^ j * u < fmag p (frest a)" by (simp only: of_nat_less_iff)
    moreover have "2 ^ p * u \<le> 2 ^ j * u" using assms by simp
    ultimately obtain c where c: "fmag p (frest a) = u * c" using large_value [of "frest a"] by (meson dvdE less_imp_le_nat order.trans)
    then have "2 ^ j + 1 \<le> c" using lt upos by (simp add: mult.commute)
    then have "(2 ^ j + 1) * u \<le> c * u" by (rule mult_le_mono1)
    then have "int ((2 ^ j + 1) * u) \<le> int (c * u)" by (simp only: of_nat_le_iff)
    then show ?thesis unfolding v c by (simp add: algebra_simps)
  qed
  have "- ((2 ^ j + 1) * ?o) < - (2 ^ j * ?o)" using o by (simp add: distrib_right)
  with hi lo gap show ?thesis by linarith
qed

lemma unsigned_range:
  "\<not> (2 ^ j * int u \<le> v \<or> v \<le> - int u) \<longleftrightarrow> 0 \<le> int_part (int u) v \<and> int_part (int u) v \<le> 2 ^ j - 1"
proof -
  have o: "0 < int u" using upos by simp
  show ?thesis using int_part_bounds(1) [OF o, of "2 ^ j" v] int_part_bounds(2) [OF o, of 0 v] by auto
qed

lemma truncatesI:
  fixes a :: "'a word"
  assumes conv: "converts p (int u) lo hi rd f g" and lo: "- (2 ^ 63) \<le> lo" and hi: "hi < 2 ^ 64" and room64: "b + 64 < 2 ^ q"
    and tr: "finite_pattern p (2 ^ q - 1) a \<Longrightarrow> rounded p (2 ^ q - 1) (int u) trunc_to a t"
    and nan: "is_nan_pattern p (2 ^ q - 1) a \<Longrightarrow> r = Inl Wasm_interpreter_exception"
    and res: "\<not> is_nan_pattern p (2 ^ q - 1) a \<Longrightarrow> r = (if c then Inr (f t 0 False) else Inl Wasm_interpreter_exception)"
    and c: "c \<longleftrightarrow> lo \<le> int_part (int u) (fval p a) \<and> int_part (int u) (fval p a) \<le> hi"
  shows "truncates p (2 ^ q - 1) (int u) lo hi rd a r"
proof (cases "\<not> is_nan_pattern p (2 ^ q - 1) a \<and> c")
  case True
  let ?z = "int_part (int u) (fval p a)"
  have o: "0 < int u" using upos by simp
  have z: "lo \<le> ?z" "?z \<le> hi" using True c by auto
  have "fval p a < 2 ^ 64 * int u" using int_part_bounds(1) [OF o, of "2 ^ 64" "fval p a"] z hi by simp
  moreover have "- ((2 ^ 63 + 1) * int u) < fval p a" using int_part_bounds(2) [OF o, of "2 ^ 63" "fval p a"] z lo by simp
  ultimately have "\<bar>fval p a\<bar> < 2 ^ 64 * int u" using o by simp
  then have "rounded p (2 ^ q - 1) (int u) trunc_to a t" by (intro tr small_finite [OF _ room64])
  then have "fval p t = ?z * int u" using int_part_bounds(3) [OF o] by (simp add: rounded_def)
  then have "rd (f t 0 False) = ?z" using conv z by (simp add: converts_def)
  then show ?thesis using True c res by (simp add: truncates_def)
next
  case False
  then show ?thesis using c nan res unfolding truncates_def by (cases "is_nan_pattern p (2 ^ q - 1) a") auto
qed

end

lemma bounds32:
  "fval 23 (0x4F000000::u32) = 2 ^ 31 * 2 ^ 149" "fval 23 (0xCF000000::u32) = - (2 ^ 31 * 2 ^ 149)" "fval 23 (0x4F800000::u32) = 2 ^ 32 * 2 ^ 149"
  "fval 23 (0x5F000000::u32) = 2 ^ 63 * 2 ^ 149" "fval 23 (0xDF000000::u32) = - (2 ^ 63 * 2 ^ 149)" "fval 23 (0x5F800000::u32) = 2 ^ 64 * 2 ^ 149"
  "fval 23 (0xBF800000::u32) = - (2 ^ 149)"
  by (simp_all add: fval_def fsign_def frest_def fmag_def)

lemma bounds64:
  "fval 52 (0x41E0000000000000::u64) = 2 ^ 31 * 2 ^ 1074" "fval 52 (0xC1E0000000000000::u64) = - (2 ^ 31 * 2 ^ 1074)"
  "fval 52 (0xC1E0000000200000::u64) = - ((2 ^ 31 + 1) * 2 ^ 1074)" "fval 52 (0x41F0000000000000::u64) = 2 ^ 32 * 2 ^ 1074"
  "fval 52 (0x43E0000000000000::u64) = 2 ^ 63 * 2 ^ 1074" "fval 52 (0xC3E0000000000000::u64) = - (2 ^ 63 * 2 ^ 1074)"
  "fval 52 (0x43F0000000000000::u64) = 2 ^ 64 * 2 ^ 1074" "fval 52 (0xBFF0000000000000::u64) = - (2 ^ 1074)"
  by (simp_all add: fval_def fsign_def frest_def fmag_def)

lemma bounds_not_nan:
  "\<not> is_nan_pattern 23 255 (0x4F000000::u32)" "\<not> is_nan_pattern 23 255 (0xCF000000::u32)" "\<not> is_nan_pattern 23 255 (0x4F800000::u32)"
  "\<not> is_nan_pattern 23 255 (0x5F000000::u32)" "\<not> is_nan_pattern 23 255 (0xDF000000::u32)" "\<not> is_nan_pattern 23 255 (0x5F800000::u32)"
  "\<not> is_nan_pattern 23 255 (0xBF800000::u32)"
  "\<not> is_nan_pattern 52 2047 (0x41E0000000000000::u64)" "\<not> is_nan_pattern 52 2047 (0xC1E0000000000000::u64)"
  "\<not> is_nan_pattern 52 2047 (0xC1E0000000200000::u64)" "\<not> is_nan_pattern 52 2047 (0x41F0000000000000::u64)"
  "\<not> is_nan_pattern 52 2047 (0x43E0000000000000::u64)" "\<not> is_nan_pattern 52 2047 (0xC3E0000000000000::u64)"
  "\<not> is_nan_pattern 52 2047 (0x43F0000000000000::u64)" "\<not> is_nan_pattern 52 2047 (0xBFF0000000000000::u64)"
  by (simp_all add: is_nan_pattern_def frest_def)

text \<open>
  The locale's rules at both formats, with the numbers left as powers: \<open>simp\<close> would evaluate them.
\<close>

lemma nan_iff:
  assumes "nan_exact sf"
  shows "sf_is_nan32 sf a \<longleftrightarrow> is_nan_pattern 23 255 a" "sf_is_nan64 sf b \<longleftrightarrow> is_nan_pattern 52 2047 b"
  using assms by (simp_all add: nan_exact_def)

lemma emax: "(2 ^ 8 - 1 :: nat) = 255" "(2 ^ 11 - 1 :: nat) = 2047"
  by simp_all

lemmas range32 = f32.signed_range [unfolded of_nat_power of_nat_numeral] f32.unsigned_range [unfolded of_nat_power of_nat_numeral]
lemmas range64 = f64.signed_range [unfolded of_nat_power of_nat_numeral] f64.unsigned_range [unfolded of_nat_power of_nat_numeral]
lemmas truncates32 = f32.truncatesI [unfolded of_nat_power of_nat_numeral emax]
lemmas truncates64 = f64.truncatesI [unfolded of_nat_power of_nat_numeral emax]

lemma shape32:
  assumes "nan_exact sf" "converts 23 (2 ^ 149) lo hi rd f g" "- (2 ^ 63) \<le> lo" "hi < 2 ^ 64"
    and "\<not> is_nan_pattern 23 255 a \<Longrightarrow> c \<longleftrightarrow> lo \<le> int_part (2 ^ 149) (fval 23 a) \<and> int_part (2 ^ 149) (fval 23 a) \<le> hi"
  shows "truncates 23 255 (2 ^ 149) lo hi rd a (assertE c Wasm_interpreter_exception
     (assertE (\<not> sf_is_nan32 sf a) Wasm_interpreter_exception (Inr (f (eosio_f32_trunc sf False a) 0 False))))"
  by (rule truncates32 [OF assms(2-4) _ trunc32 _ _ refl])
    (use assms(1,5) in \<open>simp_all only: nan_iff assertE_def HOL.simp_thms if_True if_False\<close>, simp_all)

lemma shape64:
  assumes "nan_exact sf" "converts 52 (2 ^ 1074) lo hi rd f g" "- (2 ^ 63) \<le> lo" "hi < 2 ^ 64"
    and "\<not> is_nan_pattern 52 2047 a \<Longrightarrow> c \<longleftrightarrow> lo \<le> int_part (2 ^ 1074) (fval 52 a) \<and> int_part (2 ^ 1074) (fval 52 a) \<le> hi"
  shows "truncates 52 2047 (2 ^ 1074) lo hi rd a (assertE c Wasm_interpreter_exception
     (assertE (\<not> sf_is_nan64 sf a) Wasm_interpreter_exception (Inr (f (eosio_f64_trunc sf False a) 0 False))))"
  by (rule truncates64 [OF assms(2-4) _ trunc64 _ _ refl])
    (use assms(1,5) in \<open>simp_all only: nan_iff assertE_def HOL.simp_thms if_True if_False\<close>, simp_all)

lemma f64_fixed_range:
  "\<not> (2 ^ 31 * 2 ^ 1074 \<le> v \<or> v \<le> - ((2 ^ 31 + 1) * 2 ^ 1074)) \<longleftrightarrow>
     - (2 ^ 31) \<le> int_part (2 ^ 1074) v \<and> int_part (2 ^ 1074) v \<le> 2 ^ 31 - 1"
proof -
  have o: "0 < (2 ^ 1074 :: int)" by (rule zero_less_power) simp
  have "int_part (2 ^ 1074) v < 2 ^ 31 \<longleftrightarrow> v < 2 ^ 31 * 2 ^ 1074" by (rule int_part_bounds(1) [OF o]) simp
  moreover have "- (2 ^ 31) \<le> int_part (2 ^ 1074) v \<longleftrightarrow> - ((2 ^ 31 + 1) * 2 ^ 1074) < v" by (rule int_part_bounds(2) [OF o]) simp
  ultimately show ?thesis by (meson not_less zle_diff1_eq)
qed

lemma conversions:
  assumes "conversions_exact sf"
  shows "converts 23 (2 ^ 149) (- (2 ^ 31)) (2 ^ 31 - 1) sint (sf_f32_to_i32 sf) (sf_f32_to_i32_r_minMag sf)"
    and "converts 23 (2 ^ 149) 0 (2 ^ 32 - 1) uint (sf_f32_to_ui32 sf) (sf_f32_to_ui32_r_minMag sf)"
    and "converts 23 (2 ^ 149) (- (2 ^ 63)) (2 ^ 63 - 1) sint (sf_f32_to_i64 sf) (sf_f32_to_i64_r_minMag sf)"
    and "converts 23 (2 ^ 149) 0 (2 ^ 64 - 1) uint (sf_f32_to_ui64 sf) (sf_f32_to_ui64_r_minMag sf)"
    and "converts 52 (2 ^ 1074) (- (2 ^ 31)) (2 ^ 31 - 1) sint (sf_f64_to_i32 sf) (sf_f64_to_i32_r_minMag sf)"
    and "converts 52 (2 ^ 1074) 0 (2 ^ 32 - 1) uint (sf_f64_to_ui32 sf) (sf_f64_to_ui32_r_minMag sf)"
    and "converts 52 (2 ^ 1074) (- (2 ^ 63)) (2 ^ 63 - 1) sint (sf_f64_to_i64 sf) (sf_f64_to_i64_r_minMag sf)"
    and "converts 52 (2 ^ 1074) 0 (2 ^ 64 - 1) uint (sf_f64_to_ui64 sf) (sf_f64_to_ui64_r_minMag sf)"
  using assms unfolding conversions_exact_def by blast+

lemma ranges32:
  fixes a :: u32
  shows "\<not> (2 ^ 31 * 2 ^ 149 \<le> fval 23 a \<or> fval 23 a < - (2 ^ 31 * 2 ^ 149)) \<longleftrightarrow>
       - (2 ^ 31) \<le> int_part (2 ^ 149) (fval 23 a) \<and> int_part (2 ^ 149) (fval 23 a) \<le> 2 ^ 31 - 1"
    and "\<not> (2 ^ 63 * 2 ^ 149 \<le> fval 23 a \<or> fval 23 a < - (2 ^ 63 * 2 ^ 149)) \<longleftrightarrow>
       - (2 ^ 63) \<le> int_part (2 ^ 149) (fval 23 a) \<and> int_part (2 ^ 149) (fval 23 a) \<le> 2 ^ 63 - 1"
  by (rule range32; simp)+

lemma ranges64:
  fixes a :: u64
  shows "\<not> (2 ^ 63 * 2 ^ 1074 \<le> fval 52 a \<or> fval 52 a < - (2 ^ 63 * 2 ^ 1074)) \<longleftrightarrow>
       - (2 ^ 63) \<le> int_part (2 ^ 1074) (fval 52 a) \<and> int_part (2 ^ 1074) (fval 52 a) \<le> 2 ^ 63 - 1"
  by (rule range64) simp

lemmas in_bounds = ranges32 range32(2) ranges64 range64(2) f64_fixed_range

lemma trunc_f32:
  assumes "nan_exact sf" "order_exact sf" "conversions_exact sf"
  shows "truncates 23 255 (2 ^ 149) (- (2 ^ 31)) (2 ^ 31 - 1) sint a (eosio_f32_trunc_i32s sf a)"
    and "truncates 23 255 (2 ^ 149) 0 (2 ^ 32 - 1) uint a (eosio_f32_trunc_i32u sf a)"
    and "truncates 23 255 (2 ^ 149) (- (2 ^ 63)) (2 ^ 63 - 1) sint a (eosio_f32_trunc_i64s sf a)"
    and "truncates 23 255 (2 ^ 149) 0 (2 ^ 64 - 1) uint a (eosio_f32_trunc_i64u sf a)"
proof -
  note sh = shape32 [OF assms(1)] and cv = conversions [OF assms(3)]
  show "truncates 23 255 (2 ^ 149) (- (2 ^ 31)) (2 ^ 31 - 1) sint a (eosio_f32_trunc_i32s sf a)"
    unfolding eosio_f32_trunc_i32s_def compare32 [OF assms(1,2)] bounds32
    by (rule sh [OF cv(1)]) (simp_all only: bounds_not_nan HOL.simp_thms in_bounds, simp_all)
  show "truncates 23 255 (2 ^ 149) 0 (2 ^ 32 - 1) uint a (eosio_f32_trunc_i32u sf a)"
    unfolding eosio_f32_trunc_i32u_def compare32 [OF assms(1,2)] bounds32
    by (rule sh [OF cv(2)]) (simp_all only: bounds_not_nan HOL.simp_thms in_bounds, simp_all)
  show "truncates 23 255 (2 ^ 149) (- (2 ^ 63)) (2 ^ 63 - 1) sint a (eosio_f32_trunc_i64s sf a)"
    unfolding eosio_f32_trunc_i64s_def compare32 [OF assms(1,2)] bounds32
    by (rule sh [OF cv(3)]) (simp_all only: bounds_not_nan HOL.simp_thms in_bounds, simp_all)
  show "truncates 23 255 (2 ^ 149) 0 (2 ^ 64 - 1) uint a (eosio_f32_trunc_i64u sf a)"
    unfolding eosio_f32_trunc_i64u_def compare32 [OF assms(1,2)] bounds32
    by (rule sh [OF cv(4)]) (simp_all only: bounds_not_nan HOL.simp_thms in_bounds, simp_all)
qed

lemma trunc_f64:
  assumes "nan_exact sf" "order_exact sf" "conversions_exact sf"
  shows "truncates 52 2047 (2 ^ 1074) (- (2 ^ 31)) (2 ^ 31 - 1) sint a (eosio_f64_trunc_i32s sf True a)"
    and "truncates 52 2047 (2 ^ 1074) 0 (2 ^ 32 - 1) uint a (eosio_f64_trunc_i32u sf a)"
    and "truncates 52 2047 (2 ^ 1074) (- (2 ^ 63)) (2 ^ 63 - 1) sint a (eosio_f64_trunc_i64s sf a)"
    and "truncates 52 2047 (2 ^ 1074) 0 (2 ^ 64 - 1) uint a (eosio_f64_trunc_i64u sf a)"
proof -
  note sh = shape64 [OF assms(1)] and cv = conversions [OF assms(3)]
  show "truncates 52 2047 (2 ^ 1074) (- (2 ^ 31)) (2 ^ 31 - 1) sint a (eosio_f64_trunc_i32s sf True a)"
    unfolding eosio_f64_trunc_i32s_def compare64 [OF assms(1,2)] bounds64 if_True
    by (rule sh [OF cv(5)]) (simp_all only: bounds_not_nan HOL.simp_thms in_bounds, simp_all)
  show "truncates 52 2047 (2 ^ 1074) 0 (2 ^ 32 - 1) uint a (eosio_f64_trunc_i32u sf a)"
    unfolding eosio_f64_trunc_i32u_def compare64 [OF assms(1,2)] bounds64
    by (rule sh [OF cv(6)]) (simp_all only: bounds_not_nan HOL.simp_thms in_bounds, simp_all)
  show "truncates 52 2047 (2 ^ 1074) (- (2 ^ 63)) (2 ^ 63 - 1) sint a (eosio_f64_trunc_i64s sf a)"
    unfolding eosio_f64_trunc_i64s_def compare64 [OF assms(1,2)] bounds64
    by (rule sh [OF cv(7)]) (simp_all only: bounds_not_nan HOL.simp_thms in_bounds, simp_all)
  show "truncates 52 2047 (2 ^ 1074) 0 (2 ^ 64 - 1) uint a (eosio_f64_trunc_i64u sf a)"
    unfolding eosio_f64_trunc_i64u_def compare64 [OF assms(1,2)] bounds64
    by (rule sh [OF cv(8)]) (simp_all only: bounds_not_nan HOL.simp_thms in_bounds, simp_all)
qed

text \<open>The saturating conversions test for NaN first and clamp at the bounds.\<close>

lemma sat_signed:
  assumes one: "0 < one" and k: "1 \<le> (k::int)" and cv: "converts p one (- k) (k - 1) rd f g"
    and rd: "rd z0 = 0" "rd mx = k - 1" "rd mn = - k"
  shows "saturates p emax one (- k) (k - 1) rd a (if is_nan_pattern p emax a then z0 else
     if \<not> is_nan_pattern p emax a \<and> k * one \<le> fval p a then mx
     else if \<not> is_nan_pattern p emax a \<and> fval p a < - (k * one) then mn else g a False)"
proof (cases "is_nan_pattern p emax a")
  case False
  let ?v = "fval p a" and ?z = "int_part one (fval p a)"
  have hi: "?z < k \<longleftrightarrow> ?v < k * one" by (rule int_part_bounds(1) [OF one]) (use k in linarith)
  have lo: "- k \<le> ?z \<longleftrightarrow> - ((k + 1) * one) < ?v" by (rule int_part_bounds(2) [OF one]) (use k in linarith)
  have lo': "- (k - 1) \<le> ?z \<longleftrightarrow> - (k * one) < ?v" using int_part_bounds(2) [OF one, of "k - 1" ?v] k by simp
  have kk: "0 < k * one" "k * one < (k + 1) * one" using one k by (simp_all add: distrib_right)
  consider "k * one \<le> ?v" | "?v < - (k * one)" | "?v < k * one" "- (k * one) \<le> ?v" by linarith
  then show ?thesis
  proof cases
    case 1
    then show ?thesis using False hi rd k by (simp add: saturates_def)
  next
    case 2
    then have "?z \<le> - k" "\<not> k * one \<le> ?v" using lo' kk by linarith+
    then show ?thesis using False 2 rd k by (simp add: saturates_def)
  next
    case 3
    then have "- k \<le> ?z" "?z \<le> k - 1" using hi lo kk by linarith+
    then show ?thesis using False 3 cv by (simp add: saturates_def converts_def)
  qed
qed (simp add: saturates_def rd)

lemma sat_unsigned:
  assumes one: "0 < one" and k: "1 \<le> (k::int)" and cv: "converts p one 0 (k - 1) rd f g" and rd: "rd z0 = 0" "rd mx = k - 1"
  shows "saturates p emax one 0 (k - 1) rd a (if is_nan_pattern p emax a then z0 else
     if \<not> is_nan_pattern p emax a \<and> k * one \<le> fval p a then mx
     else if \<not> is_nan_pattern p emax a \<and> fval p a \<le> - one then z0 else g a False)"
proof (cases "is_nan_pattern p emax a")
  case False
  let ?v = "fval p a" and ?z = "int_part one (fval p a)"
  have hi: "?z < k \<longleftrightarrow> ?v < k * one" by (rule int_part_bounds(1) [OF one]) (use k in linarith)
  have lo: "0 \<le> ?z \<longleftrightarrow> - one < ?v" using int_part_bounds(2) [OF one, of 0 ?v] by simp
  have kk: "0 < k * one" using one k by simp
  consider "k * one \<le> ?v" | "?v \<le> - one" | "?v < k * one" "- one < ?v" by linarith
  then show ?thesis
  proof cases
    case 1
    then show ?thesis using False hi rd k by (simp add: saturates_def)
  next
    case 2
    then have "?z \<le> 0" "\<not> k * one \<le> ?v" using lo kk one by linarith+
    then show ?thesis using False 2 rd k by (simp add: saturates_def)
  next
    case 3
    then have "0 \<le> ?z" "?z \<le> k - 1" using hi lo by linarith+
    then show ?thesis using False 3 cv by (simp add: saturates_def converts_def)
  qed
qed (simp add: saturates_def rd)

lemma limits:
  "sint (0x7FFFFFFF::u32) = 2 ^ 31 - 1" "sint (0x80000000::u32) = - (2 ^ 31)" "uint (0xFFFFFFFF::u32) = 2 ^ 32 - 1"
  "sint (0x7FFFFFFFFFFFFFFF::u64) = 2 ^ 63 - 1" "sint (0x8000000000000000::u64) = - (2 ^ 63)" "uint (0xFFFFFFFFFFFFFFFF::u64) = 2 ^ 64 - 1"
  by simp_all

lemma sat_f32:
  assumes "nan_exact sf" "order_exact sf" "conversions_exact sf"
  shows "saturates 23 255 (2 ^ 149) (- (2 ^ 31)) (2 ^ 31 - 1) sint a (eosio_i32_trunc_sat_f32_s sf a)"
    and "saturates 23 255 (2 ^ 149) 0 (2 ^ 32 - 1) uint a (eosio_i32_trunc_sat_f32_u sf a)"
    and "saturates 23 255 (2 ^ 149) (- (2 ^ 63)) (2 ^ 63 - 1) sint a (eosio_i64_trunc_sat_f32_s sf a)"
    and "saturates 23 255 (2 ^ 149) 0 (2 ^ 64 - 1) uint a (eosio_i64_trunc_sat_f32_u sf a)"
proof -
  have one: "0 < (2 ^ 149 :: int)" by (rule zero_less_power) simp
  have one_le: "((1::int) \<le> 2 ^ n) = True" for n by simp
  note cv = conversions [OF assms(3)]
  show "saturates 23 255 (2 ^ 149) (- (2 ^ 31)) (2 ^ 31 - 1) sint a (eosio_i32_trunc_sat_f32_s sf a)"
    using sat_signed [OF one _ cv(1) _ limits(1,2), of 0 255 a]
    unfolding eosio_i32_trunc_sat_f32_s_def compare32 [OF assms(1,2)] bounds32 nan_iff [OF assms(1)]
    by (simp only: bounds_not_nan HOL.simp_thms signed_0 unsigned_0 one_le)
  show "saturates 23 255 (2 ^ 149) 0 (2 ^ 32 - 1) uint a (eosio_i32_trunc_sat_f32_u sf a)"
    using sat_unsigned [OF one _ cv(2) _ limits(3), of 0 255 a]
    unfolding eosio_i32_trunc_sat_f32_u_def compare32 [OF assms(1,2)] bounds32 nan_iff [OF assms(1)]
    by (simp only: bounds_not_nan HOL.simp_thms signed_0 unsigned_0 one_le)
  show "saturates 23 255 (2 ^ 149) (- (2 ^ 63)) (2 ^ 63 - 1) sint a (eosio_i64_trunc_sat_f32_s sf a)"
    using sat_signed [OF one _ cv(3) _ limits(4,5), of 0 255 a]
    unfolding eosio_i64_trunc_sat_f32_s_def compare32 [OF assms(1,2)] bounds32 nan_iff [OF assms(1)]
    by (simp only: bounds_not_nan HOL.simp_thms signed_0 unsigned_0 one_le)
  show "saturates 23 255 (2 ^ 149) 0 (2 ^ 64 - 1) uint a (eosio_i64_trunc_sat_f32_u sf a)"
    using sat_unsigned [OF one _ cv(4) _ limits(6), of 0 255 a]
    unfolding eosio_i64_trunc_sat_f32_u_def compare32 [OF assms(1,2)] bounds32 nan_iff [OF assms(1)]
    by (simp only: bounds_not_nan HOL.simp_thms signed_0 unsigned_0 one_le)
qed

lemma sat_f64:
  assumes "nan_exact sf" "order_exact sf" "conversions_exact sf"
  shows "saturates 52 2047 (2 ^ 1074) (- (2 ^ 31)) (2 ^ 31 - 1) sint a (eosio_i32_trunc_sat_f64_s sf a)"
    and "saturates 52 2047 (2 ^ 1074) 0 (2 ^ 32 - 1) uint a (eosio_i32_trunc_sat_f64_u sf a)"
    and "saturates 52 2047 (2 ^ 1074) (- (2 ^ 63)) (2 ^ 63 - 1) sint a (eosio_i64_trunc_sat_f64_s sf a)"
    and "saturates 52 2047 (2 ^ 1074) 0 (2 ^ 64 - 1) uint a (eosio_i64_trunc_sat_f64_u sf a)"
proof -
  have one: "0 < (2 ^ 1074 :: int)" by (rule zero_less_power) simp
  have one_le: "((1::int) \<le> 2 ^ n) = True" for n by simp
  note cv = conversions [OF assms(3)]
  show "saturates 52 2047 (2 ^ 1074) (- (2 ^ 31)) (2 ^ 31 - 1) sint a (eosio_i32_trunc_sat_f64_s sf a)"
    using sat_signed [OF one _ cv(5) _ limits(1,2), of 0 2047 a]
    unfolding eosio_i32_trunc_sat_f64_s_def compare64 [OF assms(1,2)] bounds64 nan_iff [OF assms(1)]
    by (simp only: bounds_not_nan HOL.simp_thms signed_0 unsigned_0 one_le)
  show "saturates 52 2047 (2 ^ 1074) 0 (2 ^ 32 - 1) uint a (eosio_i32_trunc_sat_f64_u sf a)"
    using sat_unsigned [OF one _ cv(6) _ limits(3), of 0 2047 a]
    unfolding eosio_i32_trunc_sat_f64_u_def compare64 [OF assms(1,2)] bounds64 nan_iff [OF assms(1)]
    by (simp only: bounds_not_nan HOL.simp_thms signed_0 unsigned_0 one_le)
  show "saturates 52 2047 (2 ^ 1074) (- (2 ^ 63)) (2 ^ 63 - 1) sint a (eosio_i64_trunc_sat_f64_s sf a)"
    using sat_signed [OF one _ cv(7) _ limits(4,5), of 0 2047 a]
    unfolding eosio_i64_trunc_sat_f64_s_def compare64 [OF assms(1,2)] bounds64 nan_iff [OF assms(1)]
    by (simp only: bounds_not_nan HOL.simp_thms signed_0 unsigned_0 one_le)
  show "saturates 52 2047 (2 ^ 1074) 0 (2 ^ 64 - 1) uint a (eosio_i64_trunc_sat_f64_u sf a)"
    using sat_unsigned [OF one _ cv(8) _ limits(6), of 0 2047 a]
    unfolding eosio_i64_trunc_sat_f64_u_def compare64 [OF assms(1,2)] bounds64 nan_iff [OF assms(1)]
    by (simp only: bounds_not_nan HOL.simp_thms signed_0 unsigned_0 one_le)
qed

text \<open>
  Without the fixed bound, \<open>i32.trunc_f64_s\<close> compares with the smallest integer itself, so it also refuses the values less than
  one below it.
\<close>

lemma unfixed_bound:
  assumes "nan_exact sf" "order_exact sf"
  shows "eosio_f64_trunc_i32s sf False a = (if \<not> is_nan_pattern 52 2047 a \<and> fval 52 a < - (2 ^ 31 * 2 ^ 1074)
    then Inl Wasm_interpreter_exception else eosio_f64_trunc_i32s sf True a)"
proof -
  define one :: int where "one = 2 ^ 1074"
  have "0 < one" unfolding one_def by (rule zero_less_power) simp
  then have "v \<le> - ((2 ^ 31 + 1) * one) \<Longrightarrow> v < - (2 ^ 31 * one)" for v by (simp add: algebra_simps)
  then show ?thesis
    unfolding eosio_f64_trunc_i32s_def compare64 [OF assms] bounds64 if_True if_False one_def [symmetric] assertE_def nan_iff [OF assms(1)]
    using bounds_not_nan by auto
qed

section \<open>The properties\<close>

text \<open>
  C34: The rounding instructions round: on a finite operand \<open>f32.ceil\<close>, \<open>f32.floor\<close>, \<open>f32.trunc\<close> and
  \<open>f64.trunc\<close>, which work on the bits with masks and a carry into the exponent, return the number whose
  value is the operand's value rounded up, down or towards zero to an integer; it is finite and has
  the operand's sign, so that a result of zero is negative zero for a negative operand.
\<close>

theorem float_rounding_exact:
  assumes "nan_exact sf" "finite_pattern 23 255 (a::u32)" "finite_pattern 52 2047 (d::u64)"
  shows "rounded 23 255 (2 ^ 149) ceil_to a (eosio_f32_ceil sf arith a)
     \<and> rounded 23 255 (2 ^ 149) floor_to a (eosio_f32_floor sf arith a)
     \<and> rounded 23 255 (2 ^ 149) trunc_to a (eosio_f32_trunc sf arith a)
     \<and> rounded 52 2047 (2 ^ 1074) trunc_to d (eosio_f64_trunc sf arith d)"
  using ceil32 [of a arith sf] trunc32 [of a arith sf] trunc64 [of d arith sf] not_nan [OF assms(1)] assms(2,3) by blast

text \<open>
  C35: Minimum and maximum of both formats choose one operand each by the order of the values, of two zeros by
  the sign, and give a NaN when an operand is one.
\<close>

theorem float_select_exact:
  assumes "nan_exact sf" "order_exact sf"
  shows "selects 23 255 a b (eosio_f32_min sf arith a b) (eosio_f32_max sf arith a b)
     \<and> selects 52 2047 c d (eosio_f64_min sf arith c d) (eosio_f64_max sf arith c d)"
  using select32 [OF assms] select64 [OF assms] by blast

text \<open>
  C36: The conversions of a float to an integer trap exactly on NaN, on infinities and when the integer part is
  outside of the target's range, and otherwise return the integer part: the comparisons with the bounds
  of the range before the conversion are the right ones, strict or not, at both formats.  There is one exception: with the option
  \<open>eosio_fp\<close> (\<open>FixedBound\<close> false) \<open>i32.trunc_f64_s\<close> also traps on every value below the smallest integer, those
  whose integer part is in range included, and is otherwise the same.
\<close>

theorem float_trunc_exact:
  assumes "nan_exact sf" "order_exact sf" "conversions_exact sf"
  shows "truncates 23 255 (2 ^ 149) (- (2 ^ 31)) (2 ^ 31 - 1) sint a (eosio_f32_trunc_i32s sf a)
     \<and> truncates 23 255 (2 ^ 149) 0 (2 ^ 32 - 1) uint a (eosio_f32_trunc_i32u sf a)
     \<and> truncates 23 255 (2 ^ 149) (- (2 ^ 63)) (2 ^ 63 - 1) sint a (eosio_f32_trunc_i64s sf a)
     \<and> truncates 23 255 (2 ^ 149) 0 (2 ^ 64 - 1) uint a (eosio_f32_trunc_i64u sf a)
     \<and> truncates 52 2047 (2 ^ 1074) (- (2 ^ 31)) (2 ^ 31 - 1) sint d (eosio_f64_trunc_i32s sf True d)
     \<and> truncates 52 2047 (2 ^ 1074) 0 (2 ^ 32 - 1) uint d (eosio_f64_trunc_i32u sf d)
     \<and> truncates 52 2047 (2 ^ 1074) (- (2 ^ 63)) (2 ^ 63 - 1) sint d (eosio_f64_trunc_i64s sf d)
     \<and> truncates 52 2047 (2 ^ 1074) 0 (2 ^ 64 - 1) uint d (eosio_f64_trunc_i64u sf d)
     \<and> eosio_f64_trunc_i32s sf False d = (if \<not> is_nan_pattern 52 2047 d \<and> fval 52 d < - (2 ^ 31 * 2 ^ 1074)
          then Inl Wasm_interpreter_exception else eosio_f64_trunc_i32s sf True d)"
  using trunc_f32 [OF assms] trunc_f64 [OF assms] unfixed_bound [OF assms(1,2)] by blast

text \<open>
  C37: The saturating conversions never trap: they return zero for NaN and otherwise the integer part clamped to
  the target's range.
\<close>

theorem float_trunc_sat_exact:
  assumes "nan_exact sf" "order_exact sf" "conversions_exact sf"
  shows "saturates 23 255 (2 ^ 149) (- (2 ^ 31)) (2 ^ 31 - 1) sint a (eosio_i32_trunc_sat_f32_s sf a)
     \<and> saturates 23 255 (2 ^ 149) 0 (2 ^ 32 - 1) uint a (eosio_i32_trunc_sat_f32_u sf a)
     \<and> saturates 23 255 (2 ^ 149) (- (2 ^ 63)) (2 ^ 63 - 1) sint a (eosio_i64_trunc_sat_f32_s sf a)
     \<and> saturates 23 255 (2 ^ 149) 0 (2 ^ 64 - 1) uint a (eosio_i64_trunc_sat_f32_u sf a)
     \<and> saturates 52 2047 (2 ^ 1074) (- (2 ^ 31)) (2 ^ 31 - 1) sint d (eosio_i32_trunc_sat_f64_s sf d)
     \<and> saturates 52 2047 (2 ^ 1074) 0 (2 ^ 32 - 1) uint d (eosio_i32_trunc_sat_f64_u sf d)
     \<and> saturates 52 2047 (2 ^ 1074) (- (2 ^ 63)) (2 ^ 63 - 1) sint d (eosio_i64_trunc_sat_f64_s sf d)
     \<and> saturates 52 2047 (2 ^ 1074) 0 (2 ^ 64 - 1) uint d (eosio_i64_trunc_sat_f64_u sf d)"
  using sat_f32 [OF assms] sat_f64 [OF assms] by blast

text \<open>A library whose comparisons and conversions go by the values.\<close>

definition by_value :: softfloat where
  "by_value = \<lparr>sf_is_nan32 = is_nan_pattern 23 255, sf_is_nan64 = is_nan_pattern 52 2047, sf_sign_bit32 = fsign, sf_sign_bit64 = fsign,
     sf_add32 = (\<lambda>a b. a), sf_sub32 = (\<lambda>a b. a), sf_mul32 = (\<lambda>a b. a), sf_div32 = (\<lambda>a b. a), sf_sqrt32 = (\<lambda>a. a),
     sf_eq32 = (\<lambda>a b. \<not> is_nan_pattern 23 255 a \<and> \<not> is_nan_pattern 23 255 b \<and> fval 23 a = fval 23 b),
     sf_lt32 = (\<lambda>a b. \<not> is_nan_pattern 23 255 a \<and> \<not> is_nan_pattern 23 255 b \<and> fval 23 a < fval 23 b),
     sf_le32 = (\<lambda>a b. \<not> is_nan_pattern 23 255 a \<and> \<not> is_nan_pattern 23 255 b \<and> fval 23 a \<le> fval 23 b),
     sf_add64 = (\<lambda>a b. a), sf_sub64 = (\<lambda>a b. a), sf_mul64 = (\<lambda>a b. a), sf_div64 = (\<lambda>a b. a), sf_sqrt64 = (\<lambda>a. a),
     sf_eq64 = (\<lambda>a b. \<not> is_nan_pattern 52 2047 a \<and> \<not> is_nan_pattern 52 2047 b \<and> fval 52 a = fval 52 b),
     sf_lt64 = (\<lambda>a b. \<not> is_nan_pattern 52 2047 a \<and> \<not> is_nan_pattern 52 2047 b \<and> fval 52 a < fval 52 b),
     sf_le64 = (\<lambda>a b. \<not> is_nan_pattern 52 2047 a \<and> \<not> is_nan_pattern 52 2047 b \<and> fval 52 a \<le> fval 52 b),
     sf_f32_to_f64 = ucast, sf_f64_to_f32 = ucast,
     sf_f32_to_i32 = (\<lambda>a _ _. word_of_int (int_part (2 ^ 149) (fval 23 a))), sf_f32_to_ui32 = (\<lambda>a _ _. word_of_int (int_part (2 ^ 149) (fval 23 a))),
     sf_f32_to_i64 = (\<lambda>a _ _. word_of_int (int_part (2 ^ 149) (fval 23 a))), sf_f32_to_ui64 = (\<lambda>a _ _. word_of_int (int_part (2 ^ 149) (fval 23 a))),
     sf_f64_to_i32 = (\<lambda>a _ _. word_of_int (int_part (2 ^ 1074) (fval 52 a))), sf_f64_to_ui32 = (\<lambda>a _ _. word_of_int (int_part (2 ^ 1074) (fval 52 a))),
     sf_f64_to_i64 = (\<lambda>a _ _. word_of_int (int_part (2 ^ 1074) (fval 52 a))), sf_f64_to_ui64 = (\<lambda>a _ _. word_of_int (int_part (2 ^ 1074) (fval 52 a))),
     sf_f32_to_i32_r_minMag = (\<lambda>a _. word_of_int (int_part (2 ^ 149) (fval 23 a))), sf_f32_to_ui32_r_minMag = (\<lambda>a _. word_of_int (int_part (2 ^ 149) (fval 23 a))),
     sf_f32_to_i64_r_minMag = (\<lambda>a _. word_of_int (int_part (2 ^ 149) (fval 23 a))), sf_f32_to_ui64_r_minMag = (\<lambda>a _. word_of_int (int_part (2 ^ 149) (fval 23 a))),
     sf_f64_to_i32_r_minMag = (\<lambda>a _. word_of_int (int_part (2 ^ 1074) (fval 52 a))), sf_f64_to_ui32_r_minMag = (\<lambda>a _. word_of_int (int_part (2 ^ 1074) (fval 52 a))),
     sf_f64_to_i64_r_minMag = (\<lambda>a _. word_of_int (int_part (2 ^ 1074) (fval 52 a))), sf_f64_to_ui64_r_minMag = (\<lambda>a _. word_of_int (int_part (2 ^ 1074) (fval 52 a))),
     sf_i32_to_f32 = (\<lambda>a. a), sf_ui32_to_f32 = (\<lambda>a. a), sf_i64_to_f32 = ucast, sf_ui64_to_f32 = ucast,
     sf_i32_to_f64 = ucast, sf_ui32_to_f64 = ucast, sf_i64_to_f64 = (\<lambda>a. a), sf_ui64_to_f64 = (\<lambda>a. a)\<rparr>"

lemma int_part_mult: "0 < one \<Longrightarrow> int_part one (z * one) = z"
  by (simp add: int_part_def trunc_to_def ceil_to_def floor_to_def flip: mult_minus_left)

lemma converts_signed:
  assumes "0 < one" "- (2 ^ (LENGTH('r::len) - 1)) = lo" "2 ^ (LENGTH('r) - 1) - 1 = hi"
  shows "converts p one lo hi sint (\<lambda>a _ _. word_of_int (int_part one (fval p a)) :: 'r word) (\<lambda>a _. word_of_int (int_part one (fval p a)))"
proof -
  have r: "sint (word_of_int z :: 'r word) = z" if "lo \<le> z" "z \<le> hi" for z
    using that assms by (simp add: sint_sbintrunc' signed_take_bit_int_eq_self)
  with int_part_mult [OF assms(1)] show ?thesis by (simp add: converts_def)
qed

lemma converts_unsigned:
  assumes "0 < one" "2 ^ LENGTH('r::len) - 1 = hi"
  shows "converts p one 0 hi uint (\<lambda>a _ _. word_of_int (int_part one (fval p a)) :: 'r word) (\<lambda>a _. word_of_int (int_part one (fval p a)))"
proof -
  have r: "uint (word_of_int z :: 'r word) = z" if "0 \<le> z" "z \<le> hi" for z
    using that assms by (simp add: uint_word_of_int)
  with int_part_mult [OF assms(1)] show ?thesis by (simp add: converts_def)
qed

lemma by_value_exact: "nan_exact by_value" "order_exact by_value" "conversions_exact by_value"
proof -
  show "nan_exact by_value" by (simp add: nan_exact_def by_value_def)
  show "order_exact by_value" by (simp add: order_exact_def by_value_def)
  have "0 < (2 ^ 149 :: int)" "0 < (2 ^ 1074 :: int)" by (rule zero_less_power, simp)+
  then show "conversions_exact by_value" unfolding conversions_exact_def by_value_def softfloat.simps
    by (intro conjI converts_signed converts_unsigned) simp_all
qed

lemmas value_defs = int_part_def trunc_to_def ceil_to_def floor_to_def fval_def fsign_def frest_def fmag_def

text \<open>Rounding minus two and a half up, and a double of one half towards zero.\<close>

theorem float_rounding_exact_witness:
  "rounded 23 255 (2 ^ 149) ceil_to 0xC0200000 (eosio_f32_ceil by_value True 0xC0200000)
     \<and> eosio_f32_ceil by_value True 0xC0200000 = 0xC0000000
     \<and> rounded 52 2047 (2 ^ 1074) trunc_to 0x3FE0000000000000 (eosio_f64_trunc by_value True 0x3FE0000000000000)"
proof -
  have "finite_pattern 23 255 (0xC0200000::u32)" "finite_pattern 52 2047 (0x3FE0000000000000::u64)" by (simp_all add: finite_pattern_def frest_def)
  moreover have "eosio_f32_ceil by_value True 0xC0200000 = 0xC0000000"
    by (simp add: eosio_f32_ceil_def by_value_def is_nan_pattern_def frest_def Let_def)
  ultimately show ?thesis using float_rounding_exact [OF by_value_exact(1), of "0xC0200000" "0x3FE0000000000000" True] by blast
qed

theorem float_select_exact_witness:
  "eosio_f32_min by_value True 0x80000000 0 = 0x80000000 \<and> is_nan_pattern 52 2047 (eosio_f64_max by_value True 0x7FF0000000000001 0)"
proof -
  note t = float_select_exact [OF by_value_exact(1,2), of "0x80000000" 0 True "0x7FF0000000000001" 0]
  have n: "is_nan_pattern 52 2047 (0x7FF0000000000001::u64)" by (simp add: is_nan_pattern_def frest_def)
  have "eosio_f32_min by_value True 0x80000000 0 = 0x80000000"
    by (simp add: eosio_f32_min_def by_value_def is_nan_pattern_def frest_def fsign_def)
  with t n show ?thesis by (simp add: selects_def)
qed

theorem float_trunc_exact_witness:
  "(\<exists>w. eosio_f32_trunc_i32s by_value 0x40200000 = Inr w \<and> sint w = 2)
     \<and> eosio_f64_trunc_i64u by_value 0x7FF0000000000001 = Inl Wasm_interpreter_exception
     \<and> eosio_f64_trunc_i32s by_value False 0xC1E0000000100000 = Inl Wasm_interpreter_exception
     \<and> (\<exists>w. eosio_f64_trunc_i32s by_value True 0xC1E0000000100000 = Inr w \<and> sint w = - (2 ^ 31))"
proof -
  note t = float_trunc_exact [OF by_value_exact, of "0x40200000" "0x7FF0000000000001"]
  note h = float_trunc_exact [OF by_value_exact, of "0x40200000" "0xC1E0000000100000"]
  have n: "\<not> is_nan_pattern 23 255 (0x40200000::u32)" "is_nan_pattern 52 2047 (0x7FF0000000000001::u64)" "\<not> is_nan_pattern 52 2047 (0xC1E0000000100000::u64)"
    by (simp_all add: is_nan_pattern_def frest_def)
  have "fval 52 (0xC1E0000000100000::u64) < - (2 ^ 31 * 2 ^ 1074)" "int_part (2 ^ 1074) (fval 52 (0xC1E0000000100000::u64)) = - (2 ^ 31)"
    by (simp_all add: value_defs)
  then have "eosio_f64_trunc_i32s by_value False 0xC1E0000000100000 = Inl Wasm_interpreter_exception"
    "\<exists>w. eosio_f64_trunc_i32s by_value True 0xC1E0000000100000 = Inr w \<and> sint w = - (2 ^ 31)"
    using h n unfolding truncates_def by (metis, simp)
  moreover have "int_part (2 ^ 149) (fval 23 (0x40200000::u32)) = 2" by (simp add: value_defs)
  ultimately show ?thesis using t n by (simp add: truncates_def)
qed

theorem float_trunc_sat_exact_witness:
  "uint (eosio_i32_trunc_sat_f32_u by_value 0xC0200000) = 0 \<and> sint (eosio_i64_trunc_sat_f64_s by_value 0x7FF0000000000001) = 0
     \<and> uint (eosio_i32_trunc_sat_f32_u by_value 0x7F800000) = 2 ^ 32 - 1"
proof -
  note t = float_trunc_sat_exact [OF by_value_exact, of "0xC0200000" "0x7FF0000000000001"] float_trunc_sat_exact [OF by_value_exact, of "0x7F800000" 0]
  have "\<not> is_nan_pattern 23 255 (0xC0200000::u32)" "is_nan_pattern 52 2047 (0x7FF0000000000001::u64)" "\<not> is_nan_pattern 23 255 (0x7F800000::u32)"
    by (simp_all add: is_nan_pattern_def frest_def)
  moreover have "int_part (2 ^ 149) (fval 23 (0xC0200000::u32)) = - 2" "2 ^ 32 \<le> int_part (2 ^ 149) (fval 23 (0x7F800000::u32))" by (simp_all add: value_defs)
  ultimately show ?thesis using t by (simp add: saturates_def)
qed

end
