(* ===== verification/Vm_Simd_Props.thy ===== *)
theory Vm_Simd_Props
  imports Vm_Simd
begin

text \<open>
  Properties of the vector instructions.  Copying a vector into an array and back loses nothing, so an
  instruction is described by the integers in the lanes of its operands and of its result: the saturating
  instructions clamp exact results, the widening multiplications multiply the lanes they pick, and the
  computations in \<open>int\<close> leave the defined range exactly on the operands named here.
\<close>

section \<open>Lanes\<close>

lemma bit_pack:
  "bit (pack (xs :: 'a::len word list)) i \<longleftrightarrow>
     i < 128 \<and> i div LENGTH('a) < length xs \<and> bit (xs ! (i div LENGTH('a))) (i mod LENGTH('a))"
proof (induction xs arbitrary: i)
  case (Cons x xs)
  show ?case
  proof (cases "i < LENGTH('a)")
    case True
    then show ?thesis using Cons.IH [of i] by (auto simp: bit_or_iff bit_push_bit_iff bit_ucast_iff)
  next
    case False
    then have "i div LENGTH('a) = Suc ((i - LENGTH('a)) div LENGTH('a))" "i mod LENGTH('a) = (i - LENGTH('a)) mod LENGTH('a)"
      by (simp_all add: le_div_geq le_mod_geq)
    then show ?thesis using False Cons.IH [of "i - LENGTH('a)"] bit_imp_le_length [of x i]
      by (auto simp: bit_or_iff bit_push_bit_iff bit_ucast_iff)
  qed
qed simp

lemma length_lanes [simp]: "length (lanes v :: 'a::len word list) = 128 div LENGTH('a)"
  by (simp add: lanes_def)

lemma bit_lanes:
  assumes "k < 128 div LENGTH('a)"
  shows "bit (lanes v ! k :: 'a::len word) i \<longleftrightarrow> i < LENGTH('a) \<and> bit v (k * LENGTH('a) + i)"
  using assms by (simp add: lanes_def bit_ucast_iff bit_drop_bit_eq)

lemma pack_lanes:
  assumes "LENGTH('a) dvd 128"
  shows "pack (lanes v :: 'a::len word list) = v"
proof (rule bit_word_eqI)
  fix i assume "i < LENGTH(128)"
  then have "i div LENGTH('a) < 128 div LENGTH('a)"
    using assms less_mult_imp_div_less [of i "128 div LENGTH('a)" "LENGTH('a)"] by simp
  then show "bit (pack (lanes v :: 'a word list)) i = bit v i"
    using \<open>i < LENGTH(128)\<close> by (simp add: bit_pack bit_lanes)
qed

lemma lanes_pack:
  assumes "length xs = 128 div LENGTH('a)"
  shows "lanes (pack xs) = (xs :: 'a::len word list)"
proof (rule nth_equalityI)
  fix k assume "k < length (lanes (pack xs) :: 'a word list)"
  then have k: "k < 128 div LENGTH('a)" by simp
  show "lanes (pack xs) ! k = xs ! k"
  proof (rule bit_word_eqI)
    fix i assume i: "i < LENGTH('a)"
    have "Suc k * LENGTH('a) \<le> 128" using k by (metis Suc_leI div_times_less_eq_dividend mult_le_mono1 order_trans)
    then have "k * LENGTH('a) + i < 128" using i by simp
    moreover have "(k * LENGTH('a) + i) div LENGTH('a) = k" "(k * LENGTH('a) + i) mod LENGTH('a) = i" using i by simp_all
    ultimately show "bit (lanes (pack xs) ! k :: 'a word) i = bit (xs ! k) i"
      unfolding bit_lanes [OF k] bit_pack using i k assms by simp
  qed
qed (simp add: assms)

text \<open>The integers in the lanes, read as signed and as unsigned.\<close>

definition sl8 :: "v128 \<Rightarrow> int list" where "sl8 v = map sint (lanes v :: u8 list)"
definition ul8 :: "v128 \<Rightarrow> int list" where "ul8 v = map uint (lanes v :: u8 list)"
definition sl16 :: "v128 \<Rightarrow> int list" where "sl16 v = map sint (lanes v :: u16 list)"
definition ul16 :: "v128 \<Rightarrow> int list" where "ul16 v = map uint (lanes v :: u16 list)"
definition sl32 :: "v128 \<Rightarrow> int list" where "sl32 v = map sint (lanes v :: u32 list)"
definition ul32 :: "v128 \<Rightarrow> int list" where "ul32 v = map uint (lanes v :: u32 list)"
definition sl64 :: "v128 \<Rightarrow> int list" where "sl64 v = map sint (lanes v :: u64 list)"
definition ul64 :: "v128 \<Rightarrow> int list" where "ul64 v = map uint (lanes v :: u64 list)"

lemmas lane_ints = sl8_def ul8_def sl16_def ul16_def sl32_def ul32_def sl64_def ul64_def

definition clamp :: "int \<Rightarrow> int \<Rightarrow> int \<Rightarrow> int" where
  "clamp lo hi z = max lo (min hi z)"

lemma sint_word_of_int:
  "- (2 ^ (LENGTH('a) - 1)) \<le> z \<Longrightarrow> z < 2 ^ (LENGTH('a) - 1) \<Longrightarrow> sint (word_of_int z :: 'a::len word) = z"
  by (simp add: signed_of_int signed_take_bit_int_eq_self)

lemma uint_word_of_int: "0 \<le> z \<Longrightarrow> z < 2 ^ LENGTH('a) \<Longrightarrow> uint (word_of_int z :: 'a::len word) = z"
  by (simp add: unsigned_of_int take_bit_int_eq_self)

lemma sint_lane: "- (2 ^ (LENGTH('a) - 1)) \<le> sint (a :: 'a::len word)" "sint a < 2 ^ (LENGTH('a) - 1)"
  by (simp_all add: sint_greater_eq sint_less)

lemma uint_lane: "0 \<le> uint (a :: 'a::len word)" "uint a < 2 ^ LENGTH('a)"
  by simp_all

lemmas lane_ranges = sint_lane [where ?'a = 8] sint_lane [where ?'a = 16] sint_lane [where ?'a = 32] sint_lane [where ?'a = 64]
  uint_lane [where ?'a = 8] uint_lane [where ?'a = 16] uint_lane [where ?'a = 32] uint_lane [where ?'a = 64]

text \<open>An instruction on the lanes is a function on the integers in them.\<close>

lemma binop_ints:
  assumes "\<And>x y. val (f x y) = g (val x) (val y)"
  shows "map val (lanes (v128_binop f a b) :: 'a::len word list) = map2 g (map val (lanes a)) (map val (lanes b))"
proof -
  have "map val (map2 f xs ys) = map2 g (map val xs) (map val ys)" for xs ys :: "'a word list"
    using assms by (induction xs ys rule: list_induct2') simp_all
  then show ?thesis by (simp add: v128_binop_def v128_binop_array_def lanes_pack)
qed

lemma narrow_ints:
  assumes "\<And>x. val' (f x) = g (val x)" "2 * (128 div LENGTH('a)) = 128 div LENGTH('b)"
  shows "map val' (lanes (v128_narrow f a b) :: 'b::len word list) = map g (map val (lanes a :: 'a::len word list) @ map val (lanes b))"
  using assms by (simp add: v128_narrow_def v128_binop_array_def lanes_pack)

section \<open>Saturating instructions\<close>

lemma sat_cases:
  "(if r < lo then lo else if r > hi then hi else r) = (if lo \<le> hi then clamp lo hi r else if r < lo then lo else if r > hi then hi else r)"
  "0 \<le> r \<Longrightarrow> 0 \<le> hi \<Longrightarrow> (if r > hi then hi else r) = clamp 0 hi r"
  by (auto simp: clamp_def)

lemma clamp_range: "lo \<le> hi \<Longrightarrow> lo \<le> clamp lo hi z \<and> clamp lo hi z \<le> hi"
  by (simp add: clamp_def)

lemma sint_clamp:
  "sint (word_of_int (clamp (- 128) 127 z) :: u8) = clamp (- 128) 127 z"
  "sint (word_of_int (clamp (- 32768) 32767 z) :: u16) = clamp (- 32768) 32767 z"
  "uint (word_of_int (clamp 0 255 z) :: u8) = clamp 0 255 z"
  "uint (word_of_int (clamp 0 65535 z) :: u16) = clamp 0 65535 z"
  using clamp_range [of "- 128" 127 z] clamp_range [of "- 32768" 32767 z] clamp_range [of 0 255 z] clamp_range [of 0 65535 z]
  by (intro sint_word_of_int uint_word_of_int; simp)+

lemma uint_average:
  fixes a b :: "'a::len word"
  shows "uint (word_of_int ((uint a + uint b + 1) div 2) :: 'a word) = (uint a + uint b + 1) div 2"
proof (rule uint_word_of_int)
  show "0 \<le> (uint a + uint b + 1) div 2" by simp
  have "uint a + uint b + 1 < 2 * 2 ^ LENGTH('a)" using uint_lane [of a] uint_lane [of b] by linarith
  then show "(uint a + uint b + 1) div 2 < 2 ^ LENGTH('a)" by linarith
qed

text \<open>The product of two lanes in Q15 format leaves the range of a lane only at \<open>- 2 ^ 15\<close> times itself.\<close>

lemma q15_range:
  fixes a b :: u16
  shows "- 32768 < (sint a * sint b + 16384) div 32768" "(sint a * sint b + 16384) div 32768 \<le> 32768"
proof -
  have r: "- 32768 \<le> sint a" "sint a \<le> 32767" "- 32768 \<le> sint b" "sint b \<le> 32767"
    using sint_lane [of a] sint_lane [of b] by simp_all
  have "\<bar>sint a\<bar> * \<bar>sint b\<bar> \<le> 32768 * 32768" using r by (intro mult_mono) auto
  then have up: "sint a * sint b \<le> 32768 * 32768" using abs_le_D1 [of "sint a * sint b"] by (simp add: abs_mult)
  have lo: "- (32768 * 32767) \<le> sint a * sint b"
  proof (cases "0 \<le> sint a")
    case True
    have "sint a * - 32768 \<le> sint a * sint b" using r True by (intro mult_left_mono) auto
    then show ?thesis using r by linarith
  next
    case False
    have "sint a * 32767 \<le> sint a * sint b" using r False by (intro mult_left_mono_neg) auto
    then show ?thesis using r by linarith
  qed
  show "- 32768 < (sint a * sint b + 16384) div 32768" "(sint a * sint b + 16384) div 32768 \<le> 32768"
    using up lo by linarith+
qed

lemma q15_lane:
  fixes a b :: u16
  shows "sint (let tmp = word_of_int (drop_bit 15 (sint a * sint b + 0x4000)) in if tmp = 0x8000 then 0x7FFF else tmp :: u16)
     = clamp (- 32768) 32767 ((sint a * sint b + 16384) div 32768)"
proof -
  let ?z = "(sint a * sint b + 16384) div 32768"
  have z: "drop_bit 15 (sint a * sint b + 0x4000) = ?z" by (simp add: drop_bit_eq_div)
  show ?thesis
  proof (cases "?z = 32768")
    case True
    then show ?thesis by (simp add: z clamp_def)
  next
    case False
    with q15_range [of a b] have r: "- 32768 < ?z" "?z \<le> 32767" by linarith+
    then have s: "sint (word_of_int ?z :: u16) = ?z" by (intro sint_word_of_int) simp_all
    have "word_of_int ?z \<noteq> (0x8000 :: u16)"
    proof
      assume "word_of_int ?z = (0x8000 :: u16)"
      then have "?z = - 32768" using s by simp
      with r show False by linarith
    qed
    then show ?thesis using r s by (simp add: z clamp_def)
  qed
qed

lemmas sat_defs = i8x16_add_sat_s_def i8x16_add_sat_u_def i8x16_sub_sat_s_def i8x16_sub_sat_u_def i8x16_avgr_u_def
  i16x8_add_sat_s_def i16x8_add_sat_u_def i16x8_sub_sat_s_def i16x8_sub_sat_u_def i16x8_avgr_u_def
  i16x8_q15mulr_sat_s_def i8x16_narrow_i16x8_s_def i8x16_narrow_i16x8_u_def i16x8_narrow_i32x4_s_def i16x8_narrow_i32x4_u_def

text \<open>
  C38: The saturating vector instructions compute exactly and clamp: the integers in the lanes of the result are the
  sums, differences, rounded averages, rounded Q15 products or narrowed values of the integers in the
  operands' lanes, computed without wrap-around and clamped to the range of a lane.
\<close>

theorem saturating_exact:
  "sl8 (i8x16_add_sat_s a b) = map2 (\<lambda>x y. clamp (- 128) 127 (x + y)) (sl8 a) (sl8 b)
   \<and> ul8 (i8x16_add_sat_u a b) = map2 (\<lambda>x y. clamp 0 255 (x + y)) (ul8 a) (ul8 b)
   \<and> sl8 (i8x16_sub_sat_s a b) = map2 (\<lambda>x y. clamp (- 128) 127 (x - y)) (sl8 a) (sl8 b)
   \<and> ul8 (i8x16_sub_sat_u a b) = map2 (\<lambda>x y. clamp 0 255 (x - y)) (ul8 a) (ul8 b)
   \<and> ul8 (i8x16_avgr_u a b) = map2 (\<lambda>x y. (x + y + 1) div 2) (ul8 a) (ul8 b)
   \<and> sl16 (i16x8_add_sat_s a b) = map2 (\<lambda>x y. clamp (- 32768) 32767 (x + y)) (sl16 a) (sl16 b)
   \<and> ul16 (i16x8_add_sat_u a b) = map2 (\<lambda>x y. clamp 0 65535 (x + y)) (ul16 a) (ul16 b)
   \<and> sl16 (i16x8_sub_sat_s a b) = map2 (\<lambda>x y. clamp (- 32768) 32767 (x - y)) (sl16 a) (sl16 b)
   \<and> ul16 (i16x8_sub_sat_u a b) = map2 (\<lambda>x y. clamp 0 65535 (x - y)) (ul16 a) (ul16 b)
   \<and> ul16 (i16x8_avgr_u a b) = map2 (\<lambda>x y. (x + y + 1) div 2) (ul16 a) (ul16 b)
   \<and> sl16 (i16x8_q15mulr_sat_s a b) = map2 (\<lambda>x y. clamp (- 32768) 32767 ((x * y + 16384) div 32768)) (sl16 a) (sl16 b)
   \<and> sl8 (i8x16_narrow_i16x8_s a b) = map (clamp (- 128) 127) (sl16 a @ sl16 b)
   \<and> ul8 (i8x16_narrow_i16x8_u a b) = map (clamp 0 255) (sl16 a @ sl16 b)
   \<and> sl16 (i16x8_narrow_i32x4_s a b) = map (clamp (- 32768) 32767) (sl32 a @ sl32 b)
   \<and> ul16 (i16x8_narrow_i32x4_u a b) = map (clamp 0 65535) (sl32 a @ sl32 b)"
  unfolding lane_ints sat_defs
  by (intro conjI binop_ints narrow_ints) (simp_all add: Let_def sat_cases sint_clamp uint_average q15_lane [unfolded Let_def])

section \<open>Widening multiplication\<close>

lemma extmul_ints:
  assumes "\<And>x y. val' (conv x * conv y) = val x * val y" "2 * (128 div LENGTH('b)) = 128 div LENGTH('a)"
  shows "map val' (lanes (v128_extmul conv high a b) :: 'b::len word list) =
    map2 (*) (take (128 div LENGTH('b)) (map val (if high then drop (128 div LENGTH('b)) (lanes a) else lanes a :: 'a::len word list)))
      (take (128 div LENGTH('b)) (map val (lanes b)))"
proof -
  have "lanes (v128_extmul conv high a b :: v128) = map (\<lambda>i. conv ((if high then drop (128 div LENGTH('b)) (lanes a) else lanes a) ! i) * conv (lanes b ! i)) [0..<128 div LENGTH('b)]"
    by (simp add: v128_extmul_def v128_binop_array_def Let_def lanes_pack)
  then show ?thesis using assms by (intro nth_equalityI) (auto simp: nth_append)
qed

lemma sint_product:
  fixes x y :: "'a::len word"
  assumes "2 * LENGTH('a) \<le> LENGTH('b)"
  shows "sint (scast x * scast y :: 'b::len word) = sint x * sint y"
proof -
  let ?n = "LENGTH('a) - 1"
  have "\<bar>sint x\<bar> \<le> 2 ^ ?n" "\<bar>sint y\<bar> \<le> 2 ^ ?n"
    using sint_lane [of x] sint_lane [of y] by linarith+
  then have "\<bar>sint x\<bar> * \<bar>sint y\<bar> \<le> 2 ^ ?n * 2 ^ ?n" by (intro mult_mono) simp_all
  also have "\<dots> = (2 :: int) ^ (2 * ?n)" by (simp only: mult_2 power_add)
  also have "\<dots> < 2 ^ (LENGTH('b) - 1)" using assms by (intro power_strict_increasing) (use len_gt_0 [where ?'a = 'a] in linarith, simp)
  finally have "\<bar>sint x * sint y\<bar> < 2 ^ (LENGTH('b) - 1)" by (simp only: abs_mult)
  then have "sint (word_of_int (sint x * sint y) :: 'b word) = sint x * sint y" by (intro sint_word_of_int) linarith+
  then show ?thesis by simp
qed

lemma uint_product:
  fixes x y :: "'a::len word"
  assumes "2 * LENGTH('a) \<le> LENGTH('b)"
  shows "uint (ucast x * ucast y :: 'b::len word) = uint x * uint y"
proof -
  have "uint x * uint y < 2 ^ LENGTH('a) * 2 ^ LENGTH('a)" by (intro mult_strict_mono) simp_all
  also have "\<dots> = (2 :: int) ^ (2 * LENGTH('a))" by (simp only: mult_2 power_add)
  also have "\<dots> \<le> 2 ^ LENGTH('b)" using assms by (intro power_increasing) simp_all
  finally have "uint (word_of_int (uint x * uint y) :: 'b word) = uint x * uint y" by (intro uint_word_of_int) simp_all
  then show ?thesis by simp
qed

lemmas extmul_defs = i16x8_extmul_low_i8x16_s_def i16x8_extmul_low_i8x16_u_def i16x8_extmul_high_i8x16_s_def i16x8_extmul_high_i8x16_u_def
  i32x4_extmul_low_i16x8_s_def i32x4_extmul_low_i16x8_u_def i32x4_extmul_high_i16x8_s_def i32x4_extmul_high_i16x8_u_def
  i64x2_extmul_low_i32x4_s_def i64x2_extmul_low_i32x4_u_def i64x2_extmul_high_i32x4_s_def i64x2_extmul_high_i32x4_u_def

lemma extmul_high_u32:
  "ul64 (i64x2_extmul_high_i32x4_u a b) = map2 (*) (drop 2 (ul32 a)) (take 2 (ul32 b))"
  by (simp add: lane_ints extmul_defs extmul_ints [where val = uint] uint_product drop_map)

text \<open>
  C39: The widening multiplications compute exact products of lanes.  The low forms multiply the lower halves of both
  operands; the high forms multiply the upper half of the first operand with the lower half of the
  second one, where WebAssembly asks for the upper halves of both, and so give other results.
\<close>

theorem extmul_exact:
  "sl16 (i16x8_extmul_low_i8x16_s a b) = map2 (*) (take 8 (sl8 a)) (take 8 (sl8 b))
   \<and> ul16 (i16x8_extmul_low_i8x16_u a b) = map2 (*) (take 8 (ul8 a)) (take 8 (ul8 b))
   \<and> sl16 (i16x8_extmul_high_i8x16_s a b) = map2 (*) (drop 8 (sl8 a)) (take 8 (sl8 b))
   \<and> ul16 (i16x8_extmul_high_i8x16_u a b) = map2 (*) (drop 8 (ul8 a)) (take 8 (ul8 b))
   \<and> sl32 (i32x4_extmul_low_i16x8_s a b) = map2 (*) (take 4 (sl16 a)) (take 4 (sl16 b))
   \<and> ul32 (i32x4_extmul_low_i16x8_u a b) = map2 (*) (take 4 (ul16 a)) (take 4 (ul16 b))
   \<and> sl32 (i32x4_extmul_high_i16x8_s a b) = map2 (*) (drop 4 (sl16 a)) (take 4 (sl16 b))
   \<and> ul32 (i32x4_extmul_high_i16x8_u a b) = map2 (*) (drop 4 (ul16 a)) (take 4 (ul16 b))
   \<and> sl64 (i64x2_extmul_low_i32x4_s a b) = map2 (*) (take 2 (sl32 a)) (take 2 (sl32 b))
   \<and> ul64 (i64x2_extmul_low_i32x4_u a b) = map2 (*) (take 2 (ul32 a)) (take 2 (ul32 b))
   \<and> sl64 (i64x2_extmul_high_i32x4_s a b) = map2 (*) (drop 2 (sl32 a)) (take 2 (sl32 b))
   \<and> ul64 (i64x2_extmul_high_i32x4_u a b) = map2 (*) (drop 2 (ul32 a)) (take 2 (ul32 b))
   \<and> (\<exists>v w. ul64 (i64x2_extmul_high_i32x4_u v w) \<noteq> map2 (*) (drop 2 (ul32 v)) (drop 2 (ul32 w)))"
proof (intro conjI)
  show "\<exists>v w. ul64 (i64x2_extmul_high_i32x4_u v w) \<noteq> map2 (*) (drop 2 (ul32 v)) (drop 2 (ul32 w))"
    unfolding extmul_high_u32 by (intro exI [of _ "push_bit 64 1"]) (simp add: ul32_def lanes_def upt_rec)
qed (simp_all add: lane_ints extmul_defs extmul_ints [where val = sint] extmul_ints [where val = uint] sint_product uint_product drop_map)

section \<open>Overflow of the computations in \<open>int\<close>\<close>

text \<open>
  Three vector instructions compute in \<open>int\<close> and can leave its range, which C++ leaves undefined.  On all other
  operands they return the products, absolute values and sums of products.
\<close>

definition defined_when :: "bool \<Rightarrow> (v128 \<Rightarrow> bool) \<Rightarrow> v128 res \<Rightarrow> bool" where
  "defined_when P Q r \<longleftrightarrow> (case r of Inl e \<Rightarrow> \<not> P \<and> e = Undefined_behaviour | Inr v \<Rightarrow> P \<and> Q v)"

lemma mapE_cases:
  "mapE (\<lambda>x. if P x then Inr (f x) else Inl e) xs = (if \<forall>x \<in> set xs. P x then Inr (map f xs) else Inl e)"
  by (induction xs) auto

lemma binop_res_cases:
  "v128_binop_res (\<lambda>a b. if P a b then Inr (f a b) else Inl e) c1 c2 =
     (if list_all2 P (lanes c1) (lanes c2) then Inr (pack (map2 f (lanes c1) (lanes c2))) else Inl e)"
  by (simp add: v128_binop_res_def list_all2_iff case_prod_unfold mapE_cases)

lemma uint_mult_mod: "uint (x * y :: 'a::len word) = uint x * uint y mod 2 ^ LENGTH('a)"
  by (simp add: uint_word_arith_bintrs take_bit_eq_mod)

lemma mul_defined:
  "defined_when (\<not> (\<exists>i < 8. 2 ^ 31 \<le> ul16 a ! i * ul16 b ! i))
     (\<lambda>v. ul16 v = map2 (\<lambda>x y. x * y mod 65536) (ul16 a) (ul16 b)) (i16x8_mul a b)"
  by (simp add: defined_when_def i16x8_mul_def binop_res_cases not_le list_all2_conv_all_nth ul16_def lanes_pack uint_mult_mod
      zip_map1 zip_map2 comp_def case_prod_unfold)

lemma abs_defined:
  fixes a :: v128 and m :: int
  assumes m: "m = - (2 ^ (LENGTH('a) - 1))"
  shows "defined_when (m \<notin> sint ` set (lanes a :: 'a::len word list))
     (\<lambda>v. map sint (lanes v :: 'a word list) = map (\<lambda>x. abs (sint x)) (lanes a :: 'a word list))
     (v128_unop_res (\<lambda>x :: 'a word. if sint x < 0 then (if sint x = m then Inl Undefined_behaviour else Inr (- x)) else Inr x) a)"
proof -
  have f: "(if sint x < 0 then (if sint x = m then Inl Undefined_behaviour else Inr (- x)) else Inr x) =
     (if sint x \<noteq> m then Inr (if sint x < 0 then - x else x) else Inl Undefined_behaviour)" for x :: "'a word"
    by (simp add: m)
  have v: "sint (if sint x < 0 then - x else x) = abs (sint x)" if "sint x \<noteq> m" for x :: "'a word"
  proof (cases "sint x < 0")
    case True
    have "sint (word_of_int (- sint x) :: 'a word) = - sint x" using that True sint_lane [of x] m by (intro sint_word_of_int) auto
    then show ?thesis using True by simp
  qed simp
  have "\<forall>x \<in> set xs. sint x \<noteq> m \<Longrightarrow> map (\<lambda>x. sint (if sint x < 0 then - x else x)) xs = map (\<lambda>x. abs (sint x)) xs" for xs :: "'a word list"
    using v by simp
  then show ?thesis unfolding v128_unop_res_def f mapE_cases defined_when_def
    by (auto simp: lanes_pack comp_def image_iff)
qed

lemma dot_range:
  fixes a b c d :: u16
  shows "sint a * sint b + sint c * sint d < 2 ^ 31 \<longleftrightarrow>
    \<not> (sint a = - 32768 \<and> sint b = - 32768 \<and> sint c = - 32768 \<and> sint d = - 32768)"
    and "- (2 ^ 31) \<le> sint a * sint b + sint c * sint d"
proof -
  have p: "- (2 ^ 30) \<le> sint x * sint y \<and> sint x * sint y \<le> 2 ^ 30 \<and> (sint x * sint y = 2 ^ 30 \<longrightarrow> sint x = - 32768 \<and> sint y = - 32768)"
    for x y :: u16
  proof -
    have r: "- 32768 \<le> sint x" "sint x \<le> 32767" "- 32768 \<le> sint y" "sint y \<le> 32767"
      using sint_lane [of x] sint_lane [of y] by simp_all
    have m: "\<bar>sint x\<bar> * \<bar>sint y\<bar> \<le> 32768 * 32768" using r by (intro mult_mono) auto
    have "sint x = - 32768 \<and> sint y = - 32768" if e: "sint x * sint y = 2 ^ 30"
    proof (rule ccontr)
      assume "\<not> (sint x = - 32768 \<and> sint y = - 32768)"
      then have "\<bar>sint x\<bar> \<le> 32767 \<or> \<bar>sint y\<bar> \<le> 32767" using r by auto
      then have "\<bar>sint x\<bar> * \<bar>sint y\<bar> \<le> 32768 * 32767"
        using mult_mono [of "\<bar>sint x\<bar>" 32767 "\<bar>sint y\<bar>" 32768] mult_mono [of "\<bar>sint x\<bar>" 32768 "\<bar>sint y\<bar>" 32767] r by auto
      then show False using e by (simp flip: abs_mult)
    qed
    then show ?thesis using m by (auto simp: abs_le_iff simp flip: abs_mult)
  qed
  show "sint a * sint b + sint c * sint d < 2 ^ 31 \<longleftrightarrow>
    \<not> (sint a = - 32768 \<and> sint b = - 32768 \<and> sint c = - 32768 \<and> sint d = - 32768)"
  proof
    assume l: "sint a * sint b + sint c * sint d < 2 ^ 31"
    show "\<not> (sint a = - 32768 \<and> sint b = - 32768 \<and> sint c = - 32768 \<and> sint d = - 32768)" using l by auto
  next
    assume "\<not> (sint a = - 32768 \<and> sint b = - 32768 \<and> sint c = - 32768 \<and> sint d = - 32768)"
    then have "sint a * sint b \<noteq> 2 ^ 30 \<or> sint c * sint d \<noteq> 2 ^ 30" using p [of a b] p [of c d] by blast
    then show "sint a * sint b + sint c * sint d < 2 ^ 31" using p [of a b] p [of c d] by auto
  qed
  show "- (2 ^ 31) \<le> sint a * sint b + sint c * sint d" using p [of a b] p [of c d] by auto
qed

lemma dot_defined:
  "defined_when (\<not> (\<exists>i < 4. sl16 a ! (2 * i) = - 32768 \<and> sl16 b ! (2 * i) = - 32768
         \<and> sl16 a ! (2 * i + 1) = - 32768 \<and> sl16 b ! (2 * i + 1) = - 32768))
     (\<lambda>v. sl32 v = map (\<lambda>i. sl16 a ! (2 * i) * sl16 b ! (2 * i) + sl16 a ! (2 * i + 1) * sl16 b ! (2 * i + 1)) [0..<4])
     (i32x4_dot_i16x8_s a b)"
proof -
  let ?a = "lanes a :: u16 list" and ?b = "lanes b :: u16 list"
  let ?s = "\<lambda>i. sint (?a ! (2 * i)) * sint (?b ! (2 * i)) + sint (?a ! (2 * i + 1)) * sint (?b ! (2 * i + 1))"
  have l: "sl16 v ! (2 * i) = sint (lanes v ! (2 * i) :: u16)" "sl16 v ! (2 * i + 1) = sint (lanes v ! (2 * i + 1) :: u16)"
    if "i < 4" for v i using that by (simp_all add: sl16_def)
  have v: "sint (word_of_int (?s i) :: u32) = ?s i" if "?s i < 2 ^ 31" for i
    using that dot_range(2) by (intro sint_word_of_int) simp_all
  have eq: "i32x4_dot_i16x8_s a b = (if \<forall>i \<in> set [0..<4]. ?s i < 2 ^ 31
      then Inr (pack (map (\<lambda>i. word_of_int (?s i) :: u32) [0..<4])) else Inl Undefined_behaviour)"
    unfolding i32x4_dot_i16x8_s_def Let_def mapE_cases by simp
  have r: "(\<forall>i \<in> set [0..<4]. ?s i < 2 ^ 31) \<longleftrightarrow> \<not> (\<exists>i < 4. sl16 a ! (2 * i) = - 32768 \<and> sl16 b ! (2 * i) = - 32768
         \<and> sl16 a ! (2 * i + 1) = - 32768 \<and> sl16 b ! (2 * i + 1) = - 32768)"
    using l dot_range(1) by (metis atLeastLessThan_iff set_upt zero_le)
  have "map (\<lambda>i. sint (word_of_int (?s i) :: u32)) [0..<4] = map ?s [0..<4]" if "\<forall>i \<in> set [0..<4]. ?s i < 2 ^ 31"
    using v that by (intro map_cong refl) blast
  moreover have "map (\<lambda>i. sl16 a ! (2 * i) * sl16 b ! (2 * i) + sl16 a ! (2 * i + 1) * sl16 b ! (2 * i + 1)) [0..<4] = map ?s [0..<4]"
    by (intro map_cong refl) (simp only: l atLeastLessThan_iff set_upt)
  moreover have "sl32 (pack (map (\<lambda>i. word_of_int (?s i) :: u32) [0..<4])) = map (\<lambda>i. sint (word_of_int (?s i) :: u32)) [0..<4]"
    unfolding sl32_def by (subst lanes_pack) (simp_all only: length_map length_upt map_map comp_def, simp)
  ultimately show ?thesis
    unfolding eq defined_when_def r [symmetric] by (simp del: of_int_add of_int_mult)
qed

section \<open>Tests of lanes\<close>

lemma fold_all: "fold (\<lambda>a r. if a = 0 then 0 else r) xs (1 :: u32) = (if 0 \<in> set xs then 0 else 1)"
proof -
  have "fold (\<lambda>a r. if a = 0 then 0 else r) xs (k :: u32) = (if 0 \<in> set xs then 0 else k)" for k
    by (induction xs arbitrary: k) auto
  then show ?thesis .
qed

lemma fold_any: "fold (\<lambda>a r. if a \<noteq> 0 then 1 else r) xs (0 :: u32) = (if \<forall>x \<in> set xs. x = 0 then 0 else 1)"
proof -
  have "fold (\<lambda>a r. if a \<noteq> 0 then 1 else r) xs (k :: u32) = (if \<forall>x \<in> set xs. x = 0 then k else 1)" for k
    by (induction xs arbitrary: k) auto
  then show ?thesis .
qed

lemma fold_bitmask:
  assumes "n \<le> 32"
  shows "bit (fold (\<lambda>i r. r OR push_bit i (if P i then 1 else 0)) [0..<n] (0 :: u32)) k \<longleftrightarrow> k < n \<and> P k"
  using assms by (induction n) (auto simp: bit_or_iff bit_push_bit_iff less_Suc_eq bit_1_iff)

lemma lanes_zero_iff: "(\<forall>x \<in> set (lanes v :: u64 list). x = 0) \<longleftrightarrow> v = 0"
proof
  assume "\<forall>x \<in> set (lanes v :: u64 list). x = 0"
  then have l: "lanes v = (replicate (Suc (Suc 0)) 0 :: u64 list)" by (intro replicate_eqI) simp_all
  have "pack (lanes v :: u64 list) = 0" unfolding l by simp
  then show "v = 0" using pack_lanes [where ?'a = 64, of v] by simp
qed (auto simp: lanes_def)

lemma zero_lane_iff: "(0 :: int) \<in> set (map uint xs) \<longleftrightarrow> (0 :: 'a::len word) \<in> set xs"
  by (metis (no_types, opaque_lifting) image_iff list.set_map uint_0_iff uint_0_eq)

text \<open>
  The reductions of a vector to a condition: \<open>any_true\<close> says whether the vector is not zero, \<open>all_true\<close> whether no lane
  is zero, and bit \<open>i\<close> of a bitmask is the sign of lane \<open>i\<close>.
\<close>

lemma lane_tests_exact:
  "v128_any_true v = (if v = 0 then 0 else 1)
   \<and> i8x16_all_true v = (if 0 \<in> set (ul8 v) then 0 else 1) \<and> i16x8_all_true v = (if 0 \<in> set (ul16 v) then 0 else 1)
   \<and> i32x4_all_true v = (if 0 \<in> set (ul32 v) then 0 else 1) \<and> i64x2_all_true v = (if 0 \<in> set (ul64 v) then 0 else 1)
   \<and> bit (i8x16_bitmask v) i = (i < 16 \<and> sl8 v ! i < 0) \<and> bit (i16x8_bitmask v) i = (i < 8 \<and> sl16 v ! i < 0)
   \<and> bit (i32x4_bitmask v) i = (i < 4 \<and> sl32 v ! i < 0) \<and> bit (i64x2_bitmask v) i = (i < 2 \<and> sl64 v ! i < 0)"
  unfolding v128_any_true_def i8x16_all_true_def i16x8_all_true_def i32x4_all_true_def i64x2_all_true_def fold_all fold_any
    lanes_zero_iff ul8_def ul16_def ul32_def ul64_def zero_lane_iff
    i8x16_bitmask_def i16x8_bitmask_def i32x4_bitmask_def i64x2_bitmask_def
  by (auto simp: fold_bitmask lane_ints)

end
