(* ===== verification/Vm_Step_Types.thy ===== *)
theory Vm_Step_Types
  imports Vm_Exec_Logic Vm_Code_Parser
begin

text \<open>
  The types of the instructions.  The rows that the parser validates numeric and vector instructions
  with are types of the interpreter's overloads: on operands of the row's types an overload leaves one
  operand of its result type and moves on, or ends in an exception of a known class.  \<open>endsX\<close> describes
  both ways out; the contract of an operand accessor is the locale \<open>operand_type\<close>.
\<close>

section \<open>Both ways out\<close>

definition endsX :: "'a exec \<Rightarrow> ectx \<Rightarrow> ('a \<Rightarrow> ectx \<Rightarrow> bool) \<Rightarrow> vm_exn set \<Rightarrow> bool" where
  "endsX m x Q E \<longleftrightarrow> (case m x of (Inl e, _) \<Rightarrow> e \<in> E | (Inr a, x') \<Rightarrow> Q a x')"

named_theorems ends \<open>rules for both ways out\<close>

lemma ends_ok: "okX m x Q \<Longrightarrow> endsX m x Q E"
  by (auto simp: okX_def endsX_def)

lemma ends_bind [ends]: "endsX (bindX m f) x Q E \<longleftrightarrow> endsX m x (\<lambda>a x'. endsX (f a) x' Q E) E"
  by (auto simp: endsX_def bindX_def split: prod.splits sum.splits)

lemma ends_then [ends]: "endsX (thenX m k) x Q E \<longleftrightarrow> endsX m x (\<lambda>_ x'. endsX k x' Q E) E"
  by (simp add: thenX_def ends_bind)

lemma ends_lift [ends]: "endsX (liftX r) x Q E \<longleftrightarrow> (case r of Inl e \<Rightarrow> e \<in> E | Inr a \<Rightarrow> Q a x)"
  by (simp add: endsX_def liftX_def split: sum.splits)

lemma ends_ret [ends]: "endsX (retX a) x Q E \<longleftrightarrow> Q a x"
  by (simp add: endsX_def retX_def)

definition next_pc :: "ectx \<Rightarrow> ectx" where
  "next_pc = x_pc_update (ptr_add 1)"

lemma operands_next_pc [simp]: "operands xs (next_pc x) \<longleftrightarrow> operands xs x"
  by (simp add: next_pc_def)

lemma ends_inc_pc [ends]: "endsX inc_pc x Q E \<longleftrightarrow> Q () (next_pc x)"
  by (simp add: endsX_def inc_pc_def modX_def next_pc_def)

lemmas ends_pop = pop_ok [THEN ends_ok]
lemmas ends_push = push_ok [THEN ends_ok]

lemma ends_peek: "operands (xs @ [e]) x \<Longrightarrow> Q e x \<Longrightarrow> endsX (peek_operand 0) x Q E"
  by (rule ends_ok) (simp add: peek_ok)

lemma ends_poke:
  assumes "operands (xs @ [e]) x" and "\<And>x'. same_rest x x' \<Longrightarrow> operands (xs @ [d]) x' \<Longrightarrow> Q () x'"
  shows "endsX (poke_operand 0 d) x Q E"
  using assms(2) by (intro ends_ok poke_ok [OF assms(1)]) simp_all

text \<open>
  \<open>has_type ins out E m\<close>: on a stack that ends in operands of the types \<open>ins\<close>, \<open>m\<close> replaces them by one of type
  \<open>out\<close>, advances the program counter by one and changes nothing else, or throws an exception of \<open>E\<close>.
\<close>

definition leaves :: "value_type \<Rightarrow> const_op list \<Rightarrow> ectx \<Rightarrow> ectx \<Rightarrow> bool" where
  "leaves out base x x' \<longleftrightarrow> same_rest (next_pc x) x' \<and> (\<exists>v. op_type v = out \<and> operands (base @ [v]) x')"

lemma leavesI:
  "same_rest y x' \<Longrightarrow> same_rest (next_pc x) y \<Longrightarrow> operands (base @ [v]) x' \<Longrightarrow> op_type v = out \<Longrightarrow> leaves out base x x'"
  unfolding leaves_def using same_rest_trans by blast

definition has_type :: "value_type list \<Rightarrow> value_type \<Rightarrow> vm_exn set \<Rightarrow> unit exec \<Rightarrow> bool" where
  "has_type ins out E m \<longleftrightarrow> (\<forall>x base vs. operands (base @ vs) x \<longrightarrow> map op_type vs = ins \<longrightarrow>
     endsX m x (\<lambda>_. leaves out base x) E)"

lemma has_typeI:
  assumes "\<And>x base vs. operands (base @ vs) x \<Longrightarrow> map op_type vs = ins \<Longrightarrow>
     endsX m x (\<lambda>_. leaves out base x) E"
  shows "has_type ins out E m"
  using assms by (simp add: has_type_def)

section \<open>Accessors\<close>

locale operand_type =
  fixes rd :: "const_op \<Rightarrow> 'a res" and ty :: value_type
  assumes rd_typed: "op_type e = ty \<Longrightarrow> \<exists>v. rd e = Inr v"
begin

lemma unary_typed:
  assumes "\<And>v. op_type (wr v) = out" "\<And>v e. f v = Inl e \<Longrightarrow> e \<in> E"
  shows "has_type [ty] out E (unary_op rd wr f)"
proof (rule has_typeI)
  fix x base vs assume x: "operands (base @ vs) x" and "map op_type vs = [ty]"
  then obtain e where vs: "vs = [e]" and "op_type e = ty" by auto
  then obtain v where v: "rd e = Inr v" using rd_typed by blast
  let ?x = "next_pc x"
  have x': "operands (base @ [e]) ?x" using x vs by simp
  show "endsX (unary_op rd wr f) x (\<lambda>_. leaves out base x) E"
    unfolding unary_op_def ends using assms
    by (intro ends_peek [OF x']) (auto simp: v split: sum.splits intro!: ends_poke [OF x'] leavesI)
qed

lemma binary_typed:
  assumes "\<And>v. op_type (wr v) = out" "\<And>v w e. f v w = Inl e \<Longrightarrow> e \<in> E"
  shows "has_type [ty, ty] out E (binary_op rd wr f)"
proof (rule has_typeI)
  fix x base vs assume x: "operands (base @ vs) x" and "map op_type vs = [ty, ty]"
  then obtain d e where vs: "vs = [d, e]" and ty: "op_type d = ty" "op_type e = ty" by (auto simp: Cons_eq_map_conv map_eq_Cons_conv)
  then obtain v w where v: "rd d = Inr v" "rd e = Inr w" using rd_typed by metis
  let ?x = "next_pc x"
  have x': "operands ((base @ [d]) @ [e]) ?x" using x vs by simp
  show "endsX (binary_op rd wr f) x (\<lambda>_. leaves out base x) E"
    unfolding binary_op_def ends using assms
    by (intro ends_pop [OF x']) (auto simp: v split: sum.splits intro!: ends_peek ends_poke intro: leavesI)
qed

end





interpretation op_v128: operand_type to_v128 t_v128
  by unfold_locales (rename_tac e, case_tac e; simp)

section \<open>Shapes of vector instructions\<close>

lemma same_rest_next_pc: "same_rest x y \<Longrightarrow> same_rest (next_pc x) (next_pc y)"
  by (cases x; cases y) (simp add: same_rest_def next_pc_def)

lemma operands_shorter: "operands (xs @ vs) x \<Longrightarrow> vs \<noteq> [] \<Longrightarrow> Suc (length xs) < 2 ^ 32"
  by (cases vs) (auto simp: operands_def)

lemma of_type_cases:
  "op_type e = t_v128 \<longleftrightarrow> (\<exists>v. e = V128_const_t v)" "op_type e = t_i32 \<longleftrightarrow> (\<exists>w. e = I32_const_t w)"
  by (cases e; simp)+






context operand_type begin

lemma splat_typed: "has_type [ty] t_v128 E (step_v128_splat rd f)"
proof (rule has_typeI)
  fix x base vs assume x: "operands (base @ vs) x" and "map op_type vs = [ty]"
  then obtain e where vs: "vs = [e]" and "op_type e = ty" by auto
  then obtain v where v: "rd e = Inr v" using rd_typed by blast
  have l: "Suc (length base) < 2 ^ 32" using operands_shorter [OF x] vs by simp
  have x': "operands (base @ [e]) x" using x vs by simp
  show "endsX (step_v128_splat rd f) x (\<lambda>_. leaves t_v128 base x) E"
    unfolding step_v128_splat_def push_v128_def ends using l
    by (intro ends_pop [OF x']) (auto simp: v intro!: ends_push intro: leavesI same_rest_next_pc)
qed

end

section \<open>Classes of exceptions\<close>







section \<open>The rows of the parser are types of the interpreter\<close>













section \<open>Lanes and memory\<close>

context operand_type begin

lemma replace_lane_typed:
  assumes "\<And>w v e. f w v = Inl e \<Longrightarrow> e \<in> E"
  shows "has_type [t_v128, ty] t_v128 E (step_replace_lane rd f)"
proof (rule has_typeI)
  fix x base vs assume x: "operands (base @ vs) x" and "map op_type vs = [t_v128, ty]"
  then obtain v e where vs: "vs = [V128_const_t v, e]" and "op_type e = ty" by (auto simp: map_eq_Cons_conv of_type_cases)
  then obtain w where w: "rd e = Inr w" using rd_typed by blast
  have l: "Suc (length base) < 2 ^ 32" using operands_shorter [OF x] vs by simp
  have x': "operands ((base @ [V128_const_t v]) @ [e]) x" using x vs by simp
  show "endsX (step_replace_lane rd f) x (\<lambda>_. leaves t_v128 base x) E"
    unfolding step_replace_lane_def step_v128_unop_def pop_v128_def push_v128_def ends using l assms
    by (intro ends_pop [OF x']) (auto simp: w split: sum.splits intro!: ends_pop ends_push leavesI intro: same_rest_trans same_rest_next_pc)
qed

end















section \<open>Scalar instructions\<close>

























end
