(* ===== verification/Vm_Jit_Asm.thy ===== *)
theory Vm_Jit_Asm
  imports Vm_Types
begin

text \<open>
  The assembler of the JIT compiler, the second half of \<open>machine_code_writer\<close> in \<^verbatim>\<open>x86_64.hpp\<close>: operands, the
  encoding of instructions into bytes (REX and VEX prefixes, ModRM, SIB and displacement), the buffer that
  the bytes go to, branches that are filled in later, and the folding of the last emitted operations.

  Pointers into the code segment are offsets from the base of the allocator that holds it.  The buffer is a map from offsets to
  bytes; writing at or behind \<open>_code_end\<close>, where the memory of the allocator ends, is \<open>Undefined_behaviour\<close>.
  What the build or the system decides is in \<open>jit_env\<close>: software floating point, backtraces, the unit of the
  stack limit, the validation of instruction sizes (\<open>EOS_VM_VALIDATE_JIT_SIZE\<close>), the processor's features, the
  page size, and the addresses of the C++ functions that generated code calls.
\<close>

section \<open>Operands\<close>

text \<open>
  Registers of the four widths and of the vector unit, memory at a register plus displacement
  (\<open>simple_memory_ref\<close> is displacement 0), memory at the sum of two registers and a displacement, a memory operand
  with a size in bytes, and the opcode extension that takes the place of a register.
\<close>

datatype operand =
    R8 nat | R16 nat | R32 nat | R64 nat | Xmm nat
  | Mem nat int | Sib nat nat int | Sized nat operand | Opext nat

abbreviation "rax \<equiv> R64 0"
abbreviation "rcx \<equiv> R64 1"
abbreviation "rdx \<equiv> R64 2"
abbreviation "rbx \<equiv> R64 3"
abbreviation "rsp \<equiv> R64 4"
abbreviation "rbp \<equiv> R64 5"
abbreviation "rsi \<equiv> R64 6"
abbreviation "rdi \<equiv> R64 7"
abbreviation "r8 \<equiv> R64 8"
abbreviation "r9 \<equiv> R64 9"
abbreviation "eax \<equiv> R32 0"
abbreviation "ecx \<equiv> R32 1"
abbreviation "edx \<equiv> R32 2"
abbreviation "ebx \<equiv> R32 3"
abbreviation "esi \<equiv> R32 6"
abbreviation "al \<equiv> R8 0"
abbreviation "cl \<equiv> R8 1"
abbreviation "dl \<equiv> R8 2"
abbreviation "ax \<equiv> R16 0"
abbreviation "xmm0 \<equiv> Xmm 0"
abbreviation "xmm1 \<equiv> Xmm 1"
abbreviation "xmm2 \<equiv> Xmm 2"
abbreviation "xmm3 \<equiv> Xmm 3"

fun reg_num :: "operand \<Rightarrow> nat" where
  "reg_num (R8 r) = r" | "reg_num (R16 r) = r" | "reg_num (R32 r) = r" | "reg_num (R64 r) = r"
| "reg_num (Xmm r) = r" | "reg_num (Opext r) = r" | "reg_num (Mem b d) = b" | "reg_num (Sib r1 r2 d) = r2"
| "reg_num (Sized n m) = reg_num m"

text \<open>\<open>*(reg + offset)\<close> and \<open>*(reg1 + reg2 + offset)\<close>.\<close>

definition at_disp :: "operand \<Rightarrow> int \<Rightarrow> operand" where
  "at_disp r d = Mem (reg_num r) d"

definition at_sib :: "operand \<Rightarrow> operand \<Rightarrow> int \<Rightarrow> operand" where
  "at_sib r1 r2 d = Sib (reg_num r1) (reg_num r2) d"

abbreviation deref :: "operand \<Rightarrow> operand" where
  "deref r \<equiv> at_disp r 0"

section \<open>Encoding\<close>

definition REX_prefix :: "bool \<Rightarrow> bool \<Rightarrow> bool \<Rightarrow> bool \<Rightarrow> u8 list" where
  "REX_prefix W R X B = (if W \<or> R \<or> X \<or> B
     then [0x40 OR push_bit 3 (of_bool W) OR push_bit 2 (of_bool R) OR push_bit 1 (of_bool X) OR of_bool B] else [])"

fun REX_prefix_rm :: "bool \<Rightarrow> operand \<Rightarrow> nat \<Rightarrow> u8 list" where
  "REX_prefix_rm W (Mem b d) reg = REX_prefix W (bit reg 3) False (bit b 3)"
| "REX_prefix_rm W (Sib r1 r2 d) reg = REX_prefix W (bit reg 3) (bit r1 3) (bit r2 3)"
| "REX_prefix_rm W (Sized n m) reg = REX_prefix_rm W m reg"
| "REX_prefix_rm W r reg = REX_prefix W (bit reg 3) False (bit (reg_num r) 3)"

text \<open>The byte with the two mode bits, the register field and the register or memory field.\<close>

definition modrm :: "u8 \<Rightarrow> nat \<Rightarrow> nat \<Rightarrow> u8" where
  "modrm mode reg r_m = mode OR push_bit 3 (of_nat (reg mod 8)) OR of_nat (r_m mod 8)"

definition fits8 :: "int \<Rightarrow> bool" where
  "fits8 z \<longleftrightarrow> - 0x80 \<le> z \<and> z \<le> 0x7F"

fun modrm_sib_disp :: "operand \<Rightarrow> nat \<Rightarrow> u8 list" where
  "modrm_sib_disp (Sib r1 r2 d) reg = (let sib = push_bit 3 (of_nat (r1 mod 8)) OR of_nat (r2 mod 8) in
     if d = 0 then [modrm 0x00 reg 4, sib]
     else if fits8 d then [modrm 0x40 reg 4, sib, word_of_int d]
     else [modrm 0x80 reg 4, sib] @ le_bytes 4 (word_of_int d :: u32))"
| "modrm_sib_disp (Mem b d) reg =
     (if d = 0 then (if b = 4 then [modrm 0x00 reg 4, 0x24] else if b = 5 then [modrm 0x40 reg 5, 0x00] else [modrm 0x00 reg b])
      else if fits8 d then (if b = 4 then [modrm 0x40 reg 4, 0x24, word_of_int d] else [modrm 0x40 reg b, word_of_int d])
      else (if b = 4 then [modrm 0x80 reg 4, 0x24] else [modrm 0x80 reg b]) @ le_bytes 4 (word_of_int d :: u32))"
| "modrm_sib_disp (Sized n m) reg = modrm_sib_disp m reg"
| "modrm_sib_disp r reg = [modrm 0xc0 reg (reg_num r)]"

text \<open>A memory operand that \<open>emit_modrm_sib_disp\<close> refuses with \<open>unimplemented()\<close>.\<close>

fun unencodable :: "operand \<Rightarrow> bool" where
  "unencodable (Sib r1 r2 d) \<longleftrightarrow> r1 = 4 \<or> r2 = 5"
| "unencodable (Sized n m) \<longleftrightarrow> unencodable m"
| "unencodable _ \<longleftrightarrow> False"

text \<open>Instructions of the integer unit: operand size (never, always, or by the operands), opcode, extension.\<close>

datatype opsize = W0 | W1 | WX

datatype ia32 = Ia32 opsize "u8 list" "nat option"

fun get_operand_size :: "opsize \<Rightarrow> operand \<Rightarrow> bool" where
  "get_operand_size w (R32 r) = (w = W1)"
| "get_operand_size w (R64 r) = (w \<noteq> W0)"
| "get_operand_size w (Sized n m) = (if n = 4 then w = W1 else w \<noteq> W0)"
| "get_operand_size w _ = (w \<noteq> W0)"

fun get_operand_size2 :: "opsize \<Rightarrow> operand \<Rightarrow> operand \<Rightarrow> bool" where
  "get_operand_size2 w r_m (R32 r) = (w = W1)"
| "get_operand_size2 w r_m (R64 r) = (w \<noteq> W0)"
| "get_operand_size2 w r_m _ = get_operand_size w r_m"

fun ia32_bytes :: "ia32 \<Rightarrow> operand \<Rightarrow> operand \<Rightarrow> u8 list" where
  "ia32_bytes (Ia32 w opcode ext) r_m reg =
     REX_prefix_rm (get_operand_size2 w r_m reg) r_m (reg_num reg) @ opcode @ modrm_sib_disp r_m (reg_num reg)"

text \<open>Instructions of the vector unit: \<open>VEX<SZ, PP, MMMM, W, OpExt>\<close> at 128 bits.\<close>

datatype vex_mmmm = Mmmm_none | Mmmm_0F | Mmmm_0F38 | Mmmm_0F3A
datatype vex_pp = Pp_none | Pp_66 | Pp_F3 | Pp_F2

fun mmmm_bits :: "vex_mmmm \<Rightarrow> u8" where
  "mmmm_bits Mmmm_none = 0" | "mmmm_bits Mmmm_0F = 1" | "mmmm_bits Mmmm_0F38 = 2" | "mmmm_bits Mmmm_0F3A = 3"

fun pp_bits :: "vex_pp \<Rightarrow> u8" where
  "pp_bits Pp_none = 0" | "pp_bits Pp_66 = 1" | "pp_bits Pp_F3 = 2" | "pp_bits Pp_F2 = 3"

datatype vex = Vex vex_pp vex_mmmm bool "nat option" u8

definition VEX_prefix :: "bool \<Rightarrow> bool \<Rightarrow> bool \<Rightarrow> vex_mmmm \<Rightarrow> bool \<Rightarrow> nat \<Rightarrow> bool \<Rightarrow> vex_pp \<Rightarrow> u8 list" where
  "VEX_prefix R X B mmmm W vvvv L pp =
     (let v = push_bit 3 (of_nat vvvv XOR 0xF) OR push_bit 2 (of_bool L) OR pp_bits pp in
      if X \<or> B \<or> mmmm \<noteq> Mmmm_0F \<or> W
      then [0xc4, push_bit 7 (of_bool (\<not> R)) OR push_bit 6 (of_bool (\<not> X)) OR push_bit 5 (of_bool (\<not> B)) OR mmmm_bits mmmm,
            push_bit 7 (of_bool W) OR v]
      else [0xc5, push_bit 7 (of_bool (\<not> R)) OR v])"

fun rm_index :: "operand \<Rightarrow> bool" where
  "rm_index (Sib r1 r2 d) = bit r1 3" | "rm_index _ = False"

fun vex_bytes :: "vex \<Rightarrow> operand \<Rightarrow> nat \<Rightarrow> operand \<Rightarrow> u8 list" where
  "vex_bytes (Vex pp mmmm W ext opcode) r_m vvvv reg =
     VEX_prefix (bit (reg_num reg) 3) (rm_index r_m) (bit (reg_num r_m) 3) mmmm W vvvv False pp
     @ [opcode] @ modrm_sib_disp r_m (reg_num reg)"

text \<open>The shift by a constant, whose extension is in the register field and whose target is in \<open>vvvv\<close>.\<close>

fun vex_ext_bytes :: "vex \<Rightarrow> operand \<Rightarrow> operand \<Rightarrow> u8 list" where
  "vex_ext_bytes (Vex pp mmmm W ext opcode) src dest =
     VEX_prefix False False (bit (reg_num src) 3) mmmm W (reg_num dest) False pp
     @ [opcode] @ modrm_sib_disp src (case ext of Some e \<Rightarrow> e | None \<Rightarrow> 7)"

end
