(* ===== verification/Vm_Jit_Ops.thy ===== *)
theory Vm_Jit_Ops
  imports Vm_Jit_Asm
begin

text \<open>
  The instructions that the compiler uses, with the opcodes that \<^verbatim>\<open>x86_64.hpp\<close> gives them: the integer unit, the
  conditions of branches, the vector unit.  An instruction that takes an immediate is the instruction
  without it; the emitting function adds the immediate.
\<close>

definition op_ADD_A :: ia32 where "op_ADD_A = Ia32 WX [0x03] None"
definition op_ADD_B :: ia32 where "op_ADD_B = Ia32 WX [0x01] None"
definition op_ADD_imm8 :: ia32 where "op_ADD_imm8 = Ia32 WX [0x83] (Some 0)"
definition op_ADD_imm32 :: ia32 where "op_ADD_imm32 = Ia32 WX [0x81] (Some 0)"
definition op_AND_A :: ia32 where "op_AND_A = Ia32 WX [0x23] None"
definition op_AND_imm8 :: ia32 where "op_AND_imm8 = Ia32 WX [0x83] (Some 4)"
definition op_AND_imm32 :: ia32 where "op_AND_imm32 = Ia32 WX [0x81] (Some 4)"
definition op_BSF :: ia32 where "op_BSF = Ia32 WX [0x0f, 0xbc] None"
definition op_BSR :: ia32 where "op_BSR = Ia32 WX [0x0f, 0xbd] None"
definition op_CALL :: ia32 where "op_CALL = Ia32 W0 [0xff] (Some 2)"
definition op_CDQ :: ia32 where "op_CDQ = Ia32 W0 [0x99] None"
definition op_CQO :: ia32 where "op_CQO = Ia32 W1 [0x99] None"
definition op_CLD :: ia32 where "op_CLD = Ia32 W0 [0xFC] None"
definition op_CMOVNZ :: ia32 where "op_CMOVNZ = Ia32 WX [0x0f, 0x45] None"
definition op_CMOVZ :: ia32 where "op_CMOVZ = Ia32 WX [0x0f, 0x44] None"
definition op_CMP :: ia32 where "op_CMP = Ia32 WX [0x3b] None"
definition op_CMP_imm8 :: ia32 where "op_CMP_imm8 = Ia32 WX [0x83] (Some 7)"
definition op_CMP_imm32 :: ia32 where "op_CMP_imm32 = Ia32 WX [0x81] (Some 7)"
definition op_DEC :: ia32 where "op_DEC = Ia32 WX [0xFF] (Some 1)"
definition op_DECD :: ia32 where "op_DECD = Ia32 W0 [0xFF] (Some 1)"
definition op_DECQ :: ia32 where "op_DECQ = Ia32 W1 [0xFF] (Some 1)"
definition op_DIV :: ia32 where "op_DIV = Ia32 WX [0xf7] (Some 6)"
definition op_IDIV :: ia32 where "op_IDIV = Ia32 WX [0xf7] (Some 7)"
definition op_IMUL :: ia32 where "op_IMUL = Ia32 WX [0x0f, 0xaf] None"
definition op_INC :: ia32 where "op_INC = Ia32 WX [0xFF] (Some 0)"
definition op_INCD :: ia32 where "op_INCD = Ia32 W0 [0xFF] (Some 0)"
definition op_JMP_8 :: ia32 where "op_JMP_8 = Ia32 W0 [0xeb] None"
definition op_JMP_32 :: ia32 where "op_JMP_32 = Ia32 W0 [0xe9] None"
definition op_LDMXCSR :: ia32 where "op_LDMXCSR = Ia32 W0 [0x0f, 0xae] (Some 2)"
definition op_LEA :: ia32 where "op_LEA = Ia32 WX [0x8d] None"
definition op_LEAVE :: ia32 where "op_LEAVE = Ia32 W0 [0xc9] None"
definition op_MOVB_A :: ia32 where "op_MOVB_A = Ia32 W0 [0x8a] None"
definition op_MOVB_B :: ia32 where "op_MOVB_B = Ia32 W0 [0x88] None"
definition op_MOVW_B :: ia32 where "op_MOVW_B = Ia32 W0 [0x66, 0x89] None"
definition op_MOV_A :: ia32 where "op_MOV_A = Ia32 WX [0x8b] None"
definition op_MOV_B :: ia32 where "op_MOV_B = Ia32 WX [0x89] None"
definition op_MOVZXB :: ia32 where "op_MOVZXB = Ia32 W0 [0x0f, 0xb6] None"
definition op_MOVZXW :: ia32 where "op_MOVZXW = Ia32 WX [0x0f, 0xb7] None"
definition op_MOVSXB :: ia32 where "op_MOVSXB = Ia32 WX [0x0f, 0xbe] None"
definition op_MOVSXW :: ia32 where "op_MOVSXW = Ia32 WX [0x0f, 0xbf] None"
definition op_MOVSXD :: ia32 where "op_MOVSXD = Ia32 WX [0x63] None"
definition op_NEG :: ia32 where "op_NEG = Ia32 WX [0xf7] (Some 3)"
definition op_NOT :: ia32 where "op_NOT = Ia32 WX [0xf7] (Some 2)"
definition op_LZCNT :: ia32 where "op_LZCNT = Ia32 WX [0xf3, 0x0f, 0xbd] None"
definition op_OR_A :: ia32 where "op_OR_A = Ia32 WX [0x0B] None"
definition op_OR_imm8 :: ia32 where "op_OR_imm8 = Ia32 WX [0x83] (Some 1)"
definition op_OR_imm32 :: ia32 where "op_OR_imm32 = Ia32 WX [0x81] (Some 1)"
definition op_POPCNT :: ia32 where "op_POPCNT = Ia32 WX [0xf3, 0x0f, 0xb8] None"
definition op_ROL_cl :: ia32 where "op_ROL_cl = Ia32 WX [0xd3] (Some 0)"
definition op_ROR_cl :: ia32 where "op_ROR_cl = Ia32 WX [0xd3] (Some 1)"
definition op_SETZ :: ia32 where "op_SETZ = Ia32 W0 [0x0f, 0x94] None"
definition op_SETNZ :: ia32 where "op_SETNZ = Ia32 W0 [0x0f, 0x95] None"
definition op_SAR_cl :: ia32 where "op_SAR_cl = Ia32 WX [0xd3] (Some 7)"
definition op_SAR_imm8 :: ia32 where "op_SAR_imm8 = Ia32 WX [0xc1] (Some 7)"
definition op_SHL_cl :: ia32 where "op_SHL_cl = Ia32 WX [0xd3] (Some 4)"
definition op_SHL_imm8 :: ia32 where "op_SHL_imm8 = Ia32 WX [0xc1] (Some 4)"
definition op_SHR_cl :: ia32 where "op_SHR_cl = Ia32 WX [0xd3] (Some 5)"
definition op_SHR_imm8 :: ia32 where "op_SHR_imm8 = Ia32 WX [0xc1] (Some 5)"
definition op_STD :: ia32 where "op_STD = Ia32 W0 [0xFD] None"
definition op_STMXCSR :: ia32 where "op_STMXCSR = Ia32 W0 [0x0f, 0xae] (Some 3)"
definition op_SUB_A :: ia32 where "op_SUB_A = Ia32 WX [0x2b] None"
definition op_SUB_imm8 :: ia32 where "op_SUB_imm8 = Ia32 WX [0x83] (Some 5)"
definition op_SUB_imm32 :: ia32 where "op_SUB_imm32 = Ia32 WX [0x81] (Some 5)"
definition op_TZCNT :: ia32 where "op_TZCNT = Ia32 WX [0xf3, 0x0f, 0xbc] None"
definition op_RET :: ia32 where "op_RET = Ia32 W0 [0xc3] None"
definition op_TEST :: ia32 where "op_TEST = Ia32 WX [0x85] None"
definition op_XOR_A :: ia32 where "op_XOR_A = Ia32 WX [0x33] None"
definition op_XOR_imm8 :: ia32 where "op_XOR_imm8 = Ia32 WX [0x83] (Some 6)"
definition op_XOR_imm32 :: ia32 where "op_XOR_imm32 = Ia32 WX [0x81] (Some 6)"
definition op_JB :: u8 where "op_JB = 0x72"
definition op_JAE :: u8 where "op_JAE = 0x73"
definition op_JE :: u8 where "op_JE = 0x74"
definition op_JZ :: u8 where "op_JZ = 0x74"
definition op_JNE :: u8 where "op_JNE = 0x75"
definition op_JNZ :: u8 where "op_JNZ = 0x75"
definition op_JBE :: u8 where "op_JBE = 0x76"
definition op_JA :: u8 where "op_JA = 0x77"
definition op_JL :: u8 where "op_JL = 0x7c"
definition op_JGE :: u8 where "op_JGE = 0x7d"
definition op_JLE :: u8 where "op_JLE = 0x7e"
definition op_JG :: u8 where "op_JG = 0x7f"
definition op_VMOVD_A :: vex where "op_VMOVD_A = Vex Pp_66 Mmmm_0F False None 0x6e"
definition op_VMOVD_B :: vex where "op_VMOVD_B = Vex Pp_66 Mmmm_0F False None 0x7e"
definition op_VMOVQ_A :: vex where "op_VMOVQ_A = Vex Pp_66 Mmmm_0F True None 0x6e"
definition op_VMOVQ_B :: vex where "op_VMOVQ_B = Vex Pp_66 Mmmm_0F True None 0x7e"
definition op_VMOVDQU_A :: vex where "op_VMOVDQU_A = Vex Pp_F3 Mmmm_0F False None 0x6f"
definition op_VMOVDQU_B :: vex where "op_VMOVDQU_B = Vex Pp_F3 Mmmm_0F False None 0x7f"
definition op_VMOVUPS_A :: vex where "op_VMOVUPS_A = Vex Pp_66 Mmmm_0F False None 0x10"
definition op_VMOVUPS_B :: vex where "op_VMOVUPS_B = Vex Pp_66 Mmmm_0F False None 0x11"
definition op_VMOVMSKPS :: vex where "op_VMOVMSKPS = Vex Pp_none Mmmm_0F False None 0x50"
definition op_VMOVMSKPD :: vex where "op_VMOVMSKPD = Vex Pp_66 Mmmm_0F False None 0x50"
definition op_VPABSB :: vex where "op_VPABSB = Vex Pp_66 Mmmm_0F38 False None 0x1c"
definition op_VPABSW :: vex where "op_VPABSW = Vex Pp_66 Mmmm_0F38 False None 0x1d"
definition op_VPABSD :: vex where "op_VPABSD = Vex Pp_66 Mmmm_0F38 False None 0x1e"
definition op_VPACKSSWB :: vex where "op_VPACKSSWB = Vex Pp_66 Mmmm_0F False None 0x63"
definition op_VPACKSSDW :: vex where "op_VPACKSSDW = Vex Pp_66 Mmmm_0F False None 0x6b"
definition op_VPACKUSWB :: vex where "op_VPACKUSWB = Vex Pp_66 Mmmm_0F False None 0x67"
definition op_VPACKUSDW :: vex where "op_VPACKUSDW = Vex Pp_66 Mmmm_0F38 False None 0x2B"
definition op_VPADDB :: vex where "op_VPADDB = Vex Pp_66 Mmmm_0F False None 0xfc"
definition op_VPADDW :: vex where "op_VPADDW = Vex Pp_66 Mmmm_0F False None 0xfd"
definition op_VPADDD :: vex where "op_VPADDD = Vex Pp_66 Mmmm_0F False None 0xfe"
definition op_VPADDQ :: vex where "op_VPADDQ = Vex Pp_66 Mmmm_0F False None 0xd4"
definition op_VPADDSB :: vex where "op_VPADDSB = Vex Pp_66 Mmmm_0F False None 0xec"
definition op_VPADDSW :: vex where "op_VPADDSW = Vex Pp_66 Mmmm_0F False None 0xed"
definition op_VPADDUSB :: vex where "op_VPADDUSB = Vex Pp_66 Mmmm_0F False None 0xdc"
definition op_VPADDUSW :: vex where "op_VPADDUSW = Vex Pp_66 Mmmm_0F False None 0xdd"
definition op_VPAND :: vex where "op_VPAND = Vex Pp_66 Mmmm_0F False None 0xdb"
definition op_VPANDN :: vex where "op_VPANDN = Vex Pp_66 Mmmm_0F False None 0xdf"
definition op_VPAVGB :: vex where "op_VPAVGB = Vex Pp_66 Mmmm_0F False None 0xe0"
definition op_VPAVGW :: vex where "op_VPAVGW = Vex Pp_66 Mmmm_0F False None 0xe3"
definition op_VPBROADCASTB :: vex where "op_VPBROADCASTB = Vex Pp_66 Mmmm_0F38 False None 0x78"
definition op_VPBROADCASTW :: vex where "op_VPBROADCASTW = Vex Pp_66 Mmmm_0F38 False None 0x79"
definition op_VPBROADCASTD :: vex where "op_VPBROADCASTD = Vex Pp_66 Mmmm_0F38 False None 0x58"
definition op_VPBROADCASTQ :: vex where "op_VPBROADCASTQ = Vex Pp_66 Mmmm_0F38 False None 0x59"
definition op_VPCMPEQB :: vex where "op_VPCMPEQB = Vex Pp_66 Mmmm_0F False None 0x74"
definition op_VPCMPEQW :: vex where "op_VPCMPEQW = Vex Pp_66 Mmmm_0F False None 0x75"
definition op_VPCMPEQD :: vex where "op_VPCMPEQD = Vex Pp_66 Mmmm_0F False None 0x76"
definition op_VPCMPEQQ :: vex where "op_VPCMPEQQ = Vex Pp_66 Mmmm_0F38 False None 0x29"
definition op_VPCMPGTB :: vex where "op_VPCMPGTB = Vex Pp_66 Mmmm_0F False None 0x64"
definition op_VPCMPGTW :: vex where "op_VPCMPGTW = Vex Pp_66 Mmmm_0F False None 0x65"
definition op_VPCMPGTD :: vex where "op_VPCMPGTD = Vex Pp_66 Mmmm_0F False None 0x66"
definition op_VPCMPGTQ :: vex where "op_VPCMPGTQ = Vex Pp_66 Mmmm_0F38 False None 0x37"
definition op_VPEXTRB :: vex where "op_VPEXTRB = Vex Pp_66 Mmmm_0F3A False None 0x14"
definition op_VPEXTRW :: vex where "op_VPEXTRW = Vex Pp_66 Mmmm_0F3A False None 0x15"
definition op_VPEXTRD :: vex where "op_VPEXTRD = Vex Pp_66 Mmmm_0F3A False None 0x16"
definition op_VPEXTRQ :: vex where "op_VPEXTRQ = Vex Pp_66 Mmmm_0F3A True None 0x16"
definition op_VPINSRB :: vex where "op_VPINSRB = Vex Pp_66 Mmmm_0F3A False None 0x20"
definition op_VPINSRW :: vex where "op_VPINSRW = Vex Pp_66 Mmmm_0F False None 0xc4"
definition op_VPINSRD :: vex where "op_VPINSRD = Vex Pp_66 Mmmm_0F3A False None 0x22"
definition op_VPINSRQ :: vex where "op_VPINSRQ = Vex Pp_66 Mmmm_0F3A True None 0x22"
definition op_VPHADDW :: vex where "op_VPHADDW = Vex Pp_66 Mmmm_0F38 False None 0x01"
definition op_VPHADDD :: vex where "op_VPHADDD = Vex Pp_66 Mmmm_0F38 False None 0x02"
definition op_VPMADDWD :: vex where "op_VPMADDWD = Vex Pp_66 Mmmm_0F False None 0xf5"
definition op_VPMAXSB :: vex where "op_VPMAXSB = Vex Pp_66 Mmmm_0F38 False None 0x3c"
definition op_VPMAXSW :: vex where "op_VPMAXSW = Vex Pp_66 Mmmm_0F False None 0xee"
definition op_VPMAXSD :: vex where "op_VPMAXSD = Vex Pp_66 Mmmm_0F38 False None 0x3d"
definition op_VPMAXUB :: vex where "op_VPMAXUB = Vex Pp_66 Mmmm_0F False None 0xde"
definition op_VPMAXUW :: vex where "op_VPMAXUW = Vex Pp_66 Mmmm_0F38 False None 0x3e"
definition op_VPMAXUD :: vex where "op_VPMAXUD = Vex Pp_66 Mmmm_0F38 False None 0x3f"
definition op_VPMINSB :: vex where "op_VPMINSB = Vex Pp_66 Mmmm_0F38 False None 0x38"
definition op_VPMINSW :: vex where "op_VPMINSW = Vex Pp_66 Mmmm_0F False None 0xea"
definition op_VPMINSD :: vex where "op_VPMINSD = Vex Pp_66 Mmmm_0F38 False None 0x39"
definition op_VPMINUB :: vex where "op_VPMINUB = Vex Pp_66 Mmmm_0F False None 0xda"
definition op_VPMINUW :: vex where "op_VPMINUW = Vex Pp_66 Mmmm_0F38 False None 0x3a"
definition op_VPMINUD :: vex where "op_VPMINUD = Vex Pp_66 Mmmm_0F38 False None 0x3b"
definition op_VPMOVMSKB :: vex where "op_VPMOVMSKB = Vex Pp_66 Mmmm_0F False None 0xD7"
definition op_VPMOVSXBW :: vex where "op_VPMOVSXBW = Vex Pp_66 Mmmm_0F38 False None 0x20"
definition op_VPMOVSXWD :: vex where "op_VPMOVSXWD = Vex Pp_66 Mmmm_0F38 False None 0x23"
definition op_VPMOVSXDQ :: vex where "op_VPMOVSXDQ = Vex Pp_66 Mmmm_0F38 False None 0x25"
definition op_VPMOVZXBW :: vex where "op_VPMOVZXBW = Vex Pp_66 Mmmm_0F38 False None 0x30"
definition op_VPMOVZXWD :: vex where "op_VPMOVZXWD = Vex Pp_66 Mmmm_0F38 False None 0x33"
definition op_VPMOVZXDQ :: vex where "op_VPMOVZXDQ = Vex Pp_66 Mmmm_0F38 False None 0x35"
definition op_VPMULHW :: vex where "op_VPMULHW = Vex Pp_66 Mmmm_0F False None 0xe5"
definition op_VPMULHUW :: vex where "op_VPMULHUW = Vex Pp_66 Mmmm_0F False None 0xe4"
definition op_VPMULHRSW :: vex where "op_VPMULHRSW = Vex Pp_66 Mmmm_0F38 False None 0x0b"
definition op_VPMULLW :: vex where "op_VPMULLW = Vex Pp_66 Mmmm_0F False None 0xd5"
definition op_VPMULLD :: vex where "op_VPMULLD = Vex Pp_66 Mmmm_0F38 False None 0x40"
definition op_VPMULDQ :: vex where "op_VPMULDQ = Vex Pp_66 Mmmm_0F38 False None 0x28"
definition op_VPMULUDQ :: vex where "op_VPMULUDQ = Vex Pp_66 Mmmm_0F False None 0xf4"
definition op_VPOR :: vex where "op_VPOR = Vex Pp_66 Mmmm_0F False None 0xeb"
definition op_VPSHUFB :: vex where "op_VPSHUFB = Vex Pp_66 Mmmm_0F38 False None 0x00"
definition op_VPSHUFD :: vex where "op_VPSHUFD = Vex Pp_66 Mmmm_0F False None 0x70"
definition op_VPSLLW :: vex where "op_VPSLLW = Vex Pp_66 Mmmm_0F False None 0xf1"
definition op_VPSLLW_c :: vex where "op_VPSLLW_c = Vex Pp_66 Mmmm_0F False (Some 6) 0x71"
definition op_VPSLLD :: vex where "op_VPSLLD = Vex Pp_66 Mmmm_0F False None 0xf2"
definition op_VPSLLQ :: vex where "op_VPSLLQ = Vex Pp_66 Mmmm_0F False None 0xf3"
definition op_VPSRAW :: vex where "op_VPSRAW = Vex Pp_66 Mmmm_0F False None 0xe1"
definition op_VPSRAW_c :: vex where "op_VPSRAW_c = Vex Pp_66 Mmmm_0F False (Some 4) 0x71"
definition op_VPSRAD :: vex where "op_VPSRAD = Vex Pp_66 Mmmm_0F False None 0xe2"
definition op_VPSRLDQ_c :: vex where "op_VPSRLDQ_c = Vex Pp_66 Mmmm_0F False (Some 3) 0x73"
definition op_VPSRLW :: vex where "op_VPSRLW = Vex Pp_66 Mmmm_0F False None 0xd1"
definition op_VPSRLD :: vex where "op_VPSRLD = Vex Pp_66 Mmmm_0F False None 0xd2"
definition op_VPSRLQ :: vex where "op_VPSRLQ = Vex Pp_66 Mmmm_0F False None 0xd3"
definition op_VPSRLQ_c :: vex where "op_VPSRLQ_c = Vex Pp_66 Mmmm_0F False (Some 2) 0x73"
definition op_VPSUBB :: vex where "op_VPSUBB = Vex Pp_66 Mmmm_0F False None 0xf8"
definition op_VPSUBW :: vex where "op_VPSUBW = Vex Pp_66 Mmmm_0F False None 0xf9"
definition op_VPSUBD :: vex where "op_VPSUBD = Vex Pp_66 Mmmm_0F False None 0xfa"
definition op_VPSUBQ :: vex where "op_VPSUBQ = Vex Pp_66 Mmmm_0F False None 0xfb"
definition op_VPSUBSB :: vex where "op_VPSUBSB = Vex Pp_66 Mmmm_0F False None 0xe8"
definition op_VPSUBSW :: vex where "op_VPSUBSW = Vex Pp_66 Mmmm_0F False None 0xe9"
definition op_VPSUBUSB :: vex where "op_VPSUBUSB = Vex Pp_66 Mmmm_0F False None 0xd8"
definition op_VPSUBUSW :: vex where "op_VPSUBUSW = Vex Pp_66 Mmmm_0F False None 0xd9"
definition op_VPTEST :: vex where "op_VPTEST = Vex Pp_66 Mmmm_0F38 False None 0x17"
definition op_VPUNPCKHBW :: vex where "op_VPUNPCKHBW = Vex Pp_66 Mmmm_0F False None 0x68"
definition op_VPUNPCKHWD :: vex where "op_VPUNPCKHWD = Vex Pp_66 Mmmm_0F False None 0x69"
definition op_VPUNPCKHDQ :: vex where "op_VPUNPCKHDQ = Vex Pp_66 Mmmm_0F False None 0x6a"
definition op_VPUNPCKLBW :: vex where "op_VPUNPCKLBW = Vex Pp_66 Mmmm_0F False None 0x60"
definition op_VPUNPCKLWD :: vex where "op_VPUNPCKLWD = Vex Pp_66 Mmmm_0F False None 0x61"
definition op_VPUNPCKLDQ :: vex where "op_VPUNPCKLDQ = Vex Pp_66 Mmmm_0F False None 0x62"
definition op_VPXOR :: vex where "op_VPXOR = Vex Pp_66 Mmmm_0F False None 0xef"

named_theorems jit_ops \<open>the encodings of the instructions\<close>

lemmas ia32_ops [jit_ops] =
  op_ADD_A_def op_ADD_B_def op_ADD_imm8_def op_ADD_imm32_def op_AND_A_def op_AND_imm8_def op_AND_imm32_def
  op_BSF_def op_BSR_def op_CALL_def op_CDQ_def op_CQO_def op_CLD_def op_CMOVNZ_def op_CMOVZ_def op_CMP_def
  op_CMP_imm8_def op_CMP_imm32_def op_DEC_def op_DECD_def op_DECQ_def op_DIV_def op_IDIV_def op_IMUL_def
  op_INC_def op_INCD_def op_JMP_8_def op_JMP_32_def op_LDMXCSR_def op_LEA_def op_LEAVE_def op_MOVB_A_def
  op_MOVB_B_def op_MOVW_B_def op_MOV_A_def op_MOV_B_def op_MOVZXB_def op_MOVZXW_def op_MOVSXB_def op_MOVSXW_def
  op_MOVSXD_def op_NEG_def op_NOT_def op_LZCNT_def op_OR_A_def op_OR_imm8_def op_OR_imm32_def op_POPCNT_def
  op_ROL_cl_def op_ROR_cl_def op_SETZ_def op_SETNZ_def op_SAR_cl_def op_SAR_imm8_def op_SHL_cl_def
  op_SHL_imm8_def op_SHR_cl_def op_SHR_imm8_def op_STD_def op_STMXCSR_def op_SUB_A_def op_SUB_imm8_def
  op_SUB_imm32_def op_TZCNT_def op_RET_def op_TEST_def op_XOR_A_def op_XOR_imm8_def op_XOR_imm32_def op_JB_def
  op_JAE_def op_JE_def op_JZ_def op_JNE_def op_JNZ_def op_JBE_def op_JA_def op_JL_def op_JGE_def op_JLE_def
  op_JG_def

lemmas vex_ops [jit_ops] =
  op_VMOVD_A_def op_VMOVD_B_def op_VMOVQ_A_def op_VMOVQ_B_def op_VMOVDQU_A_def op_VMOVDQU_B_def
  op_VMOVUPS_A_def op_VMOVUPS_B_def op_VMOVMSKPS_def op_VMOVMSKPD_def op_VPABSB_def op_VPABSW_def op_VPABSD_def
  op_VPACKSSWB_def op_VPACKSSDW_def op_VPACKUSWB_def op_VPACKUSDW_def op_VPADDB_def op_VPADDW_def op_VPADDD_def
  op_VPADDQ_def op_VPADDSB_def op_VPADDSW_def op_VPADDUSB_def op_VPADDUSW_def op_VPAND_def op_VPANDN_def
  op_VPAVGB_def op_VPAVGW_def op_VPBROADCASTB_def op_VPBROADCASTW_def op_VPBROADCASTD_def op_VPBROADCASTQ_def
  op_VPCMPEQB_def op_VPCMPEQW_def op_VPCMPEQD_def op_VPCMPEQQ_def op_VPCMPGTB_def op_VPCMPGTW_def
  op_VPCMPGTD_def op_VPCMPGTQ_def op_VPEXTRB_def op_VPEXTRW_def op_VPEXTRD_def op_VPEXTRQ_def op_VPINSRB_def
  op_VPINSRW_def op_VPINSRD_def op_VPINSRQ_def op_VPHADDW_def op_VPHADDD_def op_VPMADDWD_def op_VPMAXSB_def
  op_VPMAXSW_def op_VPMAXSD_def op_VPMAXUB_def op_VPMAXUW_def op_VPMAXUD_def op_VPMINSB_def op_VPMINSW_def
  op_VPMINSD_def op_VPMINUB_def op_VPMINUW_def op_VPMINUD_def op_VPMOVMSKB_def op_VPMOVSXBW_def
  op_VPMOVSXWD_def op_VPMOVSXDQ_def op_VPMOVZXBW_def op_VPMOVZXWD_def op_VPMOVZXDQ_def op_VPMULHW_def
  op_VPMULHUW_def op_VPMULHRSW_def op_VPMULLW_def op_VPMULLD_def op_VPMULDQ_def op_VPMULUDQ_def op_VPOR_def
  op_VPSHUFB_def op_VPSHUFD_def op_VPSLLW_def op_VPSLLW_c_def op_VPSLLD_def op_VPSLLQ_def op_VPSRAW_def
  op_VPSRAW_c_def op_VPSRAD_def op_VPSRLDQ_c_def op_VPSRLW_def op_VPSRLD_def op_VPSRLQ_def op_VPSRLQ_c_def
  op_VPSUBB_def op_VPSUBW_def op_VPSUBD_def op_VPSUBQ_def op_VPSUBSB_def op_VPSUBSW_def op_VPSUBUSB_def
  op_VPSUBUSW_def op_VPTEST_def op_VPUNPCKHBW_def op_VPUNPCKHWD_def op_VPUNPCKHDQ_def op_VPUNPCKLBW_def
  op_VPUNPCKLWD_def op_VPUNPCKLDQ_def op_VPXOR_def

end
