(* ===== verification/Vm_Jit_Code.thy ===== *)
theory Vm_Jit_Code
  imports Vm_Jit_Ops Vm_Alloc
begin

text \<open>
  The state of \<open>machine_code_writer\<close> and the functions that its emitters are made of: bytes and operands,
  instructions, moves and arithmetic by the types of their operands, pushes and pops with their folding,
  branches, the checks of stack and call depth, frames, and the common shapes of instructions.
  A function \<open>emit_x\<close> of the source is \<open>mc_x\<close> here; overloads get names of their own.
\<close>

section \<open>State\<close>

record jit_env =
  jv_softfloat :: bool
  jv_backtrace :: bool
  jv_stack_bytes :: bool
  jv_validate :: bool
  jv_tzcnt :: bool
  jv_page :: nat
  jv_base :: u64
  jv_fn :: "string \<Rightarrow> u64"
  jv_mod :: vm_module

text \<open>The operations that may be folded into the next one; \<open>None\<close> is the null pointer.\<close>

datatype recent_data =
    No_op | Register_push nat | Get_local_op operand | I32_const_op u32 | I64_const_op u64 | Condition_op u8 | Xmm_push nat

record recent_op =
  ro_start :: nat
  ro_end :: "nat option"
  ro_data :: recent_data

definition no_recent :: recent_op where
  "no_recent = \<lparr>ro_start = 0, ro_end = None, ro_data = No_op\<rparr>"

datatype relocation = Pending "nat list" | Resolved nat

record local_group =
  lg_end :: u32
  lg_end_offset :: int
  lg_elem_size :: nat

record jit =
  jc_alloc :: growable_allocator
  jc_segment :: nat
  jc_mem :: "nat \<Rightarrow> u8"
  jc_code :: nat
  jc_start :: nat
  jc_end :: nat
  jc_recent0 :: recent_op
  jc_recent1 :: recent_op
  jc_relocs :: "relocation list"
  jc_fpe_handler :: nat
  jc_call_indirect_handler :: nat
  jc_type_error_handler :: nat
  jc_stack_overflow_handler :: nat
  jc_memory_handler :: nat
  jc_ft :: func_type
  jc_params :: "u32 list"
  jc_locals :: "local_group list"
  jc_local_count :: u64
  jc_stack_usage :: u32
  jc_stack_limit_entry :: nat

type_synonym 'a jm = "jit_env \<Rightarrow> jit \<Rightarrow> ('a \<times> jit) res"

definition retJ :: "'a \<Rightarrow> 'a jm" where "retJ a env s = Inr (a, s)"
definition throwJ :: "vm_exn \<Rightarrow> 'a jm" where "throwJ e env s = Inl e"
definition bindJ :: "'a jm \<Rightarrow> ('a \<Rightarrow> 'b jm) \<Rightarrow> 'b jm" where
  "bindJ m f env s = bindE (m env s) (\<lambda>(a, s'). f a env s')"
definition getJ :: "(jit \<Rightarrow> 'a) \<Rightarrow> 'a jm" where "getJ f env s = Inr (f s, s)"
definition askJ :: "(jit_env \<Rightarrow> 'a) \<Rightarrow> 'a jm" where "askJ f env s = Inr (f env, s)"
definition modJ :: "(jit \<Rightarrow> jit) \<Rightarrow> unit jm" where "modJ f env s = Inr ((), f s)"
definition liftJ :: "'a res \<Rightarrow> 'a jm" where "liftJ r env s = bindE r (\<lambda>a. Inr (a, s))"
definition checkJ :: "bool \<Rightarrow> vm_exn \<Rightarrow> unit jm" where "checkJ b e = (if b then retJ () else throwJ e)"
definition withJ :: "(jit_env \<Rightarrow> 'a) \<Rightarrow> ('a \<Rightarrow> 'b jm) \<Rightarrow> 'b jm" where "withJ f k env = k (f env) env"

fun seqJ :: "unit jm list \<Rightarrow> unit jm" where
  "seqJ [] = retJ ()"
| "seqJ (m # ms) = bindJ m (\<lambda>_. seqJ ms)"

text \<open>\<open>static void unimplemented()\<close>.\<close>

definition unimplemented :: "'a jm" where
  "unimplemented = throwJ Wasm_parse_exception"

section \<open>Bytes and operands\<close>

definition mc_byte :: "u8 \<Rightarrow> unit jm" where
  "mc_byte val env s = (if jc_code s < jc_end s
     then Inr ((), s\<lparr>jc_mem := (jc_mem s)(jc_code s := val), jc_code := Suc (jc_code s)\<rparr>)
     else Inl Undefined_behaviour)"

fun mc_bytes :: "u8 list \<Rightarrow> unit jm" where
  "mc_bytes [] = retJ ()"
| "mc_bytes (val # vals) = bindJ (mc_byte val) (\<lambda>_. mc_bytes vals)"

definition mc_operand16 :: "u16 \<Rightarrow> unit jm" where "mc_operand16 val = mc_bytes (le_bytes 2 val)"
definition mc_operand32 :: "u32 \<Rightarrow> unit jm" where "mc_operand32 val = mc_bytes (le_bytes 4 val)"
definition mc_operand64 :: "u64 \<Rightarrow> unit jm" where "mc_operand64 val = mc_bytes (le_bytes 8 val)"

text \<open>The address of a C++ function or object, by its name.\<close>

definition mc_operand_ptr :: "string \<Rightarrow> unit jm" where
  "mc_operand_ptr f = withJ (\<lambda>env. jv_fn env f) mc_operand64"

text \<open>
  \<open>fixed_size_instr\<close> and \<open>variable_size_instr\<close>: a scope guard that checks the number of emitted bytes at the end
  of the scope in builds that validate sizes.
\<close>

definition variable_size_instr :: "nat \<Rightarrow> nat \<Rightarrow> 'a jm \<Rightarrow> 'a jm" where
  "variable_size_instr lo hi m env s = bindE (m env s) (\<lambda>(a, s').
     if jv_validate env \<and> \<not> (jc_code s + lo \<le> jc_code s' \<and> jc_code s' \<le> jc_code s + hi) then Inl Assertion_failure else Inr (a, s'))"

definition fixed_size_instr :: "nat \<Rightarrow> 'a jm \<Rightarrow> 'a jm" where
  "fixed_size_instr n m env s = bindE (m env s) (\<lambda>(a, s').
     if jv_validate env \<and> jc_code s' \<noteq> jc_code s + n then Inl Assertion_failure else Inr (a, s'))"

definition softfloat_instr :: "nat \<Rightarrow> nat \<Rightarrow> nat \<Rightarrow> 'a jm \<Rightarrow> 'a jm" where
  "softfloat_instr hard_expected soft_expected softbt_expected m env =
     fixed_size_instr (if jv_softfloat env then if jv_backtrace env then softbt_expected else soft_expected else hard_expected) m env"

definition simd_instr :: "'a jm \<Rightarrow> 'a jm" where
  "simd_instr = variable_size_instr 0 64"

section \<open>Instructions\<close>

text \<open>\<open>emit(opcode)\<close>, \<open>emit(opcode, r_m)\<close>, \<open>emit(opcode, r_m, reg)\<close> and the forms with an immediate.\<close>

fun mc0 :: "ia32 \<Rightarrow> unit jm" where
  "mc0 (Ia32 w opcode ext) = mc_bytes (REX_prefix (w = W1) False False False @ opcode)"

definition mc2 :: "ia32 \<Rightarrow> operand \<Rightarrow> operand \<Rightarrow> unit jm" where
  "mc2 opcode r_m reg = bindJ (checkJ (\<not> unencodable r_m) Wasm_parse_exception) (\<lambda>_. mc_bytes (ia32_bytes opcode r_m reg))"

fun mc1 :: "ia32 \<Rightarrow> operand \<Rightarrow> unit jm" where
  "mc1 (Ia32 w opcode ext) r_m = mc2 (Ia32 w opcode ext) r_m (Opext (case ext of Some e \<Rightarrow> e | None \<Rightarrow> 0))"

definition mc1_imm8 :: "ia32 \<Rightarrow> u8 \<Rightarrow> operand \<Rightarrow> unit jm" where
  "mc1_imm8 opcode imm r_m = bindJ (mc1 opcode r_m) (\<lambda>_. mc_byte imm)"

definition mc1_imm32 :: "ia32 \<Rightarrow> u32 \<Rightarrow> operand \<Rightarrow> unit jm" where
  "mc1_imm32 opcode imm r_m = bindJ (mc1 opcode r_m) (\<lambda>_. mc_operand32 imm)"

text \<open>The vector forms with two and three operands, with an immediate, and the shift by a constant.\<close>

definition mc_v2 :: "vex \<Rightarrow> operand \<Rightarrow> operand \<Rightarrow> unit jm" where
  "mc_v2 opcode src1 src2 = bindJ (checkJ (\<not> unencodable src1) Wasm_parse_exception) (\<lambda>_. mc_bytes (vex_bytes opcode src1 0 src2))"

definition mc_v2i :: "vex \<Rightarrow> u8 \<Rightarrow> operand \<Rightarrow> operand \<Rightarrow> unit jm" where
  "mc_v2i opcode imm src2 dest = bindJ (mc_v2 opcode src2 dest) (\<lambda>_. mc_byte imm)"

definition mc_v3 :: "vex \<Rightarrow> operand \<Rightarrow> operand \<Rightarrow> operand \<Rightarrow> unit jm" where
  "mc_v3 opcode src1 src2 dest = mc_bytes (vex_bytes opcode src1 (reg_num src2) dest)"

definition mc_v3i :: "vex \<Rightarrow> u8 \<Rightarrow> operand \<Rightarrow> operand \<Rightarrow> operand \<Rightarrow> unit jm" where
  "mc_v3i opcode imm src1 src2 dest = bindJ (mc_v3 opcode src1 src2 dest) (\<lambda>_. mc_byte imm)"

definition mc_vc :: "vex \<Rightarrow> u8 \<Rightarrow> operand \<Rightarrow> operand \<Rightarrow> unit jm" where
  "mc_vc opcode imm src2 dest = bindJ (mc_bytes (vex_ext_bytes opcode src2 dest)) (\<lambda>_. mc_byte imm)"

definition mc_setcc :: "u8 \<Rightarrow> operand \<Rightarrow> unit jm" where
  "mc_setcc opcode reg = mc1 (Ia32 W0 [0x0f, 0x20 + opcode] None) reg"

definition reverse_condition :: "u8 \<Rightarrow> u8 jm" where
  "reverse_condition opcode =
     (if opcode = op_JA then retJ op_JBE else if opcode = op_JBE then retJ op_JA else if opcode = op_JB then retJ op_JAE
      else if opcode = op_JAE then retJ op_JB else if opcode = op_JE then retJ op_JNE else if opcode = op_JNE then retJ op_JE
      else if opcode = op_JL then retJ op_JGE else if opcode = op_JGE then retJ op_JL else if opcode = op_JG then retJ op_JLE
      else if opcode = op_JLE then retJ op_JG else unimplemented)"

section \<open>Moves and arithmetic\<close>

definition mc_imm :: "ia32 \<Rightarrow> ia32 \<Rightarrow> u32 \<Rightarrow> operand \<Rightarrow> unit jm" where
  "mc_imm short long immediate dest =
     (if fits8 (sint immediate) then mc1_imm8 short (ucast immediate) dest else mc1_imm32 long immediate dest)"

definition mc_add_imm :: "u32 \<Rightarrow> operand \<Rightarrow> unit jm" where "mc_add_imm = mc_imm op_ADD_imm8 op_ADD_imm32"
definition mc_sub_imm :: "u32 \<Rightarrow> operand \<Rightarrow> unit jm" where "mc_sub_imm = mc_imm op_SUB_imm8 op_SUB_imm32"
definition mc_cmp_imm :: "u32 \<Rightarrow> operand \<Rightarrow> unit jm" where "mc_cmp_imm = mc_imm op_CMP_imm8 op_CMP_imm32"
definition mc_and_imm :: "u32 \<Rightarrow> operand \<Rightarrow> unit jm" where "mc_and_imm = mc_imm (Ia32 WX [0x83] (Some 4)) op_AND_imm32"
definition mc_or_imm :: "u32 \<Rightarrow> operand \<Rightarrow> unit jm" where "mc_or_imm = mc_imm op_OR_imm8 op_OR_imm32"
definition mc_xor_imm :: "u32 \<Rightarrow> operand \<Rightarrow> unit jm" where "mc_xor_imm = mc_imm op_XOR_imm8 op_XOR_imm32"

definition mc_add :: "operand \<Rightarrow> operand \<Rightarrow> unit jm" where "mc_add src dest = mc2 op_ADD_A src dest"
definition mc_sub :: "operand \<Rightarrow> operand \<Rightarrow> unit jm" where "mc_sub src dest = mc2 op_SUB_A src dest"
definition mc_cmp :: "operand \<Rightarrow> operand \<Rightarrow> unit jm" where "mc_cmp src dest = mc2 op_CMP src dest"
definition mc_xor :: "operand \<Rightarrow> operand \<Rightarrow> unit jm" where "mc_xor src dest = mc2 op_XOR_A src dest"

definition mc_call_reg :: "operand \<Rightarrow> unit jm" where "mc_call_reg reg = mc1 (Ia32 W0 [0xff] (Some 2)) reg"

definition mc_mov_imm8 :: "u8 \<Rightarrow> operand \<Rightarrow> unit jm" where
  "mc_mov_imm8 src dest = mc_bytes (REX_prefix False False False (reg_num dest mod 8 \<noteq> 0) @ [0xb0 OR of_nat (reg_num dest mod 8), src])"

definition mc_movd :: "u32 \<Rightarrow> operand \<Rightarrow> unit jm" where
  "mc_movd src dest = bindJ (mc1 (Ia32 W0 [0xc7] (Some 0)) dest) (\<lambda>_. mc_operand32 src)"

definition mc_mov_imm32 :: "u32 \<Rightarrow> operand \<Rightarrow> unit jm" where
  "mc_mov_imm32 src dest = bindJ (mc_bytes (REX_prefix False False False (bit (reg_num dest) 3) @ [0xb8 OR of_nat (reg_num dest mod 8)]))
     (\<lambda>_. mc_operand32 src)"

definition mc_mov_imm64 :: "u64 \<Rightarrow> operand \<Rightarrow> unit jm" where
  "mc_mov_imm64 src dest = bindJ (mc_bytes (REX_prefix True False False (bit (reg_num dest) 3) @ [0xb8 OR of_nat (reg_num dest mod 8)]))
     (\<lambda>_. mc_operand64 src)"

definition mc_mov_ptr :: "string \<Rightarrow> operand \<Rightarrow> unit jm" where
  "mc_mov_ptr f dest = bindJ (mc_bytes (REX_prefix True False False (bit (reg_num dest) 3) @ [0xb8 OR of_nat (reg_num dest mod 8)]))
     (\<lambda>_. mc_operand_ptr f)"

fun mc_mov :: "operand \<Rightarrow> operand \<Rightarrow> unit jm" where
  "mc_mov (R32 src) (Mem b d) = mc2 (Ia32 W0 [0x89] None) (Mem b d) (R32 src)"
| "mc_mov (R64 src) (Mem b d) = mc2 op_MOV_B (Mem b d) (R64 src)"
| "mc_mov (Sib r1 r2 d) (R8 reg) = mc2 op_MOVB_A (Sib r1 r2 d) (R8 reg)"
| "mc_mov src dest = mc2 op_MOV_A src dest"

fun mc_vmovdqu :: "operand \<Rightarrow> operand \<Rightarrow> unit jm" where
  "mc_vmovdqu (Mem b d) reg = mc_v2 op_VMOVDQU_A (Mem b d) reg"
| "mc_vmovdqu reg mem = mc_v2 op_VMOVDQU_B mem reg"

fun mc_vmovups :: "operand \<Rightarrow> operand \<Rightarrow> unit jm" where
  "mc_vmovups (Mem b d) reg = mc_v2 op_VMOVUPS_A (Mem b d) reg"
| "mc_vmovups reg mem = mc_v2 op_VMOVUPS_B mem reg"

definition mc_vmovd :: "operand \<Rightarrow> operand \<Rightarrow> unit jm" where "mc_vmovd src dest = mc_v2 op_VMOVD_A src dest"
definition mc_vmovq :: "operand \<Rightarrow> operand \<Rightarrow> unit jm" where "mc_vmovq src dest = mc_v2 op_VMOVQ_A src dest"
definition mc_vpextrb :: "u8 \<Rightarrow> operand \<Rightarrow> operand \<Rightarrow> unit jm" where "mc_vpextrb offset src dest = mc_v2i op_VPEXTRB offset dest src"
definition mc_vpextrw :: "u8 \<Rightarrow> operand \<Rightarrow> operand \<Rightarrow> unit jm" where "mc_vpextrw offset src dest = mc_v2i op_VPEXTRW offset dest src"
definition mc_vpextrq :: "u8 \<Rightarrow> operand \<Rightarrow> operand \<Rightarrow> unit jm" where "mc_vpextrq offset src dest = mc_v2i op_VPEXTRQ offset dest src"
definition mc_const_zero :: "operand \<Rightarrow> unit jm" where "mc_const_zero reg = mc_v3 op_VPXOR reg reg reg"
definition mc_const_ones :: "operand \<Rightarrow> unit jm" where "mc_const_ones reg = mc_v3 op_VPCMPEQB reg reg reg"

section \<open>Recent operations\<close>

definition push_recent_op :: "nat \<Rightarrow> recent_data \<Rightarrow> unit jm" where
  "push_recent_op start d = modJ (\<lambda>s. (if ro_end (jc_recent1 s) \<noteq> Some (jc_code s) then s\<lparr>jc_recent0 := jc_recent1 s\<rparr> else s)
     \<lparr>jc_recent1 := \<lparr>ro_start = start, ro_end = Some (jc_code s), ro_data = d\<rparr>\<rparr>)"

text \<open>\<open>try_pop_recent_op<T>\<close>, with the alternative \<open>T\<close> given by its selector.\<close>

definition try_pop_recent_op :: "(recent_data \<Rightarrow> 'a option) \<Rightarrow> 'a option jm" where
  "try_pop_recent_op sel env s = (if ro_end (jc_recent1 s) = Some (jc_code s)
     then (case sel (ro_data (jc_recent1 s)) of
         Some r \<Rightarrow> Inr (Some r, s\<lparr>jc_code := ro_start (jc_recent1 s), jc_recent1 := jc_recent0 s, jc_recent0 := no_recent\<rparr>)
       | None \<Rightarrow> Inr (None, s))
     else Inr (None, s))"

fun register_push :: "recent_data \<Rightarrow> nat option" where "register_push (Register_push r) = Some r" | "register_push _ = None"
fun get_local_op :: "recent_data \<Rightarrow> operand option" where "get_local_op (Get_local_op e) = Some e" | "get_local_op _ = None"
fun i32_const_op :: "recent_data \<Rightarrow> u32 option" where "i32_const_op (I32_const_op v) = Some v" | "i32_const_op _ = None"
fun i64_const_op :: "recent_data \<Rightarrow> u64 option" where "i64_const_op (I64_const_op v) = Some v" | "i64_const_op _ = None"
fun condition_op :: "recent_data \<Rightarrow> u8 option" where "condition_op (Condition_op j) = Some j" | "condition_op _ = None"
fun xmm_push :: "recent_data \<Rightarrow> nat option" where "xmm_push (Xmm_push r) = Some r" | "xmm_push _ = None"

text \<open>Removes the push at the end of the last operation; a constant or a local was pushed from \<open>rax\<close>.\<close>

definition try_undo_push :: "nat option jm" where
  "try_undo_push env s = (if ro_end (jc_recent1 s) = Some (jc_code s)
     then (case register_push (ro_data (jc_recent1 s)) of
         Some r \<Rightarrow> try_pop_recent_op register_push env s
       | None \<Rightarrow> (case ro_data (jc_recent1 s) of
           Get_local_op _ \<Rightarrow> Inr (Some 0, s\<lparr>jc_code := jc_code s - 1, jc_recent1 := no_recent, jc_recent0 := no_recent\<rparr>)
         | I32_const_op _ \<Rightarrow> Inr (Some 0, s\<lparr>jc_code := jc_code s - 1, jc_recent1 := no_recent, jc_recent0 := no_recent\<rparr>)
         | I64_const_op _ \<Rightarrow> Inr (Some 0, s\<lparr>jc_code := jc_code s - 1, jc_recent1 := no_recent, jc_recent0 := no_recent\<rparr>)
         | _ \<Rightarrow> Inr (None, s)))
     else Inr (None, s))"

definition set_branch_target :: "unit jm" where
  "set_branch_target = modJ (\<lambda>s. s\<lparr>jc_recent0 := no_recent, jc_recent1 := no_recent\<rparr>)"

text \<open>\<open>get_addr\<close>: the address that the next operation may still be folded back to.\<close>

definition mc_get_addr :: "jit \<Rightarrow> nat" where
  "mc_get_addr s = (if ro_end (jc_recent1 s) = Some (jc_code s)
     then if ro_end (jc_recent0 s) = Some (ro_start (jc_recent1 s)) then ro_start (jc_recent0 s) else ro_start (jc_recent1 s)
     else jc_code s)"

section \<open>Push and pop\<close>

definition mc_pop_plain :: "operand \<Rightarrow> unit jm" where
  "mc_pop_plain reg = mc_bytes (REX_prefix False False False (bit (reg_num reg) 3) @ [0x58 OR of_nat (reg_num reg mod 8)])"

definition mc_pop :: "operand \<Rightarrow> unit jm" where
  "mc_pop reg = withJ jv_validate (\<lambda>validate. if validate then mc_pop_plain reg
     else bindJ (try_pop_recent_op i32_const_op) (\<lambda>c. case c of Some v \<Rightarrow> mc_mov_imm32 v (R32 (reg_num reg))
       | None \<Rightarrow> bindJ (try_pop_recent_op i64_const_op) (\<lambda>c. case c of Some v \<Rightarrow> mc_mov_imm64 v reg
       | None \<Rightarrow> bindJ try_undo_push (\<lambda>p. case p of
           Some r \<Rightarrow> if r \<noteq> reg_num reg then mc_mov (R64 r) reg else retJ ()
         | None \<Rightarrow> mc_pop_plain reg))))"

definition mc_push :: "operand \<Rightarrow> unit jm" where
  "mc_push reg = bindJ (getJ jc_code) (\<lambda>start.
     bindJ (mc_bytes (REX_prefix False False False (bit (reg_num reg) 3) @ [0x50 OR of_nat (reg_num reg mod 8)])) (\<lambda>_.
       push_recent_op start (Register_push (reg_num reg))))"

definition mc_push_v128 :: "operand \<Rightarrow> unit jm" where
  "mc_push_v128 reg = bindJ (getJ jc_code) (\<lambda>start. seqJ [mc_sub_imm 16 rsp, mc_vmovdqu reg (deref rsp),
     push_recent_op start (Xmm_push (reg_num reg))])"

text \<open>Without a push to undo, the vector is loaded into \<open>xmm0\<close>, whatever the register asked for.\<close>

definition mc_pop_v128 :: "operand \<Rightarrow> unit jm" where
  "mc_pop_v128 reg = bindJ (try_pop_recent_op xmm_push) (\<lambda>p. case p of
       Some r \<Rightarrow> if r \<noteq> reg_num reg then mc_v2 op_VMOVDQU_A (Xmm r) reg else retJ ()
     | None \<Rightarrow> seqJ [mc_vmovdqu (deref rsp) xmm0, mc_add_imm 16 rsp])"

section \<open>Branches\<close>

text \<open>The placeholder depends on the address of the operand.\<close>

definition mc_branch_target32 :: "nat jm" where
  "mc_branch_target32 = bindJ (getJ jc_code) (\<lambda>result. bindJ (withJ (\<lambda>env. ucast (jv_base env) :: u32) (\<lambda>base.
     mc_operand32 (3735928555 - (base + of_nat result)))) (\<lambda>_. retJ result))"

definition mc_branch_target8 :: "nat jm" where
  "mc_branch_target8 = bindJ (getJ jc_code) (\<lambda>result. bindJ (mc_bytes [0xcc]) (\<lambda>_. retJ result))"

definition mc_branch8 :: "u8 \<Rightarrow> nat jm" where
  "mc_branch8 opcode = bindJ (mc_bytes [opcode]) (\<lambda>_. mc_branch_target8)"

definition mc_branch8_ia :: "ia32 \<Rightarrow> nat jm" where
  "mc_branch8_ia opcode = bindJ (mc0 opcode) (\<lambda>_. mc_branch_target8)"

definition mc_branchcc32 :: "u8 \<Rightarrow> nat jm" where
  "mc_branchcc32 opcode = bindJ (mc_bytes [0x0f, 0x10 + opcode]) (\<lambda>_. mc_branch_target32)"

text \<open>\<open>memcpy\<close> to an offset of the code segment.\<close>

definition poke_bytes :: "nat \<Rightarrow> u8 list \<Rightarrow> (nat \<Rightarrow> u8) \<Rightarrow> nat \<Rightarrow> u8" where
  "poke_bytes p bs mem = (\<lambda>a. if p \<le> a \<and> a < p + length bs then bs ! (a - p) else mem a)"

definition write_code :: "nat \<Rightarrow> u8 list \<Rightarrow> unit jm" where
  "write_code p bs env s = (if p + length bs \<le> jc_end s then Inr ((), s\<lparr>jc_mem := poke_bytes p bs (jc_mem s)\<rparr>) else Inl Undefined_behaviour)"

definition mc_fix_branch :: "nat \<Rightarrow> nat \<Rightarrow> unit jm" where
  "mc_fix_branch branch target = (let relative = int target - int (branch + 4) in
     if relative > 0x7FFFFFFF \<or> relative < - 0x80000000 then unimplemented
     else write_code branch (le_bytes 4 (word_of_int relative :: u32)))"

definition mc_fix_branch8 :: "nat \<Rightarrow> nat \<Rightarrow> unit jm" where
  "mc_fix_branch8 branch target = (let relative = int target - int (branch + 1) in
     if relative > 0x7F \<or> relative < - 0x80 then unimplemented
     else write_code branch [word_of_int relative])"

text \<open>\<open>fix_branch(branch, code)\<close> and \<open>fix_branch8(branch, code)\<close>.\<close>

definition mc_fix_here :: "nat \<Rightarrow> unit jm" where
  "mc_fix_here branch = bindJ (getJ jc_code) (mc_fix_branch branch)"

definition mc_fix_here8 :: "nat \<Rightarrow> unit jm" where
  "mc_fix_here8 branch = bindJ (getJ jc_code) (mc_fix_branch8 branch)"

definition mc_fix_to :: "nat jm \<Rightarrow> (jit \<Rightarrow> nat) \<Rightarrow> unit jm" where
  "mc_fix_to m handler = bindJ m (\<lambda>branch. bindJ (getJ handler) (mc_fix_branch branch))"

end
