(* ===== verification/Vm_Jit_Shapes.thy ===== *)
theory Vm_Jit_Shapes
  imports Vm_Jit_Code
begin

text \<open>
  The parts that emitters of \<open>machine_code_writer\<close> share: the frame of a function (\<open>function_parameters\<close>,
  \<open>function_locals\<close>), checks of the call depth and of the stack, dropping operands at a branch or after a
  call, addresses of linear memory, comparisons, the shapes of vector instructions, calls into the
  softfloat library, and relocations of calls.
\<close>

section \<open>Frames\<close>

text \<open>
  \<open>function_parameters\<close>: the offsets of the parameters from the frame pointer; the loop runs from the last
  parameter to the first.
\<close>

fun param_offsets :: "u32 \<Rightarrow> value_type list \<Rightarrow> u32 list res" where
  "param_offsets current_offset [] = Inr []"
| "param_offsets current_offset (t # ts) = assertE (\<not> current_offset > 0x7fffffff) Wasm_parse_exception
     (bindE (param_offsets (current_offset + (if t = t_v128 then 16 else 8)) ts) (\<lambda>os. Inr (current_offset # os)))"

definition function_parameters :: "func_type \<Rightarrow> u32 list res" where
  "function_parameters ft = bindE (param_offsets 16 (rev (param_types ft))) (\<lambda>os. Inr (rev os))"

text \<open>\<open>function_locals\<close>: one entry per group of locals of one type; \<open>frame_offset\<close> is an \<open>int32_t\<close>, \<open>offset\<close> an \<open>uint32_t\<close>.\<close>

fun local_groups :: "u32 \<Rightarrow> int \<Rightarrow> local_entry list \<Rightarrow> local_group list res" where
  "local_groups offset frame_offset [] = Inr []"
| "local_groups offset frame_offset (p # ps) =
     (let size = (if le_type p = t_v128 then 16 else 8); offset' = offset + le_count p;
          bytes = int size * int (unat (le_count p)) in
      assertE (\<not> - 0x80000000 + bytes > frame_offset) Wasm_parse_exception
        (bindE (local_groups offset' (frame_offset - bytes) ps) (\<lambda>gs.
           Inr (\<lparr>lg_end = offset', lg_end_offset = frame_offset - bytes, lg_elem_size = size\<rparr> # gs))))"

definition function_locals :: "local_entry list \<Rightarrow> local_group list res" where
  "function_locals params = local_groups 0 0 params"

text \<open>\<open>std::partition_point\<close> for the first group whose end is above the index, then the place in the group.\<close>

definition local_frame_offset :: "local_group list \<Rightarrow> u32 \<Rightarrow> int res" where
  "local_frame_offset groups paramidx = (case dropWhile (\<lambda>e. paramidx \<ge> lg_end e) groups of
       [] \<Rightarrow> Inl Assertion_failure
     | pos # _ \<Rightarrow> Inr (lg_end_offset pos + int (unat (lg_end pos - paramidx - 1)) * int (lg_elem_size pos)))"

definition get_frame_offset :: "u32 \<Rightarrow> int jm" where
  "get_frame_offset local_idx = bindJ (getJ (\<lambda>s. s)) (\<lambda>s.
     if unat local_idx < length (param_types (jc_ft s))
     then liftJ (bindE (at_unchecked (jc_params s) (unat local_idx)) (\<lambda>w. Inr (sint w)))
     else liftJ (local_frame_offset (jc_locals s) (local_idx - of_nat (length (param_types (jc_ft s))))))"

section \<open>Checks\<close>

definition mc_check_call_depth :: "unit jm" where
  "mc_check_call_depth = withJ jv_stack_bytes (\<lambda>stack_bytes. if stack_bytes then retJ ()
     else fixed_size_instr 8 (seqJ [mc1 op_DECD ebx, mc_fix_to (mc_branchcc32 op_JZ) jc_stack_overflow_handler]))"

definition mc_check_call_depth_end :: "unit jm" where
  "mc_check_call_depth_end = withJ jv_stack_bytes (\<lambda>stack_bytes. if stack_bytes then retJ ()
     else fixed_size_instr 2 (mc1 op_INCD ebx))"

definition mc_check_stack_limit :: "unit jm" where
  "mc_check_stack_limit = withJ jv_stack_bytes (\<lambda>stack_bytes. if stack_bytes
     then seqJ [mc1 (Ia32 W0 [0x81] (Some 5)) ebx, modJ (\<lambda>s. s\<lparr>jc_stack_limit_entry := jc_code s\<rparr>), mc_bytes [0, 0, 0, 0],
       mc_fix_to (mc_branchcc32 op_JB) jc_stack_overflow_handler]
     else retJ ())"

definition mc_check_stack_limit_end :: "unit jm" where
  "mc_check_stack_limit_end = withJ jv_stack_bytes (\<lambda>stack_bytes. if stack_bytes
     then bindJ (getJ jc_stack_usage) (\<lambda>usage. mc_add_imm usage ebx) else retJ ())"

text \<open>\<open>set_stack_usage\<close> writes the usage into the comparison of the prologue.\<close>

definition mc_set_stack_usage :: "u64 \<Rightarrow> unit jm" where
  "mc_set_stack_usage usage = withJ jv_stack_bytes (\<lambda>stack_bytes. if stack_bytes
     then (let usage = usage + 16 in if usage \<ge> 0x7fffffff then unimplemented
       else bindJ (modJ (\<lambda>s. s\<lparr>jc_stack_usage := ucast usage\<rparr>)) (\<lambda>_. bindJ (getJ jc_stack_limit_entry) (\<lambda>p.
         write_code p (le_bytes 4 (ucast usage :: u32)))))
     else retJ ())"

section \<open>Dropping operands\<close>

definition is_simple_multipop :: "u32 \<Rightarrow> value_type \<Rightarrow> bool" where
  "is_simple_multipop count rt \<longleftrightarrow> (if rt = t_pseudo then count = 0
     else if rt = t_i32 \<or> rt = t_i64 \<or> rt = t_f32 \<or> rt = t_f64 then count = 1
     else if rt = t_v128 then count = 2 else False)"

definition mc_multipop :: "u32 \<Rightarrow> value_type \<Rightarrow> unit jm" where
  "mc_multipop count rt = variable_size_instr 0 17 (if is_simple_multipop count rt then retJ ()
     else bindJ (if rt = t_v128 then mc_vmovups (deref rsp) xmm0 else if rt \<noteq> t_pseudo then mc_mov (deref rsp) rax else retJ ()) (\<lambda>_.
       let count = (if rt = t_v128 then count - 2 else count) in
       if count AND 0x70000000 \<noteq> 0 then mc_bytes [0xCC]
       else seqJ [mc_add_imm (count * 8) rsp,
         if rt = t_v128 then mc_vmovups xmm0 (deref rsp) else if rt \<noteq> t_pseudo then mc_push rax else retJ ()]))"

fun params_size :: "u32 \<Rightarrow> value_type list \<Rightarrow> u32 res" where
  "params_size acc [] = Inr acc"
| "params_size acc (t # ts) = (let acc = acc + (if t = t_v128 then 16 else 8) in
     assertE (\<not> acc > 0x7fffffff) Wasm_parse_exception (params_size acc ts))"

definition mc_multipop_call :: "func_type \<Rightarrow> unit jm" where
  "mc_multipop_call ft = variable_size_instr 0 12 (bindJ (liftJ (params_size 0 (param_types ft))) (\<lambda>total_size.
     if return_count ft \<noteq> 0 \<and> return_type ft = t_v128
     then seqJ [if total_size \<noteq> 16 then mc_add_imm (total_size - 16) rsp else retJ (), mc_vmovups xmm0 (deref rsp)]
     else seqJ [if total_size \<noteq> 0 then mc_add_imm total_size rsp else retJ (),
       if return_count ft \<noteq> 0 then mc_push rax else retJ ()]))"

section \<open>Linear memory\<close>

definition mc_pop_address :: "u32 \<Rightarrow> operand \<Rightarrow> operand \<Rightarrow> operand jm" where
  "mc_pop_address offset out tmpreg = bindJ (mc_pop out) (\<lambda>_.
     if offset AND 0x80000000 \<noteq> 0
     then bindJ (mc_mov_imm32 offset tmpreg) (\<lambda>_. bindJ (mc_add (R64 (reg_num tmpreg)) out) (\<lambda>_. retJ (at_sib out rsi 0)))
     else retJ (at_sib out rsi (sint offset)))"

definition mc_load_impl2 :: "u32 \<Rightarrow> ia32 \<Rightarrow> operand \<Rightarrow> unit jm" where
  "mc_load_impl2 offset instr reg = bindJ (mc_pop_address offset rax ecx) (\<lambda>addr. seqJ [mc2 instr addr reg, mc_push rax])"

definition mc_store_impl2 :: "u32 \<Rightarrow> ia32 \<Rightarrow> operand \<Rightarrow> unit jm" where
  "mc_store_impl2 offset instr reg = bindJ (mc_pop rax) (\<lambda>_. bindJ (mc_pop_address offset rcx edx) (\<lambda>addr. mc2 instr addr reg))"

text \<open>The overload that leaves the native address in \<open>rax\<close>.\<close>

definition mc_pop_address_rax :: "u32 \<Rightarrow> unit jm" where
  "mc_pop_address_rax offset = seqJ [mc_bytes [0x58],
     if offset AND 0x80000000 \<noteq> 0 then seqJ [mc_bytes [0xb9], mc_operand32 offset, mc_bytes [0x48, 0x01, 0xc8]]
     else if offset \<noteq> 0 then seqJ [mc_bytes [0x48, 0x05], mc_operand32 offset] else retJ (),
     mc_bytes [0x48, 0x01, 0xf0]]"

section \<open>Comparisons\<close>

definition mc_i32_relop :: "u8 \<Rightarrow> unit jm" where
  "mc_i32_relop opcode = bindJ (seqJ [mc_pop rax, mc_pop rcx, mc2 op_XOR_A edx edx, mc2 op_CMP eax ecx]) (\<lambda>_.
     bindJ (getJ jc_code) (\<lambda>start. seqJ [mc_setcc opcode dl, mc_push rdx, push_recent_op start (Condition_op opcode)]))"

definition mc_i64_relop :: "u8 \<Rightarrow> unit jm" where
  "mc_i64_relop opcode = seqJ [mc_bytes [0x58], mc_bytes [0x59], mc_bytes [0x48, 0x31, 0xd2], mc_bytes [0x48, 0x39, 0xc1],
     mc_bytes [0x0f, opcode, 0xc2], mc_bytes [0x52]]"

definition mc_i32_binop :: "u8 list \<Rightarrow> unit jm" where
  "mc_i32_binop op = seqJ [mc_bytes [0x59], mc_bytes [0x58], mc_bytes op]"

definition mc_i64_binop :: "u8 list \<Rightarrow> unit jm" where
  "mc_i64_binop op = seqJ [mc_bytes [0x59], mc_bytes [0x58], mc_bytes op]"

section \<open>Vector shapes\<close>

definition mc_v128_loadop :: "vex \<Rightarrow> u32 \<Rightarrow> unit jm" where
  "mc_v128_loadop op offset = simd_instr (bindJ (mc_pop_address offset rax ecx) (\<lambda>expr. seqJ [mc_v2 op expr xmm0, mc_push_v128 xmm0]))"

definition mc_v128_load_laneop :: "vex \<Rightarrow> u32 \<Rightarrow> u8 \<Rightarrow> unit jm" where
  "mc_v128_load_laneop op offset lane = simd_instr (seqJ [mc_pop_v128 xmm0, mc_pop_address_rax offset, mc_v3i op lane (deref rax) xmm0 xmm0,
     mc_sub_imm 16 rsp, mc_vmovdqu xmm0 (deref rsp)])"

definition mc_v128_store_laneop :: "vex \<Rightarrow> u32 \<Rightarrow> u8 \<Rightarrow> unit jm" where
  "mc_v128_store_laneop op offset lane = simd_instr (seqJ [mc_vmovdqu (deref rsp) xmm0, mc_add_imm 16 rsp, mc_pop_address_rax offset,
     mc_v2i op lane (deref rax) xmm0])"

definition mc_v128_extract_laneop :: "vex \<Rightarrow> u8 \<Rightarrow> unit jm" where
  "mc_v128_extract_laneop op l = simd_instr (seqJ [mc_vmovdqu (deref rsp) xmm0, mc_add_imm 16 rsp, mc_v2i op l rax xmm0, mc_push rax])"

definition mc_v128_replace_laneop :: "vex \<Rightarrow> u8 \<Rightarrow> unit jm" where
  "mc_v128_replace_laneop op l = simd_instr (seqJ [mc_pop rax, mc_vmovdqu (deref rsp) xmm0, mc_v3i op l rax xmm0 xmm0, mc_vmovdqu xmm0 (deref rsp)])"

definition mc_v128_splatop :: "vex \<Rightarrow> unit jm" where
  "mc_v128_splatop op = seqJ [mc_v2 op (deref rsp) xmm0, mc_sub_imm 8 rsp, mc_vmovdqu xmm0 (deref rsp)]"

definition mc_v128_irelop_minmax :: "vex \<Rightarrow> vex \<Rightarrow> bool \<Rightarrow> unit jm" where
  "mc_v128_irelop_minmax opcode eq flip_result = simd_instr (seqJ [mc_vmovdqu (deref rsp) xmm0, mc_add_imm 16 rsp,
     mc_v3 opcode (deref rsp) xmm0 xmm1, mc_v3 eq xmm0 xmm1 xmm0,
     if \<not> flip_result then seqJ [mc_const_zero xmm1, mc_v3 op_VPCMPEQB xmm1 xmm0 xmm0] else retJ (), mc_vmovdqu xmm0 (deref rsp)])"

definition mc_v128_irelop_cmp :: "vex \<Rightarrow> bool \<Rightarrow> bool \<Rightarrow> unit jm" where
  "mc_v128_irelop_cmp opcode switch_params flip_result = simd_instr (seqJ [mc_vmovdqu (deref rsp) xmm0, mc_add_imm 16 rsp,
     if \<not> switch_params then seqJ [mc_vmovdqu (deref rsp) xmm1, mc_v3 opcode xmm0 xmm1 xmm0] else mc_v3 opcode (deref rsp) xmm0 xmm0,
     if flip_result then seqJ [mc_const_ones xmm1, mc_v3 op_VPXOR xmm1 xmm0 xmm0] else retJ (), mc_vmovdqu xmm0 (deref rsp)])"

definition mc_v128_shiftop :: "vex \<Rightarrow> u8 \<Rightarrow> unit jm" where
  "mc_v128_shiftop opcode msk = simd_instr (seqJ [mc_pop rax, mc_bytes [0x83, 0xe0, msk], mc_vmovdqu (deref rsp) xmm0, mc_vmovd eax xmm1,
     mc_v3 opcode xmm1 xmm0 xmm0, mc_vmovdqu xmm0 (deref rsp)])"

definition mc_v128_unop :: "vex \<Rightarrow> unit jm" where
  "mc_v128_unop opcode = simd_instr (seqJ [mc_v2 opcode (deref rsp) xmm0, mc_vmovdqu xmm0 (deref rsp)])"

definition mc_v128_binop :: "vex \<Rightarrow> unit jm" where
  "mc_v128_binop opcode = simd_instr (seqJ [mc_vmovdqu (deref rsp) xmm0, mc_add_imm 16 rsp, mc_vmovdqu (deref rsp) xmm1,
     mc_v3 opcode xmm0 xmm1 xmm0, mc_vmovdqu xmm0 (deref rsp)])"

definition mc_v128_binop_r :: "vex \<Rightarrow> unit jm" where
  "mc_v128_binop_r opcode = simd_instr (seqJ [mc_vmovdqu (deref rsp) xmm0, mc_add_imm 16 rsp, mc_v3 opcode (deref rsp) xmm0 xmm0,
     mc_vmovdqu xmm0 (deref rsp)])"

definition mc_v128_binop_commutative :: "vex \<Rightarrow> unit jm" where
  "mc_v128_binop_commutative opcode = mc_v128_binop_r opcode"

section \<open>Calls of C++ functions\<close>

definition mc_setup_backtrace :: "u32 jm" where
  "mc_setup_backtrace = withJ jv_backtrace (\<lambda>bt. if bt
     then bindJ (seqJ [mc_bytes [0xe8], mc_operand32 0, mc_bytes [0x55], mc_bytes [0x48, 0x89, 0x27]]) (\<lambda>_. retJ 16) else retJ 0)"

definition mc_restore_backtrace_basic :: "unit jm" where
  "mc_restore_backtrace_basic = withJ jv_backtrace (\<lambda>bt. if bt then seqJ [mc_bytes [0x31, 0xd2], mc_bytes [0x48, 0x89, 0x17]] else retJ ())"

definition mc_restore_backtrace :: "unit jm" where
  "mc_restore_backtrace = withJ jv_backtrace (\<lambda>bt. if bt then seqJ [mc_restore_backtrace_basic, mc_bytes [0x48, 0x83, 0xc4, 0x10]] else retJ ())"

definition mc_align_stack :: "unit jm" where
  "mc_align_stack = seqJ [mc_bytes [0x48, 0x89, 0xe1], mc_bytes [0x48, 0x83, 0xe4, 0xf0], mc_bytes [0x51], mc_bytes [0x51]]"

definition mc_align_stack_reg :: "operand \<Rightarrow> unit jm" where
  "mc_align_stack_reg temp = (if bit (reg_num temp) 3 then unimplemented
     else seqJ [mc_bytes [0x48, 0x89, 0xe0 OR of_nat (reg_num temp)], mc_bytes [0x48, 0x83, 0xe4, 0xf0],
       mc_bytes [0x50 OR of_nat (reg_num temp)], mc_bytes [0x50 OR of_nat (reg_num temp)]])"

definition mc_restore_stack :: "unit jm" where
  "mc_restore_stack = mc_bytes [0x48, 0x8b, 0x24, 0x24]"

text \<open>\<open>emit_softfloat_unop\<close>: the sizes of the result and of the argument are those of the function's C++ type.\<close>

definition mc_softfloat_unop :: "nat \<Rightarrow> nat \<Rightarrow> string \<Rightarrow> unit jm" where
  "mc_softfloat_unop result_size arg_size softfloatfun = bindJ mc_setup_backtrace (\<lambda>extra. seqJ [mc_bytes [0x57], mc_bytes [0x56],
     if arg_size = 4 then mc_bytes [0x8b, 0x7c, 0x24, 0x10 + ucast extra] else mc_bytes [0x48, 0x8b, 0x7c, 0x24, 0x10 + ucast extra],
     mc_align_stack, mc_bytes [0x48, 0xb8], mc_operand_ptr softfloatfun, mc_bytes [0xff, 0xd0], mc_restore_stack,
     mc_bytes [0x5e], mc_bytes [0x5f], mc_restore_backtrace,
     if result_size = 4 then mc_bytes [0x89, 0x04, 0x24] else mc_bytes [0x48, 0x89, 0x04, 0x24]])"

definition mc_f32_binop_softfloat :: "string \<Rightarrow> unit jm" where
  "mc_f32_binop_softfloat softfloatfun = bindJ mc_setup_backtrace (\<lambda>extra. seqJ [mc_bytes [0x57], mc_bytes [0x56],
     mc_bytes [0x8b, 0x74, 0x24, 0x10 + ucast extra], mc_bytes [0x8b, 0x7c, 0x24, 0x18 + ucast extra],
     mc_align_stack, mc_bytes [0x48, 0xb8], mc_operand_ptr softfloatfun, mc_bytes [0xff, 0xd0], mc_restore_stack,
     mc_bytes [0x5e], mc_bytes [0x5f], mc_restore_backtrace_basic, mc_bytes [0x48, 0x83, 0xc4, 0x08 + ucast extra], mc_bytes [0x89, 0x04, 0x24]])"

definition mc_f64_binop_softfloat :: "string \<Rightarrow> unit jm" where
  "mc_f64_binop_softfloat softfloatfun = bindJ mc_setup_backtrace (\<lambda>extra. seqJ [mc_bytes [0x57], mc_bytes [0x56],
     mc_bytes [0x48, 0x8b, 0x74, 0x24, 0x10 + ucast extra], mc_bytes [0x48, 0x8b, 0x7c, 0x24, 0x18 + ucast extra],
     mc_align_stack, mc_bytes [0x48, 0xb8], mc_operand_ptr softfloatfun, mc_bytes [0xff, 0xd0], mc_restore_stack,
     mc_bytes [0x5e], mc_bytes [0x5f], mc_restore_backtrace_basic, mc_bytes [0x48, 0x83, 0xc4, 0x08 + ucast extra], mc_bytes [0x48, 0x89, 0x04, 0x24]])"

definition mc_f32_relop :: "u8 \<Rightarrow> string \<Rightarrow> bool \<Rightarrow> bool \<Rightarrow> unit jm" where
  "mc_f32_relop opcode softfloatfun switch_params flip_result = withJ jv_softfloat (\<lambda>soft. if soft
     then bindJ mc_setup_backtrace (\<lambda>extra. seqJ [mc_bytes [0x57], mc_bytes [0x56],
       if switch_params then seqJ [mc_bytes [0x8b, 0x74, 0x24, 0x18 + ucast extra], mc_bytes [0x8b, 0x7c, 0x24, 0x10 + ucast extra]]
       else seqJ [mc_bytes [0x8b, 0x74, 0x24, 0x10 + ucast extra], mc_bytes [0x8b, 0x7c, 0x24, 0x18 + ucast extra]],
       mc_align_stack, mc_bytes [0x48, 0xb8], mc_operand_ptr softfloatfun, mc_bytes [0xff, 0xd0], mc_restore_stack,
       mc_bytes [0x5e], mc_bytes [0x5f], mc_restore_backtrace_basic, if flip_result then mc_bytes [0x34, 0x01] else retJ (),
       mc_bytes [0x48, 0x83, 0xc4, 0x08 + ucast extra], mc_bytes [0x48, 0x89, 0x04, 0x24]])
     else seqJ [if switch_params then seqJ [mc_bytes [0xf3, 0x0f, 0x10, 0x04, 0x24], mc_bytes [0xf3, 0x0f, 0xc2, 0x44, 0x24, 0x08, opcode]]
       else seqJ [mc_bytes [0xf3, 0x0f, 0x10, 0x44, 0x24, 0x08], mc_bytes [0xf3, 0x0f, 0xc2, 0x04, 0x24, opcode]],
       mc_bytes [0x66, 0x0f, 0x7e, 0xc0], if \<not> flip_result then mc_bytes [0x83, 0xe0, 0x01] else mc_bytes [0xff, 0xc0],
       mc_bytes [0x48, 0x8d, 0x64, 0x24, 0x10], mc_bytes [0x50]])"

definition mc_f64_relop :: "u8 \<Rightarrow> string \<Rightarrow> bool \<Rightarrow> bool \<Rightarrow> unit jm" where
  "mc_f64_relop opcode softfloatfun switch_params flip_result = withJ jv_softfloat (\<lambda>soft. if soft
     then bindJ mc_setup_backtrace (\<lambda>extra. seqJ [mc_bytes [0x57], mc_bytes [0x56],
       if switch_params then seqJ [mc_bytes [0x48, 0x8b, 0x74, 0x24, 0x18 + ucast extra], mc_bytes [0x48, 0x8b, 0x7c, 0x24, 0x10 + ucast extra]]
       else seqJ [mc_bytes [0x48, 0x8b, 0x74, 0x24, 0x10 + ucast extra], mc_bytes [0x48, 0x8b, 0x7c, 0x24, 0x18 + ucast extra]],
       mc_align_stack, mc_bytes [0x48, 0xb8], mc_operand_ptr softfloatfun, mc_bytes [0xff, 0xd0], mc_restore_stack,
       mc_bytes [0x5e], mc_bytes [0x5f], mc_restore_backtrace_basic, if flip_result then mc_bytes [0x34, 0x01] else retJ (),
       mc_bytes [0x48, 0x83, 0xc4, 0x08 + ucast extra], mc_bytes [0x48, 0x89, 0x04, 0x24]])
     else seqJ [if switch_params then seqJ [mc_bytes [0xf2, 0x0f, 0x10, 0x04, 0x24], mc_bytes [0xf2, 0x0f, 0xc2, 0x44, 0x24, 0x08, opcode]]
       else seqJ [mc_bytes [0xf2, 0x0f, 0x10, 0x44, 0x24, 0x08], mc_bytes [0xf2, 0x0f, 0xc2, 0x04, 0x24, opcode]],
       mc_bytes [0x66, 0x0f, 0x7e, 0xc0], if \<not> flip_result then mc_bytes [0x83, 0xe0, 0x01] else mc_bytes [0xff, 0xc0],
       mc_bytes [0x48, 0x8d, 0x64, 0x24, 0x10], mc_bytes [0x50]])"

definition mc_f32_binop :: "u8 \<Rightarrow> string \<Rightarrow> unit jm" where
  "mc_f32_binop op softfloatfun = withJ jv_softfloat (\<lambda>soft. if soft then mc_f32_binop_softfloat softfloatfun
     else seqJ [mc_bytes [0xf3, 0x0f, 0x10, 0x44, 0x24, 0x08], mc_bytes [0xf3, 0x0f, op, 0x04, 0x24],
       mc_bytes [0x48, 0x8d, 0x64, 0x24, 0x08], mc_bytes [0xf3, 0x0f, 0x11, 0x04, 0x24]])"

definition mc_f64_binop :: "u8 \<Rightarrow> string \<Rightarrow> unit jm" where
  "mc_f64_binop op softfloatfun = withJ jv_softfloat (\<lambda>soft. if soft then mc_f64_binop_softfloat softfloatfun
     else seqJ [mc_bytes [0xf2, 0x0f, 0x10, 0x44, 0x24, 0x08], mc_bytes [0xf2, 0x0f, op, 0x04, 0x24],
       mc_bytes [0x48, 0x8d, 0x64, 0x24, 0x08], mc_bytes [0xf2, 0x0f, 0x11, 0x04, 0x24]])"

definition mc_f2i :: "u8 list \<Rightarrow> unit jm" where
  "mc_f2i op = seqJ [mc_bytes [0xb8, 0x80, 0x1f, 0x00, 0x00], mc_bytes [0x50], mc_bytes [0x0f, 0xae, 0x14, 0x24], mc_bytes op,
     mc_bytes [0x0f, 0xae, 0x1c, 0x24], mc_bytes [0x59], mc_bytes [0xf6, 0xc1, 0x01], mc_bytes [0x0f, 0x85],
     mc_fix_to mc_branch_target32 jc_fpe_handler]"

definition mc_v128_unop_softfloat :: "string \<Rightarrow> unit jm" where
  "mc_v128_unop_softfloat softfloatfun = bindJ mc_setup_backtrace (\<lambda>extra. seqJ [mc_push rdi, mc_push rsi,
     mc_mov (at_disp rsp (16 + sint extra)) rdi, mc_mov (at_disp rsp (24 + sint extra)) rsi, mc_align_stack_reg rax,
     mc_bytes [0x48, 0xb8], mc_operand_ptr softfloatfun, mc_bytes [0xff, 0xd0], mc_restore_stack, mc_pop rsi, mc_pop rdi,
     mc_restore_backtrace, mc_mov rax (deref rsp), mc_mov rdx (at_disp rsp 8)])"

definition mc_v128_binop_softfloat :: "string \<Rightarrow> unit jm" where
  "mc_v128_binop_softfloat softfloatfun = bindJ mc_setup_backtrace (\<lambda>extra. seqJ [mc_push rdi, mc_push rsi,
     mc_mov (at_disp rsp (16 + sint extra)) rdx, mc_mov (at_disp rsp (24 + sint extra)) rcx,
     mc_mov (at_disp rsp (32 + sint extra)) rdi, mc_mov (at_disp rsp (40 + sint extra)) rsi, mc_align_stack_reg rax,
     mc_bytes [0x48, 0xb8], mc_operand_ptr softfloatfun, mc_bytes [0xff, 0xd0], mc_restore_stack, mc_pop rsi, mc_pop rdi,
     mc_restore_backtrace_basic, mc_add_imm (16 + extra) rsp, mc_mov rax (deref rsp), mc_mov rdx (at_disp rsp 8)])"

definition mc_error_handler :: "string \<Rightarrow> nat jm" where
  "mc_error_handler handler = bindJ (getJ jc_code) (\<lambda>result. bindJ (seqJ [mc_bytes [0x48, 0x83, 0xe4, 0xf0], mc_bytes [0x48, 0xb8],
     mc_operand_ptr handler, mc_bytes [0xff, 0xd0]]) (\<lambda>_. retJ result))"

section \<open>Relocations of calls\<close>

definition grow_relocs :: "nat \<Rightarrow> relocation list \<Rightarrow> relocation list" where
  "grow_relocs funcnum vec = (if funcnum \<ge> length vec then vec @ replicate (funcnum + 1 - length vec) (Pending []) else vec)"

definition mc_register_call :: "nat \<Rightarrow> nat \<Rightarrow> unit jm" where
  "mc_register_call ptr funcnum = bindJ (modJ (jc_relocs_update (grow_relocs funcnum))) (\<lambda>_. bindJ (getJ jc_relocs) (\<lambda>vec.
     case vec ! funcnum of Resolved addr \<Rightarrow> mc_fix_branch ptr addr
     | Pending ps \<Rightarrow> modJ (jc_relocs_update (\<lambda>v. v[funcnum := Pending (ps @ [ptr])]))))"

definition mc_start_function :: "nat \<Rightarrow> nat \<Rightarrow> unit jm" where
  "mc_start_function func_start funcnum = bindJ (modJ (jc_relocs_update (grow_relocs funcnum))) (\<lambda>_. bindJ (getJ jc_relocs) (\<lambda>vec.
     case vec ! funcnum of Resolved addr \<Rightarrow> throwJ Std_bad_variant_access
     | Pending ps \<Rightarrow> seqJ (map (\<lambda>branch. mc_fix_branch branch func_start) ps @
         [modJ (jc_relocs_update (\<lambda>v. v[funcnum := Resolved func_start]))])))"

end
