(* ===== verification/Vm_Jit_Emit.thy ===== *)
theory Vm_Jit_Emit
  imports Vm_Jit_Shapes
begin

text \<open>
  The compiler's functions with control flow of their own: the constructor of \<open>machine_code_writer\<close> with the
  entry sequence, the error handlers and the calls of host functions; prologue and epilogue; branches with
  the binary search of \<open>br_table\<close>; calls; locals, globals and constants.  The assertions of the source are
  checked, as in a build without \<open>NDEBUG\<close>.
\<close>

section \<open>The module as the generated code sees it\<close>

text \<open>\<open>wasm_allocator::table_offset\<close> and \<open>globals_end\<close>: displacements from the base of linear memory.\<close>

definition table_offset :: "nat \<Rightarrow> int" where
  "table_offset page = - (2 * int page)"

definition globals_end :: "nat \<Rightarrow> int" where
  "globals_end page = - int page"

definition get_global_offset :: "u32 \<Rightarrow> u64" where
  "get_global_offset i = ucast i * 24 + 8"

text \<open>\<open>indirect_table(0)\<close>: the table does not fit into its page, which then holds a pointer to it.\<close>

definition jit_indirect_table :: "jit_env \<Rightarrow> bool" where
  "jit_indirect_table env \<longleftrightarrow> (case m_tables (jv_mod env) of [] \<Rightarrow> False
     | t # _ \<Rightarrow> unat (lim_initial (tt_limits t)) * 16 > jv_page env - 8)"

definition jit_table_size :: "u32 jm" where
  "jit_table_size = withJ jv_mod (\<lambda>m. liftJ (bindE (at_unchecked (m_tables m) 0) (\<lambda>t. Inr (lim_initial (tt_limits t)))))"

section \<open>Entry, host calls and construction\<close>

definition mc_alloc_code :: "u64 \<Rightarrow> unit jm" where
  "mc_alloc_code n = bindJ (getJ jc_alloc) (\<lambda>g. bindJ (liftJ (ga_alloc 1 1 n g)) (\<lambda>(p, g').
     modJ (\<lambda>s. s\<lparr>jc_alloc := g', jc_start := unat p, jc_end := unat p + unat n\<rparr>)))"

definition mc_at_start :: "unit jm" where
  "mc_at_start = modJ (\<lambda>s. s\<lparr>jc_code := jc_start s\<rparr>)"

text \<open>\<open>_allocator.reclaim(code, _code_end - code)\<close>.\<close>

definition mc_reclaim :: "unit jm" where
  "mc_reclaim = bindJ (getJ (\<lambda>s. ga_reclaim 1 (of_nat (jc_code s)) (of_nat (jc_end s - jc_code s)) (jc_alloc s))) (\<lambda>r.
     bindJ (liftJ r) (\<lambda>g. modJ (\<lambda>s. s\<lparr>jc_alloc := g\<rparr>)))"

definition mc_sysv_abi_interface :: "unit jm" where
  "mc_sysv_abi_interface = seqJ [mc_push rbp, mc_mov rsp rbp, mc_sub_imm 16 rsp,
     mc2 op_TEST r8 r8, mc2 (Ia32 W1 [0x0f, 0x45] None) r8 rsp,
     mc1 op_STMXCSR (at_disp rbp (- 4)), mc_movd 0x1f80 (at_disp rbp (- 8)), mc1 op_LDMXCSR (at_disp rbp (- 8)),
     mc2 op_TEST r9 r9,
     bindJ (mc_branch8 op_JZ) (\<lambda>loop_end. bindJ (getJ jc_code) (\<lambda>loop.
       seqJ [mc_mov (deref rdx) rax, mc_add_imm 8 rdx, mc_push rax, mc1 op_DEC r9,
         bindJ (mc_branch8 op_JNZ) (\<lambda>branch. mc_fix_branch8 branch loop), mc_fix_here8 loop_end])),
     mc_mov rbx (at_disp rbp (- 16)),
     withJ jv_backtrace (\<lambda>bt. if bt then mc_mov (at_disp rdi 16) ebx else mc_mov (deref rdi) ebx),
     withJ jv_backtrace (\<lambda>bt. if bt then mc_mov rbp (at_disp rdi 8) else retJ ()),
     mc_call_reg rcx,
     withJ jv_backtrace (\<lambda>bt. if bt then seqJ [mc_xor edx edx, mc_mov rdx (at_disp rdi 8)] else retJ ()),
     mc_mov (at_disp rbp (- 16)) rbx, mc1 op_LDMXCSR (at_disp rbp (- 4)),
     mc_mov (at_disp rbp 16) edx, mc2 op_TEST edx edx,
     bindJ (mc_branch8 op_JZ) (\<lambda>is_vector. seqJ [mc_vpextrq 0 xmm0 rax, mc_vpextrq 1 xmm0 rdx, mc_fix_here8 is_vector]),
     mc_mov rbp rsp, mc_pop rbp, mc0 op_RET]"

definition mc_host_call :: "u32 \<Rightarrow> unit jm" where
  "mc_host_call funcnum = withJ jv_backtrace (\<lambda>bt. let extra = (if bt then 8 else 0) in seqJ [
     if bt then seqJ [mc_bytes [0x55], mc_bytes [0x48, 0x89, 0x27]] else retJ (),
     mc_bytes [0xba], mc_operand32 funcnum, mc_bytes [0x57], mc_bytes [0x56], mc_bytes [0x48, 0x8d, 0x74, 0x24, 0x18 + extra],
     mc_align_stack, mc_mov ebx ecx, mc_bytes [0x48, 0xb8], mc_operand_ptr ''call_host_function'', mc_bytes [0xff, 0xd0],
     mc_restore_stack, mc_bytes [0x5e], mc_bytes [0x5f],
     if bt then seqJ [mc_restore_backtrace_basic, mc_bytes [0x5d]] else retJ (), mc_bytes [0xc3]])"

fun mc_host_functions :: "nat list \<Rightarrow> unit jm" where
  "mc_host_functions [] = retJ ()"
| "mc_host_functions (i # is) = bindJ (getJ jc_code) (\<lambda>start. seqJ [mc_start_function start i, mc_host_call (of_nat i), mc_host_functions is])"

definition mc_construct :: "unit jm" where
  "mc_construct = seqJ [mc_alloc_code 128, mc_at_start, mc_sysv_abi_interface,
     bindJ (getJ (\<lambda>s. jc_code s \<le> jc_end s)) (\<lambda>ok. checkJ ok Assertion_failure), mc_reclaim,
     mc_alloc_code 80, mc_at_start,
     bindJ (mc_error_handler ''on_fp_error'') (\<lambda>p. modJ (\<lambda>s. s\<lparr>jc_fpe_handler := p\<rparr>)),
     bindJ (mc_error_handler ''on_call_indirect_error'') (\<lambda>p. modJ (\<lambda>s. s\<lparr>jc_call_indirect_handler := p\<rparr>)),
     bindJ (mc_error_handler ''on_type_error'') (\<lambda>p. modJ (\<lambda>s. s\<lparr>jc_type_error_handler := p\<rparr>)),
     bindJ (mc_error_handler ''on_stack_overflow'') (\<lambda>p. modJ (\<lambda>s. s\<lparr>jc_stack_overflow_handler := p\<rparr>)),
     bindJ (mc_error_handler ''on_memory_error'') (\<lambda>p. modJ (\<lambda>s. s\<lparr>jc_memory_handler := p\<rparr>)),
     bindJ (getJ (\<lambda>s. jc_code s = jc_end s)) (\<lambda>ok. checkJ ok Assertion_failure),
     withJ (\<lambda>env. get_imported_functions_size (jv_mod env)) (\<lambda>num_imported. withJ jv_backtrace (\<lambda>bt. seqJ [
       mc_alloc_code ((42 + 10 * of_bool bt) * of_nat num_imported), mc_host_functions [0..<num_imported]])),
     bindJ (getJ (\<lambda>s. jc_code s = jc_end s)) (\<lambda>ok. checkJ ok Assertion_failure)]"

text \<open>
  The constructor on a given allocator.  The members without an initialiser are set before they are read,
  except \<open>recent_ops\<close>, which the first \<open>emit_push\<close> reads; they are taken as empty.
\<close>

definition mc_new :: "growable_allocator \<Rightarrow> jit_env \<Rightarrow> jit res" where
  "mc_new g env = (let (base, g') = ga_start_code (of_nat (jv_page env)) g in
     bindE (mc_construct env \<lparr>jc_alloc = g', jc_segment = unat base, jc_mem = (\<lambda>_. 0), jc_code = 0, jc_start = 0, jc_end = 0,
       jc_recent0 = no_recent, jc_recent1 = no_recent, jc_relocs = [], jc_fpe_handler = 0, jc_call_indirect_handler = 0,
       jc_type_error_handler = 0, jc_stack_overflow_handler = 0, jc_memory_handler = 0,
       jc_ft = \<lparr>form = 0, param_types = [], return_count = 0, return_type = t_pseudo\<rparr>, jc_params = [], jc_locals = [],
       jc_local_count = 0, jc_stack_usage = 0, jc_stack_limit_entry = 0\<rparr>) (\<lambda>(_, s). Inr s))"

text \<open>The destructor: the code pointer of every table entry, with \<open>code_base\<close> the place where \<open>end_code\<close> put the code.\<close>

definition mc_entry_code :: "jit \<Rightarrow> nat \<Rightarrow> u32 \<Rightarrow> nat" where
  "mc_entry_code s num_functions index = (if unat index < num_functions
     then (case jc_relocs s ! unat index of Resolved addr \<Rightarrow> addr | Pending _ \<Rightarrow> jc_call_indirect_handler s)
     else jc_call_indirect_handler s)"

definition mc_destroy :: "u64 \<Rightarrow> jit_env \<Rightarrow> jit \<Rightarrow> u64 list list option" where
  "mc_destroy code_base env s = (let num_functions = get_functions_total (jv_mod env) in
     if num_functions \<le> length (jc_relocs s)
     then Some (map (\<lambda>elem. map (\<lambda>entry. code_base + (of_nat (mc_entry_code s num_functions (te_index entry)) - of_nat (jc_segment s)))
       (es_elems elem)) (m_elements (jv_mod env)))
     else None)"

section \<open>Prologue and epilogue\<close>

definition max_prologue_size :: nat where "max_prologue_size = 33"
definition max_epilogue_size :: nat where "max_epilogue_size = 16"

definition instruction_size_ratio :: "jit_env \<Rightarrow> nat" where
  "instruction_size_ratio env = (if jv_softfloat env then if jv_backtrace env then 63 else 49 else 79)"

fun slot_count :: "u64 \<Rightarrow> local_entry list \<Rightarrow> u64" where
  "slot_count count [] = count"
| "slot_count count (l # ls) = (let count = count + ucast (le_count l) in
     slot_count (if le_type l = t_v128 then count + ucast (le_count l) else count) ls)"

definition mc_zero_locals :: "u64 \<Rightarrow> unit jm" where
  "mc_zero_locals count = (if count > 0 then seqJ [mc_bytes [0x48, 0x31, 0xc0],
     if count > 14
     then seqJ [if count > 0xFFFFFFFF then seqJ [mc_bytes [0x48, 0xb9], mc_operand64 count]
         else seqJ [mc_bytes [0xb9], mc_operand32 (ucast count)],
       bindJ (getJ jc_code) (\<lambda>loop. seqJ [mc_bytes [0x50], if count > 0xFFFFFFFF then mc_bytes [0x48] else retJ (), mc_bytes [0xff, 0xc9],
         mc_bytes [0x0f, 0x85], bindJ mc_branch_target32 (\<lambda>branch. mc_fix_branch branch loop)])]
     else seqJ (replicate (unat count) (mc_bytes [0x50]))] else retJ ())"

definition mc_prologue :: "local_entry list \<Rightarrow> nat \<Rightarrow> unit jm" where
  "mc_prologue locals funcnum = withJ jv_mod (\<lambda>m. withJ instruction_size_ratio (\<lambda>ratio.
     bindJ (liftJ (bindE (at_unchecked (m_functions m) funcnum) (\<lambda>t. at_unchecked (m_types m) (unat t)))) (\<lambda>ft.
     bindJ (liftJ (function_parameters ft)) (\<lambda>params. bindJ (liftJ (function_locals locals)) (\<lambda>groups.
     bindJ (liftJ (at_unchecked (m_code m) funcnum)) (\<lambda>body. seqJ [
       modJ (\<lambda>s. s\<lparr>jc_ft := ft, jc_params := params, jc_locals := groups\<rparr>),
       mc_alloc_code (of_nat max_prologue_size + ucast (fb_size body) * of_nat ratio + of_nat max_epilogue_size), mc_at_start,
       bindJ (getJ jc_code) (\<lambda>start. mc_start_function start (funcnum + get_imported_functions_size m)),
       mc_bytes [0x55], mc_bytes [0x48, 0x89, 0xe5], mc_check_stack_limit,
       modJ (\<lambda>s. s\<lparr>jc_local_count := slot_count 0 locals\<rparr>), mc_zero_locals (slot_count 0 locals),
       bindJ (getJ (\<lambda>s. jc_code s \<le> jc_start s + max_prologue_size)) (\<lambda>ok. checkJ ok Assertion_failure)]))))))"

definition mc_epilogue :: "func_type \<Rightarrow> unit jm" where
  "mc_epilogue ft = bindJ (getJ (\<lambda>s. s)) (\<lambda>s. seqJ [mc_check_stack_limit_end,
     if return_count ft \<noteq> 0 then if return_type ft = t_v128 then mc_vmovups (deref rsp) xmm0 else mc_pop rax else retJ (),
     if jc_local_count s > 0 \<or> (return_count ft \<noteq> 0 \<and> return_type ft = t_v128) then mc_mov rbp rsp else retJ (),
     mc_pop rbp, mc0 op_RET,
     bindJ (getJ jc_code) (\<lambda>code. checkJ (code \<le> jc_code s + max_epilogue_size) Assertion_failure)])"

text \<open>\<open>finalize\<close>: gives back what the function did not use; the result is \<open>jit_code_offset\<close>.\<close>

definition mc_finalize :: "nat jm" where
  "mc_finalize = bindJ mc_reclaim (\<lambda>_. getJ (\<lambda>s. jc_start s - jc_segment s))"

definition mc_get_depth_for_type :: "value_type \<Rightarrow> u32" where
  "mc_get_depth_for_type t = (if t = t_v128 then 2 else 1)"

section \<open>Branches\<close>

definition mc_unreachable :: "unit jm" where
  "mc_unreachable = fixed_size_instr 16 (bindJ (mc_error_handler ''on_unreachable'') (\<lambda>_. retJ ()))"

definition mc_end :: "nat jm" where
  "mc_end = bindJ set_branch_target (\<lambda>_. getJ jc_code)"

definition mc_loop :: "nat jm" where
  "mc_loop = bindJ set_branch_target (\<lambda>_. getJ jc_code)"

definition mc_if :: "nat jm" where
  "mc_if = bindJ (try_pop_recent_op condition_op) (\<lambda>cond. case cond of
       Some branchop \<Rightarrow> bindJ (reverse_condition branchop) mc_branchcc32
     | None \<Rightarrow> fixed_size_instr 9 (bindJ (mc_pop rax) (\<lambda>_. bindJ (mc2 op_TEST eax eax) (\<lambda>_. mc_branchcc32 op_JZ))))"

definition mc_br :: "u32 \<Rightarrow> value_type \<Rightarrow> nat jm" where
  "mc_br depth_change rt = variable_size_instr 5 22 (bindJ (mc_multipop depth_change rt) (\<lambda>_. bindJ (mc_bytes [0xe9]) (\<lambda>_. mc_branch_target32)))"

definition mc_return :: "u32 \<Rightarrow> value_type \<Rightarrow> nat jm" where
  "mc_return depth_change rt = mc_br depth_change rt"

definition mc_else :: "nat \<Rightarrow> nat jm" where
  "mc_else if_loc = fixed_size_instr 5 (bindJ (mc_br 0 t_pseudo) (\<lambda>result. bindJ (mc_fix_here if_loc) (\<lambda>_.
     bindJ set_branch_target (\<lambda>_. retJ result))))"

text \<open>The skipped branch: both arms of \<open>emit_br_if\<close> end with it.\<close>

definition mc_skip_br :: "nat \<Rightarrow> u32 \<Rightarrow> value_type \<Rightarrow> nat jm" where
  "mc_skip_br skip depth_change rt = bindJ (mc_multipop depth_change rt) (\<lambda>_. bindJ (mc0 op_JMP_32) (\<lambda>_. bindJ mc_branch_target32 (\<lambda>result.
     bindJ (mc_fix_here8 skip) (\<lambda>_. retJ result))))"

definition mc_br_if :: "u32 \<Rightarrow> value_type \<Rightarrow> nat jm" where
  "mc_br_if depth_change rt = bindJ (try_pop_recent_op condition_op) (\<lambda>cond. case cond of
       Some branchop \<Rightarrow> if is_simple_multipop depth_change rt then mc_branchcc32 branchop
         else bindJ (bindJ (reverse_condition branchop) mc_branch8) (\<lambda>skip. mc_skip_br skip depth_change rt)
     | None \<Rightarrow> variable_size_instr 9 27 (bindJ (mc_pop rax) (\<lambda>_. bindJ (mc2 op_TEST eax eax) (\<lambda>_.
         if is_simple_multipop depth_change rt then mc_branchcc32 op_JNZ
         else bindJ (mc_branch8 op_JZ) (\<lambda>skip. mc_skip_br skip depth_change rt)))))"

section \<open>\<open>br_table\<close>\<close>

text \<open>
  \<open>br_table_generator\<close>: a stack of ranges of case numbers with the branch that leads to each; the
  innermost range is at the head.  \<open>emit_case\<close> splits the range at the head until one case is left.
\<close>

record br_table_generator =
  bt_i :: u32
  bt_stack :: "(u32 \<times> u32 \<times> nat option) list"

definition mc_case_split :: "u32 \<Rightarrow> nat jm" where
  "mc_case_split mid = fixed_size_instr 11 (bindJ (seqJ [mc_bytes [0x3d], mc_operand32 mid, mc_bytes [0x0f, 0x83]]) (\<lambda>_. mc_branch_target32))"

definition mc_case_jump :: "u32 \<Rightarrow> value_type \<Rightarrow> nat option \<Rightarrow> nat jm" where
  "mc_case_jump depth_change rt label = variable_size_instr 0 22 (if is_simple_multipop depth_change rt
     then (case label of Some l \<Rightarrow> retJ l | None \<Rightarrow> bindJ (mc_bytes [0xe9]) (\<lambda>_. mc_branch_target32))
     else bindJ (mc_multipop depth_change rt) (\<lambda>_. bindJ (mc_bytes [0xe9]) (\<lambda>_. mc_branch_target32)))"

function mc_case_loop :: "u32 \<Rightarrow> value_type \<Rightarrow> u32 \<Rightarrow> u32 \<times> u32 \<times> nat option \<Rightarrow> (u32 \<times> u32 \<times> nat option) list
    \<Rightarrow> (nat \<times> br_table_generator) jm" where
  "mc_case_loop depth_change rt i (lo, hi, label) stack =
     bindJ (case label of Some l \<Rightarrow> mc_fix_here l | None \<Rightarrow> retJ ()) (\<lambda>_.
       if hi - lo > 1
       then let mid = lo + (hi - lo) div 2 in bindJ (mc_case_split mid) (\<lambda>mid_label.
         mc_case_loop depth_change rt i (lo, mid, None) ((mid, hi, Some mid_label) # stack))
       else bindJ (checkJ (lo = i) Assertion_failure) (\<lambda>_. bindJ (mc_case_jump depth_change rt label) (\<lambda>result.
         retJ (result, \<lparr>bt_i = i + 1, bt_stack = stack\<rparr>))))"
  by pat_completeness auto
termination
  by (relation "measure (\<lambda>(_, _, _, (lo, hi, _), _). unat (hi - lo))") (auto simp: word_less_nat_alt unat_div)

definition mc_case :: "u32 \<Rightarrow> value_type \<Rightarrow> br_table_generator \<Rightarrow> (nat \<times> br_table_generator) jm" where
  "mc_case depth_change rt g = (case bt_stack g of [] \<Rightarrow> throwJ Assertion_failure
     | item # stack \<Rightarrow> mc_case_loop depth_change rt (bt_i g) item stack)"

definition mc_default :: "u32 \<Rightarrow> value_type \<Rightarrow> br_table_generator \<Rightarrow> (nat \<times> br_table_generator) jm" where
  "mc_default depth_change rt g = bindJ (mc_case depth_change rt g) (\<lambda>(result, g').
     bindJ (checkJ (bt_stack g' = []) Assertion_failure) (\<lambda>_. retJ (result, g')))"

definition mc_br_table :: "u32 \<Rightarrow> br_table_generator jm" where
  "mc_br_table table_size = bindJ (mc_pop rax) (\<lambda>_. retJ \<lparr>bt_i = 0, bt_stack = [(0, table_size + 1, None)]\<rparr>)"

section \<open>Calls\<close>

definition mc_call :: "func_type \<Rightarrow> nat \<Rightarrow> unit jm" where
  "mc_call ft funcnum = variable_size_instr 15 31 (seqJ [mc_check_call_depth, mc_bytes [0xe8],
     bindJ mc_branch_target32 (\<lambda>branch. seqJ [mc_multipop_call ft, mc_register_call branch funcnum, mc_check_call_depth_end])])"

definition mc_call_indirect :: "func_type \<Rightarrow> u32 \<Rightarrow> unit jm" where
  "mc_call_indirect ft functypeidx = variable_size_instr 37 64 (bindJ mc_check_call_depth (\<lambda>_. bindJ jit_table_size (\<lambda>table_size. seqJ [
     mc_pop rax, mc_cmp_imm table_size eax, mc_fix_to (mc_branchcc32 op_JAE) jc_call_indirect_handler, mc1_imm8 op_SHL_imm8 4 rax,
     withJ jit_indirect_table (\<lambda>indirect. withJ jv_page (\<lambda>page. if indirect
       then seqJ [mc_mov (at_disp rsi (table_offset page)) rcx, mc_add rcx rax]
       else mc2 op_LEA (at_sib rax rsi (table_offset page)) rax)),
     mc_cmp_imm functypeidx (Sized 4 (deref rax)), mc_fix_to (mc_branchcc32 op_JNE) jc_type_error_handler,
     mc1 op_CALL (at_disp rax 8), mc_multipop_call ft, mc_check_call_depth_end])))"

section \<open>Locals, globals and constants\<close>

definition mc_drop :: "value_type \<Rightarrow> unit jm" where
  "mc_drop ty = variable_size_instr 1 4 (if ty = t_v128 then mc_add_imm 16 rsp else mc_pop rax)"

definition mc_select :: "value_type \<Rightarrow> unit jm" where
  "mc_select ty = variable_size_instr 9 20 (if ty = t_v128
     then seqJ [mc_pop rax, mc2 op_TEST eax eax, bindJ (mc_branch8 op_JNZ) (\<lambda>cond. seqJ [mc_vmovups (deref rsp) xmm0,
       mc_vmovups xmm0 (at_disp rsp 16), mc_fix_here8 cond]), mc_add_imm 16 rsp]
     else seqJ [mc_pop rax, mc_pop rcx, mc_pop rdx, mc2 op_TEST eax eax,
       if ty = t_i32 \<or> ty = t_f32 then mc2 op_CMOVZ ecx edx else mc2 op_CMOVZ rcx rdx, mc_push rdx])"

definition mc_get_local :: "u32 \<Rightarrow> value_type \<Rightarrow> unit jm" where
  "mc_get_local local_idx ty = bindJ (getJ jc_code) (\<lambda>start. variable_size_instr 5 17 (bindJ (get_frame_offset local_idx) (\<lambda>off.
     let addr = at_disp rbp off in if ty \<noteq> t_v128
     then seqJ [mc_mov addr rax, mc_push rax, push_recent_op start (Get_local_op addr)]
     else seqJ [mc_vmovups addr xmm0, mc_sub_imm 16 rsp, mc_vmovups xmm0 (deref rsp)])))"

definition mc_set_local :: "u32 \<Rightarrow> value_type \<Rightarrow> unit jm" where
  "mc_set_local local_idx ty = variable_size_instr 5 17 (bindJ (get_frame_offset local_idx) (\<lambda>off.
     let addr = at_disp rbp off in if ty \<noteq> t_v128 then seqJ [mc_pop rax, mc_mov rax addr]
     else seqJ [mc_vmovups (deref rsp) xmm0, mc_add_imm 16 rsp, mc_vmovups xmm0 addr]))"

definition mc_tee_local :: "u32 \<Rightarrow> value_type \<Rightarrow> unit jm" where
  "mc_tee_local local_idx ty = variable_size_instr 5 13 (bindJ (get_frame_offset local_idx) (\<lambda>off.
     let addr = at_disp rbp off in if ty \<noteq> t_v128
     then seqJ [mc_pop rax, if ty = t_i32 \<or> ty = t_f32 then mc_mov eax addr else mc_mov rax addr, mc_push rax]
     else seqJ [mc_vmovups (deref rsp) xmm0, mc_vmovups xmm0 addr]))"

definition mc_global_loc :: "u32 \<Rightarrow> operand jm" where
  "mc_global_loc globalidx = withJ jv_page (\<lambda>page. let offset = get_global_offset globalidx in
     bindJ (mc_mov (at_disp rsi (globals_end page - 8)) rcx) (\<lambda>_. if offset > 0x7fffffff
       then bindJ (seqJ [mc_mov_imm64 offset rdx, mc_add rdx rcx]) (\<lambda>_. retJ (at_disp rcx 0))
       else retJ (at_disp rcx (uint offset))))"

definition jit_global_type :: "u32 \<Rightarrow> value_type jm" where
  "jit_global_type globalidx = withJ jv_mod (\<lambda>m. liftJ (bindE (at_unchecked (m_globals m) (unat globalidx)) (\<lambda>g. Inr (content_type g))))"

definition mc_get_global :: "u32 \<Rightarrow> unit jm" where
  "mc_get_global globalidx = variable_size_instr 11 36 (bindJ (jit_global_type globalidx) (\<lambda>ty. bindJ (mc_global_loc globalidx) (\<lambda>loc.
     if ty = t_i32 then seqJ [mc_mov loc eax, mc_push rax] else if ty = t_i64 then seqJ [mc_mov loc rax, mc_push rax]
     else if ty = t_f32 then seqJ [mc_mov loc eax, mc_push rax] else if ty = t_f64 then seqJ [mc_mov loc rax, mc_push rax]
     else if ty = t_v128 then seqJ [mc_vmovdqu loc xmm0, mc_push_v128 xmm0] else throwJ Assertion_failure)))"

definition mc_set_global :: "u32 \<Rightarrow> unit jm" where
  "mc_set_global globalidx = variable_size_instr 11 36 (bindJ (jit_global_type globalidx) (\<lambda>ty.
     bindJ (if ty = t_v128 then mc_pop_v128 xmm0 else mc_pop rax) (\<lambda>_. bindJ (mc_global_loc globalidx) (\<lambda>loc.
     if ty = t_i32 then mc_mov eax loc else if ty = t_i64 then mc_mov rax loc else if ty = t_f32 then mc_mov eax loc
     else if ty = t_f64 then mc_mov rax loc else if ty = t_v128 then mc_vmovdqu xmm0 loc else throwJ Assertion_failure))))"

definition mc_i32_const :: "u32 \<Rightarrow> unit jm" where
  "mc_i32_const val = bindJ (getJ jc_code) (\<lambda>start. seqJ [if val = 0 then fixed_size_instr 3 (seqJ [mc_xor eax eax, mc_push rax])
     else fixed_size_instr 6 (seqJ [mc_mov_imm32 val eax, mc_push rax]), push_recent_op start (I32_const_op val)])"

definition mc_i64_const :: "u64 \<Rightarrow> unit jm" where
  "mc_i64_const val = bindJ (getJ jc_code) (\<lambda>start. fixed_size_instr 11 (seqJ [mc_mov_imm64 val rax, mc_push rax,
     push_recent_op start (I64_const_op val)]))"

definition mc_f32_const :: "u32 \<Rightarrow> unit jm" where
  "mc_f32_const val = fixed_size_instr 6 (seqJ [mc_mov_imm32 val eax, mc_push rax])"

definition mc_f64_const :: "u64 \<Rightarrow> unit jm" where
  "mc_f64_const val = fixed_size_instr 11 (seqJ [mc_mov_imm64 val rax, mc_push rax])"

definition mc_v128_const :: "128 word \<Rightarrow> unit jm" where
  "mc_v128_const val = simd_instr (seqJ [mc_i64_const (ucast (drop_bit 64 val)), mc_i64_const (ucast val)])"

text \<open>The bytes that select from the first operand are complemented.\<close>

definition shuffle_operand :: "u8 list \<Rightarrow> u8 list" where
  "shuffle_operand lanes = map (\<lambda>l. if l < 16 then NOT l else l) lanes"

definition mc_i8x16_shuffle :: "u8 list \<Rightarrow> unit jm" where
  "mc_i8x16_shuffle lanes = fixed_size_instr 72 (seqJ [mc_bytes [0x48, 0xb8], mc_bytes (shuffle_operand (take 8 lanes)), mc_vmovq rax xmm2,
     mc_bytes [0x48, 0xb8], mc_bytes (shuffle_operand (take 8 (drop 8 lanes))), mc_v3i op_VPINSRQ 1 rax xmm2 xmm2,
     mc_vmovdqu (deref rsp) xmm0, mc_v3 op_VPSHUFB xmm2 xmm0 xmm1, mc_const_ones xmm0, mc_v3 op_VPXOR xmm0 xmm2 xmm2,
     mc_add_imm 16 rsp, mc_vmovdqu (deref rsp) xmm0, mc_v3 op_VPSHUFB xmm2 xmm0 xmm0, mc_v3 op_VPOR xmm1 xmm0 xmm0,
     mc_vmovdqu xmm0 (deref rsp)])"

named_theorems jit_emitters \<open>definitions of the emitters\<close>

end
