(* ===== verification/Vm_Jit_Int.thy ===== *)
theory Vm_Jit_Int
  imports Vm_Jit_Emit
begin

text \<open>
  The emitters for the integer instructions, the loads and stores, and the instructions on whole
  memories and tables.  The i32 arithmetic folds a constant or a local that was pushed just before.
\<close>

definition mc_nop :: "unit jm" where
  "mc_nop = retJ ()"

definition mc_block :: "unit jm" where
  "mc_block = retJ ()"

definition mc_i32_load :: "u32 \<Rightarrow> u32 \<Rightarrow> unit jm" where
  "mc_i32_load align offset = variable_size_instr 5 13 (mc_load_impl2 offset op_MOV_A eax)"

definition mc_i64_load :: "u32 \<Rightarrow> u32 \<Rightarrow> unit jm" where
  "mc_i64_load align offset = variable_size_instr 6 14 (mc_load_impl2 offset op_MOV_A rax)"

definition mc_f32_load :: "u32 \<Rightarrow> u32 \<Rightarrow> unit jm" where
  "mc_f32_load align offset = variable_size_instr 5 13 (mc_load_impl2 offset op_MOV_A eax)"

definition mc_f64_load :: "u32 \<Rightarrow> u32 \<Rightarrow> unit jm" where
  "mc_f64_load align offset = variable_size_instr 6 14 (mc_load_impl2 offset op_MOV_A rax)"

definition mc_i32_load8_s :: "u32 \<Rightarrow> u32 \<Rightarrow> unit jm" where
  "mc_i32_load8_s align offset = variable_size_instr 6 14 (mc_load_impl2 offset op_MOVSXB eax)"

definition mc_i32_load16_s :: "u32 \<Rightarrow> u32 \<Rightarrow> unit jm" where
  "mc_i32_load16_s align offset = variable_size_instr 6 14 (mc_load_impl2 offset op_MOVSXW eax)"

definition mc_i32_load8_u :: "u32 \<Rightarrow> u32 \<Rightarrow> unit jm" where
  "mc_i32_load8_u align offset = variable_size_instr 6 14 (mc_load_impl2 offset op_MOVZXB eax)"

definition mc_i32_load16_u :: "u32 \<Rightarrow> u32 \<Rightarrow> unit jm" where
  "mc_i32_load16_u align offset = variable_size_instr 6 14 (mc_load_impl2 offset op_MOVZXW eax)"

definition mc_i64_load8_s :: "u32 \<Rightarrow> u32 \<Rightarrow> unit jm" where
  "mc_i64_load8_s align offset = variable_size_instr 7 15 (mc_load_impl2 offset op_MOVSXB rax)"

definition mc_i64_load16_s :: "u32 \<Rightarrow> u32 \<Rightarrow> unit jm" where
  "mc_i64_load16_s align offset = variable_size_instr 7 15 (mc_load_impl2 offset op_MOVSXW rax)"

definition mc_i64_load32_s :: "u32 \<Rightarrow> u32 \<Rightarrow> unit jm" where
  "mc_i64_load32_s align offset = variable_size_instr 6 14 (mc_load_impl2 offset op_MOVSXD rax)"

definition mc_i64_load8_u :: "u32 \<Rightarrow> u32 \<Rightarrow> unit jm" where
  "mc_i64_load8_u align offset = variable_size_instr 6 14 (mc_load_impl2 offset op_MOVZXB eax)"

definition mc_i64_load16_u :: "u32 \<Rightarrow> u32 \<Rightarrow> unit jm" where
  "mc_i64_load16_u align offset = variable_size_instr 6 14 (mc_load_impl2 offset op_MOVZXW eax)"

definition mc_i64_load32_u :: "u32 \<Rightarrow> u32 \<Rightarrow> unit jm" where
  "mc_i64_load32_u align offset = variable_size_instr 5 13 (mc_load_impl2 offset op_MOV_A eax)"

definition mc_i32_store :: "u32 \<Rightarrow> u32 \<Rightarrow> unit jm" where
  "mc_i32_store align offset = variable_size_instr 5 13 (mc_store_impl2 offset op_MOV_B eax)"

definition mc_i64_store :: "u32 \<Rightarrow> u32 \<Rightarrow> unit jm" where
  "mc_i64_store align offset = variable_size_instr 6 14 (mc_store_impl2 offset op_MOV_B rax)"

definition mc_f32_store :: "u32 \<Rightarrow> u32 \<Rightarrow> unit jm" where
  "mc_f32_store align offset = variable_size_instr 5 13 (mc_store_impl2 offset op_MOV_B eax)"

definition mc_f64_store :: "u32 \<Rightarrow> u32 \<Rightarrow> unit jm" where
  "mc_f64_store align offset = variable_size_instr 6 14 (mc_store_impl2 offset op_MOV_B rax)"

definition mc_i32_store8 :: "u32 \<Rightarrow> u32 \<Rightarrow> unit jm" where
  "mc_i32_store8 align offset = variable_size_instr 5 13 (mc_store_impl2 offset op_MOVB_B al)"

definition mc_i32_store16 :: "u32 \<Rightarrow> u32 \<Rightarrow> unit jm" where
  "mc_i32_store16 align offset = variable_size_instr 6 14 (mc_store_impl2 offset op_MOVW_B ax)"

definition mc_i64_store8 :: "u32 \<Rightarrow> u32 \<Rightarrow> unit jm" where
  "mc_i64_store8 align offset = variable_size_instr 5 13 (mc_store_impl2 offset op_MOVB_B al)"

definition mc_i64_store16 :: "u32 \<Rightarrow> u32 \<Rightarrow> unit jm" where
  "mc_i64_store16 align offset = variable_size_instr 6 14 (mc_store_impl2 offset op_MOVW_B ax)"

definition mc_i64_store32 :: "u32 \<Rightarrow> u32 \<Rightarrow> unit jm" where
  "mc_i64_store32 align offset = variable_size_instr 5 13 (mc_store_impl2 offset op_MOV_B eax)"

definition mc_current_memory :: "unit jm" where
  "mc_current_memory = variable_size_instr 17 35 (seqJ [bindJ mc_setup_backtrace (\<lambda>_. retJ ()), mc_push rdi, mc_push rsi,
     mc_mov_ptr ''current_memory'' rax, mc1 op_CALL rax, mc_pop rsi, mc_pop rdi, mc_restore_backtrace, mc_push rax])"

definition mc_grow_memory :: "unit jm" where
  "mc_grow_memory = variable_size_instr 20 39 (seqJ [mc_pop rax, bindJ mc_setup_backtrace (\<lambda>_. retJ ()), mc_push rdi, mc_push rsi,
     mc_mov eax esi, mc_mov_ptr ''grow_memory'' rax, mc1 op_CALL rax, mc_pop rsi, mc_pop rdi, mc_restore_backtrace, mc_push rax])"

definition mc_memory_init :: "u32 \<Rightarrow> unit jm" where
  "mc_memory_init x = variable_size_instr 25 43 (seqJ [mc_pop r8, mc_pop rcx, mc_pop rdx, bindJ mc_setup_backtrace (\<lambda>_. retJ ()), mc_push rdi,
     mc_push rsi, mc_mov_imm32 x esi, mc_mov_ptr ''init_memory'' rax, mc1 op_CALL rax, mc_pop rsi, mc_pop rdi, mc_restore_backtrace])"

definition mc_data_drop :: "u32 \<Rightarrow> unit jm" where
  "mc_data_drop x = variable_size_instr 21 39 (seqJ [bindJ mc_setup_backtrace (\<lambda>_. retJ ()), mc_push rdi, mc_push rsi, mc_mov_imm32 x esi,
     mc_mov_ptr ''drop_data'' rax, mc1 op_CALL rax, mc_pop rsi, mc_pop rdi, mc_restore_backtrace])"

definition mc_table_init :: "u32 \<Rightarrow> unit jm" where
  "mc_table_init x = variable_size_instr 25 43 (seqJ [mc_pop r8, mc_pop rcx, mc_pop rdx, bindJ mc_setup_backtrace (\<lambda>_. retJ ()), mc_push rdi,
     mc_push rsi, mc_mov_imm32 x esi, mc_mov_ptr ''init_table'' rax, mc1 op_CALL rax, mc_pop rsi, mc_pop rdi, mc_restore_backtrace])"

definition mc_elem_drop :: "u32 \<Rightarrow> unit jm" where
  "mc_elem_drop x = variable_size_instr 21 39 (seqJ [bindJ mc_setup_backtrace (\<lambda>_. retJ ()), mc_push rdi, mc_push rsi, mc_mov_imm32 x esi,
     mc_mov_ptr ''drop_elem'' rax, mc1 op_CALL rax, mc_pop rsi, mc_pop rdi, mc_restore_backtrace])"

definition mc_i32_eqz :: "unit jm" where
  "mc_i32_eqz = fixed_size_instr 9 (seqJ [mc_pop rax, mc2 op_XOR_A ecx ecx, mc2 op_TEST eax eax, bindJ (getJ jc_code) (\<lambda>start.
     seqJ [mc1 op_SETZ cl, mc_push rcx, push_recent_op start (Condition_op op_JZ)])])"

definition mc_i32_eq :: "unit jm" where
  "mc_i32_eq = fixed_size_instr 10 (mc_i32_relop op_JE)"

definition mc_i32_ne :: "unit jm" where
  "mc_i32_ne = fixed_size_instr 10 (mc_i32_relop op_JNE)"

definition mc_i32_lt_s :: "unit jm" where
  "mc_i32_lt_s = fixed_size_instr 10 (mc_i32_relop op_JL)"

definition mc_i32_lt_u :: "unit jm" where
  "mc_i32_lt_u = fixed_size_instr 10 (mc_i32_relop op_JB)"

definition mc_i32_gt_s :: "unit jm" where
  "mc_i32_gt_s = fixed_size_instr 10 (mc_i32_relop op_JG)"

definition mc_i32_gt_u :: "unit jm" where
  "mc_i32_gt_u = fixed_size_instr 10 (mc_i32_relop op_JA)"

definition mc_i32_le_s :: "unit jm" where
  "mc_i32_le_s = fixed_size_instr 10 (mc_i32_relop op_JLE)"

definition mc_i32_le_u :: "unit jm" where
  "mc_i32_le_u = fixed_size_instr 10 (mc_i32_relop op_JBE)"

definition mc_i32_ge_s :: "unit jm" where
  "mc_i32_ge_s = fixed_size_instr 10 (mc_i32_relop op_JGE)"

definition mc_i32_ge_u :: "unit jm" where
  "mc_i32_ge_u = fixed_size_instr 10 (mc_i32_relop op_JAE)"

definition mc_i64_eqz :: "unit jm" where
  "mc_i64_eqz = fixed_size_instr 11 (seqJ [mc_bytes [0x58], mc_bytes [0x48, 0x31, 0xc9], mc_bytes [0x48, 0x85, 0xc0], mc_bytes [0x0f, 0x94,
     0xc1], mc_bytes [0x51]])"

definition mc_i64_eq :: "unit jm" where
  "mc_i64_eq = fixed_size_instr 12 (mc_i64_relop 0x94)"

definition mc_i64_ne :: "unit jm" where
  "mc_i64_ne = fixed_size_instr 12 (mc_i64_relop 0x95)"

definition mc_i64_lt_s :: "unit jm" where
  "mc_i64_lt_s = fixed_size_instr 12 (mc_i64_relop 0x9c)"

definition mc_i64_lt_u :: "unit jm" where
  "mc_i64_lt_u = fixed_size_instr 12 (mc_i64_relop 0x92)"

definition mc_i64_gt_s :: "unit jm" where
  "mc_i64_gt_s = fixed_size_instr 12 (mc_i64_relop 0x9f)"

definition mc_i64_gt_u :: "unit jm" where
  "mc_i64_gt_u = fixed_size_instr 12 (mc_i64_relop 0x97)"

definition mc_i64_le_s :: "unit jm" where
  "mc_i64_le_s = fixed_size_instr 12 (mc_i64_relop 0x9e)"

definition mc_i64_le_u :: "unit jm" where
  "mc_i64_le_u = fixed_size_instr 12 (mc_i64_relop 0x96)"

definition mc_i64_ge_s :: "unit jm" where
  "mc_i64_ge_s = fixed_size_instr 12 (mc_i64_relop 0x9d)"

definition mc_i64_ge_u :: "unit jm" where
  "mc_i64_ge_u = fixed_size_instr 12 (mc_i64_relop 0x93)"

definition mc_i32_clz :: "unit jm" where
  "mc_i32_clz = withJ jv_tzcnt (\<lambda>tzcnt. fixed_size_instr (if tzcnt then 6 else 18) (if \<not> tzcnt then seqJ [mc_pop rax,
     mc_mov_imm32 (- 1) ecx, mc2 op_BSR eax eax, mc2 op_CMOVZ ecx eax, mc_sub_imm 31 eax, mc1 op_NEG eax, mc_push rax]
     else seqJ [mc_pop rax, mc2 op_LZCNT eax eax, mc_push rax]))"

definition mc_i32_ctz :: "unit jm" where
  "mc_i32_ctz = withJ jv_tzcnt (\<lambda>tzcnt. fixed_size_instr (if tzcnt then 6 else 13) (if \<not> tzcnt then seqJ [mc_pop rax,
     mc_mov_imm32 32 ecx, mc2 op_BSF eax eax, mc2 op_CMOVZ ecx eax, mc_push rax] else seqJ [mc_pop rax, mc2 op_TZCNT eax eax,
     mc_push rax]))"

definition mc_i32_popcnt :: "unit jm" where
  "mc_i32_popcnt = fixed_size_instr 6 (seqJ [mc_pop rax, mc1 op_POPCNT eax, mc_push rax])"

definition mc_i32_add :: "unit jm" where
  "mc_i32_add = bindJ (try_pop_recent_op get_local_op) (\<lambda>r. case r of Some local \<Rightarrow> seqJ [mc_pop rax, mc2 op_ADD_A local eax,
     mc_push rax] | None \<Rightarrow> bindJ (try_pop_recent_op i32_const_op) (\<lambda>r. case r of Some constant
     \<Rightarrow> seqJ [mc_pop rax, mc_add_imm constant eax, mc_push rax] | None
     \<Rightarrow> fixed_size_instr 5 (seqJ [mc_pop rax, mc_pop rcx, mc_add ecx eax, mc_push rax])))"

definition mc_i32_sub :: "unit jm" where
  "mc_i32_sub = bindJ (try_pop_recent_op i32_const_op) (\<lambda>r. case r of Some c \<Rightarrow> seqJ [mc_pop rax, mc_sub_imm c eax,
     mc_push rax] | None \<Rightarrow> fixed_size_instr 5 (seqJ [mc_pop rcx, mc_pop rax, mc_sub ecx eax, mc_push rax]))"

definition mc_i32_mul :: "unit jm" where
  "mc_i32_mul = fixed_size_instr 6 (seqJ [mc_pop rax, mc_pop rcx, mc2 op_IMUL ecx eax, mc_push rax])"

definition mc_i32_div_s :: "unit jm" where
  "mc_i32_div_s = fixed_size_instr 6 (seqJ [mc_pop rcx, mc_pop rax, mc0 op_CDQ, mc1 op_IDIV ecx, mc_push rax])"

definition mc_i32_div_u :: "unit jm" where
  "mc_i32_div_u = fixed_size_instr 7 (seqJ [mc_pop rcx, mc_pop rax, mc_xor edx edx, mc1 op_DIV ecx, mc_push rax])"

definition mc_i32_rem_s :: "unit jm" where
  "mc_i32_rem_s = fixed_size_instr 15 (seqJ [mc_pop rcx, mc_pop rax, mc_cmp_imm (- 1) ecx, bindJ (mc_branch8 op_JE) (\<lambda>minus1.
     seqJ [mc0 op_CDQ, mc1 op_IDIV ecx, bindJ (mc_branch8_ia op_JMP_8) (\<lambda>end_branch. seqJ [mc_fix_here8 minus1,
     mc_xor edx edx, mc_fix_here8 end_branch, mc_push rdx])])])"

definition mc_i32_rem_u :: "unit jm" where
  "mc_i32_rem_u = fixed_size_instr 7 (seqJ [mc_pop rcx, mc_pop rax, mc_xor edx edx, mc1 op_DIV ecx, mc_push rdx])"

definition mc_i32_and :: "unit jm" where
  "mc_i32_and = bindJ (try_pop_recent_op i32_const_op) (\<lambda>r. case r of Some c \<Rightarrow> seqJ [mc_pop rax, mc_and_imm c eax,
     mc_push rax] | None \<Rightarrow> fixed_size_instr 5 (seqJ [mc_pop rax, mc_pop rcx, mc2 op_AND_A ecx eax, mc_push rax]))"

definition mc_i32_or :: "unit jm" where
  "mc_i32_or = bindJ (try_pop_recent_op i32_const_op) (\<lambda>r. case r of Some c \<Rightarrow> seqJ [mc_pop rax, mc_or_imm c eax,
     mc_push rax] | None \<Rightarrow> fixed_size_instr 5 (seqJ [mc_pop rax, mc_pop rcx, mc2 op_OR_A ecx eax, mc_push rax]))"

definition mc_i32_xor :: "unit jm" where
  "mc_i32_xor = bindJ (try_pop_recent_op get_local_op) (\<lambda>r. case r of Some c \<Rightarrow> seqJ [mc_pop rax, mc2 op_XOR_A c eax,
     mc_push rax] | None \<Rightarrow> bindJ (try_pop_recent_op i32_const_op) (\<lambda>r. case r of Some c
     \<Rightarrow> seqJ [mc_pop rax, if c = 0xffffffff then mc1 op_NOT eax else mc_xor_imm c eax, mc_push rax] | None
     \<Rightarrow> fixed_size_instr 5 (seqJ [mc_pop rax, mc_pop rcx, mc2 op_XOR_A ecx eax, mc_push rax])))"

definition mc_i32_shl :: "unit jm" where
  "mc_i32_shl = bindJ (try_pop_recent_op i32_const_op) (\<lambda>r. case r of Some c \<Rightarrow> seqJ [mc_pop rax,
     mc1_imm8 op_SHL_imm8 (ucast (c AND 0x1f)) eax, mc_push rax] | None \<Rightarrow> fixed_size_instr 5 (seqJ [mc_pop rcx,
     mc_pop rax, mc1 op_SHL_cl eax, mc_push rax]))"

definition mc_i32_shr_s :: "unit jm" where
  "mc_i32_shr_s = fixed_size_instr 5 (seqJ [mc_pop rcx, mc_pop rax, mc1 op_SAR_cl eax, mc_push rax])"

definition mc_i32_shr_u :: "unit jm" where
  "mc_i32_shr_u = bindJ (try_pop_recent_op i32_const_op) (\<lambda>r. case r of Some c \<Rightarrow> seqJ [mc_pop rax,
     mc1_imm8 op_SHR_imm8 (ucast (c AND 0x1f)) eax, mc_push rax] | None \<Rightarrow> fixed_size_instr 5 (seqJ [mc_pop rcx,
     mc_pop rax, mc1 op_SHR_cl eax, mc_push rax]))"

definition mc_i32_rotl :: "unit jm" where
  "mc_i32_rotl = fixed_size_instr 5 (seqJ [mc_pop rcx, mc_pop rax, mc1 op_ROL_cl eax, mc_push rax])"

definition mc_i32_rotr :: "unit jm" where
  "mc_i32_rotr = fixed_size_instr 5 (seqJ [mc_pop rcx, mc_pop rax, mc1 op_ROR_cl eax, mc_push rax])"

definition mc_i64_clz :: "unit jm" where
  "mc_i64_clz = withJ jv_tzcnt (\<lambda>tzcnt. fixed_size_instr (if tzcnt then 7 else 24) (if \<not> tzcnt then seqJ [mc_bytes [0x58],
     mc_bytes [0x48, 0xc7, 0xc1, 0xff, 0xff, 0xff, 0xff], mc_bytes [0x48, 0x0f, 0xbd, 0xc0], mc_bytes [0x48, 0x0f, 0x44, 0xc1],
     mc_bytes [0x48, 0x83, 0xe8, 0x3f], mc_bytes [0x48, 0xf7, 0xd8], mc_bytes [0x50]] else seqJ [mc_bytes [0x58], mc_bytes [0xf3,
     0x48, 0x0f, 0xbd, 0xc0], mc_bytes [0x50]]))"

definition mc_i64_ctz :: "unit jm" where
  "mc_i64_ctz = withJ jv_tzcnt (\<lambda>tzcnt. fixed_size_instr (if tzcnt then 7 else 17) (if \<not> tzcnt then seqJ [mc_bytes [0x58],
     mc_bytes [0x48, 0xc7, 0xc1, 0x40, 0x00, 0x00, 0x00], mc_bytes [0x48, 0x0f, 0xbc, 0xc0], mc_bytes [0x48, 0x0f, 0x44, 0xc1],
     mc_bytes [0x50]] else seqJ [mc_bytes [0x58], mc_bytes [0xf3, 0x48, 0x0f, 0xbc, 0xc0], mc_bytes [0x50]]))"

definition mc_i64_popcnt :: "unit jm" where
  "mc_i64_popcnt = fixed_size_instr 7 (seqJ [mc_bytes [0x58], mc_bytes [0xf3, 0x48, 0x0f, 0xb8, 0xc0], mc_bytes [0x50]])"

definition mc_i64_add :: "unit jm" where
  "mc_i64_add = bindJ (try_pop_recent_op i64_const_op) (\<lambda>r. case r of Some c \<Rightarrow> seqJ [mc_pop rax, mc_mov_imm64 c rcx,
     mc_add rcx rax, mc_push rax] | None \<Rightarrow> fixed_size_instr 6 (seqJ [mc_pop rax, mc_pop rcx, mc_add rcx rax,
     mc_push rax]))"

definition mc_i64_sub :: "unit jm" where
  "mc_i64_sub = fixed_size_instr 6 (mc_i64_binop [0x48, 0x29, 0xc8, 0x50])"

definition mc_i64_mul :: "unit jm" where
  "mc_i64_mul = fixed_size_instr 7 (seqJ [mc_pop rax, mc_pop rcx, mc2 op_IMUL rcx rax, mc_push rax])"

definition mc_i64_div_s :: "unit jm" where
  "mc_i64_div_s = fixed_size_instr 8 (mc_i64_binop [0x48, 0x99, 0x48, 0xf7, 0xf9, 0x50])"

definition mc_i64_div_u :: "unit jm" where
  "mc_i64_div_u = fixed_size_instr 9 (mc_i64_binop [0x48, 0x31, 0xd2, 0x48, 0xf7, 0xf1, 0x50])"

definition mc_i64_rem_s :: "unit jm" where
  "mc_i64_rem_s = fixed_size_instr 25 (seqJ [mc_bytes [0x59], mc_bytes [0x58], mc_bytes [0x48, 0x83, 0xf9, 0xff], mc_bytes [0x0f, 0x84],
     bindJ mc_branch_target32 (\<lambda>minus1. seqJ [mc_bytes [0x48, 0x99], mc_bytes [0x48, 0xf7, 0xf9], mc_bytes [0xe9],
     bindJ mc_branch_target32 (\<lambda>end_branch. seqJ [mc_fix_here minus1, mc_bytes [0x31, 0xd2], mc_fix_here end_branch,
     mc_bytes [0x52]])])])"

definition mc_i64_rem_u :: "unit jm" where
  "mc_i64_rem_u = fixed_size_instr 9 (mc_i64_binop [0x48, 0x31, 0xd2, 0x48, 0xf7, 0xf1, 0x52])"

definition mc_i64_and :: "unit jm" where
  "mc_i64_and = fixed_size_instr 6 (mc_i64_binop [0x48, 0x21, 0xc8, 0x50])"

definition mc_i64_or :: "unit jm" where
  "mc_i64_or = fixed_size_instr 6 (mc_i64_binop [0x48, 0x09, 0xc8, 0x50])"

definition mc_i64_xor :: "unit jm" where
  "mc_i64_xor = fixed_size_instr 6 (mc_i64_binop [0x48, 0x31, 0xc8, 0x50])"

definition mc_i64_shl :: "unit jm" where
  "mc_i64_shl = bindJ (try_pop_recent_op i64_const_op) (\<lambda>r. case r of Some c \<Rightarrow> seqJ [mc_pop rax,
     mc1_imm8 op_SHL_imm8 (ucast (c AND 0x3f)) rax, mc_push rax] | None \<Rightarrow> fixed_size_instr 6 (seqJ [mc_pop rcx,
     mc_pop rax, mc1 op_SHL_cl rax, mc_push rax]))"

definition mc_i64_shr_s :: "unit jm" where
  "mc_i64_shr_s = bindJ (try_pop_recent_op i64_const_op) (\<lambda>r. case r of Some c \<Rightarrow> seqJ [mc_pop rax,
     mc1_imm8 op_SAR_imm8 (ucast (c AND 0x3f)) rax, mc_push rax] | None \<Rightarrow> fixed_size_instr 6 (seqJ [mc_pop rcx,
     mc_pop rax, mc1 op_SAR_cl rax, mc_push rax]))"

definition mc_i64_shr_u :: "unit jm" where
  "mc_i64_shr_u = bindJ (try_pop_recent_op i64_const_op) (\<lambda>r. case r of Some c \<Rightarrow> seqJ [mc_pop rax,
     mc1_imm8 op_SHR_imm8 (ucast (c AND 0x3f)) rax, mc_push rax] | None \<Rightarrow> fixed_size_instr 6 (seqJ [mc_pop rcx,
     mc_pop rax, mc1 op_SHR_cl rax, mc_push rax]))"

definition mc_i64_rotl :: "unit jm" where
  "mc_i64_rotl = fixed_size_instr 6 (mc_i64_binop [0x48, 0xd3, 0xc0, 0x50])"

definition mc_i64_rotr :: "unit jm" where
  "mc_i64_rotr = fixed_size_instr 6 (mc_i64_binop [0x48, 0xd3, 0xc8, 0x50])"

definition mc_i32_wrap_i64 :: "unit jm" where
  "mc_i32_wrap_i64 = fixed_size_instr 4 (seqJ [mc_pop rax, mc_mov eax eax, mc_push rax])"

definition mc_i32_extend8_s :: "unit jm" where
  "mc_i32_extend8_s = fixed_size_instr 7 (seqJ [mc2 op_MOVSXB (deref rsp) eax, mc_mov eax (deref rsp)])"

definition mc_i32_extend16_s :: "unit jm" where
  "mc_i32_extend16_s = fixed_size_instr 7 (seqJ [mc2 op_MOVSXW (deref rsp) eax, mc_mov eax (deref rsp)])"

definition mc_i64_extend_s_i32 :: "unit jm" where
  "mc_i64_extend_s_i32 = fixed_size_instr 8 (seqJ [mc_bytes [0x48, 0x63, 0x04, 0x24], mc_bytes [0x48, 0x89, 0x04, 0x24]])"

definition mc_i64_extend_u_i32 :: "unit jm" where
  "mc_i64_extend_u_i32 = retJ ()"

definition mc_i64_extend8_s :: "unit jm" where
  "mc_i64_extend8_s = fixed_size_instr 9 (seqJ [mc2 op_MOVSXB (deref rsp) rax, mc_mov rax (deref rsp)])"

definition mc_i64_extend16_s :: "unit jm" where
  "mc_i64_extend16_s = fixed_size_instr 9 (seqJ [mc2 op_MOVSXW (deref rsp) rax, mc_mov rax (deref rsp)])"

definition mc_i64_extend32_s :: "unit jm" where
  "mc_i64_extend32_s = fixed_size_instr 8 (seqJ [mc2 op_MOVSXD (deref rsp) rax, mc_mov rax (deref rsp)])"

definition mc_error :: "unit jm" where
  "mc_error = unimplemented"

definition mc_memory_fill :: "unit jm" where
  "mc_memory_fill = fixed_size_instr 18 (seqJ [mc_pop rcx, mc_mov rdi r8, mc_pop rax, mc_pop rdi, mc_add rsi rdi, mc_mov (at_sib rcx rdi (- 1)) dl,
     mc_bytes [0xf3], mc0 (Ia32 W0 [0xaa] None), mc_mov r8 rdi])"

definition mc_memory_copy :: "unit jm" where
  "mc_memory_copy = fixed_size_instr 60 (seqJ [mc_pop rcx, mc_mov rsi r8, mc_mov rdi r9, mc_pop rsi, mc_pop rdi, mc_add r8 rsi, mc_add r8 rdi,
     mc_mov rdi rax, mc_sub rsi rax, bindJ (mc_branch8 op_JBE) (\<lambda>cmp1. seqJ [mc_mov (at_sib rcx rdi (- 1)) dl,
     mc2 op_CMP rcx rax, bindJ (mc_branch8 op_JAE) (\<lambda>cmp2. seqJ [mc2 op_LEA (at_sib rcx rsi (- 1)) rsi,
     mc2 op_LEA (at_sib rcx rdi (- 1)) rdi, mc0 op_STD, mc_bytes [0xf3], mc0 (Ia32 W0 [0xa4] None), mc0 op_CLD, mc0 op_JMP_8,
     bindJ mc_branch_target8 (\<lambda>end_branch. seqJ [mc_fix_here8 cmp1, mc_mov (at_sib rcx rsi (- 1)) dl, mc_fix_here8 cmp2,
     mc_bytes [0xf3], mc0 (Ia32 W0 [0xa4] None), mc_fix_here8 end_branch, mc_mov r8 rsi, mc_mov r9 rdi])])])])"

definition mc_table_copy :: "unit jm" where
  "mc_table_copy = fixed_size_instr 97 (seqJ [mc_pop rcx, mc_mov rsi r8, mc_mov rdi r9, mc_pop rsi, mc_pop rdi,
     bindJ jit_table_size (\<lambda>table_size. mc_mov_imm32 table_size eax), mc_sub rcx rax, mc_cmp rax rsi,
     mc_fix_to (mc_branchcc32 op_JG) jc_memory_handler, mc_cmp rax rdi, mc_fix_to (mc_branchcc32 op_JG) jc_memory_handler,
     withJ jit_indirect_table (\<lambda>indirect. withJ jv_page (\<lambda>page. if indirect
     then mc_mov (at_disp r8 (table_offset page)) rax else mc2 op_LEA (at_disp r8 (table_offset page)) rax)),
     mc1_imm8 op_SHL_imm8 4 rsi, mc1_imm8 op_SHL_imm8 4 rdi, mc1_imm8 op_SHL_imm8 4 rcx, mc_add rax rsi, mc_add rax rdi,
     mc_mov rdi rax, mc_sub rsi rax, bindJ (mc_branch8 op_JBE) (\<lambda>cmp1. seqJ [mc2 op_CMP rcx rax,
     bindJ (mc_branch8 op_JAE) (\<lambda>cmp2. seqJ [mc2 op_LEA (at_sib rcx rsi (- 1)) rsi, mc2 op_LEA (at_sib rcx rdi (- 1)) rdi,
     mc0 op_STD, mc_bytes [0xf3], mc0 (Ia32 W0 [0xa4] None), mc0 op_CLD, mc0 op_JMP_8, bindJ mc_branch_target8 (\<lambda>end_branch.
     seqJ [mc_fix_here8 cmp1, mc_fix_here8 cmp2, mc_bytes [0xf3], mc0 (Ia32 W0 [0xa4] None), mc_fix_here8 end_branch, mc_mov r8 rsi,
     mc_mov r9 rdi])])])])"

lemmas int_emitters [jit_emitters] =
  mc_nop_def mc_block_def mc_i32_load_def mc_i64_load_def mc_f32_load_def mc_f64_load_def mc_i32_load8_s_def
  mc_i32_load16_s_def mc_i32_load8_u_def mc_i32_load16_u_def mc_i64_load8_s_def mc_i64_load16_s_def mc_i64_load32_s_def
  mc_i64_load8_u_def mc_i64_load16_u_def mc_i64_load32_u_def mc_i32_store_def mc_i64_store_def mc_f32_store_def
  mc_f64_store_def mc_i32_store8_def mc_i32_store16_def mc_i64_store8_def mc_i64_store16_def mc_i64_store32_def
  mc_current_memory_def mc_grow_memory_def mc_memory_init_def mc_data_drop_def mc_table_init_def mc_elem_drop_def
  mc_i32_eqz_def mc_i32_eq_def mc_i32_ne_def mc_i32_lt_s_def mc_i32_lt_u_def mc_i32_gt_s_def mc_i32_gt_u_def
  mc_i32_le_s_def mc_i32_le_u_def mc_i32_ge_s_def mc_i32_ge_u_def mc_i64_eqz_def mc_i64_eq_def mc_i64_ne_def
  mc_i64_lt_s_def mc_i64_lt_u_def mc_i64_gt_s_def mc_i64_gt_u_def mc_i64_le_s_def mc_i64_le_u_def mc_i64_ge_s_def
  mc_i64_ge_u_def mc_i32_clz_def mc_i32_ctz_def mc_i32_popcnt_def mc_i32_add_def mc_i32_sub_def mc_i32_mul_def
  mc_i32_div_s_def mc_i32_div_u_def mc_i32_rem_s_def mc_i32_rem_u_def mc_i32_and_def mc_i32_or_def mc_i32_xor_def
  mc_i32_shl_def mc_i32_shr_s_def mc_i32_shr_u_def mc_i32_rotl_def mc_i32_rotr_def mc_i64_clz_def mc_i64_ctz_def
  mc_i64_popcnt_def mc_i64_add_def mc_i64_sub_def mc_i64_mul_def mc_i64_div_s_def mc_i64_div_u_def mc_i64_rem_s_def
  mc_i64_rem_u_def mc_i64_and_def mc_i64_or_def mc_i64_xor_def mc_i64_shl_def mc_i64_shr_s_def mc_i64_shr_u_def
  mc_i64_rotl_def mc_i64_rotr_def mc_i32_wrap_i64_def mc_i32_extend8_s_def mc_i32_extend16_s_def mc_i64_extend_s_i32_def
  mc_i64_extend_u_i32_def mc_i64_extend8_s_def mc_i64_extend16_s_def mc_i64_extend32_s_def mc_error_def
  mc_memory_fill_def mc_memory_copy_def mc_table_copy_def

end
