(* ===== verification/Vm_Jit_Float.thy ===== *)
theory Vm_Jit_Float
  imports Vm_Jit_Emit
begin

text \<open>
  The emitters for floating point and for conversions: a call of the softfloat function in builds that use
  it, otherwise instructions of the processor.  The name of the function \<open>CHOOSE_FN(f)\<close> is the string \<open>f\<close>.
\<close>

definition mc_f32_eq :: "unit jm" where
  "mc_f32_eq = softfloat_instr 25 45 59 (mc_f32_relop 0x00 ''_eosio_f32_eq'' False False)"

definition mc_f32_ne :: "unit jm" where
  "mc_f32_ne = softfloat_instr 24 47 61 (mc_f32_relop 0x00 ''_eosio_f32_eq'' False True)"

definition mc_f32_lt :: "unit jm" where
  "mc_f32_lt = softfloat_instr 25 45 59 (mc_f32_relop 0x01 ''_eosio_f32_lt'' False False)"

definition mc_f32_gt :: "unit jm" where
  "mc_f32_gt = softfloat_instr 25 45 59 (mc_f32_relop 0x01 ''_eosio_f32_lt'' True False)"

definition mc_f32_le :: "unit jm" where
  "mc_f32_le = softfloat_instr 25 45 59 (mc_f32_relop 0x02 ''_eosio_f32_le'' False False)"

definition mc_f32_ge :: "unit jm" where
  "mc_f32_ge = softfloat_instr 25 45 59 (mc_f32_relop 0x02 ''_eosio_f32_le'' True False)"

definition mc_f64_eq :: "unit jm" where
  "mc_f64_eq = softfloat_instr 25 47 61 (mc_f64_relop 0x00 ''_eosio_f64_eq'' False False)"

definition mc_f64_ne :: "unit jm" where
  "mc_f64_ne = softfloat_instr 24 49 63 (mc_f64_relop 0x00 ''_eosio_f64_eq'' False True)"

definition mc_f64_lt :: "unit jm" where
  "mc_f64_lt = softfloat_instr 25 47 61 (mc_f64_relop 0x01 ''_eosio_f64_lt'' False False)"

definition mc_f64_gt :: "unit jm" where
  "mc_f64_gt = softfloat_instr 25 47 61 (mc_f64_relop 0x01 ''_eosio_f64_lt'' True False)"

definition mc_f64_le :: "unit jm" where
  "mc_f64_le = softfloat_instr 25 47 61 (mc_f64_relop 0x02 ''_eosio_f64_le'' False False)"

definition mc_f64_ge :: "unit jm" where
  "mc_f64_ge = softfloat_instr 25 47 61 (mc_f64_relop 0x02 ''_eosio_f64_le'' True False)"

definition mc_f32_abs :: "unit jm" where
  "mc_f32_abs = fixed_size_instr 7 (seqJ [mc_bytes [0x58], mc_bytes [0x25], mc_operand32 0x7fffffff, mc_bytes [0x50]])"

definition mc_f32_neg :: "unit jm" where
  "mc_f32_neg = fixed_size_instr 7 (seqJ [mc_bytes [0x58], mc_bytes [0x35], mc_operand32 0x80000000, mc_bytes [0x50]])"

definition mc_f32_ceil :: "unit jm" where
  "mc_f32_ceil = softfloat_instr 12 36 54 (withJ jv_softfloat (\<lambda>soft. if soft then withJ (\<lambda>env.
     m_eosio_fp (jv_mod env)) (\<lambda>fp. if fp then mc_softfloat_unop 4 4 ''_eosio_f32_ceil<false>''
     else mc_softfloat_unop 4 4 ''_eosio_f32_ceil<true>'') else seqJ [mc_bytes [0x66, 0x0f, 0x3a, 0x0a, 0x04, 0x24, 0x0a],
     mc_bytes [0xf3, 0x0f, 0x11, 0x04, 0x24]]))"

definition mc_f32_floor :: "unit jm" where
  "mc_f32_floor = softfloat_instr 12 36 54 (withJ jv_softfloat (\<lambda>soft. if soft then withJ (\<lambda>env.
     m_eosio_fp (jv_mod env)) (\<lambda>fp. if fp then mc_softfloat_unop 4 4 ''_eosio_f32_floor<false>''
     else mc_softfloat_unop 4 4 ''_eosio_f32_floor<true>'') else seqJ [mc_bytes [0x66, 0x0f, 0x3a, 0x0a, 0x04, 0x24, 0x09],
     mc_bytes [0xf3, 0x0f, 0x11, 0x04, 0x24]]))"

definition mc_f32_trunc :: "unit jm" where
  "mc_f32_trunc = softfloat_instr 12 36 54 (withJ jv_softfloat (\<lambda>soft. if soft then withJ (\<lambda>env.
     m_eosio_fp (jv_mod env)) (\<lambda>fp. if fp then mc_softfloat_unop 4 4 ''_eosio_f32_trunc<false>''
     else mc_softfloat_unop 4 4 ''_eosio_f32_trunc<true>'') else seqJ [mc_bytes [0x66, 0x0f, 0x3a, 0x0a, 0x04, 0x24, 0x0b],
     mc_bytes [0xf3, 0x0f, 0x11, 0x04, 0x24]]))"

definition mc_f32_nearest :: "unit jm" where
  "mc_f32_nearest = softfloat_instr 12 36 54 (withJ jv_softfloat (\<lambda>soft. if soft then withJ (\<lambda>env.
     m_eosio_fp (jv_mod env)) (\<lambda>fp. if fp then mc_softfloat_unop 4 4 ''_eosio_f32_nearest<false>''
     else mc_softfloat_unop 4 4 ''_eosio_f32_nearest<true>'') else seqJ [mc_bytes [0x66, 0x0f, 0x3a, 0x0a, 0x04, 0x24, 0x08],
     mc_bytes [0xf3, 0x0f, 0x11, 0x04, 0x24]]))"

definition mc_f32_sqrt :: "unit jm" where
  "mc_f32_sqrt = softfloat_instr 10 36 54 (withJ jv_softfloat (\<lambda>soft. if soft then mc_softfloat_unop 4 4 ''_eosio_f32_sqrt''
     else seqJ [mc_bytes [0xf3, 0x0f, 0x51, 0x04, 0x24], mc_bytes [0xf3, 0x0f, 0x11, 0x04, 0x24]]))"

definition mc_f32_add :: "unit jm" where
  "mc_f32_add = softfloat_instr 21 44 58 (mc_f32_binop 0x58 ''_eosio_f32_add'')"

definition mc_f32_sub :: "unit jm" where
  "mc_f32_sub = softfloat_instr 21 44 58 (mc_f32_binop 0x5c ''_eosio_f32_sub'')"

definition mc_f32_mul :: "unit jm" where
  "mc_f32_mul = softfloat_instr 21 44 58 (mc_f32_binop 0x59 ''_eosio_f32_mul'')"

definition mc_f32_div :: "unit jm" where
  "mc_f32_div = softfloat_instr 21 44 58 (mc_f32_binop 0x5e ''_eosio_f32_div'')"

definition mc_f32_min :: "unit jm" where
  "mc_f32_min = softfloat_instr 47 44 58 (withJ jv_softfloat (\<lambda>soft. if soft then withJ (\<lambda>env.
     m_eosio_fp (jv_mod env)) (\<lambda>fp. if fp then mc_f32_binop_softfloat ''_eosio_f32_min<false>''
     else mc_f32_binop_softfloat ''_eosio_f32_min<true>'') else seqJ [mc_bytes [0x8b, 0x04, 0x24], mc_bytes [0x85, 0xc0],
     mc_bytes [0x0f, 0x84], bindJ mc_branch_target32 (\<lambda>zero. seqJ [mc_bytes [0xf3, 0x0f, 0x10, 0x44, 0x24, 0x08],
     mc_bytes [0xf3, 0x0f, 0x5d, 0x04, 0x24], mc_bytes [0xe9], bindJ mc_branch_target32 (\<lambda>done. seqJ [mc_fix_here zero,
     mc_bytes [0xf3, 0x0f, 0x10, 0x04, 0x24], mc_bytes [0xf3, 0x0f, 0x5d, 0x44, 0x24, 0x08], mc_fix_here done, mc_bytes [0x48, 0x83,
     0xc4, 0x08], mc_bytes [0xf3, 0x0f, 0x11, 0x04, 0x24]])])]))"

definition mc_f32_max :: "unit jm" where
  "mc_f32_max = softfloat_instr 47 44 58 (withJ jv_softfloat (\<lambda>soft. if soft then withJ (\<lambda>env.
     m_eosio_fp (jv_mod env)) (\<lambda>fp. if fp then mc_f32_binop_softfloat ''_eosio_f32_max<false>''
     else mc_f32_binop_softfloat ''_eosio_f32_max<true>'') else seqJ [mc_bytes [0x8b, 0x04, 0x24], mc_bytes [0x85, 0xc0],
     mc_bytes [0x0f, 0x84], bindJ mc_branch_target32 (\<lambda>zero. seqJ [mc_bytes [0xf3, 0x0f, 0x10, 0x04, 0x24], mc_bytes [0xf3,
     0x0f, 0x5f, 0x44, 0x24, 0x08], mc_bytes [0xe9], bindJ mc_branch_target32 (\<lambda>done. seqJ [mc_fix_here zero, mc_bytes [0xf3,
     0x0f, 0x10, 0x44, 0x24, 0x08], mc_bytes [0xf3, 0x0f, 0x5f, 0x04, 0x24], mc_fix_here done, mc_bytes [0x48, 0x83, 0xc4, 0x08],
     mc_bytes [0xf3, 0x0f, 0x11, 0x04, 0x24]])])]))"

definition mc_f32_copysign :: "unit jm" where
  "mc_f32_copysign = fixed_size_instr 16 (seqJ [mc_bytes [0x58], mc_bytes [0x25], mc_operand32 0x80000000, mc_bytes [0x59], mc_bytes [0x81, 0xe1],
     mc_operand32 0x7fffffff, mc_bytes [0x09, 0xc8], mc_bytes [0x50]])"

definition mc_f64_abs :: "unit jm" where
  "mc_f64_abs = fixed_size_instr 15 (seqJ [mc_bytes [0x59], mc_bytes [0x48, 0xb8], mc_operand64 0x7fffffffffffffff, mc_bytes [0x48, 0x21, 0xc8],
     mc_bytes [0x50]])"

definition mc_f64_neg :: "unit jm" where
  "mc_f64_neg = fixed_size_instr 15 (seqJ [mc_bytes [0x59], mc_bytes [0x48, 0xb8], mc_operand64 0x8000000000000000, mc_bytes [0x48, 0x31, 0xc8],
     mc_bytes [0x50]])"

definition mc_f64_ceil :: "unit jm" where
  "mc_f64_ceil = softfloat_instr 12 38 56 (withJ jv_softfloat (\<lambda>soft. if soft then withJ (\<lambda>env.
     m_eosio_fp (jv_mod env)) (\<lambda>fp. if fp then mc_softfloat_unop 8 8 ''_eosio_f64_ceil<false>''
     else mc_softfloat_unop 8 8 ''_eosio_f64_ceil<true>'') else seqJ [mc_bytes [0x66, 0x0f, 0x3a, 0x0b, 0x04, 0x24, 0x0a],
     mc_bytes [0xf2, 0x0f, 0x11, 0x04, 0x24]]))"

definition mc_f64_floor :: "unit jm" where
  "mc_f64_floor = softfloat_instr 12 38 56 (withJ jv_softfloat (\<lambda>soft. if soft then withJ (\<lambda>env.
     m_eosio_fp (jv_mod env)) (\<lambda>fp. if fp then mc_softfloat_unop 8 8 ''_eosio_f64_floor<false>''
     else mc_softfloat_unop 8 8 ''_eosio_f64_floor<true>'') else seqJ [mc_bytes [0x66, 0x0f, 0x3a, 0x0b, 0x04, 0x24, 0x09],
     mc_bytes [0xf2, 0x0f, 0x11, 0x04, 0x24]]))"

definition mc_f64_trunc :: "unit jm" where
  "mc_f64_trunc = softfloat_instr 12 38 56 (withJ jv_softfloat (\<lambda>soft. if soft then withJ (\<lambda>env.
     m_eosio_fp (jv_mod env)) (\<lambda>fp. if fp then mc_softfloat_unop 8 8 ''_eosio_f64_trunc<false>''
     else mc_softfloat_unop 8 8 ''_eosio_f64_trunc<true>'') else seqJ [mc_bytes [0x66, 0x0f, 0x3a, 0x0b, 0x04, 0x24, 0x0b],
     mc_bytes [0xf2, 0x0f, 0x11, 0x04, 0x24]]))"

definition mc_f64_nearest :: "unit jm" where
  "mc_f64_nearest = softfloat_instr 12 38 56 (withJ jv_softfloat (\<lambda>soft. if soft then withJ (\<lambda>env.
     m_eosio_fp (jv_mod env)) (\<lambda>fp. if fp then mc_softfloat_unop 8 8 ''_eosio_f64_nearest<false>''
     else mc_softfloat_unop 8 8 ''_eosio_f64_nearest<true>'') else seqJ [mc_bytes [0x66, 0x0f, 0x3a, 0x0b, 0x04, 0x24, 0x08],
     mc_bytes [0xf2, 0x0f, 0x11, 0x04, 0x24]]))"

definition mc_f64_sqrt :: "unit jm" where
  "mc_f64_sqrt = softfloat_instr 10 38 56 (withJ jv_softfloat (\<lambda>soft. if soft then mc_softfloat_unop 8 8 ''_eosio_f64_sqrt''
     else seqJ [mc_bytes [0xf2, 0x0f, 0x51, 0x04, 0x24], mc_bytes [0xf2, 0x0f, 0x11, 0x04, 0x24]]))"

definition mc_f64_add :: "unit jm" where
  "mc_f64_add = softfloat_instr 21 47 61 (mc_f64_binop 0x58 ''_eosio_f64_add'')"

definition mc_f64_sub :: "unit jm" where
  "mc_f64_sub = softfloat_instr 21 47 61 (mc_f64_binop 0x5c ''_eosio_f64_sub'')"

definition mc_f64_mul :: "unit jm" where
  "mc_f64_mul = softfloat_instr 21 47 61 (mc_f64_binop 0x59 ''_eosio_f64_mul'')"

definition mc_f64_div :: "unit jm" where
  "mc_f64_div = softfloat_instr 21 47 61 (mc_f64_binop 0x5e ''_eosio_f64_div'')"

definition mc_f64_min :: "unit jm" where
  "mc_f64_min = softfloat_instr 49 47 61 (withJ jv_softfloat (\<lambda>soft. if soft then withJ (\<lambda>env.
     m_eosio_fp (jv_mod env)) (\<lambda>fp. if fp then mc_f64_binop_softfloat ''_eosio_f64_min<false>''
     else mc_f64_binop_softfloat ''_eosio_f64_min<true>'') else seqJ [mc_bytes [0x48, 0x8b, 0x04, 0x24], mc_bytes [0x48, 0x85, 0xc0],
     mc_bytes [0x0f, 0x84], bindJ mc_branch_target32 (\<lambda>zero. seqJ [mc_bytes [0xf2, 0x0f, 0x10, 0x44, 0x24, 0x08],
     mc_bytes [0xf2, 0x0f, 0x5d, 0x04, 0x24], mc_bytes [0xe9], bindJ mc_branch_target32 (\<lambda>done. seqJ [mc_fix_here zero,
     mc_bytes [0xf2, 0x0f, 0x10, 0x04, 0x24], mc_bytes [0xf2, 0x0f, 0x5d, 0x44, 0x24, 0x08], mc_fix_here done, mc_bytes [0x48, 0x83,
     0xc4, 0x08], mc_bytes [0xf2, 0x0f, 0x11, 0x04, 0x24]])])]))"

definition mc_f64_max :: "unit jm" where
  "mc_f64_max = softfloat_instr 49 47 61 (withJ jv_softfloat (\<lambda>soft. if soft then withJ (\<lambda>env.
     m_eosio_fp (jv_mod env)) (\<lambda>fp. if fp then mc_f64_binop_softfloat ''_eosio_f64_max<false>''
     else mc_f64_binop_softfloat ''_eosio_f64_max<true>'') else seqJ [mc_bytes [0x48, 0x8b, 0x04, 0x24], mc_bytes [0x48, 0x85, 0xc0],
     mc_bytes [0x0f, 0x84], bindJ mc_branch_target32 (\<lambda>zero. seqJ [mc_bytes [0xf2, 0x0f, 0x10, 0x04, 0x24], mc_bytes [0xf2,
     0x0f, 0x5f, 0x44, 0x24, 0x08], mc_bytes [0xe9], bindJ mc_branch_target32 (\<lambda>done. seqJ [mc_fix_here zero, mc_bytes [0xf2,
     0x0f, 0x10, 0x44, 0x24, 0x08], mc_bytes [0xf2, 0x0f, 0x5f, 0x04, 0x24], mc_fix_here done, mc_bytes [0x48, 0x83, 0xc4, 0x08],
     mc_bytes [0xf2, 0x0f, 0x11, 0x04, 0x24]])])]))"

definition mc_f64_copysign :: "unit jm" where
  "mc_f64_copysign = fixed_size_instr 25 (seqJ [mc_bytes [0x59], mc_bytes [0x48, 0xb8], mc_operand64 0x8000000000000000, mc_bytes [0x48, 0x21, 0xc1],
     mc_bytes [0x5a], mc_bytes [0x48, 0xf7, 0xd0], mc_bytes [0x48, 0x21, 0xd0], mc_bytes [0x48, 0x09, 0xc8], mc_bytes [0x50]])"

definition mc_i32_trunc_s_f32 :: "unit jm" where
  "mc_i32_trunc_s_f32 = softfloat_instr 33 36 54 (withJ jv_softfloat (\<lambda>soft. if soft
     then mc_softfloat_unop 4 4 ''softfloat_trap<&_eosio_f32_trunc_i32s>()'' else seqJ [mc_f2i [0xf3, 0x0f, 0x2c, 0x44, 0x24, 0x08],
     mc_bytes [0x89, 0x04, 0x24]]))"

definition mc_i32_trunc_u_f32 :: "unit jm" where
  "mc_i32_trunc_u_f32 = softfloat_instr 46 36 54 (withJ jv_softfloat (\<lambda>soft. if soft
     then mc_softfloat_unop 4 4 ''softfloat_trap<&_eosio_f32_trunc_i32u>()'' else seqJ [mc_f2i [0xf3, 0x48, 0x0f, 0x2c, 0x44, 0x24,
     0x08], mc_bytes [0x89, 0x04, 0x24], mc_bytes [0x48, 0xc1, 0xe8, 0x20], mc_bytes [0x85, 0xc0], mc_bytes [0x0f, 0x85],
     mc_fix_to mc_branch_target32 jc_fpe_handler]))"

definition mc_i32_trunc_s_f64 :: "unit jm" where
  "mc_i32_trunc_s_f64 = softfloat_instr 34 38 56 (withJ jv_softfloat (\<lambda>soft. if soft then withJ (\<lambda>env.
     m_eosio_fp (jv_mod env)) (\<lambda>fp. if fp then mc_softfloat_unop 8 8 ''softfloat_trap<&_eosio_f64_trunc_i32s<false>>()''
     else mc_softfloat_unop 8 8 ''softfloat_trap<&_eosio_f64_trunc_i32s<true>>()'') else seqJ [mc_f2i [0xf2, 0x0f, 0x2c, 0x44, 0x24,
     0x08], mc_bytes [0x48, 0x89, 0x04, 0x24]]))"

definition mc_i32_trunc_u_f64 :: "unit jm" where
  "mc_i32_trunc_u_f64 = softfloat_instr 47 38 56 (withJ jv_softfloat (\<lambda>soft. if soft
     then mc_softfloat_unop 8 8 ''softfloat_trap<&_eosio_f64_trunc_i32u>()'' else seqJ [mc_f2i [0xf2, 0x48, 0x0f, 0x2c, 0x44, 0x24,
     0x08], mc_bytes [0x48, 0x89, 0x04, 0x24], mc_bytes [0x48, 0xc1, 0xe8, 0x20], mc_bytes [0x85, 0xc0], mc_bytes [0x0f, 0x85],
     mc_fix_to mc_branch_target32 jc_fpe_handler]))"

definition mc_i32_trunc_sat_f32_s :: "unit jm" where
  "mc_i32_trunc_sat_f32_s = mc_softfloat_unop 4 4 ''_eosio_i32_trunc_sat_f32_s''"

definition mc_i32_trunc_sat_f32_u :: "unit jm" where
  "mc_i32_trunc_sat_f32_u = mc_softfloat_unop 4 4 ''_eosio_i32_trunc_sat_f32_u''"

definition mc_i32_trunc_sat_f64_s :: "unit jm" where
  "mc_i32_trunc_sat_f64_s = mc_softfloat_unop 8 8 ''_eosio_i32_trunc_sat_f64_s''"

definition mc_i32_trunc_sat_f64_u :: "unit jm" where
  "mc_i32_trunc_sat_f64_u = mc_softfloat_unop 8 8 ''_eosio_i32_trunc_sat_f64_u''"

definition mc_i64_trunc_s_f32 :: "unit jm" where
  "mc_i64_trunc_s_f32 = softfloat_instr 35 37 55 (withJ jv_softfloat (\<lambda>soft. if soft
     then mc_softfloat_unop 8 4 ''softfloat_trap<&_eosio_f32_trunc_i64s>()'' else seqJ [mc_f2i [0xf3, 0x48, 0x0f, 0x2c, 0x44, 0x24,
     0x08], mc_bytes [0x48, 0x89, 0x04, 0x24]]))"

definition mc_i64_trunc_u_f32 :: "unit jm" where
  "mc_i64_trunc_u_f32 = softfloat_instr 101 37 55 (withJ jv_softfloat (\<lambda>soft. if soft
     then mc_softfloat_unop 8 4 ''softfloat_trap<&_eosio_f32_trunc_i64u>()'' else seqJ [mc_bytes [0xb8], mc_operand32 0x5f000000,
     mc_bytes [0xf3, 0x0f, 0x10, 0x04, 0x24], mc_bytes [0x89, 0x04, 0x24], mc_bytes [0xf3, 0x0f, 0x10, 0x0c, 0x24], mc_bytes [0x0f,
     0x28, 0xd0], mc_bytes [0xf3, 0x0f, 0x5c, 0xd1], mc_f2i [0xf3, 0x48, 0x0f, 0x2c, 0xc2], mc_bytes [0x48, 0xb9],
     mc_operand64 0x8000000000000000, mc_bytes [0x48, 0x31, 0xc1], mc_bytes [0xf3, 0x48, 0x0f, 0x2c, 0xc0], mc_bytes [0x48, 0x31,
     0xd2], mc_bytes [0x0f, 0x2e, 0xc8], mc_bytes [0x48, 0x0f, 0x47, 0xd0], mc_bytes [0x48, 0x0f, 0x46, 0xc1], mc_bytes [0x48, 0x89,
     0x04, 0x24], mc_bytes [0x48, 0x0f, 0xba, 0xe2, 0x3f], mc_bytes [0x0f, 0x82], mc_fix_to mc_branch_target32 jc_fpe_handler]))"

definition mc_i64_trunc_s_f64 :: "unit jm" where
  "mc_i64_trunc_s_f64 = softfloat_instr 35 38 56 (withJ jv_softfloat (\<lambda>soft. if soft
     then mc_softfloat_unop 8 8 ''softfloat_trap<&_eosio_f64_trunc_i64s>()'' else seqJ [mc_f2i [0xf2, 0x48, 0x0f, 0x2c, 0x44, 0x24,
     0x08], mc_bytes [0x48, 0x89, 0x04, 0x24]]))"

definition mc_i64_trunc_u_f64 :: "unit jm" where
  "mc_i64_trunc_u_f64 = softfloat_instr 109 38 56 (withJ jv_softfloat (\<lambda>soft. if soft
     then mc_softfloat_unop 8 8 ''softfloat_trap<&_eosio_f64_trunc_i64u>()'' else seqJ [mc_bytes [0x48, 0xb8],
     mc_operand64 0x43e0000000000000, mc_bytes [0xf2, 0x0f, 0x10, 0x04, 0x24], mc_bytes [0x48, 0x89, 0x04, 0x24], mc_bytes [0xf2,
     0x0f, 0x10, 0x0c, 0x24], mc_bytes [0x66, 0x0f, 0x28, 0xd0], mc_bytes [0xf2, 0x0f, 0x5c, 0xd1], mc_f2i [0xf2, 0x48, 0x0f, 0x2c,
     0xc2], mc_bytes [0x48, 0xb9], mc_operand64 0x8000000000000000, mc_bytes [0x48, 0x31, 0xc1], mc_bytes [0xf2, 0x48, 0x0f, 0x2c,
     0xc0], mc_bytes [0x48, 0x31, 0xd2], mc_bytes [0x66, 0x0f, 0x2e, 0xc8], mc_bytes [0x48, 0x0f, 0x47, 0xd0], mc_bytes [0x48, 0x0f,
     0x46, 0xc1], mc_bytes [0x48, 0x89, 0x04, 0x24], mc_bytes [0x48, 0x0f, 0xba, 0xe2, 0x3f], mc_bytes [0x0f, 0x82],
     mc_fix_to mc_branch_target32 jc_fpe_handler]))"

definition mc_i64_trunc_sat_f32_s :: "unit jm" where
  "mc_i64_trunc_sat_f32_s = mc_softfloat_unop 8 4 ''_eosio_i64_trunc_sat_f32_s''"

definition mc_i64_trunc_sat_f32_u :: "unit jm" where
  "mc_i64_trunc_sat_f32_u = mc_softfloat_unop 8 4 ''_eosio_i64_trunc_sat_f32_u''"

definition mc_i64_trunc_sat_f64_s :: "unit jm" where
  "mc_i64_trunc_sat_f64_s = mc_softfloat_unop 8 8 ''_eosio_i64_trunc_sat_f64_s''"

definition mc_i64_trunc_sat_f64_u :: "unit jm" where
  "mc_i64_trunc_sat_f64_u = mc_softfloat_unop 8 8 ''_eosio_i64_trunc_sat_f64_u''"

definition mc_f32_convert_s_i32 :: "unit jm" where
  "mc_f32_convert_s_i32 = softfloat_instr 10 36 54 (withJ jv_softfloat (\<lambda>soft. if soft then mc_softfloat_unop 4 4 ''_eosio_i32_to_f32''
     else seqJ [mc_bytes [0xf3, 0x0f, 0x2a, 0x04, 0x24], mc_bytes [0xf3, 0x0f, 0x11, 0x04, 0x24]]))"

definition mc_f32_convert_u_i32 :: "unit jm" where
  "mc_f32_convert_u_i32 = softfloat_instr 11 36 54 (withJ jv_softfloat (\<lambda>soft. if soft then mc_softfloat_unop 4 4 ''_eosio_ui32_to_f32''
     else seqJ [mc_bytes [0xf3, 0x48, 0x0f, 0x2a, 0x04, 0x24], mc_bytes [0xf3, 0x0f, 0x11, 0x04, 0x24]]))"

definition mc_f32_convert_s_i64 :: "unit jm" where
  "mc_f32_convert_s_i64 = softfloat_instr 11 38 56 (withJ jv_softfloat (\<lambda>soft. if soft then mc_softfloat_unop 8 8 ''_eosio_i64_to_f32''
     else seqJ [mc_bytes [0xf3, 0x48, 0x0f, 0x2a, 0x04, 0x24], mc_bytes [0xf3, 0x0f, 0x11, 0x04, 0x24]]))"

definition mc_f32_convert_u_i64 :: "unit jm" where
  "mc_f32_convert_u_i64 = softfloat_instr 55 38 56 (withJ jv_softfloat (\<lambda>soft. if soft then mc_softfloat_unop 8 8 ''_eosio_ui64_to_f32''
     else seqJ [mc_bytes [0x48, 0x8b, 0x04, 0x24], mc_bytes [0x48, 0x85, 0xc0], mc_bytes [0x0f, 0x88],
     bindJ mc_branch_target32 (\<lambda>large. seqJ [mc_bytes [0xf3, 0x48, 0x0f, 0x2a, 0xc0], mc_bytes [0xe9],
     bindJ mc_branch_target32 (\<lambda>done. seqJ [mc_fix_here large, mc_bytes [0x48, 0x89, 0xc1], mc_bytes [0x48, 0xd1, 0xe8],
     mc_bytes [0x83, 0xe1, 0x01], mc_bytes [0x48, 0x09, 0xc8], mc_bytes [0xf3, 0x48, 0x0f, 0x2a, 0xc0], mc_bytes [0xf3, 0x0f, 0x58,
     0xc0], mc_fix_here done, mc_bytes [0x31, 0xc0], mc_bytes [0x89, 0x44, 0x24, 0x04], mc_bytes [0xf3, 0x0f, 0x11, 0x04,
     0x24]])])]))"

definition mc_f32_demote_f64 :: "unit jm" where
  "mc_f32_demote_f64 = softfloat_instr 16 38 56 (withJ jv_softfloat (\<lambda>soft. if soft then mc_softfloat_unop 8 8 ''_eosio_f64_demote''
     else seqJ [mc_bytes [0xf2, 0x0f, 0x5a, 0x04, 0x24], mc_bytes [0xf3, 0x0f, 0x11, 0x04, 0x24], mc_bytes [0x31, 0xc0],
     mc_bytes [0x89, 0x44, 0x24, 0x04]]))"

definition mc_f64_convert_s_i32 :: "unit jm" where
  "mc_f64_convert_s_i32 = softfloat_instr 10 37 55 (withJ jv_softfloat (\<lambda>soft. if soft then mc_softfloat_unop 8 4 ''_eosio_i32_to_f64''
     else seqJ [mc_bytes [0xf2, 0x0f, 0x2a, 0x04, 0x24], mc_bytes [0xf2, 0x0f, 0x11, 0x04, 0x24]]))"

definition mc_f64_convert_u_i32 :: "unit jm" where
  "mc_f64_convert_u_i32 = softfloat_instr 11 37 55 (withJ jv_softfloat (\<lambda>soft. if soft then mc_softfloat_unop 8 4 ''_eosio_ui32_to_f64''
     else seqJ [mc_bytes [0xf2, 0x48, 0x0f, 0x2a, 0x04, 0x24], mc_bytes [0xf2, 0x0f, 0x11, 0x04, 0x24]]))"

definition mc_f64_convert_s_i64 :: "unit jm" where
  "mc_f64_convert_s_i64 = softfloat_instr 11 38 56 (withJ jv_softfloat (\<lambda>soft. if soft then mc_softfloat_unop 8 8 ''_eosio_i64_to_f64''
     else seqJ [mc_bytes [0xf2, 0x48, 0x0f, 0x2a, 0x04, 0x24], mc_bytes [0xf2, 0x0f, 0x11, 0x04, 0x24]]))"

definition mc_f64_convert_u_i64 :: "unit jm" where
  "mc_f64_convert_u_i64 = softfloat_instr 49 38 56 (withJ jv_softfloat (\<lambda>soft. if soft then mc_softfloat_unop 8 8 ''_eosio_ui64_to_f64''
     else seqJ [mc_bytes [0x48, 0x8b, 0x04, 0x24], mc_bytes [0x48, 0x85, 0xc0], mc_bytes [0x0f, 0x88],
     bindJ mc_branch_target32 (\<lambda>large. seqJ [mc_bytes [0xf2, 0x48, 0x0f, 0x2a, 0xc0], mc_bytes [0xe9],
     bindJ mc_branch_target32 (\<lambda>done. seqJ [mc_fix_here large, mc_bytes [0x48, 0x89, 0xc1], mc_bytes [0x48, 0xd1, 0xe8],
     mc_bytes [0x83, 0xe1, 0x01], mc_bytes [0x48, 0x09, 0xc8], mc_bytes [0xf2, 0x48, 0x0f, 0x2a, 0xc0], mc_bytes [0xf2, 0x0f, 0x58,
     0xc0], mc_fix_here done, mc_bytes [0xf2, 0x0f, 0x11, 0x04, 0x24]])])]))"

definition mc_f64_promote_f32 :: "unit jm" where
  "mc_f64_promote_f32 = softfloat_instr 10 37 55 (withJ jv_softfloat (\<lambda>soft. if soft then mc_softfloat_unop 8 4 ''_eosio_f32_promote''
     else seqJ [mc_bytes [0xf3, 0x0f, 0x5a, 0x04, 0x24], mc_bytes [0xf2, 0x0f, 0x11, 0x04, 0x24]]))"

definition mc_i32_reinterpret_f32 :: "unit jm" where
  "mc_i32_reinterpret_f32 = retJ ()"

definition mc_i64_reinterpret_f64 :: "unit jm" where
  "mc_i64_reinterpret_f64 = retJ ()"

definition mc_f32_reinterpret_i32 :: "unit jm" where
  "mc_f32_reinterpret_i32 = retJ ()"

definition mc_f64_reinterpret_i64 :: "unit jm" where
  "mc_f64_reinterpret_i64 = retJ ()"

lemmas float_emitters [jit_emitters] =
  mc_f32_eq_def mc_f32_ne_def mc_f32_lt_def mc_f32_gt_def mc_f32_le_def mc_f32_ge_def mc_f64_eq_def mc_f64_ne_def
  mc_f64_lt_def mc_f64_gt_def mc_f64_le_def mc_f64_ge_def mc_f32_abs_def mc_f32_neg_def mc_f32_ceil_def mc_f32_floor_def
  mc_f32_trunc_def mc_f32_nearest_def mc_f32_sqrt_def mc_f32_add_def mc_f32_sub_def mc_f32_mul_def mc_f32_div_def
  mc_f32_min_def mc_f32_max_def mc_f32_copysign_def mc_f64_abs_def mc_f64_neg_def mc_f64_ceil_def mc_f64_floor_def
  mc_f64_trunc_def mc_f64_nearest_def mc_f64_sqrt_def mc_f64_add_def mc_f64_sub_def mc_f64_mul_def mc_f64_div_def
  mc_f64_min_def mc_f64_max_def mc_f64_copysign_def mc_i32_trunc_s_f32_def mc_i32_trunc_u_f32_def mc_i32_trunc_s_f64_def
  mc_i32_trunc_u_f64_def mc_i32_trunc_sat_f32_s_def mc_i32_trunc_sat_f32_u_def mc_i32_trunc_sat_f64_s_def
  mc_i32_trunc_sat_f64_u_def mc_i64_trunc_s_f32_def mc_i64_trunc_u_f32_def mc_i64_trunc_s_f64_def mc_i64_trunc_u_f64_def
  mc_i64_trunc_sat_f32_s_def mc_i64_trunc_sat_f32_u_def mc_i64_trunc_sat_f64_s_def mc_i64_trunc_sat_f64_u_def
  mc_f32_convert_s_i32_def mc_f32_convert_u_i32_def mc_f32_convert_s_i64_def mc_f32_convert_u_i64_def
  mc_f32_demote_f64_def mc_f64_convert_s_i32_def mc_f64_convert_u_i32_def mc_f64_convert_s_i64_def
  mc_f64_convert_u_i64_def mc_f64_promote_f32_def mc_i32_reinterpret_f32_def mc_i64_reinterpret_f64_def
  mc_f32_reinterpret_i32_def mc_f64_reinterpret_i64_def

end
