(* ===== verification/Vm_Jit_Simd.thy ===== *)
theory Vm_Jit_Simd
  imports Vm_Jit_Emit
begin

text \<open>
  The emitters for the vector instructions.
\<close>

definition mc_v128_load :: "u32 \<Rightarrow> u32 \<Rightarrow> unit jm" where
  "mc_v128_load align offset = mc_v128_loadop op_VMOVDQU_A offset"

definition mc_v128_load8x8_s :: "u32 \<Rightarrow> u32 \<Rightarrow> unit jm" where
  "mc_v128_load8x8_s align offset = mc_v128_loadop op_VPMOVSXBW offset"

definition mc_v128_load8x8_u :: "u32 \<Rightarrow> u32 \<Rightarrow> unit jm" where
  "mc_v128_load8x8_u align offset = mc_v128_loadop op_VPMOVZXBW offset"

definition mc_v128_load16x4_s :: "u32 \<Rightarrow> u32 \<Rightarrow> unit jm" where
  "mc_v128_load16x4_s align offset = mc_v128_loadop op_VPMOVSXWD offset"

definition mc_v128_load16x4_u :: "u32 \<Rightarrow> u32 \<Rightarrow> unit jm" where
  "mc_v128_load16x4_u align offset = mc_v128_loadop op_VPMOVZXWD offset"

definition mc_v128_load32x2_s :: "u32 \<Rightarrow> u32 \<Rightarrow> unit jm" where
  "mc_v128_load32x2_s align offset = mc_v128_loadop op_VPMOVSXDQ offset"

definition mc_v128_load32x2_u :: "u32 \<Rightarrow> u32 \<Rightarrow> unit jm" where
  "mc_v128_load32x2_u align offset = mc_v128_loadop op_VPMOVZXDQ offset"

definition mc_v128_load8_splat :: "u32 \<Rightarrow> u32 \<Rightarrow> unit jm" where
  "mc_v128_load8_splat align offset = mc_v128_loadop op_VPBROADCASTB offset"

definition mc_v128_load16_splat :: "u32 \<Rightarrow> u32 \<Rightarrow> unit jm" where
  "mc_v128_load16_splat align offset = mc_v128_loadop op_VPBROADCASTW offset"

definition mc_v128_load32_splat :: "u32 \<Rightarrow> u32 \<Rightarrow> unit jm" where
  "mc_v128_load32_splat align offset = mc_v128_loadop op_VPBROADCASTD offset"

definition mc_v128_load64_splat :: "u32 \<Rightarrow> u32 \<Rightarrow> unit jm" where
  "mc_v128_load64_splat align offset = mc_v128_loadop op_VPBROADCASTQ offset"

definition mc_v128_load32_zero :: "u32 \<Rightarrow> u32 \<Rightarrow> unit jm" where
  "mc_v128_load32_zero align offset = mc_v128_loadop op_VMOVD_A offset"

definition mc_v128_load64_zero :: "u32 \<Rightarrow> u32 \<Rightarrow> unit jm" where
  "mc_v128_load64_zero align offset = mc_v128_loadop op_VMOVQ_A offset"

definition mc_v128_store :: "u32 \<Rightarrow> u32 \<Rightarrow> unit jm" where
  "mc_v128_store align offset = simd_instr (seqJ [mc_vmovups (deref rsp) xmm0, mc_add_imm 16 rsp, mc_pop_address_rax offset, mc_vmovups xmm0 (deref rax)])"

definition mc_v128_load8_lane :: "u32 \<Rightarrow> u32 \<Rightarrow> u8 \<Rightarrow> unit jm" where
  "mc_v128_load8_lane align offset lane = mc_v128_load_laneop op_VPINSRB offset lane"

definition mc_v128_load16_lane :: "u32 \<Rightarrow> u32 \<Rightarrow> u8 \<Rightarrow> unit jm" where
  "mc_v128_load16_lane align offset lane = mc_v128_load_laneop op_VPINSRW offset lane"

definition mc_v128_load32_lane :: "u32 \<Rightarrow> u32 \<Rightarrow> u8 \<Rightarrow> unit jm" where
  "mc_v128_load32_lane align offset lane = mc_v128_load_laneop op_VPINSRD offset lane"

definition mc_v128_load64_lane :: "u32 \<Rightarrow> u32 \<Rightarrow> u8 \<Rightarrow> unit jm" where
  "mc_v128_load64_lane align offset lane = mc_v128_load_laneop op_VPINSRQ offset lane"

definition mc_v128_store8_lane :: "u32 \<Rightarrow> u32 \<Rightarrow> u8 \<Rightarrow> unit jm" where
  "mc_v128_store8_lane align offset lane = mc_v128_store_laneop op_VPEXTRB offset lane"

definition mc_v128_store16_lane :: "u32 \<Rightarrow> u32 \<Rightarrow> u8 \<Rightarrow> unit jm" where
  "mc_v128_store16_lane align offset lane = mc_v128_store_laneop op_VPEXTRW offset lane"

definition mc_v128_store32_lane :: "u32 \<Rightarrow> u32 \<Rightarrow> u8 \<Rightarrow> unit jm" where
  "mc_v128_store32_lane align offset lane = mc_v128_store_laneop op_VPEXTRD offset lane"

definition mc_v128_store64_lane :: "u32 \<Rightarrow> u32 \<Rightarrow> u8 \<Rightarrow> unit jm" where
  "mc_v128_store64_lane align offset lane = mc_v128_store_laneop op_VPEXTRQ offset lane"

definition mc_i8x16_extract_lane_s :: "u8 \<Rightarrow> unit jm" where
  "mc_i8x16_extract_lane_s l = simd_instr (seqJ [mc_vmovdqu (deref rsp) xmm0, mc_add_imm 16 rsp, mc_vpextrb l xmm0 rax, mc2 op_MOVSXB al eax, mc_push rax])"

definition mc_i8x16_extract_lane_u :: "u8 \<Rightarrow> unit jm" where
  "mc_i8x16_extract_lane_u l = mc_v128_extract_laneop op_VPEXTRB l"

definition mc_i8x16_replace_lane :: "u8 \<Rightarrow> unit jm" where
  "mc_i8x16_replace_lane l = mc_v128_replace_laneop op_VPINSRB l"

definition mc_i16x8_extract_lane_s :: "u8 \<Rightarrow> unit jm" where
  "mc_i16x8_extract_lane_s l = simd_instr (seqJ [mc_vmovdqu (deref rsp) xmm0, mc_add_imm 16 rsp, mc_vpextrw l xmm0 rax, mc2 op_MOVSXW ax eax, mc_push rax])"

definition mc_i16x8_extract_lane_u :: "u8 \<Rightarrow> unit jm" where
  "mc_i16x8_extract_lane_u l = mc_v128_extract_laneop op_VPEXTRW l"

definition mc_i16x8_replace_lane :: "u8 \<Rightarrow> unit jm" where
  "mc_i16x8_replace_lane l = mc_v128_replace_laneop op_VPINSRW l"

definition mc_i32x4_extract_lane :: "u8 \<Rightarrow> unit jm" where
  "mc_i32x4_extract_lane l = mc_v128_extract_laneop op_VPEXTRD l"

definition mc_i32x4_replace_lane :: "u8 \<Rightarrow> unit jm" where
  "mc_i32x4_replace_lane l = mc_v128_replace_laneop op_VPINSRD l"

definition mc_i64x2_extract_lane :: "u8 \<Rightarrow> unit jm" where
  "mc_i64x2_extract_lane l = mc_v128_extract_laneop op_VPEXTRQ l"

definition mc_i64x2_replace_lane :: "u8 \<Rightarrow> unit jm" where
  "mc_i64x2_replace_lane l = mc_v128_replace_laneop op_VPINSRQ l"

definition mc_f32x4_extract_lane :: "u8 \<Rightarrow> unit jm" where
  "mc_f32x4_extract_lane l = mc_v128_extract_laneop op_VPEXTRD l"

definition mc_f32x4_replace_lane :: "u8 \<Rightarrow> unit jm" where
  "mc_f32x4_replace_lane l = mc_v128_replace_laneop op_VPINSRD l"

definition mc_f64x2_extract_lane :: "u8 \<Rightarrow> unit jm" where
  "mc_f64x2_extract_lane l = mc_v128_extract_laneop op_VPEXTRQ l"

definition mc_f64x2_replace_lane :: "u8 \<Rightarrow> unit jm" where
  "mc_f64x2_replace_lane l = mc_v128_replace_laneop op_VPINSRQ l"

definition mc_i8x16_swizzle :: "unit jm" where
  "mc_i8x16_swizzle = simd_instr (seqJ [mc_vmovdqu (deref rsp) xmm0, mc_add_imm 16 rsp, mc_mov_imm32 0x70707070 eax, mc_vmovd eax xmm1,
     mc_v2i op_VPSHUFD 0 xmm1 xmm1, mc_v3 op_VPADDUSB xmm1 xmm0 xmm1, mc_vmovdqu (deref rsp) xmm0, mc_v3 op_VPSHUFB xmm1 xmm0 xmm0,
     mc_vmovdqu xmm0 (deref rsp)])"

definition mc_i8x16_splat :: "unit jm" where
  "mc_i8x16_splat = mc_v128_splatop op_VPBROADCASTB"

definition mc_i16x8_splat :: "unit jm" where
  "mc_i16x8_splat = mc_v128_splatop op_VPBROADCASTW"

definition mc_i32x4_splat :: "unit jm" where
  "mc_i32x4_splat = mc_v128_splatop op_VPBROADCASTD"

definition mc_i64x2_splat :: "unit jm" where
  "mc_i64x2_splat = mc_v128_splatop op_VPBROADCASTQ"

definition mc_f32x4_splat :: "unit jm" where
  "mc_f32x4_splat = mc_v128_splatop op_VPBROADCASTD"

definition mc_f64x2_splat :: "unit jm" where
  "mc_f64x2_splat = mc_v128_splatop op_VPBROADCASTQ"

definition mc_i8x16_eq :: "unit jm" where
  "mc_i8x16_eq = mc_v128_irelop_cmp op_VPCMPEQB True False"

definition mc_i8x16_ne :: "unit jm" where
  "mc_i8x16_ne = mc_v128_irelop_cmp op_VPCMPEQB True True"

definition mc_i8x16_lt_s :: "unit jm" where
  "mc_i8x16_lt_s = mc_v128_irelop_cmp op_VPCMPGTB True False"

definition mc_i8x16_lt_u :: "unit jm" where
  "mc_i8x16_lt_u = mc_v128_irelop_minmax op_VPMINUB op_VPCMPEQB False"

definition mc_i8x16_gt_s :: "unit jm" where
  "mc_i8x16_gt_s = mc_v128_irelop_cmp op_VPCMPGTB False False"

definition mc_i8x16_gt_u :: "unit jm" where
  "mc_i8x16_gt_u = mc_v128_irelop_minmax op_VPMAXUB op_VPCMPEQB False"

definition mc_i8x16_le_s :: "unit jm" where
  "mc_i8x16_le_s = mc_v128_irelop_cmp op_VPCMPGTB False True"

definition mc_i8x16_le_u :: "unit jm" where
  "mc_i8x16_le_u = mc_v128_irelop_minmax op_VPMAXUB op_VPCMPEQB True"

definition mc_i8x16_ge_s :: "unit jm" where
  "mc_i8x16_ge_s = mc_v128_irelop_cmp op_VPCMPGTB True True"

definition mc_i8x16_ge_u :: "unit jm" where
  "mc_i8x16_ge_u = mc_v128_irelop_minmax op_VPMINUB op_VPCMPEQB True"

definition mc_i16x8_eq :: "unit jm" where
  "mc_i16x8_eq = mc_v128_irelop_cmp op_VPCMPEQW True False"

definition mc_i16x8_ne :: "unit jm" where
  "mc_i16x8_ne = mc_v128_irelop_cmp op_VPCMPEQW True True"

definition mc_i16x8_lt_s :: "unit jm" where
  "mc_i16x8_lt_s = mc_v128_irelop_cmp op_VPCMPGTW True False"

definition mc_i16x8_lt_u :: "unit jm" where
  "mc_i16x8_lt_u = mc_v128_irelop_minmax op_VPMINUW op_VPCMPEQW False"

definition mc_i16x8_gt_s :: "unit jm" where
  "mc_i16x8_gt_s = mc_v128_irelop_cmp op_VPCMPGTW False False"

definition mc_i16x8_gt_u :: "unit jm" where
  "mc_i16x8_gt_u = mc_v128_irelop_minmax op_VPMAXUW op_VPCMPEQW False"

definition mc_i16x8_le_s :: "unit jm" where
  "mc_i16x8_le_s = mc_v128_irelop_cmp op_VPCMPGTW False True"

definition mc_i16x8_le_u :: "unit jm" where
  "mc_i16x8_le_u = mc_v128_irelop_minmax op_VPMAXUW op_VPCMPEQW True"

definition mc_i16x8_ge_s :: "unit jm" where
  "mc_i16x8_ge_s = mc_v128_irelop_cmp op_VPCMPGTW True True"

definition mc_i16x8_ge_u :: "unit jm" where
  "mc_i16x8_ge_u = mc_v128_irelop_minmax op_VPMINUW op_VPCMPEQW True"

definition mc_i32x4_eq :: "unit jm" where
  "mc_i32x4_eq = mc_v128_irelop_cmp op_VPCMPEQD True False"

definition mc_i32x4_ne :: "unit jm" where
  "mc_i32x4_ne = mc_v128_irelop_cmp op_VPCMPEQD True True"

definition mc_i32x4_lt_s :: "unit jm" where
  "mc_i32x4_lt_s = mc_v128_irelop_cmp op_VPCMPGTD True False"

definition mc_i32x4_lt_u :: "unit jm" where
  "mc_i32x4_lt_u = mc_v128_irelop_minmax op_VPMINUD op_VPCMPEQD False"

definition mc_i32x4_gt_s :: "unit jm" where
  "mc_i32x4_gt_s = mc_v128_irelop_cmp op_VPCMPGTD False False"

definition mc_i32x4_gt_u :: "unit jm" where
  "mc_i32x4_gt_u = mc_v128_irelop_minmax op_VPMAXUD op_VPCMPEQD False"

definition mc_i32x4_le_s :: "unit jm" where
  "mc_i32x4_le_s = mc_v128_irelop_cmp op_VPCMPGTD False True"

definition mc_i32x4_le_u :: "unit jm" where
  "mc_i32x4_le_u = mc_v128_irelop_minmax op_VPMAXUD op_VPCMPEQD True"

definition mc_i32x4_ge_s :: "unit jm" where
  "mc_i32x4_ge_s = mc_v128_irelop_cmp op_VPCMPGTD True True"

definition mc_i32x4_ge_u :: "unit jm" where
  "mc_i32x4_ge_u = mc_v128_irelop_minmax op_VPMINUD op_VPCMPEQD True"

definition mc_i64x2_eq :: "unit jm" where
  "mc_i64x2_eq = mc_v128_irelop_cmp op_VPCMPEQQ True False"

definition mc_i64x2_ne :: "unit jm" where
  "mc_i64x2_ne = mc_v128_irelop_cmp op_VPCMPEQQ True True"

definition mc_i64x2_lt_s :: "unit jm" where
  "mc_i64x2_lt_s = mc_v128_irelop_cmp op_VPCMPGTQ True False"

definition mc_i64x2_gt_s :: "unit jm" where
  "mc_i64x2_gt_s = mc_v128_irelop_cmp op_VPCMPGTQ False False"

definition mc_i64x2_le_s :: "unit jm" where
  "mc_i64x2_le_s = mc_v128_irelop_cmp op_VPCMPGTQ False True"

definition mc_i64x2_ge_s :: "unit jm" where
  "mc_i64x2_ge_s = mc_v128_irelop_cmp op_VPCMPGTQ True True"

definition mc_f32x4_eq :: "unit jm" where
  "mc_f32x4_eq = mc_v128_binop_softfloat ''_eosio_f32x4_eq''"

definition mc_f32x4_ne :: "unit jm" where
  "mc_f32x4_ne = mc_v128_binop_softfloat ''_eosio_f32x4_ne''"

definition mc_f32x4_lt :: "unit jm" where
  "mc_f32x4_lt = mc_v128_binop_softfloat ''_eosio_f32x4_lt''"

definition mc_f32x4_gt :: "unit jm" where
  "mc_f32x4_gt = mc_v128_binop_softfloat ''_eosio_f32x4_gt''"

definition mc_f32x4_le :: "unit jm" where
  "mc_f32x4_le = mc_v128_binop_softfloat ''_eosio_f32x4_le''"

definition mc_f32x4_ge :: "unit jm" where
  "mc_f32x4_ge = mc_v128_binop_softfloat ''_eosio_f32x4_ge''"

definition mc_f64x2_eq :: "unit jm" where
  "mc_f64x2_eq = mc_v128_binop_softfloat ''_eosio_f64x2_eq''"

definition mc_f64x2_ne :: "unit jm" where
  "mc_f64x2_ne = mc_v128_binop_softfloat ''_eosio_f64x2_ne''"

definition mc_f64x2_lt :: "unit jm" where
  "mc_f64x2_lt = mc_v128_binop_softfloat ''_eosio_f64x2_lt''"

definition mc_f64x2_gt :: "unit jm" where
  "mc_f64x2_gt = mc_v128_binop_softfloat ''_eosio_f64x2_gt''"

definition mc_f64x2_le :: "unit jm" where
  "mc_f64x2_le = mc_v128_binop_softfloat ''_eosio_f64x2_le''"

definition mc_f64x2_ge :: "unit jm" where
  "mc_f64x2_ge = mc_v128_binop_softfloat ''_eosio_f64x2_ge''"

definition mc_v128_not :: "unit jm" where
  "mc_v128_not = simd_instr (seqJ [mc_vmovdqu (deref rsp) xmm0, mc_const_ones xmm1, mc_v3 op_VPXOR xmm1 xmm0 xmm0, mc_vmovdqu xmm0 (deref rsp)])"

definition mc_v128_and :: "unit jm" where
  "mc_v128_and = mc_v128_binop_commutative op_VPAND"

definition mc_v128_andnot :: "unit jm" where
  "mc_v128_andnot = mc_v128_binop_r op_VPANDN"

definition mc_v128_or :: "unit jm" where
  "mc_v128_or = mc_v128_binop_commutative op_VPOR"

definition mc_v128_xor :: "unit jm" where
  "mc_v128_xor = mc_v128_binop_commutative op_VPXOR"

definition mc_v128_bitselect :: "unit jm" where
  "mc_v128_bitselect = simd_instr (seqJ [mc_vmovdqu (deref rsp) xmm2, mc_vmovdqu (at_disp rsp 16) xmm1, mc_add_imm 32 rsp, mc_vmovdqu (deref rsp) xmm0,
     mc_v3 op_VPAND xmm0 xmm2 xmm0, mc_v3 op_VPANDN xmm1 xmm2 xmm1, mc_v3 op_VPOR xmm0 xmm1 xmm0, mc_vmovdqu xmm0 (deref rsp)])"

definition mc_v128_any_true :: "unit jm" where
  "mc_v128_any_true = simd_instr (seqJ [mc_vmovdqu (deref rsp) xmm0, mc_add_imm 16 rsp, mc_xor eax eax, mc_v2 op_VPTEST xmm0 xmm0, mc1 op_SETNZ al,
     mc_push rax])"

definition mc_i8x16_abs :: "unit jm" where
  "mc_i8x16_abs = mc_v128_unop op_VPABSB"

definition mc_i8x16_neg :: "unit jm" where
  "mc_i8x16_neg = simd_instr (seqJ [mc_const_zero xmm0, mc_v3 op_VPSUBB (deref rsp) xmm0 xmm0, mc_vmovdqu xmm0 (deref rsp)])"

definition mc_i8x16_popcnt :: "unit jm" where
  "mc_i8x16_popcnt = simd_instr (seqJ [mc_bytes [0x48, 0xb8], mc_operand_ptr ''popcnt4'', mc_vmovdqu (deref rsp) xmm0, mc_vmovdqu (deref rax) xmm3,
     mc_mov_imm8 0x0f al, mc_vmovd eax xmm2, mc_v2 op_VPBROADCASTB xmm2 xmm2, mc_vc op_VPSRLQ_c 4 xmm0 xmm1,
     mc_v3 op_VPAND xmm2 xmm0 xmm0, mc_v3 op_VPAND xmm2 xmm1 xmm1, mc_v3 op_VPSHUFB xmm0 xmm3 xmm0, mc_v3 op_VPSHUFB xmm1 xmm3 xmm1,
     mc_v3 op_VPADDB xmm0 xmm1 xmm0, mc_vmovdqu xmm0 (deref rsp)])"

definition mc_i8x16_all_true :: "unit jm" where
  "mc_i8x16_all_true = simd_instr (seqJ [mc_const_zero xmm0, mc_v3 op_VPCMPEQB (deref rsp) xmm0 xmm0, mc_add_imm 16 rsp, mc_xor eax eax,
     mc_v2 op_VPTEST xmm0 xmm0, mc1 op_SETZ al, mc_push rax])"

definition mc_i8x16_bitmask :: "unit jm" where
  "mc_i8x16_bitmask = simd_instr (seqJ [mc_vmovdqu (deref rsp) xmm0, mc_add_imm 16 rsp, mc_v2 op_VPMOVMSKB xmm0 rax, mc_push rax])"

definition mc_i8x16_narrow_i16x8_s :: "unit jm" where
  "mc_i8x16_narrow_i16x8_s = mc_v128_binop op_VPACKSSWB"

definition mc_i8x16_narrow_i16x8_u :: "unit jm" where
  "mc_i8x16_narrow_i16x8_u = mc_v128_binop op_VPACKUSWB"

definition mc_i8x16_shl :: "unit jm" where
  "mc_i8x16_shl = simd_instr (seqJ [mc_pop rax, mc_vmovdqu (deref rsp) xmm0, mc_and_imm 7 eax, mc_vmovd eax xmm2, mc_const_ones xmm1,
     mc_v3 op_VPSLLD xmm2 xmm1 xmm1, mc_v2 op_VPBROADCASTB xmm1 xmm1, mc_v3 op_VPSLLW xmm2 xmm0 xmm0, mc_v3 op_VPAND xmm0 xmm1 xmm0,
     mc_vmovdqu xmm0 (deref rsp)])"

definition mc_i8x16_shr_s :: "unit jm" where
  "mc_i8x16_shr_s = simd_instr (seqJ [mc_pop rax, mc_vmovdqu (deref rsp) xmm0, mc_and_imm 7 eax, mc_vmovd eax xmm2, mc_const_ones xmm3,
     mc_vc op_VPSLLW_c 8 xmm3 xmm3, mc_vc op_VPSLLW_c 8 xmm0 xmm1, mc_vc op_VPSRAW_c 8 xmm1 xmm1, mc_v3 op_VPSLLW xmm2 xmm3 xmm3,
     mc_v3 op_VPANDN xmm1 xmm3 xmm1, mc_v3 op_VPAND xmm3 xmm0 xmm0, mc_v3 op_VPOR xmm1 xmm0 xmm0, mc_v3 op_VPSRAW xmm2 xmm0 xmm0,
     mc_vmovdqu xmm0 (deref rsp)])"

definition mc_i8x16_shr_u :: "unit jm" where
  "mc_i8x16_shr_u = simd_instr (seqJ [mc_pop rax, mc_vmovdqu (deref rsp) xmm0, mc_and_imm 7 eax, mc_vmovd eax xmm2, mc_const_ones xmm1,
     mc_vc op_VPSLLW_c 8 xmm1 xmm1, mc_v3 op_VPSRLW xmm2 xmm1 xmm1, mc_v2 op_VPBROADCASTB xmm1 xmm1, mc_v3 op_VPSRLW xmm2 xmm0 xmm0,
     mc_v3 op_VPANDN xmm0 xmm1 xmm0, mc_vmovdqu xmm0 (deref rsp)])"

definition mc_i8x16_add :: "unit jm" where
  "mc_i8x16_add = mc_v128_binop_commutative op_VPADDB"

definition mc_i8x16_add_sat_s :: "unit jm" where
  "mc_i8x16_add_sat_s = mc_v128_binop_commutative op_VPADDSB"

definition mc_i8x16_add_sat_u :: "unit jm" where
  "mc_i8x16_add_sat_u = mc_v128_binop_commutative op_VPADDUSB"

definition mc_i8x16_sub :: "unit jm" where
  "mc_i8x16_sub = mc_v128_binop op_VPSUBB"

definition mc_i8x16_sub_sat_s :: "unit jm" where
  "mc_i8x16_sub_sat_s = mc_v128_binop op_VPSUBSB"

definition mc_i8x16_sub_sat_u :: "unit jm" where
  "mc_i8x16_sub_sat_u = mc_v128_binop op_VPSUBUSB"

definition mc_i8x16_min_s :: "unit jm" where
  "mc_i8x16_min_s = mc_v128_binop_commutative op_VPMINSB"

definition mc_i8x16_min_u :: "unit jm" where
  "mc_i8x16_min_u = mc_v128_binop_commutative op_VPMINUB"

definition mc_i8x16_max_s :: "unit jm" where
  "mc_i8x16_max_s = mc_v128_binop_commutative op_VPMAXSB"

definition mc_i8x16_max_u :: "unit jm" where
  "mc_i8x16_max_u = mc_v128_binop_commutative op_VPMAXUB"

definition mc_i8x16_avgr_u :: "unit jm" where
  "mc_i8x16_avgr_u = mc_v128_binop_commutative op_VPAVGB"

definition mc_i16x8_extadd_pairwise_i8x16_s :: "unit jm" where
  "mc_i16x8_extadd_pairwise_i8x16_s = simd_instr (seqJ [mc_vmovdqu (deref rsp) xmm0, mc_vc op_VPSRLDQ_c 8 xmm0 xmm1, mc_v2 op_VPMOVSXBW xmm0 xmm0,
     mc_v2 op_VPMOVSXBW xmm1 xmm1, mc_v3 op_VPHADDW xmm1 xmm0 xmm0, mc_vmovdqu xmm0 (deref rsp)])"

definition mc_i16x8_extadd_pairwise_i8x16_u :: "unit jm" where
  "mc_i16x8_extadd_pairwise_i8x16_u = simd_instr (seqJ [mc_vmovdqu (deref rsp) xmm0, mc_vc op_VPSRLDQ_c 8 xmm0 xmm1, mc_v2 op_VPMOVZXBW xmm0 xmm0,
     mc_v2 op_VPMOVZXBW xmm1 xmm1, mc_v3 op_VPHADDW xmm1 xmm0 xmm0, mc_vmovdqu xmm0 (deref rsp)])"

definition mc_i16x8_abs :: "unit jm" where
  "mc_i16x8_abs = mc_v128_unop op_VPABSW"

definition mc_i16x8_neg :: "unit jm" where
  "mc_i16x8_neg = simd_instr (seqJ [mc_const_zero xmm0, mc_v3 op_VPSUBW (deref rsp) xmm0 xmm0, mc_vmovdqu xmm0 (deref rsp)])"

definition mc_i16x8_q15mulr_sat_s :: "unit jm" where
  "mc_i16x8_q15mulr_sat_s = simd_instr (seqJ [mc_vmovdqu (deref rsp) xmm0, mc_add_imm 16 rsp, mc_v3 op_VPMULHRSW (deref rsp) xmm0 xmm0, mc_const_ones xmm1,
     mc_vc op_VPSLLW_c 15 xmm1 xmm1, mc_v3 op_VPCMPEQW xmm1 xmm0 xmm1, mc_v3 op_VPXOR xmm1 xmm0 xmm0, mc_vmovdqu xmm0 (deref rsp)])"

definition mc_i16x8_all_true :: "unit jm" where
  "mc_i16x8_all_true = simd_instr (seqJ [mc_const_zero xmm0, mc_v3 op_VPCMPEQW (deref rsp) xmm0 xmm0, mc_add_imm 16 rsp, mc_xor eax eax,
     mc_v2 op_VPTEST xmm0 xmm0, mc1 op_SETZ al, mc_push rax])"

definition mc_i16x8_bitmask :: "unit jm" where
  "mc_i16x8_bitmask = simd_instr (seqJ [mc_const_zero xmm0, mc_v3 op_VPCMPGTW (deref rsp) xmm0 xmm1, mc_v3 op_VPACKSSWB xmm0 xmm1 xmm0,
     mc_add_imm 16 rsp, mc_v2 op_VPMOVMSKB xmm0 rax, mc_push rax])"

definition mc_i16x8_narrow_i32x4_s :: "unit jm" where
  "mc_i16x8_narrow_i32x4_s = mc_v128_binop op_VPACKSSDW"

definition mc_i16x8_narrow_i32x4_u :: "unit jm" where
  "mc_i16x8_narrow_i32x4_u = mc_v128_binop op_VPACKUSDW"

definition mc_i16x8_extend_low_i8x16_s :: "unit jm" where
  "mc_i16x8_extend_low_i8x16_s = mc_v128_unop op_VPMOVSXBW"

definition mc_i16x8_extend_high_i8x16_s :: "unit jm" where
  "mc_i16x8_extend_high_i8x16_s = simd_instr (seqJ [mc_vmovdqu (deref rsp) xmm0, mc_vc op_VPSRLDQ_c 8 xmm0 xmm0, mc_v2 op_VPMOVSXBW xmm0 xmm0,
     mc_vmovdqu xmm0 (deref rsp)])"

definition mc_i16x8_extend_low_i8x16_u :: "unit jm" where
  "mc_i16x8_extend_low_i8x16_u = mc_v128_unop op_VPMOVZXBW"

definition mc_i16x8_extend_high_i8x16_u :: "unit jm" where
  "mc_i16x8_extend_high_i8x16_u = simd_instr (seqJ [mc_vmovdqu (deref rsp) xmm0, mc_vc op_VPSRLDQ_c 8 xmm0 xmm0, mc_v2 op_VPMOVZXBW xmm0 xmm0,
     mc_vmovdqu xmm0 (deref rsp)])"

definition mc_i16x8_shl :: "unit jm" where
  "mc_i16x8_shl = mc_v128_shiftop op_VPSLLW 0x0f"

definition mc_i16x8_shr_s :: "unit jm" where
  "mc_i16x8_shr_s = mc_v128_shiftop op_VPSRAW 0x0f"

definition mc_i16x8_shr_u :: "unit jm" where
  "mc_i16x8_shr_u = mc_v128_shiftop op_VPSRLW 0x0f"

definition mc_i16x8_add :: "unit jm" where
  "mc_i16x8_add = mc_v128_binop_commutative op_VPADDW"

definition mc_i16x8_add_sat_s :: "unit jm" where
  "mc_i16x8_add_sat_s = mc_v128_binop_commutative op_VPADDSW"

definition mc_i16x8_add_sat_u :: "unit jm" where
  "mc_i16x8_add_sat_u = mc_v128_binop_commutative op_VPADDUSW"

definition mc_i16x8_sub :: "unit jm" where
  "mc_i16x8_sub = mc_v128_binop op_VPSUBW"

definition mc_i16x8_sub_sat_s :: "unit jm" where
  "mc_i16x8_sub_sat_s = mc_v128_binop op_VPSUBSW"

definition mc_i16x8_sub_sat_u :: "unit jm" where
  "mc_i16x8_sub_sat_u = mc_v128_binop op_VPSUBUSW"

definition mc_i16x8_mul :: "unit jm" where
  "mc_i16x8_mul = mc_v128_binop_commutative op_VPMULLW"

definition mc_i16x8_min_s :: "unit jm" where
  "mc_i16x8_min_s = mc_v128_binop_commutative op_VPMINSW"

definition mc_i16x8_min_u :: "unit jm" where
  "mc_i16x8_min_u = mc_v128_binop_commutative op_VPMINUW"

definition mc_i16x8_max_s :: "unit jm" where
  "mc_i16x8_max_s = mc_v128_binop_commutative op_VPMAXSW"

definition mc_i16x8_max_u :: "unit jm" where
  "mc_i16x8_max_u = mc_v128_binop_commutative op_VPMAXUW"

definition mc_i16x8_avgr_u :: "unit jm" where
  "mc_i16x8_avgr_u = mc_v128_binop_commutative op_VPAVGW"

definition mc_i16x8_extmul_low_i8x16_s :: "unit jm" where
  "mc_i16x8_extmul_low_i8x16_s = simd_instr (seqJ [mc_v2 op_VPMOVSXBW (deref rsp) xmm1, mc_add_imm 16 rsp, mc_v2 op_VPMOVSXBW (deref rsp) xmm0,
     mc_v3 op_VPMULLW xmm0 xmm1 xmm0, mc_vmovdqu xmm0 (deref rsp)])"

definition mc_i16x8_extmul_high_i8x16_s :: "unit jm" where
  "mc_i16x8_extmul_high_i8x16_s = simd_instr (seqJ [mc_vmovdqu (deref rsp) xmm1, mc_vc op_VPSRLDQ_c 8 xmm1 xmm1, mc_v2 op_VPMOVSXBW xmm1 xmm1, mc_add_imm 16 rsp,
     mc_vmovdqu (deref rsp) xmm0, mc_vc op_VPSRLDQ_c 8 xmm0 xmm0, mc_v2 op_VPMOVSXBW xmm0 xmm0, mc_v3 op_VPMULLW xmm0 xmm1 xmm0,
     mc_vmovdqu xmm0 (deref rsp)])"

definition mc_i16x8_extmul_low_i8x16_u :: "unit jm" where
  "mc_i16x8_extmul_low_i8x16_u = simd_instr (seqJ [mc_v2 op_VPMOVZXBW (deref rsp) xmm1, mc_add_imm 16 rsp, mc_v2 op_VPMOVZXBW (deref rsp) xmm0,
     mc_v3 op_VPMULLW xmm0 xmm1 xmm0, mc_vmovdqu xmm0 (deref rsp)])"

definition mc_i16x8_extmul_high_i8x16_u :: "unit jm" where
  "mc_i16x8_extmul_high_i8x16_u = simd_instr (seqJ [mc_vmovdqu (deref rsp) xmm1, mc_vc op_VPSRLDQ_c 8 xmm1 xmm1, mc_v2 op_VPMOVZXBW xmm1 xmm1, mc_add_imm 16 rsp,
     mc_vmovdqu (deref rsp) xmm0, mc_vc op_VPSRLDQ_c 8 xmm0 xmm0, mc_v2 op_VPMOVZXBW xmm0 xmm0, mc_v3 op_VPMULLW xmm0 xmm1 xmm0,
     mc_vmovdqu xmm0 (deref rsp)])"

definition mc_i32x4_extadd_pairwise_i16x8_s :: "unit jm" where
  "mc_i32x4_extadd_pairwise_i16x8_s = simd_instr (seqJ [mc_vmovdqu (deref rsp) xmm0, mc_vc op_VPSRLDQ_c 8 xmm0 xmm1, mc_v2 op_VPMOVSXWD xmm0 xmm0,
     mc_v2 op_VPMOVSXWD xmm1 xmm1, mc_v3 op_VPHADDD xmm1 xmm0 xmm0, mc_vmovdqu xmm0 (deref rsp)])"

definition mc_i32x4_extadd_pairwise_i16x8_u :: "unit jm" where
  "mc_i32x4_extadd_pairwise_i16x8_u = simd_instr (seqJ [mc_vmovdqu (deref rsp) xmm0, mc_vc op_VPSRLDQ_c 8 xmm0 xmm1, mc_v2 op_VPMOVZXWD xmm0 xmm0,
     mc_v2 op_VPMOVZXWD xmm1 xmm1, mc_v3 op_VPHADDD xmm1 xmm0 xmm0, mc_vmovdqu xmm0 (deref rsp)])"

definition mc_i32x4_abs :: "unit jm" where
  "mc_i32x4_abs = mc_v128_unop op_VPABSD"

definition mc_i32x4_neg :: "unit jm" where
  "mc_i32x4_neg = simd_instr (seqJ [mc_const_zero xmm0, mc_v3 op_VPSUBD (deref rsp) xmm0 xmm0, mc_vmovdqu xmm0 (deref rsp)])"

definition mc_i32x4_all_true :: "unit jm" where
  "mc_i32x4_all_true = simd_instr (seqJ [mc_const_zero xmm0, mc_v3 op_VPCMPEQD (deref rsp) xmm0 xmm0, mc_add_imm 16 rsp, mc_xor eax eax,
     mc_v2 op_VPTEST xmm0 xmm0, mc1 op_SETZ al, mc_push rax])"

definition mc_i32x4_bitmask :: "unit jm" where
  "mc_i32x4_bitmask = simd_instr (seqJ [mc_vmovdqu (deref rsp) xmm0, mc_add_imm 16 rsp, mc_v2 op_VMOVMSKPS xmm0 rax, mc_push rax])"

definition mc_i32x4_extend_low_i16x8_s :: "unit jm" where
  "mc_i32x4_extend_low_i16x8_s = mc_v128_unop op_VPMOVSXWD"

definition mc_i32x4_extend_high_i16x8_s :: "unit jm" where
  "mc_i32x4_extend_high_i16x8_s = simd_instr (seqJ [mc_vmovdqu (deref rsp) xmm0, mc_vc op_VPSRLDQ_c 8 xmm0 xmm0, mc_v2 op_VPMOVSXWD xmm0 xmm0,
     mc_vmovdqu xmm0 (deref rsp)])"

definition mc_i32x4_extend_low_i16x8_u :: "unit jm" where
  "mc_i32x4_extend_low_i16x8_u = mc_v128_unop op_VPMOVZXWD"

definition mc_i32x4_extend_high_i16x8_u :: "unit jm" where
  "mc_i32x4_extend_high_i16x8_u = simd_instr (seqJ [mc_vmovdqu (deref rsp) xmm0, mc_vc op_VPSRLDQ_c 8 xmm0 xmm0, mc_v2 op_VPMOVZXWD xmm0 xmm0,
     mc_vmovdqu xmm0 (deref rsp)])"

definition mc_i32x4_shl :: "unit jm" where
  "mc_i32x4_shl = mc_v128_shiftop op_VPSLLD 0x1f"

definition mc_i32x4_shr_s :: "unit jm" where
  "mc_i32x4_shr_s = mc_v128_shiftop op_VPSRAD 0x1f"

definition mc_i32x4_shr_u :: "unit jm" where
  "mc_i32x4_shr_u = mc_v128_shiftop op_VPSRLD 0x1f"

definition mc_i32x4_add :: "unit jm" where
  "mc_i32x4_add = mc_v128_binop_commutative op_VPADDD"

definition mc_i32x4_sub :: "unit jm" where
  "mc_i32x4_sub = mc_v128_binop op_VPSUBD"

definition mc_i32x4_mul :: "unit jm" where
  "mc_i32x4_mul = mc_v128_binop_commutative op_VPMULLD"

definition mc_i32x4_min_s :: "unit jm" where
  "mc_i32x4_min_s = mc_v128_binop_commutative op_VPMINSD"

definition mc_i32x4_min_u :: "unit jm" where
  "mc_i32x4_min_u = mc_v128_binop_commutative op_VPMINUD"

definition mc_i32x4_max_s :: "unit jm" where
  "mc_i32x4_max_s = mc_v128_binop_commutative op_VPMAXSD"

definition mc_i32x4_max_u :: "unit jm" where
  "mc_i32x4_max_u = mc_v128_binop_commutative op_VPMAXUD"

definition mc_i32x4_dot_i16x8_s :: "unit jm" where
  "mc_i32x4_dot_i16x8_s = mc_v128_binop_commutative op_VPMADDWD"

definition mc_i32x4_extmul_low_i16x8_s :: "unit jm" where
  "mc_i32x4_extmul_low_i16x8_s = simd_instr (seqJ [mc_vmovdqu (deref rsp) xmm0, mc_add_imm 16 rsp, mc_vmovdqu (deref rsp) xmm1, mc_v2 op_VPMOVSXWD xmm0 xmm0,
     mc_v2 op_VPMOVSXWD xmm1 xmm1, mc_v3 op_VPMULLD xmm0 xmm1 xmm0, mc_vmovdqu xmm0 (deref rsp)])"

definition mc_i32x4_extmul_high_i16x8_s :: "unit jm" where
  "mc_i32x4_extmul_high_i16x8_s = simd_instr (seqJ [mc_vmovdqu (deref rsp) xmm0, mc_add_imm 16 rsp, mc_vmovdqu (deref rsp) xmm1, mc_v3 op_VPMULLW xmm0 xmm1 xmm2,
     mc_v3 op_VPMULHW xmm0 xmm1 xmm0, mc_v3 op_VPUNPCKHWD xmm0 xmm2 xmm0, mc_vmovdqu xmm0 (deref rsp)])"

definition mc_i32x4_extmul_low_i16x8_u :: "unit jm" where
  "mc_i32x4_extmul_low_i16x8_u = simd_instr (seqJ [mc_vmovdqu (deref rsp) xmm0, mc_add_imm 16 rsp, mc_vmovdqu (deref rsp) xmm1, mc_v2 op_VPMOVZXWD xmm0 xmm0,
     mc_v2 op_VPMOVZXWD xmm1 xmm1, mc_v3 op_VPMULLD xmm0 xmm1 xmm0, mc_vmovdqu xmm0 (deref rsp)])"

definition mc_i32x4_extmul_high_i16x8_u :: "unit jm" where
  "mc_i32x4_extmul_high_i16x8_u = simd_instr (seqJ [mc_vmovdqu (deref rsp) xmm0, mc_add_imm 16 rsp, mc_vmovdqu (deref rsp) xmm1, mc_v3 op_VPMULLW xmm0 xmm1 xmm2,
     mc_v3 op_VPMULHUW xmm0 xmm1 xmm0, mc_v3 op_VPUNPCKHWD xmm0 xmm2 xmm0, mc_vmovdqu xmm0 (deref rsp)])"

definition mc_i64x2_abs :: "unit jm" where
  "mc_i64x2_abs = simd_instr (seqJ [mc_vmovdqu (deref rsp) xmm0, mc_const_zero xmm1, mc_v3 op_VPCMPGTQ xmm0 xmm1 xmm1,
     mc_v3 op_VPXOR xmm0 xmm1 xmm0, mc_v3 op_VPSUBQ xmm1 xmm0 xmm0, mc_vmovdqu xmm0 (deref rsp)])"

definition mc_i64x2_neg :: "unit jm" where
  "mc_i64x2_neg = simd_instr (seqJ [mc_const_zero xmm0, mc_v3 op_VPSUBQ (deref rsp) xmm0 xmm0, mc_vmovdqu xmm0 (deref rsp)])"

definition mc_i64x2_all_true :: "unit jm" where
  "mc_i64x2_all_true = simd_instr (seqJ [mc_const_zero xmm0, mc_v3 op_VPCMPEQQ (deref rsp) xmm0 xmm0, mc_add_imm 16 rsp, mc_xor eax eax,
     mc_v2 op_VPTEST xmm0 xmm0, mc1 op_SETZ al, mc_push rax])"

definition mc_i64x2_bitmask :: "unit jm" where
  "mc_i64x2_bitmask = simd_instr (seqJ [mc_vmovdqu (deref rsp) xmm0, mc_add_imm 16 rsp, mc_v2 op_VMOVMSKPD xmm0 rax, mc_push rax])"

definition mc_i64x2_extend_low_i32x4_s :: "unit jm" where
  "mc_i64x2_extend_low_i32x4_s = mc_v128_unop op_VPMOVSXDQ"

definition mc_i64x2_extend_high_i32x4_s :: "unit jm" where
  "mc_i64x2_extend_high_i32x4_s = simd_instr (seqJ [mc_vmovdqu (deref rsp) xmm0, mc_vc op_VPSRLDQ_c 8 xmm0 xmm0, mc_v2 op_VPMOVSXDQ xmm0 xmm0,
     mc_vmovdqu xmm0 (deref rsp)])"

definition mc_i64x2_extend_low_i32x4_u :: "unit jm" where
  "mc_i64x2_extend_low_i32x4_u = mc_v128_unop op_VPMOVZXDQ"

definition mc_i64x2_extend_high_i32x4_u :: "unit jm" where
  "mc_i64x2_extend_high_i32x4_u = simd_instr (seqJ [mc_vmovdqu (deref rsp) xmm0, mc_vc op_VPSRLDQ_c 8 xmm0 xmm0, mc_v2 op_VPMOVZXDQ xmm0 xmm0,
     mc_vmovdqu xmm0 (deref rsp)])"

definition mc_i64x2_shl :: "unit jm" where
  "mc_i64x2_shl = mc_v128_shiftop op_VPSLLQ 0x3f"

definition mc_i64x2_shr_s :: "unit jm" where
  "mc_i64x2_shr_s = simd_instr (seqJ [mc_pop rax, mc_and_imm 0x3f eax, mc_mov_imm32 64 ecx, mc_sub eax ecx, mc_vmovdqu (deref rsp) xmm0,
     mc_vmovd eax xmm1, mc_vmovd ecx xmm3, mc_const_zero xmm2, mc_v3 op_VPCMPGTQ xmm0 xmm2 xmm2, mc_v3 op_VPSLLQ xmm3 xmm2 xmm2,
     mc_v3 op_VPSRLQ xmm1 xmm0 xmm0, mc_v3 op_VPOR xmm0 xmm2 xmm0, mc_vmovdqu xmm0 (deref rsp)])"

definition mc_i64x2_shr_u :: "unit jm" where
  "mc_i64x2_shr_u = mc_v128_shiftop op_VPSRLQ 0x3f"

definition mc_i64x2_add :: "unit jm" where
  "mc_i64x2_add = mc_v128_binop_commutative op_VPADDQ"

definition mc_i64x2_sub :: "unit jm" where
  "mc_i64x2_sub = mc_v128_binop op_VPSUBQ"

definition mc_i64x2_mul :: "unit jm" where
  "mc_i64x2_mul = simd_instr (seqJ [mc_vmovdqu (deref rsp) xmm0, mc_add_imm 16 rsp, mc_vmovdqu (deref rsp) xmm1, mc_v3 op_VPMULUDQ xmm0 xmm1 xmm2,
     mc_v2i op_VPSHUFD 0xb1 xmm0 xmm0, mc_v3 op_VPMULLD xmm0 xmm1 xmm0, mc_v3 op_VPHADDD xmm0 xmm0 xmm0, mc_const_zero xmm1,
     mc_v3 op_VPUNPCKLDQ xmm0 xmm1 xmm0, mc_v3 op_VPADDQ xmm0 xmm2 xmm0, mc_vmovdqu xmm0 (deref rsp)])"

definition mc_i64x2_extmul_low_i32x4_s :: "unit jm" where
  "mc_i64x2_extmul_low_i32x4_s = simd_instr (seqJ [mc_v2i op_VPSHUFD 0x10 (deref rsp) xmm0, mc_add_imm 16 rsp, mc_v2i op_VPSHUFD 0x10 (deref rsp) xmm1,
     mc_v3 op_VPMULDQ xmm0 xmm1 xmm0, mc_vmovdqu xmm0 (deref rsp)])"

definition mc_i64x2_extmul_high_i32x4_s :: "unit jm" where
  "mc_i64x2_extmul_high_i32x4_s = simd_instr (seqJ [mc_v2i op_VPSHUFD 0x32 (deref rsp) xmm0, mc_add_imm 16 rsp, mc_v2i op_VPSHUFD 0x32 (deref rsp) xmm1,
     mc_v3 op_VPMULDQ xmm0 xmm1 xmm0, mc_vmovdqu xmm0 (deref rsp)])"

definition mc_i64x2_extmul_low_i32x4_u :: "unit jm" where
  "mc_i64x2_extmul_low_i32x4_u = simd_instr (seqJ [mc_v2i op_VPSHUFD 0x10 (deref rsp) xmm0, mc_add_imm 16 rsp, mc_v2i op_VPSHUFD 0x10 (deref rsp) xmm1,
     mc_v3 op_VPMULUDQ xmm0 xmm1 xmm0, mc_vmovdqu xmm0 (deref rsp)])"

definition mc_i64x2_extmul_high_i32x4_u :: "unit jm" where
  "mc_i64x2_extmul_high_i32x4_u = simd_instr (seqJ [mc_v2i op_VPSHUFD 0x32 (deref rsp) xmm0, mc_add_imm 16 rsp, mc_v2i op_VPSHUFD 0x32 (deref rsp) xmm1,
     mc_v3 op_VPMULUDQ xmm0 xmm1 xmm0, mc_vmovdqu xmm0 (deref rsp)])"

definition mc_f32x4_ceil :: "unit jm" where
  "mc_f32x4_ceil = mc_v128_unop_softfloat ''_eosio_f32x4_ceil''"

definition mc_f32x4_floor :: "unit jm" where
  "mc_f32x4_floor = mc_v128_unop_softfloat ''_eosio_f32x4_floor''"

definition mc_f32x4_trunc :: "unit jm" where
  "mc_f32x4_trunc = mc_v128_unop_softfloat ''_eosio_f32x4_trunc''"

definition mc_f32x4_nearest :: "unit jm" where
  "mc_f32x4_nearest = mc_v128_unop_softfloat ''_eosio_f32x4_nearest''"

definition mc_f32x4_abs :: "unit jm" where
  "mc_f32x4_abs = mc_v128_unop_softfloat ''_eosio_f32x4_abs''"

definition mc_f32x4_neg :: "unit jm" where
  "mc_f32x4_neg = mc_v128_unop_softfloat ''_eosio_f32x4_neg''"

definition mc_f32x4_sqrt :: "unit jm" where
  "mc_f32x4_sqrt = mc_v128_unop_softfloat ''_eosio_f32x4_sqrt''"

definition mc_f32x4_add :: "unit jm" where
  "mc_f32x4_add = mc_v128_binop_softfloat ''_eosio_f32x4_add''"

definition mc_f32x4_sub :: "unit jm" where
  "mc_f32x4_sub = mc_v128_binop_softfloat ''_eosio_f32x4_sub''"

definition mc_f32x4_mul :: "unit jm" where
  "mc_f32x4_mul = mc_v128_binop_softfloat ''_eosio_f32x4_mul''"

definition mc_f32x4_div :: "unit jm" where
  "mc_f32x4_div = mc_v128_binop_softfloat ''_eosio_f32x4_div''"

definition mc_f32x4_min :: "unit jm" where
  "mc_f32x4_min = mc_v128_binop_softfloat ''_eosio_f32x4_min''"

definition mc_f32x4_max :: "unit jm" where
  "mc_f32x4_max = mc_v128_binop_softfloat ''_eosio_f32x4_max''"

definition mc_f32x4_pmin :: "unit jm" where
  "mc_f32x4_pmin = mc_v128_binop_softfloat ''_eosio_f32x4_pmin''"

definition mc_f32x4_pmax :: "unit jm" where
  "mc_f32x4_pmax = mc_v128_binop_softfloat ''_eosio_f32x4_pmax''"

definition mc_f64x2_ceil :: "unit jm" where
  "mc_f64x2_ceil = mc_v128_unop_softfloat ''_eosio_f64x2_ceil''"

definition mc_f64x2_floor :: "unit jm" where
  "mc_f64x2_floor = mc_v128_unop_softfloat ''_eosio_f64x2_floor''"

definition mc_f64x2_trunc :: "unit jm" where
  "mc_f64x2_trunc = mc_v128_unop_softfloat ''_eosio_f64x2_trunc''"

definition mc_f64x2_nearest :: "unit jm" where
  "mc_f64x2_nearest = mc_v128_unop_softfloat ''_eosio_f64x2_nearest''"

definition mc_f64x2_abs :: "unit jm" where
  "mc_f64x2_abs = mc_v128_unop_softfloat ''_eosio_f64x2_abs''"

definition mc_f64x2_neg :: "unit jm" where
  "mc_f64x2_neg = mc_v128_unop_softfloat ''_eosio_f64x2_neg''"

definition mc_f64x2_sqrt :: "unit jm" where
  "mc_f64x2_sqrt = mc_v128_unop_softfloat ''_eosio_f64x2_sqrt''"

definition mc_f64x2_add :: "unit jm" where
  "mc_f64x2_add = mc_v128_binop_softfloat ''_eosio_f64x2_add''"

definition mc_f64x2_sub :: "unit jm" where
  "mc_f64x2_sub = mc_v128_binop_softfloat ''_eosio_f64x2_sub''"

definition mc_f64x2_mul :: "unit jm" where
  "mc_f64x2_mul = mc_v128_binop_softfloat ''_eosio_f64x2_mul''"

definition mc_f64x2_div :: "unit jm" where
  "mc_f64x2_div = mc_v128_binop_softfloat ''_eosio_f64x2_div''"

definition mc_f64x2_min :: "unit jm" where
  "mc_f64x2_min = mc_v128_binop_softfloat ''_eosio_f64x2_min''"

definition mc_f64x2_max :: "unit jm" where
  "mc_f64x2_max = mc_v128_binop_softfloat ''_eosio_f64x2_max''"

definition mc_f64x2_pmin :: "unit jm" where
  "mc_f64x2_pmin = mc_v128_binop_softfloat ''_eosio_f64x2_pmin''"

definition mc_f64x2_pmax :: "unit jm" where
  "mc_f64x2_pmax = mc_v128_binop_softfloat ''_eosio_f64x2_pmax''"

definition mc_i32x4_trunc_sat_f32x4_s :: "unit jm" where
  "mc_i32x4_trunc_sat_f32x4_s = mc_v128_unop_softfloat ''_eosio_i32x4_trunc_sat_f32x4_s''"

definition mc_i32x4_trunc_sat_f32x4_u :: "unit jm" where
  "mc_i32x4_trunc_sat_f32x4_u = mc_v128_unop_softfloat ''_eosio_i32x4_trunc_sat_f32x4_u''"

definition mc_f32x4_convert_i32x4_s :: "unit jm" where
  "mc_f32x4_convert_i32x4_s = mc_v128_unop_softfloat ''_eosio_f32x4_convert_i32x4_s''"

definition mc_f32x4_convert_i32x4_u :: "unit jm" where
  "mc_f32x4_convert_i32x4_u = mc_v128_unop_softfloat ''_eosio_f32x4_convert_i32x4_u''"

definition mc_i32x4_trunc_sat_f64x2_s_zero :: "unit jm" where
  "mc_i32x4_trunc_sat_f64x2_s_zero = mc_v128_unop_softfloat ''_eosio_i32x4_trunc_sat_f64x2_s_zero''"

definition mc_i32x4_trunc_sat_f64x2_u_zero :: "unit jm" where
  "mc_i32x4_trunc_sat_f64x2_u_zero = mc_v128_unop_softfloat ''_eosio_i32x4_trunc_sat_f64x2_u_zero''"

definition mc_f64x2_convert_low_i32x4_s :: "unit jm" where
  "mc_f64x2_convert_low_i32x4_s = mc_v128_unop_softfloat ''_eosio_f64x2_convert_low_i32x4_s''"

definition mc_f64x2_convert_low_i32x4_u :: "unit jm" where
  "mc_f64x2_convert_low_i32x4_u = mc_v128_unop_softfloat ''_eosio_f64x2_convert_low_i32x4_u''"

definition mc_f32x4_demote_f64x2_zero :: "unit jm" where
  "mc_f32x4_demote_f64x2_zero = mc_v128_unop_softfloat ''_eosio_f32x4_demote_f64x2_zero''"

definition mc_f64x2_promote_low_f32x4 :: "unit jm" where
  "mc_f64x2_promote_low_f32x4 = mc_v128_unop_softfloat ''_eosio_f64x2_promote_low_f32x4''"

lemmas vector_emitters [jit_emitters] =
  mc_v128_load_def mc_v128_load8x8_s_def mc_v128_load8x8_u_def mc_v128_load16x4_s_def mc_v128_load16x4_u_def
  mc_v128_load32x2_s_def mc_v128_load32x2_u_def mc_v128_load8_splat_def mc_v128_load16_splat_def mc_v128_load32_splat_def
  mc_v128_load64_splat_def mc_v128_load32_zero_def mc_v128_load64_zero_def mc_v128_store_def mc_v128_load8_lane_def
  mc_v128_load16_lane_def mc_v128_load32_lane_def mc_v128_load64_lane_def mc_v128_store8_lane_def
  mc_v128_store16_lane_def mc_v128_store32_lane_def mc_v128_store64_lane_def mc_i8x16_extract_lane_s_def
  mc_i8x16_extract_lane_u_def mc_i8x16_replace_lane_def mc_i16x8_extract_lane_s_def mc_i16x8_extract_lane_u_def
  mc_i16x8_replace_lane_def mc_i32x4_extract_lane_def mc_i32x4_replace_lane_def mc_i64x2_extract_lane_def
  mc_i64x2_replace_lane_def mc_f32x4_extract_lane_def mc_f32x4_replace_lane_def mc_f64x2_extract_lane_def
  mc_f64x2_replace_lane_def mc_i8x16_swizzle_def mc_i8x16_splat_def mc_i16x8_splat_def mc_i32x4_splat_def
  mc_i64x2_splat_def mc_f32x4_splat_def mc_f64x2_splat_def mc_i8x16_eq_def mc_i8x16_ne_def mc_i8x16_lt_s_def
  mc_i8x16_lt_u_def mc_i8x16_gt_s_def mc_i8x16_gt_u_def mc_i8x16_le_s_def mc_i8x16_le_u_def mc_i8x16_ge_s_def
  mc_i8x16_ge_u_def mc_i16x8_eq_def mc_i16x8_ne_def mc_i16x8_lt_s_def mc_i16x8_lt_u_def mc_i16x8_gt_s_def
  mc_i16x8_gt_u_def mc_i16x8_le_s_def mc_i16x8_le_u_def mc_i16x8_ge_s_def mc_i16x8_ge_u_def mc_i32x4_eq_def
  mc_i32x4_ne_def mc_i32x4_lt_s_def mc_i32x4_lt_u_def mc_i32x4_gt_s_def mc_i32x4_gt_u_def mc_i32x4_le_s_def
  mc_i32x4_le_u_def mc_i32x4_ge_s_def mc_i32x4_ge_u_def mc_i64x2_eq_def mc_i64x2_ne_def mc_i64x2_lt_s_def
  mc_i64x2_gt_s_def mc_i64x2_le_s_def mc_i64x2_ge_s_def mc_f32x4_eq_def mc_f32x4_ne_def mc_f32x4_lt_def mc_f32x4_gt_def
  mc_f32x4_le_def mc_f32x4_ge_def mc_f64x2_eq_def mc_f64x2_ne_def mc_f64x2_lt_def mc_f64x2_gt_def mc_f64x2_le_def
  mc_f64x2_ge_def mc_v128_not_def mc_v128_and_def mc_v128_andnot_def mc_v128_or_def mc_v128_xor_def mc_v128_bitselect_def
  mc_v128_any_true_def mc_i8x16_abs_def mc_i8x16_neg_def mc_i8x16_popcnt_def mc_i8x16_all_true_def mc_i8x16_bitmask_def
  mc_i8x16_narrow_i16x8_s_def mc_i8x16_narrow_i16x8_u_def mc_i8x16_shl_def mc_i8x16_shr_s_def mc_i8x16_shr_u_def
  mc_i8x16_add_def mc_i8x16_add_sat_s_def mc_i8x16_add_sat_u_def mc_i8x16_sub_def mc_i8x16_sub_sat_s_def
  mc_i8x16_sub_sat_u_def mc_i8x16_min_s_def mc_i8x16_min_u_def mc_i8x16_max_s_def mc_i8x16_max_u_def mc_i8x16_avgr_u_def
  mc_i16x8_extadd_pairwise_i8x16_s_def mc_i16x8_extadd_pairwise_i8x16_u_def mc_i16x8_abs_def mc_i16x8_neg_def
  mc_i16x8_q15mulr_sat_s_def mc_i16x8_all_true_def mc_i16x8_bitmask_def mc_i16x8_narrow_i32x4_s_def
  mc_i16x8_narrow_i32x4_u_def mc_i16x8_extend_low_i8x16_s_def mc_i16x8_extend_high_i8x16_s_def
  mc_i16x8_extend_low_i8x16_u_def mc_i16x8_extend_high_i8x16_u_def mc_i16x8_shl_def mc_i16x8_shr_s_def mc_i16x8_shr_u_def
  mc_i16x8_add_def mc_i16x8_add_sat_s_def mc_i16x8_add_sat_u_def mc_i16x8_sub_def mc_i16x8_sub_sat_s_def
  mc_i16x8_sub_sat_u_def mc_i16x8_mul_def mc_i16x8_min_s_def mc_i16x8_min_u_def mc_i16x8_max_s_def mc_i16x8_max_u_def
  mc_i16x8_avgr_u_def mc_i16x8_extmul_low_i8x16_s_def mc_i16x8_extmul_high_i8x16_s_def mc_i16x8_extmul_low_i8x16_u_def
  mc_i16x8_extmul_high_i8x16_u_def mc_i32x4_extadd_pairwise_i16x8_s_def mc_i32x4_extadd_pairwise_i16x8_u_def
  mc_i32x4_abs_def mc_i32x4_neg_def mc_i32x4_all_true_def mc_i32x4_bitmask_def mc_i32x4_extend_low_i16x8_s_def
  mc_i32x4_extend_high_i16x8_s_def mc_i32x4_extend_low_i16x8_u_def mc_i32x4_extend_high_i16x8_u_def mc_i32x4_shl_def
  mc_i32x4_shr_s_def mc_i32x4_shr_u_def mc_i32x4_add_def mc_i32x4_sub_def mc_i32x4_mul_def mc_i32x4_min_s_def
  mc_i32x4_min_u_def mc_i32x4_max_s_def mc_i32x4_max_u_def mc_i32x4_dot_i16x8_s_def mc_i32x4_extmul_low_i16x8_s_def
  mc_i32x4_extmul_high_i16x8_s_def mc_i32x4_extmul_low_i16x8_u_def mc_i32x4_extmul_high_i16x8_u_def mc_i64x2_abs_def
  mc_i64x2_neg_def mc_i64x2_all_true_def mc_i64x2_bitmask_def mc_i64x2_extend_low_i32x4_s_def
  mc_i64x2_extend_high_i32x4_s_def mc_i64x2_extend_low_i32x4_u_def mc_i64x2_extend_high_i32x4_u_def mc_i64x2_shl_def
  mc_i64x2_shr_s_def mc_i64x2_shr_u_def mc_i64x2_add_def mc_i64x2_sub_def mc_i64x2_mul_def
  mc_i64x2_extmul_low_i32x4_s_def mc_i64x2_extmul_high_i32x4_s_def mc_i64x2_extmul_low_i32x4_u_def
  mc_i64x2_extmul_high_i32x4_u_def mc_f32x4_ceil_def mc_f32x4_floor_def mc_f32x4_trunc_def mc_f32x4_nearest_def
  mc_f32x4_abs_def mc_f32x4_neg_def mc_f32x4_sqrt_def mc_f32x4_add_def mc_f32x4_sub_def mc_f32x4_mul_def mc_f32x4_div_def
  mc_f32x4_min_def mc_f32x4_max_def mc_f32x4_pmin_def mc_f32x4_pmax_def mc_f64x2_ceil_def mc_f64x2_floor_def
  mc_f64x2_trunc_def mc_f64x2_nearest_def mc_f64x2_abs_def mc_f64x2_neg_def mc_f64x2_sqrt_def mc_f64x2_add_def
  mc_f64x2_sub_def mc_f64x2_mul_def mc_f64x2_div_def mc_f64x2_min_def mc_f64x2_max_def mc_f64x2_pmin_def
  mc_f64x2_pmax_def mc_i32x4_trunc_sat_f32x4_s_def mc_i32x4_trunc_sat_f32x4_u_def mc_f32x4_convert_i32x4_s_def
  mc_f32x4_convert_i32x4_u_def mc_i32x4_trunc_sat_f64x2_s_zero_def mc_i32x4_trunc_sat_f64x2_u_zero_def
  mc_f64x2_convert_low_i32x4_s_def mc_f64x2_convert_low_i32x4_u_def mc_f32x4_demote_f64x2_zero_def
  mc_f64x2_promote_low_f32x4_def

end
