(* ===== verification/Vm_Jit_Dispatch.thy ===== *)
theory Vm_Jit_Dispatch
  imports Vm_Jit_Int Vm_Jit_Float Vm_Jit_Simd Vm_Opcodes
begin

text \<open>
  The emitter that the parser calls for each instruction of the instruction set: \<open>code_writer.emit_x\<close> in the
  case of \<open>x\<close>.  The vector instructions are numbered as in \<^verbatim>\<open>opcodes_def.hpp\<close>.
\<close>

section \<open>Instructions without operands\<close>

fun jit_load :: "load_op \<Rightarrow> u32 \<Rightarrow> u32 \<Rightarrow> unit jm" where
  "jit_load I32_load a off = mc_i32_load a off" | "jit_load I64_load a off = mc_i64_load a off"
| "jit_load F32_load a off = mc_f32_load a off" | "jit_load F64_load a off = mc_f64_load a off"
| "jit_load I32_load8_s a off = mc_i32_load8_s a off" | "jit_load I32_load16_s a off = mc_i32_load16_s a off"
| "jit_load I32_load8_u a off = mc_i32_load8_u a off" | "jit_load I32_load16_u a off = mc_i32_load16_u a off"
| "jit_load I64_load8_s a off = mc_i64_load8_s a off" | "jit_load I64_load16_s a off = mc_i64_load16_s a off"
| "jit_load I64_load32_s a off = mc_i64_load32_s a off" | "jit_load I64_load8_u a off = mc_i64_load8_u a off"
| "jit_load I64_load16_u a off = mc_i64_load16_u a off" | "jit_load I64_load32_u a off = mc_i64_load32_u a off"

fun jit_store :: "store_op \<Rightarrow> u32 \<Rightarrow> u32 \<Rightarrow> unit jm" where
  "jit_store I32_store a off = mc_i32_store a off" | "jit_store I64_store a off = mc_i64_store a off"
| "jit_store F32_store a off = mc_f32_store a off" | "jit_store F64_store a off = mc_f64_store a off"
| "jit_store I32_store8 a off = mc_i32_store8 a off" | "jit_store I32_store16 a off = mc_i32_store16 a off"
| "jit_store I64_store8 a off = mc_i64_store8 a off" | "jit_store I64_store16 a off = mc_i64_store16 a off"
| "jit_store I64_store32 a off = mc_i64_store32 a off"

fun jit_i32_cmp_op :: "i32_cmp_op \<Rightarrow> unit jm" where
  "jit_i32_cmp_op I32_eqz = mc_i32_eqz" | "jit_i32_cmp_op I32_eq = mc_i32_eq" | "jit_i32_cmp_op I32_ne = mc_i32_ne"
| "jit_i32_cmp_op I32_lt_s = mc_i32_lt_s" | "jit_i32_cmp_op I32_lt_u = mc_i32_lt_u" | "jit_i32_cmp_op I32_gt_s = mc_i32_gt_s"
| "jit_i32_cmp_op I32_gt_u = mc_i32_gt_u" | "jit_i32_cmp_op I32_le_s = mc_i32_le_s" | "jit_i32_cmp_op I32_le_u = mc_i32_le_u"
| "jit_i32_cmp_op I32_ge_s = mc_i32_ge_s" | "jit_i32_cmp_op I32_ge_u = mc_i32_ge_u"

fun jit_i64_cmp_op :: "i64_cmp_op \<Rightarrow> unit jm" where
  "jit_i64_cmp_op I64_eqz = mc_i64_eqz" | "jit_i64_cmp_op I64_eq = mc_i64_eq" | "jit_i64_cmp_op I64_ne = mc_i64_ne"
| "jit_i64_cmp_op I64_lt_s = mc_i64_lt_s" | "jit_i64_cmp_op I64_lt_u = mc_i64_lt_u" | "jit_i64_cmp_op I64_gt_s = mc_i64_gt_s"
| "jit_i64_cmp_op I64_gt_u = mc_i64_gt_u" | "jit_i64_cmp_op I64_le_s = mc_i64_le_s" | "jit_i64_cmp_op I64_le_u = mc_i64_le_u"
| "jit_i64_cmp_op I64_ge_s = mc_i64_ge_s" | "jit_i64_cmp_op I64_ge_u = mc_i64_ge_u"

fun jit_f32_cmp_op :: "f32_cmp_op \<Rightarrow> unit jm" where
  "jit_f32_cmp_op F32_eq = mc_f32_eq" | "jit_f32_cmp_op F32_ne = mc_f32_ne" | "jit_f32_cmp_op F32_lt = mc_f32_lt"
| "jit_f32_cmp_op F32_gt = mc_f32_gt" | "jit_f32_cmp_op F32_le = mc_f32_le" | "jit_f32_cmp_op F32_ge = mc_f32_ge"

fun jit_f64_cmp_op :: "f64_cmp_op \<Rightarrow> unit jm" where
  "jit_f64_cmp_op F64_eq = mc_f64_eq" | "jit_f64_cmp_op F64_ne = mc_f64_ne" | "jit_f64_cmp_op F64_lt = mc_f64_lt"
| "jit_f64_cmp_op F64_gt = mc_f64_gt" | "jit_f64_cmp_op F64_le = mc_f64_le" | "jit_f64_cmp_op F64_ge = mc_f64_ge"

fun jit_i32_op :: "i32_op \<Rightarrow> unit jm" where
  "jit_i32_op I32_clz = mc_i32_clz" | "jit_i32_op I32_ctz = mc_i32_ctz" | "jit_i32_op I32_popcnt = mc_i32_popcnt"
| "jit_i32_op I32_add = mc_i32_add" | "jit_i32_op I32_sub = mc_i32_sub" | "jit_i32_op I32_mul = mc_i32_mul"
| "jit_i32_op I32_div_s = mc_i32_div_s" | "jit_i32_op I32_div_u = mc_i32_div_u" | "jit_i32_op I32_rem_s = mc_i32_rem_s"
| "jit_i32_op I32_rem_u = mc_i32_rem_u" | "jit_i32_op I32_and = mc_i32_and" | "jit_i32_op I32_or = mc_i32_or"
| "jit_i32_op I32_xor = mc_i32_xor" | "jit_i32_op I32_shl = mc_i32_shl" | "jit_i32_op I32_shr_s = mc_i32_shr_s"
| "jit_i32_op I32_shr_u = mc_i32_shr_u" | "jit_i32_op I32_rotl = mc_i32_rotl" | "jit_i32_op I32_rotr = mc_i32_rotr"

fun jit_i64_op :: "i64_op \<Rightarrow> unit jm" where
  "jit_i64_op I64_clz = mc_i64_clz" | "jit_i64_op I64_ctz = mc_i64_ctz" | "jit_i64_op I64_popcnt = mc_i64_popcnt"
| "jit_i64_op I64_add = mc_i64_add" | "jit_i64_op I64_sub = mc_i64_sub" | "jit_i64_op I64_mul = mc_i64_mul"
| "jit_i64_op I64_div_s = mc_i64_div_s" | "jit_i64_op I64_div_u = mc_i64_div_u" | "jit_i64_op I64_rem_s = mc_i64_rem_s"
| "jit_i64_op I64_rem_u = mc_i64_rem_u" | "jit_i64_op I64_and = mc_i64_and" | "jit_i64_op I64_or = mc_i64_or"
| "jit_i64_op I64_xor = mc_i64_xor" | "jit_i64_op I64_shl = mc_i64_shl" | "jit_i64_op I64_shr_s = mc_i64_shr_s"
| "jit_i64_op I64_shr_u = mc_i64_shr_u" | "jit_i64_op I64_rotl = mc_i64_rotl" | "jit_i64_op I64_rotr = mc_i64_rotr"

fun jit_f32_op :: "f32_op \<Rightarrow> unit jm" where
  "jit_f32_op F32_abs = mc_f32_abs" | "jit_f32_op F32_neg = mc_f32_neg" | "jit_f32_op F32_ceil = mc_f32_ceil"
| "jit_f32_op F32_floor = mc_f32_floor" | "jit_f32_op F32_trunc = mc_f32_trunc" | "jit_f32_op F32_nearest = mc_f32_nearest"
| "jit_f32_op F32_sqrt = mc_f32_sqrt" | "jit_f32_op F32_add = mc_f32_add" | "jit_f32_op F32_sub = mc_f32_sub"
| "jit_f32_op F32_mul = mc_f32_mul" | "jit_f32_op F32_div = mc_f32_div" | "jit_f32_op F32_min = mc_f32_min"
| "jit_f32_op F32_max = mc_f32_max" | "jit_f32_op F32_copysign = mc_f32_copysign"

fun jit_f64_op :: "f64_op \<Rightarrow> unit jm" where
  "jit_f64_op F64_abs = mc_f64_abs" | "jit_f64_op F64_neg = mc_f64_neg" | "jit_f64_op F64_ceil = mc_f64_ceil"
| "jit_f64_op F64_floor = mc_f64_floor" | "jit_f64_op F64_trunc = mc_f64_trunc" | "jit_f64_op F64_nearest = mc_f64_nearest"
| "jit_f64_op F64_sqrt = mc_f64_sqrt" | "jit_f64_op F64_add = mc_f64_add" | "jit_f64_op F64_sub = mc_f64_sub"
| "jit_f64_op F64_mul = mc_f64_mul" | "jit_f64_op F64_div = mc_f64_div" | "jit_f64_op F64_min = mc_f64_min"
| "jit_f64_op F64_max = mc_f64_max" | "jit_f64_op F64_copysign = mc_f64_copysign"

fun jit_extend_op :: "extend_op \<Rightarrow> unit jm" where
  "jit_extend_op I32_extend8_s = mc_i32_extend8_s" | "jit_extend_op I32_extend16_s = mc_i32_extend16_s"
| "jit_extend_op I64_extend8_s = mc_i64_extend8_s" | "jit_extend_op I64_extend16_s = mc_i64_extend16_s"
| "jit_extend_op I64_extend32_s = mc_i64_extend32_s"

fun jit_conv_op :: "conv_op \<Rightarrow> unit jm" where
  "jit_conv_op I32_wrap_i64 = mc_i32_wrap_i64" | "jit_conv_op I32_trunc_s_f32 = mc_i32_trunc_s_f32"
| "jit_conv_op I32_trunc_u_f32 = mc_i32_trunc_u_f32" | "jit_conv_op I32_trunc_s_f64 = mc_i32_trunc_s_f64"
| "jit_conv_op I32_trunc_u_f64 = mc_i32_trunc_u_f64" | "jit_conv_op I64_extend_s_i32 = mc_i64_extend_s_i32"
| "jit_conv_op I64_extend_u_i32 = mc_i64_extend_u_i32" | "jit_conv_op I64_trunc_s_f32 = mc_i64_trunc_s_f32"
| "jit_conv_op I64_trunc_u_f32 = mc_i64_trunc_u_f32" | "jit_conv_op I64_trunc_s_f64 = mc_i64_trunc_s_f64"
| "jit_conv_op I64_trunc_u_f64 = mc_i64_trunc_u_f64" | "jit_conv_op F32_convert_s_i32 = mc_f32_convert_s_i32"
| "jit_conv_op F32_convert_u_i32 = mc_f32_convert_u_i32" | "jit_conv_op F32_convert_s_i64 = mc_f32_convert_s_i64"
| "jit_conv_op F32_convert_u_i64 = mc_f32_convert_u_i64" | "jit_conv_op F32_demote_f64 = mc_f32_demote_f64"
| "jit_conv_op F64_convert_s_i32 = mc_f64_convert_s_i32" | "jit_conv_op F64_convert_u_i32 = mc_f64_convert_u_i32"
| "jit_conv_op F64_convert_s_i64 = mc_f64_convert_s_i64" | "jit_conv_op F64_convert_u_i64 = mc_f64_convert_u_i64"
| "jit_conv_op F64_promote_f32 = mc_f64_promote_f32" | "jit_conv_op I32_reinterpret_f32 = mc_i32_reinterpret_f32"
| "jit_conv_op I64_reinterpret_f64 = mc_i64_reinterpret_f64" | "jit_conv_op F32_reinterpret_i32 = mc_f32_reinterpret_i32"
| "jit_conv_op F64_reinterpret_i64 = mc_f64_reinterpret_i64"

fun jit_sat_op :: "sat_op \<Rightarrow> unit jm" where
  "jit_sat_op I32_trunc_sat_f32_s = mc_i32_trunc_sat_f32_s" | "jit_sat_op I32_trunc_sat_f32_u = mc_i32_trunc_sat_f32_u"
| "jit_sat_op I32_trunc_sat_f64_s = mc_i32_trunc_sat_f64_s" | "jit_sat_op I32_trunc_sat_f64_u = mc_i32_trunc_sat_f64_u"
| "jit_sat_op I64_trunc_sat_f32_s = mc_i64_trunc_sat_f32_s" | "jit_sat_op I64_trunc_sat_f32_u = mc_i64_trunc_sat_f32_u"
| "jit_sat_op I64_trunc_sat_f64_s = mc_i64_trunc_sat_f64_s" | "jit_sat_op I64_trunc_sat_f64_u = mc_i64_trunc_sat_f64_u"

fun jit_cmp_op :: "cmp_op \<Rightarrow> unit jm" where
  "jit_cmp_op (I32_cmp op) = jit_i32_cmp_op op" | "jit_cmp_op (I64_cmp op) = jit_i64_cmp_op op"
| "jit_cmp_op (F32_cmp op) = jit_f32_cmp_op op" | "jit_cmp_op (F64_cmp op) = jit_f64_cmp_op op"

fun jit_arith_op :: "arith_op \<Rightarrow> unit jm" where
  "jit_arith_op (I32_op op) = jit_i32_op op" | "jit_arith_op (I64_op op) = jit_i64_op op"
| "jit_arith_op (F32_op op) = jit_f32_op op" | "jit_arith_op (F64_op op) = jit_f64_op op"
| "jit_arith_op (Extend_op op) = jit_extend_op op"

fun jit_numeric_op :: "numeric_op \<Rightarrow> unit jm" where
  "jit_numeric_op (Cmp_t op) = jit_cmp_op op" | "jit_numeric_op (Arith_t op) = jit_arith_op op"
| "jit_numeric_op (Conv_t op) = jit_conv_op op" | "jit_numeric_op (Sat_t op) = jit_sat_op op"

section \<open>Instructions with operands\<close>

fun jit_const_op :: "const_op \<Rightarrow> unit jm" where
  "jit_const_op (I32_const_t v) = mc_i32_const v" | "jit_const_op (I64_const_t v) = mc_i64_const v"
| "jit_const_op (F32_const_t v) = mc_f32_const v" | "jit_const_op (F64_const_t v) = mc_f64_const v"
| "jit_const_op (V128_const_t v) = mc_v128_const v"

fun jit_bulk_op :: "bulk_op \<Rightarrow> unit jm" where
  "jit_bulk_op (Memory_init_t x) = mc_memory_init x" | "jit_bulk_op (Data_drop_t x) = mc_data_drop x"
| "jit_bulk_op Memory_copy_t = mc_memory_copy" | "jit_bulk_op Memory_fill_t = mc_memory_fill"
| "jit_bulk_op (Table_init_t x) = mc_table_init x" | "jit_bulk_op (Elem_drop_t x) = mc_elem_drop x" | "jit_bulk_op Table_copy_t = mc_table_copy"

section \<open>Vector instructions\<close>

definition vec_memory_emitters :: "(u32 \<times> (u32 \<Rightarrow> u32 \<Rightarrow> unit jm)) list" where
  "vec_memory_emitters = [
     (0, mc_v128_load), (1, mc_v128_load8x8_s), (2, mc_v128_load8x8_u), (3, mc_v128_load16x4_s), (4, mc_v128_load16x4_u),
     (5, mc_v128_load32x2_s), (6, mc_v128_load32x2_u), (7, mc_v128_load8_splat), (8, mc_v128_load16_splat),
     (9, mc_v128_load32_splat), (10, mc_v128_load64_splat), (92, mc_v128_load32_zero), (93, mc_v128_load64_zero),
     (11, mc_v128_store)]"

definition vec_lane_memory_emitters :: "(u32 \<times> (u32 \<Rightarrow> u32 \<Rightarrow> u8 \<Rightarrow> unit jm)) list" where
  "vec_lane_memory_emitters = [
     (84, mc_v128_load8_lane), (85, mc_v128_load16_lane), (86, mc_v128_load32_lane), (87, mc_v128_load64_lane),
     (88, mc_v128_store8_lane), (89, mc_v128_store16_lane), (90, mc_v128_store32_lane), (91, mc_v128_store64_lane)]"

definition vec_lane_emitters :: "(u32 \<times> (u8 \<Rightarrow> unit jm)) list" where
  "vec_lane_emitters = [
     (21, mc_i8x16_extract_lane_s), (22, mc_i8x16_extract_lane_u), (23, mc_i8x16_replace_lane),
     (24, mc_i16x8_extract_lane_s), (25, mc_i16x8_extract_lane_u), (26, mc_i16x8_replace_lane), (27, mc_i32x4_extract_lane),
     (28, mc_i32x4_replace_lane), (29, mc_i64x2_extract_lane), (30, mc_i64x2_replace_lane), (31, mc_f32x4_extract_lane),
     (32, mc_f32x4_replace_lane), (33, mc_f64x2_extract_lane), (34, mc_f64x2_replace_lane)]"

definition vec_numeric_emitters :: "(u32 \<times> unit jm) list" where
  "vec_numeric_emitters = [
     (14, mc_i8x16_swizzle), (15, mc_i8x16_splat), (16, mc_i16x8_splat), (17, mc_i32x4_splat), (18, mc_i64x2_splat),
     (19, mc_f32x4_splat), (20, mc_f64x2_splat), (35, mc_i8x16_eq), (36, mc_i8x16_ne), (37, mc_i8x16_lt_s),
     (38, mc_i8x16_lt_u), (39, mc_i8x16_gt_s), (40, mc_i8x16_gt_u), (41, mc_i8x16_le_s), (42, mc_i8x16_le_u),
     (43, mc_i8x16_ge_s), (44, mc_i8x16_ge_u), (45, mc_i16x8_eq), (46, mc_i16x8_ne), (47, mc_i16x8_lt_s),
     (48, mc_i16x8_lt_u), (49, mc_i16x8_gt_s), (50, mc_i16x8_gt_u), (51, mc_i16x8_le_s), (52, mc_i16x8_le_u),
     (53, mc_i16x8_ge_s), (54, mc_i16x8_ge_u), (55, mc_i32x4_eq), (56, mc_i32x4_ne), (57, mc_i32x4_lt_s),
     (58, mc_i32x4_lt_u), (59, mc_i32x4_gt_s), (60, mc_i32x4_gt_u), (61, mc_i32x4_le_s), (62, mc_i32x4_le_u),
     (63, mc_i32x4_ge_s), (64, mc_i32x4_ge_u), (214, mc_i64x2_eq), (215, mc_i64x2_ne), (216, mc_i64x2_lt_s),
     (217, mc_i64x2_gt_s), (218, mc_i64x2_le_s), (219, mc_i64x2_ge_s), (65, mc_f32x4_eq), (66, mc_f32x4_ne),
     (67, mc_f32x4_lt), (68, mc_f32x4_gt), (69, mc_f32x4_le), (70, mc_f32x4_ge), (71, mc_f64x2_eq), (72, mc_f64x2_ne),
     (73, mc_f64x2_lt), (74, mc_f64x2_gt), (75, mc_f64x2_le), (76, mc_f64x2_ge), (77, mc_v128_not), (78, mc_v128_and),
     (79, mc_v128_andnot), (80, mc_v128_or), (81, mc_v128_xor), (82, mc_v128_bitselect), (83, mc_v128_any_true),
     (96, mc_i8x16_abs), (97, mc_i8x16_neg), (98, mc_i8x16_popcnt), (99, mc_i8x16_all_true), (100, mc_i8x16_bitmask),
     (101, mc_i8x16_narrow_i16x8_s), (102, mc_i8x16_narrow_i16x8_u), (107, mc_i8x16_shl), (108, mc_i8x16_shr_s),
     (109, mc_i8x16_shr_u), (110, mc_i8x16_add), (111, mc_i8x16_add_sat_s), (112, mc_i8x16_add_sat_u), (113, mc_i8x16_sub),
     (114, mc_i8x16_sub_sat_s), (115, mc_i8x16_sub_sat_u), (118, mc_i8x16_min_s), (119, mc_i8x16_min_u),
     (120, mc_i8x16_max_s), (121, mc_i8x16_max_u), (123, mc_i8x16_avgr_u), (124, mc_i16x8_extadd_pairwise_i8x16_s),
     (125, mc_i16x8_extadd_pairwise_i8x16_u), (128, mc_i16x8_abs), (129, mc_i16x8_neg), (130, mc_i16x8_q15mulr_sat_s),
     (131, mc_i16x8_all_true), (132, mc_i16x8_bitmask), (133, mc_i16x8_narrow_i32x4_s), (134, mc_i16x8_narrow_i32x4_u),
     (135, mc_i16x8_extend_low_i8x16_s), (136, mc_i16x8_extend_high_i8x16_s), (137, mc_i16x8_extend_low_i8x16_u),
     (138, mc_i16x8_extend_high_i8x16_u), (139, mc_i16x8_shl), (140, mc_i16x8_shr_s), (141, mc_i16x8_shr_u),
     (142, mc_i16x8_add), (143, mc_i16x8_add_sat_s), (144, mc_i16x8_add_sat_u), (145, mc_i16x8_sub),
     (146, mc_i16x8_sub_sat_s), (147, mc_i16x8_sub_sat_u), (149, mc_i16x8_mul), (150, mc_i16x8_min_s), (151, mc_i16x8_min_u),
     (152, mc_i16x8_max_s), (153, mc_i16x8_max_u), (155, mc_i16x8_avgr_u), (156, mc_i16x8_extmul_low_i8x16_s),
     (157, mc_i16x8_extmul_high_i8x16_s), (158, mc_i16x8_extmul_low_i8x16_u), (159, mc_i16x8_extmul_high_i8x16_u),
     (126, mc_i32x4_extadd_pairwise_i16x8_s), (127, mc_i32x4_extadd_pairwise_i16x8_u), (160, mc_i32x4_abs),
     (161, mc_i32x4_neg), (163, mc_i32x4_all_true), (164, mc_i32x4_bitmask), (167, mc_i32x4_extend_low_i16x8_s),
     (168, mc_i32x4_extend_high_i16x8_s), (169, mc_i32x4_extend_low_i16x8_u), (170, mc_i32x4_extend_high_i16x8_u),
     (171, mc_i32x4_shl), (172, mc_i32x4_shr_s), (173, mc_i32x4_shr_u), (174, mc_i32x4_add), (177, mc_i32x4_sub),
     (181, mc_i32x4_mul), (182, mc_i32x4_min_s), (183, mc_i32x4_min_u), (184, mc_i32x4_max_s), (185, mc_i32x4_max_u),
     (186, mc_i32x4_dot_i16x8_s), (188, mc_i32x4_extmul_low_i16x8_s), (189, mc_i32x4_extmul_high_i16x8_s),
     (190, mc_i32x4_extmul_low_i16x8_u), (191, mc_i32x4_extmul_high_i16x8_u), (192, mc_i64x2_abs), (193, mc_i64x2_neg),
     (195, mc_i64x2_all_true), (196, mc_i64x2_bitmask), (199, mc_i64x2_extend_low_i32x4_s),
     (200, mc_i64x2_extend_high_i32x4_s), (201, mc_i64x2_extend_low_i32x4_u), (202, mc_i64x2_extend_high_i32x4_u),
     (203, mc_i64x2_shl), (204, mc_i64x2_shr_s), (205, mc_i64x2_shr_u), (206, mc_i64x2_add), (209, mc_i64x2_sub),
     (213, mc_i64x2_mul), (220, mc_i64x2_extmul_low_i32x4_s), (221, mc_i64x2_extmul_high_i32x4_s),
     (222, mc_i64x2_extmul_low_i32x4_u), (223, mc_i64x2_extmul_high_i32x4_u), (103, mc_f32x4_ceil), (104, mc_f32x4_floor),
     (105, mc_f32x4_trunc), (106, mc_f32x4_nearest), (224, mc_f32x4_abs), (225, mc_f32x4_neg), (227, mc_f32x4_sqrt),
     (228, mc_f32x4_add), (229, mc_f32x4_sub), (230, mc_f32x4_mul), (231, mc_f32x4_div), (232, mc_f32x4_min),
     (233, mc_f32x4_max), (234, mc_f32x4_pmin), (235, mc_f32x4_pmax), (116, mc_f64x2_ceil), (117, mc_f64x2_floor),
     (122, mc_f64x2_trunc), (148, mc_f64x2_nearest), (236, mc_f64x2_abs), (237, mc_f64x2_neg), (239, mc_f64x2_sqrt),
     (240, mc_f64x2_add), (241, mc_f64x2_sub), (242, mc_f64x2_mul), (243, mc_f64x2_div), (244, mc_f64x2_min),
     (245, mc_f64x2_max), (246, mc_f64x2_pmin), (247, mc_f64x2_pmax), (248, mc_i32x4_trunc_sat_f32x4_s),
     (249, mc_i32x4_trunc_sat_f32x4_u), (250, mc_f32x4_convert_i32x4_s), (251, mc_f32x4_convert_i32x4_u),
     (252, mc_i32x4_trunc_sat_f64x2_s_zero), (253, mc_i32x4_trunc_sat_f64x2_u_zero), (254, mc_f64x2_convert_low_i32x4_s),
     (255, mc_f64x2_convert_low_i32x4_u), (94, mc_f32x4_demote_f64x2_zero), (95, mc_f64x2_promote_low_f32x4)]"

fun jit_vec_op :: "vec_op \<Rightarrow> unit jm option" where
  "jit_vec_op (Vec_memory_t n a off) = map_option (\<lambda>f. f a off) (map_of vec_memory_emitters n)"
| "jit_vec_op (Vec_lane_memory_t n a off lane) = map_option (\<lambda>f. f a off lane) (map_of vec_lane_memory_emitters n)"
| "jit_vec_op (Vec_shuffle_t lanes) = Some (mc_i8x16_shuffle lanes)"
| "jit_vec_op (Vec_lane_t n l) = map_option (\<lambda>f. f l) (map_of vec_lane_emitters n)"
| "jit_vec_op (Vec_numeric_t n) = map_of vec_numeric_emitters n"

end
