(* ===== verification/Vm_Jit_Fits.thy ===== *)
theory Vm_Jit_Fits
  imports Vm_Jit_Dispatch
begin

text \<open>
  A calculus for the number of bytes that the functions of the compiler write.  \<open>sized env c lo hi m Q\<close> says that
  \<open>m\<close>, started with room for \<open>hi\<close> bytes, writes at most \<open>hi\<close> bytes and never behind the buffer, that in a build that
  validates sizes it writes at least \<open>lo\<close> bytes and no size assertion fails, and that its result satisfies \<open>Q\<close>.
  The rules follow the structure of the emitters; the operations that can be folded keep an invariant.
\<close>

section \<open>Invariant\<close>

text \<open>How many bytes an operation that may be folded has at least; the push of a vector has at most nine.\<close>

fun min_len :: "recent_data \<Rightarrow> nat" where
  "min_len (Register_push r) = 1" | "min_len (Get_local_op x) = 1" | "min_len (I32_const_op v) = 3" | "min_len (I64_const_op v) = 11"
| "min_len _ = 0"

definition span_ok :: "recent_data \<Rightarrow> nat \<Rightarrow> bool" where
  "span_ok d n \<longleftrightarrow> min_len d \<le> n \<and> (\<forall>r. d = Xmm_push r \<longrightarrow> n \<le> 9)"

definition recent_ok :: "nat \<Rightarrow> recent_op \<Rightarrow> bool" where
  "recent_ok b r \<longleftrightarrow> (case ro_end r of None \<Rightarrow> True | Some x \<Rightarrow> ro_start r \<le> x \<and> span_ok (ro_data r) (x - ro_start r) \<and> x \<le> b)"

text \<open>What the two recorded operations satisfy: they lie before the write position, the older before the newer.\<close>

definition recents_ok :: "jit \<Rightarrow> bool" where
  "recents_ok s \<longleftrightarrow> recent_ok (jc_code s) (jc_recent1 s) \<and>
     recent_ok (if ro_end (jc_recent1 s) = None then jc_code s else ro_start (jc_recent1 s)) (jc_recent0 s)"

definition relocs_ok :: "nat \<Rightarrow> relocation list \<Rightarrow> bool" where
  "relocs_ok e rs \<longleftrightarrow> (\<forall>ps. Pending ps \<in> set rs \<longrightarrow> (\<forall>p \<in> set ps. p + 4 \<le> e))"

text \<open>What the emitters leave alone: the end of the buffer, the function with its frame, the start of the buffer and the allocator.\<close>

type_synonym jit_context = "nat \<times> func_type \<times> u32 list \<times> local_group list \<times> nat \<times> nat \<times> growable_allocator"

text \<open>
  What must stay where it is: the operands of calls that wait for their target, the operand of the check of the stack
  and the code of other functions lie below \<open>b\<close>.  No sequence of folds takes the write position back below
  \<open>get_addr\<close>.
\<close>

definition pinned :: "jit \<Rightarrow> nat \<Rightarrow> bool" where
  "pinned s b \<longleftrightarrow> relocs_ok b (jc_relocs s) \<and> jc_stack_limit_entry s + 4 \<le> max 4 b \<and> jc_start s \<le> b"

definition jit_ok :: "jit_context \<Rightarrow> jit \<Rightarrow> bool" where
  "jit_ok c s \<longleftrightarrow> c = (jc_end s, jc_ft s, jc_params s, jc_locals s, jc_start s, jc_segment s, jc_alloc s) \<and> recents_ok s \<and> pinned s (mc_get_addr s)"

lemma pinned_mono: "pinned s b \<Longrightarrow> b \<le> b' \<Longrightarrow> pinned s b'"
  unfolding pinned_def relocs_ok_def by fastforce

lemma pinned_cong: "jc_relocs s' = jc_relocs s \<Longrightarrow> jc_stack_limit_entry s' = jc_stack_limit_entry s \<Longrightarrow> jc_start s' = jc_start s \<Longrightarrow> pinned s' = pinned s"
  by (simp add: pinned_def fun_eq_iff)

lemma pinned_update [simp]: "pinned (s\<lparr>jc_mem := f\<rparr>) = pinned s" "pinned (s\<lparr>jc_code := n\<rparr>) = pinned s" "pinned (s\<lparr>jc_recent0 := r\<rparr>) = pinned s"
  "pinned (s\<lparr>jc_recent1 := r\<rparr>) = pinned s"
  by (simp_all add: pinned_def fun_eq_iff)

lemma get_addr_le: "recents_ok s \<Longrightarrow> mc_get_addr s \<le> jc_code s"
  by (auto simp: recents_ok_def recent_ok_def mc_get_addr_def)

definition sized :: "jit_env \<Rightarrow> jit_context \<Rightarrow> nat \<Rightarrow> nat \<Rightarrow> 'a jm \<Rightarrow> ('a \<Rightarrow> bool) \<Rightarrow> bool" where
  "sized env c lo hi m Q \<longleftrightarrow> (\<forall>s. jit_ok c s \<and> jc_code s + hi \<le> fst c \<longrightarrow> (case m env s of
       Inl x \<Rightarrow> x \<noteq> Undefined_behaviour \<and> x \<noteq> Assertion_failure
     | Inr (a, s') \<Rightarrow> jit_ok c s' \<and> jc_code s' \<le> jc_code s + hi \<and> (jv_validate env \<longrightarrow> jc_code s + lo \<le> jc_code s') \<and> Q a))"

abbreviation anyJ :: "'a \<Rightarrow> bool" where "anyJ \<equiv> \<lambda>_. True"

named_theorems jit_sized \<open>rules for the size of emitted code\<close>

lemma recent_ok_mono: "recent_ok b r \<Longrightarrow> b \<le> b' \<Longrightarrow> recent_ok b' r"
  by (auto simp: recent_ok_def split: option.splits)

lemma recent_ok_none [simp]: "recent_ok b no_recent"
  by (simp add: recent_ok_def no_recent_def)

lemma sizedI:
  assumes "\<And>s. jit_ok c s \<Longrightarrow> jc_code s + hi \<le> fst c \<Longrightarrow> (case m env s of
       Inl x \<Rightarrow> x \<noteq> Undefined_behaviour \<and> x \<noteq> Assertion_failure
     | Inr (a, s') \<Rightarrow> jit_ok c s' \<and> jc_code s' \<le> jc_code s + hi \<and> (jv_validate env \<longrightarrow> jc_code s + lo \<le> jc_code s') \<and> Q a)"
  shows "sized env c lo hi m Q"
  using assms by (simp add: sized_def)

lemma sizedD:
  assumes "sized env c lo hi m Q" and "jit_ok c s" and "jc_code s + hi \<le> fst c"
  obtains x where "m env s = Inl x" "x \<noteq> Undefined_behaviour" "x \<noteq> Assertion_failure"
  | a s' where "m env s = Inr (a, s')" "jit_ok c s'" "jc_code s' \<le> jc_code s + hi" "jv_validate env \<longrightarrow> jc_code s + lo \<le> jc_code s'" "Q a"
  using assms by (cases "m env s") (auto simp: sized_def)

lemma sized_weak:
  assumes "sized env c lo hi m Q" and "lo' \<le> lo" and "hi \<le> hi'" and "\<And>a. Q a \<Longrightarrow> R a"
  shows "sized env c lo' hi' m R"
proof (rule sizedI, goal_cases)
  case (1 s)
  then have "jc_code s + hi \<le> fst c" using assms(3) by simp
  from assms(1) 1(1) this show ?case by (rule sizedD) (use assms in auto)
qed

section \<open>Structure\<close>

lemma sized_bind [jit_sized]:
  assumes "sized env c l1 h1 m P" and "\<And>a. P a \<Longrightarrow> sized env c l2 h2 (f a) Q"
  shows "sized env c (l1 + l2) (h1 + h2) (bindJ m f) Q"
proof (rule sizedI, goal_cases)
  case (1 s)
  then have "jc_code s + h1 \<le> fst c" by simp
  with assms(1) 1(1) show ?case
  proof (rule sizedD)
    fix a s' assume a: "m env s = Inr (a, s')" "jit_ok c s'" "jc_code s' \<le> jc_code s + h1" "jv_validate env \<longrightarrow> jc_code s + l1 \<le> jc_code s'" "P a"
    have "jc_code s' + h2 \<le> fst c" using 1 a by simp
    with assms(2)[OF a(5)] a(2) show ?thesis by (rule sizedD) (use a in \<open>auto simp: bindJ_def\<close>)
  qed (simp add: bindJ_def)
qed

lemma sized_ret: "Q a \<Longrightarrow> sized env c 0 0 (retJ a) Q"
  by (simp add: sized_def retJ_def)

lemma sized_ret_any [jit_sized]: "sized env c 0 0 (retJ a) anyJ"
  by (simp add: sized_ret)

lemma sized_throw: "x \<noteq> Undefined_behaviour \<Longrightarrow> x \<noteq> Assertion_failure \<Longrightarrow> sized env c lo hi (throwJ x) Q"
  by (simp add: sized_def throwJ_def)

lemma sized_unimplemented: "sized env c lo hi unimplemented Q"
  by (simp add: unimplemented_def sized_throw)

lemma sized_withJ [simp]: "sized env c lo hi (withJ f g) Q = sized env c lo hi (g (f env)) Q"
  by (simp add: sized_def withJ_def)

lemma sized_check [jit_sized]:
  "x \<noteq> Undefined_behaviour \<Longrightarrow> x \<noteq> Assertion_failure \<Longrightarrow> sized env c 0 0 (checkJ b x) (\<lambda>_. b)"
  by (simp add: checkJ_def sized_throw sized_ret)

lemma sized_lift [jit_sized]:
  assumes "r \<noteq> Inl Undefined_behaviour" "r \<noteq> Inl Assertion_failure"
  shows "sized env c 0 0 (liftJ r) (\<lambda>a. r = Inr a)"
  using assms by (cases r) (auto simp: sized_def liftJ_def)

lemma sized_getJ [jit_sized]: "sized env c 0 0 (getJ f) anyJ"
  by (simp add: sized_def getJ_def)

lemma sized_seq_nil [jit_sized]: "sized env c 0 0 (seqJ []) anyJ"
  by (simp add: sized_ret_any)

lemma sized_seq_cons [jit_sized]:
  "sized env c l1 h1 m anyJ \<Longrightarrow> sized env c l2 h2 (seqJ ms) Q \<Longrightarrow> sized env c (l1 + l2) (h1 + h2) (seqJ (m # ms)) Q"
  by (simp add: sized_bind)

declare seqJ.simps [simp del]

lemma sized_if [jit_sized]:
  assumes "sized env c l1 h1 m1 Q" and "sized env c l2 h2 m2 Q"
  shows "sized env c (min l1 l2) (max h1 h2) (if b then m1 else m2) Q"
  using assms by (auto intro: sized_weak)

lemma sized_variable [jit_sized]:
  assumes "sized env c lo hi m Q" and "jv_validate env \<Longrightarrow> a \<le> lo \<and> hi \<le> b"
  shows "sized env c lo hi (variable_size_instr a b m) Q"
proof (rule sizedI, goal_cases)
  case (1 s)
  from assms(1) 1 show ?case by (rule sizedD) (use assms(2) in \<open>auto simp: variable_size_instr_def\<close>)
qed

lemma sized_fixed [jit_sized]:
  assumes "sized env c lo hi m Q" and "jv_validate env \<Longrightarrow> n \<le> lo \<and> hi \<le> n"
  shows "sized env c lo hi (fixed_size_instr n m) Q"
proof (rule sizedI, goal_cases)
  case (1 s)
  from assms(1) 1 show ?case by (rule sizedD) (use assms(2) in \<open>auto simp: fixed_size_instr_def\<close>)
qed

lemma sized_softfloat [simp]: "sized env c lo hi (softfloat_instr h f b m) Q =
  sized env c lo hi (fixed_size_instr (if jv_softfloat env then if jv_backtrace env then b else f else h) m) Q"
  by (simp add: sized_def softfloat_instr_def)

section \<open>Bytes\<close>

lemma poke_bytes_nil [simp]: "poke_bytes p [] mem = mem"
  by (auto simp: fun_eq_iff poke_bytes_def)

lemma mc_bytes_run:
  "jc_code s + length bs \<le> jc_end s \<Longrightarrow> mc_bytes bs env s = Inr ((), s\<lparr>jc_mem := poke_bytes (jc_code s) bs (jc_mem s), jc_code := jc_code s + length bs\<rparr>)"
proof (induction bs arbitrary: s)
  case Nil
  then show ?case by (simp add: retJ_def)
next
  case (Cons b bs)
  have "poke_bytes (Suc (jc_code s)) bs ((jc_mem s)(jc_code s := b)) = poke_bytes (jc_code s) (b # bs) (jc_mem s)"
    by (auto simp: fun_eq_iff poke_bytes_def nth_Cons')
  with Cons show ?case by (simp add: bindJ_def mc_byte_def fun_upd_def)
qed

declare mc_bytes.simps [simp del]

lemma length_REX_prefix [simp]: "length (REX_prefix W R X B) = of_bool (W \<or> R \<or> X \<or> B)"
  by (simp add: REX_prefix_def)

lemma jit_ok_advance:
  assumes "jit_ok c s"
  shows "jit_ok c (s\<lparr>jc_mem := f, jc_code := jc_code s + n\<rparr>)" (is "jit_ok c ?s")
proof -
  have r: "recents_ok ?s" using assms by (auto simp: jit_ok_def recents_ok_def intro: recent_ok_mono split: if_splits)
  have "mc_get_addr s \<le> mc_get_addr ?s"
  proof (cases "n = 0")
    case False
    then have "mc_get_addr ?s = jc_code s + n" using assms by (auto simp: jit_ok_def recents_ok_def recent_ok_def mc_get_addr_def)
    then show ?thesis using get_addr_le[of s] assms by (simp add: jit_ok_def)
  qed (simp add: mc_get_addr_def)
  with r assms show ?thesis by (auto simp: jit_ok_def intro: pinned_mono)
qed

lemma jit_ok_end: "jit_ok c s \<Longrightarrow> jc_end s = fst c"
  by (auto simp: jit_ok_def)

lemma sized_bytes [jit_sized]: "sized env c (length bs) (length bs) (mc_bytes bs) anyJ"
  by (rule sizedI) (simp add: mc_bytes_run jit_ok_end jit_ok_advance)

lemma sized_operand32 [jit_sized]: "sized env c 4 4 (mc_operand32 w) anyJ"
  using sized_bytes[of env c "le_bytes 4 w"] by (simp add: mc_operand32_def)

lemma sized_operand64 [jit_sized]: "sized env c 8 8 (mc_operand64 w) anyJ"
  using sized_bytes[of env c "le_bytes 8 w"] by (simp add: mc_operand64_def)

lemma sized_operand_ptr [jit_sized]: "sized env c 8 8 (mc_operand_ptr f) anyJ"
  by (simp add: mc_operand_ptr_def sized_operand64)


fun len0 :: "ia32 \<Rightarrow> nat" where
  "len0 (Ia32 w opcode ext) = length opcode + of_bool (w = W1)"

lemma sized_mc0 [jit_sized]: "sized env c (len0 op) (len0 op) (mc0 op) anyJ"
  by (cases op) (use sized_bytes[of env c "REX_prefix _ False False False @ _"] in \<open>simp add: add.commute\<close>)

declare mc0.simps [simp del]

section \<open>Instructions\<close>

lemma mc1_eq: "mc1 (Ia32 w opcode ext) r = mc2 (Ia32 w opcode ext) r (Opext (case ext of Some x \<Rightarrow> x | None \<Rightarrow> 0))"
  by simp

lemma sized_checked_bytes: "n = length bs \<Longrightarrow>
  sized env c n n (bindJ (checkJ b Wasm_parse_exception) (\<lambda>_. mc_bytes bs)) anyJ"
  by (rule sized_weak[OF sized_bind[OF sized_check sized_bytes]]) auto

lemma sized_mc2 [jit_sized]: "sized env c (length (ia32_bytes op a b)) (length (ia32_bytes op a b)) (mc2 op a b) anyJ"
  by (simp add: mc2_def sized_checked_bytes)


fun ext_of :: "ia32 \<Rightarrow> nat" where
  "ext_of (Ia32 w opcode ext) = (case ext of Some x \<Rightarrow> x | None \<Rightarrow> 0)"

definition len1 :: "ia32 \<Rightarrow> operand \<Rightarrow> nat" where
  "len1 op r = length (ia32_bytes op r (Opext (ext_of op)))"

lemma sized_mc1 [jit_sized]: "sized env c (len1 op r) (len1 op r) (mc1 op r) anyJ"
  by (cases op) (simp add: len1_def sized_mc2 del: ia32_bytes.simps)

declare mc1.simps [simp del]

lemma sized_byte [jit_sized]: "sized env c 1 1 (mc_byte b) anyJ"
  by (rule sizedI) (auto simp: mc_byte_def jit_ok_end dest: jit_ok_advance[where n = 1])

lemma sized_then_byte: "sized env c n n m anyJ \<Longrightarrow> k = n + 1 \<Longrightarrow> sized env c k k (bindJ m (\<lambda>_. mc_byte b)) anyJ"
  using sized_bind[OF _ sized_byte, of env c n n m anyJ] by simp

lemma sized_mc1_imm8 [jit_sized]: "sized env c (len1 op r + 1) (len1 op r + 1) (mc1_imm8 op imm r) anyJ"
  unfolding mc1_imm8_def by (rule sized_then_byte[OF sized_mc1]) simp

lemma sized_mc1_imm32 [jit_sized]: "sized env c (len1 op r + 4) (len1 op r + 4) (mc1_imm32 op imm r) anyJ"
  unfolding mc1_imm32_def by (rule sized_bind[OF sized_mc1 sized_operand32])

lemma sized_v2 [jit_sized]: "sized env c (length (vex_bytes op a 0 b)) (length (vex_bytes op a 0 b)) (mc_v2 op a b) anyJ"
  by (simp add: mc_v2_def sized_checked_bytes)

lemma sized_v2i [jit_sized]: "sized env c (length (vex_bytes op a 0 b) + 1) (length (vex_bytes op a 0 b) + 1) (mc_v2i op imm a b) anyJ"
  unfolding mc_v2i_def by (rule sized_then_byte[OF sized_v2]) simp

lemma sized_v3 [jit_sized]:
  "sized env c (length (vex_bytes op a (reg_num b) d)) (length (vex_bytes op a (reg_num b) d)) (mc_v3 op a b d) anyJ"
  by (simp add: mc_v3_def sized_bytes)

lemma sized_v3i [jit_sized]:
  "sized env c (length (vex_bytes op a (reg_num b) d) + 1) (length (vex_bytes op a (reg_num b) d) + 1) (mc_v3i op imm a b d) anyJ"
  unfolding mc_v3i_def by (rule sized_then_byte[OF sized_v3]) simp

lemma sized_vc [jit_sized]: "sized env c (length (vex_ext_bytes op a b) + 1) (length (vex_ext_bytes op a b) + 1) (mc_vc op imm a b) anyJ"
  unfolding mc_vc_def by (rule sized_then_byte[OF sized_bytes]) simp

lemma sized_mov_imm8 [jit_sized]: "sized env c (2 + of_bool (r mod 8 \<noteq> 0)) (2 + of_bool (r mod 8 \<noteq> 0)) (mc_mov_imm8 v (R8 r)) anyJ"
  unfolding mc_mov_imm8_def by (rule sized_weak[OF sized_bytes]) auto

lemma sized_mov_imm32 [jit_sized]: "sized env c (5 + of_bool (bit r 3)) (5 + of_bool (bit r 3)) (mc_mov_imm32 v (R32 r)) anyJ"
  unfolding mc_mov_imm32_def by (rule sized_weak[OF sized_bind[OF sized_bytes sized_operand32]]) auto

lemma sized_mov_imm64 [jit_sized]: "sized env c 10 10 (mc_mov_imm64 v (R64 r)) anyJ"
  unfolding mc_mov_imm64_def by (rule sized_weak[OF sized_bind[OF sized_bytes sized_operand64]]) auto

lemma sized_mov_ptr [jit_sized]: "sized env c 10 10 (mc_mov_ptr f (R64 r)) anyJ"
  unfolding mc_mov_ptr_def by (rule sized_weak[OF sized_bind[OF sized_bytes sized_operand_ptr]]) auto

section \<open>Branches\<close>

lemma sized_branch_target32 [jit_sized]: "sized env c 4 4 mc_branch_target32 (\<lambda>a. a + 4 \<le> fst c)"
  by (rule sizedI) (simp add: mc_branch_target32_def bindJ_def getJ_def withJ_def retJ_def mc_operand32_def mc_bytes_run jit_ok_end jit_ok_advance)

lemma sized_branch_target8 [jit_sized]: "sized env c 1 1 mc_branch_target8 (\<lambda>a. a + 1 \<le> fst c)"
  by (rule sizedI) (simp add: mc_branch_target8_def bindJ_def getJ_def retJ_def mc_bytes_run jit_ok_end jit_ok_advance[where n = 1, simplified])

lemma sized_branchcc32 [jit_sized]: "sized env c 6 6 (mc_branchcc32 j) (\<lambda>a. a + 4 \<le> fst c)"
  unfolding mc_branchcc32_def by (rule sized_weak[OF sized_bind[OF sized_bytes sized_branch_target32]]) auto

lemma sized_branch8 [jit_sized]: "sized env c 2 2 (mc_branch8 j) (\<lambda>a. a + 1 \<le> fst c)"
  unfolding mc_branch8_def by (rule sized_weak[OF sized_bind[OF sized_bytes sized_branch_target8]]) auto

lemma sized_branch8_jmp [jit_sized]: "sized env c 2 2 (mc_branch8_ia op_JMP_8) (\<lambda>a. a + 1 \<le> fst c)"
  unfolding mc_branch8_ia_def op_JMP_8_def by (rule sized_weak[OF sized_bind[OF sized_mc0 sized_branch_target8]]) auto

lemma sized_write_code: "p + length bs \<le> fst c \<Longrightarrow> sized env c 0 0 (write_code p bs) anyJ"
  by (rule sizedI) (auto simp: write_code_def jit_ok_def recents_ok_def mc_get_addr_def)

lemma sized_fix_branch [jit_sized]: "b + 4 \<le> fst c \<Longrightarrow> sized env c 0 0 (mc_fix_branch b t) anyJ"
  by (auto simp: mc_fix_branch_def Let_def intro: sized_write_code sized_unimplemented)

lemma sized_fix_branch8 [jit_sized]: "b + 1 \<le> fst c \<Longrightarrow> sized env c 0 0 (mc_fix_branch8 b t) anyJ"
  by (auto simp: mc_fix_branch8_def Let_def intro: sized_write_code sized_unimplemented)

lemma sized_fix_here [jit_sized]: "b + 4 \<le> fst c \<Longrightarrow> sized env c 0 0 (mc_fix_here b) anyJ"
  unfolding mc_fix_here_def by (rule sized_weak[OF sized_bind[OF sized_getJ sized_fix_branch]]) auto

lemma sized_fix_here8 [jit_sized]: "b + 1 \<le> fst c \<Longrightarrow> sized env c 0 0 (mc_fix_here8 b) anyJ"
  unfolding mc_fix_here8_def by (rule sized_weak[OF sized_bind[OF sized_getJ sized_fix_branch8]]) auto

lemma sized_fix_to [jit_sized]: "sized env c lo hi m (\<lambda>a. a + 4 \<le> fst c) \<Longrightarrow> sized env c lo hi (mc_fix_to m h) anyJ"
  unfolding mc_fix_to_def by (rule sized_weak[OF sized_bind[OF _ sized_bind[OF sized_getJ sized_fix_branch]]]) auto


section \<open>Folding\<close>

text \<open>\<open>sized\<close> without the lower bound, for code that takes back what was written before.\<close>

definition safe :: "jit_env \<Rightarrow> jit_context \<Rightarrow> nat \<Rightarrow> 'a jm \<Rightarrow> ('a \<Rightarrow> bool) \<Rightarrow> bool" where
  "safe env c hi m Q \<longleftrightarrow> (\<forall>s. jit_ok c s \<and> jc_code s + hi \<le> fst c \<longrightarrow> (case m env s of
       Inl x \<Rightarrow> x \<noteq> Undefined_behaviour \<and> x \<noteq> Assertion_failure
     | Inr (a, s') \<Rightarrow> jit_ok c s' \<and> jc_code s' \<le> jc_code s + hi \<and> Q a))"

lemma sized_safe: "sized env c lo hi m Q \<Longrightarrow> safe env c hi m Q"
  by (auto simp: sized_def safe_def split: sum.splits)

lemma safe_sized: "\<not> jv_validate env \<Longrightarrow> safe env c hi m Q \<Longrightarrow> sized env c lo hi m Q"
  by (auto simp: sized_def safe_def split: sum.splits)

lemma safeD:
  assumes "safe env c hi m Q" and "jit_ok c s" and "jc_code s + hi \<le> fst c"
  obtains x where "m env s = Inl x" "x \<noteq> Undefined_behaviour" "x \<noteq> Assertion_failure"
  | a s' where "m env s = Inr (a, s')" "jit_ok c s'" "jc_code s' \<le> jc_code s + hi" "Q a"
  using assms by (cases "m env s") (auto simp: safe_def)

lemma safe_weak: "safe env c hi m Q \<Longrightarrow> hi \<le> hi' \<Longrightarrow> safe env c hi' m Q"
  unfolding safe_def by (fastforce split: sum.splits)

lemma safe_bind:
  assumes "safe env c h1 m P" and "\<And>a. P a \<Longrightarrow> safe env c h2 (f a) Q"
  shows "safe env c (h1 + h2) (bindJ m f) Q"
proof -
  { fix s assume s: "jit_ok c s" "jc_code s + (h1 + h2) \<le> fst c"
    then have "jc_code s + h1 \<le> fst c" by simp
    with assms(1) s(1) have "case bindJ m f env s of Inl x \<Rightarrow> x \<noteq> Undefined_behaviour \<and> x \<noteq> Assertion_failure
      | Inr (a, s') \<Rightarrow> jit_ok c s' \<and> jc_code s' \<le> jc_code s + (h1 + h2) \<and> Q a"
    proof (rule safeD)
      fix a s' assume a: "m env s = Inr (a, s')" "jit_ok c s'" "jc_code s' \<le> jc_code s + h1" "P a"
      have "jc_code s' + h2 \<le> fst c" using s a by simp
      with assms(2)[OF a(4)] a(2) show ?thesis by (rule safeD) (use a in \<open>auto simp: bindJ_def\<close>)
    qed (simp add: bindJ_def) }
  then show ?thesis unfolding safe_def by blast
qed

lemma safe_seq_cons: "safe env c h1 m anyJ \<Longrightarrow> safe env c h2 (seqJ ms) Q \<Longrightarrow> safe env c (h1 + h2) (seqJ (m # ms)) Q"
  by (simp add: seqJ.simps safe_bind)

lemma jit_ok_pop:
  assumes "jit_ok c s" and "ro_end (jc_recent1 s) = Some (jc_code s)"
  shows "jit_ok c (s\<lparr>jc_code := ro_start (jc_recent1 s), jc_recent1 := jc_recent0 s, jc_recent0 := no_recent\<rparr>)"
    and "ro_start (jc_recent1 s) + min_len (ro_data (jc_recent1 s)) \<le> jc_code s"
    and "ro_data (jc_recent1 s) = Xmm_push r \<Longrightarrow> jc_code s \<le> ro_start (jc_recent1 s) + 9"
proof -
  let ?s = "s\<lparr>jc_code := ro_start (jc_recent1 s), jc_recent1 := jc_recent0 s, jc_recent0 := no_recent\<rparr>"
  have "mc_get_addr ?s = mc_get_addr s" using assms(2) by (simp add: mc_get_addr_def no_recent_def)
  with assms show "jit_ok c ?s" by (auto simp: jit_ok_def recents_ok_def)
  show "ro_start (jc_recent1 s) + min_len (ro_data (jc_recent1 s)) \<le> jc_code s"
    "ro_data (jc_recent1 s) = Xmm_push r \<Longrightarrow> jc_code s \<le> ro_start (jc_recent1 s) + 9"
    using assms by (auto simp: jit_ok_def recents_ok_def) (auto simp: recent_ok_def span_ok_def)
qed

text \<open>A folded operation gives back at least \<open>g\<close> bytes.\<close>

lemma safe_fold:
  assumes "\<And>v. safe env c h1 (f (Some v)) Q" and "safe env c h2 (f None) Q" and "\<And>d v. sel d = Some v \<Longrightarrow> g \<le> min_len d"
  shows "safe env c (max (h1 - g) h2) (bindJ (try_pop_recent_op sel) f) Q"
proof -
  let ?h = "max (h1 - g) h2"
  { fix s assume s: "jit_ok c s" "jc_code s + ?h \<le> fst c"
    have "case bindJ (try_pop_recent_op sel) f env s of Inl x \<Rightarrow> x \<noteq> Undefined_behaviour \<and> x \<noteq> Assertion_failure
      | Inr (a, s') \<Rightarrow> jit_ok c s' \<and> jc_code s' \<le> jc_code s + ?h \<and> Q a"
    proof (cases "\<exists>v. ro_end (jc_recent1 s) = Some (jc_code s) \<and> sel (ro_data (jc_recent1 s)) = Some v")
      case True
      then obtain v where v: "ro_end (jc_recent1 s) = Some (jc_code s)" "sel (ro_data (jc_recent1 s)) = Some v" by blast
      let ?s = "s\<lparr>jc_code := ro_start (jc_recent1 s), jc_recent1 := jc_recent0 s, jc_recent0 := no_recent\<rparr>"
      have k: "jit_ok c ?s" "jc_code ?s + g \<le> jc_code s" using jit_ok_pop[OF s(1) v(1)] assms(3)[OF v(2)] by simp_all
      have le: "jc_code ?s + h1 \<le> jc_code s + ?h" using k(2) by linarith
      then have "jc_code ?s + h1 \<le> fst c" using s(2) by linarith
      with assms(1)[of v] k(1) show ?thesis
        by (rule safeD) (use v le in \<open>auto simp: bindJ_def try_pop_recent_op_def\<close>)
    next
      case False
      then have n: "try_pop_recent_op sel env s = Inr (None, s)"
        by (auto simp: try_pop_recent_op_def split: option.splits)
      have "jc_code s + h2 \<le> fst c" using s(2) by simp
      with assms(2) s(1) show ?thesis by (rule safeD) (use n in \<open>auto simp: bindJ_def\<close>)
    qed }
  then show ?thesis unfolding safe_def by blast
qed

lemma jit_ok_undo:
  assumes "jit_ok c s" and "ro_end (jc_recent1 s) = Some (jc_code s)" and "0 < min_len (ro_data (jc_recent1 s))"
  shows "jit_ok c (s\<lparr>jc_code := jc_code s - 1, jc_recent1 := no_recent, jc_recent0 := no_recent\<rparr>)" (is "jit_ok c ?s")
proof -
  have "mc_get_addr s \<le> ro_start (jc_recent1 s)"
    using assms(1,2) by (auto simp: jit_ok_def recents_ok_def recent_ok_def mc_get_addr_def)
  then have "mc_get_addr s \<le> mc_get_addr ?s" using jit_ok_pop(2)[OF assms(1,2)] assms(3) by (simp add: mc_get_addr_def no_recent_def)
  with assms(1) show ?thesis by (auto simp: jit_ok_def recents_ok_def intro: pinned_mono)
qed

lemma safe_undo:
  assumes "\<And>v. safe env c h1 (f (Some v)) Q" and "safe env c h2 (f None) Q"
  shows "safe env c (max (h1 - 1) h2) (bindJ try_undo_push f) Q"
proof -
  let ?h = "max (h1 - 1) h2"
  { fix s assume s: "jit_ok c s" "jc_code s + ?h \<le> fst c"
    have "(\<exists>v s'. try_undo_push env s = Inr (Some v, s') \<and> jit_ok c s' \<and> jc_code s' + 1 \<le> jc_code s) \<or> try_undo_push env s = Inr (None, s)"
    proof (cases "ro_end (jc_recent1 s) = Some (jc_code s)")
      case True
      have u: "jit_ok c (s\<lparr>jc_code := jc_code s - 1, jc_recent1 := no_recent, jc_recent0 := no_recent\<rparr>)" if "0 < min_len (ro_data (jc_recent1 s))"
        using jit_ok_undo[OF s(1) True that] .
      with jit_ok_pop[OF s(1) True] True show ?thesis
        by (cases "ro_data (jc_recent1 s)") (auto simp: try_undo_push_def try_pop_recent_op_def)
    qed (simp add: try_undo_push_def)
    then have "case bindJ try_undo_push f env s of Inl x \<Rightarrow> x \<noteq> Undefined_behaviour \<and> x \<noteq> Assertion_failure
      | Inr (a, s') \<Rightarrow> jit_ok c s' \<and> jc_code s' \<le> jc_code s + ?h \<and> Q a"
    proof (elim disjE exE conjE)
      fix v s' assume v: "try_undo_push env s = Inr (Some v, s')" "jit_ok c s'" "jc_code s' + 1 \<le> jc_code s"
      have le: "jc_code s' + h1 \<le> jc_code s + ?h" using v by linarith
      then have "jc_code s' + h1 \<le> fst c" using s(2) by linarith
      with assms(1)[of v] v(2) show ?thesis by (rule safeD) (use v le in \<open>auto simp: bindJ_def\<close>)
    next
      assume n: "try_undo_push env s = Inr (None, s)"
      have "jc_code s + h2 \<le> fst c" using s(2) by simp
      with assms(2) s(1) show ?thesis by (rule safeD) (use n in \<open>auto simp: bindJ_def\<close>)
    qed }
  then show ?thesis unfolding safe_def by blast
qed


section \<open>Push and pop\<close>

definition pop_len :: "nat \<Rightarrow> nat" where
  "pop_len r = 1 + of_bool (bit r 3)"

definition pop_hi :: "jit_env \<Rightarrow> nat \<Rightarrow> nat" where
  "pop_hi env r = (if jv_validate env then pop_len r else 3)"

lemma sized_pop_plain: "sized env c (pop_len r) (pop_len r) (mc_pop_plain (R64 r)) anyJ"
  unfolding mc_pop_plain_def by (rule sized_weak[OF sized_bytes]) (auto simp: pop_len_def)

lemma sized_pop [jit_sized]: "sized env c (pop_len r) (pop_hi env r) (mc_pop (R64 r)) anyJ"
proof (cases "jv_validate env")
  case True
  then show ?thesis by (simp add: mc_pop_def pop_hi_def sized_pop_plain)
next
  case False
  have mov: "safe env c 3 (mc_mov (R64 v) (R64 r)) anyJ" for v
    using safe_weak[OF sized_safe[OF sized_mc2[of env c op_MOV_A "R64 v" "R64 r"]], of 3] by (simp add: op_MOV_A_def)
  have plain: "safe env c 3 (mc_pop_plain (R64 r)) anyJ"
    by (rule safe_weak[OF sized_safe[OF sized_pop_plain]]) (auto simp: pop_len_def)
  have ret: "safe env c 3 (retJ ()) anyJ" by (rule safe_weak[OF sized_safe[OF sized_ret]]) auto
  have undo: "safe env c 3 (bindJ try_undo_push (\<lambda>p. case p of
      Some v \<Rightarrow> if v \<noteq> r then mc_mov (R64 v) (R64 r) else retJ () | None \<Rightarrow> mc_pop_plain (R64 r))) anyJ"
    by (rule safe_weak[OF safe_undo[where ?h1.0 = 3 and ?h2.0 = 3]])
       (use mov plain ret in auto)
  have i32: "safe env c 6 (mc_mov_imm32 v (R32 r)) anyJ" for v by (rule safe_weak[OF sized_safe[OF sized_mov_imm32]]) auto
  have i64: "safe env c 10 (mc_mov_imm64 v (R64 r)) anyJ" for v by (rule sized_safe[OF sized_mov_imm64])
  let ?undo = "bindJ try_undo_push (\<lambda>p. case p of
      Some v \<Rightarrow> if v \<noteq> r then mc_mov (R64 v) (R64 r) else retJ () | None \<Rightarrow> mc_pop_plain (R64 r))"
  let ?i64 = "bindJ (try_pop_recent_op i64_const_op) (\<lambda>c. case c of Some v \<Rightarrow> mc_mov_imm64 v (R64 r) | None \<Rightarrow> ?undo)"
  have "safe env c (max (10 - 11) 3) ?i64 anyJ"
    by (rule safe_fold) (use i64 undo in \<open>auto elim: i64_const_op.elims\<close>)
  then have "safe env c (max (6 - 3) 3) (bindJ (try_pop_recent_op i32_const_op) (\<lambda>c. case c of Some v \<Rightarrow> mc_mov_imm32 v (R32 r) | None \<Rightarrow> ?i64)) anyJ"
    by (intro safe_fold) (use i32 in \<open>auto elim: i32_const_op.elims\<close>)
  with False have "safe env c 3 (mc_pop (R64 r)) anyJ" by (simp add: safe_def mc_pop_def withJ_def)
  with False show ?thesis by (auto simp: pop_hi_def intro: safe_sized)
qed

text \<open>Where folding stops once an operation that starts at \<open>start\<close> is recorded behind \<open>r\<close>.\<close>

definition fold_floor :: "nat \<Rightarrow> recent_op \<Rightarrow> nat" where
  "fold_floor start r = (if ro_end r = Some start then ro_start r else start)"

lemma get_addr_floor: "recents_ok s \<Longrightarrow> mc_get_addr s \<le> fold_floor (jc_code s) (jc_recent1 s)"
  by (auto simp: recents_ok_def recent_ok_def mc_get_addr_def fold_floor_def)

text \<open>
  \<open>tracks env c n m\<close>: \<open>m\<close> writes exactly \<open>n\<close> bytes and records an operation that ends there, behind the one recorded
  before.  Such an \<open>m\<close> may be recorded again as a longer operation.
\<close>

definition tracks :: "jit_env \<Rightarrow> jit_context \<Rightarrow> nat \<Rightarrow> unit jm \<Rightarrow> bool" where
  "tracks env c n m \<longleftrightarrow> (\<forall>s. jit_ok c s \<and> jc_code s + n \<le> fst c \<longrightarrow> (\<exists>s'. m env s = Inr ((), s') \<and> jit_ok c s' \<and>
     jc_code s' = jc_code s + n \<and> ro_end (jc_recent1 s') = Some (jc_code s') \<and> jc_recent0 s' = jc_recent1 s \<and> pinned s' = pinned s \<and>
     fold_floor (jc_code s) (jc_recent1 s) \<le> mc_get_addr s'))"

lemma tracks_sized: "tracks env c n m \<Longrightarrow> sized env c n n m anyJ"
  unfolding tracks_def by (intro sizedI) fastforce

lemma push_recent_ok:
  assumes "jit_ok c s" and "start \<le> jc_code s" and "span_ok d (jc_code s - start)"
    and "recent_ok start (if ro_end (jc_recent1 s) = Some (jc_code s) then jc_recent0 s else jc_recent1 s)"
    and "pinned s (fold_floor start (if ro_end (jc_recent1 s) = Some (jc_code s) then jc_recent0 s else jc_recent1 s))"
  shows "\<exists>s'. push_recent_op start d env s = Inr ((), s') \<and> jit_ok c s' \<and> jc_code s' = jc_code s \<and>
    ro_end (jc_recent1 s') = Some (jc_code s') \<and> jc_recent0 s' = (if ro_end (jc_recent1 s) = Some (jc_code s) then jc_recent0 s else jc_recent1 s) \<and>
    pinned s' = pinned s \<and>
    mc_get_addr s' = fold_floor start (if ro_end (jc_recent1 s) = Some (jc_code s) then jc_recent0 s else jc_recent1 s)"
proof -
  have "recent_ok (jc_code s) \<lparr>ro_start = start, ro_end = Some (jc_code s), ro_data = d\<rparr>"
    using assms(2,3) by (simp add: recent_ok_def)
  with assms show ?thesis
    by (cases "ro_end (jc_recent1 s) = Some (jc_code s)")
       (simp_all add: push_recent_op_def modJ_def jit_ok_def recents_ok_def mc_get_addr_def fold_floor_def split: if_splits)
qed

lemma recent_ok_strict: "recent_ok b r \<Longrightarrow> b < n \<Longrightarrow> ro_end r \<noteq> Some n"
  by (auto simp: recent_ok_def)

text \<open>Instructions that are only written; with a push behind them they make a longer operation.\<close>

definition inert :: "jit_env \<Rightarrow> jit_context \<Rightarrow> nat \<Rightarrow> unit jm \<Rightarrow> bool" where
  "inert env c k m \<longleftrightarrow> (\<forall>s. jit_ok c s \<and> jc_code s + k \<le> fst c \<longrightarrow> (\<exists>f. m env s = Inr ((), s\<lparr>jc_mem := f, jc_code := jc_code s + k\<rparr>)))"

lemma inert_bytes: "k = length bs \<Longrightarrow> inert env c k (mc_bytes bs)"
  by (auto simp: inert_def mc_bytes_run jit_ok_end)

lemma inert_mc2: "\<not> unencodable a \<Longrightarrow> k = length (ia32_bytes op a b) \<Longrightarrow> inert env c k (mc2 op a b)"
  using inert_bytes[of k "ia32_bytes op a b" env c] by (simp add: inert_def mc2_def bindJ_def checkJ_def retJ_def)

lemma inert_mc1: "\<not> unencodable a \<Longrightarrow> k = len1 op a \<Longrightarrow> inert env c k (mc1 op a)"
  by (cases op) (simp add: mc1.simps len1_def inert_mc2 del: ia32_bytes.simps)

lemma inert_mov_imm32: "k = 5 + of_bool (bit r 3) \<Longrightarrow> inert env c k (mc_mov_imm32 v (R32 r))"
  by (auto simp: inert_def mc_mov_imm32_def bindJ_def mc_operand32_def mc_bytes_run jit_ok_end add_ac)

lemma inert_mov_imm64: "k = 10 \<Longrightarrow> inert env c k (mc_mov_imm64 v (R64 r))"
  by (auto simp: inert_def mc_mov_imm64_def bindJ_def mc_operand64_def mc_bytes_run jit_ok_end add.commute)

lemma inert_seq: "inert env c k a \<Longrightarrow> inert env c l b \<Longrightarrow> inert env c (k + l) (bindJ a (\<lambda>_. b))"
  unfolding inert_def
proof (intro allI impI, elim conjE)
  fix s
  assume a: "\<forall>s. jit_ok c s \<and> jc_code s + k \<le> fst c \<longrightarrow> (\<exists>f. a env s = Inr ((), s\<lparr>jc_mem := f, jc_code := jc_code s + k\<rparr>))"
    and b: "\<forall>s. jit_ok c s \<and> jc_code s + l \<le> fst c \<longrightarrow> (\<exists>f. b env s = Inr ((), s\<lparr>jc_mem := f, jc_code := jc_code s + l\<rparr>))"
    and s: "jit_ok c s" "jc_code s + (k + l) \<le> fst c"
  from a s obtain f where f: "a env s = Inr ((), s\<lparr>jc_mem := f, jc_code := jc_code s + k\<rparr>)" (is "_ = Inr ((), ?s)") by fastforce
  from b have "jit_ok c ?s \<and> jc_code ?s + l \<le> fst c \<longrightarrow> (\<exists>f. b env ?s = Inr ((), ?s\<lparr>jc_mem := f, jc_code := jc_code ?s + l\<rparr>))" ..
  then obtain g where g: "b env ?s = Inr ((), ?s\<lparr>jc_mem := g, jc_code := jc_code ?s + l\<rparr>)"
    using jit_ok_advance[OF s(1)] s(2) by (auto simp: add.assoc)
  from f g show "\<exists>f. bindJ a (\<lambda>_. b) env s = Inr ((), s\<lparr>jc_mem := f, jc_code := jc_code s + (k + l)\<rparr>)"
    by (auto simp: bindJ_def add.assoc)
qed

lemma tracks_inert:
  assumes "inert env c k p" and "span_ok d k" and "0 < k"
  shows "tracks env c k (bindJ (getJ jc_code) (\<lambda>start. bindJ p (\<lambda>_. push_recent_op start d)))"
  unfolding tracks_def
proof (intro allI impI, elim conjE)
  fix s assume s: "jit_ok c s" "jc_code s + k \<le> fst c"
  from assms(1) s obtain f where f: "p env s = Inr ((), s\<lparr>jc_mem := f, jc_code := jc_code s + k\<rparr>)" (is "_ = Inr ((), ?s)")
    unfolding inert_def by fastforce
  have r: "recent_ok (jc_code s) (jc_recent1 s)" using s(1) by (simp add: jit_ok_def recents_ok_def)
  have pin: "pinned s (fold_floor (jc_code s) (jc_recent1 s))" using s(1) get_addr_floor[of s] by (auto simp: jit_ok_def intro: pinned_mono)
  from r have "ro_end (jc_recent1 s) \<noteq> Some (jc_code s + k)" using assms(3) by (simp add: recent_ok_strict)
  with r jit_ok_advance[OF s(1)] assms(2)
  show "\<exists>s'. bindJ (getJ jc_code) (\<lambda>start. bindJ p (\<lambda>_. push_recent_op start d)) env s = Inr ((), s') \<and> jit_ok c s' \<and>
     jc_code s' = jc_code s + k \<and> ro_end (jc_recent1 s') = Some (jc_code s') \<and> jc_recent0 s' = jc_recent1 s \<and> pinned s' = pinned s \<and>
     fold_floor (jc_code s) (jc_recent1 s) \<le> mc_get_addr s'"
    using push_recent_ok[of c ?s "jc_code s" d env] f pin by (auto simp: bindJ_def getJ_def)
qed

lemma tracks_push: "tracks env c (pop_len r) (mc_push (R64 r))"
  unfolding mc_push_def by (simp, rule tracks_inert[OF inert_bytes]) (auto simp: pop_len_def span_ok_def)

lemmas sized_push [jit_sized] = tracks_push[THEN tracks_sized]

lemma tracks_after:
  assumes "inert env c k p" and "tracks env c n m" and "span_ok d (k + n)"
  shows "tracks env c (k + n) (bindJ (getJ jc_code) (\<lambda>start. seqJ [p, m, push_recent_op start d]))"
  unfolding tracks_def
proof (intro allI impI, elim conjE)
  fix s assume s: "jit_ok c s" "jc_code s + (k + n) \<le> fst c"
  from assms(1) s obtain f where f: "p env s = Inr ((), s\<lparr>jc_mem := f, jc_code := jc_code s + k\<rparr>)" (is "_ = Inr ((), ?s)")
    unfolding inert_def by fastforce
  have k: "jit_ok c ?s" using s(1) by (rule jit_ok_advance)
  from assms(2) k s(2) obtain t where t: "m env ?s = Inr ((), t)" "jit_ok c t" "jc_code t = jc_code s + (k + n)"
    "ro_end (jc_recent1 t) = Some (jc_code t)" "jc_recent0 t = jc_recent1 s" "pinned t = pinned s"
    unfolding tracks_def by fastforce
  have "pinned s (fold_floor (jc_code s) (jc_recent1 s))" using s(1) get_addr_floor[of s] by (auto simp: jit_ok_def intro: pinned_mono)
  moreover have "recent_ok (jc_code s) (jc_recent1 s)" using s(1) by (simp add: jit_ok_def recents_ok_def)
  ultimately obtain u where u: "push_recent_op (jc_code s) d env t = Inr ((), u)" "jit_ok c u" "jc_code u = jc_code s + (k + n)"
    "ro_end (jc_recent1 u) = Some (jc_code u)" "jc_recent0 u = jc_recent1 s" "pinned u = pinned s"
    "fold_floor (jc_code s) (jc_recent1 s) \<le> mc_get_addr u"
    using push_recent_ok[of c t "jc_code s" d env] t assms(3) by auto
  then show "\<exists>s'. bindJ (getJ jc_code) (\<lambda>start. seqJ [p, m, push_recent_op start d]) env s = Inr ((), s') \<and> jit_ok c s' \<and>
     jc_code s' = jc_code s + (k + n) \<and> ro_end (jc_recent1 s') = Some (jc_code s') \<and> jc_recent0 s' = jc_recent1 s \<and> pinned s' = pinned s \<and>
     fold_floor (jc_code s) (jc_recent1 s) \<le> mc_get_addr s'"
    using f t by (simp add: seqJ.simps bindJ_def getJ_def retJ_def)
qed

end
