(* ===== verification/Vm_Jit_Sizes.thy ===== *)
theory Vm_Jit_Sizes
  imports Vm_Jit_Fits
begin

text \<open>
  The size of the code for each instruction.
\<close>

section \<open>Shared shapes\<close>

lemma sized_imm [jit_sized]: "sized env c (if fits8 (sint imm) then len1 short d + 1 else len1 long d + 4)
   (if fits8 (sint imm) then len1 short d + 1 else len1 long d + 4) (mc_imm short long imm d) anyJ"
  unfolding mc_imm_def by (simp add: sized_mc1_imm8[simplified] sized_mc1_imm32)

lemma sized_imm_any [jit_sized]: "sized env c 0 (max (len1 short d + 1) (len1 long d + 4)) (mc_imm short long imm d) anyJ"
  by (rule sized_weak[OF sized_imm]) auto

text \<open>An operand that is not known.\<close>

fun len_any :: "ia32 \<Rightarrow> nat" where
  "len_any (Ia32 w opcode ext) = length opcode + 7"

lemma length_modrm_le: "length (modrm_sib_disp r reg) \<le> 6"
  by (induction r reg rule: modrm_sib_disp.induct) (simp_all add: Let_def)

lemma length_REX_rm_le: "length (REX_prefix_rm W r reg) \<le> 1"
  by (induction W r reg rule: REX_prefix_rm.induct) simp_all

lemma sized_mc2_any [jit_sized]: "sized env c 0 (len_any op) (mc2 op a b) anyJ"
proof (cases op)
  case (Ia32 w opcode ext)
  show ?thesis unfolding Ia32
    by (rule sized_weak[OF sized_mc2])
       (use length_modrm_le[of a "reg_num b"] length_REX_rm_le[of "get_operand_size2 w a b" a "reg_num b"] in auto)
qed

fun vlen_any :: "vex \<Rightarrow> nat" where
  "vlen_any (Vex pp mmmm W ext opcode) = 10"

lemma sized_v2_any [jit_sized]: "sized env c 0 (vlen_any op) (mc_v2 op a b) anyJ"
proof (cases op)
  case (Vex pp mmmm W ext opcode)
  show ?thesis unfolding Vex
    by (rule sized_weak[OF sized_v2]) (use length_modrm_le[of a "reg_num b"] in \<open>auto simp: VEX_prefix_def Let_def\<close>)
qed

lemma sized_setup_backtrace [jit_sized]: "sized env c (if jv_backtrace env then 9 else 0) (if jv_backtrace env then 9 else 0)
    mc_setup_backtrace (\<lambda>x. x = (if jv_backtrace env then 16 else 0))"
proof (cases "jv_backtrace env")
  case True
  have "sized env c 9 9 (seqJ [mc_bytes [0xe8], mc_operand32 0, mc_bytes [0x55], mc_bytes [0x48, 0x89, 0x27]]) anyJ"
    by (rule sized_weak, (rule jit_sized)+) auto
  from sized_bind[OF this, of 0 0 "\<lambda>_. retJ 16" "\<lambda>x. x = (16 :: u32)"] True show ?thesis
    by (simp add: mc_setup_backtrace_def sized_ret)
qed (simp add: mc_setup_backtrace_def sized_ret)

lemmas emit_shapes = at_disp_def at_sib_def mc_add_imm_def mc_sub_imm_def mc_cmp_imm_def mc_and_imm_def mc_or_imm_def mc_xor_imm_def
  mc_add_def mc_sub_def mc_cmp_def mc_xor_def mc_call_reg_def mc_movd_def mc_setcc_def mc_const_zero_def mc_const_ones_def
  mc_vmovd_def mc_vmovq_def mc_vpextrb_def mc_vpextrw_def mc_vpextrq_def simd_instr_def
  mc_restore_backtrace_def mc_restore_backtrace_basic_def mc_align_stack_def mc_align_stack_reg_def mc_restore_stack_def
  mc_softfloat_unop_def mc_f32_binop_softfloat_def mc_f64_binop_softfloat_def mc_f32_relop_def mc_f64_relop_def
  mc_f32_binop_def mc_f64_binop_def mc_f2i_def mc_i64_relop_def mc_i64_binop_def
  mc_v128_unop_softfloat_def mc_v128_binop_softfloat_def

definition numeric_bound :: "jit_env \<Rightarrow> nat" where
  "numeric_bound env = (if jv_softfloat env then instruction_size_ratio env else 109)"

lemma fits8_lits: "fits8 0" "fits8 1" "fits8 (- 1)" "fits8 (numeral k) \<longleftrightarrow> (numeral k :: int) \<le> 127" "fits8 (- numeral k) \<longleftrightarrow> (numeral k :: int) \<le> 128"
  by (simp_all add: fits8_def)

lemmas emit_lengths = len1_def pop_len_def pop_hi_def jit_ops VEX_prefix_def Let_def fits8_lits bit_0 numeric_bound_def instruction_size_ratio_def

lemma sized_condition: "k = len1 op (R8 b) + pop_len r \<Longrightarrow>
  sized env c k k (bindJ (getJ jc_code) (\<lambda>start. seqJ [mc1 op (R8 b), mc_push (R64 r), push_recent_op start (Condition_op j)])) anyJ"
  by (simp only:) (rule tracks_sized[OF tracks_after[OF inert_mc1 tracks_push]], simp_all add: span_ok_def)

lemma safe_fold_case:
  "(\<And>v. safe env c h1 (f v) Q) \<Longrightarrow> safe env c h2 m Q \<Longrightarrow>
   safe env c (max h1 h2) (bindJ (try_pop_recent_op sel) (\<lambda>r. case r of Some v \<Rightarrow> f v | None \<Rightarrow> m)) Q"
  using safe_fold[of env c h1 "\<lambda>r. case r of Some v \<Rightarrow> f v | None \<Rightarrow> m" Q h2 sel 0] by simp


section \<open>Vectors on the stack\<close>

lemma inert_mc1_imm8:
  assumes "\<not> unencodable r" and "k = len1 op r + 1"
  shows "inert env c k (mc1_imm8 op imm r)"
proof -
  have "mc_byte imm = mc_bytes [imm]" by (simp add: fun_eq_iff mc_bytes.simps bindJ_def retJ_def mc_byte_def)
  then show ?thesis unfolding mc1_imm8_def using inert_seq[OF inert_mc1 inert_bytes, of r _ op 1 "[imm]" env c] assms by simp
qed

lemma inert_v2: "\<not> unencodable a \<Longrightarrow> k = length (vex_bytes op a 0 b) \<Longrightarrow> inert env c k (mc_v2 op a b)"
  using inert_bytes[of k "vex_bytes op a 0 b" env c] by (simp add: inert_def mc_v2_def bindJ_def checkJ_def retJ_def)

lemma seqJ3: "seqJ [a, b, m] = bindJ (bindJ a (\<lambda>_. b)) (\<lambda>_. m)"
  by (simp add: seqJ.simps fun_eq_iff bindJ_def retJ_def bindE_def split: sum.splits prod.splits)

lemma tracks_push_v128: "tracks env c 9 (mc_push_v128 xmm0)"
proof -
  have "inert env c 4 (mc_sub_imm 16 rsp)"
    by (simp add: emit_shapes mc_imm_def fits8_lits) (rule inert_mc1_imm8, simp_all add: emit_lengths)
  moreover have "inert env c 5 (mc_vmovdqu xmm0 (deref rsp))"
    by (simp add: emit_shapes) (rule inert_v2, simp_all add: emit_lengths)
  ultimately have "inert env c 9 (bindJ (mc_sub_imm 16 rsp) (\<lambda>_. mc_vmovdqu xmm0 (deref rsp)))"
    using inert_seq by fastforce
  from tracks_inert[OF this, of "Xmm_push 0"] show ?thesis by (simp add: mc_push_v128_def seqJ3 span_ok_def)
qed

lemmas sized_push_v128 [jit_sized] = tracks_push_v128[THEN tracks_sized]


text \<open>A pop of a vector may take back its push, which has nine bytes.\<close>

lemma sized_pop_v128_then:
  assumes "sized env c l h (seqJ ms) Q" and "9 \<le> l"
  shows "sized env c (l - 9) (9 + h) (seqJ (mc_pop_v128 (Xmm r) # ms)) Q"
proof (rule sizedI, goal_cases)
  case (1 s)
  have plain: "sized env c 9 9 (seqJ [mc_vmovdqu (deref rsp) xmm0, mc_add_imm 16 rsp]) anyJ"
    by (simp add: emit_shapes) (rule sized_weak, (rule jit_sized | (simp add: emit_lengths; fail))+)
  have move: "sized env c 0 5 (if v \<noteq> r then mc_v2 op_VMOVDQU_A (Xmm v) (Xmm r) else retJ ()) anyJ" for v
    by (rule sized_weak[OF sized_if[OF sized_v2 sized_ret_any]]) (auto simp: emit_lengths)
  have "case mc_pop_v128 (Xmm r) env s of Inl x \<Rightarrow> x \<noteq> Undefined_behaviour \<and> x \<noteq> Assertion_failure
    | Inr (a, s') \<Rightarrow> jit_ok c s' \<and> jc_code s' \<le> jc_code s + 9 \<and> (jv_validate env \<longrightarrow> jc_code s \<le> jc_code s' + 9)"
  proof (cases "\<exists>v. ro_end (jc_recent1 s) = Some (jc_code s) \<and> ro_data (jc_recent1 s) = Xmm_push v")
    case True
    then obtain v where v: "ro_end (jc_recent1 s) = Some (jc_code s)" "ro_data (jc_recent1 s) = Xmm_push v" by blast
    let ?s = "s\<lparr>jc_code := ro_start (jc_recent1 s), jc_recent1 := jc_recent0 s, jc_recent0 := no_recent\<rparr>"
    note k = jit_ok_pop[OF 1(1) v(1)]
    from k(2) 1(2) have "jc_code ?s + 5 \<le> fst c" by simp
    with move[of v] k(1) show ?thesis
      by (rule sizedD) (use v k(2) k(3)[OF v(2)] in \<open>auto simp: mc_pop_v128_def bindJ_def try_pop_recent_op_def\<close>)
  next
    case False
    then have n: "try_pop_recent_op xmm_push env s = Inr (None, s)"
      by (auto simp: try_pop_recent_op_def split: option.splits elim: xmm_push.elims)
    from 1(2) have "jc_code s + 9 \<le> fst c" by simp
    with plain 1(1) show ?thesis by (rule sizedD) (use n in \<open>auto simp: mc_pop_v128_def bindJ_def\<close>)
  qed
  then show ?case
  proof (cases "mc_pop_v128 (Xmm r) env s")
    case (Inr b)
    obtain a t where b: "b = (a, t)" by (cases b)
    assume "case mc_pop_v128 (Xmm r) env s of Inl x \<Rightarrow> x \<noteq> Undefined_behaviour \<and> x \<noteq> Assertion_failure
      | Inr (a, s') \<Rightarrow> jit_ok c s' \<and> jc_code s' \<le> jc_code s + 9 \<and> (jv_validate env \<longrightarrow> jc_code s \<le> jc_code s' + 9)"
    then have t: "jit_ok c t" "jc_code t \<le> jc_code s + 9" "jv_validate env \<longrightarrow> jc_code s \<le> jc_code t + 9" by (simp_all add: Inr b)
    then have "jc_code t + h \<le> fst c" using 1(2) by simp
    with assms(1) t(1) show ?thesis by (rule sizedD) (use Inr b t assms(2) in \<open>auto simp: seqJ.simps bindJ_def\<close>)
  qed (simp add: seqJ.simps bindJ_def)
qed


section \<open>Addresses\<close>

text \<open>With an offset that is negative as a displacement the address is computed in the register.\<close>

lemma sized_pop_address_far:
  assumes "offset AND 0x80000000 \<noteq> 0" and "\<not> bit t 3"
  shows "sized env c (pop_len r + 8) (pop_hi env r + 8) (mc_pop_address offset (R64 r) (R32 t)) (\<lambda>x. x = Sib r 6 0)"
proof -
  have mov: "sized env c 5 5 (mc_mov_imm32 offset (R32 t)) anyJ" using sized_mov_imm32[of env c t offset] assms(2) by simp
  have add: "sized env c 3 3 (mc_add (R64 t) (R64 r)) anyJ"
    unfolding mc_add_def by (rule sized_weak[OF sized_mc2]) (auto simp: emit_lengths)
  have "sized env c (5 + (3 + 0)) (5 + (3 + 0)) (bindJ (mc_mov_imm32 offset (R32 t)) (\<lambda>_. bindJ (mc_add (R64 t) (R64 r)) (\<lambda>_. retJ (Sib r 6 0))))
      (\<lambda>x. x = Sib r 6 0)"
    by (intro sized_bind[OF mov] sized_bind[OF add] sized_ret) simp
  from sized_bind[OF sized_pop this] show ?thesis using assms(1) by (simp add: mc_pop_address_def at_sib_def)
qed

lemma sized_pop_address_near:
  "offset AND 0x80000000 = 0 \<Longrightarrow> sized env c (pop_len r) (pop_hi env r) (mc_pop_address offset (R64 r) (R32 t))
     (\<lambda>x. x = Sib r 6 (sint offset))"
  using sized_bind[OF sized_pop, of env c 0 0 "\<lambda>_. retJ (Sib r 6 (sint offset))" "\<lambda>x. x = Sib r 6 (sint offset)" r]
  by (simp add: mc_pop_address_def at_sib_def sized_ret)

lemma sized_pop_address [jit_sized]:
  assumes "\<not> bit t 3"
  shows "sized env c (pop_len r) (pop_hi env r + 8) (mc_pop_address offset (R64 r) (R32 t)) anyJ"
proof (cases "offset AND 0x80000000 = 0")
  case True
  show ?thesis by (rule sized_weak[OF sized_pop_address_near[OF True]]) auto
next
  case False
  show ?thesis by (rule sized_weak[OF sized_pop_address_far[OF False assms]]) auto
qed

definition sib_len :: "ia32 \<Rightarrow> operand \<Rightarrow> operand \<Rightarrow> nat" where
  "sib_len op a r = length (ia32_bytes op (Sib (reg_num a) 6 0) r)"

lemma length_sib:
  "sib_len op (R64 a) r \<le> length (ia32_bytes op (Sib a 6 d) r)" "length (ia32_bytes op (Sib a 6 d) r) \<le> sib_len op (R64 a) r + 4"
  by (cases op; cases r; simp add: sib_len_def Let_def)+

text \<open>The instruction that uses the address, with \<open>k\<close> bytes behind it.\<close>

lemma sized_at_address:
  assumes "\<not> bit t 3" and rest: "sized env c k k m anyJ"
  shows "sized env c (pop_len a + sib_len op (R64 a) r + k) (pop_hi env a + 8 + sib_len op (R64 a) r + k)
    (bindJ (mc_pop_address offset (R64 a) (R32 t)) (\<lambda>addr. bindJ (mc2 op addr r) (\<lambda>_. m))) anyJ"
proof (cases "offset AND 0x80000000 = 0")
  case True
  have "sized env c (sib_len op (R64 a) r) (sib_len op (R64 a) r + 4) (mc2 op (Sib a 6 (sint offset)) r) anyJ"
    by (rule sized_weak[OF sized_mc2]) (use length_sib in auto)
  from sized_bind[OF this rest]
  have "sized env c (pop_len a + (sib_len op (R64 a) r + k)) (pop_hi env a + (sib_len op (R64 a) r + 4 + k))
    (bindJ (mc_pop_address offset (R64 a) (R32 t)) (\<lambda>addr. bindJ (mc2 op addr r) (\<lambda>_. m))) anyJ"
    by (intro sized_bind[OF sized_pop_address_near[OF True]]) simp
  then show ?thesis by (rule sized_weak) auto
next
  case False
  have "sized env c (sib_len op (R64 a) r) (sib_len op (R64 a) r) (mc2 op (Sib a 6 0) r) anyJ"
    by (rule sized_weak[OF sized_mc2]) (auto simp: sib_len_def)
  from sized_bind[OF this rest]
  have "sized env c (pop_len a + 8 + (sib_len op (R64 a) r + k)) (pop_hi env a + 8 + (sib_len op (R64 a) r + k))
    (bindJ (mc_pop_address offset (R64 a) (R32 t)) (\<lambda>addr. bindJ (mc2 op addr r) (\<lambda>_. m))) anyJ"
    by (intro sized_bind[OF sized_pop_address_far[OF False assms(1)]]) simp
  then show ?thesis by (rule sized_weak) auto
qed

lemma bindJ_ret: "bindJ m (\<lambda>_. retJ ()) = m" for m :: "unit jm"
  by (auto simp: fun_eq_iff bindJ_def retJ_def bindE_def split: sum.splits)

lemma sized_load_impl2 [jit_sized]:
  "sized env c (sib_len op rax r + 2) (pop_hi env 0 + 9 + sib_len op rax r) (mc_load_impl2 offset op r) anyJ"
proof -
  have "sized env c 1 1 (mc_push rax) anyJ" using sized_push[of env c 0] by (simp add: pop_len_def)
  from sized_at_address[where t = 1 and a = 0, OF _ this] show ?thesis
    unfolding mc_load_impl2_def seqJ.simps bindJ_ret by (rule sized_weak) (auto simp: pop_len_def bit_0)
qed

lemma sized_store_impl2 [jit_sized]:
  "sized env c (sib_len op rcx r + 2) (pop_hi env 0 + pop_hi env 1 + 8 + sib_len op rcx r) (mc_store_impl2 offset op r) anyJ"
proof -
  have "sized env c (pop_len 1 + sib_len op rcx r + 0) (pop_hi env 1 + 8 + sib_len op rcx r + 0)
    (bindJ (mc_pop_address offset rcx edx) (\<lambda>addr. bindJ (mc2 op addr r) (\<lambda>_. retJ ()))) anyJ"
    by (rule sized_at_address) (simp_all add: sized_ret_any bit_0)
  from sized_bind[OF sized_pop[of env c 0] this]
  show ?thesis unfolding mc_store_impl2_def bindJ_ret by (rule sized_weak) (auto simp: pop_len_def bit_0)
qed

section \<open>Numeric instructions\<close>

lemma sized_i32_cmp: "sized env c 0 49 (jit_i32_cmp_op op) anyJ"
  by (cases op; simp add: int_emitters mc_i32_relop_def emit_shapes;
      (rule sized_weak, (rule sized_condition | rule refl | rule jit_sized | assumption | (simp add: emit_lengths; fail))+))

lemma safe_i32_op: "safe env c 49 (jit_i32_op op) anyJ"
  by (cases op; cases "jv_tzcnt env"; simp add: int_emitters emit_shapes;
      (rule safe_weak, (rule safe_fold_case | rule sized_safe | rule jit_sized | assumption | (simp add: emit_lengths; fail) | simp add: emit_shapes split del: if_split)+))

lemma safe_i64_op: "safe env c 49 (jit_i64_op op) anyJ"
  by (cases op; cases "jv_tzcnt env"; simp add: int_emitters emit_shapes;
      (rule safe_weak, (rule safe_fold_case | rule sized_safe | rule jit_sized | assumption | (simp add: emit_lengths; fail) | simp add: emit_shapes split del: if_split)+))

lemma sized_load: "sized env c 0 49 (jit_load op a off) anyJ"
  by (cases op; simp add: int_emitters emit_shapes;
      (rule sized_weak, (rule jit_sized | assumption | (simp add: emit_lengths sib_len_def; fail))+))

lemma sized_store: "sized env c 0 49 (jit_store op a off) anyJ"
  by (cases op; simp add: int_emitters emit_shapes;
      (rule sized_weak, (rule jit_sized | assumption | (simp add: emit_lengths sib_len_def; fail))+))

lemma sized_i64_cmp: "sized env c 0 49 (jit_i64_cmp_op op) anyJ"
  by (cases op; simp add: int_emitters emit_shapes;
      (rule sized_weak, (rule jit_sized | assumption | (simp add: emit_lengths sib_len_def; fail))+))

lemma sized_extend: "sized env c 0 49 (jit_extend_op op) anyJ"
  by (cases op; simp add: int_emitters emit_shapes;
      (rule sized_weak, (rule jit_sized | assumption | (simp add: emit_lengths sib_len_def; fail))+))

lemma sized_f32_cmp: "sized env c 0 (numeric_bound env) (jit_f32_cmp_op op) anyJ"
  by (cases op; cases "jv_softfloat env"; cases "jv_backtrace env"; simp add: jit_emitters emit_shapes split del: if_split;
      (rule sized_weak, (rule jit_sized | assumption | (simp add: emit_lengths; fail) | simp add: emit_shapes split del: if_split)+))

lemma sized_f64_cmp: "sized env c 0 (numeric_bound env) (jit_f64_cmp_op op) anyJ"
  by (cases op; cases "jv_softfloat env"; cases "jv_backtrace env"; simp add: jit_emitters emit_shapes split del: if_split;
      (rule sized_weak, (rule jit_sized | assumption | (simp add: emit_lengths; fail) | simp add: emit_shapes split del: if_split)+))

lemma sized_f32_op: "sized env c 0 (numeric_bound env) (jit_f32_op op) anyJ"
  by (cases op; cases "jv_softfloat env"; cases "jv_backtrace env"; simp add: jit_emitters emit_shapes split del: if_split;
      (rule sized_weak, (rule jit_sized | assumption | (simp add: emit_lengths; fail) | simp add: emit_shapes split del: if_split)+))

lemma sized_f64_op: "sized env c 0 (numeric_bound env) (jit_f64_op op) anyJ"
  by (cases op; cases "jv_softfloat env"; cases "jv_backtrace env"; simp add: jit_emitters emit_shapes split del: if_split;
      (rule sized_weak, (rule jit_sized | assumption | (simp add: emit_lengths; fail) | simp add: emit_shapes split del: if_split)+))

lemma sized_conv_op: "sized env c 0 (numeric_bound env) (jit_conv_op op) anyJ"
  by (cases op; cases "jv_softfloat env"; cases "jv_backtrace env"; simp add: jit_emitters emit_shapes split del: if_split;
      (rule sized_weak, (rule jit_sized | assumption | (simp add: emit_lengths; fail) | simp add: emit_shapes split del: if_split)+))

lemma sized_sat_op: "sized env c 0 (numeric_bound env) (jit_sat_op op) anyJ"
  by (cases op; cases "jv_softfloat env"; cases "jv_backtrace env"; simp add: jit_emitters emit_shapes split del: if_split;
      (rule sized_weak, (rule jit_sized | assumption | (simp add: emit_lengths; fail) | simp add: emit_shapes split del: if_split)+))

lemma safe_numeric: "safe env c (numeric_bound env) (jit_numeric_op op) anyJ"
proof -
  have up: "safe env c (numeric_bound env) m anyJ" if "safe env c 49 m anyJ" for m
    by (rule safe_weak[OF that]) (simp add: numeric_bound_def instruction_size_ratio_def)
  show ?thesis
  proof (cases op)
    case (Cmp_t x)
    then show ?thesis
      by (cases x) (auto intro: up sized_safe sized_i32_cmp sized_i64_cmp sized_f32_cmp sized_f64_cmp)
  next
    case (Arith_t x)
    then show ?thesis
      by (cases x) (auto intro: up sized_safe safe_i32_op safe_i64_op sized_f32_op sized_f64_op sized_extend)
  qed (auto intro: sized_safe sized_conv_op sized_sat_op)
qed

end
