(* ===== verification/Vm_Jit_Actions.thy ===== *)
theory Vm_Jit_Actions
  imports Vm_Jit_Sizes
begin

text \<open>
  The remaining instructions.
\<close>

section \<open>Vectors\<close>

lemmas vector_shapes = mc_v128_loadop_def mc_v128_load_laneop_def mc_v128_store_laneop_def mc_v128_extract_laneop_def
  mc_v128_replace_laneop_def mc_v128_splatop_def mc_v128_irelop_minmax_def mc_v128_irelop_cmp_def mc_v128_shiftop_def
  mc_v128_unop_def mc_v128_binop_def mc_v128_binop_r_def mc_v128_binop_commutative_def mc_pop_address_rax_def

lemma sized_vec_shapes:
  "sized env c 0 98 (mc_v128_splatop op) anyJ"
  "sized env c 0 98 (mc_v128_irelop_minmax op op2 flip) anyJ"
  "sized env c 0 98 (mc_v128_irelop_cmp op switch flip) anyJ"
  "sized env c 0 98 (mc_v128_shiftop op msk) anyJ"
  "sized env c 0 98 (mc_v128_unop op) anyJ"
  "sized env c 0 98 (mc_v128_binop op) anyJ"
  "sized env c 0 98 (mc_v128_binop_r op) anyJ"
  "sized env c 0 98 (mc_v128_binop_commutative op) anyJ"
  by (cases op; cases op2; simp add: vector_shapes emit_shapes split del: if_split;
      (rule sized_weak, (rule jit_sized | assumption | (simp add: emit_lengths; fail) | simp add: emit_shapes split del: if_split)+))+

lemma sized_vec_softfloat:
  "sized env c 0 98 (mc_v128_unop_softfloat fn) anyJ"
  "sized env c 0 98 (mc_v128_binop_softfloat fn) anyJ"
  by (cases "jv_backtrace env"; simp add: emit_shapes split del: if_split;
      (rule sized_weak, (rule jit_sized | assumption | (simp add: emit_lengths; fail) | simp add: emit_shapes split del: if_split)+))+

lemma sized_vec_numeric: "list_all (\<lambda>(n, m). sized env c 0 98 m anyJ) vec_numeric_emitters"
  apply (simp add: vec_numeric_emitters_def vector_emitters sized_vec_shapes sized_vec_softfloat)
  apply (intro conjI; simp add: emit_shapes split del: if_split;
      (rule sized_weak, (rule jit_sized | assumption | (simp add: emit_lengths; fail) | simp add: emit_shapes split del: if_split)+))
  done

lemma sized_vec_memory: "list_all (\<lambda>(n, f). sized env c 0 98 (f a off) anyJ) vec_memory_emitters"
  by (simp only: vec_memory_emitters_def list.pred_inject prod.case simp_thms; intro conjI;
      simp add: vector_emitters vector_shapes emit_shapes split del: if_split;
      (rule sized_weak, (rule jit_sized | assumption | (simp add: emit_lengths; fail) | simp add: emit_shapes split del: if_split)+))

lemma sized_vec_lane_memory: "list_all (\<lambda>(n, f). sized env c 0 98 (f a off lane) anyJ) vec_lane_memory_emitters"
  by (simp only: vec_lane_memory_emitters_def list.pred_inject prod.case simp_thms; intro conjI;
      simp add: vector_emitters vector_shapes emit_shapes split del: if_split;
      (rule sized_weak, (rule sized_pop_v128_then | rule jit_sized | assumption | (simp add: emit_lengths; fail) | simp add: emit_shapes split del: if_split)+))

lemma sized_vec_lane: "list_all (\<lambda>(n, f). sized env c 0 98 (f l) anyJ) vec_lane_emitters"
  by (simp only: vec_lane_emitters_def list.pred_inject prod.case simp_thms; intro conjI;
      simp add: vector_emitters vector_shapes emit_shapes split del: if_split;
      (rule sized_weak, (rule jit_sized | assumption | (simp add: emit_lengths; fail) | simp add: emit_shapes split del: if_split)+))


lemma table_row: "list_all P rows \<Longrightarrow> map_of rows n = Some x \<Longrightarrow> P (n, x)"
  by (auto simp: list_all_iff dest: map_of_SomeD)

lemma sized_vec_op:
  assumes "jit_vec_op op = Some m" and "\<And>lanes. op = Vec_shuffle_t lanes \<Longrightarrow> length lanes = 16"
  shows "sized env c 0 98 m anyJ"
proof (cases op)
  case (Vec_shuffle_t lanes)
  with assms have m: "m = mc_i8x16_shuffle lanes" and l: "length lanes = 16" by auto
  show ?thesis unfolding m
    by (simp add: mc_i8x16_shuffle_def shuffle_operand_def emit_shapes)
       (rule sized_weak, (rule jit_sized | (simp add: emit_lengths l; fail))+)
next
  case (Vec_memory_t n a off)
  with assms show ?thesis by (auto dest: table_row[OF sized_vec_memory])
next
  case (Vec_lane_memory_t n a off lane)
  with assms show ?thesis by (auto dest: table_row[OF sized_vec_lane_memory])
next
  case (Vec_lane_t n l)
  with assms show ?thesis by (auto dest: table_row[OF sized_vec_lane])
next
  case (Vec_numeric_t n)
  with assms show ?thesis by (auto dest: table_row[OF sized_vec_numeric])
qed

section \<open>Memory and tables\<close>

lemma sized_table_size [jit_sized]: "m_tables (jv_mod env) \<noteq> [] \<Longrightarrow> sized env c 0 0 jit_table_size anyJ"
  by (cases "m_tables (jv_mod env)") (simp_all add: jit_table_size_def at_unchecked_def sized_def withJ_def liftJ_def)

text \<open>The tables and globals are too far from the base of memory for a short displacement.\<close>

lemma far_page: "64 < page \<Longrightarrow> \<not> fits8 (table_offset page)" "128 < page \<Longrightarrow> \<not> fits8 (globals_end page - 8)"
  by (simp_all add: fits8_def table_offset_def globals_end_def)

lemma far_not_zero: "64 < page \<Longrightarrow> table_offset page \<noteq> 0" "128 < page \<Longrightarrow> globals_end page \<noteq> 8"
  by (simp_all add: table_offset_def globals_end_def)

lemma sized_bulk_op:
  assumes "op = Table_copy_t \<Longrightarrow> m_tables (jv_mod env) \<noteq> [] \<and> 64 < jv_page env"
  shows "sized env c 0 147 (jit_bulk_op op) anyJ"
  by (insert assms, cases op; cases "jv_backtrace env"; simp add: int_emitters emit_shapes split del: if_split;
      (rule sized_weak, (rule jit_sized | assumption | (simp add: emit_lengths far_page far_not_zero; fail) | simp add: emit_shapes split del: if_split)+))

lemma sized_memory_size: "sized env c 0 98 mc_current_memory anyJ" "sized env c 0 98 mc_grow_memory anyJ"
  by (cases "jv_backtrace env"; simp add: int_emitters emit_shapes split del: if_split;
      (rule sized_weak, (rule jit_sized | assumption | (simp add: emit_lengths; fail) | simp add: emit_shapes split del: if_split)+))+


section \<open>Constants, locals and globals\<close>

lemma tracks_prefix:
  assumes "inert env c k p" and "tracks env c n m"
  shows "tracks env c (k + n) (seqJ [p, m])"
  unfolding tracks_def
proof (intro allI impI, elim conjE)
  fix s assume s: "jit_ok c s" "jc_code s + (k + n) \<le> fst c"
  from assms(1) s obtain f where f: "p env s = Inr ((), s\<lparr>jc_mem := f, jc_code := jc_code s + k\<rparr>)" (is "_ = Inr ((), ?s)")
    unfolding inert_def by fastforce
  have "jit_ok c ?s" using s(1) by (rule jit_ok_advance)
  with assms(2) s(2) obtain t where "m env ?s = Inr ((), t)" "jit_ok c t" "jc_code t = jc_code s + (k + n)"
    "ro_end (jc_recent1 t) = Some (jc_code t)" "jc_recent0 t = jc_recent1 s" "pinned t = pinned s" "fold_floor (jc_code s + k) (jc_recent1 s) \<le> mc_get_addr t"
    unfolding tracks_def by fastforce
  moreover have "fold_floor (jc_code s) (jc_recent1 s) \<le> fold_floor (jc_code s + k) (jc_recent1 s)"
    using s(1) by (auto simp: fold_floor_def jit_ok_def recents_ok_def recent_ok_def)
  ultimately show "\<exists>s'. seqJ [p, m] env s = Inr ((), s') \<and> jit_ok c s' \<and> jc_code s' = jc_code s + (k + n) \<and>
     ro_end (jc_recent1 s') = Some (jc_code s') \<and> jc_recent0 s' = jc_recent1 s \<and> pinned s' = pinned s \<and> fold_floor (jc_code s) (jc_recent1 s) \<le> mc_get_addr s'"
    using f
    by (simp add: seqJ.simps bindJ_def retJ_def)
qed

lemma tracks_fixed: "tracks env c n m \<Longrightarrow> (jv_validate env \<Longrightarrow> k = n) \<Longrightarrow> tracks env c n (fixed_size_instr k m)"
  unfolding tracks_def fixed_size_instr_def by fastforce

lemma tracks_again:
  assumes "tracks env c n m" and "span_ok d n"
  shows "tracks env c n (bindJ (getJ jc_code) (\<lambda>start. seqJ [m, push_recent_op start d]))"
  unfolding tracks_def
proof (intro allI impI, elim conjE)
  fix s assume s: "jit_ok c s" "jc_code s + n \<le> fst c"
  with assms(1) obtain t where t: "m env s = Inr ((), t)" "jit_ok c t" "jc_code t = jc_code s + n"
    "ro_end (jc_recent1 t) = Some (jc_code t)" "jc_recent0 t = jc_recent1 s" "pinned t = pinned s"
    unfolding tracks_def by blast
  have "pinned s (fold_floor (jc_code s) (jc_recent1 s))" using s(1) get_addr_floor[of s] by (auto simp: jit_ok_def intro: pinned_mono)
  moreover have "recent_ok (jc_code s) (jc_recent1 s)" using s(1) by (simp add: jit_ok_def recents_ok_def)
  ultimately obtain u where "push_recent_op (jc_code s) d env t = Inr ((), u)" "jit_ok c u" "jc_code u = jc_code s + n"
    "ro_end (jc_recent1 u) = Some (jc_code u)" "jc_recent0 u = jc_recent1 s" "pinned u = pinned s" "fold_floor (jc_code s) (jc_recent1 s) \<le> mc_get_addr u"
    using push_recent_ok[of c t "jc_code s" d env] t assms(2) by auto
  with t show "\<exists>s'. bindJ (getJ jc_code) (\<lambda>start. seqJ [m, push_recent_op start d]) env s = Inr ((), s') \<and> jit_ok c s' \<and>
     jc_code s' = jc_code s + n \<and> ro_end (jc_recent1 s') = Some (jc_code s') \<and> jc_recent0 s' = jc_recent1 s \<and> pinned s' = pinned s \<and>
     fold_floor (jc_code s) (jc_recent1 s) \<le> mc_get_addr s'"
    by (simp add: seqJ.simps bindJ_def getJ_def retJ_def)
qed

lemma inert_xor: "inert env c 2 (mc_xor eax eax)"
  unfolding mc_xor_def by (rule inert_mc2) (simp_all add: emit_lengths)

lemma sized_i32_const [jit_sized]: "sized env c 0 6 (mc_i32_const v) anyJ"
proof (cases "v = 0")
  case True
  have "tracks env c 3 (fixed_size_instr 3 (seqJ [mc_xor eax eax, mc_push rax]))"
    using tracks_fixed[OF tracks_prefix[OF inert_xor tracks_push[of env c 0]], of 3] by (simp add: pop_len_def)
  from tracks_sized[OF tracks_again[OF this, of "I32_const_op 0"]] show ?thesis
    unfolding mc_i32_const_def using True by (auto simp: span_ok_def intro: sized_weak)
next
  case False
  have "tracks env c 6 (fixed_size_instr 6 (seqJ [mc_mov_imm32 v eax, mc_push rax]))"
    using tracks_fixed[OF tracks_prefix[OF inert_mov_imm32[where k = 5] tracks_push[of env c 0]], of 0 6 v] by (simp add: pop_len_def)
  from tracks_sized[OF tracks_again[OF this, of "I32_const_op v"]] show ?thesis
    unfolding mc_i32_const_def using False by (auto simp: span_ok_def intro: sized_weak)
qed

lemma getJ_fixed: "bindJ (getJ f) (\<lambda>x. fixed_size_instr k (g x)) = fixed_size_instr k (bindJ (getJ f) g)"
  by (simp add: fun_eq_iff bindJ_def getJ_def fixed_size_instr_def)

lemma sized_i64_const [jit_sized]: "sized env c 11 11 (mc_i64_const v) anyJ"
proof -
  have "tracks env c 11 (bindJ (getJ jc_code) (\<lambda>start. seqJ [mc_mov_imm64 v rax, mc_push rax, push_recent_op start (I64_const_op v)]))"
    using tracks_after[OF inert_mov_imm64[OF refl] tracks_push[of env c 0], of "I64_const_op v" v 0] by (simp add: pop_len_def span_ok_def)
  from tracks_sized[OF tracks_fixed[OF this, of 11]] show ?thesis by (simp add: mc_i64_const_def getJ_fixed)
qed

lemma sized_const_op: "sized env c 0 22 (jit_const_op op) anyJ"
  by (cases op; simp add: mc_f32_const_def mc_f64_const_def mc_v128_const_def simd_instr_def;
      (rule sized_weak, (rule jit_sized | (simp add: emit_lengths; fail))+))

text \<open>Where a local is, given the function that is compiled.\<close>

type_synonym jit_frame = "func_type \<times> u32 list \<times> local_group list"

fun frame_of :: "jit_context \<Rightarrow> jit_frame" where
  "frame_of (e, ft, params, groups, st) = (ft, params, groups)"

fun local_offset :: "jit_frame \<Rightarrow> u32 \<Rightarrow> int res" where
  "local_offset (ft, params, groups) i = (if unat i < length (param_types ft)
     then bindE (at_unchecked params (unat i)) (\<lambda>w. Inr (sint w))
     else local_frame_offset groups (i - of_nat (length (param_types ft))))"

lemma get_frame_offset_eq: "jit_ok c s \<Longrightarrow> get_frame_offset i env s = bindE (local_offset (frame_of c) i) (\<lambda>d. Inr (d, s))"
  by (auto simp: jit_ok_def get_frame_offset_def bindJ_def getJ_def liftJ_def)

definition local_ok :: "jit_frame \<Rightarrow> u32 \<Rightarrow> bool" where
  "local_ok fr i \<longleftrightarrow> \<not> isl (local_offset fr i)"

lemma local_okE: "local_ok fr i \<Longrightarrow> (\<And>d. local_offset fr i = Inr d \<Longrightarrow> P) \<Longrightarrow> P"
  by (cases "local_offset fr i") (auto simp: local_ok_def)

lemma sized_frame:
  "local_offset (frame_of c) i = Inr d \<Longrightarrow> sized env c lo hi (f d) Q \<Longrightarrow> sized env c lo hi (bindJ (get_frame_offset i) f) Q"
  by (auto simp: sized_def bindJ_def get_frame_offset_eq)

lemma length_frame: "4 \<le> length (ia32_bytes op_MOV_A (Mem 5 d) rax)" "length (ia32_bytes op_MOV_A (Mem 5 d) rax) \<le> 7"
  by (simp_all add: emit_lengths)

lemma sized_get_local:
  assumes "local_ok (frame_of c) i"
  shows "sized env c 0 17 (mc_get_local i ty) anyJ"
proof (rule sizedI, goal_cases)
  case (1 s)
  from assms obtain d where d: "local_offset (frame_of c) i = Inr d" by (rule local_okE)
  let ?body = "\<lambda>start. if ty \<noteq> t_v128 then seqJ [mc_mov (Mem 5 d) rax, mc_push rax, push_recent_op start (Get_local_op (Mem 5 d))]
     else seqJ [mc_vmovups (Mem 5 d) xmm0, mc_sub_imm 16 rsp, mc_vmovups xmm0 (deref rsp)]"
  have eq: "mc_get_local i ty env s = variable_size_instr 5 17 (bindJ (getJ jc_code) ?body) env s"
    using get_frame_offset_eq[OF 1(1), of i env] d
    by (simp add: mc_get_local_def bindJ_def getJ_def variable_size_instr_def Let_def at_disp_def)
  have "sized env c 5 17 (bindJ (getJ jc_code) ?body) anyJ"
  proof (cases "ty = t_v128")
    case True
    have "sized env c (0 + 5) (0 + 17) (bindJ (getJ jc_code) (\<lambda>_. seqJ [mc_vmovups (Mem 5 d) xmm0, mc_sub_imm 16 rsp, mc_vmovups xmm0 (deref rsp)])) anyJ"
      by (rule sized_bind[OF sized_getJ], simp add: emit_shapes, rule sized_weak, (rule jit_sized | (simp add: emit_lengths; fail))+)
    with True show ?thesis by simp
  next
    case False
    have "inert env c (length (ia32_bytes op_MOV_A (Mem 5 d) rax)) (mc_mov (Mem 5 d) rax)" by (simp add: inert_mc2 del: ia32_bytes.simps)
    from tracks_sized[OF tracks_after[OF this tracks_push[of env c 0], of "Get_local_op (Mem 5 d)"]]
    have "sized env c 5 17 (bindJ (getJ jc_code) (\<lambda>start. seqJ [mc_mov (Mem 5 d) rax, mc_push rax, push_recent_op start (Get_local_op (Mem 5 d))])) anyJ"
      by (rule sized_weak) (use length_frame[of d] in \<open>auto simp: span_ok_def pop_len_def simp del: ia32_bytes.simps\<close>)
    with False show ?thesis by simp
  qed
  then have "sized env c 5 17 (variable_size_instr 5 17 (bindJ (getJ jc_code) ?body)) anyJ" by (rule sized_variable) simp
  from this 1 show ?case by (rule sizedD) (use eq in auto)
qed

lemma sized_set_local: "local_offset (frame_of c) i = Inr d \<Longrightarrow> sized env c 0 20 (mc_set_local i ty) anyJ"
  by (cases "ty = t_v128"; simp add: mc_set_local_def emit_shapes Let_def;
      (rule sized_weak, (rule sized_frame | rule jit_sized | assumption | (simp add: emit_lengths; fail))+))

lemma sized_tee_local: "local_offset (frame_of c) i = Inr d \<Longrightarrow> sized env c 0 20 (mc_tee_local i ty) anyJ"
  by (cases "ty = t_v128"; cases "ty = t_i32 \<or> ty = t_f32"; simp add: mc_tee_local_def emit_shapes Let_def split del: if_split;
      (rule sized_weak, (rule sized_frame | rule jit_sized | assumption | (simp add: emit_lengths; fail) | simp)+))


text \<open>The content type of a global, and the address of its value in \<open>rcx\<close>.\<close>

lemma sized_global_type:
  assumes "unat i < length (m_globals (jv_mod env))"
    and "sized env c lo hi (f (content_type (m_globals (jv_mod env) ! unat i))) Q"
  shows "sized env c lo hi (bindJ (jit_global_type i) f) Q"
  using assms by (simp add: sized_def bindJ_def jit_global_type_def withJ_def liftJ_def at_unchecked_def)

lemma sized_bind_eq:
  "sized env c l1 h1 m (\<lambda>x. x = v) \<Longrightarrow> sized env c l2 h2 (f v) Q \<Longrightarrow> sized env c (l1 + l2) (h1 + h2) (bindJ m f) Q"
  by (rule sized_bind[where P = "\<lambda>x. x = v"]) auto

lemma sized_global_base:
  "128 < jv_page env \<Longrightarrow> sized env c 7 7 (mc_mov (at_disp rsi (globals_end (jv_page env) - 8)) rcx) anyJ"
  by (simp add: emit_shapes) (rule sized_weak, (rule jit_sized | (simp add: emit_lengths far_page far_not_zero; fail))+)

lemma sized_global_near:
  assumes "128 < jv_page env" and "\<not> get_global_offset i > 0x7fffffff"
  shows "sized env c 7 7 (mc_global_loc i) (\<lambda>x. x = Mem 1 (uint (get_global_offset i)))"
  using sized_bind[OF sized_global_base[OF assms(1)], of c 0 0 "\<lambda>_. retJ (Mem 1 (uint (get_global_offset i)))"] assms(2)
  by (simp add: mc_global_loc_def Let_def sized_ret at_disp_def)

lemma sized_global_far:
  assumes "128 < jv_page env" and "get_global_offset i > 0x7fffffff"
  shows "sized env c 20 20 (mc_global_loc i) (\<lambda>x. x = Mem 1 0)"
proof -
  have "sized env c 13 13 (seqJ [mc_mov_imm64 off rdx, mc_add rdx rcx]) anyJ" for off
    by (simp add: emit_shapes) (rule sized_weak, (rule jit_sized | (simp add: emit_lengths; fail))+)
  from sized_bind[OF this, of 0 0 "\<lambda>_. retJ (Mem 1 0)" "\<lambda>x. x = Mem 1 0"]
  have "sized env c 13 13 (bindJ (seqJ [mc_mov_imm64 off rdx, mc_add rdx rcx]) (\<lambda>_. retJ (Mem 1 0))) (\<lambda>x. x = Mem 1 0)" for off
    by (simp add: sized_ret)
  from sized_bind[OF sized_global_base[OF assms(1)] this] show ?thesis
    using assms(2) by (simp add: mc_global_loc_def Let_def at_disp_def)
qed

lemma global_offset_pos: "uint (get_global_offset i) \<noteq> 0"
proof -
  have "unat (get_global_offset i) = unat i * 24 + 8"
    using unat_less_32[of i] by (simp add: get_global_offset_def unat_word_ariths unat_ucast_up)
  then show ?thesis by (metis add_eq_0_iff_both_eq_0 uint_0_iff unat_0 zero_neq_numeral)
qed

abbreviation "global_type env i \<equiv> content_type (m_globals (jv_mod env) ! unat i)"

lemma sized_get_global:
  assumes "unat i < length (m_globals (jv_mod env))" and "global_type env i \<in> {t_i32, t_i64, t_f32, t_f64, t_v128}" and "128 < jv_page env"
  shows "sized env c 0 36 (mc_get_global i) anyJ"
proof (cases "get_global_offset i > 0x7fffffff")
  case True
  show ?thesis unfolding mc_get_global_def
    by (insert assms(2), elim insertE emptyE; (rule sized_weak, rule sized_variable, rule sized_global_type[OF assms(1)], simp,
       (rule sized_bind_eq[OF sized_global_far[OF assms(3) True]] | rule jit_sized | assumption | (simp add: emit_lengths; fail) | simp add: emit_shapes)+))
next
  case False
  show ?thesis unfolding mc_get_global_def
    by (insert assms(2), elim insertE emptyE; (rule sized_weak, rule sized_variable, rule sized_global_type[OF assms(1)], simp,
       (rule sized_bind_eq[OF sized_global_near[OF assms(3) False]] | rule jit_sized | assumption | (simp add: emit_lengths global_offset_pos; fail) | simp add: emit_shapes)+))
qed


text \<open>
  \<open>global.set\<close> may take back the push of a vector even in a build that validates sizes, and is then shorter
  than the scope allows; the other types are safe in every build.
\<close>

lemma safe_set_global:
  assumes "unat i < length (m_globals (jv_mod env))" and "global_type env i \<in> {t_i32, t_i64, t_f32, t_f64}" and "128 < jv_page env"
  shows "sized env c 0 36 (mc_set_global i) anyJ"
proof (cases "get_global_offset i > 0x7fffffff")
  case True
  show ?thesis unfolding mc_set_global_def
    by (insert assms(2), elim insertE emptyE; (rule sized_weak, rule sized_variable, rule sized_global_type[OF assms(1)], simp,
       (rule sized_bind_eq[OF sized_global_far[OF assms(3) True]] | rule jit_sized | assumption | (simp add: emit_lengths; fail) | simp add: emit_shapes)+))
next
  case False
  show ?thesis unfolding mc_set_global_def
    by (insert assms(2), elim insertE emptyE; (rule sized_weak, rule sized_variable, rule sized_global_type[OF assms(1)], simp,
       (rule sized_bind_eq[OF sized_global_near[OF assms(3) False]] | rule jit_sized | assumption | (simp add: emit_lengths global_offset_pos; fail) | simp add: emit_shapes)+))
qed

lemma seqJ_single: "seqJ [m] = m"
  by (simp add: seqJ.simps fun_eq_iff bindJ_def retJ_def bindE_def split: sum.splits)

lemma sized_pop_v128: "\<not> jv_validate env \<Longrightarrow> sized env c 0 9 (mc_pop_v128 (Xmm r)) anyJ"
  using sized_pop_v128_then[OF safe_sized[OF _ sized_safe[OF sized_seq_nil]], of env 9 c r] by (simp add: seqJ_single)

lemma sized_set_global_v128:
  assumes "unat i < length (m_globals (jv_mod env))" and "global_type env i = t_v128" and "128 < jv_page env" and "\<not> jv_validate env"
  shows "sized env c 0 36 (mc_set_global i) anyJ"
proof (cases "get_global_offset i > 0x7fffffff")
  case True
  show ?thesis unfolding mc_set_global_def
    by (insert assms(2,4), rule sized_weak, rule sized_variable, rule sized_global_type[OF assms(1)], simp,
       (rule sized_pop_v128 | rule sized_bind_eq[OF sized_global_far[OF assms(3) True]] | rule jit_sized | assumption | (simp add: emit_lengths; fail) | simp add: emit_shapes)+)
next
  case False
  show ?thesis unfolding mc_set_global_def
    by (insert assms(2,4), rule sized_weak, rule sized_variable, rule sized_global_type[OF assms(1)], simp,
       (rule sized_pop_v128 | rule sized_bind_eq[OF sized_global_near[OF assms(3) False]] | rule jit_sized | assumption | (simp add: emit_lengths global_offset_pos; fail) | simp add: emit_shapes)+)
qed

section \<open>Parametric instructions\<close>

lemma sized_drop: "sized env c 0 4 (mc_drop ty) anyJ"
  by (cases "ty = t_v128"; simp add: mc_drop_def emit_shapes;
      (rule sized_weak, (rule jit_sized | (simp add: emit_lengths; fail))+))

lemma sized_select: "sized env c 0 22 (mc_select ty) anyJ"
  by (cases "ty = t_v128"; cases "ty = t_i32 \<or> ty = t_f32"; simp add: mc_select_def emit_shapes split del: if_split;
      (rule sized_weak, (rule jit_sized | assumption | (simp add: emit_lengths; fail) | simp)+))

end
