(* ===== verification/Vm_Jit_Control.thy ===== *)
theory Vm_Jit_Control
  imports Vm_Jit_Actions
begin

text \<open>
  Branches and calls.
\<close>

section \<open>Branches\<close>

abbreviation target32 :: "jit_context \<Rightarrow> nat \<Rightarrow> bool" where "target32 c \<equiv> \<lambda>a. a + 4 \<le> fst c"

lemma sized_multipop [jit_sized]: "sized env c 0 17 (mc_multipop count rt) anyJ"
  by (cases "rt = t_v128"; cases "rt = t_pseudo"; simp add: mc_multipop_def emit_shapes Let_def cong: if_cong split del: if_split;
      (rule sized_weak, (rule jit_sized | (simp add: emit_lengths; fail))+))

lemma sized_jump [jit_sized]: "sized env c 5 5 (bindJ (mc_bytes [0xe9]) (\<lambda>_. mc_branch_target32)) (target32 c)"
  by (rule sized_weak[OF sized_bind[OF sized_bytes sized_branch_target32]]) auto

lemma sized_br [jit_sized]: "sized env c 5 22 (mc_br d rt) (target32 c)"
  unfolding mc_br_def by (rule sized_variable[OF sized_weak[OF sized_bind[OF sized_multipop sized_jump]]]) auto

lemma sized_set_branch_target [jit_sized]: "sized env c 0 0 set_branch_target anyJ"
proof (rule sizedI, goal_cases)
  case (1 s)
  let ?s = "s\<lparr>jc_recent0 := no_recent, jc_recent1 := no_recent\<rparr>"
  have "mc_get_addr ?s = jc_code s" by (simp add: mc_get_addr_def no_recent_def)
  moreover have "mc_get_addr s \<le> jc_code s" using 1(1) by (simp add: jit_ok_def get_addr_le)
  ultimately have "jit_ok c ?s" using 1(1) by (auto simp: jit_ok_def recents_ok_def intro: pinned_mono)
  then show ?case by (simp add: set_branch_target_def modJ_def)
qed

lemma sized_ret_target [jit_sized]: "target32 c a \<Longrightarrow> sized env c 0 0 (retJ a) (target32 c)"
  by (simp add: sized_ret)

lemma sized_else:
  assumes "target32 c if_loc"
  shows "sized env c 5 5 (mc_else if_loc) (target32 c)"
proof -
  have "sized env c 0 0 (mc_multipop 0 t_pseudo) anyJ"
    by (simp add: mc_multipop_def is_simple_multipop_def sized_variable[OF sized_ret_any])
  from sized_variable[OF sized_bind[OF this sized_jump]]
  have br: "sized env c 5 5 (mc_br 0 t_pseudo) (target32 c)" by (simp add: mc_br_def)
  show ?thesis unfolding mc_else_def
    by (rule sized_weak, (rule br | rule jit_sized | assumption | rule assms | (simp; fail))+)
qed

lemma sized_skip_br [jit_sized]: "s + 1 \<le> fst c \<Longrightarrow> sized env c 5 22 (mc_skip_br s d rt) (target32 c)"
  unfolding mc_skip_br_def by (rule sized_weak, (rule jit_sized | assumption | (simp add: emit_lengths; fail))+)

lemma sized_reverse [jit_sized]: "sized env c 0 0 (reverse_condition j) anyJ"
proof -
  have u: "sized env c 0 0 (unimplemented :: u8 jm) anyJ" by (rule sized_unimplemented)
  show ?thesis unfolding reverse_condition_def by (rule sized_weak, (rule u | rule jit_sized)+) simp_all
qed

lemma safe_if: "safe env c 11 mc_if (target32 c)"
  unfolding mc_if_def
  by (rule safe_weak, (rule safe_fold_case | rule sized_safe | rule jit_sized | assumption | (simp add: emit_lengths; fail))+)

lemma safe_br_if: "safe env c 29 (mc_br_if d rt) (target32 c)"
  unfolding mc_br_if_def
  by (rule safe_weak, (rule safe_fold_case | rule sized_safe | rule jit_sized | assumption | (simp add: emit_lengths; fail))+)


section \<open>Calls\<close>

lemma params_size_errors: "params_size n ts \<noteq> Inl Undefined_behaviour" "params_size n ts \<noteq> Inl Assertion_failure"
  by (induction ts arbitrary: n) (auto simp: Let_def assertE_def)

lemma sized_params_size [jit_sized]: "sized env c 0 0 (liftJ (params_size n ts)) anyJ"
  by (rule sized_weak[OF sized_lift[OF params_size_errors]]) auto

lemma sized_multipop_call [jit_sized]: "sized env c 0 12 (mc_multipop_call ft) anyJ"
proof -
  have add: "sized env c 0 7 (if b then mc_add_imm v rsp else retJ ()) anyJ" for b v
    unfolding mc_add_imm_def by (rule sized_weak[OF sized_if[OF sized_imm_any sized_ret_any]]) (auto simp: emit_lengths)
  have vec: "sized env c 5 5 (mc_vmovups xmm0 (deref rsp)) anyJ"
    by (simp add: emit_shapes) (rule sized_weak[OF sized_v2], auto simp: emit_lengths)
  have ret: "sized env c 0 1 (if b then mc_push rax else retJ ()) anyJ" for b
    by (rule sized_weak[OF sized_if[OF sized_push sized_ret_any]]) (auto simp: pop_len_def)
  show ?thesis unfolding mc_multipop_call_def
    by (rule sized_weak, (rule sized_params_size add vec ret sized_variable sized_bind sized_if sized_seq_cons sized_seq_nil)+) auto
qed

text \<open>
  The address of a call is recorded only after the arguments are dropped and the result is pushed.  It stays in
  place: a push behind it can be taken back, the call itself cannot.  \<open>grows\<close>: started behind an instruction that is
  not recorded, \<open>m\<close> leaves nothing that folds back to what was there before.
\<close>

definition grows :: "jit_env \<Rightarrow> jit_context \<Rightarrow> nat \<Rightarrow> unit jm \<Rightarrow> bool" where
  "grows env c h m \<longleftrightarrow> (\<forall>s. jit_ok c s \<and> jc_code s + h \<le> fst c \<and> ro_end (jc_recent1 s) \<noteq> Some (jc_code s) \<longrightarrow>
     (case m env s of Inl x \<Rightarrow> True | Inr (_, s') \<Rightarrow> jc_code s \<le> mc_get_addr s'))"

lemma inert_ret: "inert env c 0 (retJ ())"
proof -
  have "\<exists>f. s = s\<lparr>jc_mem := f\<rparr>" for s :: jit by (rule exI[of _ "jc_mem s"]) simp
  then show ?thesis by (simp add: inert_def retJ_def)
qed

lemma seqJ_pair: "seqJ [a, b] = bindJ a (\<lambda>_. b)"
  by (simp only: seqJ.simps(2)[of a "[b]"] seqJ_single)

lemma inert_grows: "inert env c k m \<Longrightarrow> k \<le> h \<Longrightarrow> grows env c h m"
  unfolding inert_def grows_def
proof (intro allI impI, elim conjE)
  fix s assume i: "\<forall>s. jit_ok c s \<and> jc_code s + k \<le> fst c \<longrightarrow> (\<exists>f. m env s = Inr ((), s\<lparr>jc_mem := f, jc_code := jc_code s + k\<rparr>))"
    and s: "k \<le> h" "jit_ok c s" "jc_code s + h \<le> fst c" "ro_end (jc_recent1 s) \<noteq> Some (jc_code s)"
  from s(1,3) have "jc_code s + k \<le> fst c" by simp
  with i s(2) obtain f where "m env s = Inr ((), s\<lparr>jc_mem := f, jc_code := jc_code s + k\<rparr>)" by blast
  moreover have "recent_ok (jc_code s) (jc_recent1 s)" using s(2) by (simp add: jit_ok_def recents_ok_def)
  ultimately show "case m env s of Inl x \<Rightarrow> True | Inr (_, s') \<Rightarrow> jc_code s \<le> mc_get_addr s'"
    using s(4) by (cases "k = 0") (auto simp: mc_get_addr_def recent_ok_def)
qed

lemma tracks_grows: "tracks env c k m \<Longrightarrow> k \<le> h \<Longrightarrow> grows env c h m"
  unfolding tracks_def grows_def
proof (intro allI impI, elim conjE)
  fix s assume i: "\<forall>s. jit_ok c s \<and> jc_code s + k \<le> fst c \<longrightarrow> (\<exists>s'. m env s = Inr ((), s') \<and> jit_ok c s' \<and>
     jc_code s' = jc_code s + k \<and> ro_end (jc_recent1 s') = Some (jc_code s') \<and> jc_recent0 s' = jc_recent1 s \<and> pinned s' = pinned s \<and>
     fold_floor (jc_code s) (jc_recent1 s) \<le> mc_get_addr s')"
    and s: "k \<le> h" "jit_ok c s" "jc_code s + h \<le> fst c" "ro_end (jc_recent1 s) \<noteq> Some (jc_code s)"
  from s(1,3) have "jc_code s + k \<le> fst c" by simp
  with i s(2) obtain s' where "m env s = Inr ((), s')" "fold_floor (jc_code s) (jc_recent1 s) \<le> mc_get_addr s'" by blast
  with s(4) show "case m env s of Inl x \<Rightarrow> True | Inr (_, s') \<Rightarrow> jc_code s \<le> mc_get_addr s'" by (simp add: fold_floor_def)
qed

lemma inert_add: "\<exists>k \<le> 7. inert env c k (if b then mc_add_imm v rsp else retJ ())"
proof (cases b)
  case True
  show ?thesis
  proof (cases "fits8 (sint v)")
    case True
    with \<open>b\<close> inert_mc1_imm8[of rsp 4 op_ADD_imm8 env c "ucast v"] show ?thesis
      by (auto simp: emit_shapes mc_imm_def emit_lengths intro!: exI[of _ 4])
  next
    case False
    have "inert env c (3 + 4) (mc1_imm32 op_ADD_imm32 v rsp)"
      unfolding mc1_imm32_def mc_operand32_def by (rule inert_seq[OF inert_mc1 inert_bytes]) (simp_all add: emit_lengths)
    with False \<open>b\<close> show ?thesis by (auto simp: emit_shapes mc_imm_def intro!: exI[of _ 7])
  qed
qed (auto intro: inert_ret)

lemma grows_multipop_call: "grows env c 12 (mc_multipop_call ft)"
proof -
  have vec: "inert env c 5 (mc_vmovups xmm0 (deref rsp))" by (simp add: emit_shapes) (rule inert_v2, simp_all add: emit_lengths)
  have v: "grows env c 12 (seqJ [if b then mc_add_imm n rsp else retJ (), mc_vmovups xmm0 (deref rsp)])" for b n
  proof -
    obtain k where "k \<le> 7" "inert env c k (if b then mc_add_imm n rsp else retJ ())" using inert_add by blast
    with inert_seq[OF this(2) vec] show ?thesis by (intro inert_grows[of env c "k + 5"]) (auto simp: seqJ_pair)
  qed
  have p: "grows env c 12 (seqJ [if b then mc_add_imm n rsp else retJ (), if r then mc_push rax else retJ ()])" for b n r
  proof -
    obtain k where k: "k \<le> 7" "inert env c k (if b then mc_add_imm n rsp else retJ ())" using inert_add by blast
    show ?thesis
    proof (cases r)
      case True
      with tracks_prefix[OF k(2) tracks_push[of env c 0]] k(1) show ?thesis by (intro tracks_grows[of env c "k + 1"]) (auto simp: pop_len_def)
    next
      case False
      with inert_seq[OF k(2) inert_ret] k(1) show ?thesis by (intro inert_grows[of env c k]) (auto simp: seqJ_pair)
    qed
  qed
  have "grows env c 12 (bindJ (liftJ r) f)" if "\<And>n. grows env c 12 (f n)" for r and f :: "u32 \<Rightarrow> unit jm"
    using that by (cases r) (simp_all add: grows_def bindJ_def liftJ_def)
  moreover have "grows env c 12 (variable_size_instr a b m)" if "grows env c 12 m" for a b m
    unfolding grows_def variable_size_instr_def
  proof (intro allI impI)
    fix s assume "jit_ok c s \<and> jc_code s + 12 \<le> fst c \<and> ro_end (jc_recent1 s) \<noteq> Some (jc_code s)"
    with that show "case bindE (m env s) (\<lambda>(x, s'). if jv_validate env \<and> \<not> (jc_code s + a \<le> jc_code s' \<and> jc_code s' \<le> jc_code s + b) then Inl Assertion_failure
        else Inr (x, s')) of Inl x \<Rightarrow> True | Inr (_, s') \<Rightarrow> jc_code s \<le> mc_get_addr s'"
      unfolding grows_def by (cases "m env s") (auto split: prod.splits)
  qed
  ultimately show ?thesis unfolding mc_multipop_call_def using v p by simp
qed

lemma relocs_ok_grow: "relocs_ok e rs \<Longrightarrow> relocs_ok e (grow_relocs n rs)"
  by (auto simp: relocs_ok_def grow_relocs_def)

lemma jit_ok_relocs: "jit_ok c s \<Longrightarrow> relocs_ok (mc_get_addr s) (h (jc_relocs s)) \<Longrightarrow> jit_ok c (jc_relocs_update h s)"
  by (auto simp: jit_ok_def recents_ok_def pinned_def mc_get_addr_def)

lemma fix_branch_run:
  "b + 4 \<le> jc_end s \<Longrightarrow> mc_fix_branch b t env s = Inl Wasm_parse_exception \<or> (\<exists>m. mc_fix_branch b t env s = Inr ((), s\<lparr>jc_mem := m\<rparr>))"
  by (auto simp: mc_fix_branch_def Let_def write_code_def unimplemented_def throwJ_def)

lemma register_call_safe:
  assumes "jit_ok c s" and "ptr + 4 \<le> mc_get_addr s" and "jc_code s \<le> fst c"
  shows "case mc_register_call ptr f env s of Inl x \<Rightarrow> x \<noteq> Undefined_behaviour \<and> x \<noteq> Assertion_failure
    | Inr (a, s') \<Rightarrow> jit_ok c s' \<and> jc_code s' = jc_code s"
proof -
  let ?rs = "grow_relocs f (jc_relocs s)" and ?s = "jc_relocs_update (grow_relocs f) s"
  have r: "relocs_ok (mc_get_addr s) ?rs" using assms(1) by (simp add: jit_ok_def pinned_def relocs_ok_grow)
  have ok: "jit_ok c ?s" using jit_ok_relocs[OF assms(1), of "grow_relocs f"] r .
  have len: "f < length ?rs" by (simp add: grow_relocs_def)
  show ?thesis
  proof (cases "?rs ! f")
    case (Pending ps)
    then have "Pending ps \<in> set ?rs" using len nth_mem by force
    then have "relocs_ok (mc_get_addr s) (?rs[f := Pending (ps @ [ptr])])"
      using r assms(2) set_update_subset_insert[of ?rs f "Pending (ps @ [ptr])"] by (fastforce simp: relocs_ok_def)
    with jit_ok_relocs[OF assms(1), of "(\<lambda>v. v[f := Pending (ps @ [ptr])]) \<circ> grow_relocs f"] Pending show ?thesis
      by (auto simp: mc_register_call_def bindJ_def modJ_def getJ_def)
  next
    case (Resolved a)
    have "ptr + 4 \<le> fst c" using assms get_addr_le[of s] by (auto simp: jit_ok_def)
    with fix_branch_run[of ptr ?s a env] jit_ok_end[OF ok]
    have "mc_fix_branch ptr a env ?s = Inl Wasm_parse_exception \<or> (\<exists>m. mc_fix_branch ptr a env ?s = Inr ((), ?s\<lparr>jc_mem := m\<rparr>))" by simp
    with Resolved jit_ok_advance[OF ok, where n = 0] show ?thesis
      by (auto simp: mc_register_call_def bindJ_def modJ_def getJ_def)
  qed
qed

text \<open>
  The scopes of the two calls count the bytes of the check of the call depth, which are not written when the
  stack limit is in bytes: such a build must not validate sizes.
\<close>

lemma sized_call_depth [jit_sized]:
  "sized env c (if jv_stack_bytes env then 0 else 8) (if jv_stack_bytes env then 0 else 8) mc_check_call_depth anyJ"
  "sized env c (if jv_stack_bytes env then 0 else 2) (if jv_stack_bytes env then 0 else 2) mc_check_call_depth_end anyJ"
  unfolding mc_check_call_depth_def mc_check_call_depth_end_def
  by (cases "jv_stack_bytes env"; simp; (rule sized_ret_any | rule sized_weak, (rule jit_sized | (simp add: emit_lengths; fail))+))+

lemma branch_target32_run:
  assumes "jit_ok c s" and "jc_code s + 4 \<le> fst c"
  obtains f where "mc_branch_target32 env s = Inr (jc_code s, s\<lparr>jc_mem := f, jc_code := jc_code s + 4\<rparr>)"
  using assms by (simp add: mc_branch_target32_def bindJ_def getJ_def withJ_def retJ_def mc_operand32_def mc_bytes_run jit_ok_end)

lemma sized_call_operand:
  assumes "sized env c l h (seqJ ms) anyJ"
  shows "sized env c (4 + l) (16 + h) (bindJ mc_branch_target32 (\<lambda>b. seqJ (mc_multipop_call ft # mc_register_call b f # ms))) anyJ"
proof (rule sizedI, goal_cases)
  case (1 s)
  then have "jc_code s + 4 \<le> fst c" by simp
  from branch_target32_run[OF 1(1) this] obtain m where
    b: "mc_branch_target32 env s = Inr (jc_code s, s\<lparr>jc_mem := m, jc_code := jc_code s + 4\<rparr>)" (is "_ = Inr (_, ?s)") by blast
  have ok: "jit_ok c ?s" using 1(1) by (rule jit_ok_advance)
  have cold: "ro_end (jc_recent1 ?s) \<noteq> Some (jc_code ?s)" using 1(1) by (auto simp: jit_ok_def recents_ok_def recent_ok_def)
  have room: "jc_code ?s + 12 \<le> fst c" using 1(2) by simp
  have g: "case mc_multipop_call ft env ?s of Inl x \<Rightarrow> True | Inr (_, s') \<Rightarrow> jc_code ?s \<le> mc_get_addr s'"
    using grows_multipop_call[of env c ft] ok cold room unfolding grows_def by blast
  have step: "bindJ mc_branch_target32 (\<lambda>b. seqJ (mc_multipop_call ft # mc_register_call b f # ms)) env s =
      bindJ (mc_multipop_call ft) (\<lambda>_. bindJ (mc_register_call (jc_code s) f) (\<lambda>_. seqJ ms)) env ?s"
    by (simp add: b bindJ_def seqJ.simps(2))
  have "case bindJ (mc_multipop_call ft) (\<lambda>_. bindJ (mc_register_call (jc_code s) f) (\<lambda>_. seqJ ms)) env ?s of
      Inl x \<Rightarrow> x \<noteq> Undefined_behaviour \<and> x \<noteq> Assertion_failure
    | Inr (a, s') \<Rightarrow> jit_ok c s' \<and> jc_code s' \<le> jc_code s + (16 + h) \<and> (jv_validate env \<longrightarrow> jc_code s + (4 + l) \<le> jc_code s') \<and> True"
    using sized_multipop_call[of env c ft] ok room
  proof (rule sizedD)
    fix u t assume t: "mc_multipop_call ft env ?s = Inr (u, t)" "jit_ok c t" "jc_code t \<le> jc_code ?s + 12" "jv_validate env \<longrightarrow> jc_code ?s + 0 \<le> jc_code t"
    have pos: "jc_code s + 4 \<le> mc_get_addr t" "jc_code t \<le> fst c" using g t room by simp_all
    note r = register_call_safe[OF t(2) pos, of f env]
    show ?thesis
    proof (cases "mc_register_call (jc_code s) f env t")
      case (Inl x)
      with r t(1) show ?thesis by (simp add: bindJ_def)
    next
      case (Inr y)
      then obtain w where w: "mc_register_call (jc_code s) f env t = Inr ((), w)" "jit_ok c w" "jc_code w = jc_code t" using r by (cases y) auto
      have "jc_code w + h \<le> fst c" using w t(3) 1(2) by simp
      with assms w(2) show ?thesis by (rule sizedD) (use t w in \<open>auto simp: bindJ_def\<close>)
    qed
  qed (simp add: bindJ_def)
  then show ?case unfolding step .
qed

lemma sized_call:
  assumes "\<not> (jv_stack_bytes env \<and> jv_validate env)"
  shows "sized env c 0 31 (mc_call ft f) anyJ"
proof -
  note body = sized_seq_cons[OF sized_call_operand[OF sized_seq_cons[OF sized_call_depth(2) sized_seq_nil]] sized_seq_nil]
  show ?thesis unfolding mc_call_def
    by (rule sized_weak[OF sized_variable[OF sized_seq_cons[OF sized_call_depth(1) sized_seq_cons[OF sized_bytes body]]]]) (use assms in auto)
qed

lemma sized_call_indirect:
  assumes "\<not> (jv_stack_bytes env \<and> jv_validate env)" and "m_tables (jv_mod env) \<noteq> []" and "64 < jv_page env"
  shows "sized env c 0 66 (mc_call_indirect ft i) anyJ"
  by (insert assms, cases "jv_stack_bytes env"; cases "jit_indirect_table env";
      simp add: mc_call_indirect_def emit_shapes mc_check_call_depth_def mc_check_call_depth_end_def;
      (rule sized_weak, (rule jit_sized | assumption | (simp add: emit_lengths far_page far_not_zero; fail)
        | simp add: emit_shapes mc_check_call_depth_def mc_check_call_depth_end_def)+))

end
