(* ===== verification/Vm_Jit_Table.thy ===== *)
theory Vm_Jit_Table
  imports Vm_Jit_Control
begin

text \<open>
  The code of \<open>br_table\<close>: how many bytes the comparisons of the binary search and the jumps of the cases take together.
\<close>

section \<open>Ranges\<close>

fun label_ok :: "jit_context \<Rightarrow> nat option \<Rightarrow> bool" where
  "label_ok c None = True" | "label_ok c (Some l) = (l + 4 \<le> fst c)"

text \<open>The ranges of a generator: contiguous from the next case up to the number of cases, each with a known label.\<close>

fun ranges :: "jit_context \<Rightarrow> u32 \<Rightarrow> (u32 \<times> u32 \<times> nat option) list \<Rightarrow> u32 \<Rightarrow> bool" where
  "ranges c a [] b = (a = b)"
| "ranges c a ((lo, hi, l) # st) b = (lo = a \<and> lo < hi \<and> label_ok c l \<and> ranges c hi st b)"

text \<open>What a range still costs: a jump for each case and a comparison for each split.\<close>

definition range_cost :: "u32 \<Rightarrow> nat" where
  "range_cost w = 22 * unat w + 11 * (unat w - 1)"

definition ranges_cost :: "(u32 \<times> u32 \<times> nat option) list \<Rightarrow> nat" where
  "ranges_cost st = sum_list (map (\<lambda>(lo, hi, _). range_cost (hi - lo)) st)"

lemma ranges_cost_simps [simp]: "ranges_cost [] = 0" "ranges_cost ((lo, hi, l) # st) = range_cost (hi - lo) + ranges_cost st"
  by (simp_all add: ranges_cost_def)

lemma split_range:
  fixes lo hi :: u32
  assumes "hi - lo > 1" and "lo < hi"
  shows "lo < lo + (hi - lo) div 2" "lo + (hi - lo) div 2 < hi"
    "range_cost (hi - lo) = 11 + range_cost ((hi - lo) div 2) + range_cost (hi - (lo + (hi - lo) div 2))"
proof -
  let ?w = "unat (hi - lo)"
  have w: "?w = unat hi - unat lo" "1 < ?w" "unat lo < unat hi"
    using assms by (simp_all add: unat_sub_if' word_less_nat_alt)
  have h: "unat ((hi - lo) div 2) = ?w div 2" by (simp add: unat_div)
  have lt: "unat hi < 2 ^ 32" using unsigned_less[of hi, where 'a = nat] by simp
  have m: "unat (lo + (hi - lo) div 2) = unat lo + ?w div 2"
    using w h lt by (simp add: unat_word_ariths)
  have r: "unat (hi - (lo + (hi - lo) div 2)) = ?w - ?w div 2"
    using w m by (simp add: unat_sub_if')
  show "lo < lo + (hi - lo) div 2" "lo + (hi - lo) div 2 < hi" using w m by (simp_all add: word_less_nat_alt)
  show "range_cost (hi - lo) = 11 + range_cost ((hi - lo) div 2) + range_cost (hi - (lo + (hi - lo) div 2))"
    unfolding range_cost_def h r using w(2) by linarith
qed

lemma single_range:
  fixes lo hi :: u32
  assumes "\<not> hi - lo > 1" and "lo < hi"
  shows "hi = lo + 1" "range_cost (hi - lo) = 22"
proof -
  have "unat (hi - lo) = unat hi - unat lo" using assms(2) by (simp add: unat_sub_if' word_less_nat_alt)
  with assms have "unat (hi - lo) = 1" by (simp add: word_less_nat_alt)
  then have "hi - lo = 1" by (metis unat_1 unsigned_word_eqI)
  then show "hi = lo + 1" "range_cost (hi - lo) = 22" by (auto simp: range_cost_def algebra_simps)
qed

lemma bindJ_assoc: "bindJ (bindJ m f) g = bindJ m (\<lambda>x. bindJ (f x) g)"
  by (simp add: bindJ_def fun_eq_iff bindE_def split: sum.splits prod.splits)

lemma bindJ_retJ [simp]: "bindJ (retJ a) f = f a"
  by (simp add: bindJ_def retJ_def fun_eq_iff)

lemma sized_case_split: "sized env c 11 11 (mc_case_split m) (target32 c)"
  unfolding mc_case_split_def by (rule sized_weak, (rule jit_sized | (simp; fail))+)

lemma sized_case_jump:
  assumes "label_ok c l"
  shows "sized env c 0 22 (mc_case_jump d rt l) (target32 c)"
  unfolding mc_case_jump_def using assms
  by (cases l; auto simp del: seqJ.simps intro!: sized_variable sized_weak[OF sized_jump] sized_weak[OF sized_bind[OF sized_multipop sized_jump]]
       sized_weak[OF sized_ret_target])

lemma mc_case_loop_split: "hi - lo > 1 \<Longrightarrow> mc_case_loop d rt i (lo, hi, l) st =
    bindJ (case l of Some l \<Rightarrow> mc_fix_here l | None \<Rightarrow> retJ ()) (\<lambda>_. bindJ (mc_case_split (lo + (hi - lo) div 2)) (\<lambda>m.
      mc_case_loop d rt i (lo, lo + (hi - lo) div 2, None) ((lo + (hi - lo) div 2, hi, Some m) # st)))"
  by (subst mc_case_loop.simps) (simp only: if_True Let_def)

lemma mc_case_loop_leaf: "\<not> hi - lo > 1 \<Longrightarrow> lo = i \<Longrightarrow> mc_case_loop d rt i (lo, hi, l) st =
    bindJ (case l of Some l \<Rightarrow> mc_fix_here l | None \<Rightarrow> retJ ()) (\<lambda>_. bindJ (mc_case_jump d rt l) (\<lambda>r. retJ (r, \<lparr>bt_i = i + 1, bt_stack = st\<rparr>)))"
  by (simp add: checkJ_def)

declare mc_case_loop.simps [simp del]

lemma safe_case_loop:
  assumes "ranges c i ((lo, hi, l) # st) n"
    and "\<And>r g. target32 c r \<Longrightarrow> bt_i g = i + 1 \<Longrightarrow> ranges c (i + 1) (bt_stack g) n \<Longrightarrow> safe env c (ranges_cost (bt_stack g) + h) (f (r, g)) Q"
  shows "safe env c (ranges_cost ((lo, hi, l) # st) + h) (bindJ (mc_case_loop d rt i (lo, hi, l) st) f) Q"
  using assms
proof (induction d rt i "(lo, hi, l)" st arbitrary: lo hi l rule: mc_case_loop.induct)
  case (1 d rt i lo hi l st)
  let ?patch = "case l of Some l \<Rightarrow> mc_fix_here l | None \<Rightarrow> retJ ()"
  have st: "lo = i" "lo < hi" "label_ok c l" "ranges c hi st n" using 1(2) by auto
  have patch: "safe env c 0 ?patch anyJ" using st(3) by (cases l) (auto intro: sized_safe[OF sized_ret_any] sized_safe[OF sized_fix_here])
  show ?case
  proof (cases "hi - lo > 1")
    case True
    let ?mid = "lo + (hi - lo) div 2"
    note s = split_range[OF True st(2)]
    have "safe env c (ranges_cost ((lo, ?mid, None) # (?mid, hi, Some b) # st) + h)
        (bindJ (mc_case_loop d rt i (lo, ?mid, None) ((?mid, hi, Some b) # st)) f) Q" if "target32 c b" for b
      by (rule 1(1)[OF True refl _ 1(3)]) (use that st s in auto)
    then have "safe env c (11 + (ranges_cost ((lo, ?mid, None) # (?mid, hi, Some 0) # st) + h)) (bindJ (mc_case_split ?mid)
        (\<lambda>b. bindJ (mc_case_loop d rt i (lo, ?mid, None) ((?mid, hi, Some b) # st)) f)) Q"
      by (intro safe_bind[OF sized_safe[OF sized_case_split]]) simp
    from safe_bind[OF patch this] True show ?thesis
      by (simp add: mc_case_loop_split bindJ_assoc s(3) add_ac)
  next
    case False
    note s = single_range[OF False st(2)]
    have "safe env c (ranges_cost st + h) (f (r, \<lparr>bt_i = i + 1, bt_stack = st\<rparr>)) Q" if "target32 c r" for r
      using 1(3)[OF that, of "\<lparr>bt_i = i + 1, bt_stack = st\<rparr>"] st s by simp
    then have "safe env c (22 + (ranges_cost st + h)) (bindJ (mc_case_jump d rt l) (\<lambda>r. f (r, \<lparr>bt_i = i + 1, bt_stack = st\<rparr>))) Q"
      by (intro safe_bind[OF sized_safe[OF sized_case_jump[OF st(3)]]]) simp
    from safe_bind[OF patch this] False st(1) s show ?thesis
      by (simp add: mc_case_loop_leaf bindJ_assoc add.assoc)
  qed
qed

text \<open>
  A whole table, as the parser writes it: the operand, a case for each label and the default.  Its cases come
  with the depths of their labels.
\<close>

fun jit_cases :: "(u32 \<times> value_type) list \<Rightarrow> u32 \<times> value_type \<Rightarrow> br_table_generator \<Rightarrow> nat list jm" where
  "jit_cases [] (d, rt) g = bindJ (mc_default d rt g) (\<lambda>(r, g). retJ [r])"
| "jit_cases ((d', rt') # ls) (d, rt) g = bindJ (mc_case d' rt' g) (\<lambda>(r, g). bindJ (jit_cases ls (d, rt) g) (\<lambda>rs. retJ (r # rs)))"

definition jit_br_table :: "(u32 \<times> value_type) list \<Rightarrow> u32 \<times> value_type \<Rightarrow> nat list jm" where
  "jit_br_table ls dflt = bindJ (mc_br_table (of_nat (length ls))) (jit_cases ls dflt)"

lemma safe_case:
  assumes "ranges c (bt_i g) (bt_stack g) n" and "bt_i g < n"
    and "\<And>r g'. target32 c r \<Longrightarrow> bt_i g' = bt_i g + 1 \<Longrightarrow> ranges c (bt_i g') (bt_stack g') n \<Longrightarrow>
      safe env c (ranges_cost (bt_stack g') + h) (f (r, g')) Q"
  shows "safe env c (ranges_cost (bt_stack g) + h) (bindJ (mc_case d rt g) f) Q"
proof (cases "bt_stack g")
  case Nil
  with assms(1,2) show ?thesis by simp
next
  case (Cons x st)
  obtain lo hi l where x: "x = (lo, hi, l)" by (cases x)
  have "safe env c (ranges_cost ((lo, hi, l) # st) + h) (bindJ (mc_case_loop d rt (bt_i g) (lo, hi, l) st) f) Q"
    by (rule safe_case_loop) (use assms Cons x in \<open>auto intro: assms(3)\<close>)
  with Cons x show ?thesis by (simp add: mc_case_def)
qed

lemma ranges_le: "ranges c a st b \<Longrightarrow> a \<le> b \<and> (a = b \<longrightarrow> st = [])"
  by (induction c a st b rule: ranges.induct) (auto dest: less_le_trans)

lemma next_case:
  fixes n i :: u32
  assumes "unat n = unat i + k + 1"
  shows "i < n" "unat (i + 1) = unat i + 1" "k = 0 \<Longrightarrow> n = i + 1"
proof -
  have "unat n < 2 ^ 32" using unsigned_less[of n, where 'a = nat] by simp
  with assms show i: "unat (i + 1) = unat i + 1" by (simp add: unat_word_ariths)
  show "i < n" using assms by (simp add: word_less_nat_alt)
  show "n = i + 1" if "k = 0" using assms i that by (intro unsigned_word_eqI[where 'a = nat]) simp
qed

lemma safe_ret: "Q a \<Longrightarrow> safe env c 0 (retJ a) Q"
  by (rule sized_safe[OF sized_ret])

abbreviation targets :: "jit_context \<Rightarrow> nat \<Rightarrow> nat list \<Rightarrow> bool" where
  "targets c k as \<equiv> length as = k \<and> list_all (target32 c) as"

lemma safe_cases:
  assumes "ranges c (bt_i g) (bt_stack g) n" and "unat n = unat (bt_i g) + length ls + 1"
  shows "safe env c (ranges_cost (bt_stack g)) (jit_cases ls (d, rt) g) (targets c (length ls + 1))"
  using assms
proof (induction ls arbitrary: g)
  case Nil
  note k = next_case[OF Nil(2)]
  have "safe env c (ranges_cost (bt_stack g) + 0) (bindJ (mc_case d rt g) (\<lambda>(r, g'). bindJ (checkJ (bt_stack g' = []) Assertion_failure) (\<lambda>_. retJ [r]))) (targets c 1)"
  proof (rule safe_case[OF Nil(1) k(1)])
    fix r and g' :: br_table_generator
    assume r: "target32 c r" and g: "bt_i g' = bt_i g + 1" "ranges c (bt_i g') (bt_stack g') n"
    then have "bt_stack g' = []" using ranges_le[OF g(2)] k(3) by simp
    with r show "safe env c (ranges_cost (bt_stack g') + 0) (case (r, g') of (r, g') \<Rightarrow>
        bindJ (checkJ (bt_stack g' = []) Assertion_failure) (\<lambda>_. retJ [r])) (targets c 1)"
      by (simp add: checkJ_def safe_ret)
  qed
  then show ?case by (simp add: mc_default_def bindJ_assoc case_prod_unfold)
next
  case (Cons l ls)
  obtain d' rt' where l: "l = (d', rt')" by (cases l)
  note k = next_case[OF Cons.prems(2)]
  have "safe env c (ranges_cost (bt_stack g) + 0) (bindJ (mc_case d' rt' g) (\<lambda>(r, g). bindJ (jit_cases ls (d, rt) g) (\<lambda>rs. retJ (r # rs)))) (targets c (length (l # ls) + 1))"
  proof (rule safe_case[OF Cons.prems(1) k(1)])
    fix r and g' :: br_table_generator
    assume r: "target32 c r" and g: "bt_i g' = bt_i g + 1" "ranges c (bt_i g') (bt_stack g') n"
    have "safe env c (ranges_cost (bt_stack g')) (jit_cases ls (d, rt) g') (targets c (length ls + 1))"
      by (rule Cons.IH[OF g(2)]) (use Cons.prems(2) g k(2) in simp)
    from safe_bind[OF this safe_ret[of "targets c (length (l # ls) + 1)"], of "\<lambda>rs. r # rs"] r show "safe env c (ranges_cost (bt_stack g') + 0) (case (r, g') of (r, g) \<Rightarrow>
        bindJ (jit_cases ls (d, rt) g) (\<lambda>rs. retJ (r # rs))) (targets c (length (l # ls) + 1))"
      by simp
  qed
  then show ?case by (simp add: l)
qed

lemma safe_br_table:
  assumes "length ls + 1 < 2 ^ 32"
  shows "safe env c (3 + 33 * (length ls + 1)) (jit_br_table ls (d, rt)) (targets c (length ls + 1))"
proof -
  let ?n = "of_nat (length ls) + 1 :: u32"
  have n: "unat ?n = length ls + 1" using assms by (simp add: unat_word_ariths unat_of_nat)
  let ?g = "\<lparr>bt_i = 0, bt_stack = [(0, ?n, None)]\<rparr>"
  have "0 < ?n" using n by (simp add: word_less_nat_alt)
  then have "safe env c (ranges_cost (bt_stack ?g)) (jit_cases ls (d, rt) ?g) (targets c (length ls + 1))"
    using n by (intro safe_cases) auto
  moreover have "ranges_cost (bt_stack ?g) \<le> 33 * (length ls + 1)" using n by (simp add: range_cost_def)
  ultimately have s: "safe env c (33 * (length ls + 1)) (jit_cases ls (d, rt) ?g) (targets c (length ls + 1))" by (rule safe_weak)
  have "safe env c 3 (mc_pop rax) anyJ" by (rule safe_weak[OF sized_safe[OF sized_pop]]) (simp add: pop_hi_def pop_len_def)
  from safe_bind[OF this s] show ?thesis by (simp add: jit_br_table_def mc_br_table_def bindJ_assoc)
qed

end
