(* ===== verification/Vm_Jit_Function.thy ===== *)
theory Vm_Jit_Function
  imports Vm_Jit_Table
begin

text \<open>
  Whole functions.  The parser drives the compiler by one call per instruction, and by calls that patch branches once
  their target is known; \<open>jit_call\<close> lists these calls.  The code of every call fits into the room that
  \<open>emit_prologue\<close> reserves for the bytes of its instruction, so that a function never leaves its buffer.
\<close>

section \<open>The calls of the parser\<close>

text \<open>
  A branch that is still open is named by its position in the list of the addresses that the calls before have
  returned.
\<close>

datatype jit_call =
    J_unreachable | J_nop | J_block | J_loop | J_end | J_if | J_else nat | J_br u32 value_type | J_return u32 value_type
  | J_br_if u32 value_type | J_br_table "(u32 \<times> value_type) list" u32 value_type | J_call func_type nat | J_call_indirect func_type u32
  | J_drop value_type | J_select value_type | J_get_local u32 value_type | J_set_local u32 value_type | J_tee_local u32 value_type
  | J_get_global u32 | J_set_global u32 | J_load load_op u32 u32 | J_store store_op u32 u32 | J_current_memory | J_grow_memory
  | J_const const_op | J_numeric numeric_op | J_bulk bulk_op | J_vec vec_op | J_fix_branch nat nat

definition thenJ :: "'a jm \<Rightarrow> 'b \<Rightarrow> 'b jm" where
  "thenJ m b = bindJ m (\<lambda>_. retJ b)"

definition openJ :: "nat jm \<Rightarrow> nat list \<Rightarrow> nat list jm" where
  "openJ m as = bindJ m (\<lambda>a. retJ (as @ [a]))"

fun jit_do :: "jit_call \<Rightarrow> nat list \<Rightarrow> nat list jm" where
  "jit_do J_unreachable as = thenJ mc_unreachable as"
| "jit_do J_nop as = thenJ mc_nop as"
| "jit_do J_block as = thenJ mc_block as"
| "jit_do J_loop as = thenJ mc_loop as"
| "jit_do J_end as = thenJ mc_end as"
| "jit_do J_if as = openJ mc_if as"
| "jit_do (J_else k) as = bindJ (liftJ (at_unchecked as k)) (\<lambda>a. openJ (mc_else a) as)"
| "jit_do (J_br d rt) as = openJ (mc_br d rt) as"
| "jit_do (J_return d rt) as = openJ (mc_return d rt) as"
| "jit_do (J_br_if d rt) as = openJ (mc_br_if d rt) as"
| "jit_do (J_br_table ls d rt) as = bindJ (jit_br_table ls (d, rt)) (\<lambda>rs. retJ (as @ rs))"
| "jit_do (J_call ft f) as = thenJ (mc_call ft f) as"
| "jit_do (J_call_indirect ft i) as = thenJ (mc_call_indirect ft i) as"
| "jit_do (J_drop ty) as = thenJ (mc_drop ty) as"
| "jit_do (J_select ty) as = thenJ (mc_select ty) as"
| "jit_do (J_get_local i ty) as = thenJ (mc_get_local i ty) as"
| "jit_do (J_set_local i ty) as = thenJ (mc_set_local i ty) as"
| "jit_do (J_tee_local i ty) as = thenJ (mc_tee_local i ty) as"
| "jit_do (J_get_global i) as = thenJ (mc_get_global i) as"
| "jit_do (J_set_global i) as = thenJ (mc_set_global i) as"
| "jit_do (J_load op a off) as = thenJ (jit_load op a off) as"
| "jit_do (J_store op a off) as = thenJ (jit_store op a off) as"
| "jit_do J_current_memory as = thenJ mc_current_memory as"
| "jit_do J_grow_memory as = thenJ mc_grow_memory as"
| "jit_do (J_const op) as = thenJ (jit_const_op op) as"
| "jit_do (J_numeric op) as = thenJ (jit_numeric_op op) as"
| "jit_do (J_bulk op) as = thenJ (jit_bulk_op op) as"
| "jit_do (J_vec op) as = thenJ (case jit_vec_op op of Some m \<Rightarrow> m | None \<Rightarrow> unimplemented) as"
| "jit_do (J_fix_branch k target) as = bindJ (liftJ (at_unchecked as k)) (\<lambda>a. thenJ (mc_fix_branch a target) as)"

fun jit_calls :: "jit_call list \<Rightarrow> nat list \<Rightarrow> nat list jm" where
  "jit_calls [] as = retJ as"
| "jit_calls (x # xs) as = bindJ (jit_do x as) (jit_calls xs)"

text \<open>The least number of bytes of the instruction in the module: opcode, prefix and operands at their shortest.\<close>

fun wasm_length :: "jit_call \<Rightarrow> nat" where
  "wasm_length J_block = 2" | "wasm_length J_loop = 2" | "wasm_length J_if = 2" | "wasm_length (J_br d rt) = 2" | "wasm_length (J_br_if d rt) = 2"
| "wasm_length (J_br_table ls d rt) = length ls + 3" | "wasm_length (J_call ft f) = 2" | "wasm_length (J_call_indirect ft i) = 3"
| "wasm_length (J_get_local i ty) = 2" | "wasm_length (J_set_local i ty) = 2" | "wasm_length (J_tee_local i ty) = 2"
| "wasm_length (J_get_global i) = 2" | "wasm_length (J_set_global i) = 2" | "wasm_length (J_load op a off) = 3" | "wasm_length (J_store op a off) = 3"
| "wasm_length J_current_memory = 2" | "wasm_length J_grow_memory = 2" | "wasm_length (J_const op) = 2" | "wasm_length (J_bulk op) = 3"
| "wasm_length (J_vec op) = 2" | "wasm_length (J_fix_branch k target) = 0" | "wasm_length x = 1"

text \<open>
  How many branches a call opens, and what the parser has checked before it makes the call.  In a build that validates
  sizes the scope of \<open>global.set\<close> is too tight for vectors.
\<close>

fun opened :: "jit_call \<Rightarrow> nat" where
  "opened J_if = 1" | "opened (J_else k) = 1" | "opened (J_br d rt) = 1" | "opened (J_return d rt) = 1" | "opened (J_br_if d rt) = 1"
| "opened (J_br_table ls d rt) = length ls + 1" | "opened x = 0"

fun call_ok :: "jit_env \<Rightarrow> jit_frame \<Rightarrow> nat \<Rightarrow> jit_call \<Rightarrow> bool" where
  "call_ok env fr k (J_else j) = (j < k)"
| "call_ok env fr k (J_fix_branch j target) = (j < k)"
| "call_ok env fr k (J_br_table ls d rt) = (length ls + 1 < 2 ^ 32)"
| "call_ok env fr k (J_call_indirect ft i) = (m_tables (jv_mod env) \<noteq> [])"
| "call_ok env fr k (J_get_local i ty) = local_ok fr i"
| "call_ok env fr k (J_set_local i ty) = local_ok fr i"
| "call_ok env fr k (J_tee_local i ty) = local_ok fr i"
| "call_ok env fr k (J_get_global i) = (unat i < length (m_globals (jv_mod env)) \<and> global_type env i \<in> {t_i32, t_i64, t_f32, t_f64, t_v128})"
| "call_ok env fr k (J_set_global i) = (unat i < length (m_globals (jv_mod env)) \<and>
     (global_type env i \<in> {t_i32, t_i64, t_f32, t_f64} \<or> global_type env i = t_v128 \<and> \<not> jv_validate env))"
| "call_ok env fr k (J_bulk op) = (op = Table_copy_t \<longrightarrow> m_tables (jv_mod env) \<noteq> [])"
| "call_ok env fr k (J_vec op) = (case op of Vec_shuffle_t lanes \<Rightarrow> length lanes = 16 | _ \<Rightarrow> True)"
| "call_ok env fr k x = True"

fun calls_ok :: "jit_env \<Rightarrow> jit_frame \<Rightarrow> nat \<Rightarrow> jit_call list \<Rightarrow> bool" where
  "calls_ok env fr k [] = True"
| "calls_ok env fr k (x # xs) = (call_ok env fr k x \<and> calls_ok env fr (k + opened x) xs)"

section \<open>The size of a call\<close>

lemma safe_thenJ: "safe env c h m anyJ \<Longrightarrow> Q b \<Longrightarrow> safe env c h (thenJ m b) Q"
  using safe_bind[of env c h m anyJ 0 "\<lambda>_. retJ b" Q] safe_ret[of Q b env c] by (simp add: thenJ_def)

lemma safe_openJ: "safe env c h m (target32 c) \<Longrightarrow> (\<And>a. target32 c a \<Longrightarrow> Q (as @ [a])) \<Longrightarrow> safe env c h (openJ m as) Q"
  using safe_bind[of env c h m "target32 c" 0 "\<lambda>a. retJ (as @ [a])" Q] safe_ret[of Q _ env c] by (simp add: openJ_def)

lemma safe_at: "k < length as \<Longrightarrow> safe env c h (f (as ! k)) Q \<Longrightarrow> safe env c h (bindJ (liftJ (at_unchecked as k)) f) Q"
  by (simp add: safe_def bindJ_def liftJ_def at_unchecked_def)

lemma safe_any: "safe env c h m Q \<Longrightarrow> safe env c h m anyJ"
  by (auto simp: safe_def split: sum.splits)

lemma ratio_room: "jv_softfloat env \<Longrightarrow> 49 \<le> instruction_size_ratio env"
  by (simp add: instruction_size_ratio_def)

text \<open>
  The builds considered: software floating point, pages larger than a short displacement, and no validation of sizes
  together with a stack limit in bytes.
\<close>

definition jit_build :: "jit_env \<Rightarrow> bool" where
  "jit_build env \<longleftrightarrow> jv_softfloat env \<and> 128 < jv_page env \<and> \<not> (jv_stack_bytes env \<and> jv_validate env)"

lemma sized_unreachable: "sized env c 16 16 mc_unreachable anyJ"
  unfolding mc_unreachable_def mc_error_handler_def by (rule sized_weak, (rule jit_sized | (simp; fail))+)

lemma sized_end: "sized env c 0 0 mc_end anyJ" "sized env c 0 0 mc_loop anyJ"
  unfolding mc_end_def mc_loop_def by (rule sized_weak, (rule jit_sized | (simp; fail))+)+

lemma safe_vec:
  assumes "call_ok env (frame_of c) k (J_vec op)"
  shows "safe env c 98 (case jit_vec_op op of Some m \<Rightarrow> m | None \<Rightarrow> unimplemented) anyJ"
proof (cases "jit_vec_op op")
  case None
  then show ?thesis using sized_safe[OF sized_unimplemented[of env c 0 98 anyJ]] by simp
next
  case (Some m)
  with assms show ?thesis using sized_safe[OF sized_vec_op[OF Some]] by (auto split: vec_op.splits)
qed

lemma safe_set_global_any:
  assumes "jit_build env" and "call_ok env (frame_of c) k (J_set_global i)"
  shows "safe env c 36 (mc_set_global i) anyJ"
proof (cases "global_type env i = t_v128")
  case True
  with assms show ?thesis by (intro sized_safe[OF sized_set_global_v128]) (auto simp: jit_build_def)
next
  case False
  with assms show ?thesis by (intro sized_safe[OF safe_set_global]) (auto simp: jit_build_def)
qed

text \<open>The calls that open no branch.\<close>

lemma safe_plain:
  assumes "jit_build env"
  shows "safe env c 16 mc_unreachable anyJ" "safe env c 0 mc_nop anyJ" "safe env c 0 mc_block anyJ" "safe env c 0 mc_loop anyJ" "safe env c 0 mc_end anyJ"
    "safe env c 31 (mc_call ft f) anyJ" "m_tables (jv_mod env) \<noteq> [] \<Longrightarrow> safe env c 66 (mc_call_indirect ft i) anyJ"
    "safe env c 4 (mc_drop ty) anyJ" "safe env c 22 (mc_select ty) anyJ" "local_ok (frame_of c) i \<Longrightarrow> safe env c 17 (mc_get_local i ty) anyJ"
    "local_ok (frame_of c) i \<Longrightarrow> safe env c 20 (mc_set_local i ty) anyJ" "local_ok (frame_of c) i \<Longrightarrow> safe env c 20 (mc_tee_local i ty) anyJ"
    "call_ok env (frame_of c) k (J_get_global i) \<Longrightarrow> safe env c 36 (mc_get_global i) anyJ"
    "safe env c 49 (jit_load lop a off) anyJ" "safe env c 49 (jit_store sop a off) anyJ" "safe env c 98 mc_current_memory anyJ" "safe env c 98 mc_grow_memory anyJ"
    "safe env c 22 (jit_const_op cop) anyJ" "safe env c (instruction_size_ratio env) (jit_numeric_op nop) anyJ"
    "call_ok env (frame_of c) k (J_bulk bop) \<Longrightarrow> safe env c 147 (jit_bulk_op bop) anyJ"
proof -
  have b: "jv_softfloat env" "128 < jv_page env" "\<not> (jv_stack_bytes env \<and> jv_validate env)" "64 < jv_page env" using assms by (auto simp: jit_build_def)
  show "safe env c 16 mc_unreachable anyJ" by (rule sized_safe[OF sized_unreachable])
  show "safe env c 0 mc_nop anyJ" "safe env c 0 mc_block anyJ" by (simp_all add: int_emitters seqJ.simps safe_ret)
  show "safe env c 0 mc_loop anyJ" "safe env c 0 mc_end anyJ" by (rule sized_safe[OF sized_end(2)], rule sized_safe[OF sized_end(1)])
  show "safe env c 31 (mc_call ft f) anyJ" by (rule sized_safe[OF sized_call[OF b(3)]])
  show "safe env c 66 (mc_call_indirect ft i) anyJ" if "m_tables (jv_mod env) \<noteq> []" by (rule sized_safe[OF sized_call_indirect[OF b(3) that b(4)]])
  show "safe env c 4 (mc_drop ty) anyJ" "safe env c 22 (mc_select ty) anyJ" by (rule sized_safe[OF sized_drop], rule sized_safe[OF sized_select])
  show "safe env c 17 (mc_get_local i ty) anyJ" if "local_ok (frame_of c) i" by (rule sized_safe[OF sized_get_local[OF that]])
  show "safe env c 20 (mc_set_local i ty) anyJ" "safe env c 20 (mc_tee_local i ty) anyJ" if "local_ok (frame_of c) i"
    using that by (auto elim: local_okE intro: sized_safe[OF sized_set_local] sized_safe[OF sized_tee_local])
  show "safe env c 36 (mc_get_global i) anyJ" if "call_ok env (frame_of c) k (J_get_global i)"
    using that b by (auto intro!: sized_safe[OF sized_get_global])
  show "safe env c 49 (jit_load lop a off) anyJ" "safe env c 49 (jit_store sop a off) anyJ" by (rule sized_safe[OF sized_load], rule sized_safe[OF sized_store])
  show "safe env c 98 mc_current_memory anyJ" "safe env c 98 mc_grow_memory anyJ" by (rule sized_safe[OF sized_memory_size(1)], rule sized_safe[OF sized_memory_size(2)])
  show "safe env c 22 (jit_const_op cop) anyJ" by (rule sized_safe[OF sized_const_op])
  show "safe env c (instruction_size_ratio env) (jit_numeric_op nop) anyJ" using safe_numeric[of env c nop] b(1) by (simp add: numeric_bound_def)
  show "safe env c 147 (jit_bulk_op bop) anyJ" if "call_ok env (frame_of c) k (J_bulk bop)" using that b(4) by (auto intro!: sized_safe[OF sized_bulk_op])
qed

text \<open>The calls that open a branch.\<close>

lemma safe_return: "safe env c 22 (mc_br d rt) (target32 c)" "safe env c 22 (mc_return d rt) (target32 c)"
  unfolding mc_return_def by (rule sized_safe[OF sized_br])+

lemma targets_append: "targets c k as \<Longrightarrow> targets c j bs \<Longrightarrow> targets c (k + j) (as @ bs)"
  by simp

lemma safe_do:
  assumes "jit_build env" and "call_ok env (frame_of c) (length as) x" and "list_all (target32 c) as"
  shows "safe env c (instruction_size_ratio env * wasm_length x) (jit_do x as) (targets c (length as + opened x))"
proof -
  let ?r = "instruction_size_ratio env"
  have r: "49 \<le> ?r" using assms(1) by (simp add: jit_build_def ratio_room)
  have p: "safe env c (?r * n) (thenJ m as) (targets c (length as + 0))" if "safe env c h m anyJ" "h \<le> 49 * n" for h n and m :: "unit jm"
    by (rule safe_thenJ[OF safe_weak[OF that(1)]]) (use that(2) assms(3) r in \<open>auto intro: order_trans\<close>)
  have q: "safe env c (?r * n) (thenJ m as) (targets c (length as + 0))" if "safe env c h m anyJ" "h \<le> 49 * n" for h n and m :: "nat jm"
    by (rule safe_thenJ[OF safe_weak[OF that(1)]]) (use that(2) assms(3) r in \<open>auto intro: order_trans\<close>)
  have o: "safe env c (?r * n) (openJ m as) (targets c (length as + 1))" if "safe env c h m (target32 c)" "h \<le> 49 * n" for h n m
    by (rule safe_openJ[OF safe_weak[OF that(1)]]) (use that(2) assms(3) r in \<open>auto intro: order_trans\<close>)
  note s = safe_plain[OF assms(1)]
  have a: "target32 c (as ! k)" if "k < length as" for k using that assms(3) by (simp add: list_all_length)
  show ?thesis
  proof (cases x)
    case (J_else k)
    with assms(2) have k: "k < length as" by simp
    from o[of 5 "mc_else (as ! k)" 1, OF sized_safe[OF sized_else[OF a[OF k]]]] show ?thesis
      by (simp add: J_else) (rule safe_at[OF k], simp)
  next
    case (J_fix_branch k target)
    with assms(2) have k: "k < length as" by simp
    from p[of 0 "mc_fix_branch (as ! k) target" 0, OF sized_safe[OF sized_fix_branch[OF a[OF k]]]] show ?thesis
      by (simp add: J_fix_branch) (rule safe_at[OF k], simp)
  next
    case (J_br_table ls d rt)
    with assms(2) have n: "length ls + 1 < 2 ^ 32" by simp
    have le: "3 + 33 * (length ls + 1) \<le> ?r * (length ls + 3)"
      by (rule order_trans[OF _ mult_le_mono1[OF r]]) simp
    show ?thesis unfolding J_br_table
      using safe_bind[OF safe_weak[OF safe_br_table[OF n] le] safe_ret[of "targets c (length as + opened x)" "as @ _"]] assms(3)
      by (simp add: J_br_table)
  next
    case (J_if)
    show ?thesis using o[OF safe_if, of 2] by (simp add: J_if)
  next
    case (J_br d rt)
    show ?thesis using o[OF safe_return(1), of 2] by (simp add: J_br)
  next
    case (J_return d rt)
    show ?thesis using o[OF safe_return(2), of 1] by (simp add: J_return)
  next
    case (J_br_if d rt)
    show ?thesis using o[OF safe_br_if, of 2] by (simp add: J_br_if)
  next
    case (J_numeric op)
    show ?thesis using safe_thenJ[OF s(19)[of c op], of "targets c (length as)" as] assms(3) by (simp add: J_numeric)
  qed (((simp only: jit_do.simps wasm_length.simps opened.simps), (rule p | rule q), (rule s | rule safe_vec | rule safe_set_global_any[OF assms(1)]),
      (insert assms(2), simp; fail)+)+)
qed

lemma safe_calls:
  assumes "jit_build env" and "calls_ok env (frame_of c) (length as) xs" and "list_all (target32 c) as"
  shows "safe env c (instruction_size_ratio env * sum_list (map wasm_length xs)) (jit_calls xs as) anyJ"
  using assms(2,3)
proof (induction xs arbitrary: as)
  case Nil
  then show ?case by (simp add: safe_ret)
next
  case (Cons x xs)
  have "safe env c (instruction_size_ratio env * sum_list (map wasm_length xs)) (jit_calls xs bs) anyJ"
    if "targets c (length as + opened x) bs" for bs
    using Cons that by simp
  from safe_bind[OF safe_do[OF assms(1), of c as x] this] Cons.prems show ?case by (simp add: distrib_left)
qed

section \<open>Prologue and epilogue\<close>

lemma sized_modJ: "(\<And>s. jit_ok c s \<Longrightarrow> jit_ok c (f s) \<and> jc_code (f s) = jc_code s) \<Longrightarrow> sized env c 0 0 (modJ f) anyJ"
  by (simp add: sized_def modJ_def)

lemma sized_seq_bytes: "sized env c n n (seqJ (replicate n (mc_bytes [b]))) anyJ"
  by (induction n) (auto intro: sized_seq_nil dest: sized_seq_cons[OF sized_bytes[of env c "[b]"]])

text \<open>Every slot of a local takes eight bytes of the frame, whose size is checked, so that the counter fits into 32 bits.\<close>

lemma slot_count_bound:
  assumes "local_groups off frame ls = Inr groups" and "frame \<le> 0" and "unat count * 8 \<le> nat (- frame)" and "- 0x80000000 \<le> frame"
  shows "unat (slot_count count ls) * 8 \<le> 0x80000000"
  using assms
proof (induction ls arbitrary: off frame groups count)
  case Nil
  then show ?case by simp
next
  case (Cons l ls)
  let ?n = "unat (le_count l)" and ?size = "if le_type l = t_v128 then 16 else 8 :: nat"
  let ?count = "if le_type l = t_v128 then count + ucast (le_count l) + ucast (le_count l) else count + ucast (le_count l)"
  from Cons.prems(1) obtain gs where gs: "local_groups (off + le_count l) (frame - int ?size * int ?n) ls = Inr gs"
    and fits: "\<not> - 0x80000000 + int ?size * int ?n > frame"
    by (auto simp: Let_def res_simps split: if_splits)
  define m where "m = ?size * ?n"
  have m: "int ?size * int ?n = int m" by (simp add: m_def)
  have le: "unat count * 8 + m \<le> 0x80000000" "unat count * 8 + m \<le> nat (- (frame - int m))"
    using fits Cons.prems(2,3,4) unfolding m by linarith+
  have "unat ?count * 8 = unat count * 8 + m"
    using le(1) by (auto simp: m_def unat_word_ariths unat_ucast_up)
  then have c: "unat ?count * 8 \<le> nat (- (frame - int ?size * int ?n))" using le(2) by (simp only: m)
  have f: "frame - int ?size * int ?n \<le> 0" "- 0x80000000 \<le> frame - int ?size * int ?n"
    using fits Cons.prems(2) unfolding m by linarith+
  have "unat (slot_count ?count ls) * 8 \<le> 0x80000000"
    by (rule Cons.IH[OF gs f(1) c f(2)])
  then show ?case by (simp only: slot_count.simps Let_def)
qed

lemma sized_zero_locals:
  assumes "unat count * 8 \<le> 0x80000000"
  shows "sized env c 0 17 (mc_zero_locals count) anyJ"
proof -
  have n: "\<not> count > 0xFFFFFFFF" using assms by (simp add: word_less_nat_alt)
  have few: "sized env c 0 14 (seqJ (replicate (unat count) (mc_bytes [0x50]))) anyJ" if "\<not> count > 14"
    by (rule sized_weak[OF sized_seq_bytes]) (use that in \<open>auto simp: word_less_nat_alt\<close>)
  show ?thesis unfolding mc_zero_locals_def
    by (cases "count > 14"; simp only: n if_False if_True;
        (rule sized_weak, (rule few | rule jit_sized | assumption | (simp; fail))+))
qed

text \<open>Code that records no operation and writes an exact number of bytes.\<close>

definition exact :: "jit_env \<Rightarrow> jit_context \<Rightarrow> nat \<Rightarrow> 'a jm \<Rightarrow> bool" where
  "exact env c n m \<longleftrightarrow> (\<forall>s. jit_ok c s \<and> jc_code s + n \<le> fst c \<longrightarrow> (case m env s of
       Inl x \<Rightarrow> x \<noteq> Undefined_behaviour \<and> x \<noteq> Assertion_failure
     | Inr (a, s') \<Rightarrow> jit_ok c s' \<and> jc_code s' = jc_code s + n \<and> jc_recent1 s' = jc_recent1 s))"

lemma exactD:
  assumes "exact env c n m" and "jit_ok c s" and "jc_code s + n \<le> fst c"
  obtains x where "m env s = Inl x" "x \<noteq> Undefined_behaviour" "x \<noteq> Assertion_failure"
  | a s' where "m env s = Inr (a, s')" "jit_ok c s'" "jc_code s' = jc_code s + n" "jc_recent1 s' = jc_recent1 s"
  using assms by (cases "m env s") (auto simp: exact_def)

lemma exact_sized:
  assumes "exact env c n m"
  shows "sized env c n n m anyJ"
proof (rule sizedI, goal_cases)
  case (1 s)
  with assms show ?case by (rule exactD) simp_all
qed

lemma exact_bind: "exact env c n m \<Longrightarrow> (\<And>a. exact env c k (f a)) \<Longrightarrow> exact env c (n + k) (bindJ m f)"
  unfolding exact_def[of env c "n + k"]
proof (intro allI impI, elim conjE)
  fix s assume m: "exact env c n m" and f: "\<And>a. exact env c k (f a)" and s: "jit_ok c s" "jc_code s + (n + k) \<le> fst c"
  from s(2) have "jc_code s + n \<le> fst c" by simp
  with m s(1) show "case bindJ m f env s of Inl x \<Rightarrow> x \<noteq> Undefined_behaviour \<and> x \<noteq> Assertion_failure
    | Inr (a, s') \<Rightarrow> jit_ok c s' \<and> jc_code s' = jc_code s + (n + k) \<and> jc_recent1 s' = jc_recent1 s"
  proof (rule exactD)
    fix a t assume t: "m env s = Inr (a, t)" "jit_ok c t" "jc_code t = jc_code s + n" "jc_recent1 t = jc_recent1 s"
    have "jc_code t + k \<le> fst c" using t(3) s(2) by simp
    with f[of a] t(2) show ?thesis by (rule exactD) (use t in \<open>simp_all add: bindJ_def\<close>)
  qed (simp add: bindJ_def)
qed

lemma exact_ret: "exact env c 0 (retJ a)"
  by (simp add: exact_def retJ_def)

lemma exact_get: "exact env c 0 (getJ f)"
  by (simp add: exact_def getJ_def)

lemma exact_inert: "inert env c n m \<Longrightarrow> exact env c n m"
  unfolding inert_def exact_def
proof (intro allI impI)
  fix s assume i: "\<forall>s. jit_ok c s \<and> jc_code s + n \<le> fst c \<longrightarrow> (\<exists>f. m env s = Inr ((), s\<lparr>jc_mem := f, jc_code := jc_code s + n\<rparr>))"
    and s: "jit_ok c s \<and> jc_code s + n \<le> fst c"
  then obtain f where "m env s = Inr ((), s\<lparr>jc_mem := f, jc_code := jc_code s + n\<rparr>)" by blast
  with s show "case m env s of Inl x \<Rightarrow> x \<noteq> Undefined_behaviour \<and> x \<noteq> Assertion_failure
    | Inr (a, s') \<Rightarrow> jit_ok c s' \<and> jc_code s' = jc_code s + n \<and> jc_recent1 s' = jc_recent1 s" by (simp add: jit_ok_advance)
qed

lemma exact_mod: "(\<And>s. jit_ok c s \<Longrightarrow> jit_ok c (f s) \<and> jc_code (f s) = jc_code s \<and> jc_recent1 (f s) = jc_recent1 s) \<Longrightarrow> exact env c 0 (modJ f)"
  by (simp add: exact_def modJ_def)

lemma exact_seq_nil: "exact env c 0 (seqJ [])"
  by (simp add: seqJ.simps exact_ret)

lemma exact_seq_cons: "exact env c n m \<Longrightarrow> exact env c k (seqJ ms) \<Longrightarrow> exact env c (n + k) (seqJ (m # ms))"
  by (simp add: seqJ.simps exact_bind)

lemma exact_fix_branch: "target32 c b \<Longrightarrow> exact env c 0 (mc_fix_branch b t)"
  unfolding exact_def
proof (intro allI impI, elim conjE)
  fix s assume "target32 c b" "jit_ok c s" "jc_code s + 0 \<le> fst c"
  with fix_branch_run[of b s t env] jit_ok_advance[of c s, where n = 0] show "case mc_fix_branch b t env s of Inl x \<Rightarrow> x \<noteq> Undefined_behaviour \<and> x \<noteq> Assertion_failure
    | Inr (a, s') \<Rightarrow> jit_ok c s' \<and> jc_code s' = jc_code s + 0 \<and> jc_recent1 s' = jc_recent1 s" by (auto simp: jit_ok_end)
qed

lemma exact_fix_all: "list_all (target32 c) ps \<Longrightarrow> exact env c 0 (seqJ ms) \<Longrightarrow> exact env c 0 (seqJ (map (\<lambda>p. mc_fix_branch p t) ps @ ms))"
  by (induction ps) (auto intro: exact_seq_cons[where n = 0 and k = 0, simplified] exact_fix_branch)

lemma relocs_ok_resolve: "relocs_ok e rs \<Longrightarrow> relocs_ok e (rs[f := Resolved a])"
  unfolding relocs_ok_def by (meson insertE relocation.distinct(1) set_update_subset_insert subsetD)

lemma exact_start_function: "exact env c 0 (mc_start_function start f)"
  unfolding exact_def
proof (intro allI impI, elim conjE)
  fix s assume s: "jit_ok c s" "jc_code s + 0 \<le> fst c"
  let ?s = "jc_relocs_update (grow_relocs f) s" and ?set = "modJ (jc_relocs_update (\<lambda>v. v[f := Resolved start]))"
  have r: "relocs_ok (mc_get_addr s) (jc_relocs s)" using s(1) by (simp add: jit_ok_def pinned_def)
  have ok: "jit_ok c ?s" using jit_ok_relocs[OF s(1), of "grow_relocs f"] relocs_ok_grow[OF r] .
  have len: "f < length (jc_relocs ?s)" by (simp add: grow_relocs_def)
  have resolve: "exact env c 0 (seqJ [?set])" unfolding seqJ_single
  proof (rule exact_mod, intro conjI)
    fix s assume s: "jit_ok c s"
    then have "relocs_ok (mc_get_addr s) ((jc_relocs s)[f := Resolved start])" by (simp add: jit_ok_def pinned_def relocs_ok_resolve)
    with jit_ok_relocs[OF s, of "\<lambda>v. v[f := Resolved start]"] show "jit_ok c (jc_relocs_update (\<lambda>v. v[f := Resolved start]) s)" .
  qed simp_all
  show "case mc_start_function start f env s of Inl x \<Rightarrow> x \<noteq> Undefined_behaviour \<and> x \<noteq> Assertion_failure
    | Inr (a, s') \<Rightarrow> jit_ok c s' \<and> jc_code s' = jc_code s + 0 \<and> jc_recent1 s' = jc_recent1 s"
  proof (cases "jc_relocs ?s ! f")
    case (Pending ps)
    then have "Pending ps \<in> set (jc_relocs ?s)" using len nth_mem by metis
    then have "\<forall>p \<in> set ps. p + 4 \<le> mc_get_addr ?s" using ok by (auto simp: jit_ok_def pinned_def relocs_ok_def)
    moreover have "mc_get_addr ?s \<le> fst c" using get_addr_le[of ?s] ok s(2) by (simp add: jit_ok_def)
    ultimately have "list_all (target32 c) ps" by (auto simp: list_all_iff)
    note all = exact_fix_all[OF this resolve, of start]
    have "jc_code ?s + 0 \<le> fst c" using s(2) by simp
    with all ok show ?thesis by (rule exactD) (use Pending in \<open>simp_all add: mc_start_function_def bindJ_def modJ_def getJ_def\<close>)
  next
    case (Resolved a)
    then show ?thesis by (simp add: mc_start_function_def bindJ_def modJ_def getJ_def throwJ_def)
  qed
qed

lemmas sized_start_function [jit_sized] = exact_start_function[THEN exact_sized]

text \<open>The place of the stack usage is recorded together with the four bytes that are patched later.\<close>

lemma sized_stack_limit_entry:
  assumes "sized env c 0 h (seqJ ms) anyJ"
  shows "sized env c 0 (4 + h) (seqJ (modJ (\<lambda>s. s\<lparr>jc_stack_limit_entry := jc_code s\<rparr>) # mc_bytes [0, 0, 0, 0] # ms)) anyJ"
proof (rule sizedI, goal_cases)
  case (1 s)
  let ?s = "s\<lparr>jc_stack_limit_entry := jc_code s\<rparr>"
  let ?t = "?s\<lparr>jc_mem := poke_bytes (jc_code s) [0, 0, 0, 0] (jc_mem s), jc_code := jc_code s + 4\<rparr>"
  have b: "mc_bytes [0, 0, 0, 0] env ?s = Inr ((), ?t)" using mc_bytes_run[of ?s "[0, 0, 0, 0]" env] 1 jit_ok_end[OF 1(1)] by simp
  have k: "jit_ok c (s\<lparr>jc_mem := poke_bytes (jc_code s) [0, 0, 0, 0] (jc_mem s), jc_code := jc_code s + 4\<rparr>)" using 1(1) by (rule jit_ok_advance)
  have "ro_end (jc_recent1 s) \<noteq> Some (jc_code s + 4)" using 1(1) by (auto simp: jit_ok_def recents_ok_def recent_ok_def)
  with k have ok: "jit_ok c ?t" by (auto simp: jit_ok_def recents_ok_def pinned_def mc_get_addr_def split: if_splits)
  have "jc_code ?t + h \<le> fst c" using 1(2) by simp
  with assms ok show ?case by (rule sizedD) (use b in \<open>auto simp: seqJ.simps(2) bindJ_def modJ_def\<close>)
qed

lemma sized_check_stack_limit [jit_sized]: "sized env c 0 12 mc_check_stack_limit anyJ"
proof (cases "jv_stack_bytes env")
  case True
  have "sized env c 0 6 (seqJ [mc_fix_to (mc_branchcc32 op_JB) jc_stack_overflow_handler]) anyJ"
    by (rule sized_weak[OF sized_seq_cons[OF sized_fix_to[OF sized_branchcc32] sized_seq_nil]]) simp_all
  from sized_seq_cons[OF sized_mc1[of env c "Ia32 W0 [0x81] (Some 5)" ebx] sized_stack_limit_entry[OF this]]
  have "sized env c 0 12 (seqJ [mc1 (Ia32 W0 [0x81] (Some 5)) ebx, modJ (\<lambda>s. s\<lparr>jc_stack_limit_entry := jc_code s\<rparr>), mc_bytes [0, 0, 0, 0],
      mc_fix_to (mc_branchcc32 op_JB) jc_stack_overflow_handler]) anyJ"
    by (rule sized_weak) (simp_all add: len1_def)
  with True show ?thesis by (simp add: mc_check_stack_limit_def)
next
  case False
  then show ?thesis by (simp add: mc_check_stack_limit_def sized_weak[OF sized_ret_any])
qed

lemma sized_check_stack_limit_end [jit_sized]: "sized env c 0 6 mc_check_stack_limit_end anyJ"
proof (cases "jv_stack_bytes env")
  case True
  then show ?thesis unfolding mc_check_stack_limit_end_def mc_add_imm_def
    by simp (rule sized_weak, (rule sized_bind sized_getJ sized_imm_any)+, simp_all add: emit_lengths)
next
  case False
  then show ?thesis by (simp add: mc_check_stack_limit_end_def sized_weak[OF sized_ret_any])
qed

lemma seqJ_append: "seqJ (ms @ ns) = bindJ (seqJ ms) (\<lambda>_. seqJ ns)"
  by (induction ms) (simp_all add: seqJ.simps bindJ_assoc)

text \<open>The assertions on the sizes of prologue and epilogue.\<close>

lemma safe_checked:
  assumes "safe env c h (seqJ ms) anyJ" and "jit_ok c s" and "jc_code s + h \<le> fst c" and "\<And>t. jit_ok c t \<Longrightarrow> jc_code t \<le> jc_code s + h \<Longrightarrow> P t"
  shows "case seqJ (ms @ [bindJ (getJ P) (\<lambda>ok. checkJ ok Assertion_failure)]) env s of
      Inl x \<Rightarrow> x \<noteq> Undefined_behaviour \<and> x \<noteq> Assertion_failure
    | Inr (a, s') \<Rightarrow> jit_ok c s' \<and> jc_code s' \<le> jc_code s + h"
  using assms(1-3) by (rule safeD) (use assms(4) in \<open>auto simp: seqJ_append seqJ_single bindJ_def getJ_def checkJ_def retJ_def\<close>)

definition prologue_code :: "local_entry list \<Rightarrow> nat \<Rightarrow> unit jm list" where
  "prologue_code locals f = [bindJ (getJ jc_code) (\<lambda>start. mc_start_function start f), mc_bytes [0x55], mc_bytes [0x48, 0x89, 0xe5], mc_check_stack_limit,
     modJ (\<lambda>s. s\<lparr>jc_local_count := slot_count 0 locals\<rparr>), mc_zero_locals (slot_count 0 locals)]"

lemma safe_prologue_code:
  assumes "function_locals locals = Inr groups"
  shows "safe env c max_prologue_size (seqJ (prologue_code locals f)) anyJ"
proof -
  have "unat (slot_count 0 locals) * 8 \<le> 0x80000000"
    by (rule slot_count_bound[OF assms[unfolded function_locals_def]]) simp_all
  note z = sized_zero_locals[OF this]
  have m: "sized env c 0 0 (modJ (\<lambda>s. s\<lparr>jc_local_count := n\<rparr>)) anyJ" for n
    by (rule sized_modJ) (auto simp: jit_ok_def recents_ok_def pinned_def mc_get_addr_def)
  have "sized env c 0 33 (seqJ (prologue_code locals f)) anyJ" unfolding prologue_code_def
    by (rule sized_weak, (rule z m sized_bytes sized_check_stack_limit sized_start_function sized_bind[OF sized_getJ] sized_seq_cons sized_seq_nil)+) auto
  then show ?thesis by (auto simp: max_prologue_size_def intro: sized_safe)
qed

definition epilogue_code :: "func_type \<Rightarrow> bool \<Rightarrow> unit jm list" where
  "epilogue_code ft locals = [mc_check_stack_limit_end,
     if return_count ft \<noteq> 0 then if return_type ft = t_v128 then mc_vmovups (deref rsp) xmm0 else mc_pop rax else retJ (),
     if locals \<or> (return_count ft \<noteq> 0 \<and> return_type ft = t_v128) then mc_mov rbp rsp else retJ (),
     mc_pop rbp]"

text \<open>A pop behind an instruction that is not recorded has nothing to take back.\<close>

lemma mc_pop_cold: "ro_end (jc_recent1 s) \<noteq> Some (jc_code s) \<Longrightarrow> mc_pop reg env s = mc_pop_plain reg env s"
  by (simp add: mc_pop_def withJ_def bindJ_def try_pop_recent_op_def try_undo_push_def)

lemma safe_pop_after:
  assumes "inert env c k p" and "0 < k"
  shows "safe env c (k + pop_len r) (seqJ [p, mc_pop (R64 r)]) anyJ"
proof -
  { fix s assume s: "jit_ok c s" "jc_code s + (k + pop_len r) \<le> fst c"
    from assms(1) s obtain f where f: "p env s = Inr ((), s\<lparr>jc_mem := f, jc_code := jc_code s + k\<rparr>)" (is "_ = Inr ((), ?s)")
      unfolding inert_def by fastforce
    have "recent_ok (jc_code s) (jc_recent1 s)" using s(1) by (simp add: jit_ok_def recents_ok_def)
    then have "ro_end (jc_recent1 ?s) \<noteq> Some (jc_code ?s)" using assms(2) by (simp add: recent_ok_strict)
    then have eq: "seqJ [p, mc_pop (R64 r)] env s = mc_pop_plain (R64 r) env ?s"
      using f mc_pop_cold[of ?s "R64 r" env] by (simp add: seqJ.simps bindJ_def retJ_def bindE_def split: sum.splits)
    have "jit_ok c ?s" using s(1) by (rule jit_ok_advance)
    moreover have "jc_code ?s + pop_len r \<le> fst c" using s(2) by simp
    ultimately have "case seqJ [p, mc_pop (R64 r)] env s of Inl x \<Rightarrow> x \<noteq> Undefined_behaviour \<and> x \<noteq> Assertion_failure
        | Inr (a, s') \<Rightarrow> jit_ok c s' \<and> jc_code s' \<le> jc_code s + (k + pop_len r) \<and> True"
      unfolding eq by (rule sizedD[OF sized_pop_plain[of env c r]]) auto }
  then show ?thesis unfolding safe_def by blast
qed

lemma seqJ_group: "seqJ (a # b # ms) = seqJ (seqJ [a, b] # ms)"
  by (simp add: seqJ.simps bindJ_assoc)

lemma safe_seq_nil: "safe env c 0 (seqJ []) anyJ"
  by (rule sized_safe[OF sized_seq_nil])

lemma safe_epilogue_code: "safe env c 15 (seqJ (epilogue_code ft locals)) anyJ"
proof -
  have lim: "safe env c 6 mc_check_stack_limit_end anyJ" by (rule sized_safe[OF sized_check_stack_limit_end])
  have v: "safe env c 5 (mc_vmovups (deref rsp) xmm0) anyJ"
    by (simp add: emit_shapes) (rule safe_weak[OF sized_safe[OF sized_v2]], simp_all add: emit_lengths)
  have "inert env c 3 (mc_mov rbp rsp)" by (simp, rule inert_mc2, simp_all add: op_MOV_A_def)
  from safe_pop_after[OF this, of 5] have leave: "safe env c 4 (seqJ [mc_mov rbp rsp, mc_pop rbp]) anyJ" by (simp add: pop_len_def bit_numeral_rec)
  have pop: "safe env c 3 (mc_pop (R64 r)) anyJ" for r by (rule safe_weak[OF sized_safe[OF sized_pop]]) (simp add: pop_hi_def pop_len_def)
  have out: "safe env c 6 (seqJ [if b then mc_mov rbp rsp else retJ (), mc_pop rbp]) anyJ" for b
  proof (cases b)
    case True
    with safe_weak[OF leave, of 6] show ?thesis by simp
  next
    case False
    with safe_weak[OF pop[of 5], of 6] show ?thesis by (simp add: seqJ_pair)
  qed
  show ?thesis
  proof (cases "return_count ft \<noteq> 0 \<and> return_type ft = t_v128")
    case True
    with safe_seq_cons[OF lim safe_seq_cons[OF v leave]] show ?thesis by (simp add: epilogue_code_def)
  next
    case False
    have "safe env c 3 (if return_count ft \<noteq> 0 then mc_pop rax else retJ ()) anyJ"
      using pop[of 0] safe_weak[OF safe_ret[of anyJ "()" env c]] by simp
    from safe_seq_cons[OF lim safe_seq_cons[OF this out[of "locals \<or> (return_count ft \<noteq> 0 \<and> return_type ft = t_v128)"]]] False show ?thesis
      by (simp add: epilogue_code_def split: if_splits)
  qed
qed

lemma epilogue_run:
  assumes "jit_ok c s" and "jc_code s + max_epilogue_size \<le> fst c"
  shows "case mc_epilogue ft env s of Inl x \<Rightarrow> x \<noteq> Undefined_behaviour \<and> x \<noteq> Assertion_failure
    | Inr (_, s') \<Rightarrow> jit_ok c s' \<and> jc_code s' \<le> jc_code s + max_epilogue_size \<and> ro_end (jc_recent1 s') \<noteq> Some (jc_code s')"
proof -
  let ?code = "epilogue_code ft (jc_local_count s > 0)"
  have eq: "mc_epilogue ft env s = bindJ (seqJ ?code) (\<lambda>_. bindJ (mc0 op_RET) (\<lambda>_. bindJ (getJ jc_code) (\<lambda>code.
      checkJ (code \<le> jc_code s + max_epilogue_size) Assertion_failure))) env s"
  proof -
    have "mc_epilogue ft env s = seqJ (?code @ [mc0 op_RET, bindJ (getJ jc_code) (\<lambda>code. checkJ (code \<le> jc_code s + max_epilogue_size) Assertion_failure)]) env s"
      unfolding mc_epilogue_def epilogue_code_def by (subst bindJ_def) (simp add: getJ_def)
    then show ?thesis by (simp only: seqJ_append seqJ_pair)
  qed
  have r: "jc_code s + 15 \<le> fst c" using assms(2) by (simp add: max_epilogue_size_def)
  show ?thesis using safe_epilogue_code assms(1) r
  proof (rule safeD)
    fix u t assume t: "seqJ ?code env s = Inr (u, t)" "jit_ok c t" "jc_code t \<le> jc_code s + 15"
    have "jc_code t + length (REX_prefix False False False False @ [0xc3 :: u8]) \<le> jc_end t" using t assms(2) by (simp add: jit_ok_end max_epilogue_size_def)
    from mc_bytes_run[OF this, of env] have e: "mc0 op_RET env t = Inr ((), t\<lparr>jc_mem := poke_bytes (jc_code t) [0xc3] (jc_mem t), jc_code := jc_code t + 1\<rparr>)"
      by (simp add: mc0.simps op_RET_def REX_prefix_def)
    have "ro_end (jc_recent1 t) \<noteq> Some (Suc (jc_code t))" using t(2) by (auto simp: jit_ok_def recents_ok_def recent_ok_def)
    with e t jit_ok_advance[OF t(2), where n = 1] show ?thesis
      by (simp add: eq bindJ_def getJ_def checkJ_def retJ_def max_epilogue_size_def)
  qed (simp add: eq bindJ_def)
qed

section \<open>A function\<close>

text \<open>What \<open>write_code_out\<close> does with the compiler for one function, given the calls that its body leads to.\<close>

definition jit_function :: "local_entry list \<Rightarrow> nat \<Rightarrow> func_type \<Rightarrow> jit_call list \<Rightarrow> u64 \<Rightarrow> nat jm" where
  "jit_function locals funcnum ft calls usage = bindJ (mc_prologue locals funcnum) (\<lambda>_. bindJ (jit_calls calls []) (\<lambda>_.
     bindJ (mc_set_stack_usage usage) (\<lambda>_. bindJ (mc_epilogue ft) (\<lambda>_. mc_finalize))))"

text \<open>Between two functions: what has been compiled lies below the offset of the allocator.\<close>

definition jit_idle :: "jit \<Rightarrow> bool" where
  "jit_idle s \<longleftrightarrow> wf_ga (jc_alloc s) \<and> recents_ok s \<and> jc_code s \<le> unat (ga_offset (jc_alloc s)) \<and>
     ro_end (jc_recent1 s) \<noteq> Some (unat (ga_offset (jc_alloc s))) \<and>
     relocs_ok (unat (ga_offset (jc_alloc s))) (jc_relocs s) \<and> jc_stack_limit_entry s + 4 \<le> max 4 (unat (ga_offset (jc_alloc s)))"

lemma mc_alloc_code_run:
  assumes "wf_ga (jc_alloc s)"
  obtains "mc_alloc_code n env s = Inl Wasm_bad_alloc"
  | p g where "mc_alloc_code n env s = Inr ((), s\<lparr>jc_alloc := g, jc_start := p, jc_end := p + unat n\<rparr>)"
      "p = unat (ga_offset (jc_alloc s))" "unat (ga_offset g) = p + unat n" "wf_ga g"
proof (cases "ga_alloc 1 1 n (jc_alloc s)")
  case (Inl x)
  then have "x = Wasm_bad_alloc" by (auto simp: ga_alloc_def assertE_def Let_def split: if_splits)
  with Inl that(1) show ?thesis by (simp add: mc_alloc_code_def bindJ_def getJ_def liftJ_def)
next
  case (Inr pg)
  obtain p g where pg: "pg = (p, g)" by (cases pg)
  have "layout 1 1" by (auto simp: layout_def intro: exI[of _ 0])
  note r = ga_alloc_Inr[OF assms this Inr[unfolded pg]]
  show ?thesis
    by (rule that(2)[of "unat p" g]) (use r Inr in \<open>simp_all add: pg mc_alloc_code_def bindJ_def getJ_def liftJ_def modJ_def round_up_def\<close>)
qed

lemma param_offsets_error: "param_offsets off ts = Inl x \<Longrightarrow> x = Wasm_parse_exception"
  by (induction ts arbitrary: off) (auto simp: assertE_def bindE_def split: if_splits sum.splits)

lemma local_groups_error: "local_groups off fo ls = Inl x \<Longrightarrow> x = Wasm_parse_exception"
  by (induction ls arbitrary: off fo) (auto simp: assertE_def bindE_def Let_def split: if_splits sum.splits)

lemma frame_error: "function_parameters ft = Inl x \<Longrightarrow> x = Wasm_parse_exception" "function_locals ls = Inl x \<Longrightarrow> x = Wasm_parse_exception"
  by (auto simp: function_parameters_def function_locals_def bindE_def split: sum.splits dest: param_offsets_error local_groups_error)

text \<open>The function of the module with its type and body.\<close>

definition jit_body :: "jit_env \<Rightarrow> nat \<Rightarrow> func_type \<Rightarrow> function_body \<Rightarrow> bool" where
  "jit_body env f ft body \<longleftrightarrow> f < length (m_functions (jv_mod env)) \<and> unat (m_functions (jv_mod env) ! f) < length (m_types (jv_mod env)) \<and>
     ft = m_types (jv_mod env) ! unat (m_functions (jv_mod env) ! f) \<and> f < length (m_code (jv_mod env)) \<and> body = m_code (jv_mod env) ! f"

definition code_room :: "jit_env \<Rightarrow> function_body \<Rightarrow> nat" where
  "code_room env body = max_prologue_size + unat (fb_size body) * instruction_size_ratio env + max_epilogue_size"

lemma code_room_word: "unat (of_nat max_prologue_size + ucast (fb_size body) * of_nat (instruction_size_ratio env) + of_nat max_epilogue_size :: u64) = code_room env body"
proof -
  have "unat (fb_size body) < 2 ^ 32" using unsigned_less[of "fb_size body", where 'a = nat] by simp
  then show ?thesis
    by (auto simp: code_room_def instruction_size_ratio_def max_prologue_size_def max_epilogue_size_def unat_word_ariths unat_ucast_up)
qed

lemma jit_ok_start:
  assumes "jit_idle s" and "p = unat (ga_offset (jc_alloc s))"
  shows "jit_ok (e, ft, params, groups, p, jc_segment s, g)
    (s\<lparr>jc_ft := ft, jc_params := params, jc_locals := groups, jc_alloc := g, jc_start := p, jc_end := e, jc_code := p\<rparr>)" (is "jit_ok _ ?s")
proof -
  have "recents_ok ?s" using assms by (auto simp: jit_idle_def recents_ok_def intro: recent_ok_mono split: if_splits)
  moreover have "mc_get_addr ?s = p" using assms by (simp add: mc_get_addr_def jit_idle_def)
  ultimately show ?thesis using assms by (simp add: jit_ok_def pinned_def jit_idle_def)
qed

lemma prologue_run:
  assumes "jit_idle s" and "jit_body env f ft body"
  obtains x where "mc_prologue locals f env s = Inl x" "x \<noteq> Undefined_behaviour" "x \<noteq> Assertion_failure"
  | params groups g s' where "mc_prologue locals f env s = Inr ((), s')" "function_parameters ft = Inr params" "function_locals locals = Inr groups"
      "jit_ok (unat (ga_offset (jc_alloc s)) + code_room env body, ft, params, groups, unat (ga_offset (jc_alloc s)), jc_segment s, g) s'"
      "jc_code s' \<le> unat (ga_offset (jc_alloc s)) + max_prologue_size"
      "wf_ga g" "unat (ga_offset g) = unat (ga_offset (jc_alloc s)) + code_room env body"
proof -
  let ?p = "unat (ga_offset (jc_alloc s))"
  let ?size = "of_nat max_prologue_size + ucast (fb_size body) * of_nat (instruction_size_ratio env) + of_nat max_epilogue_size :: u64"
  let ?f = "f + get_imported_functions_size (jv_mod env)"
  let ?check = "bindJ (getJ (\<lambda>s. jc_code s \<le> jc_start s + max_prologue_size)) (\<lambda>ok. checkJ ok Assertion_failure)"
  have ft: "bindE (at_unchecked (m_functions (jv_mod env)) f) (\<lambda>t. at_unchecked (m_types (jv_mod env)) (unat t)) = Inr ft"
    "at_unchecked (m_code (jv_mod env)) f = Inr body"
    using assms(2) by (simp_all add: jit_body_def at_unchecked_def)
  show ?thesis
  proof (cases "function_parameters ft")
    case (Inl x)
    with that(1)[of x] frame_error(1)[OF Inl] ft show ?thesis by (simp add: mc_prologue_def withJ_def bindJ_def liftJ_def)
  next
    case params: (Inr params)
    show ?thesis
    proof (cases "function_locals locals")
      case (Inl x)
      with that(1)[of x] frame_error(2)[OF Inl] ft params show ?thesis by (simp add: mc_prologue_def withJ_def bindJ_def liftJ_def)
    next
      case groups: (Inr groups)
      let ?s = "s\<lparr>jc_ft := ft, jc_params := params, jc_locals := groups\<rparr>"
      have wf: "wf_ga (jc_alloc ?s)" using assms(1) by (simp add: jit_idle_def)
      have eq: "mc_prologue locals f env s = bindJ (mc_alloc_code ?size) (\<lambda>_. bindJ mc_at_start (\<lambda>_. seqJ (prologue_code locals ?f @ [?check]))) env ?s"
        using ft params groups by (simp add: mc_prologue_def prologue_code_def withJ_def bindJ_def liftJ_def seqJ.simps(2) modJ_def)
      from wf show ?thesis
      proof (rule mc_alloc_code_run[where n = ?size and env = env])
        assume "mc_alloc_code ?size env ?s = Inl Wasm_bad_alloc"
        with that(1)[of Wasm_bad_alloc] eq show ?thesis by (simp add: bindJ_def)
      next
        fix p g
        assume a: "mc_alloc_code ?size env ?s = Inr ((), ?s\<lparr>jc_alloc := g, jc_start := p, jc_end := p + unat ?size\<rparr>)"
          and p: "p = unat (ga_offset (jc_alloc ?s))" and g: "unat (ga_offset g) = p + unat ?size" "wf_ga g"
        let ?c = "(p + code_room env body, ft, params, groups, p, jc_segment s, g)"
        let ?t = "s\<lparr>jc_ft := ft, jc_params := params, jc_locals := groups, jc_alloc := g, jc_start := p, jc_end := p + code_room env body, jc_code := p\<rparr>"
        have run: "mc_prologue locals f env s = seqJ (prologue_code locals ?f @ [?check]) env ?t"
          using eq a by (simp add: bindJ_def mc_at_start_def modJ_def code_room_word)
        have ok: "jit_ok ?c ?t" using jit_ok_start[OF assms(1), of p] p by simp
        have room: "jc_code ?t + max_prologue_size \<le> fst ?c" by (simp add: code_room_def)
        have res: "case mc_prologue locals f env s of Inl x \<Rightarrow> x \<noteq> Undefined_behaviour \<and> x \<noteq> Assertion_failure
          | Inr (a, s') \<Rightarrow> jit_ok ?c s' \<and> jc_code s' \<le> jc_code ?t + max_prologue_size"
          unfolding run by (rule safe_checked[OF safe_prologue_code[OF groups] ok room]) (auto simp: jit_ok_def)
        show ?thesis
        proof (cases "mc_prologue locals f env s")
          case (Inl x)
          with that(1)[OF Inl] res show ?thesis by simp
        next
          case (Inr y)
          with res obtain s' where
            "mc_prologue locals f env s = Inr ((), s')" "jit_ok ?c s'" "jc_code s' \<le> p + max_prologue_size" by (cases y) auto
          then show ?thesis using that(2)[OF _ params groups, of s' g] g p by (simp add: code_room_word)
        qed
      qed
    qed
  qed
qed

lemma stack_usage_run:
  assumes "jit_ok c s" and "jc_code s \<le> fst c" and "4 \<le> fst c"
  shows "case mc_set_stack_usage usage env s of Inl x \<Rightarrow> x \<noteq> Undefined_behaviour \<and> x \<noteq> Assertion_failure
    | Inr (_, s') \<Rightarrow> jit_ok c s' \<and> jc_code s' = jc_code s"
proof -
  have "jc_stack_limit_entry s + 4 \<le> max 4 (mc_get_addr s)" "mc_get_addr s \<le> jc_code s"
    using assms(1) get_addr_le[of s] by (auto simp: jit_ok_def pinned_def)
  then have "jc_stack_limit_entry s + 4 \<le> jc_end s" using assms jit_ok_end[OF assms(1)] by simp
  moreover have "jit_ok c (s\<lparr>jc_stack_usage := u, jc_mem := m\<rparr>)" for u m
    using assms(1) by (auto simp: jit_ok_def recents_ok_def pinned_def mc_get_addr_def)
  ultimately show ?thesis
    by (simp add: mc_set_stack_usage_def withJ_def Let_def bindJ_def modJ_def getJ_def write_code_def unimplemented_def throwJ_def retJ_def assms(1))
qed

lemma finalize_run:
  assumes "jit_ok c s" and "jc_code s \<le> jc_end s" and "wf_ga (jc_alloc s)" and "unat (ga_offset (jc_alloc s)) = jc_end s"
    and "ro_end (jc_recent1 s) \<noteq> Some (jc_code s)"
  obtains s' where "mc_finalize env s = Inr (jc_start s - jc_segment s, s')" "jit_idle s'" "unat (ga_offset (jc_alloc s')) = jc_code s"
    "jc_code s' = jc_code s" "jc_segment s' = jc_segment s"
proof -
  define d where "d = jc_end s - jc_code s"
  let ?n = "of_nat d :: u64"
  have sum: "jc_code s + d = jc_end s" using assms(2) by (simp add: d_def)
  have e: "jc_end s \<le> 2 ^ 30" using wf_ga_bounds[OF assms(3)] assms(4) by simp
  then have n: "unat ?n = d" "unat (of_nat (jc_code s) :: u64) = jc_code s" using sum by (simp_all add: unat_of_nat)
  have whole: "of_nat (jc_code s) + ?n = ga_offset (jc_alloc s)" using sum assms(4) by (metis of_nat_add of_nat_unat ucast_id)
  have le: "?n \<le> ga_offset (jc_alloc s)" using n assms(4) sum by (simp add: word_le_nat_alt)
  let ?g = "if ?n \<noteq> 0 then (jc_alloc s)\<lparr>ga_offset := of_nat (jc_code s)\<rparr> else jc_alloc s"
  let ?s = "s\<lparr>jc_alloc := ?g\<rparr>"
  have "ga_reclaim 1 (of_nat (jc_code s)) ?n (jc_alloc s) = Inr ?g" using whole le by (simp add: ga_reclaim_def assertE_def)
  then have run: "mc_finalize env s = Inr (jc_start s - jc_segment s, ?s)"
    by (simp add: mc_finalize_def mc_reclaim_def bindJ_def getJ_def liftJ_def modJ_def d_def)
  have off: "unat (ga_offset ?g) = jc_code s" using n whole assms(4) sum by auto
  have wf: "wf_ga ?g" using assms(3,4) off n sum by (auto simp: wf_ga_def word_le_nat_alt)
  have b: "mc_get_addr s \<le> jc_code s" "pinned s (mc_get_addr s)" using assms(1) get_addr_le[of s] by (auto simp: jit_ok_def)
  then have "pinned s (jc_code s)" by (auto intro: pinned_mono)
  moreover have "recents_ok ?s = recents_ok s" by (simp add: recents_ok_def)
  ultimately have "jit_idle ?s" using off wf assms(1,5) by (simp add: jit_idle_def pinned_def jit_ok_def)
  from that[OF run this] off show ?thesis by simp
qed

text \<open>
  The whole function: given calls the parser may make, whose instructions are not longer than the body, the code stays
  inside the room that the prologue has reserved, no assertion fails, and the compiler is ready for the next function.
\<close>

lemma function_run:
  assumes "jit_build env" and "jit_idle s" and "jit_body env f ft body"
    and "\<And>params groups. function_parameters ft = Inr params \<Longrightarrow> function_locals locals = Inr groups \<Longrightarrow> calls_ok env (ft, params, groups) 0 calls"
    and "sum_list (map wasm_length calls) \<le> unat (fb_size body)"
  shows "case jit_function locals f ft calls usage env s of Inl x \<Rightarrow> x \<noteq> Undefined_behaviour \<and> x \<noteq> Assertion_failure
    | Inr (offset, s') \<Rightarrow> jit_idle s' \<and> jc_segment s' = jc_segment s \<and> offset = unat (ga_offset (jc_alloc s)) - jc_segment s \<and>
        unat (ga_offset (jc_alloc s)) \<le> unat (ga_offset (jc_alloc s')) \<and> unat (ga_offset (jc_alloc s')) \<le> unat (ga_offset (jc_alloc s)) + code_room env body"
  using assms(2,3)
proof (rule prologue_run[where locals = locals])
  fix x assume "mc_prologue locals f env s = Inl x" "x \<noteq> Undefined_behaviour" "x \<noteq> Assertion_failure"
  then show ?thesis by (simp add: jit_function_def bindJ_def)
next
  let ?p = "unat (ga_offset (jc_alloc s))" and ?n = "sum_list (map wasm_length calls)"
  fix params groups g s1
  assume p: "mc_prologue locals f env s = Inr ((), s1)" and fr: "function_parameters ft = Inr params" "function_locals locals = Inr groups"
    and ok: "jit_ok (?p + code_room env body, ft, params, groups, ?p, jc_segment s, g) s1" (is "jit_ok ?c s1")
    and code: "jc_code s1 \<le> ?p + max_prologue_size" and g: "wf_ga g" "unat (ga_offset g) = ?p + code_room env body"
  have "calls_ok env (frame_of ?c) (length []) calls" using assms(4)[OF fr] by simp
  note safe = safe_calls[OF assms(1) this]
  have le: "instruction_size_ratio env * ?n \<le> unat (fb_size body) * instruction_size_ratio env"
    using mult_le_mono2[OF assms(5), of "instruction_size_ratio env"] by (simp add: mult.commute)
  have room: "jc_code s1 + instruction_size_ratio env * ?n + max_epilogue_size \<le> fst ?c"
    using code le unfolding code_room_def fst_conv by linarith
  then have r1: "jc_code s1 + instruction_size_ratio env * ?n \<le> fst ?c" by simp
  show ?thesis using safe ok r1
  proof (rule safeD)
    fix x assume "jit_calls calls [] env s1 = Inl x" "x \<noteq> Undefined_behaviour" "x \<noteq> Assertion_failure"
    then show ?thesis using p by (simp add: jit_function_def bindJ_def)
  next
    fix as s2 assume s2: "jit_calls calls [] env s1 = Inr (as, s2)" "jit_ok ?c s2" "jc_code s2 \<le> jc_code s1 + instruction_size_ratio env * ?n"
    have c2: "jc_code s2 + max_epilogue_size \<le> fst ?c" "jc_code s2 \<le> fst ?c" "4 \<le> fst ?c" using s2(3) room by (auto simp: max_epilogue_size_def)
    note u = stack_usage_run[OF s2(2) c2(2,3), of usage env]
    show ?thesis
    proof (cases "mc_set_stack_usage usage env s2")
      case (Inl x)
      with u p s2(1) show ?thesis by (simp add: jit_function_def bindJ_def)
    next
      case (Inr y)
      with u obtain s3 where s3: "mc_set_stack_usage usage env s2 = Inr ((), s3)" "jit_ok ?c s3" "jc_code s3 = jc_code s2" by (cases y) auto
      have "jc_code s3 + max_epilogue_size \<le> fst ?c" using s3(3) c2(1) by simp
      note e = epilogue_run[OF s3(2) this, of ft env]
      have run: "jit_function locals f ft calls usage env s = bindJ (mc_epilogue ft) (\<lambda>_. mc_finalize) env s3"
        using p s2(1) s3(1) by (simp add: jit_function_def bindJ_def)
      show ?thesis
      proof (cases "mc_epilogue ft env s3")
        case (Inl x)
        with e run show ?thesis by (simp add: bindJ_def)
      next
        case (Inr z)
        with e obtain s4 where s4: "mc_epilogue ft env s3 = Inr ((), s4)" "jit_ok ?c s4" "jc_code s4 \<le> jc_code s3 + max_epilogue_size"
          "ro_end (jc_recent1 s4) \<noteq> Some (jc_code s4)" by (cases z) auto
        then have s4': "jc_end s4 = ?p + code_room env body" "jc_start s4 = ?p" "jc_segment s4 = jc_segment s" "jc_alloc s4 = g" "?p \<le> mc_get_addr s4" "mc_get_addr s4 \<le> jc_code s4"
          by (auto simp: jit_ok_def pinned_def get_addr_le)
        have "jc_code s4 \<le> jc_end s4" using s4(3) s3(3) c2(1) s4'(1) by simp
        from finalize_run[OF s4(2) this, of env] s4(4) s4' g obtain s5 where s5: "mc_finalize env s4 = Inr (?p - jc_segment s, s5)" "jit_idle s5"
          "unat (ga_offset (jc_alloc s5)) = jc_code s4" "jc_segment s5 = jc_segment s" by auto
        with run s4 s4' \<open>jc_code s4 \<le> jc_end s4\<close> show ?thesis by (simp add: bindJ_def)
      qed
    qed
  qed simp_all
qed

end
