(* ===== verification/Vm_Jit_Module.thy ===== *)
theory Vm_Jit_Module
  imports Vm_Jit_Function Vm_Code_Gen
begin

text \<open>
  A whole module through the compiler: the constructor with the entry sequence, the error handlers and the calls of host
  functions, then every function of the module.  The constructor's assertions compare the write position with sizes
  counted by hand; they hold in every build.
\<close>

section \<open>The constructor\<close>

text \<open>Code that ends with a return leaves nothing to be folded.\<close>

definition ends_cold :: "jit_env \<Rightarrow> jit_context \<Rightarrow> nat \<Rightarrow> unit jm \<Rightarrow> bool" where
  "ends_cold env c h m \<longleftrightarrow> (\<forall>s. jit_ok c s \<and> jc_code s + h \<le> fst c \<longrightarrow> (case m env s of
       Inl x \<Rightarrow> x \<noteq> Undefined_behaviour \<and> x \<noteq> Assertion_failure
     | Inr (_, s') \<Rightarrow> jit_ok c s' \<and> jc_code s' \<le> jc_code s + h \<and> ro_end (jc_recent1 s') \<noteq> Some (jc_code s')))"

lemma ends_coldI:
  assumes "ms \<noteq> []" and "last ms = mc0 op_RET" and "safe env c h (seqJ (butlast ms)) anyJ"
  shows "ends_cold env c (h + 1) (seqJ ms)"
  unfolding ends_cold_def
proof (intro allI impI, elim conjE)
  fix s assume s: "jit_ok c s" "jc_code s + (h + 1) \<le> fst c"
  have "ms = butlast ms @ [mc0 op_RET]" using append_butlast_last_id[OF assms(1)] assms(2) by simp
  then have eq: "seqJ ms = bindJ (seqJ (butlast ms)) (\<lambda>_. mc0 op_RET)" by (metis seqJ_append seqJ_single)
  have "jc_code s + h \<le> fst c" using s(2) by simp
  with assms(3) s(1) show "case seqJ ms env s of Inl x \<Rightarrow> x \<noteq> Undefined_behaviour \<and> x \<noteq> Assertion_failure
    | Inr (_, s') \<Rightarrow> jit_ok c s' \<and> jc_code s' \<le> jc_code s + (h + 1) \<and> ro_end (jc_recent1 s') \<noteq> Some (jc_code s')"
  proof (rule safeD)
    fix u t assume t: "seqJ (butlast ms) env s = Inr (u, t)" "jit_ok c t" "jc_code t \<le> jc_code s + h"
    have "jc_code t + length [0xc3 :: u8] \<le> jc_end t" using t s(2) by (simp add: jit_ok_end)
    from mc_bytes_run[OF this, of env] have r: "mc0 op_RET env t = Inr ((), t\<lparr>jc_mem := poke_bytes (jc_code t) [0xc3] (jc_mem t), jc_code := jc_code t + 1\<rparr>)"
      by (simp add: mc0.simps op_RET_def REX_prefix_def)
    have "ro_end (jc_recent1 t) \<noteq> Some (Suc (jc_code t))" using t(2) by (auto simp: jit_ok_def recents_ok_def recent_ok_def)
    with r t jit_ok_advance[OF t(2), where n = 1] show ?thesis by (simp add: eq bindJ_def)
  qed (simp add: eq bindJ_def)
qed

lemma entry_cold: "ends_cold env c 128 mc_sysv_abi_interface"
proof -
  have "ends_cold env c (127 + 1) mc_sysv_abi_interface"
    unfolding mc_sysv_abi_interface_def
    by (rule ends_coldI, simp, simp, rule sized_safe, cases "jv_backtrace env"; simp add: emit_shapes;
        (rule sized_weak[where lo' = 0], (rule jit_sized | assumption | (simp add: emit_lengths; fail) | simp add: emit_shapes)+))
  then show ?thesis by simp
qed

lemma exact_bytes: "n = length bs \<Longrightarrow> exact env c n (mc_bytes bs)"
  by (rule exact_inert[OF inert_bytes])

lemma exact_operand_ptr: "exact env c 8 (mc_operand_ptr f)"
  by (simp add: mc_operand_ptr_def mc_operand64_def exact_def withJ_def) (use exact_bytes[of 8 "le_bytes 8 (jv_fn env f)" env c] in \<open>simp add: exact_def\<close>)

lemma exact_operand32: "exact env c 4 (mc_operand32 w)"
  unfolding mc_operand32_def by (rule exact_bytes) simp

lemma exact_with: "exact env c n (f (g env)) \<Longrightarrow> exact env c n (withJ g f)"
  by (simp add: exact_def withJ_def)

lemma exact_eq: "exact env c n m \<Longrightarrow> n = k \<Longrightarrow> exact env c k m"
  by simp

lemmas exact_rules = exact_bind exact_ret exact_get exact_seq_nil exact_seq_cons exact_operand_ptr exact_operand32 exact_start_function exact_bytes[OF refl]

lemma exact_error_handler: "exact env c 16 (mc_error_handler f)"
  unfolding mc_error_handler_def by (rule exact_eq, (rule exact_rules)+) simp

lemma exact_host_call: "exact env c (42 + 10 * of_bool (jv_backtrace env)) (mc_host_call i)"
proof -
  have mov: "exact env c 2 (mc_mov ebx ecx)" by (simp, rule exact_inert, rule inert_mc2, simp_all add: op_MOV_A_def)
  show ?thesis unfolding mc_host_call_def
    by (rule exact_with, cases "jv_backtrace env";
        (simp only: Let_def if_True if_False mc_align_stack_def mc_restore_stack_def mc_restore_backtrace_basic_def,
         rule exact_eq, (rule mov | rule exact_rules | (rule exact_with, simp only: if_True))+, simp))
qed

lemma exact_host_functions: "exact env c ((42 + 10 * of_bool (jv_backtrace env)) * length is) (mc_host_functions is)"
proof (induction "is")
  case Nil
  then show ?case by (simp add: exact_ret)
next
  case (Cons i "is")
  show ?case unfolding mc_host_functions.simps
    by (rule exact_eq, (rule exact_bind exact_get exact_seq_cons exact_seq_nil exact_start_function exact_host_call Cons)+) simp
qed

text \<open>The five handlers.\<close>

abbreviation "handler_code \<equiv> [bindJ (mc_error_handler ''on_fp_error'') (\<lambda>p. modJ (\<lambda>s. s\<lparr>jc_fpe_handler := p\<rparr>)),
  bindJ (mc_error_handler ''on_call_indirect_error'') (\<lambda>p. modJ (\<lambda>s. s\<lparr>jc_call_indirect_handler := p\<rparr>)),
  bindJ (mc_error_handler ''on_type_error'') (\<lambda>p. modJ (\<lambda>s. s\<lparr>jc_type_error_handler := p\<rparr>)),
  bindJ (mc_error_handler ''on_stack_overflow'') (\<lambda>p. modJ (\<lambda>s. s\<lparr>jc_stack_overflow_handler := p\<rparr>)),
  bindJ (mc_error_handler ''on_memory_error'') (\<lambda>p. modJ (\<lambda>s. s\<lparr>jc_memory_handler := p\<rparr>))]"

lemma exact_handlers: "exact env c 80 (seqJ handler_code)"
proof -
  have m: "exact env c 0 (modJ (\<lambda>s. s\<lparr>jc_fpe_handler := p\<rparr>))" "exact env c 0 (modJ (\<lambda>s. s\<lparr>jc_call_indirect_handler := p\<rparr>))"
    "exact env c 0 (modJ (\<lambda>s. s\<lparr>jc_type_error_handler := p\<rparr>))" "exact env c 0 (modJ (\<lambda>s. s\<lparr>jc_stack_overflow_handler := p\<rparr>))"
    "exact env c 0 (modJ (\<lambda>s. s\<lparr>jc_memory_handler := p\<rparr>))" for p
    by (rule exact_mod, auto simp: jit_ok_def recents_ok_def pinned_def mc_get_addr_def)+
  show ?thesis by (rule exact_eq, (rule exact_seq_cons exact_seq_nil exact_bind exact_error_handler m)+) simp
qed

lemma idle_full:
  assumes "jit_ok c s" and "wf_ga (jc_alloc s)" and "unat (ga_offset (jc_alloc s)) = jc_code s" and "ro_end (jc_recent1 s) \<noteq> Some (jc_code s)"
  shows "jit_idle s"
proof -
  have "pinned s (jc_code s)" using assms(1) get_addr_le[of s] by (auto simp: jit_ok_def intro: pinned_mono)
  with assms show ?thesis by (simp add: jit_idle_def pinned_def jit_ok_def)
qed

text \<open>A block of code in a buffer of its own, from an idle state.\<close>

lemma block_start:
  assumes "jit_idle s"
  obtains "mc_alloc_code n env s = Inl Wasm_bad_alloc"
  | g where "mc_alloc_code n env s = Inr ((), s\<lparr>jc_alloc := g, jc_start := unat (ga_offset (jc_alloc s)), jc_end := unat (ga_offset (jc_alloc s)) + unat n\<rparr>)"
      "jit_ok (unat (ga_offset (jc_alloc s)) + unat n, jc_ft s, jc_params s, jc_locals s, unat (ga_offset (jc_alloc s)), jc_segment s, g)
        (s\<lparr>jc_alloc := g, jc_start := unat (ga_offset (jc_alloc s)), jc_end := unat (ga_offset (jc_alloc s)) + unat n, jc_code := unat (ga_offset (jc_alloc s))\<rparr>)"
      "wf_ga g" "unat (ga_offset g) = unat (ga_offset (jc_alloc s)) + unat n"
proof -
  have "wf_ga (jc_alloc s)" using assms by (simp add: jit_idle_def)
  then show ?thesis
  proof (rule mc_alloc_code_run[where n = n and env = env])
    fix p g assume "mc_alloc_code n env s = Inr ((), s\<lparr>jc_alloc := g, jc_start := p, jc_end := p + unat n\<rparr>)" and p: "p = unat (ga_offset (jc_alloc s))"
      "unat (ga_offset g) = p + unat n" "wf_ga g"
    with that(2)[of g] jit_ok_start[OF assms p(1), of "p + unat n" "jc_ft s" "jc_params s" "jc_locals s" g] show ?thesis by simp
  qed (rule that(1))
qed

lemma modJ_apply: "modJ f env s = Inr ((), f s)"
  by (simp add: modJ_def)

definition fine :: "('a \<times> jit) res \<Rightarrow> ('a \<Rightarrow> jit \<Rightarrow> bool) \<Rightarrow> bool" where
  "fine r P \<longleftrightarrow> (case r of Inl x \<Rightarrow> x \<noteq> Undefined_behaviour \<and> x \<noteq> Assertion_failure | Inr (a, s) \<Rightarrow> P a s)"

lemma fine_bind: "fine (m env s) P \<Longrightarrow> (\<And>a t. P a t \<Longrightarrow> fine (f a env t) Q) \<Longrightarrow> fine (bindJ m f env s) Q"
  by (cases "m env s") (auto simp: fine_def bindJ_def)

abbreviation "assert_code P \<equiv> bindJ (getJ P) (\<lambda>ok. checkJ ok Assertion_failure)"

lemma fine_assert: "P s \<Longrightarrow> Q () s \<Longrightarrow> fine (assert_code P env s) Q"
  by (simp add: fine_def bindJ_def getJ_def checkJ_def retJ_def)

lemma fine_seq2: "fine (a env s) (\<lambda>_. P) \<Longrightarrow> (\<And>t. P t \<Longrightarrow> fine (seqJ ms env t) Q) \<Longrightarrow> fine (seqJ (a # ms) env s) Q"
  unfolding seqJ.simps by (rule fine_bind[where P = "\<lambda>_. P"])

lemma ends_cold_fine: "ends_cold env c h m \<Longrightarrow> jit_ok c s \<Longrightarrow> jc_code s + h \<le> fst c \<Longrightarrow>
    fine (m env s) (\<lambda>_ t. jit_ok c t \<and> jc_code t \<le> jc_code s + h \<and> ro_end (jc_recent1 t) \<noteq> Some (jc_code t))"
  by (simp add: ends_cold_def fine_def)

lemma exact_fine: "exact env c n m \<Longrightarrow> jit_ok c s \<Longrightarrow> jc_code s + n \<le> fst c \<Longrightarrow>
    fine (m env s) (\<lambda>_ t. jit_ok c t \<and> jc_code t = jc_code s + n \<and> jc_recent1 t = jc_recent1 s)"
  by (simp add: exact_def fine_def)

lemma entry_stage:
  assumes "jit_idle s"
  shows "fine (seqJ [mc_alloc_code 128, mc_at_start, mc_sysv_abi_interface, assert_code (\<lambda>s. jc_code s \<le> jc_end s), mc_reclaim] env s) (\<lambda>_. jit_idle)"
  using assms
proof (rule block_start[where n = 128 and env = env])
  let ?p = "unat (ga_offset (jc_alloc s))"
  fix g assume a: "mc_alloc_code 128 env s = Inr ((), s\<lparr>jc_alloc := g, jc_start := ?p, jc_end := ?p + unat (128 :: u64)\<rparr>)" (is "_ = Inr ((), ?t)")
    and ok: "jit_ok (?p + unat (128 :: u64), jc_ft s, jc_params s, jc_locals s, ?p, jc_segment s, g)
        (s\<lparr>jc_alloc := g, jc_start := ?p, jc_end := ?p + unat (128 :: u64), jc_code := ?p\<rparr>)" (is "jit_ok ?c ?u")
    and g: "wf_ga g" "unat (ga_offset g) = ?p + unat (128 :: u64)"
  have "fine (mc_sysv_abi_interface env ?u) (\<lambda>_ t. jit_ok ?c t \<and> jc_code t \<le> ?p + 128 \<and> ro_end (jc_recent1 t) \<noteq> Some (jc_code t))"
    using ends_cold_fine[OF entry_cold ok, of env] by simp
  then have "fine (seqJ [mc_sysv_abi_interface, assert_code (\<lambda>s. jc_code s \<le> jc_end s), mc_reclaim] env ?u) (\<lambda>_. jit_idle)"
  proof (rule fine_seq2)
    fix t assume t: "jit_ok ?c t \<and> jc_code t \<le> ?p + 128 \<and> ro_end (jc_recent1 t) \<noteq> Some (jc_code t)"
    then have e: "jc_end t = ?p + 128" "jc_alloc t = g" by (auto simp: jit_ok_def)
    from finalize_run[of ?c t env] t e g obtain t' where "mc_finalize env t = Inr (jc_start t - jc_segment t, t')" "jit_idle t'" by auto
    then have "fine (mc_reclaim env t) (\<lambda>_. jit_idle)" by (cases "mc_reclaim env t") (auto simp: fine_def mc_finalize_def bindJ_def getJ_def)
    with t e show "fine (seqJ [assert_code (\<lambda>s. jc_code s \<le> jc_end s), mc_reclaim] env t) (\<lambda>_. jit_idle)"
      by (simp add: seqJ_pair bindJ_def getJ_def checkJ_def retJ_def)
  qed
  with a show ?thesis by (simp add: seqJ.simps(2)[of "mc_alloc_code _"] seqJ.simps(2)[of "modJ _"] bindJ_def mc_at_start_def modJ_apply)
qed (simp add: seqJ.simps(2) bindJ_def fine_def)

lemma handler_stage:
  assumes "jit_idle s"
  shows "fine (seqJ (mc_alloc_code 80 # mc_at_start # handler_code @ [assert_code (\<lambda>s. jc_code s = jc_end s)]) env s)
    (\<lambda>_ t. jit_idle t \<and> jc_code t = unat (ga_offset (jc_alloc t)))"
  using assms
proof (rule block_start[where n = 80 and env = env])
  let ?p = "unat (ga_offset (jc_alloc s))" and ?Q = "\<lambda>_ t. jit_idle t \<and> jc_code t = unat (ga_offset (jc_alloc t))"
  fix g assume a: "mc_alloc_code 80 env s = Inr ((), s\<lparr>jc_alloc := g, jc_start := ?p, jc_end := ?p + unat (80 :: u64)\<rparr>)" (is "_ = Inr ((), ?t)")
    and ok: "jit_ok (?p + unat (80 :: u64), jc_ft s, jc_params s, jc_locals s, ?p, jc_segment s, g)
        (s\<lparr>jc_alloc := g, jc_start := ?p, jc_end := ?p + unat (80 :: u64), jc_code := ?p\<rparr>)" (is "jit_ok ?c ?u")
    and g: "wf_ga g" "unat (ga_offset g) = ?p + unat (80 :: u64)"
  have r: "recent_ok ?p (jc_recent1 s)" using ok by (simp add: jit_ok_def recents_ok_def)
  have "fine (seqJ handler_code env ?u) (\<lambda>_ t. jit_ok ?c t \<and> jc_code t = ?p + 80 \<and> jc_recent1 t = jc_recent1 s)"
    using exact_fine[OF exact_handlers ok, of env] by simp
  then have "fine (seqJ (handler_code @ [assert_code (\<lambda>s. jc_code s = jc_end s)]) env ?u) ?Q"
    unfolding seqJ_append
  proof (rule fine_bind)
    fix u t assume t: "jit_ok ?c t \<and> jc_code t = ?p + 80 \<and> jc_recent1 t = jc_recent1 s"
    then have e: "jc_end t = ?p + 80" "jc_alloc t = g" by (auto simp: jit_ok_def)
    have "jit_idle t" by (rule idle_full) (use t e g r in \<open>auto simp: recent_ok_def\<close>)
    with t e g show "fine (seqJ [assert_code (\<lambda>s. jc_code s = jc_end s)] env t) ?Q" unfolding seqJ_single by (intro fine_assert) simp_all
  qed
  with a show ?thesis by (simp add: seqJ.simps(2)[of "mc_alloc_code _"] seqJ.simps(2)[of "modJ _"] bindJ_def mc_at_start_def modJ_apply)
qed (simp add: seqJ.simps(2) bindJ_def fine_def)

abbreviation "host_code num_imported bt \<equiv> [mc_alloc_code ((42 + 10 * of_bool bt) * of_nat num_imported), mc_host_functions [0..<num_imported]]"

lemma host_stage:
  assumes "jit_idle s" and "jc_code s = unat (ga_offset (jc_alloc s))" and "n < 2 ^ 32"
  shows "fine (seqJ [seqJ (host_code n (jv_backtrace env)), assert_code (\<lambda>s. jc_code s = jc_end s)] env s) (\<lambda>_. jit_idle)"
proof -
  let ?p = "unat (ga_offset (jc_alloc s))" and ?n = "(42 + 10 * of_bool (jv_backtrace env)) * of_nat n :: u64"
  define k where "k = (42 + 10 * of_bool (jv_backtrace env)) * n"
  have k: "unat ?n = k" using assms(3) by (cases "jv_backtrace env") (simp_all add: k_def unat_word_ariths unat_of_nat)
  from assms(1) show ?thesis
  proof (rule block_start[where n = ?n and env = env])
    fix g assume a: "mc_alloc_code ?n env s = Inr ((), s\<lparr>jc_alloc := g, jc_start := ?p, jc_end := ?p + unat ?n\<rparr>)" (is "_ = Inr ((), ?t)")
      and ok: "jit_ok (?p + unat ?n, jc_ft s, jc_params s, jc_locals s, ?p, jc_segment s, g)
          (s\<lparr>jc_alloc := g, jc_start := ?p, jc_end := ?p + unat ?n, jc_code := ?p\<rparr>)" (is "jit_ok ?c ?u")
      and g: "wf_ga g" "unat (ga_offset g) = ?p + unat ?n"
    have u: "?t = ?u" using assms(2) by simp
    have r: "recent_ok ?p (jc_recent1 s)" "ro_end (jc_recent1 s) \<noteq> Some ?p" using assms(1) ok by (simp_all add: jit_ok_def recents_ok_def jit_idle_def)
    have "fine (mc_host_functions [0..<n] env ?u) (\<lambda>_ t. jit_ok ?c t \<and> jc_code t = ?p + k \<and> jc_recent1 t = jc_recent1 s)"
      using exact_fine[OF exact_host_functions ok, of env "[0..<n]"] k by (simp add: k_def)
    then have f: "fine (mc_host_functions [0..<n] env ?u) (\<lambda>_ t. jit_idle t \<and> jc_code t = jc_end t)"
    proof -
      have "jit_idle t \<and> jc_code t = jc_end t" if t: "jit_ok ?c t" "jc_code t = ?p + k" "jc_recent1 t = jc_recent1 s" for t
      proof -
        have e: "jc_end t = ?p + k" "jc_alloc t = g" using t(1) k by (auto simp: jit_ok_def)
        have "jit_idle t" by (rule idle_full[OF t(1)]) (use t e g r k in \<open>auto simp: recent_ok_def\<close>)
        with t e show ?thesis by simp
      qed
      with \<open>fine (mc_host_functions [0..<n] env ?u) _\<close> show ?thesis by (auto simp: fine_def split: sum.splits)
    qed
    have "seqJ [seqJ (host_code n (jv_backtrace env)), assert_code (\<lambda>s. jc_code s = jc_end s)] env s =
        bindJ (mc_host_functions [0..<n]) (\<lambda>_. assert_code (\<lambda>s. jc_code s = jc_end s)) env ?u"
      using a u by (simp add: seqJ_pair bindJ_def)
    moreover have "fine (bindJ (mc_host_functions [0..<n]) (\<lambda>_. assert_code (\<lambda>s. jc_code s = jc_end s)) env ?u) (\<lambda>_. jit_idle)"
      using f by (rule fine_bind) (intro fine_assert, auto)
    ultimately show ?thesis by (simp only:)
  qed (simp add: seqJ.simps(2) bindJ_def fine_def)
qed

lemma construct_run:
  assumes "jit_idle s" and "get_imported_functions_size (jv_mod env) < 2 ^ 32"
  shows "fine (mc_construct env s) (\<lambda>_. jit_idle)"
proof -
  let ?first = "[mc_alloc_code 128, mc_at_start, mc_sysv_abi_interface, assert_code (\<lambda>s. jc_code s \<le> jc_end s), mc_reclaim]"
  let ?second = "mc_alloc_code 80 # mc_at_start # handler_code @ [assert_code (\<lambda>s. jc_code s = jc_end s)]"
  let ?third = "[withJ (\<lambda>env. get_imported_functions_size (jv_mod env)) (\<lambda>n. withJ jv_backtrace (\<lambda>bt. seqJ (host_code n bt))), assert_code (\<lambda>s. jc_code s = jc_end s)]"
  have eq: "mc_construct = seqJ (?first @ ?second @ ?third)" by (simp add: mc_construct_def)
  have third: "fine (seqJ ?third env t) (\<lambda>_. jit_idle)" if "jit_idle t" "jc_code t = unat (ga_offset (jc_alloc t))" for t
    using host_stage[OF that assms(2), of env] by (simp only: seqJ.simps(2)[of _ "[_]"] bindJ_def withJ_def)
  have second: "fine (seqJ (?second @ ?third) env t) (\<lambda>_. jit_idle)" if "jit_idle t" for t
    unfolding seqJ_append[of ?second] using handler_stage[OF that] by (rule fine_bind) (use third in blast)
  show ?thesis unfolding eq seqJ_append[of ?first] using entry_stage[OF assms(1)] by (rule fine_bind) (rule second)
qed

section \<open>The functions of a module\<close>

text \<open>\<open>write_code_out\<close> with the compiler as its writer: each function comes with its locals, the calls of the parser and its stack usage.\<close>

fun jit_functions :: "nat \<Rightarrow> (local_entry list \<times> jit_call list \<times> u64) list \<Rightarrow> nat list jm" where
  "jit_functions k [] = retJ []"
| "jit_functions k ((locals, calls, usage) # fs) =
     withJ jv_mod (\<lambda>m. bindJ (liftJ (bindE (at_checked (m_functions m) k) (\<lambda>t. at_checked (m_types m) (unat t)))) (\<lambda>ft.
       bindJ (jit_function locals k ft calls usage) (\<lambda>offset. bindJ (jit_functions (Suc k) fs) (\<lambda>offsets. retJ (offset # offsets)))))"

definition jit_compile :: "growable_allocator \<Rightarrow> jit_env \<Rightarrow> (local_entry list \<times> jit_call list \<times> u64) list \<Rightarrow> (nat list \<times> jit) res" where
  "jit_compile g env fs = bindE (mc_new g env) (\<lambda>s. jit_functions 0 fs env s)"

text \<open>What holds of the functions of a parsed module: their types and bodies exist, and the calls belong to the bytes of the body.\<close>

fun fn_ok :: "jit_env \<Rightarrow> nat \<Rightarrow> local_entry list \<times> jit_call list \<times> u64 \<Rightarrow> bool" where
  "fn_ok env k (locals, calls, usage) = (let m = jv_mod env; ft = m_types m ! unat (m_functions m ! k) in
     k < length (m_functions m) \<and> unat (m_functions m ! k) < length (m_types m) \<and> k < length (m_code m) \<and>
     sum_list (map wasm_length calls) \<le> unat (fb_size (m_code m ! k)) \<and>
     (case (function_parameters ft, function_locals locals) of (Inr params, Inr groups) \<Rightarrow> calls_ok env (ft, params, groups) 0 calls | _ \<Rightarrow> True))"

fun fns_ok :: "jit_env \<Rightarrow> nat \<Rightarrow> (local_entry list \<times> jit_call list \<times> u64) list \<Rightarrow> bool" where
  "fns_ok env k [] = True"
| "fns_ok env k (f # fs) = (fn_ok env k f \<and> fns_ok env (Suc k) fs)"

definition code_size :: "jit \<Rightarrow> nat" where
  "code_size s = unat (ga_offset (jc_alloc s)) - jc_segment s"

lemma functions_run:
  assumes "jit_build env" and "jit_idle s" and "fns_ok env k fs"
  shows "fine (jit_functions k fs env s) (\<lambda>os t. jit_idle t \<and> length os = length fs \<and> sorted (code_size s # os @ [code_size t]))"
  using assms(2,3)
proof (induction fs arbitrary: k s)
  case Nil
  then show ?case by (simp add: fine_def retJ_def)
next
  case (Cons f fs)
  obtain locals calls usage where f: "f = (locals, calls, usage)" by (cases f)
  let ?m = "jv_mod env"
  let ?ft = "m_types ?m ! unat (m_functions ?m ! k)" and ?body = "m_code ?m ! k"
  from Cons.prems(2) have ok: "k < length (m_functions ?m)" "unat (m_functions ?m ! k) < length (m_types ?m)" "k < length (m_code ?m)"
    "sum_list (map wasm_length calls) \<le> unat (fb_size ?body)" "fns_ok env (Suc k) fs"
    "\<And>params groups. function_parameters ?ft = Inr params \<Longrightarrow> function_locals locals = Inr groups \<Longrightarrow> calls_ok env (?ft, params, groups) 0 calls"
    by (auto simp: f Let_def)
  have "jit_body env k ?ft ?body" using ok(1-3) by (simp add: jit_body_def)
  from function_run[where locals = locals and usage = usage, OF assms(1) Cons.prems(1) this ok(6) ok(4)]
  have one: "fine (jit_function locals k ?ft calls usage env s) (\<lambda>p t. jit_idle t \<and> jc_segment t = jc_segment s \<and> p = code_size s \<and> code_size s \<le> code_size t)"
    by (auto simp: fine_def code_size_def split: sum.splits)
  have "fine (bindJ (jit_function locals k ?ft calls usage) (\<lambda>offset. bindJ (jit_functions (Suc k) fs) (\<lambda>offsets. retJ (offset # offsets))) env s)
      (\<lambda>os t. jit_idle t \<and> length os = length (f # fs) \<and> sorted (code_size s # os @ [code_size t]))"
    using one
  proof (rule fine_bind)
    fix offset t assume t: "jit_idle t \<and> jc_segment t = jc_segment s \<and> offset = code_size s \<and> code_size s \<le> code_size t"
    then have "jit_idle t" by simp
    from Cons.IH[OF this ok(5)]
    show "fine (bindJ (jit_functions (Suc k) fs) (\<lambda>offsets. retJ (offset # offsets)) env t)
      (\<lambda>os t. jit_idle t \<and> length os = length (f # fs) \<and> sorted (code_size s # os @ [code_size t]))"
      by (rule fine_bind) (use t in \<open>auto simp: fine_def retJ_def\<close>)
  qed
  then show ?case using ok(1,2) by (simp add: f withJ_def bindJ_def liftJ_def at_checked_def)
qed

lemma compile_run:
  assumes "page_ok (of_nat (jv_page env)) g" and "jit_build env" and "get_imported_functions_size (jv_mod env) < 2 ^ 32" and "fns_ok env 0 fs"
  shows "fine (jit_compile g env fs) (\<lambda>os t. jit_idle t \<and> length os = length fs \<and> sorted (os @ [code_size t]))"
proof -
  obtain base g' where g: "ga_start_code (of_nat (jv_page env)) g = (base, g')" by fastforce
  have "wf_ga g'" using ga_start_code_wf(1)[OF assms(1)] g by simp
  then have "\<exists>s. jit_idle s \<and> mc_new g env = bindE (mc_construct env s) (\<lambda>(_, s). Inr s)"
    unfolding mc_new_def g
    by (simp add: Let_def) (rule exI, rule conjI[rotated], rule refl, simp add: jit_idle_def recents_ok_def relocs_ok_def no_recent_def recent_ok_def)
  then obtain s where s: "jit_idle s" "mc_new g env = bindE (mc_construct env s) (\<lambda>(_, s). Inr s)" by blast
  have eq: "jit_compile g env fs = bindJ mc_construct (\<lambda>_. jit_functions 0 fs) env s"
    by (cases "mc_construct env s") (simp_all add: jit_compile_def s(2) bindJ_def case_prod_beta)
  show ?thesis unfolding eq using construct_run[OF s(1) assms(3)]
  proof (rule fine_bind)
    fix u t assume "jit_idle t"
    from functions_run[OF assms(2) this assms(4)] show "fine (jit_functions 0 fs env t) (\<lambda>os t. jit_idle t \<and> length os = length fs \<and> sorted (os @ [code_size t]))"
      by (auto simp: fine_def split: sum.splits)
  qed
qed

end
