(* ===== verification/Vm_Jit_Frame.thy ===== *)
theory Vm_Jit_Frame
  imports Vm_Jit_Module
begin

text \<open>
  Where the compiled code keeps the parameters and locals of a function: every index below the number of locals has a slot
  of its own, parameters above the return address, locals below the frame pointer.
\<close>

section \<open>Parameters\<close>

definition slot_size :: "value_type \<Rightarrow> nat" where
  "slot_size t = (if t = t_v128 then 16 else 8)"

definition slots_size :: "value_type list \<Rightarrow> nat" where
  "slots_size ts = sum_list (map slot_size ts)"

lemma slots_size_simps [simp]: "slots_size [] = 0" "slots_size (t # ts) = slot_size t + slots_size ts" "slots_size (ts @ us) = slots_size ts + slots_size us"
  by (simp_all add: slots_size_def)

lemma slots_size_take_Suc: "k < length ts \<Longrightarrow> slots_size (take (Suc k) ts) = slots_size (take k ts) + slot_size (ts ! k)"
  by (simp add: take_Suc_conv_app_nth)

lemma slots_size_take_mono: "j \<le> k \<Longrightarrow> slots_size (take j ts) \<le> slots_size (take k ts)"
  by (metis append_take_drop_id le_add1 slots_size_simps(3) take_take min.absorb1)

lemma param_offsets_slots:
  "param_offsets off ts = Inr os \<Longrightarrow> length os = length ts \<and>
    (\<forall>k < length ts. unat (os ! k) = unat off + slots_size (take k ts) \<and> unat (os ! k) \<le> 0x7fffffff)"
proof (induction ts arbitrary: off os)
  case Nil
  then show ?case by simp
next
  case (Cons t ts)
  let ?off = "off + (if t = t_v128 then 16 else 8)"
  from Cons.prems obtain us where us: "param_offsets ?off ts = Inr us" "os = off # us" and le: "unat off \<le> 0x7fffffff"
    by (auto simp: res_simps word_less_nat_alt not_less)
  have "unat ?off = unat off + slot_size t" using le by (auto simp: slot_size_def unat_word_ariths)
  then show ?case using Cons.IH[OF us(1)] us(2) le by (auto simp: nth_Cons split: nat.splits)
qed

lemma sint_small: "unat (w :: u32) \<le> 0x7fffffff \<Longrightarrow> sint w = int (unat w)"
proof -
  assume "unat w \<le> 0x7fffffff"
  then have le: "int (unat w) \<le> 0x7fffffff" "0 \<le> int (unat w)" by linarith+
  have "signed_take_bit 31 n = n" if "n \<le> 0x7fffffff" "0 \<le> n" for n :: int
    by (rule signed_take_bit_int_eq_self) (use that in simp_all)
  from this[OF le] show ?thesis unfolding sint_uint by simp
qed

section \<open>Locals\<close>

lemma local_groups_slot:
  assumes "local_groups off fo ls = Inr gs" and "unat off + length (expand_locals ls) < 2 ^ 32" and "unat off \<le> unat p" and "unat p < unat off + length (expand_locals ls)"
  shows "local_frame_offset gs p = Inr (fo - int (slots_size (take (Suc (unat p - unat off)) (expand_locals ls))))"
  using assms
proof (induction ls arbitrary: off fo gs)
  case Nil
  then show ?case by simp
next
  case (Cons l ls)
  let ?n = "unat (le_count l)" and ?size = "slot_size (le_type l)" and ?off = "off + le_count l"
  have off: "unat ?off = unat off + ?n" using Cons.prems(2) by (simp add: unat_word_ariths)
  from Cons.prems(1) obtain hs where hs: "local_groups ?off (fo - int ?size * int ?n) ls = Inr hs"
    and gs: "gs = \<lparr>lg_end = ?off, lg_end_offset = fo - int ?size * int ?n, lg_elem_size = ?size\<rparr> # hs"
    by (auto simp: Let_def res_simps slot_size_def)
  have rep: "slots_size (replicate k (le_type l)) = ?size * k" for k by (induction k) simp_all
  show ?case
  proof (cases "unat p < unat ?off")
    case True
    then have lt: "p < ?off" "\<not> ?off \<le> p" by (simp_all add: word_less_nat_alt word_le_nat_alt)
    have d: "unat (?off - p - 1) = unat ?off - unat p - 1" using True by (simp add: unat_sub_if' word_less_nat_alt)
    have k: "Suc (unat p - unat off) + (unat ?off - unat p - 1) = ?n" using True off Cons.prems(3) by simp
    have "take (Suc (unat p - unat off)) (expand_locals (l # ls)) = replicate (Suc (unat p - unat off)) (le_type l)"
      using k by (subst expand_locals_simps, subst take_append) (simp add: min_def del: take_Suc replicate_Suc)
    moreover have "int ?size * int ?n = int (?size * Suc (unat p - unat off)) + int (unat ?off - unat p - 1) * int ?size"
      unfolding k[symmetric] of_nat_add of_nat_mult by (simp only: ring_distribs mult.commute)
    ultimately show ?thesis using lt d by (simp add: local_frame_offset_def gs rep del: expand_locals_simps replicate.simps take_Suc)
  next
    case False
    then have ge: "?off \<le> p" by (simp add: word_le_nat_alt)
    have "local_frame_offset hs p = Inr (fo - int ?size * int ?n - int (slots_size (take (Suc (unat p - unat ?off)) (expand_locals ls))))"
      by (rule Cons.IH[OF hs]) (use Cons.prems False off in auto)
    moreover have "take (Suc (unat p - unat off)) (expand_locals (l # ls)) = replicate ?n (le_type l) @ take (Suc (unat p - unat ?off)) (expand_locals ls)"
      using False off by (simp add: Suc_diff_le)
    ultimately show ?thesis using ge by (simp add: local_frame_offset_def gs rep del: expand_locals_simps)
  qed
qed

section \<open>The frame\<close>

definition frame_slot :: "value_type list \<Rightarrow> value_type list \<Rightarrow> nat \<Rightarrow> int" where
  "frame_slot ps ls i = (if i < length ps then 16 + int (slots_size (drop (Suc i) ps)) else - int (slots_size (take (Suc (i - length ps)) ls)))"

lemma frame_offset_slot:
  assumes "function_parameters ft = Inr params" and "function_locals locals = Inr groups" and "length (param_types ft) + length (expand_locals locals) < 2 ^ 32"
    and "unat i < length (param_types ft) + length (expand_locals locals)"
  shows "local_offset (ft, params, groups) i = Inr (frame_slot (param_types ft) (expand_locals locals) (unat i))"
proof (cases "unat i < length (param_types ft)")
  case True
  from assms(1) obtain os where os: "param_offsets 16 (rev (param_types ft)) = Inr os" "params = rev os" by (auto simp: function_parameters_def res_simps)
  let ?n = "length (param_types ft)" let ?k = "?n - Suc (unat i)"
  note s = param_offsets_slots[OF os(1)]
  have k: "unat (os ! ?k) = 16 + slots_size (take ?k (rev (param_types ft)))" "unat (os ! ?k) \<le> 0x7fffffff"
    using conjunct2[OF s, rule_format, of ?k] True by (simp_all del: of_nat_numeral split del: if_split cong: conj_cong)
  have rev: "slots_size (rev ts) = slots_size ts" for ts by (induction ts) simp_all
  have "take ?k (rev (param_types ft)) = rev (drop (Suc (unat i)) (param_types ft))" by (simp add: rev_drop)
  with k rev have "sint (os ! ?k) = 16 + int (slots_size (drop (Suc (unat i)) (param_types ft)))" by (simp add: sint_small)
  moreover have "params ! unat i = os ! ?k" using s True os(2) by (simp add: rev_nth)
  ultimately show ?thesis using True s os(2) by (simp add: at_unchecked_def frame_slot_def)
next
  case False
  let ?n = "length (param_types ft)" and ?p = "i - of_nat (length (param_types ft)) :: u32"
  have n: "unat (of_nat ?n :: u32) = ?n" using assms(3) by (simp add: unat_of_nat)
  have p: "unat ?p = unat i - ?n" using False n by (simp add: unat_sub_if' del: unat_of_nat)
  have "local_frame_offset groups ?p = Inr (0 - int (slots_size (take (Suc (unat ?p - unat (0 :: u32))) (expand_locals locals))))"
    by (rule local_groups_slot[OF assms(2)[unfolded function_locals_def]]) (use assms(3,4) p False in auto)
  with False p show ?thesis by (simp add: frame_slot_def)
qed

lemma frame_slots_disjoint:
  assumes "i < j" and "j < length ps + length ls"
  shows "frame_slot ps ls j + int (slot_size ((ps @ ls) ! j)) \<le> frame_slot ps ls i"
proof (cases "j < length ps")
  case True
  then have "drop (Suc i) ps = take (j - Suc i) (drop (Suc i) ps) @ ps ! j # drop (Suc j) ps"
    using assms(1) by (metis Cons_nth_drop_Suc Suc_leI append_take_drop_id drop_drop le_add_diff_inverse2)
  then have "slots_size (drop (Suc i) ps) = slots_size (take (j - Suc i) (drop (Suc i) ps)) + slot_size (ps ! j) + slots_size (drop (Suc j) ps)"
    by (metis (no_types) add.assoc slots_size_simps(2,3))
  with True assms(1) show ?thesis by (simp add: frame_slot_def nth_append)
next
  case False
  let ?j = "j - length ps"
  have j: "slots_size (take (Suc ?j) ls) = slots_size (take ?j ls) + slot_size (ls ! ?j)" using False assms(2) by (simp add: slots_size_take_Suc)
  show ?thesis
  proof (cases "i < length ps")
    case True
    with False j show ?thesis by (simp add: frame_slot_def nth_append)
  next
    case False': False
    have "slots_size (take (Suc (i - length ps)) ls) \<le> slots_size (take ?j ls)" by (rule slots_size_take_mono) (use assms(1) False' in simp)
    with False False' j show ?thesis by (simp add: frame_slot_def nth_append)
  qed
qed

end
