(* ===== verification/Vm_Jit_Decode.thy ===== *)
theory Vm_Jit_Decode
  imports Vm_Jit_Asm
begin

text \<open>
  Reading an instruction back.  The decoder below follows the instruction format of the processor: REX or VEX prefix,
  opcode, ModRM byte, SIB byte and displacement.  It is a specification, written without regard to how the
  assembler chooses an encoding; every instruction of the assembler with operands of \<open>operand_ok\<close> is read back as the
  instruction that was meant.
\<close>

section \<open>The format of an instruction\<close>

text \<open>The displacement after a ModRM byte, by its two mode bits.\<close>

fun decode_disp :: "nat \<Rightarrow> u8 list \<Rightarrow> (int \<times> u8 list) option" where
  "decode_disp 0 bs = Some (0, bs)"
| "decode_disp (Suc 0) bs = (case bs of [] \<Rightarrow> None | b # bs \<Rightarrow> Some (sint b, bs))"
| "decode_disp (Suc (Suc 0)) bs = (if length bs < 4 then None else Some (sint (le_word (take 4 bs) :: u32), drop 4 bs))"
| "decode_disp _ bs = None"

text \<open>
  The three fields of a byte, two, three and three bits wide; \<open>ext\<close> is the bit of the prefix that extends a register number.
\<close>

definition byte_fields :: "u8 \<Rightarrow> nat \<times> nat \<times> nat" where
  "byte_fields b = (unat b div 64, unat b div 8 mod 8, unat b mod 8)"

abbreviation ext :: "bool \<Rightarrow> nat \<Rightarrow> nat" where
  "ext e n \<equiv> 8 * of_bool e + n"

text \<open>
  The register field and the operand of the register-or-memory field.  Addresses without a base register, relative to
  the instruction pointer, or with a scaled index are no operands of the assembler.
\<close>

definition with_disp :: "nat \<Rightarrow> (int \<Rightarrow> operand) \<Rightarrow> nat \<Rightarrow> u8 list \<Rightarrow> (nat \<times> operand \<times> u8 list) option" where
  "with_disp reg addr mode bs = map_option (\<lambda>(d, bs). (reg, addr d, bs)) (decode_disp mode bs)"

fun decode_rm :: "bool \<Rightarrow> bool \<Rightarrow> bool \<Rightarrow> u8 list \<Rightarrow> (nat \<times> operand \<times> u8 list) option" where
  "decode_rm R X B [] = None"
| "decode_rm R X B (m # bs) = (case byte_fields m of (mode, reg, rm) \<Rightarrow>
     if mode = 3 then Some (ext R reg, R64 (ext B rm), bs)
     else if rm = 4 then (case bs of [] \<Rightarrow> None | s # bs \<Rightarrow> (case byte_fields s of (scale, index, base) \<Rightarrow>
       if base = 5 \<and> mode = 0 then None
       else if ext X index = 4 then with_disp (ext R reg) (Mem (ext B base)) mode bs
       else if scale \<noteq> 0 then None
       else with_disp (ext R reg) (Sib (ext X index) (ext B base)) mode bs))
     else if rm = 5 \<and> mode = 0 then None
     else with_disp (ext R reg) (Mem (ext B rm)) mode bs)"

text \<open>
  Instructions without VEX prefix, given the number of bytes of the opcode: operand size, opcode, register field and operand.
  The prefixes 66, F2 and F3, which some opcodes begin with, come before REX; a REX byte in front of one would be ignored.
\<close>

definition decode_rex :: "u8 list \<Rightarrow> (bool \<times> bool \<times> bool \<times> bool) \<times> u8 list" where
  "decode_rex bs = (case bs of [] \<Rightarrow> ((False, False, False, False), [])
     | b # rest \<Rightarrow> if unat b div 16 = 4 then ((bit b 3, bit b 2, bit b 1, bit b 0), rest) else ((False, False, False, False), bs))"

definition legacy_prefix :: "u8 \<Rightarrow> bool" where
  "legacy_prefix b \<longleftrightarrow> b \<in> {0x66, 0xf2, 0xf3}"

definition decode_ia32 :: "nat \<Rightarrow> u8 list \<Rightarrow> (bool \<times> u8 list \<times> nat \<times> operand \<times> u8 list) option" where
  "decode_ia32 n bs = (let ps = takeWhile legacy_prefix bs; k = n - length ps in
     case decode_rex (drop (length ps) bs) of ((W, R, X, B), bs) \<Rightarrow>
     map_option (\<lambda>(reg, r_m, rest). (W, ps @ take k bs, reg, r_m, rest)) (decode_rm R X B (drop k bs)))"

text \<open>Instructions with VEX prefix, whose bits for the registers are stored inverted.\<close>

fun decode_mmmm :: "nat \<Rightarrow> vex_mmmm" where
  "decode_mmmm n = (if n = 1 then Mmmm_0F else if n = 2 then Mmmm_0F38 else if n = 3 then Mmmm_0F3A else Mmmm_none)"

fun decode_pp :: "nat \<Rightarrow> vex_pp" where
  "decode_pp n = (if n = 0 then Pp_none else if n = 1 then Pp_66 else if n = 2 then Pp_F3 else Pp_F2)"

fun decode_vex :: "u8 list \<Rightarrow> (vex_pp \<times> vex_mmmm \<times> bool \<times> bool \<times> u8 \<times> nat \<times> nat \<times> operand \<times> u8 list) option" where
  "decode_vex (p # b # bs) =
     (if p = 0xc5 then (case bs of [] \<Rightarrow> None | op # bs \<Rightarrow>
        map_option (\<lambda>(reg, r_m, rest). (decode_pp (unat b mod 4), Mmmm_0F, False, bit b 2, op, 15 - unat b div 8 mod 16, reg, r_m, rest))
          (decode_rm (\<not> bit b 7) False False bs))
      else if p = 0xc4 then (case bs of c # op # bs \<Rightarrow>
        map_option (\<lambda>(reg, r_m, rest). (decode_pp (unat c mod 4), decode_mmmm (unat b mod 32), bit c 7, bit c 2, op, 15 - unat c div 8 mod 16, reg, r_m, rest))
          (decode_rm (\<not> bit b 7) (\<not> bit b 6) (\<not> bit b 5) bs) | _ \<Rightarrow> None)
      else None)"
| "decode_vex _ = None"

section \<open>Operands that can be encoded\<close>

text \<open>
  Not in the format: \<open>r12\<close> as a base without index needs a SIB byte, which the assembler writes for \<open>rsp\<close> only;
  \<open>r13\<close> as a base needs a displacement byte, which it writes for \<open>rbp\<close> only; \<open>rsp\<close> is no index.
\<close>

definition disp32 :: "int \<Rightarrow> bool" where
  "disp32 d \<longleftrightarrow> - 0x80000000 \<le> d \<and> d \<le> 0x7FFFFFFF"

fun operand_ok :: "operand \<Rightarrow> bool" where
  "operand_ok (Mem b d) \<longleftrightarrow> b < 16 \<and> b \<noteq> 12 \<and> (b = 13 \<longrightarrow> d \<noteq> 0) \<and> disp32 d"
| "operand_ok (Sib r1 r2 d) \<longleftrightarrow> r1 < 16 \<and> r2 < 16 \<and> \<not> unencodable (Sib r1 r2 d) \<and> (r2 = 13 \<longrightarrow> d \<noteq> 0) \<and> disp32 d"
| "operand_ok (Sized n m) \<longleftrightarrow> operand_ok m"
| "operand_ok (Opext n) \<longleftrightarrow> n < 8"
| "operand_ok r \<longleftrightarrow> reg_num r < 16"

fun plain_rm :: "operand \<Rightarrow> operand" where
  "plain_rm (Mem b d) = Mem b d"
| "plain_rm (Sib r1 r2 d) = Sib r1 r2 d"
| "plain_rm (Sized n m) = plain_rm m"
| "plain_rm r = R64 (reg_num r)"

section \<open>Bytes\<close>

lemma less_eight: "(n :: nat) < 8 \<Longrightarrow> n \<in> {0, 1, 2, 3, 4, 5, 6, 7}"
  by auto

lemma byte_fields_modrm:
  assumes "mode \<in> {0x00, 0x40, 0x80, 0xc0}"
  shows "byte_fields (modrm mode reg r_m) = (unat mode div 64, reg mod 8, r_m mod 8)"
proof -
  have "reg mod 8 \<in> {0, 1, 2, 3, 4, 5, 6, 7}" "r_m mod 8 \<in> {0, 1, 2, 3, 4, 5, 6, 7}" by (rule less_eight, simp)+
  with assms show ?thesis by (elim insertE emptyE; simp add: modrm_def byte_fields_def)
qed

lemma byte_fields_sib: "byte_fields (push_bit 3 (of_nat (r1 mod 8)) OR of_nat (r2 mod 8)) = (0, r1 mod 8, r2 mod 8)"
  using byte_fields_modrm[of 0 r1 r2] by (simp add: modrm_def)

lemma byte_fields_rsp: "byte_fields 0x24 = (0, 4, 4)"
  by (simp add: byte_fields_def)

lemma sint_disp8: "fits8 d \<Longrightarrow> sint (word_of_int d :: u8) = d"
  by (simp add: fits8_def sint_sbintrunc' signed_take_bit_int_eq_self)

lemma sint_disp32: "disp32 d \<Longrightarrow> sint (word_of_int d :: u32) = d"
  by (simp add: disp32_def sint_sbintrunc' signed_take_bit_int_eq_self)

lemma ext_mod: "(n :: nat) < 16 \<Longrightarrow> ext (bit n 3) (n mod 8) = n"
proof -
  assume n: "n < 16"
  have "n div 8 = of_bool (8 \<le> n)" using n by (cases "8 \<le> n") (auto simp: le_div_geq)
  then have "bit n 3 \<longleftrightarrow> 8 \<le> n" by (simp add: bit_iff_odd)
  then show ?thesis using n by (cases "8 \<le> n") (simp_all add: le_mod_geq)
qed

lemma small_bit: "(n :: nat) < 8 \<Longrightarrow> \<not> bit n 3"
  by (simp add: bit_iff_odd)

lemma decode_le_disp: "disp32 d \<Longrightarrow> decode_disp 2 (le_bytes 4 (word_of_int d :: u32) @ rest) = Some (d, rest)"
  by (simp add: numeral_2_eq_2 le_word_le_bytes sint_disp32 del: le_bytes.simps)

lemmas decode_simps = byte_fields_modrm byte_fields_sib byte_fields_rsp sint_disp8 decode_le_disp with_disp_def ext_mod

section \<open>Operands\<close>

text \<open>The bit of the prefix that extends the index.\<close>

fun rm_x :: "operand \<Rightarrow> bool" where
  "rm_x (Sib r1 r2 d) = bit r1 3" | "rm_x (Sized n m) = rm_x m" | "rm_x _ = False"

lemma decode_mem:
  assumes "operand_ok (Mem b d)" and "reg < 16"
  shows "decode_rm (bit reg 3) False (bit b 3) (modrm_sib_disp (Mem b d) reg @ rest) = Some (reg, Mem b d, rest)"
proof -
  have b: "b < 16" "b \<noteq> 12" "b = 13 \<longrightarrow> d \<noteq> 0" "disp32 d" using assms(1) by auto
  have four: "b mod 8 = 4 \<longleftrightarrow> b = 4" and five: "b mod 8 = 5 \<longleftrightarrow> b = 5 \<or> b = 13" using b(1,2) by presburger+
  have ext5: "8 * of_bool (bit (5 :: nat) 3) + 5 = (5 :: nat)" "8 * of_bool (bit (4 :: nat) 3) + 4 = (4 :: nat)" by simp_all
  consider "d = 0" | "d \<noteq> 0" "fits8 d" | "d \<noteq> 0" "\<not> fits8 d" by blast
  then show ?thesis
    by cases (use b assms(2) four five ext_mod[OF b(1)] in \<open>auto simp: decode_simps simp del: le_bytes.simps\<close>)
qed

lemma decode_sib:
  assumes "operand_ok (Sib r1 r2 d)" and "reg < 16"
  shows "decode_rm (bit reg 3) (bit r1 3) (bit r2 3) (modrm_sib_disp (Sib r1 r2 d) reg @ rest) = Some (reg, Sib r1 r2 d, rest)"
proof -
  have r: "r1 < 16" "r2 < 16" "r1 \<noteq> 4" "r2 \<noteq> 5" "r2 = 13 \<longrightarrow> d \<noteq> 0" "disp32 d" using assms(1) by auto
  have five: "r2 mod 8 = 5 \<longleftrightarrow> r2 = 13" using r(2,4) by presburger
  have sib: "of_nat (r2 mod 8) = (0 :: u8) OR of_nat (r2 mod 8)" by simp
  consider "d = 0" | "d \<noteq> 0" "fits8 d" | "d \<noteq> 0" "\<not> fits8 d" by blast
  then show ?thesis
    by cases (use r assms(2) five ext_mod[OF r(1)] ext_mod[OF r(2)] in \<open>auto simp: decode_simps Let_def simp del: le_bytes.simps\<close>)
qed

lemma decode_operand:
  "operand_ok r_m \<Longrightarrow> reg < 16 \<Longrightarrow> decode_rm (bit reg 3) (rm_x r_m) (bit (reg_num r_m) 3) (modrm_sib_disp r_m reg @ rest) = Some (reg, plain_rm r_m, rest)"
  by (induction r_m) (simp_all add: decode_mem decode_sib decode_simps small_bit del: modrm_sib_disp.simps(1,2))

section \<open>Instructions\<close>

lemma REX_prefix_rm_eq: "REX_prefix_rm W r_m reg = REX_prefix W (bit reg 3) (rm_x r_m) (bit (reg_num r_m) 3)"
  by (induction r_m) simp_all

lemma decode_REX:
  assumes "\<And>b bs. rest = b # bs \<Longrightarrow> unat b div 16 \<noteq> 4"
  shows "decode_rex (REX_prefix W R X B @ rest) = ((W, R, X, B), rest)"
proof (cases "W \<or> R \<or> X \<or> B")
  case False
  then show ?thesis using assms by (cases rest) (auto simp: REX_prefix_def decode_rex_def)
next
  case True
  then show ?thesis by (cases W; cases R; cases X; cases B) (simp_all add: REX_prefix_def decode_rex_def)
qed

text \<open>
  An opcode does not start like a REX prefix.  The assembler writes REX before the whole opcode, so one that starts with a legacy prefix is in order
  only where no REX is needed.
\<close>

definition plain_opcode :: "u8 list \<Rightarrow> bool" where
  "plain_opcode opcode \<longleftrightarrow> (case opcode of [] \<Rightarrow> False | b # _ \<Rightarrow> unat b div 16 \<noteq> 4 \<and> \<not> legacy_prefix b)"

fun encodable :: "ia32 \<Rightarrow> operand \<Rightarrow> operand \<Rightarrow> bool" where
  "encodable (Ia32 w opcode e) r_m reg \<longleftrightarrow> plain_opcode opcode \<or>
     (case opcode of [] \<Rightarrow> False | b # bs \<Rightarrow> legacy_prefix b \<and> plain_opcode bs \<and> REX_prefix_rm (get_operand_size2 w r_m reg) r_m (reg_num reg) = [])"

lemma plain_opcodeE:
  assumes "plain_opcode opcode"
  obtains b bs where "opcode = b # bs" "unat b div 16 \<noteq> 4" "\<not> legacy_prefix b"
  using assms by (auto simp: plain_opcode_def split: list.splits)

lemma REX_byte: "REX_prefix W R X B = b # bs \<Longrightarrow> \<not> legacy_prefix b \<and> bs = []"
  by (cases W; cases R; cases X; cases B) (auto simp: REX_prefix_def legacy_prefix_def)

lemma no_prefix: "plain_opcode opcode \<Longrightarrow> takeWhile legacy_prefix (REX_prefix W R X B @ opcode @ us) = []"
  by (cases "REX_prefix W R X B") (auto elim!: plain_opcodeE dest!: REX_byte)

lemma decode_plain: "plain_opcode opcode \<Longrightarrow> decode_rex (REX_prefix W R X B @ opcode @ us) = ((W, R, X, B), opcode @ us)"
  by (rule decode_REX) (auto elim!: plain_opcodeE)

lemma decode_ia32_bytes:
  assumes "operand_ok r_m" and "reg_num reg < 16" and "encodable (Ia32 w opcode e) r_m reg"
  shows "decode_ia32 (length opcode) (ia32_bytes (Ia32 w opcode e) r_m reg @ rest) =
    Some (get_operand_size2 w r_m reg, opcode, reg_num reg, plain_rm r_m, rest)"
proof (cases "plain_opcode opcode")
  case True
  with decode_operand[OF assms(1,2)] no_prefix[OF True] decode_plain[OF True] show ?thesis
    by (simp add: decode_ia32_def REX_prefix_rm_eq Let_def del: modrm_sib_disp.simps)
next
  case False
  let ?W = "get_operand_size2 w r_m reg"
  obtain b bs where o: "opcode = b # bs" "legacy_prefix b" "plain_opcode bs" and r: "REX_prefix_rm ?W r_m (reg_num reg) = []"
    using assms(3) False by (auto split: list.splits)
  then have n: "\<not> ?W" "\<not> bit (reg_num reg) 3" "\<not> rm_x r_m" "\<not> bit (reg_num r_m) 3"
    by (auto simp: REX_prefix_rm_eq REX_prefix_def split: if_splits)
  have "takeWhile legacy_prefix (opcode @ us) = [b]" for us
    using o no_prefix[OF o(3), of False False False False us] by (simp add: REX_prefix_def)
  moreover have "decode_rex (bs @ us) = ((False, False, False, False), bs @ us)" for us
    using decode_plain[OF o(3), of False False False False us] by (simp add: REX_prefix_def)
  ultimately show ?thesis using decode_operand[OF assms(1,2)] n o(1) r
    by (simp add: decode_ia32_def Let_def del: modrm_sib_disp.simps)
qed

text \<open>The last byte of a VEX prefix.\<close>

definition vex_byte :: "nat \<Rightarrow> vex_pp \<Rightarrow> u8" where
  "vex_byte vvvv pp = push_bit 3 (of_nat vvvv XOR 0xF) OR push_bit 2 (of_bool False) OR pp_bits pp"

lemma vex_byte_fields:
  assumes "vvvv < 16"
  shows "decode_pp (unat (push_bit 7 (of_bool W) OR vex_byte vvvv pp) mod 4) = pp"
    and "bit (push_bit 7 (of_bool W) OR vex_byte vvvv pp) 7 = W" and "\<not> bit (push_bit 7 (of_bool W) OR vex_byte vvvv pp) 2"
    and "15 - unat (push_bit 7 (of_bool W) OR vex_byte vvvv pp) div 8 mod 16 = vvvv"
proof -
  have "vvvv = 0 \<or> vvvv = 1 \<or> vvvv = 2 \<or> vvvv = 3 \<or> vvvv = 4 \<or> vvvv = 5 \<or> vvvv = 6 \<or> vvvv = 7 \<or>
      vvvv = 8 \<or> vvvv = 9 \<or> vvvv = 10 \<or> vvvv = 11 \<or> vvvv = 12 \<or> vvvv = 13 \<or> vvvv = 14 \<or> vvvv = 15"
    using assms by presburger
  then have "decode_pp (unat (push_bit 7 (of_bool W) OR vex_byte vvvv pp) mod 4) = pp \<and>
      bit (push_bit 7 (of_bool W) OR vex_byte vvvv pp) 7 = W \<and> \<not> bit (push_bit 7 (of_bool W) OR vex_byte vvvv pp) 2 \<and>
      15 - unat (push_bit 7 (of_bool W) OR vex_byte vvvv pp) div 8 mod 16 = vvvv"
    by (elim disjE; cases W; cases pp; simp add: vex_byte_def)
  then show "decode_pp (unat (push_bit 7 (of_bool W) OR vex_byte vvvv pp) mod 4) = pp"
    "bit (push_bit 7 (of_bool W) OR vex_byte vvvv pp) 7 = W" "\<not> bit (push_bit 7 (of_bool W) OR vex_byte vvvv pp) 2"
    "15 - unat (push_bit 7 (of_bool W) OR vex_byte vvvv pp) div 8 mod 16 = vvvv" by blast+
qed

lemma decode_vex_bytes:
  assumes "operand_ok r_m" and "rm_index r_m = rm_x r_m" and "reg_num reg < 16" and "vvvv < 16" and "mmmm \<noteq> Mmmm_none"
  shows "decode_vex (vex_bytes (Vex pp mmmm W e opcode) r_m vvvv reg @ rest) =
    Some (pp, mmmm, W, False, opcode, vvvv, reg_num reg, plain_rm r_m, rest)"
proof -
  note v = vex_byte_fields[OF assms(4)]
  define R X B where "R = bit (reg_num reg) 3" "X = rm_index r_m" "B = bit (reg_num r_m) 3"
  have rm: "decode_rm R X B (modrm_sib_disp r_m (reg_num reg) @ rest) = Some (reg_num reg, plain_rm r_m, rest)"
    using decode_operand[OF assms(1,3)] assms(2) by (simp add: R_X_B_def)
  have "decode_vex (VEX_prefix R X B mmmm W vvvv False pp @ opcode # modrm_sib_disp r_m (reg_num reg) @ rest) =
      Some (pp, mmmm, W, False, opcode, vvvv, reg_num reg, plain_rm r_m, rest)"
  proof (cases "X \<or> B \<or> mmmm \<noteq> Mmmm_0F \<or> W")
    case True
    let ?b = "push_bit 7 (of_bool (\<not> R)) OR push_bit 6 (of_bool (\<not> X)) OR push_bit 5 (of_bool (\<not> B)) OR mmmm_bits mmmm :: u8"
    have "decode_mmmm (unat ?b mod 32) = mmmm \<and> bit ?b 7 = (\<not> R) \<and> bit ?b 6 = (\<not> X) \<and> bit ?b 5 = (\<not> B)"
      using assms(5) by (cases R; cases X; cases B; cases mmmm; simp)
    moreover have "VEX_prefix R X B mmmm W vvvv False pp = [0xc4, ?b, push_bit 7 (of_bool W) OR vex_byte vvvv pp]"
      using True by (simp only: VEX_prefix_def Let_def vex_byte_def if_True)
    ultimately show ?thesis using v rm by (simp del: decode_mmmm.simps decode_pp.simps)
  next
    case False
    then have "VEX_prefix R X B mmmm W vvvv False pp = [0xc5, push_bit 7 (of_bool (\<not> R)) OR vex_byte vvvv pp]"
      by (simp only: VEX_prefix_def Let_def vex_byte_def if_False)
    with False v[of "\<not> R"] rm show ?thesis by (simp del: decode_pp.simps)
  qed
  then show ?thesis by (simp add: R_X_B_def)
qed

end
