(* ===== verification/Vm_Jit_Search.thy ===== *)
theory Vm_Jit_Search
  imports Vm_Jit_Function Vm_Jit_Decode
begin

text \<open>
  The binary search that \<open>br_table\<close> is compiled to.  Its code consists of comparisons of \<open>eax\<close> with a constant, conditional
  jumps, the code that drops operands, and jumps; following it from its start leads, for every value of the
  operand, to the branch of the case that WebAssembly chooses.
\<close>

section \<open>Code that is only appended\<close>

definition appends :: "'a jm \<Rightarrow> bool" where
  "appends m \<longleftrightarrow> (\<forall>env s a t. m env s = Inr (a, t) \<longrightarrow> jc_code s \<le> jc_code t \<and> (\<forall>x < jc_code s. jc_mem t x = jc_mem s x))"

named_theorems appends_rules

lemma appendsD:
  assumes "appends m" and "m env s = Inr (a, t)"
  shows "jc_code s \<le> jc_code t" and "x < jc_code s \<Longrightarrow> jc_mem t x = jc_mem s x"
  using assms by (auto simp: appends_def)

lemma appends_ret [appends_rules]: "appends (retJ a)"
  by (simp add: appends_def retJ_def)

lemma appends_get [appends_rules]: "appends (getJ f)"
  by (simp add: appends_def getJ_def)

lemma appends_check [appends_rules]: "appends (checkJ b e)"
  by (simp add: appends_def checkJ_def retJ_def throwJ_def)

lemma appends_bind [appends_rules]:
  assumes "appends m" and "\<And>a. appends (f a)"
  shows "appends (bindJ m f)"
  unfolding appends_def
proof (intro allI impI)
  fix env s b t assume "bindJ m f env s = Inr (b, t)"
  then obtain a u where m: "m env s = Inr (a, u)" and f: "f a env u = Inr (b, t)" by (auto simp: bindJ_def bindE_eq_Inr_iff)
  from appendsD[OF assms(1) m] appendsD[OF assms(2) f] show "jc_code s \<le> jc_code t \<and> (\<forall>x<jc_code s. jc_mem t x = jc_mem s x)" by simp
qed

lemma appends_byte [appends_rules]: "appends (mc_byte b)"
  by (auto simp: appends_def mc_byte_def split: if_splits)

lemma appends_bytes [appends_rules]: "appends (mc_bytes bs)"
  by (induction bs) (auto simp: mc_bytes.simps intro: appends_rules)

lemma appends_seq [appends_rules]: "(\<And>m. m \<in> set ms \<Longrightarrow> appends m) \<Longrightarrow> appends (seqJ ms)"
  by (induction ms) (auto simp: seqJ.simps intro: appends_rules)

lemma sized_scope: "variable_size_instr lo hi m env s = Inr (a, t) \<Longrightarrow> m env s = Inr (a, t)" "fixed_size_instr n m env s = Inr (a, t) \<Longrightarrow> m env s = Inr (a, t)"
  by (cases "m env s"; auto simp: variable_size_instr_def fixed_size_instr_def split: if_splits)+

lemma appends_variable [appends_rules]: "appends m \<Longrightarrow> appends (variable_size_instr lo hi m)"
  by (auto simp: appends_def dest!: sized_scope)

lemma appends_mc2 [appends_rules]: "appends (mc2 op r_m reg)"
  unfolding mc2_def by (intro appends_rules)

lemma appends_mc1 [appends_rules]: "appends (mc1 op r_m)"
  by (cases op) (simp add: mc1.simps appends_mc2)

lemma appends_v2 [appends_rules]: "appends (mc_v2 v a b)"
  unfolding mc_v2_def by (intro appends_rules)

lemma appends_vmovups [appends_rules]: "appends (mc_vmovups a b)"
  by (cases a) (simp_all add: appends_v2)

lemma appends_add_imm [appends_rules]: "appends (mc_add_imm w r)"
  unfolding mc_add_imm_def mc_imm_def mc1_imm8_def mc1_imm32_def mc_operand32_def by (simp add: appends_rules)

lemma appends_push [appends_rules]: "appends (mc_push r)"
  unfolding mc_push_def push_recent_op_def by (intro appends_rules) (simp add: appends_def modJ_def)

lemma appends_multipop: "appends (mc_multipop d rt)"
  unfolding mc_multipop_def Let_def by (auto intro!: appends_rules)

section \<open>Following the code\<close>

text \<open>Where a jump with its displacement at \<open>p\<close> goes, and the comparison of \<open>eax\<close> with \<open>m\<close> before a jump if above or equal.\<close>

definition goes :: "(nat \<Rightarrow> u8) \<Rightarrow> nat \<Rightarrow> int" where
  "goes mem p = int (p + 4) + sint (le_word (map mem [p..<p + 4]) :: u32)"

definition compare_at :: "(nat \<Rightarrow> u8) \<Rightarrow> nat \<Rightarrow> u32 \<Rightarrow> bool" where
  "compare_at mem pc m \<longleftrightarrow> map mem [pc..<pc + 7] = [0x3d] @ le_bytes 4 m @ [0x0f, 0x83]"

text \<open>
  The effect of the instructions between the comparisons, as the processor defines it for their bytes (the moves of \<open>xmm0\<close> have the
  prefix 66, which makes them \<open>vmovupd\<close>): the part of its state that they touch is
  \<open>rax\<close>, \<open>xmm0\<close> as two words, and the words of the stack from \<open>rsp\<close> upwards.
\<close>

record cpu =
  c_rax :: u64
  c_xmm0 :: "u64 \<times> u64"
  c_stack :: "u64 list"

definition holds :: "(nat \<Rightarrow> u8) \<Rightarrow> nat \<Rightarrow> u8 list \<Rightarrow> bool" where
  "holds mem pc bs \<longleftrightarrow> map mem [pc..<pc + length bs] = bs"

inductive instr :: "(nat \<Rightarrow> u8) \<Rightarrow> nat \<Rightarrow> cpu \<Rightarrow> nat \<Rightarrow> cpu \<Rightarrow> bool" for mem where
  mov_rax: "holds mem pc [0x48, 0x8b, 0x04, 0x24] \<Longrightarrow> c_stack c = w # ws \<Longrightarrow> instr mem pc c (pc + 4) (c\<lparr>c_rax := w\<rparr>)"
| vmovups_xmm0: "holds mem pc [0xc5, 0xf9, 0x10, 0x04, 0x24] \<Longrightarrow> c_stack c = v # w # ws \<Longrightarrow> instr mem pc c (pc + 5) (c\<lparr>c_xmm0 := (v, w)\<rparr>)"
| add_rsp8: "holds mem pc [0x48, 0x83, 0xc4, b] \<Longrightarrow> sint b = 8 * int k \<Longrightarrow> k \<le> length (c_stack c) \<Longrightarrow>
    instr mem pc c (pc + 4) (c\<lparr>c_stack := drop k (c_stack c)\<rparr>)"
| add_rsp32: "holds mem pc ([0x48, 0x81, 0xc4] @ le_bytes 4 (d :: u32)) \<Longrightarrow> sint d = 8 * int k \<Longrightarrow> k \<le> length (c_stack c) \<Longrightarrow>
    instr mem pc c (pc + 7) (c\<lparr>c_stack := drop k (c_stack c)\<rparr>)"
| push_rax: "holds mem pc [0x50] \<Longrightarrow> instr mem pc c (Suc pc) (c\<lparr>c_stack := c_rax c # c_stack c\<rparr>)"
| vmovups_rsp: "holds mem pc [0xc5, 0xf9, 0x11, 0x04, 0x24] \<Longrightarrow> c_stack c = v # w # ws \<Longrightarrow>
    instr mem pc c (pc + 5) (c\<lparr>c_stack := fst (c_xmm0 c) # snd (c_xmm0 c) # ws\<rparr>)"

inductive instrs :: "(nat \<Rightarrow> u8) \<Rightarrow> nat \<Rightarrow> cpu \<Rightarrow> nat \<Rightarrow> cpu \<Rightarrow> bool" for mem where
  instrs_refl: "instrs mem pc c pc c"
| instrs_step: "instr mem pc c pc' c' \<Longrightarrow> instrs mem pc' c' pc'' c'' \<Longrightarrow> instrs mem pc c pc'' c''"

text \<open>
  A branch to a label that keeps a result of type \<open>rt\<close> and drops \<open>n\<close> words, the result included: the words of the result stay, on top of
  what was below.  The parser's labels have \<open>n\<close> at least the words of the result; \<open>2 ^ 28\<close> words are what a displacement can drop.
\<close>

definition result_words :: "value_type \<Rightarrow> nat" where
  "result_words rt = (if rt = t_pseudo then 0 else if rt = t_v128 then 2 else 1)"

definition unwound :: "u32 \<times> value_type \<Rightarrow> u64 list \<Rightarrow> u64 list" where
  "unwound x ws = take (result_words (snd x)) ws @ drop (unat (fst x)) ws"

definition label_ok :: "u32 \<times> value_type \<Rightarrow> bool" where
  "label_ok x \<longleftrightarrow> result_words (snd x) \<le> unat (fst x) \<and> unat (fst x) < 2 ^ 28"

text \<open>The code at \<open>pc\<close> unwinds the stack for the label \<open>x\<close> and then jumps, with the displacement at \<open>q\<close>.\<close>

definition drops_at :: "(nat \<Rightarrow> u8) \<Rightarrow> nat \<Rightarrow> u32 \<times> value_type \<Rightarrow> nat \<Rightarrow> bool" where
  "drops_at mem pc x q \<longleftrightarrow> (\<exists>p. q = Suc p \<and> mem p = 0xe9 \<and> (\<forall>c. unat (fst x) \<le> length (c_stack c) \<longrightarrow>
     (\<exists>c'. instrs mem pc c p c' \<and> c_stack c' = unwound x (c_stack c))))"

text \<open>There is nothing to drop for \<open>x\<close>.\<close>

definition keeps_stack :: "u32 \<times> value_type \<Rightarrow> bool" where
  "keeps_stack x \<longleftrightarrow> (\<forall>ws. unat (fst x) \<le> length ws \<longrightarrow> unwound x ws = ws)"

text \<open>
  With \<open>i\<close> in \<open>eax\<close>, control at \<open>pc\<close> comes to the branch with its displacement at \<open>q\<close>, and on the way exactly
  the operands of \<open>x\<close> are dropped.  A conditional jump is itself such a branch when there is nothing to drop.
\<close>

inductive leads :: "(nat \<Rightarrow> u8) \<Rightarrow> u32 \<Rightarrow> nat \<Rightarrow> u32 \<times> value_type \<Rightarrow> nat \<Rightarrow> bool" for mem i where
  leads_drop: "drops_at mem pc x q \<Longrightarrow> leads mem i pc x q"
| leads_below: "compare_at mem pc m \<Longrightarrow> i < m \<Longrightarrow> leads mem i (pc + 11) x q \<Longrightarrow> leads mem i pc x q"
| leads_jump: "compare_at mem pc m \<Longrightarrow> m \<le> i \<Longrightarrow> goes mem (pc + 7) = int pc' \<Longrightarrow> leads mem i pc' x q \<Longrightarrow> leads mem i pc x q"
| leads_branch: "compare_at mem pc m \<Longrightarrow> m \<le> i \<Longrightarrow> keeps_stack x \<Longrightarrow> leads mem i pc x (pc + 7)"

definition taken :: "(nat \<Rightarrow> u8) \<Rightarrow> u32 \<Rightarrow> nat \<Rightarrow> u32 \<times> value_type \<Rightarrow> nat \<Rightarrow> bool" where
  "taken mem i l x q \<longleftrightarrow> q = l \<and> keeps_stack x \<or> (\<exists>pc. goes mem l = int pc \<and> leads mem i pc x q)"

lemma leads_taken: "compare_at mem pc m \<Longrightarrow> m \<le> i \<Longrightarrow> taken mem i (pc + 7) x q \<Longrightarrow> leads mem i pc x q"
  by (auto simp: taken_def intro: leads_jump leads_branch)

section \<open>Memory that later code leaves alone\<close>

text \<open>\<open>mem\<close> is the memory of \<open>s\<close> before its write position, except for the displacements in \<open>L\<close>.\<close>

definition agrees :: "jit \<Rightarrow> nat set \<Rightarrow> (nat \<Rightarrow> u8) \<Rightarrow> bool" where
  "agrees s L mem \<longleftrightarrow> (\<forall>a < jc_code s. (\<forall>l \<in> L. a < l \<or> l + 4 \<le> a) \<longrightarrow> mem a = jc_mem s a)"

fun labels :: "(u32 \<times> u32 \<times> nat option) list \<Rightarrow> nat set" where
  "labels [] = {}"
| "labels ((lo, hi, l) # st) = set_option l \<union> labels st"

definition apart :: "nat \<Rightarrow> nat \<Rightarrow> bool" where
  "apart a b \<longleftrightarrow> a + 4 \<le> b \<or> b + 4 \<le> a"

text \<open>Labels are displacements before the write position, apart from each other and from the displacements in \<open>E\<close> that are done.\<close>

fun placed :: "nat set \<Rightarrow> nat \<Rightarrow> (u32 \<times> u32 \<times> nat option) list \<Rightarrow> bool" where
  "placed E p [] \<longleftrightarrow> (\<forall>e \<in> E. e + 4 \<le> p)"
| "placed E p ((lo, hi, None) # st) \<longleftrightarrow> placed E p st"
| "placed E p ((lo, hi, Some l) # st) \<longleftrightarrow> l + 4 \<le> p \<and> (\<forall>e \<in> E \<union> labels st. apart l e) \<and> placed E p st"

text \<open>
  Every range leads to its cases: through its label, or, for the range that is being written, from the write position.  The last
  of \<open>n\<close> cases, the default, also stands for all larger operands.
\<close>

definition covers :: "u32 \<Rightarrow> u32 \<Rightarrow> u32 \<Rightarrow> u32 \<Rightarrow> bool" where
  "covers n lo hi j \<longleftrightarrow> lo \<le> j \<and> (j < hi \<or> hi = n)"

fun serves :: "u32 \<Rightarrow> (nat \<Rightarrow> u8) \<Rightarrow> (u32 \<Rightarrow> u32 \<times> value_type) \<Rightarrow> (u32 \<Rightarrow> nat) \<Rightarrow> nat \<Rightarrow> (u32 \<times> u32 \<times> nat option) list \<Rightarrow> bool" where
  "serves n mem X q p [] \<longleftrightarrow> True"
| "serves n mem X q p ((lo, hi, None) # st) \<longleftrightarrow> (\<forall>j. covers n lo hi j \<longrightarrow> leads mem j p (X j) (q j)) \<and> serves n mem X q p st"
| "serves n mem X q p ((lo, hi, Some l) # st) \<longleftrightarrow> (\<forall>j. covers n lo hi j \<longrightarrow> taken mem j l (X j) (q j)) \<and> serves n mem X q p st"

text \<open>A range on the stack has a label and is not empty.\<close>

fun waiting :: "u32 \<Rightarrow> u32 \<times> u32 \<times> nat option \<Rightarrow> bool" where
  "waiting n (lo, hi, l) \<longleftrightarrow> lo < hi \<and> hi \<le> n \<and> l \<noteq> None"

lemma serves_waiting: "list_all (waiting n) st \<Longrightarrow> serves n mem X q p st \<longleftrightarrow> serves n mem X q p' st"
  by (induction st) (auto split: prod.splits)

lemma placed_bounds: "placed E p st \<Longrightarrow> l \<in> E \<union> labels st \<Longrightarrow> l + 4 \<le> p"
  by (induction E p st rule: placed.induct) auto

lemma placed_mono: "placed E p st \<Longrightarrow> p \<le> p' \<Longrightarrow> placed E p' st"
  by (induction E p st rule: placed.induct) auto

lemma placed_insert: "placed E p st \<Longrightarrow> r + 4 \<le> p \<Longrightarrow> (\<And>l. l \<in> labels st \<Longrightarrow> apart l r) \<Longrightarrow> placed (insert r E) p st"
  by (induction E p st rule: placed.induct) auto

section \<open>Runs\<close>

lemma poke_append: "poke_bytes (p + length bs) cs (poke_bytes p bs mem) = poke_bytes p (bs @ cs) mem"
  by (auto simp: poke_bytes_def fun_eq_iff nth_append)

lemma map_poke: "map (poke_bytes p bs mem) [p..<p + length bs] = bs"
  by (rule nth_equalityI) (simp_all add: poke_bytes_def)

lemma map_poke_le: "map (poke_bytes p (le_bytes n w) mem) [p..<p + n] = le_bytes n w"
  using map_poke[of p "le_bytes n w" mem] by simp

lemma mc_bytes_Inr: "mc_bytes bs env s = Inr (u, t) \<Longrightarrow> t = s\<lparr>jc_mem := poke_bytes (jc_code s) bs (jc_mem s), jc_code := jc_code s + length bs\<rparr>"
proof (induction bs arbitrary: s)
  case Nil
  then show ?case by (simp add: mc_bytes.simps retJ_def)
next
  case (Cons b bs)
  let ?s = "s\<lparr>jc_mem := (jc_mem s)(jc_code s := b), jc_code := Suc (jc_code s)\<rparr>"
  have "mc_bytes bs env ?s = Inr (u, t)" using Cons.prems by (auto simp: mc_bytes.simps bindJ_def mc_byte_def split: if_splits)
  note IH = Cons.IH[OF this]
  have "(jc_mem s)(jc_code s := b) = poke_bytes (jc_code s) [b] (jc_mem s)" by (auto simp: poke_bytes_def fun_eq_iff)
  then have "poke_bytes (Suc (jc_code s)) bs ((jc_mem s)(jc_code s := b)) = poke_bytes (jc_code s) (b # bs) (jc_mem s)"
    using poke_append[of "jc_code s" "[b]" bs "jc_mem s"] by simp
  with IH show ?case by (simp add: fun_upd_def)
qed

lemma goes_cong: "(\<And>a. l \<le> a \<Longrightarrow> a < l + 4 \<Longrightarrow> mem a = mem' a) \<Longrightarrow> goes mem l = goes mem' l"
proof -
  assume "\<And>a. l \<le> a \<Longrightarrow> a < l + 4 \<Longrightarrow> mem a = mem' a"
  then have "map mem [l..<l + 4] = map mem' [l..<l + 4]" by (intro map_cong) auto
  then show ?thesis by (simp only: goes_def)
qed

lemma compare_cong: "(\<And>a. pc \<le> a \<Longrightarrow> a < pc + 7 \<Longrightarrow> mem a = mem' a) \<Longrightarrow> compare_at mem' pc m \<Longrightarrow> compare_at mem pc m"
proof -
  assume "\<And>a. pc \<le> a \<Longrightarrow> a < pc + 7 \<Longrightarrow> mem a = mem' a"
  then have "map mem [pc..<pc + 7] = map mem' [pc..<pc + 7]" by (intro map_cong) auto
  then show "compare_at mem' pc m \<Longrightarrow> compare_at mem pc m" by (simp only: compare_at_def)
qed

lemma holds_cong: "(\<And>a. pc \<le> a \<Longrightarrow> a < pc + length bs \<Longrightarrow> mem a = mem' a) \<Longrightarrow> holds mem' pc bs \<Longrightarrow> holds mem pc bs"
proof -
  assume "\<And>a. pc \<le> a \<Longrightarrow> a < pc + length bs \<Longrightarrow> mem a = mem' a"
  then have "map mem [pc..<pc + length bs] = map mem' [pc..<pc + length bs]" by (intro map_cong) auto
  then show "holds mem' pc bs \<Longrightarrow> holds mem pc bs" by (simp only: holds_def)
qed

lemma instr_cong:
  assumes "instr mem' pc c p c'" and "\<And>a. pc \<le> a \<Longrightarrow> a < p \<Longrightarrow> mem a = mem' a"
  shows "instr mem pc c p c'"
  using assms by (induction rule: instr.induct) (auto intro!: instr.intros elim!: holds_cong [rotated] simp del: le_bytes.simps)

lemma instrs_forward: "instrs mem pc c p c' \<Longrightarrow> pc \<le> p"
  by (induction rule: instrs.induct) (auto elim!: instr.cases)

lemma instrs_cong:
  assumes "instrs mem' pc c p c'" and "\<And>a. pc \<le> a \<Longrightarrow> a < p \<Longrightarrow> mem a = mem' a"
  shows "instrs mem pc c p c'"
  using assms
proof (induction rule: instrs.induct)
  case (instrs_step pc c pc' c' pc'' c'')
  have "pc \<le> pc'" "pc' \<le> pc''" using instrs_step(1) instrs_forward [OF instrs_step(2)] by (auto elim: instr.cases)
  then have "instr mem pc c pc' c'" "instrs mem pc' c' pc'' c''" using instrs_step by (auto intro: instr_cong)
  then show ?case by (rule instrs.instrs_step)
qed (rule instrs_refl)

lemma drops_cong:
  "(\<And>a. pc \<le> a \<Longrightarrow> a < q \<Longrightarrow> mem a = mem' a) \<Longrightarrow> pc < q \<Longrightarrow> drops_at mem' pc x q \<Longrightarrow> drops_at mem pc x q"
proof -
  assume eq: "\<And>a. pc \<le> a \<Longrightarrow> a < q \<Longrightarrow> mem a = mem' a" and q: "pc < q" and d: "drops_at mem' pc x q"
  from d obtain p where p: "q = Suc p" "mem' p = 0xe9" and r: "\<And>c. unat (fst x) \<le> length (c_stack c) \<Longrightarrow>
    \<exists>c'. instrs mem' pc c p c' \<and> c_stack c' = unwound x (c_stack c)" by (auto simp: drops_at_def)
  have "\<exists>c'. instrs mem pc c p c' \<and> c_stack c' = unwound x (c_stack c)" if "unat (fst x) \<le> length (c_stack c)" for c
    using r[OF that] instrs_cong[where mem = mem and mem' = mem'] eq p(1) by (metis less_SucI)
  moreover have "mem p = 0xe9" using eq[of p] q p by simp
  ultimately show ?thesis using p(1) by (auto simp: drops_at_def)
qed

section \<open>The code that drops operands\<close>

text \<open>\<open>m\<close> writes the bytes \<open>bs\<close> at the write position.\<close>

definition writes :: "u8 list \<Rightarrow> 'a jm \<Rightarrow> bool" where
  "writes bs m \<longleftrightarrow> (\<forall>env s a t. m env s = Inr (a, t) \<longrightarrow> jc_mem t = poke_bytes (jc_code s) bs (jc_mem s) \<and> jc_code t = jc_code s + length bs)"

lemma writesD: "writes bs m \<Longrightarrow> m env s = Inr (a, t) \<Longrightarrow> jc_mem t = poke_bytes (jc_code s) bs (jc_mem s) \<and> jc_code t = jc_code s + length bs"
  by (simp add: writes_def)

lemma poke_Nil [simp]: "poke_bytes p [] mem = mem"
  by (auto simp: poke_bytes_def fun_eq_iff)

lemma writes_nothing: "writes [] (retJ a)" "writes [] (checkJ b e)" "writes [] (getJ f)" "writes [] (push_recent_op p d)"
  by (auto simp: writes_def retJ_def checkJ_def throwJ_def getJ_def push_recent_op_def modJ_def split: if_splits)

lemma writes_bytes: "writes bs (mc_bytes bs)"
  by (auto simp: writes_def dest!: mc_bytes_Inr)

lemma writes_bind:
  assumes "writes bs m" and "\<And>a. writes cs (f a)"
  shows "writes (bs @ cs) (bindJ m f)"
  unfolding writes_def
proof (intro allI impI)
  fix env s b t assume "bindJ m f env s = Inr (b, t)"
  then obtain a u where m: "m env s = Inr (a, u)" and f: "f a env u = Inr (b, t)" by (auto simp: bindJ_def bindE_eq_Inr_iff)
  from writesD[OF assms(1) m] writesD[OF assms(2) f] show "jc_mem t = poke_bytes (jc_code s) (bs @ cs) (jc_mem s) \<and> jc_code t = jc_code s + length (bs @ cs)"
    by (simp add: poke_append)
qed

lemma writes_eq: "writes bs m \<Longrightarrow> bs = cs \<Longrightarrow> writes cs m"
  by simp

lemma writes_byte: "writes [b] (mc_byte b)"
  by (auto simp: writes_def mc_byte_def poke_bytes_def fun_eq_iff split: if_splits)

lemma stack_bytes:
  "ia32_bytes op_MOV_A (deref rsp) rax = [0x48, 0x8b, 0x04, 0x24]"
  "vex_bytes op_VMOVUPS_A (deref rsp) 0 xmm0 = [0xc5, 0xf9, 0x10, 0x04, 0x24]" "vex_bytes op_VMOVUPS_B (deref rsp) 0 xmm0 = [0xc5, 0xf9, 0x11, 0x04, 0x24]"
  "REX_prefix False False False (bit (reg_num rax) 3) @ [0x50 OR of_nat (reg_num rax mod 8)] = [0x50]"
  "ia32_bytes op_ADD_imm8 rsp (Opext 0) = [0x48, 0x83, 0xc4]" "ia32_bytes op_ADD_imm32 rsp (Opext 0) = [0x48, 0x81, 0xc4]"
  by code_simp+

definition add_bytes :: "u32 \<Rightarrow> u8 list" where
  "add_bytes w = (if fits8 (sint w) then [0x48, 0x83, 0xc4, ucast w] else [0x48, 0x81, 0xc4] @ le_bytes 4 w)"

lemma writes_add_rsp: "writes (add_bytes w) (mc_add_imm w rsp)"
proof -
  have m: "writes (ia32_bytes op rsp (Opext 0)) (mc2 op rsp (Opext 0))" for op
    unfolding mc2_def using writes_bind[OF writes_nothing(2) writes_bytes] by simp
  have "writes ([0x48, 0x83, 0xc4] @ [ucast w]) (mc1_imm8 op_ADD_imm8 (ucast w) rsp)"
    unfolding mc1_imm8_def op_ADD_imm8_def mc1.simps option.simps using m[of op_ADD_imm8] stack_bytes(5)
    by (intro writes_bind writes_byte) (simp add: op_ADD_imm8_def)
  moreover have "writes ([0x48, 0x81, 0xc4] @ le_bytes 4 w) (mc1_imm32 op_ADD_imm32 w rsp)"
    unfolding mc1_imm32_def op_ADD_imm32_def mc1.simps option.simps mc_operand32_def using m[of op_ADD_imm32] stack_bytes(6)
    by (intro writes_bind writes_bytes) (simp add: op_ADD_imm32_def)
  ultimately show ?thesis by (simp add: add_bytes_def mc_add_imm_def mc_imm_def del: le_bytes.simps)
qed

lemma writes_push: "writes [0x50] (mc_push rax)"
  unfolding mc_push_def stack_bytes(4)
  using writes_bind[OF writes_nothing(3) writes_bind[OF writes_bytes writes_nothing(4)]] by (simp add: Let_def)

lemma writes_moves:
  "writes [0x48, 0x8b, 0x04, 0x24] (mc_mov (deref rsp) rax)" "writes [0xc5, 0xf9, 0x10, 0x04, 0x24] (mc_vmovups (deref rsp) xmm0)"
  "writes [0xc5, 0xf9, 0x11, 0x04, 0x24] (mc_vmovups xmm0 (deref rsp))"
proof -
  have w: "writes cs (bindJ (checkJ b e) (\<lambda>_. mc_bytes cs))" for cs b e using writes_bind[OF writes_nothing(2) writes_bytes] by simp
  have d: "deref rsp = Mem 4 0" by (simp add: at_disp_def)
  note bytes = stack_bytes(1-3)[unfolded d]
  show "writes [0x48, 0x8b, 0x04, 0x24] (mc_mov (deref rsp) rax)"
    unfolding d bytes(1)[symmetric] by (simp add: mc2_def w)
  show "writes [0xc5, 0xf9, 0x10, 0x04, 0x24] (mc_vmovups (deref rsp) xmm0)"
    unfolding d bytes(2)[symmetric] mc_vmovups.simps mc_v2_def by (rule w)
  show "writes [0xc5, 0xf9, 0x11, 0x04, 0x24] (mc_vmovups xmm0 (deref rsp))"
    unfolding d bytes(3)[symmetric] by (simp add: mc_v2_def w)
qed

lemma holds_append: "holds mem pc (bs @ cs) \<longleftrightarrow> holds mem pc bs \<and> holds mem (pc + length bs) cs"
proof -
  have "[pc..<pc + length (bs @ cs)] = [pc..<pc + length bs] @ [pc + length bs..<pc + length bs + length cs]"
    using upt_add_eq_append[of pc "pc + length bs" "length cs"] by (simp add: add.assoc)
  then show ?thesis by (auto simp: holds_def)
qed

lemma writes_holds: "writes bs m \<Longrightarrow> m env s = Inr (a, t) \<Longrightarrow> holds (jc_mem t) (jc_code s) bs \<and> jc_code t = jc_code s + length bs"
  using writesD map_poke by (metis holds_def)

text \<open>The bytes that \<open>mc_multipop\<close> writes, and that they unwind the stack.\<close>

definition pop_bytes :: "u32 \<Rightarrow> value_type \<Rightarrow> u8 list" where
  "pop_bytes n rt = (if rt = t_pseudo then add_bytes (n * 8)
     else if rt = t_v128 then [0xc5, 0xf9, 0x10, 0x04, 0x24] @ add_bytes ((n - 2) * 8) @ [0xc5, 0xf9, 0x11, 0x04, 0x24]
     else [0x48, 0x8b, 0x04, 0x24] @ add_bytes (n * 8) @ [0x50])"

lemma low_count: "unat (n :: u32) < 2 ^ 28 \<Longrightarrow> n AND 0x70000000 = 0 \<and> sint (n * 8) = 8 * int (unat n)"
proof
  assume n: "unat n < 2 ^ 28"
  have "take_bit 28 n = n" using n by (simp add: word_unat_eq_iff unsigned_take_bit_eq take_bit_nat_eq_self)
  then have "n AND 0x70000000 = take_bit 28 n AND 0x70000000" by simp
  also have "\<dots> = n AND take_bit 28 0x70000000" by (simp only: take_bit_eq_mask and.assoc and.left_commute and.commute)
  finally show "n AND 0x70000000 = 0" by simp
  have "n * 8 = word_of_int (8 * int (unat n))" by simp
  moreover have "unat n < 268435456" using n by simp
  then have "disp32 (8 * int (unat n))" unfolding disp32_def by linarith
  ultimately show "sint (n * 8) = 8 * int (unat n)" by (simp only: sint_disp32)
qed

lemma writes_variable: "writes bs m \<Longrightarrow> writes bs (variable_size_instr lo hi m)"
  by (auto simp: writes_def dest!: sized_scope)

lemma writes_seq2:
  assumes "writes bs m" and "writes cs m'"
  shows "writes (bs @ cs) (seqJ [m, m'])"
  using writes_bind[OF assms(1) writes_bind[OF assms(2) writes_nothing(1)], of "\<lambda>_ a. a"] by (simp add: seqJ.simps)

lemma writes_multipop:
  assumes "\<not> is_simple_multipop n rt" and "label_ok (n, rt)"
  shows "writes (pop_bytes n rt) (mc_multipop n rt)"
proof -
  have low: "unat (if rt = t_v128 then n - 2 else n) < 2 ^ 28"
    using assms(2) by (auto simp: label_ok_def result_words_def unat_sub word_le_nat_alt split: if_splits)
  have add: "writes (add_bytes (c * 8) @ bs) (if c AND 0x70000000 \<noteq> 0 then mc_bytes [0xCC] else seqJ [mc_add_imm (c * 8) rsp, m])"
    if "unat c < 2 ^ 28" "writes bs m" for c bs m
    using low_count[OF that(1)] writes_seq2[OF writes_add_rsp that(2)] by simp
  consider "rt = t_pseudo" "rt \<noteq> t_v128" | "rt = t_v128" "rt \<noteq> t_pseudo" | "rt \<noteq> t_pseudo" "rt \<noteq> t_v128" by fastforce
  then show ?thesis
  proof cases
    case 1
    with low writes_bind[OF writes_nothing(1)[of "()"] add[OF _ writes_nothing(1)[of "()"]], of n] show ?thesis
      unfolding mc_multipop_def Let_def pop_bytes_def append_Nil append_Nil2
      by (intro writes_variable) (simp only: assms(1)[unfolded 1] if_True if_False HOL.simp_thms)
  next
    case 2
    with low writes_bind[OF writes_moves(2) add[OF _ writes_moves(3)], of "n - 2"] show ?thesis
      unfolding mc_multipop_def Let_def pop_bytes_def append.assoc by (intro writes_variable) (simp only: assms(1)[unfolded 2(1)] if_True if_False HOL.simp_thms)
  next
    case 3
    with low writes_bind[OF writes_moves(1) add[OF _ writes_push], of n] show ?thesis
      unfolding mc_multipop_def Let_def pop_bytes_def append.assoc by (intro writes_variable) (simp only: assms(1) if_True if_False HOL.simp_thms)
  qed
qed

lemma low_byte: "word_of_int (sint (w :: u32)) = (ucast w :: u8)"
  by (rule bit_word_eqI) (auto simp: bit_simps min_def)

lemma two_words: "2 \<le> length xs \<Longrightarrow> \<exists>v w ws. xs = v # w # ws"
  by (metis Suc_le_length_iff numeral_2_eq_2)

lemma add_runs:
  assumes "holds mem pc (add_bytes w)" and "sint w = 8 * int k" and "k \<le> length (c_stack c)"
  shows "instr mem pc c (pc + length (add_bytes w)) (c\<lparr>c_stack := drop k (c_stack c)\<rparr>)"
proof (cases "fits8 (sint w)")
  case True
  have "sint (ucast w :: u8) = sint w" using sint_disp8[OF True] by (simp only: low_byte)
  moreover have b: "add_bytes w = [0x48, 0x83, 0xc4, ucast w]" "pc + length (add_bytes w) = pc + 4" using True by (simp_all add: add_bytes_def)
  ultimately show ?thesis unfolding b(2) using assms b(1) by (intro add_rsp8) simp_all
next
  case False
  then have b: "add_bytes w = [0x48, 0x81, 0xc4] @ le_bytes 4 w" "pc + length (add_bytes w) = pc + 7" by (simp_all add: add_bytes_def)
  then show ?thesis unfolding b(2) using assms by (intro add_rsp32) (simp_all only: b(1))
qed

lemma pop_runs:
  assumes "holds mem pc (pop_bytes n rt)" and "label_ok (n, rt)" and "unat n \<le> length (c_stack c)"
  shows "\<exists>c'. instrs mem pc c (pc + length (pop_bytes n rt)) c' \<and> c_stack c' = unwound (n, rt) (c_stack c)"
proof -
  note low = low_count[THEN conjunct2]
  have one: "instrs mem p d p' d'" if "instr mem p d p' d'" for p d p' d' by (rule instrs_step[OF that instrs_refl])
  consider "rt = t_pseudo" | "rt = t_v128" | "rt \<noteq> t_pseudo" "rt \<noteq> t_v128" by blast
  then show ?thesis
  proof cases
    case 1
    with assms have "instr mem pc c (pc + length (pop_bytes n rt)) (c\<lparr>c_stack := drop (unat n) (c_stack c)\<rparr>)"
      using add_runs[of mem pc "n * 8" "unat n" c] low by (simp add: pop_bytes_def label_ok_def)
    with 1 one show ?thesis by (fastforce simp: unwound_def result_words_def)
  next
    case 2
    then have n: "2 \<le> unat n" "unat n < 2 ^ 28" using assms(2) by (auto simp: label_ok_def result_words_def)
    then have m: "unat (n - 2) = unat n - 2" by (simp add: unat_sub word_le_nat_alt)
    obtain v w ws where st: "c_stack c = v # w # ws" using n assms(3) two_words[of "c_stack c"] by auto
    have "2 \<le> length (drop (unat n - 2) (c_stack c))" using n assms(3) by simp
    then obtain v' w' ws' where st': "drop (unat n - 2) (c_stack c) = v' # w' # ws'" by (meson two_words)
    let ?A = "add_bytes ((n - 2) * 8)" and ?c1 = "c\<lparr>c_xmm0 := (v, w)\<rparr>"
    let ?c2 = "?c1\<lparr>c_stack := drop (unat n - 2) (c_stack c)\<rparr>"
    have h: "holds mem pc [0xc5, 0xf9, 0x10, 0x04, 0x24]" "holds mem (pc + 5) ?A" "holds mem (pc + 5 + length ?A) [0xc5, 0xf9, 0x11, 0x04, 0x24]"
    proof -
      have "pop_bytes n rt = [0xc5, 0xf9, 0x10, 0x04, 0x24] @ ?A @ [0xc5, 0xf9, 0x11, 0x04, 0x24]" using 2 by (simp add: pop_bytes_def)
      note h = assms(1)[unfolded this holds_append]
      have "pc + length [0xc5, 0xf9, 0x10, 0x04, 0x24 :: u8] = pc + 5" by simp
      with h show "holds mem pc [0xc5, 0xf9, 0x10, 0x04, 0x24]" "holds mem (pc + 5) ?A"
        "holds mem (pc + 5 + length ?A) [0xc5, 0xf9, 0x11, 0x04, 0x24]" by (simp_all only:)
    qed
    have 1: "instr mem pc c (pc + 5) ?c1" by (rule vmovups_xmm0[OF h(1) st])
    have 3: "instr mem (pc + 5) ?c1 (pc + 5 + length ?A) ?c2"
      using add_runs[OF h(2), of "unat n - 2" ?c1] low[of "n - 2"] m n assms(3) by simp
    have 4: "instr mem (pc + 5 + length ?A) ?c2 (pc + 5 + length ?A + 5) (?c2\<lparr>c_stack := fst (c_xmm0 ?c2) # snd (c_xmm0 ?c2) # ws'\<rparr>)"
      by (rule vmovups_rsp[OF h(3)]) (simp add: st')
    have "drop (unat n) (c_stack c) = ws'" 
    proof -
      have "2 + (unat n - 2) = unat n" using n(1) by (rule le_add_diff_inverse)
      then have "drop (unat n) (c_stack c) = drop 2 (v' # w' # ws')" unfolding st'[symmetric] drop_drop by (simp only:)
      also have "\<dots> = ws'" by simp
      finally show ?thesis by simp
    qed
    then have "c_stack (?c2\<lparr>c_stack := fst (c_xmm0 ?c2) # snd (c_xmm0 ?c2) # ws'\<rparr>) = unwound (n, rt) (c_stack c)"
      using st 2 by (simp add: unwound_def result_words_def)
    moreover have "pc + length (pop_bytes n rt) = pc + 5 + length ?A + 5" using 2 by (simp add: pop_bytes_def)
    ultimately show ?thesis using instrs_step[OF 1 instrs_step[OF 3 one[OF 4]]] by (simp only:) blast
  next
    case 3
    then have n: "1 \<le> unat n" "unat n < 2 ^ 28" using assms(2) by (auto simp: label_ok_def result_words_def)
    obtain w ws where st: "c_stack c = w # ws" using n assms(3) by (cases "c_stack c") auto
    let ?A = "add_bytes (n * 8)" and ?c1 = "c\<lparr>c_rax := w\<rparr>"
    let ?c2 = "?c1\<lparr>c_stack := drop (unat n) (c_stack c)\<rparr>"
    have h: "holds mem pc [0x48, 0x8b, 0x04, 0x24]" "holds mem (pc + 4) ?A" "holds mem (pc + 4 + length ?A) [0x50]"
    proof -
      have "pop_bytes n rt = [0x48, 0x8b, 0x04, 0x24] @ ?A @ [0x50]" using 3 by (simp add: pop_bytes_def)
      note h = assms(1)[unfolded this holds_append]
      have "pc + length [0x48, 0x8b, 0x04, 0x24 :: u8] = pc + 4" by simp
      with h show "holds mem pc [0x48, 0x8b, 0x04, 0x24]" "holds mem (pc + 4) ?A" "holds mem (pc + 4 + length ?A) [0x50]" by (simp_all only:)
    qed
    have 1: "instr mem pc c (pc + 4) ?c1" by (rule mov_rax[OF h(1) st])
    have 2: "instr mem (pc + 4) ?c1 (pc + 4 + length ?A) ?c2"
      using add_runs[OF h(2), of "unat n" ?c1] low[OF n(2)] assms(3) by simp
    have 4: "instr mem (pc + 4 + length ?A) ?c2 (Suc (pc + 4 + length ?A)) (?c2\<lparr>c_stack := c_rax ?c2 # c_stack ?c2\<rparr>)"
      by (rule push_rax[OF h(3)])
    have "c_stack (?c2\<lparr>c_stack := c_rax ?c2 # c_stack ?c2\<rparr>) = unwound (n, rt) (c_stack c)"
      using st 3 by (simp add: unwound_def result_words_def)
    moreover have "pc + length (pop_bytes n rt) = Suc (pc + 4 + length ?A)" using 3 by (simp add: pop_bytes_def)
    ultimately show ?thesis using instrs_step[OF 1 instrs_step[OF 2 one[OF 4]]] by (simp only:) blast
  qed
qed

lemma simple_keeps: "is_simple_multipop n rt \<Longrightarrow> keeps_stack (n, rt)"
  by (auto simp: is_simple_multipop_def keeps_stack_def unwound_def result_words_def split: if_splits)

lemma multipop_drops:
  assumes "mc_multipop n rt env s = Inr ((), v)" and "label_ok (n, rt)"
    and "\<And>a. a < jc_code v \<Longrightarrow> mem a = jc_mem v a" and "mem (jc_code v) = 0xe9"
  shows "drops_at mem (jc_code s) (n, rt) (Suc (jc_code v))"
proof (cases "is_simple_multipop n rt")
  case True
  with assms(1) have "v = s" by (simp add: mc_multipop_def variable_size_instr_def retJ_def)
  with assms(4) simple_keeps[OF True] show ?thesis by (auto simp: drops_at_def keeps_stack_def intro: instrs_refl)
next
  case False
  from writes_holds[OF writes_multipop[OF False assms(2)] assms(1)]
  have v: "holds (jc_mem v) (jc_code s) (pop_bytes n rt)" "jc_code v = jc_code s + length (pop_bytes n rt)" by simp_all
  have "holds mem (jc_code s) (pop_bytes n rt)" by (rule holds_cong[OF _ v(1)]) (use assms(3) v(2) in auto)
  from pop_runs[OF this assms(2)] show ?thesis using assms(4) v(2) by (auto simp: drops_at_def)
qed

lemma fix_branch_goes:
  assumes "mc_fix_branch l target env s = Inr (u, t)"
  shows "t = s\<lparr>jc_mem := jc_mem t\<rparr>" and "goes (jc_mem t) l = int target" and "\<And>a. a < l \<or> l + 4 \<le> a \<Longrightarrow> jc_mem t a = jc_mem s a"
proof -
  let ?d = "int target - int (l + 4)"
  have d: "disp32 ?d" using assms by (auto simp: mc_fix_branch_def Let_def disp32_def unimplemented_def throwJ_def split: if_splits)
  have t: "t = s\<lparr>jc_mem := poke_bytes l (le_bytes 4 (word_of_int ?d :: u32)) (jc_mem s)\<rparr>"
    using assms by (auto simp: mc_fix_branch_def Let_def write_code_def unimplemented_def throwJ_def simp del: le_bytes.simps of_int_diff split: if_splits)
  show "t = s\<lparr>jc_mem := jc_mem t\<rparr>" using t by (simp del: le_bytes.simps)
  have m: "jc_mem t = poke_bytes l (le_bytes 4 (word_of_int ?d :: u32)) (jc_mem s)" unfolding t by simp
  show "goes (jc_mem t) l = int target"
    unfolding m goes_def map_poke_le using d by (simp add: le_word_le_bytes sint_disp32 del: le_bytes.simps of_int_diff of_int_add)
  show "jc_mem t a = jc_mem s a" if "a < l \<or> l + 4 \<le> a" for a
    unfolding m poke_bytes_def using that by auto
qed

lemma case_split_run:
  assumes "mc_case_split mid env s = Inr (b, t)"
  shows "b = jc_code s + 7" and "jc_code t = jc_code s + 11" and "compare_at (jc_mem t) (jc_code s) mid"
    and "\<And>a. a < jc_code s \<Longrightarrow> jc_mem t a = jc_mem s a"
proof -
  let ?p = "jc_code s" and ?ph = "\<lambda>r. le_bytes 4 (3735928555 - (ucast (jv_base env) + of_nat r) :: u32)"
  let ?bs = "([0x3d] @ le_bytes 4 mid @ [0x0f, 0x83]) @ ?ph (?p + 7)"
  from sized_scope(2)[OF assms[unfolded mc_case_split_def]] obtain s1 s2 s3
    where r: "mc_bytes [0x3d] env s = Inr ((), s1)" "mc_operand32 mid env s1 = Inr ((), s2)" "mc_bytes [0x0f, 0x83] env s2 = Inr ((), s3)"
      "mc_branch_target32 env s3 = Inr (b, t)"
    by (auto simp: bindJ_def seqJ.simps retJ_def bindE_eq_Inr_iff)
  note s1 = mc_bytes_Inr[OF r(1)] and s2 = mc_bytes_Inr[OF r(2)[unfolded mc_operand32_def]] and s3 = mc_bytes_Inr[OF r(3)]
  have b: "b = jc_code s3" and t: "t = s3\<lparr>jc_mem := poke_bytes (jc_code s3) (?ph (jc_code s3)) (jc_mem s3), jc_code := jc_code s3 + 4\<rparr>"
    using r(4) mc_bytes_Inr[of "?ph (jc_code s3)" env s3]
    by (auto simp: mc_branch_target32_def bindJ_def getJ_def withJ_def retJ_def mc_operand32_def bindE_eq_Inr_iff simp del: le_bytes.simps)
  have c: "jc_code s1 = ?p + 1" "jc_code s2 = ?p + 5" "jc_code s3 = ?p + 7"
    by (simp_all add: s1 s2 s3 del: le_bytes.simps)
  have m1: "jc_mem s1 = poke_bytes ?p [0x3d] (jc_mem s)" by (simp add: s1)
  have m2: "jc_mem s2 = poke_bytes ?p ([0x3d] @ le_bytes 4 mid) (jc_mem s)"
    using poke_append[of ?p "[0x3d]" "le_bytes 4 mid" "jc_mem s"] by (simp add: s2 c(1) m1 del: le_bytes.simps)
  have m3: "jc_mem s3 = poke_bytes ?p (([0x3d] @ le_bytes 4 mid) @ [0x0f, 0x83]) (jc_mem s)"
    using poke_append[of ?p "[0x3d] @ le_bytes 4 mid" "[0x0f, 0x83]" "jc_mem s"] by (simp add: s3 c(2) m2 add.commute del: le_bytes.simps)
  have m: "jc_mem t = poke_bytes ?p ?bs (jc_mem s)"
    using poke_append[of ?p "[0x3d] @ le_bytes 4 mid @ [0x0f, 0x83]" "?ph (?p + 7)" "jc_mem s"] by (simp add: t c(3) m3 add.commute del: le_bytes.simps)
  show "b = ?p + 7" "jc_code t = ?p + 11" using b t c(3) by (simp_all del: le_bytes.simps)
  show "jc_mem t a = jc_mem s a" if "a < ?p" for a using that by (simp add: m poke_bytes_def)
  define xs ys where "xs = [0x3d] @ le_bytes 4 mid @ [0x0f, 0x83]" and "ys = ?ph (?p + 7)"
  have l: "length xs = 7" "length ys = 4" by (simp_all add: xs_def ys_def del: le_bytes.simps)
  have "map (poke_bytes ?p (xs @ ys) (jc_mem s)) [?p..<?p + 7] = xs"
    by (rule nth_equalityI) (simp_all add: l poke_bytes_def nth_append)
  then show "compare_at (jc_mem t) ?p mid" unfolding compare_at_def m xs_def ys_def .
qed

lemma case_jump_run:
  assumes "mc_case_jump d rt l env s = Inr (r, t)" and "label_ok (d, rt)"
  obtains l' where "l = Some l'" "is_simple_multipop d rt" "r = l'" "t = s"
  | "drops_at (jc_mem t) (jc_code s) (d, rt) r" "jc_code s < r" "r + 4 = jc_code t" "\<And>a. a < jc_code s \<Longrightarrow> jc_mem t a = jc_mem s a"
proof (cases "is_simple_multipop d rt \<and> l \<noteq> None")
  case True
  then obtain l' where l': "l = Some l'" "is_simple_multipop d rt" by blast
  from sized_scope(1)[OF assms(1)[unfolded mc_case_jump_def]] have "r = l'" "t = s" by (simp_all add: l' retJ_def)
  with l' show ?thesis by (rule that(1))
next
  case False
  have pop: "is_simple_multipop d rt \<Longrightarrow> mc_multipop d rt env s = Inr ((), s)" by (simp add: mc_multipop_def variable_size_instr_def retJ_def)
  from sized_scope(1)[OF assms(1)[unfolded mc_case_jump_def]] False obtain v w
    where r: "mc_multipop d rt env s = Inr ((), v)" "mc_bytes [0xe9] env v = Inr ((), w)" "mc_branch_target32 env w = Inr (r, t)"
    by (cases "is_simple_multipop d rt") (auto simp: bindJ_def bindE_eq_Inr_iff pop split: option.splits)
  let ?ph = "le_bytes 4 (3735928555 - (ucast (jv_base env) + of_nat (jc_code w)) :: u32)"
  note w = mc_bytes_Inr[OF r(2)]
  have t: "r = jc_code w" "t = w\<lparr>jc_mem := poke_bytes (jc_code w) ?ph (jc_mem w), jc_code := jc_code w + 4\<rparr>"
    using r(3) mc_bytes_Inr[of ?ph env w]
    by (auto simp: mc_branch_target32_def bindJ_def getJ_def withJ_def retJ_def mc_operand32_def bindE_eq_Inr_iff simp del: le_bytes.simps)
  note v = appendsD[OF appends_multipop r(1)]
  have k: "jc_code w = Suc (jc_code v)" by (simp add: w)
  have m: "a < jc_code v \<Longrightarrow> jc_mem t a = jc_mem v a" "jc_mem t (jc_code v) = 0xe9" for a
    using k by (simp_all add: t(2) w poke_bytes_def del: le_bytes.simps)
  show ?thesis
  proof (rule that(2))
    show "drops_at (jc_mem t) (jc_code s) (d, rt) r" using multipop_drops[OF r(1) assms(2), of "jc_mem t"] m t(1) k by simp
    show "jc_code s < r" "r + 4 = jc_code t" using v(1) k t by (simp_all del: le_bytes.simps)
    show "jc_mem t a = jc_mem s a" if "a < jc_code s" for a using v that m(1)[of a] by simp
  qed
qed

section \<open>Writing a case\<close>

lemma patch_run:
  assumes "(case l of Some l \<Rightarrow> mc_fix_here l | None \<Rightarrow> retJ ()) env s = Inr (u, t)"
  shows "t = s\<lparr>jc_mem := jc_mem t\<rparr>" and "l = Some l' \<Longrightarrow> goes (jc_mem t) l' = int (jc_code s)"
    and "(\<And>l'. l = Some l' \<Longrightarrow> a < l' \<or> l' + 4 \<le> a) \<Longrightarrow> jc_mem t a = jc_mem s a"
proof -
  have f: "mc_fix_branch l' (jc_code s) env s = Inr (u, t)" if "l = Some l'" for l' using assms that by (simp add: mc_fix_here_def bindJ_def getJ_def)
  show "t = s\<lparr>jc_mem := jc_mem t\<rparr>" using fix_branch_goes(1)[OF f] assms by (cases l) (simp_all add: retJ_def)
  show "goes (jc_mem t) l' = int (jc_code s)" if "l = Some l'" using fix_branch_goes(2)[OF f[OF that]] .
  show "jc_mem t a = jc_mem s a" if "\<And>l'. l = Some l' \<Longrightarrow> a < l' \<or> l' + 4 \<le> a"
    using fix_branch_goes(3)[OF f] that assms by (cases l) (auto simp: retJ_def)
qed

text \<open>The entry of a range that is being written.\<close>

definition entered :: "(nat \<Rightarrow> u8) \<Rightarrow> u32 \<Rightarrow> nat option \<Rightarrow> nat \<Rightarrow> u32 \<times> value_type \<Rightarrow> nat \<Rightarrow> bool" where
  "entered mem j l p x q \<longleftrightarrow> (case l of None \<Rightarrow> leads mem j p x q | Some l \<Rightarrow> taken mem j l x q)"

lemma serves_Cons: "serves n mem X q p ((lo, hi, l) # st) \<longleftrightarrow> (\<forall>j. covers n lo hi j \<longrightarrow> entered mem j l p (X j) (q j)) \<and> serves n mem X q p st"
  by (cases l) (simp_all add: entered_def)

lemma placed_Cons: "placed E p ((lo, hi, l) # st) \<longleftrightarrow> (\<forall>l'. l = Some l' \<longrightarrow> l' + 4 \<le> p \<and> (\<forall>e \<in> E \<union> labels st. apart l' e)) \<and> placed E p st"
  by (cases l) auto

lemma goes_enters:
  assumes "\<And>l'. l = Some l' \<Longrightarrow> goes mem l' = int p" and "leads mem j p x q"
  shows "entered mem j l p x q"
  using assms by (cases l) (auto simp: entered_def taken_def)

text \<open>Reading through an agreeing memory.\<close>

lemma agrees_read: "agrees s L mem \<Longrightarrow> a < jc_code s \<Longrightarrow> (\<And>l. l \<in> L \<Longrightarrow> a < l \<or> l + 4 \<le> a) \<Longrightarrow> mem a = jc_mem s a"
  by (simp add: agrees_def)

lemma agrees_before:
  assumes "agrees t L mem" and "jc_code s \<le> jc_code t"
    and "\<And>a. a < jc_code s \<Longrightarrow> (\<And>l. l \<in> K \<Longrightarrow> a < l \<or> l + 4 \<le> a) \<Longrightarrow> jc_mem t a = jc_mem s a"
    and "\<And>l. l \<in> L \<Longrightarrow> l \<in> K \<or> jc_code s \<le> l"
  shows "agrees s K mem"
  unfolding agrees_def
proof (intro allI impI)
  fix a assume a: "a < jc_code s" "\<forall>l\<in>K. a < l \<or> l + 4 \<le> a"
  have "mem a = jc_mem t a" by (rule agrees_read[OF assms(1)]) (use a assms(2,4) in fastforce)+
  with assms(3) a show "mem a = jc_mem s a" by simp
qed

lemma agrees_goes:
  assumes "agrees t L mem" and "l + 4 \<le> jc_code t" and "\<And>e. e \<in> L \<Longrightarrow> apart l e" and "\<And>a. l \<le> a \<Longrightarrow> a < l + 4 \<Longrightarrow> jc_mem t a = mem' a"
  shows "goes mem l = goes mem' l"
proof (rule goes_cong)
  fix a assume a: "l \<le> a" "a < l + 4"
  have "mem a = jc_mem t a" by (rule agrees_read[OF assms(1)]) (use a assms(2,3) in \<open>fastforce simp: apart_def\<close>)+
  with assms(4) a show "mem a = mem' a" by simp
qed

text \<open>
  What a call of \<open>mc_case\<close> leaves behind, for a memory that agrees with its result: if all ranges that are left lead
  to their cases, then so did the ranges it started with.
\<close>

definition case_done :: "u32 \<Rightarrow> nat set \<Rightarrow> u32 \<times> value_type \<Rightarrow> u32 \<Rightarrow> (u32 \<times> u32 \<times> nat option) list \<Rightarrow> jit \<Rightarrow>
    nat \<Rightarrow> br_table_generator \<Rightarrow> jit \<Rightarrow> bool" where
  "case_done n E x i st s r g t \<longleftrightarrow> bt_i g = i + 1 \<and> list_all (waiting n) (bt_stack g) \<and> placed (insert r E) (jc_code t) (bt_stack g) \<and>
     (\<forall>mem X q. agrees t (insert r E \<union> labels (bt_stack g)) mem \<longrightarrow> serves n mem X q (jc_code t) (bt_stack g) \<longrightarrow>
        (\<forall>j. covers n i (i + 1) j \<longrightarrow> X j = x \<and> q j = r) \<longrightarrow>
        agrees s (E \<union> labels st) mem \<and> serves n mem X q (jc_code s) st)"

lemma case_leaf:
  assumes "lo = i" and "hi = i + 1" and "list_all (waiting n) st" and "placed E (jc_code s) ((lo, hi, l) # st)"
    and "(case l of Some l \<Rightarrow> mc_fix_here l | None \<Rightarrow> retJ ()) env s = Inr (u, s1)" and "mc_case_jump d rt l env s1 = Inr (r, t)"
    and "label_ok (d, rt)"
  shows "case_done n E (d, rt) i ((lo, hi, l) # st) s r \<lparr>bt_i = i + 1, bt_stack = st\<rparr> t"
proof -
  note patch = patch_run[OF assms(5)]
  have code: "jc_code s1 = jc_code s" by (subst patch(1)) simp
  have pl: "placed E (jc_code s) st" "\<And>l'. l = Some l' \<Longrightarrow> l' + 4 \<le> jc_code s \<and> (\<forall>e \<in> E \<union> labels st. apart l' e)"
    using assms(4) by (auto simp: placed_Cons)
  have bounds: "\<And>e. e \<in> E \<union> labels st \<Longrightarrow> e + 4 \<le> jc_code s" using placed_bounds[OF pl(1)] .
  from assms(6,7) show ?thesis
  proof (rule case_jump_run)
    fix l' assume l': "l = Some l'" "is_simple_multipop d rt" "r = l'" "t = s1"
    have "placed (insert r E) (jc_code t) st" unfolding l'(3,4) code
      by (rule placed_insert[OF pl(1)]) (use pl(2)[OF l'(1)] in \<open>auto simp: apart_def\<close>)
    moreover have "agrees s (E \<union> labels ((lo, hi, l) # st)) mem" if "agrees t (insert r E \<union> labels st) mem" for mem
      by (rule agrees_before[OF that]) (use l' code patch(3) in auto)
    moreover have "serves n mem X q (jc_code s) ((lo, hi, l) # st)" if "serves n mem X q (jc_code t) st" "\<And>j. covers n i (i + 1) j \<Longrightarrow> X j = (d, rt) \<and> q j = r" for mem X q
      using that l' code assms(1,2) simple_keeps[OF l'(2)] by (simp add: serves_Cons entered_def taken_def)
    ultimately show ?thesis using assms(3) by (simp add: case_done_def)
  next
    assume j: "drops_at (jc_mem t) (jc_code s1) (d, rt) r" "jc_code s1 < r" "r + 4 = jc_code t" "\<And>a. a < jc_code s1 \<Longrightarrow> jc_mem t a = jc_mem s1 a"
    have "placed (insert r E) (jc_code t) st"
      by (rule placed_insert[OF placed_mono[OF pl(1)]]) (use j(2,3) code in \<open>auto simp: apart_def dest!: bounds[OF UnI2]\<close>)
    moreover have "agrees s (E \<union> labels ((lo, hi, l) # st)) mem" if "agrees t (insert r E \<union> labels st) mem" for mem
      by (rule agrees_before[OF that]) (use j code patch(3) in auto)
    moreover have "serves n mem X q (jc_code s) ((lo, hi, l) # st)"
      if ag: "agrees t (insert r E \<union> labels st) mem" and "serves n mem X q (jc_code t) st" "\<And>j. covers n i (i + 1) j \<Longrightarrow> X j = (d, rt) \<and> q j = r" for mem X q
    proof -
      have "mem a = jc_mem t a" if "jc_code s \<le> a" "a < r" for a
        by (rule agrees_read[OF ag]) (use that j(3) bounds in fastforce)+
      then have "leads mem j (jc_code s) (d, rt) r" for j using drops_cong[OF _ _ j(1)] j(2) code by (intro leads_drop) auto
      moreover have "goes mem l' = int (jc_code s)" if "l = Some l'" for l'
      proof -
        have "goes mem l' = goes (jc_mem s1) l'"
          by (rule agrees_goes[OF ag]) (use pl(2)[OF that] j code in \<open>auto simp: apart_def\<close>)
        with patch(2)[OF that] show ?thesis by simp
      qed
      ultimately have "entered mem j l (jc_code s) (d, rt) r" for j by (intro goes_enters)
      with that(2-) assms(1-3) show ?thesis by (simp add: serves_Cons serves_waiting[of n st mem X q "jc_code t" "jc_code s"])
    qed
    ultimately show ?thesis using assms(3) by (simp add: case_done_def)
  qed
qed

lemma case_split_done:
  assumes "lo < mid" and "mid < hi" and "hi \<le> n" and "list_all (waiting n) st" and "placed E (jc_code s) ((lo, hi, l) # st)"
    and "(case l of Some l \<Rightarrow> mc_fix_here l | None \<Rightarrow> retJ ()) env s = Inr (u, s1)" and "mc_case_split mid env s1 = Inr (b, s2)"
    and "placed E (jc_code s2) ((lo, mid, None) # (mid, hi, Some b) # st) \<Longrightarrow> case_done n E x i ((lo, mid, None) # (mid, hi, Some b) # st) s2 r g t"
  shows "case_done n E x i ((lo, hi, l) # st) s r g t"
proof -
  note patch = patch_run[OF assms(6)] and split = case_split_run[OF assms(7)]
  have code: "jc_code s1 = jc_code s" by (subst patch(1)) simp
  have pl: "placed E (jc_code s) st" "\<And>l'. l = Some l' \<Longrightarrow> l' + 4 \<le> jc_code s \<and> (\<forall>e \<in> E \<union> labels st. apart l' e)"
    using assms(5) by (auto simp: placed_Cons)
  have bounds: "\<And>e. e \<in> E \<union> labels st \<Longrightarrow> e + 4 \<le> jc_code s" using placed_bounds[OF pl(1)] .
  have "placed E (jc_code s2) ((lo, mid, None) # (mid, hi, Some b) # st)"
    using placed_mono[OF pl(1), of "jc_code s2"] split(1,2) code by (auto simp: apart_def dest!: bounds[OF UnI1] bounds[OF UnI2])
  note IH = assms(8)[OF this, unfolded case_done_def]
  have "agrees s (E \<union> labels ((lo, hi, l) # st)) mem \<and> serves n mem X q (jc_code s) ((lo, hi, l) # st)"
    if "agrees t (insert r E \<union> labels (bt_stack g)) mem" "serves n mem X q (jc_code t) (bt_stack g)" "\<forall>j. covers n i (i + 1) j \<longrightarrow> X j = x \<and> q j = r" for mem X q
  proof -
    let ?L = "E \<union> labels ((lo, mid, None) # (mid, hi, Some b) # st)"
    from IH that have ag: "agrees s2 ?L mem" and sv: "serves n mem X q (jc_code s2) ((lo, mid, None) # (mid, hi, Some b) # st)" by blast+
    have L: "\<And>e. e \<in> ?L \<Longrightarrow> e = jc_code s + 7 \<or> e + 4 \<le> jc_code s" using bounds split(1) code by auto
    have "agrees s (E \<union> labels ((lo, hi, l) # st)) mem"
      by (rule agrees_before[OF ag]) (use split code patch(3) in auto)
    moreover have cmp: "compare_at mem (jc_code s) mid"
    proof (rule compare_cong)
      show "compare_at (jc_mem s2) (jc_code s) mid" using split(3) code by simp
      show "mem a = jc_mem s2 a" if "jc_code s \<le> a" "a < jc_code s + 7" for a
        by (rule agrees_read[OF ag]) (use that split(2) code L in fastforce)+
    qed
    have go: "goes mem l' = int (jc_code s)" if "l = Some l'" for l'
    proof -
      have "goes mem l' = goes (jc_mem s1) l'"
        by (rule agrees_goes[OF ag]) (use pl(2)[OF that] split(1,2,4) code in \<open>auto simp: apart_def\<close>)
      with patch(2)[OF that] show ?thesis by simp
    qed
    have "entered mem j l (jc_code s) (X j) (q j)" if "covers n lo hi j" for j
    proof (rule goes_enters[OF go])
      show "leads mem j (jc_code s) (X j) (q j)"
      proof (cases "j < mid")
        case True
        with sv that split(2) code have "leads mem j (jc_code s + 11) (X j) (q j)" by (simp add: covers_def)
        with cmp True show ?thesis by (rule leads_below)
      next
        case False
        with sv that split(1) code have "taken mem j (jc_code s + 7) (X j) (q j)" by (simp add: covers_def)
        with cmp False show ?thesis by (intro leads_taken) (simp_all add: not_less)
      qed
    qed
    moreover have "serves n mem X q (jc_code s) st" using sv serves_waiting[OF assms(4), of mem X q "jc_code s2" "jc_code s"] by simp
    ultimately show ?thesis by (simp add: serves_Cons)
  qed
  with IH show ?thesis by (simp add: case_done_def)
qed

lemma case_loop_done:
  assumes "mc_case_loop d rt i (lo, hi, l) st env s = Inr ((r, g), t)" and "lo < hi" and "hi \<le> n" and "list_all (waiting n) st" and "placed E (jc_code s) ((lo, hi, l) # st)" and "label_ok (d, rt)"
  shows "case_done n E (d, rt) i ((lo, hi, l) # st) s r g t"
  using assms
proof (induction d rt i "(lo, hi, l)" st arbitrary: lo hi l s rule: mc_case_loop.induct)
  case (1 d rt i lo hi l st)
  show ?case
  proof (cases "hi - lo > 1")
    case True
    let ?mid = "lo + (hi - lo) div 2"
    note mid = split_range(1,2)[OF True 1(3)]
    from 1(2) obtain u s1 b s2 where r: "(case l of Some l \<Rightarrow> mc_fix_here l | None \<Rightarrow> retJ ()) env s = Inr (u, s1)" "mc_case_split ?mid env s1 = Inr (b, s2)"
      "mc_case_loop d rt i (lo, ?mid, None) ((?mid, hi, Some b) # st) env s2 = Inr ((r, g), t)"
      unfolding mc_case_loop_split[OF True] bindJ_def bindE_eq_Inr_iff by (elim exE conjE) (auto simp: bindE_eq_Inr_iff)
    show ?thesis
      by (rule case_split_done[OF mid 1(4,5,6) r(1,2)], rule 1(1)[OF True refl r(3) mid(1)]) (use mid(2) 1(4,5,7) in simp_all)
  next
    case False
    from 1(2) obtain u s1 where r: "(case l of Some l \<Rightarrow> mc_fix_here l | None \<Rightarrow> retJ ()) env s = Inr (u, s1)" "lo = i" "mc_case_jump d rt l env s1 = Inr (r, t)"
      "g = \<lparr>bt_i = i + 1, bt_stack = st\<rparr>"
      using False by (subst (asm) mc_case_loop.simps) (auto simp: bindJ_def bindE_eq_Inr_iff checkJ_def retJ_def throwJ_def split: if_splits)
    from single_range(1)[OF False 1(3)] r(2) show ?thesis unfolding r(4) by (intro case_leaf[OF r(2) _ 1(5,6) r(1,3) 1(7)]) simp
  qed
qed

section \<open>A whole table\<close>

lemma cases_done:
  assumes "jit_cases ls dflt g env s = Inr (rs, t)" and "bt_stack g = (lo, hi, l) # st" and "lo < hi" and "hi \<le> n" and "list_all (waiting n) st"
    and "placed E (jc_code s) (bt_stack g)" and "agrees t (E \<union> set rs) mem"
    and "unat n = unat (bt_i g) + length ls + 1"
    and "\<And>j. bt_i g \<le> j \<Longrightarrow> X j = (ls @ [dflt]) ! min (unat j - unat (bt_i g)) (length ls) \<and> q j = rs ! min (unat j - unat (bt_i g)) (length ls)"
    and "list_all label_ok (ls @ [dflt])"
  shows "agrees s (E \<union> labels (bt_stack g)) mem \<and> serves n mem X q (jc_code s) (bt_stack g)"
  using assms
proof (induction ls arbitrary: g s rs lo hi l st E)
  case Nil
  obtain d rt where dflt: "dflt = (d, rt)" by (cases dflt)
  from Nil(1,2) obtain r g' where r: "mc_case_loop d rt (bt_i g) (lo, hi, l) st env s = Inr ((r, g'), t)" "bt_stack g' = []" "rs = [r]"
    by (auto simp: dflt mc_default_def mc_case_def bindJ_def bindE_eq_Inr_iff checkJ_def retJ_def throwJ_def split: if_splits)
  from case_loop_done[OF r(1) Nil(3-5)] Nil(2,6,10) dflt have c: "case_done n E (d, rt) (bt_i g) ((lo, hi, l) # st) s r g' t" by simp
  have "X j = (d, rt) \<and> q j = r" if "covers n (bt_i g) (bt_i g + 1) j" for j
    using Nil(9)[of j] that by (simp add: covers_def dflt r(3))
  moreover have "agrees t (insert r E \<union> labels (bt_stack g')) mem" "serves n mem X q (jc_code t) (bt_stack g')" using Nil(7) by (simp_all add: r(2,3))
  ultimately show ?case using c unfolding case_done_def Nil(2) by blast
next
  case (Cons x ls)
  obtain d rt where x: "x = (d, rt)" by (cases x)
  obtain d' rt' where dflt: "dflt = (d', rt')" by (cases dflt)
  from Cons.prems(1,2) obtain r g' s' rs' where r: "mc_case_loop d rt (bt_i g) (lo, hi, l) st env s = Inr ((r, g'), s')"
    "jit_cases ls dflt g' env s' = Inr (rs', t)" "rs = r # rs'"
    by (auto simp: x dflt mc_case_def bindJ_def bindE_eq_Inr_iff retJ_def)
  note i = next_case(2)[OF Cons.prems(8)]
  from case_loop_done[OF r(1) Cons.prems(3-5)] Cons.prems(2,6,10) x have c: "case_done n E (d, rt) (bt_i g) ((lo, hi, l) # st) s r g' s'" by simp
  then have g': "bt_i g' = bt_i g + 1" "list_all (waiting n) (bt_stack g')" "placed (insert r E) (jc_code s') (bt_stack g')" by (auto simp: case_done_def)
  have X: "X j = (d, rt) \<and> q j = r" if "covers n (bt_i g) (bt_i g + 1) j" for j
  proof -
    have "unat (bt_i g + 1) \<noteq> unat n" using Cons.prems(8) i by simp
    with that have "unat j = unat (bt_i g)" using i by (auto simp: covers_def word_le_nat_alt word_less_nat_alt)
    with Cons.prems(9)[of j] that show ?thesis by (simp add: covers_def x r(3))
  qed
  obtain lo' hi' l' st' where st': "bt_stack g' = (lo', hi', l') # st'"
    using r(2) by (cases "bt_stack g'"; cases ls) (auto simp: dflt mc_default_def mc_case_def bindJ_def throwJ_def)
  have "agrees s' (insert r E \<union> labels (bt_stack g')) mem \<and> serves n mem X q (jc_code s') (bt_stack g')"
  proof (rule Cons.IH[OF r(2) st'])
    show "lo' < hi'" "hi' \<le> n" "list_all (waiting n) st'" "placed (insert r E) (jc_code s') (bt_stack g')" using g' st' by auto
    show "list_all label_ok (ls @ [dflt])" using Cons.prems(10) by simp
    show "agrees t (insert r E \<union> set rs') mem" using Cons.prems(7) r(3) by simp
    show "unat n = unat (bt_i g') + length ls + 1" using Cons.prems(8) g'(1) i by simp
    show "X j = (ls @ [dflt]) ! min (unat j - unat (bt_i g')) (length ls) \<and> q j = rs' ! min (unat j - unat (bt_i g')) (length ls)" if "bt_i g' \<le> j" for j
    proof -
      have j: "bt_i g \<le> j" "unat j - unat (bt_i g) = Suc (unat j - unat (bt_i g'))"
        using that g'(1) i by (auto simp: word_le_nat_alt)
      show ?thesis using Cons.prems(9)[OF j(1)] unfolding j(2) r(3) by simp
    qed
  qed
  then show ?case using c X unfolding case_done_def Cons.prems(2) by blast
qed

lemma cases_length: "jit_cases ls dflt g env s = Inr (rs, t) \<Longrightarrow> length rs = Suc (length ls)"
proof (induction ls arbitrary: g s rs)
  case Nil
  then show ?case by (cases dflt) (auto simp: bindJ_def bindE_eq_Inr_iff retJ_def)
next
  case (Cons x ls)
  then show ?case by (cases dflt; cases x) (fastforce simp: bindJ_def bindE_eq_Inr_iff retJ_def)
qed

text \<open>
  After its operand is popped into \<open>eax\<close>, the code of a table leads to the branch of the case, or of the default for an
  operand beyond the cases, also after all these branches have been patched.
\<close>

lemma br_table_leads:
  assumes "jit_br_table ls dflt env s = Inr (rs, t)" and "length ls + 1 < 2 ^ 32" and "list_all label_ok (ls @ [dflt])"
  obtains u where "mc_pop rax env s = Inr ((), u)" and "length rs = Suc (length ls)"
    and "\<And>mem i. agrees t (set rs) mem \<Longrightarrow>
      leads mem i (jc_code u) ((ls @ [dflt]) ! min (unat i) (length ls)) (rs ! min (unat i) (length ls))"
proof -
  let ?n = "of_nat (length ls) + 1 :: u32"
  have n: "unat ?n = length ls + 1" using assms(2) by (simp add: unat_word_ariths unat_of_nat)
  let ?g = "\<lparr>bt_i = 0, bt_stack = [(0, ?n, None)]\<rparr>"
  from assms(1) obtain u where u: "mc_pop rax env s = Inr ((), u)" and r: "jit_cases ls dflt ?g env u = Inr (rs, t)"
    by (auto simp: jit_br_table_def mc_br_table_def bindJ_def bindE_eq_Inr_iff retJ_def)
  show ?thesis
  proof (rule that[OF u cases_length[OF r]])
    fix mem i assume ag: "agrees t (set rs) mem"
    show "leads mem i (jc_code u) ((ls @ [dflt]) ! min (unat i) (length ls)) (rs ! min (unat i) (length ls))"
    proof -
      let ?X = "\<lambda>j. (ls @ [dflt]) ! min (unat j) (length ls)" and ?q = "\<lambda>j. rs ! min (unat j) (length ls)"
      have "serves ?n mem ?X ?q (jc_code u) (bt_stack ?g)"
        by (rule conjunct2[OF cases_done[where E = "{}", OF r]]) (use n ag assms(3) in \<open>auto simp: word_less_nat_alt\<close>)
      then show ?thesis by (simp add: covers_def)
    qed
  qed
qed

end
