(* ===== verification/Vm_Jit_Props.thy ===== *)
theory Vm_Jit_Props
  imports Vm_Jit_Frame Vm_Jit_Search
begin

text \<open>
  The properties of the JIT compiler: the generated code stays inside its buffers, branches reach their targets,
  locals have slots of their own, and instructions are encoded as the processor reads them.
\<close>

section \<open>Code stays inside its buffers\<close>

text \<open>
  C8: Compiling a module writes no byte outside the memory that was allocated for it and violates no assertion: the estimate of
  the size of a function before its code is known (\<open>max_prologue_size\<close>, \<open>max_epilogue_size\<close> and a number of bytes for
  every byte of the body) is large enough.  The compiler either throws a documented exception, or returns one offset
  for every function, in ascending order inside the used part of the code segment.

  This is so in builds with software floating point and pages of more than 128 bytes that do not combine the checks of instruction
  sizes with a stack limit in bytes (\<open>jit_build\<close>), for functions given by the calls of the parser in its order
  (\<open>fns_ok\<close>, \<open>call_ok\<close>): branches and \<open>else\<close> refer to places that were handed out, locals, globals and tables to
  those the module has, and \<open>global.set\<close> of a vector occurs only where sizes are not checked.  In the other builds and on
  that instruction the assertions on sizes can fail.
\<close>

theorem jit_compile_fits:
  assumes "page_ok (of_nat (jv_page env)) g" and "jit_build env" and "get_imported_functions_size (jv_mod env) < 2 ^ 32" and "fns_ok env 0 fs"
  shows "case jit_compile g env fs of
      Inl x \<Rightarrow> x \<noteq> Undefined_behaviour \<and> x \<noteq> Assertion_failure
    | Inr (offsets, s) \<Rightarrow> length offsets = length fs \<and> sorted (offsets @ [code_size s]) \<and> ga_offset (jc_alloc s) \<le> ga_capacity (jc_alloc s)"
  using compile_run[OF assms] by (auto simp: fine_def jit_idle_def wf_ga_def split: sum.splits)

definition jit_ex_env :: jit_env where
  "jit_ex_env = \<lparr>jv_softfloat = True, jv_backtrace = False, jv_stack_bytes = False, jv_validate = True, jv_tzcnt = True,
     jv_page = 4096, jv_base = 0x10000, jv_fn = (\<lambda>f. 0x400000 + of_nat (length f)), jv_mod = ex_module\<rparr>"

definition jit_ex_functions :: "(local_entry list \<times> jit_call list \<times> u64) list" where
  "jit_ex_functions = [([], [J_block, J_br 0 t_pseudo, J_end, J_fix_branch 0 3000, J_end], 0)]"

theorem jit_compile_fits_witness:
  "case jit_compile ex_alloc jit_ex_env jit_ex_functions of
      Inl x \<Rightarrow> x \<noteq> Undefined_behaviour \<and> x \<noteq> Assertion_failure
    | Inr (offsets, s) \<Rightarrow> length offsets = length jit_ex_functions \<and> sorted (offsets @ [code_size s]) \<and> ga_offset (jc_alloc s) \<le> ga_capacity (jc_alloc s)"
proof (rule jit_compile_fits)
  show "page_ok (of_nat (jv_page jit_ex_env)) ex_alloc" using ex_ready(4) by (simp add: jit_ex_env_def)
  show "jit_build jit_ex_env" by (simp add: jit_build_def jit_ex_env_def)
  show "get_imported_functions_size (jv_mod jit_ex_env) < 2 ^ 32"
    by (simp add: jit_ex_env_def ex_module_def empty_module_def get_imported_functions_size_def)
  show "fns_ok jit_ex_env 0 jit_ex_functions"
    by (simp add: jit_ex_env_def ex_module_def empty_module_def jit_ex_functions_def Let_def split: sum.splits)
qed

section \<open>Branches\<close>

text \<open>The processor adds the displacement, read as a signed number, to the address behind it; \<open>goes\<close> is this for long branches.\<close>

definition goes8 :: "(nat \<Rightarrow> u8) \<Rightarrow> nat \<Rightarrow> int" where
  "goes8 mem p = int (p + 1) + sint (mem p)"

text \<open>
  C15: A branch whose target becomes known is patched to reach it: the displacement read back from the code leads to the
  target, no other byte of the code and nothing else of the state changes, and a target that the
  displacement cannot reach is refused.  The same holds of short branches.
\<close>

theorem fix_branch_reaches:
  assumes "branch + 4 \<le> jc_end s"
  shows "(case mc_fix_branch branch target env s of
      Inl x \<Rightarrow> x = Wasm_parse_exception \<and> \<not> disp32 (int target - int (branch + 4))
    | Inr (_, t) \<Rightarrow> goes (jc_mem t) branch = int target \<and> t = s\<lparr>jc_mem := jc_mem t\<rparr> \<and>
        (\<forall>a. a < branch \<or> branch + 4 \<le> a \<longrightarrow> jc_mem t a = jc_mem s a)) \<and>
    (case mc_fix_branch8 branch target env s of
      Inl x \<Rightarrow> x = Wasm_parse_exception \<and> \<not> fits8 (int target - int (branch + 1))
    | Inr (_, t) \<Rightarrow> goes8 (jc_mem t) branch = int target \<and> t = s\<lparr>jc_mem := jc_mem t\<rparr> \<and>
        (\<forall>a. a \<noteq> branch \<longrightarrow> jc_mem t a = jc_mem s a))"
proof
  let ?d = "int target - int (branch + 4)" and ?e = "int target - int (branch + 1)"
  show "case mc_fix_branch branch target env s of
      Inl x \<Rightarrow> x = Wasm_parse_exception \<and> \<not> disp32 ?d
    | Inr (_, t) \<Rightarrow> goes (jc_mem t) branch = int target \<and> t = s\<lparr>jc_mem := jc_mem t\<rparr> \<and>
        (\<forall>a. a < branch \<or> branch + 4 \<le> a \<longrightarrow> jc_mem t a = jc_mem s a)"
  proof (cases "mc_fix_branch branch target env s")
    case (Inl x)
    then show ?thesis using assms
      by (auto simp: mc_fix_branch_def Let_def write_code_def disp32_def unimplemented_def throwJ_def simp del: le_bytes.simps split: if_splits)
  next
    case (Inr y)
    obtain u t where "mc_fix_branch branch target env s = Inr (u, t)" using Inr by (cases y) simp
    from fix_branch_goes[OF this] this show ?thesis by simp
  qed
  show "case mc_fix_branch8 branch target env s of
      Inl x \<Rightarrow> x = Wasm_parse_exception \<and> \<not> fits8 ?e
    | Inr (_, t) \<Rightarrow> goes8 (jc_mem t) branch = int target \<and> t = s\<lparr>jc_mem := jc_mem t\<rparr> \<and>
        (\<forall>a. a \<noteq> branch \<longrightarrow> jc_mem t a = jc_mem s a)"
  proof (cases "fits8 ?e")
    case True
    then have "mc_fix_branch8 branch target env s = Inr ((), s\<lparr>jc_mem := poke_bytes branch [word_of_int ?e] (jc_mem s)\<rparr>)"
      using assms by (simp add: mc_fix_branch8_def Let_def write_code_def fits8_def)
    moreover have "goes8 (poke_bytes branch [word_of_int ?e] (jc_mem s)) branch = int target"
      unfolding goes8_def poke_bytes_def using sint_disp8[OF True] by simp
    ultimately show ?thesis by (auto simp: poke_bytes_def)
  next
    case False
    then show ?thesis by (auto simp: mc_fix_branch8_def Let_def fits8_def unimplemented_def throwJ_def not_le)
  qed
qed

theorem fix_branch_reaches_witness:
  "\<exists>s. 1000 + 4 \<le> jc_end s \<and> (case mc_fix_branch 1000 3000 jit_ex_env s of
      Inl x \<Rightarrow> x = Wasm_parse_exception \<and> \<not> disp32 (int 3000 - int (1000 + 4))
    | Inr (_, t) \<Rightarrow> goes (jc_mem t) 1000 = int 3000 \<and> t = s\<lparr>jc_mem := jc_mem t\<rparr> \<and>
        (\<forall>a. a < 1000 \<or> 1000 + 4 \<le> a \<longrightarrow> jc_mem t a = jc_mem s a))"
proof -
  obtain s :: jit where "jc_end s = 5000" by (metis jit.select_convs(6))
  then have "1000 + 4 \<le> jc_end s" by simp
  with fix_branch_reaches[OF this, of 3000 jit_ex_env] show ?thesis by blast
qed

section \<open>Branch tables\<close>

text \<open>
  C13: The binary search that \<open>br_table\<close> is compiled to finds the case of every operand: from the code behind the pop of the
  operand \<open>i\<close> into \<open>eax\<close>, comparisons and jumps lead to the branch of case \<open>i\<close>, or of the default when \<open>i\<close> is not less
  than the number of cases.  On the way the stack is unwound for this case's label and no other: the instructions in front of the
  jump, executed on any machine stack that has the words the label drops, leave the words of the label's result on top of
  what was below (\<open>drops_at\<close>, \<open>unwound\<close>); a conditional jump leads there directly only when there is nothing to drop.
  This holds in every memory that differs from the written code in the displacements of these branches only, which the parser patches
  when the labels' positions are known.  Labels drop at least the words of their result and fewer than \<open>2 ^ 28\<close>
  words, beyond which the compiler writes a breakpoint instead.
\<close>

theorem br_table_dispatch:
  assumes "jit_br_table ls dflt env s = Inr (rs, t)" and "length ls + 1 < 2 ^ 32" and "list_all label_ok (ls @ [dflt])" and "agrees t (set rs) mem"
  shows "\<exists>u. mc_pop rax env s = Inr ((), u) \<and> length rs = length ls + 1 \<and>
    leads mem i (jc_code u) ((ls @ [dflt]) ! min (unat i) (length ls)) (rs ! min (unat i) (length ls))"
  using assms(1-3) by (rule br_table_leads) (use assms(4) in auto)

definition jit_ex_state :: jit where
  "jit_ex_state = \<lparr>jc_alloc = ex_alloc, jc_segment = 0, jc_mem = (\<lambda>_. 0), jc_code = 100, jc_start = 100, jc_end = 1000,
     jc_recent0 = no_recent, jc_recent1 = no_recent, jc_relocs = [], jc_fpe_handler = 0, jc_call_indirect_handler = 0,
     jc_type_error_handler = 0, jc_stack_overflow_handler = 0, jc_memory_handler = 0,
     jc_ft = ex_type, jc_params = [], jc_locals = [], jc_local_count = 0, jc_stack_usage = 0, jc_stack_limit_entry = 0\<rparr>"

lemma jit_ex_table: "\<not> isl (jit_br_table [(0, t_pseudo), (3, t_i32)] (1, t_pseudo) jit_ex_env jit_ex_state)"
  by code_simp

theorem br_table_dispatch_witness:
  "\<exists>rs t u. jit_br_table [(0, t_pseudo), (3, t_i32)] (1, t_pseudo) jit_ex_env jit_ex_state = Inr (rs, t) \<and>
    mc_pop rax jit_ex_env jit_ex_state = Inr ((), u) \<and> length rs = 3 \<and> leads (jc_mem t) 1 (jc_code u) (3, t_i32) (rs ! 1)"
proof -
  obtain rs t where r: "jit_br_table [(0, t_pseudo), (3, t_i32)] (1, t_pseudo) jit_ex_env jit_ex_state = Inr (rs, t)"
    using jit_ex_table by (metis isl_def sum.exhaust_sel surj_pair sum.collapse(2))
  have "agrees t (set rs) (jc_mem t)" by (simp add: agrees_def)
  moreover have "list_all label_ok ([(0, t_pseudo), (3, t_i32)] @ [(1, t_pseudo)])" by (simp add: label_ok_def result_words_def)
  ultimately have "agrees t (set rs) (jc_mem t)" and ok: "list_all label_ok ([(0, t_pseudo), (3, t_i32)] @ [(1, t_pseudo)])" by blast+
  from br_table_dispatch[OF r _ ok this(1), of 1] r show ?thesis by (auto simp: numeral_3_eq_3)
qed

section \<open>Slots of parameters and locals\<close>

text \<open>
  C16: Every index of a parameter or local has a slot in the frame of its own, at the offset from \<open>rbp\<close> that \<open>get_frame_offset\<close>
  computes from the tables set up in the prologue: of two indices, the slot of the larger one ends at or before the slot of
  the smaller one; parameters lie above the saved frame pointer and the return address, locals below the frame pointer.
\<close>

theorem frame_slots_apart:
  assumes "function_parameters ft = Inr params" and "function_locals locals = Inr groups"
    and "length (param_types ft) + length (expand_locals locals) < 2 ^ 32" and "unat i < unat j"
    and "unat j < length (param_types ft) + length (expand_locals locals)"
  shows "\<exists>di dj. local_offset (ft, params, groups) i = Inr di \<and> local_offset (ft, params, groups) j = Inr dj \<and>
    dj + int (slot_size ((param_types ft @ expand_locals locals) ! unat j)) \<le> di \<and>
    (if unat i < length (param_types ft) then 16 \<le> di else di + int (slot_size ((param_types ft @ expand_locals locals) ! unat i)) \<le> 0)"
proof -
  let ?ps = "param_types ft" and ?ls = "expand_locals locals"
  have "local_offset (ft, params, groups) i = Inr (frame_slot ?ps ?ls (unat i))"
    by (rule frame_offset_slot[OF assms(1-3)]) (use assms(4,5) in simp)
  moreover have "local_offset (ft, params, groups) j = Inr (frame_slot ?ps ?ls (unat j))" by (rule frame_offset_slot[OF assms(1-3,5)])
  moreover note frame_slots_disjoint[OF assms(4,5)]
  moreover have "if unat i < length ?ps then 16 \<le> frame_slot ?ps ?ls (unat i) else frame_slot ?ps ?ls (unat i) + int (slot_size ((?ps @ ?ls) ! unat i)) \<le> 0"
    using assms(4,5) by (auto simp: frame_slot_def nth_append slots_size_take_Suc)
  ultimately show ?thesis by blast
qed

definition jit_ex_type :: func_type where
  "jit_ex_type = \<lparr>form = 0x60, param_types = [t_i32, t_v128], return_count = 0, return_type = 0\<rparr>"

definition jit_ex_locals :: "local_entry list" where
  "jit_ex_locals = [\<lparr>le_count = 2, le_type = t_i64\<rparr>, \<lparr>le_count = 1, le_type = t_v128\<rparr>]"

theorem frame_slots_apart_witness:
  "\<exists>params groups di dj. function_parameters jit_ex_type = Inr params \<and> function_locals jit_ex_locals = Inr groups \<and>
    local_offset (jit_ex_type, params, groups) 1 = Inr di \<and> local_offset (jit_ex_type, params, groups) 4 = Inr dj \<and> dj + 16 \<le> di \<and> 16 \<le> di"
proof -
  obtain params groups where p: "function_parameters jit_ex_type = Inr params" and g: "function_locals jit_ex_locals = Inr groups"
    by (simp add: function_parameters_def jit_ex_type_def function_locals_def jit_ex_locals_def Let_def res_simps)
  have "length (param_types jit_ex_type) + length (expand_locals jit_ex_locals) < 2 ^ 32" "unat (1 :: u32) < unat (4 :: u32)"
    "unat (4 :: u32) < length (param_types jit_ex_type) + length (expand_locals jit_ex_locals)"
    by (simp_all add: jit_ex_type_def jit_ex_locals_def)
  note f = frame_slots_apart[OF p g this]
  have "replicate 2 t_i64 = [t_i64, t_i64]" by (simp add: numeral_2_eq_2)
  then have "slot_size ((param_types jit_ex_type @ expand_locals jit_ex_locals) ! unat (4 :: u32)) = 16" "unat (1 :: u32) < length (param_types jit_ex_type)"
    by (simp_all add: jit_ex_type_def jit_ex_locals_def slot_size_def)
  with f p g show ?thesis by (simp only: if_True) auto
qed

section \<open>Encoding\<close>

text \<open>
  C17: The processor reads an instruction of the integer unit as the assembler means it: from prefixes, opcode, ModRM, SIB and
  displacement it decodes the operand size, the opcode, the register (or opcode extension) and the register or memory operand.
  Excepted are what the assembler gets wrong, and the compiler does not use: memory operands with base \<open>r12\<close>, or base \<open>r13\<close>
  without displacement (\<open>operand_ok\<close>), and an opcode that starts with 66, F2 or F3 (\<open>MOVW\<close>, \<open>LZCNT\<close>, \<open>TZCNT\<close>, \<open>POPCNT\<close>)
  where the operands need a REX byte, which is then in the wrong place (\<open>encodable\<close>).
\<close>

theorem ia32_decodes:
  assumes "operand_ok r_m" and "reg_num reg < 16" and "encodable (Ia32 w opcode e) r_m reg"
  shows "decode_ia32 (length opcode) (ia32_bytes (Ia32 w opcode e) r_m reg @ rest) =
    Some (get_operand_size2 w r_m reg, opcode, reg_num reg, plain_rm r_m, rest)"
  using assms by (rule decode_ia32_bytes)

theorem ia32_decodes_witness:
  "decode_ia32 1 (ia32_bytes (Ia32 WX [0x8b] None) (Mem 5 (- 1000)) r8 @ [0xc3]) = Some (True, [0x8b], 8, Mem 5 (- 1000), [0xc3])
   \<and> decode_ia32 3 (ia32_bytes op_LZCNT eax eax @ [0xc3]) = Some (False, [0xf3, 0x0f, 0xbd], 0, R64 0, [0xc3])"
  using ia32_decodes[where r_m = "Mem 5 (- 1000)" and reg = r8 and opcode = "[0x8b]" and w = WX and e = None and rest = "[0xc3]"]
    ia32_decodes[where r_m = eax and reg = eax and opcode = "[0xf3, 0x0f, 0xbd]" and w = WX and e = None and rest = "[0xc3]"]
  by (simp_all add: plain_opcode_def disp32_def legacy_prefix_def op_LZCNT_def REX_prefix_def numeral_3_eq_3)

text \<open>
  C18: The same for the vector unit: the prefix VEX in its two- or three-byte form, which the assembler chooses by
  the operands, gives back the opcode map, the implied prefix, the operand width, and all three operands.
\<close>

theorem vex_decodes:
  assumes "operand_ok r_m" and "rm_index r_m = rm_x r_m" and "reg_num reg < 16" and "vvvv < 16" and "mmmm \<noteq> Mmmm_none"
  shows "decode_vex (vex_bytes (Vex pp mmmm W e opcode) r_m vvvv reg @ rest) =
    Some (pp, mmmm, W, False, opcode, vvvv, reg_num reg, plain_rm r_m, rest)"
  using assms by (rule decode_vex_bytes)

theorem vex_decodes_witness:
  "decode_vex (vex_bytes (Vex Pp_66 Mmmm_0F True None 0xfe) (Mem 4 16) 3 (Xmm 9) @ []) =
    Some (Pp_66, Mmmm_0F, True, False, 0xfe, 3, 9, Mem 4 16, [])"
  using vex_decodes[where r_m = "Mem 4 16" and reg = "Xmm 9" and vvvv = 3 and mmmm = Mmmm_0F and pp = Pp_66 and W = True and e = None and opcode = "0xfe" and rest = "[]"] by (simp add: disp32_def)

end
