(* ===== verification/Vm_Jit_Alloc.thy ===== *)
theory Vm_Jit_Alloc
  imports Vm_Alloc "HOL-Library.Product_Lexorder"
begin

text \<open>
  \<open>jit_allocator\<close> of \<^verbatim>\<open>allocator.hpp\<close>, which hands out the pages that compiled code is copied to.  It keeps free and
  allocated blocks, each in a map from addresses to sizes and in a set ordered by size.  The allocator holds its
  mutex during every operation, so that operations follow one another.  The page size and the result of \<open>mmap\<close> are
  arguments.  The theory also has \<open>end_code<true>\<close>, which publishes code through it, and the contiguous allocator.

  Shown: blocks never overlap, free and allocated blocks together are exactly the mapped segments, an
  allocation is large enough and comes from free memory, and freeing a block gives back all of it.
\<close>

section \<open>State and operations\<close>

text \<open>
  A \<open>std::map<void*, size_t>\<close> is the set of its pairs of address and size, in the order of addresses; a
  \<open>std::set<block, by_size>\<close> is a set of pairs of size and address, in lexicographic order.
\<close>

type_synonym block = "u64 \<times> u64"

record jit_allocator =
  ja_segments :: "block list"
  ja_free_by_size :: "block set"
  ja_allocated_by_size :: "block set"
  ja_free_blocks :: "block set"
  ja_allocated_blocks :: "block set"

definition ja_empty :: jit_allocator where
  "ja_empty = \<lparr>ja_segments = [], ja_free_by_size = {}, ja_allocated_by_size = {}, ja_free_blocks = {}, ja_allocated_blocks = {}\<rparr>"

definition segment_size :: u64 where "segment_size = 1024 * 1024 * 1024"

definition round_to_page :: "u64 \<Rightarrow> u64 \<Rightarrow> u64" where
  "round_to_page pagesize offset = (offset + pagesize - 1) AND NOT (pagesize - 1)"

text \<open>\<open>insert\<close> and \<open>operator[]\<close> of the map.\<close>

definition map_insert :: "block \<Rightarrow> block set \<Rightarrow> block set" where
  "map_insert b m = (if fst b \<in> fst ` m then m else insert b m)"

definition map_assign :: "block \<Rightarrow> block set \<Rightarrow> block set" where
  "map_assign b m = insert b {c \<in> m. fst c \<noteq> fst b}"

text \<open>\<open>transfer_node\<close> for maps and for sets; the node is asserted to exist and to be new to the target.\<close>

definition transfer_entry :: "block set \<Rightarrow> block set \<Rightarrow> u64 \<Rightarrow> (block set \<times> block set) res" where
  "transfer_entry source target key = assertE (key \<in> fst ` source \<and> key \<notin> fst ` target) Assertion_failure
     (Inr ({b \<in> source. fst b \<noteq> key}, target \<union> {b \<in> source. fst b = key}))"

definition transfer_node :: "block set \<Rightarrow> block set \<Rightarrow> block \<Rightarrow> (block set \<times> block set) res" where
  "transfer_node source target key = assertE (key \<in> source \<and> key \<notin> target) Assertion_failure (Inr (source - {key}, insert key target))"

definition allocate_segment :: "u64 option \<Rightarrow> u64 \<Rightarrow> jit_allocator \<Rightarrow> (block \<times> jit_allocator) res" where
  "allocate_segment mapped min_size a = (let sz = max min_size segment_size in case mapped of
       None \<Rightarrow> Inl Wasm_bad_alloc
     | Some base \<Rightarrow> Inr ((sz, base), a\<lparr>ja_segments := ja_segments a @ [(base, sz)],
         ja_free_by_size := insert (sz, base) (ja_free_by_size a), ja_free_blocks := map_insert (base, sz) (ja_free_blocks a)\<rparr>))"

definition split_block :: "block \<Rightarrow> u64 \<Rightarrow> jit_allocator \<Rightarrow> block \<times> jit_allocator" where
  "split_block pos sz a = (let new1 = (sz, snd pos); new2 = (fst pos - sz, snd pos + sz) in
     (new1, a\<lparr>ja_free_by_size := insert new2 (insert new1 (ja_free_by_size a)) - {pos},
       ja_free_blocks := map_assign (snd new1, fst new1) (map_insert (snd new2, fst new2) (ja_free_blocks a))\<rparr>))"

text \<open>\<open>lower_bound\<close>: the least block, in the order of the set, that is large enough.\<close>

definition lower_bound :: "u64 \<Rightarrow> block set \<Rightarrow> block option" where
  "lower_bound sz bs = (let fits = Set.filter (\<lambda>b. sz \<le> fst b) bs in if fits = {} then None else Some (Min fits))"

definition ja_alloc :: "u64 \<Rightarrow> u64 option \<Rightarrow> u64 \<Rightarrow> jit_allocator \<Rightarrow> (u64 \<times> jit_allocator) res" where
  "ja_alloc pagesize mapped requested a = (let sz = round_to_page pagesize requested in
     bindE (case lower_bound sz (ja_free_by_size a) of Some best \<Rightarrow> Inr (best, a) | None \<Rightarrow> allocate_segment mapped sz a) (\<lambda>(best, a).
     let (best, a) = (if fst best > sz then split_block best sz a else (best, a)) in
     bindE (transfer_entry (ja_free_blocks a) (ja_allocated_blocks a) (snd best)) (\<lambda>(free, allocated).
     bindE (transfer_node (ja_free_by_size a) (ja_allocated_by_size a) best) (\<lambda>(free_by_size, allocated_by_size).
       Inr (snd best, a\<lparr>ja_free_by_size := free_by_size, ja_allocated_by_size := allocated_by_size,
         ja_free_blocks := free, ja_allocated_blocks := allocated\<rparr>)))))"

text \<open>The result is the block that the iterator returned by the code points to.\<close>

definition maybe_consolidate_blocks :: "block \<Rightarrow> block \<Rightarrow> jit_allocator \<Rightarrow> (block \<times> jit_allocator) res" where
  "maybe_consolidate_blocks lhs rhs a = (if fst lhs + snd lhs = fst rhs
     then assertE ((snd lhs, fst lhs) \<in> ja_free_by_size a) Assertion_failure (let merged = (fst lhs, snd lhs + snd rhs) in
       Inr (merged, a\<lparr>ja_free_by_size := insert (snd merged, fst merged) (ja_free_by_size a - {(snd lhs, fst lhs)}) - {(snd rhs, fst rhs)},
         ja_free_blocks := map_assign merged (ja_free_blocks a) - {rhs}\<rparr>))
     else Inr (rhs, a))"

definition previous_block :: "u64 \<Rightarrow> block set \<Rightarrow> block option" where
  "previous_block p bs = (let below = Set.filter (\<lambda>b. fst b < p) bs in if below = {} then None else Some (Max below))"

definition next_block :: "u64 \<Rightarrow> block set \<Rightarrow> block option" where
  "next_block p bs = (let above = Set.filter (\<lambda>b. p < fst b) bs in if above = {} then None else Some (Min above))"

text \<open>The entry with a given key, which \<open>transfer_node\<close> returns.\<close>

definition entry_at :: "u64 \<Rightarrow> block set \<Rightarrow> block" where
  "entry_at p bs = Min (Set.filter (\<lambda>b. fst b = p) bs)"

definition ja_free :: "u64 \<Rightarrow> jit_allocator \<Rightarrow> jit_allocator res" where
  "ja_free ptr a = bindE (transfer_entry (ja_allocated_blocks a) (ja_free_blocks a) ptr) (\<lambda>(allocated, free).
     let pos = entry_at ptr free in
     bindE (transfer_node (ja_allocated_by_size a) (ja_free_by_size a) (snd pos, fst pos)) (\<lambda>(allocated_by_size, free_by_size).
     let a = a\<lparr>ja_free_by_size := free_by_size, ja_allocated_by_size := allocated_by_size, ja_free_blocks := free, ja_allocated_blocks := allocated\<rparr> in
     bindE (case previous_block (fst pos) free of Some prev \<Rightarrow> maybe_consolidate_blocks prev pos a | None \<Rightarrow> Inr (pos, a)) (\<lambda>(pos, a).
     case next_block (fst pos) (ja_free_blocks a) of
       Some next \<Rightarrow> bindE (maybe_consolidate_blocks pos next a) (\<lambda>(_, a). Inr a)
     | None \<Rightarrow> Inr a)))"

text \<open>\<open>span\<close>: the mapped segments.\<close>

definition ja_span :: "jit_allocator \<Rightarrow> block list" where
  "ja_span a = ja_segments a"

section \<open>Invariant\<close>

definition area :: "block \<Rightarrow> nat set" where
  "area b = {unat (fst b)..<unat (fst b) + unat (snd b)}"

definition areas :: "block set \<Rightarrow> nat set" where
  "areas bs = (\<Union>b \<in> bs. area b)"

definition block_ok :: "block \<Rightarrow> bool" where
  "block_ok b \<longleftrightarrow> 0 < snd b \<and> unat (fst b) + unat (snd b) < 2 ^ 64"

text \<open>Blocks that are not empty, do not wrap around and do not overlap.\<close>

definition tiled :: "block set \<Rightarrow> bool" where
  "tiled bs \<longleftrightarrow> finite bs \<and> (\<forall>b \<in> bs. block_ok b) \<and> (\<forall>b \<in> bs. \<forall>c \<in> bs. b \<noteq> c \<longrightarrow> area b \<inter> area c = {})"

definition swapped :: "block set \<Rightarrow> block set" where
  "swapped bs = prod.swap ` bs"

definition ja_ok :: "jit_allocator \<Rightarrow> bool" where
  "ja_ok a \<longleftrightarrow> tiled (ja_free_blocks a \<union> ja_allocated_blocks a) \<and> ja_free_blocks a \<inter> ja_allocated_blocks a = {} \<and>
     ja_free_by_size a = swapped (ja_free_blocks a) \<and> ja_allocated_by_size a = swapped (ja_allocated_blocks a) \<and>
     areas (ja_free_blocks a \<union> ja_allocated_blocks a) = areas (set (ja_segments a))"

section \<open>Blocks\<close>

lemma swapped_iff [simp]: "(n, p) \<in> swapped bs \<longleftrightarrow> (p, n) \<in> bs"
  by (force simp: swapped_def)

lemma swapped_insert: "swapped (insert b bs) = insert (snd b, fst b) (swapped bs)"
  by (cases b) (simp add: swapped_def)

lemma swapped_Diff: "swapped (bs - cs) = swapped bs - swapped cs"
  unfolding swapped_def by (rule image_set_diff) simp

lemma swapped_empty [simp]: "swapped {} = {}"
  by (simp add: swapped_def)

lemma finite_swapped [simp]: "finite (swapped bs) \<longleftrightarrow> finite bs"
  unfolding swapped_def by (rule finite_image_iff) simp

lemma areas_simps [simp]: "areas {} = {}" "areas (insert b bs) = area b \<union> areas bs" "areas (bs \<union> cs) = areas bs \<union> areas cs"
  by (auto simp: areas_def)

lemma tiled_ok: "tiled bs \<Longrightarrow> b \<in> bs \<Longrightarrow> block_ok b"
  by (simp add: tiled_def)

lemma block_base: "block_ok b \<Longrightarrow> unat (fst b) \<in> area b"
  by (auto simp: block_ok_def area_def word_less_nat_alt)

lemma tiled_key: "tiled bs \<Longrightarrow> b \<in> bs \<Longrightarrow> c \<in> bs \<Longrightarrow> unat (fst b) \<in> area c \<Longrightarrow> b = c"
proof (rule ccontr)
  assume t: "tiled bs" "b \<in> bs" "c \<in> bs" "unat (fst b) \<in> area c" "b \<noteq> c"
  then have "area b \<inter> area c = {}" by (simp add: tiled_def)
  with block_base[OF tiled_ok[OF t(1,2)]] t(4) show False by blast
qed

lemma tiled_same_key: "tiled bs \<Longrightarrow> b \<in> bs \<Longrightarrow> c \<in> bs \<Longrightarrow> fst b = fst c \<Longrightarrow> b = c"
  using tiled_key block_base tiled_ok by metis

lemma tiled_insert: "tiled (insert b bs) \<longleftrightarrow> block_ok b \<and> tiled bs \<and> (b \<notin> bs \<longrightarrow> area b \<inter> areas bs = {})"
  by (cases "b \<in> bs") (auto simp: insert_absorb tiled_ok, auto simp: tiled_def areas_def)

lemma tiled_disjoint:
  assumes "tiled bs" and "b \<in> bs" and "cs \<subseteq> bs" and "b \<notin> cs"
  shows "area b \<inter> areas cs = {}"
proof -
  have "area b \<inter> area c = {}" if "c \<in> cs" for c
  proof -
    have "c \<in> bs" "b \<noteq> c" using that assms(3,4) by auto
    with assms(1,2) show ?thesis by (simp add: tiled_def)
  qed
  then show ?thesis by (auto simp: areas_def)
qed

text \<open>A block is split in two, or two blocks are joined.\<close>

lemma area_split:
  assumes "block_ok (p, n)" and "0 < k" and "k < n"
  shows "block_ok (p, k)" "block_ok (p + k, n - k)" "area (p, n) = area (p, k) \<union> area (p + k, n - k)" "area (p, k) \<inter> area (p + k, n - k) = {}"
proof -
  have k: "0 < unat k" "unat k < unat n" using assms(2,3) by (simp_all add: word_less_nat_alt)
  have b: "unat p + unat n < 2 ^ 64" using assms(1) by (simp add: block_ok_def)
  have u: "unat (p + k) = unat p + unat k" "unat (n - k) = unat n - unat k"
    using k b by (simp_all add: unat_word_ariths unat_sub_if')
  show "block_ok (p, k)" "block_ok (p + k, n - k)" using k b u by (simp_all add: block_ok_def word_less_nat_alt)
  show "area (p, n) = area (p, k) \<union> area (p + k, n - k)" "area (p, k) \<inter> area (p + k, n - k) = {}" using k u by (auto simp: area_def)
qed

lemma area_join:
  assumes "block_ok (p, n)" and "block_ok (p + n, m)"
  shows "block_ok (p, n + m)" "area (p, n + m) = area (p, n) \<union> area (p + n, m)"
proof -
  have b: "0 < unat n" "0 < unat m" "unat p + unat n < 2 ^ 64" "unat (p + n) + unat m < 2 ^ 64"
    using assms by (simp_all add: block_ok_def word_less_nat_alt)
  have p: "unat (p + n) = unat p + unat n" using b(3) by (simp add: unat_word_ariths)
  have n: "unat (n + m) = unat n + unat m" using b(4) p by (simp add: unat_word_ariths)
  show "block_ok (p, n + m)" "area (p, n + m) = area (p, n) \<union> area (p + n, m)" using b p n by (auto simp: block_ok_def area_def word_less_nat_alt)
qed

section \<open>States\<close>

text \<open>A state whose sets by size belong to its maps.\<close>

definition ja_state :: "block list \<Rightarrow> block set \<Rightarrow> block set \<Rightarrow> jit_allocator" where
  "ja_state segs free live = \<lparr>ja_segments = segs, ja_free_by_size = swapped free, ja_allocated_by_size = swapped live,
     ja_free_blocks = free, ja_allocated_blocks = live\<rparr>"

definition parts_ok :: "block list \<Rightarrow> block set \<Rightarrow> block set \<Rightarrow> bool" where
  "parts_ok segs free live \<longleftrightarrow> tiled (free \<union> live) \<and> free \<inter> live = {} \<and> areas (free \<union> live) = areas (set segs)"

lemma ja_ok_state: "ja_ok a \<longleftrightarrow> (\<exists>segs free live. a = ja_state segs free live \<and> parts_ok segs free live)"
proof
  assume "ja_ok a"
  then have "a = ja_state (ja_segments a) (ja_free_blocks a) (ja_allocated_blocks a) \<and> parts_ok (ja_segments a) (ja_free_blocks a) (ja_allocated_blocks a)"
    by (simp add: ja_ok_def ja_state_def parts_ok_def)
  then show "\<exists>segs free live. a = ja_state segs free live \<and> parts_ok segs free live" by blast
qed (auto simp: ja_ok_def ja_state_def parts_ok_def)

lemma parts_key:
  assumes "parts_ok segs free live" and "b \<in> free" and "c \<in> free \<union> live" and "fst b = fst c"
  shows "b = c"
  using assms tiled_same_key[of "free \<union> live" b c] by (auto simp: parts_ok_def)

text \<open>The block \<open>b\<close> of the free ones is replaced by blocks that cover the same area.\<close>

lemma split_parts:
  assumes "parts_ok segs free live" and "(p, n) \<in> free" and "0 < k" and "k < n"
  shows "parts_ok segs (insert (p, k) (insert (p + k, n - k) (free - {(p, n)}))) live"
    and "p + k \<notin> fst ` free"
proof -
  let ?rest = "free - {(p, n)} \<union> live"
  have all: "free \<union> live = insert (p, n) ?rest" "(p, n) \<notin> ?rest" using assms(1,2) by (auto simp: parts_ok_def)
  from assms(1) have t: "tiled (insert (p, n) ?rest)" and ar: "areas (insert (p, n) ?rest) = areas (set segs)" unfolding parts_ok_def all(1) by simp_all
  from t all(2) have r: "block_ok (p, n)" "tiled ?rest" "area (p, n) \<inter> areas ?rest = {}" by (simp_all add: tiled_insert)
  note s = area_split[OF r(1) assms(3,4)]
  have "tiled (insert (p, k) (insert (p + k, n - k) ?rest))"
    using r s by (simp add: tiled_insert) blast
  moreover have "(p, k) \<notin> live" "(p + k, n - k) \<notin> live"
    using r(3) s(3) block_base[OF s(1)] block_base[OF s(2)] by (auto simp: areas_def)
  ultimately show "parts_ok segs (insert (p, k) (insert (p + k, n - k) (free - {(p, n)}))) live"
    using assms(1) ar s(3) by (auto simp: parts_ok_def Un_assoc)
  have "unat (p + k) \<in> area (p, n)" using block_base[OF s(2)] s(3) by auto
  then have "c \<in> free \<Longrightarrow> fst c = p + k \<Longrightarrow> c = (p, n)" for c using tiled_key[OF t, of c "(p, n)"] by auto
  moreover have "p + k \<noteq> p" using assms(3) by auto
  ultimately show "p + k \<notin> fst ` free" by force
qed

lemma join_parts:
  assumes "parts_ok segs free live" and "(p, n) \<in> free" and "(p + n, m) \<in> free"
  shows "parts_ok segs (insert (p, n + m) (free - {(p, n), (p + n, m)})) live" and "p + n \<noteq> p"
proof -
  let ?rest = "free - {(p, n), (p + n, m)} \<union> live"
  have t0: "tiled (free \<union> live)" using assms(1) by (simp add: parts_ok_def)
  have ok: "block_ok (p, n)" "block_ok (p + n, m)" using assms by (auto simp: parts_ok_def intro: tiled_ok)
  have "0 < n" using ok(1) by (simp add: block_ok_def)
  then show ne: "p + n \<noteq> p" by auto
  have all: "free \<union> live = insert (p, n) (insert (p + n, m) ?rest)" "(p, n) \<notin> insert (p + n, m) ?rest" "(p + n, m) \<notin> ?rest"
    using assms ne by (auto simp: parts_ok_def)
  from t0 have t: "tiled (insert (p, n) (insert (p + n, m) ?rest))" unfolding all(1) .
  then have r: "tiled ?rest" "area (p, n) \<inter> areas ?rest = {}" "area (p + n, m) \<inter> areas ?rest = {}" using all(2,3) by (auto simp: tiled_insert)
  note j = area_join[OF ok]
  have "tiled (insert (p, n + m) ?rest)" using r j by (simp add: tiled_insert) blast
  moreover have "(p, n + m) \<notin> live" using r(2) j block_base[OF ok(1)] by (force simp: areas_def area_def)
  moreover have "areas (insert (p, n + m) ?rest) = areas (set segs)"
    using assms(1) j(2) unfolding parts_ok_def all(1) by auto
  ultimately show "parts_ok segs (insert (p, n + m) (free - {(p, n), (p + n, m)})) live"
    using assms(1) by (auto simp: parts_ok_def)
qed

section \<open>Operations\<close>

lemma ja_state_simps [simp]:
  "ja_segments (ja_state segs free live) = segs" "ja_free_by_size (ja_state segs free live) = swapped free" "ja_allocated_by_size (ja_state segs free live) = swapped live"
  "ja_free_blocks (ja_state segs free live) = free" "ja_allocated_blocks (ja_state segs free live) = live"
  by (simp_all add: ja_state_def)

lemma split_block_state:
  assumes "parts_ok segs free live" and "(p, n) \<in> free" and "0 < k" and "k < n"
  shows "split_block (n, p) k (ja_state segs free live) = ((k, p), ja_state segs (insert (p, k) (insert (p + k, n - k) (free - {(p, n)}))) live)"
proof -
  have ne: "p + k \<noteq> p" "k \<noteq> n" using assms(3,4) by auto
  have "map_insert (p + k, n - k) free = insert (p + k, n - k) free" using split_parts(2)[OF assms] by (simp add: map_insert_def)
  moreover have "{c \<in> free. fst c \<noteq> p} = free - {(p, n)}" using parts_key[OF assms(1,2)] by (auto simp: image_iff)
  ultimately have "map_assign (p, k) (map_insert (p + k, n - k) free) = insert (p, k) (insert (p + k, n - k) (free - {(p, n)}))"
    using ne by (auto simp: map_assign_def)
  moreover have "insert (n - k, p + k) (insert (k, p) (swapped free)) - {(n, p)} = swapped (insert (p, k) (insert (p + k, n - k) (free - {(p, n)})))"
    using ne by (auto simp: swapped_insert swapped_Diff)
  ultimately show ?thesis by (simp add: split_block_def ja_state_def)
qed

lemma consolidate_state:
  assumes "parts_ok segs free live" and "lhs \<in> free" and "rhs \<in> free"
  obtains b free' where "maybe_consolidate_blocks lhs rhs (ja_state segs free live) = Inr (b, ja_state segs free' live)"
    and "parts_ok segs free' live" and "b \<in> free'"
proof (cases "fst lhs + snd lhs = fst rhs")
  case False
  then show ?thesis using that[of rhs free] assms by (simp add: maybe_consolidate_blocks_def)
next
  case True
  obtain p n where l: "lhs = (p, n)" by (cases lhs)
  obtain m where r: "rhs = (p + n, m)" using True by (cases rhs) (simp add: l)
  note j = join_parts[OF assms(1) assms(2)[unfolded l] assms(3)[unfolded r]]
  let ?free = "insert (p, n + m) (free - {(p, n), (p + n, m)})"
  have eq: "{c \<in> free. fst c \<noteq> p} = free - {(p, n)}" using parts_key[OF assms(1) assms(2)[unfolded l]] by (auto simp: image_iff)
  have ne: "(p, n + m) \<noteq> (p + n, m)" "(n + m, p) \<noteq> (m, p + n)" using j(2) by (metis prod.inject)+
  have "map_assign (p, n + m) free - {(p + n, m)} = ?free" unfolding map_assign_def fst_conv eq insert_Diff_if
    using ne(1) by (simp only: singleton_iff if_False Diff_insert2[symmetric] insert_commute)
  moreover have "insert (n + m, p) (swapped free - {(n, p)}) - {(m, p + n)} = swapped ?free"
    unfolding swapped_insert swapped_Diff swapped_empty fst_conv snd_conv insert_Diff_if
    using ne(2) by (simp only: singleton_iff if_False Diff_insert2[symmetric] insert_commute)
  ultimately have "maybe_consolidate_blocks lhs rhs (ja_state segs free live) = Inr ((p, n + m), ja_state segs ?free live)"
    using True assms(2) by (simp add: maybe_consolidate_blocks_def l r ja_state_def assertE_def Let_def)
  then show ?thesis by (rule that) (use j(1) in simp_all)
qed

lemma transfer_entry_state:
  assumes "parts_ok segs free live" and "(p, n) \<in> free"
  shows "transfer_entry free live p = Inr (free - {(p, n)}, insert (p, n) live)" and "p \<notin> fst ` live"
proof -
  have n: "(p, n) \<notin> live" using assms by (auto simp: parts_ok_def)
  have live: "c \<in> live \<Longrightarrow> fst c = p \<Longrightarrow> c = (p, n)" for c using parts_key[OF assms, of c] by simp
  show nl: "p \<notin> fst ` live"
  proof
    assume "p \<in> fst ` live"
    then obtain c where c: "c \<in> live" "fst c = p" by auto
    from live[OF c] c(1) n show False by simp
  qed
  have key: "c \<in> free \<Longrightarrow> fst c = p \<Longrightarrow> c = (p, n)" for c using parts_key[OF assms, of c] by auto
  have "p \<in> fst ` free" by (rule image_eqI[OF _ assms(2)]) simp
  moreover have "{c \<in> free. fst c \<noteq> p} = free - {(p, n)}" by (auto dest: key)
  moreover have "{c \<in> free. fst c = p} = {(p, n)}" using assms(2) by (auto dest: key)
  ultimately show "transfer_entry free live p = Inr (free - {(p, n)}, insert (p, n) live)" using nl by (simp add: transfer_entry_def assertE_def)
qed

lemma parts_swap: "parts_ok segs free live \<Longrightarrow> parts_ok segs live free"
  by (auto simp: parts_ok_def Un_commute)

lemma parts_move: "parts_ok segs free live \<Longrightarrow> b \<in> free \<Longrightarrow> parts_ok segs (free - {b}) (insert b live)"
proof -
  assume "parts_ok segs free live" and b: "b \<in> free"
  moreover have "free - {b} \<union> insert b live = free \<union> live" using b by auto
  ultimately show ?thesis unfolding parts_ok_def by auto
qed

lemma ja_free_state:
  assumes "parts_ok segs free live" and "(p, n) \<in> live"
  obtains free' where "ja_free p (ja_state segs free live) = Inr (ja_state segs free' (live - {(p, n)}))" and "parts_ok segs free' (live - {(p, n)})"
proof -
  let ?live = "live - {(p, n)}" and ?free = "insert (p, n) free"
  note e = transfer_entry_state[OF parts_swap[OF assms(1)] assms(2)]
  have ok: "parts_ok segs ?free ?live" using parts_swap[OF parts_move[OF parts_swap[OF assms(1)] assms(2)]] .
  have "Set.filter (\<lambda>b. fst b = p) ?free = {(p, n)}" using e(2) by (auto simp: image_iff)
  then have pos: "entry_at p ?free = (p, n)" unfolding entry_at_def by simp
  have "(p, n) \<notin> free" using e(2) by force
  then have node: "transfer_node (swapped live) (swapped free) (n, p) = Inr (swapped ?live, swapped ?free)"
    using assms(2) by (simp add: transfer_node_def assertE_def swapped_insert swapped_Diff)
  let ?first = "case previous_block p ?free of Some prev \<Rightarrow> maybe_consolidate_blocks prev (p, n) (ja_state segs ?free ?live) | None \<Rightarrow> Inr ((p, n), ja_state segs ?free ?live)"
  have fin: "finite ?free" using ok by (simp add: parts_ok_def tiled_def)
  have eq: "ja_free p (ja_state segs free live) = bindE ?first (\<lambda>(pos, a). case next_block (fst pos) (ja_free_blocks a) of
       Some next \<Rightarrow> bindE (maybe_consolidate_blocks pos next a) (\<lambda>(_, a). Inr a) | None \<Rightarrow> Inr a)"
    by (simp add: ja_free_def e(1) pos node ja_state_def Let_def cong: option.case_cong)
  have "\<exists>b free1. ?first = Inr (b, ja_state segs free1 ?live) \<and> parts_ok segs free1 ?live \<and> b \<in> free1"
  proof (cases "previous_block p ?free")
    case None
    with ok show ?thesis by auto
  next
    case (Some prev)
    then have "prev \<in> ?free" using fin Max_in[of "Set.filter (\<lambda>b. fst b < p) ?free"] by (auto simp: previous_block_def Let_def split: if_splits)
    from consolidate_state[OF ok this] show ?thesis by (metis Some insertI1 option.simps(5))
  qed
  then obtain b free1 where f: "?first = Inr (b, ja_state segs free1 ?live)" "parts_ok segs free1 ?live" "b \<in> free1" by blast
  have fin1: "finite free1" using f(2) by (simp add: parts_ok_def tiled_def)
  show ?thesis
  proof (cases "next_block (fst b) free1")
    case None
    then show ?thesis using that[OF _ f(2)] f(1) eq by simp
  next
    case (Some c)
    then have "c \<in> free1" using fin1 Min_in[of "Set.filter (\<lambda>c. fst b < fst c) free1"] by (auto simp: next_block_def Let_def split: if_splits)
    from f(2,3) this show ?thesis
    proof (rule consolidate_state)
      fix b' free' assume "maybe_consolidate_blocks b c (ja_state segs free1 ?live) = Inr (b', ja_state segs free' ?live)" "parts_ok segs free' ?live"
      then show ?thesis using that[of free'] f(1) eq Some by simp
    qed
  qed
qed

text \<open>What \<open>mmap\<close> promises of a new mapping: it does not overlap what is mapped already.\<close>

definition fresh_mapping :: "u64 option \<Rightarrow> u64 \<Rightarrow> jit_allocator \<Rightarrow> bool" where
  "fresh_mapping mapped sz a \<longleftrightarrow> (case mapped of None \<Rightarrow> True | Some base \<Rightarrow> block_ok (base, sz) \<and> area (base, sz) \<inter> areas (set (ja_segments a)) = {})"

lemma allocate_segment_state:
  assumes "parts_ok segs free live" and "fresh_mapping (Some base) (max sz segment_size) (ja_state segs free live)"
  shows "allocate_segment (Some base) sz (ja_state segs free live) = Inr ((max sz segment_size, base),
      ja_state (segs @ [(base, max sz segment_size)]) (insert (base, max sz segment_size) free) live)"
    and "parts_ok (segs @ [(base, max sz segment_size)]) (insert (base, max sz segment_size) free) live"
proof -
  let ?b = "(base, max sz segment_size)"
  have ok: "block_ok ?b" and dis: "area ?b \<inter> areas (free \<union> live) = {}" using assms by (simp_all add: fresh_mapping_def parts_ok_def)
  have out: "c \<in> free \<union> live \<Longrightarrow> fst c \<noteq> base" for c
  proof
    assume c: "c \<in> free \<union> live" "fst c = base"
    have "block_ok c" using assms(1) c(1) by (auto simp: parts_ok_def intro: tiled_ok)
    from block_base[OF this] block_base[OF ok] c dis show False by (auto simp: areas_def)
  qed
  then have "base \<notin> fst ` free" "?b \<notin> live" "?b \<notin> free" by force+
  then show "allocate_segment (Some base) sz (ja_state segs free live) = Inr ((max sz segment_size, base), ja_state (segs @ [?b]) (insert ?b free) live)"
    by (simp add: allocate_segment_def ja_state_def map_insert_def swapped_insert Let_def)
  show "parts_ok (segs @ [?b]) (insert ?b free) live"
    using assms(1) ok dis \<open>?b \<notin> live\<close> by (auto simp: parts_ok_def tiled_insert)
qed

text \<open>The last part of \<open>alloc\<close>, from the block that is large enough.\<close>

lemma take_block_state:
  assumes "parts_ok segs free live" and "(p, n) \<in> free" and "0 < sz" and "sz \<le> n"
  obtains free' where "(let (best, a) = (if n > sz then split_block (n, p) sz (ja_state segs free live) else ((n, p), ja_state segs free live)) in
     bindE (transfer_entry (ja_free_blocks a) (ja_allocated_blocks a) (snd best)) (\<lambda>(free, allocated).
     bindE (transfer_node (ja_free_by_size a) (ja_allocated_by_size a) best) (\<lambda>(free_by_size, allocated_by_size).
       Inr (snd best, a\<lparr>ja_free_by_size := free_by_size, ja_allocated_by_size := allocated_by_size,
         ja_free_blocks := free, ja_allocated_blocks := allocated\<rparr>)))) = Inr (p, ja_state segs free' (insert (p, sz) live))"
    and "parts_ok segs free' (insert (p, sz) live)" and "(p, sz) \<notin> live" and "areas free' \<union> area (p, sz) = areas free"
proof -
  define fr where "fr = (if n > sz then insert (p, sz) (insert (p + sz, n - sz) (free - {(p, n)})) else free)"
  have ok: "parts_ok segs fr live" and mem: "(p, sz) \<in> fr" and ar: "areas fr = areas free"
  proof -
    show "parts_ok segs fr live" using split_parts(1)[OF assms(1,2,3)] assms(1) by (simp add: fr_def)
    show "(p, sz) \<in> fr" using assms(2,4) by (cases "n = sz") (auto simp: fr_def)
    have bk: "block_ok (p, n)" using assms(1,2) by (auto simp: parts_ok_def intro: tiled_ok)
    have "areas free = area (p, n) \<union> areas (free - {(p, n)})" using assms(2) by (auto simp: areas_def)
    then show "areas fr = areas free" using area_split(3)[OF bk assms(3)] by (auto simp: fr_def)
  qed
  have st: "(if n > sz then split_block (n, p) sz (ja_state segs free live) else ((n, p), ja_state segs free live)) = ((sz, p), ja_state segs fr live)"
    using split_block_state[OF assms(1,2,3)] assms(4) by (auto simp: fr_def)
  note e = transfer_entry_state[OF ok mem]
  have nl: "(p, sz) \<notin> live" using ok mem by (auto simp: parts_ok_def)
  then have node: "transfer_node (swapped fr) (swapped live) (sz, p) = Inr (swapped (fr - {(p, sz)}), swapped (insert (p, sz) live))"
    using mem by (simp add: transfer_node_def assertE_def swapped_insert swapped_Diff)
  show ?thesis
  proof (rule that)
    show "parts_ok segs (fr - {(p, sz)}) (insert (p, sz) live)" by (rule parts_move[OF ok mem])
    show "areas (fr - {(p, sz)}) \<union> area (p, sz) = areas free" unfolding ar[symmetric] using mem by (auto simp: areas_def)
  qed (use e nl node st in \<open>simp_all add: ja_state_def\<close>)
qed

definition good_page :: "u64 \<Rightarrow> bool" where
  "good_page pagesize \<longleftrightarrow> (\<exists>k < 31. pagesize = 2 ^ k)"

lemma round_to_page_size:
  assumes "good_page pagesize" and "0 < requested" and "requested \<le> max_memory_size"
  shows "unat (round_to_page pagesize requested) = round_up (unat pagesize) (unat requested)" and "requested \<le> round_to_page pagesize requested"
    and "0 < round_to_page pagesize requested"
proof -
  from assms(1) obtain k where k: "k < 31" "pagesize = 2 ^ k" by (auto simp: good_page_def)
  have "(2 :: nat) ^ k \<le> 2 ^ 30" using k(1) by (intro power_increasing) simp_all
  moreover have r: "unat requested \<le> 2 ^ 30" using assms(3) by (simp add: word_le_nat_alt max_memory_size_def)
  ultimately have small: "unat requested + 2 ^ k \<le> 2 ^ 64" by simp
  have p: "unat pagesize = 2 ^ k" using k by (simp add: unat_two_power)
  have "unat (align_offset pagesize requested) = (unat requested + 2 ^ k - 1) div 2 ^ k * 2 ^ k"
    by (rule unat_align_offset[OF k(2) _ small]) (use k in simp)
  then show u: "unat (round_to_page pagesize requested) = round_up (unat pagesize) (unat requested)"
    by (simp add: round_to_page_def align_offset_def round_up_def p)
  show "requested \<le> round_to_page pagesize requested" using u round_up_ge[of "unat pagesize" "unat requested"] p by (simp add: word_le_nat_alt)
  with assms(2) show "0 < round_to_page pagesize requested" by simp
qed

lemma ja_alloc_state:
  assumes "parts_ok segs free live" and "good_page pagesize" and "0 < requested" and "requested \<le> max_memory_size"
    and "fresh_mapping mapped (max (round_to_page pagesize requested) segment_size) (ja_state segs free live)"
  obtains "ja_alloc pagesize mapped requested (ja_state segs free live) = Inl Wasm_bad_alloc" "mapped = None"
      "\<forall>b \<in> free. snd b < round_to_page pagesize requested"
  | p segs' free' where "ja_alloc pagesize mapped requested (ja_state segs free live) = Inr (p, ja_state segs' free' (insert (p, round_to_page pagesize requested) live))"
      "parts_ok segs' free' (insert (p, round_to_page pagesize requested) live)" "(p, round_to_page pagesize requested) \<notin> live"
proof -
  let ?sz = "round_to_page pagesize requested" and ?a = "ja_state segs free live"
  note sz = round_to_page_size[OF assms(2-4)]
  have fin: "finite free" using assms(1) by (simp add: parts_ok_def tiled_def)
  show ?thesis
  proof (cases "lower_bound ?sz (swapped free)")
    case (Some best)
    then have "best \<in> Set.filter (\<lambda>b. ?sz \<le> fst b) (swapped free)"
      using fin Min_in[of "Set.filter (\<lambda>b. ?sz \<le> fst b) (swapped free)"] by (auto simp: lower_bound_def Let_def split: if_splits)
    then obtain n p where b: "best = (n, p)" "(p, n) \<in> free" "?sz \<le> n" by (cases best) auto
    from assms(1) b(2) sz(3) b(3) show ?thesis
      by (rule take_block_state) (rule that(2), use Some b in \<open>simp_all add: ja_alloc_def Let_def\<close>)
  next
    case None
    then have small: "\<forall>b \<in> free. snd b < ?sz" by (force simp: lower_bound_def Let_def not_le split: if_splits)
    show ?thesis
    proof (cases mapped)
      case None': None
      with None small show ?thesis by (intro that(1)) (simp_all add: ja_alloc_def allocate_segment_def Let_def)
    next
      case (Some base)
      let ?n = "max ?sz segment_size"
      note seg = allocate_segment_state[OF assms(1) assms(5)[unfolded Some]]
      from seg(2) insertI1 sz(3) max.cobounded1 show ?thesis
        by (rule take_block_state) (rule that(2), use None Some seg(1) in \<open>simp_all add: ja_alloc_def Let_def\<close>)
    qed
  qed
qed

section \<open>Histories\<close>

text \<open>
  The states that the allocator can be in: it starts without segments; requests are for the code of a module, which
  is at least one byte and at most the memory of a \<open>growable_allocator\<close>; only what was allocated is freed.
\<close>

inductive ja_reachable :: "u64 \<Rightarrow> jit_allocator \<Rightarrow> bool" for pagesize where
  ja_starts: "ja_reachable pagesize ja_empty"
| ja_allocates: "ja_reachable pagesize a \<Longrightarrow> 0 < requested \<Longrightarrow> requested \<le> max_memory_size \<Longrightarrow>
    fresh_mapping mapped (max (round_to_page pagesize requested) segment_size) a \<Longrightarrow>
    ja_alloc pagesize mapped requested a = Inr (p, a') \<Longrightarrow> ja_reachable pagesize a'"
| ja_frees: "ja_reachable pagesize a \<Longrightarrow> (p, n) \<in> ja_allocated_blocks a \<Longrightarrow> ja_free p a = Inr a' \<Longrightarrow> ja_reachable pagesize a'"

lemma ja_reachable_ok:
  assumes "good_page pagesize" and "ja_reachable pagesize a"
  shows "ja_ok a"
  using assms(2)
proof induction
  case ja_starts
  then show ?case by (simp add: ja_ok_def ja_empty_def tiled_def)
next
  case (ja_allocates a requested mapped p a')
  from ja_allocates.IH obtain segs free live where a: "a = ja_state segs free live" and ok: "parts_ok segs free live" by (auto simp: ja_ok_state)
  from ok assms(1) ja_allocates.hyps(2,3) ja_allocates.hyps(4)[unfolded a] show ?case
    by (rule ja_alloc_state) (use ja_allocates.hyps(5) a in \<open>auto simp: ja_ok_state\<close>)
next
  case (ja_frees a p n a')
  from ja_frees.IH obtain segs free live where a: "a = ja_state segs free live" and ok: "parts_ok segs free live" by (auto simp: ja_ok_state)
  have "(p, n) \<in> live" using ja_frees.hyps(2) a by simp
  with ok show ?case by (rule ja_free_state) (use ja_frees.hyps(3) a in \<open>auto simp: ja_ok_state\<close>)
qed

lemma free_areas:
  assumes "ja_ok a"
  shows "areas (ja_free_blocks a) = areas (set (ja_segments a)) - areas (ja_allocated_blocks a)"
proof -
  have t: "tiled (ja_free_blocks a \<union> ja_allocated_blocks a)" "ja_free_blocks a \<inter> ja_allocated_blocks a = {}" using assms by (simp_all add: ja_ok_def)
  have "area b \<inter> areas (ja_allocated_blocks a) = {}" if "b \<in> ja_free_blocks a" for b
    by (rule tiled_disjoint[OF t(1)]) (use t(2) that in auto)
  then have "areas (ja_free_blocks a) \<inter> areas (ja_allocated_blocks a) = {}" unfolding areas_def[of "ja_free_blocks a"] by blast
  moreover have "areas (ja_free_blocks a) \<union> areas (ja_allocated_blocks a) = areas (set (ja_segments a))" using assms by (simp add: ja_ok_def)
  ultimately show ?thesis by blast
qed

lemma ja_alloc_ok:
  assumes "ja_ok a" and "good_page pagesize" and "0 < requested" and "requested \<le> max_memory_size"
    and "fresh_mapping mapped (max (round_to_page pagesize requested) segment_size) a"
  shows "case ja_alloc pagesize mapped requested a of Inl x \<Rightarrow> x = Wasm_bad_alloc \<and> mapped = None
    | Inr (p, a') \<Rightarrow> ja_allocated_blocks a' = insert (p, round_to_page pagesize requested) (ja_allocated_blocks a) \<and>
        area (p, round_to_page pagesize requested) \<inter> areas (ja_allocated_blocks a) = {}"
proof -
  from assms(1) obtain segs free live where a: "a = ja_state segs free live" and ok: "parts_ok segs free live" by (auto simp: ja_ok_state)
  from ok assms(2-4) assms(5)[unfolded a] show ?thesis
  proof (rule ja_alloc_state)
    fix p segs' free'
    assume r: "ja_alloc pagesize mapped requested (ja_state segs free live) = Inr (p, ja_state segs' free' (insert (p, round_to_page pagesize requested) live))"
      "parts_ok segs' free' (insert (p, round_to_page pagesize requested) live)" "(p, round_to_page pagesize requested) \<notin> live"
    then have "tiled (insert (p, round_to_page pagesize requested) (free' \<union> live))" by (simp add: parts_ok_def)
    then have "area (p, round_to_page pagesize requested) \<inter> areas live = {}"
      by (rule tiled_disjoint) (use r(3) in auto)
    with r(1) a show ?thesis by simp
  qed (simp add: a)
qed

lemma ja_free_ok:
  assumes "ja_ok a" and "(p, n) \<in> ja_allocated_blocks a"
  obtains a' where "ja_free p a = Inr a'" and "ja_ok a'" and "ja_segments a' = ja_segments a" and "ja_allocated_blocks a' = ja_allocated_blocks a - {(p, n)}"
proof -
  from assms(1) obtain segs free live where a: "a = ja_state segs free live" and ok: "parts_ok segs free live" by (auto simp: ja_ok_state)
  from ok assms(2)[unfolded a ja_state_simps] show ?thesis
    by (rule ja_free_state) (rule that, auto simp: a ja_ok_state)
qed

text \<open>A first request, for 5000 bytes.\<close>

definition ex_jit_allocator :: jit_allocator where
  "ex_jit_allocator = \<lparr>ja_segments = [(0x10000000, 0x40000000)], ja_free_by_size = {(0x3fffe000, 0x10002000)}, ja_allocated_by_size = {(0x2000, 0x10000000)},
     ja_free_blocks = {(0x10002000, 0x3fffe000)}, ja_allocated_blocks = {(0x10000000, 0x2000)}\<rparr>"

lemma ex_jit_alloc: "ja_alloc 4096 (Some 0x10000000) 5000 ja_empty = Inr (0x10000000, ex_jit_allocator)"
proof -
  have r: "round_to_page 4096 5000 = 0x2000" "max (0x2000 :: u64) segment_size = 0x40000000" by (simp_all add: round_to_page_def segment_size_def)
  show ?thesis
    by (simp add: ja_alloc_def r ja_empty_def lower_bound_def allocate_segment_def split_block_def transfer_entry_def transfer_node_def
        map_insert_def map_assign_def assertE_def ex_jit_allocator_def Let_def insert_Diff_if) (auto simp: prod_eq_iff)
qed

text \<open>
  C12: The memory for compiled code is managed without overlap or loss.  In every state that the allocator can be in, allocated blocks
  overlap neither each other nor free blocks, and together they are exactly the mapped segments.  A request
  fails only when \<open>mmap\<close> does, and otherwise adds one block, as large as the request rounded up to pages, that
  overlaps no allocated block; freeing an allocated block succeeds, leaves all others alone, and gives back
  exactly its bytes.
\<close>

theorem jit_allocator_safe:
  assumes "good_page pagesize" and "ja_reachable pagesize a"
  shows "(\<forall>b \<in> ja_allocated_blocks a. \<forall>c \<in> ja_free_blocks a \<union> ja_allocated_blocks a. b \<noteq> c \<longrightarrow> area b \<inter> area c = {}) \<and>
    areas (ja_free_blocks a) \<union> areas (ja_allocated_blocks a) = areas (set (ja_span a)) \<and>
    (\<forall>requested mapped. 0 < requested \<and> requested \<le> max_memory_size \<and> fresh_mapping mapped (max (round_to_page pagesize requested) segment_size) a \<longrightarrow>
      requested \<le> round_to_page pagesize requested \<and>
      (case ja_alloc pagesize mapped requested a of Inl x \<Rightarrow> x = Wasm_bad_alloc \<and> mapped = None
       | Inr (p, a') \<Rightarrow> ja_allocated_blocks a' = insert (p, round_to_page pagesize requested) (ja_allocated_blocks a) \<and>
           area (p, round_to_page pagesize requested) \<inter> areas (ja_allocated_blocks a) = {})) \<and>
    (\<forall>p n. (p, n) \<in> ja_allocated_blocks a \<longrightarrow> (\<exists>a'. ja_free p a = Inr a' \<and> ja_allocated_blocks a' = ja_allocated_blocks a - {(p, n)} \<and>
       areas (ja_free_blocks a') = areas (ja_free_blocks a) \<union> area (p, n)))"
proof (intro conjI allI impI)
  have ok: "ja_ok a" by (rule ja_reachable_ok[OF assms])
  show "\<forall>b \<in> ja_allocated_blocks a. \<forall>c \<in> ja_free_blocks a \<union> ja_allocated_blocks a. b \<noteq> c \<longrightarrow> area b \<inter> area c = {}"
    using ok by (auto simp: ja_ok_def tiled_def)
  show "areas (ja_free_blocks a) \<union> areas (ja_allocated_blocks a) = areas (set (ja_span a))" using ok by (simp add: ja_ok_def ja_span_def)
  fix requested mapped
  assume r: "0 < requested \<and> requested \<le> max_memory_size \<and> fresh_mapping mapped (max (round_to_page pagesize requested) segment_size) a"
  then show "requested \<le> round_to_page pagesize requested" using round_to_page_size(2)[OF assms(1)] by blast
  show "case ja_alloc pagesize mapped requested a of Inl x \<Rightarrow> x = Wasm_bad_alloc \<and> mapped = None
       | Inr (p, a') \<Rightarrow> ja_allocated_blocks a' = insert (p, round_to_page pagesize requested) (ja_allocated_blocks a) \<and>
           area (p, round_to_page pagesize requested) \<inter> areas (ja_allocated_blocks a) = {}"
    using ja_alloc_ok[OF ok assms(1)] r by blast
next
  have ok: "ja_ok a" by (rule ja_reachable_ok[OF assms])
  fix p n assume b: "(p, n) \<in> ja_allocated_blocks a"
  from ok b obtain a' where a': "ja_free p a = Inr a'" "ja_ok a'" "ja_segments a' = ja_segments a" "ja_allocated_blocks a' = ja_allocated_blocks a - {(p, n)}"
    by (rule ja_free_ok)
  have "area (p, n) \<subseteq> areas (set (ja_segments a))" using ok b by (auto simp: ja_ok_def areas_def)
  moreover have "area (p, n) \<inter> areas (ja_allocated_blocks a - {(p, n)}) = {}"
    by (rule tiled_disjoint[of "ja_free_blocks a \<union> ja_allocated_blocks a"]) (use ok b in \<open>auto simp: ja_ok_def\<close>)
  moreover have "areas (ja_allocated_blocks a) = area (p, n) \<union> areas (ja_allocated_blocks a - {(p, n)})" using b by (auto simp: areas_def)
  ultimately have "areas (ja_free_blocks a') = areas (ja_free_blocks a) \<union> area (p, n)"
    unfolding free_areas[OF a'(2)] free_areas[OF ok] a'(3,4) by blast
  with a' show "\<exists>a'. ja_free p a = Inr a' \<and> ja_allocated_blocks a' = ja_allocated_blocks a - {(p, n)} \<and>
      areas (ja_free_blocks a') = areas (ja_free_blocks a) \<union> area (p, n)" by blast
qed

theorem jit_allocator_safe_witness:
  "ja_reachable 4096 ex_jit_allocator \<and> (\<exists>a'. ja_free 0x10000000 ex_jit_allocator = Inr a' \<and> ja_allocated_blocks a' = {} \<and>
     areas (ja_free_blocks a') = areas (ja_free_blocks ex_jit_allocator) \<union> area (0x10000000, 0x2000))"
proof -
  have page: "good_page 4096" unfolding good_page_def by (rule exI[of _ 12]) simp
  have "max (round_to_page 4096 5000) segment_size = 0x40000000" by (simp add: round_to_page_def segment_size_def)
  then have "fresh_mapping (Some 0x10000000) (max (round_to_page 4096 5000) segment_size) ja_empty"
    by (simp add: fresh_mapping_def block_ok_def ja_empty_def)
  then have r: "ja_reachable 4096 ex_jit_allocator"
    by (rule ja_allocates[OF ja_starts, rotated 2, OF _ ex_jit_alloc]) (simp_all add: max_memory_size_def)
  have "(0x10000000, 0x2000) \<in> ja_allocated_blocks ex_jit_allocator" by (simp add: ex_jit_allocator_def)
  with jit_allocator_safe[OF page r] obtain a' where "ja_free 0x10000000 ex_jit_allocator = Inr a'"
    "ja_allocated_blocks a' = ja_allocated_blocks ex_jit_allocator - {(0x10000000, 0x2000)}"
    "areas (ja_free_blocks a') = areas (ja_free_blocks ex_jit_allocator) \<union> area (0x10000000, 0x2000)" by blast
  with r show ?thesis by (simp add: ex_jit_allocator_def)
qed

section \<open>Publishing code\<close>

text \<open>
  \<open>end_code<true>\<close>: the finished code is copied to executable memory and its place in the \<open>growable_allocator\<close> is given back.
  \<open>bytes\<close> is the memory of that allocator, by offsets, and \<open>mem\<close> the address space; \<open>protects\<close> is the success of \<open>mprotect\<close>.
\<close>

definition ga_end_code_jit :: "u64 \<Rightarrow> u64 option \<Rightarrow> bool \<Rightarrow> u64 \<Rightarrow> (nat \<Rightarrow> u8) \<Rightarrow> (nat \<Rightarrow> u8) \<Rightarrow> jit_allocator \<Rightarrow> growable_allocator \<Rightarrow>
    (growable_allocator \<times> jit_allocator \<times> (nat \<Rightarrow> u8)) res" where
  "ga_end_code_jit pagesize mapped protects code_base bytes mem a g = assertE (code_base \<le> ga_offset g) Assertion_failure
     (let code_size = align_to_page pagesize (ga_offset g) - code_base in
      bindE (ja_alloc pagesize mapped code_size a) (\<lambda>(executable_code, a).
        assertE protects Wasm_bad_alloc
          (Inr (g\<lparr>ga_offset := code_base, ga_code_base := executable_code, ga_code_size := code_size\<rparr>, a,
             \<lambda>x. if unat executable_code \<le> x \<and> x < unat executable_code + unat code_size then bytes (unat code_base + (x - unat executable_code)) else mem x))))"

lemma end_code_jit_publishes:
  assumes "ja_ok a" and "good_page pagesize" and "code_base < align_to_page pagesize (ga_offset g)" and "align_to_page pagesize (ga_offset g) \<le> max_memory_size"
    and "fresh_mapping mapped (max (round_to_page pagesize (align_to_page pagesize (ga_offset g) - code_base)) segment_size) a"
    and "ga_end_code_jit pagesize mapped protects code_base bytes mem a g = Inr (g', a', mem')"
  shows "ga_offset g' = code_base" and "i < unat (ga_code_size g') \<Longrightarrow> mem' (unat (ga_code_base g') + i) = bytes (unat code_base + i)"
    and "x \<in> areas (ja_allocated_blocks a) \<Longrightarrow> mem' x = mem x"
proof -
  let ?n = "align_to_page pagesize (ga_offset g) - code_base"
  from assms(6) obtain p where r: "ja_alloc pagesize mapped ?n a = Inr (p, a')" "g' = g\<lparr>ga_offset := code_base, ga_code_base := p, ga_code_size := ?n\<rparr>"
    "mem' = (\<lambda>x. if unat p \<le> x \<and> x < unat p + unat ?n then bytes (unat code_base + (x - unat p)) else mem x)"
    by (auto simp: ga_end_code_jit_def Let_def res_simps)
  show "ga_offset g' = code_base" "i < unat (ga_code_size g') \<Longrightarrow> mem' (unat (ga_code_base g') + i) = bytes (unat code_base + i)"
    using r by simp_all
  have u: "unat ?n = unat (align_to_page pagesize (ga_offset g)) - unat code_base" using assms(3) by (simp add: unat_sub_if' word_less_nat_alt)
  have n: "0 < ?n" "?n \<le> max_memory_size" using assms(3,4) u by (simp_all add: word_less_nat_alt word_le_nat_alt)
  have "area (p, round_to_page pagesize ?n) \<inter> areas (ja_allocated_blocks a) = {}"
    using ja_alloc_ok[OF assms(1,2) n assms(5)] r(1) by simp
  moreover have "area (p, ?n) \<subseteq> area (p, round_to_page pagesize ?n)"
    using round_to_page_size(2)[OF assms(2) n] by (auto simp: area_def word_le_nat_alt)
  ultimately have "x \<notin> area (p, ?n)" if "x \<in> areas (ja_allocated_blocks a)" using that by blast
  then show "mem' x = mem x" if "x \<in> areas (ja_allocated_blocks a)" using that unfolding r(3) by (auto simp: area_def)
qed

section \<open>The contiguous allocator\<close>

record contiguous_allocator =
  ca_offset :: u64
  ca_size :: u64

definition ca_new :: "u64 \<Rightarrow> bool \<Rightarrow> u64 \<Rightarrow> contiguous_allocator res" where
  "ca_new pagesize ok sz = assertE ok Wasm_bad_alloc (Inr \<lparr>ca_offset = 0, ca_size = align_to_page pagesize sz\<rparr>)"

text \<open>An allocation beyond the end moves everything to a larger mapping; pointers are offsets from the current one.\<close>

definition ca_alloc :: "u64 \<Rightarrow> bool \<Rightarrow> u64 \<Rightarrow> u64 \<Rightarrow> u64 \<Rightarrow> contiguous_allocator \<Rightarrow> (u64 \<times> contiguous_allocator) res" where
  "ca_alloc pagesize ok sz al n c = (let off = align_offset al (ca_offset c); aligned = sz * n + off in
     if aligned > ca_size c
     then assertE ok Wasm_bad_alloc (Inr (off, \<lparr>ca_offset = aligned, ca_size = align_to_page pagesize aligned\<rparr>))
     else Inr (off, c\<lparr>ca_offset := aligned\<rparr>))"

lemma ca_alloc_inside:
  assumes "good_page pagesize" and "ca_alloc pagesize ok sz al n c = Inr (p, c')" and "ca_offset c' \<le> max_memory_size"
  shows "ca_offset c' \<le> ca_size c'"
proof -
  let ?w = "ca_offset c'"
  from assms(1) obtain k where k: "k < 31" "pagesize = 2 ^ k" by (auto simp: good_page_def)
  have "(2 :: nat) ^ k \<le> 2 ^ 30" using k(1) by (intro power_increasing) simp_all
  then have small: "unat ?w + 2 ^ k \<le> 2 ^ 64" using assms(3) by (simp add: word_le_nat_alt max_memory_size_def)
  have "unat (align_offset pagesize ?w) = round_up (2 ^ k) (unat ?w)"
    using unat_align_offset[OF k(2) _ small] k by (simp add: round_up_def)
  then have "?w \<le> align_to_page pagesize ?w"
    using round_up_ge[of "2 ^ k" "unat ?w"] by (simp add: align_to_page_def align_offset_def word_le_nat_alt)
  with assms(2) show ?thesis by (auto simp: ca_alloc_def Let_def assertE_def split: if_splits)
qed

end
