(* ===== verification/Vm_Jit_Context.thy ===== *)
theory Vm_Jit_Context
  imports Vm_Interp_Props
begin

text \<open>
  The execution context for compiled code (\<open>jit_execution_context\<close> of \<^verbatim>\<open>execution_context.hpp\<close>): how arguments are laid out for
  it, how it calls host functions, what a call from the host restores, and the stack it runs on.  The compiled code is a
  parameter, a function from the index of a function, its arguments and the kind of result to a result and a
  context, or \<open>None\<close> when it does not return.

  Shown: arguments survive the layout, so that a host function called through the compiled context sees the
  operands that the interpreter would have pushed; the operand stack has its old size however a call
  ends; there is enough room on the stack that is chosen.
\<close>

section \<open>Stacks\<close>

text \<open>
  \<open>stack_allocator\<close> maps a stack of its own only when the required size exceeds what is available; the result is its
  address and size, and \<open>top\<close> the address behind it.
\<close>

definition sa_new :: "u64 \<Rightarrow> u64 option \<Rightarrow> u64 \<Rightarrow> u64 \<Rightarrow> (u64 \<times> u64) option res" where
  "sa_new pagesize mapped min_size available = (if min_size > available
     then (let sz = ((min_size + pagesize - 1) AND NOT (pagesize - 1)) + 4 * 1024 * 1024 in
       case mapped of None \<Rightarrow> Inl Wasm_bad_alloc | Some p \<Rightarrow> Inr (Some (p, sz)))
     else Inr None)"

definition sa_top :: "(u64 \<times> u64) option \<Rightarrow> u64 option" where
  "sa_top s = map_option (\<lambda>(p, n). p + n) s"

record stack_manager =
  sm_base :: u64
  sm_size :: u64

definition default_stack_size :: u64 where "default_stack_size = 4 * 1024 * 1024"

text \<open>\<open>execute\<close>: \<open>p\<close> is the address of the current frame.  The manager is the old one again when \<open>f\<close> has returned or thrown.\<close>

definition sm_enter :: "u64 \<Rightarrow> u64 option \<Rightarrow> u64 \<Rightarrow> u64 \<Rightarrow> stack_manager \<Rightarrow> ((u64 \<times> u64) option \<times> stack_manager) res" where
  "sm_enter pagesize mapped p sz m =
     (let m = (if sm_base m = 0 \<and> sm_size m = 0 then \<lparr>sm_base = p - default_stack_size, sm_size = default_stack_size\<rparr> else m);
          available_stack = (if p \<ge> sm_base m \<and> p \<le> sm_base m + sm_size m then p - sm_base m else 0) in
      bindE (sa_new pagesize mapped sz available_stack) (\<lambda>alt_stack. Inr (alt_stack, case sa_top alt_stack of
        None \<Rightarrow> m | Some t \<Rightarrow> m\<lparr>sm_size := sz, sm_base := t - sz\<rparr>)))"

definition sm_execute :: "u64 \<Rightarrow> u64 option \<Rightarrow> u64 \<Rightarrow> u64 \<Rightarrow> ((u64 \<times> u64) option \<Rightarrow> stack_manager \<Rightarrow> 'a res) \<Rightarrow> stack_manager \<Rightarrow> 'a res \<times> stack_manager" where
  "sm_execute pagesize mapped p sz f m = (bindE (sm_enter pagesize mapped p sz m) (\<lambda>(alt_stack, m). f alt_stack m), m)"

section \<open>Native values\<close>

text \<open>\<open>append_arg\<close>: scalars are extended by zero bits, a vector is two values, its upper half first.\<close>

fun append_arg :: "const_op \<Rightarrow> u64 list" where
  "append_arg (I32_const_t w) = [ucast w]"
| "append_arg (I64_const_t w) = [w]"
| "append_arg (F32_const_t w) = [ucast w]"
| "append_arg (F64_const_t w) = [w]"
| "append_arg (V128_const_t v) = [ucast (drop_bit 64 v), ucast v]"

definition args_raw :: "const_op list \<Rightarrow> u64 list" where
  "args_raw args = concat (map append_arg args)"

text \<open>Reading a scalar of a given type from a native value; vectors do not get here.\<close>

definition native_operand :: "value_type \<Rightarrow> u64 \<Rightarrow> const_op res" where
  "native_operand ty v = (if ty = t_i32 then Inr (I32_const_t (ucast v)) else if ty = t_i64 then Inr (I64_const_t v)
     else if ty = t_f32 then Inr (F32_const_t (ucast v)) else if ty = t_f64 then Inr (F64_const_t v) else Inl Assertion_failure)"

text \<open>\<open>set_result\<close>, with the accessor of the result's type.\<close>

definition native_result :: "value_type \<Rightarrow> const_op \<Rightarrow> u64 res" where
  "native_result ty el = (if ty = t_i32 then bindE (to_ui32 el) (\<lambda>w. Inr (ucast w)) else if ty = t_i64 then to_ui64 el
     else if ty = t_f32 then bindE (to_fui32 el) (\<lambda>w. Inr (ucast w)) else if ty = t_f64 then to_fui64 el else Inl Assertion_failure)"

section \<open>Calls of host functions\<close>

text \<open>The loop over the parameters: the last argument is at the start of \<open>stack\<close>.\<close>

fun push_native :: "u64 list \<Rightarrow> nat \<Rightarrow> nat \<Rightarrow> value_type list \<Rightarrow> unit exec" where
  "push_native stack num_params i [] = retX ()"
| "push_native stack num_params i (ty # tys) = bindX (liftX (bindE (at_unchecked stack (num_params - i - 1)) (native_operand ty))) (\<lambda>v.
     thenX (push_operand v) (push_native stack num_params (Suc i) tys))"

definition call_host_function :: "host_functions \<Rightarrow> u64 list \<Rightarrow> nat \<Rightarrow> u64 exec" where
  "call_host_function host stack index = withX (\<lambda>x. x) (\<lambda>x. bindX (liftX (get_function_type (x_mod x) index)) (\<lambda>ft.
     thenX (push_native stack (length (param_types ft)) 0 (param_types ft)) (thenX (call_host host index)
     (bindX (if return_count ft \<noteq> 0 then bindX pop_operand (\<lambda>el. liftX (native_result (return_type ft) el)) else retX 0) (\<lambda>result.
       withX operands_size (\<lambda>n. checkX (n = operands_size x) Assertion_failure (retX result)))))))"

section \<open>Calls from the host\<close>

text \<open>The size of the stack that compiled code may need; the doubling is in 32 bits.\<close>

definition get_maximum_stack_size :: "ectx \<Rightarrow> u64" where
  "get_maximum_stack_size x = (if m_stack_limit_is_bytes (x_mod x) then ucast (x_remaining_call_depth x * 2)
     else (m_maximum_stack (x_mod x) + 2) * ucast (x_remaining_call_depth x + 1) * 8)"

type_synonym compiled_code = "nat \<Rightarrow> u64 list \<Rightarrow> bool \<Rightarrow> ectx \<Rightarrow> ((u64 \<times> 128 word) res \<times> ectx) option"

definition native_return :: "func_type \<Rightarrow> u64 \<times> 128 word \<Rightarrow> const_op option res" where
  "native_return ft r = (if return_count ft = 0 then Inr None
     else if return_type ft = t_v128 then Inr (Some (V128_const_t (snd r)))
     else bindE (native_operand (return_type ft) (fst r)) (\<lambda>v. Inr (Some v)))"

text \<open>The scope guard of \<open>execute\<close>, and the exit of a program by an exception, which is a return without result.\<close>

definition jit_leave :: "ectx \<Rightarrow> 'a \<times> ectx \<Rightarrow> 'a \<times> ectx" where
  "jit_leave saved r = (fst r, (snd r)\<lparr>x_os := st_eat (ucast (operands_size saved)) (x_os (snd r))\<rparr>)"

definition jit_finish :: "func_type \<Rightarrow> (u64 \<times> 128 word) res \<Rightarrow> const_op option res" where
  "jit_finish ft r = (case r of Inl e \<Rightarrow> if e = Wasm_exit_exception then Inr None else Inl e | Inr v \<Rightarrow> native_return ft v)"

definition jit_execute :: "host_functions \<Rightarrow> compiled_code \<Rightarrow> nat \<Rightarrow> const_op list \<Rightarrow> ectx \<Rightarrow> (const_op option res \<times> ectx) option" where
  "jit_execute host code fidx args x = (let m = x_mod x in
     map_option (jit_leave x)
     (case bindX (liftX (get_function_type m fidx)) (\<lambda>ft. thenX (type_check_args ft args) (retX ft)) x of
        (Inl e, x) \<Rightarrow> Some (Inl e, x)
      | (Inr ft, x) \<Rightarrow> map_option (\<lambda>(r, x). (jit_finish ft r, x))
          (if fidx < get_imported_functions_size m
           then Some (bindX (call_host_function host (rev (args_raw args)) fidx) (\<lambda>v. retX (v, 0)) x)
           else code (fidx - get_imported_functions_size m) (args_raw args) (return_type ft = t_v128) x)))"

definition jit_reset :: "bool \<Rightarrow> unit exec" where
  "jit_reset ok = thenX (reset_base ok) (eat_operands 0)"

section \<open>Backtraces\<close>

text \<open>
  \<open>backtrace\<close>: the return addresses of the frames between the bottom and the top frame.  \<open>word_at\<close> and \<open>byte_at\<close> read memory;
  \<open>interrupted\<close> is the instruction, frame and stack pointer of an interrupted program, and \<open>here\<close> the current frame.
\<close>

primrec walk_frames :: "(u64 \<Rightarrow> u64) \<Rightarrow> u64 \<Rightarrow> nat \<Rightarrow> u64 \<Rightarrow> u64 list" where
  "walk_frames word_at stop 0 rbp = []"
| "walk_frames word_at stop (Suc n) rbp = (if rbp = stop then [] else word_at (rbp + 8) # walk_frames word_at stop n (word_at rbp))"

text \<open>In a prologue or epilogue the frame of the caller is not at the frame pointer.\<close>

definition caller_frame :: "(u64 \<Rightarrow> u64) \<Rightarrow> (u64 \<Rightarrow> u8) \<Rightarrow> u64 \<Rightarrow> u64 \<Rightarrow> u64 list" where
  "caller_frame word_at byte_at rip rsp =
     (if byte_at rip = 0x55 then (if rip \<noteq> word_at rsp then [word_at rsp] else [])
      else if byte_at rip = 0x48 \<and> byte_at (rip + 1) = 0x89 \<and> (byte_at (rip + 2) = 0xe5 \<or> byte_at (rip + 2) = 0x27)
      then (if rip - 1 \<noteq> word_at (rsp + 8) then [word_at (rsp + 8)] else [])
      else if byte_at rip = 0xc3 then [word_at rsp] else [])"

definition jit_backtrace :: "(u64 \<Rightarrow> u64) \<Rightarrow> (u64 \<Rightarrow> u8) \<Rightarrow> u64 \<times> u64 \<Rightarrow> u64 option \<Rightarrow> u64 option \<Rightarrow> (u64 \<times> u64 \<times> u64) option \<Rightarrow> u64 \<Rightarrow> nat \<Rightarrow> u64 list" where
  "jit_backtrace word_at byte_at code top_frame bottom_frame interrupted here count = (case top_frame of None \<Rightarrow> [] | Some stop \<Rightarrow>
     (case bottom_frame of Some rbp \<Rightarrow> walk_frames word_at stop count rbp
      | None \<Rightarrow> if count = 0 then [] else (case interrupted of None \<Rightarrow> walk_frames word_at stop count here
          | Some (rip, rbp, rsp) \<Rightarrow> let out = rip # (if fst code \<le> rip \<and> rip < fst code + snd code \<and> count > 1 then caller_frame word_at byte_at rip rsp else []) in
              out @ walk_frames word_at stop (count - length out) rbp)))"

lemma walk_frames_length: "length (walk_frames word_at stop n rbp) \<le> n"
  by (induction n arbitrary: rbp) auto

text \<open>The buffer of \<open>count\<close> addresses is never exceeded.\<close>

lemma backtrace_fits: "length (jit_backtrace word_at byte_at code t b i here count) \<le> count"
proof -
  have c: "length (caller_frame word_at byte_at rip rsp) \<le> 1" for rip rsp by (simp add: caller_frame_def)
  have app: "length (out @ walk_frames word_at stop (count - length out) rbp) \<le> count" if "length out \<le> count" for out stop rbp
    using that walk_frames_length[of word_at stop "count - length out" rbp] by simp
  have one: "length ([a] @ walk_frames word_at stop (count - Suc 0) rbp) \<le> count" if "0 < count" for a stop rbp
    using app[of "[a]"] that by simp
  have two: "length ((a # caller_frame word_at byte_at a rsp) @ walk_frames word_at stop (count - Suc (length (caller_frame word_at byte_at a rsp))) rbp) \<le> count"
    if "Suc 0 < count" for a rsp stop rbp
    using app[of "a # caller_frame word_at byte_at a rsp" stop rbp] c[of a rsp] that by simp
  show ?thesis unfolding jit_backtrace_def Let_def
    by (auto simp del: length_append append_Cons split: option.splits intro!: walk_frames_length one two)
qed

section \<open>Room on the stack\<close>

text \<open>
  Compiled code that needs \<open>sz\<close> bytes gets them: it runs either on a mapping of its own with four megabytes to spare,
  or on the current stack, of which that much is left.
\<close>

lemma sm_enter_room:
  assumes "sm_enter pagesize mapped p sz m = Inr (alt_stack, m')" and "pagesize = 2 ^ k" and "k < 31" and "unat sz < 2 ^ 62"
  shows "(case alt_stack of Some (_, n) \<Rightarrow> unat sz + 4 * 1024 * 1024 \<le> unat n \<and> sm_size m' = sz | None \<Rightarrow> sz \<le> p - sm_base m')"
proof (cases alt_stack)
  case None
  with assms(1) show ?thesis by (auto simp: sm_enter_def sa_new_def sa_top_def Let_def res_simps not_less word_gt_0 split: if_splits option.splits)
next
  case (Some b)
  have "(2 :: nat) ^ k \<le> 2 ^ 30" using assms(3) by (intro power_increasing) simp_all
  then have small: "unat sz + 2 ^ k \<le> 2 ^ 64" "unat sz + 2 ^ k < 2 ^ 63" using assms(4) by simp_all
  let ?r = "align_offset pagesize sz"
  have r: "unat ?r = round_up (2 ^ k) (unat sz)" using unat_align_offset[OF assms(2) _ small(1)] assms(3) by (simp add: round_up_def)
  have "round_up (2 ^ k) (unat sz) \<le> unat sz + 2 ^ k - 1" unfolding round_up_def by simp
  then have "unat (?r + 4 * 1024 * 1024) = unat ?r + 4 * 1024 * 1024" using r small(2) by (simp add: unat_word_ariths)
  moreover have "unat sz \<le> unat ?r" using r round_up_ge[of "2 ^ k" "unat sz"] by simp
  ultimately show ?thesis using assms(1) Some
    by (auto simp: sm_enter_def sa_new_def sa_top_def Let_def res_simps align_offset_def split: if_splits option.splits)
qed

section \<open>Arguments\<close>

lemma ucast_back [simp]: "ucast (ucast (w :: u32) :: u64) = w"
  by (rule bit_word_eqI) (simp add: bit_unsigned_iff)

lemma ucast_small: "w < 2 ^ 32 \<Longrightarrow> ucast (ucast w :: u32) = w" for w :: u64
proof (rule word_unat_eq_iff [THEN iffD2])
  assume "w < 2 ^ 32"
  then have "unat w < 2 ^ 32" by (simp add: word_less_nat_alt)
  then show "unat (ucast (ucast w :: u32) :: u64) = unat w" by (simp add: unat_ucast_up unsigned_ucast_eq unsigned_take_bit_eq take_bit_nat_eq_self)
qed

lemma bindX_lift: "bindX (liftX (Inr a)) f = f a"
  by (simp add: fun_eq_iff bindX_def liftX_def)

lemma native_operand_arg: "op_type a \<noteq> t_v128 \<Longrightarrow> append_arg a = [w] \<Longrightarrow> native_operand (op_type a) w = Inr a"
  by (cases a) (auto simp: native_operand_def)

lemma append_scalar: "op_type a \<noteq> t_v128 \<Longrightarrow> \<exists>w. append_arg a = [w]"
  by (cases a) auto

lemma args_raw_scalars:
  "t_v128 \<notin> op_type ` set args \<Longrightarrow> length (args_raw args) = length args \<and> (\<forall>i < length args. append_arg (args ! i) = [args_raw args ! i])"
proof (induction args)
  case (Cons a args)
  then obtain w where "append_arg a = [w]" using append_scalar[of a] by auto
  with Cons show ?case by (auto simp: args_raw_def nth_Cons split: nat.splits)
qed (simp add: args_raw_def)

text \<open>The operands that the loop over the native values pushes are the arguments.\<close>

lemma push_native_args:
  assumes "t_v128 \<notin> op_type ` set args" and "args = pre @ rest"
  shows "push_native (rev (args_raw args)) (length args) (length pre) (map op_type rest) = push_args rest"
  using assms(2)
proof (induction rest arbitrary: pre)
  case (Cons a rest)
  note raw = args_raw_scalars[OF assms(1)]
  let ?i = "length pre"
  have i: "?i < length args" "args ! ?i = a" "a \<in> set args" using Cons.prems by auto
  then have "rev (args_raw args) ! (length args - ?i - 1) = args_raw args ! ?i" using raw by (simp add: rev_nth)
  moreover have "native_operand (op_type a) (args_raw args ! ?i) = Inr a"
    by (rule native_operand_arg) (use raw i assms(1) in auto)
  ultimately have "bindE (at_unchecked (rev (args_raw args)) (length args - ?i - 1)) (native_operand (op_type a)) = Inr a"
    using i raw by (simp add: at_unchecked_def)
  moreover have "push_native (rev (args_raw args)) (length args) (Suc ?i) (map op_type rest) = push_args rest"
    using Cons.IH[of "pre @ [a]"] Cons.prems by simp
  ultimately show ?case by (simp add: bindX_lift del: One_nat_def)
qed simp

lemma native_result_back:
  "op_type el = ty \<Longrightarrow> ty \<noteq> t_v128 \<Longrightarrow> \<exists>w. native_result ty el = Inr w \<and> native_operand ty w = Inr el"
  by (cases el) (auto simp: native_result_def native_operand_def)

section \<open>Calls of host functions agree with the interpreter\<close>

text \<open>What a host function does that returns: it takes its arguments from the operand stack and leaves its result there.\<close>

definition host_returns :: "host_functions \<Rightarrow> nat \<Rightarrow> func_type \<Rightarrow> bool" where
  "host_returns host i ft \<longleftrightarrow> (\<forall>al os al' os'. host i (al, os) = (Inr (), al', os') \<longrightarrow>
     st_size os' = st_size os - of_nat (length (param_types ft)) + (if return_count ft \<noteq> 0 then 1 else 0) \<and>
     (\<forall>el os''. return_count ft \<noteq> 0 \<longrightarrow> st_pop os' = Inr (el, os'') \<longrightarrow> op_type el = return_type ft))"

fun pushes :: "const_op list \<Rightarrow> const_op vstack \<Rightarrow> const_op vstack res" where
  "pushes [] os = Inr os"
| "pushes (a # as) os = bindE (st_push new_operand a os) (pushes as)"

lemma okX_push_args: "okX (push_args as) x Q \<longleftrightarrow> (\<exists>os. pushes as (x_os x) = Inr os \<and> Q () (x\<lparr>x_os := os\<rparr>))"
  by (induction as arbitrary: x) (auto simp: push_operand_def okX_lift_iff bindE_eq_Inr_iff)

lemma pushes_size: "pushes as os = Inr os' \<Longrightarrow> st_size os' = st_size os + of_nat (length as)"
  by (induction as arbitrary: os) (fastforce simp: st_push_def st_size_def Let_def bindE_eq_Inr_iff)+

lemma okX_call_host: "okX (call_host host i) x Q \<longleftrightarrow> (\<exists>al os. host i (x_alloc x, x_os x) = (Inr (), al, os) \<and> Q () (x\<lparr>x_alloc := al, x_os := os\<rparr>))"
  by (auto simp: okX_def call_host_def split: prod.splits)

lemma okX_pop: "okX pop_operand x Q \<longleftrightarrow> (\<exists>e os. st_pop (x_os x) = Inr (e, os) \<and> Q e (x\<lparr>x_os := os\<rparr>))"
  by (auto simp: pop_operand_def okX_lift_iff)

lemma st_pop_size: "st_pop os = Inr (e, os') \<Longrightarrow> st_size os' = st_size os - 1"
  by (auto simp: st_pop_def st_size_def Let_def bindE_eq_Inr_iff)

text \<open>A run of the interpreter's \<open>execute\<close> on an imported function, down to the operand stack.\<close>

lemma execute_host_inv:
  assumes "execute env fuel fi args x = Some (Inr v, x')" and "unat fi < get_imported_functions_size (x_mod x)"
    and "get_function_type (x_mod x) (unat fi) = Inr ft" and "\<not> x_exiting x"
  obtains os al os' where "map op_type args = param_types ft" "pushes args (x_os x) = Inr os" "iv_host env (unat fi) (x_alloc x, os) = (Inr (), al, os')"
    "if return_count ft \<noteq> 0 then \<exists>el os''. st_pop os' = Inr (el, os'') \<and> v = Some el else v = None"
proof -
  let ?x = "x\<lparr>x_as_index := ucast (st_size (x_as x)), x_os_index := ucast (operands_size x)\<rparr>" and ?i = "unat fi"
  have "okX (enter_function ?i args) ?x (\<lambda>_ x2. okX (thenX (call_host (iv_host env) ?i) (execute_result ?i)) x2 (\<lambda>a _. a = v))"
    using assms(1,2) unfolding execute_def okX_def by (auto simp: Let_def split: if_splits sum.splits prod.splits)
  then have "map op_type args = param_types ft \<and> (\<exists>os. pushes args (x_os x) = Inr os \<and> (\<exists>al os'. iv_host env ?i (x_alloc x, os) = (Inr (), al, os') \<and>
      (if return_count ft \<noteq> 0 then \<exists>el os''. st_pop os' = Inr (el, os'') \<and> v = Some el else v = None)))"
    using assms(3,4)
    by (auto simp: enter_function_def type_check_args_def okX_push_args push_call_def okX_lift_iff okX_call_host push_frame_def execute_result_def okX_pop Let_def
        split: if_splits)
  then show ?thesis using that by blast
qed

lemma native_return_back:
  assumes "return_count ft \<noteq> 0" and "op_type el = return_type ft" and "return_type ft \<noteq> t_v128"
  obtains w where "native_result (return_type ft) el = Inr w" and "native_return ft (w, z) = Inr (Some el)"
  using native_result_back[OF assms(2,3)] assms(1,3) by (auto simp: native_return_def)

lemma call_host_function_ok:
  assumes "get_function_type (x_mod x) i = Inr ft" and "map op_type args = param_types ft" and "t_v128 \<notin> set (param_types ft)"
    and "pushes args (x_os x) = Inr os" and "host i (x_alloc x, os) = (Inr (), al, os')" and "host_returns host i ft"
    and "if return_count ft \<noteq> 0 then \<exists>el os''. st_pop os' = Inr (el, os'') \<and> v = Some el else v = None"
    and "return_count ft \<noteq> 0 \<Longrightarrow> return_type ft \<noteq> t_v128"
  shows "okX (call_host_function host (rev (args_raw args)) i) x (\<lambda>w _. native_return ft (w, z) = Inr v)"
proof -
  have len: "length args = length (param_types ft)" using assms(2) by (metis length_map)
  have "push_native (rev (args_raw args)) (length (param_types ft)) 0 (param_types ft) = push_args args"
    using push_native_args[of args "[]" args] assms(2,3) len by (metis append_Nil list.set_map list.size(3))
  note pushed = this
  have "st_size os = operands_size x + of_nat (length (param_types ft))" using pushes_size[OF assms(4)] len by (simp add: operands_size_def)
  then have sz: "st_size os' = operands_size x + (if return_count ft \<noteq> 0 then 1 else 0)"
    and ty: "\<And>el os''. return_count ft \<noteq> 0 \<Longrightarrow> st_pop os' = Inr (el, os'') \<Longrightarrow> op_type el = return_type ft"
    using assms(6)[unfolded host_returns_def, rule_format, OF assms(5)] by auto
  show ?thesis
  proof (cases "return_count ft \<noteq> 0")
    case False
    with assms sz show ?thesis by (simp add: call_host_function_def pushed okX_push_args okX_call_host operands_size_def native_return_def)
  next
    case True
    with assms(7) obtain el os'' where el: "st_pop os' = Inr (el, os'')" "v = Some el" by auto
    from True ty[OF True el(1)] assms(8)[OF True] obtain w where w: "native_result (return_type ft) el = Inr w" "native_return ft (w, z) = Inr (Some el)"
      by (rule native_return_back)
    have "st_size os'' = operands_size x" using st_pop_size[OF el(1)] sz True by simp
    with True assms(1,4,5) el w show ?thesis
      by (simp add: call_host_function_def pushed okX_push_args okX_call_host okX_pop operands_size_def)
  qed
qed

text \<open>
  C14: A host function called through the context for compiled code gets the operands and gives the result that it gets and gives
  through the interpreter's: if the interpreter's \<open>execute\<close> returns from an imported function, so does
  \<open>execute\<close> of the other context, with the same result, although it lays the arguments out as native values, reverses
  them and reads them back by their types; and the operand stack has its old size again.  Parameters and
  result are scalars: \<open>call_host_function\<close> has no case for vectors.
\<close>

theorem jit_host_call_agrees:
  assumes "execute env fuel fi args x = Some (Inr v, x')" and "unat fi < get_imported_functions_size (x_mod x)"
    and "get_function_type (x_mod x) (unat fi) = Inr ft" and "t_v128 \<notin> set (param_types ft)" and "return_type ft \<noteq> t_v128"
    and "host_returns (iv_host env) (unat fi) ft" and "\<not> x_exiting x" and "operands_size x < 2 ^ 32"
  shows "\<exists>y. jit_execute (iv_host env) code (unat fi) args x = Some (Inr v, y) \<and> operands_size y = operands_size x"
proof -
  obtain os al os' where h: "map op_type args = param_types ft" "pushes args (x_os x) = Inr os" "iv_host env (unat fi) (x_alloc x, os) = (Inr (), al, os')"
    "if return_count ft \<noteq> 0 then \<exists>el os''. st_pop os' = Inr (el, os'') \<and> v = Some el else v = None"
    using execute_host_inv[OF assms(1-3,7)] by metis
  have "okX (call_host_function (iv_host env) (rev (args_raw args)) (unat fi)) x (\<lambda>w _. native_return ft (w, 0) = Inr v)"
    by (rule call_host_function_ok[OF assms(3) h(1) assms(4) h(2,3) assms(6) h(4)]) (use assms(5) in simp)
  then obtain w y where w: "call_host_function (iv_host env) (rev (args_raw args)) (unat fi) x = (Inr w, y)" "native_return ft (w, 0) = Inr v"
    by (auto simp: okX_def)
  have len: "length args = length (param_types ft)" using h(1) by (metis length_map)
  have "jit_execute (iv_host env) code (unat fi) args x = Some (jit_leave x (Inr v, y))"
    using assms(2,3) h(1) len w
    by (simp add: jit_execute_def bindX_lift type_check_args_def checkX_def bindX_def thenX_def retX_def jit_finish_def liftX_def Let_def)
  moreover have "ucast (ucast (operands_size x) :: u32) = operands_size x" by (rule ucast_small[OF assms(8)])
  ultimately show ?thesis by (simp add: jit_leave_def operands_size_def st_size_def st_eat_def)
qed

text \<open>A module that imports one function of type \<open>(i32) -> i32\<close>, which adds one.\<close>

definition ex_import_type :: func_type where
  "ex_import_type = \<lparr>form = 0x60, param_types = [t_i32], return_count = 1, return_type = t_i32\<rparr>"

definition ex_import_module :: vm_module where
  "ex_import_module = empty_module\<lparr>m_types := [ex_import_type],
     m_imports := [\<lparr>module_str = [], import_field_str = [], import_kind = Function, import_func_t = 0\<rparr>]\<rparr>"

definition ex_successor :: host_functions where
  "ex_successor _ s = (case s of (al, os) \<Rightarrow> (case st_pop os of
      Inr (I32_const_t w, os1) \<Rightarrow> (case st_push new_operand (I32_const_t (w + 1)) os1 of Inr os2 \<Rightarrow> (Inr (), al, os2) | Inl e \<Rightarrow> (Inl e, al, os1))
    | _ \<Rightarrow> (Inl Wasm_interpreter_exception, al, os)))"

lemma ex_successor_returns: "host_returns ex_successor i ex_import_type"
  unfolding host_returns_def
proof (intro allI impI)
  fix al os al' os' assume "ex_successor i (al, os) = (Inr (), al', os')"
  then obtain w os1 where o: "st_pop os = Inr (I32_const_t w, os1)" "st_push new_operand (I32_const_t (w + 1)) os1 = Inr os'"
    by (auto simp: ex_successor_def split: sum.splits prod.splits const_op.splits)
  have "st_size os' = st_size os1 + 1" using o(2) by (auto simp: st_push_def st_size_def Let_def bindE_eq_Inr_iff)
  moreover have "st_pop os' = Inr (el, os'') \<Longrightarrow> el = I32_const_t (w + 1)" for el os''
    using o(2) by (auto simp: st_push_def st_pop_def Let_def bindE_eq_Inr_iff at_unchecked_def split: if_splits)
  ultimately show "st_size os' = st_size os - of_nat (length (param_types ex_import_type)) + (if return_count ex_import_type \<noteq> 0 then 1 else 0) \<and>
      (\<forall>el os''. return_count ex_import_type \<noteq> 0 \<longrightarrow> st_pop os' = Inr (el, os'') \<longrightarrow> op_type el = return_type ex_import_type)"
    using st_pop_size[OF o(1)] by (auto simp: ex_import_type_def)
qed

lemma ex_import_run: "map_option fst (execute (ex_ienv\<lparr>iv_host := ex_successor\<rparr>) 0 0 [I32_const_t 41] ((ex_ctx [] [])\<lparr>x_mod := ex_import_module\<rparr>)) =
    Some (Inr (Some (I32_const_t 42)))"
  by code_simp

theorem jit_host_call_agrees_witness:
  "\<exists>y. jit_execute ex_successor (\<lambda>_ _ _ _. None) 0 [I32_const_t 41] ((ex_ctx [] [])\<lparr>x_mod := ex_import_module\<rparr>) = Some (Inr (Some (I32_const_t 42)), y) \<and> operands_size y = 0"
proof -
  let ?x = "(ex_ctx [] [])\<lparr>x_mod := ex_import_module\<rparr>" and ?env = "ex_ienv\<lparr>iv_host := ex_successor\<rparr>"
  obtain x' where r: "execute ?env 0 0 [I32_const_t 41] ?x = Some (Inr (Some (I32_const_t 42)), x')" using ex_import_run by auto
  have "unat (0 :: u32) < get_imported_functions_size (x_mod ?x)" "get_function_type (x_mod ?x) (unat (0 :: u32)) = Inr ex_import_type"
    by (simp_all add: ex_import_module_def get_imported_functions_size_def get_function_type_def at_unchecked_def)
  moreover have "t_v128 \<notin> set (param_types ex_import_type)" "return_type ex_import_type \<noteq> t_v128" by (simp_all add: ex_import_type_def)
  moreover have "host_returns (iv_host ?env) (unat (0 :: u32)) ex_import_type" by (simp add: ex_successor_returns)
  moreover have "\<not> x_exiting ?x" "operands_size ?x < 2 ^ 32" "operands_size ?x = 0" by (simp_all add: ex_ctx_def operands_size_def st_size_def)
  ultimately show ?thesis using jit_host_call_agrees[OF r, of ex_import_type "\<lambda>_ _ _ _. None"] by simp
qed

end
