(* ===== verification/Spec2Isabelle.thy ===== *)
theory Spec2Isabelle
  imports Vm_Module Vm_Reset Vm_Softfloat_Props Vm_Simd_Props Vm_Step_Types Vm_Jit_Props Vm_Jit_Alloc Vm_Jit_Context
begin

text \<open>
  A verification of eos-vm, a WebAssembly virtual machine written as a C++ header library.  Source paths
  below are relative to \<^verbatim>\<open>src/include/eosio/vm\<close>.

  \<^bold>\<open>The program and its model.\<close>  The bytes of a module are read through a bounds-checked cursor
  (\<^verbatim>\<open>guarded_ptr.hpp\<close>), split into sections and entries (\<^verbatim>\<open>parser.hpp\<close>), and every function body is
  validated against a stack of types and at the same time translated by a code writer
  (\<^verbatim>\<open>bitcode_writer.hpp\<close>) into an array of fixed-size opcodes in the memory of an allocator
  (\<^verbatim>\<open>allocator.hpp\<close>).  An execution context (\<^verbatim>\<open>execution_context.hpp\<close>) instantiates the module and runs the
  opcodes with the interpreter's visitor (\<^verbatim>\<open>interpret_visitor.hpp\<close>).  Instead of the bitcode writer the parser may be
  given the JIT compiler (\<open>machine_code_writer\<close> of \<^verbatim>\<open>x86_64.hpp\<close>), which has the same operations and writes machine code.

  \<^item> \<open>Vm_Prelude\<close>: exceptions (\<^verbatim>\<open>exceptions.hpp\<close>) as a sum type with a value \<open>Undefined_behaviour\<close> for what
    C++ leaves undefined (an unchecked index out of range, a read outside the buffer), its bind \<open>bindE\<close>,
    words and little-endian byte strings.
  \<^item> \<open>Vm_Guarded_Ptr\<close>: the cursor (\<open>gptr\<close>) with its scope guards, and the locale of a parsing function that
    only moves forward within its bounds.
  \<^item> \<open>Vm_Leb128\<close>: reading, writing and converting variable-length integers (\<^verbatim>\<open>leb128.hpp\<close>).
  \<^item> \<open>Vm_Types\<close>: records of the module and its entries and the queries of \<open>module\<close> (\<^verbatim>\<open>types.hpp\<close>,
    \<^verbatim>\<open>constants.hpp\<close>, \<^verbatim>\<open>options.hpp\<close>).
  \<^item> \<open>Vm_Tracker\<close>: \<open>operand_stack_type_tracker\<close>, \<open>local_types_t\<close> and the limit checkers of \<^verbatim>\<open>parser.hpp\<close>.
  \<^item> \<open>Vm_Opcodes\<close>: the opcode variants and the rows of the macro lists (\<^verbatim>\<open>opcodes_def.hpp\<close>, \<^verbatim>\<open>opcodes.hpp\<close>).
  \<^item> \<open>Vm_Alloc\<close>: \<open>bounded_allocator\<close>, \<open>growable_allocator\<close> and \<open>wasm_allocator\<close>.
  \<^item> \<open>Vm_Writer\<close>: the writer's state and operations, its guarded vector, branch addresses and branch tables.
  \<^item> \<open>Vm_Raw\<close>: fixed-size reads and the validation of UTF-8 names.
  \<^item> \<open>Vm_Code_Parser\<close>: \<open>parse_function_body_code\<close> with every case of its switch, and \<open>write_code_out\<close>.
  \<^item> \<open>Vm_Sections\<close>: the entries of every section, the section loop, \<open>normalize_types\<close>, \<open>validate_exports\<close>,
    \<open>parse_module\<close>.
  \<^item> \<open>Vm_Stack\<close>: the operand and call stacks (\<^verbatim>\<open>wasm_stack.hpp\<close>, \<^verbatim>\<open>stack_elem.hpp\<close>).
  \<^item> \<open>Vm_Int_Ops\<close>: the integer instructions as functions of words; the operators \<open>/\<close> and \<open>%\<close> of C++ and the built-ins that
    count zeros are undefined on the operands that the instructions guard against.
  \<^item> \<open>Vm_Softfloat\<close>: the wrappers of \<^verbatim>\<open>softfloat.hpp\<close> as functions of bit patterns and of the softfloat library.
  \<^item> \<open>Vm_Simd\<close>: every vector instruction as a function of 128-bit words, by lanes.
  \<^item> \<open>Vm_Exec\<close>: the context as the record \<open>ectx\<close>, its methods as functions that return a result and a
    context also when they throw.
  \<^item> \<open>Vm_Interp\<close>: one case of \<open>step\<close> per group of overloads of the visitor, the dispatch loop \<open>run\<close>, and
    \<open>execute\<close> with its scope guard.
  \<^item> \<open>Vm_Jit_Asm\<close>, \<open>Vm_Jit_Ops\<close>, \<open>Vm_Jit_Code\<close>: the assembler of the JIT compiler: operands, the bytes of an instruction and the
    tables of opcodes; the compiler's state \<open>jit\<close>, what a build decides (\<open>jit_env\<close>), emitters as functions of both, the recorded
    operations that are folded into later ones, branches that are patched.
  \<^item> \<open>Vm_Jit_Shapes\<close>, \<open>Vm_Jit_Emit\<close>, \<open>Vm_Jit_Int\<close>, \<open>Vm_Jit_Float\<close>, \<open>Vm_Jit_Simd\<close>: one definition for every \<open>emit_\<close> function, and the
    sequences they share; \<open>Vm_Jit_Dispatch\<close>: which of them the parser calls for an instruction.
  \<^item> \<open>Vm_Jit_Table\<close>, \<open>Vm_Jit_Function\<close>, \<open>Vm_Jit_Module\<close>: the parser's calls to the compiler for a branch table, a function and a module.
  \<^item> \<open>Vm_Jit_Alloc\<close>: \<open>jit_allocator\<close>, the memory that finished code is copied to, and \<open>end_code<true>\<close>.
  \<^item> \<open>Vm_Jit_Context\<close>: \<open>jit_execution_context\<close>, with the compiled code as a parameter: native values, calls of host functions and
    from the host, \<open>stack_manager\<close>, backtraces.

  \<^bold>\<open>What is shown.\<close>
  \<^item> Parsing (\<open>Vm_Module\<close>): \<open>parse_module\<close> on arbitrary bytes has no undefined behaviour, its loop over the
    sections ends, and a module it accepts is well formed; exports are distinct; comparing aliased type
    indices is comparing types.  \<open>Vm_Leb128\<close> has round trips, \<open>Vm_Raw\<close> exactness of the UTF-8 check.
  \<^item> Code generation (\<open>Vm_Code_Safety\<close>, \<open>Vm_Code_Gen\<close>): the instruction loop ends, translates any bytes
    without undefined behaviour, and lays the functions out contiguously with every branch inside its
    own function.
  \<^item> Execution (\<open>Vm_Exec_Logic\<close> has the rules; \<open>Vm_Interp_Props\<close>, \<open>Vm_Call_Props\<close>, \<open>Vm_Reset\<close> the
    properties): loads, stores, bulk copies and memory growth with their traps, branches, calls and
    returns, what \<open>execute\<close> restores on every way out, and the instance that \<open>reset\<close> builds.
  \<^item> Numbers: the integer instructions (\<open>Vm_Int_Ops\<close>); rounding, minimum and maximum and the conversions of
    floating point by the values of the operands (\<open>Vm_Softfloat_Props\<close>, under named hypotheses on the library);
    saturation, widening multiplication and tests of vectors by the integers in their lanes
    (\<open>Vm_Simd_Props\<close>).  \<open>Vm_Step_Types\<close>: the types that validation gives to numeric and vector instructions are
    the types of the interpreter's operations.
  \<^item> Data structures: the stack refines a list (\<open>Vm_Stack\<close>), the table of local types refines indexing
    (\<open>Vm_Tracker\<close>), the allocators hand out aligned memory inside their bounds (\<open>Vm_Alloc\<close>).
  \<^item> The JIT compiler: every emitter writes at most the number of bytes its scope asserts or that the estimate of the
    size of a function allows for the bytes of the instruction (\<open>Vm_Jit_Fits\<close> has the notions and rules, \<open>Vm_Jit_Sizes\<close>, \<open>Vm_Jit_Actions\<close>,
    \<open>Vm_Jit_Control\<close> and \<open>Vm_Jit_Table\<close> the emitters), so that compiling a module stays inside its buffers; a
    decoder written from the format of instructions, with its legacy prefixes, reads back what was encoded (\<open>Vm_Jit_Decode\<close>); locals have
    disjoint slots (\<open>Vm_Jit_Frame\<close>); patched branches reach their targets, and the binary search of a branch table finds the
    case of every operand and leaves on the machine stack what its label keeps (\<open>Vm_Jit_Search\<close>, which has a processor for the few
    instructions that unwind the stack).  \<open>Vm_Jit_Props\<close> states these properties.
    In every state the allocator of executable memory can be in, its blocks are disjoint and make up its segments
    (\<open>Vm_Jit_Alloc\<close>).  Calls of host functions through the context for compiled code agree with the interpreter's
    (\<open>Vm_Jit_Context\<close>).

  Interfaces are locales: a parsing function in \<open>Vm_Guarded_Ptr\<close>, the readers of variable-length integers in \<open>Vm_Leb128\<close>,
  the stack in \<open>Vm_Stack\<close>, an emitter of
  branches in \<open>Vm_Writer\<close>, a floating-point format in \<open>Vm_Softfloat_Props\<close>, an accessor of operands in
  \<open>Vm_Step_Types\<close>; they are interpreted on the definitions of the model.

  \<^bold>\<open>Bounds.\<close>  The instruction loop takes fuel, the number of bytes of the body; the section loop takes one
  more than the bytes of the module; both are shown to be enough.  A wasm program may run for ever, so
  \<open>run\<close> returns \<open>None\<close> when its instructions run out, and a statement that a loop finishes names a
  number of instructions that is enough.  For a byte of a function body the compiler reserves 49 bytes of code with software
  floating point; an instruction of \<open>n\<close> bytes never takes more than \<open>49 n\<close>, a case of a branch table at most 33, prologue
  and epilogue what \<open>max_prologue_size\<close> and \<open>max_epilogue_size\<close> say.

  \<^bold>\<open>Parameters.\<close>  Host functions and the Berkeley softfloat library (the record \<open>softfloat\<close>), which lies outside of
  the repository, are fields of \<open>interp_env\<close>; whether \<open>mprotect\<close> and \<open>mmap\<close> succeed is an argument.  The model is of the
  build with \<open>EOS_VM_SOFTFLOAT\<close>.

  \<^bold>\<open>Not modelled.\<close>  What the processor does with generated code, beyond the reading of instructions and branches and the unwinding of the stack in branch tables.  Assertions of the compiler are modelled as checked.  Signals, \<open>setjmp\<close> and threads
  (\<^verbatim>\<open>signals.hpp\<close>, \<^verbatim>\<open>watchdog.hpp\<close>): a fault is the exception it is turned into, and a store that faults writes nothing;
  host function templates; debug info, profiling and disassembly; exhaustion of the C++ heap;
  wrap-around of counts of functions beyond \<open>2^32\<close>; \<open>module::error\<close>, which no code sets.
\<close>

end
